(* ===== verification/Bnb_Prelude.thy ===== *)
theory Bnb_Prelude
  imports Main "HOL-Library.List_Lexorder" "HOL-Library.Char_ord"
begin

text \<open>
  Shared vocabulary of the development: results of fallible code, the character and string
  functions of the JavaScript runtime that the packages use, and decimal integers.

  Strings are lists of characters. A JavaScript string is a sequence of UTF-16 code units; the
  model covers the strings whose code units are below 256 (Latin-1), which contains every
  identifier, address, hash and decimal the packages compare.
  Numbers are mathematical integers: every number the modelled code computes with is an integer
  of absolute value at most \<open>2 ^ 53\<close>, where a JavaScript number is exact, or a bigint.
\<close>

named_theorems result_simps \<open>rewriting of results of fallible code\<close>
named_theorems text_intros \<open>closure facts about characters and strings\<close>

section \<open>Results\<close>

text \<open>\<open>Inl\<close> is a thrown error, \<open>Inr\<close> a returned value. \<open>bindE m f\<close> runs \<open>f\<close> after \<open>m\<close> returned.\<close>

definition bindE :: "'e + 'a \<Rightarrow> ('a \<Rightarrow> 'e + 'b) \<Rightarrow> 'e + 'b" where
  "bindE m f = (case m of Inl e \<Rightarrow> Inl e | Inr x \<Rightarrow> f x)"

definition is_ok :: "'e + 'a \<Rightarrow> bool" where
  "is_ok m = (case m of Inl _ \<Rightarrow> False | Inr _ \<Rightarrow> True)"

fun mapE :: "('a \<Rightarrow> 'e + 'b) \<Rightarrow> 'a list \<Rightarrow> 'e + 'b list" where
  "mapE f [] = Inr []"
| "mapE f (x # xs) = bindE (f x) (\<lambda>y. bindE (mapE f xs) (\<lambda>ys. Inr (y # ys)))"

lemma bindE_simps [simp]:
  "bindE (Inl e) f = Inl e" "bindE (Inr x) f = f x"
  by (simp_all add: bindE_def)

lemma is_ok_simps [simp]: "\<not> is_ok (Inl e)" "is_ok (Inr x)"
  by (simp_all add: is_ok_def)

lemma bindE_eq_Inr [simp, result_simps]:
  "bindE m f = Inr y \<longleftrightarrow> (\<exists>x. m = Inr x \<and> f x = Inr y)"
  by (cases m) simp_all

lemma Inr_eq_bindE [simp, result_simps]:
  "Inr y = bindE m f \<longleftrightarrow> (\<exists>x. m = Inr x \<and> f x = Inr y)"
  by (cases m) (auto simp: eq_commute)

lemma bindE_eq_Inl [result_simps]:
  "bindE m f = Inl e \<longleftrightarrow> m = Inl e \<or> (\<exists>x. m = Inr x \<and> f x = Inl e)"
  by (cases m) simp_all

lemma if_Inl_eq_Inr [simp, result_simps]:
  "(if b then Inl e else r) = Inr y \<longleftrightarrow> \<not> b \<and> r = Inr y"
  "(if b then r else Inl e) = Inr y \<longleftrightarrow> b \<and> r = Inr y"
  by simp_all

lemma bindE_assoc: "bindE (bindE m f) g = bindE m (\<lambda>x. bindE (f x) g)"
  by (cases m) simp_all

lemma is_ok_iff: "is_ok m \<longleftrightarrow> (\<exists>x. m = Inr x)"
  by (cases m) simp_all

lemma mapE_length: "mapE f xs = Inr ys \<Longrightarrow> length ys = length xs"
  by (induction xs arbitrary: ys) auto

lemma mapE_Inr_iff: "mapE f xs = Inr ys \<longleftrightarrow> list_all2 (\<lambda>x y. f x = Inr y) xs ys"
  by (induction xs arbitrary: ys) (auto simp: list_all2_Cons1)

section \<open>Characters\<close>

definition code :: "char \<Rightarrow> nat" where
  "code c = of_char c"

definition is_digit :: "char \<Rightarrow> bool" where
  "is_digit c \<longleftrightarrow> 48 \<le> code c \<and> code c \<le> 57"

definition is_hex :: "char \<Rightarrow> bool" where
  "is_hex c \<longleftrightarrow> is_digit c \<or> 97 \<le> code c \<and> code c \<le> 102 \<or> 65 \<le> code c \<and> code c \<le> 70"

definition is_alnum :: "char \<Rightarrow> bool" where
  "is_alnum c \<longleftrightarrow> is_digit c \<or> 97 \<le> code c \<and> code c \<le> 122 \<or> 65 \<le> code c \<and> code c \<le> 90"

text \<open>The white space that \<open>String.prototype.trim\<close> removes, below code unit 256.\<close>

definition is_space :: "char \<Rightarrow> bool" where
  "is_space c \<longleftrightarrow> 9 \<le> code c \<and> code c \<le> 13 \<or> code c = 32 \<or> code c = 160"

text \<open>\<open>toLowerCase\<close> on one code unit below 256.\<close>

definition js_lower_char :: "char \<Rightarrow> char" where
  "js_lower_char c = (let n = code c in
     if 65 \<le> n \<and> n \<le> 90 \<or> 192 \<le> n \<and> n \<le> 222 \<and> n \<noteq> 215 then char_of (n + 32) else c)"

abbreviation chr :: "nat \<Rightarrow> char" where
  "chr \<equiv> char_of"

lemma code_lt_256: "code c < 256"
  unfolding code_def using of_char_mod_256 [of c, where ?'a = nat]
  by (metis mod_less_divisor zero_less_numeral)

lemma code_char_of [simp]: "n < 256 \<Longrightarrow> code (char_of n) = n"
  by (simp add: code_def)

lemma code_inj [simp]: "code c = code d \<longleftrightarrow> c = d"
  unfolding code_def by (metis char_of_char)

lemma code_js_lower_char:
  "code (js_lower_char c) = (let n = code c in
     if 65 \<le> n \<and> n \<le> 90 \<or> 192 \<le> n \<and> n \<le> 222 \<and> n \<noteq> 215 then n + 32 else n)"
  using code_lt_256 [of c] by (auto simp: js_lower_char_def Let_def)

lemma js_lower_char_idem [simp]: "js_lower_char (js_lower_char c) = js_lower_char c"
  by (subst code_inj [symmetric]) (simp add: code_js_lower_char Let_def)

definition js_lower :: "string \<Rightarrow> string" where
  "js_lower s = map js_lower_char s"

lemma js_lower_idem [simp]: "js_lower (js_lower s) = js_lower s"
  by (simp add: js_lower_def)

lemma length_js_lower [simp]: "length (js_lower s) = length s"
  by (simp add: js_lower_def)

lemma js_lower_take_drop:
  "js_lower (take n s) = take n (js_lower s)" "js_lower (drop n s) = drop n (js_lower s)"
  by (simp_all add: js_lower_def take_map drop_map)

lemma js_lower_append [simp]: "js_lower (s @ t) = js_lower s @ js_lower t"
  by (simp add: js_lower_def)

lemma is_hex_js_lower [text_intros]: "is_hex c \<Longrightarrow> is_hex (js_lower_char c)"
  by (auto simp: is_hex_def is_digit_def code_js_lower_char Let_def)

lemma is_hex_digit [text_intros]: "is_digit c \<Longrightarrow> is_hex c"
  by (simp add: is_hex_def)

section \<open>Trimming\<close>

definition js_trim :: "string \<Rightarrow> string" where
  "js_trim s = rev (dropWhile is_space (rev (dropWhile is_space s)))"

definition trimmed :: "string \<Rightarrow> bool" where
  "trimmed s \<longleftrightarrow> s = [] \<or> \<not> is_space (hd s) \<and> \<not> is_space (last s)"

lemma js_trim_id: "trimmed s \<Longrightarrow> js_trim s = s"
  unfolding js_trim_def trimmed_def
  by (metis dropWhile_eq_self_iff hd_rev rev.simps(1) rev_rev_ident)

lemma dropWhile_hd: "dropWhile P xs = [] \<or> \<not> P (hd (dropWhile P xs))"
  by (induction xs) auto

lemma trimmed_js_trim: "trimmed (js_trim s)"
proof (cases "js_trim s = []")
  case True
  then show ?thesis by (simp add: trimmed_def)
next
  case False
  define t where "t = dropWhile is_space s"
  define u where "u = dropWhile is_space (rev t)"
  have eq: "js_trim s = rev u" by (simp add: js_trim_def t_def u_def)
  from False have u_ne: "u \<noteq> []" by (simp add: eq)
  have last_ok: "\<not> is_space (last (rev u))"
    using dropWhile_hd [of is_space "rev t"] u_ne unfolding u_def [symmetric]
    by (simp add: last_rev)
  obtain v where v: "rev t = v @ u"
    by (metis u_def takeWhile_dropWhile_id)
  have "t = rev u @ rev v" using v by (metis rev_append rev_rev_ident)
  then have "hd t = hd (rev u)" using u_ne by simp
  moreover have "t \<noteq> []" using u_ne by (auto simp: u_def)
  ultimately have "\<not> is_space (hd (rev u))"
    using dropWhile_hd [of is_space s] by (metis t_def)
  with last_ok show ?thesis by (simp add: trimmed_def eq)
qed

lemma js_trim_idem [simp]: "js_trim (js_trim s) = js_trim s"
  by (rule js_trim_id [OF trimmed_js_trim])

section \<open>Decimal integers\<close>

text \<open>The regular expression \<open>^(0|[1-9][0-9]*)$\<close>.\<close>

definition is_decimal :: "string \<Rightarrow> bool" where
  "is_decimal s \<longleftrightarrow> s = ''0'' \<or>
     (case s of [] \<Rightarrow> False | c # cs \<Rightarrow> is_digit c \<and> c \<noteq> CHR ''0'' \<and> list_all is_digit cs)"

definition digit_val :: "char \<Rightarrow> nat" where
  "digit_val c = code c - 48"

definition digit_char :: "nat \<Rightarrow> char" where
  "digit_char n = char_of (n + 48)"

text \<open>\<open>BigInt(s)\<close> on a string of digits.\<close>

definition dec_val :: "string \<Rightarrow> nat" where
  "dec_val s = foldl (\<lambda>a c. 10 * a + digit_val c) 0 s"

text \<open>\<open>String(n)\<close> and \<open>n.toString(10)\<close> on a non-negative integer.\<close>

fun show_nat :: "nat \<Rightarrow> string" where
  "show_nat n = (if n < 10 then [digit_char n] else show_nat (n div 10) @ [digit_char (n mod 10)])"

declare show_nat.simps [simp del]

definition show_int :: "int \<Rightarrow> string" where
  "show_int i = (if i < 0 then CHR ''-'' # show_nat (nat (- i)) else show_nat (nat i))"

lemma code_digit_char [simp]: "n < 10 \<Longrightarrow> code (digit_char n) = n + 48"
  by (simp add: digit_char_def)

lemma code_zero: "code CHR ''0'' = 48"
  by (simp add: code_def)

lemma is_digit_not_zero: "c \<noteq> CHR ''0'' \<longleftrightarrow> code c \<noteq> 48"
  by (metis code_zero code_inj)

lemma digit_char_facts:
  assumes "n < 10"
  shows "is_digit (digit_char n)" "digit_val (digit_char n) = n"
    "digit_char n = CHR ''0'' \<longleftrightarrow> n = 0"
  using assms is_digit_not_zero [of "digit_char n"]
  by (auto simp: is_digit_def digit_val_def)

lemma is_digit_char: "is_digit c \<Longrightarrow> digit_val c < 10 \<and> digit_char (digit_val c) = c"
  by (auto simp: is_digit_def digit_val_def code_inj [symmetric] simp del: code_inj)

lemma dec_val_snoc [simp]: "dec_val (s @ [c]) = 10 * dec_val s + digit_val c"
  by (simp add: dec_val_def)

lemma dec_val_Nil [simp]: "dec_val [] = 0"
  by (simp add: dec_val_def)

lemma show_nat_digits: "list_all is_digit (show_nat n)"
proof (induction n rule: show_nat.induct)
  case (1 n)
  then show ?case by (subst show_nat.simps) (auto simp: digit_char_facts)
qed

lemma show_nat_not_Nil [simp]: "show_nat n \<noteq> []"
  by (subst show_nat.simps) simp

lemma dec_val_show_nat [simp]: "dec_val (show_nat n) = n"
proof (induction n rule: show_nat.induct)
  case (1 n)
  show ?case
  proof (cases "n < 10")
    case True
    then have "show_nat n = [] @ [digit_char n]" by (subst show_nat.simps) simp
    then show ?thesis using True by (simp only: dec_val_snoc) (simp add: digit_char_facts)
  next
    case False
    then have "dec_val (show_nat n) = 10 * dec_val (show_nat (n div 10)) + n mod 10"
      by (subst show_nat.simps) (simp add: digit_char_facts)
    with 1 False show ?thesis by simp
  qed
qed

lemma show_nat_inj [simp]: "show_nat m = show_nat n \<longleftrightarrow> m = n"
  by (metis dec_val_show_nat)

lemma hd_show_nat: "0 < n \<Longrightarrow> hd (show_nat n) \<noteq> CHR ''0''"
proof (induction n rule: show_nat.induct)
  case (1 n)
  show ?case
  proof (cases "n < 10")
    case True
    then show ?thesis using 1 by (subst show_nat.simps) (simp add: digit_char_facts)
  next
    case False
    with 1 have "hd (show_nat (n div 10)) \<noteq> CHR ''0''" by simp
    with False show ?thesis by (subst show_nat.simps) simp
  qed
qed

lemma is_decimal_show_nat [simp]: "is_decimal (show_nat n)"
proof (cases "n = 0")
  case True
  then show ?thesis
    using digit_char_facts(3) [of 0] by (subst show_nat.simps) (simp add: is_decimal_def)
next
  case False
  with hd_show_nat [of n] show_nat_digits [of n] show ?thesis
    by (cases "show_nat n") (auto simp: is_decimal_def)
qed

lemma is_digit_zero: "is_digit CHR ''0''"
  by (simp add: is_digit_def code_zero)

lemma is_decimal_digits: "is_decimal s \<Longrightarrow> s \<noteq> [] \<and> list_all is_digit s"
  by (auto simp: is_decimal_def is_digit_zero split: list.splits)

lemma is_decimal_snocD:
  assumes "is_decimal (s @ [c])" and "s \<noteq> []"
  shows "is_decimal s" "is_digit c" "s \<noteq> ''0''"
  using assms by (cases s; auto simp: is_decimal_def)+

lemma dec_val_pos: "is_decimal s \<Longrightarrow> s \<noteq> ''0'' \<Longrightarrow> 0 < dec_val s"
proof (induction s rule: rev_induct)
  case Nil
  then show ?case by (simp add: is_decimal_def)
next
  case (snoc c s)
  show ?case
  proof (cases "s = []")
    case True
    with snoc.prems show ?thesis
      using is_digit_not_zero [of c]
      by (auto simp: is_decimal_def dec_val_def digit_val_def is_digit_def)
  next
    case False
    with snoc is_decimal_snocD [OF snoc.prems(1) False] show ?thesis by simp
  qed
qed

lemma show_nat_dec_val [simp]: "is_decimal s \<Longrightarrow> show_nat (dec_val s) = s"
proof (induction s rule: rev_induct)
  case Nil
  then show ?case by (simp add: is_decimal_def)
next
  case (snoc c s)
  show ?case
  proof (cases "s = []")
    case True
    with snoc.prems have d: "is_digit c" by (auto simp: is_decimal_def is_digit_def code_zero)
    have "dec_val (s @ [c]) = digit_val c" using True by (simp only: dec_val_snoc) simp
    with is_digit_char [OF d] True show ?thesis by (subst show_nat.simps) simp
  next
    case False
    note parts = is_decimal_snocD [OF snoc.prems False]
    have dv: "digit_val c < 10" "digit_char (digit_val c) = c"
      using is_digit_char [OF parts(2)] by auto
    have pos: "0 < dec_val s" using parts by (simp add: dec_val_pos)
    have "show_nat (dec_val (s @ [c])) = show_nat (dec_val s) @ [c]"
      using dv pos by (subst show_nat.simps) simp
    with snoc.IH parts(1) show ?thesis by simp
  qed
qed

lemma dec_val_inj: "is_decimal s \<Longrightarrow> is_decimal t \<Longrightarrow> dec_val s = dec_val t \<longleftrightarrow> s = t"
  by (metis show_nat_dec_val)

lemma show_nat_hd_not_minus: "show_nat n \<noteq> CHR ''-'' # s"
  using show_nat_digits [of n] by (auto simp: is_digit_def code_def)

lemma show_int_inj [simp]: "show_int i = show_int j \<longleftrightarrow> i = j"
  using show_nat_hd_not_minus [of "nat i" "show_nat (nat (- j))"]
    show_nat_hd_not_minus [of "nat j" "show_nat (nat (- i))"]
  by (auto simp: show_int_def)

end
