(* ===== verification/Canonical_Json.thy ===== *)
theory Canonical_Json
  imports Bnb_Prelude
begin

text \<open>
  packages/domain/src/canonical.ts: the canonical JSON text of a JavaScript value and its SHA-256
  digest. Every idempotency digest, deployment-pin digest and replay key of the packages is the
  digest of such a text, so the facts here are what makes a digest stand for a value: the text of
  a value determines the value up to the order of object fields.

  The SHA-256 of \<open>node:crypto\<close> is a parameter of the definitions that use it.
\<close>

section \<open>JavaScript values\<close>

text \<open>
  The values \<open>canonicalValue\<close> distinguishes. \<open>JNumber\<close> holds the finite integers;
  \<open>JNegZero\<close> is \<open>-0\<close> and \<open>JNonFinite\<close> stands for NaN and the infinities. An object is the
  list of its own enumerable fields, \<open>JInstance\<close> an object of a class.
\<close>

datatype js_value =
    JNull
  | JUndefined
  | JBool bool
  | JNumber int
  | JNegZero
  | JNonFinite
  | JString string
  | JBigint
  | JFunction
  | JSymbol
  | JArray "js_value list"
  | JObject "(string \<times> js_value) list"
  | JInstance

datatype js_error = TypeError

section \<open>Strings\<close>

definition hex_digit :: "nat \<Rightarrow> char" where
  "hex_digit n = (if n < 10 then chr (n + 48) else chr (n + 87))"

text \<open>\<open>JSON.stringify\<close> on one code unit below 256: \<open>0x22\<close> is the quote, \<open>0x5C\<close> the backslash.\<close>

definition control_escape :: "char \<Rightarrow> string" where
  "control_escape c = [CHR 0x5C, CHR ''u'', CHR ''0'', CHR ''0'',
     hex_digit (code c div 16), hex_digit (code c mod 16)]"

definition escape_char :: "char \<Rightarrow> string" where
  "escape_char c =
    (if c = CHR 0x22 then [CHR 0x5C, CHR 0x22]
     else if c = CHR 0x5C then [CHR 0x5C, CHR 0x5C]
     else if c = CHR 0x08 then [CHR 0x5C, CHR ''b'']
     else if c = CHR 0x09 then [CHR 0x5C, CHR ''t'']
     else if c = CHR 0x0A then [CHR 0x5C, CHR ''n'']
     else if c = CHR 0x0C then [CHR 0x5C, CHR ''f'']
     else if c = CHR 0x0D then [CHR 0x5C, CHR ''r'']
     else if code c < 32 then control_escape c
     else [c])"

definition escapeString :: "string \<Rightarrow> string" where
  "escapeString s = [CHR 0x22] @ concat (map escape_char s) @ [CHR 0x22]"

section \<open>Canonical text\<close>

fun join_with :: "string \<Rightarrow> string list \<Rightarrow> string" where
  "join_with sep [] = []"
| "join_with sep [s] = s"
| "join_with sep (s # t # ts) = s @ sep @ join_with sep (t # ts)"

fun canonicalValue :: "js_value \<Rightarrow> js_error + string"
and canonicalItems :: "js_value list \<Rightarrow> js_error + string list"
and canonicalFields :: "(string \<times> js_value) list \<Rightarrow> js_error + (string \<times> string) list"
where
  "canonicalValue JNull = Inr ''null''"
| "canonicalValue (JString s) = Inr (escapeString s)"
| "canonicalValue (JBool b) = Inr (if b then ''true'' else ''false'')"
| "canonicalValue JNonFinite = Inl TypeError"
| "canonicalValue JNegZero = Inr ''0''"
| "canonicalValue (JNumber i) = Inr (show_int i)"
| "canonicalValue JBigint = Inl TypeError"
| "canonicalValue JFunction = Inl TypeError"
| "canonicalValue JSymbol = Inl TypeError"
| "canonicalValue (JArray vs) =
     bindE (canonicalItems vs) (\<lambda>ts. Inr (''['' @ join_with '','' ts @ '']''))"
| "canonicalValue JInstance = Inl TypeError"
| "canonicalValue (JObject kvs) =
     bindE (canonicalFields kvs) (\<lambda>fs.
       Inr (''{'' @ join_with '','' (map (\<lambda>(k, t). escapeString k @ '':'' @ t) (sort_key fst fs))
            @ ''}''))"
| "canonicalValue JUndefined = Inl TypeError"
| "canonicalItems [] = Inr []"
| "canonicalItems (v # vs) =
     bindE (canonicalValue v) (\<lambda>t. bindE (canonicalItems vs) (\<lambda>ts. Inr (t # ts)))"
| "canonicalFields [] = Inr []"
| "canonicalFields ((k, v) # kvs) =
     (if v = JUndefined then Inl TypeError
      else bindE (canonicalValue v) (\<lambda>t. bindE (canonicalFields kvs) (\<lambda>fs. Inr ((k, t) # fs))))"

definition canonicalizeJson :: "js_value \<Rightarrow> js_error + string" where
  "canonicalizeJson v = canonicalValue v"

definition canonicalSha256Hex :: "(string \<Rightarrow> string) \<Rightarrow> js_value \<Rightarrow> js_error + string" where
  "canonicalSha256Hex sha v = bindE (canonicalizeJson v) (\<lambda>t. Inr (sha t))"

section \<open>Normal forms\<close>

text \<open>
  Two values have the same text when they differ in the order of object fields and in the sign of
  zero only. \<open>json_norm\<close> chooses the value with sorted fields and no \<open>-0\<close>, \<open>json_text\<close> writes such
  a value field by field, and \<open>json_clean\<close> holds of the values that have a text.
\<close>

fun json_norm :: "js_value \<Rightarrow> js_value"
and norm_items :: "js_value list \<Rightarrow> js_value list"
and norm_fields :: "(string \<times> js_value) list \<Rightarrow> (string \<times> js_value) list"
where
  "json_norm JNegZero = JNumber 0"
| "json_norm (JArray vs) = JArray (norm_items vs)"
| "json_norm (JObject kvs) = JObject (sort_key fst (norm_fields kvs))"
| "json_norm v = v"
| "norm_items [] = []"
| "norm_items (v # vs) = json_norm v # norm_items vs"
| "norm_fields [] = []"
| "norm_fields ((k, v) # kvs) = (k, json_norm v) # norm_fields kvs"

fun json_text :: "js_value \<Rightarrow> string"
and text_items :: "js_value list \<Rightarrow> string"
and text_fields :: "(string \<times> js_value) list \<Rightarrow> string"
where
  "json_text JNull = ''null''"
| "json_text (JString s) = escapeString s"
| "json_text (JBool b) = (if b then ''true'' else ''false'')"
| "json_text (JNumber i) = show_int i"
| "json_text (JArray []) = ''[]''"
| "json_text (JArray (v # vs)) = ''['' @ json_text v @ text_items vs"
| "json_text (JObject []) = ''{}''"
| "json_text (JObject ((k, v) # kvs)) = ''{'' @ escapeString k @ '':'' @ json_text v @ text_fields kvs"
| "json_text _ = []"
| "text_items [] = '']''"
| "text_items (v # vs) = '','' @ json_text v @ text_items vs"
| "text_fields [] = ''}''"
| "text_fields ((k, v) # kvs) = '','' @ escapeString k @ '':'' @ json_text v @ text_fields kvs"

fun json_clean :: "js_value \<Rightarrow> bool"
and clean_items :: "js_value list \<Rightarrow> bool"
and clean_fields :: "(string \<times> js_value) list \<Rightarrow> bool"
where
  "json_clean JNull = True"
| "json_clean (JString s) = True"
| "json_clean (JBool b) = True"
| "json_clean (JNumber i) = True"
| "json_clean JNegZero = True"
| "json_clean (JArray vs) = clean_items vs"
| "json_clean (JObject kvs) = clean_fields kvs"
| "json_clean _ = False"
| "clean_items [] = True"
| "clean_items (v # vs) = (json_clean v \<and> clean_items vs)"
| "clean_fields [] = True"
| "clean_fields ((k, v) # kvs) = (json_clean v \<and> clean_fields kvs)"

section \<open>Texts are uniquely decodable\<close>

definition delim :: "string \<Rightarrow> bool" where
  "delim r \<longleftrightarrow> r = [] \<or> hd r \<in> {CHR '','', CHR '']'', CHR ''}''}"

lemma delim_simps [simp]:
  "delim []" "delim (CHR '','' # r)" "delim (CHR '']'' # r)" "delim (CHR ''}'' # r)"
  by (simp_all add: delim_def)

lemma delim_text_items [simp]: "delim (text_items vs @ r)"
  by (cases vs) simp_all

lemma delim_text_fields [simp]: "delim (text_fields kvs @ r)"
  by (cases kvs) auto

text \<open>Reading one escaped code unit back.\<close>

definition unhex :: "char \<Rightarrow> nat" where
  "unhex d = (if code d < 58 then code d - 48 else code d - 87)"

definition unescape_control :: "string \<Rightarrow> char \<times> string" where
  "unescape_control r = (chr (16 * unhex (r ! 2) + unhex (r ! 3)), drop 4 r)"

fun unescape :: "string \<Rightarrow> char \<times> string" where
  "unescape (a # b # r) =
    (if a \<noteq> CHR 0x5C then (a, b # r)
     else if b = CHR ''b'' then (CHR 0x08, r)
     else if b = CHR ''t'' then (CHR 0x09, r)
     else if b = CHR ''n'' then (CHR 0x0A, r)
     else if b = CHR ''f'' then (CHR 0x0C, r)
     else if b = CHR ''r'' then (CHR 0x0D, r)
     else if b = CHR ''u'' then unescape_control r
     else (b, r))"
| "unescape [a] = (a, [])"
| "unescape [] = (CHR 0x00, [])"

lemma unhex_hex_digit: "n < 16 \<Longrightarrow> unhex (hex_digit n) = n"
  by (simp add: hex_digit_def unhex_def)

lemma unescape_control_escape:
  assumes "code c < 32"
  shows "unescape_control (CHR ''0'' # CHR ''0'' #
    hex_digit (code c div 16) # hex_digit (code c mod 16) # x) = (c, x)"
proof -
  have "unhex (hex_digit (code c div 16)) = code c div 16"
    by (rule unhex_hex_digit) (use assms in arith)
  moreover have "unhex (hex_digit (code c mod 16)) = code c mod 16"
    by (rule unhex_hex_digit) simp
  moreover have "chr (16 * (code c div 16) + code c mod 16) = c"
    by (simp add: code_def)
  ultimately show ?thesis
    by (simp add: unescape_control_def)
qed

lemma unescape_plain: "c \<noteq> CHR 0x5C \<Longrightarrow> unescape (c # x) = (c, x)"
  by (cases x) simp_all

lemma unescape_escape_char: "unescape (escape_char c @ x) = (c, x)"
proof (cases "c \<in> {CHR 0x22, CHR 0x5C, CHR 0x08, CHR 0x09, CHR 0x0A, CHR 0x0C, CHR 0x0D}")
  case True
  then show ?thesis by (auto simp: escape_char_def)
next
  case False
  then have esc: "escape_char c = (if code c < 32 then control_escape c else [c])"
    and "c \<noteq> CHR 0x5C"
    by (simp_all add: escape_char_def)
  then show ?thesis
    using unescape_control_escape [of c x] unescape_plain [of c x]
    by (cases "code c < 32") (simp_all add: control_escape_def)
qed

lemma escape_char_inj:
  "escape_char c @ x = escape_char d @ y \<Longrightarrow> c = d \<and> x = y"
  by (metis unescape_escape_char prod.inject)

lemma escape_char_hd: "escape_char c @ x \<noteq> CHR 0x22 # y"
  by (auto simp: escape_char_def control_escape_def)

lemma escaped_inj:
  "concat (map escape_char s) @ CHR 0x22 # x = concat (map escape_char t) @ CHR 0x22 # y
   \<Longrightarrow> s = t \<and> x = y"
proof (induction s arbitrary: t)
  case Nil
  then show ?case
    using escape_char_hd [symmetric] by (cases t) auto
next
  case (Cons c s)
  show ?case
  proof (cases t)
    case Nil
    with Cons.prems escape_char_hd show ?thesis by auto
  next
    case (Cons d u)
    with Cons.prems escape_char_inj [of c _ d]
    have "c = d" and "concat (map escape_char s) @ CHR 0x22 # x = concat (map escape_char u) @ CHR 0x22 # y"
      by auto
    with Cons.IH Cons show ?thesis by simp
  qed
qed

lemma escapeString_inj:
  "escapeString s @ x = escapeString t @ y \<longleftrightarrow> s = t \<and> x = y"
  using escaped_inj [of s x t y] by (auto simp: escapeString_def)

definition int_char :: "char \<Rightarrow> bool" where
  "int_char c \<longleftrightarrow> is_digit c \<or> c = CHR ''-''"

lemma show_int_chars: "\<forall>c \<in> set (show_int i). int_char c" "show_int i \<noteq> []"
  using show_nat_digits [of "nat i"] show_nat_digits [of "nat (- i)"]
  by (auto simp: show_int_def int_char_def list_all_iff)

lemma delim_no_int: "delim r \<Longrightarrow> takeWhile int_char r = []"
  by (cases r) (auto simp: delim_def int_char_def is_digit_def code_def)

lemma takeWhile_show_int: "delim r \<Longrightarrow> takeWhile int_char (show_int i @ r) = show_int i"
  using show_int_chars(1) [of i] by (simp add: delim_no_int)

lemma show_int_decode:
  "show_int i @ r = show_int j @ q \<Longrightarrow> delim r \<Longrightarrow> delim q \<Longrightarrow> i = j \<and> r = q"
  using takeWhile_show_int [of r i] takeWhile_show_int [of q j] by (metis same_append_eq show_int_inj)

lemma field_list_cases [case_names Nil Cons]:
  assumes "kvs = [] \<Longrightarrow> P" "\<And>k v r. kvs = (k, v) # r \<Longrightarrow> P"
  shows P
  using assms by (cases kvs) auto

lemma text_head:
  assumes "json_clean v" "v \<noteq> JNegZero"
  shows "\<exists>c cs. json_text v = c # cs \<and> (case v of
      JNull \<Rightarrow> c = CHR ''n'' | JBool b \<Rightarrow> c = (if b then CHR ''t'' else CHR ''f'')
    | JString s \<Rightarrow> c = CHR 0x22 | JNumber i \<Rightarrow> int_char c
    | JArray vs \<Rightarrow> c = CHR ''['' | JObject kvs \<Rightarrow> c = CHR ''{'' | _ \<Rightarrow> False)"
proof (cases v)
  case (JNumber i)
  then show ?thesis using show_int_chars [of i] by (cases "show_int i") auto
next
  case (JArray vs)
  then show ?thesis by (cases vs) auto
next
  case (JObject kvs)
  then show ?thesis by (cases kvs rule: field_list_cases) auto
qed (use assms in \<open>auto simp: escapeString_def\<close>)

lemma int_char_not:
  "\<not> int_char CHR ''n''" "\<not> int_char CHR ''t''" "\<not> int_char CHR ''f''" "\<not> int_char CHR 0x22"
  "\<not> int_char CHR ''[''" "\<not> int_char CHR ''{''"
  by (simp_all add: int_char_def is_digit_def code_def)

text \<open>Values without \<open>-0\<close>, hereditarily: the results of \<open>json_norm\<close>.\<close>

fun no_negzero :: "js_value \<Rightarrow> bool"
and nz_items :: "js_value list \<Rightarrow> bool"
and nz_fields :: "(string \<times> js_value) list \<Rightarrow> bool"
where
  "no_negzero JNegZero = False"
| "no_negzero (JArray vs) = nz_items vs"
| "no_negzero (JObject kvs) = nz_fields kvs"
| "no_negzero _ = True"
| "nz_items [] = True"
| "nz_items (v # vs) = (no_negzero v \<and> nz_items vs)"
| "nz_fields [] = True"
| "nz_fields ((k, v) # kvs) = (no_negzero v \<and> nz_fields kvs)"

abbreviation text_ok :: "js_value \<Rightarrow> bool" where
  "text_ok v \<equiv> json_clean v \<and> no_negzero v"

lemma text_same_kind:
  assumes "text_ok v" "text_ok w" "json_text v @ r = json_text w @ q"
  shows "(v = JNull \<and> w = JNull) \<or> (\<exists>b. v = JBool b \<and> w = JBool b)
    \<or> (\<exists>s t. v = JString s \<and> w = JString t) \<or> (\<exists>i j. v = JNumber i \<and> w = JNumber j)
    \<or> (\<exists>vs ws. v = JArray vs \<and> w = JArray ws) \<or> (\<exists>kvs lws. v = JObject kvs \<and> w = JObject lws)"
proof -
  have "v \<noteq> JNegZero" "w \<noteq> JNegZero" using assms by auto
  with assms text_head [of v] text_head [of w] show ?thesis
    by (cases v; cases w) (auto simp: int_char_not split: if_splits)
qed

lemma text_not_bracket: "text_ok v \<Longrightarrow> json_text v @ x \<noteq> CHR '']'' # y"
  using text_head [of v]
  by (cases v) (auto simp: int_char_def is_digit_def code_def split: if_splits)

lemma text_empty_object: "text_fields kvs @ x \<noteq> escapeString k @ y"
  by (cases kvs) (auto simp: escapeString_def)

lemma text_decode:
  "\<And>w r q. text_ok v \<Longrightarrow> text_ok w \<Longrightarrow> json_text v @ r = json_text w @ q \<Longrightarrow> delim r \<Longrightarrow> delim q
    \<Longrightarrow> v = w \<and> r = q"
  "\<And>ws r q. clean_items vs \<Longrightarrow> nz_items vs \<Longrightarrow> clean_items ws \<Longrightarrow> nz_items ws
    \<Longrightarrow> text_items vs @ r = text_items ws @ q \<Longrightarrow> vs = ws \<and> r = q"
  "\<And>lws r q. clean_fields kvs \<Longrightarrow> nz_fields kvs \<Longrightarrow> clean_fields lws \<Longrightarrow> nz_fields lws
    \<Longrightarrow> text_fields kvs @ r = text_fields lws @ q \<Longrightarrow> kvs = lws \<and> r = q"
proof (induction v and vs and kvs rule: json_text_text_items_text_fields.induct)
  case (1 w)
  from text_same_kind [OF 1(1-3)] 1 show ?case by auto
next
  case (2 s w)
  from text_same_kind [OF 2(1-3)] 2 show ?case by (auto simp: escapeString_inj)
next
  case (3 b w)
  from text_same_kind [OF 3(1-3)] 3 show ?case by auto
next
  case (4 i w)
  from text_same_kind [OF 4(1-3)] obtain j where "w = JNumber j" by auto
  with 4 show_int_decode [of i r j q] show ?case by auto
next
  case (5 w)
  from text_same_kind [OF 5(1-3)] obtain ws where w: "w = JArray ws" by auto
  show ?case
  proof (cases ws)
    case Nil
    with 5 w show ?thesis by simp
  next
    case (Cons u us)
    with 5 w text_not_bracket [of u, symmetric] show ?thesis by auto
  qed
next
  case (6 v vs w)
  from text_same_kind [OF 6(3-5)] obtain ws where w: "w = JArray ws" by auto
  show ?case
  proof (cases ws)
    case Nil
    with 6(3-5) w text_not_bracket [of v] show ?thesis by auto
  next
    case (Cons u us)
    have "json_text v @ (text_items vs @ r) = json_text u @ (text_items us @ q)"
      using 6(5) w Cons by simp
    with 6(1) [of u "text_items vs @ r" "text_items us @ q"] 6(3,4) w Cons
    have "v = u" and "text_items vs @ r = text_items us @ q" by auto
    with 6(2) [of us r q] 6(3,4) w Cons show ?thesis by simp
  qed
next
  case (7 w)
  from text_same_kind [OF 7(1-3)] obtain lws where w: "w = JObject lws" by auto
  with 7 show ?case by (cases lws) (auto simp: escapeString_def)
next
  case (8 k v kvs w)
  from text_same_kind [OF 8(3-5)] obtain lws where w: "w = JObject lws" by auto
  show ?case
  proof (cases lws rule: field_list_cases)
    case Nil
    with 8(5) w show ?thesis by (simp add: escapeString_def)
  next
    case (Cons l u us)
    have "escapeString k @ ('':'' @ json_text v @ (text_fields kvs @ r))
        = escapeString l @ ('':'' @ json_text u @ (text_fields us @ q))"
      using 8(5) w Cons by simp
    then have kl: "k = l" and "json_text v @ (text_fields kvs @ r) = json_text u @ (text_fields us @ q)"
      by (simp_all add: escapeString_inj)
    with 8(1) [of u "text_fields kvs @ r" "text_fields us @ q"] 8(3,4) w Cons
    have "v = u" and "text_fields kvs @ r = text_fields us @ q" by auto
    with 8(2) [of us r q] 8(3,4) w Cons kl show ?thesis by simp
  qed
next
  case (10 ws)
  then show ?case by (cases ws) auto
next
  case (11 v vs ws)
  show ?case
  proof (cases ws)
    case Nil
    with 11 show ?thesis by simp
  next
    case (Cons u us)
    have "json_text v @ (text_items vs @ r) = json_text u @ (text_items us @ q)"
      using 11 Cons by simp
    with 11(1) [of u "text_items vs @ r" "text_items us @ q"] 11(3-6) Cons
    have "v = u" and "text_items vs @ r = text_items us @ q" by auto
    with 11(2) [of us r q] 11(3-6) Cons show ?thesis by simp
  qed
next
  case (12 lws)
  then show ?case by (cases lws) auto
next
  case (13 k v kvs lws)
  show ?case
  proof (cases lws rule: field_list_cases)
    case Nil
    with 13 show ?thesis by simp
  next
    case (Cons l u us)
    have "escapeString k @ ('':'' @ json_text v @ (text_fields kvs @ r))
        = escapeString l @ ('':'' @ json_text u @ (text_fields us @ q))"
      using 13 Cons by simp
    then have kl: "k = l" and "json_text v @ (text_fields kvs @ r) = json_text u @ (text_fields us @ q)"
      by (simp_all add: escapeString_inj)
    with 13(1) [of u "text_fields kvs @ r" "text_fields us @ q"] 13(3-6) Cons
    have "v = u" and "text_fields kvs @ r = text_fields us @ q" by auto
    with 13(2) [of us r q] 13(3-6) Cons kl show ?thesis by simp
  qed
qed simp_all

section \<open>The canonical text is the text of the normal form\<close>

lemma insort_key_map: "insort_key f (g x) (map g ys) = map g (insort_key (\<lambda>y. f (g y)) x ys)"
  by (induction ys) auto

lemma sort_key_map: "sort_key f (map g ys) = map g (sort_key (\<lambda>y. f (g y)) ys)"
  by (induction ys) (auto simp: insort_key_map)

lemma sort_key_fst_map: "sort_key fst (map (\<lambda>(k, v). (k, h v)) kvs) = map (\<lambda>(k, v). (k, h v)) (sort_key fst kvs)"
  by (subst sort_key_map) (simp add: case_prod_unfold)

lemma text_items_join:
  "vs \<noteq> [] \<Longrightarrow> text_items vs = '','' @ join_with '','' (map json_text vs) @ '']''"
  by (induction vs rule: induct_list012) auto

lemma text_array: "json_text (JArray vs) = ''['' @ join_with '','' (map json_text vs) @ '']''"
proof (cases vs)
  case (Cons v us)
  then show ?thesis using text_items_join [of us] by (cases us) auto
qed simp

abbreviation field_text :: "string \<times> js_value \<Rightarrow> string" where
  "field_text \<equiv> \<lambda>(k, v). escapeString k @ '':'' @ json_text v"

lemma text_fields_join:
  "kvs \<noteq> [] \<Longrightarrow> text_fields kvs = '','' @ join_with '','' (map field_text kvs) @ ''}''"
  by (induction kvs rule: induct_list012) auto

lemma text_object: "json_text (JObject kvs) = ''{'' @ join_with '','' (map field_text kvs) @ ''}''"
proof (cases kvs)
  case (Cons f r)
  then show ?thesis using text_fields_join [of r] by (cases f; cases r) auto
qed simp

lemma clean_items_iff: "clean_items vs \<longleftrightarrow> (\<forall>v \<in> set vs. json_clean v)"
  by (induction vs) auto

lemma clean_fields_iff: "clean_fields kvs \<longleftrightarrow> (\<forall>(k, v) \<in> set kvs. json_clean v)"
  by (induction kvs) auto

lemma nz_fields_iff: "nz_fields kvs \<longleftrightarrow> (\<forall>(k, v) \<in> set kvs. no_negzero v)"
  by (induction kvs) auto

lemma text_ok_norm:
  "json_clean v \<Longrightarrow> text_ok (json_norm v)"
  "clean_items vs \<Longrightarrow> clean_items (norm_items vs) \<and> nz_items (norm_items vs)"
  "clean_fields kvs \<Longrightarrow> clean_fields (norm_fields kvs) \<and> nz_fields (norm_fields kvs)"
  by (induction v and vs and kvs rule: json_norm_norm_items_norm_fields.induct)
    (auto simp: clean_fields_iff nz_fields_iff)

lemma canonical_fields_sorted:
  "map (\<lambda>(k, t). escapeString k @ '':'' @ t)
     (sort_key fst (map (\<lambda>(k, v). (k, json_text v)) kvs)) = map field_text (sort_key fst kvs)"
  by (auto simp: sort_key_fst_map)

lemma json_clean_not_undefined: "json_clean v \<Longrightarrow> v = JUndefined \<longleftrightarrow> False"
  by auto

lemma show_int_0: "show_int 0 = ''0''"
  by code_simp

lemma canonical_is_text:
  "canonicalValue v = Inr s \<longleftrightarrow> json_clean v \<and> s = json_text (json_norm v)"
  "canonicalItems vs = Inr ts \<longleftrightarrow> clean_items vs \<and> ts = map json_text (norm_items vs)"
  "canonicalFields kvs = Inr fs \<longleftrightarrow>
     clean_fields kvs \<and> fs = map (\<lambda>(k, v). (k, json_text v)) (norm_fields kvs)"
proof (induction v and vs and kvs arbitrary: s and ts and fs
    rule: canonicalValue_canonicalItems_canonicalFields.induct)
  case (10 vs)
  then show ?case by (auto simp: text_array simp del: json_text.simps)
next
  case (12 kvs)
  then show ?case
    using canonical_fields_sorted [of "norm_fields kvs"]
    by (auto simp: text_object simp del: json_text.simps)
qed (auto simp: show_int_0 json_clean_not_undefined)

theorem canonical_text_decodes:
  assumes "canonicalizeJson v = Inr s" "canonicalizeJson w = Inr s"
  shows "json_norm v = json_norm w"
proof -
  from assms have "text_ok (json_norm v)" "text_ok (json_norm w)"
    and "json_text (json_norm v) @ [] = json_text (json_norm w) @ []"
    by (auto simp: canonicalizeJson_def canonical_is_text text_ok_norm)
  from text_decode(1) [OF this] show ?thesis by simp
qed

theorem canonical_text_of_norm:
  assumes "json_norm v = json_norm w" "json_clean v" "json_clean w"
  shows "canonicalizeJson v = canonicalizeJson w"
  using assms canonical_is_text(1) unfolding canonicalizeJson_def by metis

section \<open>Objects written field by field\<close>

text \<open>
  A record is digested as an object with a fixed list of distinct field names. Two such objects have
  the same normal form exactly when they agree field by field.
\<close>

definition jopt :: "('a \<Rightarrow> js_value) \<Rightarrow> 'a option \<Rightarrow> js_value" where
  "jopt f x = (case x of None \<Rightarrow> JNull | Some y \<Rightarrow> f y)"

text \<open>An optional property is absent from the object when it is undefined.\<close>

definition jfield :: "string \<Rightarrow> ('a \<Rightarrow> js_value) \<Rightarrow> 'a option \<Rightarrow> (string \<times> js_value) list" where
  "jfield k f x = (case x of None \<Rightarrow> [] | Some y \<Rightarrow> [(k, f y)])"

lemma norm_fields_map: "norm_fields kvs = map (\<lambda>(k, v). (k, json_norm v)) kvs"
  by (induction kvs) auto

lemma norm_items_map: "norm_items vs = map json_norm vs"
  by (induction vs) auto

lemma same_keys_set_eq:
  assumes keys: "map fst kvs = map fst lws" and dist: "distinct (map fst kvs)"
    and sets: "set kvs = set lws"
  shows "kvs = lws"
proof (rule nth_equalityI)
  show len: "length kvs = length lws" using keys by (metis length_map)
  fix i assume i: "i < length kvs"
  have key: "fst (kvs ! i) = fst (lws ! i)"
    using keys i len by (metis nth_map)
  have "lws ! i \<in> set kvs" using sets i len by simp
  with i have "map_of kvs (fst (lws ! i)) = Some (snd (lws ! i))"
    using dist by simp
  moreover have "map_of kvs (fst (kvs ! i)) = Some (snd (kvs ! i))"
    using dist i by simp
  ultimately show "kvs ! i = lws ! i"
    using key by (simp add: prod_eq_iff)
qed

theorem norm_object_same_keys:
  assumes "json_norm (JObject kvs) = json_norm (JObject lws)"
    and "map fst kvs = map fst lws" and "distinct (map fst kvs)"
  shows "map (\<lambda>(k, v). json_norm v) kvs = map (\<lambda>(k, v). json_norm v) lws"
proof -
  let ?n = "map (\<lambda>(k, v). (k, json_norm v))"
  have "set (sort_key fst (?n kvs)) = set (sort_key fst (?n lws))"
    using assms(1) by (simp add: norm_fields_map)
  then have "set (?n kvs) = set (?n lws)" by simp
  moreover have "map fst (?n kvs) = map fst (?n lws)" "distinct (map fst (?n kvs))"
    using assms(2,3) by (simp_all add: comp_def case_prod_unfold)
  ultimately have "?n kvs = ?n lws" by (intro same_keys_set_eq) simp_all
  then have "map snd (?n kvs) = map snd (?n lws)" by simp
  then show ?thesis by (simp add: comp_def case_prod_unfold)
qed

lemma json_norm_atoms [simp]:
  "json_norm (JString s) = JString s" "json_norm (JNumber i) = JNumber i"
  "json_norm (JBool b) = JBool b" "json_norm JNull = JNull"
  by simp_all

lemma json_norm_jopt_inj:
  assumes "\<And>a b. json_norm (f a) = json_norm (f b) \<Longrightarrow> a = b"
    and "\<And>a. json_norm (f a) \<noteq> JNull"
  shows "json_norm (jopt f x) = json_norm (jopt f y) \<longleftrightarrow> x = y"
  using assms by (auto simp: jopt_def eq_commute [of JNull] split: option.splits)

lemma jopt_string_inj [simp]:
  "json_norm (jopt JString x) = json_norm (jopt JString y) \<longleftrightarrow> x = y"
  "json_norm (jopt JNumber m) = json_norm (jopt JNumber n) \<longleftrightarrow> m = n"
  by (rule json_norm_jopt_inj, simp_all)+

lemma json_clean_jopt [simp]:
  "json_clean (jopt f x) \<longleftrightarrow> (\<forall>y. x = Some y \<longrightarrow> json_clean (f y))"
  by (cases x) (simp_all add: jopt_def)

section \<open>Digests\<close>

lemma canonicalSha256Hex_ok: "json_clean v \<Longrightarrow> \<exists>d. canonicalSha256Hex sha v = Inr d"
  by (simp add: canonicalSha256Hex_def canonicalizeJson_def canonical_is_text)

lemma canonicalSha256Hex_Inr:
  "canonicalSha256Hex sha v = Inr d \<longleftrightarrow> json_clean v \<and> d = sha (json_text (json_norm v))"
  by (auto simp: canonicalSha256Hex_def canonicalizeJson_def canonical_is_text)

text \<open>A collision-free hash makes a digest determine the value it was taken of.\<close>

theorem digest_determines_value:
  assumes "inj sha" "canonicalSha256Hex sha v = Inr d" "canonicalSha256Hex sha w = Inr d"
  shows "json_norm v = json_norm w"
  using assms canonical_text_decodes [of v _ w]
  by (auto simp: canonicalSha256Hex_def dest: injD)

end
