(* ===== verification/Status_Machine.thy ===== *)
theory Status_Machine
  imports Bnb_Prelude
begin

text \<open>
  Transition tables. The packages describe every status by a table
  \<open>Record<Status, readonly Status[]>\<close> and allow a move when the status does not change or the
  target is listed. Two contracts such a table can keep are stated here as locales, with what
  follows for a whole history of moves; the components interpret them on their own tables.
\<close>

definition table_allows :: "('s \<Rightarrow> 's list) \<Rightarrow> 's \<Rightarrow> 's \<Rightarrow> bool" where
  "table_allows table s t \<longleftrightarrow> s = t \<or> t \<in> set (table s)"

text \<open>\<open>history table s ts\<close>: the statuses \<open>ts\<close> follow one another from \<open>s\<close>.\<close>

fun history :: "('s \<Rightarrow> 's list) \<Rightarrow> 's \<Rightarrow> 's list \<Rightarrow> bool" where
  "history table s [] = True"
| "history table s (t # ts) = (table_allows table s t \<and> history table t ts)"

fun last_status :: "'s \<Rightarrow> 's list \<Rightarrow> 's" where
  "last_status s [] = s"
| "last_status s (t # ts) = last_status t ts"

lemma history_append:
  "history table s (ts @ us) \<longleftrightarrow> history table s ts \<and> history table (last_status s ts) us"
  by (induction ts arbitrary: s) auto

lemma last_status_append: "last_status s (ts @ us) = last_status (last_status s ts) us"
  by (induction ts arbitrary: s) auto

section \<open>A set of statuses that is never left\<close>

locale absorbing_table =
  fixes table :: "'s \<Rightarrow> 's list" and closed :: "'s \<Rightarrow> bool"
  assumes closed_step: "closed s \<Longrightarrow> t \<in> set (table s) \<Longrightarrow> closed t"
begin

lemma closed_allows: "closed s \<Longrightarrow> table_allows table s t \<Longrightarrow> closed t"
  by (auto simp: table_allows_def intro: closed_step)

lemma closed_history: "closed s \<Longrightarrow> history table s ts \<Longrightarrow> t \<in> set ts \<Longrightarrow> closed t"
  by (induction ts arbitrary: s) (auto dest: closed_allows)

end

section \<open>Progress along a rank\<close>

locale ranked_table =
  fixes table :: "'s \<Rightarrow> 's list" and rank :: "'s \<Rightarrow> nat" and top :: nat
  assumes rank_step: "t \<in> set (table s) \<Longrightarrow> rank s < rank t"
    and rank_top: "rank s \<le> top"
begin

lemma rank_allows: "table_allows table s t \<Longrightarrow> s = t \<or> rank s < rank t"
  by (auto simp: table_allows_def dest: rank_step)

lemma rank_history: "history table s ts \<Longrightarrow> last_status s ts = s \<or> rank s < rank (last_status s ts)"
proof (induction ts arbitrary: s)
  case (Cons t ts)
  then have "s = t \<or> rank s < rank t" and "last_status t ts = t \<or> rank t < rank (last_status t ts)"
    by (auto dest: rank_allows)
  then show ?case by auto
qed simp

text \<open>No status is left and entered again.\<close>

lemma history_antisym:
  assumes "history table s ts" "history table (last_status s ts) us" "last_status s (ts @ us) = s"
  shows "last_status s ts = s"
  using rank_history [OF assms(1)] rank_history [OF assms(2)] assms(3)
  by (auto simp: last_status_append)

text \<open>The number of proper moves in a history is bounded.\<close>

fun moves :: "'s \<Rightarrow> 's list \<Rightarrow> nat" where
  "moves s [] = 0"
| "moves s (t # ts) = (if s = t then 0 else 1) + moves t ts"

lemma moves_bound: "history table s ts \<Longrightarrow> moves s ts + rank s \<le> top"
proof (induction ts arbitrary: s)
  case Nil
  then show ?case by (simp add: rank_top)
next
  case (Cons t ts)
  then have "s = t \<or> rank s < rank t" and "moves t ts + rank t \<le> top"
    by (auto dest: rank_allows)
  then show ?case by auto
qed

end

text \<open>A ranked table can never leave a status of maximal rank.\<close>

sublocale ranked_table \<subseteq> absorbing_table table "\<lambda>s. rank s = top"
  by unfold_locales (metis rank_step rank_top not_less)

end
