(* ===== verification/Domain_Model.thy ===== *)
theory Domain_Model
  imports Canonical_Json Status_Machine
begin

text \<open>
  packages/domain: addresses, hashes and the ERC-8004 agent identity (identity.ts), the six
  status axes of a marketplace agent and their transition tables (states.ts, constants.ts).
\<close>

section \<open>Thrown by a schema\<close>

text \<open>
  \<open>SchemaError\<close> is the exception of a failing \<open>schema.parse\<close>: the ZodError, or the SyntaxError that
  \<open>BigInt\<close> raises inside a refinement of a string that is no integer.
\<close>

datatype schema_error = SchemaError

section \<open>Addresses and hashes\<close>

text \<open>\<open>^0x[0-9a-fA-F]{40}$\<close>, \<open>^0x[0-9a-fA-F]{64}$\<close> and \<open>^[0-9a-fA-F]{64}$\<close>.\<close>

definition hex_with_prefix :: "nat \<Rightarrow> string \<Rightarrow> bool" where
  "hex_with_prefix n s \<longleftrightarrow> length s = n + 2 \<and> take 2 s = ''0x'' \<and> list_all is_hex (drop 2 s)"

definition evmAddressSchema :: "string \<Rightarrow> bool" where
  "evmAddressSchema s \<longleftrightarrow> hex_with_prefix 40 s"

definition transactionHashSchema :: "string \<Rightarrow> bool" where
  "transactionHashSchema s \<longleftrightarrow> hex_with_prefix 64 s"

definition contentDigestSchema :: "string \<Rightarrow> bool" where
  "contentDigestSchema s \<longleftrightarrow> length s = 64 \<and> list_all is_hex s"

definition maxUint256 :: int where
  "maxUint256 = 2 ^ 256 - 1"

definition chainIdSchema :: "int \<Rightarrow> bool" where
  "chainIdSchema n \<longleftrightarrow> 0 < n \<and> n \<le> 2147483647"

definition normalizeEvmAddress :: "string \<Rightarrow> schema_error + string" where
  "normalizeEvmAddress s = (if \<not> evmAddressSchema s then Inl SchemaError else Inr (js_lower s))"

lemma js_lower_hex_prefix [text_intros]: "hex_with_prefix n s \<Longrightarrow> hex_with_prefix n (js_lower s)"
proof -
  assume h: "hex_with_prefix n s"
  have "take 2 (js_lower s) = ''0x''"
    using h unfolding hex_with_prefix_def js_lower_take_drop(1) [symmetric] by (simp only:) code_simp
  moreover have "list_all is_hex (drop 2 (js_lower s))"
    using h unfolding hex_with_prefix_def js_lower_take_drop(2) [symmetric]
    by (auto simp: js_lower_def list_all_iff intro: is_hex_js_lower)
  ultimately show ?thesis using h by (simp add: hex_with_prefix_def)
qed

lemma normalizeEvmAddress_Inr:
  "normalizeEvmAddress s = Inr t \<longleftrightarrow> evmAddressSchema s \<and> t = js_lower s"
  by (auto simp: normalizeEvmAddress_def)

lemma normalizeEvmAddress_idem:
  "normalizeEvmAddress s = Inr t \<Longrightarrow> normalizeEvmAddress t = Inr t"
  by (auto simp: normalizeEvmAddress_Inr evmAddressSchema_def intro: js_lower_hex_prefix)

section \<open>ERC-8004 identities\<close>

record erc8004_identity =
  id_namespace :: string
  id_chainId :: int
  id_registry :: string
  id_agentId :: string

text \<open>\<open>[A-Za-z0-9._-]\<close>.\<close>

definition namespace_char :: "char \<Rightarrow> bool" where
  "namespace_char c \<longleftrightarrow> is_alnum c \<or> c = CHR ''.'' \<or> c = CHR ''_'' \<or> c = CHR ''-''"

definition agentIdSchema :: "string \<Rightarrow> bool" where
  "agentIdSchema s \<longleftrightarrow> is_decimal s \<and> int (dec_val s) \<le> maxUint256"

definition erc8004IdentitySchema :: "erc8004_identity \<Rightarrow> schema_error + erc8004_identity" where
  "erc8004IdentitySchema i = (let ns = js_trim (id_namespace i) in
     if 1 \<le> length ns \<and> length ns \<le> 128 \<and> list_all namespace_char ns
        \<and> chainIdSchema (id_chainId i) \<and> evmAddressSchema (id_registry i) \<and> agentIdSchema (id_agentId i)
     then Inr (i\<lparr>id_namespace := ns\<rparr>) else Inl SchemaError)"

definition normalizeErc8004Identity :: "erc8004_identity \<Rightarrow> schema_error + erc8004_identity" where
  "normalizeErc8004Identity input =
     bindE (erc8004IdentitySchema input) (\<lambda>i.
     bindE (normalizeEvmAddress (id_registry i)) (\<lambda>reg.
     Inr (i\<lparr>id_namespace := js_trim (id_namespace i), id_registry := reg\<rparr>)))"

definition erc8004IdentityKey :: "erc8004_identity \<Rightarrow> schema_error + string" where
  "erc8004IdentityKey input =
     bindE (normalizeErc8004Identity input) (\<lambda>i.
     Inr (join_with '':'' [id_namespace i, show_int (id_chainId i), id_registry i, id_agentId i]))"

definition sameErc8004Identity :: "erc8004_identity \<Rightarrow> erc8004_identity \<Rightarrow> schema_error + bool" where
  "sameErc8004Identity a b =
     bindE (erc8004IdentityKey a) (\<lambda>ka. bindE (erc8004IdentityKey b) (\<lambda>kb. Inr (ka = kb)))"

lemma normalizeErc8004Identity_Inr:
  "normalizeErc8004Identity i = Inr j \<longleftrightarrow>
     (let ns = js_trim (id_namespace i) in 1 \<le> length ns \<and> length ns \<le> 128 \<and> list_all namespace_char ns
        \<and> chainIdSchema (id_chainId i) \<and> evmAddressSchema (id_registry i) \<and> agentIdSchema (id_agentId i)
        \<and> j = i\<lparr>id_namespace := ns, id_registry := js_lower (id_registry i)\<rparr>)"
  by (auto simp: normalizeErc8004Identity_def erc8004IdentitySchema_def Let_def
      normalizeEvmAddress_Inr split: if_splits)

lemma join_colon_inj:
  assumes "CHR '':'' \<notin> set a" "CHR '':'' \<notin> set b"
    and "a @ '':'' @ x = b @ '':'' @ y"
  shows "a = b \<and> x = y"
proof -
  have tw: "takeWhile (\<lambda>c. c \<noteq> CHR '':'') (s @ CHR '':'' # z) = s" if "CHR '':'' \<notin> set s" for s z
    using that by (induction s) auto
  from assms tw [of a x] tw [of b y] have "a = b" by simp
  with assms(3) show ?thesis by simp
qed

lemma no_colon:
  "list_all namespace_char s \<Longrightarrow> CHR '':'' \<notin> set s"
  "CHR '':'' \<notin> set (show_int i)"
  "hex_with_prefix n r \<Longrightarrow> CHR '':'' \<notin> set r"
proof -
  show "list_all namespace_char s \<Longrightarrow> CHR '':'' \<notin> set s"
    by (auto simp: list_all_iff namespace_char_def is_alnum_def is_digit_def code_def)
  show "CHR '':'' \<notin> set (show_int i)"
    using show_int_chars(1) [of i] by (auto simp: int_char_def is_digit_def code_def)
  assume h: "hex_with_prefix n r"
  then have "CHR '':'' \<notin> set (drop 2 r)" "CHR '':'' \<notin> set (take 2 r)"
    by (auto simp: hex_with_prefix_def list_all_iff is_hex_def is_digit_def code_def)
  moreover have "set r = set (take 2 r) \<union> set (drop 2 r)"
    by (metis append_take_drop_id set_append)
  ultimately show "CHR '':'' \<notin> set r" by simp
qed

theorem identity_key_determines_identity:
  assumes "erc8004IdentityKey a = Inr k" "erc8004IdentityKey b = Inr k"
  shows "normalizeErc8004Identity a = normalizeErc8004Identity b"
proof -
  from assms obtain i j where i: "normalizeErc8004Identity a = Inr i"
    and j: "normalizeErc8004Identity b = Inr j"
    and eq: "join_with '':'' [id_namespace i, show_int (id_chainId i), id_registry i, id_agentId i]
           = join_with '':'' [id_namespace j, show_int (id_chainId j), id_registry j, id_agentId j]"
    by (auto simp: erc8004IdentityKey_def)
  have nc: "CHR '':'' \<notin> set (id_namespace x) \<and> CHR '':'' \<notin> set (id_registry x)"
    if "normalizeErc8004Identity w = Inr x" for w x
    using that no_colon(1) no_colon(3) [OF js_lower_hex_prefix]
    by (auto simp: normalizeErc8004Identity_Inr Let_def evmAddressSchema_def)
  from eq have "id_namespace i = id_namespace j"
    and e2: "show_int (id_chainId i) @ '':'' @ id_registry i @ '':'' @ id_agentId i
           = show_int (id_chainId j) @ '':'' @ id_registry j @ '':'' @ id_agentId j"
    using nc [OF i] nc [OF j]
      join_colon_inj [of "id_namespace i" "id_namespace j"
        "show_int (id_chainId i) @ '':'' @ id_registry i @ '':'' @ id_agentId i"
        "show_int (id_chainId j) @ '':'' @ id_registry j @ '':'' @ id_agentId j"]
    by simp_all
  moreover from join_colon_inj [OF no_colon(2) no_colon(2) e2]
  have "id_chainId i = id_chainId j" and e3: "id_registry i @ '':'' @ id_agentId i
      = id_registry j @ '':'' @ id_agentId j" by simp_all
  moreover from e3 nc [OF i] nc [OF j] join_colon_inj [of "id_registry i" "id_registry j"]
  have "id_registry i = id_registry j" "id_agentId i = id_agentId j" by auto
  ultimately have "i = j" by (intro erc8004_identity.equality) auto
  with i j show ?thesis by simp
qed

section \<open>Status axes of an agent\<close>

datatype origin_type = Discovered | ManualImport | Created

datatype claim_status = Unclaimed | Claimed | ClaimStale

datatype verification_status = VerificationPending | Verified | Degraded | VerificationRejected

datatype runtime_status = Live | Unavailable | RuntimePaused

datatype authority_status = AuthorityNone | AuthorityActive | AuthorityExpired | AuthorityRevoked

datatype listing_status = Draft | Published | ListingPaused | Suspended | Delisted

record agent_state_axes =
  originType :: origin_type
  claimStatus :: claim_status
  verificationStatus :: verification_status
  runtimeStatus :: runtime_status
  authorityStatus :: authority_status
  listingStatus :: listing_status

fun claim_table :: "claim_status \<Rightarrow> claim_status list" where
  "claim_table Unclaimed = [Claimed]"
| "claim_table Claimed = [ClaimStale]"
| "claim_table ClaimStale = [Claimed]"

fun verification_table :: "verification_status \<Rightarrow> verification_status list" where
  "verification_table VerificationPending = [Verified, Degraded, VerificationRejected]"
| "verification_table Verified = [Degraded, VerificationRejected]"
| "verification_table Degraded = [Verified, VerificationRejected]"
| "verification_table VerificationRejected = []"

fun runtime_table :: "runtime_status \<Rightarrow> runtime_status list" where
  "runtime_table Live = [Unavailable, RuntimePaused]"
| "runtime_table Unavailable = [Live, RuntimePaused]"
| "runtime_table RuntimePaused = [Live, Unavailable]"

fun authority_table :: "authority_status \<Rightarrow> authority_status list" where
  "authority_table AuthorityNone = [AuthorityActive, AuthorityExpired, AuthorityRevoked]"
| "authority_table AuthorityActive = [AuthorityExpired, AuthorityRevoked]"
| "authority_table AuthorityExpired = [AuthorityActive, AuthorityRevoked]"
| "authority_table AuthorityRevoked = [AuthorityActive]"

fun listing_table :: "listing_status \<Rightarrow> listing_status list" where
  "listing_table Draft = [Published, ListingPaused, Suspended, Delisted]"
| "listing_table Published = [ListingPaused, Suspended, Delisted]"
| "listing_table ListingPaused = [Published, Suspended, Delisted]"
| "listing_table Suspended = [Published, ListingPaused, Delisted]"
| "listing_table Delisted = []"

text \<open>A requested change: the axis with its previous and its next status.\<close>

datatype axis_change =
    ClaimChange claim_status claim_status
  | VerificationChange verification_status verification_status
  | RuntimeChange runtime_status runtime_status
  | AuthorityChange authority_status authority_status
  | ListingChange listing_status listing_status

datatype state_error = IllegalTransition axis_change | OriginImmutable origin_type origin_type

fun canTransition :: "axis_change \<Rightarrow> bool" where
  "canTransition (ClaimChange s t) = table_allows claim_table s t"
| "canTransition (VerificationChange s t) = table_allows verification_table s t"
| "canTransition (RuntimeChange s t) = table_allows runtime_table s t"
| "canTransition (AuthorityChange s t) = table_allows authority_table s t"
| "canTransition (ListingChange s t) = table_allows listing_table s t"

definition assertStateTransition :: "axis_change \<Rightarrow> state_error + unit" where
  "assertStateTransition c = (if \<not> canTransition c then Inl (IllegalTransition c) else Inr ())"

definition assertOriginUnchanged :: "origin_type \<Rightarrow> origin_type \<Rightarrow> state_error + unit" where
  "assertOriginUnchanged previous next =
     (if previous \<noteq> next then Inl (OriginImmutable previous next) else Inr ())"

text \<open>A delisted listing and a rejected verification are final; a claim, once made, is never undone.\<close>

interpretation delisted: absorbing_table listing_table "\<lambda>s. s = Delisted"
  by unfold_locales auto

interpretation verification_final: absorbing_table verification_table "\<lambda>s. s = VerificationRejected"
  by unfold_locales auto

interpretation claim_made: absorbing_table claim_table "\<lambda>s. s \<noteq> Unclaimed"
proof
  fix s t assume "s \<noteq> Unclaimed" "t \<in> set (claim_table s)"
  then show "t \<noteq> Unclaimed" by (cases s) auto
qed

interpretation verification_started: absorbing_table verification_table "\<lambda>s. s \<noteq> VerificationPending"
proof
  fix s t assume "s \<noteq> VerificationPending" "t \<in> set (verification_table s)"
  then show "t \<noteq> VerificationPending" by (cases s) auto
qed

end
