(* ===== verification/Domain_Properties.thy ===== *)
theory Domain_Properties
  imports Domain_Model
begin

text \<open>
  Properties of the domain package: the canonical text of a value, the key of an agent identity and
  the status axes of an agent.
\<close>

text \<open>C24: Two values have a canonical text in common exactly when both have one and they agree up to the order of
  object fields and the sign of zero.\<close>

theorem canonical_text_unique:
  assumes "json_clean v" "json_clean w"
  shows "canonicalizeJson v = canonicalizeJson w \<longleftrightarrow> json_norm v = json_norm w"
proof -
  obtain t u where t: "canonicalizeJson v = Inr t" and u: "canonicalizeJson w = Inr u"
    using assms canonical_is_text(1) unfolding canonicalizeJson_def by blast
  show ?thesis
    using canonical_text_decodes [of v t w] canonical_text_of_norm [of v w] assms t u by auto
qed

theorem canonical_text_unique_witness:
  "canonicalizeJson (JObject [(''b'', JNegZero), (''a'', JString ''x'')])
   = canonicalizeJson (JObject [(''a'', JString ''x''), (''b'', JNumber 0)])"
proof -
  let ?v = "JObject [(''b'', JNegZero), (''a'', JString ''x'')]"
  let ?w = "JObject [(''a'', JString ''x''), (''b'', JNumber 0)]"
  have "json_norm ?v = json_norm ?w" by (simp add: less_list_code less_char_def)
  moreover have "json_clean ?v" "json_clean ?w" by simp_all
  ultimately show ?thesis using canonical_text_unique [of ?v ?w] by blast
qed

text \<open>The key of an ERC-8004 identity determines the identity up to the case of the registry address and
  spaces around the namespace.\<close>

theorem identity_key_injective:
  assumes "erc8004IdentityKey a = Inr k" "erc8004IdentityKey b = Inr k"
  shows "js_trim (id_namespace a) = js_trim (id_namespace b) \<and> id_chainId a = id_chainId b
     \<and> js_lower (id_registry a) = js_lower (id_registry b) \<and> id_agentId a = id_agentId b"
proof -
  have fields: "id_namespace i = js_trim (id_namespace x) \<and> id_chainId i = id_chainId x
     \<and> id_registry i = js_lower (id_registry x) \<and> id_agentId i = id_agentId x"
    if "normalizeErc8004Identity x = Inr i" for x i
    using that by (auto simp: normalizeErc8004Identity_Inr Let_def)
  obtain i where i: "normalizeErc8004Identity a = Inr i"
    using assms(1) by (auto simp: erc8004IdentityKey_def)
  moreover from this have "normalizeErc8004Identity b = Inr i"
    using identity_key_determines_identity [OF assms] by simp
  ultimately show ?thesis using fields by metis
qed

definition example_identity :: "string \<Rightarrow> string \<Rightarrow> erc8004_identity" where
  "example_identity ns reg = \<lparr>id_namespace = ns, id_chainId = 56, id_registry = reg, id_agentId = ''12''\<rparr>"

theorem identity_key_injective_witness:
  "\<exists>k. erc8004IdentityKey (example_identity '' ns'' (''0x'' @ replicate 40 CHR ''A'')) = Inr k
     \<and> erc8004IdentityKey (example_identity ''ns'' (''0x'' @ replicate 40 CHR ''a'')) = Inr k
     \<and> js_trim '' ns'' = js_trim ''ns''"
proof -
  let ?a = "example_identity '' ns'' (''0x'' @ replicate 40 CHR ''A'')"
  let ?b = "example_identity ''ns'' (''0x'' @ replicate 40 CHR ''a'')"
  let ?k = "''ns:56:0x'' @ replicate 40 CHR ''a'' @ '':12''"
  have a: "erc8004IdentityKey ?a = Inr ?k" by code_simp
  have b: "erc8004IdentityKey ?b = Inr ?k" by code_simp
  from identity_key_injective [OF a b] a b show ?thesis
    by (auto simp: example_identity_def)
qed

text \<open>A status that has been left for good is never entered again: through any history of allowed changes
  a delisted listing stays delisted, a rejected verification stays rejected, and an agent that was
  claimed is never unclaimed again.\<close>

theorem final_statuses:
  "(history listing_table Delisted ls \<longrightarrow> set ls \<subseteq> {Delisted})
   \<and> (history verification_table VerificationRejected vs \<longrightarrow> set vs \<subseteq> {VerificationRejected})
   \<and> (history claim_table Claimed cs \<longrightarrow> Unclaimed \<notin> set cs)"
  using delisted.closed_history verification_final.closed_history claim_made.closed_history [of Claimed cs Unclaimed]
  by blast

theorem final_statuses_witness: "Unclaimed \<notin> set [ClaimStale, Claimed]"
proof -
  have h: "history claim_table Claimed [ClaimStale, Claimed]" by (simp add: table_allows_def)
  from final_statuses [of "[]" "[]" "[ClaimStale, Claimed]"] h show ?thesis by blast
qed

end
