(* ===== verification/Commerce_Types.thy ===== *)
theory Commerce_Types
  imports Domain_Model
begin

text \<open>
  packages/agent-commerce/src/types.ts and errors.ts: the data of the ERC-8183 commerce boundary.
  Every TypeScript object type is a record, every string union a datatype; a nullable field is an
  option. Each schema is a function from the record to the record it returns (a schema trims some
  strings) or to the exception it throws.

  Numbers that are not integers and objects of another shape than the record fail every schema and
  are not represented; an argument of type \<open>unknown\<close> gets a constructor for them.
\<close>

section \<open>Errors\<close>

datatype commerce_code =
    COMMERCE_DISABLED | INVALID_CHAIN | INVALID_CONTRACT | INVALID_TOKEN | INVALID_ADDRESS
  | INVALID_AMOUNT | INVALID_EXPIRY | INVALID_QUOTE | INVALID_JOB | CHAIN_PROVIDER_INVALID
  | TRANSACTION_REVERTED | TRANSACTION_UNKNOWN | ILLEGAL_TRANSITION | UNAUTHORIZED_ACTOR
  | STALE_JOB | UNKNOWN_JOB | IDEMPOTENCY_CONFLICT | EVENT_CONFLICT | RECONCILIATION_REQUIRED
  | ONCHAIN_MISMATCH

text \<open>
  \<open>CommerceError code retriable nextAction\<close>; the other two are the exceptions of a schema and of the
  canonical JSON text, which cross this layer unchanged. Messages are not modelled.
\<close>

datatype commerce_exn =
    CommerceError commerce_code bool string
  | CommerceSchemaError
  | CommerceTypeError

abbreviation commerce_error :: "commerce_code \<Rightarrow> commerce_exn" where
  "commerce_error c \<equiv> CommerceError c False ''none''"

text \<open>The exceptions of the domain package, as they reach a caller of this package.\<close>

definition from_schema :: "schema_error + 'a \<Rightarrow> commerce_exn + 'a" where
  "from_schema m = (case m of Inl _ \<Rightarrow> Inl CommerceSchemaError | Inr x \<Rightarrow> Inr x)"

definition from_js :: "js_error + 'a \<Rightarrow> commerce_exn + 'a" where
  "from_js m = (case m of Inl _ \<Rightarrow> Inl CommerceTypeError | Inr x \<Rightarrow> Inr x)"

lemma from_Inr [simp, result_simps]:
  "from_schema m = Inr x \<longleftrightarrow> m = Inr x" "from_js n = Inr y \<longleftrightarrow> n = Inr y"
  by (auto simp: from_schema_def from_js_def split: sum.splits)

text \<open>
  Functions of the platform that are not in the repository: SHA-256 of \<open>node:crypto\<close>, the UUID check
  of zod, and \<open>new URL\<close> with the parts the packages read.
\<close>

record url_parts =
  url_protocol :: string
  url_username :: string
  url_password :: string
  url_without_hash :: string

record runtime =
  sha256 :: "string \<Rightarrow> string"
  uuid_schema :: "string \<Rightarrow> bool"
  parse_url :: "string \<Rightarrow> url_parts option"

definition digest_of :: "runtime \<Rightarrow> js_value \<Rightarrow> js_error + string" where
  "digest_of rt v = canonicalSha256Hex (sha256 rt) v"

text \<open>\<open>no_collision rt v w\<close>: the hash does not map the texts of the two values to one digest.\<close>

definition no_collision :: "runtime \<Rightarrow> js_value \<Rightarrow> js_value \<Rightarrow> bool" where
  "no_collision rt v w \<longleftrightarrow>
     (sha256 rt (json_text (json_norm v)) = sha256 rt (json_text (json_norm w))
      \<longrightarrow> json_text (json_norm v) = json_text (json_norm w))"

lemma digest_of_Inr:
  "digest_of rt v = Inr d \<longleftrightarrow> json_clean v \<and> d = sha256 rt (json_text (json_norm v))"
  by (simp add: digest_of_def canonicalSha256Hex_Inr)

lemma digest_of_eq_norm:
  assumes "digest_of rt v = Inr d" "digest_of rt w = Inr d" "no_collision rt v w"
  shows "json_norm v = json_norm w"
proof -
  from assms have "canonicalizeJson v = Inr (json_text (json_norm v))"
    and "canonicalizeJson w = Inr (json_text (json_norm v))"
    by (auto simp: digest_of_Inr no_collision_def canonicalizeJson_def canonical_is_text)
  then show ?thesis by (rule canonical_text_decodes)
qed

section \<open>Scalars\<close>

definition max_safe_integer :: int where
  "max_safe_integer = 9007199254740991"

definition isSafeInteger :: "int \<Rightarrow> bool" where
  "isSafeInteger n \<longleftrightarrow> - max_safe_integer \<le> n \<and> n \<le> max_safe_integer"

definition bscChainIdSchema :: "int \<Rightarrow> bool" where
  "bscChainIdSchema n \<longleftrightarrow> n = 56 \<or> n = 97"

definition decimalUintSchema :: "string \<Rightarrow> bool" where
  "decimalUintSchema s \<longleftrightarrow> is_decimal s"

definition positiveDecimalUintSchema :: "string \<Rightarrow> bool" where
  "positiveDecimalUintSchema s \<longleftrightarrow> decimalUintSchema s \<and> s \<noteq> ''0''"

definition zero_address :: "string \<Rightarrow> bool" where
  "zero_address s \<longleftrightarrow> js_lower s = ''0x'' @ replicate 40 CHR ''0''"

definition nonZeroAddressSchema :: "string \<Rightarrow> bool" where
  "nonZeroAddressSchema s \<longleftrightarrow> evmAddressSchema s \<and> \<not> zero_address s"

definition key_char :: "char \<Rightarrow> bool" where
  "key_char c \<longleftrightarrow> is_alnum c \<or> c \<in> {CHR ''.'', CHR ''_'', CHR '':'', CHR ''-''}"

definition idempotencyKeySchema :: "string \<Rightarrow> commerce_exn + string" where
  "idempotencyKeySchema s = (let t = js_trim s in
     if 8 \<le> length t \<and> length t \<le> 160 \<and> is_alnum (hd t) \<and> list_all key_char (tl t)
     then Inr t else Inl CommerceSchemaError)"

definition unixSecondsSchema :: "int \<Rightarrow> bool" where
  "unixSecondsSchema n \<longleftrightarrow> 0 < n \<and> n \<le> max_safe_integer"

text \<open>\<open>z.string().trim().min(1).max(n)\<close>: the schema returns the trimmed string.\<close>

definition text_between :: "nat \<Rightarrow> string \<Rightarrow> bool" where
  "text_between n s \<longleftrightarrow> 1 \<le> length (js_trim s) \<and> length (js_trim s) \<le> n"

definition nullable :: "('a \<Rightarrow> bool) \<Rightarrow> 'a option \<Rightarrow> bool" where
  "nullable p x \<longleftrightarrow> (case x of None \<Rightarrow> True | Some y \<Rightarrow> p y)"

lemma nullable_simps [simp]: "nullable p None" "nullable p (Some y) = p y"
  by (simp_all add: nullable_def)

section \<open>States and actions\<close>

datatype job_state = JobOpen | JobFunded | JobSubmitted | JobCompleted | JobRejected | JobExpired

datatype job_action =
    ActCreate | ActSetProvider | ActSetBudget | ActFund | ActSubmit | ActComplete | ActReject
  | ActClaimRefund | ActReconcile

datatype actor_role = RoleClient | RoleProvider | RoleEvaluator | RoleAny

datatype job_event_type =
    EvJobCreated | EvProviderSet | EvBudgetSet | EvJobFunded | EvJobSubmitted | EvJobCompleted
  | EvJobRejected | EvJobExpired | EvReconciliationRequested | EvReconciliationSucceeded
  | EvReconciliationFailed

datatype confirmation_state = Provisional | Canonical | Orphaned

datatype reconciliation_state = RecPending | RecInProgress | RecReconciled | RecFailed | RecManualReview

fun job_state_name :: "job_state \<Rightarrow> string" where
  "job_state_name JobOpen = ''open''"
| "job_state_name JobFunded = ''funded''"
| "job_state_name JobSubmitted = ''submitted''"
| "job_state_name JobCompleted = ''completed''"
| "job_state_name JobRejected = ''rejected''"
| "job_state_name JobExpired = ''expired''"

fun job_action_name :: "job_action \<Rightarrow> string" where
  "job_action_name ActCreate = ''create''"
| "job_action_name ActSetProvider = ''set_provider''"
| "job_action_name ActSetBudget = ''set_budget''"
| "job_action_name ActFund = ''fund''"
| "job_action_name ActSubmit = ''submit''"
| "job_action_name ActComplete = ''complete''"
| "job_action_name ActReject = ''reject''"
| "job_action_name ActClaimRefund = ''claim_refund''"
| "job_action_name ActReconcile = ''reconcile''"

lemma job_state_name_inj [simp]: "job_state_name s = job_state_name t \<longleftrightarrow> s = t"
  by (cases s; cases t) simp_all

lemma job_action_name_inj [simp]: "job_action_name s = job_action_name t \<longleftrightarrow> s = t"
  by (cases s; cases t) simp_all

section \<open>Deployment pins\<close>

text \<open>The variant with \<open>enabled: true\<close>; the literal itself is a constructor of \<open>pin_input\<close> below.\<close>

record enabled_pin =
  pin_chainId :: int
  pin_specRevision :: string
  pin_commerceContract :: string
  pin_paymentToken :: string
  pin_paymentDecimals :: int
  pin_abiHash :: string
  pin_evaluatorProfile :: string
  pin_confirmationThreshold :: int
  pin_minExpiryLeadSeconds :: int
  pin_maxExpiryHorizonSeconds :: int
  pin_minBudgetAtomic :: string
  pin_maxBudgetAtomic :: string

text \<open>A value given as deployment pin: disabled with chain and reason, enabled, or of another shape.\<close>

datatype pin_input = Pin_Disabled int string | Pin_Enabled enabled_pin | Pin_Other

definition trim_pin :: "enabled_pin \<Rightarrow> enabled_pin" where
  "trim_pin p = p\<lparr>pin_specRevision := js_trim (pin_specRevision p),
                  pin_evaluatorProfile := js_trim (pin_evaluatorProfile p)\<rparr>"

definition enabledErc8183DeploymentPinSchema :: "enabled_pin \<Rightarrow> commerce_exn + enabled_pin" where
  "enabledErc8183DeploymentPinSchema p =
     (if bscChainIdSchema (pin_chainId p) \<and> text_between 160 (pin_specRevision p)
         \<and> nonZeroAddressSchema (pin_commerceContract p) \<and> nonZeroAddressSchema (pin_paymentToken p)
         \<and> 0 \<le> pin_paymentDecimals p \<and> pin_paymentDecimals p \<le> 255
         \<and> contentDigestSchema (pin_abiHash p) \<and> text_between 160 (pin_evaluatorProfile p)
         \<and> 0 < pin_confirmationThreshold p \<and> pin_confirmationThreshold p \<le> 1000000
         \<and> 0 < pin_minExpiryLeadSeconds p \<and> pin_minExpiryLeadSeconds p \<le> 7 * 24 * 60 * 60
         \<and> 0 < pin_maxExpiryHorizonSeconds p \<and> pin_maxExpiryHorizonSeconds p \<le> 365 * 24 * 60 * 60
         \<and> decimalUintSchema (pin_minBudgetAtomic p) \<and> positiveDecimalUintSchema (pin_maxBudgetAtomic p)
      then Inr (trim_pin p) else Inl CommerceSchemaError)"

definition erc8183DeploymentPinSchema :: "pin_input \<Rightarrow> commerce_exn + pin_input" where
  "erc8183DeploymentPinSchema i =
     (case i of
        Pin_Other \<Rightarrow> Inl CommerceSchemaError
      | Pin_Disabled c r \<Rightarrow>
          if bscChainIdSchema c \<and> text_between 500 r then Inr (Pin_Disabled c (js_trim r))
          else Inl CommerceSchemaError
      | Pin_Enabled p \<Rightarrow>
          bindE (enabledErc8183DeploymentPinSchema p) (\<lambda>q.
            if dec_val (pin_minBudgetAtomic q) > dec_val (pin_maxBudgetAtomic q) then Inl CommerceSchemaError
            else if pin_minExpiryLeadSeconds q > pin_maxExpiryHorizonSeconds q then Inl CommerceSchemaError
            else Inr (Pin_Enabled q)))"

definition pin_json :: "enabled_pin \<Rightarrow> js_value" where
  "pin_json p = JObject
     [(''enabled'', JBool True),
      (''chainId'', JNumber (pin_chainId p)),
      (''specRevision'', JString (pin_specRevision p)),
      (''commerceContract'', JString (pin_commerceContract p)),
      (''paymentToken'', JString (pin_paymentToken p)),
      (''paymentDecimals'', JNumber (pin_paymentDecimals p)),
      (''abiHash'', JString (pin_abiHash p)),
      (''evaluatorProfile'', JString (pin_evaluatorProfile p)),
      (''confirmationThreshold'', JNumber (pin_confirmationThreshold p)),
      (''minExpiryLeadSeconds'', JNumber (pin_minExpiryLeadSeconds p)),
      (''maxExpiryHorizonSeconds'', JNumber (pin_maxExpiryHorizonSeconds p)),
      (''minBudgetAtomic'', JString (pin_minBudgetAtomic p)),
      (''maxBudgetAtomic'', JString (pin_maxBudgetAtomic p))]"

definition lower_pin :: "enabled_pin \<Rightarrow> enabled_pin" where
  "lower_pin p = p\<lparr>pin_commerceContract := js_lower (pin_commerceContract p),
                   pin_paymentToken := js_lower (pin_paymentToken p)\<rparr>"

definition erc8183DeploymentPinDigest :: "runtime \<Rightarrow> enabled_pin \<Rightarrow> js_error + string" where
  "erc8183DeploymentPinDigest rt p = digest_of rt (pin_json (lower_pin p))"

section \<open>Jobs\<close>

record job_key =
  jk_chainId :: int
  jk_commerceContract :: string
  jk_jobId :: string

definition erc8183JobKeySchema :: "job_key \<Rightarrow> bool" where
  "erc8183JobKeySchema k \<longleftrightarrow> bscChainIdSchema (jk_chainId k)
     \<and> nonZeroAddressSchema (jk_commerceContract k) \<and> decimalUintSchema (jk_jobId k)"

record job_terms =
  t_chainId :: int
  t_commerceContract :: string
  t_paymentToken :: string
  t_paymentDecimals :: int
  t_clientAddress :: string
  t_providerAddress :: "string option"
  t_evaluatorAddress :: string
  t_hookAddress :: "string option"
  t_budgetAtomic :: string
  t_descriptionDigest :: string
  t_expiresAtUnix :: int

definition erc8183JobTermsSchema :: "job_terms \<Rightarrow> bool" where
  "erc8183JobTermsSchema t \<longleftrightarrow> bscChainIdSchema (t_chainId t)
     \<and> nonZeroAddressSchema (t_commerceContract t) \<and> nonZeroAddressSchema (t_paymentToken t)
     \<and> 0 \<le> t_paymentDecimals t \<and> t_paymentDecimals t \<le> 255
     \<and> nonZeroAddressSchema (t_clientAddress t) \<and> nullable nonZeroAddressSchema (t_providerAddress t)
     \<and> nonZeroAddressSchema (t_evaluatorAddress t) \<and> nullable nonZeroAddressSchema (t_hookAddress t)
     \<and> decimalUintSchema (t_budgetAtomic t) \<and> contentDigestSchema (t_descriptionDigest t)
     \<and> unixSecondsSchema (t_expiresAtUnix t)"

record buyer_approval =
  ba_buyerAddress :: string
  ba_resultDigest :: string
  ba_approvedAtUnix :: int

definition erc8183BuyerApprovalSchema :: "buyer_approval \<Rightarrow> bool" where
  "erc8183BuyerApprovalSchema a \<longleftrightarrow> nonZeroAddressSchema (ba_buyerAddress a)
     \<and> contentDigestSchema (ba_resultDigest a) \<and> unixSecondsSchema (ba_approvedAtUnix a)"

record provider_binding =
  pb_identity :: erc8004_identity
  pb_agentVersionId :: string
  pb_agentVersion :: int

definition erc8183ProviderBindingSchema ::
    "runtime \<Rightarrow> provider_binding \<Rightarrow> commerce_exn + provider_binding" where
  "erc8183ProviderBindingSchema rt b =
     bindE (from_schema (erc8004IdentitySchema (pb_identity b))) (\<lambda>i.
       if uuid_schema rt (pb_agentVersionId b) \<and> 0 < pb_agentVersion b
       then Inr (b\<lparr>pb_identity := i\<rparr>) else Inl CommerceSchemaError)"

record job_record =
  j_jobKey :: job_key
  j_terms :: job_terms
  j_deploymentPin :: enabled_pin
  j_deploymentPinDigest :: string
  j_state :: job_state
  j_createdAtUnix :: int
  j_updatedAtUnix :: int
  j_deliverableDigest :: "string option"
  j_providerBinding :: "provider_binding option"
  j_buyerApproval :: "buyer_approval option"
  j_fundingTransactionHash :: "string option"
  j_submissionTransactionHash :: "string option"
  j_completionTransactionHash :: "string option"
  j_rejectionTransactionHash :: "string option"
  j_refundTransactionHash :: "string option"
  j_lastObservedBlock :: "string option"
  j_lastObservedBlockHash :: "string option"
  j_lastObservedAtUnix :: "int option"

text \<open>The fields of a job whose schemas only accept or refuse.\<close>

definition job_fields_ok :: "job_record \<Rightarrow> bool" where
  "job_fields_ok j \<longleftrightarrow> erc8183JobKeySchema (j_jobKey j) \<and> erc8183JobTermsSchema (j_terms j)
     \<and> contentDigestSchema (j_deploymentPinDigest j)
     \<and> unixSecondsSchema (j_createdAtUnix j) \<and> unixSecondsSchema (j_updatedAtUnix j)
     \<and> nullable contentDigestSchema (j_deliverableDigest j)
     \<and> nullable erc8183BuyerApprovalSchema (j_buyerApproval j)
     \<and> nullable transactionHashSchema (j_fundingTransactionHash j)
     \<and> nullable transactionHashSchema (j_submissionTransactionHash j)
     \<and> nullable transactionHashSchema (j_completionTransactionHash j)
     \<and> nullable transactionHashSchema (j_rejectionTransactionHash j)
     \<and> nullable transactionHashSchema (j_refundTransactionHash j)
     \<and> nullable decimalUintSchema (j_lastObservedBlock j)
     \<and> nullable transactionHashSchema (j_lastObservedBlockHash j)
     \<and> nullable unixSecondsSchema (j_lastObservedAtUnix j)"

text \<open>The refinements of the job schema: every issue they can add.\<close>

definition approval_bound :: "job_record \<Rightarrow> buyer_approval \<Rightarrow> bool" where
  "approval_bound j a \<longleftrightarrow> (j_state j = JobSubmitted \<or> j_state j = JobCompleted)
     \<and> js_lower (ba_buyerAddress a) = js_lower (t_clientAddress (j_terms j))
     \<and> (case j_deliverableDigest j of None \<Rightarrow> False
        | Some d \<Rightarrow> js_lower (ba_resultDigest a) = js_lower d)"

definition job_refined :: "runtime \<Rightarrow> job_record \<Rightarrow> bool" where
  "job_refined rt j \<longleftrightarrow> jk_chainId (j_jobKey j) = t_chainId (j_terms j)
     \<and> js_lower (jk_commerceContract (j_jobKey j)) = js_lower (t_commerceContract (j_terms j))
     \<and> erc8183DeploymentPinDigest rt (j_deploymentPin j) = Inr (j_deploymentPinDigest j)
     \<and> nullable (approval_bound j) (j_buyerApproval j)
     \<and> nullable (\<lambda>b. id_chainId (pb_identity b) = t_chainId (j_terms j)) (j_providerBinding j)"

definition parse_nullable :: "('a \<Rightarrow> 'e + 'a) \<Rightarrow> 'a option \<Rightarrow> 'e + 'a option" where
  "parse_nullable f x = (case x of None \<Rightarrow> Inr None | Some y \<Rightarrow> bindE (f y) (\<lambda>z. Inr (Some z)))"

definition erc8183JobRecordSchema :: "runtime \<Rightarrow> job_record \<Rightarrow> commerce_exn + job_record" where
  "erc8183JobRecordSchema rt j =
     bindE (enabledErc8183DeploymentPinSchema (j_deploymentPin j)) (\<lambda>p.
     bindE (parse_nullable (erc8183ProviderBindingSchema rt) (j_providerBinding j)) (\<lambda>b.
       let k = j\<lparr>j_deploymentPin := p, j_providerBinding := b\<rparr> in
       if job_fields_ok j \<and> job_refined rt k then Inr k else Inl CommerceSchemaError))"

section \<open>Quotes, events, reconciliations\<close>

record quote =
  q_quoteId :: string
  q_jobKey :: job_key
  q_chainId :: int
  q_commerceContract :: string
  q_paymentToken :: string
  q_paymentDecimals :: int
  q_providerAddress :: string
  q_descriptionDigest :: string
  q_minPriceAtomic :: string
  q_maxPriceAtomic :: string
  q_priceAtomic :: string
  q_issuedAtUnix :: int
  q_expiresAtUnix :: int
  q_idempotencyKey :: string

definition quote_refined :: "quote \<Rightarrow> bool" where
  "quote_refined q \<longleftrightarrow>
     (let mn = dec_val (q_minPriceAtomic q); mx = dec_val (q_maxPriceAtomic q); pr = dec_val (q_priceAtomic q)
      in \<not> mn > mx \<and> \<not> (pr < mn \<or> pr > mx) \<and> \<not> q_expiresAtUnix q \<le> q_issuedAtUnix q)"

definition erc8183QuoteSchema :: "quote \<Rightarrow> commerce_exn + quote" where
  "erc8183QuoteSchema q =
     bindE (idempotencyKeySchema (q_idempotencyKey q)) (\<lambda>key.
       let r = q\<lparr>q_quoteId := js_trim (q_quoteId q), q_idempotencyKey := key\<rparr> in
       if text_between 160 (q_quoteId q) \<and> erc8183JobKeySchema (q_jobKey q)
          \<and> bscChainIdSchema (q_chainId q) \<and> nonZeroAddressSchema (q_commerceContract q)
          \<and> nonZeroAddressSchema (q_paymentToken q) \<and> 0 \<le> q_paymentDecimals q
          \<and> q_paymentDecimals q \<le> 255 \<and> nonZeroAddressSchema (q_providerAddress q)
          \<and> contentDigestSchema (q_descriptionDigest q) \<and> decimalUintSchema (q_minPriceAtomic q)
          \<and> positiveDecimalUintSchema (q_maxPriceAtomic q) \<and> decimalUintSchema (q_priceAtomic q)
          \<and> unixSecondsSchema (q_issuedAtUnix q) \<and> unixSecondsSchema (q_expiresAtUnix q)
          \<and> quote_refined r
       then Inr r else Inl CommerceSchemaError)"

record job_event =
  ev_eventId :: string
  ev_eventKey :: string
  ev_jobKey :: job_key
  ev_eventType :: job_event_type
  ev_previousState :: "job_state option"
  ev_nextState :: "job_state option"
  ev_actorAddress :: "string option"
  ev_transactionHash :: "string option"
  ev_blockNumber :: "string option"
  ev_blockHash :: "string option"
  ev_logIndex :: "int option"
  ev_confirmationState :: confirmation_state
  ev_payloadDigest :: string
  ev_payload :: js_value
  ev_correlationId :: string
  ev_observedAtUnix :: int

definition erc8183JobEventSchema :: "runtime \<Rightarrow> job_event \<Rightarrow> commerce_exn + job_event" where
  "erc8183JobEventSchema rt e =
     (if uuid_schema rt (ev_eventId e) \<and> text_between 240 (ev_eventKey e)
         \<and> erc8183JobKeySchema (ev_jobKey e) \<and> nullable nonZeroAddressSchema (ev_actorAddress e)
         \<and> nullable transactionHashSchema (ev_transactionHash e)
         \<and> nullable decimalUintSchema (ev_blockNumber e)
         \<and> nullable transactionHashSchema (ev_blockHash e)
         \<and> nullable (\<lambda>i. 0 \<le> i) (ev_logIndex e) \<and> contentDigestSchema (ev_payloadDigest e)
         \<and> text_between 160 (ev_correlationId e) \<and> unixSecondsSchema (ev_observedAtUnix e)
      then Inr (e\<lparr>ev_eventKey := js_trim (ev_eventKey e), ev_correlationId := js_trim (ev_correlationId e)\<rparr>)
      else Inl CommerceSchemaError)"

record reconciliation =
  rc_reconciliationId :: string
  rc_jobKey :: job_key
  rc_state :: reconciliation_state
  rc_reasonCode :: string
  rc_attemptCount :: int
  rc_nextAttemptAtUnix :: "int option"
  rc_lastObservedTransactionHash :: "string option"
  rc_lastObservedBlock :: "string option"
  rc_detailDigest :: "string option"
  rc_createdAtUnix :: int
  rc_updatedAtUnix :: int

definition erc8183ReconciliationSchema ::
    "runtime \<Rightarrow> reconciliation \<Rightarrow> commerce_exn + reconciliation" where
  "erc8183ReconciliationSchema rt r =
     (if uuid_schema rt (rc_reconciliationId r) \<and> erc8183JobKeySchema (rc_jobKey r)
         \<and> text_between 80 (rc_reasonCode r) \<and> 0 \<le> rc_attemptCount r
         \<and> nullable unixSecondsSchema (rc_nextAttemptAtUnix r)
         \<and> nullable transactionHashSchema (rc_lastObservedTransactionHash r)
         \<and> nullable decimalUintSchema (rc_lastObservedBlock r)
         \<and> nullable contentDigestSchema (rc_detailDigest r)
         \<and> unixSecondsSchema (rc_createdAtUnix r) \<and> unixSecondsSchema (rc_updatedAtUnix r)
      then Inr (r\<lparr>rc_reasonCode := js_trim (rc_reasonCode r)\<rparr>) else Inl CommerceSchemaError)"

text \<open>
  Optional properties are \<open>None\<close> when undefined; \<open>md_providerAddress\<close> may besides be null.
\<close>

record action_metadata =
  md_deliverableDigest :: "string option"
  md_providerAddress :: "string option option"
  md_budgetAtomic :: "string option"
  md_transactionHash :: "string option"
  md_blockNumber :: "string option"
  md_blockHash :: "string option"
  md_logIndex :: "int option"
  md_payload :: "js_value option"

definition no_metadata :: action_metadata where
  "no_metadata = \<lparr>md_deliverableDigest = None, md_providerAddress = None, md_budgetAtomic = None,
     md_transactionHash = None, md_blockNumber = None, md_blockHash = None, md_logIndex = None,
     md_payload = None\<rparr>"

lemma no_metadata_fields [simp]:
  "md_deliverableDigest no_metadata = None" "md_providerAddress no_metadata = None"
  "md_budgetAtomic no_metadata = None" "md_transactionHash no_metadata = None"
  "md_payload no_metadata = None"
  by (simp_all add: no_metadata_def)

section \<open>The objects that are digested\<close>

definition job_key_json :: "job_key \<Rightarrow> js_value" where
  "job_key_json k = JObject [(''chainId'', JNumber (jk_chainId k)),
     (''commerceContract'', JString (jk_commerceContract k)), (''jobId'', JString (jk_jobId k))]"

definition job_terms_json :: "job_terms \<Rightarrow> js_value" where
  "job_terms_json t = JObject
     [(''chainId'', JNumber (t_chainId t)), (''commerceContract'', JString (t_commerceContract t)),
      (''paymentToken'', JString (t_paymentToken t)), (''paymentDecimals'', JNumber (t_paymentDecimals t)),
      (''clientAddress'', JString (t_clientAddress t)),
      (''providerAddress'', jopt JString (t_providerAddress t)),
      (''evaluatorAddress'', JString (t_evaluatorAddress t)),
      (''hookAddress'', jopt JString (t_hookAddress t)), (''budgetAtomic'', JString (t_budgetAtomic t)),
      (''descriptionDigest'', JString (t_descriptionDigest t)),
      (''expiresAtUnix'', JNumber (t_expiresAtUnix t))]"

definition identity_json :: "erc8004_identity \<Rightarrow> js_value" where
  "identity_json i = JObject [(''namespace'', JString (id_namespace i)), (''chainId'', JNumber (id_chainId i)),
     (''identityRegistry'', JString (id_registry i)), (''agentId'', JString (id_agentId i))]"

definition provider_binding_json :: "provider_binding \<Rightarrow> js_value" where
  "provider_binding_json b = JObject [(''identity'', identity_json (pb_identity b)),
     (''agentVersionId'', JString (pb_agentVersionId b)), (''agentVersion'', JNumber (pb_agentVersion b))]"

definition buyer_approval_json :: "buyer_approval \<Rightarrow> js_value" where
  "buyer_approval_json a = JObject [(''buyerAddress'', JString (ba_buyerAddress a)),
     (''resultDigest'', JString (ba_resultDigest a)), (''approvedAtUnix'', JNumber (ba_approvedAtUnix a))]"

definition job_state_json :: "job_state \<Rightarrow> js_value" where
  "job_state_json s = JString (job_state_name s)"

text \<open>The fields without the two time stamps, as \<open>creationRequestDigest\<close> digests them.\<close>

definition job_request_fields :: "job_record \<Rightarrow> (string \<times> js_value) list" where
  "job_request_fields j =
     [(''jobKey'', job_key_json (j_jobKey j)), (''terms'', job_terms_json (j_terms j)),
      (''deploymentPin'', pin_json (j_deploymentPin j)),
      (''deploymentPinDigest'', JString (j_deploymentPinDigest j)),
      (''state'', job_state_json (j_state j)),
      (''deliverableDigest'', jopt JString (j_deliverableDigest j)),
      (''providerBinding'', jopt provider_binding_json (j_providerBinding j)),
      (''buyerApproval'', jopt buyer_approval_json (j_buyerApproval j)),
      (''fundingTransactionHash'', jopt JString (j_fundingTransactionHash j)),
      (''submissionTransactionHash'', jopt JString (j_submissionTransactionHash j)),
      (''completionTransactionHash'', jopt JString (j_completionTransactionHash j)),
      (''rejectionTransactionHash'', jopt JString (j_rejectionTransactionHash j)),
      (''refundTransactionHash'', jopt JString (j_refundTransactionHash j)),
      (''lastObservedBlock'', jopt JString (j_lastObservedBlock j)),
      (''lastObservedBlockHash'', jopt JString (j_lastObservedBlockHash j)),
      (''lastObservedAtUnix'', jopt JNumber (j_lastObservedAtUnix j))]"

definition job_json :: "job_record \<Rightarrow> js_value" where
  "job_json j = JObject (job_request_fields j
     @ [(''createdAtUnix'', JNumber (j_createdAtUnix j)), (''updatedAtUnix'', JNumber (j_updatedAtUnix j))])"

definition quote_json :: "quote \<Rightarrow> js_value" where
  "quote_json q = JObject
     [(''quoteId'', JString (q_quoteId q)), (''jobKey'', job_key_json (q_jobKey q)),
      (''chainId'', JNumber (q_chainId q)), (''commerceContract'', JString (q_commerceContract q)),
      (''paymentToken'', JString (q_paymentToken q)), (''paymentDecimals'', JNumber (q_paymentDecimals q)),
      (''providerAddress'', JString (q_providerAddress q)),
      (''descriptionDigest'', JString (q_descriptionDigest q)),
      (''minPriceAtomic'', JString (q_minPriceAtomic q)), (''maxPriceAtomic'', JString (q_maxPriceAtomic q)),
      (''priceAtomic'', JString (q_priceAtomic q)), (''issuedAtUnix'', JNumber (q_issuedAtUnix q)),
      (''expiresAtUnix'', JNumber (q_expiresAtUnix q)), (''idempotencyKey'', JString (q_idempotencyKey q))]"

definition metadata_json :: "action_metadata \<Rightarrow> js_value" where
  "metadata_json m = JObject
     (jfield ''deliverableDigest'' JString (md_deliverableDigest m)
      @ jfield ''providerAddress'' (jopt JString) (md_providerAddress m)
      @ jfield ''budgetAtomic'' JString (md_budgetAtomic m)
      @ jfield ''transactionHash'' JString (md_transactionHash m)
      @ jfield ''blockNumber'' JString (md_blockNumber m)
      @ jfield ''blockHash'' JString (md_blockHash m)
      @ jfield ''logIndex'' JNumber (md_logIndex m)
      @ jfield ''payload'' id (md_payload m))"

section \<open>What a digest determines\<close>

named_theorems json_eq \<open>equal normal forms of encoded records\<close>

lemma pin_json_norm [json_eq]: "json_norm (pin_json p) = json_norm (pin_json q) \<longleftrightarrow> p = q"
proof
  assume eq: "json_norm (pin_json p) = json_norm (pin_json q)"
  show "p = q"
    using norm_object_same_keys [OF eq [unfolded pin_json_def]]
    by (simp add: enabled_pin.equality)
qed simp

lemma job_key_json_norm [json_eq]: "json_norm (job_key_json p) = json_norm (job_key_json q) \<longleftrightarrow> p = q"
proof
  assume eq: "json_norm (job_key_json p) = json_norm (job_key_json q)"
  show "p = q"
    using norm_object_same_keys [OF eq [unfolded job_key_json_def]]
    by (simp add: job_key.equality)
qed simp

lemma job_terms_json_norm [json_eq]: "json_norm (job_terms_json p) = json_norm (job_terms_json q) \<longleftrightarrow> p = q"
proof
  assume eq: "json_norm (job_terms_json p) = json_norm (job_terms_json q)"
  show "p = q"
    using norm_object_same_keys [OF eq [unfolded job_terms_json_def]]
    by (simp add: job_terms.equality)
qed simp

lemma identity_json_norm [json_eq]: "json_norm (identity_json p) = json_norm (identity_json q) \<longleftrightarrow> p = q"
proof
  assume eq: "json_norm (identity_json p) = json_norm (identity_json q)"
  show "p = q"
    using norm_object_same_keys [OF eq [unfolded identity_json_def]]
    by (simp add: erc8004_identity.equality)
qed simp

lemma provider_binding_json_norm [json_eq]:
  "json_norm (provider_binding_json p) = json_norm (provider_binding_json q) \<longleftrightarrow> p = q"
proof
  assume eq: "json_norm (provider_binding_json p) = json_norm (provider_binding_json q)"
  show "p = q"
    using norm_object_same_keys [OF eq [unfolded provider_binding_json_def]]
    by (simp add: provider_binding.equality identity_json_norm del: json_norm.simps)
qed simp

lemma buyer_approval_json_norm [json_eq]:
  "json_norm (buyer_approval_json p) = json_norm (buyer_approval_json q) \<longleftrightarrow> p = q"
proof
  assume eq: "json_norm (buyer_approval_json p) = json_norm (buyer_approval_json q)"
  show "p = q"
    using norm_object_same_keys [OF eq [unfolded buyer_approval_json_def]]
    by (simp add: buyer_approval.equality)
qed simp

lemma encoded_objects_not_null [simp]:
  "json_norm (provider_binding_json b) \<noteq> JNull" "json_norm (buyer_approval_json a) \<noteq> JNull"
  by (simp_all add: provider_binding_json_def buyer_approval_json_def)

lemma jopt_record_norm [json_eq]:
  "json_norm (jopt provider_binding_json x) = json_norm (jopt provider_binding_json y) \<longleftrightarrow> x = y"
  "json_norm (jopt buyer_approval_json u) = json_norm (jopt buyer_approval_json v) \<longleftrightarrow> u = v"
  by (rule json_norm_jopt_inj, simp_all add: json_eq)+

text \<open>Two jobs with one digest are the same job.\<close>

lemma job_json_norm [json_eq]: "json_norm (job_json p) = json_norm (job_json q) \<longleftrightarrow> p = q"
proof
  assume eq: "json_norm (job_json p) = json_norm (job_json q)"
  show "p = q"
    using norm_object_same_keys [OF eq [unfolded job_json_def]]
    by (simp add: job_request_fields_def job_state_json_def job_record.equality json_eq del: json_norm.simps)
qed simp

lemma job_request_fields_times [simp]:
  "job_request_fields (q\<lparr>j_createdAtUnix := a, j_updatedAtUnix := b\<rparr>) = job_request_fields q"
  by (simp add: job_request_fields_def)

text \<open>Two creation requests with one digest agree in everything but the time stamps.\<close>

lemma job_request_norm [json_eq]:
  "json_norm (JObject (job_request_fields p)) = json_norm (JObject (job_request_fields q)) \<longleftrightarrow>
   p = q\<lparr>j_createdAtUnix := j_createdAtUnix p, j_updatedAtUnix := j_updatedAtUnix p\<rparr>"
proof
  assume eq: "json_norm (JObject (job_request_fields p)) = json_norm (JObject (job_request_fields q))"
  show "p = q\<lparr>j_createdAtUnix := j_createdAtUnix p, j_updatedAtUnix := j_updatedAtUnix p\<rparr>"
    using norm_object_same_keys [OF eq]
    by (simp add: job_request_fields_def job_state_json_def job_record.equality json_eq del: json_norm.simps)
next
  assume "p = q\<lparr>j_createdAtUnix := j_createdAtUnix p, j_updatedAtUnix := j_updatedAtUnix p\<rparr>"
  then have "job_request_fields p = job_request_fields q"
    by (metis job_request_fields_times)
  then show "json_norm (JObject (job_request_fields p)) = json_norm (JObject (job_request_fields q))"
    by simp
qed

lemma encoded_clean [simp]:
  "json_clean (pin_json p)" "json_clean (job_key_json k)" "json_clean (job_terms_json t)"
  "json_clean (identity_json i)" "json_clean (provider_binding_json b)"
  "json_clean (buyer_approval_json a)" "json_clean (quote_json q)"
  by (simp_all add: pin_json_def job_key_json_def job_terms_json_def identity_json_def
      provider_binding_json_def buyer_approval_json_def quote_json_def)

lemma job_json_clean [simp]: "json_clean (job_json j)" "json_clean (JObject (job_request_fields j))"
  by (simp_all add: job_json_def job_request_fields_def job_state_json_def)

end
