(* ===== verification/Commerce_Validation.thy ===== *)
theory Commerce_Validation
  imports Commerce_Types
begin

text \<open>
  packages/agent-commerce/src/validation.ts and events.ts: what the commerce boundary checks of an
  address, an amount, a job key, a deployment pin, job terms and a quote before anything acts on
  them, and the construction of a job event. Each function returns the normalised value or the
  \<open>CommerceError\<close> the code throws.
\<close>

section \<open>Public payloads\<close>

definition starts_with :: "string \<Rightarrow> string \<Rightarrow> bool" where
  "starts_with p s \<longleftrightarrow> take (length p) s = p"

text \<open>What \<open>.\<close> of a regular expression does not match, below code unit 256.\<close>

definition line_terminator :: "char \<Rightarrow> bool" where
  "line_terminator c \<longleftrightarrow> code c = 10 \<or> code c = 13"

text \<open>\<open>gap_at a b s\<close>: the pattern \<open>a.?b\<close> matches at the start of \<open>s\<close>.\<close>

definition gap_at :: "string \<Rightarrow> string \<Rightarrow> string \<Rightarrow> bool" where
  "gap_at a b s \<longleftrightarrow> starts_with a s \<and>
     (let r = drop (length a) s in
      starts_with b r \<or> (case r of [] \<Rightarrow> False | c # r' \<Rightarrow> \<not> line_terminator c \<and> starts_with b r'))"

fun somewhere :: "(string \<Rightarrow> bool) \<Rightarrow> string \<Rightarrow> bool" where
  "somewhere p [] = p []"
| "somewhere p (c # cs) = (p (c # cs) \<or> somewhere p cs)"

definition forbidden_at :: "string \<Rightarrow> bool" where
  "forbidden_at s \<longleftrightarrow> gap_at ''private'' ''key'' s \<or> starts_with ''seed'' s \<or> starts_with ''mnemonic'' s
     \<or> starts_with ''password'' s \<or> starts_with ''secret'' s \<or> starts_with ''credential'' s
     \<or> gap_at ''session'' ''token'' s \<or> gap_at ''access'' ''token'' s
     \<or> gap_at ''raw'' ''signature'' s \<or> gap_at ''wallet'' ''key'' s"

definition FORBIDDEN_FIELD :: "string \<Rightarrow> bool" where
  "FORBIDDEN_FIELD key \<longleftrightarrow> somewhere forbidden_at (js_lower key)"

text \<open>An object of a class is represented without own enumerable fields.\<close>

fun assertPublicPayloadSafe :: "js_value \<Rightarrow> commerce_exn + unit"
and assertItemsSafe :: "js_value list \<Rightarrow> commerce_exn + unit"
and assertFieldsSafe :: "(string \<times> js_value) list \<Rightarrow> commerce_exn + unit"
where
  "assertPublicPayloadSafe (JArray vs) = assertItemsSafe vs"
| "assertPublicPayloadSafe (JObject kvs) = assertFieldsSafe kvs"
| "assertPublicPayloadSafe _ = Inr ()"
| "assertItemsSafe [] = Inr ()"
| "assertItemsSafe (v # vs) = bindE (assertPublicPayloadSafe v) (\<lambda>_. assertItemsSafe vs)"
| "assertFieldsSafe [] = Inr ()"
| "assertFieldsSafe ((k, v) # kvs) =
     (if FORBIDDEN_FIELD k then Inl (commerce_error INVALID_JOB)
      else bindE (assertPublicPayloadSafe v) (\<lambda>_. assertFieldsSafe kvs))"

text \<open>Every field name that occurs in a value, at any depth.\<close>

fun field_names :: "js_value \<Rightarrow> string set"
and item_names :: "js_value list \<Rightarrow> string set"
and entry_names :: "(string \<times> js_value) list \<Rightarrow> string set"
where
  "field_names (JArray vs) = item_names vs"
| "field_names (JObject kvs) = entry_names kvs"
| "field_names _ = {}"
| "item_names [] = {}"
| "item_names (v # vs) = field_names v \<union> item_names vs"
| "entry_names [] = {}"
| "entry_names ((k, v) # kvs) = insert k (field_names v \<union> entry_names kvs)"

lemma payload_safe_iff:
  "assertPublicPayloadSafe v = Inr () \<longleftrightarrow> (\<forall>k \<in> field_names v. \<not> FORBIDDEN_FIELD k)"
  "assertItemsSafe vs = Inr () \<longleftrightarrow> (\<forall>k \<in> item_names vs. \<not> FORBIDDEN_FIELD k)"
  "assertFieldsSafe kvs = Inr () \<longleftrightarrow> (\<forall>k \<in> entry_names kvs. \<not> FORBIDDEN_FIELD k)"
  by (induction v and vs and kvs rule: assertPublicPayloadSafe_assertItemsSafe_assertFieldsSafe.induct)
    auto

lemma contentDigest_lower [text_intros]: "contentDigestSchema s \<Longrightarrow> contentDigestSchema (js_lower s)"
  by (auto simp: contentDigestSchema_def js_lower_def list_all_iff intro: is_hex_js_lower)

section \<open>Amounts and addresses\<close>

definition parseAtomic :: "string \<Rightarrow> commerce_exn + int" where
  "parseAtomic s =
     (if \<not> decimalUintSchema s then Inl (commerce_error INVALID_AMOUNT)
      else if int (dec_val s) > 2 ^ 256 - 1 then Inl (commerce_error INVALID_AMOUNT)
      else Inr (int (dec_val s)))"

definition normalizeAddress :: "string \<Rightarrow> commerce_exn + string" where
  "normalizeAddress s =
     (case normalizeEvmAddress s of
        Inl _ \<Rightarrow> Inl (commerce_error INVALID_ADDRESS)
      | Inr a \<Rightarrow> if zero_address a then Inl (commerce_error INVALID_ADDRESS) else Inr a)"

definition assertAddress :: "string \<Rightarrow> commerce_exn + unit" where
  "assertAddress s = (if \<not> nonZeroAddressSchema s then Inl (commerce_error INVALID_ADDRESS) else Inr ())"

definition assertChainId :: "int \<Rightarrow> commerce_exn + unit" where
  "assertChainId n = (if n \<noteq> 56 \<and> n \<noteq> 97 then Inl (commerce_error INVALID_CHAIN) else Inr ())"

lemma parseAtomic_Inr [result_simps]:
  "parseAtomic s = Inr n \<longleftrightarrow> is_decimal s \<and> n = int (dec_val s) \<and> n \<le> maxUint256"
  by (auto simp: parseAtomic_def decimalUintSchema_def maxUint256_def)

lemma zero_address_lower [simp]: "zero_address (js_lower s) = zero_address s"
  by (simp add: zero_address_def)

lemma nonZeroAddressSchema_lower [text_intros]: "nonZeroAddressSchema s \<Longrightarrow> nonZeroAddressSchema (js_lower s)"
  by (auto simp: nonZeroAddressSchema_def evmAddressSchema_def intro: js_lower_hex_prefix)

lemma normalizeAddress_Inr [result_simps]:
  "normalizeAddress s = Inr a \<longleftrightarrow> nonZeroAddressSchema s \<and> a = js_lower s"
  by (auto simp: normalizeAddress_def normalizeEvmAddress_def nonZeroAddressSchema_def)

lemma normalizeAddress_of_schema [simp]: "nonZeroAddressSchema s \<Longrightarrow> normalizeAddress s = Inr (js_lower s)"
  by (simp add: normalizeAddress_Inr)

text \<open>
  What every package expects of its address normaliser: it accepts its own results unchanged, and
  two addresses it maps to one result are interchangeable for it.
\<close>

locale normaliser =
  fixes norm :: "'a \<Rightarrow> 'e + 'a"
  assumes norm_idem: "norm x = Inr y \<Longrightarrow> norm y = Inr y"
begin

lemma norm_twice: "bindE (norm x) norm = norm x"
  by (cases "norm x") (auto simp: norm_idem)

lemma norm_fixpoints: "(\<exists>x. norm x = Inr y) \<longleftrightarrow> norm y = Inr y"
  by (blast intro: norm_idem)

lemma norm_mapE: "mapE norm xs = Inr ys \<Longrightarrow> mapE norm ys = Inr ys"
  by (induction xs arbitrary: ys) (auto simp: norm_idem)

lemma norm_class: "norm x = Inr y \<Longrightarrow> norm x' = Inr y \<Longrightarrow> norm y = norm x \<and> norm y = norm x'"
  by (simp add: norm_idem)

end

interpretation address: normaliser normalizeAddress
  by unfold_locales (auto simp: normalizeAddress_Inr intro: nonZeroAddressSchema_lower)

interpretation evm_address: normaliser normalizeEvmAddress
  by unfold_locales (rule normalizeEvmAddress_idem)

section \<open>Job keys\<close>

definition normalizeJobKey :: "job_key \<Rightarrow> commerce_exn + job_key" where
  "normalizeJobKey k =
     (if \<not> erc8183JobKeySchema k then Inl (commerce_error INVALID_JOB)
      else bindE (normalizeAddress (jk_commerceContract k)) (\<lambda>c. Inr (k\<lparr>jk_commerceContract := c\<rparr>)))"

lemma normalizeJobKey_Inr [result_simps]:
  "normalizeJobKey k = Inr k' \<longleftrightarrow>
   erc8183JobKeySchema k \<and> k' = k\<lparr>jk_commerceContract := js_lower (jk_commerceContract k)\<rparr>"
  by (auto simp: normalizeJobKey_def normalizeAddress_Inr erc8183JobKeySchema_def)

interpretation job_key: normaliser normalizeJobKey
  by unfold_locales (auto simp: normalizeJobKey_Inr erc8183JobKeySchema_def intro: nonZeroAddressSchema_lower)

section \<open>Deployment pins\<close>

definition parseEnabledDeploymentPin :: "pin_input \<Rightarrow> commerce_exn + enabled_pin" where
  "parseEnabledDeploymentPin i =
     (case erc8183DeploymentPinSchema i of
        Inl _ \<Rightarrow> Inl (commerce_error COMMERCE_DISABLED)
      | Inr (Pin_Enabled p) \<Rightarrow>
          bindE (normalizeAddress (pin_commerceContract p)) (\<lambda>c.
          bindE (normalizeAddress (pin_paymentToken p)) (\<lambda>t.
          Inr (p\<lparr>pin_commerceContract := c, pin_paymentToken := t\<rparr>)))
      | Inr _ \<Rightarrow> Inl (CommerceError COMMERCE_DISABLED False ''verify_standards_lock''))"

definition pin_digest :: "runtime \<Rightarrow> enabled_pin \<Rightarrow> commerce_exn + string" where
  "pin_digest rt p = from_js (erc8183DeploymentPinDigest rt p)"

definition migrationCap :: string where
  "migrationCap = ''10000000000000000''"

definition uncappedBudget :: string where
  "uncappedBudget = show_nat (2 ^ 256 - 2)"

definition assertDeploymentPinSnapshot ::
    "runtime \<Rightarrow> enabled_pin \<Rightarrow> string \<Rightarrow> enabled_pin \<Rightarrow> commerce_exn + unit" where
  "assertDeploymentPinSnapshot rt snapshot snapshotDigest trustedPin =
     bindE (parseEnabledDeploymentPin (Pin_Enabled snapshot)) (\<lambda>persisted.
     bindE (pin_digest rt (persisted\<lparr>pin_maxBudgetAtomic := pin_maxBudgetAtomic trustedPin\<rparr>)) (\<lambda>migratedDigest.
     bindE (pin_digest rt trustedPin) (\<lambda>trustedDigest.
     bindE (pin_digest rt persisted) (\<lambda>persistedDigest.
       let migration = (pin_chainId persisted = 56 \<and> pin_chainId trustedPin = 56
             \<and> pin_maxBudgetAtomic persisted = migrationCap
             \<and> pin_maxBudgetAtomic trustedPin = uncappedBudget
             \<and> migratedDigest = trustedDigest) in
       if persistedDigest \<noteq> snapshotDigest \<or> (trustedDigest \<noteq> snapshotDigest \<and> \<not> migration)
       then Inl (commerce_error ONCHAIN_MISMATCH) else Inr ()))))"

definition ERC8183_MVP_MAX_BUDGET_ATOMIC :: string where
  "ERC8183_MVP_MAX_BUDGET_ATOMIC = ''10000000000000000''"

text \<open>\<open>same_address a b\<close>: the comparison of two normalised addresses; either may be refused.\<close>

definition same_address :: "string \<Rightarrow> string \<Rightarrow> commerce_exn + bool" where
  "same_address a b = bindE (normalizeAddress a) (\<lambda>x. bindE (normalizeAddress b) (\<lambda>y. Inr (x = y)))"

definition assertPinMatchesJob :: "job_terms \<Rightarrow> enabled_pin \<Rightarrow> commerce_exn + unit" where
  "assertPinMatchesJob t p =
     (if t_chainId t \<noteq> pin_chainId p then Inl (commerce_error INVALID_CHAIN)
      else bindE (same_address (t_commerceContract t) (pin_commerceContract p)) (\<lambda>c.
        if \<not> c then Inl (commerce_error INVALID_CONTRACT)
        else bindE (same_address (t_paymentToken t) (pin_paymentToken p)) (\<lambda>k.
          if \<not> k then Inl (commerce_error INVALID_TOKEN)
          else if t_paymentDecimals t \<noteq> pin_paymentDecimals p then Inl (commerce_error INVALID_TOKEN)
          else Inr ())))"

definition assertBudgetMatchesPin :: "string \<Rightarrow> enabled_pin \<Rightarrow> commerce_exn + unit" where
  "assertBudgetMatchesPin budgetAtomic p =
     bindE (parseAtomic budgetAtomic) (\<lambda>_.
       let budget = dec_val budgetAtomic in
       if budget < dec_val (pin_minBudgetAtomic p) \<or> budget > dec_val (pin_maxBudgetAtomic p)
          \<or> budget \<ge> 2 ^ 256 - 1
          \<or> (pin_chainId p = 97 \<and> budget > dec_val ERC8183_MVP_MAX_BUDGET_ATOMIC)
       then Inl (commerce_error INVALID_AMOUNT) else Inr ())"

lemma same_address_Inr [result_simps]:
  "same_address a b = Inr r \<longleftrightarrow> nonZeroAddressSchema a \<and> nonZeroAddressSchema b \<and> r = (js_lower a = js_lower b)"
  by (auto simp: same_address_def normalizeAddress_Inr)

lemma assertPinMatchesJob_Inr [result_simps]:
  "assertPinMatchesJob t p = Inr () \<longleftrightarrow> t_chainId t = pin_chainId p
     \<and> nonZeroAddressSchema (t_commerceContract t) \<and> nonZeroAddressSchema (pin_commerceContract p)
     \<and> js_lower (t_commerceContract t) = js_lower (pin_commerceContract p)
     \<and> nonZeroAddressSchema (t_paymentToken t) \<and> nonZeroAddressSchema (pin_paymentToken p)
     \<and> js_lower (t_paymentToken t) = js_lower (pin_paymentToken p)
     \<and> t_paymentDecimals t = pin_paymentDecimals p"
  by (auto simp: assertPinMatchesJob_def same_address_Inr)

lemma assertBudgetMatchesPin_Inr [result_simps]:
  "assertBudgetMatchesPin b p = Inr () \<longleftrightarrow> is_decimal b
     \<and> dec_val (pin_minBudgetAtomic p) \<le> dec_val b \<and> dec_val b \<le> dec_val (pin_maxBudgetAtomic p)
     \<and> int (dec_val b) < maxUint256
     \<and> (pin_chainId p = 97 \<longrightarrow> dec_val b \<le> dec_val ERC8183_MVP_MAX_BUDGET_ATOMIC)"
  by (auto simp: assertBudgetMatchesPin_def parseAtomic_Inr maxUint256_def not_le not_less Let_def)

text \<open>The digests of pins are always defined; equal digests without a collision mean equal pins.\<close>

lemma pin_digest_defined [simp]: "pin_digest rt p = Inr (sha256 rt (json_text (json_norm (pin_json (lower_pin p)))))"
  by (simp add: pin_digest_def erc8183DeploymentPinDigest_def digest_of_Inr)

lemma trim_pin_idem [simp]: "trim_pin (trim_pin p) = trim_pin p"
  by (simp add: trim_pin_def)

lemma enabledPinSchema_Inr:
  "enabledErc8183DeploymentPinSchema p = Inr q \<Longrightarrow> q = trim_pin p \<and> enabledErc8183DeploymentPinSchema q = Inr q"
  by (auto simp: enabledErc8183DeploymentPinSchema_def trim_pin_def text_between_def split: if_splits)

text \<open>\<open>pin_ok q\<close>: what the code knows of a pin it has parsed.\<close>

definition pin_ok :: "enabled_pin \<Rightarrow> bool" where
  "pin_ok q \<longleftrightarrow> enabledErc8183DeploymentPinSchema q = Inr q
     \<and> dec_val (pin_minBudgetAtomic q) \<le> dec_val (pin_maxBudgetAtomic q)
     \<and> pin_minExpiryLeadSeconds q \<le> pin_maxExpiryHorizonSeconds q \<and> lower_pin q = q"

lemma pin_schema_lower:
  assumes "enabledErc8183DeploymentPinSchema q = Inr q"
  shows "enabledErc8183DeploymentPinSchema (lower_pin q) = Inr (lower_pin q)"
proof -
  have "enabledErc8183DeploymentPinSchema (lower_pin q) = Inr (trim_pin (lower_pin q))"
    using assms by (auto simp: enabledErc8183DeploymentPinSchema_def lower_pin_def
        intro: nonZeroAddressSchema_lower split: if_splits)
  also have "trim_pin (lower_pin q) = lower_pin (trim_pin q)"
    by (simp add: trim_pin_def lower_pin_def)
  also have "trim_pin q = q" using enabledPinSchema_Inr [OF assms] by simp
  finally show ?thesis .
qed

lemma pin_schema_addresses:
  "enabledErc8183DeploymentPinSchema p = Inr q \<Longrightarrow>
   nonZeroAddressSchema (pin_commerceContract q) \<and> nonZeroAddressSchema (pin_paymentToken q)"
  by (auto simp: enabledErc8183DeploymentPinSchema_def trim_pin_def split: if_splits)

lemma parse_pin_Inr [result_simps]:
  "parseEnabledDeploymentPin i = Inr q \<longleftrightarrow>
   (\<exists>p. i = Pin_Enabled p \<and> (\<exists>r. enabledErc8183DeploymentPinSchema p = Inr r \<and> q = lower_pin r
      \<and> dec_val (pin_minBudgetAtomic r) \<le> dec_val (pin_maxBudgetAtomic r)
      \<and> pin_minExpiryLeadSeconds r \<le> pin_maxExpiryHorizonSeconds r))"
proof -
  have schema: "erc8183DeploymentPinSchema i = Inr (Pin_Enabled r) \<longleftrightarrow>
     (\<exists>p. i = Pin_Enabled p \<and> enabledErc8183DeploymentPinSchema p = Inr r
      \<and> dec_val (pin_minBudgetAtomic r) \<le> dec_val (pin_maxBudgetAtomic r)
      \<and> pin_minExpiryLeadSeconds r \<le> pin_maxExpiryHorizonSeconds r)" for r
    by (auto simp: erc8183DeploymentPinSchema_def split: pin_input.splits if_splits)
  show ?thesis (is "?l \<longleftrightarrow> ?r")
  proof
    assume ?l
    then obtain r where r: "erc8183DeploymentPinSchema i = Inr (Pin_Enabled r)"
      and q: "bindE (normalizeAddress (pin_commerceContract r)) (\<lambda>c.
          bindE (normalizeAddress (pin_paymentToken r)) (\<lambda>t.
          Inr (r\<lparr>pin_commerceContract := c, pin_paymentToken := t\<rparr>))) = Inr q"
      by (auto simp: parseEnabledDeploymentPin_def split: sum.splits pin_input.splits)
    from q have "q = lower_pin r" by (auto simp: normalizeAddress_Inr lower_pin_def)
    with r schema show ?r by auto
  next
    assume ?r
    then obtain r where r: "erc8183DeploymentPinSchema i = Inr (Pin_Enabled r)" and q: "q = lower_pin r"
      and p: "\<exists>p. enabledErc8183DeploymentPinSchema p = Inr r"
      using schema by auto
    from p pin_schema_addresses have "nonZeroAddressSchema (pin_commerceContract r)"
      "nonZeroAddressSchema (pin_paymentToken r)" by auto
    with r q show ?l by (simp add: parseEnabledDeploymentPin_def lower_pin_def)
  qed
qed

lemma lower_pin_idem [simp]: "lower_pin (lower_pin p) = lower_pin p"
  by (simp add: lower_pin_def)

lemma lower_pin_fields [simp]:
  "pin_chainId (lower_pin p) = pin_chainId p" "pin_minBudgetAtomic (lower_pin p) = pin_minBudgetAtomic p"
  "pin_maxBudgetAtomic (lower_pin p) = pin_maxBudgetAtomic p"
  "pin_minExpiryLeadSeconds (lower_pin p) = pin_minExpiryLeadSeconds p"
  "pin_maxExpiryHorizonSeconds (lower_pin p) = pin_maxExpiryHorizonSeconds p"
  by (simp_all add: lower_pin_def)

lemma lower_pin_max [simp]:
  "lower_pin (p\<lparr>pin_maxBudgetAtomic := m\<rparr>) = (lower_pin p)\<lparr>pin_maxBudgetAtomic := m\<rparr>"
  by (simp add: lower_pin_def)

lemma parsed_pin_ok: "parseEnabledDeploymentPin i = Inr q \<Longrightarrow> pin_ok q"
  by (auto simp: parse_pin_Inr pin_ok_def dest: enabledPinSchema_Inr intro: pin_schema_lower)

lemma pin_ok_parses: "pin_ok q \<Longrightarrow> parseEnabledDeploymentPin (Pin_Enabled q) = Inr q"
  by (auto simp: parse_pin_Inr pin_ok_def)

lemma pin_ok_iff: "pin_ok q \<longleftrightarrow> parseEnabledDeploymentPin (Pin_Enabled q) = Inr q"
  using parsed_pin_ok pin_ok_parses by blast

text \<open>A pin digest is the digest of a pin with lower-case addresses.\<close>

lemma pin_digest_lower: "pin_digest rt (lower_pin p) = pin_digest rt p"
  by simp

lemma pin_digest_eq:
  assumes "pin_digest rt p = pin_digest rt q"
    and "no_collision rt (pin_json (lower_pin p)) (pin_json (lower_pin q))"
  shows "lower_pin p = lower_pin q"
proof -
  from assms(1) obtain d where "digest_of rt (pin_json (lower_pin p)) = Inr d"
    "digest_of rt (pin_json (lower_pin q)) = Inr d"
    by (auto simp: digest_of_Inr)
  then have "json_norm (pin_json (lower_pin p)) = json_norm (pin_json (lower_pin q))"
    by (rule digest_of_eq_norm [OF _ _ assms(2)])
  then show ?thesis by (simp add: json_eq)
qed

lemma snapshot_Inr [result_simps]:
  "assertDeploymentPinSnapshot rt s d t = Inr () \<longleftrightarrow>
   (\<exists>p. parseEnabledDeploymentPin (Pin_Enabled s) = Inr p \<and> pin_digest rt p = Inr d
     \<and> (pin_digest rt t = Inr d \<or>
        (pin_chainId p = 56 \<and> pin_chainId t = 56 \<and> pin_maxBudgetAtomic p = migrationCap
         \<and> pin_maxBudgetAtomic t = uncappedBudget
         \<and> pin_digest rt (p\<lparr>pin_maxBudgetAtomic := pin_maxBudgetAtomic t\<rparr>) = pin_digest rt t)))"
  by (auto simp: assertDeploymentPinSnapshot_def Let_def)

section \<open>Job terms\<close>

definition normalizeNullable :: "string option \<Rightarrow> commerce_exn + string option" where
  "normalizeNullable x = parse_nullable normalizeAddress x"

definition normalizeJobTerms :: "job_terms \<Rightarrow> pin_input \<Rightarrow> commerce_exn + job_terms" where
  "normalizeJobTerms t pin =
     (if \<not> erc8183JobTermsSchema t then Inl (commerce_error INVALID_JOB)
      else bindE (parseEnabledDeploymentPin pin) (\<lambda>enabled.
        bindE (assertPinMatchesJob t enabled) (\<lambda>_.
        bindE (assertBudgetMatchesPin (t_budgetAtomic t) enabled) (\<lambda>_.
        bindE (normalizeAddress (t_commerceContract t)) (\<lambda>c.
        bindE (normalizeAddress (t_paymentToken t)) (\<lambda>k.
        bindE (normalizeAddress (t_clientAddress t)) (\<lambda>cl.
        bindE (normalizeNullable (t_providerAddress t)) (\<lambda>pr.
        bindE (normalizeAddress (t_evaluatorAddress t)) (\<lambda>ev.
        bindE (normalizeNullable (t_hookAddress t)) (\<lambda>h.
        Inr (t\<lparr>t_commerceContract := c, t_paymentToken := k, t_clientAddress := cl,
              t_providerAddress := pr, t_evaluatorAddress := ev, t_hookAddress := h\<rparr>)))))))))))"

definition validateJobTerms :: "job_terms \<Rightarrow> pin_input \<Rightarrow> int \<Rightarrow> commerce_exn + job_terms" where
  "validateJobTerms input pin nowUnix =
     bindE (normalizeJobTerms input pin) (\<lambda>t.
     bindE (parseEnabledDeploymentPin pin) (\<lambda>enabled.
       if \<not> isSafeInteger nowUnix \<or> nowUnix \<le> 0
          \<or> t_expiresAtUnix t \<le> nowUnix + pin_minExpiryLeadSeconds enabled
       then Inl (commerce_error INVALID_EXPIRY)
       else if t_expiresAtUnix t > nowUnix + pin_maxExpiryHorizonSeconds enabled
       then Inl (commerce_error INVALID_EXPIRY)
       else Inr t))"

definition lower_terms :: "job_terms \<Rightarrow> job_terms" where
  "lower_terms t = t\<lparr>t_commerceContract := js_lower (t_commerceContract t),
     t_paymentToken := js_lower (t_paymentToken t), t_clientAddress := js_lower (t_clientAddress t),
     t_providerAddress := map_option js_lower (t_providerAddress t),
     t_evaluatorAddress := js_lower (t_evaluatorAddress t),
     t_hookAddress := map_option js_lower (t_hookAddress t)\<rparr>"

lemma normalizeNullable_of_schema [simp]:
  "nullable nonZeroAddressSchema x \<Longrightarrow> normalizeNullable x = Inr (map_option js_lower x)"
  by (cases x) (auto simp: normalizeNullable_def parse_nullable_def)

lemma nullable_lower:
  "nullable nonZeroAddressSchema x \<Longrightarrow> nullable nonZeroAddressSchema (map_option js_lower x)"
  by (cases x) (auto intro: nonZeroAddressSchema_lower)

lemma map_option_lower_idem [simp]: "map_option js_lower (map_option js_lower x) = map_option js_lower x"
  by (cases x) simp_all

lemma normalizeJobTerms_Inr [result_simps]:
  "normalizeJobTerms t pin = Inr u \<longleftrightarrow> erc8183JobTermsSchema t \<and> u = lower_terms t
     \<and> (\<exists>p. parseEnabledDeploymentPin pin = Inr p \<and> assertPinMatchesJob t p = Inr ()
        \<and> assertBudgetMatchesPin (t_budgetAtomic t) p = Inr ())"
  by (auto simp: normalizeJobTerms_def erc8183JobTermsSchema_def lower_terms_def)

lemma terms_schema_lower: "erc8183JobTermsSchema t \<Longrightarrow> erc8183JobTermsSchema (lower_terms t)"
  by (auto simp: erc8183JobTermsSchema_def lower_terms_def
      intro: nonZeroAddressSchema_lower nullable_lower)

lemma lower_terms_idem [simp]: "lower_terms (lower_terms t) = lower_terms t"
  by (simp add: lower_terms_def)

lemma lower_terms_fields [simp]:
  "t_chainId (lower_terms t) = t_chainId t" "t_budgetAtomic (lower_terms t) = t_budgetAtomic t"
  "t_expiresAtUnix (lower_terms t) = t_expiresAtUnix t"
  "t_commerceContract (lower_terms t) = js_lower (t_commerceContract t)"
  "t_paymentToken (lower_terms t) = js_lower (t_paymentToken t)"
  "t_clientAddress (lower_terms t) = js_lower (t_clientAddress t)"
  "t_paymentDecimals (lower_terms t) = t_paymentDecimals t"
  by (simp_all add: lower_terms_def)

lemma pin_matches_lower:
  "assertPinMatchesJob t p = Inr () \<Longrightarrow> assertPinMatchesJob (lower_terms t) p = Inr ()"
  by (auto simp: assertPinMatchesJob_Inr intro: nonZeroAddressSchema_lower)

interpretation job_terms: normaliser "\<lambda>t. normalizeJobTerms t pin" for pin
  by unfold_locales (auto simp: normalizeJobTerms_Inr intro: terms_schema_lower pin_matches_lower)

lemma validateJobTerms_Inr [result_simps]:
  "validateJobTerms t pin now = Inr u \<longleftrightarrow>
   normalizeJobTerms t pin = Inr u \<and> isSafeInteger now \<and> 0 < now \<and>
   (\<exists>p. parseEnabledDeploymentPin pin = Inr p \<and> now + pin_minExpiryLeadSeconds p < t_expiresAtUnix t
      \<and> t_expiresAtUnix t \<le> now + pin_maxExpiryHorizonSeconds p)"
  by (auto simp: validateJobTerms_def normalizeJobTerms_Inr not_le not_less)

interpretation live_job_terms: normaliser "\<lambda>t. validateJobTerms t pin now" for pin now
  by unfold_locales (auto simp: validateJobTerms_Inr normalizeJobTerms_Inr
      intro: terms_schema_lower pin_matches_lower)

section \<open>Quotes\<close>

definition validateQuote :: "quote \<Rightarrow> pin_input \<Rightarrow> int \<Rightarrow> commerce_exn + quote" where
  "validateQuote input pin nowUnix =
     (case erc8183QuoteSchema input of
        Inl _ \<Rightarrow> Inl (commerce_error INVALID_QUOTE)
      | Inr q \<Rightarrow>
          bindE (parseEnabledDeploymentPin pin) (\<lambda>enabled.
          bindE (if jk_chainId (q_jobKey q) \<noteq> q_chainId q then Inr False
                 else same_address (jk_commerceContract (q_jobKey q)) (q_commerceContract q)) (\<lambda>own.
          if \<not> own then Inl (commerce_error INVALID_QUOTE) else
          bindE (if q_chainId q \<noteq> pin_chainId enabled then Inr False
                 else same_address (q_commerceContract q) (pin_commerceContract enabled)) (\<lambda>pinned.
          if \<not> pinned then Inl (commerce_error INVALID_CHAIN) else
          bindE (same_address (q_paymentToken q) (pin_paymentToken enabled)) (\<lambda>asset.
          if \<not> asset \<or> q_paymentDecimals q \<noteq> pin_paymentDecimals enabled
          then Inl (commerce_error INVALID_TOKEN) else
          bindE (parseAtomic (q_minPriceAtomic q)) (\<lambda>mn.
          bindE (parseAtomic (q_maxPriceAtomic q)) (\<lambda>mx.
          bindE (parseAtomic (q_priceAtomic q)) (\<lambda>price.
          if mn < int (dec_val (pin_minBudgetAtomic enabled)) \<or> mx > int (dec_val (pin_maxBudgetAtomic enabled))
             \<or> price < mn \<or> price > mx
          then Inl (commerce_error INVALID_AMOUNT)
          else if \<not> isSafeInteger nowUnix \<or> nowUnix \<le> 0 \<or> q_expiresAtUnix q \<le> nowUnix
          then Inl (commerce_error INVALID_EXPIRY)
          else if q_expiresAtUnix q > nowUnix + pin_maxExpiryHorizonSeconds enabled
          then Inl (commerce_error INVALID_EXPIRY) else
          bindE (normalizeAddress (jk_commerceContract (q_jobKey q))) (\<lambda>jc.
          bindE (normalizeAddress (q_commerceContract q)) (\<lambda>c.
          bindE (normalizeAddress (q_paymentToken q)) (\<lambda>t.
          bindE (normalizeAddress (q_providerAddress q)) (\<lambda>p.
          Inr (q\<lparr>q_jobKey := (q_jobKey q)\<lparr>jk_commerceContract := jc\<rparr>, q_commerceContract := c,
                q_paymentToken := t, q_providerAddress := p\<rparr>)))))))))))))"

definition quoteDigest :: "runtime \<Rightarrow> quote \<Rightarrow> js_error + string" where
  "quoteDigest rt q = digest_of rt (quote_json q)"

text \<open>What a caller may rely on for a quote that was accepted, in terms of the result.\<close>

definition quote_usable :: "enabled_pin \<Rightarrow> int \<Rightarrow> quote \<Rightarrow> bool" where
  "quote_usable p now q \<longleftrightarrow>
     q_chainId q = pin_chainId p \<and> jk_chainId (q_jobKey q) = pin_chainId p
     \<and> q_commerceContract q = pin_commerceContract p \<and> jk_commerceContract (q_jobKey q) = pin_commerceContract p
     \<and> q_paymentToken q = pin_paymentToken p \<and> q_paymentDecimals q = pin_paymentDecimals p
     \<and> dec_val (pin_minBudgetAtomic p) \<le> dec_val (q_minPriceAtomic q)
     \<and> dec_val (q_minPriceAtomic q) \<le> dec_val (q_priceAtomic q)
     \<and> dec_val (q_priceAtomic q) \<le> dec_val (q_maxPriceAtomic q)
     \<and> dec_val (q_maxPriceAtomic q) \<le> dec_val (pin_maxBudgetAtomic p)
     \<and> now < q_expiresAtUnix q \<and> q_expiresAtUnix q \<le> now + pin_maxExpiryHorizonSeconds p
     \<and> q_issuedAtUnix q < q_expiresAtUnix q"

lemma quote_schema_Inr:
  assumes "erc8183QuoteSchema q = Inr r"
  shows "q_issuedAtUnix r < q_expiresAtUnix r" "erc8183QuoteSchema r = Inr r"
    "nonZeroAddressSchema (q_providerAddress r)" "nonZeroAddressSchema (q_commerceContract r)"
    "nonZeroAddressSchema (q_paymentToken r)" "nonZeroAddressSchema (jk_commerceContract (q_jobKey r))"
    "is_decimal (q_minPriceAtomic r)" "is_decimal (q_maxPriceAtomic r)" "is_decimal (q_priceAtomic r)"
  using assms
  by (auto simp: erc8183QuoteSchema_def idempotencyKeySchema_def Let_def quote_refined_def text_between_def
      erc8183JobKeySchema_def positiveDecimalUintSchema_def decimalUintSchema_def)

definition lower_quote :: "quote \<Rightarrow> quote" where
  "lower_quote s = s\<lparr>q_jobKey := (q_jobKey s)\<lparr>jk_commerceContract := js_lower (jk_commerceContract (q_jobKey s))\<rparr>,
      q_commerceContract := js_lower (q_commerceContract s), q_paymentToken := js_lower (q_paymentToken s),
      q_providerAddress := js_lower (q_providerAddress s)\<rparr>"

lemma quote_schema_lower:
  assumes "erc8183QuoteSchema s = Inr s"
  shows "erc8183QuoteSchema (lower_quote s) = Inr (lower_quote s)"
proof -
  from assms obtain key where key: "idempotencyKeySchema (q_idempotencyKey s) = Inr key"
    and s: "s\<lparr>q_quoteId := js_trim (q_quoteId s), q_idempotencyKey := key\<rparr> = s"
    by (auto simp: erc8183QuoteSchema_def Let_def)
  have trim: "js_trim (q_quoteId s) = q_quoteId s" "q_idempotencyKey s = key"
    using arg_cong [OF s, of q_quoteId] arg_cong [OF s, of q_idempotencyKey] by simp_all
  from assms key trim show ?thesis
    by (auto simp: erc8183QuoteSchema_def lower_quote_def Let_def quote_refined_def erc8183JobKeySchema_def
        intro: nonZeroAddressSchema_lower)
qed

text \<open>\<open>quote_fits p now s\<close>: what a parsed quote has to meet.\<close>

definition quote_fits :: "enabled_pin \<Rightarrow> int \<Rightarrow> quote \<Rightarrow> bool" where
  "quote_fits p now s \<longleftrightarrow>
     jk_chainId (q_jobKey s) = q_chainId s
     \<and> js_lower (jk_commerceContract (q_jobKey s)) = js_lower (q_commerceContract s)
     \<and> q_chainId s = pin_chainId p \<and> js_lower (q_commerceContract s) = pin_commerceContract p
     \<and> js_lower (q_paymentToken s) = pin_paymentToken p \<and> q_paymentDecimals s = pin_paymentDecimals p
     \<and> int (dec_val (q_minPriceAtomic s)) \<le> maxUint256 \<and> int (dec_val (q_maxPriceAtomic s)) \<le> maxUint256
     \<and> int (dec_val (q_priceAtomic s)) \<le> maxUint256
     \<and> dec_val (pin_minBudgetAtomic p) \<le> dec_val (q_minPriceAtomic s)
     \<and> dec_val (q_maxPriceAtomic s) \<le> dec_val (pin_maxBudgetAtomic p)
     \<and> dec_val (q_minPriceAtomic s) \<le> dec_val (q_priceAtomic s)
     \<and> dec_val (q_priceAtomic s) \<le> dec_val (q_maxPriceAtomic s)
     \<and> isSafeInteger now \<and> 0 < now \<and> now < q_expiresAtUnix s
     \<and> q_expiresAtUnix s \<le> now + pin_maxExpiryHorizonSeconds p"

lemma parsed_pin_addresses:
  assumes "parseEnabledDeploymentPin pin = Inr p"
  shows "js_lower (pin_commerceContract p) = pin_commerceContract p"
    "js_lower (pin_paymentToken p) = pin_paymentToken p"
    "nonZeroAddressSchema (pin_commerceContract p)" "nonZeroAddressSchema (pin_paymentToken p)"
  using assms
  by (auto simp: parse_pin_Inr lower_pin_def intro!: nonZeroAddressSchema_lower dest!: pin_schema_addresses)

lemma validateQuote_Inr [result_simps]:
  "validateQuote q pin now = Inr r \<longleftrightarrow>
   (\<exists>s p. erc8183QuoteSchema q = Inr s \<and> parseEnabledDeploymentPin pin = Inr p
      \<and> quote_fits p now s \<and> r = lower_quote s)"
proof (cases "erc8183QuoteSchema q")
  case (Inl e)
  then show ?thesis by (simp add: validateQuote_def)
next
  case (Inr s)
  note qf = quote_schema_Inr [OF Inr]
  show ?thesis
  proof (cases "parseEnabledDeploymentPin pin")
    case (Inl e)
    with Inr show ?thesis by (simp add: validateQuote_def)
  next
    case p: (Inr p)
    note pf = parsed_pin_addresses [OF p]
    show ?thesis
      unfolding validateQuote_def quote_fits_def lower_quote_def
      by (simp add: Inr p qf(3-9) pf same_address_Inr parseAtomic_Inr not_less not_le) (auto simp: eq_commute)
  qed
qed

lemma quote_fits_lower: "quote_fits p now s \<Longrightarrow> js_lower (pin_commerceContract p) = pin_commerceContract p \<Longrightarrow>
    js_lower (pin_paymentToken p) = pin_paymentToken p \<Longrightarrow> quote_fits p now (lower_quote s)"
  by (simp add: quote_fits_def lower_quote_def)

interpretation live_quote: normaliser "\<lambda>q. validateQuote q pin now" for pin now
proof
  fix q r assume "validateQuote q pin now = Inr r"
  then obtain s p where h: "erc8183QuoteSchema q = Inr s" "parseEnabledDeploymentPin pin = Inr p"
    "quote_fits p now s" "r = lower_quote s"
    by (auto simp: validateQuote_Inr)
  have "erc8183QuoteSchema r = Inr r"
    unfolding h(4) by (rule quote_schema_lower [OF quote_schema_Inr(2) [OF h(1)]])
  moreover have "quote_fits p now r"
    unfolding h(4) by (rule quote_fits_lower [OF h(3) parsed_pin_addresses(1,2) [OF h(2)]])
  moreover have "lower_quote r = r" unfolding h(4) by (simp add: lower_quote_def)
  ultimately show "validateQuote r pin now = Inr r" using h(2) by (simp add: validateQuote_Inr)
qed

lemma validateQuote_usable:
  assumes "validateQuote q pin now = Inr r" "parseEnabledDeploymentPin pin = Inr p"
  shows "quote_usable p now r"
proof -
  from assms obtain s where s: "erc8183QuoteSchema q = Inr s" "quote_fits p now s" "r = lower_quote s"
    by (auto simp: validateQuote_Inr)
  with quote_schema_Inr(1) [OF s(1)] show ?thesis
    by (simp add: quote_usable_def quote_fits_def lower_quote_def)
qed

section \<open>Events\<close>

record event_input =
  ei_eventKey :: string
  ei_jobKey :: job_key
  ei_eventType :: job_event_type
  ei_previousState :: "job_state option"
  ei_nextState :: "job_state option"
  ei_actorAddress :: "string option"
  ei_transactionHash :: "string option"
  ei_blockNumber :: "string option"
  ei_blockHash :: "string option"
  ei_logIndex :: "int option"
  ei_confirmationState :: "confirmation_state option"
  ei_payload :: js_value
  ei_correlationId :: string
  ei_observedAtUnix :: int

text \<open>\<open>payload ?? {}\<close>.\<close>

definition or_empty :: "js_value \<Rightarrow> js_value" where
  "or_empty v = (if v = JUndefined \<or> v = JNull then JObject [] else v)"

text \<open>\<open>uuid\<close> is what \<open>randomUUID\<close> returned.\<close>

definition createErc8183JobEvent :: "runtime \<Rightarrow> string \<Rightarrow> event_input \<Rightarrow> commerce_exn + job_event" where
  "createErc8183JobEvent rt uuid i =
     (let payload = or_empty (ei_payload i) in
      bindE (assertPublicPayloadSafe payload) (\<lambda>_.
      bindE (normalizeAddress (jk_commerceContract (ei_jobKey i))) (\<lambda>c.
      bindE (normalizeNullable (ei_actorAddress i)) (\<lambda>actor.
      bindE (from_js (digest_of rt payload)) (\<lambda>d.
      erc8183JobEventSchema rt
        \<lparr>ev_eventId = uuid, ev_eventKey = ei_eventKey i,
         ev_jobKey = \<lparr>jk_chainId = jk_chainId (ei_jobKey i), jk_commerceContract = c,
                      jk_jobId = jk_jobId (ei_jobKey i)\<rparr>,
         ev_eventType = ei_eventType i, ev_previousState = ei_previousState i,
         ev_nextState = ei_nextState i, ev_actorAddress = actor,
         ev_transactionHash = ei_transactionHash i, ev_blockNumber = ei_blockNumber i,
         ev_blockHash = ei_blockHash i, ev_logIndex = ei_logIndex i,
         ev_confirmationState = (case ei_confirmationState i of None \<Rightarrow> Canonical | Some c \<Rightarrow> c),
         ev_payloadDigest = d, ev_payload = payload, ev_correlationId = ei_correlationId i,
         ev_observedAtUnix = ei_observedAtUnix i\<rparr>)))))"

lemma event_schema_Inr:
  assumes "erc8183JobEventSchema rt e = Inr f"
  shows "f = e\<lparr>ev_eventKey := js_trim (ev_eventKey e), ev_correlationId := js_trim (ev_correlationId e)\<rparr>"
    "erc8183JobEventSchema rt f = Inr f"
  using assms by (auto simp: erc8183JobEventSchema_def text_between_def split: if_splits)

text \<open>An event that was created carries no forbidden field and the digest of its payload.\<close>

lemma created_event:
  assumes "createErc8183JobEvent rt uuid i = Inr e"
  shows "ev_payload e = or_empty (ei_payload i)" "\<forall>k \<in> field_names (ev_payload e). \<not> FORBIDDEN_FIELD k"
    "digest_of rt (ev_payload e) = Inr (ev_payloadDigest e)" "ev_eventId e = uuid"
    "jk_commerceContract (ev_jobKey e) = js_lower (jk_commerceContract (ei_jobKey i))"
    "jk_chainId (ev_jobKey e) = jk_chainId (ei_jobKey i)" "jk_jobId (ev_jobKey e) = jk_jobId (ei_jobKey i)"
    "ev_eventKey e = js_trim (ei_eventKey i)" "ev_previousState e = ei_previousState i"
    "ev_nextState e = ei_nextState i" "ev_eventType e = ei_eventType i"
    "ev_observedAtUnix e = ei_observedAtUnix i"
  using assms
  by (auto simp: createErc8183JobEvent_def Let_def payload_safe_iff normalizeAddress_Inr
      dest!: event_schema_Inr(1))

lemma created_event_valid: "createErc8183JobEvent rt uuid i = Inr e \<Longrightarrow> erc8183JobEventSchema rt e = Inr e"
  unfolding createErc8183JobEvent_def Let_def bindE_eq_Inr by (blast dest: event_schema_Inr(2))

end
