(* ===== verification/Commerce_Lifecycle.thy ===== *)
theory Commerce_Lifecycle
  imports Commerce_Validation
begin

text \<open>
  packages/agent-commerce/src/lifecycle.ts: the state machine of an ERC-8183 job. Who may move a job
  from which state to which, when, and what the move writes into the job and its event. The guards are
  checked in the order of the code, so each rejected move yields the error the code throws.
\<close>

section \<open>States\<close>

fun allowedTransitions :: "job_state \<Rightarrow> job_state list" where
  "allowedTransitions JobOpen = [JobFunded, JobRejected]"
| "allowedTransitions JobFunded = [JobSubmitted, JobRejected, JobExpired]"
| "allowedTransitions JobSubmitted = [JobCompleted, JobRejected, JobExpired]"
| "allowedTransitions JobCompleted = []"
| "allowedTransitions JobRejected = []"
| "allowedTransitions JobExpired = []"

definition canTransitionJob :: "job_state \<Rightarrow> job_state \<Rightarrow> bool" where
  "canTransitionJob s t \<longleftrightarrow> table_allows allowedTransitions s t"

text \<open>Open, funded, submitted, settled.\<close>

fun progress :: "job_state \<Rightarrow> nat" where
  "progress JobOpen = 0"
| "progress JobFunded = 1"
| "progress JobSubmitted = 2"
| "progress s = 3"

definition settled :: "job_state \<Rightarrow> bool" where
  "settled s \<longleftrightarrow> s \<in> {JobCompleted, JobRejected, JobExpired}"

lemma settled_iff: "settled s \<longleftrightarrow> progress s = 3"
  by (cases s) (simp_all add: settled_def)

interpretation job_table: ranked_table allowedTransitions progress 3
proof
  show "progress s \<le> 3" for s by (cases s) simp_all
  show "progress s < progress t" if "t \<in> set (allowedTransitions s)" for s t
    using that by (cases s) auto
qed

section \<open>Actors\<close>

definition actorMatches :: "job_record \<Rightarrow> actor_role \<Rightarrow> string \<Rightarrow> commerce_exn + bool" where
  "actorMatches job role actorAddress =
     (if role = RoleAny then Inr True
      else bindE (normalizeAddress actorAddress) (\<lambda>actor.
        case role of
          RoleClient \<Rightarrow> bindE (normalizeAddress (t_clientAddress (j_terms job))) (\<lambda>c. Inr (actor = c))
        | RoleProvider \<Rightarrow>
            (case t_providerAddress (j_terms job) of
               None \<Rightarrow> Inr False
             | Some p \<Rightarrow> bindE (normalizeAddress p) (\<lambda>q. Inr (actor = q)))
        | _ \<Rightarrow> bindE (normalizeAddress (t_evaluatorAddress (j_terms job))) (\<lambda>e. Inr (actor = e))))"

definition roleForAction :: "job_state \<Rightarrow> job_action \<Rightarrow> actor_role" where
  "roleForAction s a =
     (if a = ActFund \<or> a = ActSetProvider \<or> a = ActCreate then RoleClient
      else if a = ActSetBudget then RoleAny
      else if a = ActSubmit then RoleProvider
      else if a = ActComplete then RoleEvaluator
      else if a = ActReject then (if s = JobOpen then RoleClient else RoleEvaluator)
      else if a = ActClaimRefund then RoleClient
      else RoleAny)"

definition assertBudgetActor :: "job_terms \<Rightarrow> string \<Rightarrow> commerce_exn + unit" where
  "assertBudgetActor t actorAddress =
     bindE (normalizeAddress actorAddress) (\<lambda>actor.
     bindE (normalizeAddress (t_clientAddress t)) (\<lambda>client.
     bindE (case t_providerAddress t of None \<Rightarrow> Inr False
            | Some p \<Rightarrow> bindE (normalizeAddress p) (\<lambda>q. Inr (actor = q))) (\<lambda>isProvider.
     if actor \<noteq> client \<and> \<not> isProvider then Inl (commerce_error UNAUTHORIZED_ACTOR) else Inr ())))"

definition assertActorForAction :: "job_record \<Rightarrow> job_action \<Rightarrow> string \<Rightarrow> int \<Rightarrow> commerce_exn + unit" where
  "assertActorForAction job action actorAddress nowUnix =
     bindE (actorMatches job (roleForAction (j_state job) action) actorAddress) (\<lambda>ok.
     if \<not> ok then Inl (commerce_error UNAUTHORIZED_ACTOR) else
     bindE (if action = ActSetBudget then assertBudgetActor (j_terms job) actorAddress else Inr ()) (\<lambda>_.
     if action = ActClaimRefund \<and> nowUnix < t_expiresAtUnix (j_terms job)
     then Inl (commerce_error INVALID_EXPIRY) else Inr ()))"

section \<open>Guards of a transition\<close>

record transition_input =
  ti_job :: job_record
  ti_deploymentPin :: pin_input
  ti_nextState :: job_state
  ti_action :: job_action
  ti_actorAddress :: string
  ti_idempotencyKey :: string
  ti_nowUnix :: int
  ti_metadata :: "action_metadata option"
  ti_correlationId :: string
  ti_reconcilerAddresses :: "string list"

text \<open>\<open>candidates.some(candidate => normalizeAddress(candidate) === actor)\<close>.\<close>

fun some_address :: "string \<Rightarrow> string list \<Rightarrow> commerce_exn + bool" where
  "some_address actor [] = Inr False"
| "some_address actor (c # cs) =
     bindE (normalizeAddress c) (\<lambda>a. if a = actor then Inr True else some_address actor cs)"

definition approval_matches_deliverable :: "job_record \<Rightarrow> bool" where
  "approval_matches_deliverable j \<longleftrightarrow>
     (case (j_buyerApproval j, j_deliverableDigest j) of
        (Some a, Some d) \<Rightarrow> js_lower (ba_resultDigest a) = js_lower d
      | _ \<Rightarrow> False)"

text \<open>Lines 84 to 134: what follows once the job, the pin and the clock have been checked.\<close>

definition assertMove ::
    "job_record \<Rightarrow> string list \<Rightarrow> job_state \<Rightarrow> job_action \<Rightarrow> string \<Rightarrow> int \<Rightarrow> commerce_exn + unit" where
  "assertMove job reconcilers nextState action actorAddress nowUnix =
     (let s = j_state job in
      if action = ActReconcile then
        (if nextState \<noteq> s then Inl (commerce_error ILLEGAL_TRANSITION)
         else bindE (normalizeAddress actorAddress) (\<lambda>actor.
              bindE (some_address actor reconcilers) (\<lambda>trusted.
              if \<not> trusted then Inl (commerce_error UNAUTHORIZED_ACTOR) else Inr ())))
      else if (action = ActFund \<or> action = ActSubmit \<or> action = ActComplete \<or> action = ActReject
               \<or> action = ActSetProvider \<or> action = ActSetBudget) \<and> nowUnix \<ge> t_expiresAtUnix (j_terms job)
      then Inl (commerce_error INVALID_EXPIRY)
      else
       (let isOpenMutation = (action = ActSetProvider \<or> action = ActSetBudget)
              \<and> s = JobOpen \<and> nextState = JobOpen in
        if (\<not> canTransitionJob s nextState \<or> s = nextState) \<and> \<not> isOpenMutation
        then Inl (commerce_error ILLEGAL_TRANSITION)
        else if action = ActFund \<and> \<not> (s = JobOpen \<and> nextState = JobFunded)
        then Inl (commerce_error ILLEGAL_TRANSITION)
        else if action = ActSetProvider \<and> \<not> isOpenMutation then Inl (commerce_error ILLEGAL_TRANSITION)
        else if action = ActSetBudget \<and> \<not> isOpenMutation then Inl (commerce_error ILLEGAL_TRANSITION)
        else if action = ActSubmit \<and> \<not> (s = JobFunded \<and> nextState = JobSubmitted)
        then Inl (commerce_error ILLEGAL_TRANSITION)
        else if action = ActComplete \<and> \<not> (s = JobSubmitted \<and> nextState = JobCompleted)
        then Inl (commerce_error ILLEGAL_TRANSITION)
        else if action = ActComplete \<and> \<not> approval_matches_deliverable job
        then Inl (CommerceError RECONCILIATION_REQUIRED False ''approve_result'')
        else if action = ActReject \<and> \<not> ((s = JobOpen \<and> nextState = JobRejected)
              \<or> ((s = JobFunded \<or> s = JobSubmitted) \<and> nextState = JobRejected))
        then Inl (commerce_error ILLEGAL_TRANSITION)
        else if action = ActClaimRefund \<and> (\<not> (s = JobFunded \<or> s = JobSubmitted) \<or> nextState \<noteq> JobExpired)
        then Inl (commerce_error ILLEGAL_TRANSITION)
        else bindE (assertActorForAction job action actorAddress nowUnix) (\<lambda>_.
          if nextState = JobExpired \<and> nowUnix < t_expiresAtUnix (j_terms job)
          then Inl (commerce_error INVALID_EXPIRY)
          else if nextState = JobSubmitted \<and> t_providerAddress (j_terms job) = None
          then Inl (commerce_error INVALID_JOB) else Inr ())))"

definition assertErc8183Transition :: "runtime \<Rightarrow> transition_input \<Rightarrow> commerce_exn + unit" where
  "assertErc8183Transition rt i =
     (let job = ti_job i in
      bindE (erc8183JobRecordSchema rt job) (\<lambda>_.
      bindE (parseEnabledDeploymentPin (ti_deploymentPin i)) (\<lambda>enabledPin.
      bindE (assertDeploymentPinSnapshot rt (j_deploymentPin job) (j_deploymentPinDigest job) enabledPin) (\<lambda>_.
      bindE (assertPinMatchesJob (j_terms job) enabledPin) (\<lambda>_.
      bindE (assertBudgetMatchesPin (t_budgetAtomic (j_terms job)) enabledPin) (\<lambda>_.
      if \<not> isSafeInteger (ti_nowUnix i) \<or> ti_nowUnix i \<le> 0 then Inl (commerce_error INVALID_EXPIRY)
      else assertMove job (ti_reconcilerAddresses i) (ti_nextState i) (ti_action i)
             (ti_actorAddress i) (ti_nowUnix i)))))))"

section \<open>Buyer approval\<close>

definition approveErc8183Result ::
    "runtime \<Rightarrow> job_record \<Rightarrow> string \<Rightarrow> string \<Rightarrow> int \<Rightarrow> commerce_exn + job_record" where
  "approveErc8183Result rt inputJob actorAddress resultDigest nowUnix =
     bindE (erc8183JobRecordSchema rt inputJob) (\<lambda>job.
     bindE (normalizeAddress actorAddress) (\<lambda>actor.
     if j_state job \<noteq> JobSubmitted then Inl (commerce_error ILLEGAL_TRANSITION) else
     bindE (normalizeAddress (t_clientAddress (j_terms job))) (\<lambda>client.
     if js_lower actor \<noteq> js_lower client then Inl (commerce_error UNAUTHORIZED_ACTOR)
     else if \<not> contentDigestSchema resultDigest then Inl (commerce_error INVALID_JOB)
     else if map_option js_lower (j_deliverableDigest job) \<noteq> Some (js_lower resultDigest)
     then Inl (commerce_error ONCHAIN_MISMATCH)
     else if \<not> isSafeInteger nowUnix \<or> nowUnix \<le> 0 then Inl (commerce_error INVALID_EXPIRY)
     else
       (let approval = \<lparr>ba_buyerAddress = actor, ba_resultDigest = js_lower resultDigest,
                         ba_approvedAtUnix = nowUnix\<rparr> in
        case j_buyerApproval job of
          Some a \<Rightarrow>
            if js_lower (ba_buyerAddress a) \<noteq> js_lower (ba_buyerAddress approval)
               \<or> js_lower (ba_resultDigest a) \<noteq> ba_resultDigest approval
            then Inl (commerce_error IDEMPOTENCY_CONFLICT) else Inr job
        | None \<Rightarrow> erc8183JobRecordSchema rt (job\<lparr>j_buyerApproval := Some approval, j_updatedAtUnix := nowUnix\<rparr>)))))"

section \<open>Transitions\<close>

definition eventTypeFor :: "job_action \<Rightarrow> job_state \<Rightarrow> job_event_type" where
  "eventTypeFor action nextState =
     (if action = ActSetProvider then EvProviderSet
      else if action = ActSetBudget then EvBudgetSet
      else if action = ActReconcile then EvReconciliationRequested
      else if nextState = JobFunded then EvJobFunded
      else if nextState = JobSubmitted then EvJobSubmitted
      else if nextState = JobCompleted then EvJobCompleted
      else if nextState = JobExpired then EvJobExpired
      else EvJobRejected)"

text \<open>\<open>a ?? b\<close> on an optional property.\<close>

definition or_else :: "'a option \<Rightarrow> 'a option \<Rightarrow> 'a option" where
  "or_else a b = (case a of None \<Rightarrow> b | Some x \<Rightarrow> Some x)"

definition updateTerms :: "enabled_pin \<Rightarrow> job_action \<Rightarrow> action_metadata \<Rightarrow> job_terms \<Rightarrow> commerce_exn + job_terms" where
  "updateTerms enabledPin action m terms =
     bindE (if action = ActSetProvider then
              (case md_providerAddress m of
                 Some (Some p) \<Rightarrow>
                   bindE (normalizeAddress p) (\<lambda>q. Inr (terms\<lparr>t_providerAddress := Some q\<rparr>))
               | _ \<Rightarrow> Inl (commerce_error INVALID_JOB))
            else Inr terms) (\<lambda>terms.
     if action = ActSetBudget then
       (case md_budgetAtomic m of
          None \<Rightarrow> Inl (commerce_error INVALID_AMOUNT)
        | Some b \<Rightarrow>
            bindE (parseAtomic b) (\<lambda>_.
            bindE (assertBudgetMatchesPin b enabledPin) (\<lambda>_.
            Inr (terms\<lparr>t_budgetAtomic := b\<rparr>))))
     else Inr terms)"

text \<open>The hash of the transaction is recorded in the field of the state that is entered.\<close>

definition nextJobRecord :: "transition_input \<Rightarrow> action_metadata \<Rightarrow> job_terms \<Rightarrow> job_record" where
  "nextJobRecord i m terms =
     (let job = ti_job i; s = ti_nextState i;
          hash = (\<lambda>state old. if s = state then or_else (md_transactionHash m) old else old) in
      job\<lparr>j_terms := terms, j_state := s, j_updatedAtUnix := ti_nowUnix i,
          j_deliverableDigest := or_else (md_deliverableDigest m) (j_deliverableDigest job),
          j_fundingTransactionHash := hash JobFunded (j_fundingTransactionHash job),
          j_submissionTransactionHash := hash JobSubmitted (j_submissionTransactionHash job),
          j_completionTransactionHash := hash JobCompleted (j_completionTransactionHash job),
          j_rejectionTransactionHash := hash JobRejected (j_rejectionTransactionHash job),
          j_refundTransactionHash := hash JobExpired (j_refundTransactionHash job),
          j_lastObservedBlock := or_else (md_blockNumber m) (j_lastObservedBlock job),
          j_lastObservedBlockHash := or_else (md_blockHash m) (j_lastObservedBlockHash job),
          j_lastObservedAtUnix := Some (ti_nowUnix i)\<rparr>)"

definition actionEvent :: "transition_input \<Rightarrow> action_metadata \<Rightarrow> event_input" where
  "actionEvent i m =
     \<lparr>ei_eventKey = ''action:'' @ ti_idempotencyKey i, ei_jobKey = j_jobKey (ti_job i),
      ei_eventType = eventTypeFor (ti_action i) (ti_nextState i),
      ei_previousState = Some (j_state (ti_job i)), ei_nextState = Some (ti_nextState i),
      ei_actorAddress = Some (ti_actorAddress i), ei_transactionHash = md_transactionHash m,
      ei_blockNumber = md_blockNumber m, ei_blockHash = md_blockHash m,
      ei_logIndex = md_logIndex m, ei_confirmationState = None,
      ei_payload = (case md_payload m of None \<Rightarrow> JUndefined | Some v \<Rightarrow> or_empty v),
      ei_correlationId = ti_correlationId i, ei_observedAtUnix = ti_nowUnix i\<rparr>"

definition transitionErc8183Job ::
    "runtime \<Rightarrow> string \<Rightarrow> transition_input \<Rightarrow> commerce_exn + job_record \<times> job_event" where
  "transitionErc8183Job rt uuid i =
     bindE (assertErc8183Transition rt i) (\<lambda>_.
     bindE (parseEnabledDeploymentPin (ti_deploymentPin i)) (\<lambda>enabledPin.
     let m = (case ti_metadata i of None \<Rightarrow> no_metadata | Some m \<Rightarrow> m) in
     if md_deliverableDigest m \<noteq> None \<and> ti_nextState i \<noteq> JobSubmitted
     then Inl (commerce_error INVALID_JOB)
     else if \<not> nullable transactionHashSchema (md_transactionHash m)
     then Inl (commerce_error INVALID_JOB) else
     bindE (parseAtomic (t_budgetAtomic (j_terms (ti_job i)))) (\<lambda>_.
     bindE (updateTerms enabledPin (ti_action i) m (j_terms (ti_job i))) (\<lambda>terms.
     bindE (createErc8183JobEvent rt uuid (actionEvent i m)) (\<lambda>event.
     bindE (erc8183JobRecordSchema rt (nextJobRecord i m terms)) (\<lambda>job.
     Inr (job, event)))))))"

section \<open>The rules of the protocol\<close>

text \<open>
  The moves each action is for. The guards give \<open>create\<close> no rule of its own: any proper move passes.
\<close>

fun action_moves :: "job_action \<Rightarrow> (job_state \<times> job_state) list" where
  "action_moves ActFund = [(JobOpen, JobFunded)]"
| "action_moves ActSetProvider = [(JobOpen, JobOpen)]"
| "action_moves ActSetBudget = [(JobOpen, JobOpen)]"
| "action_moves ActSubmit = [(JobFunded, JobSubmitted)]"
| "action_moves ActComplete = [(JobSubmitted, JobCompleted)]"
| "action_moves ActReject = [(JobOpen, JobRejected), (JobFunded, JobRejected), (JobSubmitted, JobRejected)]"
| "action_moves ActClaimRefund = [(JobFunded, JobExpired), (JobSubmitted, JobExpired)]"
| "action_moves ActReconcile =
     map (\<lambda>s. (s, s)) [JobOpen, JobFunded, JobSubmitted, JobCompleted, JobRejected, JobExpired]"
| "action_moves ActCreate = [(JobOpen, JobFunded), (JobOpen, JobRejected), (JobFunded, JobSubmitted),
     (JobFunded, JobRejected), (JobFunded, JobExpired), (JobSubmitted, JobCompleted),
     (JobSubmitted, JobRejected), (JobSubmitted, JobExpired)]"

definition same_party :: "string \<Rightarrow> string \<Rightarrow> bool" where
  "same_party a b \<longleftrightarrow> nonZeroAddressSchema a \<and> js_lower a = js_lower b"

definition is_provider :: "job_terms \<Rightarrow> string \<Rightarrow> bool" where
  "is_provider t a \<longleftrightarrow> (case t_providerAddress t of None \<Rightarrow> False | Some p \<Rightarrow> same_party a p)"

text \<open>Whom an action is reserved to, in a given state.\<close>

fun entitled :: "job_terms \<Rightarrow> string list \<Rightarrow> job_state \<Rightarrow> job_action \<Rightarrow> string \<Rightarrow> bool" where
  "entitled t rs s ActCreate a = same_party a (t_clientAddress t)"
| "entitled t rs s ActFund a = same_party a (t_clientAddress t)"
| "entitled t rs s ActSetProvider a = same_party a (t_clientAddress t)"
| "entitled t rs s ActClaimRefund a = same_party a (t_clientAddress t)"
| "entitled t rs s ActSetBudget a = (same_party a (t_clientAddress t) \<or> is_provider t a)"
| "entitled t rs s ActSubmit a = is_provider t a"
| "entitled t rs s ActComplete a = same_party a (t_evaluatorAddress t)"
| "entitled t rs s ActReject a =
     same_party a (if s = JobOpen then t_clientAddress t else t_evaluatorAddress t)"
| "entitled t rs s ActReconcile a = (nonZeroAddressSchema a \<and> some_address (js_lower a) rs = Inr True)"

text \<open>The working actions end with the job; a refund or an expiry waits for it.\<close>

fun timely :: "job_action \<Rightarrow> job_state \<Rightarrow> int \<Rightarrow> int \<Rightarrow> bool" where
  "timely ActReconcile t now expiry = True"
| "timely ActCreate t now expiry = (t = JobExpired \<longrightarrow> expiry \<le> now)"
| "timely ActClaimRefund t now expiry = (expiry \<le> now)"
| "timely _ t now expiry = (now < expiry)"

definition admitted :: "runtime \<Rightarrow> transition_input \<Rightarrow> bool" where
  "admitted rt i \<longleftrightarrow> is_ok (erc8183JobRecordSchema rt (ti_job i))
     \<and> isSafeInteger (ti_nowUnix i) \<and> 0 < ti_nowUnix i
     \<and> (\<exists>p. parseEnabledDeploymentPin (ti_deploymentPin i) = Inr p
          \<and> assertDeploymentPinSnapshot rt (j_deploymentPin (ti_job i)) (j_deploymentPinDigest (ti_job i)) p = Inr ()
          \<and> assertPinMatchesJob (j_terms (ti_job i)) p = Inr ()
          \<and> assertBudgetMatchesPin (t_budgetAtomic (j_terms (ti_job i))) p = Inr ())"

lemma job_schema_terms:
  "erc8183JobRecordSchema rt j = Inr k \<Longrightarrow> erc8183JobTermsSchema (j_terms j)"
  by (auto simp: erc8183JobRecordSchema_def job_fields_ok_def Let_def split: if_splits)

fun plays :: "job_terms \<Rightarrow> actor_role \<Rightarrow> string \<Rightarrow> bool" where
  "plays t RoleClient a = same_party a (t_clientAddress t)"
| "plays t RoleProvider a = is_provider t a"
| "plays t RoleEvaluator a = same_party a (t_evaluatorAddress t)"
| "plays t RoleAny a = True"

lemma actor_matches:
  assumes "erc8183JobTermsSchema (j_terms job)"
  shows "actorMatches job role a = Inr r \<Longrightarrow> r = plays (j_terms job) role a"
    and "plays (j_terms job) role a \<Longrightarrow> actorMatches job role a = Inr True"
proof -
  let ?t = "j_terms job"
  have parties: "nonZeroAddressSchema (t_clientAddress ?t)" "nonZeroAddressSchema (t_evaluatorAddress ?t)"
    "nullable nonZeroAddressSchema (t_providerAddress ?t)"
    using assms by (simp_all add: erc8183JobTermsSchema_def)
  show "actorMatches job role a = Inr r \<Longrightarrow> r = plays ?t role a"
    using parties unfolding actorMatches_def
    by (cases role) (auto simp: normalizeAddress_Inr same_party_def is_provider_def split: option.splits)
  show "plays ?t role a \<Longrightarrow> actorMatches job role a = Inr True"
    using parties unfolding actorMatches_def
    by (cases role) (auto simp: same_party_def is_provider_def split: option.splits)
qed

lemma budget_actor:
  assumes "erc8183JobTermsSchema t"
  shows "assertBudgetActor t a = Inr ()
    \<longleftrightarrow> same_party a (t_clientAddress t) \<or> is_provider t a"
proof -
  have parties: "nonZeroAddressSchema (t_clientAddress t)" "nullable nonZeroAddressSchema (t_providerAddress t)"
    using assms by (simp_all add: erc8183JobTermsSchema_def)
  then show ?thesis unfolding assertBudgetActor_def
    by (auto simp: normalizeAddress_Inr same_party_def is_provider_def split: option.splits)
qed

lemma actor_check:
  assumes terms: "erc8183JobTermsSchema (j_terms job)" and action: "action \<noteq> ActReconcile"
  shows "assertActorForAction job action a now = Inr () \<longleftrightarrow>
     entitled (j_terms job) rs (j_state job) action a
     \<and> (action = ActClaimRefund \<longrightarrow> t_expiresAtUnix (j_terms job) \<le> now)"
proof -
  have matches: "actorMatches job role a = Inr True \<longleftrightarrow> plays (j_terms job) role a" for role
    using actor_matches [OF terms] by blast
  have step: "assertActorForAction job action a now = Inr () \<longleftrightarrow>
     plays (j_terms job) (roleForAction (j_state job) action) a
     \<and> (action = ActSetBudget \<longrightarrow> same_party a (t_clientAddress (j_terms job)) \<or> is_provider (j_terms job) a)
     \<and> (action = ActClaimRefund \<longrightarrow> t_expiresAtUnix (j_terms job) \<le> now)"
    by (auto simp: assertActorForAction_def matches [symmetric] budget_actor [OF terms] not_less)
  show ?thesis
    unfolding step using action by (cases action) (simp_all add: roleForAction_def)
qed

lemma create_moves:
  "(s, t) \<in> set (action_moves ActCreate) \<longleftrightarrow> canTransitionJob s t \<and> s \<noteq> t"
  by (cases s; cases t) (simp_all add: canTransitionJob_def table_allows_def)

lemma reconcile_moves: "(s, t) \<in> set (action_moves ActReconcile) \<longleftrightarrow> s = t"
  by (cases s; cases t) simp_all

lemma listed_moves:
  "canTransitionJob JobOpen JobFunded" "canTransitionJob JobFunded JobSubmitted"
  "canTransitionJob JobSubmitted JobCompleted" "canTransitionJob JobOpen JobRejected"
  "canTransitionJob JobFunded JobRejected" "canTransitionJob JobSubmitted JobRejected"
  "canTransitionJob JobFunded JobExpired" "canTransitionJob JobSubmitted JobExpired"
  by (simp_all add: canTransitionJob_def table_allows_def)

lemma move_guard:
  assumes "erc8183JobTermsSchema (j_terms job)"
  shows "assertMove job rs t action a now = Inr () \<longleftrightarrow>
     (j_state job, t) \<in> set (action_moves action)
     \<and> timely action t now (t_expiresAtUnix (j_terms job))
     \<and> entitled (j_terms job) rs (j_state job) action a
     \<and> (action = ActComplete \<longrightarrow> approval_matches_deliverable job)
     \<and> (t = JobSubmitted \<and> action \<noteq> ActReconcile \<longrightarrow> t_providerAddress (j_terms job) \<noteq> None)"
proof (cases "action = ActReconcile")
  case True
  show ?thesis
    unfolding True reconcile_moves
    by (auto simp: assertMove_def Let_def normalizeAddress_Inr)
next
  case False
  note ac = actor_check [OF assms False, where rs = rs]
  show ?thesis
  proof (cases action)
    case ActCreate
    show ?thesis unfolding ActCreate create_moves using False ac [unfolded ActCreate]
      by (auto simp: assertMove_def Let_def not_less)
  qed (use False ac in \<open>auto simp: assertMove_def Let_def listed_moves not_less not_le\<close>)
qed

lemma transition_guard:
  "assertErc8183Transition rt i = Inr () \<longleftrightarrow> admitted rt i
     \<and> (j_state (ti_job i), ti_nextState i) \<in> set (action_moves (ti_action i))
     \<and> timely (ti_action i) (ti_nextState i) (ti_nowUnix i) (t_expiresAtUnix (j_terms (ti_job i)))
     \<and> entitled (j_terms (ti_job i)) (ti_reconcilerAddresses i) (j_state (ti_job i)) (ti_action i) (ti_actorAddress i)
     \<and> (ti_action i = ActComplete \<longrightarrow> approval_matches_deliverable (ti_job i))
     \<and> (ti_nextState i = JobSubmitted \<and> ti_action i \<noteq> ActReconcile \<longrightarrow>
        t_providerAddress (j_terms (ti_job i)) \<noteq> None)"
proof -
  have "assertErc8183Transition rt i = Inr () \<longleftrightarrow> admitted rt i
     \<and> assertMove (ti_job i) (ti_reconcilerAddresses i) (ti_nextState i) (ti_action i)
         (ti_actorAddress i) (ti_nowUnix i) = Inr ()"
    by (auto simp: assertErc8183Transition_def admitted_def is_ok_iff Let_def)
  moreover have "erc8183JobTermsSchema (j_terms (ti_job i))" if "admitted rt i"
    using that by (auto simp: admitted_def is_ok_iff dest: job_schema_terms)
  ultimately show ?thesis using move_guard by blast
qed

section \<open>What a schema keeps\<close>

lemma binding_schema_Inr:
  assumes "erc8183ProviderBindingSchema rt b = Inr c"
  shows "erc8183ProviderBindingSchema rt c = Inr c" "id_chainId (pb_identity c) = id_chainId (pb_identity b)"
  using assms by (auto simp: erc8183ProviderBindingSchema_def erc8004IdentitySchema_def Let_def split: if_splits)

lemma nullable_binding_Inr:
  "parse_nullable (erc8183ProviderBindingSchema rt) b = Inr c \<Longrightarrow>
   parse_nullable (erc8183ProviderBindingSchema rt) c = Inr c"
  by (auto simp: parse_nullable_def split: option.splits dest: binding_schema_Inr(1))

lemma job_schema_Inr:
  "erc8183JobRecordSchema rt j = Inr k \<longleftrightarrow>
   enabledErc8183DeploymentPinSchema (j_deploymentPin j) = Inr (j_deploymentPin k)
   \<and> parse_nullable (erc8183ProviderBindingSchema rt) (j_providerBinding j) = Inr (j_providerBinding k)
   \<and> k = j\<lparr>j_deploymentPin := j_deploymentPin k, j_providerBinding := j_providerBinding k\<rparr>
   \<and> job_fields_ok j \<and> job_refined rt k"
  (is "?l \<longleftrightarrow> ?r")
proof
  show "?l \<Longrightarrow> ?r" by (auto simp: erc8183JobRecordSchema_def Let_def)
  assume r: ?r
  then have k: "j\<lparr>j_deploymentPin := j_deploymentPin k, j_providerBinding := j_providerBinding k\<rparr> = k"
    by simp
  from r show ?l by (simp only: erc8183JobRecordSchema_def bindE_simps k Let_def simp_thms if_True)
qed

lemma job_fields_ok_parsed [simp]:
  "job_fields_ok (j\<lparr>j_deploymentPin := p, j_providerBinding := b\<rparr>) = job_fields_ok j"
  by (simp add: job_fields_ok_def)

interpretation job_schema: normaliser "erc8183JobRecordSchema rt" for rt
proof
  fix j k assume h: "erc8183JobRecordSchema rt j = Inr k"
  then have "job_fields_ok k" by (metis job_fields_ok_parsed job_schema_Inr)
  with h show "erc8183JobRecordSchema rt k = Inr k"
    by (auto simp: job_schema_Inr dest: enabledPinSchema_Inr nullable_binding_Inr)
qed

text \<open>\<open>valid_job rt j\<close>: the stored form of a job.\<close>

definition valid_job :: "runtime \<Rightarrow> job_record \<Rightarrow> bool" where
  "valid_job rt j \<longleftrightarrow> erc8183JobRecordSchema rt j = Inr j"

lemma parsed_job_valid: "erc8183JobRecordSchema rt j = Inr k \<Longrightarrow> valid_job rt k"
  by (simp add: valid_job_def job_schema.norm_idem)

lemma parsed_job_fields:
  assumes "erc8183JobRecordSchema rt j = Inr k"
  shows "j_jobKey k = j_jobKey j" "j_terms k = j_terms j" "j_state k = j_state j"
    "j_deploymentPin k = trim_pin (j_deploymentPin j)" "j_deploymentPinDigest k = j_deploymentPinDigest j"
    "j_createdAtUnix k = j_createdAtUnix j" "j_updatedAtUnix k = j_updatedAtUnix j"
    "j_deliverableDigest k = j_deliverableDigest j" "j_buyerApproval k = j_buyerApproval j"
    "j_lastObservedAtUnix k = j_lastObservedAtUnix j"
  using assms by (auto simp: erc8183JobRecordSchema_def Let_def dest: enabledPinSchema_Inr split: if_splits)

lemma valid_job_facts:
  assumes "valid_job rt j"
  shows "erc8183JobTermsSchema (j_terms j)" "erc8183JobKeySchema (j_jobKey j)"
    "jk_chainId (j_jobKey j) = t_chainId (j_terms j)"
    "js_lower (jk_commerceContract (j_jobKey j)) = js_lower (t_commerceContract (j_terms j))"
    "\<And>a. j_buyerApproval j = Some a \<Longrightarrow> approval_bound j a"
    "enabledErc8183DeploymentPinSchema (j_deploymentPin j) = Inr (j_deploymentPin j)"
    "erc8183DeploymentPinDigest rt (j_deploymentPin j) = Inr (j_deploymentPinDigest j)"
  using assms by (auto simp: valid_job_def job_schema_Inr job_fields_ok_def job_refined_def)

section \<open>What a transition writes\<close>

lemma updateTerms_Inr:
  assumes "updateTerms p a m t = Inr u"
  shows "u = t\<lparr>t_providerAddress := t_providerAddress u, t_budgetAtomic := t_budgetAtomic u\<rparr>"
    and "a \<noteq> ActSetProvider \<Longrightarrow> t_providerAddress u = t_providerAddress t"
    and "a \<noteq> ActSetBudget \<Longrightarrow> t_budgetAtomic u = t_budgetAtomic t"
    and "a = ActSetBudget \<Longrightarrow> assertBudgetMatchesPin (t_budgetAtomic u) p = Inr ()"
    and "a = ActSetProvider \<Longrightarrow> \<exists>q. t_providerAddress u = Some (js_lower q) \<and> md_providerAddress m = Some (Some q)
       \<and> nonZeroAddressSchema q"
  using assms
  by (auto simp: updateTerms_def normalizeAddress_Inr split: if_splits option.splits)

definition metadata_of :: "transition_input \<Rightarrow> action_metadata" where
  "metadata_of i = (case ti_metadata i of None \<Rightarrow> no_metadata | Some m \<Rightarrow> m)"

lemma transition_Inr:
  "transitionErc8183Job rt u i = Inr (j', e) \<longleftrightarrow>
   assertErc8183Transition rt i = Inr ()
   \<and> (md_deliverableDigest (metadata_of i) \<noteq> None \<longrightarrow> ti_nextState i = JobSubmitted)
   \<and> nullable transactionHashSchema (md_transactionHash (metadata_of i))
   \<and> is_ok (parseAtomic (t_budgetAtomic (j_terms (ti_job i))))
   \<and> (\<exists>p terms. parseEnabledDeploymentPin (ti_deploymentPin i) = Inr p
       \<and> updateTerms p (ti_action i) (metadata_of i) (j_terms (ti_job i)) = Inr terms
       \<and> createErc8183JobEvent rt u (actionEvent i (metadata_of i)) = Inr e
       \<and> erc8183JobRecordSchema rt (nextJobRecord i (metadata_of i) terms) = Inr j')"
  by (auto simp: transitionErc8183Job_def metadata_of_def Let_def is_ok_iff)

lemma nextJobRecord_fields [simp]:
  "j_jobKey (nextJobRecord i m t) = j_jobKey (ti_job i)" "j_terms (nextJobRecord i m t) = t"
  "j_state (nextJobRecord i m t) = ti_nextState i"
  "j_deploymentPin (nextJobRecord i m t) = j_deploymentPin (ti_job i)"
  "j_deploymentPinDigest (nextJobRecord i m t) = j_deploymentPinDigest (ti_job i)"
  "j_createdAtUnix (nextJobRecord i m t) = j_createdAtUnix (ti_job i)"
  "j_updatedAtUnix (nextJobRecord i m t) = ti_nowUnix i"
  "j_buyerApproval (nextJobRecord i m t) = j_buyerApproval (ti_job i)"
  "j_deliverableDigest (nextJobRecord i m t) = or_else (md_deliverableDigest m) (j_deliverableDigest (ti_job i))"
  "j_lastObservedAtUnix (nextJobRecord i m t) = Some (ti_nowUnix i)"
  by (simp_all add: nextJobRecord_def Let_def)

lemma transition_result:
  assumes "transitionErc8183Job rt u i = Inr (j', e)"
  shows "valid_job rt j'" "j_jobKey j' = j_jobKey (ti_job i)" "j_state j' = ti_nextState i"
    "j_deploymentPin j' = trim_pin (j_deploymentPin (ti_job i))"
    "j_deploymentPinDigest j' = j_deploymentPinDigest (ti_job i)"
    "j_createdAtUnix j' = j_createdAtUnix (ti_job i)" "j_updatedAtUnix j' = ti_nowUnix i"
    "j_buyerApproval j' = j_buyerApproval (ti_job i)"
    "j_terms j' = (j_terms (ti_job i))\<lparr>t_providerAddress := t_providerAddress (j_terms j'),
       t_budgetAtomic := t_budgetAtomic (j_terms j')\<rparr>"
    "ti_action i \<noteq> ActSetProvider \<Longrightarrow> t_providerAddress (j_terms j') = t_providerAddress (j_terms (ti_job i))"
    "ti_action i \<noteq> ActSetBudget \<Longrightarrow> t_budgetAtomic (j_terms j') = t_budgetAtomic (j_terms (ti_job i))"
proof -
  from assms obtain p terms where
    t: "updateTerms p (ti_action i) (metadata_of i) (j_terms (ti_job i)) = Inr terms"
    and k: "erc8183JobRecordSchema rt (nextJobRecord i (metadata_of i) terms) = Inr j'"
    by (auto simp: transition_Inr)
  note fields = parsed_job_fields [OF k]
  show "valid_job rt j'" using k by (rule parsed_job_valid)
  show "j_jobKey j' = j_jobKey (ti_job i)" "j_state j' = ti_nextState i"
    "j_deploymentPin j' = trim_pin (j_deploymentPin (ti_job i))"
    "j_deploymentPinDigest j' = j_deploymentPinDigest (ti_job i)"
    "j_createdAtUnix j' = j_createdAtUnix (ti_job i)" "j_updatedAtUnix j' = ti_nowUnix i"
    "j_buyerApproval j' = j_buyerApproval (ti_job i)"
    using fields by simp_all
  show "j_terms j' = (j_terms (ti_job i))\<lparr>t_providerAddress := t_providerAddress (j_terms j'),
       t_budgetAtomic := t_budgetAtomic (j_terms j')\<rparr>"
    using updateTerms_Inr(1) [OF t] fields by simp
  show "ti_action i \<noteq> ActSetProvider \<Longrightarrow> t_providerAddress (j_terms j') = t_providerAddress (j_terms (ti_job i))"
    "ti_action i \<noteq> ActSetBudget \<Longrightarrow> t_budgetAtomic (j_terms j') = t_budgetAtomic (j_terms (ti_job i))"
    using updateTerms_Inr(2,3) [OF t] fields by simp_all
qed

lemma transition_move:
  assumes "transitionErc8183Job rt u i = Inr (j', e)"
  shows "canTransitionJob (j_state (ti_job i)) (j_state j')"
    and "ti_action i \<in> {ActSetProvider, ActSetBudget} \<Longrightarrow> j_state (ti_job i) = JobOpen"
proof -
  have "(j_state (ti_job i), ti_nextState i) \<in> set (action_moves (ti_action i))"
    using assms by (simp add: transition_Inr transition_guard)
  then show "canTransitionJob (j_state (ti_job i)) (j_state j')"
    and "ti_action i \<in> {ActSetProvider, ActSetBudget} \<Longrightarrow> j_state (ti_job i) = JobOpen"
    unfolding transition_result(3) [OF assms]
    by (cases "ti_action i"; auto simp: canTransitionJob_def table_allows_def)+
qed

section \<open>Approvals\<close>

lemma approve_Inr:
  "approveErc8183Result rt j a d now = Inr j' \<longleftrightarrow>
   (\<exists>job. erc8183JobRecordSchema rt j = Inr job \<and> same_party a (t_clientAddress (j_terms job))
     \<and> j_state job = JobSubmitted \<and> contentDigestSchema d
     \<and> map_option js_lower (j_deliverableDigest job) = Some (js_lower d)
     \<and> isSafeInteger now \<and> 0 < now
     \<and> (case j_buyerApproval job of
          Some b \<Rightarrow> js_lower (ba_buyerAddress b) = js_lower a \<and> js_lower (ba_resultDigest b) = js_lower d
                    \<and> j' = job
        | None \<Rightarrow> erc8183JobRecordSchema rt (job\<lparr>j_buyerApproval := Some
            \<lparr>ba_buyerAddress = js_lower a, ba_resultDigest = js_lower d, ba_approvedAtUnix = now\<rparr>,
            j_updatedAtUnix := now\<rparr>) = Inr j'))"
proof -
  have client: "nonZeroAddressSchema (t_clientAddress (j_terms job))"
    if "erc8183JobRecordSchema rt j = Inr job" for job
    using valid_job_facts(1) [OF parsed_job_valid [OF that]] by (simp add: erc8183JobTermsSchema_def)
  show ?thesis
    unfolding approveErc8183Result_def
    by (auto simp: normalizeAddress_Inr same_party_def Let_def client split: option.splits)
qed

lemma approve_result:
  assumes "approveErc8183Result rt j a d now = Inr j'"
  shows "valid_job rt j'" "j_state j = JobSubmitted" "j_state j' = j_state j" "j_terms j' = j_terms j"
    "j_jobKey j' = j_jobKey j" "j_deploymentPin j' = trim_pin (j_deploymentPin j)"
    "j_deploymentPinDigest j' = j_deploymentPinDigest j" "j_createdAtUnix j' = j_createdAtUnix j"
    "\<exists>b. j_buyerApproval j' = Some b \<and> approval_bound j' b \<and> js_lower (ba_resultDigest b) = js_lower d"
proof -
  from assms obtain job where job: "erc8183JobRecordSchema rt j = Inr job"
    and st: "j_state job = JobSubmitted"
    and cs: "case j_buyerApproval job of
          Some b \<Rightarrow> js_lower (ba_buyerAddress b) = js_lower a \<and> js_lower (ba_resultDigest b) = js_lower d
                    \<and> j' = job
        | None \<Rightarrow> erc8183JobRecordSchema rt (job\<lparr>j_buyerApproval := Some
            \<lparr>ba_buyerAddress = js_lower a, ba_resultDigest = js_lower d, ba_approvedAtUnix = now\<rparr>,
            j_updatedAtUnix := now\<rparr>) = Inr j'"
    by (auto simp: approve_Inr)
  note jf = parsed_job_fields [OF job]
  show v: "valid_job rt j'"
    using cs parsed_job_valid [OF job] by (auto split: option.splits dest: parsed_job_valid)
  show "j_state j = JobSubmitted" using st jf by simp
  show "j_state j' = j_state j" "j_terms j' = j_terms j"
    "j_jobKey j' = j_jobKey j" "j_deploymentPin j' = trim_pin (j_deploymentPin j)"
    "j_deploymentPinDigest j' = j_deploymentPinDigest j" "j_createdAtUnix j' = j_createdAtUnix j"
    using cs jf by (auto split: option.splits dest: parsed_job_fields)
  have "\<exists>b. j_buyerApproval j' = Some b \<and> js_lower (ba_resultDigest b) = js_lower d"
    using cs by (auto split: option.splits dest: parsed_job_fields(9))
  with valid_job_facts(5) [OF v]
  show "\<exists>b. j_buyerApproval j' = Some b \<and> approval_bound j' b \<and> js_lower (ba_resultDigest b) = js_lower d"
    by blast
qed

section \<open>The life of a job\<close>

text \<open>
  One step of a job: a transition or a buyer approval that returns, with whatever input. A life is a
  sequence of steps.
\<close>

inductive job_step :: "runtime \<Rightarrow> job_record \<Rightarrow> job_record \<Rightarrow> bool" for rt where
  Transition: "transitionErc8183Job rt u i = Inr (j', e) \<Longrightarrow> job_step rt (ti_job i) j'"
| Approve: "approveErc8183Result rt j a d now = Inr j' \<Longrightarrow> job_step rt j j'"

inductive_cases job_stepE: "job_step rt j j'"

abbreviation job_life :: "runtime \<Rightarrow> job_record \<Rightarrow> job_record \<Rightarrow> bool" where
  "job_life rt \<equiv> (job_step rt)\<^sup>*\<^sup>*"

text \<open>The terms without the provider and the budget, which an open job may still change.\<close>

definition fixed_terms :: "job_terms \<Rightarrow> job_terms" where
  "fixed_terms t = t\<lparr>t_providerAddress := None, t_budgetAtomic := []\<rparr>"

text \<open>What every step keeps, and what it keeps once the job is funded.\<close>

definition same_job :: "job_record \<Rightarrow> job_record \<Rightarrow> bool" where
  "same_job j k \<longleftrightarrow> j_jobKey k = j_jobKey j \<and> trim_pin (j_deploymentPin k) = trim_pin (j_deploymentPin j)
     \<and> j_deploymentPinDigest k = j_deploymentPinDigest j \<and> j_createdAtUnix k = j_createdAtUnix j
     \<and> fixed_terms (j_terms k) = fixed_terms (j_terms j)
     \<and> progress (j_state j) \<le> progress (j_state k)
     \<and> (j_state j \<noteq> JobOpen \<longrightarrow> j_terms k = j_terms j)
     \<and> (settled (j_state j) \<longrightarrow> j_state k = j_state j)"

lemma same_job_refl: "same_job j j"
  by (simp add: same_job_def)

lemma progress_open: "progress s \<le> progress JobOpen \<Longrightarrow> s = JobOpen"
  by (cases s) simp_all

lemma same_job_trans:
  assumes "same_job j k" "same_job k l"
  shows "same_job j l"
proof -
  have opened: "j_state k = JobOpen \<Longrightarrow> j_state j = JobOpen"
    using assms(1) progress_open by (simp add: same_job_def)
  have "progress (j_state j) \<le> progress (j_state l)"
    using assms order_trans unfolding same_job_def by blast
  moreover have "j_state j \<noteq> JobOpen \<longrightarrow> j_terms l = j_terms j"
    using assms opened unfolding same_job_def by (cases "j_state k = JobOpen") simp_all
  moreover have "settled (j_state j) \<longrightarrow> j_state l = j_state j"
    using assms unfolding same_job_def by simp
  ultimately show ?thesis
    using assms unfolding same_job_def by simp
qed

lemma job_step_same: "job_step rt j k \<Longrightarrow> same_job j k \<and> valid_job rt k"
proof (induction rule: job_step.induct)
  case (Transition u i k e)
  note r = transition_result [OF Transition] and m = transition_move [OF Transition]
  have move: "j_state k = j_state (ti_job i) \<or> progress (j_state (ti_job i)) < progress (j_state k)"
    using m(1) job_table.rank_allows unfolding canTransitionJob_def by metis
  have "j_terms k = j_terms (ti_job i)" if "j_state (ti_job i) \<noteq> JobOpen"
  proof -
    from that m(2) have "ti_action i \<noteq> ActSetProvider" "ti_action i \<noteq> ActSetBudget" by auto
    note same = r(10) [OF this(1)] r(11) [OF this(2)]
    show ?thesis by (subst r(9)) (simp only: same, simp)
  qed
  moreover have "fixed_terms (j_terms k) = fixed_terms (j_terms (ti_job i))"
    by (subst r(9)) (simp add: fixed_terms_def)
  moreover have "j_state k = j_state (ti_job i)" if "settled (j_state (ti_job i))"
    using that move job_table.rank_top [of "j_state k"] by (auto simp: settled_iff)
  ultimately show ?case
    using r(1-6) move by (auto simp: same_job_def)
next
  case (Approve j a d now k)
  note r = approve_result [OF Approve]
  then show ?case by (auto simp: same_job_def)
qed

lemma job_life_same: "job_life rt j k \<Longrightarrow> same_job j k \<and> (j = k \<or> valid_job rt k)"
  by (induction rule: rtranclp_induct) (auto intro: same_job_refl same_job_trans dest: job_step_same)

text \<open>An approval is never taken back.\<close>

lemma job_step_approval: "job_step rt j k \<Longrightarrow> j_buyerApproval j = Some a \<Longrightarrow> j_buyerApproval k = Some a"
proof (induction rule: job_step.induct)
  case (Transition u i k e)
  then show ?case by (simp add: transition_result(8))
next
  case (Approve j a d now k)
  then show ?case by (auto simp: approve_Inr dest: parsed_job_fields(9))
qed

lemma job_life_approval: "job_life rt j k \<Longrightarrow> j_buyerApproval j = Some a \<Longrightarrow> j_buyerApproval k = Some a"
  by (induction rule: rtranclp_induct) (auto dest: job_step_approval)

lemma approved_states:
  assumes "valid_job rt j" "j_buyerApproval j = Some a"
  shows "j_state j = JobSubmitted \<or> j_state j = JobCompleted"
  using valid_job_facts(5) [OF assms] by (simp add: approval_bound_def)

end
