(* ===== verification/Commerce_Examples.thy ===== *)
theory Commerce_Examples
  imports Commerce_Lifecycle
begin

text \<open>
  A concrete ERC-8183 job on BSC testnet, its deployment pin and a platform with a fixed SHA-256, on
  which the properties of the commerce package are instantiated. The collection \<open>demo_simps\<close> evaluates
  the schemas and guards on them.
\<close>

definition demo_address :: "char \<Rightarrow> string" where
  "demo_address c = ''0x'' @ replicate 40 c"

definition demo_hash :: "char \<Rightarrow> string" where
  "demo_hash c = ''0x'' @ replicate 64 c"

definition demo_pin :: enabled_pin where
  "demo_pin = \<lparr>pin_chainId = 97, pin_specRevision = ''r1'', pin_commerceContract = demo_address CHR ''1'',
     pin_paymentToken = demo_address CHR ''2'', pin_paymentDecimals = 18, pin_abiHash = replicate 64 CHR ''b'',
     pin_evaluatorProfile = ''uma'', pin_confirmationThreshold = 3, pin_minExpiryLeadSeconds = 600,
     pin_maxExpiryHorizonSeconds = 86400, pin_minBudgetAtomic = ''1'', pin_maxBudgetAtomic = ''1000''\<rparr>"

text \<open>
  The hash maps the text of the pin and of the empty object to a digest and every other text to itself,
  so it tells any two jobs apart.
\<close>

definition demo_rt :: runtime where
  "demo_rt = \<lparr>sha256 = (\<lambda>s. if s = json_text (json_norm (pin_json demo_pin)) \<or> s = ''{}''
                              then replicate 64 CHR ''a'' else s),
     uuid_schema = (\<lambda>s. length s = 36), parse_url = (\<lambda>_. None)\<rparr>"

definition demo_terms :: job_terms where
  "demo_terms = \<lparr>t_chainId = 97, t_commerceContract = demo_address CHR ''1'',
     t_paymentToken = demo_address CHR ''2'', t_paymentDecimals = 18, t_clientAddress = demo_address CHR ''3'',
     t_providerAddress = Some (demo_address CHR ''4''), t_evaluatorAddress = demo_address CHR ''5'',
     t_hookAddress = None, t_budgetAtomic = ''100'', t_descriptionDigest = replicate 64 CHR ''c'',
     t_expiresAtUnix = 5000\<rparr>"

definition demo_job :: "job_state \<Rightarrow> job_record" where
  "demo_job s = \<lparr>j_jobKey = \<lparr>jk_chainId = 97, jk_commerceContract = demo_address CHR ''1'', jk_jobId = ''7''\<rparr>,
     j_terms = demo_terms, j_deploymentPin = demo_pin, j_deploymentPinDigest = replicate 64 CHR ''a'',
     j_state = s, j_createdAtUnix = 1000, j_updatedAtUnix = 1000,
     j_deliverableDigest = (if s = JobSubmitted \<or> s = JobCompleted then Some (replicate 64 CHR ''d'') else None),
     j_providerBinding = None, j_buyerApproval = None, j_fundingTransactionHash = None,
     j_submissionTransactionHash = None, j_completionTransactionHash = None,
     j_rejectionTransactionHash = None, j_refundTransactionHash = None, j_lastObservedBlock = None,
     j_lastObservedBlockHash = None, j_lastObservedAtUnix = None\<rparr>"

definition demo_uuid :: string where
  "demo_uuid = replicate 36 CHR ''e''"

definition demo_input :: "job_record \<Rightarrow> job_action \<Rightarrow> job_state \<Rightarrow> string \<Rightarrow> int \<Rightarrow> transition_input" where
  "demo_input j a s actor now = \<lparr>ti_job = j, ti_deploymentPin = Pin_Enabled demo_pin, ti_nextState = s,
     ti_action = a, ti_actorAddress = actor, ti_idempotencyKey = ''action-key-1'', ti_nowUnix = now,
     ti_metadata = None, ti_correlationId = ''c1'', ti_reconcilerAddresses = []\<rparr>"


definition demo_approved :: job_record where
  "demo_approved = (demo_job JobSubmitted)\<lparr>j_buyerApproval := Some
     \<lparr>ba_buyerAddress = demo_address CHR ''3'', ba_resultDigest = replicate 64 CHR ''d'',
      ba_approvedAtUnix = 1500\<rparr>\<rparr>"

named_theorems demo_simps \<open>the concrete job evaluates\<close>

lemma char_classes [demo_simps]:
  "is_hex CHR ''0''" "is_hex CHR ''1''" "is_hex CHR ''2''" "is_hex CHR ''3''" "is_hex CHR ''4''"
  "is_hex CHR ''5''" "is_hex CHR ''a''" "is_hex CHR ''b''" "is_hex CHR ''c''" "is_hex CHR ''d''"
  "js_lower_char CHR ''1'' = CHR ''1''" "js_lower_char CHR ''2'' = CHR ''2''"
  "js_lower_char CHR ''3'' = CHR ''3''" "js_lower_char CHR ''4'' = CHR ''4''"
  "js_lower_char CHR ''5'' = CHR ''5''" "js_lower_char CHR ''a'' = CHR ''a''"
  "js_lower_char CHR ''d'' = CHR ''d''"
  by (simp_all add: is_hex_def is_digit_def code_def js_lower_char_def)

lemma demo_address_schema [demo_simps]:
  "nonZeroAddressSchema (demo_address c) \<longleftrightarrow> is_hex c \<and> js_lower_char c \<noteq> CHR ''0''"
  by (auto simp: nonZeroAddressSchema_def evmAddressSchema_def hex_with_prefix_def demo_address_def
      zero_address_def js_lower_def list_all_iff) (simp_all add: js_lower_char_def code_def)

lemma demo_address_lower [demo_simps]: "js_lower (demo_address c) = demo_address (js_lower_char c)"
  by (simp add: js_lower_def demo_address_def) (simp add: js_lower_char_def code_def)

lemma demo_address_inj [demo_simps]: "demo_address c = demo_address d \<longleftrightarrow> c = d"
  by (simp add: demo_address_def)

lemma demo_digest_schema [demo_simps]:
  "contentDigestSchema (replicate 64 c) \<longleftrightarrow> is_hex c"
  "js_lower (replicate n c) = replicate n (js_lower_char c)"
  by (simp_all add: contentDigestSchema_def list_all_iff js_lower_def)

lemma demo_text [demo_simps]:
  "js_trim ''r1'' = ''r1''" "js_trim ''uma'' = ''uma''" "js_trim ''c1'' = ''c1''"
  "is_decimal ''1''" "is_decimal ''100''" "is_decimal ''1000''" "is_decimal ''7''" "is_decimal ''0''"
  "dec_val ERC8183_MVP_MAX_BUDGET_ATOMIC = 10000000000000000"
  "dec_val ''1'' = 1" "dec_val ''100'' = 100" "dec_val ''1000'' = 1000"
  "js_trim ''action:action-key-1'' = ''action:action-key-1''"
  by (simp_all add: js_trim_def is_space_def code_def is_decimal_def is_digit_def dec_val_def digit_val_def
      ERC8183_MVP_MAX_BUDGET_ATOMIC_def)

lemma demo_digest_of [demo_simps]:
  "digest_of demo_rt (pin_json demo_pin) = Inr (replicate 64 CHR ''a'')"
  "digest_of demo_rt (JObject []) = Inr (replicate 64 CHR ''a'')"
  by (simp add: digest_of_Inr, simp add: demo_rt_def)+

lemma demo_uuid_ok [demo_simps]: "uuid_schema demo_rt demo_uuid"
  by (simp add: demo_rt_def demo_uuid_def)

lemma demo_pin_schema [demo_simps]: "enabledErc8183DeploymentPinSchema demo_pin = Inr demo_pin"
  by (simp add: enabledErc8183DeploymentPinSchema_def demo_pin_def bscChainIdSchema_def text_between_def
      decimalUintSchema_def positiveDecimalUintSchema_def trim_pin_def demo_simps)

lemma demo_pin_lower [demo_simps]: "lower_pin demo_pin = demo_pin" "trim_pin demo_pin = demo_pin"
  by (simp_all add: lower_pin_def trim_pin_def demo_pin_def demo_simps)

lemma demo_pin_ok [demo_simps]: "parseEnabledDeploymentPin (Pin_Enabled demo_pin) = Inr demo_pin"
  by (simp add: parse_pin_Inr demo_simps) (simp add: demo_pin_def demo_simps)

lemma demo_pin_digest [demo_simps]:
  "erc8183DeploymentPinDigest demo_rt demo_pin = Inr (replicate 64 CHR ''a'')"
  by (simp add: erc8183DeploymentPinDigest_def demo_simps)

lemma demo_snapshot [demo_simps]:
  "assertDeploymentPinSnapshot demo_rt demo_pin (replicate 64 CHR ''a'') demo_pin = Inr ()"
  by (simp add: assertDeploymentPinSnapshot_def demo_simps pin_digest_def from_js_def del: pin_digest_defined)

lemma demo_terms_ok [demo_simps]:
  "erc8183JobTermsSchema demo_terms" "assertPinMatchesJob demo_terms demo_pin = Inr ()"
  "assertBudgetMatchesPin ''100'' demo_pin = Inr ()"
  by (simp_all add: erc8183JobTermsSchema_def demo_terms_def bscChainIdSchema_def decimalUintSchema_def
      unixSecondsSchema_def max_safe_integer_def assertPinMatchesJob_Inr assertBudgetMatchesPin_Inr
      maxUint256_def demo_pin_def demo_simps)

lemma demo_terms_fields [demo_simps]:
  "t_clientAddress demo_terms = demo_address CHR ''3''" "t_evaluatorAddress demo_terms = demo_address CHR ''5''"
  "t_providerAddress demo_terms = Some (demo_address CHR ''4'')" "t_budgetAtomic demo_terms = ''100''"
  "t_chainId demo_terms = 97" "t_expiresAtUnix demo_terms = 5000"
  "t_commerceContract demo_terms = demo_address CHR ''1''"
  by (simp_all add: demo_terms_def)

lemma demo_job_fields [demo_simps]:
  "j_terms (demo_job s) = demo_terms" "j_state (demo_job s) = s" "j_deploymentPin (demo_job s) = demo_pin"
  "j_deploymentPinDigest (demo_job s) = replicate 64 CHR ''a''" "j_buyerApproval (demo_job s) = None"
  by (simp_all add: demo_job_def)

lemma demo_job_valid [demo_simps]: "valid_job demo_rt (demo_job s)"
  by (simp add: valid_job_def erc8183JobRecordSchema_def demo_job_def parse_nullable_def job_fields_ok_def
      job_refined_def erc8183JobKeySchema_def bscChainIdSchema_def unixSecondsSchema_def max_safe_integer_def
      decimalUintSchema_def Let_def demo_simps)

lemma demo_approved_valid [demo_simps]: "valid_job demo_rt demo_approved"
  by (simp add: valid_job_def erc8183JobRecordSchema_def demo_approved_def demo_job_def parse_nullable_def job_fields_ok_def
      job_refined_def erc8183JobKeySchema_def bscChainIdSchema_def unixSecondsSchema_def max_safe_integer_def
      decimalUintSchema_def Let_def erc8183BuyerApprovalSchema_def approval_bound_def demo_simps)

lemma demo_admitted [demo_simps]:
  assumes "valid_job demo_rt j" "j_terms j = demo_terms" "j_deploymentPin j = demo_pin"
    "j_deploymentPinDigest j = replicate 64 CHR ''a''" "0 < now" "isSafeInteger now"
  shows "admitted demo_rt (demo_input j a t actor now)"
  using assms by (simp add: admitted_def demo_input_def valid_job_def demo_simps)

lemma demo_fund_permitted [demo_simps]:
  "assertErc8183Transition demo_rt
     (demo_input (demo_job JobOpen) ActFund JobFunded (demo_address CHR ''3'') 1100) = Inr ()"
proof -
  have "admitted demo_rt (demo_input (demo_job JobOpen) ActFund JobFunded (demo_address CHR ''3'') 1100)"
    by (rule demo_admitted) (simp_all add: demo_simps isSafeInteger_def max_safe_integer_def)
  then show ?thesis
    unfolding transition_guard by (simp add: demo_input_def demo_simps same_party_def)
qed

definition demo_result :: "job_record \<times> job_event" where
  "demo_result = ((demo_job JobOpen)\<lparr>j_state := JobFunded, j_updatedAtUnix := 1100,
      j_lastObservedAtUnix := Some 1100\<rparr>,
    \<lparr>ev_eventId = demo_uuid, ev_eventKey = ''action:action-key-1'',
     ev_jobKey = \<lparr>jk_chainId = 97, jk_commerceContract = demo_address CHR ''1'', jk_jobId = ''7''\<rparr>,
     ev_eventType = EvJobFunded, ev_previousState = Some JobOpen, ev_nextState = Some JobFunded,
     ev_actorAddress = Some (demo_address CHR ''3''), ev_transactionHash = None, ev_blockNumber = None,
     ev_blockHash = None, ev_logIndex = None, ev_confirmationState = Canonical,
     ev_payloadDigest = replicate 64 CHR ''a'', ev_payload = JObject [], ev_correlationId = ''c1'',
     ev_observedAtUnix = 1100\<rparr>)"

lemma demo_fund_event [demo_simps]:
  "createErc8183JobEvent demo_rt demo_uuid (actionEvent
     (demo_input (demo_job JobOpen) ActFund JobFunded (demo_address CHR ''3'') 1100) no_metadata)
   = Inr (snd demo_result)"
  by (simp add: createErc8183JobEvent_def actionEvent_def demo_input_def demo_job_def no_metadata_def or_empty_def
      eventTypeFor_def erc8183JobEventSchema_def erc8183JobKeySchema_def bscChainIdSchema_def text_between_def
      decimalUintSchema_def unixSecondsSchema_def max_safe_integer_def demo_result_def from_js_def Let_def demo_simps)

lemma demo_fund [demo_simps]:
  "transitionErc8183Job demo_rt demo_uuid
     (demo_input (demo_job JobOpen) ActFund JobFunded (demo_address CHR ''3'') 1100) = Inr demo_result"
proof -
  have "valid_job demo_rt (fst demo_result)"
    by (simp add: demo_result_def valid_job_def erc8183JobRecordSchema_def demo_job_def parse_nullable_def job_fields_ok_def
      job_refined_def erc8183JobKeySchema_def bscChainIdSchema_def unixSecondsSchema_def max_safe_integer_def
      decimalUintSchema_def Let_def demo_simps)
  moreover have "nextJobRecord (demo_input (demo_job JobOpen) ActFund JobFunded (demo_address CHR ''3'') 1100)
     no_metadata demo_terms = fst demo_result"
    by (simp add: nextJobRecord_def demo_input_def demo_result_def no_metadata_def or_else_def demo_job_def Let_def)
  ultimately show ?thesis
    using demo_fund_permitted demo_fund_event
    by (simp add: transitionErc8183Job_def demo_input_def no_metadata_def [symmetric] demo_simps
        updateTerms_def parseAtomic_Inr valid_job_def maxUint256_def)
qed

end
