(* ===== verification/Commerce_Properties.thy ===== *)
theory Commerce_Properties
  imports Commerce_Examples
begin

text \<open>
  Properties of the commerce package: pins, terms and quotes (validation.ts), the life of a job
  (lifecycle.ts). Each has its instance on the concrete job of \<open>Commerce_Examples\<close>.
\<close>

section \<open>Lifecycle\<close>

text \<open>C11: A transition passes the guards exactly when the job, the pin and the clock are valid, the move
  is one the action is for, the time fits the action, the actor is the party the action is reserved
  to, a completion has a matching buyer approval and a submission has a provider.\<close>

theorem transition_permitted_iff:
  "assertErc8183Transition rt i = Inr () \<longleftrightarrow> admitted rt i
     \<and> (j_state (ti_job i), ti_nextState i) \<in> set (action_moves (ti_action i))
     \<and> timely (ti_action i) (ti_nextState i) (ti_nowUnix i) (t_expiresAtUnix (j_terms (ti_job i)))
     \<and> entitled (j_terms (ti_job i)) (ti_reconcilerAddresses i) (j_state (ti_job i)) (ti_action i) (ti_actorAddress i)
     \<and> (ti_action i = ActComplete \<longrightarrow> approval_matches_deliverable (ti_job i))
     \<and> (ti_nextState i = JobSubmitted \<and> ti_action i \<noteq> ActReconcile \<longrightarrow>
        t_providerAddress (j_terms (ti_job i)) \<noteq> None)"
  by (rule transition_guard)

theorem transition_permitted_witness:
  "admitted demo_rt (demo_input (demo_job JobOpen) ActFund JobFunded (demo_address CHR ''3'') 1100)
   \<and> timely ActFund JobFunded 1100 5000"
  using demo_fund_permitted
  unfolding transition_permitted_iff by (simp add: demo_input_def demo_simps)

text \<open>C20: Whatever transitions and approvals a job goes through, its key, its deployment pin, its creation
  time and all terms but provider and budget stay the same, its progress never falls, its whole
  terms are fixed once it has left the open state, and a settled job stays in its state.\<close>

theorem job_life_invariants:
  assumes "job_life rt j k"
  shows "j_jobKey k = j_jobKey j \<and> j_createdAtUnix k = j_createdAtUnix j
     \<and> j_deploymentPinDigest k = j_deploymentPinDigest j
     \<and> trim_pin (j_deploymentPin k) = trim_pin (j_deploymentPin j)
     \<and> fixed_terms (j_terms k) = fixed_terms (j_terms j)
     \<and> progress (j_state j) \<le> progress (j_state k)
     \<and> (j_state j \<noteq> JobOpen \<longrightarrow> j_terms k = j_terms j)
     \<and> (settled (j_state j) \<longrightarrow> j_state k = j_state j)"
  using job_life_same [OF assms] by (simp add: same_job_def)

theorem job_life_invariants_witness:
  "j_jobKey (fst demo_result) = j_jobKey (demo_job JobOpen)
   \<and> progress (j_state (demo_job JobOpen)) \<le> progress (j_state (fst demo_result))"
proof -
  have "job_step demo_rt (demo_job JobOpen) (fst demo_result)"
    using job_step.Transition [of demo_rt demo_uuid _ "fst demo_result" "snd demo_result"] demo_fund
    by (fastforce simp: demo_input_def)
  then have "job_life demo_rt (demo_job JobOpen) (fst demo_result)" by blast
  from job_life_invariants [OF this] show ?thesis by blast
qed



text \<open>C23: The action \<open>create\<close> has no rule in the guards: given a valid job that is submitted, its client
  completes it without an approval, without the evaluator and after the expiry.\<close>

theorem create_action_completes:
  assumes "admitted rt i" "ti_action i = ActCreate" "j_state (ti_job i) = JobSubmitted"
    and "ti_nextState i = JobCompleted" "same_party (ti_actorAddress i) (t_clientAddress (j_terms (ti_job i)))"
  shows "assertErc8183Transition rt i = Inr ()"
  unfolding transition_guard using assms by simp

theorem create_action_completes_witness:
  "assertErc8183Transition demo_rt
     (demo_input (demo_job JobSubmitted) ActCreate JobCompleted (demo_address CHR ''3'') 9000) = Inr ()
   \<and> j_buyerApproval (demo_job JobSubmitted) = None"
proof -
  let ?i = "demo_input (demo_job JobSubmitted) ActCreate JobCompleted (demo_address CHR ''3'') 9000"
  have "admitted demo_rt ?i"
    by (rule demo_admitted) (simp_all add: demo_simps isSafeInteger_def max_safe_integer_def)
  then show ?thesis
    using create_action_completes [of demo_rt ?i] by (simp add: demo_input_def demo_simps same_party_def)
qed


text \<open>A job with a buyer approval keeps it, and so is never recorded as rejected or expired: no transition
  to a refund or a rejection of an approved job succeeds, before or after its expiry.\<close>

theorem approved_job_never_refunded:
  assumes "valid_job rt j" "j_buyerApproval j = Some a" "job_life rt j k"
  shows "j_buyerApproval k = Some a \<and> j_state k \<in> {JobSubmitted, JobCompleted}
     \<and> (\<forall>u i r. ti_job i = k \<longrightarrow> ti_nextState i \<in> {JobRejected, JobExpired} \<longrightarrow>
          transitionErc8183Job rt u i \<noteq> Inr r)"
proof -
  have valid: "valid_job rt k" using job_life_same [OF assms(3)] assms(1) by blast
  have kept: "j_buyerApproval k = Some a" by (rule job_life_approval [OF assms(3,2)])
  have "transitionErc8183Job rt u i \<noteq> Inr r"
    if "ti_job i = k" "ti_nextState i \<in> {JobRejected, JobExpired}" for u i r
  proof
    assume t: "transitionErc8183Job rt u i = Inr r"
    obtain j' e where r: "r = (j', e)" by (cases r)
    note res = transition_result [OF t [unfolded r]]
    have "j_state j' = JobSubmitted \<or> j_state j' = JobCompleted"
      by (rule approved_states [OF res(1)]) (use res(8) kept that in simp)
    with res(3) that(2) show False by auto
  qed
  with kept approved_states [OF valid kept] show ?thesis by blast
qed

theorem approved_job_never_refunded_witness:
  "\<not> is_ok (transitionErc8183Job demo_rt demo_uuid
     (demo_input demo_approved ActClaimRefund JobExpired (demo_address CHR ''3'') 9000))"
proof -
  have "j_buyerApproval demo_approved = Some \<lparr>ba_buyerAddress = demo_address CHR ''3'',
     ba_resultDigest = replicate 64 CHR ''d'', ba_approvedAtUnix = 1500\<rparr>"
    by (simp add: demo_approved_def)
  note a = approved_job_never_refunded [OF demo_approved_valid this rtranclp.rtrancl_refl]
  have "transitionErc8183Job demo_rt demo_uuid
     (demo_input demo_approved ActClaimRefund JobExpired (demo_address CHR ''3'') 9000) \<noteq> Inr r" for r
    using a by (cases r) (simp add: demo_input_def)
  then show ?thesis by (metis is_ok_iff)
qed

text \<open>The event of a transition describes it: the key of the job, the states before and after, the type
  of the action, the time, the key of the action, and a payload free of sensitive fields with its
  digest.\<close>

theorem transition_event_faithful:
  assumes "transitionErc8183Job rt u i = Inr (j', e)"
  shows "ev_previousState e = Some (j_state (ti_job i)) \<and> ev_nextState e = Some (j_state j')
     \<and> ev_eventType e = eventTypeFor (ti_action i) (j_state j')
     \<and> jk_chainId (ev_jobKey e) = jk_chainId (j_jobKey j') \<and> jk_jobId (ev_jobKey e) = jk_jobId (j_jobKey j')
     \<and> jk_commerceContract (ev_jobKey e) = js_lower (jk_commerceContract (j_jobKey j'))
     \<and> ev_observedAtUnix e = j_updatedAtUnix j'
     \<and> ev_eventKey e = js_trim (''action:'' @ ti_idempotencyKey i)
     \<and> (\<forall>k \<in> field_names (ev_payload e). \<not> FORBIDDEN_FIELD k)
     \<and> digest_of rt (ev_payload e) = Inr (ev_payloadDigest e)"
proof -
  from assms have "createErc8183JobEvent rt u (actionEvent i (metadata_of i)) = Inr e"
    unfolding transition_Inr by blast
  note ev = created_event [OF this]
  from ev(2,3,5-12) transition_result(2,3,7) [OF assms] show ?thesis
    by (simp add: actionEvent_def)
qed

theorem transition_event_faithful_witness:
  "ev_nextState (snd demo_result) = Some JobFunded \<and> ev_eventType (snd demo_result) = EvJobFunded"
  using transition_event_faithful [of demo_rt demo_uuid _ "fst demo_result" "snd demo_result"] demo_fund
  by (simp add: demo_result_def eventTypeFor_def)

text \<open>Approving a result is idempotent: an approval that was stored is returned unchanged when the
  same client approves the same result again, at any later time.\<close>

theorem approval_idempotent:
  assumes "approveErc8183Result rt j a d now = Inr j'" "isSafeInteger later" "0 < later"
  shows "approveErc8183Result rt j' a d later = Inr j'"
proof -
  note r = approve_result [OF assms(1)]
  from assms(1) obtain job where job: "erc8183JobRecordSchema rt j = Inr job"
    and p: "same_party a (t_clientAddress (j_terms job))" "contentDigestSchema d"
      "map_option js_lower (j_deliverableDigest job) = Some (js_lower d)"
    by (auto simp: approve_Inr)
  obtain b where b: "j_buyerApproval j' = Some b" "approval_bound j' b" "js_lower (ba_resultDigest b) = js_lower d"
    using r(9) by blast
  from b(2,3) have "map_option js_lower (j_deliverableDigest j') = Some (js_lower d)"
    "js_lower (ba_buyerAddress b) = js_lower (t_clientAddress (j_terms j'))"
    by (auto simp: approval_bound_def split: option.splits)
  moreover have "same_party a (t_clientAddress (j_terms j'))"
    using p(1) r(4) parsed_job_fields(2) [OF job] by simp
  ultimately show ?thesis
    using r(1,2,3) b p(2) assms(2,3)
    by (auto simp: approve_Inr valid_job_def same_party_def)
qed

theorem approval_idempotent_witness:
  "approveErc8183Result demo_rt demo_approved (demo_address CHR ''3'') (replicate 64 CHR ''d'') 1700
   = Inr demo_approved"
proof -
  have "approveErc8183Result demo_rt demo_approved (demo_address CHR ''3'') (replicate 64 CHR ''d'') 1500
     = Inr demo_approved"
    using demo_approved_valid
    unfolding approve_Inr valid_job_def
    by (simp add: demo_approved_def demo_job_def demo_simps same_party_def isSafeInteger_def max_safe_integer_def)
  from approval_idempotent [OF this] show ?thesis by (simp add: isSafeInteger_def max_safe_integer_def)
qed

section \<open>Pins, terms, quotes\<close>

text \<open>A stored deployment pin that passes the snapshot check is the trusted pin, unless both are on BSC
  mainnet and differ only in the price cap that the reviewed migration lifts from \<open>10 ^ 16\<close> to
  \<open>2 ^ 256 - 2\<close>; the hash has to tell the pins compared apart.\<close>

theorem pin_snapshot_sound:
  assumes "assertDeploymentPinSnapshot rt s d trusted = Inr ()"
    and "parseEnabledDeploymentPin (Pin_Enabled s) = Inr p" "parseEnabledDeploymentPin tp = Inr trusted"
    and "no_collision rt (pin_json p) (pin_json trusted)"
    and "no_collision rt (pin_json (p\<lparr>pin_maxBudgetAtomic := pin_maxBudgetAtomic trusted\<rparr>)) (pin_json trusted)"
  shows "p = trusted \<or> (pin_chainId p = 56 \<and> pin_maxBudgetAtomic p = ''10000000000000000''
     \<and> trusted = p\<lparr>pin_maxBudgetAtomic := show_nat (2 ^ 256 - 2)\<rparr>)"
proof -
  have low: "lower_pin p = p" "lower_pin trusted = trusted"
    using parsed_pin_ok [OF assms(2)] parsed_pin_ok [OF assms(3)] by (simp_all add: pin_ok_def)
  let ?m = "p\<lparr>pin_maxBudgetAtomic := pin_maxBudgetAtomic trusted\<rparr>"
  have lowm: "lower_pin ?m = ?m" by (simp add: low)
  from assms(1,2) have "pin_digest rt p = pin_digest rt trusted \<or>
      (pin_chainId p = 56 \<and> pin_maxBudgetAtomic p = migrationCap \<and> pin_maxBudgetAtomic trusted = uncappedBudget
       \<and> pin_digest rt ?m = pin_digest rt trusted)"
    unfolding snapshot_Inr by auto
  then show ?thesis
  proof
    assume "pin_digest rt p = pin_digest rt trusted"
    from pin_digest_eq [OF this] low assms(4) show ?thesis by simp
  next
    assume m: "pin_chainId p = 56 \<and> pin_maxBudgetAtomic p = migrationCap
       \<and> pin_maxBudgetAtomic trusted = uncappedBudget \<and> pin_digest rt ?m = pin_digest rt trusted"
    then have dig: "pin_digest rt ?m = pin_digest rt trusted" by blast
    have "?m = trusted" using pin_digest_eq [OF dig] assms(5) unfolding lowm low(2) by blast
    with m show ?thesis by (auto simp: migrationCap_def uncappedBudget_def)
  qed
qed

definition demo_mainnet_pin :: "string \<Rightarrow> enabled_pin" where
  "demo_mainnet_pin cap = demo_pin\<lparr>pin_chainId := 56, pin_maxBudgetAtomic := cap\<rparr>"

lemma demo_mainnet_ok:
  assumes "is_decimal cap" "0 < dec_val cap"
  shows "parseEnabledDeploymentPin (Pin_Enabled (demo_mainnet_pin cap)) = Inr (demo_mainnet_pin cap)"
proof -
  have "cap \<noteq> ''0''" using assms(2) by (auto simp: dec_val_def digit_val_def code_def)
  then have "enabledErc8183DeploymentPinSchema (demo_mainnet_pin cap) = Inr (demo_mainnet_pin cap)"
    using assms(1)
    by (simp add: enabledErc8183DeploymentPinSchema_def demo_mainnet_pin_def demo_pin_def bscChainIdSchema_def
        text_between_def decimalUintSchema_def positiveDecimalUintSchema_def trim_pin_def demo_simps)
  moreover have "lower_pin (demo_mainnet_pin cap) = demo_mainnet_pin cap"
    by (simp add: lower_pin_def demo_mainnet_pin_def demo_pin_def demo_simps)
  moreover have "pin_minBudgetAtomic (demo_mainnet_pin cap) = ''1''" "pin_maxBudgetAtomic (demo_mainnet_pin cap) = cap"
    "pin_minExpiryLeadSeconds (demo_mainnet_pin cap) \<le> pin_maxExpiryHorizonSeconds (demo_mainnet_pin cap)"
    by (simp_all add: demo_mainnet_pin_def demo_pin_def)
  ultimately show ?thesis using assms(2) by (simp add: parse_pin_Inr demo_simps)
qed

theorem pin_snapshot_sound_witness:
  "demo_mainnet_pin (show_nat (2 ^ 256 - 2)) =
   (demo_mainnet_pin ''10000000000000000'')\<lparr>pin_maxBudgetAtomic := show_nat (2 ^ 256 - 2)\<rparr>"
proof -
  let ?rt = "\<lparr>sha256 = (\<lambda>s. s), uuid_schema = (\<lambda>_. True), parse_url = (\<lambda>_. None)\<rparr>"
  let ?p = "demo_mainnet_pin ''10000000000000000''" and ?t = "demo_mainnet_pin (show_nat (2 ^ 256 - 2))"
  have cap: "is_decimal ''10000000000000000''" "0 < dec_val ''10000000000000000''"
    by (simp_all add: is_decimal_def is_digit_def code_def dec_val_def digit_val_def)
  have p: "parseEnabledDeploymentPin (Pin_Enabled ?p) = Inr ?p" by (rule demo_mainnet_ok [OF cap])
  have t: "parseEnabledDeploymentPin (Pin_Enabled ?t) = Inr ?t" by (rule demo_mainnet_ok) simp_all
  obtain d where d: "pin_digest ?rt ?p = Inr d" by simp
  have "?p\<lparr>pin_maxBudgetAtomic := pin_maxBudgetAtomic ?t\<rparr> = ?t"
    "pin_chainId ?p = 56" "pin_chainId ?t = 56" "pin_maxBudgetAtomic ?p = migrationCap"
    "pin_maxBudgetAtomic ?t = uncappedBudget"
    by (simp_all add: demo_mainnet_pin_def migrationCap_def uncappedBudget_def)
  with p d have s: "assertDeploymentPinSnapshot ?rt ?p d ?t = Inr ()" unfolding snapshot_Inr by metis
  have n: "no_collision ?rt v w" for v w by (simp add: no_collision_def)
  have "pin_maxBudgetAtomic ?p = ''10000000000000000''" by (simp add: demo_mainnet_pin_def)
  moreover have "pin_maxBudgetAtomic ?t = show_nat (2 ^ 256 - 2)" by (simp add: demo_mainnet_pin_def)
  moreover have "''10000000000000000'' \<noteq> show_nat (2 ^ 256 - 2)"
  proof
    assume "''10000000000000000'' = show_nat (2 ^ 256 - 2)"
    then have "dec_val ''10000000000000000'' = 2 ^ 256 - 2" by (metis dec_val_show_nat)
    then show False by (simp add: dec_val_def digit_val_def code_def)
  qed
  ultimately have "?p \<noteq> ?t" by metis
  with pin_snapshot_sound [OF s p t n n] show ?thesis by blast
qed

text \<open>Accepted job terms are normalised (accepting them again returns them), agree with the parsed pin in
  chain, contract, token and decimals, have a budget within the pin, below \<open>2 ^ 256 - 1\<close> and at most
  \<open>10 ^ 16\<close> on testnet, and expire within the lead time and the horizon.\<close>

theorem job_terms_accepted:
  assumes "validateJobTerms t pin now = Inr u" "parseEnabledDeploymentPin pin = Inr p"
  shows "validateJobTerms u pin now = Inr u
     \<and> t_chainId u = pin_chainId p \<and> t_commerceContract u = pin_commerceContract p
     \<and> t_paymentToken u = pin_paymentToken p \<and> t_paymentDecimals u = pin_paymentDecimals p
     \<and> dec_val (pin_minBudgetAtomic p) \<le> dec_val (t_budgetAtomic u)
     \<and> dec_val (t_budgetAtomic u) \<le> dec_val (pin_maxBudgetAtomic p)
     \<and> int (dec_val (t_budgetAtomic u)) < 2 ^ 256 - 1
     \<and> (pin_chainId p = 97 \<longrightarrow> dec_val (t_budgetAtomic u) \<le> 10 ^ 16)
     \<and> now + pin_minExpiryLeadSeconds p < t_expiresAtUnix u
     \<and> t_expiresAtUnix u \<le> now + pin_maxExpiryHorizonSeconds p"
proof -
  have low: "js_lower (pin_commerceContract p) = pin_commerceContract p"
    "js_lower (pin_paymentToken p) = pin_paymentToken p"
    using assms(2) by (auto simp: parse_pin_Inr lower_pin_def)
  have cap: "dec_val ERC8183_MVP_MAX_BUDGET_ATOMIC = 10 ^ 16" by (simp add: demo_simps)
  from assms(1) have again: "validateJobTerms u pin now = Inr u" by (rule live_job_terms.norm_idem)
  from assms have u: "u = lower_terms t" and m: "assertPinMatchesJob t p = Inr ()"
    and b: "assertBudgetMatchesPin (t_budgetAtomic t) p = Inr ()"
    and time: "now + pin_minExpiryLeadSeconds p < t_expiresAtUnix t"
      "t_expiresAtUnix t \<le> now + pin_maxExpiryHorizonSeconds p"
    by (auto simp: validateJobTerms_Inr normalizeJobTerms_Inr)
  have "t_chainId u = pin_chainId p" "t_commerceContract u = pin_commerceContract p"
    "t_paymentToken u = pin_paymentToken p" "t_paymentDecimals u = pin_paymentDecimals p"
    using m low by (simp_all add: u assertPinMatchesJob_Inr)
  moreover have "dec_val (pin_minBudgetAtomic p) \<le> dec_val (t_budgetAtomic u)"
    "dec_val (t_budgetAtomic u) \<le> dec_val (pin_maxBudgetAtomic p)"
    "int (dec_val (t_budgetAtomic u)) < 2 ^ 256 - 1"
    "pin_chainId p = 97 \<longrightarrow> dec_val (t_budgetAtomic u) \<le> 10 ^ 16"
    using b unfolding assertBudgetMatchesPin_Inr cap maxUint256_def u by simp_all
  ultimately show ?thesis using again time by (simp add: u)
qed

theorem job_terms_accepted_witness:
  "validateJobTerms demo_terms (Pin_Enabled demo_pin) 1000 = Inr demo_terms
   \<and> t_expiresAtUnix demo_terms \<le> 1000 + pin_maxExpiryHorizonSeconds demo_pin"
proof -
  have "lower_terms demo_terms = demo_terms"
    by (simp add: lower_terms_def demo_terms_def demo_simps)
  then have v: "validateJobTerms demo_terms (Pin_Enabled demo_pin) 1000 = Inr demo_terms"
    unfolding validateJobTerms_Inr normalizeJobTerms_Inr
    by (simp add: demo_simps isSafeInteger_def max_safe_integer_def) (simp add: demo_pin_def)
  from job_terms_accepted [OF v demo_pin_ok] v show ?thesis by blast
qed

text \<open>A quote that validates agrees with the parsed pin in chain, contract and asset, its job key names the
  same contract, its price lies between its own bounds and these within the pin, it is not expired, and
  validating the returned quote returns it unchanged.\<close>

theorem quote_accepted:
  assumes "validateQuote q pin now = Inr r" "parseEnabledDeploymentPin pin = Inr p"
  shows "quote_usable p now r \<and> validateQuote r pin now = Inr r"
  using validateQuote_usable [OF assms] live_quote.norm_idem [OF assms(1)] by blast

definition demo_quote :: quote where
  "demo_quote = \<lparr>q_quoteId = ''r1'', q_jobKey = \<lparr>jk_chainId = 97, jk_commerceContract = demo_address CHR ''1'',
     jk_jobId = ''7''\<rparr>, q_chainId = 97, q_commerceContract = demo_address CHR ''1'',
     q_paymentToken = demo_address CHR ''2'', q_paymentDecimals = 18, q_providerAddress = demo_address CHR ''4'',
     q_descriptionDigest = replicate 64 CHR ''c'', q_minPriceAtomic = ''1'', q_maxPriceAtomic = ''1000'',
     q_priceAtomic = ''100'', q_issuedAtUnix = 900, q_expiresAtUnix = 2000, q_idempotencyKey = ''quote-key-1''\<rparr>"

theorem quote_accepted_witness: "quote_usable demo_pin 1000 demo_quote"
proof -
  have key: "idempotencyKeySchema ''quote-key-1'' = Inr ''quote-key-1''" by code_simp
  have "erc8183QuoteSchema demo_quote = Inr demo_quote"
    by (simp add: erc8183QuoteSchema_def demo_quote_def key Let_def text_between_def erc8183JobKeySchema_def
        bscChainIdSchema_def decimalUintSchema_def positiveDecimalUintSchema_def unixSecondsSchema_def
        max_safe_integer_def quote_refined_def demo_simps)
  moreover have "quote_fits demo_pin 1000 demo_quote" "lower_quote demo_quote = demo_quote"
    by (simp_all add: quote_fits_def lower_quote_def demo_quote_def demo_pin_def maxUint256_def
        isSafeInteger_def max_safe_integer_def demo_simps)
  ultimately have "validateQuote demo_quote (Pin_Enabled demo_pin) 1000 = Inr demo_quote"
    unfolding validateQuote_Inr using demo_pin_ok by metis
  from quote_accepted [OF this demo_pin_ok] show ?thesis by blast
qed

end
