(* ===== verification/Commerce_Repository.thy ===== *)
theory Commerce_Repository
  imports Commerce_Lifecycle "HOL-Library.AList"
begin

text \<open>
  packages/agent-commerce/src/repository.ts: the in-memory repository of jobs, events, idempotency
  records and reconciliations. The maps of the class are the fields of \<open>repo_state\<close>; the
  reconciliations, which are iterated, are an association list in insertion order.

  \<open>create\<close> and \<open>transition\<close> read the maps, then wait for the transaction lock, then commit. The part
  before the wait is a \<open>prepare\<close> function of the state it reads, the part after it is \<open>commit\<close> on the
  state it finds then; both run without interruption, so their interleavings are the interleavings of
  the program. \<open>now\<close> is the reading of the trusted clock, \<open>uuid\<close> what \<open>randomUUID\<close> returns.
\<close>

section \<open>State\<close>

definition keyFor :: "job_key \<Rightarrow> string" where
  "keyFor k = show_int (jk_chainId k) @ '':'' @ js_lower (jk_commerceContract k) @ '':'' @ jk_jobId k"

record action_record =
  ar_digest :: string
  ar_requestDigest :: "string option"
  ar_jobKey :: string
  ar_job :: job_record
  ar_event :: job_event

record repo_state =
  rp_jobs :: "string \<Rightarrow> job_record option"
  rp_events :: "string \<Rightarrow> job_event option"
  rp_actions :: "string \<Rightarrow> action_record option"
  rp_reconciliations :: "(string \<times> reconciliation) list"

definition empty_repo :: repo_state where
  "empty_repo = \<lparr>rp_jobs = (\<lambda>_. None), rp_events = (\<lambda>_. None), rp_actions = (\<lambda>_. None),
                 rp_reconciliations = []\<rparr>"

record repo_config =
  cfg_pin :: enabled_pin
  cfg_reconcilers :: "string list"

text \<open>The constructor.\<close>

definition newRepository :: "pin_input \<Rightarrow> string list \<Rightarrow> commerce_exn + repo_config" where
  "newRepository deploymentPin reconcilers =
     bindE (parseEnabledDeploymentPin deploymentPin) (\<lambda>p.
     bindE (mapE normalizeAddress reconcilers) (\<lambda>rs.
     Inr \<lparr>cfg_pin = p, cfg_reconcilers = rs\<rparr>))"

definition trustedNowUnix :: "int \<Rightarrow> commerce_exn + int" where
  "trustedNowUnix now =
     (if \<not> isSafeInteger now \<or> now \<le> 0 then Inl (commerce_error INVALID_EXPIRY) else Inr now)"

definition creationRequestDigest :: "runtime \<Rightarrow> job_record \<Rightarrow> commerce_exn + string" where
  "creationRequestDigest rt job = from_js (digest_of rt (JObject
     [(''operation'', JString ''create''), (''job'', JObject (job_request_fields job))]))"

definition sameEvent :: "runtime \<Rightarrow> job_event \<Rightarrow> job_event \<Rightarrow> commerce_exn + bool" where
  "sameEvent rt l r =
     (if ev_eventId l = ev_eventId r \<and> ev_eventKey l = ev_eventKey r
         \<and> jk_chainId (ev_jobKey l) = jk_chainId (ev_jobKey r)
         \<and> js_lower (jk_commerceContract (ev_jobKey l)) = js_lower (jk_commerceContract (ev_jobKey r))
         \<and> jk_jobId (ev_jobKey l) = jk_jobId (ev_jobKey r) \<and> ev_eventType l = ev_eventType r
         \<and> ev_previousState l = ev_previousState r \<and> ev_payloadDigest l = ev_payloadDigest r
         \<and> ev_nextState l = ev_nextState r
         \<and> map_option js_lower (ev_actorAddress l) = map_option js_lower (ev_actorAddress r)
         \<and> ev_transactionHash l = ev_transactionHash r \<and> ev_blockNumber l = ev_blockNumber r
         \<and> ev_blockHash l = ev_blockHash r \<and> ev_logIndex l = ev_logIndex r
         \<and> ev_confirmationState l = ev_confirmationState r \<and> ev_correlationId l = ev_correlationId r
         \<and> ev_observedAtUnix l = ev_observedAtUnix r
      then bindE (from_js (digest_of rt (ev_payload l))) (\<lambda>a.
           bindE (from_js (digest_of rt (ev_payload r))) (\<lambda>b. Inr (a = b)))
      else Inr False)"

section \<open>Commit\<close>

record commit_input =
  ci_actionKey :: string
  ci_actionDigest :: string
  ci_jobKey :: string
  ci_expectedJob :: "job_record option"
  ci_job :: job_record
  ci_event :: job_event
  ci_requestDigest :: "string option"

definition stale_job :: commerce_exn where
  "stale_job = CommerceError STALE_JOB True ''reconcile_job''"

definition job_digest :: "runtime \<Rightarrow> job_record \<Rightarrow> commerce_exn + string" where
  "job_digest rt j = from_js (digest_of rt (job_json j))"

text \<open>The comparison of the current job with the expected one.\<close>

definition checkExpected :: "runtime \<Rightarrow> repo_state \<Rightarrow> commit_input \<Rightarrow> commerce_exn + unit" where
  "checkExpected rt st i =
     (case ci_expectedJob i of
        None \<Rightarrow> (case rp_jobs st (ci_jobKey i) of
                   Some _ \<Rightarrow> Inl (commerce_error IDEMPOTENCY_CONFLICT) | None \<Rightarrow> Inr ())
      | Some expected \<Rightarrow>
          if keyFor (j_jobKey expected) \<noteq> ci_jobKey i then Inl stale_job
          else (case rp_jobs st (ci_jobKey i) of
                  None \<Rightarrow> Inl stale_job
                | Some current \<Rightarrow>
                    bindE (job_digest rt current) (\<lambda>a.
                    bindE (job_digest rt expected) (\<lambda>b.
                    if a \<noteq> b then Inl stale_job else Inr ()))))"

definition commit :: "runtime \<Rightarrow> repo_config \<Rightarrow> int \<Rightarrow> repo_state \<Rightarrow> commit_input \<Rightarrow> commerce_exn + repo_state" where
  "commit rt cfg now st i =
     bindE (idempotencyKeySchema (ci_actionKey i)) (\<lambda>action.
     bindE (erc8183JobRecordSchema rt (ci_job i)) (\<lambda>persistedJob.
     bindE (assertDeploymentPinSnapshot rt (j_deploymentPin persistedJob)
              (j_deploymentPinDigest persistedJob) (cfg_pin cfg)) (\<lambda>_.
     bindE (assertPinMatchesJob (j_terms persistedJob) (cfg_pin cfg)) (\<lambda>_.
     bindE (assertBudgetMatchesPin (t_budgetAtomic (j_terms persistedJob)) (cfg_pin cfg)) (\<lambda>_.
     bindE (trustedNowUnix now) (\<lambda>now.
     bindE (validateJobTerms (j_terms persistedJob) (Pin_Enabled (cfg_pin cfg)) now) (\<lambda>_.
     bindE (erc8183JobEventSchema rt (ci_event i)) (\<lambda>_.
     if keyFor (j_jobKey (ci_job i)) \<noteq> ci_jobKey i \<or> keyFor (ev_jobKey (ci_event i)) \<noteq> ci_jobKey i
        \<or> ev_eventKey (ci_event i) \<noteq> ''action:'' @ action
     then Inl (commerce_error EVENT_CONFLICT) else
     bindE (checkExpected rt st i) (\<lambda>_.
     bindE (case rp_events st (ev_eventKey (ci_event i)) of
              None \<Rightarrow> Inr ()
            | Some previous \<Rightarrow>
                bindE (sameEvent rt previous (ci_event i)) (\<lambda>same.
                if \<not> same then Inl (commerce_error EVENT_CONFLICT) else Inr ())) (\<lambda>_.
     if (case rp_actions st action of
           None \<Rightarrow> False
         | Some prior \<Rightarrow> ar_digest prior \<noteq> ci_actionDigest i \<or> ar_jobKey prior \<noteq> ci_jobKey i
             \<or> (ci_requestDigest i \<noteq> None \<and> ar_requestDigest prior \<noteq> ci_requestDigest i))
     then Inl (commerce_error IDEMPOTENCY_CONFLICT)
     else if rp_events st (ev_eventKey (ci_event i)) \<noteq> None \<or> rp_actions st action \<noteq> None
     then Inl (commerce_error IDEMPOTENCY_CONFLICT)
     else Inr (st\<lparr>rp_jobs := (rp_jobs st)(ci_jobKey i \<mapsto> ci_job i),
                  rp_events := (rp_events st)(ev_eventKey (ci_event i) \<mapsto> ci_event i),
                  rp_actions := (rp_actions st)(action \<mapsto>
                    \<lparr>ar_digest = ci_actionDigest i, ar_requestDigest = ci_requestDigest i,
                     ar_jobKey = ci_jobKey i, ar_job = ci_job i, ar_event = ci_event i\<rparr>)\<rparr>)))))))))))"

text \<open>
  The transaction around a commit: on an error the four maps are set back to the copies that were
  taken when the transaction began. The restoring runs after other code had a chance to run; \<open>now_st\<close>
  is the state it finds.
\<close>

definition rollback :: "repo_state \<Rightarrow> repo_state \<Rightarrow> repo_state" where
  "rollback snapshot now_st = now_st\<lparr>rp_jobs := rp_jobs snapshot, rp_events := rp_events snapshot,
     rp_actions := rp_actions snapshot, rp_reconciliations := rp_reconciliations snapshot\<rparr>"

section \<open>Creation and transition\<close>

datatype prepared = Replay job_record job_event | Prepared commit_input

definition create_prepare ::
    "runtime \<Rightarrow> repo_config \<Rightarrow> string \<Rightarrow> int \<Rightarrow> repo_state \<Rightarrow> job_record \<Rightarrow> string \<Rightarrow> commerce_exn + prepared" where
  "create_prepare rt cfg uuid now st inputJob idempotencyKey =
     bindE (idempotencyKeySchema idempotencyKey) (\<lambda>key.
     bindE (erc8183JobRecordSchema rt inputJob) (\<lambda>parsedJob.
     bindE (assertDeploymentPinSnapshot rt (j_deploymentPin parsedJob)
              (j_deploymentPinDigest parsedJob) (cfg_pin cfg)) (\<lambda>_.
     bindE (normalizeJobKey (j_jobKey parsedJob)) (\<lambda>k.
     bindE (normalizeJobTerms (j_terms parsedJob) (Pin_Enabled (cfg_pin cfg))) (\<lambda>t.
     bindE (pin_digest rt (cfg_pin cfg)) (\<lambda>pd.
     bindE (erc8183JobRecordSchema rt (parsedJob\<lparr>j_jobKey := k, j_terms := t,
              j_deploymentPin := cfg_pin cfg, j_deploymentPinDigest := pd\<rparr>)) (\<lambda>normalizedInput.
     if j_state normalizedInput \<noteq> JobOpen then Inl (commerce_error INVALID_JOB) else
     (let jobKey = keyFor (j_jobKey normalizedInput) in
     bindE (creationRequestDigest rt normalizedInput) (\<lambda>requestDigest.
     case rp_actions st key of
       Some previous \<Rightarrow>
         if (case ar_requestDigest previous of None \<Rightarrow> ar_digest previous | Some d \<Rightarrow> d) \<noteq> requestDigest
            \<or> ar_jobKey previous \<noteq> jobKey
         then Inl (commerce_error IDEMPOTENCY_CONFLICT)
         else Inr (Replay (ar_job previous) (ar_event previous))
     | None \<Rightarrow>
         bindE (trustedNowUnix now) (\<lambda>createdAtUnix.
         bindE (validateJobTerms (j_terms normalizedInput) (Pin_Enabled (cfg_pin cfg)) createdAtUnix) (\<lambda>terms.
         bindE (erc8183JobRecordSchema rt (normalizedInput\<lparr>j_terms := terms,
                  j_createdAtUnix := createdAtUnix, j_updatedAtUnix := createdAtUnix\<rparr>)) (\<lambda>job.
         if rp_jobs st jobKey \<noteq> None then Inl (commerce_error IDEMPOTENCY_CONFLICT) else
         bindE (from_js (digest_of rt (JObject []))) (\<lambda>payloadDigest.
         bindE (erc8183JobEventSchema rt
           \<lparr>ev_eventId = uuid, ev_eventKey = ''action:'' @ key, ev_jobKey = j_jobKey job,
            ev_eventType = EvJobCreated, ev_previousState = None, ev_nextState = Some JobOpen,
            ev_actorAddress = Some (t_clientAddress (j_terms job)), ev_transactionHash = None,
            ev_blockNumber = None, ev_blockHash = None, ev_logIndex = None,
            ev_confirmationState = Canonical, ev_payloadDigest = payloadDigest, ev_payload = JObject [],
            ev_correlationId = key, ev_observedAtUnix = j_createdAtUnix job\<rparr>) (\<lambda>event.
         Inr (Prepared
           \<lparr>ci_actionKey = key, ci_actionDigest = requestDigest, ci_jobKey = jobKey,
            ci_expectedJob = None, ci_job = job, ci_event = event,
            ci_requestDigest = Some requestDigest\<rparr>)))))))))))))))"

record repo_transition =
  tr_jobKey :: job_key
  tr_expectedState :: job_state
  tr_nextState :: job_state
  tr_action :: job_action
  tr_actorAddress :: string
  tr_idempotencyKey :: string
  tr_metadata :: "action_metadata option"
  tr_correlationId :: string

definition transition_request_json :: "string \<Rightarrow> repo_transition \<Rightarrow> js_value" where
  "transition_request_json jobKey i = JObject
     [(''operation'', JString ''transition''), (''jobKey'', JString jobKey),
      (''expectedState'', job_state_json (tr_expectedState i)),
      (''nextState'', job_state_json (tr_nextState i)),
      (''action'', JString (job_action_name (tr_action i))),
      (''actorAddress'', JString (tr_actorAddress i)),
      (''metadata'', metadata_json (case tr_metadata i of None \<Rightarrow> no_metadata | Some m \<Rightarrow> m))]"

definition transition_args :: "repo_config \<Rightarrow> int \<Rightarrow> job_record \<Rightarrow> repo_transition \<Rightarrow> transition_input" where
  "transition_args cfg now job i =
     \<lparr>ti_job = job, ti_deploymentPin = Pin_Enabled (cfg_pin cfg), ti_nextState = tr_nextState i,
      ti_action = tr_action i, ti_actorAddress = tr_actorAddress i,
      ti_idempotencyKey = tr_idempotencyKey i, ti_nowUnix = now, ti_metadata = tr_metadata i,
      ti_correlationId = tr_correlationId i, ti_reconcilerAddresses = cfg_reconcilers cfg\<rparr>"

definition transition_prepare ::
    "runtime \<Rightarrow> repo_config \<Rightarrow> string \<Rightarrow> int \<Rightarrow> repo_state \<Rightarrow> repo_transition \<Rightarrow> commerce_exn + prepared" where
  "transition_prepare rt cfg uuid now st i =
     bindE (idempotencyKeySchema (tr_idempotencyKey i)) (\<lambda>key.
     bindE (normalizeJobKey (tr_jobKey i)) (\<lambda>normalizedJobKey.
     let jobKey = keyFor normalizedJobKey in
     bindE (from_js (digest_of rt (transition_request_json jobKey i))) (\<lambda>digest.
     case rp_actions st key of
       Some previous \<Rightarrow>
         if ar_digest previous \<noteq> digest \<or> ar_jobKey previous \<noteq> jobKey
         then Inl (commerce_error IDEMPOTENCY_CONFLICT)
         else Inr (Replay (ar_job previous) (ar_event previous))
     | None \<Rightarrow>
         (case rp_jobs st jobKey of
            None \<Rightarrow> Inl (commerce_error UNKNOWN_JOB)
          | Some existing \<Rightarrow>
              if j_state existing \<noteq> tr_expectedState i then Inl stale_job else
              bindE (trustedNowUnix now) (\<lambda>now.
              bindE (transitionErc8183Job rt uuid (transition_args cfg now existing i)) (\<lambda>(job, event).
              Inr (Prepared
                \<lparr>ci_actionKey = key, ci_actionDigest = digest, ci_jobKey = jobKey,
                 ci_expectedJob = Some existing, ci_job = job, ci_event = event,
                 ci_requestDigest = None\<rparr>)))))))"

definition getJob :: "repo_state \<Rightarrow> job_key \<Rightarrow> job_record option" where
  "getJob st k = rp_jobs st (keyFor k)"

section \<open>Events appended by a caller\<close>

definition appendEvent :: "runtime \<Rightarrow> repo_state \<Rightarrow> job_event \<Rightarrow> commerce_exn + job_event" where
  "appendEvent rt st event =
     bindE (erc8183JobEventSchema rt event) (\<lambda>parsed.
     let jobKey = keyFor (ev_jobKey parsed) in
     if rp_jobs st jobKey = None then Inl (commerce_error UNKNOWN_JOB)
     else if \<not> starts_with ''action:'' (ev_eventKey parsed) then Inl (commerce_error EVENT_CONFLICT)
     else (case idempotencyKeySchema (drop 7 (ev_eventKey parsed)) of
       Inl _ \<Rightarrow> Inl (commerce_error EVENT_CONFLICT)
     | Inr action \<Rightarrow>
         (case rp_actions st action of
            None \<Rightarrow> Inl (commerce_error EVENT_CONFLICT)
          | Some prior \<Rightarrow>
              if ar_jobKey prior \<noteq> jobKey then Inl (commerce_error EVENT_CONFLICT) else
              bindE (sameEvent rt (ar_event prior) parsed) (\<lambda>same.
              if \<not> same then Inl (commerce_error EVENT_CONFLICT) else
              (case rp_events st (ev_eventKey parsed) of
                 None \<Rightarrow> Inl (commerce_error EVENT_CONFLICT)
               | Some previous \<Rightarrow>
                   bindE (sameEvent rt previous parsed) (\<lambda>same.
                   if \<not> same then Inl (commerce_error EVENT_CONFLICT) else Inr previous))))))"

section \<open>Reconciliations\<close>

record enqueue_input =
  eq_jobKey :: job_key
  eq_reasonCode :: string
  eq_nextAttemptAtUnix :: "int option"
  eq_lastObservedTransactionHash :: "string option"
  eq_lastObservedBlock :: "string option"
  eq_detailDigest :: "string option"
  eq_nowUnix :: int

definition reconciliationIdentity :: "job_key \<Rightarrow> string \<Rightarrow> string" where
  "reconciliationIdentity k reason = keyFor k @ '':'' @ reason"

definition enqueue ::
    "runtime \<Rightarrow> string \<Rightarrow> repo_state \<Rightarrow> enqueue_input \<Rightarrow> commerce_exn + repo_state \<times> reconciliation" where
  "enqueue rt uuid st i =
     (let identity = reconciliationIdentity (eq_jobKey i) (eq_reasonCode i) in
      case map_of (rp_reconciliations st) identity of
        Some existing \<Rightarrow> Inr (st, existing)
      | None \<Rightarrow>
          bindE (erc8183ReconciliationSchema rt
            \<lparr>rc_reconciliationId = uuid, rc_jobKey = eq_jobKey i, rc_state = RecPending,
             rc_reasonCode = eq_reasonCode i, rc_attemptCount = 0,
             rc_nextAttemptAtUnix = eq_nextAttemptAtUnix i,
             rc_lastObservedTransactionHash = eq_lastObservedTransactionHash i,
             rc_lastObservedBlock = eq_lastObservedBlock i, rc_detailDigest = eq_detailDigest i,
             rc_createdAtUnix = eq_nowUnix i, rc_updatedAtUnix = eq_nowUnix i\<rparr>) (\<lambda>parsed.
          Inr (st\<lparr>rp_reconciliations := AList.update identity parsed (rp_reconciliations st)\<rparr>, parsed)))"

definition due :: "int \<Rightarrow> reconciliation \<Rightarrow> bool" where
  "due now r \<longleftrightarrow> (rc_state r = RecPending \<or> rc_state r = RecFailed)
     \<and> (case rc_nextAttemptAtUnix r of None \<Rightarrow> True | Some t \<Rightarrow> t \<le> now)"

definition listDue :: "int \<Rightarrow> repo_state \<Rightarrow> reconciliation list" where
  "listDue now st = filter (due now) (map snd (rp_reconciliations st))"

fun allowedReconciliationTransitions :: "reconciliation_state \<Rightarrow> reconciliation_state list" where
  "allowedReconciliationTransitions RecPending = [RecInProgress, RecReconciled, RecFailed, RecManualReview]"
| "allowedReconciliationTransitions RecInProgress = [RecReconciled, RecFailed, RecManualReview]"
| "allowedReconciliationTransitions RecReconciled = []"
| "allowedReconciliationTransitions RecFailed = [RecInProgress, RecManualReview]"
| "allowedReconciliationTransitions RecManualReview = []"

text \<open>A property of the update that is undefined leaves the stored value, null clears it.\<close>

record update_input =
  up_reconciliationId :: string
  up_state :: reconciliation_state
  up_nowUnix :: int
  up_nextAttemptAtUnix :: "int option"
  up_reconcilerAddress :: string
  up_lastObservedTransactionHash :: "string option option"
  up_lastObservedBlock :: "string option option"
  up_detailDigest :: "string option option"

definition assertReconciler :: "repo_config \<Rightarrow> string \<Rightarrow> commerce_exn + unit" where
  "assertReconciler cfg address =
     bindE (normalizeAddress address) (\<lambda>a.
     if a \<notin> set (cfg_reconcilers cfg) then Inl (commerce_error UNAUTHORIZED_ACTOR) else Inr ())"

definition if_defined :: "'a option \<Rightarrow> 'a \<Rightarrow> 'a" where
  "if_defined x old = (case x of None \<Rightarrow> old | Some y \<Rightarrow> y)"

definition updateReconciliation ::
    "runtime \<Rightarrow> repo_config \<Rightarrow> repo_state \<Rightarrow> update_input \<Rightarrow> commerce_exn + repo_state \<times> reconciliation" where
  "updateReconciliation rt cfg st i =
     bindE (assertReconciler cfg (up_reconcilerAddress i)) (\<lambda>_.
     case find (\<lambda>r. rc_reconciliationId r = up_reconciliationId i) (map snd (rp_reconciliations st)) of
       None \<Rightarrow> Inl (commerce_error RECONCILIATION_REQUIRED)
     | Some entry \<Rightarrow>
         if \<not> table_allows allowedReconciliationTransitions (rc_state entry) (up_state i)
         then Inl (commerce_error ILLEGAL_TRANSITION) else
         bindE (erc8183ReconciliationSchema rt (entry\<lparr>rc_state := up_state i,
             rc_attemptCount := rc_attemptCount entry + 1,
             rc_nextAttemptAtUnix := up_nextAttemptAtUnix i,
             rc_lastObservedTransactionHash :=
               if_defined (up_lastObservedTransactionHash i) (rc_lastObservedTransactionHash entry),
             rc_lastObservedBlock := if_defined (up_lastObservedBlock i) (rc_lastObservedBlock entry),
             rc_detailDigest := if_defined (up_detailDigest i) (rc_detailDigest entry),
             rc_updatedAtUnix := up_nowUnix i\<rparr>)) (\<lambda>parsed.
         let identity = reconciliationIdentity (rc_jobKey entry) (rc_reasonCode entry) in
         Inr (st\<lparr>rp_reconciliations := AList.update identity parsed (rp_reconciliations st)\<rparr>, parsed)))"

text \<open>Reconciled and manual review are final; a failed reconciliation may be tried again.\<close>

interpretation reconciliation_final:
  absorbing_table allowedReconciliationTransitions "\<lambda>s. s = RecReconciled \<or> s = RecManualReview"
  by unfold_locales auto

section \<open>Interleaved operations\<close>

text \<open>
  A configuration is the state and the commits that are waiting for the lock. An operation adds its
  commit, the lock lets any waiting commit run, and a refused commit leaves the state. (That a
  refused commit may undo a reconciliation recorded meanwhile is the subject of \<open>rollback\<close>; the steps
  here leave it out.)
\<close>

type_synonym configuration = "repo_state \<times> commit_input list"

inductive repo_step :: "runtime \<Rightarrow> repo_config \<Rightarrow> configuration \<Rightarrow> configuration \<Rightarrow> bool" for rt cfg where
  Create: "create_prepare rt cfg u now st j k = Inr (Prepared c) \<Longrightarrow> repo_step rt cfg (st, cs) (st, c # cs)"
| Transition: "transition_prepare rt cfg u now st i = Inr (Prepared c) \<Longrightarrow> repo_step rt cfg (st, cs) (st, c # cs)"
| Commit: "c \<in> set cs \<Longrightarrow> commit rt cfg now st c = Inr st' \<Longrightarrow> repo_step rt cfg (st, cs) (st', remove1 c cs)"
| Refuse: "c \<in> set cs \<Longrightarrow> commit rt cfg now st c = Inl e \<Longrightarrow> repo_step rt cfg (st, cs) (st, remove1 c cs)"
| Enqueue: "enqueue rt u st q = Inr (st', r) \<Longrightarrow> repo_step rt cfg (st, cs) (st', cs)"
| Update: "updateReconciliation rt cfg st q = Inr (st', r) \<Longrightarrow> repo_step rt cfg (st, cs) (st', cs)"

abbreviation repo_run :: "runtime \<Rightarrow> repo_config \<Rightarrow> configuration \<Rightarrow> configuration \<Rightarrow> bool" where
  "repo_run rt cfg \<equiv> (repo_step rt cfg)\<^sup>*\<^sup>*"

section \<open>What a commit requires and does\<close>

lemma idempotencyKeySchema_Inr:
  "idempotencyKeySchema s = Inr t \<Longrightarrow> t = js_trim s \<and> idempotencyKeySchema t = Inr t"
  by (auto simp: idempotencyKeySchema_def Let_def)

interpretation idempotency_key: normaliser idempotencyKeySchema
  by unfold_locales (blast dest: idempotencyKeySchema_Inr)

lemma trustedNowUnix_Inr [result_simps]:
  "trustedNowUnix n = Inr m \<longleftrightarrow> isSafeInteger n \<and> 0 < n \<and> m = n"
  by (auto simp: trustedNowUnix_def)

definition committed :: "string \<Rightarrow> commit_input \<Rightarrow> repo_state \<Rightarrow> repo_state" where
  "committed action i st = st\<lparr>rp_jobs := (rp_jobs st)(ci_jobKey i \<mapsto> ci_job i),
     rp_events := (rp_events st)(''action:'' @ action \<mapsto> ci_event i),
     rp_actions := (rp_actions st)(action \<mapsto>
       \<lparr>ar_digest = ci_actionDigest i, ar_requestDigest = ci_requestDigest i,
        ar_jobKey = ci_jobKey i, ar_job = ci_job i, ar_event = ci_event i\<rparr>)\<rparr>"

lemma commit_Inr:
  assumes "commit rt cfg now st i = Inr st'"
  obtains action job where
    "idempotencyKeySchema (ci_actionKey i) = Inr action" "erc8183JobRecordSchema rt (ci_job i) = Inr job"
    "is_ok (validateJobTerms (j_terms job) (Pin_Enabled (cfg_pin cfg)) now)" "0 < now"
    "is_ok (erc8183JobEventSchema rt (ci_event i))"
    "keyFor (j_jobKey (ci_job i)) = ci_jobKey i" "keyFor (ev_jobKey (ci_event i)) = ci_jobKey i"
    "ev_eventKey (ci_event i) = ''action:'' @ action" "checkExpected rt st i = Inr ()"
    "rp_events st (''action:'' @ action) = None" "rp_actions st action = None" "st' = committed action i st"
proof -
  from assms obtain action job where
    a: "idempotencyKeySchema (ci_actionKey i) = Inr action" "erc8183JobRecordSchema rt (ci_job i) = Inr job"
      "is_ok (validateJobTerms (j_terms job) (Pin_Enabled (cfg_pin cfg)) now)"
      "is_ok (erc8183JobEventSchema rt (ci_event i))" "checkExpected rt st i = Inr ()" "0 < now"
    and k: "keyFor (j_jobKey (ci_job i)) = ci_jobKey i" "keyFor (ev_jobKey (ci_event i)) = ci_jobKey i"
      "ev_eventKey (ci_event i) = ''action:'' @ action"
    and fresh: "rp_events st (ev_eventKey (ci_event i)) = None" "rp_actions st action = None"
    and st': "st' = committed action i st"
    by (auto simp: commit_def trustedNowUnix_Inr is_ok_iff committed_def)
  from a k fresh st' show thesis by (intro that) (simp_all add: is_ok_iff)
qed

section \<open>Consistency of the maps\<close>

definition repo_consistent :: "runtime \<Rightarrow> repo_state \<Rightarrow> bool" where
  "repo_consistent rt st \<longleftrightarrow>
     (\<forall>k j. rp_jobs st k = Some j \<longrightarrow> keyFor (j_jobKey j) = k \<and> is_ok (erc8183JobRecordSchema rt j))
     \<and> (\<forall>a r. rp_actions st a = Some r \<longrightarrow> rp_events st (''action:'' @ a) = Some (ar_event r)
          \<and> rp_jobs st (ar_jobKey r) \<noteq> None \<and> keyFor (j_jobKey (ar_job r)) = ar_jobKey r
          \<and> keyFor (ev_jobKey (ar_event r)) = ar_jobKey r)
     \<and> (\<forall>k e. rp_events st k = Some e \<longrightarrow> ev_eventKey e = k
          \<and> (\<exists>a r. k = ''action:'' @ a \<and> rp_actions st a = Some r \<and> ar_event r = e))"

lemma empty_repo_consistent: "repo_consistent rt empty_repo"
  by (simp add: repo_consistent_def empty_repo_def)

lemma commit_consistent:
  assumes "repo_consistent rt st" "commit rt cfg now st i = Inr st'"
  shows "repo_consistent rt st'"
  using assms(2)
proof (rule commit_Inr)
  fix action job
  assume a: "erc8183JobRecordSchema rt (ci_job i) = Inr job"
    "keyFor (j_jobKey (ci_job i)) = ci_jobKey i" "keyFor (ev_jobKey (ci_event i)) = ci_jobKey i"
    "ev_eventKey (ci_event i) = ''action:'' @ action" "rp_actions st action = None"
    and st': "st' = committed action i st"
  have "\<exists>b r. k = ''action:'' @ b \<and> rp_actions st' b = Some r \<and> ar_event r = e \<and> ev_eventKey e = k"
    if "rp_events st' k = Some e" for k e
  proof (cases "k = ''action:'' @ action")
    case True
    with that a(4) show ?thesis by (auto simp: st' committed_def)
  next
    case False
    with that have "rp_events st k = Some e" by (simp add: st' committed_def)
    with assms(1) obtain b r where b: "k = ''action:'' @ b" "rp_actions st b = Some r" "ar_event r = e"
      "ev_eventKey e = k" unfolding repo_consistent_def by blast
    moreover from b(2) a(5) have "b \<noteq> action" by auto
    ultimately show ?thesis by (auto simp: st' committed_def)
  qed
  moreover have "\<forall>k j. rp_jobs st' k = Some j \<longrightarrow> keyFor (j_jobKey j) = k \<and> is_ok (erc8183JobRecordSchema rt j)"
    using assms(1) a by (auto simp: repo_consistent_def st' committed_def)
  moreover have "\<forall>b r. rp_actions st' b = Some r \<longrightarrow> rp_events st' (''action:'' @ b) = Some (ar_event r)
          \<and> rp_jobs st' (ar_jobKey r) \<noteq> None \<and> keyFor (j_jobKey (ar_job r)) = ar_jobKey r
          \<and> keyFor (ev_jobKey (ar_event r)) = ar_jobKey r"
    using assms(1) a by (auto simp: repo_consistent_def st' committed_def)
  ultimately show ?thesis unfolding repo_consistent_def by blast
qed

lemma enqueue_keeps:
  "enqueue rt u st q = Inr (st', r) \<Longrightarrow>
   rp_jobs st' = rp_jobs st \<and> rp_events st' = rp_events st \<and> rp_actions st' = rp_actions st"
  by (auto simp: enqueue_def Let_def split: option.splits)

lemma update_keeps:
  "updateReconciliation rt cfg st q = Inr (st', r) \<Longrightarrow>
   rp_jobs st' = rp_jobs st \<and> rp_events st' = rp_events st \<and> rp_actions st' = rp_actions st"
  by (auto simp: updateReconciliation_def Let_def split: option.splits)

lemma consistent_cong:
  "rp_jobs st' = rp_jobs st \<and> rp_events st' = rp_events st \<and> rp_actions st' = rp_actions st \<Longrightarrow>
   repo_consistent rt st \<Longrightarrow> repo_consistent rt st'"
  by (simp add: repo_consistent_def)

lemma repo_step_consistent:
  "repo_step rt cfg c c' \<Longrightarrow> repo_consistent rt (fst c) \<Longrightarrow> repo_consistent rt (fst c')"
  by (induction rule: repo_step.induct)
    (auto intro: commit_consistent consistent_cong [OF enqueue_keeps] consistent_cong [OF update_keeps])

text \<open>An idempotency record is never changed.\<close>

lemma repo_step_actions:
  "repo_step rt cfg c c' \<Longrightarrow> rp_actions (fst c) a = Some r \<Longrightarrow> rp_actions (fst c') a = Some r"
proof (induction rule: repo_step.induct)
  case (Commit c cs now st st')
  from Commit(2) show ?case
    by (rule commit_Inr) (use Commit(3) in \<open>auto simp: committed_def\<close>)
qed (auto dest: enqueue_keeps update_keeps)

lemma repo_run_actions:
  "repo_run rt cfg c c' \<Longrightarrow> rp_actions (fst c) a = Some r \<Longrightarrow> rp_actions (fst c') a = Some r"
  by (induction rule: rtranclp_induct) (auto dest: repo_step_actions)

section \<open>The repository follows the lifecycle\<close>

text \<open>The hash tells different jobs apart.\<close>

definition jobs_distinguished :: "runtime \<Rightarrow> bool" where
  "jobs_distinguished rt \<longleftrightarrow> (\<forall>j k. no_collision rt (job_json j) (job_json k))"

lemma same_job_digest:
  assumes "jobs_distinguished rt" "job_digest rt j = Inr d" "job_digest rt k = Inr d"
  shows "j = k"
  using assms digest_of_eq_norm [of rt "job_json j" d "job_json k"]
  by (auto simp: job_digest_def jobs_distinguished_def job_json_norm)

lemma checkExpected_Some:
  assumes "jobs_distinguished rt" "checkExpected rt st i = Inr ()" "ci_expectedJob i = Some e"
  shows "rp_jobs st (ci_jobKey i) = Some e"
  using assms same_job_digest by (auto simp: checkExpected_def split: option.splits)

lemma checkExpected_None:
  "checkExpected rt st i = Inr () \<Longrightarrow> ci_expectedJob i = None \<Longrightarrow> rp_jobs st (ci_jobKey i) = None"
  by (auto simp: checkExpected_def split: option.splits)

text \<open>A waiting commit creates a valid open job or makes one lifecycle step from the expected job.\<close>

definition lifecycle_commit :: "runtime \<Rightarrow> commit_input \<Rightarrow> bool" where
  "lifecycle_commit rt c \<longleftrightarrow>
     (case ci_expectedJob c of
        None \<Rightarrow> valid_job rt (ci_job c) \<and> j_state (ci_job c) = JobOpen
      | Some e \<Rightarrow> job_step rt e (ci_job c))"

lemma create_lifecycle: "create_prepare rt cfg u now st j k = Inr (Prepared c) \<Longrightarrow> lifecycle_commit rt c"
  by (auto simp: create_prepare_def lifecycle_commit_def Let_def parsed_job_valid dest: parsed_job_fields(3)
      split: option.splits)

lemma transition_lifecycle: "transition_prepare rt cfg u now st i = Inr (Prepared c) \<Longrightarrow> lifecycle_commit rt c"
  using job_step.Transition [of rt u "transition_args cfg now _ i"]
  by (fastforce simp: transition_prepare_def lifecycle_commit_def Let_def trustedNowUnix_Inr transition_args_def
      split: option.splits)

definition all_lifecycle :: "runtime \<Rightarrow> configuration \<Rightarrow> bool" where
  "all_lifecycle rt c \<longleftrightarrow> (\<forall>i \<in> set (snd c). lifecycle_commit rt i)"

lemma repo_step_lifecycle: "repo_step rt cfg c c' \<Longrightarrow> all_lifecycle rt c \<Longrightarrow> all_lifecycle rt c'"
  by (induction rule: repo_step.induct)
    (auto simp: all_lifecycle_def create_lifecycle transition_lifecycle dest: notin_set_remove1)

lemma repo_step_follows:
  assumes "jobs_distinguished rt"
  shows "repo_step rt cfg c c' \<Longrightarrow> all_lifecycle rt c \<Longrightarrow> rp_jobs (fst c) k = Some j \<Longrightarrow>
    \<exists>j'. rp_jobs (fst c') k = Some j' \<and> (j' = j \<or> job_step rt j j')"
proof (induction rule: repo_step.induct)
  case (Commit c cs now st st')
  from Commit(1,3) have life: "lifecycle_commit rt c" by (simp add: all_lifecycle_def)
  from Commit(2) show ?case
  proof (rule commit_Inr)
    fix action
    assume ce: "checkExpected rt st c = Inr ()" and st': "st' = committed action c st"
    show ?thesis
    proof (cases "k = ci_jobKey c")
      case True
      with ce Commit(4) obtain e where e: "ci_expectedJob c = Some e"
        using checkExpected_None by fastforce
      with checkExpected_Some [OF assms ce e] True Commit(4) life st' show ?thesis
        by (auto simp: lifecycle_commit_def committed_def)
    qed (use Commit(4) st' in \<open>auto simp: committed_def\<close>)
  qed
qed (auto dest: enqueue_keeps update_keeps)

lemma repo_run_follows:
  assumes "jobs_distinguished rt" "repo_run rt cfg c c'" "all_lifecycle rt c" "rp_jobs (fst c) k = Some j"
  shows "all_lifecycle rt c' \<and> (\<exists>j'. rp_jobs (fst c') k = Some j' \<and> job_life rt j j')"
  using assms(2)
proof (induction rule: rtranclp_induct)
  case base
  then show ?case using assms(3,4) by blast
next
  case (step y z)
  then obtain j' where j': "rp_jobs (fst y) k = Some j'" "job_life rt j j'" by blast
  from repo_step_follows [OF assms(1) step(2) _ j'(1)] step(3) obtain j'' where
    "rp_jobs (fst z) k = Some j''" "j'' = j' \<or> job_step rt j' j''" by blast
  with j'(2) repo_step_lifecycle [OF step(2)] step(3) show ?case
    by (auto intro: rtranclp.rtrancl_into_rtrancl)
qed

section \<open>Replays and refunds\<close>

lemma create_prepared:
  assumes "create_prepare rt cfg u now st j k = Inr (Prepared c)"
    and "rp_actions st' (ci_actionKey c) = Some r" "ar_jobKey r = ci_jobKey c"
    and "ar_requestDigest r = ci_requestDigest c"
  shows "create_prepare rt cfg u' now' st' j k = Inr (Replay (ar_job r) (ar_event r))"
    "idempotencyKeySchema (ci_actionKey c) = Inr (ci_actionKey c)"
  using assms
  by (auto simp: create_prepare_def Let_def split: option.splits dest: idempotencyKeySchema_Inr)

lemma transition_prepared:
  assumes "transition_prepare rt cfg u now st i = Inr (Prepared c)"
    and "rp_actions st' (ci_actionKey c) = Some r" "ar_jobKey r = ci_jobKey c" "ar_digest r = ci_actionDigest c"
  shows "transition_prepare rt cfg u' now' st' i = Inr (Replay (ar_job r) (ar_event r))"
    "idempotencyKeySchema (ci_actionKey c) = Inr (ci_actionKey c)"
  using assms
  by (auto simp: transition_prepare_def Let_def split: option.splits dest: idempotencyKeySchema_Inr)

lemma committed_action:
  assumes "commit rt cfg now st c = Inr st'" "idempotencyKeySchema (ci_actionKey c) = Inr (ci_actionKey c)"
  shows "rp_actions st' (ci_actionKey c) = Some \<lparr>ar_digest = ci_actionDigest c,
     ar_requestDigest = ci_requestDigest c, ar_jobKey = ci_jobKey c, ar_job = ci_job c, ar_event = ci_event c\<rparr>"
  using assms(1) by (rule commit_Inr) (use assms(2) in \<open>simp add: committed_def\<close>)

text \<open>A transition to the expired state is prepared at or after the expiry, and then cannot commit.\<close>

lemma refund_commit_refused:
  assumes "transition_prepare rt cfg u now st i = Inr (Prepared c)" "tr_action i = ActClaimRefund" "now \<le> now'"
  shows "commit rt cfg now' st' c \<noteq> Inr st''"
proof
  assume com: "commit rt cfg now' st' c = Inr st''"
  from assms(1,2) obtain existing e where
    tr: "transitionErc8183Job rt u (transition_args cfg now existing i) = Inr (ci_job c, e)"
    by (auto simp: transition_prepare_def Let_def trustedNowUnix_Inr split: option.splits)
  have "t_expiresAtUnix (j_terms existing) \<le> now"
    using tr assms(2) unfolding transition_Inr transition_guard by (simp add: transition_args_def)
  moreover have "t_expiresAtUnix (j_terms (ci_job c)) = t_expiresAtUnix (j_terms existing)"
    by (subst transition_result(9) [OF tr]) (simp add: transition_args_def)
  moreover from com obtain job where "erc8183JobRecordSchema rt (ci_job c) = Inr job"
    "is_ok (validateJobTerms (j_terms job) (Pin_Enabled (cfg_pin cfg)) now')"
    by (rule commit_Inr)
  moreover from this(2) have "now' < t_expiresAtUnix (j_terms job)"
    by (auto simp: is_ok_iff validateJobTerms_Inr parse_pin_Inr enabledErc8183DeploymentPinSchema_def trim_pin_def)
  ultimately show False using assms(3) parsed_job_fields(2) by fastforce
qed

end
