(* ===== verification/Repository_Properties.thy ===== *)
theory Repository_Properties
  imports Commerce_Repository Commerce_Examples
begin

text \<open>
  Properties of the in-memory job repository under every interleaving of its operations, with their
  instances on the concrete job of \<open>Commerce_Examples\<close>.
\<close>

section \<open>A concrete run\<close>

definition demo_cfg :: repo_config where
  "demo_cfg = \<lparr>cfg_pin = demo_pin, cfg_reconcilers = []\<rparr>"

definition demo_create_digest :: string where
  "demo_create_digest = sha256 demo_rt (json_text (json_norm (JObject
     [(''operation'', JString ''create''), (''job'', JObject (job_request_fields (demo_job JobOpen)))])))"

definition demo_create_commit :: commit_input where
  "demo_create_commit =
     \<lparr>ci_actionKey = ''create-key-1'', ci_actionDigest = demo_create_digest,
      ci_jobKey = keyFor (j_jobKey (demo_job JobOpen)), ci_expectedJob = None, ci_job = demo_job JobOpen,
      ci_event =
        \<lparr>ev_eventId = demo_uuid, ev_eventKey = ''action:create-key-1'', ev_jobKey = j_jobKey (demo_job JobOpen),
         ev_eventType = EvJobCreated, ev_previousState = None, ev_nextState = Some JobOpen,
         ev_actorAddress = Some (demo_address CHR ''3''), ev_transactionHash = None, ev_blockNumber = None,
         ev_blockHash = None, ev_logIndex = None, ev_confirmationState = Canonical,
         ev_payloadDigest = replicate 64 CHR ''a'', ev_payload = JObject [],
         ev_correlationId = ''create-key-1'', ev_observedAtUnix = 1000\<rparr>,
      ci_requestDigest = Some demo_create_digest\<rparr>"

lemma demo_key [demo_simps]: "idempotencyKeySchema ''create-key-1'' = Inr ''create-key-1''"
  "js_trim ''create-key-1'' = ''create-key-1''" "js_trim ''action:create-key-1'' = ''action:create-key-1''"
  by code_simp+

lemma demo_job_key [demo_simps]:
  "normalizeJobKey (j_jobKey (demo_job s)) = Inr (j_jobKey (demo_job s))" "erc8183JobKeySchema (j_jobKey (demo_job s))"
  by (auto simp: normalizeJobKey_Inr demo_job_def erc8183JobKeySchema_def bscChainIdSchema_def
      decimalUintSchema_def demo_simps)

lemma demo_terms_lower [demo_simps]: "lower_terms demo_terms = demo_terms"
  by (simp add: lower_terms_def demo_terms_def demo_simps)

lemma demo_normalize [demo_simps]: "normalizeJobTerms demo_terms (Pin_Enabled demo_pin) = Inr demo_terms"
  by (simp add: normalizeJobTerms_Inr demo_simps)

lemma demo_validate [demo_simps]:
  "1000 \<le> now \<Longrightarrow> now < 4400 \<Longrightarrow> validateJobTerms demo_terms (Pin_Enabled demo_pin) now = Inr demo_terms"
  by (simp add: validateJobTerms_Inr demo_simps isSafeInteger_def max_safe_integer_def) (simp add: demo_pin_def)

lemma demo_request_digest [demo_simps]: "creationRequestDigest demo_rt (demo_job JobOpen) = Inr demo_create_digest"
  using job_json_clean(2) [of "demo_job JobOpen"]
  by (simp add: creationRequestDigest_def digest_of_Inr demo_create_digest_def)

lemma demo_job_updates [demo_simps]:
  "(demo_job JobOpen)\<lparr>j_terms := demo_terms, j_deploymentPin := demo_pin, j_deploymentPinDigest := replicate 64 CHR ''a''\<rparr> = demo_job JobOpen"
  "(demo_job JobOpen)\<lparr>j_terms := demo_terms, j_createdAtUnix := 1000, j_updatedAtUnix := 1000\<rparr> = demo_job JobOpen"
  by (simp_all add: demo_job_def)

lemma demo_event_schema [demo_simps]:
  "erc8183JobEventSchema demo_rt (ci_event demo_create_commit) = Inr (ci_event demo_create_commit)"
  by (simp add: demo_create_commit_def erc8183JobEventSchema_def text_between_def unixSecondsSchema_def
      max_safe_integer_def demo_simps)

lemma demo_create [demo_simps]:
  "create_prepare demo_rt demo_cfg demo_uuid 1000 empty_repo (demo_job JobOpen) ''create-key-1''
   = Inr (Prepared demo_create_commit)"
proof -
  have valid: "erc8183JobRecordSchema demo_rt (demo_job JobOpen) = Inr (demo_job JobOpen)"
    using demo_job_valid by (simp add: valid_job_def)
  have pd: "pin_digest demo_rt demo_pin = Inr (replicate 64 CHR ''a'')"
    by (simp only: pin_digest_def demo_pin_digest from_Inr)
  have clock: "trustedNowUnix 1000 = Inr 1000"
    by (simp add: trustedNowUnix_Inr isSafeInteger_def max_safe_integer_def)
  have event: "erc8183JobEventSchema demo_rt
     \<lparr>ev_eventId = demo_uuid, ev_eventKey = ''action:create-key-1'', ev_jobKey = j_jobKey (demo_job JobOpen),
      ev_eventType = EvJobCreated, ev_previousState = None, ev_nextState = Some JobOpen,
      ev_actorAddress = Some (demo_address CHR ''3''), ev_transactionHash = None, ev_blockNumber = None,
      ev_blockHash = None, ev_logIndex = None, ev_confirmationState = Canonical,
      ev_payloadDigest = replicate 64 CHR ''a'', ev_payload = JObject [],
      ev_correlationId = ''create-key-1'', ev_observedAtUnix = j_createdAtUnix (demo_job JobOpen)\<rparr>
     = Inr (ci_event demo_create_commit)"
    using demo_event_schema by (simp add: demo_create_commit_def demo_job_def)
  show ?thesis
    unfolding create_prepare_def demo_cfg_def
    by (simp add: valid pd clock event demo_simps empty_repo_def Let_def del: pin_digest_defined)
      (simp add: demo_create_commit_def)
qed

definition demo_repo :: repo_state where
  "demo_repo = committed ''create-key-1'' demo_create_commit empty_repo"

lemma demo_commit [demo_simps]: "commit demo_rt demo_cfg 1000 empty_repo demo_create_commit = Inr demo_repo"
proof -
  have valid: "erc8183JobRecordSchema demo_rt (demo_job JobOpen) = Inr (demo_job JobOpen)"
    using demo_job_valid by (simp add: valid_job_def)
  have parts: "ci_actionKey demo_create_commit = ''create-key-1''" "ci_job demo_create_commit = demo_job JobOpen"
    "ci_jobKey demo_create_commit = keyFor (j_jobKey (demo_job JobOpen))"
    "ev_jobKey (ci_event demo_create_commit) = j_jobKey (demo_job JobOpen)"
    "ev_eventKey (ci_event demo_create_commit) = ''action:create-key-1''"
    "ci_expectedJob demo_create_commit = None"
    by (simp_all add: demo_create_commit_def)
  have clock: "trustedNowUnix 1000 = Inr 1000"
    by (simp add: trustedNowUnix_Inr isSafeInteger_def max_safe_integer_def)
  show ?thesis
    unfolding commit_def
    by (simp add: parts valid clock demo_simps demo_cfg_def checkExpected_def)
      (simp add: empty_repo_def demo_repo_def committed_def parts)
qed

lemma demo_run: "repo_run demo_rt demo_cfg (empty_repo, []) (demo_repo, [])"
proof -
  have "repo_step demo_rt demo_cfg (empty_repo, []) (empty_repo, [demo_create_commit])"
    by (rule repo_step.Create [OF demo_create])
  moreover have "repo_step demo_rt demo_cfg (empty_repo, [demo_create_commit]) (demo_repo, remove1 demo_create_commit [demo_create_commit])"
    by (rule repo_step.Commit [OF _ demo_commit]) simp
  ultimately show ?thesis by (simp add: rtranclp.rtrancl_into_rtrancl converse_rtranclp_into_rtranclp)
qed


section \<open>Properties\<close>

text \<open>Under every interleaving the maps stay consistent: a job is stored under its own key and is valid, an
  idempotency record has its event in the event map and a stored job, and every event belongs to
  exactly the action that its key names.\<close>

theorem repository_consistent:
  assumes "repo_run rt cfg (st, cs) (st', cs')" "repo_consistent rt st"
  shows "repo_consistent rt st'"
proof -
  have "repo_consistent rt (fst c')" if "repo_run rt cfg c c'" "repo_consistent rt (fst c)" for c c'
    using that by (induction rule: rtranclp_induct) (auto dest: repo_step_consistent)
  from this [OF assms(1)] assms(2) show ?thesis by simp
qed

theorem repository_consistent_witness: "repo_consistent demo_rt demo_repo"
  by (rule repository_consistent [OF demo_run empty_repo_consistent])




text \<open>Creating a job is idempotent: once the creation has committed, the same request returns the job that
  was created, in every later state and whatever the clock says, and a transition repeated with its
  key returns the stored job and event.\<close>

theorem requests_are_replayed:
  assumes "commit rt cfg n st1 c = Inr st2" "repo_run rt cfg (st2, cs) (st3, cs')"
  shows "(create_prepare rt cfg u now st j k = Inr (Prepared c) \<longrightarrow>
          create_prepare rt cfg u' now' st3 j k = Inr (Replay (ci_job c) (ci_event c)))
    \<and> (transition_prepare rt cfg u now st i = Inr (Prepared c) \<longrightarrow>
       transition_prepare rt cfg u' now' st3 i = Inr (Replay (ci_job c) (ci_event c)))"
proof -
  let ?r = "\<lparr>ar_digest = ci_actionDigest c, ar_requestDigest = ci_requestDigest c, ar_jobKey = ci_jobKey c,
             ar_job = ci_job c, ar_event = ci_event c\<rparr>"
  have kept: "rp_actions st3 (ci_actionKey c) = Some ?r"
    if "idempotencyKeySchema (ci_actionKey c) = Inr (ci_actionKey c)"
    using repo_run_actions [OF assms(2), of "ci_actionKey c" ?r] committed_action [OF assms(1) that] by simp
  have "create_prepare rt cfg u' now' st3 j k = Inr (Replay (ci_job c) (ci_event c))"
    if p: "create_prepare rt cfg u now st j k = Inr (Prepared c)"
  proof -
    have "idempotencyKeySchema (ci_actionKey c) = Inr (ci_actionKey c)"
      using p by (auto simp: create_prepare_def Let_def split: option.splits dest: idempotencyKeySchema_Inr)
    from create_prepared(1) [OF p kept [OF this]] show ?thesis by simp
  qed
  moreover have "transition_prepare rt cfg u' now' st3 i = Inr (Replay (ci_job c) (ci_event c))"
    if p: "transition_prepare rt cfg u now st i = Inr (Prepared c)"
  proof -
    have "idempotencyKeySchema (ci_actionKey c) = Inr (ci_actionKey c)"
      using p by (auto simp: transition_prepare_def Let_def split: option.splits dest: idempotencyKeySchema_Inr)
    from transition_prepared(1) [OF p kept [OF this]] show ?thesis by simp
  qed
  ultimately show ?thesis by blast
qed

theorem requests_are_replayed_witness:
  "create_prepare demo_rt demo_cfg demo_uuid 2000 demo_repo (demo_job JobOpen) ''create-key-1''
   = Inr (Replay (demo_job JobOpen) (ci_event demo_create_commit))"
  using requests_are_replayed [OF demo_commit rtranclp.rtrancl_refl, where u = demo_uuid and now = 1000
      and st = empty_repo and j = "demo_job JobOpen" and k = "''create-key-1''" and u' = demo_uuid and now' = 2000]
    demo_create
  by (simp add: demo_create_commit_def)



text \<open>A refund cannot be recorded in this repository: a \<open>claim_refund\<close> is prepared only once the job has
  expired, and committing requires that the job expires after the configured lead time, so with a
  clock that does not run backwards the commit is always refused.\<close>

theorem refund_never_recorded:
  assumes "transition_prepare rt cfg u now st i = Inr (Prepared c)" "tr_action i = ActClaimRefund" "now \<le> now'"
  shows "commit rt cfg now' st' c \<noteq> Inr st''"
  by (rule refund_commit_refused [OF assms])

definition demo_refund :: repo_transition where
  "demo_refund = \<lparr>tr_jobKey = j_jobKey (demo_job JobFunded), tr_expectedState = JobFunded,
     tr_nextState = JobExpired, tr_action = ActClaimRefund, tr_actorAddress = demo_address CHR ''3'',
     tr_idempotencyKey = ''action-key-1'', tr_metadata = None, tr_correlationId = ''c1''\<rparr>"

definition demo_funded_repo :: repo_state where
  "demo_funded_repo = empty_repo\<lparr>rp_jobs := [keyFor (j_jobKey (demo_job JobFunded)) \<mapsto> demo_job JobFunded]\<rparr>"

lemma demo_refund_transition:
  "is_ok (transitionErc8183Job demo_rt demo_uuid
     (demo_input (demo_job JobFunded) ActClaimRefund JobExpired (demo_address CHR ''3'') 9000))"
proof -
  let ?i = "demo_input (demo_job JobFunded) ActClaimRefund JobExpired (demo_address CHR ''3'') 9000"
  have "admitted demo_rt ?i"
    by (rule demo_admitted) (simp_all add: demo_simps isSafeInteger_def max_safe_integer_def)
  then have guard: "assertErc8183Transition demo_rt ?i = Inr ()"
    unfolding transition_guard by (simp add: demo_input_def demo_simps same_party_def)
  have "is_ok (createErc8183JobEvent demo_rt demo_uuid (actionEvent ?i no_metadata))"
    by (simp add: createErc8183JobEvent_def actionEvent_def demo_input_def demo_job_def no_metadata_def or_empty_def
      eventTypeFor_def erc8183JobEventSchema_def erc8183JobKeySchema_def bscChainIdSchema_def text_between_def
      decimalUintSchema_def unixSecondsSchema_def max_safe_integer_def from_js_def Let_def demo_simps)
  moreover have "is_ok (erc8183JobRecordSchema demo_rt (nextJobRecord ?i no_metadata demo_terms))"
    by (simp add: nextJobRecord_def demo_input_def or_else_def erc8183JobRecordSchema_def demo_job_def
      parse_nullable_def job_fields_ok_def job_refined_def erc8183JobKeySchema_def bscChainIdSchema_def
      unixSecondsSchema_def max_safe_integer_def decimalUintSchema_def Let_def no_metadata_def demo_simps)
  ultimately show ?thesis
    using guard unfolding is_ok_iff
    by (auto simp: transitionErc8183Job_def demo_input_def demo_simps updateTerms_def parseAtomic_Inr maxUint256_def)
qed

lemma demo_refund_prepared:
  "\<exists>c. transition_prepare demo_rt demo_cfg demo_uuid 9000 demo_funded_repo demo_refund = Inr (Prepared c)"
proof -
  obtain r where r: "transitionErc8183Job demo_rt demo_uuid
     (demo_input (demo_job JobFunded) ActClaimRefund JobExpired (demo_address CHR ''3'') 9000) = Inr r"
    using demo_refund_transition by (auto simp: is_ok_iff)
  have args: "transition_args demo_cfg 9000 (demo_job JobFunded) demo_refund =
     demo_input (demo_job JobFunded) ActClaimRefund JobExpired (demo_address CHR ''3'') 9000"
    by (simp add: transition_args_def demo_cfg_def demo_refund_def demo_input_def)
  have clean: "json_clean (transition_request_json k demo_refund)" for k
    by (simp add: transition_request_json_def demo_refund_def metadata_json_def no_metadata_def jfield_def
        job_state_json_def)
  have key: "idempotencyKeySchema ''action-key-1'' = Inr ''action-key-1''" by code_simp
  have "is_ok (transition_prepare demo_rt demo_cfg demo_uuid 9000 demo_funded_repo demo_refund)"
    and "\<forall>j e. transition_prepare demo_rt demo_cfg demo_uuid 9000 demo_funded_repo demo_refund \<noteq> Inr (Replay j e)"
    using r clean key args
    by (auto simp: transition_prepare_def demo_refund_def [THEN arg_cong, of tr_idempotencyKey]
        demo_refund_def [THEN arg_cong, of tr_jobKey] demo_refund_def [THEN arg_cong, of tr_expectedState]
        demo_funded_repo_def empty_repo_def demo_simps digest_of_Inr is_ok_iff Let_def trustedNowUnix_Inr
        isSafeInteger_def max_safe_integer_def split: prod.splits)
  then show ?thesis by (metis is_ok_iff prepared.exhaust)
qed

theorem refund_never_recorded_witness:
  "\<exists>c. transition_prepare demo_rt demo_cfg demo_uuid 9000 demo_funded_repo demo_refund = Inr (Prepared c)
     \<and> \<not> is_ok (commit demo_rt demo_cfg 9000 demo_funded_repo c)"
proof -
  obtain c where c: "transition_prepare demo_rt demo_cfg demo_uuid 9000 demo_funded_repo demo_refund = Inr (Prepared c)"
    using demo_refund_prepared by blast
  moreover have "tr_action demo_refund = ActClaimRefund" by (simp add: demo_refund_def)
  ultimately show ?thesis using refund_never_recorded [OF c, of 9000 demo_funded_repo] by (auto simp: is_ok_iff)
qed

lemma alist_update_new: "map_of xs k = None \<Longrightarrow> AList.update k v xs = xs @ [(k, v)]"
  by (induction xs) (auto split: if_splits)

lemma alist_update_other: "(k, v) \<in> set xs \<Longrightarrow> k' \<noteq> k \<Longrightarrow> (k, v) \<in> set (AList.update k' w xs)"
  by (induction xs) auto

lemma find_last: "\<forall>x \<in> set xs. \<not> P x \<Longrightarrow> P y \<Longrightarrow> find P (xs @ [y]) = Some y"
  by (induction xs) auto

text \<open>A reconciliation enqueued with spaces around its reason code is stored under the code as given, but its
  updates are stored under the trimmed code: the first entry stays as it was, so the reconciliation
  is still due after it was reconciled.\<close>

theorem untrimmed_reason_stays_due:
  assumes "enqueue rt u st q = Inr (st1, r1)"
    and "map_of (rp_reconciliations st) (reconciliationIdentity (eq_jobKey q) (eq_reasonCode q)) = None"
    and "js_trim (eq_reasonCode q) \<noteq> eq_reasonCode q"
    and "\<forall>r \<in> set (map snd (rp_reconciliations st)). rc_reconciliationId r \<noteq> u"
    and "up_reconciliationId i = u" "updateReconciliation rt cfg st1 i = Inr (st2, r2)" "due now r1"
  shows "r1 \<in> set (listDue now st2)"
proof -
  let ?id = "reconciliationIdentity (eq_jobKey q) (eq_reasonCode q)"
  from assms(1,2) have r1: "rc_reconciliationId r1 = u" "rc_jobKey r1 = eq_jobKey q"
      "rc_reasonCode r1 = js_trim (eq_reasonCode q)"
    and st1: "rp_reconciliations st1 = AList.update ?id r1 (rp_reconciliations st)"
    by (auto simp: enqueue_def Let_def erc8183ReconciliationSchema_def)
  have tail: "rp_reconciliations st1 = rp_reconciliations st @ [(?id, r1)]"
    unfolding st1 by (rule alist_update_new [OF assms(2)])
  have "find (\<lambda>r. rc_reconciliationId r = u) (map snd (rp_reconciliations st) @ [r1]) = Some r1"
    by (rule find_last [OF assms(4) r1(1)])
  with assms(5,6) tail have st2: "rp_reconciliations st2 = AList.update
      (reconciliationIdentity (rc_jobKey r1) (rc_reasonCode r1)) r2 (rp_reconciliations st1)"
    by (auto simp: updateReconciliation_def Let_def)
  have "reconciliationIdentity (rc_jobKey r1) (rc_reasonCode r1) \<noteq> ?id"
    using assms(3) r1 by (simp add: reconciliationIdentity_def)
  moreover have "(?id, r1) \<in> set (rp_reconciliations st1)" unfolding tail by simp
  ultimately have "(?id, r1) \<in> set (rp_reconciliations st2)"
    unfolding st2 by (intro alist_update_other)
  with assms(7) show ?thesis by (force simp: listDue_def)
qed

definition demo_enqueue :: enqueue_input where
  "demo_enqueue = \<lparr>eq_jobKey = j_jobKey (demo_job JobOpen), eq_reasonCode = '' r1'', eq_nextAttemptAtUnix = None,
     eq_lastObservedTransactionHash = None, eq_lastObservedBlock = None, eq_detailDigest = None,
     eq_nowUnix = 1000\<rparr>"

definition demo_update :: update_input where
  "demo_update = \<lparr>up_reconciliationId = demo_uuid, up_state = RecReconciled, up_nowUnix = 1100,
     up_nextAttemptAtUnix = None, up_reconcilerAddress = demo_address CHR ''4'',
     up_lastObservedTransactionHash = None, up_lastObservedBlock = None, up_detailDigest = None\<rparr>"

theorem untrimmed_reason_stays_due_witness:
  "\<exists>st1 r1 st2 r2. enqueue demo_rt demo_uuid empty_repo demo_enqueue = Inr (st1, r1)
     \<and> updateReconciliation demo_rt (demo_cfg\<lparr>cfg_reconcilers := [demo_address CHR ''4'']\<rparr>) st1 demo_update
       = Inr (st2, r2)
     \<and> rc_state r2 = RecReconciled \<and> r1 \<in> set (listDue 1200 st2)"
proof -
  have trim: "js_trim '' r1'' = ''r1''" by code_simp
  have q: "eq_jobKey demo_enqueue = j_jobKey (demo_job JobOpen)" "eq_reasonCode demo_enqueue = '' r1''"
    by (simp_all add: demo_enqueue_def)
  obtain st1 r1 where e: "enqueue demo_rt demo_uuid empty_repo demo_enqueue = Inr (st1, r1)"
    and r1: "rc_state r1 = RecPending" "rc_nextAttemptAtUnix r1 = None" "rc_jobKey r1 = j_jobKey (demo_job JobOpen)"
      "rc_reasonCode r1 = ''r1''" "rc_attemptCount r1 = 0" "rc_reconciliationId r1 = demo_uuid"
      "rc_lastObservedTransactionHash r1 = None" "rc_lastObservedBlock r1 = None" "rc_detailDigest r1 = None"
      "rc_createdAtUnix r1 = 1000"
    and st1: "map snd (rp_reconciliations st1) = [r1]"
    by (simp add: enqueue_def demo_enqueue_def empty_repo_def erc8183ReconciliationSchema_def text_between_def trim
        unixSecondsSchema_def max_safe_integer_def demo_simps Let_def)
  have "\<exists>st2 r2. updateReconciliation demo_rt (demo_cfg\<lparr>cfg_reconcilers := [demo_address CHR ''4'']\<rparr>) st1 demo_update
       = Inr (st2, r2) \<and> rc_state r2 = RecReconciled"
    by (simp add: updateReconciliation_def demo_update_def assertReconciler_def demo_cfg_def demo_simps st1 r1
        table_allows_def erc8183ReconciliationSchema_def text_between_def unixSecondsSchema_def
        max_safe_integer_def if_defined_def Let_def)
  then obtain st2 r2 where u: "updateReconciliation demo_rt (demo_cfg\<lparr>cfg_reconcilers := [demo_address CHR ''4'']\<rparr>)
      st1 demo_update = Inr (st2, r2)" "rc_state r2 = RecReconciled" by blast
  have "r1 \<in> set (listDue 1200 st2)"
    by (rule untrimmed_reason_stays_due [OF e _ _ _ _ u(1)])
      (simp_all add: q trim empty_repo_def demo_update_def due_def r1)
  with e u show ?thesis by blast
qed

end
