(* ===== verification/Commerce_Operations.thy ===== *)
theory Commerce_Operations
  imports Commerce_Validation "HOL-Library.AList"
begin

text \<open>
  packages/agent-commerce/src/operations.ts: the durable record of every on-chain operation, kept in the
  table \<open>erc8183_operations\<close>. The table is a list of rows; every method is one conditional UPDATE (or
  INSERT) with RETURNING, which the database runs atomically, and a SELECT when no row was returned.
  Between the two other methods may run, so a method takes the table its UPDATE finds and the table
  its SELECT finds, and returns the table its UPDATE leaves and its result: an exception raised while
  the returned row is parsed does not undo the update.

  The CHECK constraints of the table (packages/db/src/schema.ts) admit only the kinds, roles and
  statuses below, so these columns have datatypes. Queries the database itself refuses are not
  modelled; they change nothing. \<open>now\<close> is the time passed in or read from the clock.
\<close>

section \<open>Rows and records\<close>

datatype op_kind = OpCreate | OpRegister | OpSetBudget | OpApprove | OpFund | OpSubmit | OpSettle
  | OpClaimRefund | OpMarkExpired | OpCancel | OpReject | OpDispute | OpVote

datatype op_role = RClient | RProvider | REvaluator | RVoter | RSystem

datatype op_status = AwaitingSignature | Submitted | Confirmed | Reverted | StatusUnknown | Reconciled
  | ManualReview

record op_expectation =
  ox_providerAddress :: "string option"
  ox_amountAtomic :: "string option"
  ox_digest :: "string option"
  ox_expectedState :: "string option"

text \<open>Optional properties are \<open>None\<close> when absent; \<open>callsId\<close> and \<open>expectation\<close> may besides be null.\<close>

record op_context =
  oc_signerAddress :: string
  oc_sdkAction :: "string option"
  oc_parameters :: "js_value option"
  oc_callsId :: "string option option"
  oc_dispatchClaimed :: "bool option"
  oc_to :: "string option"
  oc_data :: "string option"
  oc_valueAtomic :: "string option"
  oc_expectation :: "op_expectation option option"

record op_row =
  w_id :: string
  w_idempotency_key :: string
  w_request_digest :: string
  w_chain_id :: int
  w_commerce_contract :: string
  w_job_id :: "string option"
  w_kind :: op_kind
  w_role :: op_role
  w_status :: op_status
  w_transaction_hash :: "string option"
  w_block_number :: "string option"
  w_block_hash :: "string option"
  w_log_index :: "int option"
  w_failure_code :: "string option"
  w_context :: "js_value option"
  w_created_at :: int
  w_updated_at :: int

record op_record =
  or_operationId :: string
  or_idempotencyKey :: string
  or_requestDigest :: string
  or_chainId :: int
  or_commerceContract :: string
  or_jobId :: "string option"
  or_kind :: op_kind
  or_role :: op_role
  or_status :: op_status
  or_transactionHash :: "string option"
  or_blockNumber :: "string option"
  or_blockHash :: "string option"
  or_logIndex :: "int option"
  or_failureCode :: "string option"
  or_context :: "op_context option"
  or_createdAtUnix :: int
  or_updatedAtUnix :: int

section \<open>Checks of single values\<close>

definition assertDigest :: "string \<Rightarrow> commerce_exn + string" where
  "assertDigest s = (if \<not> contentDigestSchema s then Inl (commerce_error INVALID_JOB) else Inr (js_lower s))"

definition assertJobId :: "string option \<Rightarrow> commerce_exn + string option" where
  "assertJobId x = (case x of None \<Rightarrow> Inr None
     | Some s \<Rightarrow> if \<not> is_decimal s then Inl (commerce_error INVALID_JOB) else Inr (Some s))"

definition assertNow :: "int \<Rightarrow> commerce_exn + int" where
  "assertNow n = (if \<not> isSafeInteger n \<or> n \<le> 0 then Inl (commerce_error INVALID_JOB) else Inr n)"

definition normalizeHash :: "string \<Rightarrow> commerce_exn + string" where
  "normalizeHash s =
     (if \<not> transactionHashSchema s then Inl (commerce_error ONCHAIN_MISMATCH) else Inr (js_lower s))"

text \<open>\<open>^0x(?:[0-9a-f]{2})*$\<close>, any case.\<close>

definition hex_bytes :: "string \<Rightarrow> bool" where
  "hex_bytes s \<longleftrightarrow> take 2 s = ''0x'' \<and> even (length s) \<and> list_all is_hex (drop 2 s)"

definition assertHex :: "js_value \<Rightarrow> commerce_exn + string" where
  "assertHex v = (case v of
       JString s \<Rightarrow> if hex_bytes s then Inr (js_lower s) else Inl (commerce_error ONCHAIN_MISMATCH)
     | _ \<Rightarrow> Inl (commerce_error ONCHAIN_MISMATCH))"

text \<open>\<open>String(v)\<close>. The digits of a bigint and the text of a function are not represented.\<close>

fun js_to_string :: "js_value \<Rightarrow> string"
and js_items_to_string :: "js_value list \<Rightarrow> string list"
where
  "js_to_string JNull = ''null''"
| "js_to_string JUndefined = ''undefined''"
| "js_to_string (JBool b) = (if b then ''true'' else ''false'')"
| "js_to_string (JNumber i) = show_int i"
| "js_to_string JNegZero = ''0''"
| "js_to_string JNonFinite = ''NaN''"
| "js_to_string (JString s) = s"
| "js_to_string JBigint = ''0''"
| "js_to_string JFunction = ''function''"
| "js_to_string JSymbol = ''Symbol()''"
| "js_to_string (JArray vs) = join_with '','' (js_items_to_string vs)"
| "js_to_string (JObject kvs) = ''[object Object]''"
| "js_to_string JInstance = ''[object Object]''"
| "js_items_to_string [] = []"
| "js_items_to_string (v # vs) =
     (if v = JNull \<or> v = JUndefined then [] else js_to_string v) # js_items_to_string vs"

definition assertDecimalText :: "js_value \<Rightarrow> commerce_exn + string" where
  "assertDecimalText v = (case v of
       JString s \<Rightarrow> if is_decimal s then Inr s else Inl (commerce_error ONCHAIN_MISMATCH)
     | _ \<Rightarrow> Inl (commerce_error ONCHAIN_MISMATCH))"

definition assertOneOf :: "string list \<Rightarrow> js_value \<Rightarrow> commerce_exn + string" where
  "assertOneOf xs v = (case v of
       JString s \<Rightarrow> if s \<in> set xs then Inr s else Inl (commerce_error ONCHAIN_MISMATCH)
     | _ \<Rightarrow> Inl (commerce_error ONCHAIN_MISMATCH))"

text \<open>A property that is read with \<open>!== undefined\<close>.\<close>

definition property :: "(string \<times> js_value) list \<Rightarrow> string \<Rightarrow> js_value option" where
  "property kvs k = (case map_of kvs k of None \<Rightarrow> None | Some v \<Rightarrow> if v = JUndefined then None else Some v)"

definition optional :: "('a \<Rightarrow> 'e + 'b) \<Rightarrow> 'a option \<Rightarrow> 'e + 'b option" where
  "optional f x = (case x of None \<Rightarrow> Inr None | Some y \<Rightarrow> bindE (f y) (\<lambda>z. Inr (Some z)))"

section \<open>Operation contexts\<close>

definition sdkActions :: "string list" where
  "sdkActions = [''hire'', ''submit'', ''settle'', ''dispute'', ''claim_refund'']"

definition expectedStates :: "string list" where
  "expectedStates = [''FUNDED'', ''SUBMITTED'', ''COMPLETED'', ''REJECTED'', ''EXPIRED'']"

definition parseParameters :: "js_value \<Rightarrow> commerce_exn + js_value" where
  "parseParameters v = (case v of JObject kvs \<Rightarrow> Inr v | JInstance \<Rightarrow> Inr v
     | _ \<Rightarrow> Inl (commerce_error ONCHAIN_MISMATCH))"

definition parseCallsId :: "js_value \<Rightarrow> commerce_exn + string option" where
  "parseCallsId v = (if v = JNull then Inr None else bindE (assertHex v) (\<lambda>s. Inr (Some s)))"

definition parseClaimed :: "js_value \<Rightarrow> commerce_exn + bool" where
  "parseClaimed v = (case v of JBool b \<Rightarrow> Inr b | _ \<Rightarrow> Inl (commerce_error ONCHAIN_MISMATCH))"

definition parseExpectationFields :: "(string \<times> js_value) list \<Rightarrow> commerce_exn + op_expectation" where
  "parseExpectationFields s =
     bindE (optional (\<lambda>v. normalizeAddress (js_to_string v)) (property s ''providerAddress'')) (\<lambda>p.
     bindE (optional assertDecimalText (property s ''amountAtomic'')) (\<lambda>a.
     bindE (optional (\<lambda>v. normalizeHash (js_to_string v)) (property s ''digest'')) (\<lambda>d.
     bindE (optional (assertOneOf expectedStates) (property s ''expectedState'')) (\<lambda>e.
     Inr \<lparr>ox_providerAddress = p, ox_amountAtomic = a, ox_digest = d, ox_expectedState = e\<rparr>))))"

definition parseExpectation :: "js_value \<Rightarrow> commerce_exn + op_expectation option" where
  "parseExpectation v = (case v of
       JNull \<Rightarrow> Inr None
     | JObject s \<Rightarrow> bindE (parseExpectationFields s) (\<lambda>e. Inr (Some e))
     | JInstance \<Rightarrow> bindE (parseExpectationFields []) (\<lambda>e. Inr (Some e))
     | _ \<Rightarrow> Inl (commerce_error ONCHAIN_MISMATCH))"

definition parseContextFields :: "(string \<times> js_value) list \<Rightarrow> commerce_exn + op_context" where
  "parseContextFields row =
     bindE (assertPublicPayloadSafe (JObject row)) (\<lambda>_.
     bindE (case property row ''signerAddress'' of Some (JString s) \<Rightarrow> Inr s
            | _ \<Rightarrow> Inl (commerce_error ONCHAIN_MISMATCH)) (\<lambda>s.
     bindE (normalizeAddress s) (\<lambda>signer.
     bindE (optional (assertOneOf sdkActions) (property row ''sdkAction'')) (\<lambda>sdk.
     bindE (optional parseParameters (property row ''parameters'')) (\<lambda>params.
     bindE (optional parseCallsId (property row ''callsId'')) (\<lambda>calls.
     bindE (optional parseClaimed (property row ''dispatchClaimed'')) (\<lambda>claimed.
     bindE (optional (\<lambda>v. normalizeAddress (js_to_string v)) (property row ''to'')) (\<lambda>target.
     bindE (optional assertHex (property row ''data'')) (\<lambda>dat.
     bindE (optional assertDecimalText (property row ''valueAtomic'')) (\<lambda>val.
     bindE (optional parseExpectation (property row ''expectation'')) (\<lambda>expect.
     Inr \<lparr>oc_signerAddress = signer, oc_sdkAction = sdk, oc_parameters = params, oc_callsId = calls,
          oc_dispatchClaimed = claimed, oc_to = target, oc_data = dat, oc_valueAtomic = val,
          oc_expectation = expect\<rparr>)))))))))))"

definition parseContext :: "js_value option \<Rightarrow> commerce_exn + op_context option" where
  "parseContext value = (case value of
       None \<Rightarrow> Inr None
     | Some JNull \<Rightarrow> Inr None
     | Some JUndefined \<Rightarrow> Inr None
     | Some (JObject row) \<Rightarrow> bindE (parseContextFields row) (\<lambda>c. Inr (Some c))
     | Some JInstance \<Rightarrow> bindE (parseContextFields []) (\<lambda>c. Inr (Some c))
     | Some _ \<Rightarrow> Inl (commerce_error ONCHAIN_MISMATCH))"

definition parseOperationRow :: "op_row \<Rightarrow> commerce_exn + op_record" where
  "parseOperationRow row =
     (if w_chain_id row \<noteq> 56 \<and> w_chain_id row \<noteq> 97 then Inl (commerce_error INVALID_CHAIN)
      else if \<not> nullable (\<lambda>i. isSafeInteger i \<and> 0 \<le> i) (w_log_index row)
      then Inl (commerce_error ONCHAIN_MISMATCH)
      else if \<not> isSafeInteger (w_created_at row) \<or> w_created_at row \<le> 0
              \<or> \<not> isSafeInteger (w_updated_at row) \<or> w_updated_at row \<le> 0
      then Inl (commerce_error ONCHAIN_MISMATCH) else
      bindE (assertDigest (w_request_digest row)) (\<lambda>d.
      bindE (normalizeAddress (w_commerce_contract row)) (\<lambda>c.
      bindE (assertJobId (w_job_id row)) (\<lambda>j.
      bindE (optional normalizeHash (w_transaction_hash row)) (\<lambda>th.
      bindE (optional normalizeHash (w_block_hash row)) (\<lambda>bh.
      bindE (parseContext (w_context row)) (\<lambda>ctx.
      Inr \<lparr>or_operationId = w_id row, or_idempotencyKey = w_idempotency_key row, or_requestDigest = d,
           or_chainId = w_chain_id row, or_commerceContract = c, or_jobId = j, or_kind = w_kind row,
           or_role = w_role row, or_status = w_status row, or_transactionHash = th,
           or_blockNumber = w_block_number row, or_blockHash = bh, or_logIndex = w_log_index row,
           or_failureCode = w_failure_code row, or_context = ctx,
           or_createdAtUnix = w_created_at row, or_updatedAtUnix = w_updated_at row\<rparr>)))))))"

section \<open>The stored context\<close>

definition expectation_json :: "op_expectation \<Rightarrow> js_value" where
  "expectation_json e = JObject
     (jfield ''providerAddress'' JString (ox_providerAddress e) @ jfield ''amountAtomic'' JString (ox_amountAtomic e)
      @ jfield ''digest'' JString (ox_digest e) @ jfield ''expectedState'' JString (ox_expectedState e))"

definition context_json :: "op_context \<Rightarrow> js_value" where
  "context_json c = JObject
     ([(''signerAddress'', JString (oc_signerAddress c))]
      @ jfield ''sdkAction'' JString (oc_sdkAction c) @ jfield ''parameters'' id (oc_parameters c)
      @ jfield ''callsId'' (jopt JString) (oc_callsId c) @ jfield ''dispatchClaimed'' JBool (oc_dispatchClaimed c)
      @ jfield ''to'' JString (oc_to c) @ jfield ''data'' JString (oc_data c)
      @ jfield ''valueAtomic'' JString (oc_valueAtomic c)
      @ jfield ''expectation'' (jopt expectation_json) (oc_expectation c))"

text \<open>
  A parameter of a query is written with \<open>JSON.stringify\<close> and read back with \<open>JSON.parse\<close>: undefined
  fields disappear, undefined items and numbers that are not finite become null.
\<close>

definition unwritten :: "js_value \<Rightarrow> bool" where
  "unwritten v \<longleftrightarrow> v = JUndefined \<or> v = JFunction \<or> v = JSymbol"

fun json_stored :: "js_value \<Rightarrow> js_value"
and stored_items :: "js_value list \<Rightarrow> js_value list"
and stored_fields :: "(string \<times> js_value) list \<Rightarrow> (string \<times> js_value) list"
where
  "json_stored JNegZero = JNumber 0"
| "json_stored JNonFinite = JNull"
| "json_stored (JArray vs) = JArray (stored_items vs)"
| "json_stored (JObject kvs) = JObject (stored_fields kvs)"
| "json_stored JInstance = JObject []"
| "json_stored v = v"
| "stored_items [] = []"
| "stored_items (v # vs) = (if unwritten v then JNull else json_stored v) # stored_items vs"
| "stored_fields [] = []"
| "stored_fields ((k, v) # kvs) = (if unwritten v then [] else [(k, json_stored v)]) @ stored_fields kvs"

text \<open>\<open>operation_context->>key\<close>: the text of a field, NULL when it is absent or null.\<close>

definition context_text :: "js_value option \<Rightarrow> string \<Rightarrow> string option" where
  "context_text ctx k = (case ctx of
       Some (JObject kvs) \<Rightarrow>
         (case map_of kvs k of None \<Rightarrow> None | Some JNull \<Rightarrow> None | Some (JString s) \<Rightarrow> Some s
          | Some (JBool b) \<Rightarrow> Some (if b then ''true'' else ''false'')
          | Some v \<Rightarrow> Some (json_text v))
     | _ \<Rightarrow> None)"

text \<open>\<open>jsonb_set(COALESCE(operation_context, '{}'), '{key}', value, true)\<close> on an object or NULL.\<close>

definition context_set :: "string \<Rightarrow> js_value \<Rightarrow> js_value option \<Rightarrow> js_value option" where
  "context_set k v ctx = (case ctx of
       None \<Rightarrow> Some (JObject [(k, v)])
     | Some (JObject kvs) \<Rightarrow> Some (JObject (AList.update k v kvs))
     | Some w \<Rightarrow> Some w)"

section \<open>The table\<close>

type_synonym op_table = "op_row list"

text \<open>\<open>UPDATE \<dots> SET set WHERE id = $1 AND guard RETURNING *\<close>.\<close>

definition update_where :: "(op_row \<Rightarrow> bool) \<Rightarrow> (op_row \<Rightarrow> op_row) \<Rightarrow> string \<Rightarrow> op_table \<Rightarrow> op_table \<times> op_row option" where
  "update_where guard setter i t =
     (case find (\<lambda>r. w_id r = i \<and> guard r) t of
        None \<Rightarrow> (t, None)
      | Some r \<Rightarrow> (map (\<lambda>x. if w_id x = i \<and> guard x then setter x else x) t, Some (setter r)))"

definition getOperation :: "op_table \<Rightarrow> string \<Rightarrow> commerce_exn + op_record option" where
  "getOperation t i = (case find (\<lambda>r. w_id r = i) t of
      None \<Rightarrow> Inr None | Some r \<Rightarrow> bindE (parseOperationRow r) (\<lambda>x. Inr (Some x)))"

definition getByIdempotencyKey :: "op_table \<Rightarrow> string \<Rightarrow> commerce_exn + op_record option" where
  "getByIdempotencyKey t k =
     bindE (idempotencyKeySchema k) (\<lambda>key.
     case find (\<lambda>r. w_idempotency_key r = key) t of
       None \<Rightarrow> Inr None | Some r \<Rightarrow> bindE (parseOperationRow r) (\<lambda>x. Inr (Some x)))"

text \<open>
  The shape of the updating methods: the returned row, else the current record if it is already in
  the requested state, else the conflict.
\<close>

definition updated_or_current ::
    "op_table \<times> op_row option \<Rightarrow> op_table \<Rightarrow> string \<Rightarrow> (op_record \<Rightarrow> bool) \<Rightarrow> op_table \<times> (commerce_exn + op_record)" where
  "updated_or_current u t' i accept =
     (case u of
        (t, Some r) \<Rightarrow> (t, parseOperationRow r)
      | (t, None) \<Rightarrow> (t, bindE (getOperation t' i) (\<lambda>existing.
          case existing of
            Some e \<Rightarrow> if accept e then Inr e else Inl (commerce_error IDEMPOTENCY_CONFLICT)
          | None \<Rightarrow> Inl (commerce_error IDEMPOTENCY_CONFLICT))))"

text \<open>A check that throws before the query leaves the table alone.\<close>

definition checked :: "op_table \<Rightarrow> commerce_exn + 'a \<Rightarrow> ('a \<Rightarrow> op_table \<times> (commerce_exn + 'b)) \<Rightarrow> op_table \<times> (commerce_exn + 'b)" where
  "checked t m f = (case m of Inl e \<Rightarrow> (t, Inl e) | Inr x \<Rightarrow> f x)"

definition safeFailureCode :: "string option \<Rightarrow> string option" where
  "safeFailureCode x = (case x of None \<Rightarrow> None | Some s \<Rightarrow>
     (let n = take 80 (js_trim s) in
      if js_trim s = [] then None
      else if list_all (\<lambda>c. is_alnum c \<or> c \<in> {CHR ''_'', CHR ''.'', CHR '':'', CHR ''-''}) n
      then Some n else Some ''UNCLASSIFIED_FAILURE''))"

section \<open>Reserving an operation\<close>

record reserve_input =
  ri_idempotencyKey :: string
  ri_requestDigest :: string
  ri_chainId :: int
  ri_commerceContract :: string
  ri_jobId :: "string option"
  ri_kind :: op_kind
  ri_role :: op_role
  ri_context :: "js_value option"

definition sameOperationJobId :: "op_record \<Rightarrow> string option \<Rightarrow> bool" where
  "sameOperationJobId existing incoming =
     (if or_kind existing = OpCreate \<and> or_jobId existing \<noteq> None \<and> incoming = None then True
      else or_jobId existing = incoming)"

definition parameters_digest :: "runtime \<Rightarrow> op_context \<Rightarrow> commerce_exn + string" where
  "parameters_digest rt c = from_js (digest_of rt (case oc_parameters c of None \<Rightarrow> JNull | Some v \<Rightarrow> v))"

definition expectation_digest :: "runtime \<Rightarrow> op_context \<Rightarrow> commerce_exn + string" where
  "expectation_digest rt c = from_js (digest_of rt (case oc_expectation c of
      None \<Rightarrow> JNull | Some x \<Rightarrow> jopt expectation_json x))"

definition assertReplayIdentity ::
    "runtime \<Rightarrow> op_record \<Rightarrow> reserve_input \<Rightarrow> string \<Rightarrow> string \<Rightarrow> string option \<Rightarrow> op_context option \<Rightarrow> commerce_exn + unit" where
  "assertReplayIdentity rt existing input requestDigest commerceContract jobId context =
     (if or_requestDigest existing \<noteq> requestDigest \<or> or_chainId existing \<noteq> ri_chainId input
         \<or> js_lower (or_commerceContract existing) \<noteq> js_lower commerceContract
         \<or> \<not> sameOperationJobId existing jobId \<or> or_kind existing \<noteq> ri_kind input
         \<or> or_role existing \<noteq> ri_role input
      then Inl (commerce_error IDEMPOTENCY_CONFLICT)
      else (case (or_context existing, context) of
        (None, None) \<Rightarrow> Inr ()
      | (Some e, Some c) \<Rightarrow>
          if js_lower (oc_signerAddress e) \<noteq> js_lower (oc_signerAddress c)
          then Inl (commerce_error IDEMPOTENCY_CONFLICT)
          else if oc_sdkAction e \<noteq> oc_sdkAction c then Inl (commerce_error IDEMPOTENCY_CONFLICT) else
          bindE (parameters_digest rt e) (\<lambda>a. bindE (parameters_digest rt c) (\<lambda>b.
          if a \<noteq> b then Inl (commerce_error IDEMPOTENCY_CONFLICT) else
          bindE (expectation_digest rt e) (\<lambda>a. bindE (expectation_digest rt c) (\<lambda>b.
          if a \<noteq> b then Inl (commerce_error IDEMPOTENCY_CONFLICT) else Inr ()))))
      | _ \<Rightarrow> Inl (commerce_error IDEMPOTENCY_CONFLICT)))"

definition reservedRow :: "string \<Rightarrow> reserve_input \<Rightarrow> int \<Rightarrow> string \<Rightarrow> string \<Rightarrow> string \<Rightarrow> string option \<Rightarrow> op_context option \<Rightarrow> op_row" where
  "reservedRow uuid input now key digest contract jobId context =
     \<lparr>w_id = uuid, w_idempotency_key = key, w_request_digest = digest, w_chain_id = ri_chainId input,
      w_commerce_contract = contract, w_job_id = jobId, w_kind = ri_kind input, w_role = ri_role input,
      w_status = AwaitingSignature, w_transaction_hash = None, w_block_number = None, w_block_hash = None,
      w_log_index = None, w_failure_code = None,
      w_context = map_option (\<lambda>c. json_stored (context_json c)) context,
      w_created_at = now, w_updated_at = now\<rparr>"

definition reserve ::
    "runtime \<Rightarrow> string \<Rightarrow> int \<Rightarrow> op_table \<Rightarrow> op_table \<Rightarrow> reserve_input \<Rightarrow> op_table \<times> (commerce_exn + op_record \<times> bool)" where
  "reserve rt uuid now t t' input =
     checked t (idempotencyKeySchema (ri_idempotencyKey input)) (\<lambda>key.
     checked t (assertDigest (ri_requestDigest input)) (\<lambda>digest.
     checked t (normalizeAddress (ri_commerceContract input)) (\<lambda>contract.
     checked t (assertJobId (ri_jobId input)) (\<lambda>jobId.
     checked t (assertNow now) (\<lambda>now.
     checked t (parseContext (ri_context input)) (\<lambda>context.
     if \<not> (\<exists>r \<in> set t. w_idempotency_key r = key)
     then (let row = reservedRow uuid input now key digest contract jobId context in
           (t @ [row], bindE (parseOperationRow row) (\<lambda>r. Inr (r, False))))
     else (t, bindE (getByIdempotencyKey t' key) (\<lambda>existing.
       case existing of
         None \<Rightarrow> Inl (commerce_error IDEMPOTENCY_CONFLICT)
       | Some e \<Rightarrow> bindE (assertReplayIdentity rt e input digest contract jobId context)
                     (\<lambda>_. Inr (e, True))))))))))"

definition requestDigest :: "runtime \<Rightarrow> js_value \<Rightarrow> commerce_exn + string" where
  "requestDigest rt v = bindE (assertPublicPayloadSafe v) (\<lambda>_. from_js (digest_of rt v))"

section \<open>The updating methods\<close>

text \<open>The guard (WHERE) and the assignment (SET) of each UPDATE.\<close>

definition submitted_guard :: "string \<Rightarrow> op_row \<Rightarrow> bool" where
  "submitted_guard hash r \<longleftrightarrow> w_status r = AwaitingSignature
     \<or> (w_status r = StatusUnknown \<and> (w_transaction_hash r = None \<or> w_transaction_hash r = Some hash))"

definition submitted_set :: "string \<Rightarrow> int \<Rightarrow> op_row \<Rightarrow> op_row" where
  "submitted_set hash now r = r\<lparr>w_status := Submitted, w_transaction_hash := Some hash, w_updated_at := now\<rparr>"

definition markSubmitted :: "int \<Rightarrow> op_table \<Rightarrow> op_table \<Rightarrow> string \<Rightarrow> string \<Rightarrow> op_table \<times> (commerce_exn + op_record)" where
  "markSubmitted now t t' i transactionHash =
     checked t (normalizeHash transactionHash) (\<lambda>hash.
     checked t (assertNow now) (\<lambda>now.
     updated_or_current (update_where (submitted_guard hash) (submitted_set hash now) i t) t' i
       (\<lambda>e. or_status e = Submitted \<and> or_transactionHash e = Some hash)))"

definition job_id_guard :: "op_row \<Rightarrow> bool" where
  "job_id_guard r \<longleftrightarrow> w_job_id r = None"

definition job_id_set :: "string \<Rightarrow> op_row \<Rightarrow> op_row" where
  "job_id_set j r = r\<lparr>w_job_id := Some j\<rparr>"

definition attachJobId :: "op_table \<Rightarrow> op_table \<Rightarrow> string \<Rightarrow> string \<Rightarrow> op_table \<times> (commerce_exn + op_record)" where
  "attachJobId t t' i jobId =
     checked t (assertJobId (Some jobId)) (\<lambda>j.
     updated_or_current (update_where job_id_guard (job_id_set jobId) i t) t' i (\<lambda>e. or_jobId e = j))"

definition calls_id_guard :: "op_row \<Rightarrow> bool" where
  "calls_id_guard r \<longleftrightarrow> w_context r = None \<or> context_text (w_context r) ''callsId'' = None"

definition calls_id_set :: "string \<Rightarrow> op_row \<Rightarrow> op_row" where
  "calls_id_set c r = r\<lparr>w_context := context_set ''callsId'' (JString c) (w_context r)\<rparr>"

definition same_calls_id :: "string \<Rightarrow> op_record \<Rightarrow> bool" where
  "same_calls_id c e \<longleftrightarrow> (case or_context e of None \<Rightarrow> False
     | Some x \<Rightarrow> (case oc_callsId x of Some (Some d) \<Rightarrow> js_lower d = js_lower c | _ \<Rightarrow> False))"

definition attachCallsId :: "op_table \<Rightarrow> op_table \<Rightarrow> string \<Rightarrow> string \<Rightarrow> op_table \<times> (commerce_exn + op_record)" where
  "attachCallsId t t' i callsId =
     checked t (assertHex (JString callsId)) (\<lambda>c.
     updated_or_current (update_where calls_id_guard (calls_id_set c) i t) t' i (same_calls_id c))"

definition is_claimed :: "op_row \<Rightarrow> bool" where
  "is_claimed r \<longleftrightarrow> context_text (w_context r) ''dispatchClaimed'' = Some ''true''"

definition not_claimed :: "op_row \<Rightarrow> bool" where
  "not_claimed r \<longleftrightarrow> context_text (w_context r) ''dispatchClaimed'' \<in> {None, Some ''false''}"

definition in_flight :: string where
  "in_flight = ''EOA_DISPATCH_IN_FLIGHT''"

definition claim_guard :: "op_row \<Rightarrow> bool" where
  "claim_guard r \<longleftrightarrow> w_status r = AwaitingSignature \<and> not_claimed r \<and> w_transaction_hash r = None"

definition claim_set :: "int \<Rightarrow> op_row \<Rightarrow> op_row" where
  "claim_set now r = r\<lparr>w_status := StatusUnknown, w_failure_code := Some in_flight,
     w_context := context_set ''dispatchClaimed'' (JBool True) (w_context r), w_updated_at := now\<rparr>"

definition release_guard :: "op_row \<Rightarrow> bool" where
  "release_guard r \<longleftrightarrow> w_status r = StatusUnknown \<and> w_transaction_hash r = None \<and> is_claimed r
     \<and> w_failure_code r = Some in_flight"

definition release_set :: "int \<Rightarrow> op_row \<Rightarrow> op_row" where
  "release_set now r = r\<lparr>w_status := AwaitingSignature, w_failure_code := None,
     w_context := context_set ''dispatchClaimed'' (JBool False) (w_context r), w_updated_at := now\<rparr>"

text \<open>Claim and release return whether they changed the row, and the current record when they did not.\<close>

definition claimed_or_current ::
    "op_table \<times> op_row option \<Rightarrow> op_table \<Rightarrow> string \<Rightarrow> op_table \<times> (commerce_exn + op_record \<times> bool)" where
  "claimed_or_current u t' i =
     (case u of
        (t, Some r) \<Rightarrow> (t, bindE (parseOperationRow r) (\<lambda>x. Inr (x, True)))
      | (t, None) \<Rightarrow> (t, bindE (getOperation t' i) (\<lambda>existing.
          case existing of None \<Rightarrow> Inl (commerce_error UNKNOWN_JOB) | Some e \<Rightarrow> Inr (e, False))))"

definition claimExternalDispatch :: "int \<Rightarrow> op_table \<Rightarrow> op_table \<Rightarrow> string \<Rightarrow> op_table \<times> (commerce_exn + op_record \<times> bool)" where
  "claimExternalDispatch now t t' i =
     checked t (assertNow now) (\<lambda>now. claimed_or_current (update_where claim_guard (claim_set now) i t) t' i)"

definition releaseExternalDispatch :: "int \<Rightarrow> op_table \<Rightarrow> op_table \<Rightarrow> string \<Rightarrow> op_table \<times> (commerce_exn + op_record \<times> bool)" where
  "releaseExternalDispatch now t t' i =
     checked t (assertNow now) (\<lambda>now. claimed_or_current (update_where release_guard (release_set now) i t) t' i)"

record receipt_input =
  rx_confirmed :: bool
  rx_transactionHash :: string
  rx_blockNumber :: string
  rx_blockHash :: string
  rx_logIndex :: "int option"
  rx_failureCode :: "string option"

definition receipt_status :: "receipt_input \<Rightarrow> op_status" where
  "receipt_status i = (if rx_confirmed i then Confirmed else Reverted)"

definition receipt_guard :: "op_row \<Rightarrow> bool" where
  "receipt_guard r \<longleftrightarrow> w_status r \<in> {Submitted, StatusUnknown, ManualReview}"

definition receipt_set :: "receipt_input \<Rightarrow> string \<Rightarrow> string \<Rightarrow> int \<Rightarrow> op_row \<Rightarrow> op_row" where
  "receipt_set x hash blockHash now r = r\<lparr>w_status := receipt_status x, w_transaction_hash := Some hash,
     w_block_number := Some (rx_blockNumber x), w_block_hash := Some blockHash, w_log_index := rx_logIndex x,
     w_failure_code := safeFailureCode (rx_failureCode x), w_updated_at := now\<rparr>"

definition markReceipt :: "int \<Rightarrow> op_table \<Rightarrow> op_table \<Rightarrow> string \<Rightarrow> receipt_input \<Rightarrow> op_table \<times> (commerce_exn + op_record)" where
  "markReceipt now t t' i x =
     checked t (normalizeHash (rx_transactionHash x)) (\<lambda>hash.
     checked t (normalizeHash (rx_blockHash x)) (\<lambda>blockHash.
     checked t (if \<not> is_decimal (rx_blockNumber x) then Inl (commerce_error ONCHAIN_MISMATCH)
                else if \<not> nullable (\<lambda>l. isSafeInteger l \<and> 0 \<le> l) (rx_logIndex x)
                then Inl (commerce_error ONCHAIN_MISMATCH) else assertNow now) (\<lambda>now.
     updated_or_current (update_where receipt_guard (receipt_set x hash blockHash now) i t) t' i
       (\<lambda>e. or_status e = receipt_status x \<and> or_transactionHash e = Some hash \<and> or_blockHash e = Some blockHash))))"

definition status_set :: "op_status \<Rightarrow> string option \<Rightarrow> int \<Rightarrow> op_row \<Rightarrow> op_row" where
  "status_set s failure now r = r\<lparr>w_status := s, w_failure_code := failure, w_updated_at := now\<rparr>"

definition unknown_guard :: "op_row \<Rightarrow> bool" where
  "unknown_guard r \<longleftrightarrow> w_status r \<in> {AwaitingSignature, Submitted}"

definition markUnknown :: "int \<Rightarrow> op_table \<Rightarrow> op_table \<Rightarrow> string \<Rightarrow> string option \<Rightarrow> op_table \<times> (commerce_exn + op_record)" where
  "markUnknown now t t' i failureCode =
     checked t (assertNow now) (\<lambda>now.
     updated_or_current (update_where unknown_guard (status_set StatusUnknown (safeFailureCode failureCode) now) i t)
       t' i (\<lambda>e. or_status e = StatusUnknown))"

definition failed_guard :: "op_row \<Rightarrow> bool" where
  "failed_guard r \<longleftrightarrow> w_status r \<in> {AwaitingSignature, Submitted, StatusUnknown} \<and> w_transaction_hash r = None"

definition markFailed :: "int \<Rightarrow> op_table \<Rightarrow> op_table \<Rightarrow> string \<Rightarrow> string option \<Rightarrow> op_table \<times> (commerce_exn + op_record)" where
  "markFailed now t t' i failureCode =
     checked t (assertNow now) (\<lambda>now.
     updated_or_current (update_where failed_guard (status_set Reverted (safeFailureCode failureCode) now) i t)
       t' i (\<lambda>e. or_status e = Reverted \<and> or_transactionHash e = None))"

definition reconcile_guard :: "op_row \<Rightarrow> bool" where
  "reconcile_guard r \<longleftrightarrow> w_status r \<in> {StatusUnknown, ManualReview, Confirmed}"

definition reconcile_set :: "op_status \<Rightarrow> int \<Rightarrow> op_row \<Rightarrow> op_row" where
  "reconcile_set s now r = r\<lparr>w_status := s, w_updated_at := now\<rparr>"

text \<open>\<open>manual\<close>: the requested status is manual review, not reconciled.\<close>

definition reconcile :: "int \<Rightarrow> op_table \<Rightarrow> op_table \<Rightarrow> string \<Rightarrow> bool \<Rightarrow> op_table \<times> (commerce_exn + op_record)" where
  "reconcile now t t' i manual =
     (let s = (if manual then ManualReview else Reconciled) in
      checked t (assertNow now) (\<lambda>now.
      updated_or_current (update_where reconcile_guard (reconcile_set s now) i t) t' i (\<lambda>e. or_status e = s)))"

definition review_guard :: "op_row \<Rightarrow> bool" where
  "review_guard r \<longleftrightarrow> w_status r \<in> {AwaitingSignature, Submitted, StatusUnknown, Confirmed}"

definition markManualReview :: "int \<Rightarrow> op_table \<Rightarrow> op_table \<Rightarrow> string \<Rightarrow> string option \<Rightarrow> op_table \<times> (commerce_exn + op_record)" where
  "markManualReview now t t' i failureCode =
     checked t (assertNow now) (\<lambda>now.
     updated_or_current (update_where review_guard (status_set ManualReview (safeFailureCode failureCode) now) i t)
       t' i (\<lambda>e. or_status e = ManualReview))"

text \<open>Rows of one job, oldest first, ties by id; at most 128.\<close>

definition listForJob :: "op_table \<Rightarrow> int \<Rightarrow> string \<Rightarrow> string \<Rightarrow> commerce_exn + op_record list" where
  "listForJob t chainId commerceContract jobId =
     bindE (assertJobId (Some jobId)) (\<lambda>j.
     bindE (normalizeAddress commerceContract) (\<lambda>c.
     mapE parseOperationRow (take 128 (sort_key w_created_at (sort_key w_id
       (filter (\<lambda>r. w_chain_id r = chainId \<and> w_commerce_contract r = c \<and> w_job_id r = j) t))))))"

section \<open>Interleaved methods\<close>

text \<open>
  The effect of one method on the table, whatever other methods ran before its SELECT. The flag says
  whether releases of a dispatch claim may occur.
\<close>

inductive op_step :: "runtime \<Rightarrow> bool \<Rightarrow> op_table \<Rightarrow> op_table \<Rightarrow> bool" for rt releases where
  Reserve: "(\<forall>r \<in> set t. w_id r \<noteq> u) \<Longrightarrow> reserve rt u now t t' i = (t'', x) \<Longrightarrow> op_step rt releases t t''"
| MarkSubmitted: "markSubmitted now t t' i h = (t'', x) \<Longrightarrow> op_step rt releases t t''"
| AttachJobId: "attachJobId t t' i j = (t'', x) \<Longrightarrow> op_step rt releases t t''"
| AttachCallsId: "attachCallsId t t' i c = (t'', x) \<Longrightarrow> op_step rt releases t t''"
| Claim: "claimExternalDispatch now t t' i = (t'', y) \<Longrightarrow> op_step rt releases t t''"
| Release: "releases \<Longrightarrow> releaseExternalDispatch now t t' i = (t'', y) \<Longrightarrow> op_step rt releases t t''"
| MarkReceipt: "markReceipt now t t' i rx = (t'', x') \<Longrightarrow> op_step rt releases t t''"
| MarkUnknown: "markUnknown now t t' i f = (t'', x') \<Longrightarrow> op_step rt releases t t''"
| MarkFailed: "markFailed now t t' i f = (t'', x') \<Longrightarrow> op_step rt releases t t''"
| Reconcile: "reconcile now t t' i m = (t'', x') \<Longrightarrow> op_step rt releases t t''"
| MarkManualReview: "markManualReview now t t' i f = (t'', x') \<Longrightarrow> op_step rt releases t t''"

section \<open>Parsing\<close>

lemma normalizeHash_Inr [result_simps]:
  "normalizeHash s = Inr h \<longleftrightarrow> transactionHashSchema s \<and> h = js_lower s"
  by (auto simp: normalizeHash_def)

lemma transactionHash_lower [text_intros]: "transactionHashSchema s \<Longrightarrow> transactionHashSchema (js_lower s)"
  by (auto simp: transactionHashSchema_def intro: js_lower_hex_prefix)

interpretation hash: normaliser normalizeHash
  by unfold_locales (auto simp: normalizeHash_Inr intro: transactionHash_lower)

interpretation digest: normaliser assertDigest
  by unfold_locales (auto simp: assertDigest_def intro: contentDigest_lower)

lemma optional_is_ok: "is_ok (optional f x) \<longleftrightarrow> (case x of None \<Rightarrow> True | Some y \<Rightarrow> is_ok (f y))"
  by (auto simp: optional_def is_ok_iff split: option.splits)

lemma optional_Inr: "optional f x = Inr y \<longleftrightarrow>
    (case x of None \<Rightarrow> y = None | Some a \<Rightarrow> (\<exists>b. f a = Inr b \<and> y = Some b))"
  by (auto simp: optional_def split: option.splits)

lemma bindE_is_ok: "is_ok (bindE m f) \<longleftrightarrow> (\<exists>x. m = Inr x \<and> is_ok (f x))"
  by (auto simp: is_ok_iff)

text \<open>\<open>row_parses r\<close>: the repository can read the row.\<close>

definition row_parses :: "op_row \<Rightarrow> bool" where
  "row_parses r \<longleftrightarrow> is_ok (parseOperationRow r)"

lemma row_parses_iff:
  "row_parses r \<longleftrightarrow> (w_chain_id r = 56 \<or> w_chain_id r = 97)
     \<and> nullable (\<lambda>i. isSafeInteger i \<and> 0 \<le> i) (w_log_index r)
     \<and> is_ok (assertNow (w_created_at r)) \<and> is_ok (assertNow (w_updated_at r))
     \<and> contentDigestSchema (w_request_digest r) \<and> nonZeroAddressSchema (w_commerce_contract r)
     \<and> nullable is_decimal (w_job_id r) \<and> nullable transactionHashSchema (w_transaction_hash r)
     \<and> nullable transactionHashSchema (w_block_hash r) \<and> is_ok (parseContext (w_context r))"
proof -
  have h: "is_ok (normalizeHash s) \<longleftrightarrow> transactionHashSchema s" for s
    by (simp add: normalizeHash_def)
  have n: "is_ok (optional normalizeHash x) \<longleftrightarrow> nullable transactionHashSchema x" for x
    by (cases x) (simp_all add: optional_is_ok h)
  have j: "is_ok (assertJobId x) \<longleftrightarrow> nullable is_decimal x" for x
    by (cases x) (simp_all add: assertJobId_def)
  have d: "is_ok (assertDigest s) \<longleftrightarrow> contentDigestSchema s" for s
    by (simp add: assertDigest_def)
  have a: "is_ok (normalizeAddress s) \<longleftrightarrow> nonZeroAddressSchema s" for s
    by (auto simp: is_ok_iff normalizeAddress_Inr)
  have t: "is_ok (assertNow i) \<longleftrightarrow> isSafeInteger i \<and> 0 < i" for i
    by (auto simp: assertNow_def)
  show ?thesis
    unfolding row_parses_def parseOperationRow_def
    by (auto simp: bindE_is_ok is_ok_iff [symmetric] d a j n t not_le)
qed

text \<open>Setting one safe field of a readable context leaves it readable and the other fields as they are.\<close>

lemma property_update:
  "property (AList.update k v kvs) k' = (if k' = k then (if v = JUndefined then None else Some v) else property kvs k')"
  by (simp add: property_def update_conv')

lemma entry_names_update: "entry_names (AList.update k v kvs) \<subseteq> insert k (field_names v \<union> entry_names kvs)"
  by (induction kvs) auto

lemma safe_update:
  assumes "assertPublicPayloadSafe (JObject kvs) = Inr ()" "\<not> FORBIDDEN_FIELD k" "field_names v = {}"
  shows "assertPublicPayloadSafe (JObject (AList.update k v kvs)) = Inr ()"
  using assms entry_names_update [of k v kvs] by (auto simp: payload_safe_iff)

lemma safe_names: "\<not> FORBIDDEN_FIELD ''callsId''" "\<not> FORBIDDEN_FIELD ''dispatchClaimed''"
  by code_simp+

lemma parse_claimed:
  "parseContextFields kvs = Inr c \<Longrightarrow>
   parseContextFields (AList.update ''dispatchClaimed'' (JBool b) kvs) = Inr (c\<lparr>oc_dispatchClaimed := Some b\<rparr>)"
  using safe_update [of kvs "''dispatchClaimed''" "JBool b"] safe_names
  by (auto simp: parseContextFields_def property_update parseClaimed_def optional_def [of parseClaimed])

lemma parse_calls_id:
  "parseContextFields kvs = Inr c \<Longrightarrow> hex_bytes s \<Longrightarrow>
   parseContextFields (AList.update ''callsId'' (JString s) kvs) = Inr (c\<lparr>oc_callsId := Some (Some (js_lower s))\<rparr>)"
  using safe_update [of kvs "''callsId''" "JString s"] safe_names
  by (auto simp: parseContextFields_def property_update parseCallsId_def assertHex_def optional_def [of parseCallsId])

section \<open>What every update keeps\<close>

definition row_identity :: "op_row \<Rightarrow> string \<times> string \<times> string \<times> int \<times> string \<times> op_kind \<times> op_role \<times> int" where
  "row_identity r = (w_id r, w_idempotency_key r, w_request_digest r, w_chain_id r, w_commerce_contract r,
     w_kind r, w_role r, w_created_at r)"

definition row_outcome :: "op_row \<Rightarrow> op_status \<times> string option \<times> string option \<times> string option \<times> int option \<times> string option" where
  "row_outcome r = (w_status r, w_transaction_hash r, w_block_number r, w_block_hash r, w_log_index r,
     w_failure_code r)"

text \<open>The moves the methods make. Reverted and reconciled operations are final.\<close>

fun op_moves :: "op_status \<Rightarrow> op_status list" where
  "op_moves AwaitingSignature = [Submitted, StatusUnknown, Reverted, ManualReview]"
| "op_moves Submitted = [Confirmed, Reverted, StatusUnknown, ManualReview]"
| "op_moves StatusUnknown = [AwaitingSignature, Submitted, Confirmed, Reverted, Reconciled, ManualReview]"
| "op_moves ManualReview = [Confirmed, Reverted, Reconciled]"
| "op_moves Confirmed = [Reconciled, ManualReview]"
| "op_moves Reverted = []"
| "op_moves Reconciled = []"

definition op_final :: "op_status \<Rightarrow> bool" where
  "op_final s \<longleftrightarrow> s = Reverted \<or> s = Reconciled"

interpretation op_table: absorbing_table op_moves op_final
proof
  show "op_final t" if "op_final s" "t \<in> set (op_moves s)" for s t
    using that by (auto simp: op_final_def)
qed

text \<open>The signing parameters of a readable context.\<close>

definition context_core :: "op_context \<Rightarrow> op_context" where
  "context_core c = c\<lparr>oc_callsId := None, oc_dispatchClaimed := None\<rparr>"

definition row_context :: "op_row \<Rightarrow> op_context option" where
  "row_context r = (case parseContext (w_context r) of Inr (Some c) \<Rightarrow> Some (context_core c) | _ \<Rightarrow> None)"

definition readable :: "op_row \<Rightarrow> bool" where
  "readable r \<longleftrightarrow> row_parses r \<and> (\<exists>kvs. w_context r = Some (JObject kvs))"

text \<open>A stored context is absent or an object.\<close>

definition context_shape :: "op_row \<Rightarrow> bool" where
  "context_shape r \<longleftrightarrow> w_context r = None \<or> (\<exists>kvs. w_context r = Some (JObject kvs))"

lemma context_set_object:
  "ctx = None \<or> (\<exists>kvs. ctx = Some (JObject kvs)) \<Longrightarrow> \<exists>kvs. context_set k v ctx = Some (JObject kvs)"
  by (auto simp: context_set_def)

text \<open>\<open>evolves r s\<close>: row \<open>s\<close> is a later state of row \<open>r\<close>.\<close>

definition evolves :: "op_row \<Rightarrow> op_row \<Rightarrow> bool" where
  "evolves r s \<longleftrightarrow> row_identity s = row_identity r
     \<and> (\<forall>j. w_job_id r = Some j \<longrightarrow> w_job_id s = Some j)
     \<and> (op_final (w_status r) \<longrightarrow> row_outcome s = row_outcome r)
     \<and> ((w_status r = AwaitingSignature \<longrightarrow> w_transaction_hash r = None) \<longrightarrow>
        (w_status s = AwaitingSignature \<longrightarrow> w_transaction_hash s = None))
     \<and> (w_transaction_hash r \<noteq> None \<longrightarrow> w_transaction_hash s \<noteq> None)
     \<and> (context_shape r \<longrightarrow> context_shape s)
     \<and> (readable r \<longrightarrow> readable s \<and> row_context s = row_context r)"

lemma evolves_refl [simp]: "evolves r r"
  by (simp add: evolves_def)

lemma final_outcome: "row_outcome s = row_outcome r \<Longrightarrow> op_final (w_status r) \<Longrightarrow> op_final (w_status s)"
  by (simp add: row_outcome_def)

lemma evolves_trans:
  assumes "evolves r s" "evolves s u"
  shows "evolves r u"
proof -
  have "op_final (w_status r) \<longrightarrow> row_outcome u = row_outcome r"
    using assms final_outcome by (auto simp: evolves_def)
  with assms show ?thesis by (simp add: evolves_def)
qed

text \<open>
  The contract of an UPDATE: its assignment is a later state of every row its guard selects, along a
  move of the table.
\<close>

locale row_update =
  fixes guard :: "op_row \<Rightarrow> bool" and setter :: "op_row \<Rightarrow> op_row"
  assumes set_evolves: "guard r \<Longrightarrow> evolves r (setter r)"
    and set_moves: "guard r \<Longrightarrow> table_allows op_moves (w_status r) (w_status (setter r))"
begin

lemma set_id: "guard r \<Longrightarrow> w_id (setter r) = w_id r" "guard r \<Longrightarrow> w_idempotency_key (setter r) = w_idempotency_key r"
  using set_evolves [of r] by (auto simp: evolves_def row_identity_def)

abbreviation after :: "string \<Rightarrow> op_table \<Rightarrow> op_table" where
  "after i t \<equiv> fst (update_where guard setter i t)"

lemma after_map: "after i t = map (\<lambda>x. if w_id x = i \<and> guard x then setter x else x) t"
proof (cases "find (\<lambda>r. w_id r = i \<and> guard r) t")
  case None
  then have "\<forall>x \<in> set t. \<not> (w_id x = i \<and> guard x)" by (auto simp: find_None_iff)
  then have "map (\<lambda>x. if w_id x = i \<and> guard x then setter x else x) t = t"
    by (intro map_idI) auto
  with None show ?thesis by (simp add: update_where_def)
qed (simp add: update_where_def)

lemma after_ids: "map w_id (after i t) = map w_id t"
  unfolding after_map map_map comp_def
  by (rule map_cong [OF refl]) (simp add: set_id(1) split: if_split)

lemma after_keys: "map w_idempotency_key (after i t) = map w_idempotency_key t"
  unfolding after_map map_map comp_def
  by (rule map_cong [OF refl]) (simp add: set_id(2) split: if_split)

lemma after_find:
  assumes "find (\<lambda>x. w_id x = k) t = Some r"
  shows "find (\<lambda>x. w_id x = k) (after i t) = Some (if w_id r = i \<and> guard r then setter r else r)"
  unfolding after_map using assms
  by (induction t) (auto simp: set_id split: if_splits)

lemma after_evolves:
  assumes "find (\<lambda>x. w_id x = k) t = Some r"
  shows "\<exists>s. find (\<lambda>x. w_id x = k) (after i t) = Some s \<and> evolves r s
     \<and> table_allows op_moves (w_status r) (w_status s)"
  using after_find [OF assms, of i] set_evolves set_moves by (auto simp: table_allows_def)

end

text \<open>An update that besides never takes a dispatch claim back.\<close>

locale holding_update = row_update +
  assumes set_holds: "guard r \<Longrightarrow> is_claimed r \<Longrightarrow> is_claimed (setter r)"
begin

lemma after_holds:
  assumes "find (\<lambda>x. w_id x = k) t = Some r" "is_claimed r"
  shows "\<exists>s. find (\<lambda>x. w_id x = k) (after i t) = Some s \<and> is_claimed s"
  using after_find [OF assms(1), of i] set_holds assms(2) by auto

end

section \<open>The updates of the methods keep the contract\<close>

lemma context_text_set:
  assumes "\<exists>kvs. ctx = Some (JObject kvs)"
  shows "context_text (context_set k v ctx) k' = (if k' = k then context_text (Some (JObject [(k, v)])) k
     else context_text ctx k')"
  using assms by (auto simp: context_text_def context_set_def update_conv')

lemma claimed_object: "is_claimed r \<Longrightarrow> \<exists>kvs. w_context r = Some (JObject kvs)"
  by (auto simp: is_claimed_def context_text_def split: option.splits js_value.splits)

lemma readable_keep:
  assumes "readable r" "row_identity s = row_identity r" "w_context s = w_context r"
    and "nullable is_decimal (w_job_id s)" "nullable transactionHashSchema (w_transaction_hash s)"
    and "nullable transactionHashSchema (w_block_hash s)"
    and "nullable (\<lambda>i. isSafeInteger i \<and> 0 \<le> i) (w_log_index s)" "is_ok (assertNow (w_updated_at s))"
  shows "readable s \<and> row_context s = row_context r"
  using assms by (simp add: readable_def row_parses_iff row_identity_def row_context_def)

lemma readable_context:
  assumes "readable r" "row_identity s = row_identity r" "w_job_id s = w_job_id r"
    and "w_transaction_hash s = w_transaction_hash r" "w_block_hash s = w_block_hash r"
    and "w_log_index s = w_log_index r" "is_ok (assertNow (w_updated_at s))"
    and set: "w_context s = context_set k v (w_context r)"
    and parse: "\<And>kvs c. parseContextFields kvs = Inr c \<Longrightarrow>
      \<exists>d. parseContextFields (AList.update k v kvs) = Inr d \<and> context_core d = context_core c"
  shows "readable s \<and> row_context s = row_context r"
proof -
  from assms(1) obtain kvs c where kvs: "w_context r = Some (JObject kvs)" and c: "parseContextFields kvs = Inr c"
    by (auto simp: readable_def row_parses_iff parseContext_def is_ok_iff)
  from parse [OF c] obtain d where d: "parseContextFields (AList.update k v kvs) = Inr d"
    "context_core d = context_core c" by blast
  have s: "w_context s = Some (JObject (AList.update k v kvs))"
    using set kvs by (simp add: context_set_def)
  have ctx: "parseContext (w_context s) = Inr (Some d)" "parseContext (w_context r) = Inr (Some c)"
    using s kvs c d by (simp_all add: parseContext_def)
  have "row_context s = row_context r"
    unfolding row_context_def ctx using d(2) by simp
  moreover have "readable s"
    using assms(1-7) s ctx by (simp add: readable_def row_parses_iff row_identity_def)
  ultimately show ?thesis by simp
qed

lemma readable_parts:
  assumes "readable r"
  shows "nullable is_decimal (w_job_id r)" "nullable transactionHashSchema (w_transaction_hash r)"
    "nullable transactionHashSchema (w_block_hash r)"
    "nullable (\<lambda>i. isSafeInteger i \<and> 0 \<le> i) (w_log_index r)" "is_ok (assertNow (w_updated_at r))"
  using assms by (simp_all add: readable_def row_parses_iff)

lemma claimed_core:
  "parseContextFields kvs = Inr c \<Longrightarrow> \<exists>d. parseContextFields (AList.update ''dispatchClaimed'' (JBool b) kvs) = Inr d
     \<and> context_core d = context_core c"
  using parse_claimed by (auto simp: context_core_def)

lemma calls_core:
  "hex_bytes s \<Longrightarrow> parseContextFields kvs = Inr c \<Longrightarrow>
   \<exists>d. parseContextFields (AList.update ''callsId'' (JString s) kvs) = Inr d \<and> context_core d = context_core c"
  using parse_calls_id by (auto simp: context_core_def)

interpretation upd_submitted: holding_update
  "\<lambda>r. (transactionHashSchema h \<and> is_ok (assertNow n)) \<and> submitted_guard h r" "submitted_set h n" for h n
proof
  fix r assume g: "(transactionHashSchema h \<and> is_ok (assertNow n)) \<and> submitted_guard h r"
  have "readable r \<longrightarrow> readable (submitted_set h n r) \<and> row_context (submitted_set h n r) = row_context r"
  proof
    assume rd: "readable r"
    show "readable (submitted_set h n r) \<and> row_context (submitted_set h n r) = row_context r"
      by (rule readable_keep [OF rd]) (use g readable_parts [OF rd] in \<open>simp_all add: submitted_set_def row_identity_def\<close>)
  qed
  with g show "evolves r (submitted_set h n r)"
    by (auto simp: evolves_def context_shape_def context_set_object submitted_set_def submitted_guard_def row_identity_def op_final_def)
  show "table_allows op_moves (w_status r) (w_status (submitted_set h n r))"
    using g by (auto simp: submitted_set_def submitted_guard_def table_allows_def)
  show "is_claimed r \<Longrightarrow> is_claimed (submitted_set h n r)"
    by (simp add: is_claimed_def submitted_set_def)
qed

interpretation upd_job_id: holding_update "\<lambda>r. is_decimal j \<and> job_id_guard r" "job_id_set j" for j
proof
  fix r assume g: "is_decimal j \<and> job_id_guard r"
  have "readable r \<longrightarrow> readable (job_id_set j r) \<and> row_context (job_id_set j r) = row_context r"
  proof
    assume rd: "readable r"
    show "readable (job_id_set j r) \<and> row_context (job_id_set j r) = row_context r"
      by (rule readable_keep [OF rd]) (use g readable_parts [OF rd] in \<open>simp_all add: job_id_set_def row_identity_def\<close>)
  qed
  with g show "evolves r (job_id_set j r)"
    by (auto simp: evolves_def context_shape_def context_set_object job_id_set_def job_id_guard_def row_identity_def row_outcome_def)
  show "table_allows op_moves (w_status r) (w_status (job_id_set j r))"
    by (simp add: job_id_set_def table_allows_def)
  show "is_claimed r \<Longrightarrow> is_claimed (job_id_set j r)"
    by (simp add: is_claimed_def job_id_set_def)
qed

interpretation upd_calls_id: holding_update "\<lambda>r. hex_bytes c \<and> calls_id_guard r" "calls_id_set c" for c
proof
  fix r assume g: "hex_bytes c \<and> calls_id_guard r"
  have "readable r \<longrightarrow> readable (calls_id_set c r) \<and> row_context (calls_id_set c r) = row_context r"
  proof
    assume rd: "readable r"
    show "readable (calls_id_set c r) \<and> row_context (calls_id_set c r) = row_context r"
      by (rule readable_context [where k = "''callsId''" and v = "JString c", OF rd])
        (use g readable_parts [OF rd] in \<open>simp_all add: calls_id_set_def row_identity_def calls_core\<close>)
  qed
  with g show "evolves r (calls_id_set c r)"
    by (auto simp: evolves_def context_shape_def context_set_object calls_id_set_def row_identity_def row_outcome_def)
  show "table_allows op_moves (w_status r) (w_status (calls_id_set c r))"
    by (simp add: calls_id_set_def table_allows_def)
  show "is_claimed r \<Longrightarrow> is_claimed (calls_id_set c r)"
    using context_text_set [OF claimed_object [of r]]
    by (simp add: is_claimed_def calls_id_set_def)
qed

interpretation upd_claim: holding_update "\<lambda>r. is_ok (assertNow n) \<and> claim_guard r" "claim_set n" for n
proof
  fix r assume g: "is_ok (assertNow n) \<and> claim_guard r"
  have "readable r \<longrightarrow> readable (claim_set n r) \<and> row_context (claim_set n r) = row_context r"
  proof
    assume rd: "readable r"
    show "readable (claim_set n r) \<and> row_context (claim_set n r) = row_context r"
      by (rule readable_context [where k = "''dispatchClaimed''" and v = "JBool True", OF rd])
        (use g readable_parts [OF rd] in \<open>simp_all add: claim_set_def row_identity_def claimed_core\<close>)
  qed
  with g show "evolves r (claim_set n r)"
    by (auto simp: evolves_def context_shape_def context_set_object claim_set_def claim_guard_def row_identity_def op_final_def)
  show "table_allows op_moves (w_status r) (w_status (claim_set n r))"
    using g by (simp add: claim_set_def claim_guard_def table_allows_def)
  show "is_claimed r \<Longrightarrow> is_claimed (claim_set n r)"
    using context_text_set [OF claimed_object [of r]]
    by (simp add: is_claimed_def claim_set_def) (simp add: context_text_def)
qed

interpretation upd_release: row_update "\<lambda>r. is_ok (assertNow n) \<and> release_guard r" "release_set n" for n
proof
  fix r assume g: "is_ok (assertNow n) \<and> release_guard r"
  have "readable r \<longrightarrow> readable (release_set n r) \<and> row_context (release_set n r) = row_context r"
  proof
    assume rd: "readable r"
    show "readable (release_set n r) \<and> row_context (release_set n r) = row_context r"
      by (rule readable_context [where k = "''dispatchClaimed''" and v = "JBool False", OF rd])
        (use g readable_parts [OF rd] in \<open>simp_all add: release_set_def row_identity_def claimed_core\<close>)
  qed
  with g show "evolves r (release_set n r)"
    by (auto simp: evolves_def context_shape_def context_set_object release_set_def release_guard_def row_identity_def op_final_def)
  show "table_allows op_moves (w_status r) (w_status (release_set n r))"
    using g by (simp add: release_set_def release_guard_def table_allows_def)
qed

interpretation upd_receipt: holding_update
  "\<lambda>r. (transactionHashSchema h \<and> transactionHashSchema b \<and> is_ok (assertNow n)
        \<and> nullable (\<lambda>l. isSafeInteger l \<and> 0 \<le> l) (rx_logIndex x)) \<and> receipt_guard r"
  "receipt_set x h b n" for x h b n
proof
  fix r assume g: "(transactionHashSchema h \<and> transactionHashSchema b \<and> is_ok (assertNow n)
        \<and> nullable (\<lambda>l. isSafeInteger l \<and> 0 \<le> l) (rx_logIndex x)) \<and> receipt_guard r"
  have "readable r \<longrightarrow> readable (receipt_set x h b n r) \<and> row_context (receipt_set x h b n r) = row_context r"
  proof
    assume rd: "readable r"
    show "readable (receipt_set x h b n r) \<and> row_context (receipt_set x h b n r) = row_context r"
      by (rule readable_keep [OF rd]) (use g readable_parts [OF rd] in \<open>simp_all add: receipt_set_def row_identity_def\<close>)
  qed
  with g show "evolves r (receipt_set x h b n r)"
    by (auto simp: evolves_def context_shape_def context_set_object receipt_set_def receipt_guard_def row_identity_def op_final_def receipt_status_def)
  show "table_allows op_moves (w_status r) (w_status (receipt_set x h b n r))"
    using g by (auto simp: receipt_set_def receipt_guard_def table_allows_def receipt_status_def)
  show "is_claimed r \<Longrightarrow> is_claimed (receipt_set x h b n r)"
    by (simp add: is_claimed_def receipt_set_def)
qed

lemma status_set_keeps:
  assumes "is_ok (assertNow n)" "\<not> op_final (w_status r)" "s \<noteq> AwaitingSignature"
  shows "evolves r (status_set s f n r)"
proof -
  have "readable r \<longrightarrow> readable (status_set s f n r) \<and> row_context (status_set s f n r) = row_context r"
  proof
    assume rd: "readable r"
    show "readable (status_set s f n r) \<and> row_context (status_set s f n r) = row_context r"
      by (rule readable_keep [OF rd]) (use assms readable_parts [OF rd] in \<open>simp_all add: status_set_def row_identity_def\<close>)
  qed
  with assms show ?thesis by (auto simp: evolves_def context_shape_def context_set_object status_set_def row_identity_def)
qed

interpretation upd_unknown: holding_update "\<lambda>r. is_ok (assertNow n) \<and> unknown_guard r" "status_set StatusUnknown f n" for f n
proof
  fix r assume g: "is_ok (assertNow n) \<and> unknown_guard r"
  then show "evolves r (status_set StatusUnknown f n r)"
    by (auto intro!: status_set_keeps simp: unknown_guard_def op_final_def)
  show "table_allows op_moves (w_status r) (w_status (status_set StatusUnknown f n r))"
    using g by (auto simp: status_set_def unknown_guard_def table_allows_def)
  show "is_claimed r \<Longrightarrow> is_claimed (status_set StatusUnknown f n r)"
    by (simp add: is_claimed_def status_set_def)
qed

interpretation upd_failed: holding_update "\<lambda>r. is_ok (assertNow n) \<and> failed_guard r" "status_set Reverted f n" for f n
proof
  fix r assume g: "is_ok (assertNow n) \<and> failed_guard r"
  then show "evolves r (status_set Reverted f n r)"
    by (auto intro!: status_set_keeps simp: failed_guard_def op_final_def)
  show "table_allows op_moves (w_status r) (w_status (status_set Reverted f n r))"
    using g by (auto simp: status_set_def failed_guard_def table_allows_def)
  show "is_claimed r \<Longrightarrow> is_claimed (status_set Reverted f n r)"
    by (simp add: is_claimed_def status_set_def)
qed

interpretation upd_review: holding_update "\<lambda>r. is_ok (assertNow n) \<and> review_guard r" "status_set ManualReview f n" for f n
proof
  fix r assume g: "is_ok (assertNow n) \<and> review_guard r"
  then show "evolves r (status_set ManualReview f n r)"
    by (auto intro!: status_set_keeps simp: review_guard_def op_final_def)
  show "table_allows op_moves (w_status r) (w_status (status_set ManualReview f n r))"
    using g by (auto simp: status_set_def review_guard_def table_allows_def)
  show "is_claimed r \<Longrightarrow> is_claimed (status_set ManualReview f n r)"
    by (simp add: is_claimed_def status_set_def)
qed

interpretation upd_reconcile: holding_update
  "\<lambda>r. (is_ok (assertNow n) \<and> s \<in> {ManualReview, Reconciled}) \<and> reconcile_guard r" "reconcile_set s n" for s n
proof
  fix r assume g: "(is_ok (assertNow n) \<and> s \<in> {ManualReview, Reconciled}) \<and> reconcile_guard r"
  have "readable r \<longrightarrow> readable (reconcile_set s n r) \<and> row_context (reconcile_set s n r) = row_context r"
  proof
    assume rd: "readable r"
    show "readable (reconcile_set s n r) \<and> row_context (reconcile_set s n r) = row_context r"
      by (rule readable_keep [OF rd]) (use g readable_parts [OF rd] in \<open>simp_all add: reconcile_set_def row_identity_def\<close>)
  qed
  with g show "evolves r (reconcile_set s n r)"
    by (auto simp: evolves_def context_shape_def context_set_object reconcile_set_def reconcile_guard_def row_identity_def op_final_def)
  show "table_allows op_moves (w_status r) (w_status (reconcile_set s n r))"
    using g by (auto simp: reconcile_set_def reconcile_guard_def table_allows_def)
  show "is_claimed r \<Longrightarrow> is_claimed (reconcile_set s n r)"
    by (simp add: is_claimed_def reconcile_set_def)
qed

section \<open>Runs of the methods\<close>

text \<open>\<open>table_step b t t'\<close>: one update that keeps the contract, and the claims when \<open>b\<close> is false.\<close>

definition table_step :: "bool \<Rightarrow> op_table \<Rightarrow> op_table \<Rightarrow> bool" where
  "table_step b t t' \<longleftrightarrow> (\<exists>guard setter i. t' = fst (update_where guard setter i t) \<and> row_update guard setter
     \<and> (\<not> b \<longrightarrow> holding_update guard setter))"

lemma fst_checked: "fst (checked t m f) = t \<or> (\<exists>x. m = Inr x \<and> fst (checked t m f) = fst (f x))"
  by (cases m) (simp_all add: checked_def)

lemma fst_or_current [simp]:
  "fst (updated_or_current u t' i acc) = fst u" "fst (claimed_or_current u t' i) = fst u"
  by (auto simp: updated_or_current_def claimed_or_current_def split: prod.splits option.splits)

lemma guard_conj: "P \<Longrightarrow> update_where (\<lambda>r. P \<and> g r) s i t = update_where g s i t"
  by simp

lemma table_step_hold:
  "holding_update (\<lambda>r. P \<and> g r) s \<Longrightarrow> P \<Longrightarrow> table_step b t (fst (update_where g s i t))"
  unfolding table_step_def holding_update_def using guard_conj [of P g s i t] by force

lemma assertNow_Inr: "assertNow n = Inr m \<longleftrightarrow> m = n \<and> is_ok (assertNow n)"
  by (auto simp: assertNow_def)

lemma hex_bytes_lower: "hex_bytes s \<Longrightarrow> hex_bytes (js_lower s)"
proof -
  assume h: "hex_bytes s"
  then have "length (take 2 s) = 2" by (simp add: hex_bytes_def)
  then have "hex_with_prefix (length s - 2) s" using h by (auto simp: hex_bytes_def hex_with_prefix_def)
  from js_lower_hex_prefix [OF this] h show ?thesis by (simp add: hex_bytes_def hex_with_prefix_def)
qed

lemma method_table:
  "fst (markSubmitted now t t' i h) = t \<or> table_step b t (fst (markSubmitted now t t' i h))"
  "fst (attachJobId t t' i j) = t \<or> table_step b t (fst (attachJobId t t' i j))"
  "fst (attachCallsId t t' i c) = t \<or> table_step b t (fst (attachCallsId t t' i c))"
  "fst (claimExternalDispatch now t t' i) = t \<or> table_step b t (fst (claimExternalDispatch now t t' i))"
  "fst (markUnknown now t t' i f) = t \<or> table_step b t (fst (markUnknown now t t' i f))"
  "fst (markFailed now t t' i f) = t \<or> table_step b t (fst (markFailed now t t' i f))"
  "fst (markManualReview now t t' i f) = t \<or> table_step b t (fst (markManualReview now t t' i f))"
  "fst (reconcile now t t' i m) = t \<or> table_step b t (fst (reconcile now t t' i m))"
  "fst (markReceipt now t t' i x) = t \<or> table_step b t (fst (markReceipt now t t' i x))"
proof -
  show "fst (markSubmitted now t t' i h) = t \<or> table_step b t (fst (markSubmitted now t t' i h))"
    by (auto simp: markSubmitted_def checked_def normalizeHash_Inr assertNow_Inr split: sum.splits
        intro!: table_step_hold [OF upd_submitted.holding_update_axioms] transactionHash_lower)
  show "fst (attachJobId t t' i j) = t \<or> table_step b t (fst (attachJobId t t' i j))"
    by (auto simp: attachJobId_def checked_def assertJobId_def split: sum.splits if_splits
        intro!: table_step_hold [OF upd_job_id.holding_update_axioms])
  show "fst (attachCallsId t t' i c) = t \<or> table_step b t (fst (attachCallsId t t' i c))"
    by (auto simp: attachCallsId_def checked_def assertHex_def split: sum.splits if_splits
        intro!: table_step_hold [OF upd_calls_id.holding_update_axioms] hex_bytes_lower)
  show "fst (claimExternalDispatch now t t' i) = t \<or> table_step b t (fst (claimExternalDispatch now t t' i))"
    by (auto simp: claimExternalDispatch_def checked_def assertNow_Inr split: sum.splits
        intro!: table_step_hold [OF upd_claim.holding_update_axioms])
  show "fst (markUnknown now t t' i f) = t \<or> table_step b t (fst (markUnknown now t t' i f))"
    by (auto simp: markUnknown_def checked_def assertNow_Inr split: sum.splits
        intro!: table_step_hold [OF upd_unknown.holding_update_axioms])
  show "fst (markFailed now t t' i f) = t \<or> table_step b t (fst (markFailed now t t' i f))"
    by (auto simp: markFailed_def checked_def assertNow_Inr split: sum.splits
        intro!: table_step_hold [OF upd_failed.holding_update_axioms])
  show "fst (markManualReview now t t' i f) = t \<or> table_step b t (fst (markManualReview now t t' i f))"
    by (auto simp: markManualReview_def checked_def assertNow_Inr split: sum.splits
        intro!: table_step_hold [OF upd_review.holding_update_axioms])
  show "fst (reconcile now t t' i m) = t \<or> table_step b t (fst (reconcile now t t' i m))"
    by (auto simp: reconcile_def checked_def assertNow_Inr Let_def split: sum.splits
        intro!: table_step_hold [OF upd_reconcile.holding_update_axioms])
  show "fst (markReceipt now t t' i x) = t \<or> table_step b t (fst (markReceipt now t t' i x))"
    by (auto simp: markReceipt_def checked_def normalizeHash_Inr assertNow_Inr split: sum.splits if_splits
        intro!: table_step_hold [OF upd_receipt.holding_update_axioms] transactionHash_lower)
qed

lemma release_table:
  "fst (releaseExternalDispatch now t t' i) = t \<or> table_step True t (fst (releaseExternalDispatch now t t' i))"
proof -
  have "table_step True t (fst (update_where release_guard (release_set n) i t))" if "is_ok (assertNow n)" for n
    unfolding table_step_def using upd_release.row_update_axioms [of n] that
      guard_conj [of "is_ok (assertNow n)" release_guard "release_set n" i t] by force
  then show ?thesis
    by (auto simp: releaseExternalDispatch_def checked_def assertNow_Inr split: sum.splits)
qed

text \<open>A new row has a fresh id and a fresh key and waits for its signature without a hash.\<close>

definition fresh_row :: "op_table \<Rightarrow> op_row \<Rightarrow> bool" where
  "fresh_row t r \<longleftrightarrow> w_id r \<notin> w_id ` set t \<and> w_idempotency_key r \<notin> w_idempotency_key ` set t
     \<and> w_status r = AwaitingSignature \<and> w_transaction_hash r = None \<and> context_shape r"

lemma reserve_table:
  assumes "\<forall>r \<in> set t. w_id r \<noteq> u"
  shows "fst (reserve rt u now t t' i) = t \<or> (\<exists>r. fresh_row t r \<and> fst (reserve rt u now t t' i) = t @ [r])"
proof -
  have "fresh_row t (reservedRow u i n key d c j ctx)"
    if "\<forall>r \<in> set t. w_idempotency_key r \<noteq> key" for n key d c j ctx
    using assms that by (cases ctx) (auto simp: fresh_row_def reservedRow_def context_shape_def context_json_def)
  then show ?thesis
    by (auto simp: reserve_def checked_def Let_def split: sum.splits)
qed

lemma op_step_cases:
  assumes "op_step rt b t t''"
  shows "t'' = t \<or> table_step b t t'' \<or> (\<exists>r. fresh_row t r \<and> t'' = t @ [r])"
  using assms
proof (induction rule: op_step.induct)
  case (Reserve t u now t' i t'' x)
  then show ?case using reserve_table [OF Reserve(1), of rt now t' i] by auto
next
  case (Release now t t' i t'' y)
  then show ?case using release_table [of now t t' i] by auto
qed (metis fst_conv method_table)+

definition table_ok :: "op_table \<Rightarrow> bool" where
  "table_ok t \<longleftrightarrow> distinct (map w_id t) \<and> distinct (map w_idempotency_key t)
     \<and> (\<forall>r \<in> set t. (w_status r = AwaitingSignature \<longrightarrow> w_transaction_hash r = None) \<and> context_shape r)"

abbreviation row_of :: "op_table \<Rightarrow> string \<Rightarrow> op_row option" where
  "row_of t k \<equiv> find (\<lambda>x. w_id x = k) t"

lemma table_step_ok:
  assumes "table_step b t t'" "table_ok t"
  shows "table_ok t'"
proof -
  from assms(1) obtain guard setter i where t': "t' = fst (update_where guard setter i t)" and ru: "row_update guard setter"
    by (auto simp: table_step_def)
  have "(w_status s = AwaitingSignature \<longrightarrow> w_transaction_hash s = None) \<and> context_shape s" if "s \<in> set t'" for s
  proof -
    from that obtain r where r: "r \<in> set t" "s = r \<or> guard r \<and> s = setter r"
      by (auto simp: t' row_update.after_map [OF ru] split: if_splits)
    have "evolves r s" using r(2) row_update.set_evolves [OF ru] by auto
    with r(1) assms(2) show ?thesis by (auto simp: evolves_def context_shape_def context_set_object table_ok_def)
  qed
  then show ?thesis
    using assms(2) row_update.after_ids [OF ru] row_update.after_keys [OF ru] by (simp add: table_ok_def t')
qed

lemma table_step_row:
  assumes "table_step b t t'" "row_of t k = Some r"
  shows "\<exists>s. row_of t' k = Some s \<and> evolves r s \<and> table_allows op_moves (w_status r) (w_status s)
     \<and> (\<not> b \<longrightarrow> is_claimed r \<longrightarrow> is_claimed s)"
proof -
  from assms(1) obtain guard setter i where t': "t' = fst (update_where guard setter i t)" and ru: "row_update guard setter"
    and hu: "\<not> b \<longrightarrow> holding_update guard setter"
    by (auto simp: table_step_def)
  from row_update.after_evolves [OF ru assms(2)] obtain s where
    s: "row_of t' k = Some s" "evolves r s" "table_allows op_moves (w_status r) (w_status s)"
    unfolding t' by blast
  have "is_claimed s" if "\<not> b" "is_claimed r"
    using holding_update.after_holds [OF hu [rule_format, OF that(1)] assms(2) that(2), of i] s(1) by (simp add: t')
  with s show ?thesis by blast
qed

lemma find_snoc: "find P xs = Some y \<Longrightarrow> find P (xs @ zs) = Some y"
  by (induction xs) auto

lemma op_step_row:
  assumes "op_step rt b t t'" "row_of t k = Some r"
  shows "\<exists>s. row_of t' k = Some s \<and> evolves r s \<and> table_allows op_moves (w_status r) (w_status s)
     \<and> (\<not> b \<longrightarrow> is_claimed r \<longrightarrow> is_claimed s)"
  using op_step_cases [OF assms(1)]
proof (elim disjE exE conjE)
  assume "t' = t"
  with assms(2) show ?thesis by (auto simp: table_allows_def)
next
  assume "table_step b t t'"
  from table_step_row [OF this assms(2)] show ?thesis .
next
  fix x assume "t' = t @ [x]"
  with assms(2) find_snoc [OF assms(2)] show ?thesis by (auto simp: table_allows_def)
qed

lemma op_step_ok: "op_step rt b t t' \<Longrightarrow> table_ok t \<Longrightarrow> table_ok t'"
  using op_step_cases [of rt b t t'] table_step_ok
  by (auto simp: table_ok_def fresh_row_def)

abbreviation op_run :: "runtime \<Rightarrow> bool \<Rightarrow> op_table \<Rightarrow> op_table \<Rightarrow> bool" where
  "op_run rt b \<equiv> (op_step rt b)\<^sup>*\<^sup>*"

lemma op_run_ok: "op_run rt b t t' \<Longrightarrow> table_ok t \<Longrightarrow> table_ok t'"
  by (induction rule: rtranclp_induct) (auto dest: op_step_ok)

lemma op_run_row:
  "op_run rt b t t' \<Longrightarrow> row_of t k = Some r \<Longrightarrow>
   \<exists>s. row_of t' k = Some s \<and> evolves r s \<and> (\<not> b \<longrightarrow> is_claimed r \<longrightarrow> is_claimed s)"
proof (induction rule: rtranclp_induct)
  case base
  then show ?case by simp
next
  case (step y z)
  then obtain s where s: "row_of y k = Some s" "evolves r s" "\<not> b \<longrightarrow> is_claimed r \<longrightarrow> is_claimed s" by blast
  from op_step_row [OF step(2) s(1)] obtain u where "row_of z k = Some u" "evolves s u"
    "\<not> b \<longrightarrow> is_claimed s \<longrightarrow> is_claimed u" by blast
  with s show ?case using evolves_trans by blast
qed

section \<open>A context survives storing\<close>

lemma json_stored_norm:
  "json_clean v \<Longrightarrow> json_norm (json_stored v) = json_norm v"
  "clean_items vs \<Longrightarrow> norm_items (stored_items vs) = norm_items vs"
  "clean_fields kvs \<Longrightarrow> norm_fields (stored_fields kvs) = norm_fields kvs"
  by (induction v and vs and kvs rule: json_stored_stored_items_stored_fields.induct)
    (auto simp: unwritten_def)

lemma json_stored_clean:
  "json_clean v \<Longrightarrow> json_clean (json_stored v)"
  "clean_items vs \<Longrightarrow> clean_items (stored_items vs)"
  "clean_fields kvs \<Longrightarrow> clean_fields (stored_fields kvs)"
  by (induction v and vs and kvs rule: json_stored_stored_items_stored_fields.induct)
    (auto simp: unwritten_def)

lemma json_stored_names:
  "field_names (json_stored v) \<subseteq> field_names v"
  "item_names (stored_items vs) \<subseteq> item_names vs"
  "entry_names (stored_fields kvs) \<subseteq> entry_names kvs"
  by (induction v and vs and kvs rule: json_stored_stored_items_stored_fields.induct) auto

lemma stored_fields_append [simp]: "stored_fields (xs @ ys) = stored_fields xs @ stored_fields ys"
proof (induction xs)
  case (Cons x xs)
  then show ?case by (cases x) simp
qed simp

lemma stored_jfield:
  "(\<And>y. \<not> unwritten (f y)) \<Longrightarrow> stored_fields (jfield k f x) = jfield k (\<lambda>y. json_stored (f y)) x"
  by (auto simp: jfield_def split: option.splits)

lemma map_of_jfield: "map_of (jfield k f x) k' = (if k' = k then map_option f x else None)"
  by (auto simp: jfield_def split: option.splits)

lemma entry_names_append [simp]: "entry_names (xs @ ys) = entry_names xs \<union> entry_names ys"
proof (induction xs)
  case (Cons x xs)
  then show ?case by (cases x) auto
qed simp

lemma entry_names_jfield: "entry_names (jfield k f x) = (case x of None \<Rightarrow> {} | Some y \<Rightarrow> insert k (field_names (f y)))"
  by (auto simp: jfield_def split: option.splits)

lemma property_names: "property kvs k = Some v \<Longrightarrow> field_names v \<subseteq> entry_names kvs"
proof (induction kvs)
  case (Cons x kvs)
  then show ?case by (cases x) (auto simp: property_def split: if_splits option.splits)
qed (simp add: property_def)

definition stored_context :: "op_context \<Rightarrow> op_context" where
  "stored_context c = c\<lparr>oc_parameters := map_option json_stored (oc_parameters c)\<rparr>"

text \<open>What a parsed context satisfies.\<close>

definition expectation_ok :: "op_expectation \<Rightarrow> bool" where
  "expectation_ok e \<longleftrightarrow> nullable (\<lambda>a. normalizeAddress a = Inr a) (ox_providerAddress e)
     \<and> nullable is_decimal (ox_amountAtomic e) \<and> nullable (\<lambda>h. normalizeHash h = Inr h) (ox_digest e)
     \<and> nullable (\<lambda>s. s \<in> set expectedStates) (ox_expectedState e)"

definition context_ok :: "op_context \<Rightarrow> bool" where
  "context_ok c \<longleftrightarrow> normalizeAddress (oc_signerAddress c) = Inr (oc_signerAddress c)
     \<and> nullable (\<lambda>s. s \<in> set sdkActions) (oc_sdkAction c)
     \<and> nullable (\<lambda>v. \<not> unwritten v \<and> is_ok (parseParameters v) \<and> (\<forall>k \<in> field_names v. \<not> FORBIDDEN_FIELD k)) (oc_parameters c)
     \<and> nullable (nullable (\<lambda>s. assertHex (JString s) = Inr s)) (oc_callsId c)
     \<and> nullable (\<lambda>a. normalizeAddress a = Inr a) (oc_to c)
     \<and> nullable (\<lambda>s. assertHex (JString s) = Inr s) (oc_data c)
     \<and> nullable is_decimal (oc_valueAtomic c) \<and> nullable (nullable expectation_ok) (oc_expectation c)"

lemma assertHex_Inr: "assertHex v = Inr s \<Longrightarrow> assertHex (JString s) = Inr s"
  by (auto simp: assertHex_def hex_bytes_lower split: js_value.splits)

lemma optional_nullable:
  "optional f x = Inr y \<Longrightarrow> (\<And>a b. x = Some a \<Longrightarrow> f a = Inr b \<Longrightarrow> P b) \<Longrightarrow> nullable P y"
  by (auto simp: optional_Inr split: option.splits)

lemma parsed_expectation: "parseExpectationFields s = Inr e \<Longrightarrow> expectation_ok e"
  by (auto simp: parseExpectationFields_def expectation_ok_def assertDecimalText_def assertOneOf_def
      elim!: optional_nullable intro: address.norm_idem hash.norm_idem split: js_value.splits if_splits)

lemma parsed_parts:
  "parseExpectation v = Inr y \<Longrightarrow> nullable expectation_ok y"
  "parseCallsId v = Inr z \<Longrightarrow> nullable (\<lambda>s. assertHex (JString s) = Inr s) z"
  "assertDecimalText v = Inr d \<Longrightarrow> is_decimal d"
  "assertOneOf xs v = Inr w \<Longrightarrow> w \<in> set xs"
  by (auto simp: parseExpectation_def parseCallsId_def assertDecimalText_def assertOneOf_def
      intro: parsed_expectation assertHex_Inr split: js_value.splits if_splits)

lemma parsed_context:
  assumes "parseContextFields row = Inr c"
  shows "context_ok c"
proof -
  from assms obtain s where signer: "normalizeAddress s = Inr (oc_signerAddress c)"
    and safe: "\<forall>k \<in> entry_names row. \<not> FORBIDDEN_FIELD k"
    and parts: "optional (assertOneOf sdkActions) (property row ''sdkAction'') = Inr (oc_sdkAction c)"
      "optional parseParameters (property row ''parameters'') = Inr (oc_parameters c)"
      "optional parseCallsId (property row ''callsId'') = Inr (oc_callsId c)"
      "optional (\<lambda>v. normalizeAddress (js_to_string v)) (property row ''to'') = Inr (oc_to c)"
      "optional assertHex (property row ''data'') = Inr (oc_data c)"
      "optional assertDecimalText (property row ''valueAtomic'') = Inr (oc_valueAtomic c)"
      "optional parseExpectation (property row ''expectation'') = Inr (oc_expectation c)"
    by (auto simp: parseContextFields_def payload_safe_iff)
  have "nullable (\<lambda>v. \<not> unwritten v \<and> is_ok (parseParameters v) \<and> (\<forall>k \<in> field_names v. \<not> FORBIDDEN_FIELD k)) (oc_parameters c)"
    using parts(2) safe property_names [of row "''parameters''"]
    by (auto simp: optional_Inr parseParameters_def unwritten_def split: option.splits js_value.splits)
  moreover have "nullable (\<lambda>s. s \<in> set sdkActions) (oc_sdkAction c)"
    by (rule optional_nullable [OF parts(1) parsed_parts(4)])
  moreover have "nullable (nullable (\<lambda>s. assertHex (JString s) = Inr s)) (oc_callsId c)"
    by (rule optional_nullable [OF parts(3) parsed_parts(2)])
  moreover have "nullable (\<lambda>a. normalizeAddress a = Inr a) (oc_to c)"
    by (rule optional_nullable [OF parts(4)]) (rule address.norm_idem)
  moreover have "nullable (\<lambda>s. assertHex (JString s) = Inr s) (oc_data c)"
    by (rule optional_nullable [OF parts(5)]) (rule assertHex_Inr)
  moreover have "nullable is_decimal (oc_valueAtomic c)"
    by (rule optional_nullable [OF parts(6) parsed_parts(3)])
  moreover have "nullable (nullable expectation_ok) (oc_expectation c)"
    by (rule optional_nullable [OF parts(7) parsed_parts(1)])
  ultimately show ?thesis using address.norm_idem [OF signer] by (simp add: context_ok_def)
qed

text \<open>The fields of a stored context are read back as they were written.\<close>

lemma not_unwritten [simp]: "\<not> unwritten (JString s)" "\<not> unwritten (JBool b)" "\<not> unwritten (JObject kvs)"
  "\<not> unwritten JNull"
  by (simp_all add: unwritten_def)

lemma jopt_not_unwritten: "(\<And>y. \<not> unwritten (f y)) \<Longrightarrow> \<not> unwritten (jopt f x)"
  by (cases x) (simp_all add: jopt_def)

definition expectation_fields :: "op_expectation \<Rightarrow> (string \<times> js_value) list" where
  "expectation_fields e = jfield ''providerAddress'' JString (ox_providerAddress e)
      @ jfield ''amountAtomic'' JString (ox_amountAtomic e)
      @ jfield ''digest'' JString (ox_digest e) @ jfield ''expectedState'' JString (ox_expectedState e)"

lemma stored_expectation: "json_stored (expectation_json e) = JObject (expectation_fields e)"
  by (simp add: expectation_json_def expectation_fields_def stored_jfield)

lemma reparse_expectation:
  "expectation_ok e \<Longrightarrow> parseExpectationFields (expectation_fields e) = Inr e"
  by (cases e; cases "ox_providerAddress e"; cases "ox_amountAtomic e"; cases "ox_digest e"; cases "ox_expectedState e")
    (simp_all add: parseExpectationFields_def expectation_fields_def property_def map_of_jfield map_add_def
      optional_def expectation_ok_def assertDecimalText_def assertOneOf_def)

definition context_fields :: "op_context \<Rightarrow> (string \<times> js_value) list" where
  "context_fields c = [(''signerAddress'', JString (oc_signerAddress c))]
      @ jfield ''sdkAction'' JString (oc_sdkAction c) @ jfield ''parameters'' json_stored (oc_parameters c)
      @ jfield ''callsId'' (jopt JString) (oc_callsId c) @ jfield ''dispatchClaimed'' JBool (oc_dispatchClaimed c)
      @ jfield ''to'' JString (oc_to c) @ jfield ''data'' JString (oc_data c)
      @ jfield ''valueAtomic'' JString (oc_valueAtomic c)
      @ jfield ''expectation'' (\<lambda>x. case x of None \<Rightarrow> JNull | Some e \<Rightarrow> JObject (expectation_fields e)) (oc_expectation c)"

lemma stored_jopt: "json_stored (jopt JString x) = jopt JString x"
  "json_stored (jopt expectation_json y) = (case y of None \<Rightarrow> JNull | Some e \<Rightarrow> JObject (expectation_fields e))"
  by (cases x; simp add: jopt_def) (cases y; simp add: jopt_def stored_expectation)

lemma stored_context_fields:
  assumes "context_ok c"
  shows "json_stored (context_json c) = JObject (context_fields c)"
proof -
  have p: "stored_fields (jfield ''parameters'' id (oc_parameters c)) = jfield ''parameters'' json_stored (oc_parameters c)"
    using assms by (auto simp: context_ok_def jfield_def split: option.splits)
  have o: "\<not> unwritten (jopt JString x)" "\<not> unwritten (jopt expectation_json y)" for x y
    by (rule jopt_not_unwritten, simp add: expectation_json_def)+
  show ?thesis
    unfolding context_json_def context_fields_def
    by (simp add: p stored_jfield o stored_jopt)
qed

lemma context_property:
  "property (context_fields c) ''signerAddress'' = Some (JString (oc_signerAddress c))"
  "property (context_fields c) ''sdkAction'' = map_option JString (oc_sdkAction c)"
  "property (context_fields c) ''callsId'' = map_option (jopt JString) (oc_callsId c)"
  "property (context_fields c) ''dispatchClaimed'' = map_option JBool (oc_dispatchClaimed c)"
  "property (context_fields c) ''to'' = map_option JString (oc_to c)"
  "property (context_fields c) ''data'' = map_option JString (oc_data c)"
  "property (context_fields c) ''valueAtomic'' = map_option JString (oc_valueAtomic c)"
  "property (context_fields c) ''expectation'' =
     map_option (\<lambda>x. case x of None \<Rightarrow> JNull | Some e \<Rightarrow> JObject (expectation_fields e)) (oc_expectation c)"
  "nullable (\<lambda>v. \<not> unwritten v) (oc_parameters c) \<Longrightarrow>
   property (context_fields c) ''parameters'' = map_option json_stored (oc_parameters c)"
proof -
  have j: "jopt JString x \<noteq> JUndefined" for x by (cases x) (simp_all add: jopt_def)
  show "property (context_fields c) ''signerAddress'' = Some (JString (oc_signerAddress c))"
    "property (context_fields c) ''sdkAction'' = map_option JString (oc_sdkAction c)"
    "property (context_fields c) ''dispatchClaimed'' = map_option JBool (oc_dispatchClaimed c)"
    "property (context_fields c) ''to'' = map_option JString (oc_to c)"
    "property (context_fields c) ''data'' = map_option JString (oc_data c)"
    "property (context_fields c) ''valueAtomic'' = map_option JString (oc_valueAtomic c)"
    by (simp_all add: property_def context_fields_def map_of_jfield map_add_def split: option.splits)
  show "property (context_fields c) ''callsId'' = map_option (jopt JString) (oc_callsId c)"
    by (cases "oc_callsId c") (simp_all add: property_def context_fields_def map_of_jfield map_add_def j)
  show "property (context_fields c) ''expectation'' =
     map_option (\<lambda>x. case x of None \<Rightarrow> JNull | Some e \<Rightarrow> JObject (expectation_fields e)) (oc_expectation c)"
    by (cases "oc_expectation c")
      (auto simp: property_def context_fields_def map_of_jfield map_add_def split: option.splits)
  assume "nullable (\<lambda>v. \<not> unwritten v) (oc_parameters c)"
  then show "property (context_fields c) ''parameters'' = map_option json_stored (oc_parameters c)"
  proof (cases "oc_parameters c")
    case (Some v)
    then have "json_stored v \<noteq> JUndefined"
      using \<open>nullable (\<lambda>v. \<not> unwritten v) (oc_parameters c)\<close> by (cases v) (auto simp: unwritten_def)
    with Some show ?thesis by (simp add: property_def context_fields_def map_of_jfield map_add_def)
  qed (simp add: property_def context_fields_def map_of_jfield map_add_def)
qed

lemma safe_context_names:
  "\<not> FORBIDDEN_FIELD ''signerAddress''" "\<not> FORBIDDEN_FIELD ''sdkAction''" "\<not> FORBIDDEN_FIELD ''parameters''"
  "\<not> FORBIDDEN_FIELD ''to''" "\<not> FORBIDDEN_FIELD ''data''" "\<not> FORBIDDEN_FIELD ''valueAtomic''"
  "\<not> FORBIDDEN_FIELD ''expectation''" "\<not> FORBIDDEN_FIELD ''providerAddress''" "\<not> FORBIDDEN_FIELD ''amountAtomic''"
  "\<not> FORBIDDEN_FIELD ''digest''" "\<not> FORBIDDEN_FIELD ''expectedState''"
  by code_simp+

lemma stored_context_safe:
  assumes "context_ok c"
  shows "assertPublicPayloadSafe (JObject (context_fields c)) = Inr ()"
proof -
  have e: "\<forall>k \<in> entry_names (expectation_fields e). \<not> FORBIDDEN_FIELD k" for e
    by (auto simp: expectation_fields_def entry_names_jfield safe_context_names split: option.splits)
  have j: "field_names (jopt JString x) = {}" for x by (cases x) (simp_all add: jopt_def)
  have p: "\<forall>v. oc_parameters c = Some v \<longrightarrow> (\<forall>k \<in> field_names (json_stored v). \<not> FORBIDDEN_FIELD k)"
    using assms json_stored_names(1) by (auto simp: context_ok_def nullable_def split: option.splits)
  show ?thesis
    unfolding payload_safe_iff
    using p e by (auto simp: context_fields_def entry_names_jfield safe_context_names safe_names j
        split: option.splits)
qed

lemma optional_map:
  "nullable (\<lambda>a. f (g a) = Inr (h a)) x \<Longrightarrow> optional f (map_option g x) = Inr (map_option h x)"
  by (cases x) (simp_all add: optional_def)

lemma reparse_context:
  assumes ok: "context_ok c"
  shows "parseContextFields (context_fields c) = Inr (stored_context c)"
proof -
  have params: "nullable (\<lambda>v. \<not> unwritten v) (oc_parameters c)"
    using ok by (cases "oc_parameters c") (simp_all add: context_ok_def)
  note read = context_property(1-8) context_property(9) [OF params]
  have "optional (assertOneOf sdkActions) (map_option JString (oc_sdkAction c)) = Inr (oc_sdkAction c)"
    using optional_map [of "assertOneOf sdkActions" JString "\<lambda>x. x" "oc_sdkAction c"] ok
    by (cases "oc_sdkAction c") (simp_all add: context_ok_def assertOneOf_def)
  moreover have "optional parseParameters (map_option json_stored (oc_parameters c)) = Inr (map_option json_stored (oc_parameters c))"
    using ok by (cases "oc_parameters c")
      (auto simp: context_ok_def optional_def parseParameters_def split: js_value.splits)
  moreover have "optional parseCallsId (map_option (jopt JString) (oc_callsId c)) = Inr (oc_callsId c)"
    using ok by (cases "oc_callsId c")
      (auto simp: context_ok_def optional_def parseCallsId_def jopt_def split: option.splits)
  moreover have "optional parseClaimed (map_option JBool (oc_dispatchClaimed c)) = Inr (oc_dispatchClaimed c)"
    by (cases "oc_dispatchClaimed c") (simp_all add: optional_def parseClaimed_def)
  moreover have "optional (\<lambda>v. normalizeAddress (js_to_string v)) (map_option JString (oc_to c)) = Inr (oc_to c)"
    using ok by (cases "oc_to c") (simp_all add: context_ok_def optional_def)
  moreover have "optional assertHex (map_option JString (oc_data c)) = Inr (oc_data c)"
    using ok by (cases "oc_data c") (simp_all add: context_ok_def optional_def)
  moreover have "optional assertDecimalText (map_option JString (oc_valueAtomic c)) = Inr (oc_valueAtomic c)"
    using ok by (cases "oc_valueAtomic c") (simp_all add: context_ok_def optional_def assertDecimalText_def)
  moreover have "optional parseExpectation (map_option (\<lambda>x. case x of None \<Rightarrow> JNull
      | Some e \<Rightarrow> JObject (expectation_fields e)) (oc_expectation c)) = Inr (oc_expectation c)"
    using ok by (cases "oc_expectation c")
      (auto simp: context_ok_def optional_def parseExpectation_def reparse_expectation split: option.splits)
  ultimately show ?thesis
    using ok stored_context_safe [OF ok]
    by (simp add: parseContextFields_def read context_ok_def stored_context_def del: assertPublicPayloadSafe.simps)
qed

end
