(* ===== verification/Operations_Properties.thy ===== *)
theory Operations_Properties
  imports Commerce_Operations Commerce_Examples
begin

text \<open>
  Properties of the operation table under every interleaving of the repository's methods: who may
  dispatch an operation, what a row keeps, how statuses move, and that a reservation is idempotent.
\<close>

section \<open>A concrete table\<close>

definition demo_op_context :: "(string \<times> js_value) list" where
  "demo_op_context = [(''signerAddress'', JString (demo_address CHR ''3''))]"

definition demo_op :: "js_value option \<Rightarrow> op_row" where
  "demo_op ctx = \<lparr>w_id = ''op1'', w_idempotency_key = ''fund-key-1'', w_request_digest = replicate 64 CHR ''a'',
     w_chain_id = 97, w_commerce_contract = demo_address CHR ''1'', w_job_id = Some ''7'', w_kind = OpFund,
     w_role = RClient, w_status = AwaitingSignature, w_transaction_hash = None, w_block_number = None,
     w_block_hash = None, w_log_index = None, w_failure_code = None, w_context = ctx,
     w_created_at = 1000, w_updated_at = 1000\<rparr>"

abbreviation demo_row :: op_row where
  "demo_row \<equiv> demo_op (Some (JObject demo_op_context))"


lemma demo_now [demo_simps]: "assertNow 1000 = Inr 1000" "assertNow 1100 = Inr 1100" "assertNow 1200 = Inr 1200"
  by (simp_all add: assertNow_def isSafeInteger_def max_safe_integer_def)

lemma demo_op_safe: "\<not> FORBIDDEN_FIELD ''signerAddress''"
  by code_simp

lemma demo_op_parse [demo_simps]:
  "parseContextFields demo_op_context = Inr \<lparr>oc_signerAddress = demo_address CHR ''3'', oc_sdkAction = None,
     oc_parameters = None, oc_callsId = None, oc_dispatchClaimed = None, oc_to = None, oc_data = None,
     oc_valueAtomic = None, oc_expectation = None\<rparr>"
  by (simp add: parseContextFields_def demo_op_context_def property_def optional_def payload_safe_iff
      demo_op_safe normalizeAddress_Inr demo_simps del: assertPublicPayloadSafe.simps)

lemma demo_claimed_parse [demo_simps]:
  "parseContextFields (AList.update ''dispatchClaimed'' (JBool b) demo_op_context)
   = Inr \<lparr>oc_signerAddress = demo_address CHR ''3'', oc_sdkAction = None,
     oc_parameters = None, oc_callsId = None, oc_dispatchClaimed = Some b, oc_to = None, oc_data = None,
     oc_valueAtomic = None, oc_expectation = None\<rparr>"
  by (simp add: parse_claimed [OF demo_op_parse])

lemma demo_table_ok [demo_simps]: "table_ok [demo_row]"
  by (simp add: table_ok_def demo_op_def context_shape_def)

lemma demo_row_readable [demo_simps]: "readable demo_row"
  by (simp add: readable_def row_parses_iff demo_op_def parseContext_def demo_simps)

lemma demo_claimable [demo_simps]: "claim_guard demo_row"
  by (simp add: claim_guard_def demo_op_def not_claimed_def context_text_def demo_op_context_def)

section \<open>Dispatching\<close>

lemma row_of_id: "row_of t k = Some r \<Longrightarrow> w_id r = k \<and> r \<in> set t"
  by (auto simp: find_Some_iff)

text \<open>In a consistent table an update selects the row of its id, if the guard holds there.\<close>

lemma find_guard:
  assumes "distinct (map w_id t)" "row_of t k = Some r"
  shows "find (\<lambda>r. w_id r = k \<and> guard r) t = (if guard r then Some r else None)"
  using assms
proof (induction t)
  case (Cons x t)
  show ?case
  proof (cases "w_id x = k")
    case True
    with Cons.prems have "x = r" "\<forall>y \<in> set t. w_id y \<noteq> k" by (auto intro: rev_image_eqI)
    with True show ?thesis by (auto simp: find_None_iff)
  next
    case False
    with Cons show ?thesis by simp
  qed
qed simp

lemma claim_returns:
  assumes "claimExternalDispatch now t t' k = (t1, Inr (r, True))" "table_ok t"
  obtains x where "row_of t k = Some x" "claim_guard x" "row_of t1 k = Some (claim_set now x)"
    "parseOperationRow (claim_set now x) = Inr r"
proof -
  from assms(1) obtain n where n: "assertNow now = Inr n"
    by (auto simp: claimExternalDispatch_def checked_def split: sum.splits)
  then have now: "is_ok (assertNow now)" "n = now" by (auto simp: assertNow_Inr)
  from assms(1) n obtain y where y: "update_where claim_guard (claim_set now) k t = (t1, Some y)"
    "parseOperationRow y = Inr r"
    by (auto simp: claimExternalDispatch_def checked_def claimed_or_current_def now(2) split: prod.splits option.splits)
  then obtain x where f: "find (\<lambda>r. w_id r = k \<and> claim_guard r) t = Some x" and yx: "y = claim_set now x"
    by (auto simp: update_where_def split: option.splits)
  then have "x \<in> set t" "w_id x = k" by (auto simp: find_Some_iff)
  then have "row_of t k \<noteq> None" by (auto simp: find_None_iff)
  then obtain z where z: "row_of t k = Some z" by blast
  with f find_guard [of t k z claim_guard] assms(2) have zx: "z = x" "claim_guard x"
    by (auto simp: table_ok_def split: if_splits)
  have "row_of t1 k = Some (claim_set now x)"
    using upd_claim.after_find [OF z, of now k] y(1) zx row_of_id [OF z] now(1) guard_conj [OF now(1), of claim_guard]
    by simp
  with z zx yx y(2) show ?thesis using that by blast
qed

lemma claim_refused:
  assumes "table_ok t" "row_of t k = Some x" "\<not> claim_guard x"
  shows "fst (claimExternalDispatch now t t' k) = t \<and> (\<forall>r. snd (claimExternalDispatch now t t' k) \<noteq> Inr (r, True))"
  using find_guard [of t k x claim_guard] assms
  by (auto simp: claimExternalDispatch_def checked_def claimed_or_current_def update_where_def table_ok_def
      split: sum.splits option.splits)

text \<open>C1: A dispatch is claimed at most once: after a claim succeeded, and while no release runs, every
  later claim of the operation, by whichever process, leaves the table alone and does not succeed.
\<close>

theorem dispatch_exclusive:
  assumes "table_ok t" "claimExternalDispatch now t t' k = (t1, Inr (r, True))"
    and "op_run rt False t1 t2"
  shows "fst (claimExternalDispatch now' t2 t3 k) = t2
     \<and> (\<forall>r'. snd (claimExternalDispatch now' t2 t3 k) \<noteq> Inr (r', True))"
proof -
  from claim_returns [OF assms(2,1)] obtain x where
    x0: "row_of t k = Some x" and x: "row_of t1 k = Some (claim_set now x)" by blast
  have "context_shape x"
    using row_of_id [OF x0] assms(1) by (simp add: table_ok_def)
  then have claimed: "is_claimed (claim_set now x)"
    by (auto simp: is_claimed_def claim_set_def context_set_def context_shape_def context_text_def update_conv')
  have "op_step rt False t t1" using assms(2) by (rule op_step.Claim)
  then have ok: "table_ok t2" using op_step_ok op_run_ok assms(1,3) by blast
  from op_run_row [OF assms(3) x] claimed obtain s where s: "row_of t2 k = Some s" "is_claimed s" by blast
  then have "\<not> claim_guard s" by (auto simp: claim_guard_def not_claimed_def is_claimed_def)
  from claim_refused [OF ok s(1) this] show ?thesis .
qed

text \<open>Whatever methods run in whatever order, no row is lost: its identity (key, digest, chain,
  contract, kind, role, creation time) and the attached job id are kept, a reverted or reconciled
  operation keeps its outcome, and a row that can be read keeps being readable, with the signing
  parameters it was reserved with.
\<close>

theorem operation_rows_kept:
  assumes "table_ok t" "op_run rt b t t'" "row_of t k = Some r"
  shows "table_ok t' \<and> (\<exists>s. row_of t' k = Some s \<and> row_identity s = row_identity r
     \<and> (\<forall>j. w_job_id r = Some j \<longrightarrow> w_job_id s = Some j)
     \<and> (w_status r \<in> {Reverted, Reconciled} \<longrightarrow> row_outcome s = row_outcome r)
     \<and> (readable r \<longrightarrow> is_ok (parseOperationRow s) \<and> row_context s = row_context r))"
proof -
  have "readable s \<Longrightarrow> is_ok (parseOperationRow s)" for s
    by (simp add: readable_def row_parses_def)
  with op_run_row [OF assms(2,3)] op_run_ok [OF assms(2,1)] show ?thesis
    by (auto simp: evolves_def op_final_def)
qed

text \<open>One method changes a status only along the operation's table; in particular nothing leaves
  reverted or reconciled, and only an unknown outcome returns to waiting for a signature.
\<close>

theorem operation_status_moves:
  assumes "op_step rt b t t'" "row_of t k = Some r" "row_of t' k = Some s"
  shows "w_status s = w_status r \<or> w_status s \<in> set (op_moves (w_status r))"
  using op_step_row [OF assms(1,2)] assms(3) by (auto simp: table_allows_def)

text \<open>C16: An operation that has a transaction hash is never dispatched again, not even after releases:
  every later claim fails and changes nothing.
\<close>

theorem sent_never_redispatched:
  assumes "table_ok t" "row_of t k = Some r" "w_transaction_hash r \<noteq> None" "op_run rt b t t1"
  shows "fst (claimExternalDispatch now t1 t2 k) = t1
     \<and> (\<forall>r'. snd (claimExternalDispatch now t1 t2 k) \<noteq> Inr (r', True))"
proof -
  from op_run_row [OF assms(4,2)] obtain s where "row_of t1 k = Some s" "w_transaction_hash s \<noteq> None"
    using assms(3) by (auto simp: evolves_def)
  then show ?thesis
    using claim_refused [OF op_run_ok [OF assms(4,1)], of k s now t2] by (auto simp: claim_guard_def)
qed

section \<open>Reserving\<close>














section \<open>Receipts and rows without a context\<close>

lemma update_selected:
  assumes "distinct (map w_id t)" "row_of t k = Some r" "guard r" "w_id (setter r) = k"
  obtains t1 where "update_where guard setter k t = (t1, Some (setter r))" "row_of t1 k = Some (setter r)"
proof -
  have sel: "find (\<lambda>r. w_id r = k \<and> guard r) t = Some r"
    using find_guard [OF assms(1,2)] assms(3) by simp
  have "row_of (map (\<lambda>x. if w_id x = k \<and> guard x then setter x else x) t) k = Some (setter r)"
    using assms by (induction t) (auto split: if_splits)
  with sel that show ?thesis by (simp add: update_where_def)
qed

text \<open>A valid receipt of a submitted, unknown or reviewed operation is recorded as it is, whatever
  transaction hash the operation was submitted with, and the same receipt may be delivered again.
\<close>

theorem receipt_recorded:
  assumes "table_ok t" "row_of t k = Some r" "row_parses r" "receipt_guard r"
    and "transactionHashSchema (rx_transactionHash x)" "transactionHashSchema (rx_blockHash x)"
    and "is_decimal (rx_blockNumber x)" "nullable (\<lambda>l. isSafeInteger l \<and> 0 \<le> l) (rx_logIndex x)"
    and "is_ok (assertNow now)" "is_ok (assertNow now')"
  shows "\<exists>t1 e. markReceipt now t t' k x = (t1, Inr e) \<and> or_operationId e = k \<and> or_status e = receipt_status x
     \<and> or_transactionHash e = Some (js_lower (rx_transactionHash x))
     \<and> or_blockHash e = Some (js_lower (rx_blockHash x))
     \<and> markReceipt now' t1 t1 k x = (t1, Inr e)"
proof -
  define s where "s = receipt_set x (js_lower (rx_transactionHash x)) (js_lower (rx_blockHash x)) now r"
  have id: "w_id r = k" using row_of_id [OF assms(2)] by simp
  have nows: "assertNow now = Inr now" "assertNow now' = Inr now'"
    using assms(9,10) assertNow_Inr by simp_all
  have "row_parses s"
    using assms(3,5,6,8,9) transactionHash_lower
    by (simp add: s_def receipt_set_def row_parses_iff)
  then obtain e where e: "parseOperationRow s = Inr e" by (auto simp: row_parses_def is_ok_iff)
  have fields: "or_operationId e = k" "or_status e = receipt_status x"
    "or_transactionHash e = Some (js_lower (rx_transactionHash x))" "or_blockHash e = Some (js_lower (rx_blockHash x))"
    using e id by (auto simp: parseOperationRow_def s_def receipt_set_def optional_Inr normalizeHash_Inr
        split: if_splits)
  obtain t1 where t1: "update_where receipt_guard
      (receipt_set x (js_lower (rx_transactionHash x)) (js_lower (rx_blockHash x)) now) k t = (t1, Some s)"
    "row_of t1 k = Some s"
    using update_selected [of t k r receipt_guard
        "receipt_set x (js_lower (rx_transactionHash x)) (js_lower (rx_blockHash x)) now"] assms(1,2,4) id
    by (auto simp: s_def table_ok_def receipt_set_def)
  have first: "markReceipt now t t' k x = (t1, Inr e)"
    using assms(5-8) nows t1(1) e
    by (simp add: markReceipt_def checked_def normalizeHash_def updated_or_current_def)
  have ok1: "table_ok t1" using op_step_ok [OF op_step.MarkReceipt [OF first] assms(1)] .
  have "\<not> receipt_guard s" by (simp add: s_def receipt_set_def receipt_guard_def receipt_status_def)
  then have "find (\<lambda>r. w_id r = k \<and> receipt_guard r) t1 = None"
    using find_guard [of t1 k s receipt_guard] ok1 t1(2) by (simp add: table_ok_def)
  then have "markReceipt now' t1 t1 k x = (t1, Inr e)"
    using assms(5-8) nows t1(2) e fields
    by (simp add: markReceipt_def checked_def normalizeHash_def updated_or_current_def update_where_def getOperation_def)
  with first fields show ?thesis by blast
qed

text \<open>An operation reserved without a context cannot be dispatched: the claim is written, so the
  operation becomes unknown and in flight, but the caller gets an error, and so does every reader.
\<close>

theorem claim_without_context:
  assumes "table_ok t" "row_of t k = Some r" "row_parses r" "w_context r = None" "claim_guard r"
    and "is_ok (assertNow now)"
  shows "\<exists>t1. claimExternalDispatch now t t' k = (t1, Inl (commerce_error ONCHAIN_MISMATCH))
     \<and> row_of t1 k = Some (claim_set now r) \<and> getOperation t1 k = Inl (commerce_error ONCHAIN_MISMATCH)"
proof -
  have id: "w_id r = k" using row_of_id [OF assms(2)] by simp
  have now: "assertNow now = Inr now" using assms(6) assertNow_Inr by simp
  obtain t1 where t1: "update_where claim_guard (claim_set now) k t = (t1, Some (claim_set now r))"
    "row_of t1 k = Some (claim_set now r)"
    using update_selected [of t k r claim_guard "claim_set now"] assms(1,2,5) id
    by (auto simp: table_ok_def claim_set_def)
  have safe: "assertPublicPayloadSafe (JObject [(''dispatchClaimed'', JBool True)]) = Inr ()"
    by (simp add: payload_safe_iff safe_names del: assertPublicPayloadSafe.simps)
  have "parseContext (w_context (claim_set now r)) = Inl (commerce_error ONCHAIN_MISMATCH)"
    using assms(4) by (simp add: claim_set_def context_set_def parseContext_def parseContextFields_def
        safe property_def del: assertPublicPayloadSafe.simps)
  moreover have "parseOperationRow (claim_set now r) = bindE (parseContext (w_context (claim_set now r))) f"
    if "parseOperationRow r = Inr e"
      "f = (\<lambda>ctx. Inr (e\<lparr>or_status := StatusUnknown, or_failureCode := Some in_flight, or_context := ctx, or_updatedAtUnix := now\<rparr>))" for e f
    using that assms(6) now
    by (auto simp: parseOperationRow_def claim_set_def assertNow_def split: if_splits)
  ultimately have "parseOperationRow (claim_set now r) = Inl (commerce_error ONCHAIN_MISMATCH)"
    using assms(3) by (auto simp: row_parses_def is_ok_iff)
  with t1 now show ?thesis
    by (simp add: claimExternalDispatch_def checked_def claimed_or_current_def getOperation_def)
qed

section \<open>Instances\<close>

text \<open>The table after the concrete operation was claimed, sent and confirmed.\<close>

lemma demo_job_id [demo_simps]: "assertJobId (Some ''7'') = Inr (Some ''7'')"
  by (simp add: assertJobId_def demo_simps)

lemma demo_op_key [demo_simps]: "idempotencyKeySchema ''fund-key-1'' = Inr ''fund-key-1''"
  by code_simp

lemma demo_op_digest [demo_simps]: "assertDigest (replicate 64 CHR ''a'') = Inr (replicate 64 CHR ''a'')"
  by (simp add: assertDigest_def demo_simps)

lemma demo_claim: "\<exists>t1 r. claimExternalDispatch 1100 [demo_row] [] ''op1'' = (t1, Inr (r, True))"
  by (simp add: claimExternalDispatch_def checked_def claimed_or_current_def update_where_def demo_simps)
    (simp add: claim_set_def demo_op_def context_set_def parseOperationRow_def parseContext_def assertDigest_def
      normalizeAddress_Inr optional_def is_ok_iff isSafeInteger_def max_safe_integer_def demo_simps)

lemma one_step: "op_step rt b t t' \<Longrightarrow> op_run rt b t t'"
  by (rule r_into_rtranclp)

lemma step_submitted: "op_run rt b t (fst (markSubmitted now t t' i h))"
  by (rule one_step, rule op_step.MarkSubmitted, rule prod.collapse [symmetric])

theorem dispatch_exclusive_witness:
  "\<exists>t1 r. claimExternalDispatch 1100 [demo_row] [] ''op1'' = (t1, Inr (r, True))
     \<and> (let t2 = fst (markSubmitted 1150 t1 t1 ''op1'' (demo_hash CHR ''a'')) in
        fst (claimExternalDispatch 1200 t2 t2 ''op1'') = t2
        \<and> (\<forall>r. snd (claimExternalDispatch 1200 t2 t2 ''op1'') \<noteq> Inr (r, True)))"
proof -
  obtain t1 r where "claimExternalDispatch 1100 [demo_row] [] ''op1'' = (t1, Inr (r, True))"
    using demo_claim by blast
  with dispatch_exclusive [OF demo_table_ok this step_submitted [of demo_rt False]]
  show ?thesis unfolding Let_def by blast
qed

theorem operation_rows_kept_witness:
  "table_ok (fst (markFailed 1100 [demo_row] [] ''op1'' None))
   \<and> (\<exists>s. row_of (fst (markFailed 1100 [demo_row] [] ''op1'' None)) ''op1'' = Some s
       \<and> row_identity s = row_identity demo_row \<and> is_ok (parseOperationRow s))"
proof -
  have step: "op_step demo_rt True [demo_row] (fst (markFailed 1100 [demo_row] [] ''op1'' None))"
    by (rule op_step.MarkFailed, rule prod.collapse [symmetric])
  have row: "row_of [demo_row] ''op1'' = Some demo_row" by (simp add: demo_op_def)
  show ?thesis using operation_rows_kept [OF demo_table_ok one_step [OF step] row] demo_row_readable by blast
qed

lemma demo_failed: "fst (markFailed 1100 [demo_row] [] ''op1'' None) = [status_set Reverted None 1100 demo_row]"
  by (simp add: markFailed_def checked_def update_where_def failed_guard_def safeFailureCode_def demo_simps)
    (simp add: demo_op_def)

theorem operation_status_moves_witness:
  "w_status (status_set Reverted None 1100 demo_row) = w_status demo_row
   \<or> w_status (status_set Reverted None 1100 demo_row) \<in> set (op_moves (w_status demo_row))"
proof (rule operation_status_moves)
  show "op_step demo_rt True [demo_row] [status_set Reverted None 1100 demo_row]"
    using demo_failed by (metis op_step.MarkFailed prod.collapse)
  show "row_of [demo_row] ''op1'' = Some demo_row" by (simp add: demo_op_def)
  show "row_of [status_set Reverted None 1100 demo_row] ''op1'' = Some (status_set Reverted None 1100 demo_row)"
    by (simp add: demo_op_def status_set_def)
qed

definition demo_sent :: op_row where
  "demo_sent = submitted_set (demo_hash CHR ''a'') 1100 demo_row"

lemma demo_sent_ok: "table_ok [demo_sent]" "row_of [demo_sent] ''op1'' = Some demo_sent"
  "w_transaction_hash demo_sent \<noteq> None"
  by (simp_all add: table_ok_def demo_sent_def submitted_set_def demo_op_def context_shape_def)

theorem sent_never_redispatched_witness:
  "let t1 = fst (markUnknown 1150 [demo_sent] [] ''op1'' None) in
   fst (claimExternalDispatch 1200 t1 [] ''op1'') = t1
   \<and> (\<forall>r. snd (claimExternalDispatch 1200 t1 [] ''op1'') \<noteq> Inr (r, True))"
proof -
  have step: "op_step demo_rt True [demo_sent] (fst (markUnknown 1150 [demo_sent] [] ''op1'' None))"
    by (rule op_step.MarkUnknown, rule prod.collapse [symmetric])
  show ?thesis
    using sent_never_redispatched [OF demo_sent_ok one_step [OF step]] unfolding Let_def by blast
qed

lemma demo_hash_schema [demo_simps]: "transactionHashSchema (demo_hash c) \<longleftrightarrow> is_hex c"
  by (auto simp: transactionHashSchema_def hex_with_prefix_def demo_hash_def list_all_iff)

definition demo_receipt :: receipt_input where
  "demo_receipt = \<lparr>rx_confirmed = True, rx_transactionHash = demo_hash CHR ''b'', rx_blockNumber = ''100'',
     rx_blockHash = demo_hash CHR ''c'', rx_logIndex = Some 0, rx_failureCode = None\<rparr>"

theorem receipt_recorded_witness:
  "w_transaction_hash demo_sent = Some (demo_hash CHR ''a'')
   \<and> (\<exists>t1 e. markReceipt 1100 [demo_sent] [] ''op1'' demo_receipt = (t1, Inr e) \<and> or_status e = Confirmed
        \<and> or_transactionHash e = Some (js_lower (demo_hash CHR ''b'')))"
proof -
  have "row_parses demo_sent"
    using demo_row_readable by (simp add: demo_sent_def submitted_set_def readable_def row_parses_iff demo_simps)
  from receipt_recorded [OF demo_sent_ok(1,2) this, of demo_receipt 1100 1100] show ?thesis
    by (force simp: demo_receipt_def demo_sent_def submitted_set_def receipt_guard_def receipt_status_def
        isSafeInteger_def max_safe_integer_def demo_simps)
qed

theorem claim_without_context_witness:
  "\<exists>t1. claimExternalDispatch 1100 [demo_op None] [] ''op1'' = (t1, Inl (commerce_error ONCHAIN_MISMATCH))
     \<and> getOperation t1 ''op1'' = Inl (commerce_error ONCHAIN_MISMATCH)"
proof -
  have "table_ok [demo_op None]" "row_of [demo_op None] ''op1'' = Some (demo_op None)"
    "row_parses (demo_op None)" "w_context (demo_op None) = None" "claim_guard (demo_op None)"
    by (simp_all add: table_ok_def demo_op_def context_shape_def row_parses_iff parseContext_def claim_guard_def
        not_claimed_def context_text_def demo_simps)
  from claim_without_context [OF this, of 1100] show ?thesis by (force simp: demo_simps)
qed



end
