(* ===== verification/Payment_Types.thy ===== *)
theory Payment_Types
  imports Commerce_Validation
begin

text \<open>
  packages/payment-gateway/src/types.ts and errors.ts: the data of the X402/B402 payment boundary, in
  the style of \<open>Commerce_Types\<close>. The scalar schemas that the two packages spell alike (chain id,
  addresses, decimals, Unix seconds) and the platform parameters are those of the commerce package.

  A schema throws \<open>PaymentSchemaError\<close>; a URL field that \<open>new URL\<close> cannot parse throws its
  \<open>TypeError\<close> from inside the schema, also out of \<open>safeParse\<close>, because the refinement of
  \<open>httpUrlSchema\<close> calls \<open>new URL\<close> on a string whose \<open>url()\<close> check failed.
\<close>

section \<open>Errors\<close>

datatype payment_code =
    P_PAYMENT_DISABLED | P_B402_NOT_READY | P_INVALID_PAYMENT_CONFIG | P_INVALID_CHALLENGE
  | P_CHALLENGE_TAMPERED | P_CHALLENGE_EXPIRED | P_NETWORK_MISMATCH | P_ASSET_MISMATCH
  | P_DECIMALS_MISMATCH | P_AMOUNT_MISMATCH | P_RECIPIENT_MISMATCH | P_METHOD_MISMATCH
  | P_DESTINATION_MISMATCH | P_FACILITATOR_MISMATCH | P_EGRESS_PROFILE_MISMATCH | P_REQUEST_MISMATCH
  | P_INVALID_ADDRESS | P_INVALID_AMOUNT | P_INVALID_EXPIRY | P_INVALID_SECRET_REFERENCE
  | P_UNSUPPORTED_PAYMENT_METHOD | P_INVALID_AUTHORIZATION | P_REPLAY_DETECTED | P_IDEMPOTENCY_CONFLICT
  | P_EVENT_CONFLICT | P_UNKNOWN_ATTEMPT | P_STALE_ATTEMPT | P_ILLEGAL_TRANSITION | P_RELAY_TIMEOUT
  | P_SETTLEMENT_UNVERIFIED | P_PAYOUT_MISMATCH | P_UNKNOWN_POST_PAYMENT_OUTCOME
  | P_RECONCILIATION_REQUIRED

text \<open>\<open>PaymentError code retriable nextAction\<close>, a schema's exception, a \<open>TypeError\<close>.\<close>

datatype payment_exn = PaymentError payment_code bool string | PaymentSchemaError | PaymentTypeError

abbreviation payment_error :: "payment_code \<Rightarrow> payment_exn" where
  "payment_error c \<equiv> PaymentError c False ''none''"

definition pay_js :: "js_error + 'a \<Rightarrow> payment_exn + 'a" where
  "pay_js m = (case m of Inl _ \<Rightarrow> Inl PaymentTypeError | Inr x \<Rightarrow> Inr x)"

lemma pay_js_Inr [simp, result_simps]: "pay_js m = Inr x \<longleftrightarrow> m = Inr x"
  by (auto simp: pay_js_def split: sum.splits)

section \<open>Scalars\<close>

definition identifier_char :: "char \<Rightarrow> bool" where
  "identifier_char c \<longleftrightarrow> is_alnum c \<or> c \<in> {CHR ''.'', CHR ''_'', CHR '':'', CHR ''/'', CHR ''-''}"

text \<open>The string schemas trim; the predicates are on the given string, the result is \<open>js_trim\<close> of it.\<close>

definition safeIdentifierSchema :: "string \<Rightarrow> bool" where
  "safeIdentifierSchema s \<longleftrightarrow> (let t = js_trim s in
     1 \<le> length t \<and> length t \<le> 240 \<and> is_alnum (hd t) \<and> list_all identifier_char (tl t))"

definition pay_idempotencyKeySchema :: "string \<Rightarrow> payment_exn + string" where
  "pay_idempotencyKeySchema s =
     (if safeIdentifierSchema s \<and> 8 \<le> length (js_trim s) then Inr (js_trim s) else Inl PaymentSchemaError)"

definition is_http :: "url_parts \<Rightarrow> bool" where
  "is_http u \<longleftrightarrow> (url_protocol u = ''http:'' \<or> url_protocol u = ''https:'')
     \<and> url_username u = [] \<and> url_password u = []"

definition httpUrlSchema :: "runtime \<Rightarrow> string \<Rightarrow> bool" where
  "httpUrlSchema rt s \<longleftrightarrow> (case parse_url rt s of None \<Rightarrow> False | Some u \<Rightarrow> is_http u)"

definition secretReferenceSchema :: "string \<Rightarrow> bool" where
  "secretReferenceSchema s \<longleftrightarrow> (let t = js_trim s in 1 \<le> length t \<and> length t \<le> 500 \<and>
     (starts_with ''secret://'' t \<or> starts_with ''vault://'' t \<or> starts_with ''env://'' t
      \<or> starts_with ''arn:aws:secretsmanager:'' t))"

text \<open>\<open>^(0|[1-9][0-9]*)(\.[0-9]{1,8})?$\<close>\<close>

definition usd_price :: "string \<Rightarrow> bool" where
  "usd_price s \<longleftrightarrow> (let a = takeWhile (\<lambda>c. c \<noteq> CHR ''.'') s; b = dropWhile (\<lambda>c. c \<noteq> CHR ''.'') s in
     is_decimal a \<and> (b = [] \<or> (1 \<le> length (tl b) \<and> length (tl b) \<le> 8 \<and> list_all is_digit (tl b))))"

definition paymentChallengeNonceSchema :: "string \<Rightarrow> bool" where
  "paymentChallengeNonceSchema s \<longleftrightarrow> (let t = js_trim s in
     8 \<le> length t \<and> length t \<le> 240 \<and> list_all identifier_char t)"

definition decimalsSchema :: "int \<Rightarrow> bool" where
  "decimalsSchema n \<longleftrightarrow> 0 \<le> n \<and> n \<le> 255"

datatype payment_rail = X402_B402

datatype payment_method = Eip3009 | Permit2Exact

datatype canary_status = CanaryNotRun | CanaryPassed | CanaryFailed | CanaryBlocked

datatype payout_state = PayoutPending | PayoutVerified | PayoutRejected

text \<open>
  The outcome of a schema with URL fields: the \<open>TypeError\<close> when a URL cannot be parsed, the result
  when every field is accepted.
\<close>

definition url_fields :: "runtime \<Rightarrow> string list \<Rightarrow> bool \<Rightarrow> 'a \<Rightarrow> payment_exn + 'a" where
  "url_fields rt urls ok x =
     (if \<exists>u \<in> set urls. parse_url rt u = None then Inl PaymentTypeError
      else if ok \<and> list_all (httpUrlSchema rt) urls then Inr x else Inl PaymentSchemaError)"

text \<open>\<open>url\<close> without its fragment. Only called on strings that the schema accepted.\<close>

definition normalizeHttpUrl :: "runtime \<Rightarrow> string \<Rightarrow> payment_exn + string" where
  "normalizeHttpUrl rt s =
     (case parse_url rt s of None \<Rightarrow> Inl PaymentTypeError | Some u \<Rightarrow> Inr (url_without_hash u))"

definition pay_evmAddress :: "string \<Rightarrow> payment_exn + string" where
  "pay_evmAddress s = (case normalizeEvmAddress s of Inl _ \<Rightarrow> Inl PaymentSchemaError | Inr a \<Rightarrow> Inr a)"

section \<open>Seller configuration\<close>

record seller_config =
  sc_enabled :: bool
  sc_merchantEnvironment :: string
  sc_merchantAccountReference :: string
  sc_merchantCredentialReference :: "string option"
  sc_facilitatorEndpoint :: string
  sc_settlementNetwork :: int
  sc_settlementAsset :: string
  sc_settlementDecimals :: int
  sc_payoutAddress :: string
  sc_payoutVerificationState :: payout_state
  sc_fixedEgressProfile :: string
  sc_publicX402Url :: string
  sc_relayAuthenticationReference :: "string option"
  sc_priceUsd :: string
  sc_configurationVersion :: int
  sc_canaryStatus :: canary_status

definition trim_config :: "seller_config \<Rightarrow> seller_config" where
  "trim_config c = c\<lparr>sc_merchantEnvironment := js_trim (sc_merchantEnvironment c),
     sc_merchantAccountReference := js_trim (sc_merchantAccountReference c),
     sc_merchantCredentialReference := map_option js_trim (sc_merchantCredentialReference c),
     sc_fixedEgressProfile := js_trim (sc_fixedEgressProfile c),
     sc_relayAuthenticationReference := map_option js_trim (sc_relayAuthenticationReference c)\<rparr>"

definition b402SellerConfigurationSchema :: "runtime \<Rightarrow> seller_config \<Rightarrow> payment_exn + seller_config" where
  "b402SellerConfigurationSchema rt c =
     url_fields rt [sc_facilitatorEndpoint c, sc_publicX402Url c]
       (safeIdentifierSchema (sc_merchantEnvironment c) \<and> safeIdentifierSchema (sc_merchantAccountReference c)
        \<and> nullable secretReferenceSchema (sc_merchantCredentialReference c)
        \<and> bscChainIdSchema (sc_settlementNetwork c) \<and> nonZeroAddressSchema (sc_settlementAsset c)
        \<and> decimalsSchema (sc_settlementDecimals c) \<and> nonZeroAddressSchema (sc_payoutAddress c)
        \<and> safeIdentifierSchema (sc_fixedEgressProfile c)
        \<and> nullable secretReferenceSchema (sc_relayAuthenticationReference c)
        \<and> usd_price (sc_priceUsd c) \<and> 0 < sc_configurationVersion c)
       (trim_config c)"

fun payout_name :: "payout_state \<Rightarrow> string" where
  "payout_name PayoutPending = ''pending''"
| "payout_name PayoutVerified = ''verified''"
| "payout_name PayoutRejected = ''rejected''"

fun canary_name :: "canary_status \<Rightarrow> string" where
  "canary_name CanaryNotRun = ''not_run''"
| "canary_name CanaryPassed = ''passed''"
| "canary_name CanaryFailed = ''failed''"
| "canary_name CanaryBlocked = ''blocked''"

fun method_name :: "payment_method \<Rightarrow> string" where
  "method_name Eip3009 = ''eip3009''"
| "method_name Permit2Exact = ''permit2_exact''"

definition rail_name :: "payment_rail \<Rightarrow> string" where
  "rail_name r = ''x402_b402''"

definition config_json :: "seller_config \<Rightarrow> js_value" where
  "config_json c = JObject
     [(''enabled'', JBool (sc_enabled c)), (''merchantEnvironment'', JString (sc_merchantEnvironment c)),
      (''merchantAccountReference'', JString (sc_merchantAccountReference c)),
      (''merchantCredentialReference'', jopt JString (sc_merchantCredentialReference c)),
      (''facilitatorEndpoint'', JString (sc_facilitatorEndpoint c)),
      (''settlementNetwork'', JNumber (sc_settlementNetwork c)),
      (''settlementAsset'', JString (sc_settlementAsset c)),
      (''settlementDecimals'', JNumber (sc_settlementDecimals c)),
      (''payoutAddress'', JString (sc_payoutAddress c)),
      (''payoutVerificationState'', JString (payout_name (sc_payoutVerificationState c))),
      (''fixedEgressProfile'', JString (sc_fixedEgressProfile c)),
      (''publicX402Url'', JString (sc_publicX402Url c)),
      (''agentCoreRelayAuthenticationReference'', jopt JString (sc_relayAuthenticationReference c)),
      (''priceUsd'', JString (sc_priceUsd c)),
      (''configurationVersion'', JNumber (sc_configurationVersion c)),
      (''canaryStatus'', JString (canary_name (sc_canaryStatus c)))]"

definition b402SellerConfigurationDigest :: "runtime \<Rightarrow> seller_config \<Rightarrow> payment_exn + string" where
  "b402SellerConfigurationDigest rt c =
     bindE (pay_evmAddress (sc_settlementAsset c)) (\<lambda>a.
     bindE (pay_evmAddress (sc_payoutAddress c)) (\<lambda>p.
     bindE (normalizeHttpUrl rt (sc_facilitatorEndpoint c)) (\<lambda>f.
     bindE (normalizeHttpUrl rt (sc_publicX402Url c)) (\<lambda>u.
     pay_js (digest_of rt (config_json (c\<lparr>sc_settlementAsset := a, sc_payoutAddress := p,
       sc_facilitatorEndpoint := f, sc_publicX402Url := u\<rparr>)))))))"

section \<open>Payment pins\<close>

record payment_pin =
  pp_enabled :: bool
  pp_requestId :: string
  pp_configurationVersion :: int
  pp_configurationDigest :: string
  pp_rail :: payment_rail
  pp_settlementNetwork :: int
  pp_settlementAsset :: string
  pp_settlementDecimals :: int
  pp_amountAtomic :: string
  pp_recipient :: string
  pp_method :: payment_method
  pp_destination :: string
  pp_facilitatorEndpoint :: string
  pp_fixedEgressProfile :: string
  pp_payoutAddress :: string
  pp_payoutVerificationState :: payout_state
  pp_maxChallengeLifetimeSeconds :: int

definition trim_payment_pin :: "payment_pin \<Rightarrow> payment_pin" where
  "trim_payment_pin p = p\<lparr>pp_requestId := js_trim (pp_requestId p),
     pp_fixedEgressProfile := js_trim (pp_fixedEgressProfile p)\<rparr>"

definition payment_pin_fields :: "payment_pin \<Rightarrow> bool" where
  "payment_pin_fields p \<longleftrightarrow> pp_enabled p \<and> safeIdentifierSchema (pp_requestId p)
     \<and> 0 < pp_configurationVersion p \<and> contentDigestSchema (pp_configurationDigest p)
     \<and> bscChainIdSchema (pp_settlementNetwork p) \<and> nonZeroAddressSchema (pp_settlementAsset p)
     \<and> decimalsSchema (pp_settlementDecimals p) \<and> positiveDecimalUintSchema (pp_amountAtomic p)
     \<and> nonZeroAddressSchema (pp_recipient p) \<and> safeIdentifierSchema (pp_fixedEgressProfile p)
     \<and> nonZeroAddressSchema (pp_payoutAddress p) \<and> pp_payoutVerificationState p = PayoutVerified
     \<and> 0 < pp_maxChallengeLifetimeSeconds p \<and> pp_maxChallengeLifetimeSeconds p \<le> 15 * 60"

definition b402PaymentPinSchema :: "runtime \<Rightarrow> payment_pin \<Rightarrow> payment_exn + payment_pin" where
  "b402PaymentPinSchema rt p =
     url_fields rt [pp_destination p, pp_facilitatorEndpoint p] (payment_pin_fields p) (trim_payment_pin p)"

definition payment_pin_json :: "payment_pin \<Rightarrow> js_value" where
  "payment_pin_json p = JObject
     [(''enabled'', JBool (pp_enabled p)), (''requestId'', JString (pp_requestId p)),
      (''configurationVersion'', JNumber (pp_configurationVersion p)),
      (''configurationDigest'', JString (pp_configurationDigest p)), (''rail'', JString (rail_name (pp_rail p))),
      (''settlementNetwork'', JNumber (pp_settlementNetwork p)),
      (''settlementAsset'', JString (pp_settlementAsset p)),
      (''settlementDecimals'', JNumber (pp_settlementDecimals p)),
      (''amountAtomic'', JString (pp_amountAtomic p)), (''recipient'', JString (pp_recipient p)),
      (''method'', JString (method_name (pp_method p))), (''destination'', JString (pp_destination p)),
      (''facilitatorEndpoint'', JString (pp_facilitatorEndpoint p)),
      (''fixedEgressProfile'', JString (pp_fixedEgressProfile p)),
      (''payoutAddress'', JString (pp_payoutAddress p)),
      (''payoutVerificationState'', JString (payout_name (pp_payoutVerificationState p))),
      (''maxChallengeLifetimeSeconds'', JNumber (pp_maxChallengeLifetimeSeconds p))]"

definition paymentPinDigest :: "runtime \<Rightarrow> payment_pin \<Rightarrow> payment_exn + string" where
  "paymentPinDigest rt p =
     bindE (pay_evmAddress (pp_settlementAsset p)) (\<lambda>a.
     bindE (pay_evmAddress (pp_recipient p)) (\<lambda>r.
     bindE (pay_evmAddress (pp_payoutAddress p)) (\<lambda>o'.
     bindE (normalizeHttpUrl rt (pp_destination p)) (\<lambda>d.
     bindE (normalizeHttpUrl rt (pp_facilitatorEndpoint p)) (\<lambda>f.
     pay_js (digest_of rt (payment_pin_json (p\<lparr>pp_settlementAsset := a, pp_recipient := r,
       pp_payoutAddress := o', pp_destination := d, pp_facilitatorEndpoint := f\<rparr>))))))))"

section \<open>Challenges\<close>

record challenge =
  pc_challengeId :: string
  pc_rail :: payment_rail
  pc_version :: string
  pc_settlementNetwork :: int
  pc_settlementAsset :: string
  pc_settlementDecimals :: int
  pc_amountAtomic :: string
  pc_recipient :: string
  pc_method :: payment_method
  pc_destination :: string
  pc_facilitatorEndpoint :: string
  pc_nonce :: string
  pc_issuedAtUnix :: int
  pc_expiresAtUnix :: int
  pc_challengeDigest :: string

definition trim_challenge :: "challenge \<Rightarrow> challenge" where
  "trim_challenge c = c\<lparr>pc_challengeId := js_trim (pc_challengeId c), pc_version := js_trim (pc_version c),
     pc_nonce := js_trim (pc_nonce c)\<rparr>"

definition challenge_fields :: "challenge \<Rightarrow> bool" where
  "challenge_fields c \<longleftrightarrow> safeIdentifierSchema (pc_challengeId c) \<and> safeIdentifierSchema (pc_version c)
     \<and> bscChainIdSchema (pc_settlementNetwork c) \<and> nonZeroAddressSchema (pc_settlementAsset c)
     \<and> decimalsSchema (pc_settlementDecimals c) \<and> positiveDecimalUintSchema (pc_amountAtomic c)
     \<and> nonZeroAddressSchema (pc_recipient c) \<and> paymentChallengeNonceSchema (pc_nonce c)
     \<and> unixSecondsSchema (pc_issuedAtUnix c) \<and> unixSecondsSchema (pc_expiresAtUnix c)
     \<and> contentDigestSchema (pc_challengeDigest c) \<and> pc_issuedAtUnix c < pc_expiresAtUnix c"

definition paymentChallengeSchema :: "runtime \<Rightarrow> challenge \<Rightarrow> payment_exn + challenge" where
  "paymentChallengeSchema rt c =
     url_fields rt [pc_destination c, pc_facilitatorEndpoint c] (challenge_fields c) (trim_challenge c)"

definition challenge_unsigned_fields :: "challenge \<Rightarrow> (string \<times> js_value) list" where
  "challenge_unsigned_fields c =
     [(''challengeId'', JString (pc_challengeId c)), (''rail'', JString (rail_name (pc_rail c))),
      (''version'', JString (pc_version c)), (''settlementNetwork'', JNumber (pc_settlementNetwork c)),
      (''settlementAsset'', JString (pc_settlementAsset c)),
      (''settlementDecimals'', JNumber (pc_settlementDecimals c)),
      (''amountAtomic'', JString (pc_amountAtomic c)), (''recipient'', JString (pc_recipient c)),
      (''method'', JString (method_name (pc_method c))), (''destination'', JString (pc_destination c)),
      (''facilitatorEndpoint'', JString (pc_facilitatorEndpoint c)), (''nonce'', JString (pc_nonce c)),
      (''issuedAtUnix'', JNumber (pc_issuedAtUnix c)), (''expiresAtUnix'', JNumber (pc_expiresAtUnix c))]"

definition challenge_json :: "challenge \<Rightarrow> js_value" where
  "challenge_json c = JObject (challenge_unsigned_fields c @ [(''challengeDigest'', JString (pc_challengeDigest c))])"

definition challengeUnsignedDigest :: "runtime \<Rightarrow> challenge \<Rightarrow> payment_exn + string" where
  "challengeUnsignedDigest rt c = pay_js (digest_of rt (JObject (challenge_unsigned_fields c)))"

section \<open>Authorizations and relay requests\<close>

text \<open>
  The last field of the two records is the hidden brand, a property that is not enumerable: JSON texts
  and schemas do not see it, and the object that a schema returns has none.
\<close>

record authorization =
  pa_attemptId :: string
  pa_challengeId :: string
  pa_challengeDigest :: string
  pa_payerAddress :: string
  pa_credentialDigest :: string
  pa_authorizedAtUnix :: int
  pa_validated :: bool

definition paymentAuthorizationSchema :: "runtime \<Rightarrow> authorization \<Rightarrow> payment_exn + authorization" where
  "paymentAuthorizationSchema rt a =
     (if uuid_schema rt (pa_attemptId a) \<and> safeIdentifierSchema (pa_challengeId a)
         \<and> contentDigestSchema (pa_challengeDigest a) \<and> nonZeroAddressSchema (pa_payerAddress a)
         \<and> contentDigestSchema (pa_credentialDigest a) \<and> unixSecondsSchema (pa_authorizedAtUnix a)
      then Inr (a\<lparr>pa_challengeId := js_trim (pa_challengeId a), pa_validated := False\<rparr>)
      else Inl PaymentSchemaError)"

definition authorization_json :: "authorization \<Rightarrow> js_value" where
  "authorization_json a = JObject
     [(''attemptId'', JString (pa_attemptId a)), (''challengeId'', JString (pa_challengeId a)),
      (''challengeDigest'', JString (pa_challengeDigest a)), (''payerAddress'', JString (pa_payerAddress a)),
      (''credentialDigest'', JString (pa_credentialDigest a)),
      (''authorizedAtUnix'', JNumber (pa_authorizedAtUnix a))]"

definition paymentAuthorizationDigest :: "runtime \<Rightarrow> authorization \<Rightarrow> payment_exn + string" where
  "paymentAuthorizationDigest rt a = pay_js (digest_of rt (authorization_json a))"

record relay_request =
  rq_attemptId :: string
  rq_requestId :: string
  rq_idempotencyKey :: string
  rq_destination :: string
  rq_method :: payment_method
  rq_requestBody :: js_value
  rq_authorizationDigest :: string
  rq_requestDigest :: string
  rq_fixedEgressProfile :: string
  rq_timeoutMs :: int
  rq_validated :: bool

definition relayRequestSchema :: "runtime \<Rightarrow> relay_request \<Rightarrow> payment_exn + relay_request" where
  "relayRequestSchema rt q =
     url_fields rt [rq_destination q]
       (uuid_schema rt (rq_attemptId q) \<and> safeIdentifierSchema (rq_requestId q)
        \<and> is_ok (pay_idempotencyKeySchema (rq_idempotencyKey q))
        \<and> contentDigestSchema (rq_authorizationDigest q) \<and> contentDigestSchema (rq_requestDigest q)
        \<and> safeIdentifierSchema (rq_fixedEgressProfile q) \<and> 1000 \<le> rq_timeoutMs q \<and> rq_timeoutMs q \<le> 120000)
       (q\<lparr>rq_requestId := js_trim (rq_requestId q), rq_idempotencyKey := js_trim (rq_idempotencyKey q),
          rq_fixedEgressProfile := js_trim (rq_fixedEgressProfile q), rq_validated := False\<rparr>)"

section \<open>Receipts\<close>

datatype receipt_outcome = ReceiptSettled | ReceiptRejected | ReceiptUnknown | ReceiptPartialFailure

record receipt =
  pr_receiptId :: string
  pr_attemptId :: string
  pr_challengeId :: string
  pr_rail :: payment_rail
  pr_status :: receipt_outcome
  pr_settlementNetwork :: int
  pr_settlementAsset :: string
  pr_settlementDecimals :: int
  pr_amountAtomic :: string
  pr_expectedRecipient :: string
  pr_actualRecipient :: "string option"
  pr_method :: payment_method
  pr_destination :: string
  pr_paymentTransactionHash :: "string option"
  pr_settlementTransactionHash :: "string option"
  pr_payoutAddress :: "string option"
  pr_payoutVerified :: bool
  pr_facilitatorRequestReference :: "string option"
  pr_responseStatus :: "int option"
  pr_responseDigest :: "string option"
  pr_observedAtUnix :: int
  pr_settledAtUnix :: "int option"

definition paymentReceiptSchema :: "runtime \<Rightarrow> receipt \<Rightarrow> payment_exn + receipt" where
  "paymentReceiptSchema rt r =
     url_fields rt [pr_destination r]
       (uuid_schema rt (pr_receiptId r) \<and> uuid_schema rt (pr_attemptId r) \<and> safeIdentifierSchema (pr_challengeId r)
        \<and> bscChainIdSchema (pr_settlementNetwork r) \<and> nonZeroAddressSchema (pr_settlementAsset r)
        \<and> decimalsSchema (pr_settlementDecimals r) \<and> positiveDecimalUintSchema (pr_amountAtomic r)
        \<and> nonZeroAddressSchema (pr_expectedRecipient r) \<and> nullable nonZeroAddressSchema (pr_actualRecipient r)
        \<and> nullable transactionHashSchema (pr_paymentTransactionHash r)
        \<and> nullable transactionHashSchema (pr_settlementTransactionHash r)
        \<and> nullable nonZeroAddressSchema (pr_payoutAddress r)
        \<and> nullable safeIdentifierSchema (pr_facilitatorRequestReference r)
        \<and> nullable (\<lambda>n. 100 \<le> n \<and> n \<le> 599) (pr_responseStatus r)
        \<and> nullable contentDigestSchema (pr_responseDigest r) \<and> unixSecondsSchema (pr_observedAtUnix r)
        \<and> nullable unixSecondsSchema (pr_settledAtUnix r))
       (r\<lparr>pr_challengeId := js_trim (pr_challengeId r),
          pr_facilitatorRequestReference := map_option js_trim (pr_facilitatorRequestReference r)\<rparr>)"

fun receipt_status_name :: "receipt_outcome \<Rightarrow> string" where
  "receipt_status_name ReceiptSettled = ''settled''"
| "receipt_status_name ReceiptRejected = ''rejected''"
| "receipt_status_name ReceiptUnknown = ''unknown''"
| "receipt_status_name ReceiptPartialFailure = ''partial_failure''"

definition receipt_json :: "receipt \<Rightarrow> js_value" where
  "receipt_json r = JObject
     [(''receiptId'', JString (pr_receiptId r)), (''attemptId'', JString (pr_attemptId r)),
      (''challengeId'', JString (pr_challengeId r)), (''rail'', JString (rail_name (pr_rail r))),
      (''status'', JString (receipt_status_name (pr_status r))),
      (''settlementNetwork'', JNumber (pr_settlementNetwork r)),
      (''settlementAsset'', JString (pr_settlementAsset r)),
      (''settlementDecimals'', JNumber (pr_settlementDecimals r)),
      (''amountAtomic'', JString (pr_amountAtomic r)),
      (''expectedRecipient'', JString (pr_expectedRecipient r)),
      (''actualRecipient'', jopt JString (pr_actualRecipient r)),
      (''method'', JString (method_name (pr_method r))), (''destination'', JString (pr_destination r)),
      (''paymentTransactionHash'', jopt JString (pr_paymentTransactionHash r)),
      (''settlementTransactionHash'', jopt JString (pr_settlementTransactionHash r)),
      (''payoutAddress'', jopt JString (pr_payoutAddress r)), (''payoutVerified'', JBool (pr_payoutVerified r)),
      (''facilitatorRequestReference'', jopt JString (pr_facilitatorRequestReference r)),
      (''responseStatus'', jopt JNumber (pr_responseStatus r)),
      (''responseDigest'', jopt JString (pr_responseDigest r)),
      (''observedAtUnix'', JNumber (pr_observedAtUnix r)), (''settledAtUnix'', jopt JNumber (pr_settledAtUnix r))]"

section \<open>Attempts\<close>

datatype payment_status = Challenged | Authorized | RelayPending | Relayed | SettlementPending | Settled
  | Delivered | PayRejected | PayExpired | PayUnknown | PartialFailure | PayManualReview

record attempt =
  at_attemptId :: string
  at_rail :: payment_rail
  at_requestId :: string
  at_idempotencyKey :: string
  at_challenge :: challenge
  at_challengeDigest :: string
  at_authorizationDigest :: "string option"
  at_payerAddress :: "string option"
  at_pin :: payment_pin
  at_pinDigest :: string
  at_status :: payment_status
  at_relayRequestDigest :: "string option"
  at_failureCode :: "string option"
  at_sanitizedFailure :: "string option"
  at_createdAtUnix :: int
  at_updatedAtUnix :: int

text \<open>The refinement, without the digest of the pin.\<close>

definition attempt_terms_match :: "attempt \<Rightarrow> bool" where
  "attempt_terms_match a \<longleftrightarrow> (let c = at_challenge a; p = at_pin a in
     at_rail a = pc_rail c \<and> at_challengeDigest a = pc_challengeDigest c
     \<and> pp_settlementNetwork p = pc_settlementNetwork c
     \<and> js_lower (pp_settlementAsset p) = js_lower (pc_settlementAsset c)
     \<and> pp_settlementDecimals p = pc_settlementDecimals c \<and> pp_amountAtomic p = pc_amountAtomic c
     \<and> js_lower (pp_recipient p) = js_lower (pc_recipient c) \<and> pp_method p = pc_method c
     \<and> pp_destination p = pc_destination c \<and> pp_facilitatorEndpoint p = pc_facilitatorEndpoint c
     \<and> at_requestId a = pp_requestId p)"

definition attempt_fields :: "runtime \<Rightarrow> attempt \<Rightarrow> bool" where
  "attempt_fields rt a \<longleftrightarrow> uuid_schema rt (at_attemptId a) \<and> safeIdentifierSchema (at_requestId a)
     \<and> is_ok (pay_idempotencyKeySchema (at_idempotencyKey a)) \<and> contentDigestSchema (at_challengeDigest a)
     \<and> nullable contentDigestSchema (at_authorizationDigest a) \<and> nullable nonZeroAddressSchema (at_payerAddress a)
     \<and> contentDigestSchema (at_pinDigest a) \<and> nullable contentDigestSchema (at_relayRequestDigest a)
     \<and> nullable safeIdentifierSchema (at_failureCode a)
     \<and> nullable (\<lambda>s. length (js_trim s) \<le> 500) (at_sanitizedFailure a)
     \<and> unixSecondsSchema (at_createdAtUnix a) \<and> unixSecondsSchema (at_updatedAtUnix a)"

definition trim_attempt :: "attempt \<Rightarrow> attempt" where
  "trim_attempt a = a\<lparr>at_requestId := js_trim (at_requestId a), at_idempotencyKey := js_trim (at_idempotencyKey a),
     at_challenge := trim_challenge (at_challenge a), at_pin := trim_payment_pin (at_pin a),
     at_failureCode := map_option js_trim (at_failureCode a),
     at_sanitizedFailure := map_option js_trim (at_sanitizedFailure a)\<rparr>"

text \<open>
  Every exception is one of the schema's call, the \<open>TypeError\<close> of a URL included. The refinement sees
  the trimmed object.
\<close>

definition paymentAttemptSchema :: "runtime \<Rightarrow> attempt \<Rightarrow> payment_exn + attempt" where
  "paymentAttemptSchema rt a =
     bindE (url_fields rt [pc_destination (at_challenge a), pc_facilitatorEndpoint (at_challenge a),
                           pp_destination (at_pin a), pp_facilitatorEndpoint (at_pin a)]
       (attempt_fields rt a \<and> challenge_fields (at_challenge a) \<and> payment_pin_fields (at_pin a)
        \<and> attempt_terms_match (trim_attempt a)) (trim_attempt a)) (\<lambda>b.
     bindE (paymentPinDigest rt (at_pin b)) (\<lambda>d.
     if at_pinDigest b = d then Inr b else Inl PaymentSchemaError))"

fun payment_status_name :: "payment_status \<Rightarrow> string" where
  "payment_status_name Challenged = ''challenged''"
| "payment_status_name Authorized = ''authorized''"
| "payment_status_name RelayPending = ''relay_pending''"
| "payment_status_name Relayed = ''relayed''"
| "payment_status_name SettlementPending = ''settlement_pending''"
| "payment_status_name Settled = ''settled''"
| "payment_status_name Delivered = ''delivered''"
| "payment_status_name PayRejected = ''rejected''"
| "payment_status_name PayExpired = ''expired''"
| "payment_status_name PayUnknown = ''unknown''"
| "payment_status_name PartialFailure = ''partial_failure''"
| "payment_status_name PayManualReview = ''manual_review''"

text \<open>An attempt without its time stamps, and with them.\<close>

definition attempt_request_fields :: "attempt \<Rightarrow> (string \<times> js_value) list" where
  "attempt_request_fields a =
     [(''attemptId'', JString (at_attemptId a)), (''rail'', JString (rail_name (at_rail a))),
      (''requestId'', JString (at_requestId a)), (''idempotencyKey'', JString (at_idempotencyKey a)),
      (''challenge'', challenge_json (at_challenge a)), (''challengeDigest'', JString (at_challengeDigest a)),
      (''authorizationDigest'', jopt JString (at_authorizationDigest a)),
      (''payerAddress'', jopt JString (at_payerAddress a)), (''pin'', payment_pin_json (at_pin a)),
      (''pinDigest'', JString (at_pinDigest a)), (''status'', JString (payment_status_name (at_status a))),
      (''relayRequestDigest'', jopt JString (at_relayRequestDigest a)),
      (''failureCode'', jopt JString (at_failureCode a)),
      (''sanitizedFailure'', jopt JString (at_sanitizedFailure a))]"

definition attempt_json :: "attempt \<Rightarrow> js_value" where
  "attempt_json a = JObject (attempt_request_fields a @
     [(''createdAtUnix'', JNumber (at_createdAtUnix a)), (''updatedAtUnix'', JNumber (at_updatedAtUnix a))])"

section \<open>Events and reconciliations\<close>

datatype payment_event_type = PevChallengeIssued | PevPaymentAuthorized | PevRelayStarted | PevRelayCompleted
  | PevSettlementObserved | PevResponseDelivered | PevPaymentRejected | PevPaymentExpired | PevPaymentUnknown
  | PevPaymentPartialFailure | PevReconciliationRequested | PevReconciliationSucceeded | PevReconciliationFailed

record payment_event =
  pe_eventId :: string
  pe_eventKey :: string
  pe_attemptId :: string
  pe_eventType :: payment_event_type
  pe_previousStatus :: "payment_status option"
  pe_nextStatus :: "payment_status option"
  pe_paymentTransactionHash :: "string option"
  pe_settlementTransactionHash :: "string option"
  pe_payloadDigest :: string
  pe_payload :: js_value
  pe_correlationId :: string
  pe_observedAtUnix :: int

definition paymentEventSchema :: "runtime \<Rightarrow> payment_event \<Rightarrow> payment_exn + payment_event" where
  "paymentEventSchema rt e =
     (if uuid_schema rt (pe_eventId e) \<and> safeIdentifierSchema (pe_eventKey e) \<and> uuid_schema rt (pe_attemptId e)
         \<and> nullable transactionHashSchema (pe_paymentTransactionHash e)
         \<and> nullable transactionHashSchema (pe_settlementTransactionHash e)
         \<and> contentDigestSchema (pe_payloadDigest e) \<and> safeIdentifierSchema (pe_correlationId e)
         \<and> unixSecondsSchema (pe_observedAtUnix e)
      then Inr (e\<lparr>pe_eventKey := js_trim (pe_eventKey e), pe_correlationId := js_trim (pe_correlationId e)\<rparr>)
      else Inl PaymentSchemaError)"

text \<open>The states of a reconciliation are those of the commerce package.\<close>

record payment_reconciliation =
  px_reconciliationId :: string
  px_attemptId :: string
  px_state :: reconciliation_state
  px_reasonCode :: string
  px_attemptCount :: int
  px_nextAttemptAtUnix :: "int option"
  px_observedPaymentTransactionHash :: "string option"
  px_observedSettlementTransactionHash :: "string option"
  px_detailDigest :: "string option"
  px_createdAtUnix :: int
  px_updatedAtUnix :: int

definition paymentReconciliationSchema :: "runtime \<Rightarrow> payment_reconciliation \<Rightarrow> payment_exn + payment_reconciliation" where
  "paymentReconciliationSchema rt x =
     (if uuid_schema rt (px_reconciliationId x) \<and> uuid_schema rt (px_attemptId x)
         \<and> safeIdentifierSchema (px_reasonCode x) \<and> 0 \<le> px_attemptCount x
         \<and> nullable unixSecondsSchema (px_nextAttemptAtUnix x)
         \<and> nullable transactionHashSchema (px_observedPaymentTransactionHash x)
         \<and> nullable transactionHashSchema (px_observedSettlementTransactionHash x)
         \<and> nullable contentDigestSchema (px_detailDigest x)
         \<and> unixSecondsSchema (px_createdAtUnix x) \<and> unixSecondsSchema (px_updatedAtUnix x)
      then Inr (x\<lparr>px_reasonCode := js_trim (px_reasonCode x)\<rparr>) else Inl PaymentSchemaError)"

section \<open>Encodings\<close>

text \<open>Two records with one normal form are equal, up to the hidden brand.\<close>

lemma names_inj [simp]:
  "payout_name a = payout_name b \<longleftrightarrow> a = b" "canary_name c = canary_name d \<longleftrightarrow> c = d"
  "method_name m = method_name n \<longleftrightarrow> m = n" "rail_name r = rail_name s"
  "receipt_status_name t = receipt_status_name u \<longleftrightarrow> t = u"
  "payment_status_name v = payment_status_name w \<longleftrightarrow> v = w"
proof -
  show "payout_name a = payout_name b \<longleftrightarrow> a = b" by (cases a; cases b) simp_all
  show "canary_name c = canary_name d \<longleftrightarrow> c = d" by (cases c; cases d) simp_all
  show "method_name m = method_name n \<longleftrightarrow> m = n" by (cases m; cases n) simp_all
  show "rail_name r = rail_name s" by (simp add: rail_name_def)
  show "receipt_status_name t = receipt_status_name u \<longleftrightarrow> t = u" by (cases t; cases u) simp_all
  show "payment_status_name v = payment_status_name w \<longleftrightarrow> v = w" by (cases v; cases w) simp_all
qed

lemma rail_single [simp]: "(r :: payment_rail) = s"
  by (cases r; cases s) simp

lemma config_json_norm [json_eq]: "json_norm (config_json p) = json_norm (config_json q) \<longleftrightarrow> p = q"
proof
  assume eq: "json_norm (config_json p) = json_norm (config_json q)"
  show "p = q"
    using norm_object_same_keys [OF eq [unfolded config_json_def]] by (simp add: seller_config.equality)
qed simp

lemma payment_pin_json_norm [json_eq]: "json_norm (payment_pin_json p) = json_norm (payment_pin_json q) \<longleftrightarrow> p = q"
proof
  assume eq: "json_norm (payment_pin_json p) = json_norm (payment_pin_json q)"
  show "p = q"
    using norm_object_same_keys [OF eq [unfolded payment_pin_json_def]] by (simp add: payment_pin.equality)
qed simp

lemma receipt_json_norm [json_eq]: "json_norm (receipt_json p) = json_norm (receipt_json q) \<longleftrightarrow> p = q"
proof
  assume eq: "json_norm (receipt_json p) = json_norm (receipt_json q)"
  show "p = q"
    using norm_object_same_keys [OF eq [unfolded receipt_json_def]] by (simp add: receipt.equality)
qed simp

lemma challenge_json_norm [json_eq]: "json_norm (challenge_json p) = json_norm (challenge_json q) \<longleftrightarrow> p = q"
proof
  assume eq: "json_norm (challenge_json p) = json_norm (challenge_json q)"
  show "p = q"
    using norm_object_same_keys [OF eq [unfolded challenge_json_def]]
    by (simp add: challenge_unsigned_fields_def challenge.equality)
qed simp

lemma challenge_unsigned_norm [json_eq]:
  "json_norm (JObject (challenge_unsigned_fields p)) = json_norm (JObject (challenge_unsigned_fields q))
   \<longleftrightarrow> p = q\<lparr>pc_challengeDigest := pc_challengeDigest p\<rparr>"
proof
  assume eq: "json_norm (JObject (challenge_unsigned_fields p)) = json_norm (JObject (challenge_unsigned_fields q))"
  show "p = q\<lparr>pc_challengeDigest := pc_challengeDigest p\<rparr>"
    using norm_object_same_keys [OF eq] by (simp add: challenge_unsigned_fields_def challenge.equality)
next
  assume "p = q\<lparr>pc_challengeDigest := pc_challengeDigest p\<rparr>"
  then have "challenge_unsigned_fields p = challenge_unsigned_fields (q\<lparr>pc_challengeDigest := pc_challengeDigest p\<rparr>)"
    by simp
  then show "json_norm (JObject (challenge_unsigned_fields p)) = json_norm (JObject (challenge_unsigned_fields q))"
    by (simp add: challenge_unsigned_fields_def)
qed

lemma authorization_json_norm [json_eq]:
  "json_norm (authorization_json a) = json_norm (authorization_json b) \<longleftrightarrow> a = b\<lparr>pa_validated := pa_validated a\<rparr>"
proof
  assume eq: "json_norm (authorization_json a) = json_norm (authorization_json b)"
  show "a = b\<lparr>pa_validated := pa_validated a\<rparr>"
    using norm_object_same_keys [OF eq [unfolded authorization_json_def]] by (simp add: authorization.equality)
next
  assume "a = b\<lparr>pa_validated := pa_validated a\<rparr>"
  then have "authorization_json a = authorization_json (b\<lparr>pa_validated := pa_validated a\<rparr>)" by simp
  then show "json_norm (authorization_json a) = json_norm (authorization_json b)"
    by (simp add: authorization_json_def)
qed

lemma attempt_json_norm [json_eq]: "json_norm (attempt_json p) = json_norm (attempt_json q) \<longleftrightarrow> p = q"
proof
  assume eq: "json_norm (attempt_json p) = json_norm (attempt_json q)"
  show "p = q"
    using norm_object_same_keys [OF eq [unfolded attempt_json_def]]
    by (simp add: attempt_request_fields_def attempt.equality json_eq del: json_norm.simps)
qed simp

lemma attempt_request_times [simp]:
  "attempt_request_fields (q\<lparr>at_createdAtUnix := a, at_updatedAtUnix := b\<rparr>) = attempt_request_fields q"
  by (simp add: attempt_request_fields_def)

lemma payment_encoded_clean [simp]:
  "json_clean (config_json c)" "json_clean (payment_pin_json p)" "json_clean (challenge_json d)"
  "json_clean (authorization_json a)" "json_clean (receipt_json r)" "json_clean (attempt_json t)"
  "json_clean (JObject (challenge_unsigned_fields d))" "json_clean (JObject (attempt_request_fields t))"
  by (simp_all add: config_json_def payment_pin_json_def challenge_json_def challenge_unsigned_fields_def
      authorization_json_def receipt_json_def attempt_json_def attempt_request_fields_def)

end
