(* ===== verification/Payment_Validation.thy ===== *)
theory Payment_Validation
  imports Payment_Types
begin

text \<open>
  packages/payment-gateway/src/validation.ts and events.ts: what the payment boundary checks of a
  seller configuration, a payment pin, a 402 challenge, an authorization, a relay request and a
  receipt. An argument of type \<open>unknown\<close> is given as a record; an object of another shape fails the
  schema.
\<close>

text \<open>\<open>safeParse\<close>: only the failure of the schema becomes an error of the package.\<close>

definition safeParse :: "payment_code \<Rightarrow> payment_exn + 'a \<Rightarrow> payment_exn + 'a" where
  "safeParse c m = (case m of Inl PaymentSchemaError \<Rightarrow> Inl (payment_error c) | _ \<Rightarrow> m)"

definition assertValidatedPaymentAuthorization :: "authorization \<Rightarrow> payment_exn + unit" where
  "assertValidatedPaymentAuthorization a =
     (if \<not> pa_validated a then Inl (payment_error P_INVALID_AUTHORIZATION) else Inr ())"

definition assertValidatedRelayRequest :: "relay_request \<Rightarrow> payment_exn + unit" where
  "assertValidatedRelayRequest q =
     (if \<not> rq_validated q then Inl (payment_error P_INVALID_AUTHORIZATION) else Inr ())"

definition pay_parseAtomic :: "string \<Rightarrow> payment_exn + int" where
  "pay_parseAtomic s =
     (if \<not> decimalUintSchema s then Inl (payment_error P_INVALID_AMOUNT)
      else if int (dec_val s) > 2 ^ 256 - 1 then Inl (payment_error P_INVALID_AMOUNT)
      else Inr (int (dec_val s)))"

definition pay_normalizeAddress :: "string \<Rightarrow> payment_exn + string" where
  "pay_normalizeAddress s =
     (case normalizeEvmAddress s of
        Inl _ \<Rightarrow> Inl (payment_error P_INVALID_ADDRESS)
      | Inr a \<Rightarrow> if zero_address a then Inl (payment_error P_INVALID_ADDRESS) else Inr a)"

definition normalizeUrl :: "runtime \<Rightarrow> string \<Rightarrow> payment_exn + string" where
  "normalizeUrl rt s =
     (case parse_url rt s of
        None \<Rightarrow> Inl (payment_error P_INVALID_CHALLENGE)
      | Some u \<Rightarrow> if \<not> is_http u then Inl (payment_error P_INVALID_CHALLENGE) else Inr (url_without_hash u))"

definition sameUrl :: "runtime \<Rightarrow> string \<Rightarrow> string \<Rightarrow> payment_exn + bool" where
  "sameUrl rt l r = bindE (normalizeUrl rt l) (\<lambda>a. bindE (normalizeUrl rt r) (\<lambda>b. Inr (a = b)))"

definition assertSecretReference :: "string option \<Rightarrow> payment_exn + unit" where
  "assertSecretReference v = (case v of
       None \<Rightarrow> Inl (payment_error P_INVALID_SECRET_REFERENCE)
     | Some s \<Rightarrow> if \<not> secretReferenceSchema s then Inl (payment_error P_INVALID_SECRET_REFERENCE) else Inr ())"

text \<open>The walk and the forbidden names are those of the commerce package.\<close>

definition pay_assertPublicPayloadSafe :: "js_value \<Rightarrow> payment_exn + unit" where
  "pay_assertPublicPayloadSafe v =
     (case assertPublicPayloadSafe v of Inl _ \<Rightarrow> Inl (payment_error P_INVALID_CHALLENGE) | Inr u \<Rightarrow> Inr u)"

section \<open>Configuration and pin\<close>

text \<open>\<open>Number(price) > 0\<close> of a decimal price.\<close>

definition price_positive :: "string \<Rightarrow> bool" where
  "price_positive s \<longleftrightarrow> list_ex (\<lambda>c. is_digit c \<and> c \<noteq> CHR ''0'') s"

text \<open>A check: an error with this code unless the condition holds.\<close>

definition require :: "bool \<Rightarrow> payment_code \<Rightarrow> payment_exn + unit" where
  "require b c = (if b then Inr () else Inl (payment_error c))"

lemma require_Inr [simp, result_simps]: "require b c = Inr u \<longleftrightarrow> b"
  by (auto simp: require_def)

definition config_ready :: "seller_config \<Rightarrow> payment_exn + unit" where
  "config_ready c =
     (if \<not> sc_enabled c then Inr ()
      else if sc_canaryStatus c \<noteq> CanaryPassed then Inl (PaymentError P_B402_NOT_READY False ''run_paid_canary'')
      else bindE (require (sc_payoutVerificationState c = PayoutVerified) P_PAYOUT_MISMATCH) (\<lambda>_.
        bindE (assertSecretReference (sc_merchantCredentialReference c)) (\<lambda>_.
        bindE (assertSecretReference (sc_relayAuthenticationReference c)) (\<lambda>_.
        require (price_positive (sc_priceUsd c)) P_INVALID_AMOUNT))))"

definition validateSellerConfiguration :: "runtime \<Rightarrow> seller_config \<Rightarrow> payment_exn + seller_config" where
  "validateSellerConfiguration rt input =
     bindE (safeParse P_INVALID_PAYMENT_CONFIG (b402SellerConfigurationSchema rt input)) (\<lambda>config.
     bindE (config_ready config) (\<lambda>_.
     bindE (pay_normalizeAddress (sc_settlementAsset config)) (\<lambda>a.
     bindE (pay_normalizeAddress (sc_payoutAddress config)) (\<lambda>p.
     bindE (normalizeUrl rt (sc_facilitatorEndpoint config)) (\<lambda>f.
     bindE (normalizeUrl rt (sc_publicX402Url config)) (\<lambda>u.
     Inr (config\<lparr>sc_settlementAsset := a, sc_payoutAddress := p, sc_facilitatorEndpoint := f,
                  sc_publicX402Url := u\<rparr>)))))))"

definition parseEnabledSellerConfiguration :: "runtime \<Rightarrow> seller_config \<Rightarrow> payment_exn + seller_config" where
  "parseEnabledSellerConfiguration rt input =
     bindE (validateSellerConfiguration rt input) (\<lambda>config.
     if \<not> sc_enabled config then Inl (PaymentError P_PAYMENT_DISABLED False ''verify_standards_lock'')
     else Inr config)"

definition validatePaymentPin :: "runtime \<Rightarrow> payment_pin \<Rightarrow> payment_exn + payment_pin" where
  "validatePaymentPin rt input =
     bindE (safeParse P_INVALID_PAYMENT_CONFIG (b402PaymentPinSchema rt input)) (\<lambda>pin.
     bindE (pay_parseAtomic (pp_amountAtomic pin)) (\<lambda>_.
     bindE (pay_normalizeAddress (pp_settlementAsset pin)) (\<lambda>a.
     bindE (pay_normalizeAddress (pp_recipient pin)) (\<lambda>r.
     bindE (pay_normalizeAddress (pp_payoutAddress pin)) (\<lambda>p.
     bindE (normalizeUrl rt (pp_destination pin)) (\<lambda>d.
     bindE (normalizeUrl rt (pp_facilitatorEndpoint pin)) (\<lambda>f.
     Inr (pin\<lparr>pp_settlementAsset := a, pp_recipient := r, pp_payoutAddress := p, pp_destination := d,
               pp_facilitatorEndpoint := f\<rparr>))))))))"

text \<open>Two addresses, or two URLs, have to be normalised to the same text.\<close>

definition pay_same_address :: "string \<Rightarrow> string \<Rightarrow> payment_code \<Rightarrow> payment_exn + unit" where
  "pay_same_address l r c =
     bindE (pay_normalizeAddress l) (\<lambda>a. bindE (pay_normalizeAddress r) (\<lambda>b. require (a = b) c))"

definition require_same_url :: "runtime \<Rightarrow> string \<Rightarrow> string \<Rightarrow> payment_code \<Rightarrow> payment_exn + unit" where
  "require_same_url rt l r c = bindE (sameUrl rt l r) (\<lambda>same. require same c)"

definition pin_matches_config :: "runtime \<Rightarrow> payment_pin \<Rightarrow> seller_config \<Rightarrow> payment_exn + unit" where
  "pin_matches_config rt pin c =
     bindE (require (pp_settlementNetwork pin = sc_settlementNetwork c) P_NETWORK_MISMATCH) (\<lambda>_.
     bindE (pay_same_address (pp_settlementAsset pin) (sc_settlementAsset c) P_ASSET_MISMATCH) (\<lambda>_.
     bindE (require (pp_settlementDecimals pin = sc_settlementDecimals c) P_DECIMALS_MISMATCH) (\<lambda>_.
     bindE (require (pp_configurationVersion pin = sc_configurationVersion c) P_INVALID_PAYMENT_CONFIG) (\<lambda>_.
     bindE (b402SellerConfigurationDigest rt c) (\<lambda>d.
     bindE (require (pp_configurationDigest pin = d) P_INVALID_PAYMENT_CONFIG) (\<lambda>_.
     bindE (require (pp_fixedEgressProfile pin = sc_fixedEgressProfile c) P_EGRESS_PROFILE_MISMATCH) (\<lambda>_.
     bindE (pay_same_address (pp_payoutAddress pin) (sc_payoutAddress c) P_PAYOUT_MISMATCH) (\<lambda>_.
     bindE (require (pp_payoutVerificationState pin = sc_payoutVerificationState c
                     \<and> sc_payoutVerificationState c = PayoutVerified) P_PAYOUT_MISMATCH) (\<lambda>_.
     bindE (require_same_url rt (pp_destination pin) (sc_publicX402Url c) P_DESTINATION_MISMATCH) (\<lambda>_.
     require_same_url rt (pp_facilitatorEndpoint pin) (sc_facilitatorEndpoint c) P_FACILITATOR_MISMATCH))))))))))"

definition validatePaymentPinAgainstSellerConfiguration ::
    "runtime \<Rightarrow> payment_pin \<Rightarrow> seller_config \<Rightarrow> payment_exn + payment_pin \<times> seller_config" where
  "validatePaymentPinAgainstSellerConfiguration rt pinInput configurationInput =
     bindE (parseEnabledSellerConfiguration rt configurationInput) (\<lambda>configuration.
     bindE (validatePaymentPin rt pinInput) (\<lambda>pin.
     bindE (pin_matches_config rt pin configuration) (\<lambda>_. Inr (pin, configuration))))"

section \<open>Challenges\<close>

text \<open>\<open>BigInt\<close> of two decimal strings.\<close>

definition same_amount :: "string \<Rightarrow> string \<Rightarrow> bool" where
  "same_amount x y \<longleftrightarrow> dec_val x = dec_val y"

definition assertChallengeTerms :: "runtime \<Rightarrow> challenge \<Rightarrow> payment_pin \<Rightarrow> int \<Rightarrow> payment_exn + unit" where
  "assertChallengeTerms rt c pin now =
     bindE (require (pc_rail c = pp_rail pin) P_INVALID_CHALLENGE) (\<lambda>_.
     bindE (require (pc_settlementNetwork c = pp_settlementNetwork pin) P_NETWORK_MISMATCH) (\<lambda>_.
     bindE (pay_same_address (pc_settlementAsset c) (pp_settlementAsset pin) P_ASSET_MISMATCH) (\<lambda>_.
     bindE (require (pc_settlementDecimals c = pp_settlementDecimals pin) P_DECIMALS_MISMATCH) (\<lambda>_.
     bindE (require (same_amount (pc_amountAtomic c) (pp_amountAtomic pin)) P_AMOUNT_MISMATCH) (\<lambda>_.
     bindE (pay_same_address (pc_recipient c) (pp_recipient pin) P_RECIPIENT_MISMATCH) (\<lambda>_.
     bindE (require (pc_method c = pp_method pin) P_METHOD_MISMATCH) (\<lambda>_.
     bindE (require_same_url rt (pc_destination c) (pp_destination pin) P_DESTINATION_MISMATCH) (\<lambda>_.
     bindE (require_same_url rt (pc_facilitatorEndpoint c) (pp_facilitatorEndpoint pin) P_FACILITATOR_MISMATCH) (\<lambda>_.
     bindE (require (isSafeInteger now \<and> 0 < now \<and> now < pc_expiresAtUnix c) P_CHALLENGE_EXPIRED) (\<lambda>_.
     bindE (require (pc_expiresAtUnix c \<le> now + pp_maxChallengeLifetimeSeconds pin
                     \<and> pc_issuedAtUnix c < pc_expiresAtUnix c) P_INVALID_EXPIRY) (\<lambda>_.
     require (pc_issuedAtUnix c \<le> now + 60) P_INVALID_EXPIRY)))))))))))"

definition validateChallenge :: "runtime \<Rightarrow> challenge \<Rightarrow> payment_pin \<Rightarrow> int \<Rightarrow> payment_exn + challenge" where
  "validateChallenge rt input pinInput now =
     bindE (safeParse P_INVALID_CHALLENGE (paymentChallengeSchema rt input)) (\<lambda>c.
     bindE (validatePaymentPin rt pinInput) (\<lambda>pin.
     bindE (pay_parseAtomic (pc_amountAtomic c)) (\<lambda>_.
     bindE (challengeUnsignedDigest rt c) (\<lambda>d.
     bindE (require (d = pc_challengeDigest c) P_CHALLENGE_TAMPERED) (\<lambda>_.
     bindE (assertChallengeTerms rt c pin now) (\<lambda>_.
     bindE (pay_normalizeAddress (pc_settlementAsset c)) (\<lambda>a.
     bindE (pay_normalizeAddress (pc_recipient c)) (\<lambda>r.
     bindE (normalizeUrl rt (pc_destination c)) (\<lambda>u.
     bindE (normalizeUrl rt (pc_facilitatorEndpoint c)) (\<lambda>f.
     Inr (c\<lparr>pc_settlementAsset := a, pc_recipient := r, pc_destination := u,
             pc_facilitatorEndpoint := f\<rparr>)))))))))))"

section \<open>Authorizations and relay requests\<close>

definition validateAuthorization ::
    "runtime \<Rightarrow> authorization \<Rightarrow> challenge \<Rightarrow> payment_pin \<Rightarrow> int \<Rightarrow> payment_exn + authorization" where
  "validateAuthorization rt input challengeInput pinInput now =
     bindE (safeParse P_INVALID_AUTHORIZATION (paymentAuthorizationSchema rt input)) (\<lambda>a.
     bindE (validateChallenge rt challengeInput pinInput now) (\<lambda>c.
     bindE (require (pa_challengeId a = pc_challengeId c \<and> pa_challengeDigest a = pc_challengeDigest c)
              P_CHALLENGE_TAMPERED) (\<lambda>_.
     bindE (require (pc_issuedAtUnix c \<le> pa_authorizedAtUnix a \<and> pa_authorizedAtUnix a \<le> pc_expiresAtUnix c
                     \<and> 0 < pa_authorizedAtUnix a) P_INVALID_EXPIRY) (\<lambda>_.
     bindE (pay_normalizeAddress (pa_payerAddress a)) (\<lambda>p.
     Inr (a\<lparr>pa_payerAddress := p, pa_credentialDigest := js_lower (pa_credentialDigest a),
             pa_validated := True\<rparr>))))))"

definition validateRelayRequest ::
    "runtime \<Rightarrow> relay_request \<Rightarrow> string \<Rightarrow> authorization \<Rightarrow> payment_pin \<Rightarrow> challenge \<Rightarrow> int \<Rightarrow> payment_exn + relay_request" where
  "validateRelayRequest rt input attemptId a pinInput challengeInput now =
     bindE (assertValidatedPaymentAuthorization a) (\<lambda>_.
     bindE (safeParse P_INVALID_AUTHORIZATION (relayRequestSchema rt input)) (\<lambda>q.
     bindE (validatePaymentPin rt pinInput) (\<lambda>pin.
     bindE (validateChallenge rt challengeInput pin now) (\<lambda>c.
     bindE (require (pa_challengeId a = pc_challengeId c \<and> pa_challengeDigest a = pc_challengeDigest c)
              P_CHALLENGE_TAMPERED) (\<lambda>_.
     bindE (require (pa_attemptId a = attemptId \<and> rq_attemptId q = attemptId) P_INVALID_AUTHORIZATION) (\<lambda>_.
     bindE (paymentAuthorizationDigest rt a) (\<lambda>d.
     bindE (require (rq_authorizationDigest q = d) P_INVALID_AUTHORIZATION) (\<lambda>_.
     bindE (require (rq_requestId q = pp_requestId pin) P_REQUEST_MISMATCH) (\<lambda>_.
     bindE (require (rq_fixedEgressProfile q = pp_fixedEgressProfile pin) P_EGRESS_PROFILE_MISMATCH) (\<lambda>_.
     bindE (pay_assertPublicPayloadSafe (rq_requestBody q)) (\<lambda>_.
     bindE (pay_js (digest_of rt (rq_requestBody q))) (\<lambda>b.
     bindE (require (b = rq_requestDigest q) P_INVALID_AUTHORIZATION) (\<lambda>_.
     bindE (require (rq_method q = pp_method pin) P_METHOD_MISMATCH) (\<lambda>_.
     bindE (require_same_url rt (rq_destination q) (pp_destination pin) P_DESTINATION_MISMATCH) (\<lambda>_.
     bindE (normalizeUrl rt (rq_destination q)) (\<lambda>u.
     Inr (q\<lparr>rq_destination := u, rq_validated := True\<rparr>)))))))))))))))))"

section \<open>Receipts\<close>

text \<open>What a receipt with status settled has to show besides.\<close>

definition settled_evidence :: "receipt \<Rightarrow> payment_pin \<Rightarrow> payment_exn + unit" where
  "settled_evidence r pin =
     (if pr_status r \<noteq> ReceiptSettled then Inr () else
      bindE (require (pr_paymentTransactionHash r \<noteq> None \<or> pr_settlementTransactionHash r \<noteq> None)
               P_SETTLEMENT_UNVERIFIED) (\<lambda>_.
      case (pr_actualRecipient r, pr_payoutAddress r) of
        (Some _, Some p) \<Rightarrow>
          bindE (require (pr_payoutVerified r) P_PAYOUT_MISMATCH) (\<lambda>_.
          bindE (pay_same_address p (pp_payoutAddress pin) P_PAYOUT_MISMATCH) (\<lambda>_.
          require (pr_settledAtUnix r \<noteq> None) P_SETTLEMENT_UNVERIFIED))
      | _ \<Rightarrow> Inl (payment_error P_PAYOUT_MISMATCH)))"

definition actual_recipient_ok :: "receipt \<Rightarrow> payment_pin \<Rightarrow> payment_exn + string option" where
  "actual_recipient_ok r pin = (case pr_actualRecipient r of
       None \<Rightarrow> Inr None
     | Some a \<Rightarrow> bindE (pay_same_address a (pp_recipient pin) P_RECIPIENT_MISMATCH) (\<lambda>_.
                 bindE (pay_normalizeAddress a) (\<lambda>n. Inr (Some n))))"

definition validateReceipt :: "runtime \<Rightarrow> receipt \<Rightarrow> payment_pin \<Rightarrow> string \<Rightarrow> string \<Rightarrow> payment_exn + receipt" where
  "validateReceipt rt input pinInput attemptId challengeId =
     bindE (safeParse P_INVALID_CHALLENGE (paymentReceiptSchema rt input)) (\<lambda>r.
     bindE (validatePaymentPin rt pinInput) (\<lambda>pin.
     bindE (require (pr_attemptId r = attemptId \<and> pr_challengeId r = challengeId) P_SETTLEMENT_UNVERIFIED) (\<lambda>_.
     bindE (require (pr_rail r = pp_rail pin) P_INVALID_CHALLENGE) (\<lambda>_.
     bindE (require (pr_settlementNetwork r = pp_settlementNetwork pin) P_NETWORK_MISMATCH) (\<lambda>_.
     bindE (pay_same_address (pr_settlementAsset r) (pp_settlementAsset pin) P_ASSET_MISMATCH) (\<lambda>_.
     bindE (require (pr_settlementDecimals r = pp_settlementDecimals pin
                     \<and> same_amount (pr_amountAtomic r) (pp_amountAtomic pin)) P_AMOUNT_MISMATCH) (\<lambda>_.
     bindE (pay_same_address (pr_expectedRecipient r) (pp_recipient pin) P_RECIPIENT_MISMATCH) (\<lambda>_.
     bindE (actual_recipient_ok r pin) (\<lambda>actual.
     bindE (require (pr_method r = pp_method pin) P_DESTINATION_MISMATCH) (\<lambda>_.
     bindE (require_same_url rt (pr_destination r) (pp_destination pin) P_DESTINATION_MISMATCH) (\<lambda>_.
     bindE (settled_evidence r pin) (\<lambda>_.
     bindE (pay_normalizeAddress (pr_settlementAsset r)) (\<lambda>a.
     bindE (pay_normalizeAddress (pr_expectedRecipient r)) (\<lambda>e.
     bindE (normalizeUrl rt (pr_destination r)) (\<lambda>u.
     Inr (r\<lparr>pr_settlementAsset := a, pr_expectedRecipient := e, pr_actualRecipient := actual,
             pr_destination := u\<rparr>))))))))))))))))"

definition receiptDigest :: "runtime \<Rightarrow> receipt \<Rightarrow> payment_exn + string" where
  "receiptDigest rt r = pay_js (digest_of rt (receipt_json r))"

section \<open>Events\<close>

text \<open>\<open>uuid\<close> is what \<open>randomUUID\<close> returned; \<open>payload\<close> is \<open>JUndefined\<close> when absent.\<close>

record pay_event_input =
  qi_eventKey :: string
  qi_attemptId :: string
  qi_eventType :: payment_event_type
  qi_previousStatus :: "payment_status option"
  qi_nextStatus :: "payment_status option"
  qi_paymentTransactionHash :: "string option"
  qi_settlementTransactionHash :: "string option"
  qi_payload :: js_value
  qi_correlationId :: string
  qi_observedAtUnix :: int

definition createPaymentEvent :: "runtime \<Rightarrow> string \<Rightarrow> pay_event_input \<Rightarrow> payment_exn + payment_event" where
  "createPaymentEvent rt uuid i =
     (let payload = or_empty (qi_payload i) in
      bindE (pay_assertPublicPayloadSafe payload) (\<lambda>_.
      bindE (pay_js (digest_of rt payload)) (\<lambda>d.
      paymentEventSchema rt
        \<lparr>pe_eventId = uuid, pe_eventKey = qi_eventKey i, pe_attemptId = qi_attemptId i,
         pe_eventType = qi_eventType i, pe_previousStatus = qi_previousStatus i,
         pe_nextStatus = qi_nextStatus i, pe_paymentTransactionHash = qi_paymentTransactionHash i,
         pe_settlementTransactionHash = qi_settlementTransactionHash i, pe_payloadDigest = d,
         pe_payload = payload, pe_correlationId = qi_correlationId i,
         pe_observedAtUnix = qi_observedAtUnix i\<rparr>)))"

section \<open>What the checks establish\<close>

lemma pay_normalizeAddress_Inr [simp, result_simps]:
  "pay_normalizeAddress s = Inr a \<longleftrightarrow> nonZeroAddressSchema s \<and> a = js_lower s"
  by (auto simp: pay_normalizeAddress_def normalizeEvmAddress_def nonZeroAddressSchema_def)

interpretation pay_address: normaliser pay_normalizeAddress
  by unfold_locales (auto intro: nonZeroAddressSchema_lower)

lemma pay_same_address_Inr [simp, result_simps]:
  "pay_same_address l r c = Inr u \<longleftrightarrow> nonZeroAddressSchema l \<and> nonZeroAddressSchema r \<and> js_lower l = js_lower r"
  by (auto simp: pay_same_address_def)

lemma require_same_url_Inr [simp, result_simps]:
  "require_same_url rt l r c = Inr u \<longleftrightarrow> (\<exists>n. normalizeUrl rt l = Inr n \<and> normalizeUrl rt r = Inr n)"
  by (auto simp: require_same_url_def sameUrl_def)

lemma safeParse_Inr [simp, result_simps]: "safeParse c m = Inr x \<longleftrightarrow> m = Inr x"
  by (auto simp: safeParse_def split: sum.splits payment_exn.splits)

lemma url_fields_Inr [simp, result_simps]:
  "url_fields rt us ok x = Inr y \<longleftrightarrow> ok \<and> list_all (httpUrlSchema rt) us \<and> y = x"
  by (auto simp: url_fields_def httpUrlSchema_def list_all_iff split: option.splits)

lemma pay_parseAtomic_Inr [simp, result_simps]:
  "pay_parseAtomic s = Inr n \<longleftrightarrow> is_decimal s \<and> n = int (dec_val s) \<and> n \<le> maxUint256"
  by (auto simp: pay_parseAtomic_def decimalUintSchema_def maxUint256_def)

lemma normalizeUrl_schema: "normalizeUrl rt s = Inr u \<Longrightarrow> httpUrlSchema rt s"
  "httpUrlSchema rt s \<Longrightarrow> \<exists>u. normalizeUrl rt s = Inr u \<and> normalizeHttpUrl rt s = Inr u"
  by (auto simp: normalizeUrl_def httpUrlSchema_def normalizeHttpUrl_def split: option.splits if_splits)

text \<open>
  What the URL parser of the platform promises: the text of a parsed URL without its fragment is parsed
  again to a URL of the same kind with the same text.
\<close>

definition url_parser :: "runtime \<Rightarrow> bool" where
  "url_parser rt \<longleftrightarrow> (\<forall>s u. parse_url rt s = Some u \<longrightarrow> is_http u \<longrightarrow>
     (\<exists>v. parse_url rt (url_without_hash u) = Some v \<and> is_http v \<and> url_without_hash v = url_without_hash u))"

lemma normalizeUrl_idem:
  assumes "url_parser rt" "normalizeUrl rt s = Inr u"
  shows "normalizeUrl rt u = Inr u"
proof -
  from assms(2) obtain p where p: "parse_url rt s = Some p" "is_http p" "u = url_without_hash p"
    by (auto simp: normalizeUrl_def split: option.splits if_splits)
  with assms(1) obtain q where "parse_url rt u = Some q" "is_http q" "url_without_hash q = u"
    unfolding url_parser_def by blast
  then show ?thesis by (simp add: normalizeUrl_def)
qed

lemma identifier_trim [simp]: "safeIdentifierSchema (js_trim s) = safeIdentifierSchema s"
  "secretReferenceSchema (js_trim s) = secretReferenceSchema s"
  "paymentChallengeNonceSchema (js_trim s) = paymentChallengeNonceSchema s"
  by (simp_all add: safeIdentifierSchema_def secretReferenceSchema_def paymentChallengeNonceSchema_def)

lemma nullable_map [simp]: "nullable p (map_option f x) = nullable (\<lambda>y. p (f y)) x"
  by (cases x) simp_all

lemma trim_payment_pin_idem [simp]:
  "trim_payment_pin (trim_payment_pin p) = trim_payment_pin p" "payment_pin_fields (trim_payment_pin p) = payment_pin_fields p"
  by (simp_all add: trim_payment_pin_def payment_pin_fields_def)

lemma trim_challenge_idem [simp]:
  "trim_challenge (trim_challenge c) = trim_challenge c" "challenge_fields (trim_challenge c) = challenge_fields c"
  by (simp_all add: trim_challenge_def challenge_fields_def)

text \<open>A validated pin is the pin with its strings trimmed, its addresses in lower case and its URLs normalised.\<close>

definition normal_pin :: "runtime \<Rightarrow> payment_pin \<Rightarrow> payment_pin \<Rightarrow> bool" where
  "normal_pin rt p q \<longleftrightarrow> payment_pin_fields p \<and> int (dec_val (pp_amountAtomic p)) \<le> maxUint256
     \<and> normalizeUrl rt (pp_destination p) = Inr (pp_destination q)
     \<and> normalizeUrl rt (pp_facilitatorEndpoint p) = Inr (pp_facilitatorEndpoint q)
     \<and> q = (trim_payment_pin p)\<lparr>pp_settlementAsset := js_lower (pp_settlementAsset p),
          pp_recipient := js_lower (pp_recipient p), pp_payoutAddress := js_lower (pp_payoutAddress p),
          pp_destination := pp_destination q, pp_facilitatorEndpoint := pp_facilitatorEndpoint q\<rparr>"

lemma validatePaymentPin_Inr: "validatePaymentPin rt p = Inr q \<longleftrightarrow> normal_pin rt p q"
proof -
  have t: "pp_amountAtomic (trim_payment_pin p) = pp_amountAtomic p" "pp_settlementAsset (trim_payment_pin p) = pp_settlementAsset p"
    "pp_recipient (trim_payment_pin p) = pp_recipient p" "pp_payoutAddress (trim_payment_pin p) = pp_payoutAddress p"
    "pp_destination (trim_payment_pin p) = pp_destination p"
    "pp_facilitatorEndpoint (trim_payment_pin p) = pp_facilitatorEndpoint p"
    by (simp_all add: trim_payment_pin_def)
  have d: "payment_pin_fields p \<Longrightarrow> is_decimal (pp_amountAtomic p)"
    by (simp add: payment_pin_fields_def positiveDecimalUintSchema_def decimalUintSchema_def)
  show ?thesis
    by (auto simp: validatePaymentPin_def b402PaymentPinSchema_def normal_pin_def t d normalizeUrl_schema(1))
      (auto simp: payment_pin_fields_def)
qed

lemma normal_pin_fields:
  assumes "normal_pin rt p q"
  shows "payment_pin_fields q" "pp_settlementNetwork q = pp_settlementNetwork p" "pp_settlementDecimals q = pp_settlementDecimals p"
    "pp_settlementAsset q = js_lower (pp_settlementAsset p)" "pp_recipient q = js_lower (pp_recipient p)"
    "pp_payoutAddress q = js_lower (pp_payoutAddress p)" "pp_amountAtomic q = pp_amountAtomic p"
    "pp_method q = pp_method p" "pp_requestId q = js_trim (pp_requestId p)"
    "pp_fixedEgressProfile q = js_trim (pp_fixedEgressProfile p)"
    "pp_maxChallengeLifetimeSeconds q = pp_maxChallengeLifetimeSeconds p"
proof -
  from assms have q: "q = (trim_payment_pin p)\<lparr>pp_settlementAsset := js_lower (pp_settlementAsset p),
          pp_recipient := js_lower (pp_recipient p), pp_payoutAddress := js_lower (pp_payoutAddress p),
          pp_destination := pp_destination q, pp_facilitatorEndpoint := pp_facilitatorEndpoint q\<rparr>"
    and f: "payment_pin_fields p" by (simp_all add: normal_pin_def)
  show "payment_pin_fields q"
    using f by (subst q) (auto simp: payment_pin_fields_def trim_payment_pin_def intro: nonZeroAddressSchema_lower)
  show "pp_settlementNetwork q = pp_settlementNetwork p" by (subst q) (simp add: trim_payment_pin_def)
  show "pp_settlementDecimals q = pp_settlementDecimals p" by (subst q) (simp add: trim_payment_pin_def)
  show "pp_settlementAsset q = js_lower (pp_settlementAsset p)" by (subst q) simp
  show "pp_recipient q = js_lower (pp_recipient p)" by (subst q) simp
  show "pp_payoutAddress q = js_lower (pp_payoutAddress p)" by (subst q) simp
  show "pp_amountAtomic q = pp_amountAtomic p" by (subst q) (simp add: trim_payment_pin_def)
  show "pp_method q = pp_method p" by (subst q) (simp add: trim_payment_pin_def)
  show "pp_requestId q = js_trim (pp_requestId p)" by (subst q) (simp add: trim_payment_pin_def)
  show "pp_fixedEgressProfile q = js_trim (pp_fixedEgressProfile p)" by (subst q) (simp add: trim_payment_pin_def)
  show "pp_maxChallengeLifetimeSeconds q = pp_maxChallengeLifetimeSeconds p" by (subst q) (simp add: trim_payment_pin_def)
qed

lemma normal_pin_idem:
  assumes "url_parser rt" "normal_pin rt p q"
  shows "normal_pin rt q q"
proof -
  have u: "normalizeUrl rt (pp_destination q) = Inr (pp_destination q)"
    "normalizeUrl rt (pp_facilitatorEndpoint q) = Inr (pp_facilitatorEndpoint q)"
    using assms(2) normalizeUrl_idem [OF assms(1)] by (auto simp: normal_pin_def)
  note f = normal_pin_fields [OF assms(2)]
  have "js_trim (pp_requestId q) = pp_requestId q" "js_trim (pp_fixedEgressProfile q) = pp_fixedEgressProfile q"
    by (simp_all add: f)
  moreover have "int (dec_val (pp_amountAtomic q)) \<le> maxUint256" using assms(2) by (simp add: f normal_pin_def)
  ultimately show ?thesis
    using u f by (simp add: normal_pin_def trim_payment_pin_def)
qed

lemma pin_normaliser: "url_parser rt \<Longrightarrow> normaliser (validatePaymentPin rt)"
  by unfold_locales (auto simp: validatePaymentPin_Inr intro: normal_pin_idem)

text \<open>What an accepted challenge satisfies; \<open>c\<close> as given, \<open>q\<close> the validated pin.\<close>

definition challenge_terms :: "runtime \<Rightarrow> challenge \<Rightarrow> payment_pin \<Rightarrow> int \<Rightarrow> bool" where
  "challenge_terms rt c q now \<longleftrightarrow> pc_settlementNetwork c = pp_settlementNetwork q
     \<and> js_lower (pc_settlementAsset c) = js_lower (pp_settlementAsset q)
     \<and> pc_settlementDecimals c = pp_settlementDecimals q
     \<and> dec_val (pc_amountAtomic c) = dec_val (pp_amountAtomic q)
     \<and> js_lower (pc_recipient c) = js_lower (pp_recipient q) \<and> pc_method c = pp_method q
     \<and> (\<exists>n. normalizeUrl rt (pc_destination c) = Inr n \<and> normalizeUrl rt (pp_destination q) = Inr n)
     \<and> (\<exists>n. normalizeUrl rt (pc_facilitatorEndpoint c) = Inr n \<and> normalizeUrl rt (pp_facilitatorEndpoint q) = Inr n)
     \<and> isSafeInteger now \<and> 0 < now \<and> now < pc_expiresAtUnix c
     \<and> pc_expiresAtUnix c \<le> now + pp_maxChallengeLifetimeSeconds q
     \<and> pc_issuedAtUnix c < pc_expiresAtUnix c \<and> pc_issuedAtUnix c \<le> now + 60"

lemma assertChallengeTerms_Inr:
  "assertChallengeTerms rt c q now = Inr u \<longleftrightarrow> challenge_terms rt c q now
     \<and> nonZeroAddressSchema (pc_settlementAsset c) \<and> nonZeroAddressSchema (pp_settlementAsset q)
     \<and> nonZeroAddressSchema (pc_recipient c) \<and> nonZeroAddressSchema (pp_recipient q)"
  by (auto simp: assertChallengeTerms_def challenge_terms_def same_amount_def)

lemma trim_challenge_fields [simp]:
  "pc_settlementNetwork (trim_challenge c) = pc_settlementNetwork c" "pc_settlementAsset (trim_challenge c) = pc_settlementAsset c"
  "pc_settlementDecimals (trim_challenge c) = pc_settlementDecimals c" "pc_amountAtomic (trim_challenge c) = pc_amountAtomic c"
  "pc_recipient (trim_challenge c) = pc_recipient c" "pc_method (trim_challenge c) = pc_method c"
  "pc_destination (trim_challenge c) = pc_destination c" "pc_facilitatorEndpoint (trim_challenge c) = pc_facilitatorEndpoint c"
  "pc_issuedAtUnix (trim_challenge c) = pc_issuedAtUnix c" "pc_expiresAtUnix (trim_challenge c) = pc_expiresAtUnix c"
  "pc_challengeDigest (trim_challenge c) = pc_challengeDigest c" "pc_rail (trim_challenge c) = pc_rail c"
  "pc_challengeId (trim_challenge c) = js_trim (pc_challengeId c)"
  by (simp_all add: trim_challenge_def)

definition normal_challenge :: "runtime \<Rightarrow> challenge \<Rightarrow> challenge \<Rightarrow> bool" where
  "normal_challenge rt c d \<longleftrightarrow> normalizeUrl rt (pc_destination c) = Inr (pc_destination d)
     \<and> normalizeUrl rt (pc_facilitatorEndpoint c) = Inr (pc_facilitatorEndpoint d)
     \<and> d = (trim_challenge c)\<lparr>pc_settlementAsset := js_lower (pc_settlementAsset c),
          pc_recipient := js_lower (pc_recipient c), pc_destination := pc_destination d,
          pc_facilitatorEndpoint := pc_facilitatorEndpoint d\<rparr>"

lemma challenge_terms_trim [simp]: "challenge_terms rt (trim_challenge c) q now = challenge_terms rt c q now"
  by (simp add: challenge_terms_def)

lemma validateChallenge_Inr:
  "validateChallenge rt c p now = Inr d \<longleftrightarrow> (\<exists>q. normal_pin rt p q \<and> challenge_fields c
     \<and> int (dec_val (pc_amountAtomic c)) \<le> maxUint256
     \<and> challengeUnsignedDigest rt (trim_challenge c) = Inr (pc_challengeDigest c)
     \<and> challenge_terms rt c q now) \<and> normal_challenge rt c d"
proof -
  have f: "challenge_fields c \<Longrightarrow> is_decimal (pc_amountAtomic c) \<and> nonZeroAddressSchema (pc_settlementAsset c)
     \<and> nonZeroAddressSchema (pc_recipient c)"
    by (simp add: challenge_fields_def positiveDecimalUintSchema_def decimalUintSchema_def)
  have q: "normal_pin rt p q \<Longrightarrow> nonZeroAddressSchema (pp_settlementAsset q) \<and> nonZeroAddressSchema (pp_recipient q)" for q
    using normal_pin_fields(1) [of rt p q] by (simp add: payment_pin_fields_def)
  show ?thesis
    unfolding validateChallenge_def paymentChallengeSchema_def
    by (auto simp: validatePaymentPin_Inr assertChallengeTerms_Inr normal_challenge_def f normalizeUrl_schema(1)
        dest: q)
qed

lemma normal_challenge_unique:
  assumes "normal_challenge rt c d" "normal_challenge rt c e"
  shows "d = e"
proof -
  have "pc_destination d = pc_destination e" "pc_facilitatorEndpoint d = pc_facilitatorEndpoint e"
    using assms by (simp_all add: normal_challenge_def)
  with assms show ?thesis unfolding normal_challenge_def by metis
qed

lemma normal_challenge_fields:
  assumes "normal_challenge rt c d"
  shows "pc_challengeId d = js_trim (pc_challengeId c)" "pc_challengeDigest d = pc_challengeDigest c"
    "pc_issuedAtUnix d = pc_issuedAtUnix c" "pc_expiresAtUnix d = pc_expiresAtUnix c"
    "pc_settlementNetwork d = pc_settlementNetwork c" "pc_settlementDecimals d = pc_settlementDecimals c"
    "pc_amountAtomic d = pc_amountAtomic c" "pc_method d = pc_method c"
    "pc_settlementAsset d = js_lower (pc_settlementAsset c)" "pc_recipient d = js_lower (pc_recipient c)"
proof -
  from assms have d: "d = (trim_challenge c)\<lparr>pc_settlementAsset := js_lower (pc_settlementAsset c),
          pc_recipient := js_lower (pc_recipient c), pc_destination := pc_destination d,
          pc_facilitatorEndpoint := pc_facilitatorEndpoint d\<rparr>"
    by (simp add: normal_challenge_def)
  show "pc_challengeId d = js_trim (pc_challengeId c)" by (subst d) simp
  show "pc_challengeDigest d = pc_challengeDigest c" by (subst d) simp
  show "pc_issuedAtUnix d = pc_issuedAtUnix c" by (subst d) simp
  show "pc_expiresAtUnix d = pc_expiresAtUnix c" by (subst d) simp
  show "pc_settlementNetwork d = pc_settlementNetwork c" by (subst d) simp
  show "pc_settlementDecimals d = pc_settlementDecimals c" by (subst d) simp
  show "pc_amountAtomic d = pc_amountAtomic c" by (subst d) simp
  show "pc_method d = pc_method c" by (subst d) simp
  show "pc_settlementAsset d = js_lower (pc_settlementAsset c)" by (subst d) simp
  show "pc_recipient d = js_lower (pc_recipient c)" by (subst d) simp
qed

lemma normal_challenge_trim: "normal_challenge rt c d \<Longrightarrow> trim_challenge d = d"
proof -
  have t: "trim_challenge ((trim_challenge c)\<lparr>pc_settlementAsset := a, pc_recipient := r, pc_destination := u,
      pc_facilitatorEndpoint := f\<rparr>) = (trim_challenge c)\<lparr>pc_settlementAsset := a, pc_recipient := r, pc_destination := u,
      pc_facilitatorEndpoint := f\<rparr>" for a r u f
    by (simp add: trim_challenge_def)
  assume "normal_challenge rt c d"
  then have "d = (trim_challenge c)\<lparr>pc_settlementAsset := js_lower (pc_settlementAsset c),
          pc_recipient := js_lower (pc_recipient c), pc_destination := pc_destination d,
          pc_facilitatorEndpoint := pc_facilitatorEndpoint d\<rparr>" by (simp add: normal_challenge_def)
  with t show ?thesis by metis
qed

text \<open>
  A validated challenge keeps the digest of the challenge as issued. It is accepted again only when
  that challenge was in normal form already.
\<close>

lemma revalidated_challenge:
  assumes "validateChallenge rt c p now = Inr d" "validateChallenge rt d p' now' = Inr e"
    and "no_collision rt (JObject (challenge_unsigned_fields (trim_challenge c))) (JObject (challenge_unsigned_fields d))"
  shows "d = trim_challenge c"
proof -
  have c: "challengeUnsignedDigest rt (trim_challenge c) = Inr (pc_challengeDigest c)" and n: "normal_challenge rt c d"
    using assms(1) by (auto simp: validateChallenge_Inr)
  have td: "trim_challenge d = d"
    using normal_challenge_trim [OF n] .
  have d: "challengeUnsignedDigest rt d = Inr (pc_challengeDigest c)"
    using assms(2) td normal_challenge_fields(2) [OF n] by (auto simp: validateChallenge_Inr)
  have "json_norm (JObject (challenge_unsigned_fields (trim_challenge c))) = json_norm (JObject (challenge_unsigned_fields d))"
    by (rule digest_of_eq_norm [OF _ _ assms(3)]) (use c d in \<open>simp_all add: challengeUnsignedDigest_def\<close>)
  then have "trim_challenge c = d\<lparr>pc_challengeDigest := pc_challengeDigest (trim_challenge c)\<rparr>"
    by (simp only: json_eq)
  moreover have "d\<lparr>pc_challengeDigest := pc_challengeDigest (trim_challenge c)\<rparr> = d"
    using normal_challenge_fields(2) [OF n] by (simp add: challenge.equality)
  ultimately show ?thesis by simp
qed

end
