(* ===== verification/Payment_Lifecycle.thy ===== *)
theory Payment_Lifecycle
  imports Payment_Validation Status_Machine
begin

text \<open>
  packages/payment-gateway/src/lifecycle.ts: the status machine of a payment attempt, the checks of one
  transition and the attempt and event it produces.
\<close>

section \<open>Transitions\<close>

fun allowedPaymentTransitions :: "payment_status \<Rightarrow> payment_status list" where
  "allowedPaymentTransitions Challenged = [Authorized, PayRejected, PayExpired]"
| "allowedPaymentTransitions Authorized = [RelayPending, PayRejected, PayExpired]"
| "allowedPaymentTransitions RelayPending = [Relayed, PayUnknown, PartialFailure]"
| "allowedPaymentTransitions Relayed = [SettlementPending, PayUnknown, PartialFailure]"
| "allowedPaymentTransitions SettlementPending = [Settled, PayUnknown, PartialFailure]"
| "allowedPaymentTransitions Settled = [Delivered, PartialFailure]"
| "allowedPaymentTransitions Delivered = []"
| "allowedPaymentTransitions PayRejected = []"
| "allowedPaymentTransitions PayExpired = []"
| "allowedPaymentTransitions PayUnknown = [SettlementPending, PayManualReview]"
| "allowedPaymentTransitions PartialFailure = [SettlementPending, PayManualReview]"
| "allowedPaymentTransitions PayManualReview = []"

definition canTransitionPayment :: "payment_status \<Rightarrow> payment_status \<Rightarrow> bool" where
  "canTransitionPayment s t \<longleftrightarrow> s = t \<or> t \<in> set (allowedPaymentTransitions s)"

fun paymentEventTypeFor :: "payment_status \<Rightarrow> payment_event_type" where
  "paymentEventTypeFor Authorized = PevPaymentAuthorized"
| "paymentEventTypeFor RelayPending = PevRelayStarted"
| "paymentEventTypeFor Relayed = PevRelayCompleted"
| "paymentEventTypeFor SettlementPending = PevSettlementObserved"
| "paymentEventTypeFor Settled = PevSettlementObserved"
| "paymentEventTypeFor Delivered = PevResponseDelivered"
| "paymentEventTypeFor PayExpired = PevPaymentExpired"
| "paymentEventTypeFor PayUnknown = PevPaymentUnknown"
| "paymentEventTypeFor PartialFailure = PevPaymentPartialFailure"
| "paymentEventTypeFor PayManualReview = PevReconciliationFailed"
| "paymentEventTypeFor _ = PevPaymentRejected"

text \<open>
  The optional members of the metadata; the transaction hashes may besides be null. \<open>mt_payload\<close> is
  \<open>JUndefined\<close> when absent.
\<close>

record transition_metadata =
  mt_authorization :: "authorization option"
  mt_relayRequest :: "relay_request option"
  mt_receipt :: "receipt option"
  mt_failureCode :: "string option"
  mt_sanitizedFailure :: "string option"
  mt_paymentTransactionHash :: "string option option"
  mt_settlementTransactionHash :: "string option option"
  mt_reconciliationConfirmed :: "bool option"
  mt_reconcilerAddress :: "string option"
  mt_payload :: js_value

record payment_transition_input =
  pt_attempt :: attempt
  pt_sellerConfiguration :: seller_config
  pt_nextStatus :: payment_status
  pt_nowUnix :: int
  pt_idempotencyKey :: string
  pt_correlationId :: string
  pt_metadata :: transition_metadata
  pt_reconcilerAddresses :: "string list"

definition authorization_bound :: "attempt \<Rightarrow> authorization \<Rightarrow> payment_exn + unit" where
  "authorization_bound at a =
     bindE (assertValidatedPaymentAuthorization a) (\<lambda>_.
     require (pa_attemptId a = at_attemptId at \<and> pa_challengeId a = pc_challengeId (at_challenge at)
              \<and> pa_challengeDigest a = at_challengeDigest at) P_INVALID_AUTHORIZATION)"

definition relay_bound :: "runtime \<Rightarrow> attempt \<Rightarrow> relay_request \<Rightarrow> payment_exn + unit" where
  "relay_bound rt at q =
     bindE (assertValidatedRelayRequest q) (\<lambda>_.
     bindE (require (rq_attemptId q = at_attemptId at \<and> rq_requestId q = at_requestId at
                     \<and> rq_fixedEgressProfile q = pp_fixedEgressProfile (at_pin at)) P_INVALID_AUTHORIZATION) (\<lambda>_.
     bindE (require (at_authorizationDigest at = Some (rq_authorizationDigest q)) P_INVALID_AUTHORIZATION) (\<lambda>_.
     bindE (require (rq_method q = pp_method (at_pin at)) P_INVALID_AUTHORIZATION) (\<lambda>_.
     require_same_url rt (rq_destination q) (pp_destination (at_pin at)) P_INVALID_AUTHORIZATION))))"

text \<open>\<open>some\<close> over the trusted addresses; a malformed one throws when it is reached.\<close>

fun trusted_reconciler :: "string \<Rightarrow> string list \<Rightarrow> payment_exn + bool" where
  "trusted_reconciler r [] = Inr False"
| "trusted_reconciler r (a # as) =
     bindE (pay_normalizeAddress a) (\<lambda>n. if n = r then Inr True else trusted_reconciler r as)"

definition reconciliation_allowed :: "payment_transition_input \<Rightarrow> payment_exn + unit" where
  "reconciliation_allowed i =
     (if at_status (pt_attempt i) \<in> {PayUnknown, PartialFailure} \<and> pt_nextStatus i = SettlementPending
      then if mt_reconciliationConfirmed (pt_metadata i) \<noteq> Some True
           then Inl (PaymentError P_RECONCILIATION_REQUIRED False ''reconcile_payment'')
           else (case mt_reconcilerAddress (pt_metadata i) of
             None \<Rightarrow> Inl (payment_error P_INVALID_AUTHORIZATION)
           | Some a \<Rightarrow>
               bindE (pay_normalizeAddress a) (\<lambda>r.
               bindE (trusted_reconciler r (pt_reconcilerAddresses i)) (\<lambda>b.
               require b P_INVALID_AUTHORIZATION)))
      else Inr ())"

definition receipt_checked :: "runtime \<Rightarrow> attempt \<Rightarrow> receipt \<Rightarrow> payment_exn + unit" where
  "receipt_checked rt at r =
     bindE (paymentReceiptSchema rt r) (\<lambda>_.
     bindE (validateReceipt rt r (at_pin at) (at_attemptId at) (pc_challengeId (at_challenge at))) (\<lambda>_. Inr ()))"

text \<open>The checks that depend on the target status, in the order of the code.\<close>

definition target_allowed :: "attempt \<Rightarrow> payment_status \<Rightarrow> int \<Rightarrow> transition_metadata \<Rightarrow> payment_exn + unit" where
  "target_allowed at s now m =
     bindE (require (s = Authorized \<longrightarrow> mt_authorization m \<noteq> None) P_INVALID_AUTHORIZATION) (\<lambda>_.
     bindE (require (s = Authorized \<longrightarrow> now < pc_expiresAtUnix (at_challenge at)) P_CHALLENGE_EXPIRED) (\<lambda>_.
     bindE (require (s = RelayPending \<longrightarrow> at_authorizationDigest at \<noteq> None \<and> at_payerAddress at \<noteq> None)
              P_INVALID_AUTHORIZATION) (\<lambda>_.
     bindE (require (s = RelayPending \<or> s = Relayed \<longrightarrow> now < pc_expiresAtUnix (at_challenge at))
              P_CHALLENGE_EXPIRED) (\<lambda>_.
     bindE (require (s = Relayed \<longrightarrow> mt_relayRequest m \<noteq> None) P_INVALID_AUTHORIZATION) (\<lambda>_.
     bindE (require (s = Settled \<longrightarrow> map_option pr_status (mt_receipt m) = Some ReceiptSettled)
              P_SETTLEMENT_UNVERIFIED) (\<lambda>_.
     bindE (require (case mt_receipt m of None \<Rightarrow> True
                     | Some r \<Rightarrow> pr_attemptId r = at_attemptId at \<and> pr_challengeId r = pc_challengeId (at_challenge at))
              P_SETTLEMENT_UNVERIFIED) (\<lambda>_.
     bindE (require (s = Delivered \<longrightarrow> (case mt_receipt m of None \<Rightarrow> False
                     | Some r \<Rightarrow> pr_status r = ReceiptSettled \<and> (case pr_responseStatus r of None \<Rightarrow> False
                                   | Some n \<Rightarrow> 200 \<le> n \<and> n < 300))) P_SETTLEMENT_UNVERIFIED) (\<lambda>_.
     bindE (require (s = PayExpired \<longrightarrow> pc_expiresAtUnix (at_challenge at) \<le> now) P_CHALLENGE_EXPIRED) (\<lambda>_.
     require (s = PayUnknown \<longrightarrow> at_status at \<noteq> Challenged) P_ILLEGAL_TRANSITION)))))))))"

definition when_some :: "'a option \<Rightarrow> ('a \<Rightarrow> payment_exn + unit) \<Rightarrow> payment_exn + unit" where
  "when_some x f = (case x of None \<Rightarrow> Inr () | Some y \<Rightarrow> f y)"

definition assertPaymentTransition :: "runtime \<Rightarrow> payment_transition_input \<Rightarrow> payment_exn + unit" where
  "assertPaymentTransition rt i =
     (let at = pt_attempt i; m = pt_metadata i; s = pt_nextStatus i in
      bindE (paymentAttemptSchema rt at) (\<lambda>_.
      bindE (require (isSafeInteger (pt_nowUnix i) \<and> 0 < pt_nowUnix i) P_INVALID_EXPIRY) (\<lambda>_.
      bindE (validatePaymentPinAgainstSellerConfiguration rt (at_pin at) (pt_sellerConfiguration i)) (\<lambda>_.
      bindE (when_some (mt_authorization m) (authorization_bound at)) (\<lambda>_.
      bindE (when_some (mt_relayRequest m) (relay_bound rt at)) (\<lambda>_.
      bindE (require (canTransitionPayment (at_status at) s \<and> at_status at \<noteq> s) P_ILLEGAL_TRANSITION) (\<lambda>_.
      bindE (reconciliation_allowed i) (\<lambda>_.
      bindE (require (s = Settled \<or> s = Delivered \<longrightarrow> mt_receipt m \<noteq> None) P_SETTLEMENT_UNVERIFIED) (\<lambda>_.
      bindE (when_some (mt_receipt m) (receipt_checked rt at)) (\<lambda>_.
      target_allowed at s (pt_nowUnix i) m))))))))))"

section \<open>The next attempt and its event\<close>

definition opt_or :: "'a option \<Rightarrow> 'a option \<Rightarrow> 'a option" where
  "opt_or x y = (case x of None \<Rightarrow> y | Some a \<Rightarrow> Some a)"

definition or_null :: "'a option option \<Rightarrow> 'a option" where
  "or_null x = (case x of None \<Rightarrow> None | Some y \<Rightarrow> y)"

definition nextAttempt :: "payment_transition_input \<Rightarrow> string option \<Rightarrow> string option \<Rightarrow> attempt" where
  "nextAttempt i authorizationDigest payerAddress =
     (let at = pt_attempt i; m = pt_metadata i in
      at\<lparr>at_status := pt_nextStatus i, at_authorizationDigest := authorizationDigest,
         at_payerAddress := payerAddress,
         at_relayRequestDigest := (case mt_relayRequest m of None \<Rightarrow> at_relayRequestDigest at
                                   | Some q \<Rightarrow> Some (rq_requestDigest q)),
         at_failureCode := opt_or (mt_failureCode m) (at_failureCode at),
         at_sanitizedFailure := opt_or (mt_sanitizedFailure m) (at_sanitizedFailure at),
         at_updatedAtUnix := pt_nowUnix i\<rparr>)"

definition paymentEventPayload :: "string option \<Rightarrow> js_value \<Rightarrow> js_value" where
  "paymentEventPayload receipt details =
     JObject (jfield ''receiptDigest'' JString receipt
              @ (if details = JUndefined then [] else [(''details'', details)]))"

definition transitionPaymentAttempt ::
    "runtime \<Rightarrow> string \<Rightarrow> payment_transition_input \<Rightarrow> payment_exn + attempt \<times> payment_event" where
  "transitionPaymentAttempt rt uuid i =
     (let at = pt_attempt i; m = pt_metadata i in
      bindE (assertPaymentTransition rt i) (\<lambda>_.
      bindE (case mt_authorization m of None \<Rightarrow> Inr (at_authorizationDigest at)
             | Some a \<Rightarrow> bindE (paymentAuthorizationDigest rt a) (\<lambda>d. Inr (Some d))) (\<lambda>authorizationDigest.
      bindE (case mt_authorization m of None \<Rightarrow> Inr (at_payerAddress at)
             | Some a \<Rightarrow> bindE (pay_normalizeAddress (pa_payerAddress a)) (\<lambda>p. Inr (Some p))) (\<lambda>payerAddress.
      bindE (case mt_receipt m of None \<Rightarrow> Inr None
             | Some r \<Rightarrow> bindE (receiptDigest rt r) (\<lambda>d. Inr (Some d))) (\<lambda>receiptPayload.
      bindE (createPaymentEvent rt uuid
        \<lparr>qi_eventKey = ''action:'' @ pt_idempotencyKey i, qi_attemptId = at_attemptId at,
         qi_eventType = paymentEventTypeFor (pt_nextStatus i), qi_previousStatus = Some (at_status at),
         qi_nextStatus = Some (pt_nextStatus i),
         qi_paymentTransactionHash = opt_or (or_null (mt_paymentTransactionHash m))
            (case mt_receipt m of None \<Rightarrow> None | Some r \<Rightarrow> pr_paymentTransactionHash r),
         qi_settlementTransactionHash = opt_or (or_null (mt_settlementTransactionHash m))
            (case mt_receipt m of None \<Rightarrow> None | Some r \<Rightarrow> pr_settlementTransactionHash r),
         qi_payload = paymentEventPayload receiptPayload (mt_payload m),
         qi_correlationId = pt_correlationId i, qi_observedAtUnix = pt_nowUnix i\<rparr>) (\<lambda>event.
      bindE (paymentAttemptSchema rt (nextAttempt i authorizationDigest payerAddress)) (\<lambda>next.
      Inr (next, event))))))))"

text \<open>The classification of a relay time-out: next status and error code; it always asks for reconciliation.\<close>

definition classifyRelayTimeout :: "bool \<Rightarrow> payment_status \<times> payment_code" where
  "classifyRelayTimeout paymentMayHaveSettled =
     (if paymentMayHaveSettled then (PayUnknown, P_UNKNOWN_POST_PAYMENT_OUTCOME)
      else (PartialFailure, P_RELAY_TIMEOUT))"

section \<open>The tables\<close>

text \<open>Final statuses are never left, and an attempt whose relay has run is never relayed again.\<close>

definition pay_final :: "payment_status \<Rightarrow> bool" where
  "pay_final s \<longleftrightarrow> s \<in> {Delivered, PayRejected, PayExpired, PayManualReview}"

definition relay_done :: "payment_status \<Rightarrow> bool" where
  "relay_done s \<longleftrightarrow> s \<notin> {Challenged, Authorized, RelayPending}"

interpretation pay_final: absorbing_table allowedPaymentTransitions pay_final
proof
  show "pay_final t" if "pay_final s" "t \<in> set (allowedPaymentTransitions s)" for s t
    using that by (cases s) (auto simp: pay_final_def)
qed

interpretation relay_done: absorbing_table allowedPaymentTransitions relay_done
proof
  show "relay_done t" if "relay_done s" "t \<in> set (allowedPaymentTransitions s)" for s t
    using that by (cases s) (auto simp: relay_done_def)
qed

lemma canTransitionPayment_table: "canTransitionPayment = table_allows allowedPaymentTransitions"
  by (simp add: fun_eq_iff canTransitionPayment_def table_allows_def)

section \<open>Attempts\<close>

definition valid_attempt :: "runtime \<Rightarrow> attempt \<Rightarrow> bool" where
  "valid_attempt rt a \<longleftrightarrow> paymentAttemptSchema rt a = Inr a"

lemma trim_attempt_idem [simp]: "trim_attempt (trim_attempt a) = trim_attempt a"
  by (cases "at_failureCode a"; cases "at_sanitizedFailure a") (simp_all add: trim_attempt_def)

lemma trim_key [simp]: "is_ok (pay_idempotencyKeySchema (js_trim s)) = is_ok (pay_idempotencyKeySchema s)"
  by (simp add: pay_idempotencyKeySchema_def)

lemma attempt_fields_trim [simp]: "attempt_fields rt (trim_attempt a) = attempt_fields rt a"
  by (simp add: attempt_fields_def trim_attempt_def)

lemma trim_pin_urls [simp]: "pp_destination (trim_payment_pin p) = pp_destination p"
  "pp_facilitatorEndpoint (trim_payment_pin p) = pp_facilitatorEndpoint p"
  by (simp_all add: trim_payment_pin_def)

lemma trim_attempt_parts [simp]:
  "at_challenge (trim_attempt a) = trim_challenge (at_challenge a)" "at_pin (trim_attempt a) = trim_payment_pin (at_pin a)"
  "at_pinDigest (trim_attempt a) = at_pinDigest a" "at_attemptId (trim_attempt a) = at_attemptId a"
  "at_status (trim_attempt a) = at_status a" "at_challengeDigest (trim_attempt a) = at_challengeDigest a"
  "at_payerAddress (trim_attempt a) = at_payerAddress a" "at_authorizationDigest (trim_attempt a) = at_authorizationDigest a"
  "at_createdAtUnix (trim_attempt a) = at_createdAtUnix a" "at_updatedAtUnix (trim_attempt a) = at_updatedAtUnix a"
  "at_requestId (trim_attempt a) = js_trim (at_requestId a)"
  by (simp_all add: trim_attempt_def)

lemma attempt_schema_Inr:
  "paymentAttemptSchema rt a = Inr b \<longleftrightarrow> attempt_fields rt a \<and> challenge_fields (at_challenge a)
     \<and> payment_pin_fields (at_pin a) \<and> attempt_terms_match (trim_attempt a)
     \<and> httpUrlSchema rt (pc_destination (at_challenge a)) \<and> httpUrlSchema rt (pc_facilitatorEndpoint (at_challenge a))
     \<and> httpUrlSchema rt (pp_destination (at_pin a)) \<and> httpUrlSchema rt (pp_facilitatorEndpoint (at_pin a))
     \<and> paymentPinDigest rt (at_pin (trim_attempt a)) = Inr (at_pinDigest a) \<and> b = trim_attempt a"
  by (auto simp: paymentAttemptSchema_def)

interpretation attempt_schema: normaliser "paymentAttemptSchema rt" for rt
proof
  fix a b assume "paymentAttemptSchema rt a = Inr b"
  then show "paymentAttemptSchema rt b = Inr b"
    by (auto simp: attempt_schema_Inr)
qed

section \<open>What a transition establishes\<close>

lemma when_some_Inr [simp, result_simps]: "when_some x f = Inr u \<longleftrightarrow> (\<forall>y. x = Some y \<longrightarrow> f y = Inr ())"
  by (cases x) (simp_all add: when_some_def)

lemma pay_transition_result:
  assumes "transitionPaymentAttempt rt uuid i = Inr (next, event)"
  obtains d p r where "assertPaymentTransition rt i = Inr ()" "next = trim_attempt (nextAttempt i d p)"
    "valid_attempt rt next"
    "mt_authorization (pt_metadata i) = None \<Longrightarrow> d = at_authorizationDigest (pt_attempt i) \<and> p = at_payerAddress (pt_attempt i)"
    "\<And>a. mt_authorization (pt_metadata i) = Some a \<Longrightarrow>
       (\<exists>x. paymentAuthorizationDigest rt a = Inr x \<and> d = Some x) \<and> p = Some (js_lower (pa_payerAddress a))"
    "pe_attemptId event = at_attemptId (pt_attempt i)" "pe_previousStatus event = Some (at_status (pt_attempt i))"
    "pe_nextStatus event = Some (pt_nextStatus i)" "pe_observedAtUnix event = pt_nowUnix i"
    "\<forall>k \<in> field_names (pe_payload event). \<not> FORBIDDEN_FIELD k"
proof -
  have safe: "pay_assertPublicPayloadSafe v = Inr () \<longleftrightarrow> (\<forall>k \<in> field_names v. \<not> FORBIDDEN_FIELD k)" for v
    using payload_safe_iff(1) [of v] by (auto simp: pay_assertPublicPayloadSafe_def split: sum.splits)
  from assms obtain d p r where g: "assertPaymentTransition rt i = Inr ()"
    and d: "(case mt_authorization (pt_metadata i) of None \<Rightarrow> Inr (at_authorizationDigest (pt_attempt i))
             | Some a \<Rightarrow> bindE (paymentAuthorizationDigest rt a) (\<lambda>d. Inr (Some d))) = Inr d"
    and p: "(case mt_authorization (pt_metadata i) of None \<Rightarrow> Inr (at_payerAddress (pt_attempt i))
             | Some a \<Rightarrow> bindE (pay_normalizeAddress (pa_payerAddress a)) (\<lambda>p. Inr (Some p))) = Inr p"
    and e: "createPaymentEvent rt uuid
        \<lparr>qi_eventKey = ''action:'' @ pt_idempotencyKey i, qi_attemptId = at_attemptId (pt_attempt i),
         qi_eventType = paymentEventTypeFor (pt_nextStatus i), qi_previousStatus = Some (at_status (pt_attempt i)),
         qi_nextStatus = Some (pt_nextStatus i),
         qi_paymentTransactionHash = opt_or (or_null (mt_paymentTransactionHash (pt_metadata i)))
            (case mt_receipt (pt_metadata i) of None \<Rightarrow> None | Some r \<Rightarrow> pr_paymentTransactionHash r),
         qi_settlementTransactionHash = opt_or (or_null (mt_settlementTransactionHash (pt_metadata i)))
            (case mt_receipt (pt_metadata i) of None \<Rightarrow> None | Some r \<Rightarrow> pr_settlementTransactionHash r),
         qi_payload = paymentEventPayload r (mt_payload (pt_metadata i)),
         qi_correlationId = pt_correlationId i, qi_observedAtUnix = pt_nowUnix i\<rparr> = Inr event"
    and n: "paymentAttemptSchema rt (nextAttempt i d p) = Inr next"
    unfolding transitionPaymentAttempt_def Let_def bindE_eq_Inr by auto
  show ?thesis
  proof (rule that [of d p])
    show "next = trim_attempt (nextAttempt i d p)" using n by (simp add: attempt_schema_Inr)
    show "valid_attempt rt next" using attempt_schema.norm_idem [OF n] by (simp add: valid_attempt_def)
    show "mt_authorization (pt_metadata i) = None \<Longrightarrow> d = at_authorizationDigest (pt_attempt i) \<and> p = at_payerAddress (pt_attempt i)"
      using d p by auto
    show "\<And>a. mt_authorization (pt_metadata i) = Some a \<Longrightarrow>
       (\<exists>x. paymentAuthorizationDigest rt a = Inr x \<and> d = Some x) \<and> p = Some (js_lower (pa_payerAddress a))"
      using d p by auto
    show "pe_attemptId event = at_attemptId (pt_attempt i)" "pe_previousStatus event = Some (at_status (pt_attempt i))"
      "pe_nextStatus event = Some (pt_nextStatus i)" "pe_observedAtUnix event = pt_nowUnix i"
      "\<forall>k \<in> field_names (pe_payload event). \<not> FORBIDDEN_FIELD k"
      using e by (auto simp: createPaymentEvent_def Let_def paymentEventSchema_def safe or_empty_def paymentEventPayload_def
          split: if_splits)
  qed (fact g)
qed

section \<open>The life of an attempt\<close>

inductive pay_step :: "runtime \<Rightarrow> seller_config \<Rightarrow> string list \<Rightarrow> attempt \<Rightarrow> attempt \<Rightarrow> bool" for rt cfg recs where
  "transitionPaymentAttempt rt uuid i = Inr (b, event) \<Longrightarrow> pt_attempt i = a \<Longrightarrow> pt_sellerConfiguration i = cfg
   \<Longrightarrow> pt_reconcilerAddresses i = recs \<Longrightarrow> pay_step rt cfg recs a b"

inductive_cases pay_stepE: "pay_step rt cfg recs a b"

abbreviation pay_life :: "runtime \<Rightarrow> seller_config \<Rightarrow> string list \<Rightarrow> attempt \<Rightarrow> attempt \<Rightarrow> bool" where
  "pay_life rt cfg recs \<equiv> (pay_step rt cfg recs)\<^sup>*\<^sup>*"

definition attempt_identity :: "attempt \<Rightarrow> string \<times> string \<times> string \<times> challenge \<times> string \<times> payment_pin \<times> string \<times> int" where
  "attempt_identity a = (at_attemptId a, at_requestId a, at_idempotencyKey a, at_challenge a, at_challengeDigest a,
     at_pin a, at_pinDigest a, at_createdAtUnix a)"

lemma valid_trim: "valid_attempt rt a \<Longrightarrow> trim_attempt a = a"
  by (simp add: valid_attempt_def attempt_schema_Inr)

lemma next_identity: "attempt_identity (trim_attempt (nextAttempt i d p)) = attempt_identity (trim_attempt (pt_attempt i))"
  by (simp add: attempt_identity_def trim_attempt_def nextAttempt_def Let_def)

lemma next_fields:
  "at_status (nextAttempt i d p) = pt_nextStatus i" "at_updatedAtUnix (nextAttempt i d p) = pt_nowUnix i"
  "at_authorizationDigest (nextAttempt i d p) = d" "at_payerAddress (nextAttempt i d p) = p"
  by (simp_all add: nextAttempt_def Let_def)

text \<open>The guards, as one conjunction.\<close>

lemma assertPaymentTransition_Inr:
  "assertPaymentTransition rt i = Inr () \<longleftrightarrow>
     (let at = pt_attempt i; m = pt_metadata i; s = pt_nextStatus i in
      is_ok (paymentAttemptSchema rt at) \<and> isSafeInteger (pt_nowUnix i) \<and> 0 < pt_nowUnix i
      \<and> is_ok (validatePaymentPinAgainstSellerConfiguration rt (at_pin at) (pt_sellerConfiguration i))
      \<and> (\<forall>a. mt_authorization m = Some a \<longrightarrow> authorization_bound at a = Inr ())
      \<and> (\<forall>q. mt_relayRequest m = Some q \<longrightarrow> relay_bound rt at q = Inr ())
      \<and> canTransitionPayment (at_status at) s \<and> at_status at \<noteq> s \<and> reconciliation_allowed i = Inr ()
      \<and> (s = Settled \<or> s = Delivered \<longrightarrow> mt_receipt m \<noteq> None)
      \<and> (\<forall>r. mt_receipt m = Some r \<longrightarrow> receipt_checked rt at r = Inr ())
      \<and> target_allowed at s (pt_nowUnix i) m = Inr ())"
  by (auto simp: assertPaymentTransition_def Let_def is_ok_iff)

lemma pay_step_facts:
  assumes "pay_step rt cfg recs a b" "valid_attempt rt a"
  shows "valid_attempt rt b" "attempt_identity b = attempt_identity a"
    "at_status b \<in> set (allowedPaymentTransitions (at_status a))"
proof -
  from assms(1) obtain uuid i event where t: "transitionPaymentAttempt rt uuid i = Inr (b, event)" and i: "pt_attempt i = a"
    by (auto elim: pay_stepE)
  from t obtain d p where g: "assertPaymentTransition rt i = Inr ()" and b: "b = trim_attempt (nextAttempt i d p)"
    and v: "valid_attempt rt b" by (rule pay_transition_result)
  show "valid_attempt rt b" by (fact v)
  show "attempt_identity b = attempt_identity a"
    using b i valid_trim [OF assms(2)] by (simp add: next_identity)
  show "at_status b \<in> set (allowedPaymentTransitions (at_status a))"
    using g i by (auto simp: b next_fields assertPaymentTransition_Inr Let_def canTransitionPayment_def)
qed

lemma pay_life_facts:
  assumes "pay_life rt cfg recs a b" "valid_attempt rt a"
  shows "valid_attempt rt b \<and> attempt_identity b = attempt_identity a
     \<and> (pay_final (at_status a) \<longrightarrow> b = a) \<and> (relay_done (at_status a) \<longrightarrow> relay_done (at_status b))"
  using assms
proof (induction rule: rtranclp_induct)
  case base
  then show ?case by simp
next
  case (step b c)
  then have v: "valid_attempt rt b" by simp
  note f = pay_step_facts [OF step(2) v]
  have "\<not> pay_final (at_status b)"
    using f(3) by (cases "at_status b") (auto simp: pay_final_def)
  moreover have "relay_done (at_status b) \<Longrightarrow> relay_done (at_status c)"
    using relay_done.closed_step f(3) by blast
  ultimately show ?case using f step by auto
qed

text \<open>What a transition to a settled or delivered attempt has shown.\<close>

definition evidence_for :: "receipt \<Rightarrow> attempt \<Rightarrow> bool" where
  "evidence_for r a \<longleftrightarrow> pr_status r = ReceiptSettled \<and> pr_attemptId r = at_attemptId a
     \<and> pr_challengeId r = pc_challengeId (at_challenge a)
     \<and> (pr_paymentTransactionHash r \<noteq> None \<or> pr_settlementTransactionHash r \<noteq> None)
     \<and> pr_payoutVerified r \<and> map_option js_lower (pr_payoutAddress r) = Some (js_lower (pp_payoutAddress (at_pin a)))
     \<and> map_option js_lower (pr_actualRecipient r) = Some (js_lower (pp_recipient (at_pin a)))
     \<and> js_lower (pr_settlementAsset r) = js_lower (pp_settlementAsset (at_pin a))
     \<and> pr_settlementNetwork r = pp_settlementNetwork (at_pin a)
     \<and> dec_val (pr_amountAtomic r) = dec_val (pp_amountAtomic (at_pin a)) \<and> pr_settledAtUnix r \<noteq> None"

lemma validated_receipt:
  assumes "validateReceipt rt r p aid cid = Inr r'" "pr_status r = ReceiptSettled"
  shows "pr_attemptId r = aid \<and> js_trim (pr_challengeId r) = cid
     \<and> (pr_paymentTransactionHash r \<noteq> None \<or> pr_settlementTransactionHash r \<noteq> None)
     \<and> pr_payoutVerified r \<and> map_option js_lower (pr_payoutAddress r) = Some (js_lower (pp_payoutAddress p))
     \<and> map_option js_lower (pr_actualRecipient r) = Some (js_lower (pp_recipient p))
     \<and> js_lower (pr_settlementAsset r) = js_lower (pp_settlementAsset p)
     \<and> pr_settlementNetwork r = pp_settlementNetwork p
     \<and> dec_val (pr_amountAtomic r) = dec_val (pp_amountAtomic p) \<and> pr_settledAtUnix r \<noteq> None"
proof -
  from assms(1) obtain q where q: "normal_pin rt p q"
    by (auto simp: validateReceipt_def validatePaymentPin_Inr)
  note f = normal_pin_fields [OF q]
  have det: "validatePaymentPin rt p = Inr q' \<Longrightarrow> q' = q" for q'
    using q by (simp add: validatePaymentPin_Inr [symmetric])
  show ?thesis
    using assms
    by (auto simp: validateReceipt_def paymentReceiptSchema_def settled_evidence_def actual_recipient_ok_def
        same_amount_def f dest!: det split: option.splits)
qed

lemma settled_evidence:
  assumes "assertPaymentTransition rt i = Inr ()" "pt_nextStatus i \<in> {Settled, Delivered}"
  obtains r where "mt_receipt (pt_metadata i) = Some r" "evidence_for r (pt_attempt i)"
proof -
  from assms obtain r where r: "mt_receipt (pt_metadata i) = Some r" "receipt_checked rt (pt_attempt i) r = Inr ()"
    and target: "target_allowed (pt_attempt i) (pt_nextStatus i) (pt_nowUnix i) (pt_metadata i) = Inr ()"
    by (auto simp: assertPaymentTransition_Inr Let_def)
  have s: "pr_status r = ReceiptSettled" "pr_challengeId r = pc_challengeId (at_challenge (pt_attempt i))"
    using target assms(2) r(1) by (auto simp: target_allowed_def)
  obtain r' where "validateReceipt rt r (at_pin (pt_attempt i)) (at_attemptId (pt_attempt i))
      (pc_challengeId (at_challenge (pt_attempt i))) = Inr r'"
    using r(2) by (auto simp: receipt_checked_def)
  from validated_receipt [OF this s(1)] s have "evidence_for r (pt_attempt i)" by (simp add: evidence_for_def)
  with r(1) show ?thesis by (rule that)
qed

end
