(* ===== verification/Payment_Repository.thy ===== *)
theory Payment_Repository
  imports Payment_Lifecycle "HOL-Library.AList"
begin

text \<open>
  packages/payment-gateway/src/repository.ts: the in-memory repository of payment attempts with its
  challenges, events, idempotency records, receipts and reconciliations. As in the job repository an
  operation first prepares a commit from the state it reads and the commit runs later under the lock, so
  other operations come between; a commit that throws restores the nine maps.

  The attempts are an association list in insertion order, because a creation looks through all of
  them; the other maps are functions. A value is copied on its way in and out, so nothing is shared.
\<close>

section \<open>State\<close>

record payment_action =
  pk_digest :: string
  pk_requestDigest :: "string option"
  pk_attemptId :: string
  pk_attempt :: attempt
  pk_event :: payment_event

record payment_state =
  ps_attempts :: "(string \<times> attempt) list"
  ps_challenges :: "string \<Rightarrow> challenge option"
  ps_challengeDigests :: "string \<Rightarrow> string option"
  ps_events :: "string \<Rightarrow> payment_event option"
  ps_actions :: "string \<Rightarrow> payment_action option"
  ps_receipts :: "string \<Rightarrow> receipt option"
  ps_receiptIds :: "string \<Rightarrow> string option"
  ps_receiptDigests :: "string \<Rightarrow> string option"
  ps_reconciliations :: "(string \<times> payment_reconciliation) list"

definition empty_payments :: payment_state where
  "empty_payments = \<lparr>ps_attempts = [], ps_challenges = (\<lambda>_. None), ps_challengeDigests = (\<lambda>_. None),
     ps_events = (\<lambda>_. None), ps_actions = (\<lambda>_. None), ps_receipts = (\<lambda>_. None), ps_receiptIds = (\<lambda>_. None),
     ps_receiptDigests = (\<lambda>_. None), ps_reconciliations = []\<rparr>"

abbreviation attempt_of :: "payment_state \<Rightarrow> string \<Rightarrow> attempt option" where
  "attempt_of st k \<equiv> map_of (ps_attempts st) k"

record payment_repo =
  pf_sellerConfiguration :: seller_config
  pf_reconcilers :: "string list"

definition newPaymentRepository :: "runtime \<Rightarrow> seller_config \<Rightarrow> string list \<Rightarrow> payment_exn + payment_repo" where
  "newPaymentRepository rt configuration reconcilers =
     bindE (parseEnabledSellerConfiguration rt configuration) (\<lambda>c.
     bindE (mapE pay_normalizeAddress reconcilers) (\<lambda>rs.
     Inr \<lparr>pf_sellerConfiguration = c, pf_reconcilers = rs\<rparr>))"

definition pay_trustedNowUnix :: "int \<Rightarrow> payment_exn + int" where
  "pay_trustedNowUnix now =
     (if \<not> isSafeInteger now \<or> now \<le> 0 then Inl (payment_error P_INVALID_EXPIRY) else Inr now)"

definition assertChallengeDigest :: "runtime \<Rightarrow> challenge \<Rightarrow> payment_exn + unit" where
  "assertChallengeDigest rt c =
     bindE (challengeUnsignedDigest rt c) (\<lambda>d. require (d = pc_challengeDigest c) P_CHALLENGE_TAMPERED)"

definition pay_creationRequestDigest :: "runtime \<Rightarrow> attempt \<Rightarrow> payment_exn + string" where
  "pay_creationRequestDigest rt a = pay_js (digest_of rt (JObject
     [(''operation'', JString ''create''), (''attempt'', JObject (attempt_request_fields a))]))"

definition pay_sameEvent :: "runtime \<Rightarrow> payment_event \<Rightarrow> payment_event \<Rightarrow> payment_exn + bool" where
  "pay_sameEvent rt l r =
     (if pe_eventId l = pe_eventId r \<and> pe_eventKey l = pe_eventKey r \<and> pe_attemptId l = pe_attemptId r
         \<and> pe_eventType l = pe_eventType r \<and> pe_previousStatus l = pe_previousStatus r
         \<and> pe_payloadDigest l = pe_payloadDigest r \<and> pe_nextStatus l = pe_nextStatus r
         \<and> pe_paymentTransactionHash l = pe_paymentTransactionHash r
         \<and> pe_settlementTransactionHash l = pe_settlementTransactionHash r
         \<and> pe_correlationId l = pe_correlationId r \<and> pe_observedAtUnix l = pe_observedAtUnix r
      then bindE (pay_js (digest_of rt (pe_payload l))) (\<lambda>a.
           bindE (pay_js (digest_of rt (pe_payload r))) (\<lambda>b. Inr (a = b)))
      else Inr False)"

section \<open>Receipts\<close>

definition put_receipt :: "payment_state \<Rightarrow> receipt \<Rightarrow> string \<Rightarrow> payment_state" where
  "put_receipt st r digest = st\<lparr>ps_receipts := (ps_receipts st)(pr_attemptId r \<mapsto> r),
     ps_receiptIds := (ps_receiptIds st)(pr_receiptId r \<mapsto> pr_attemptId r),
     ps_receiptDigests := (ps_receiptDigests st)(digest \<mapsto> pr_attemptId r)\<rparr>"

definition drop_receipt :: "payment_state \<Rightarrow> receipt \<Rightarrow> string \<Rightarrow> payment_state" where
  "drop_receipt st r digest = st\<lparr>ps_receiptIds := (ps_receiptIds st)(pr_receiptId r := None),
     ps_receiptDigests := (ps_receiptDigests st)(digest := None)\<rparr>"

definition applyReceiptToMaps ::
    "runtime \<Rightarrow> payment_state \<Rightarrow> receipt \<Rightarrow> attempt \<Rightarrow> payment_exn + payment_state \<times> receipt \<times> bool" where
  "applyReceiptToMaps rt st receipt a =
     bindE (paymentReceiptSchema rt receipt) (\<lambda>parsed.
     bindE (require (pc_challengeId (at_challenge a) = pr_challengeId parsed) P_SETTLEMENT_UNVERIFIED) (\<lambda>_.
     bindE (validateReceipt rt parsed (at_pin a) (at_attemptId a) (pc_challengeId (at_challenge a))) (\<lambda>trusted.
     bindE (receiptDigest rt trusted) (\<lambda>digest.
     case ps_receipts st (pr_attemptId trusted) of
       Some prior \<Rightarrow>
         bindE (receiptDigest rt prior) (\<lambda>priorDigest.
         if priorDigest \<noteq> digest
         then if (pr_status prior = ReceiptUnknown \<or> pr_status prior = ReceiptPartialFailure)
                 \<and> pr_status trusted = ReceiptSettled
              then Inr (put_receipt (drop_receipt st prior priorDigest) trusted digest, trusted, False)
              else Inl (payment_error P_EVENT_CONFLICT)
         else Inr (st, prior, True))
     | None \<Rightarrow>
         if ps_receiptIds st (pr_receiptId trusted) \<notin> {None, Some (pr_attemptId trusted)}
         then Inl (payment_error P_EVENT_CONFLICT)
         else if ps_receiptDigests st digest \<notin> {None, Some (pr_attemptId trusted)}
         then Inl (payment_error P_EVENT_CONFLICT)
         else Inr (put_receipt st trusted digest, trusted, False)))))"

section \<open>Commit\<close>

record payment_commit =
  cm_actionKey :: string
  cm_actionDigest :: string
  cm_expectedAttempt :: "attempt option"
  cm_attempt :: attempt
  cm_event :: payment_event
  cm_challenge :: "challenge option"
  cm_receipt :: "receipt option"
  cm_requestDigest :: "string option"

definition stale_attempt :: payment_exn where
  "stale_attempt = PaymentError P_STALE_ATTEMPT True ''reconcile_payment''"

definition attempt_digest :: "runtime \<Rightarrow> attempt \<Rightarrow> payment_exn + string" where
  "attempt_digest rt a = pay_js (digest_of rt (attempt_json a))"

definition checkExpectedAttempt :: "runtime \<Rightarrow> payment_state \<Rightarrow> payment_commit \<Rightarrow> payment_exn + unit" where
  "checkExpectedAttempt rt st i =
     (case (cm_expectedAttempt i, attempt_of st (at_attemptId (cm_attempt i))) of
        (None, Some _) \<Rightarrow> Inl (payment_error P_IDEMPOTENCY_CONFLICT)
      | (None, None) \<Rightarrow> Inr ()
      | (Some _, None) \<Rightarrow> Inl stale_attempt
      | (Some expected, Some current) \<Rightarrow>
          bindE (attempt_digest rt current) (\<lambda>a.
          bindE (attempt_digest rt expected) (\<lambda>b.
          if a \<noteq> b then Inl stale_attempt else Inr ())))"

text \<open>The challenge of a creation: its identifier and digest may not belong to another one.\<close>

definition put_challenge :: "payment_state \<Rightarrow> challenge \<Rightarrow> payment_state" where
  "put_challenge st c = st\<lparr>ps_challenges := (ps_challenges st)(pc_challengeId c \<mapsto> c),
     ps_challengeDigests := (ps_challengeDigests st)(pc_challengeDigest c \<mapsto> pc_challengeId c)\<rparr>"

definition challenge_conflict :: "payment_state \<Rightarrow> challenge \<Rightarrow> bool" where
  "challenge_conflict st c \<longleftrightarrow>
     (case ps_challenges st (pc_challengeId c) of None \<Rightarrow> False
      | Some d \<Rightarrow> pc_challengeDigest d \<noteq> pc_challengeDigest c)
     \<or> ps_challengeDigests st (pc_challengeDigest c) \<notin> {None, Some (pc_challengeId c)}"

definition commit_challenge :: "payment_state \<Rightarrow> challenge option \<Rightarrow> payment_exn + payment_state" where
  "commit_challenge st x = (case x of None \<Rightarrow> Inr st
     | Some c \<Rightarrow> if challenge_conflict st c then Inl (payment_error P_IDEMPOTENCY_CONFLICT)
                 else Inr (put_challenge st c))"

definition pay_commit :: "runtime \<Rightarrow> payment_repo \<Rightarrow> payment_state \<Rightarrow> payment_commit \<Rightarrow> payment_exn + payment_state" where
  "pay_commit rt cfg st i =
     bindE (pay_idempotencyKeySchema (cm_actionKey i)) (\<lambda>action.
     bindE (paymentAttemptSchema rt (cm_attempt i)) (\<lambda>persisted.
     bindE (validatePaymentPinAgainstSellerConfiguration rt (at_pin persisted) (pf_sellerConfiguration cfg)) (\<lambda>_.
     bindE (assertChallengeDigest rt (at_challenge persisted)) (\<lambda>_.
     bindE (paymentEventSchema rt (cm_event i)) (\<lambda>_.
     bindE (require (pe_attemptId (cm_event i) = at_attemptId (cm_attempt i)
                     \<and> pe_eventKey (cm_event i) = ''action:'' @ action) P_EVENT_CONFLICT) (\<lambda>_.
     bindE (when_some (cm_challenge i) (\<lambda>c.
              require (pc_challengeId c = pc_challengeId (at_challenge (cm_attempt i))) P_EVENT_CONFLICT)) (\<lambda>_.
     bindE (when_some (cm_challenge i) (assertChallengeDigest rt)) (\<lambda>_.
     bindE (checkExpectedAttempt rt st i) (\<lambda>_.
     bindE (case ps_events st (pe_eventKey (cm_event i)) of
              None \<Rightarrow> Inr ()
            | Some previous \<Rightarrow> bindE (pay_sameEvent rt previous (cm_event i)) (\<lambda>same.
                require same P_EVENT_CONFLICT)) (\<lambda>_.
     bindE (require (case ps_actions st action of
                None \<Rightarrow> True
              | Some prior \<Rightarrow> pk_digest prior = cm_actionDigest i \<and> pk_attemptId prior = at_attemptId (cm_attempt i)
                  \<and> (cm_requestDigest i \<noteq> None \<longrightarrow> pk_requestDigest prior = cm_requestDigest i))
              P_IDEMPOTENCY_CONFLICT) (\<lambda>_.
     bindE (require (ps_events st (pe_eventKey (cm_event i)) = None \<and> ps_actions st action = None)
              P_IDEMPOTENCY_CONFLICT) (\<lambda>_.
     bindE (commit_challenge st (cm_challenge i)) (\<lambda>st1.
     bindE (case cm_receipt i of None \<Rightarrow> Inr st1
            | Some r \<Rightarrow> bindE (applyReceiptToMaps rt st1 r (cm_attempt i)) (\<lambda>x. Inr (fst x))) (\<lambda>st2.
     Inr (st2\<lparr>ps_attempts := AList.update (at_attemptId (cm_attempt i)) (cm_attempt i) (ps_attempts st2),
              ps_events := (ps_events st2)(pe_eventKey (cm_event i) \<mapsto> cm_event i),
              ps_actions := (ps_actions st2)(action \<mapsto>
                \<lparr>pk_digest = cm_actionDigest i, pk_requestDigest = cm_requestDigest i,
                 pk_attemptId = at_attemptId (cm_attempt i), pk_attempt = cm_attempt i,
                 pk_event = cm_event i\<rparr>)\<rparr>)))))))))))))))"

text \<open>After an exception the nine maps are set back to the copies taken when the transaction began.\<close>

definition pay_rollback :: "payment_state \<Rightarrow> payment_state \<Rightarrow> payment_state" where
  "pay_rollback snapshot now_st = now_st\<lparr>ps_attempts := ps_attempts snapshot,
     ps_challenges := ps_challenges snapshot, ps_challengeDigests := ps_challengeDigests snapshot,
     ps_events := ps_events snapshot, ps_actions := ps_actions snapshot, ps_receipts := ps_receipts snapshot,
     ps_receiptIds := ps_receiptIds snapshot, ps_receiptDigests := ps_receiptDigests snapshot,
     ps_reconciliations := ps_reconciliations snapshot\<rparr>"

section \<open>Create and transition\<close>

datatype pay_prepared = PayReplay attempt payment_event | PayPrepared payment_commit

text \<open>\<open>uuid\<close> is the next \<open>randomUUID\<close>, \<open>now\<close> the trusted clock.\<close>

definition createdEvent :: "string \<Rightarrow> string \<Rightarrow> string \<Rightarrow> attempt \<Rightarrow> payment_event" where
  "createdEvent uuid key payloadDigest a =
     \<lparr>pe_eventId = uuid, pe_eventKey = ''action:'' @ key, pe_attemptId = at_attemptId a,
      pe_eventType = PevChallengeIssued, pe_previousStatus = None, pe_nextStatus = Some Challenged,
      pe_paymentTransactionHash = None, pe_settlementTransactionHash = None, pe_payloadDigest = payloadDigest,
      pe_payload = JObject [(''challengeDigest'', JString (at_challengeDigest a))],
      pe_correlationId = at_requestId a, pe_observedAtUnix = at_createdAtUnix a\<rparr>"

definition normalize_attempt :: "runtime \<Rightarrow> payment_repo \<Rightarrow> attempt \<Rightarrow> payment_exn + attempt" where
  "normalize_attempt rt cfg input =
     bindE (paymentAttemptSchema rt input) (\<lambda>parsed.
     bindE (validatePaymentPinAgainstSellerConfiguration rt (at_pin parsed) (pf_sellerConfiguration cfg)) (\<lambda>(trustedPin, _).
     bindE (validateChallenge rt (at_challenge parsed) trustedPin (pc_issuedAtUnix (at_challenge parsed))) (\<lambda>normalizedChallenge.
     bindE (paymentPinDigest rt trustedPin) (\<lambda>pinDigest.
     paymentAttemptSchema rt (parsed\<lparr>at_challenge := normalizedChallenge, at_pin := trustedPin,
       at_pinDigest := pinDigest\<rparr>)))))"

text \<open>What a new attempt may not share with the stored ones.\<close>

definition creation_conflict :: "payment_state \<Rightarrow> attempt \<Rightarrow> bool" where
  "creation_conflict st a \<longleftrightarrow> attempt_of st (at_attemptId a) \<noteq> None
     \<or> list_ex (\<lambda>(_, x). pc_challengeId (at_challenge x) = pc_challengeId (at_challenge a)) (ps_attempts st)
     \<or> challenge_conflict st (at_challenge a)"

definition pay_create :: "runtime \<Rightarrow> payment_repo \<Rightarrow> string \<Rightarrow> int \<Rightarrow> payment_state \<Rightarrow> attempt \<Rightarrow> payment_exn + pay_prepared" where
  "pay_create rt cfg uuid now st input =
     bindE (normalize_attempt rt cfg input) (\<lambda>a.
     bindE (pay_idempotencyKeySchema (at_idempotencyKey a)) (\<lambda>key.
     bindE (pay_creationRequestDigest rt a) (\<lambda>digest.
     case ps_actions st key of
       Some prior \<Rightarrow>
         if (case pk_requestDigest prior of None \<Rightarrow> pk_digest prior | Some d \<Rightarrow> d) \<noteq> digest
            \<or> pk_attemptId prior \<noteq> at_attemptId a
         then Inl (payment_error P_IDEMPOTENCY_CONFLICT)
         else Inr (PayReplay (pk_attempt prior) (pk_event prior))
     | None \<Rightarrow>
         bindE (pay_trustedNowUnix now) (\<lambda>now.
         bindE (validateChallenge rt (at_challenge a) (at_pin a) now) (\<lambda>trustedChallenge.
         bindE (paymentAttemptSchema rt (a\<lparr>at_challenge := trustedChallenge, at_createdAtUnix := now,
                  at_updatedAtUnix := now\<rparr>)) (\<lambda>attempt.
         bindE (assertChallengeDigest rt (at_challenge attempt)) (\<lambda>_.
         if creation_conflict st attempt then Inl (payment_error P_IDEMPOTENCY_CONFLICT) else
         bindE (pay_js (digest_of rt (JObject [(''challengeDigest'', JString (at_challengeDigest attempt))]))) (\<lambda>pd.
         bindE (paymentEventSchema rt (createdEvent uuid key pd attempt)) (\<lambda>event.
         Inr (PayPrepared \<lparr>cm_actionKey = key, cm_actionDigest = digest, cm_expectedAttempt = None,
           cm_attempt = attempt, cm_event = event, cm_challenge = Some (at_challenge attempt),
           cm_receipt = None, cm_requestDigest = Some digest\<rparr>))))))))))"

definition relay_json :: "relay_request \<Rightarrow> js_value" where
  "relay_json q = JObject
     [(''attemptId'', JString (rq_attemptId q)), (''requestId'', JString (rq_requestId q)),
      (''idempotencyKey'', JString (rq_idempotencyKey q)), (''destination'', JString (rq_destination q)),
      (''method'', JString (method_name (rq_method q))), (''requestBody'', rq_requestBody q),
      (''authorizationDigest'', JString (rq_authorizationDigest q)),
      (''requestDigest'', JString (rq_requestDigest q)),
      (''fixedEgressProfile'', JString (rq_fixedEgressProfile q)), (''timeoutMs'', JNumber (rq_timeoutMs q))]"

definition pay_metadata_json :: "transition_metadata \<Rightarrow> js_value" where
  "pay_metadata_json m = JObject
     (jfield ''authorization'' authorization_json (mt_authorization m)
      @ jfield ''relayRequest'' relay_json (mt_relayRequest m)
      @ jfield ''receipt'' receipt_json (mt_receipt m) @ jfield ''failureCode'' JString (mt_failureCode m)
      @ jfield ''sanitizedFailure'' JString (mt_sanitizedFailure m)
      @ jfield ''paymentTransactionHash'' (jopt JString) (mt_paymentTransactionHash m)
      @ jfield ''settlementTransactionHash'' (jopt JString) (mt_settlementTransactionHash m)
      @ jfield ''reconciliationConfirmed'' JBool (mt_reconciliationConfirmed m)
      @ jfield ''reconcilerAddress'' JString (mt_reconcilerAddress m)
      @ (if mt_payload m = JUndefined then [] else [(''payload'', mt_payload m)]))"

record pay_transition_request =
  py_attemptId :: string
  py_expectedStatus :: payment_status
  py_nextStatus :: payment_status
  py_idempotencyKey :: string
  py_correlationId :: string
  py_metadata :: transition_metadata

definition pay_transition_json :: "pay_transition_request \<Rightarrow> js_value" where
  "pay_transition_json i = JObject
     [(''operation'', JString ''transition''), (''attemptId'', JString (py_attemptId i)),
      (''expectedStatus'', JString (payment_status_name (py_expectedStatus i))),
      (''nextStatus'', JString (payment_status_name (py_nextStatus i))),
      (''correlationId'', JString (py_correlationId i)), (''metadata'', pay_metadata_json (py_metadata i))]"

definition pay_transition_args :: "payment_repo \<Rightarrow> int \<Rightarrow> attempt \<Rightarrow> pay_transition_request \<Rightarrow> payment_transition_input" where
  "pay_transition_args cfg now a i =
     \<lparr>pt_attempt = a, pt_sellerConfiguration = pf_sellerConfiguration cfg, pt_nextStatus = py_nextStatus i,
      pt_nowUnix = now, pt_idempotencyKey = py_idempotencyKey i, pt_correlationId = py_correlationId i,
      pt_metadata = py_metadata i, pt_reconcilerAddresses = pf_reconcilers cfg\<rparr>"

definition pay_transition ::
    "runtime \<Rightarrow> payment_repo \<Rightarrow> string \<Rightarrow> int \<Rightarrow> payment_state \<Rightarrow> pay_transition_request \<Rightarrow> payment_exn + pay_prepared" where
  "pay_transition rt cfg uuid now st i =
     bindE (pay_idempotencyKeySchema (py_idempotencyKey i)) (\<lambda>key.
     case attempt_of st (py_attemptId i) of
       None \<Rightarrow> Inl (payment_error P_UNKNOWN_ATTEMPT)
     | Some a \<Rightarrow>
       bindE (pay_js (digest_of rt (pay_transition_json i))) (\<lambda>digest.
       case ps_actions st key of
         Some prior \<Rightarrow>
           if pk_digest prior \<noteq> digest \<or> pk_attemptId prior \<noteq> py_attemptId i
           then Inl (payment_error P_IDEMPOTENCY_CONFLICT)
           else Inr (PayReplay (pk_attempt prior) (pk_event prior))
       | None \<Rightarrow>
           if at_status a \<noteq> py_expectedStatus i then Inl stale_attempt else
           bindE (pay_trustedNowUnix now) (\<lambda>now.
           bindE (transitionPaymentAttempt rt uuid (pay_transition_args cfg now a i)) (\<lambda>(next, event).
           Inr (PayPrepared \<lparr>cm_actionKey = key, cm_actionDigest = digest, cm_expectedAttempt = Some a,
             cm_attempt = next, cm_event = event, cm_challenge = None,
             cm_receipt = mt_receipt (py_metadata i), cm_requestDigest = None\<rparr>)))))"

section \<open>Events, challenges and receipts\<close>

definition pay_appendEvent :: "runtime \<Rightarrow> payment_state \<Rightarrow> payment_event \<Rightarrow> payment_exn + payment_event" where
  "pay_appendEvent rt st event =
     bindE (paymentEventSchema rt event) (\<lambda>parsed.
     if attempt_of st (pe_attemptId parsed) = None then Inl (payment_error P_UNKNOWN_ATTEMPT)
     else if \<not> starts_with ''action:'' (pe_eventKey parsed) then Inl (payment_error P_EVENT_CONFLICT)
     else (case pay_idempotencyKeySchema (drop 7 (pe_eventKey parsed)) of
       Inl _ \<Rightarrow> Inl (payment_error P_EVENT_CONFLICT)
     | Inr action \<Rightarrow>
         (case ps_actions st action of
            None \<Rightarrow> Inl (payment_error P_EVENT_CONFLICT)
          | Some prior \<Rightarrow>
              bindE (require (pk_attemptId prior = pe_attemptId parsed) P_EVENT_CONFLICT) (\<lambda>_.
              bindE (pay_sameEvent rt (pk_event prior) parsed) (\<lambda>same.
              bindE (require same P_EVENT_CONFLICT) (\<lambda>_.
              case ps_events st (pe_eventKey parsed) of
                None \<Rightarrow> Inl (payment_error P_EVENT_CONFLICT)
              | Some previous \<Rightarrow>
                  bindE (pay_sameEvent rt previous parsed) (\<lambda>same.
                  bindE (require same P_EVENT_CONFLICT) (\<lambda>_. Inr previous))))))))"

definition saveChallenge :: "runtime \<Rightarrow> payment_state \<Rightarrow> challenge \<Rightarrow> payment_exn + payment_state \<times> challenge \<times> bool" where
  "saveChallenge rt st c =
     bindE (paymentChallengeSchema rt c) (\<lambda>parsed.
     bindE (assertChallengeDigest rt parsed) (\<lambda>_.
     case ps_challenges st (pc_challengeId parsed) of
       Some prior \<Rightarrow>
         bindE (require (pc_challengeDigest prior = pc_challengeDigest parsed) P_EVENT_CONFLICT) (\<lambda>_.
         Inr (st, prior, True))
     | None \<Rightarrow>
         bindE (require (ps_challengeDigests st (pc_challengeDigest parsed) \<in> {None, Some (pc_challengeId parsed)})
                  P_EVENT_CONFLICT) (\<lambda>_.
         Inr (put_challenge st parsed, parsed, False))))"

definition saveReceipt :: "runtime \<Rightarrow> payment_state \<Rightarrow> receipt \<Rightarrow> payment_exn + payment_state \<times> receipt \<times> bool" where
  "saveReceipt rt st receipt =
     bindE (paymentReceiptSchema rt receipt) (\<lambda>parsed.
     case attempt_of st (pr_attemptId parsed) of
       None \<Rightarrow> Inl (payment_error P_UNKNOWN_ATTEMPT)
     | Some a \<Rightarrow> applyReceiptToMaps rt st parsed a)"

definition getChallenge :: "payment_state \<Rightarrow> string \<Rightarrow> challenge option" where
  "getChallenge st k = ps_challenges st k"

definition getReceiptByAttempt :: "payment_state \<Rightarrow> string \<Rightarrow> receipt option" where
  "getReceiptByAttempt st k = ps_receipts st k"

definition getAttempt :: "payment_state \<Rightarrow> string \<Rightarrow> attempt option" where
  "getAttempt st k = attempt_of st k"

section \<open>Reconciliations\<close>

fun pay_reconciliation_table :: "reconciliation_state \<Rightarrow> reconciliation_state list" where
  "pay_reconciliation_table RecPending = [RecInProgress, RecReconciled, RecFailed, RecManualReview]"
| "pay_reconciliation_table RecInProgress = [RecReconciled, RecFailed, RecManualReview]"
| "pay_reconciliation_table RecReconciled = []"
| "pay_reconciliation_table RecFailed = [RecInProgress, RecManualReview]"
| "pay_reconciliation_table RecManualReview = []"

record pay_enqueue_input =
  qe_attemptId :: string
  qe_reasonCode :: string
  qe_nextAttemptAtUnix :: "int option"
  qe_observedPaymentTransactionHash :: "string option"
  qe_observedSettlementTransactionHash :: "string option"
  qe_detailDigest :: "string option"
  qe_nowUnix :: int

definition pay_enqueue ::
    "runtime \<Rightarrow> string \<Rightarrow> payment_state \<Rightarrow> pay_enqueue_input \<Rightarrow> payment_exn + payment_state \<times> payment_reconciliation" where
  "pay_enqueue rt uuid st i =
     (let identity = qe_attemptId i @ '':'' @ qe_reasonCode i in
      case map_of (ps_reconciliations st) identity of
        Some prior \<Rightarrow> Inr (st, prior)
      | None \<Rightarrow>
          bindE (paymentReconciliationSchema rt
            \<lparr>px_reconciliationId = uuid, px_attemptId = qe_attemptId i, px_state = RecPending,
             px_reasonCode = qe_reasonCode i, px_attemptCount = 0, px_nextAttemptAtUnix = qe_nextAttemptAtUnix i,
             px_observedPaymentTransactionHash = qe_observedPaymentTransactionHash i,
             px_observedSettlementTransactionHash = qe_observedSettlementTransactionHash i,
             px_detailDigest = qe_detailDigest i, px_createdAtUnix = qe_nowUnix i,
             px_updatedAtUnix = qe_nowUnix i\<rparr>) (\<lambda>next.
          Inr (st\<lparr>ps_reconciliations := AList.update identity next (ps_reconciliations st)\<rparr>, next)))"

definition pay_due :: "int \<Rightarrow> payment_reconciliation \<Rightarrow> bool" where
  "pay_due now x \<longleftrightarrow> (px_state x = RecPending \<or> px_state x = RecFailed)
     \<and> nullable (\<lambda>n. n \<le> now) (px_nextAttemptAtUnix x)"

definition pay_listDue :: "int \<Rightarrow> payment_state \<Rightarrow> payment_reconciliation list" where
  "pay_listDue now st = filter (pay_due now) (map snd (ps_reconciliations st))"

definition pay_assertReconciler :: "payment_repo \<Rightarrow> string \<Rightarrow> payment_exn + unit" where
  "pay_assertReconciler cfg a =
     bindE (pay_normalizeAddress a) (\<lambda>n. require (n \<in> set (pf_reconcilers cfg)) P_INVALID_AUTHORIZATION)"

text \<open>The last three members are \<open>None\<close> when undefined.\<close>

record pay_update_input =
  qu_reconciliationId :: string
  qu_state :: reconciliation_state
  qu_nowUnix :: int
  qu_nextAttemptAtUnix :: "int option"
  qu_reconcilerAddress :: string
  qu_observedPaymentTransactionHash :: "string option option"
  qu_observedSettlementTransactionHash :: "string option option"
  qu_detailDigest :: "string option option"

definition keep_undefined :: "'a option \<Rightarrow> 'a \<Rightarrow> 'a" where
  "keep_undefined x y = (case x of None \<Rightarrow> y | Some z \<Rightarrow> z)"

definition pay_update ::
    "runtime \<Rightarrow> payment_repo \<Rightarrow> payment_state \<Rightarrow> pay_update_input \<Rightarrow> payment_exn + payment_state \<times> payment_reconciliation" where
  "pay_update rt cfg st i =
     bindE (pay_assertReconciler cfg (qu_reconcilerAddress i)) (\<lambda>_.
     case find (\<lambda>x. px_reconciliationId x = qu_reconciliationId i) (map snd (ps_reconciliations st)) of
       None \<Rightarrow> Inl (payment_error P_RECONCILIATION_REQUIRED)
     | Some prior \<Rightarrow>
         bindE (require (table_allows pay_reconciliation_table (px_state prior) (qu_state i)) P_ILLEGAL_TRANSITION) (\<lambda>_.
         bindE (paymentReconciliationSchema rt (prior\<lparr>px_state := qu_state i,
            px_attemptCount := px_attemptCount prior + 1, px_nextAttemptAtUnix := qu_nextAttemptAtUnix i,
            px_observedPaymentTransactionHash :=
              keep_undefined (qu_observedPaymentTransactionHash i) (px_observedPaymentTransactionHash prior),
            px_observedSettlementTransactionHash :=
              keep_undefined (qu_observedSettlementTransactionHash i) (px_observedSettlementTransactionHash prior),
            px_detailDigest := keep_undefined (qu_detailDigest i) (px_detailDigest prior),
            px_updatedAtUnix := qu_nowUnix i\<rparr>)) (\<lambda>next.
         Inr (st\<lparr>ps_reconciliations := AList.update (px_attemptId prior @ '':'' @ px_reasonCode prior) next
                   (ps_reconciliations st)\<rparr>, next))))"

section \<open>Interleaved operations\<close>

interpretation pay_reconciliation_final:
  absorbing_table pay_reconciliation_table "\<lambda>s. s = RecReconciled \<or> s = RecManualReview"
  by unfold_locales auto

type_synonym pay_configuration = "payment_state \<times> payment_commit list"

inductive pay_repo_step :: "runtime \<Rightarrow> payment_repo \<Rightarrow> pay_configuration \<Rightarrow> pay_configuration \<Rightarrow> bool" for rt cfg where
  PayCreate: "pay_create rt cfg u now st a = Inr (PayPrepared c) \<Longrightarrow> pay_repo_step rt cfg (st, cs) (st, c # cs)"
| PayTransition: "pay_transition rt cfg u now st i = Inr (PayPrepared c) \<Longrightarrow> pay_repo_step rt cfg (st, cs) (st, c # cs)"
| PayCommit: "c \<in> set cs \<Longrightarrow> pay_commit rt cfg st c = Inr st' \<Longrightarrow> pay_repo_step rt cfg (st, cs) (st', remove1 c cs)"
| PayRefuse: "c \<in> set cs \<Longrightarrow> pay_commit rt cfg st c = Inl e \<Longrightarrow> pay_repo_step rt cfg (st, cs) (st, remove1 c cs)"
| SaveChallenge: "saveChallenge rt st d = Inr (st', x) \<Longrightarrow> pay_repo_step rt cfg (st, cs) (st', cs)"
| SaveReceipt: "saveReceipt rt st r = Inr (st', y) \<Longrightarrow> pay_repo_step rt cfg (st, cs) (st', cs)"
| PayEnqueue: "pay_enqueue rt u st q = Inr (st', z) \<Longrightarrow> pay_repo_step rt cfg (st, cs) (st', cs)"
| PayUpdate: "pay_update rt cfg st v = Inr (st', z) \<Longrightarrow> pay_repo_step rt cfg (st, cs) (st', cs)"

abbreviation pay_run :: "runtime \<Rightarrow> payment_repo \<Rightarrow> pay_configuration \<Rightarrow> pay_configuration \<Rightarrow> bool" where
  "pay_run rt cfg \<equiv> (pay_repo_step rt cfg)\<^sup>*\<^sup>*"

lemma key_digest: "receiptDigest rt r = Inr (sha256 rt (json_text (json_norm (receipt_json r))))"
  by (simp add: receiptDigest_def digest_of_Inr)

text \<open>The maps an operation does not touch.\<close>

lemma put_receipt_keeps [simp]:
  "ps_attempts (put_receipt st r d) = ps_attempts st" "ps_events (put_receipt st r d) = ps_events st"
  "ps_actions (put_receipt st r d) = ps_actions st" "ps_challenges (put_receipt st r d) = ps_challenges st"
  "ps_receipts (put_receipt st r d) = (ps_receipts st)(pr_attemptId r \<mapsto> r)"
  "ps_attempts (drop_receipt st r d) = ps_attempts st" "ps_events (drop_receipt st r d) = ps_events st"
  "ps_actions (drop_receipt st r d) = ps_actions st" "ps_challenges (drop_receipt st r d) = ps_challenges st"
  "ps_receipts (drop_receipt st r d) = ps_receipts st"
  "ps_attempts (put_challenge st c) = ps_attempts st" "ps_events (put_challenge st c) = ps_events st"
  "ps_actions (put_challenge st c) = ps_actions st" "ps_receipts (put_challenge st c) = ps_receipts st"
  by (simp_all add: put_receipt_def drop_receipt_def put_challenge_def)

lemma apply_receipt:
  assumes "applyReceiptToMaps rt st r a = Inr (st', y, b)"
  obtains trusted where "validateReceipt rt (r\<lparr>pr_challengeId := js_trim (pr_challengeId r),
      pr_facilitatorRequestReference := map_option js_trim (pr_facilitatorRequestReference r)\<rparr>) (at_pin a)
      (at_attemptId a) (pc_challengeId (at_challenge a)) = Inr trusted"
    "pr_attemptId trusted = at_attemptId a"
    "ps_attempts st' = ps_attempts st" "ps_events st' = ps_events st" "ps_actions st' = ps_actions st"
    "ps_receipts st' = ps_receipts st \<and> ps_receipts st (at_attemptId a) \<noteq> None
     \<or> ps_receipts st' = (ps_receipts st)(at_attemptId a \<mapsto> trusted)
       \<and> (\<forall>p. ps_receipts st (at_attemptId a) = Some p \<longrightarrow> pr_status p \<noteq> ReceiptSettled \<and> pr_status trusted = ReceiptSettled)"
proof -
  from assms obtain parsed trusted where p: "paymentReceiptSchema rt r = Inr parsed"
    and v: "validateReceipt rt parsed (at_pin a) (at_attemptId a) (pc_challengeId (at_challenge a)) = Inr trusted"
    by (auto simp: applyReceiptToMaps_def)
  have parsed: "parsed = r\<lparr>pr_challengeId := js_trim (pr_challengeId r),
      pr_facilitatorRequestReference := map_option js_trim (pr_facilitatorRequestReference r)\<rparr>"
    using p by (simp add: paymentReceiptSchema_def)
  have id: "pr_attemptId trusted = at_attemptId a"
    using v by (auto simp: validateReceipt_def paymentReceiptSchema_def)
  have "ps_attempts st' = ps_attempts st \<and> ps_events st' = ps_events st \<and> ps_actions st' = ps_actions st
    \<and> (ps_receipts st' = ps_receipts st \<and> ps_receipts st (at_attemptId a) \<noteq> None
     \<or> ps_receipts st' = (ps_receipts st)(at_attemptId a \<mapsto> trusted)
       \<and> (\<forall>p. ps_receipts st (at_attemptId a) = Some p \<longrightarrow> pr_status p \<noteq> ReceiptSettled \<and> pr_status trusted = ReceiptSettled))"
  proof (cases "ps_receipts st (at_attemptId a)")
    case None
    with assms p v id show ?thesis
      by (auto simp: applyReceiptToMaps_def key_digest split: if_splits)
  next
    case (Some prior)
    with assms p v id show ?thesis
      by (auto simp: applyReceiptToMaps_def key_digest split: if_splits)
  qed
  with v id parsed that show ?thesis by blast
qed

definition pay_committed :: "string \<Rightarrow> payment_commit \<Rightarrow> payment_state \<Rightarrow> payment_state" where
  "pay_committed action i st = st\<lparr>ps_attempts := AList.update (at_attemptId (cm_attempt i)) (cm_attempt i) (ps_attempts st),
     ps_events := (ps_events st)(pe_eventKey (cm_event i) \<mapsto> cm_event i),
     ps_actions := (ps_actions st)(action \<mapsto>
       \<lparr>pk_digest = cm_actionDigest i, pk_requestDigest = cm_requestDigest i,
        pk_attemptId = at_attemptId (cm_attempt i), pk_attempt = cm_attempt i, pk_event = cm_event i\<rparr>)\<rparr>"

lemma pay_commit_Inr:
  assumes "pay_commit rt cfg st i = Inr st'"
  obtains action st2 where "pay_idempotencyKeySchema (cm_actionKey i) = Inr action"
    "is_ok (paymentAttemptSchema rt (cm_attempt i))" "checkExpectedAttempt rt st i = Inr ()"
    "pe_attemptId (cm_event i) = at_attemptId (cm_attempt i)" "pe_eventKey (cm_event i) = ''action:'' @ action"
    "ps_events st (''action:'' @ action) = None" "ps_actions st action = None"
    "st' = pay_committed action i st2" "ps_attempts st2 = ps_attempts st" "ps_events st2 = ps_events st"
    "ps_actions st2 = ps_actions st"
    "ps_receipts st2 = ps_receipts st \<or> (\<exists>trusted. pr_attemptId trusted = at_attemptId (cm_attempt i)
       \<and> ps_receipts st2 = (ps_receipts st)(at_attemptId (cm_attempt i) \<mapsto> trusted)
       \<and> (\<forall>p. ps_receipts st (at_attemptId (cm_attempt i)) = Some p \<longrightarrow> pr_status p \<noteq> ReceiptSettled))"
proof -
  from assms obtain action st1 st2 where k: "pay_idempotencyKeySchema (cm_actionKey i) = Inr action"
    and s: "is_ok (paymentAttemptSchema rt (cm_attempt i))" and x: "checkExpectedAttempt rt st i = Inr ()"
    and e: "pe_attemptId (cm_event i) = at_attemptId (cm_attempt i)" "pe_eventKey (cm_event i) = ''action:'' @ action"
    and fresh: "ps_events st (''action:'' @ action) = None" "ps_actions st action = None"
    and st1: "commit_challenge st (cm_challenge i) = Inr st1"
    and st2: "(case cm_receipt i of None \<Rightarrow> Inr st1
            | Some r \<Rightarrow> bindE (applyReceiptToMaps rt st1 r (cm_attempt i)) (\<lambda>x. Inr (fst x))) = Inr st2"
    and st': "st' = pay_committed action i st2"
    by (auto simp: pay_commit_def is_ok_iff pay_committed_def)
  have one: "ps_attempts st1 = ps_attempts st" "ps_events st1 = ps_events st" "ps_actions st1 = ps_actions st"
    "ps_receipts st1 = ps_receipts st"
    using st1 by (auto simp: commit_challenge_def split: option.splits if_splits)
  show ?thesis
  proof (cases "cm_receipt i")
    case None
    with st2 one show ?thesis by (intro that [OF k s x e fresh st']) auto
  next
    case (Some r)
    with st2 obtain y b where ap: "applyReceiptToMaps rt st1 r (cm_attempt i) = Inr (st2, y, b)"
      by (auto simp: prod_eq_iff)
    from ap show ?thesis
      by (rule apply_receipt) (rule that [OF k s x e fresh st'], use one in auto)
  qed
qed

section \<open>The repository follows the lifecycle\<close>

definition attempts_distinguished :: "runtime \<Rightarrow> bool" where
  "attempts_distinguished rt \<longleftrightarrow> (\<forall>a b. no_collision rt (attempt_json a) (attempt_json b))"

lemma same_attempt_digest:
  assumes "attempts_distinguished rt" "attempt_digest rt a = Inr d" "attempt_digest rt b = Inr d"
  shows "a = b"
  using assms digest_of_eq_norm [of rt "attempt_json a" d "attempt_json b"]
  by (auto simp: attempt_digest_def attempts_distinguished_def attempt_json_norm)

lemma checkExpectedAttempt_Some:
  assumes "attempts_distinguished rt" "checkExpectedAttempt rt st i = Inr ()" "cm_expectedAttempt i = Some e"
  shows "attempt_of st (at_attemptId (cm_attempt i)) = Some e"
  using assms same_attempt_digest by (auto simp: checkExpectedAttempt_def split: option.splits)

lemma checkExpectedAttempt_None:
  "checkExpectedAttempt rt st i = Inr () \<Longrightarrow> cm_expectedAttempt i = None
   \<Longrightarrow> attempt_of st (at_attemptId (cm_attempt i)) = None"
  by (auto simp: checkExpectedAttempt_def split: option.splits)

definition pay_lifecycle_commit :: "runtime \<Rightarrow> payment_repo \<Rightarrow> payment_commit \<Rightarrow> bool" where
  "pay_lifecycle_commit rt cfg c \<longleftrightarrow> (case cm_expectedAttempt c of
       None \<Rightarrow> valid_attempt rt (cm_attempt c)
     | Some e \<Rightarrow> pay_step rt (pf_sellerConfiguration cfg) (pf_reconcilers cfg) e (cm_attempt c))"

lemma create_pay_lifecycle:
  "pay_create rt cfg u now st a = Inr (PayPrepared c) \<Longrightarrow> pay_lifecycle_commit rt cfg c"
  by (auto simp: pay_create_def pay_lifecycle_commit_def valid_attempt_def split: option.splits if_splits
      dest: attempt_schema.norm_idem)

lemma transition_pay_lifecycle:
  "pay_transition rt cfg u now st i = Inr (PayPrepared c) \<Longrightarrow> pay_lifecycle_commit rt cfg c"
  using pay_step.intros [of rt u "pay_transition_args cfg now _ i"]
  by (fastforce simp: pay_transition_def pay_lifecycle_commit_def pay_transition_args_def pay_trustedNowUnix_def
      split: option.splits if_splits prod.splits)

definition all_pay_lifecycle :: "runtime \<Rightarrow> payment_repo \<Rightarrow> pay_configuration \<Rightarrow> bool" where
  "all_pay_lifecycle rt cfg c \<longleftrightarrow> (\<forall>i \<in> set (snd c). pay_lifecycle_commit rt cfg i)"

lemma pay_step_lifecycle:
  "pay_repo_step rt cfg c c' \<Longrightarrow> all_pay_lifecycle rt cfg c \<Longrightarrow> all_pay_lifecycle rt cfg c'"
  by (induction rule: pay_repo_step.induct)
    (auto simp: all_pay_lifecycle_def create_pay_lifecycle transition_pay_lifecycle dest: notin_set_remove1)

lemma other_operations_keep:
  "saveChallenge rt st d = Inr (st', x) \<Longrightarrow> ps_attempts st' = ps_attempts st \<and> ps_actions st' = ps_actions st \<and> ps_events st' = ps_events st \<and> ps_receipts st' = ps_receipts st"
  "pay_enqueue rt u st q = Inr (st', z) \<Longrightarrow> ps_attempts st' = ps_attempts st \<and> ps_actions st' = ps_actions st \<and> ps_events st' = ps_events st \<and> ps_receipts st' = ps_receipts st"
  "pay_update rt cfg st v = Inr (st', z) \<Longrightarrow> ps_attempts st' = ps_attempts st \<and> ps_actions st' = ps_actions st \<and> ps_events st' = ps_events st \<and> ps_receipts st' = ps_receipts st"
  by (auto simp: saveChallenge_def pay_enqueue_def pay_update_def Let_def split: option.splits)

lemma saveReceipt_keeps:
  assumes "saveReceipt rt st r = Inr (st', y)"
  shows "ps_attempts st' = ps_attempts st" "ps_actions st' = ps_actions st" "ps_events st' = ps_events st"
    "ps_receipts st k = Some s \<Longrightarrow> pr_status s = ReceiptSettled \<Longrightarrow> ps_receipts st' k = Some s"
proof -
  from assms obtain p a z b where ap: "applyReceiptToMaps rt st p a = Inr (st', z, b)"
    by (cases y) (auto simp: saveReceipt_def split: option.splits)
  from ap show "ps_attempts st' = ps_attempts st" by (rule apply_receipt)
  from ap show "ps_actions st' = ps_actions st" by (rule apply_receipt)
  from ap show "ps_events st' = ps_events st" by (rule apply_receipt)
  assume s: "ps_receipts st k = Some s" "pr_status s = ReceiptSettled"
  from ap show "ps_receipts st' k = Some s"
    by (rule apply_receipt) (use s in \<open>auto split: if_splits\<close>)
qed

lemma committed_attempt:
  "attempt_of (pay_committed action i st) k = (if k = at_attemptId (cm_attempt i) then Some (cm_attempt i) else attempt_of st k)"
  by (simp add: pay_committed_def update_conv')

lemma pay_step_follows:
  assumes "attempts_distinguished rt"
  shows "pay_repo_step rt cfg c c' \<Longrightarrow> all_pay_lifecycle rt cfg c \<Longrightarrow> attempt_of (fst c) k = Some a \<Longrightarrow>
    \<exists>b. attempt_of (fst c') k = Some b \<and> (b = a \<or> pay_step rt (pf_sellerConfiguration cfg) (pf_reconcilers cfg) a b)"
proof (induction rule: pay_repo_step.induct)
  case (PayCommit c cs st st')
  from PayCommit(1,3) have life: "pay_lifecycle_commit rt cfg c" by (simp add: all_pay_lifecycle_def)
  from PayCommit(2) show ?case
  proof (rule pay_commit_Inr)
    fix action st2
    assume ce: "checkExpectedAttempt rt st c = Inr ()" and st': "st' = pay_committed action c st2"
      and same: "ps_attempts st2 = ps_attempts st"
    show ?thesis
    proof (cases "k = at_attemptId (cm_attempt c)")
      case True
      with ce PayCommit(4) obtain e where e: "cm_expectedAttempt c = Some e"
        using checkExpectedAttempt_None by fastforce
      with checkExpectedAttempt_Some [OF assms ce e] True PayCommit(4) life st' show ?thesis
        by (auto simp: pay_lifecycle_commit_def committed_attempt)
    qed (use PayCommit(4) st' same in \<open>auto simp: committed_attempt\<close>)
  qed
next
  case (SaveReceipt st r st' y cs)
  then show ?case using saveReceipt_keeps(1) [OF SaveReceipt(1)] by auto
qed (auto dest: other_operations_keep)

lemma pay_run_follows:
  assumes "attempts_distinguished rt" "pay_run rt cfg c c'" "all_pay_lifecycle rt cfg c" "attempt_of (fst c) k = Some a"
  shows "all_pay_lifecycle rt cfg c' \<and> (\<exists>b. attempt_of (fst c') k = Some b
    \<and> pay_life rt (pf_sellerConfiguration cfg) (pf_reconcilers cfg) a b)"
  using assms(2)
proof (induction rule: rtranclp_induct)
  case base
  then show ?case using assms(3,4) by blast
next
  case (step y z)
  then obtain b where b: "attempt_of (fst y) k = Some b" "pay_life rt (pf_sellerConfiguration cfg) (pf_reconcilers cfg) a b" by blast
  from pay_step_follows [OF assms(1) step(2) _ b(1)] step(3) obtain d where
    "attempt_of (fst z) k = Some d" "d = b \<or> pay_step rt (pf_sellerConfiguration cfg) (pf_reconcilers cfg) b d" by blast
  with b(2) pay_step_lifecycle [OF step(2)] step(3) show ?case
    by (auto intro: rtranclp.rtrancl_into_rtrancl)
qed

text \<open>A settled receipt and an idempotency record are never replaced.\<close>

lemma pay_repo_step_keeps:
  "pay_repo_step rt cfg c c' \<Longrightarrow> ps_receipts (fst c) k = Some s \<Longrightarrow> pr_status s = ReceiptSettled
   \<Longrightarrow> ps_receipts (fst c') k = Some s"
proof (induction rule: pay_repo_step.induct)
  case (PayCommit c cs st st')
  from PayCommit(2) show ?case
    by (rule pay_commit_Inr) (use PayCommit(3,4) in \<open>auto simp: pay_committed_def split: if_splits\<close>)
next
  case (SaveReceipt st r st' y cs)
  then show ?case using saveReceipt_keeps(4) [OF SaveReceipt(1)] by auto
qed (auto dest: other_operations_keep)

lemma pay_repo_step_actions:
  "pay_repo_step rt cfg c c' \<Longrightarrow> ps_actions (fst c) k = Some s \<Longrightarrow> ps_actions (fst c') k = Some s"
proof (induction rule: pay_repo_step.induct)
  case (PayCommit c cs st st')
  from PayCommit(2) show ?case
    by (rule pay_commit_Inr) (use PayCommit(3) in \<open>auto simp: pay_committed_def\<close>)
next
  case (SaveReceipt st r st' y cs)
  then show ?case using saveReceipt_keeps(2) [OF SaveReceipt(1)] by auto
qed (auto dest: other_operations_keep)

lemma pay_run_keeps:
  "pay_run rt cfg c c' \<Longrightarrow> ps_receipts (fst c) k = Some s \<Longrightarrow> pr_status s = ReceiptSettled
   \<Longrightarrow> ps_receipts (fst c') k = Some s"
  "pay_run rt cfg c c' \<Longrightarrow> ps_actions (fst c) j = Some r \<Longrightarrow> ps_actions (fst c') j = Some r"
  by (induction rule: rtranclp_induct) (auto dest: pay_repo_step_keeps pay_repo_step_actions)

text \<open>Every stored attempt is valid, and every pending commit follows the lifecycle.\<close>

definition payment_history :: "runtime \<Rightarrow> payment_repo \<Rightarrow> pay_configuration \<Rightarrow> bool" where
  "payment_history rt cfg c \<longleftrightarrow> all_pay_lifecycle rt cfg c \<and> (\<forall>k a. attempt_of (fst c) k = Some a \<longrightarrow> valid_attempt rt a)"

lemma pay_lifecycle_valid: "pay_lifecycle_commit rt cfg c \<Longrightarrow> valid_attempt rt (cm_attempt c)"
  by (auto simp: pay_lifecycle_commit_def split: option.splits elim!: pay_stepE) (erule pay_transition_result)

lemma pay_step_history:
  "pay_repo_step rt cfg c c' \<Longrightarrow> payment_history rt cfg c \<Longrightarrow> payment_history rt cfg c'"
proof -
  assume s: "pay_repo_step rt cfg c c'" and h: "payment_history rt cfg c"
  have "\<forall>k a. attempt_of (fst c') k = Some a \<longrightarrow> valid_attempt rt a"
    using s h
  proof (induction rule: pay_repo_step.induct)
    case (PayCommit c cs st st')
    then have v: "valid_attempt rt (cm_attempt c)"
      using pay_lifecycle_valid by (auto simp: payment_history_def all_pay_lifecycle_def)
    from PayCommit(2) show ?case
      by (rule pay_commit_Inr) (use PayCommit(3) v in \<open>auto simp: payment_history_def committed_attempt\<close>)
  next
    case (SaveReceipt st r st' y cs)
    then show ?case using saveReceipt_keeps(1) [OF SaveReceipt(1)] by (auto simp: payment_history_def)
  qed (auto simp: payment_history_def dest: other_operations_keep)
  with s h pay_step_lifecycle show ?thesis by (auto simp: payment_history_def)
qed

lemma pay_run_history: "pay_run rt cfg c c' \<Longrightarrow> payment_history rt cfg c \<Longrightarrow> payment_history rt cfg c'"
  by (induction rule: rtranclp_induct) (auto dest: pay_step_history)

lemma empty_payment_history: "payment_history rt cfg (empty_payments, [])"
  by (simp add: payment_history_def all_pay_lifecycle_def empty_payments_def)

text \<open>The receipt a commit stores; the hash has to tell receipts apart.\<close>

definition receipts_distinguished :: "runtime \<Rightarrow> bool" where
  "receipts_distinguished rt \<longleftrightarrow> (\<forall>a b. no_collision rt (receipt_json a) (receipt_json b))"

lemma same_receipt_digest:
  assumes "receipts_distinguished rt" "receiptDigest rt a = Inr d" "receiptDigest rt b = Inr d"
  shows "a = b"
  using assms digest_of_eq_norm [of rt "receipt_json a" d "receipt_json b"]
  by (auto simp: receiptDigest_def receipts_distinguished_def json_eq simp del: json_norm.simps)

lemma apply_receipt_stored:
  assumes "receipts_distinguished rt" "applyReceiptToMaps rt st r a = Inr (st', y, b)"
  shows "ps_receipts st' (at_attemptId a) = Some y"
    "validateReceipt rt (r\<lparr>pr_challengeId := js_trim (pr_challengeId r),
      pr_facilitatorRequestReference := map_option js_trim (pr_facilitatorRequestReference r)\<rparr>) (at_pin a)
      (at_attemptId a) (pc_challengeId (at_challenge a)) = Inr y"
    "ps_receipts st (at_attemptId a) = Some p \<Longrightarrow> pr_status p = ReceiptSettled \<Longrightarrow> y = p"
proof -
  from assms(2) obtain parsed trusted where p: "paymentReceiptSchema rt r = Inr parsed"
    and v: "validateReceipt rt parsed (at_pin a) (at_attemptId a) (pc_challengeId (at_challenge a)) = Inr trusted"
    by (auto simp: applyReceiptToMaps_def)
  have parsed: "parsed = r\<lparr>pr_challengeId := js_trim (pr_challengeId r),
      pr_facilitatorRequestReference := map_option js_trim (pr_facilitatorRequestReference r)\<rparr>"
    using p by (simp add: paymentReceiptSchema_def)
  have id: "pr_attemptId trusted = at_attemptId a"
    using v by (auto simp: validateReceipt_def paymentReceiptSchema_def)
  have same: "receiptDigest rt q = receiptDigest rt trusted \<Longrightarrow> q = trusted" for q
    using same_receipt_digest [OF assms(1), of q _ trusted] key_digest [of rt trusted] by metis
  have "ps_receipts st' (at_attemptId a) = Some y \<and> y = trusted
      \<and> (ps_receipts st (at_attemptId a) = Some p \<longrightarrow> pr_status p = ReceiptSettled \<longrightarrow> y = p)" for p
  proof (cases "ps_receipts st (at_attemptId a)")
    case None
    with assms(2) p v id show ?thesis
      by (auto simp: applyReceiptToMaps_def key_digest split: if_splits)
  next
    case (Some prior)
    with assms(2) p v id same [of prior] show ?thesis
      by (auto simp: applyReceiptToMaps_def key_digest split: if_splits)
  qed
  with v parsed show "ps_receipts st' (at_attemptId a) = Some y"
    "validateReceipt rt (r\<lparr>pr_challengeId := js_trim (pr_challengeId r),
      pr_facilitatorRequestReference := map_option js_trim (pr_facilitatorRequestReference r)\<rparr>) (at_pin a)
      (at_attemptId a) (pc_challengeId (at_challenge a)) = Inr y"
    "ps_receipts st (at_attemptId a) = Some p \<Longrightarrow> pr_status p = ReceiptSettled \<Longrightarrow> y = p" by blast+
qed

lemma pay_commit_receipt:
  assumes "pay_commit rt cfg st c = Inr st'" "cm_receipt c = Some r"
  obtains st1 st2 y b where "ps_receipts st1 = ps_receipts st" "applyReceiptToMaps rt st1 r (cm_attempt c) = Inr (st2, y, b)"
    "ps_receipts st' = ps_receipts st2"
proof -
  from assms obtain st1 x where st1: "commit_challenge st (cm_challenge c) = Inr st1"
    and x: "applyReceiptToMaps rt st1 r (cm_attempt c) = Inr x" and st': "ps_receipts st' = ps_receipts (fst x)"
    by (auto simp: pay_commit_def)
  have "ps_receipts st1 = ps_receipts st"
    using st1 by (auto simp: commit_challenge_def split: option.splits if_splits)
  with x st' show ?thesis by (cases x) (auto intro: that)
qed

text \<open>What a validated receipt keeps of the receipt it was made from.\<close>

lemma validated_receipt_fields:
  assumes "validateReceipt rt r p aid cid = Inr y"
  shows "pr_status y = pr_status r" "pr_attemptId y = pr_attemptId r" "pr_challengeId y = js_trim (pr_challengeId r)"
    "pr_paymentTransactionHash y = pr_paymentTransactionHash r"
    "pr_settlementTransactionHash y = pr_settlementTransactionHash r" "pr_payoutVerified y = pr_payoutVerified r"
    "pr_payoutAddress y = pr_payoutAddress r" "pr_actualRecipient y = map_option js_lower (pr_actualRecipient r)"
    "pr_settlementAsset y = js_lower (pr_settlementAsset r)" "pr_settlementNetwork y = pr_settlementNetwork r"
    "pr_amountAtomic y = pr_amountAtomic r" "pr_settledAtUnix y = pr_settledAtUnix r" "pr_responseStatus y = pr_responseStatus r"
proof -
  have ok: "actual_recipient_ok q pin = Inr z \<longleftrightarrow> z = map_option js_lower (pr_actualRecipient q) \<and> is_ok (actual_recipient_ok q pin)" for q pin z
    by (auto simp: actual_recipient_ok_def is_ok_iff split: option.splits)
  from assms obtain a e u where "y = r\<lparr>pr_challengeId := js_trim (pr_challengeId r),
      pr_facilitatorRequestReference := map_option js_trim (pr_facilitatorRequestReference r),
      pr_settlementAsset := js_lower (pr_settlementAsset r), pr_expectedRecipient := e,
      pr_actualRecipient := map_option js_lower (pr_actualRecipient r), pr_destination := u\<rparr>"
    unfolding validateReceipt_def paymentReceiptSchema_def bindE_eq_Inr by (subst (asm) ok) auto
  then show "pr_status y = pr_status r" "pr_attemptId y = pr_attemptId r" "pr_challengeId y = js_trim (pr_challengeId r)"
    "pr_paymentTransactionHash y = pr_paymentTransactionHash r"
    "pr_settlementTransactionHash y = pr_settlementTransactionHash r" "pr_payoutVerified y = pr_payoutVerified r"
    "pr_payoutAddress y = pr_payoutAddress r" "pr_actualRecipient y = map_option js_lower (pr_actualRecipient r)"
    "pr_settlementAsset y = js_lower (pr_settlementAsset r)" "pr_settlementNetwork y = pr_settlementNetwork r"
    "pr_amountAtomic y = pr_amountAtomic r" "pr_settledAtUnix y = pr_settledAtUnix r" "pr_responseStatus y = pr_responseStatus r"
    by simp_all
qed

lemma evidence_validated:
  assumes "validateReceipt rt r (at_pin a) (at_attemptId a) (pc_challengeId (at_challenge a)) = Inr y"
    "pr_status r = ReceiptSettled"
  shows "evidence_for y a"
  using validated_receipt [OF assms] validated_receipt_fields [OF assms(1)] assms(2)
  by (auto simp: evidence_for_def option.map_comp comp_def)

lemma evidence_identity: "attempt_identity a = attempt_identity b \<Longrightarrow> evidence_for r a = evidence_for r b"
  by (simp add: evidence_for_def attempt_identity_def)

lemma prepared_transition:
  assumes "pay_transition rt cfg u now st i = Inr (PayPrepared c)"
  obtains a event where "attempt_of st (py_attemptId i) = Some a"
    "transitionPaymentAttempt rt u (pay_transition_args cfg now a i) = Inr (cm_attempt c, event)"
    "cm_receipt c = mt_receipt (py_metadata i)" "cm_expectedAttempt c = Some a"
  using assms
  by (auto simp: pay_transition_def pay_trustedNowUnix_def split: option.splits if_splits prod.splits)

text \<open>The receipt that a settling transition commits.\<close>

lemma committed_settlement:
  assumes "receipts_distinguished rt" "pay_transition rt cfg u now st i = Inr (PayPrepared c)"
    and "py_nextStatus i = Settled \<or> py_nextStatus i = Delivered" "pay_commit rt cfg st1 c = Inr st2"
  obtains r where "ps_receipts st2 (at_attemptId (cm_attempt c)) = Some r" "evidence_for r (cm_attempt c)"
    "py_nextStatus i = Delivered \<longrightarrow> (\<exists>n. pr_responseStatus r = Some n \<and> 200 \<le> n \<and> n < 300)"
    "\<forall>p. ps_receipts st1 (at_attemptId (cm_attempt c)) = Some p \<longrightarrow> pr_status p = ReceiptSettled \<longrightarrow> r = p"
proof -
  from assms(2) obtain a event where t: "transitionPaymentAttempt rt u (pay_transition_args cfg now a i) = Inr (cm_attempt c, event)"
    and rc: "cm_receipt c = mt_receipt (py_metadata i)" by (rule prepared_transition)
  from t have g: "assertPaymentTransition rt (pay_transition_args cfg now a i) = Inr ()" by (rule pay_transition_result)
  have args: "pt_nextStatus (pay_transition_args cfg now a i) = py_nextStatus i"
    "pt_metadata (pay_transition_args cfg now a i) = py_metadata i" "pt_nowUnix (pay_transition_args cfg now a i) = now"
    "pt_attempt (pay_transition_args cfg now a i) = a"
    by (simp_all add: pay_transition_args_def)
  from g assms(3) obtain r where r: "mt_receipt (py_metadata i) = Some r"
    and target: "target_allowed a (py_nextStatus i) now (py_metadata i) = Inr ()"
    by (auto simp: assertPaymentTransition_Inr Let_def args)
  have s: "pr_status r = ReceiptSettled"
    "py_nextStatus i = Delivered \<Longrightarrow> \<exists>n. pr_responseStatus r = Some n \<and> 200 \<le> n \<and> n < 300"
    using target assms(3) r by (auto simp: target_allowed_def split: option.splits)
  have "cm_receipt c = Some r" using rc r by simp
  with assms(4) obtain sta stb y b where
    st: "ps_receipts sta = ps_receipts st1" "applyReceiptToMaps rt sta r (cm_attempt c) = Inr (stb, y, b)"
      "ps_receipts st2 = ps_receipts stb" by (rule pay_commit_receipt)
  note y = apply_receipt_stored [OF assms(1) st(2)]
  show ?thesis
  proof (rule that)
    show "ps_receipts st2 (at_attemptId (cm_attempt c)) = Some y" using y(1) st(3) by simp
    show "evidence_for y (cm_attempt c)" using evidence_validated [OF y(2)] s(1) by simp
    show "py_nextStatus i = Delivered \<longrightarrow> (\<exists>n. pr_responseStatus y = Some n \<and> 200 \<le> n \<and> n < 300)"
      using s(2) validated_receipt_fields(13) [OF y(2)] by simp
    show "\<forall>p. ps_receipts st1 (at_attemptId (cm_attempt c)) = Some p \<longrightarrow> pr_status p = ReceiptSettled \<longrightarrow> y = p"
      using y(3) st(1) by simp
  qed
qed

end
