(* ===== verification/Payment_Replay.thy ===== *)
theory Payment_Replay
  imports Payment_Lifecycle
begin

text \<open>
  packages/payment-gateway/src/replay.ts: the replay protection of payment authorizations. The store is
  the map from replay keys to reservations.
\<close>

datatype replay_state = Inflight | Consumed | ReplayRejected

record reservation =
  rs_replayKey :: string
  rs_attemptId :: string
  rs_state :: replay_state
  rs_expiresAtUnix :: int
  rs_responseDigest :: "string option"
  rs_createdAtUnix :: int
  rs_updatedAtUnix :: int

type_synonym replay_store = "string \<Rightarrow> reservation option"

text \<open>\<open>contentDigestSchema.parse\<close>\<close>

definition parse_digest :: "string \<Rightarrow> payment_exn + string" where
  "parse_digest s = (if contentDigestSchema s then Inr s else Inl PaymentSchemaError)"

definition normalizeReplayKey :: "string \<Rightarrow> payment_exn + string" where
  "normalizeReplayKey s = parse_digest (js_lower s)"

definition replay_json :: "payment_pin \<Rightarrow> string \<Rightarrow> string \<Rightarrow> string \<Rightarrow> string \<Rightarrow> string \<Rightarrow> string \<Rightarrow> js_value" where
  "replay_json pin destination facilitator pinDigest authorizationDigest nonce credentialDigest = JObject
     [(''rail'', JString (rail_name (pp_rail pin))), (''settlementNetwork'', JNumber (pp_settlementNetwork pin)),
      (''settlementAsset'', JString (js_lower (pp_settlementAsset pin))),
      (''settlementDecimals'', JNumber (pp_settlementDecimals pin)),
      (''amountAtomic'', JString (pp_amountAtomic pin)), (''recipient'', JString (js_lower (pp_recipient pin))),
      (''method'', JString (method_name (pp_method pin))), (''destination'', JString destination),
      (''facilitatorEndpoint'', JString facilitator),
      (''fixedEgressProfile'', JString (pp_fixedEgressProfile pin)),
      (''paymentPinDigest'', JString pinDigest), (''configurationDigest'', JString (pp_configurationDigest pin)),
      (''authorizationDigest'', JString authorizationDigest), (''nonce'', JString nonce),
      (''credentialDigest'', JString (js_lower credentialDigest))]"

definition paymentReplayKey :: "runtime \<Rightarrow> attempt \<Rightarrow> authorization \<Rightarrow> payment_exn + string" where
  "paymentReplayKey rt at a =
     bindE (paymentAttemptSchema rt at) (\<lambda>trustedAttempt.
     bindE (assertValidatedPaymentAuthorization a) (\<lambda>_.
     bindE (validatePaymentPin rt (at_pin trustedAttempt)) (\<lambda>trustedPin.
     bindE (paymentAuthorizationSchema rt a) (\<lambda>trustedAuthorization.
     bindE (if paymentChallengeNonceSchema (pc_nonce (at_challenge trustedAttempt))
            then Inr (js_trim (pc_nonce (at_challenge trustedAttempt))) else Inl PaymentSchemaError) (\<lambda>nonce.
     bindE (require (pa_attemptId trustedAuthorization = at_attemptId trustedAttempt
                     \<and> pa_challengeId trustedAuthorization = pc_challengeId (at_challenge trustedAttempt)
                     \<and> pa_challengeDigest trustedAuthorization = at_challengeDigest trustedAttempt)
              P_INVALID_AUTHORIZATION) (\<lambda>_.
     bindE (normalizeUrl rt (pp_destination trustedPin)) (\<lambda>d.
     bindE (normalizeUrl rt (pp_facilitatorEndpoint trustedPin)) (\<lambda>f.
     bindE (paymentAuthorizationDigest rt trustedAuthorization) (\<lambda>ad.
     pay_js (digest_of rt (replay_json trustedPin d f (at_pinDigest trustedAttempt) ad nonce
       (pa_credentialDigest trustedAuthorization))))))))))))"

section \<open>The store\<close>

definition replay_key :: "runtime \<Rightarrow> attempt \<Rightarrow> authorization \<Rightarrow> payment_exn + string" where
  "replay_key rt at a = bindE (paymentReplayKey rt at a) normalizeReplayKey"

definition replay_reserve ::
    "runtime \<Rightarrow> replay_store \<Rightarrow> attempt \<Rightarrow> authorization \<Rightarrow> int \<Rightarrow> int \<Rightarrow> payment_exn + replay_store \<times> reservation" where
  "replay_reserve rt st at a expires now =
     bindE (replay_key rt at a) (\<lambda>key.
     bindE (paymentAttemptSchema rt at) (\<lambda>attempt.
     bindE (require (expires = pc_expiresAtUnix (at_challenge attempt)) P_INVALID_EXPIRY) (\<lambda>_.
     bindE (require (isSafeInteger now \<and> 0 < now \<and> isSafeInteger expires \<and> now < expires) P_CHALLENGE_EXPIRED) (\<lambda>_.
     case st key of
       Some existing \<Rightarrow>
         bindE (require (rs_attemptId existing = at_attemptId attempt \<and> rs_state existing = Inflight
                         \<and> now < rs_expiresAtUnix existing) P_REPLAY_DETECTED) (\<lambda>_. Inr (st, existing))
     | None \<Rightarrow>
         (let entry = \<lparr>rs_replayKey = key, rs_attemptId = at_attemptId attempt, rs_state = Inflight,
            rs_expiresAtUnix = expires, rs_responseDigest = None, rs_createdAtUnix = now, rs_updatedAtUnix = now\<rparr>
          in Inr (st(key \<mapsto> entry), entry))))))"

definition requireOwner :: "replay_store \<Rightarrow> string \<Rightarrow> string \<Rightarrow> payment_exn + reservation" where
  "requireOwner st key attemptId =
     bindE (normalizeReplayKey key) (\<lambda>k.
     case st k of None \<Rightarrow> Inl (payment_error P_REPLAY_DETECTED)
     | Some existing \<Rightarrow> bindE (require (rs_attemptId existing = attemptId) P_REPLAY_DETECTED) (\<lambda>_. Inr existing))"

text \<open>The common body of \<open>markConsumed\<close> and \<open>markRejected\<close>.\<close>

definition replay_finish ::
    "runtime \<Rightarrow> replay_store \<Rightarrow> replay_state \<Rightarrow> attempt \<Rightarrow> authorization \<Rightarrow> string option \<Rightarrow> int
     \<Rightarrow> payment_exn + replay_store \<times> reservation" where
  "replay_finish rt st target at a digest now =
     bindE (paymentAttemptSchema rt at) (\<lambda>attempt.
     bindE (replay_key rt attempt a) (\<lambda>key.
     bindE (requireOwner st key (at_attemptId attempt)) (\<lambda>existing.
     if rs_state existing = target
     then bindE (require (rs_responseDigest existing = digest) P_REPLAY_DETECTED) (\<lambda>_. Inr (st, existing))
     else bindE (require (rs_state existing = Inflight) P_REPLAY_DETECTED) (\<lambda>_.
       let next = existing\<lparr>rs_state := target, rs_responseDigest := digest, rs_updatedAtUnix := now\<rparr>
       in Inr (st(key \<mapsto> next), next)))))"

definition markConsumed ::
    "runtime \<Rightarrow> replay_store \<Rightarrow> attempt \<Rightarrow> authorization \<Rightarrow> string \<Rightarrow> int \<Rightarrow> payment_exn + replay_store \<times> reservation" where
  "markConsumed rt st at a responseDigest now =
     bindE (parse_digest (js_lower responseDigest)) (\<lambda>d. replay_finish rt st Consumed at a (Some d) now)"

definition markRejected ::
    "runtime \<Rightarrow> replay_store \<Rightarrow> attempt \<Rightarrow> authorization \<Rightarrow> string option \<Rightarrow> int \<Rightarrow> payment_exn + replay_store \<times> reservation" where
  "markRejected rt st at a responseDigest now =
     bindE (case responseDigest of None \<Rightarrow> Inr None
            | Some s \<Rightarrow> bindE (parse_digest (js_lower s)) (\<lambda>d. Inr (Some d))) (\<lambda>d.
     replay_finish rt st ReplayRejected at a d now)"

definition replay_get :: "runtime \<Rightarrow> replay_store \<Rightarrow> attempt \<Rightarrow> authorization \<Rightarrow> payment_exn + reservation option" where
  "replay_get rt st at a = bindE (replay_key rt at a) (\<lambda>key. Inr (st key))"

text \<open>One call on the store.\<close>

inductive replay_step :: "runtime \<Rightarrow> replay_store \<Rightarrow> replay_store \<Rightarrow> bool" for rt where
  ReplayReserve: "replay_reserve rt st at a expires now = Inr (st', r) \<Longrightarrow> replay_step rt st st'"
| ReplayConsume: "markConsumed rt st at a d now = Inr (st', r) \<Longrightarrow> replay_step rt st st'"
| ReplayReject: "markRejected rt st at a d' now = Inr (st', r) \<Longrightarrow> replay_step rt st st'"

abbreviation replay_run :: "runtime \<Rightarrow> replay_store \<Rightarrow> replay_store \<Rightarrow> bool" where
  "replay_run rt \<equiv> (replay_step rt)\<^sup>*\<^sup>*"

section \<open>What a call keeps\<close>

text \<open>A reservation never disappears, keeps its owner and expiry, and is never reopened.\<close>

definition reservation_kept :: "reservation \<Rightarrow> reservation \<Rightarrow> bool" where
  "reservation_kept r s \<longleftrightarrow> rs_attemptId s = rs_attemptId r \<and> rs_expiresAtUnix s = rs_expiresAtUnix r
     \<and> rs_replayKey s = rs_replayKey r \<and> (rs_state r \<noteq> Inflight \<longrightarrow> s = r)"

lemma reservation_kept_refl [simp]: "reservation_kept r r"
  by (simp add: reservation_kept_def)

lemma reservation_kept_trans: "reservation_kept r s \<Longrightarrow> reservation_kept s t \<Longrightarrow> reservation_kept r t"
  by (auto simp: reservation_kept_def)

lemma replay_key_digest: "replay_key rt at a = Inr k \<Longrightarrow> normalizeReplayKey k = Inr k"
  by (auto simp: replay_key_def normalizeReplayKey_def parse_digest_def contentDigest_lower)

lemma finish_kept:
  assumes "replay_finish rt st target at a d now = Inr (st', r)" "st k = Some x"
  shows "\<exists>y. st' k = Some y \<and> reservation_kept x y"
proof -
  from assms(1) obtain at' key e where key: "replay_key rt at' a = Inr key" and e: "requireOwner st key (at_attemptId at') = Inr e"
    and cases: "st' = st \<or> rs_state e = Inflight \<and> st' = st(key \<mapsto> e\<lparr>rs_state := target, rs_responseDigest := d, rs_updatedAtUnix := now\<rparr>)"
    by (auto simp: replay_finish_def Let_def split: if_splits)
  have "st key = Some e"
    using e replay_key_digest [OF key] by (auto simp: requireOwner_def split: option.splits)
  with cases assms(2) show ?thesis by (auto simp: reservation_kept_def)
qed

lemma replay_step_kept:
  assumes "replay_step rt st st'" "st k = Some x"
  shows "\<exists>y. st' k = Some y \<and> reservation_kept x y"
  using assms
proof (induction rule: replay_step.induct)
  case (ReplayReserve st at a expires now st' r)
  then show ?case by (auto simp: replay_reserve_def Let_def split: option.splits)
next
  case (ReplayConsume st at a d now st' r)
  then show ?case by (auto simp: markConsumed_def intro: finish_kept)
next
  case (ReplayReject st at a d' now st' r)
  then show ?case by (auto simp: markRejected_def intro: finish_kept)
qed

lemma replay_run_kept:
  "replay_run rt st st' \<Longrightarrow> st k = Some x \<Longrightarrow> \<exists>y. st' k = Some y \<and> reservation_kept x y"
proof (induction rule: rtranclp_induct)
  case base
  then show ?case by simp
next
  case (step y z)
  then obtain u where u: "y k = Some u" "reservation_kept x u" by blast
  from replay_step_kept [OF step(2) u(1)] u(2) show ?case using reservation_kept_trans by blast
qed

end
