(* ===== verification/Payment_Examples.thy ===== *)
theory Payment_Examples
  imports Payment_Repository Payment_Replay Commerce_Examples
begin

text \<open>
  A concrete seller configuration, payment pin, challenge and attempt, and a platform whose hash maps
  the texts of these values to one digest and every other text to itself, on which the properties of
  the payment gateway are instantiated.
\<close>

abbreviation demo_digest :: string where
  "demo_digest \<equiv> replicate 64 CHR ''a''"

definition demo_config :: seller_config where
  "demo_config = \<lparr>sc_enabled = True, sc_merchantEnvironment = ''m1'', sc_merchantAccountReference = ''m1'',
     sc_merchantCredentialReference = Some ''env://K'', sc_facilitatorEndpoint = ''https://f'',
     sc_settlementNetwork = 97, sc_settlementAsset = demo_address CHR ''1'', sc_settlementDecimals = 18,
     sc_payoutAddress = demo_address CHR ''2'', sc_payoutVerificationState = PayoutVerified,
     sc_fixedEgressProfile = ''e1'', sc_publicX402Url = ''https://p'',
     sc_relayAuthenticationReference = Some ''env://K'', sc_priceUsd = ''1'', sc_configurationVersion = 1,
     sc_canaryStatus = CanaryPassed\<rparr>"

definition demo_ppin :: payment_pin where
  "demo_ppin = \<lparr>pp_enabled = True, pp_requestId = ''r1'', pp_configurationVersion = 1,
     pp_configurationDigest = demo_digest, pp_rail = X402_B402, pp_settlementNetwork = 97,
     pp_settlementAsset = demo_address CHR ''1'', pp_settlementDecimals = 18, pp_amountAtomic = ''100'',
     pp_recipient = demo_address CHR ''3'', pp_method = Eip3009, pp_destination = ''https://p'',
     pp_facilitatorEndpoint = ''https://f'', pp_fixedEgressProfile = ''e1'',
     pp_payoutAddress = demo_address CHR ''2'', pp_payoutVerificationState = PayoutVerified,
     pp_maxChallengeLifetimeSeconds = 600\<rparr>"

text \<open>The recipient's letter is a parameter: with \<open>A\<close> it is spelled in upper case.\<close>

definition demo_challenge :: "char \<Rightarrow> challenge" where
  "demo_challenge x = \<lparr>pc_challengeId = ''c1'', pc_rail = X402_B402, pc_version = ''v1'', pc_settlementNetwork = 97,
     pc_settlementAsset = demo_address CHR ''1'', pc_settlementDecimals = 18, pc_amountAtomic = ''100'',
     pc_recipient = demo_address x, pc_method = Eip3009, pc_destination = ''https://p'',
     pc_facilitatorEndpoint = ''https://f'', pc_nonce = ''nonce-01'', pc_issuedAtUnix = 1000,
     pc_expiresAtUnix = 1500, pc_challengeDigest = demo_digest\<rparr>"

definition pin_to :: "char \<Rightarrow> payment_pin" where
  "pin_to x = demo_ppin\<lparr>pp_recipient := demo_address x\<rparr>"

definition demo_uuid2 :: string where
  "demo_uuid2 = replicate 36 CHR ''f''"

definition demo_attempt :: "payment_status \<Rightarrow> attempt" where
  "demo_attempt s = \<lparr>at_attemptId = demo_uuid, at_rail = X402_B402, at_requestId = ''r1'',
     at_idempotencyKey = ''pay-key-1'', at_challenge = demo_challenge CHR ''3'', at_challengeDigest = demo_digest,
     at_authorizationDigest = Some demo_digest, at_payerAddress = Some (demo_address CHR ''4''),
     at_pin = demo_ppin, at_pinDigest = demo_digest, at_status = s, at_relayRequestDigest = None,
     at_failureCode = None, at_sanitizedFailure = None, at_createdAtUnix = 1000, at_updatedAtUnix = 1000\<rparr>"

text \<open>An attempt for a recipient with a letter, whose challenge spells it as the parameter says.\<close>

definition mixed_attempt :: "char \<Rightarrow> attempt" where
  "mixed_attempt x = (demo_attempt Challenged)\<lparr>at_challenge := demo_challenge x, at_pin := pin_to CHR ''a''\<rparr>"

definition demo_authorization :: "int \<Rightarrow> authorization" where
  "demo_authorization t = \<lparr>pa_attemptId = demo_uuid, pa_challengeId = ''c1'', pa_challengeDigest = demo_digest,
     pa_payerAddress = demo_address CHR ''4'', pa_credentialDigest = replicate 64 CHR ''b'',
     pa_authorizedAtUnix = t, pa_validated = True\<rparr>"

definition demo_receipt_for :: "receipt_outcome \<Rightarrow> receipt" where
  "demo_receipt_for s = \<lparr>pr_receiptId = demo_uuid2, pr_attemptId = demo_uuid, pr_challengeId = ''c1'',
     pr_rail = X402_B402, pr_status = s, pr_settlementNetwork = 97, pr_settlementAsset = demo_address CHR ''1'',
     pr_settlementDecimals = 18, pr_amountAtomic = ''100'', pr_expectedRecipient = demo_address CHR ''3'',
     pr_actualRecipient = Some (demo_address CHR ''3''), pr_method = Eip3009, pr_destination = ''https://p'',
     pr_paymentTransactionHash = Some (demo_hash CHR ''a''), pr_settlementTransactionHash = None,
     pr_payoutAddress = Some (demo_address CHR ''2''), pr_payoutVerified = True,
     pr_facilitatorRequestReference = None, pr_responseStatus = Some 200, pr_responseDigest = None,
     pr_observedAtUnix = 1200, pr_settledAtUnix = Some 1200\<rparr>"

text \<open>The values whose hash has to be a digest.\<close>

definition demo_values :: "js_value list" where
  "demo_values = [config_json demo_config, payment_pin_json demo_ppin, payment_pin_json (pin_to CHR ''a''),
     JObject (challenge_unsigned_fields (demo_challenge CHR ''3'')),
     JObject (challenge_unsigned_fields (demo_challenge CHR ''A'')),
     JObject [(''challengeDigest'', JString demo_digest)],
     JObject [(''receiptDigest'', JString (json_text (json_norm (receipt_json (demo_receipt_for ReceiptSettled)))))],
     replay_json demo_ppin ''https://p'' ''https://f'' demo_digest
       (json_text (json_norm (authorization_json (demo_authorization 1100)))) ''nonce-01'' (replicate 64 CHR ''b'')]"

definition demo_url :: "string \<Rightarrow> url_parts option" where
  "demo_url s = (if starts_with ''https://'' s
     then Some \<lparr>url_protocol = ''https:'', url_username = '''', url_password = '''', url_without_hash = s\<rparr> else None)"

definition pay_rt :: runtime where
  "pay_rt = \<lparr>sha256 = (\<lambda>s. if list_ex (\<lambda>v. s = json_text (json_norm v)) demo_values then demo_digest else s),
     uuid_schema = (\<lambda>s. length s = 36), parse_url = demo_url\<rparr>"

named_theorems pay_simps \<open>the concrete payment evaluates\<close>

lemma demo_value_digest:
  assumes "v \<in> set demo_values"
  shows "sha256 pay_rt (json_text (json_norm v)) = demo_digest" "digest_of pay_rt v = Inr demo_digest"
proof -
  show "sha256 pay_rt (json_text (json_norm v)) = demo_digest"
    using assms by (auto simp: pay_rt_def list_ex_iff)
  moreover have "json_clean v"
    using assms by (auto simp: demo_values_def replay_json_def challenge_unsigned_fields_def)
  ultimately show "digest_of pay_rt v = Inr demo_digest" by (simp add: digest_of_Inr)
qed

lemma demo_digests [pay_simps]:
  "digest_of pay_rt (config_json demo_config) = Inr demo_digest"
  "digest_of pay_rt (payment_pin_json demo_ppin) = Inr demo_digest"
  "digest_of pay_rt (payment_pin_json (pin_to CHR ''a'')) = Inr demo_digest"
  "digest_of pay_rt (JObject (challenge_unsigned_fields (demo_challenge CHR ''3''))) = Inr demo_digest"
  "digest_of pay_rt (JObject (challenge_unsigned_fields (demo_challenge CHR ''A''))) = Inr demo_digest"
  "digest_of pay_rt (JObject [(''challengeDigest'', JString demo_digest)]) = Inr demo_digest"
  by (rule demo_value_digest, simp only: demo_values_def list.set insert_iff simp_thms)+

lemma pay_chars [pay_simps]: "is_hex CHR ''A''" "js_lower_char CHR ''A'' = CHR ''a''"
  by code_simp+

lemma pay_text [pay_simps]:
  "safeIdentifierSchema ''m1''" "safeIdentifierSchema ''e1''" "safeIdentifierSchema ''r1''" "safeIdentifierSchema ''c1''"
  "safeIdentifierSchema ''v1''" "js_trim ''m1'' = ''m1''" "js_trim ''e1'' = ''e1''" "js_trim ''v1'' = ''v1''"
  "js_trim ''nonce-01'' = ''nonce-01''" "js_trim ''pay-key-1'' = ''pay-key-1''"
  "js_trim ''action:pay-key-1'' = ''action:pay-key-1''" "safeIdentifierSchema ''action:pay-key-1''"
  "secretReferenceSchema ''env://K''" "js_trim ''env://K'' = ''env://K''" "paymentChallengeNonceSchema ''nonce-01''"
  "pay_idempotencyKeySchema ''pay-key-1'' = Inr ''pay-key-1''" "usd_price ''1''" "price_positive ''1''"
  by code_simp+

lemma pay_urls [pay_simps]:
  "httpUrlSchema pay_rt ''https://p''" "httpUrlSchema pay_rt ''https://f''"
  "normalizeUrl pay_rt ''https://p'' = Inr ''https://p''" "normalizeUrl pay_rt ''https://f'' = Inr ''https://f''"
  "normalizeHttpUrl pay_rt ''https://p'' = Inr ''https://p''" "normalizeHttpUrl pay_rt ''https://f'' = Inr ''https://f''"
  "parse_url pay_rt ''https://p'' \<noteq> None" "parse_url pay_rt ''https://f'' \<noteq> None"
  by (simp_all add: pay_rt_def demo_url_def starts_with_def httpUrlSchema_def is_http_def normalizeUrl_def normalizeHttpUrl_def)

lemma pay_uuid [pay_simps]: "uuid_schema pay_rt demo_uuid" "uuid_schema pay_rt demo_uuid2"
  by (simp_all add: pay_rt_def demo_uuid_def demo_uuid2_def)

lemma demo_config_ok [pay_simps]: "parseEnabledSellerConfiguration pay_rt demo_config = Inr demo_config"
  by (simp add: parseEnabledSellerConfiguration_def validateSellerConfiguration_def b402SellerConfigurationSchema_def
      demo_config_def trim_config_def bscChainIdSchema_def decimalsSchema_def config_ready_def assertSecretReference_def
      pay_simps demo_simps)

lemma demo_evm [pay_simps]:
  "is_hex c \<Longrightarrow> js_lower_char c \<noteq> CHR ''0'' \<Longrightarrow> pay_evmAddress (demo_address c) = Inr (demo_address (js_lower_char c))"
  using demo_address_schema [of c] by (simp add: pay_evmAddress_def nonZeroAddressSchema_def normalizeEvmAddress_def demo_address_lower)

lemma demo_ppin_normal [pay_simps]: "normal_pin pay_rt demo_ppin demo_ppin" "normal_pin pay_rt (pin_to CHR ''a'') (pin_to CHR ''a'')"
  by (simp_all add: normal_pin_def payment_pin_fields_def demo_ppin_def pin_to_def trim_payment_pin_def bscChainIdSchema_def
      decimalsSchema_def positiveDecimalUintSchema_def decimalUintSchema_def maxUint256_def pay_simps demo_simps)

lemma demo_ppin_trim [pay_simps]: "trim_payment_pin demo_ppin = demo_ppin" "trim_payment_pin (pin_to x) = pin_to x"
  by (simp_all add: trim_payment_pin_def demo_ppin_def pin_to_def pay_simps demo_simps)

lemma demo_ppin_digest [pay_simps]: "paymentPinDigest pay_rt demo_ppin = Inr demo_digest"
  "paymentPinDigest pay_rt (pin_to CHR ''a'') = Inr demo_digest"
  using demo_digests(2,3)
  by (simp_all add: paymentPinDigest_def demo_ppin_def pin_to_def demo_simps pay_simps)

lemma demo_ppin_config [pay_simps]:
  "validatePaymentPinAgainstSellerConfiguration pay_rt demo_ppin demo_config = Inr (demo_ppin, demo_config)"
  "validatePaymentPinAgainstSellerConfiguration pay_rt (pin_to CHR ''a'') demo_config = Inr (pin_to CHR ''a'', demo_config)"
proof -
  have v: "validatePaymentPin pay_rt demo_ppin = Inr demo_ppin" "validatePaymentPin pay_rt (pin_to CHR ''a'') = Inr (pin_to CHR ''a'')"
    by (simp_all add: validatePaymentPin_Inr pay_simps)
  have "b402SellerConfigurationDigest pay_rt demo_config = Inr demo_digest"
    using demo_digests(1) by (simp add: b402SellerConfigurationDigest_def demo_config_def demo_simps pay_simps)
  then have "pin_matches_config pay_rt demo_ppin demo_config = Inr ()" "pin_matches_config pay_rt (pin_to CHR ''a'') demo_config = Inr ()"
    by (simp_all add: pin_matches_config_def) (simp_all add: demo_ppin_def demo_config_def pin_to_def pay_simps demo_simps)
  with v show
  "validatePaymentPinAgainstSellerConfiguration pay_rt demo_ppin demo_config = Inr (demo_ppin, demo_config)"
  "validatePaymentPinAgainstSellerConfiguration pay_rt (pin_to CHR ''a'') demo_config = Inr (pin_to CHR ''a'', demo_config)"
   by (simp_all add: validatePaymentPinAgainstSellerConfiguration_def pay_simps)
qed

lemma demo_challenge_fields [pay_simps]:
  "trim_challenge (demo_challenge x) = demo_challenge x"
  "is_hex x \<Longrightarrow> js_lower_char x \<noteq> CHR ''0'' \<Longrightarrow> challenge_fields (demo_challenge x)"
  "pc_destination (demo_challenge x) = ''https://p''" "pc_facilitatorEndpoint (demo_challenge x) = ''https://f''"
  "pc_amountAtomic (demo_challenge x) = ''100''" "pc_challengeDigest (demo_challenge x) = demo_digest"
  "pc_expiresAtUnix (demo_challenge x) = 1500" "pc_issuedAtUnix (demo_challenge x) = 1000"
  "pc_challengeId (demo_challenge x) = ''c1''" "pc_recipient (demo_challenge x) = demo_address x"
  by (simp_all add: demo_challenge_def trim_challenge_def challenge_fields_def bscChainIdSchema_def decimalsSchema_def
      positiveDecimalUintSchema_def decimalUintSchema_def unixSecondsSchema_def max_safe_integer_def pay_simps demo_simps)

lemma demo_challenge_normal [pay_simps]:
  "normal_challenge pay_rt (demo_challenge x) (demo_challenge (js_lower_char x))"
  by (simp add: normal_challenge_def pay_simps) (simp add: demo_challenge_def demo_simps)

lemma demo_challenge_ok [pay_simps]:
  "now \<in> {1000, 1100} \<Longrightarrow> validateChallenge pay_rt (demo_challenge CHR ''3'') demo_ppin now = Inr (demo_challenge CHR ''3'')"
  "now \<in> {1000, 1100} \<Longrightarrow> validateChallenge pay_rt (demo_challenge CHR ''A'') (pin_to CHR ''a'') now = Inr (demo_challenge CHR ''a'')"
proof -
  have t: "now \<in> {1000, 1100} \<Longrightarrow> challenge_terms pay_rt (demo_challenge CHR ''3'') demo_ppin now"
     "now \<in> {1000, 1100} \<Longrightarrow> challenge_terms pay_rt (demo_challenge CHR ''A'') (pin_to CHR ''a'') now"
    by (auto simp: challenge_terms_def demo_challenge_def demo_ppin_def pin_to_def isSafeInteger_def max_safe_integer_def pay_simps demo_simps)
  have n: "normal_challenge pay_rt (demo_challenge CHR ''3'') (demo_challenge CHR ''3'')" 
    "normal_challenge pay_rt (demo_challenge CHR ''A'') (demo_challenge CHR ''a'')"
    using demo_challenge_normal [of "CHR ''3''"] demo_challenge_normal [of "CHR ''A''"] by (simp_all add: demo_simps pay_simps)
  show "now \<in> {1000, 1100} \<Longrightarrow> validateChallenge pay_rt (demo_challenge CHR ''3'') demo_ppin now = Inr (demo_challenge CHR ''3'')"
    unfolding validateChallenge_Inr using t(1) n(1)
    by (auto intro!: exI [of _ demo_ppin] simp: challengeUnsignedDigest_def maxUint256_def pay_simps demo_simps)
  show "now \<in> {1000, 1100} \<Longrightarrow> validateChallenge pay_rt (demo_challenge CHR ''A'') (pin_to CHR ''a'') now = Inr (demo_challenge CHR ''a'')"
    unfolding validateChallenge_Inr using t(2) n(2)
    by (auto intro!: exI [of _ "pin_to CHR ''a''"] simp: challengeUnsignedDigest_def maxUint256_def pay_simps demo_simps)
qed

lemma demo_attempt_fields [pay_simps]:
  "at_challenge (demo_attempt s) = demo_challenge CHR ''3''" "at_pin (demo_attempt s) = demo_ppin"
  "at_status (demo_attempt s) = s" "at_attemptId (demo_attempt s) = demo_uuid" "at_pinDigest (demo_attempt s) = demo_digest"
  "at_authorizationDigest (demo_attempt s) = Some demo_digest" "at_payerAddress (demo_attempt s) = Some (demo_address CHR ''4'')"
  "at_challenge (mixed_attempt x) = demo_challenge x" "at_pin (mixed_attempt x) = pin_to CHR ''a''"
  "at_challengeDigest (demo_attempt s) = demo_digest" "at_idempotencyKey (demo_attempt s) = ''pay-key-1''"
  "at_requestId (demo_attempt s) = ''r1''" "at_createdAtUnix (demo_attempt s) = 1000" "at_idempotencyKey (mixed_attempt x) = ''pay-key-1''"
  by (simp_all add: demo_attempt_def mixed_attempt_def)

lemma demo_attempt_trim [pay_simps]: "trim_attempt (demo_attempt s) = demo_attempt s" "trim_attempt (mixed_attempt x) = mixed_attempt x"
  by (simp_all add: trim_attempt_def pay_simps) (simp_all add: demo_attempt_def mixed_attempt_def pay_simps demo_simps)

lemma demo_attempt_valid [pay_simps]: "paymentAttemptSchema pay_rt (demo_attempt s) = Inr (demo_attempt s)"
  "x \<in> {CHR ''A'', CHR ''a''} \<Longrightarrow> paymentAttemptSchema pay_rt (mixed_attempt x) = Inr (mixed_attempt x)"
proof -
  have u: "httpUrlSchema pay_rt (pp_destination demo_ppin)" "httpUrlSchema pay_rt (pp_facilitatorEndpoint demo_ppin)"
     "httpUrlSchema pay_rt (pp_destination (pin_to x))" "httpUrlSchema pay_rt (pp_facilitatorEndpoint (pin_to x))" for x
    by (simp_all add: demo_ppin_def pin_to_def pay_simps)
  have t: "attempt_terms_match (demo_attempt s)" "x \<in> {CHR ''A'', CHR ''a''} \<Longrightarrow> attempt_terms_match (mixed_attempt x)"
    by (auto simp: attempt_terms_match_def pay_simps Let_def mixed_attempt_def demo_attempt_def demo_challenge_def demo_ppin_def pin_to_def pay_simps demo_simps)
  have f: "attempt_fields pay_rt (demo_attempt s)" "attempt_fields pay_rt (mixed_attempt x)"
    by (simp_all add: attempt_fields_def mixed_attempt_def demo_attempt_def unixSecondsSchema_def max_safe_integer_def pay_simps demo_simps)
  have p: "payment_pin_fields demo_ppin" "payment_pin_fields (pin_to CHR ''a'')"
    using demo_ppin_normal by (auto simp: normal_pin_def)
  have d: "at_pinDigest (mixed_attempt x) = demo_digest" by (simp add: mixed_attempt_def pay_simps)
  show "paymentAttemptSchema pay_rt (demo_attempt s) = Inr (demo_attempt s)"
   by (simp add: attempt_schema_Inr pay_simps demo_simps t f u p)
  show "paymentAttemptSchema pay_rt (mixed_attempt x) = Inr (mixed_attempt x)" if "x \<in> {CHR ''A'', CHR ''a''}"
    using that t(2) by (auto simp add: attempt_schema_Inr pay_simps demo_simps f u p d)
qed

definition demo_payments_cfg :: payment_repo where
  "demo_payments_cfg = \<lparr>pf_sellerConfiguration = demo_config, pf_reconcilers = [demo_address CHR ''4'']\<rparr>"

definition demo_request_digest :: "payment_status \<Rightarrow> string" where
  "demo_request_digest s = sha256 pay_rt (json_text (json_norm (JObject
     [(''operation'', JString ''create''), (''attempt'', JObject (attempt_request_fields (demo_attempt s)))])))"

definition demo_pay_commit :: "payment_status \<Rightarrow> payment_commit" where
  "demo_pay_commit s = \<lparr>cm_actionKey = ''pay-key-1'', cm_actionDigest = demo_request_digest s, cm_expectedAttempt = None,
     cm_attempt = demo_attempt s, cm_event = createdEvent demo_uuid2 ''pay-key-1'' demo_digest (demo_attempt s),
     cm_challenge = Some (demo_challenge CHR ''3''), cm_receipt = None, cm_requestDigest = Some (demo_request_digest s)\<rparr>"

lemma demo_created_event [pay_simps]:
  "paymentEventSchema pay_rt (createdEvent demo_uuid2 ''pay-key-1'' demo_digest (demo_attempt s))
   = Inr (createdEvent demo_uuid2 ''pay-key-1'' demo_digest (demo_attempt s))"
  by (simp add: paymentEventSchema_def createdEvent_def unixSecondsSchema_def max_safe_integer_def pay_simps demo_simps)

lemma demo_normalized [pay_simps]: "normalize_attempt pay_rt demo_payments_cfg (demo_attempt s) = Inr (demo_attempt s)"
proof -
  have u: "(demo_attempt s)\<lparr>at_challenge := demo_challenge CHR ''3'', at_pin := demo_ppin, at_pinDigest := demo_digest\<rparr> = demo_attempt s"
    by (simp add: demo_attempt_def)
  show ?thesis by (simp add: normalize_attempt_def demo_payments_cfg_def pay_simps u)
qed

lemma demo_pay_create [pay_simps]:
  "pay_create pay_rt demo_payments_cfg demo_uuid2 1000 empty_payments (demo_attempt s) = Inr (PayPrepared (demo_pay_commit s))"
proof -
  have u: "(demo_attempt s)\<lparr>at_challenge := demo_challenge CHR ''3'', at_createdAtUnix := 1000, at_updatedAtUnix := 1000\<rparr> = demo_attempt s"
    by (simp add: demo_attempt_def)
  have d: "pay_creationRequestDigest pay_rt (demo_attempt s) = Inr (demo_request_digest s)"
    by (simp add: pay_creationRequestDigest_def demo_request_digest_def digest_of_Inr attempt_request_fields_def)
  have c: "assertChallengeDigest pay_rt (demo_challenge CHR ''3'') = Inr ()"
    by (simp add: assertChallengeDigest_def challengeUnsignedDigest_def pay_simps)
  have n: "pay_trustedNowUnix 1000 = Inr 1000" by (simp add: pay_trustedNowUnix_def isSafeInteger_def max_safe_integer_def)
  have e: "\<not> creation_conflict empty_payments (demo_attempt s)"
    by (simp add: creation_conflict_def empty_payments_def challenge_conflict_def)
  have "ps_actions empty_payments k = None" for k by (simp add: empty_payments_def)
  then show ?thesis
    by (simp add: pay_create_def pay_simps u d c n e demo_pay_commit_def)
qed

definition demo_payments :: "payment_status \<Rightarrow> payment_state" where
  "demo_payments s = pay_committed ''pay-key-1'' (demo_pay_commit s) (put_challenge empty_payments (demo_challenge CHR ''3''))"

lemma demo_pay_committed [pay_simps]:
  "pay_commit pay_rt demo_payments_cfg empty_payments (demo_pay_commit s) = Inr (demo_payments s)"
proof -
  have c: "assertChallengeDigest pay_rt (demo_challenge CHR ''3'') = Inr ()"
    by (simp add: assertChallengeDigest_def challengeUnsignedDigest_def pay_simps)
  have p: "cm_actionKey (demo_pay_commit s) = ''pay-key-1''" "cm_attempt (demo_pay_commit s) = demo_attempt s"
    "cm_event (demo_pay_commit s) = createdEvent demo_uuid2 ''pay-key-1'' demo_digest (demo_attempt s)"
    "cm_challenge (demo_pay_commit s) = Some (demo_challenge CHR ''3'')" "cm_receipt (demo_pay_commit s) = None"
    "cm_expectedAttempt (demo_pay_commit s) = None" by (simp_all add: demo_pay_commit_def)
  have e: "pe_attemptId (createdEvent demo_uuid2 ''pay-key-1'' demo_digest (demo_attempt s)) = demo_uuid"
    "pe_eventKey (createdEvent demo_uuid2 ''pay-key-1'' demo_digest (demo_attempt s)) = ''action:pay-key-1''"
    by (simp_all add: createdEvent_def pay_simps)
  show ?thesis
    unfolding pay_commit_def demo_payments_def pay_committed_def
    by (simp add: p c e pay_simps checkExpectedAttempt_def commit_challenge_def challenge_conflict_def demo_payments_cfg_def)
      (simp add: empty_payments_def put_challenge_def)
qed

lemma demo_pay_run: "pay_run pay_rt demo_payments_cfg (empty_payments, []) (demo_payments s, [])"
proof -
  have "pay_repo_step pay_rt demo_payments_cfg (empty_payments, []) (empty_payments, [demo_pay_commit s])"
    by (rule pay_repo_step.PayCreate [OF demo_pay_create])
  moreover have "pay_repo_step pay_rt demo_payments_cfg (empty_payments, [demo_pay_commit s]) (demo_payments s, remove1 (demo_pay_commit s) [demo_pay_commit s])"
    by (rule pay_repo_step.PayCommit [OF _ demo_pay_committed]) simp
  ultimately show ?thesis by (simp add: rtranclp.rtrancl_into_rtrancl converse_rtranclp_into_rtranclp)
qed

text \<open>The hash of the example tells attempts and receipts apart: none of the values above has their fields.\<close>

lemma demo_values_distinct:
  assumes "json_clean w" "json_norm w = JObject kvs" "f \<in> fst ` set kvs" "f \<in> {''pinDigest'', ''receiptId'', ''authorizedAtUnix''}"
  shows "sha256 pay_rt (json_text (json_norm w)) = json_text (json_norm w)"
proof -
  have other: "json_text (json_norm w) \<noteq> json_text (json_norm v)"
    if "json_clean v" "\<And>kvs. json_norm v = JObject kvs \<Longrightarrow> f \<notin> fst ` set kvs" for v
  proof
    assume "json_text (json_norm w) = json_text (json_norm v)"
    then have "json_norm w = json_norm v"
      using canonical_text_decodes [of w _ v] that(1) canonical_is_text(1) assms(1)
      unfolding canonicalizeJson_def by metis
    with assms(2,3) that(2) show False by metis
  qed
  have "\<forall>v \<in> set demo_values. json_clean v \<and> (\<forall>kvs. json_norm v = JObject kvs \<longrightarrow> f \<notin> fst ` set kvs)"
    using assms(4) by (auto simp: demo_values_def config_json_def payment_pin_json_def challenge_unsigned_fields_def
        replay_json_def norm_fields_map)
  then show ?thesis using other by (auto simp: pay_rt_def list_ex_iff)
qed

lemma demo_attempts_distinguished [pay_simps]: "attempts_distinguished pay_rt"
proof -
  have "sha256 pay_rt (json_text (json_norm (attempt_json a))) = json_text (json_norm (attempt_json a))" for a
  proof -
    obtain kvs where k: "json_norm (attempt_json a) = JObject kvs" by (simp add: attempt_json_def)
    have "''pinDigest'' \<in> fst ` set kvs"
      using k by (auto simp: attempt_json_def attempt_request_fields_def norm_fields_map)
    from demo_values_distinct [OF _ k this] show ?thesis by simp
  qed
  then show ?thesis by (simp add: attempts_distinguished_def no_collision_def)
qed

lemma demo_receipt_text [pay_simps]:
  "sha256 pay_rt (json_text (json_norm (receipt_json r))) = json_text (json_norm (receipt_json r))"
proof -
  obtain kvs where k: "json_norm (receipt_json r) = JObject kvs" by (simp add: receipt_json_def)
  have "''receiptId'' \<in> fst ` set kvs"
    using k by (auto simp: receipt_json_def norm_fields_map)
  from demo_values_distinct [OF _ k this] show ?thesis by simp
qed

lemma demo_receipts_distinguished [pay_simps]: "receipts_distinguished pay_rt"
  using demo_receipt_text by (simp add: receipts_distinguished_def no_collision_def)

lemma demo_payments_attempt [pay_simps]: "attempt_of (demo_payments s) demo_uuid = Some (demo_attempt s)"
  by (simp add: demo_payments_def committed_attempt demo_pay_commit_def pay_simps)

text \<open>The transition of the stored attempt to settled with the receipt, and its commit.\<close>

abbreviation demo_payment_receipt :: receipt where
  "demo_payment_receipt \<equiv> demo_receipt_for ReceiptSettled"

definition no_payment_metadata :: transition_metadata where
  "no_payment_metadata = \<lparr>mt_authorization = None, mt_relayRequest = None, mt_receipt = None, mt_failureCode = None,
     mt_sanitizedFailure = None, mt_paymentTransactionHash = None, mt_settlementTransactionHash = None,
     mt_reconciliationConfirmed = None, mt_reconcilerAddress = None, mt_payload = JUndefined\<rparr>"

abbreviation settling :: "payment_status \<Rightarrow> payment_status \<Rightarrow> bool" where
  "settling s t \<equiv> s = SettlementPending \<and> t = Settled \<or> s = Settled \<and> t = Delivered"

definition demo_settle :: "payment_status \<Rightarrow> payment_status \<Rightarrow> pay_transition_request" where
  "demo_settle s t = \<lparr>py_attemptId = demo_uuid, py_expectedStatus = s, py_nextStatus = t,
     py_idempotencyKey = ''pay-key-2'', py_correlationId = ''c1'',
     py_metadata = no_payment_metadata\<lparr>mt_receipt := Some demo_payment_receipt\<rparr>\<rparr>"

lemma demo_settle_text [pay_simps]: "pay_idempotencyKeySchema ''pay-key-2'' = Inr ''pay-key-2''"
   "js_trim ''action:pay-key-2'' = ''action:pay-key-2''" "safeIdentifierSchema ''action:pay-key-2''"
   "pay_idempotencyKeySchema ''action:pay-key-2'' = Inr ''action:pay-key-2''"
  by code_simp+

lemma demo_tx_hash [pay_simps]: "transactionHashSchema (demo_hash CHR ''a'')"
  by code_simp

lemma demo_receipt_schema [pay_simps]: "paymentReceiptSchema pay_rt demo_payment_receipt = Inr demo_payment_receipt"
  by (simp add: paymentReceiptSchema_def demo_receipt_for_def bscChainIdSchema_def decimalsSchema_def
      positiveDecimalUintSchema_def decimalUintSchema_def unixSecondsSchema_def max_safe_integer_def pay_simps demo_simps)

lemma demo_receipt_valid [pay_simps]: "validateReceipt pay_rt demo_payment_receipt demo_ppin demo_uuid ''c1'' = Inr demo_payment_receipt"
proof -
  have "validatePaymentPin pay_rt demo_ppin = Inr demo_ppin" by (simp add: validatePaymentPin_Inr demo_ppin_normal)
  then show ?thesis
    by (simp add: validateReceipt_def pay_simps)
      (simp add: demo_receipt_for_def demo_ppin_def pay_simps demo_simps same_amount_def actual_recipient_ok_def settled_evidence_def)
qed

lemma demo_settle_allowed:
  assumes "settling s t"
  shows "assertPaymentTransition pay_rt (pay_transition_args demo_payments_cfg 1200 (demo_attempt s) (demo_settle s t)) = Inr ()"
proof -
  have f: "pr_attemptId demo_payment_receipt = demo_uuid" "pr_challengeId demo_payment_receipt = ''c1''" "pr_status demo_payment_receipt = ReceiptSettled"
    "pr_responseStatus demo_payment_receipt = Some 200"
    by (simp_all add: demo_receipt_for_def)
  show ?thesis
    using assms unfolding assertPaymentTransition_Inr Let_def
    by (auto simp: pay_transition_args_def demo_settle_def no_payment_metadata_def demo_payments_cfg_def pay_simps isSafeInteger_def
      max_safe_integer_def canTransitionPayment_def reconciliation_allowed_def receipt_checked_def f target_allowed_def)
qed

definition demo_settled_event :: "payment_status \<Rightarrow> payment_status \<Rightarrow> payment_event" where
  "demo_settled_event s t = \<lparr>pe_eventId = demo_uuid2, pe_eventKey = ''action:pay-key-2'', pe_attemptId = demo_uuid,
     pe_eventType = paymentEventTypeFor t, pe_previousStatus = Some s, pe_nextStatus = Some t,
     pe_paymentTransactionHash = Some (demo_hash CHR ''a''), pe_settlementTransactionHash = None,
     pe_payloadDigest = demo_digest,
     pe_payload = JObject [(''receiptDigest'', JString (json_text (json_norm (receipt_json demo_payment_receipt))))],
     pe_correlationId = ''c1'', pe_observedAtUnix = 1200\<rparr>"

lemma demo_settled_event_schema [pay_simps]: "paymentEventSchema pay_rt (demo_settled_event s t) = Inr (demo_settled_event s t)"
  by (simp add: paymentEventSchema_def demo_settled_event_def unixSecondsSchema_def max_safe_integer_def pay_simps demo_simps)

definition demo_settled :: "payment_status \<Rightarrow> attempt" where
  "demo_settled t = (demo_attempt t)\<lparr>at_updatedAtUnix := 1200\<rparr>"

lemma attempt_schema_updated:
  assumes "paymentAttemptSchema rt a = Inr a" "unixSecondsSchema t"
  shows "paymentAttemptSchema rt (a\<lparr>at_updatedAtUnix := t\<rparr>) = Inr (a\<lparr>at_updatedAtUnix := t\<rparr>)"
proof -
  have t: "trim_attempt (a\<lparr>at_updatedAtUnix := t\<rparr>) = (trim_attempt a)\<lparr>at_updatedAtUnix := t\<rparr>"
    "attempt_terms_match (a\<lparr>at_updatedAtUnix := t\<rparr>) = attempt_terms_match a"
    by (simp_all add: trim_attempt_def attempt_terms_match_def)
  from assms(1) have a: "trim_attempt a = a" "attempt_fields rt a" by (simp_all add: attempt_schema_Inr)
  from this(2) have "attempt_fields rt (a\<lparr>at_updatedAtUnix := t\<rparr>)" using assms(2) by (simp add: attempt_fields_def)
  with assms(1) t a(1) show ?thesis by (simp add: attempt_schema_Inr)
qed

lemma demo_settled_valid [pay_simps]: "paymentAttemptSchema pay_rt (demo_settled t) = Inr (demo_settled t)"
  unfolding demo_settled_def
  by (rule attempt_schema_updated [OF demo_attempt_valid(1)]) (simp add: unixSecondsSchema_def max_safe_integer_def)

lemma demo_settle_event [pay_simps]:
  "createPaymentEvent pay_rt demo_uuid2
        \<lparr>qi_eventKey = ''action:pay-key-2'', qi_attemptId = demo_uuid,
         qi_eventType = paymentEventTypeFor t, qi_previousStatus = Some s,
         qi_nextStatus = Some t,
         qi_paymentTransactionHash = Some (demo_hash CHR ''a''),
         qi_settlementTransactionHash = None,
         qi_payload = JObject [(''receiptDigest'', JString (json_text (json_norm (receipt_json demo_payment_receipt))))],
         qi_correlationId = ''c1'', qi_observedAtUnix = 1200\<rparr> = Inr (demo_settled_event s t)"
proof -
  have "\<not> FORBIDDEN_FIELD ''receiptDigest''" by code_simp
  then have "assertPublicPayloadSafe (JObject [(''receiptDigest'', JString s)]) = Inr ()" for s
    by (simp add: payload_safe_iff del: assertPublicPayloadSafe.simps)
  then have "pay_assertPublicPayloadSafe (JObject [(''receiptDigest'', JString s)]) = Inr ()" for s
    by (simp add: pay_assertPublicPayloadSafe_def del: assertPublicPayloadSafe.simps)
  moreover have "digest_of pay_rt (JObject [(''receiptDigest'', JString (json_text (json_norm (receipt_json demo_payment_receipt))))]) = Inr demo_digest"
    by (rule demo_value_digest) (simp only: demo_values_def list.set insert_iff simp_thms)
  ultimately show ?thesis
    using demo_settled_event_schema by (simp add: createPaymentEvent_def or_empty_def demo_settled_event_def)
qed

lemma demo_settle_transition:
  assumes "settling s t"
  shows "transitionPaymentAttempt pay_rt demo_uuid2 (pay_transition_args demo_payments_cfg 1200 (demo_attempt s) (demo_settle s t))
   = Inr ((demo_settled t), (demo_settled_event s t))"
proof -
  have n: "nextAttempt (pay_transition_args demo_payments_cfg 1200 (demo_attempt s) (demo_settle s t))
     (Some demo_digest) (Some (demo_address CHR ''4'')) = (demo_settled t)"
    by (simp add: nextAttempt_def pay_transition_args_def demo_settle_def no_payment_metadata_def demo_settled_def demo_attempt_def opt_or_def)
  have r: "pr_paymentTransactionHash demo_payment_receipt = Some (demo_hash CHR ''a'')" "pr_settlementTransactionHash demo_payment_receipt = None"
    by (simp_all add: demo_receipt_for_def)
  have d: "receiptDigest pay_rt demo_payment_receipt = Inr (json_text (json_norm (receipt_json demo_payment_receipt)))"
    by (simp add: key_digest demo_receipt_text)
  show ?thesis
    using demo_settle_allowed [OF assms] n
    by (simp add: transitionPaymentAttempt_def Let_def pay_simps)
     (simp add: pay_transition_args_def demo_settle_def no_payment_metadata_def opt_or_def or_null_def paymentEventPayload_def r d jfield_def pay_simps)
qed

lemma demo_pay_commit_fields [pay_simps]:
  "ps_actions (demo_payments s) k = (if k = ''pay-key-1'' then Some \<lparr>pk_digest = demo_request_digest s,
     pk_requestDigest = Some (demo_request_digest s), pk_attemptId = demo_uuid, pk_attempt = demo_attempt s,
     pk_event = createdEvent demo_uuid2 ''pay-key-1'' demo_digest (demo_attempt s)\<rparr> else None)"
  "k \<noteq> ''action:pay-key-1'' \<Longrightarrow> ps_events (demo_payments s) k = None" "ps_receipts (demo_payments s) k = None"
  "ps_receiptIds (demo_payments s) k = None" "ps_receiptDigests (demo_payments s) k = None"
  by (simp_all add: demo_payments_def pay_committed_def demo_pay_commit_def empty_payments_def createdEvent_def put_challenge_def pay_simps)

lemma demo_settle_committed:
  assumes "settling s t"
  shows "\<exists>c st. pay_transition pay_rt demo_payments_cfg demo_uuid2 1200 (demo_payments s) (demo_settle s t) = Inr (PayPrepared c)
     \<and> cm_receipt c = Some demo_payment_receipt \<and> cm_attempt c = (demo_settled t)
     \<and> pay_commit pay_rt demo_payments_cfg (demo_payments s) c = Inr st"
proof -
  obtain d where d: "digest_of pay_rt (pay_transition_json (demo_settle s t)) = Inr d"
    by (simp add: digest_of_Inr pay_transition_json_def demo_settle_def pay_metadata_json_def no_payment_metadata_def jfield_def)
  define c where "c = \<lparr>cm_actionKey = ''pay-key-2'', cm_actionDigest = d, cm_expectedAttempt = Some (demo_attempt s),
     cm_attempt = (demo_settled t), cm_event = (demo_settled_event s t), cm_challenge = None, cm_receipt = Some demo_payment_receipt, cm_requestDigest = None\<rparr>"
  have f: "py_attemptId (demo_settle s t) = demo_uuid" "py_idempotencyKey (demo_settle s t) = ''pay-key-2''"
    "py_expectedStatus (demo_settle s t) = s" "mt_receipt (py_metadata (demo_settle s t)) = Some demo_payment_receipt"
    by (simp_all add: demo_settle_def no_payment_metadata_def)
  have n: "pay_trustedNowUnix 1200 = Inr 1200" by (simp add: pay_trustedNowUnix_def isSafeInteger_def max_safe_integer_def)
  have t: "pay_transition pay_rt demo_payments_cfg demo_uuid2 1200 (demo_payments s) (demo_settle s t) = Inr (PayPrepared c)"
    using demo_settle_transition [OF assms] by (simp add: pay_transition_def f d n pay_simps c_def)
  have a: "at_pin (demo_settled t) = demo_ppin" "at_challenge (demo_settled t) = demo_challenge CHR ''3''" "at_attemptId (demo_settled t) = demo_uuid"
    by (simp_all add: demo_settled_def pay_simps)
  have e: "pe_attemptId (demo_settled_event s t) = demo_uuid" "pe_eventKey (demo_settled_event s t) = ''action:pay-key-2''"
    by (simp_all add: demo_settled_event_def)
  have g: "assertChallengeDigest pay_rt (demo_challenge CHR ''3'') = Inr ()"
    by (simp add: assertChallengeDigest_def challengeUnsignedDigest_def pay_simps)
  have same: "checkExpectedAttempt pay_rt (demo_payments s) c = Inr ()"
    by (simp add: checkExpectedAttempt_def c_def a pay_simps attempt_digest_def digest_of_Inr)
  have r: "pr_attemptId demo_payment_receipt = demo_uuid" "pr_challengeId demo_payment_receipt = ''c1''"
    by (simp_all add: demo_receipt_for_def)
  have "\<exists>st. applyReceiptToMaps pay_rt (demo_payments s) demo_payment_receipt (demo_settled t) = Inr st"
    by (simp add: applyReceiptToMaps_def a r pay_simps key_digest) (rule exI [of _ False], simp)
  then obtain st where ap: "applyReceiptToMaps pay_rt (demo_payments s) demo_payment_receipt (demo_settled t) = Inr st" ..
  have "is_ok (pay_commit pay_rt demo_payments_cfg (demo_payments s) c)"
    using same ap
    by (simp add: pay_commit_def is_ok_iff c_def a e g pay_simps demo_payments_cfg_def commit_challenge_def)
  then show ?thesis using t by (auto simp: is_ok_iff c_def)
qed


section \<open>Replay protection\<close>

lemma demo_authorization_text:
  "sha256 pay_rt (json_text (json_norm (authorization_json a))) = json_text (json_norm (authorization_json a))"
proof -
  obtain kvs where k: "json_norm (authorization_json a) = JObject kvs" by (simp add: authorization_json_def)
  have "''authorizedAtUnix'' \<in> fst ` set kvs"
    using k by (auto simp: authorization_json_def norm_fields_map)
  from demo_values_distinct [OF _ k this] show ?thesis by simp
qed

abbreviation demo_granted :: authorization where
  "demo_granted \<equiv> demo_authorization 1100"

lemma demo_replay_key [pay_simps]: "replay_key pay_rt (demo_attempt s) demo_granted = Inr demo_digest"
proof -
  have schema: "paymentAuthorizationSchema pay_rt demo_granted = Inr (demo_granted\<lparr>pa_validated := False\<rparr>)"
    by (simp add: paymentAuthorizationSchema_def demo_authorization_def unixSecondsSchema_def max_safe_integer_def pay_simps demo_simps)
  have json: "authorization_json (demo_granted\<lparr>pa_validated := b\<rparr>) = authorization_json demo_granted" for b
    by (simp add: authorization_json_def)
  have ad: "paymentAuthorizationDigest pay_rt (demo_granted\<lparr>pa_validated := b\<rparr>)
      = Inr (json_text (json_norm (authorization_json demo_granted)))" for b
    by (simp add: paymentAuthorizationDigest_def json digest_of_Inr demo_authorization_text)
  have rd: "digest_of pay_rt (replay_json demo_ppin ''https://p'' ''https://f'' demo_digest
       (json_text (json_norm (authorization_json demo_granted))) ''nonce-01'' (replicate 64 CHR ''b'')) = Inr demo_digest"
    by (rule demo_value_digest) (simp only: demo_values_def list.set insert_iff simp_thms)
  have f: "pc_nonce (demo_challenge x) = ''nonce-01''" for x by (simp add: demo_challenge_def)
  have g: "pa_attemptId demo_granted = demo_uuid" "pa_challengeId demo_granted = ''c1''" "pa_challengeDigest demo_granted = demo_digest"
    "pa_credentialDigest demo_granted = replicate 64 CHR ''b''" "pa_validated demo_granted"
    by (simp_all add: demo_authorization_def)
  have pin: "validatePaymentPin pay_rt demo_ppin = Inr demo_ppin" by (simp add: validatePaymentPin_Inr demo_ppin_normal)
  have u: "pp_destination demo_ppin = ''https://p''" "pp_facilitatorEndpoint demo_ppin = ''https://f''"
    by (simp_all add: demo_ppin_def)
  have "paymentReplayKey pay_rt (demo_attempt s) demo_granted = Inr demo_digest"
    by (simp add: paymentReplayKey_def assertValidatedPaymentAuthorization_def schema ad rd f g pin u pay_simps)
  then show ?thesis by (simp add: replay_key_def normalizeReplayKey_def parse_digest_def demo_simps)
qed

end
