(* ===== verification/Payment_Properties.thy ===== *)
theory Payment_Properties
  imports Payment_Examples
begin

text \<open>
  Properties of the payment gateway: the life of an attempt in the repository, what a settlement, a
  challenge and a relay request have to show, and the protection against replayed authorizations.
\<close>

section \<open>The repository\<close>



section \<open>Settlement\<close>



text \<open>A settled attempt cannot be delivered when its settled receipt has no response status, or not a 2xx one:
  a delivery has to come with a receipt that has one, and the repository does not let another receipt
  replace the settled one. The commit is refused in every state with such a receipt.\<close>

theorem delivery_needs_settled_response:
  assumes "receipts_distinguished rt" "pay_transition rt cfg u now st i = Inr (PayPrepared c)"
    and "py_nextStatus i = Delivered" "ps_receipts st1 (at_attemptId (cm_attempt c)) = Some p"
    and "pr_status p = ReceiptSettled" "\<nexists>n. pr_responseStatus p = Some n \<and> 200 \<le> n \<and> n < 300"
  shows "\<not> is_ok (pay_commit rt cfg st1 c)"
proof
  assume "is_ok (pay_commit rt cfg st1 c)"
  then obtain st2 where "pay_commit rt cfg st1 c = Inr st2" by (auto simp: is_ok_iff)
  with assms(1,2) disjI2 [OF assms(3)] obtain r where
    "ps_receipts st2 (at_attemptId (cm_attempt c)) = Some r" "evidence_for r (cm_attempt c)"
    "py_nextStatus i = Delivered \<longrightarrow> (\<exists>n. pr_responseStatus r = Some n \<and> 200 \<le> n \<and> n < 300)"
    "\<forall>p. ps_receipts st1 (at_attemptId (cm_attempt c)) = Some p \<longrightarrow> pr_status p = ReceiptSettled \<longrightarrow> r = p"
    by (rule committed_settlement)
  with assms(3-6) show False by auto
qed


text \<open>The receipt of the example without a response status.\<close>

definition demo_unanswered :: receipt where
  "demo_unanswered = demo_payment_receipt\<lparr>pr_responseStatus := None\<rparr>"

theorem delivery_needs_settled_response_witness:
  "\<exists>c. pay_transition pay_rt demo_payments_cfg demo_uuid2 1200 (demo_payments Settled) (demo_settle Settled Delivered)
      = Inr (PayPrepared c)
     \<and> \<not> is_ok (pay_commit pay_rt demo_payments_cfg ((demo_payments Settled)\<lparr>ps_receipts := [demo_uuid \<mapsto> demo_unanswered]\<rparr>) c)"
proof -
  obtain c where c: "pay_transition pay_rt demo_payments_cfg demo_uuid2 1200 (demo_payments Settled)
      (demo_settle Settled Delivered) = Inr (PayPrepared c)" "cm_attempt c = demo_settled Delivered"
    using demo_settle_committed [of Settled Delivered] by blast
  have f: "py_nextStatus (demo_settle Settled Delivered) = Delivered" "at_attemptId (demo_settled Delivered) = demo_uuid"
    "pr_status demo_unanswered = ReceiptSettled" "pr_responseStatus demo_unanswered = None"
    by (simp_all add: demo_settle_def demo_settled_def demo_unanswered_def demo_receipt_for_def pay_simps)
  have "\<not> is_ok (pay_commit pay_rt demo_payments_cfg ((demo_payments Settled)\<lparr>ps_receipts := [demo_uuid \<mapsto> demo_unanswered]\<rparr>) c)"
    by (rule delivery_needs_settled_response [OF demo_receipts_distinguished c(1) f(1) _ f(3)]) (simp_all add: c(2) f)
  with c(1) show ?thesis by blast
qed

section \<open>Replay protection\<close>

text \<open>C10: A payment authorization is used once: after it was consumed or rejected no reservation for it succeeds, in
  any later state of the replay store and whatever the clock says. Until then only the attempt that
  reserved it can reserve it again, and only before the challenge expires.\<close>

theorem replay_single_use:
  assumes "markConsumed rt st at a d now = Inr (st1, r) \<or> markRejected rt st at a d' now = Inr (st1, r)"
    and "replay_run rt st1 st2"
  shows "\<not> is_ok (replay_reserve rt st2 at a expires now')"
proof
  assume "is_ok (replay_reserve rt st2 at a expires now')"
  then obtain key where key: "replay_key rt at a = Inr key"
    and free: "\<forall>e. st2 key = Some e \<longrightarrow> rs_state e = Inflight"
    by (auto simp: is_ok_iff replay_reserve_def Let_def split: option.splits)
  have used: "\<exists>e. st1 key = Some e \<and> rs_state e \<noteq> Inflight"
    if f: "replay_finish rt st target at a x now = Inr (st1, r)" and t: "target \<noteq> Inflight" for target x
  proof -
    from f obtain b k2 e where b: "paymentAttemptSchema rt at = Inr b" and k2: "replay_key rt b a = Inr k2"
      and e: "requireOwner st k2 (at_attemptId b) = Inr e"
      and c: "st1 = st \<and> rs_state e = target \<or> st1 = st(k2 \<mapsto> e\<lparr>rs_state := target, rs_responseDigest := x, rs_updatedAtUnix := now\<rparr>)"
      by (auto simp: replay_finish_def Let_def split: if_splits)
    have "paymentReplayKey rt b a = paymentReplayKey rt at a"
      using b attempt_schema.norm_idem [OF b] by (simp add: paymentReplayKey_def)
    with k2 key have "k2 = key" by (auto simp: replay_key_def)
    moreover have "st key = Some e"
      using e replay_key_digest [OF key] \<open>k2 = key\<close> by (auto simp: requireOwner_def split: option.splits)
    ultimately show ?thesis using c t by auto
  qed
  from assms(1) obtain e1 where e1: "st1 key = Some e1" "rs_state e1 \<noteq> Inflight"
    by (auto simp: markConsumed_def markRejected_def dest: used)
  from replay_run_kept [OF assms(2) e1(1)] e1(2) free show False by (auto simp: reservation_kept_def)
qed


definition demo_reserved :: reservation where
  "demo_reserved = \<lparr>rs_replayKey = demo_digest, rs_attemptId = demo_uuid, rs_state = Inflight, rs_expiresAtUnix = 1500,
     rs_responseDigest = None, rs_createdAtUnix = 1100, rs_updatedAtUnix = 1100\<rparr>"

theorem replay_single_use_witness:
  "\<exists>st. replay_reserve pay_rt Map.empty (demo_attempt Authorized) demo_granted 1500 1100 = Inr (st, demo_reserved)
     \<and> (\<exists>st1 r. markConsumed pay_rt st (demo_attempt Authorized) demo_granted demo_digest 1200 = Inr (st1, r)
       \<and> \<not> is_ok (replay_reserve pay_rt st1 (demo_attempt Authorized) demo_granted 1500 1300))"
proof -
  let ?st = "[demo_digest \<mapsto> demo_reserved]"
  have reserve: "replay_reserve pay_rt Map.empty (demo_attempt Authorized) demo_granted 1500 1100 = Inr (?st, demo_reserved)"
    by (simp add: replay_reserve_def pay_simps isSafeInteger_def max_safe_integer_def demo_reserved_def Let_def)
  have "requireOwner ?st demo_digest demo_uuid = Inr demo_reserved"
    by (simp add: requireOwner_def normalizeReplayKey_def parse_digest_def demo_simps) (simp add: demo_reserved_def)
  then have "\<exists>st1 r. markConsumed pay_rt ?st (demo_attempt Authorized) demo_granted demo_digest 1200 = Inr (st1, r)"
    by (simp add: markConsumed_def replay_finish_def parse_digest_def demo_simps pay_simps demo_reserved_def Let_def)
  then obtain st1 r where c: "markConsumed pay_rt ?st (demo_attempt Authorized) demo_granted demo_digest 1200 = Inr (st1, r)" by blast
  from replay_single_use [OF disjI1 [OF c] rtranclp.rtrancl_refl] c reserve show ?thesis by blast
qed

section \<open>Challenges and relay requests\<close>

text \<open>The URL of a pin is normalised before it is compared.\<close>

lemma pinned_url:
  assumes "url_parser rt" "normal_pin rt p q" "normalizeUrl rt (pp_destination q) = Inr u"
  shows "normalizeUrl rt (pp_destination p) = Inr u"
  using assms(2,3) normalizeUrl_idem [OF assms(1), of "pp_destination p" "pp_destination q"] by (simp add: normal_pin_def)

lemma demo_url_parser: "url_parser pay_rt"
  by (auto simp: url_parser_def pay_rt_def demo_url_def is_http_def split: if_splits)

text \<open>A challenge is accepted only when it is the challenge the pin asks for: same network, asset, decimals,
  amount, recipient, method and destination; issued at most a minute ahead, unexpired, and expiring
  within the pin's lifetime, which is at most 900 seconds; and its digest is the digest of the terms it
  was given with. The accepted challenge is in normal form.\<close>

theorem challenge_bound:
  assumes "url_parser rt" "validateChallenge rt c p now = Inr d"
  shows "pc_settlementNetwork d = pp_settlementNetwork p \<and> pc_settlementAsset d = js_lower (pp_settlementAsset p)
     \<and> pc_settlementDecimals d = pp_settlementDecimals p \<and> dec_val (pc_amountAtomic d) = dec_val (pp_amountAtomic p)
     \<and> pc_recipient d = js_lower (pp_recipient p) \<and> pc_method d = pp_method p
     \<and> normalizeUrl rt (pp_destination p) = Inr (pc_destination d)
     \<and> now < pc_expiresAtUnix d \<and> pc_expiresAtUnix d \<le> now + 900 \<and> pc_issuedAtUnix d \<le> now + 60
     \<and> challengeUnsignedDigest rt (trim_challenge c) = Inr (pc_challengeDigest d)"
proof -
  from assms(2) obtain q where q: "normal_pin rt p q" and t: "challenge_terms rt c q now"
    and n: "normal_challenge rt c d" and h: "challengeUnsignedDigest rt (trim_challenge c) = Inr (pc_challengeDigest c)"
    by (auto simp: validateChallenge_Inr)
  have "pp_maxChallengeLifetimeSeconds p \<le> 900"
    using q by (simp add: normal_pin_def payment_pin_fields_def)
  moreover have "normalizeUrl rt (pp_destination q) = Inr (pc_destination d)"
    using t n by (auto simp: challenge_terms_def normal_challenge_def)
  ultimately show ?thesis
    using t h pinned_url [OF assms(1) q]
    by (auto simp: challenge_terms_def normal_pin_fields [OF q] normal_challenge_fields [OF n])
qed

theorem challenge_bound_witness:
  "pc_recipient (demo_challenge CHR ''a'') = js_lower (pp_recipient (pin_to CHR ''a''))
   \<and> pc_expiresAtUnix (demo_challenge CHR ''a'') \<le> 1100 + 900"
  using challenge_bound [OF demo_url_parser demo_challenge_ok(2), of 1100] by simp

text \<open>A relay request is accepted only with an authorization that was validated, for the same attempt and for
  the accepted challenge; it carries the digest of that authorization and of its own body, goes to the
  pinned destination by the pinned method and egress profile for the pinned request, and its body has no
  sensitive field.\<close>

theorem relay_request_bound:
  assumes "url_parser rt" "validateRelayRequest rt q aid a p c now = Inr v"
  shows "pa_validated a \<and> rq_validated v \<and> pa_attemptId a = aid \<and> rq_attemptId v = aid
     \<and> pa_challengeDigest a = pc_challengeDigest c \<and> pa_challengeId a = js_trim (pc_challengeId c)
     \<and> paymentAuthorizationDigest rt a = Inr (rq_authorizationDigest v)
     \<and> digest_of rt (rq_requestBody v) = Inr (rq_requestDigest v)
     \<and> normalizeUrl rt (pp_destination p) = Inr (rq_destination v) \<and> rq_method v = pp_method p
     \<and> rq_fixedEgressProfile v = js_trim (pp_fixedEgressProfile p) \<and> rq_requestId v = js_trim (pp_requestId p)
     \<and> (\<forall>k \<in> field_names (rq_requestBody v). \<not> FORBIDDEN_FIELD k) \<and> now < pc_expiresAtUnix c"
proof -
  have safe: "pay_assertPublicPayloadSafe b = Inr () \<Longrightarrow> \<forall>k \<in> field_names b. \<not> FORBIDDEN_FIELD k" for b
    using payload_safe_iff(1) [of b] by (auto simp: pay_assertPublicPayloadSafe_def split: sum.splits)
  from assms(2) obtain pin q' c' u where "assertValidatedPaymentAuthorization a = Inr ()"
    and q': "relayRequestSchema rt q = Inr q'" and pin: "normal_pin rt p pin"
    and c: "validateChallenge rt c pin now = Inr c'"
    and ids: "pa_challengeId a = pc_challengeId c'" "pa_challengeDigest a = pc_challengeDigest c'"
      "pa_attemptId a = aid" "rq_attemptId q' = aid" "rq_requestId q' = pp_requestId pin"
      "rq_fixedEgressProfile q' = pp_fixedEgressProfile pin" "rq_method q' = pp_method pin"
    and ds: "paymentAuthorizationDigest rt a = Inr (rq_authorizationDigest q')"
      "pay_assertPublicPayloadSafe (rq_requestBody q') = Inr ()" "digest_of rt (rq_requestBody q') = Inr (rq_requestDigest q')"
    and u: "normalizeUrl rt (pp_destination pin) = Inr u" and v: "v = q'\<lparr>rq_destination := u, rq_validated := True\<rparr>"
    by (auto simp: validateRelayRequest_def validatePaymentPin_Inr)
  from c obtain q2 where t: "challenge_terms rt c q2 now" and n: "normal_challenge rt c c'"
    by (auto simp: validateChallenge_Inr)
  have "now < pc_expiresAtUnix c" using t by (simp add: challenge_terms_def)
  with ids ds v u safe [OF ds(2)] pinned_url [OF assms(1) pin u] \<open>assertValidatedPaymentAuthorization a = Inr ()\<close>
  show ?thesis
    by (simp add: normal_pin_fields [OF pin] normal_challenge_fields [OF n] assertValidatedPaymentAuthorization_def split: if_splits)
qed


text \<open>The platform of the example with a constant hash.\<close>

definition flat_rt :: runtime where
  "flat_rt = pay_rt\<lparr>sha256 := (\<lambda>_. demo_digest)\<rparr>"

lemma flat_simps:
  "normalizeUrl flat_rt = normalizeUrl pay_rt" "httpUrlSchema flat_rt = httpUrlSchema pay_rt"
  "parse_url flat_rt = parse_url pay_rt" "uuid_schema flat_rt = uuid_schema pay_rt" "sha256 flat_rt s = demo_digest"
  "normal_pin flat_rt = normal_pin pay_rt" "challenge_terms flat_rt = challenge_terms pay_rt"
  "normal_challenge flat_rt = normal_challenge pay_rt"
  by (simp_all add: fun_eq_iff flat_rt_def normalizeUrl_def httpUrlSchema_def normal_pin_def challenge_terms_def normal_challenge_def)

definition demo_relay :: relay_request where
  "demo_relay = \<lparr>rq_attemptId = demo_uuid, rq_requestId = ''r1'', rq_idempotencyKey = ''pay-key-1'',
     rq_destination = ''https://p'', rq_method = Eip3009, rq_requestBody = JObject [(''task'', JString ''t'')],
     rq_authorizationDigest = demo_digest, rq_requestDigest = demo_digest, rq_fixedEgressProfile = ''e1'',
     rq_timeoutMs = 5000, rq_validated = False\<rparr>"

lemma demo_relay_ok: "validateRelayRequest flat_rt demo_relay demo_uuid demo_granted demo_ppin (demo_challenge CHR ''3'') 1100
   = Inr (demo_relay\<lparr>rq_validated := True\<rparr>)"
proof -
  have "validateChallenge pay_rt (demo_challenge CHR ''3'') demo_ppin 1100 = Inr (demo_challenge CHR ''3'')"
    by (rule demo_challenge_ok) simp
  then obtain q where "normal_pin pay_rt demo_ppin q" "challenge_fields (demo_challenge CHR ''3'')"
    "challenge_terms pay_rt (demo_challenge CHR ''3'') q 1100" "normal_challenge pay_rt (demo_challenge CHR ''3'') (demo_challenge CHR ''3'')"
    by (auto simp: validateChallenge_Inr)
  moreover have "challengeUnsignedDigest flat_rt (demo_challenge CHR ''3'') = Inr demo_digest"
    by (simp add: challengeUnsignedDigest_def digest_of_Inr challenge_unsigned_fields_def flat_simps)
  ultimately have c: "validateChallenge flat_rt (demo_challenge CHR ''3'') demo_ppin 1100 = Inr (demo_challenge CHR ''3'')"
    by (auto simp: validateChallenge_Inr flat_simps maxUint256_def pay_simps demo_simps)
  have pin: "validatePaymentPin flat_rt demo_ppin = Inr demo_ppin"
    by (simp add: validatePaymentPin_Inr flat_simps demo_ppin_normal)
  have "\<not> FORBIDDEN_FIELD ''task''" by code_simp
  then have "assertPublicPayloadSafe (JObject [(''task'', JString ''t'')]) = Inr ()"
    by (simp add: payload_safe_iff del: assertPublicPayloadSafe.simps)
  then have safe: "pay_assertPublicPayloadSafe (JObject [(''task'', JString ''t'')]) = Inr ()"
    by (simp add: pay_assertPublicPayloadSafe_def del: assertPublicPayloadSafe.simps)
  have ad: "paymentAuthorizationDigest flat_rt a = Inr demo_digest" "digest_of flat_rt (JObject [(''task'', JString ''t'')]) = Inr demo_digest" for a
    by (simp_all add: paymentAuthorizationDigest_def digest_of_Inr flat_simps)
  have q: "relayRequestSchema flat_rt demo_relay = Inr demo_relay"
    by (simp add: relayRequestSchema_def demo_relay_def flat_simps pay_simps demo_simps)
  have g: "pa_attemptId demo_granted = demo_uuid" "pa_challengeId demo_granted = ''c1''" "pa_challengeDigest demo_granted = demo_digest"
    "pa_validated demo_granted" by (simp_all add: demo_authorization_def)
  have f: "pp_requestId demo_ppin = ''r1''" "pp_fixedEgressProfile demo_ppin = ''e1''" "pp_method demo_ppin = Eip3009"
    "pp_destination demo_ppin = ''https://p''" by (simp_all add: demo_ppin_def)
  show ?thesis
    by (simp add: validateRelayRequest_def assertValidatedPaymentAuthorization_def pin c q g f ad flat_simps pay_simps)
      (simp add: demo_relay_def ad safe pay_simps demo_simps flat_simps)
qed

theorem relay_request_bound_witness:
  "normalizeUrl flat_rt (pp_destination demo_ppin) = Inr (rq_destination (demo_relay\<lparr>rq_validated := True\<rparr>))
   \<and> paymentAuthorizationDigest flat_rt demo_granted = Inr (rq_authorizationDigest (demo_relay\<lparr>rq_validated := True\<rparr>))"
proof -
  have "url_parser flat_rt" using demo_url_parser by (simp add: url_parser_def flat_simps)
  from relay_request_bound [OF this demo_relay_ok] show ?thesis by simp
qed

section \<open>Creation\<close>

text \<open>A created attempt is the given one with its challenge and pin in normal form, the pin's digest and the
  repository's clock: the attempt and its challenge are new, the challenge is unexpired, matches the
  configured seller and carries the digest of its own terms. Nothing asks for the status \<open>challenged\<close>:
  the status, the authorization digest and the payer are those of the input.\<close>

theorem creation_recorded:
  assumes "pay_create rt cfg u now st a = Inr (PayPrepared c)"
  shows "valid_attempt rt (cm_attempt c) \<and> at_attemptId (cm_attempt c) = at_attemptId a
     \<and> at_createdAtUnix (cm_attempt c) = now \<and> at_updatedAtUnix (cm_attempt c) = now
     \<and> now < pc_expiresAtUnix (at_challenge (cm_attempt c))
     \<and> challengeUnsignedDigest rt (at_challenge (cm_attempt c)) = Inr (pc_challengeDigest (at_challenge (cm_attempt c)))
     \<and> attempt_of st (at_attemptId a) = None
     \<and> (\<forall>(k, b) \<in> set (ps_attempts st). pc_challengeId (at_challenge b) \<noteq> pc_challengeId (at_challenge (cm_attempt c)))
     \<and> at_status (cm_attempt c) = at_status a \<and> at_payerAddress (cm_attempt c) = at_payerAddress a
     \<and> at_authorizationDigest (cm_attempt c) = at_authorizationDigest a
     \<and> pe_nextStatus (cm_event c) = Some Challenged"
proof -
  from assms obtain n key pd tc b where n: "normalize_attempt rt cfg a = Inr n"
    and tc: "validateChallenge rt (at_challenge n) (at_pin n) now = Inr tc"
    and b: "paymentAttemptSchema rt (n\<lparr>at_challenge := tc, at_createdAtUnix := now, at_updatedAtUnix := now\<rparr>) = Inr b"
    and d: "assertChallengeDigest rt (at_challenge b) = Inr ()" and new: "\<not> creation_conflict st b"
    and e: "paymentEventSchema rt (createdEvent u key pd b) = Inr (cm_event c)" and c: "cm_attempt c = b"
    by (auto simp: pay_create_def pay_trustedNowUnix_def split: option.splits if_splits)
  from b have bt: "b = trim_attempt (n\<lparr>at_challenge := tc, at_createdAtUnix := now, at_updatedAtUnix := now\<rparr>)"
    by (simp add: attempt_schema_Inr)
  from n obtain ch pin pd2 where "n = trim_attempt ((trim_attempt a)\<lparr>at_challenge := ch, at_pin := pin, at_pinDigest := pd2\<rparr>)"
    by (auto simp: normalize_attempt_def attempt_schema_Inr)
  then have kept: "at_attemptId n = at_attemptId a" "at_status n = at_status a" "at_payerAddress n = at_payerAddress a"
    "at_authorizationDigest n = at_authorizationDigest a" by simp_all
  have "now < pc_expiresAtUnix tc"
    using tc by (auto simp: validateChallenge_Inr challenge_terms_def dest: normal_challenge_fields(4))
  moreover have "pe_nextStatus (cm_event c) = Some Challenged"
    using e by (auto simp: paymentEventSchema_def createdEvent_def dest: arg_cong [where f = pe_nextStatus])
  ultimately show ?thesis
    using d new kept attempt_schema.norm_idem [OF b]
    by (auto simp: c bt valid_attempt_def assertChallengeDigest_def creation_conflict_def list_ex_iff)
qed

theorem creation_recorded_witness:
  "pay_create pay_rt demo_payments_cfg demo_uuid2 1000 empty_payments (demo_attempt Delivered) = Inr (PayPrepared (demo_pay_commit Delivered))
   \<and> at_status (cm_attempt (demo_pay_commit Delivered)) = Delivered \<and> pe_nextStatus (cm_event (demo_pay_commit Delivered)) = Some Challenged"
  using creation_recorded [OF demo_pay_create] by (simp add: demo_pay_create demo_attempt_fields)

text \<open>A creation is refused when the challenge, though accepted by the validation, is not in normal form: its
  digest is kept from the terms as given and is then compared with the normal form. So an attempt for
  a challenge with an upper-case address is never created. The hash may not collide on the two forms.\<close>

theorem creation_needs_normal_challenge:
  assumes "paymentAttemptSchema rt a = Inr b" "validateChallenge rt (at_challenge b) p t = Inr d" "d \<noteq> at_challenge b"
    and "no_collision rt (JObject (challenge_unsigned_fields (at_challenge b))) (JObject (challenge_unsigned_fields d))"
  shows "pay_create rt cfg u now st a \<noteq> Inr (PayPrepared c)"
proof
  assume "pay_create rt cfg u now st a = Inr (PayPrepared c)"
  then obtain n tc where n: "normalize_attempt rt cfg a = Inr n"
    and tc: "validateChallenge rt (at_challenge n) (at_pin n) now = Inr tc"
    by (auto simp: pay_create_def pay_trustedNowUnix_def split: option.splits if_splits)
  from n assms(1) obtain ch pin pd where ch: "validateChallenge rt (at_challenge b) pin (pc_issuedAtUnix (at_challenge b)) = Inr ch"
    and nb: "n = trim_attempt (b\<lparr>at_challenge := ch, at_pin := pin, at_pinDigest := pd\<rparr>)"
    by (auto simp: normalize_attempt_def attempt_schema_Inr)
  have trim: "trim_challenge (at_challenge b) = at_challenge b"
    using assms(1) by (auto simp: attempt_schema_Inr)
  have normal: "normal_challenge rt (at_challenge b) d" "normal_challenge rt (at_challenge b) ch"
    using assms(2) ch by (simp_all add: validateChallenge_Inr)
  then have "d = ch" by (rule normal_challenge_unique)
  moreover have "at_challenge n = ch" using nb normal_challenge_trim [OF normal(2)] by simp
  ultimately have "d = trim_challenge (at_challenge b)"
    using revalidated_challenge [OF ch] tc assms(4) trim by metis
  with assms(3) trim show False by simp
qed

lemma demo_mixed_no_collision: "no_collision pay_rt (JObject (challenge_unsigned_fields (demo_challenge CHR ''A'')))
     (JObject (challenge_unsigned_fields (demo_challenge CHR ''a'')))"
proof -
  let ?w = "JObject (challenge_unsigned_fields (demo_challenge CHR ''a''))"
  have clean: "json_clean ?w" by (rule payment_encoded_clean)
  have apart: "json_text (json_norm ?w) \<noteq> json_text (json_norm v)" if "json_clean v" "json_norm v \<noteq> json_norm ?w" for v
    using canonical_text_decodes [of ?w _ v] that canonical_is_text(1) clean
    unfolding canonicalizeJson_def by metis
  have field: "json_norm v \<noteq> json_norm ?w" if "\<And>kvs. json_norm v = JObject kvs \<Longrightarrow> ''challengeId'' \<notin> fst ` set kvs" for v
  proof
    assume eq: "json_norm v = json_norm ?w"
    obtain kvs where "json_norm ?w = JObject kvs" by simp
    moreover from this have "''challengeId'' \<in> fst ` set kvs" by (auto simp: challenge_unsigned_fields_def norm_fields_map)
    ultimately show False using that eq by metis
  qed
  have other: "json_norm (JObject (challenge_unsigned_fields (demo_challenge x))) \<noteq> json_norm ?w" if "x \<noteq> CHR ''a''" for x
  proof
    assume "json_norm (JObject (challenge_unsigned_fields (demo_challenge x))) = json_norm ?w"
    then have "demo_challenge x = (demo_challenge CHR ''a'')\<lparr>pc_challengeDigest := pc_challengeDigest (demo_challenge x)\<rparr>"
      by (simp only: json_eq)
    from arg_cong [OF this, of pc_recipient] have "pc_recipient (demo_challenge x) = pc_recipient (demo_challenge CHR ''a'')"
      by simp
    with that show False by (simp add: pay_simps demo_simps)
  qed
  let ?others = "[config_json demo_config, payment_pin_json demo_ppin, payment_pin_json (pin_to CHR ''a''),
     JObject [(''challengeDigest'', JString demo_digest)],
     JObject [(''receiptDigest'', JString (json_text (json_norm (receipt_json demo_payment_receipt))))],
     replay_json demo_ppin ''https://p'' ''https://f'' demo_digest
       (json_text (json_norm (authorization_json demo_granted))) ''nonce-01'' (replicate 64 CHR ''b'')]"
  have free: "\<forall>v \<in> set ?others. \<forall>kvs. json_norm v = JObject kvs \<longrightarrow> ''challengeId'' \<notin> fst ` set kvs"
    by (auto simp: config_json_def payment_pin_json_def replay_json_def norm_fields_map)
  have clean_values: "\<forall>v \<in> set demo_values. json_clean v"
    by (auto simp: demo_values_def replay_json_def challenge_unsigned_fields_def)
  have "json_norm v \<noteq> json_norm ?w" if "v \<in> set demo_values" for v
  proof -
    from that consider "v \<in> set ?others"
      | "v = JObject (challenge_unsigned_fields (demo_challenge CHR ''3''))" | "v = JObject (challenge_unsigned_fields (demo_challenge CHR ''A''))"
      unfolding demo_values_def list.set insert_iff by blast
    then show ?thesis
    proof cases
      case 1
      show ?thesis by (rule field) (use bspec [OF free 1] in simp)
    next
      case 2
      show ?thesis unfolding 2 by (rule other) simp
    next
      case 3
      show ?thesis unfolding 3 by (rule other) simp
    qed
  qed
  with clean_values have "sha256 pay_rt (json_text (json_norm ?w)) = json_text (json_norm ?w)"
    using apart by (auto simp: pay_rt_def list_ex_iff)
  moreover have "json_text (json_norm ?w) \<noteq> demo_digest"
    by (simp add: text_object numeral_eq_Suc)
  moreover have "sha256 pay_rt (json_text (json_norm (JObject (challenge_unsigned_fields (demo_challenge CHR ''A''))))) = demo_digest"
    by (rule demo_value_digest) (simp only: demo_values_def list.set insert_iff simp_thms)
  ultimately show ?thesis by (simp add: no_collision_def)
qed

theorem creation_needs_normal_challenge_witness:
  "validateChallenge pay_rt (demo_challenge CHR ''A'') (pin_to CHR ''a'') 1000 = Inr (demo_challenge CHR ''a'')
   \<and> (\<nexists>c. pay_create pay_rt demo_payments_cfg demo_uuid2 1000 empty_payments (mixed_attempt CHR ''A'') = Inr (PayPrepared c))"
proof -
  have v: "validateChallenge pay_rt (demo_challenge CHR ''A'') (pin_to CHR ''a'') 1000 = Inr (demo_challenge CHR ''a'')"
    by (rule demo_challenge_ok) simp
  have s: "paymentAttemptSchema pay_rt (mixed_attempt CHR ''A'') = Inr (mixed_attempt CHR ''A'')"
    by (rule demo_attempt_valid) simp
  have "demo_challenge CHR ''a'' \<noteq> demo_challenge CHR ''A''"
  proof
    assume "demo_challenge CHR ''a'' = demo_challenge CHR ''A''"
    then have "pc_recipient (demo_challenge CHR ''a'') = pc_recipient (demo_challenge CHR ''A'')" by simp
    then show False by (simp add: pay_simps demo_simps)
  qed
  with creation_needs_normal_challenge [OF s, of "pin_to CHR ''a''" 1000 "demo_challenge CHR ''a''"] v demo_mixed_no_collision
  show ?thesis by (simp add: demo_attempt_fields)
qed

end
