(* ===== verification/Altana_Policy.thy ===== *)
theory Altana_Policy
  imports Commerce_Validation "HOL-Library.AList"
begin

text \<open>
  packages/altana/src/types.ts, errors.ts and policy.ts: the scoped policy of a delegated runtime session,
  its normal form, and the check that an action and what it spends lie within it.

  Amounts are bigints, hence integers. The tests of the run-time type of a value (\<open>typeof\<close>,
  \<open>Array.isArray\<close>, \<open>PERMISSION_PERIODS.has\<close>) hold for every value of the declared types and are left
  out; the tests on the numbers and strings themselves are kept. \<open>localeCompare\<close> and the default order
  of \<open>sort\<close> are only used on the normalised addresses, selectors and \<open>token:period\<close> keys, whose
  characters both order as their code units; \<open>sort\<close> is stable, as is \<open>sort_key\<close>.
\<close>

section \<open>Errors\<close>

datatype altana_code = A_INVALID_ADDRESS | A_INVALID_SELECTOR | A_INVALID_CHAIN | A_INVALID_EXPIRY | A_EMPTY_ALLOWLIST
  | A_INVALID_SPEND_LIMIT | A_POLICY_BOUND_EXCEEDED | A_CALL_NOT_ALLOWED | A_NATIVE_VALUE_EXCEEDED
  | A_INVALID_SPEND_REQUEST | A_SPEND_NOT_ALLOWED | A_SPEND_UNVERIFIED | A_SPEND_LIMIT_EXCEEDED
  | A_AUTHORITY_READ_REQUIRED | A_AUTHORITY_STALE | A_SESSION_ID_MISMATCH | A_POLICY_DIGEST_MISMATCH
  | A_SESSION_MATERIAL_EMPTY | A_SESSION_MATERIAL_CONSUMED | A_SESSION_HANDOFF_FAILED | A_SESSION_NOT_ACTIVE
  | A_SENSITIVE_EVIDENCE_FIELD | A_INVALID_EVIDENCE_VALUE

text \<open>\<open>AltanaError code retriable\<close>, and every other exception.\<close>

datatype altana_exn = AltanaError altana_code bool | ForeignError

abbreviation altana_error :: "altana_code \<Rightarrow> altana_exn" where
  "altana_error c \<equiv> AltanaError c False"

definition check :: "bool \<Rightarrow> altana_code \<Rightarrow> altana_exn + unit" where
  "check b c = (if b then Inr () else Inl (altana_error c))"

lemma check_Inr [simp, result_simps]: "check b c = Inr u \<longleftrightarrow> b"
  by (simp add: check_def)

section \<open>Types\<close>

datatype permission_period = PerCall | PerHour | PerDay | PerWeek | Lifetime

fun period_name :: "permission_period \<Rightarrow> string" where
  "period_name PerCall = ''call''"
| "period_name PerHour = ''hour''"
| "period_name PerDay = ''day''"
| "period_name PerWeek = ''week''"
| "period_name Lifetime = ''lifetime''"

lemma period_name_inj [simp]: "period_name p = period_name q \<longleftrightarrow> p = q"
  by (cases p; cases q) auto

record call_permission =
  cp_target :: string
  cp_selectors :: "string list"
  cp_maxNativeValueWei :: int

text \<open>The token of a permission or charge is an address or \<open>native\<close>.\<close>

record spend_permission =
  sp_token :: string
  sp_limitAtomic :: int
  sp_period :: permission_period

record scoped_policy =
  po_chainId :: int
  po_adminAddress :: string
  po_walletAddress :: string
  po_sessionPublicAddress :: string
  po_sessionPublicKey :: "string option"
  po_calls :: "call_permission list"
  po_spend :: "spend_permission list"
  po_expiresAtUnix :: int

text \<open>\<open>SpendCharge\<close> and \<open>CumulativeSpend\<close> have the same fields.\<close>

record spend_charge =
  ch_token :: string
  ch_amountAtomic :: int
  ch_period :: permission_period

record action_request =
  ac_target :: string
  ac_selector :: string
  ac_valueWei :: int
  ac_spends :: "spend_charge list"

section \<open>Normal forms\<close>

definition hex_lower :: "string \<Rightarrow> string" where
  "hex_lower s = ''0x'' @ js_lower (drop 2 s)"

definition altana_normalizeAddress :: "string \<Rightarrow> altana_exn + string" where
  "altana_normalizeAddress s =
     (if evmAddressSchema s then Inr (hex_lower s) else Inl (altana_error A_INVALID_ADDRESS))"

definition normalizeSelector :: "string \<Rightarrow> altana_exn + string" where
  "normalizeSelector s =
     (if hex_with_prefix 8 s then Inr (hex_lower s) else Inl (altana_error A_INVALID_SELECTOR))"

definition normalizeSessionPublicKey :: "string \<Rightarrow> altana_exn + string" where
  "normalizeSessionPublicKey s =
     (if take 2 s = ''0x'' \<and> list_all is_hex (drop 2 s) \<and> 66 \<le> length s \<and> length s \<le> 262 \<and> even (length s - 2)
      then Inr (hex_lower s) else Inl (altana_error A_INVALID_ADDRESS))"

definition normalizeToken :: "string \<Rightarrow> altana_exn + string" where
  "normalizeToken t = (if t = ''native'' then Inr ''native'' else altana_normalizeAddress t)"

definition normalizeCallPermission :: "call_permission \<Rightarrow> altana_exn + call_permission" where
  "normalizeCallPermission p =
     bindE (check (0 \<le> cp_maxNativeValueWei p) A_INVALID_SPEND_LIMIT) (\<lambda>_.
     bindE (mapE normalizeSelector (cp_selectors p)) (\<lambda>selectors.
     bindE (check (selectors \<noteq> []) A_EMPTY_ALLOWLIST) (\<lambda>_.
     bindE (altana_normalizeAddress (cp_target p)) (\<lambda>target.
     Inr \<lparr>cp_target = target, cp_selectors = sort (remdups selectors),
          cp_maxNativeValueWei = cp_maxNativeValueWei p\<rparr>))))"

definition normalizeSpendPermission :: "spend_permission \<Rightarrow> altana_exn + spend_permission" where
  "normalizeSpendPermission p =
     bindE (check (0 \<le> sp_limitAtomic p) A_INVALID_SPEND_LIMIT) (\<lambda>_.
     bindE (normalizeToken (sp_token p)) (\<lambda>token. Inr (p\<lparr>sp_token := token\<rparr>)))"

definition bucket_key :: "spend_permission \<Rightarrow> string" where
  "bucket_key p = sp_token p @ '':'' @ period_name (sp_period p)"

definition normalizePolicy :: "scoped_policy \<Rightarrow> altana_exn + scoped_policy" where
  "normalizePolicy p =
     bindE (check (po_chainId p = 56 \<or> po_chainId p = 97) A_INVALID_CHAIN) (\<lambda>_.
     bindE (check (isSafeInteger (po_expiresAtUnix p) \<and> 0 < po_expiresAtUnix p) A_INVALID_EXPIRY) (\<lambda>_.
     bindE (check (po_calls p \<noteq> []) A_EMPTY_ALLOWLIST) (\<lambda>_.
     bindE (mapE normalizeCallPermission (po_calls p)) (\<lambda>calls.
     bindE (mapE normalizeSpendPermission (po_spend p)) (\<lambda>spend.
     bindE (check (\<not> list_ex (\<lambda>e. sp_limitAtomic e = 0) spend) A_INVALID_SPEND_LIMIT) (\<lambda>_.
     bindE (altana_normalizeAddress (po_adminAddress p)) (\<lambda>admin.
     bindE (altana_normalizeAddress (po_walletAddress p)) (\<lambda>wallet.
     bindE (altana_normalizeAddress (po_sessionPublicAddress p)) (\<lambda>session.
     bindE (case po_sessionPublicKey p of None \<Rightarrow> Inr None
            | Some k \<Rightarrow> bindE (normalizeSessionPublicKey k) (\<lambda>n. Inr (Some n))) (\<lambda>key.
     Inr \<lparr>po_chainId = po_chainId p, po_adminAddress = admin, po_walletAddress = wallet,
          po_sessionPublicAddress = session, po_sessionPublicKey = key,
          po_calls = sort_key cp_target calls, po_spend = sort_key bucket_key spend,
          po_expiresAtUnix = po_expiresAtUnix p\<rparr>))))))))))"

section \<open>Creating and bounding policies\<close>

datatype expiry_preset = PresetHour | PresetDay | PresetWeek

fun EXPIRY_PRESETS :: "expiry_preset \<Rightarrow> int" where
  "EXPIRY_PRESETS PresetHour = 60 * 60"
| "EXPIRY_PRESETS PresetDay = 24 * 60 * 60"
| "EXPIRY_PRESETS PresetWeek = 7 * 24 * 60 * 60"

record policy_draft =
  pd_chainId :: int
  pd_adminAddress :: string
  pd_walletAddress :: string
  pd_sessionPublicAddress :: string
  pd_calls :: "call_permission list"
  pd_spend :: "spend_permission list"
  pd_expiry :: expiry_preset

record policy_bounds =
  bo_maxCallEntries :: int
  bo_maxSelectorsPerCall :: int
  bo_maxLifetimeSeconds :: int
  bo_maxSpendAtomic :: "int option"

definition assertPolicyValidAt :: "scoped_policy \<Rightarrow> int \<Rightarrow> altana_exn + scoped_policy" where
  "assertPolicyValidAt p now =
     bindE (normalizePolicy p) (\<lambda>n.
     bindE (check (isSafeInteger now \<and> now < po_expiresAtUnix n) A_INVALID_EXPIRY) (\<lambda>_. Inr n))"

definition createScopedPolicy :: "policy_draft \<Rightarrow> int \<Rightarrow> altana_exn + scoped_policy" where
  "createScopedPolicy d now =
     bindE (altana_normalizeAddress (pd_adminAddress d)) (\<lambda>admin.
     bindE (altana_normalizeAddress (pd_walletAddress d)) (\<lambda>wallet.
     bindE (altana_normalizeAddress (pd_sessionPublicAddress d)) (\<lambda>session.
     assertPolicyValidAt \<lparr>po_chainId = pd_chainId d, po_adminAddress = admin, po_walletAddress = wallet,
       po_sessionPublicAddress = session, po_sessionPublicKey = None, po_calls = pd_calls d,
       po_spend = pd_spend d, po_expiresAtUnix = now + EXPIRY_PRESETS (pd_expiry d)\<rparr> now)))"

definition assertPolicyWithinBounds :: "scoped_policy \<Rightarrow> policy_bounds \<Rightarrow> int \<Rightarrow> altana_exn + scoped_policy" where
  "assertPolicyWithinBounds p b now =
     bindE (assertPolicyValidAt p now) (\<lambda>n.
     bindE (check (\<not> (int (length (po_calls n)) > bo_maxCallEntries b
              \<or> list_ex (\<lambda>e. int (length (cp_selectors e)) > bo_maxSelectorsPerCall b) (po_calls n)
              \<or> po_expiresAtUnix n - now > bo_maxLifetimeSeconds b)) A_POLICY_BOUND_EXCEEDED) (\<lambda>_.
     bindE (check (case bo_maxSpendAtomic b of None \<Rightarrow> True
              | Some m \<Rightarrow> \<not> list_ex (\<lambda>e. sp_limitAtomic e > m) (po_spend n)) A_POLICY_BOUND_EXCEEDED) (\<lambda>_.
     Inr n)))"

section \<open>Calls and spending\<close>

text \<open>The entries are compared as they are, not in normal form.\<close>

definition isCallAllowed :: "scoped_policy \<Rightarrow> action_request \<Rightarrow> altana_exn + bool" where
  "isCallAllowed p r =
     bindE (altana_normalizeAddress (ac_target r)) (\<lambda>target.
     bindE (normalizeSelector (ac_selector r)) (\<lambda>selector.
     Inr (list_ex (\<lambda>e. cp_target e = target \<and> selector \<in> set (cp_selectors e) \<and> 0 \<le> ac_valueWei r
       \<and> ac_valueWei r \<le> cp_maxNativeValueWei e) (po_calls p))))"

definition assertCallAllowed :: "scoped_policy \<Rightarrow> action_request \<Rightarrow> int \<Rightarrow> altana_exn + unit" where
  "assertCallAllowed p r now =
     bindE (assertPolicyValidAt p now) (\<lambda>_.
     bindE (isCallAllowed p r) (\<lambda>ok.
     check ok (if 0 < ac_valueWei r then A_NATIVE_VALUE_EXCEEDED else A_CALL_NOT_ALLOWED)))"

definition normalizeSpendCharge :: "spend_charge \<Rightarrow> altana_exn + spend_charge" where
  "normalizeSpendCharge c =
     bindE (check (0 \<le> ch_amountAtomic c) A_INVALID_SPEND_REQUEST) (\<lambda>_.
     bindE (normalizeToken (ch_token c)) (\<lambda>token. Inr (c\<lparr>ch_token := token\<rparr>)))"

definition normalizeCumulativeSpend :: "spend_charge \<Rightarrow> altana_exn + spend_charge" where
  "normalizeCumulativeSpend c =
     bindE (check (0 \<le> ch_amountAtomic c) A_INVALID_SPEND_REQUEST) (\<lambda>_.
     bindE (normalizeToken (ch_token c)) (\<lambda>token. Inr (c\<lparr>ch_token := token\<rparr>)))"

definition sameSpendBucket :: "spend_permission \<Rightarrow> spend_charge \<Rightarrow> bool" where
  "sameSpendBucket p c \<longleftrightarrow> sp_token p = ch_token c \<and> sp_period p = ch_period c"

text \<open>\<open>filter\<close> and \<open>reduce\<close> over the charges of one bucket.\<close>

definition spent_in :: "string \<Rightarrow> permission_period \<Rightarrow> spend_charge list \<Rightarrow> int" where
  "spent_in t q cs = sum_list (map ch_amountAtomic (filter (\<lambda>c. ch_token c = t \<and> ch_period c = q) cs))"

definition charge_key :: "spend_charge \<Rightarrow> string" where
  "charge_key c = ch_token c @ '':'' @ period_name (ch_period c)"

text \<open>The map of the charges of one request, summed by bucket, in the order of the first charge of each.\<close>

definition add_charge :: "spend_charge \<Rightarrow> (string \<times> spend_charge) list \<Rightarrow> (string \<times> spend_charge) list" where
  "add_charge c m = AList.update (charge_key c)
     (c\<lparr>ch_amountAtomic := (case map_of m (charge_key c) of None \<Rightarrow> 0 | Some e \<Rightarrow> ch_amountAtomic e)
         + ch_amountAtomic c\<rparr>) m"

definition chargeTotals :: "spend_charge list \<Rightarrow> spend_charge list" where
  "chargeTotals cs = map snd (fold add_charge cs [])"

definition usage_supported :: "scoped_policy \<Rightarrow> spend_charge \<Rightarrow> altana_exn + unit" where
  "usage_supported n u = check (find (\<lambda>p. sameSpendBucket p u) (po_spend n) \<noteq> None) A_SPEND_UNVERIFIED"

definition usage_within :: "spend_charge list \<Rightarrow> spend_permission \<Rightarrow> altana_exn + unit" where
  "usage_within usage p = check (spent_in (sp_token p) (sp_period p) usage \<le> sp_limitAtomic p) A_SPEND_LIMIT_EXCEEDED"

definition charge_within :: "scoped_policy \<Rightarrow> spend_charge list \<Rightarrow> spend_charge \<Rightarrow> altana_exn + unit" where
  "charge_within n usage c = (case find (\<lambda>p. sameSpendBucket p c) (po_spend n) of
       None \<Rightarrow> Inl (altana_error A_SPEND_NOT_ALLOWED)
     | Some p \<Rightarrow> check (spent_in (ch_token c) (ch_period c) usage + ch_amountAtomic c \<le> sp_limitAtomic p)
                  A_SPEND_LIMIT_EXCEEDED)"

definition assertActionWithinPolicy ::
    "scoped_policy \<Rightarrow> action_request \<Rightarrow> int \<Rightarrow> spend_charge list \<Rightarrow> altana_exn + unit" where
  "assertActionWithinPolicy p r now cumulative =
     bindE (assertPolicyValidAt p now) (\<lambda>_.
     bindE (assertCallAllowed p r now) (\<lambda>_.
     bindE (normalizePolicy p) (\<lambda>n.
     bindE (mapE normalizeSpendCharge (ac_spends r)) (\<lambda>charges.
     bindE (mapE normalizeCumulativeSpend cumulative) (\<lambda>usage.
     bindE (check (sum_list (map ch_amountAtomic (filter (\<lambda>c. ch_token c = ''native'') charges)) = ac_valueWei r)
              A_SPEND_UNVERIFIED) (\<lambda>_.
     bindE (mapE (usage_supported n) usage) (\<lambda>_.
     bindE (mapE (usage_within usage) (po_spend n)) (\<lambda>_.
     bindE (mapE (charge_within n usage) (chargeTotals charges)) (\<lambda>_. Inr ())))))))))"

section \<open>Serialisation\<close>

definition policy_json :: "scoped_policy \<Rightarrow> js_value" where
  "policy_json n = JObject
     ([(''chainId'', JNumber (po_chainId n)), (''adminAddress'', JString (po_adminAddress n)),
       (''walletAddress'', JString (po_walletAddress n)),
       (''sessionPublicAddress'', JString (po_sessionPublicAddress n))]
      @ jfield ''sessionPublicKey'' JString (po_sessionPublicKey n)
      @ [(''calls'', JArray (map (\<lambda>e. JObject
            [(''target'', JString (cp_target e)), (''selectors'', JArray (map JString (cp_selectors e))),
             (''maxNativeValueWei'', JString (show_int (cp_maxNativeValueWei e)))]) (po_calls n))),
         (''spend'', JArray (map (\<lambda>e. JObject
            [(''token'', JString (sp_token e)), (''limitAtomic'', JString (show_int (sp_limitAtomic e))),
             (''period'', JString (period_name (sp_period e)))]) (po_spend n))),
         (''expiresAtUnix'', JNumber (po_expiresAtUnix n))])"

text \<open>\<open>JSON.stringify\<close> keeps the order of the fields.\<close>

definition serializePolicy :: "scoped_policy \<Rightarrow> altana_exn + string" where
  "serializePolicy p = bindE (normalizePolicy p) (\<lambda>n. Inr (json_text (policy_json n)))"

text \<open>\<open>PublicPolicySummary\<close>: the normal form without the session key, its amounts as decimals.\<close>

record public_call =
  pc_target :: string
  pc_selectors :: "string list"
  pc_maxNativeValueWei :: string

record public_spend =
  pb_token :: string
  pb_limitAtomic :: string
  pb_period :: permission_period

record public_policy =
  pp_chainId :: int
  pp_adminAddress :: string
  pp_walletAddress :: string
  pp_sessionPublicAddress :: string
  pp_calls :: "public_call list"
  pp_spend :: "public_spend list"
  pp_expiresAtUnix :: int

definition toPublicPolicySummary :: "scoped_policy \<Rightarrow> altana_exn + public_policy" where
  "toPublicPolicySummary p = bindE (normalizePolicy p) (\<lambda>n. Inr
     \<lparr>pp_chainId = po_chainId n, pp_adminAddress = po_adminAddress n, pp_walletAddress = po_walletAddress n,
      pp_sessionPublicAddress = po_sessionPublicAddress n,
      pp_calls = map (\<lambda>e. \<lparr>pc_target = cp_target e, pc_selectors = cp_selectors e,
        pc_maxNativeValueWei = show_int (cp_maxNativeValueWei e)\<rparr>) (po_calls n),
      pp_spend = map (\<lambda>e. \<lparr>pb_token = sp_token e, pb_limitAtomic = show_int (sp_limitAtomic e),
        pb_period = sp_period e\<rparr>) (po_spend n),
      pp_expiresAtUnix = po_expiresAtUnix n\<rparr>)"

section \<open>Facts\<close>

lemma hex_lower_idem [simp]: "hex_lower (hex_lower s) = hex_lower s"
  by (simp add: hex_lower_def)

lemma hex_with_prefix_lower: "hex_with_prefix n s \<Longrightarrow> hex_with_prefix n (hex_lower s)"
  by (auto simp: hex_with_prefix_def hex_lower_def js_lower_def list_all_iff intro: is_hex_js_lower)

lemma address_Inr [simp, result_simps]:
  "altana_normalizeAddress s = Inr a \<longleftrightarrow> evmAddressSchema s \<and> a = hex_lower s"
  by (auto simp: altana_normalizeAddress_def)

lemma selector_Inr [simp, result_simps]: "normalizeSelector s = Inr a \<longleftrightarrow> hex_with_prefix 8 s \<and> a = hex_lower s"
  by (auto simp: normalizeSelector_def)

lemma session_key_Inr [simp, result_simps]:
  "normalizeSessionPublicKey s = Inr a \<longleftrightarrow> a = hex_lower s \<and> take 2 s = ''0x'' \<and> list_all is_hex (drop 2 s)
     \<and> 66 \<le> length s \<and> length s \<le> 262 \<and> even (length s - 2)"
  by (auto simp: normalizeSessionPublicKey_def)

interpretation altana_address: normaliser altana_normalizeAddress
  by unfold_locales (auto simp: evmAddressSchema_def intro: hex_with_prefix_lower)

interpretation altana_selector: normaliser normalizeSelector
  by unfold_locales (auto intro: hex_with_prefix_lower)

interpretation session_public_key: normaliser normalizeSessionPublicKey
  by unfold_locales (auto simp: hex_lower_def js_lower_def list_all_iff intro: is_hex_js_lower)

interpretation altana_token: normaliser normalizeToken
  by unfold_locales (auto simp: normalizeToken_def hex_lower_def evmAddressSchema_def hex_with_prefix_def list_all_iff
      js_lower_def split: if_splits intro: is_hex_js_lower)

lemma mapE_fixed: "(\<And>x. x \<in> set xs \<Longrightarrow> f x = Inr x) \<Longrightarrow> mapE f xs = Inr xs"
  by (induction xs) auto

lemma mapE_set: "mapE f xs = Inr ys \<Longrightarrow> y \<in> set ys \<Longrightarrow> \<exists>x \<in> set xs. f x = Inr y"
  by (induction xs arbitrary: ys) auto

interpretation call_normal: normaliser normalizeCallPermission
proof
  fix p q assume "normalizeCallPermission p = Inr q"
  then obtain ss where p: "0 \<le> cp_maxNativeValueWei p" "mapE normalizeSelector (cp_selectors p) = Inr ss" "ss \<noteq> []"
     "evmAddressSchema (cp_target p)"
    and q: "q = \<lparr>cp_target = hex_lower (cp_target p), cp_selectors = sort (remdups ss), cp_maxNativeValueWei = cp_maxNativeValueWei p\<rparr>"
    by (auto simp: normalizeCallPermission_def)
  have "mapE normalizeSelector (cp_selectors q) = Inr (cp_selectors q)"
  proof (rule mapE_fixed)
    fix x assume "x \<in> set (cp_selectors q)"
    then obtain y where "normalizeSelector y = Inr x" using mapE_set [OF p(2)] q by auto
    then show "normalizeSelector x = Inr x" by (rule altana_selector.norm_idem)
  qed
  moreover have "sort (remdups (cp_selectors q)) = cp_selectors q" "cp_selectors q \<noteq> []"
    using p(3) by (simp add: q sorted_sort_id distinct_remdups_id) (metis p(3) q call_permission.select_convs(2) remdups_eq_nil_iff set_empty set_sort)
  ultimately show "normalizeCallPermission q = Inr q"
    using p(1,4) altana_address.norm_idem [of "cp_target p" "hex_lower (cp_target p)"]
    by (simp add: normalizeCallPermission_def q)
qed

interpretation spend_normal: normaliser normalizeSpendPermission
  by unfold_locales (auto simp: normalizeSpendPermission_def dest: altana_token.norm_idem)

interpretation policy_normal: normaliser normalizePolicy
proof
  fix p n assume "normalizePolicy p = Inr n"
  then obtain calls spend key where c: "mapE normalizeCallPermission (po_calls p) = Inr calls" "po_calls p \<noteq> []"
    and s: "mapE normalizeSpendPermission (po_spend p) = Inr spend" "\<not> list_ex (\<lambda>e. sp_limitAtomic e = 0) spend"
    and k: "(case po_sessionPublicKey p of None \<Rightarrow> Inr None
            | Some k \<Rightarrow> bindE (normalizeSessionPublicKey k) (\<lambda>n. Inr (Some n))) = Inr key"
    and e: "isSafeInteger (po_expiresAtUnix p)" "0 < po_expiresAtUnix p" "po_chainId p = 56 \<or> po_chainId p = 97"
    and a: "evmAddressSchema (po_adminAddress p)" "evmAddressSchema (po_walletAddress p)" "evmAddressSchema (po_sessionPublicAddress p)"
    and n: "n = \<lparr>po_chainId = po_chainId p, po_adminAddress = hex_lower (po_adminAddress p),
          po_walletAddress = hex_lower (po_walletAddress p),
          po_sessionPublicAddress = hex_lower (po_sessionPublicAddress p), po_sessionPublicKey = key,
          po_calls = sort_key cp_target calls, po_spend = sort_key bucket_key spend,
          po_expiresAtUnix = po_expiresAtUnix p\<rparr>"
    by (auto simp: normalizePolicy_def)
  have "mapE normalizeCallPermission (sort_key cp_target calls) = Inr (sort_key cp_target calls)"
    using mapE_set [OF c(1)] by (intro mapE_fixed) (auto dest: call_normal.norm_idem)
  moreover have "mapE normalizeSpendPermission (sort_key bucket_key spend) = Inr (sort_key bucket_key spend)"
    using mapE_set [OF s(1)] by (intro mapE_fixed) (auto dest: spend_normal.norm_idem)
  moreover have "calls \<noteq> []" using c mapE_length by fastforce
  then have "sort_key cp_target calls \<noteq> []" by (metis length_0_conv length_sort)
  moreover have "(case key of None \<Rightarrow> Inr None | Some k \<Rightarrow> bindE (normalizeSessionPublicKey k) (\<lambda>n. Inr (Some n))) = Inr key"
    using k by (auto split: option.splits dest: session_public_key.norm_idem simp del: session_key_Inr)
  moreover have "\<not> list_ex (\<lambda>e. sp_limitAtomic e = 0) (sort_key bucket_key spend)"
    using s(2) by (simp add: list_ex_iff)
  ultimately show "normalizePolicy n = Inr n"
    using e a altana_address.norm_idem [of "po_adminAddress p" "hex_lower (po_adminAddress p)"]
      altana_address.norm_idem [of "po_walletAddress p" "hex_lower (po_walletAddress p)"]
      altana_address.norm_idem [of "po_sessionPublicAddress p" "hex_lower (po_sessionPublicAddress p)"]
    by (simp add: normalizePolicy_def n sort_key_id_if_sorted)
qed

section \<open>Spending\<close>

lemma colon_not_in_period: "CHR '':'' \<notin> set (period_name p)"
  by (cases p) auto

lemma append_colon_inj:
  assumes "xs @ CHR '':'' # us = ys @ CHR '':'' # vs" "CHR '':'' \<notin> set us" "CHR '':'' \<notin> set vs"
  shows "xs = ys \<and> us = vs"
proof -
  have last: "takeWhile (\<lambda>c. c \<noteq> CHR '':'') (rev (zs @ CHR '':'' # ws)) = rev ws" if "CHR '':'' \<notin> set ws" for zs ws
    using that by (simp add: takeWhile_append)
  from last [OF assms(2), of xs] last [OF assms(3), of ys] assms(1) have "us = vs" by simp
  with assms(1) show ?thesis by simp
qed

lemma charge_key_inj [simp]: "charge_key c = charge_key d \<longleftrightarrow> ch_token c = ch_token d \<and> ch_period c = ch_period d"
  using append_colon_inj [of "ch_token c" "period_name (ch_period c)" "ch_token d" "period_name (ch_period d)"]
  by (auto simp: charge_key_def colon_not_in_period)

text \<open>The amount a map of totals has under a key.\<close>

definition amount_at :: "(string \<times> spend_charge) list \<Rightarrow> string \<Rightarrow> int" where
  "amount_at m k = (case map_of m k of None \<Rightarrow> 0 | Some e \<Rightarrow> ch_amountAtomic e)"

lemma amount_add: "amount_at (add_charge c m) k = amount_at m k + (if charge_key c = k then ch_amountAtomic c else 0)"
  by (simp add: amount_at_def add_charge_def update_conv')

lemma amount_fold:
  "amount_at (fold add_charge cs m) k = amount_at m k + sum_list (map ch_amountAtomic (filter (\<lambda>c. charge_key c = k) cs))"
  by (induction cs arbitrary: m) (auto simp: amount_add)

definition keyed :: "(string \<times> spend_charge) list \<Rightarrow> bool" where
  "keyed m \<longleftrightarrow> distinct (map fst m) \<and> (\<forall>(k, e) \<in> set m. charge_key e = k)"

lemma set_update: "x \<in> set (AList.update k v m) \<Longrightarrow> x = (k, v) \<or> x \<in> set m"
  by (induction m) (auto split: if_splits)

lemma keyed_add: "keyed m \<Longrightarrow> keyed (add_charge c m)"
  unfolding keyed_def add_charge_def
  by (auto simp: distinct_update dest!: set_update)

lemma keyed_fold: "keyed m \<Longrightarrow> keyed (fold add_charge cs m)"
  by (induction cs arbitrary: m) (auto simp: keyed_add)

lemma keys_fold: "fst ` set (fold add_charge cs m) = fst ` set m \<union> charge_key ` set cs"
proof (induction cs arbitrary: m)
  case (Cons c cs)
  have "fst ` set (add_charge c m) = insert (charge_key c) (fst ` set m)"
    by (simp add: add_charge_def dom_map_of_conv_image_fst [symmetric] update_conv')
  with Cons show ?case by auto
qed simp

text \<open>One entry per bucket, with the sum of the bucket.\<close>

lemma total_of:
  assumes "c \<in> set cs"
  shows "\<exists>e \<in> set (chargeTotals cs). ch_token e = ch_token c \<and> ch_period e = ch_period c
     \<and> ch_amountAtomic e = spent_in (ch_token c) (ch_period c) cs"
proof -
  let ?m = "fold add_charge cs []"
  have k: "keyed ?m" by (rule keyed_fold) (simp add: keyed_def)
  from assms have "charge_key c \<in> fst ` set ?m" by (simp add: keys_fold)
  then obtain e where e: "(charge_key c, e) \<in> set ?m" by auto
  with k have m: "map_of ?m (charge_key c) = Some e" and ke: "charge_key e = charge_key c"
    by (auto simp: keyed_def)
  have "ch_amountAtomic e = sum_list (map ch_amountAtomic (filter (\<lambda>d. charge_key d = charge_key c) cs))"
    using amount_fold [of cs "[]" "charge_key c"] m by (simp add: amount_at_def)
  with e ke show ?thesis by (force simp: chargeTotals_def spent_in_def)
qed

lemma cumulative_is_charge: "normalizeCumulativeSpend = normalizeSpendCharge"
  by (simp add: fun_eq_iff normalizeCumulativeSpend_def normalizeSpendCharge_def)

text \<open>What an accepted action establishes.\<close>

lemma mapE_unit: "mapE f xs = Inr us \<longleftrightarrow> us = replicate (length xs) () \<and> (\<forall>x \<in> set xs. f x = Inr ())"
  by (induction xs arbitrary: us) auto

lemma spent_in_append [simp]: "spent_in t q (xs @ ys) = spent_in t q xs + spent_in t q ys"
  by (simp add: spent_in_def)

lemma action_accepted:
  assumes "assertActionWithinPolicy p r now cumulative = Inr ()"
  obtains n charges usage where "assertPolicyValidAt p now = Inr n" "isCallAllowed p r = Inr True"
    "mapE normalizeSpendCharge (ac_spends r) = Inr charges" "mapE normalizeSpendCharge cumulative = Inr usage"
    "sum_list (map ch_amountAtomic (filter (\<lambda>c. ch_token c = ''native'') charges)) = ac_valueWei r"
    "\<And>u. u \<in> set usage \<Longrightarrow> \<exists>e. find (\<lambda>e. sameSpendBucket e u) (po_spend n) = Some e"
    "\<And>e. e \<in> set (po_spend n) \<Longrightarrow> spent_in (sp_token e) (sp_period e) usage \<le> sp_limitAtomic e"
    "\<And>c. c \<in> set charges \<Longrightarrow> \<exists>e. find (\<lambda>e. sameSpendBucket e c) (po_spend n) = Some e
       \<and> spent_in (ch_token c) (ch_period c) (usage @ charges) \<le> sp_limitAtomic e"
proof -
  from assms obtain v n charges usage where v: "assertPolicyValidAt p now = Inr v" and n: "normalizePolicy p = Inr n"
    and a: "assertCallAllowed p r now = Inr ()" and ch: "mapE normalizeSpendCharge (ac_spends r) = Inr charges"
    and us: "mapE normalizeCumulativeSpend cumulative = Inr usage"
    and native: "sum_list (map ch_amountAtomic (filter (\<lambda>c. ch_token c = ''native'') charges)) = ac_valueWei r"
    and sup: "\<forall>u \<in> set usage. usage_supported n u = Inr ()"
    and prior: "\<forall>e \<in> set (po_spend n). usage_within usage e = Inr ()"
    and within: "\<forall>c \<in> set (chargeTotals charges). charge_within n usage c = Inr ()"
    by (auto simp: assertActionWithinPolicy_def mapE_unit)
  from v n have vn: "assertPolicyValidAt p now = Inr n" by (auto simp: assertPolicyValidAt_def)
  have call: "isCallAllowed p r = Inr True" using a by (auto simp: assertCallAllowed_def)
  have charge: "\<exists>e. find (\<lambda>e. sameSpendBucket e c) (po_spend n) = Some e
       \<and> spent_in (ch_token c) (ch_period c) (usage @ charges) \<le> sp_limitAtomic e" if "c \<in> set charges" for c
  proof -
    from total_of [OF that] obtain d where d: "d \<in> set (chargeTotals charges)" "ch_token d = ch_token c"
      "ch_period d = ch_period c" "ch_amountAtomic d = spent_in (ch_token c) (ch_period c) charges" by blast
    have "(\<lambda>e. sameSpendBucket e d) = (\<lambda>e. sameSpendBucket e c)" using d by (simp add: sameSpendBucket_def)
    with bspec [OF within d(1)] d show ?thesis
      by (auto simp: charge_within_def split: option.splits)
  qed
  show ?thesis
    by (rule that [OF vn call ch _ native _ _ charge])
      (use us sup prior in \<open>auto simp: cumulative_is_charge usage_supported_def usage_within_def\<close>)
qed


text \<open>Actions one after the other, each charged to the usage of the next.\<close>

inductive spend_run :: "scoped_policy \<Rightarrow> spend_charge list \<Rightarrow> bool" for p where
  SpendNone: "spend_run p []"
| SpendMore: "spend_run p us \<Longrightarrow> assertActionWithinPolicy p r now us = Inr () \<Longrightarrow> spend_run p (us @ ac_spends r)"

lemma mapE_append: "mapE f (xs @ ys) = bindE (mapE f xs) (\<lambda>as. bindE (mapE f ys) (\<lambda>bs. Inr (as @ bs)))"
  by (induction xs) (auto simp: bindE_def split: sum.splits)

lemma spent_in_nonneg: "mapE normalizeSpendCharge us = Inr ns \<Longrightarrow> 0 \<le> spent_in t q ns"
  unfolding spent_in_def
  by (rule sum_list_nonneg) (auto simp: normalizeSpendCharge_def dest!: mapE_set)

lemma spent_in_none: "(\<And>c. c \<in> set cs \<Longrightarrow> ch_token c = t \<Longrightarrow> ch_period c = q \<Longrightarrow> False) \<Longrightarrow> spent_in t q cs = 0"
  unfolding spent_in_def by (subst filter_False) auto

lemma spend_run_bounded:
  assumes "spend_run p us" "normalizePolicy p = Inr n" "mapE normalizeSpendCharge us = Inr ns"
  shows "(\<forall>c \<in> set ns. \<exists>e. find (\<lambda>e. sameSpendBucket e c) (po_spend n) = Some e)
    \<and> (\<forall>t q e. find (\<lambda>e. sp_token e = t \<and> sp_period e = q) (po_spend n) = Some e \<longrightarrow> spent_in t q ns \<le> sp_limitAtomic e)"
  using assms
proof (induction arbitrary: ns rule: spend_run.induct)
  case SpendNone
  have "0 \<le> sp_limitAtomic e" if "find (\<lambda>e. sp_token e = t \<and> sp_period e = q) (po_spend n) = Some e" for t q e
  proof -
    have "e \<in> set (po_spend n)" using that by (auto simp: find_Some_iff)
    then show ?thesis
      using SpendNone(1) by (auto simp: normalizePolicy_def normalizeSpendPermission_def dest!: mapE_set)
  qed
  with SpendNone show ?case by (auto simp: spent_in_def)
next
  case (SpendMore us r now)
  from SpendMore(2) show ?case
  proof (rule action_accepted)
    fix v charges usage
    assume v: "assertPolicyValidAt p now = Inr v" and ch: "mapE normalizeSpendCharge (ac_spends r) = Inr charges"
      and us: "mapE normalizeSpendCharge us = Inr usage"
      and within: "\<And>c. c \<in> set charges \<Longrightarrow> \<exists>e. find (\<lambda>e. sameSpendBucket e c) (po_spend v) = Some e
       \<and> spent_in (ch_token c) (ch_period c) (usage @ charges) \<le> sp_limitAtomic e"
    have ns: "ns = usage @ charges" using SpendMore(5) ch us by (auto simp: mapE_append)
    have vn: "v = n" using v SpendMore(4) by (auto simp: assertPolicyValidAt_def)
    note IH = SpendMore(3) [OF SpendMore(4) us]
    have "spent_in t q ns \<le> sp_limitAtomic e" if f: "find (\<lambda>e. sp_token e = t \<and> sp_period e = q) (po_spend n) = Some e" for t q e
    proof (cases "\<exists>c \<in> set charges. ch_token c = t \<and> ch_period c = q")
      case True
      then obtain c where c: "c \<in> set charges" "ch_token c = t" "ch_period c = q" by blast
      from within [OF c(1)] vn c f show ?thesis by (auto simp: ns sameSpendBucket_def)
    next
      case False
      then have "spent_in t q charges = 0" by (intro spent_in_none) auto
      with IH f show ?thesis by (auto simp: ns)
    qed
    moreover have "\<exists>e. find (\<lambda>e. sameSpendBucket e c) (po_spend n) = Some e" if "c \<in> set ns" for c
      using that IH within [of c] vn by (auto simp: ns)
    ultimately show ?thesis by blast
  qed
qed

section \<open>Serialised policies\<close>

lemma map_inj_on_list: "map f xs = map f ys \<Longrightarrow> (\<And>x y. f x = f y \<Longrightarrow> x = y) \<Longrightarrow> xs = ys"
  by (metis inj_map_eq_map injI)

lemma policy_json_inj:
  assumes "policy_json n = policy_json m"
  shows "n = m"
proof -
  let ?call = "\<lambda>e. JObject [(''target'', JString (cp_target e)), (''selectors'', JArray (map JString (cp_selectors e))),
             (''maxNativeValueWei'', JString (show_int (cp_maxNativeValueWei e)))]"
  let ?spend = "\<lambda>e. JObject [(''token'', JString (sp_token e)), (''limitAtomic'', JString (show_int (sp_limitAtomic e))),
             (''period'', JString (period_name (sp_period e)))]"
  have strings: "map JString xs = map JString ys \<Longrightarrow> xs = ys" for xs ys
    by (rule map_inj_on_list [of JString]) auto
  have call: "?call x = ?call y \<Longrightarrow> x = y" for x y :: call_permission
    by (rule call_permission.equality) (auto dest: strings)
  have spend: "?spend x = ?spend y \<Longrightarrow> x = y" for x y :: spend_permission
    by (rule spend_permission.equality) auto
  have eqs: "po_chainId n = po_chainId m" "po_adminAddress n = po_adminAddress m" "po_walletAddress n = po_walletAddress m"
    "po_sessionPublicAddress n = po_sessionPublicAddress m" "po_sessionPublicKey n = po_sessionPublicKey m"
    "map ?call (po_calls n) = map ?call (po_calls m)" "map ?spend (po_spend n) = map ?spend (po_spend m)"
    "po_expiresAtUnix n = po_expiresAtUnix m"
    using assms by (auto simp: policy_json_def jfield_def split: option.splits)
  have "po_calls n = po_calls m" by (rule map_inj_on_list [OF eqs(6)]) (rule call)
  moreover have "po_spend n = po_spend m" by (rule map_inj_on_list [OF eqs(7)]) (rule spend)
  ultimately show ?thesis using eqs by (intro scoped_policy.equality) auto
qed

lemma nz_items_iff: "nz_items vs \<longleftrightarrow> (\<forall>v \<in> set vs. no_negzero v)"
  by (induction vs) auto

lemma policy_json_text_ok: "text_ok (policy_json n)"
  by (auto simp: policy_json_def jfield_def clean_items_iff clean_fields_iff nz_fields_iff nz_items_iff split: option.splits)

lemma serializePolicy_same:
  assumes "serializePolicy p = Inr s" "serializePolicy q = Inr s"
  shows "normalizePolicy p = normalizePolicy q"
proof -
  from assms obtain n m where n: "normalizePolicy p = Inr n" "normalizePolicy q = Inr m"
    and t: "json_text (policy_json n) = json_text (policy_json m)"
    by (auto simp: serializePolicy_def)
  from t have "json_text (policy_json n) @ [] = json_text (policy_json m) @ []" by simp
  from text_decode(1) [OF policy_json_text_ok policy_json_text_ok this] have "policy_json n = policy_json m" by simp
  then show ?thesis using n policy_json_inj by simp
qed

end
