(* ===== verification/Altana_Session.thy ===== *)
theory Altana_Session
  imports Altana_Policy "HOL-Library.Word"
begin

text \<open>
  packages/altana/src/lifecycle.ts, ephemeral-session.ts and the session types of types.ts: the gate in
  front of every state-changing call, and the hand-off of the one-time session material to a secret sink.

  The secret sink is external: it is a function from its own state, the bytes, the descriptor and the
  destination to its next state and an answer. \<open>EphemeralSessionMaterial\<close> is its three pieces of mutable
  state: the contents of the wrapped buffer, whether \<open>#bytes\<close> still points to it, and \<open>#consumed\<close>.
  \<open>Date.now\<close> is the argument \<open>now\<close>. As in the policy theory the tests of run-time types are left out,
  except the test for a null receipt.
\<close>

section \<open>Types\<close>

record session_descriptor =
  rd_sessionId :: string
  rd_policy :: scoped_policy
  rd_policyDigest :: "string option"
  rd_grantTransactionHash :: "string option"
  rd_secretReference :: "string option"
  rd_grantedAtUnix :: int

datatype session_status = SessionUnknown | SessionActive | SessionExpired | SessionRevoked

datatype observation_source = AltanaSdk | KeystoreRead | ChainRead | TestSource

record session_observation =
  so_sessionId :: string
  so_policyDigest :: "string option"
  so_status :: session_status
  so_observedAtUnix :: int
  so_observedBlockNumber :: "int option"
  so_source :: observation_source
  so_reasonCode :: "string option"

datatype secret_provider = StudioChannel | AwsSecretsManager | LocalTestOnly

record secret_reference =
  sr_provider :: secret_provider
  sr_reference :: string

record handoff_receipt =
  hr_handoffId :: string
  hr_destination :: secret_reference
  hr_sessionId :: string
  hr_policyDigest :: "string option"
  hr_acceptedAtUnix :: int
  hr_consumed :: bool

record public_handoff_receipt =
  ph_handoffId :: string
  ph_destinationProvider :: secret_provider
  ph_sessionId :: string
  ph_policyDigest :: "string option"
  ph_acceptedAtUnix :: int
  ph_consumed :: bool

section \<open>The execution gate\<close>

definition MAX_AUTHORITY_OBSERVATION_AGE_SECONDS :: int where
  "MAX_AUTHORITY_OBSERVATION_AGE_SECONDS = 60"

datatype gate_reason = GateError altana_code | AUTHORITY_REVOKED | AUTHORITY_EXPIRED | AUTHORITY_UNVERIFIED
  | AUTHORITY_CHECK_FAILED

record execution_gate =
  eg_allowed :: bool
  eg_reasonCode :: "gate_reason option"

text \<open>Both digests are present, well formed and equal up to case.\<close>

definition digests_match :: "string option \<Rightarrow> string option \<Rightarrow> bool" where
  "digests_match a b = (case (a, b) of
       (Some d, Some e) \<Rightarrow> hex_with_prefix 64 d \<and> hex_with_prefix 64 e \<and> js_lower d = js_lower e
     | _ \<Rightarrow> False)"

definition assertFreshActiveAuthority :: "session_descriptor \<Rightarrow> session_observation \<Rightarrow> int \<Rightarrow> altana_exn + unit" where
  "assertFreshActiveAuthority d ob now =
     bindE (check (so_sessionId ob = rd_sessionId d) A_SESSION_ID_MISMATCH) (\<lambda>_.
     bindE (check (digests_match (rd_policyDigest d) (so_policyDigest ob)) A_POLICY_DIGEST_MISMATCH) (\<lambda>_.
     bindE (check (isSafeInteger now \<and> 0 < now \<and> isSafeInteger (so_observedAtUnix ob) \<and> 0 < so_observedAtUnix ob
       \<and> so_observedAtUnix ob \<le> now \<and> now - so_observedAtUnix ob \<le> MAX_AUTHORITY_OBSERVATION_AGE_SECONDS)
       A_AUTHORITY_STALE) (\<lambda>_.
     check (case so_observedBlockNumber ob of None \<Rightarrow> True | Some b \<Rightarrow> 0 \<le> b) A_AUTHORITY_READ_REQUIRED)))"

fun exn_reason :: "altana_exn \<Rightarrow> gate_reason" where
  "exn_reason (AltanaError c r) = GateError c"
| "exn_reason ForeignError = AUTHORITY_CHECK_FAILED"

fun status_reason :: "session_status \<Rightarrow> gate_reason" where
  "status_reason SessionRevoked = AUTHORITY_REVOKED"
| "status_reason SessionExpired = AUTHORITY_EXPIRED"
| "status_reason _ = AUTHORITY_UNVERIFIED"

definition gate_body :: "session_descriptor \<Rightarrow> session_observation \<Rightarrow> action_request \<Rightarrow> spend_charge list \<Rightarrow> int
    \<Rightarrow> altana_exn + execution_gate" where
  "gate_body d ob r cumulative now =
     bindE (assertFreshActiveAuthority d ob now) (\<lambda>_.
     if so_status ob \<noteq> SessionActive
     then Inr \<lparr>eg_allowed = False, eg_reasonCode = Some (status_reason (so_status ob))\<rparr>
     else bindE (assertPolicyValidAt (rd_policy d) now) (\<lambda>_.
          bindE (assertActionWithinPolicy (rd_policy d) r now cumulative) (\<lambda>_.
          Inr \<lparr>eg_allowed = True, eg_reasonCode = None\<rparr>)))"

definition executionGate :: "session_descriptor \<Rightarrow> session_observation \<Rightarrow> action_request \<Rightarrow> spend_charge list \<Rightarrow> int
    \<Rightarrow> execution_gate" where
  "executionGate d ob r cumulative now = (case gate_body d ob r cumulative now of
       Inr g \<Rightarrow> g
     | Inl e \<Rightarrow> \<lparr>eg_allowed = False, eg_reasonCode = Some (exn_reason e)\<rparr>)"

definition assertExecutionAllowed :: "session_descriptor \<Rightarrow> session_observation \<Rightarrow> action_request \<Rightarrow> spend_charge list
    \<Rightarrow> int \<Rightarrow> altana_exn + unit" where
  "assertExecutionAllowed d ob r cumulative now =
     (let g = executionGate d ob r cumulative now in
      check (eg_allowed g)
        (if eg_reasonCode g = Some AUTHORITY_EXPIRED then A_SESSION_NOT_ACTIVE else A_CALL_NOT_ALLOWED))"

lemma gate_allowed_iff:
  "eg_allowed (executionGate d ob r cumulative now) \<longleftrightarrow>
     assertFreshActiveAuthority d ob now = Inr () \<and> so_status ob = SessionActive
     \<and> assertActionWithinPolicy (rd_policy d) r now cumulative = Inr ()"
proof -
  have "\<exists>n. assertPolicyValidAt (rd_policy d) now = Inr n"
    if "assertActionWithinPolicy (rd_policy d) r now cumulative = Inr ()"
    using that by (auto simp: assertActionWithinPolicy_def)
  then show ?thesis
    by (cases "gate_body d ob r cumulative now") (auto simp: executionGate_def gate_body_def bindE_eq_Inl split: if_splits)
qed

lemma execution_allowed_iff:
  "assertExecutionAllowed d ob r cumulative now = Inr () \<longleftrightarrow> eg_allowed (executionGate d ob r cumulative now)"
  by (simp add: assertExecutionAllowed_def Let_def)

section \<open>Session material\<close>

record session_material =
  em_buffer :: "8 word list"
  em_held :: bool
  em_consumed :: bool

definition newSessionMaterial :: "8 word list \<Rightarrow> altana_exn + session_material" where
  "newSessionMaterial bytes = (if bytes = [] then Inl (altana_error A_SESSION_MATERIAL_EMPTY)
     else Inr \<lparr>em_buffer = bytes, em_held = True, em_consumed = False\<rparr>)"

text \<open>\<open>fill(0)\<close>.\<close>

definition zeroed :: "session_material \<Rightarrow> session_material" where
  "zeroed m = m\<lparr>em_buffer := map (\<lambda>_. 0) (em_buffer m)\<rparr>"

definition consume :: "session_material \<Rightarrow> altana_exn + 8 word list \<times> session_material" where
  "consume m = (if \<not> em_held m \<or> em_consumed m then Inl (altana_error A_SESSION_MATERIAL_CONSUMED)
     else Inr (em_buffer m, m\<lparr>em_held := False, em_consumed := True\<rparr>))"

definition dispose :: "session_material \<Rightarrow> session_material" where
  "dispose m = (if em_held m then zeroed m else m)\<lparr>em_held := False, em_consumed := True\<rparr>"

section \<open>The hand-off\<close>

type_synonym 's secret_sink = "'s \<Rightarrow> 8 word list \<Rightarrow> session_descriptor \<Rightarrow> secret_reference
    \<Rightarrow> 's \<times> (altana_exn + handoff_receipt option)"

text \<open>\<open>^\S.{0,511}$\<close> with the dot matching every character, and \<open>^[A-Za-z0-9][A-Za-z0-9._:-]{0,127}$\<close>.\<close>

definition SAFE_PUBLIC_REFERENCE :: "string \<Rightarrow> bool" where
  "SAFE_PUBLIC_REFERENCE s = (case s of [] \<Rightarrow> False | c # cs \<Rightarrow> \<not> is_space c \<and> length cs \<le> 511)"

definition SAFE_HANDOFF_ID :: "string \<Rightarrow> bool" where
  "SAFE_HANDOFF_ID s = (case s of [] \<Rightarrow> False | c # cs \<Rightarrow> is_alnum c \<and> length cs \<le> 127
     \<and> list_all (\<lambda>d. is_alnum d \<or> d \<in> set ''._:-'') cs)"

definition assertApprovedDestination :: "secret_reference \<Rightarrow> altana_exn + unit" where
  "assertApprovedDestination r =
     check (sr_provider r \<in> {StudioChannel, AwsSecretsManager, LocalTestOnly} \<and> SAFE_PUBLIC_REFERENCE (sr_reference r))
       A_SESSION_HANDOFF_FAILED"

definition normalizePolicyDigest :: "string option \<Rightarrow> altana_exn + string option" where
  "normalizePolicyDigest p = (case p of None \<Rightarrow> Inr None
     | Some d \<Rightarrow> if hex_with_prefix 64 d then Inr (Some (hex_lower d)) else Inl (altana_error A_SESSION_HANDOFF_FAILED))"

definition assertUnixTime :: "int \<Rightarrow> altana_exn + unit" where
  "assertUnixTime t = check (isSafeInteger t \<and> 0 < t) A_SESSION_HANDOFF_FAILED"

text \<open>What is checked before the material is consumed; it returns the digest of the descriptor.\<close>

definition handoff_ready :: "session_descriptor \<Rightarrow> secret_reference \<Rightarrow> int \<Rightarrow> altana_exn + string option" where
  "handoff_ready d dest now =
     bindE (assertUnixTime now) (\<lambda>_.
     bindE (check (rd_secretReference d = None) A_SESSION_HANDOFF_FAILED) (\<lambda>_.
     bindE (assertPolicyValidAt (rd_policy d) now) (\<lambda>_.
     bindE (assertUnixTime (rd_grantedAtUnix d)) (\<lambda>_.
     bindE (check (rd_grantedAtUnix d \<le> now \<and> rd_grantedAtUnix d < po_expiresAtUnix (rd_policy d))
              A_SESSION_HANDOFF_FAILED) (\<lambda>_.
     bindE (normalizePolicyDigest (rd_policyDigest d)) (\<lambda>digest.
     bindE (assertApprovedDestination dest) (\<lambda>_.
     bindE (check (SAFE_HANDOFF_ID (rd_sessionId d)) A_SESSION_HANDOFF_FAILED) (\<lambda>_.
     Inr digest))))))))"

text \<open>The checks on the receipt of the sink, and the receipt that is returned.\<close>

definition sink_receipt_checked :: "session_descriptor \<Rightarrow> secret_reference \<Rightarrow> string option \<Rightarrow> handoff_receipt option
    \<Rightarrow> altana_exn + handoff_receipt" where
  "sink_receipt_checked d dest digest receipt = (case receipt of
       None \<Rightarrow> Inl (altana_error A_SESSION_HANDOFF_FAILED)
     | Some r \<Rightarrow>
     bindE (check (hr_consumed r) A_SESSION_HANDOFF_FAILED) (\<lambda>_.
     bindE (check (sr_provider (hr_destination r) = sr_provider dest \<and> sr_reference (hr_destination r) = sr_reference dest
       \<and> hr_sessionId r = rd_sessionId d \<and> SAFE_HANDOFF_ID (hr_handoffId r)) A_SESSION_HANDOFF_FAILED) (\<lambda>_.
     bindE (assertApprovedDestination (hr_destination r)) (\<lambda>_.
     bindE (normalizePolicyDigest (hr_policyDigest r)) (\<lambda>own.
     bindE (check (own = digest) A_SESSION_HANDOFF_FAILED) (\<lambda>_.
     bindE (assertUnixTime (hr_acceptedAtUnix r)) (\<lambda>_.
     bindE (check (rd_grantedAtUnix d \<le> hr_acceptedAtUnix r \<and> hr_acceptedAtUnix r < po_expiresAtUnix (rd_policy d))
              A_SESSION_HANDOFF_FAILED) (\<lambda>_.
     Inr \<lparr>hr_handoffId = hr_handoffId r,
          hr_destination = \<lparr>sr_provider = sr_provider (hr_destination r), sr_reference = sr_reference (hr_destination r)\<rparr>,
          hr_sessionId = hr_sessionId r, hr_policyDigest = own, hr_acceptedAtUnix = hr_acceptedAtUnix r,
          hr_consumed = True\<rparr>))))))))"

text \<open>The \<open>catch\<close> of the hand-off: only boundary errors keep their code.\<close>

fun handoff_catch :: "altana_exn + 'a \<Rightarrow> altana_exn + 'a" where
  "handoff_catch (Inl ForeignError) = Inl (AltanaError A_SESSION_HANDOFF_FAILED True)"
| "handoff_catch r = r"

definition handoffRuntimeSession :: "'s secret_sink \<Rightarrow> session_descriptor \<Rightarrow> secret_reference \<Rightarrow> int
    \<Rightarrow> session_material \<times> 's \<Rightarrow> (altana_exn + handoff_receipt) \<times> session_material \<times> 's" where
  "handoffRuntimeSession sink d dest now st = (case st of (m, s) \<Rightarrow>
     case handoff_ready d dest now of
       Inl e \<Rightarrow> (Inl e, m, s)
     | Inr digest \<Rightarrow> (case consume m of
         Inl e \<Rightarrow> (Inl e, m, s)
       | Inr (bytes, m') \<Rightarrow> (case sink s bytes d dest of (s', answer) \<Rightarrow>
           (handoff_catch (bindE answer (sink_receipt_checked d dest digest)), zeroed m', s'))))"

definition toPublicSessionHandoffReceipt :: "handoff_receipt \<Rightarrow> public_handoff_receipt" where
  "toPublicSessionHandoffReceipt r = \<lparr>ph_handoffId = hr_handoffId r, ph_destinationProvider = sr_provider (hr_destination r),
     ph_sessionId = hr_sessionId r, ph_policyDigest = hr_policyDigest r, ph_acceptedAtUnix = hr_acceptedAtUnix r,
     ph_consumed = True\<rparr>"

section \<open>Facts about the hand-off\<close>

lemma handoff_catch_Inr [simp]: "handoff_catch r = Inr x \<longleftrightarrow> r = Inr x"
  by (cases r rule: handoff_catch.cases) auto

lemma digest_Inr: "normalizePolicyDigest p = Inr q \<longleftrightarrow>
    (case p of None \<Rightarrow> q = None | Some d \<Rightarrow> hex_with_prefix 64 d \<and> q = Some (hex_lower d))"
  by (auto simp: normalizePolicyDigest_def split: option.splits)

lemma sink_receipt_checked_Inr:
  assumes "sink_receipt_checked d dest digest answer = Inr rc"
  shows "hr_destination rc = dest" "hr_sessionId rc = rd_sessionId d" "hr_policyDigest rc = digest" "hr_consumed rc"
    "SAFE_HANDOFF_ID (hr_handoffId rc)" "rd_grantedAtUnix d \<le> hr_acceptedAtUnix rc"
    "hr_acceptedAtUnix rc < po_expiresAtUnix (rd_policy d)"
  using assms by (auto simp: sink_receipt_checked_def split: option.splits)

text \<open>One attempt either leaves the material and the sink alone, or consumes the material.\<close>

lemma handoff_step:
  assumes "handoffRuntimeSession sink d dest now (m, s) = (res, m', s')"
  shows "m' = m \<and> s' = s \<and> \<not> is_ok res
     \<or> em_held m \<and> \<not> em_consumed m \<and> is_ok (handoff_ready d dest now)
        \<and> m' = zeroed (m\<lparr>em_held := False, em_consumed := True\<rparr>) \<and> s' = fst (sink s (em_buffer m) d dest)"
  using assms
  by (auto simp: handoffRuntimeSession_def consume_def is_ok_def split: sum.splits if_splits prod.splits)

lemma handoff_accepted:
  assumes "handoffRuntimeSession sink d dest now (m, s) = (Inr rc, m', s')"
  shows "\<exists>digest answer. handoff_ready d dest now = Inr digest \<and> sink s (em_buffer m) d dest = (s', Inr answer)
    \<and> sink_receipt_checked d dest digest answer = Inr rc
    \<and> em_held m \<and> \<not> em_consumed m \<and> m' = zeroed (m\<lparr>em_held := False, em_consumed := True\<rparr>)"
  using assms
  by (auto simp: handoffRuntimeSession_def consume_def split: sum.splits if_splits prod.splits)

text \<open>A sink with a log of the bytes it was given, and any sequence of attempts and disposals.\<close>

definition logged :: "'s secret_sink \<Rightarrow> (8 word list list \<times> 's) secret_sink" where
  "logged sink s b d dest = (case sink (snd s) b d dest of (s', answer) \<Rightarrow> ((fst s @ [b], s'), answer))"

datatype material_use = HandOff session_descriptor secret_reference int | Dispose

fun use_material :: "'s secret_sink \<Rightarrow> material_use \<Rightarrow> session_material \<times> 's \<Rightarrow> session_material \<times> 's" where
  "use_material sink (HandOff d dest now) st = snd (handoffRuntimeSession sink d dest now st)"
| "use_material sink Dispose (m, s) = (dispose m, s)"

definition one_time :: "8 word list \<Rightarrow> session_material \<times> 8 word list list \<times> 's \<Rightarrow> bool" where
  "one_time bytes st \<longleftrightarrow> (case st of (m, log, _) \<Rightarrow>
     log = [] \<and> m = \<lparr>em_buffer = bytes, em_held = True, em_consumed = False\<rparr>
     \<or> log \<in> {[], [bytes]} \<and> em_buffer m = replicate (length bytes) 0 \<and> \<not> em_held m \<and> em_consumed m)"

lemma one_time_use:
  assumes "one_time bytes st"
  shows "one_time bytes (use_material (logged sink) u st)"
proof (cases u)
  case (HandOff d dest now)
  obtain m log s where st: "st = (m, log, s)" by (cases st)
  obtain res m' log' s' where h: "handoffRuntimeSession (logged sink) d dest now (m, log, s) = (res, m', log', s')"
    by (cases "handoffRuntimeSession (logged sink) d dest now (m, log, s)") auto
  from handoff_step [OF h] show ?thesis
    using assms by (auto simp: HandOff st h one_time_def logged_def zeroed_def map_replicate_const split: prod.splits)
next
  case Dispose
  then show ?thesis
    using assms by (cases st) (auto simp: one_time_def dispose_def zeroed_def map_replicate_const)
qed

lemma one_time_run: "one_time bytes st \<Longrightarrow> one_time bytes (fold (use_material (logged sink)) us st)"
  by (induction us arbitrary: st) (auto simp: one_time_use)

end
