(* ===== verification/Altana_Authority.thy ===== *)
theory Altana_Authority
  imports Altana_Session
begin

text \<open>
  packages/altana/src/authority.ts: the authority of a creator over a delegated session. It is confirmed
  once per draft, read again and revoked through a live gateway, and required before a runtime action.

  External: \<open>keccak256\<close> of a text is the function \<open>keccak\<close>, the gateway and the resolver of draft owners are
  functions that may fail. The store is a record of functions on its state, the interface
  \<open>CreatorAuthorityStore\<close>; its laws are the locale \<open>authority_storage\<close>.
  Every operation returns its result with the state it left.
\<close>

section \<open>Records and interfaces\<close>

record authority_record =
  ar_authorityId :: string
  ar_draftId :: string
  ar_ownerAddress :: string
  ar_descriptor :: session_descriptor
  ar_secretReference :: string
  ar_handoff :: public_handoff_receipt
  ar_observation :: session_observation

record authority_view =
  av_authorityId :: string
  av_draftId :: string
  av_ownerAddress :: string
  av_policy :: public_policy
  av_policyDigest :: string
  av_expiresAtUnix :: int
  av_status :: session_status
  av_observedBlockNumber :: "string option"
  av_observedAtUnix :: int
  av_observationSource :: observation_source
  av_reasonCode :: "string option"

record 's authority_store =
  as_getByDraft :: "string \<Rightarrow> 's \<Rightarrow> altana_exn + authority_record option"
  as_get :: "string \<Rightarrow> 's \<Rightarrow> altana_exn + authority_record option"
  as_put :: "authority_record \<Rightarrow> 's \<Rightarrow> altana_exn + 's"

record authority_gateway =
  gw_read :: "session_descriptor \<Rightarrow> altana_exn + session_observation"
  gw_revoke :: "session_descriptor \<Rightarrow> altana_exn + session_observation"

type_synonym draft_resolver = "string \<Rightarrow> altana_exn + string option"

section \<open>Digests and observations\<close>

definition authorityPolicyDigest :: "(string \<Rightarrow> string) \<Rightarrow> scoped_policy \<Rightarrow> altana_exn + string" where
  "authorityPolicyDigest keccak p = bindE (serializePolicy p) (\<lambda>s. Inr (keccak s))"

definition assertLiveObservation :: "session_observation \<Rightarrow> altana_exn + unit" where
  "assertLiveObservation ob = check (so_source ob \<noteq> TestSource \<and> so_source ob \<noteq> KeystoreRead) A_AUTHORITY_READ_REQUIRED"

definition assertDescriptorPolicyDigest :: "(string \<Rightarrow> string) \<Rightarrow> session_descriptor \<Rightarrow> altana_exn + unit" where
  "assertDescriptorPolicyDigest keccak d =
     bindE (authorityPolicyDigest keccak (rd_policy d)) (\<lambda>expected.
     check (case rd_policyDigest d of None \<Rightarrow> False | Some g \<Rightarrow> js_lower g = js_lower expected) A_POLICY_DIGEST_MISMATCH)"

definition assertBoundFreshObservation ::
    "(string \<Rightarrow> string) \<Rightarrow> session_descriptor \<Rightarrow> session_observation \<Rightarrow> int \<Rightarrow> altana_exn + unit" where
  "assertBoundFreshObservation keccak d ob now =
     bindE (assertDescriptorPolicyDigest keccak d) (\<lambda>_.
     bindE (assertLiveObservation ob) (\<lambda>_.
     check ((case (rd_policyDigest d, so_policyDigest ob) of (Some g, Some h) \<Rightarrow>
               so_sessionId ob = rd_sessionId d \<and> js_lower h = js_lower g | _ \<Rightarrow> False)
       \<and> so_observedAtUnix ob \<le> now \<and> now - so_observedAtUnix ob \<le> 60) A_AUTHORITY_READ_REQUIRED))"

definition effectiveObservation :: "session_descriptor \<Rightarrow> session_observation \<Rightarrow> int \<Rightarrow> session_observation" where
  "effectiveObservation d ob now = (if po_expiresAtUnix (rd_policy d) \<le> now \<and> so_status ob = SessionActive
     then ob\<lparr>so_status := SessionExpired, so_reasonCode := Some ''AUTHORITY_EXPIRED''\<rparr> else ob)"

definition publicStatus :: "(string \<Rightarrow> string) \<Rightarrow> authority_record \<Rightarrow> altana_exn + authority_view" where
  "publicStatus keccak r =
     bindE (toPublicPolicySummary (rd_policy (ar_descriptor r))) (\<lambda>summary.
     bindE (case rd_policyDigest (ar_descriptor r) of Some g \<Rightarrow> Inr g
            | None \<Rightarrow> authorityPolicyDigest keccak (rd_policy (ar_descriptor r))) (\<lambda>digest.
     Inr \<lparr>av_authorityId = ar_authorityId r, av_draftId = ar_draftId r, av_ownerAddress = ar_ownerAddress r,
          av_policy = summary, av_policyDigest = digest, av_expiresAtUnix = po_expiresAtUnix (rd_policy (ar_descriptor r)),
          av_status = so_status (ar_observation r),
          av_observedBlockNumber = map_option show_int (so_observedBlockNumber (ar_observation r)),
          av_observedAtUnix = so_observedAtUnix (ar_observation r), av_observationSource = so_source (ar_observation r),
          av_reasonCode = so_reasonCode (ar_observation r)\<rparr>))"

section \<open>Reading, revoking, requiring\<close>

definition found :: "authority_record option \<Rightarrow> altana_exn + authority_record" where
  "found r = (case r of None \<Rightarrow> Inl (altana_error A_SESSION_NOT_ACTIVE) | Some x \<Rightarrow> Inr x)"

text \<open>\<open>store.put\<close> and then the public status: what fails after the put leaves the store changed.\<close>

definition put_status :: "(string \<Rightarrow> string) \<Rightarrow> 's authority_store \<Rightarrow> altana_exn + authority_record \<Rightarrow> 's
    \<Rightarrow> (altana_exn + authority_view) \<times> 's" where
  "put_status keccak store updated st = (case bindE updated (\<lambda>u. bindE (as_put store u st) (\<lambda>st'. Inr (u, st'))) of
       Inl e \<Rightarrow> (Inl e, st)
     | Inr (u, st') \<Rightarrow> (publicStatus keccak u, st'))"

definition readCreatorAuthority :: "(string \<Rightarrow> string) \<Rightarrow> 's authority_store \<Rightarrow> authority_gateway \<Rightarrow> string \<Rightarrow> int \<Rightarrow> 's
    \<Rightarrow> (altana_exn + authority_view) \<times> 's" where
  "readCreatorAuthority keccak store gateway authorityId now st =
     put_status keccak store
       (bindE (as_get store authorityId st) (\<lambda>got. bindE (found got) (\<lambda>r.
        bindE (gw_read gateway (ar_descriptor r)) (\<lambda>ob.
        bindE (assertBoundFreshObservation keccak (ar_descriptor r) ob now) (\<lambda>_.
        Inr (r\<lparr>ar_observation := effectiveObservation (ar_descriptor r) ob now\<rparr>)))))) st"

text \<open>\<open>now\<close> is \<open>nowUnix ?? Date.now()\<close>.\<close>

definition revokeCreatorAuthority :: "(string \<Rightarrow> string) \<Rightarrow> 's authority_store \<Rightarrow> authority_gateway \<Rightarrow> string \<Rightarrow> int \<Rightarrow> 's
    \<Rightarrow> (altana_exn + authority_view) \<times> 's" where
  "revokeCreatorAuthority keccak store gateway authorityId now st =
     put_status keccak store
       (bindE (as_get store authorityId st) (\<lambda>got. bindE (found got) (\<lambda>r.
        bindE (gw_revoke gateway (ar_descriptor r)) (\<lambda>ob.
        bindE (assertBoundFreshObservation keccak (ar_descriptor r) ob (max now (so_observedAtUnix ob))) (\<lambda>_.
        bindE (check (so_status ob = SessionRevoked) A_SESSION_NOT_ACTIVE) (\<lambda>_.
        Inr (r\<lparr>ar_observation := ob\<rparr>))))))) st"

record runtime_authority =
  ra_sessionId :: string
  ra_policy :: scoped_policy
  ra_policyDigest :: "string option"
  ra_secretReference :: string

definition requireRuntimeAuthority :: "(string \<Rightarrow> string) \<Rightarrow> 's authority_store \<Rightarrow> authority_gateway \<Rightarrow> string
    \<Rightarrow> action_request \<Rightarrow> spend_charge list \<Rightarrow> int \<Rightarrow> 's \<Rightarrow> altana_exn + runtime_authority" where
  "requireRuntimeAuthority keccak store gateway authorityId request cumulative now st =
     bindE (as_get store authorityId st) (\<lambda>got. bindE (found got) (\<lambda>r.
     bindE (gw_read gateway (ar_descriptor r)) (\<lambda>ob.
     bindE (assertBoundFreshObservation keccak (ar_descriptor r) ob now) (\<lambda>_.
     bindE (check (eg_allowed (executionGate (ar_descriptor r) (effectiveObservation (ar_descriptor r) ob now)
              request cumulative now)) A_SESSION_NOT_ACTIVE) (\<lambda>_.
     Inr \<lparr>ra_sessionId = rd_sessionId (ar_descriptor r), ra_policy = rd_policy (ar_descriptor r),
          ra_policyDigest = rd_policyDigest (ar_descriptor r), ra_secretReference = ar_secretReference r\<rparr>)))))"

section \<open>Confirming\<close>

record authority_request =
  cq_authorityId :: string
  cq_draftId :: string
  cq_ownerAddress :: string
  cq_descriptor :: session_descriptor
  cq_destination :: secret_reference

definition owner_trusted :: "draft_resolver \<Rightarrow> authority_request \<Rightarrow> altana_exn + unit" where
  "owner_trusted drafts q = bindE (drafts (cq_draftId q)) (\<lambda>trusted.
     check (case trusted of None \<Rightarrow> False | Some owner \<Rightarrow> js_lower owner = js_lower (cq_ownerAddress q)
       \<and> js_lower owner = js_lower (po_adminAddress (rd_policy (cq_descriptor q)))) A_SESSION_NOT_ACTIVE)"

text \<open>An existing confirmation is the same one: the optional digests are compared as \<open>?.toLowerCase()\<close> does.\<close>

definition same_authority :: "authority_record \<Rightarrow> authority_request \<Rightarrow> bool" where
  "same_authority r q \<longleftrightarrow> ar_authorityId r = cq_authorityId q \<and> ar_ownerAddress r = js_lower (cq_ownerAddress q)
     \<and> rd_sessionId (ar_descriptor r) = rd_sessionId (cq_descriptor q)
     \<and> map_option js_lower (rd_policyDigest (ar_descriptor r)) = map_option js_lower (rd_policyDigest (cq_descriptor q))"

definition live_before_handoff :: "(string \<Rightarrow> string) \<Rightarrow> authority_gateway \<Rightarrow> authority_request \<Rightarrow> int
    \<Rightarrow> altana_exn + session_observation" where
  "live_before_handoff keccak gateway q now =
     bindE (check (rd_secretReference (cq_descriptor q) = None) A_SESSION_HANDOFF_FAILED) (\<lambda>_.
     bindE (gw_read gateway (cq_descriptor q)) (\<lambda>ob.
     bindE (assertBoundFreshObservation keccak (cq_descriptor q) ob now) (\<lambda>_.
     bindE (check (so_status ob = SessionActive) A_SESSION_NOT_ACTIVE) (\<lambda>_. Inr ob))))"

definition confirmed_record :: "authority_request \<Rightarrow> handoff_receipt \<Rightarrow> session_observation \<Rightarrow> authority_record" where
  "confirmed_record q h ob = \<lparr>ar_authorityId = cq_authorityId q, ar_draftId = cq_draftId q,
     ar_ownerAddress = js_lower (cq_ownerAddress q),
     ar_descriptor = (cq_descriptor q)\<lparr>rd_secretReference := Some (sr_reference (hr_destination h))\<rparr>,
     ar_secretReference = sr_reference (hr_destination h),
     ar_handoff = \<lparr>ph_handoffId = hr_handoffId h, ph_destinationProvider = sr_provider (hr_destination h),
       ph_sessionId = hr_sessionId h, ph_policyDigest = hr_policyDigest h, ph_acceptedAtUnix = hr_acceptedAtUnix h,
       ph_consumed = True\<rparr>,
     ar_observation = ob\<rparr>"

definition confirmCreatorAuthority :: "(string \<Rightarrow> string) \<Rightarrow> 'w secret_sink \<Rightarrow> authority_gateway \<Rightarrow> 's authority_store
    \<Rightarrow> draft_resolver \<Rightarrow> authority_request \<Rightarrow> int \<Rightarrow> (session_material \<times> 'w) \<times> 's
    \<Rightarrow> (altana_exn + authority_view) \<times> (session_material \<times> 'w) \<times> 's" where
  "confirmCreatorAuthority keccak sink gateway store drafts q now state = (case state of (ms, st) \<Rightarrow>
     case bindE (assertPolicyValidAt (rd_policy (cq_descriptor q)) now) (\<lambda>_.
          bindE (assertDescriptorPolicyDigest keccak (cq_descriptor q)) (\<lambda>_.
          bindE (owner_trusted drafts q) (\<lambda>_. as_getByDraft store (cq_draftId q) st))) of
       Inl e \<Rightarrow> (Inl e, ms, st)
     | Inr (Some existing) \<Rightarrow>
         if same_authority existing q
         then (case readCreatorAuthority keccak store gateway (ar_authorityId existing) now st of (v, st') \<Rightarrow> (v, ms, st'))
         else (Inl (altana_error A_SESSION_HANDOFF_FAILED), ms, st)
     | Inr None \<Rightarrow> (case live_before_handoff keccak gateway q now of
         Inl e \<Rightarrow> (Inl e, ms, st)
       | Inr ob \<Rightarrow> (case handoffRuntimeSession sink (cq_descriptor q) (cq_destination q) now ms of
           (Inl e, ms') \<Rightarrow> (Inl e, ms', st)
         | (Inr h, ms') \<Rightarrow> (case put_status keccak store (Inr (confirmed_record q h ob)) st of (v, st') \<Rightarrow> (v, ms', st')))))"

section \<open>What the operations establish\<close>

lemma bound_observation:
  assumes "assertBoundFreshObservation keccak d ob now = Inr ()"
  shows "assertDescriptorPolicyDigest keccak d = Inr ()" "so_source ob \<in> {AltanaSdk, ChainRead}"
    "so_sessionId ob = rd_sessionId d" "so_observedAtUnix ob \<le> now" "now - so_observedAtUnix ob \<le> 60"
    "\<exists>g h. rd_policyDigest d = Some g \<and> so_policyDigest ob = Some h \<and> js_lower h = js_lower g"
  using assms
  by (cases "so_source ob"; auto simp: assertBoundFreshObservation_def assertLiveObservation_def split: option.splits)+

lemma effective_active: "so_status (effectiveObservation d ob now) = SessionActive \<longleftrightarrow>
    so_status ob = SessionActive \<and> now < po_expiresAtUnix (rd_policy d)"
  by (auto simp: effectiveObservation_def)

lemma require_established:
  assumes "requireRuntimeAuthority keccak store gateway i request cumulative now st = Inr a"
  shows "\<exists>r ob. as_get store i st = Inr (Some r) \<and> gw_read gateway (ar_descriptor r) = Inr ob
    \<and> assertBoundFreshObservation keccak (ar_descriptor r) ob now = Inr () \<and> so_status ob = SessionActive
    \<and> now < po_expiresAtUnix (rd_policy (ar_descriptor r))
    \<and> assertActionWithinPolicy (rd_policy (ar_descriptor r)) request now cumulative = Inr ()
    \<and> a = \<lparr>ra_sessionId = rd_sessionId (ar_descriptor r), ra_policy = rd_policy (ar_descriptor r),
           ra_policyDigest = rd_policyDigest (ar_descriptor r), ra_secretReference = ar_secretReference r\<rparr>"
  using assms
  by (auto simp: requireRuntimeAuthority_def found_def gate_allowed_iff effective_active split: option.splits)

lemma put_status_Inr:
  "put_status keccak store updated st = (Inr v, st') \<Longrightarrow> \<exists>u. updated = Inr u \<and> as_put store u st = Inr st'"
  by (auto simp: put_status_def split: sum.splits prod.splits)

lemma put_status_state:
  assumes "put_status keccak store updated st = (v, st')"
  shows "st' = st \<or> (\<exists>u. updated = Inr u \<and> as_put store u st = Inr st')"
  using assms by (auto simp: put_status_def split: sum.splits prod.splits)

text \<open>A first confirmation puts the record of a hand-off that followed a live, active observation.\<close>

lemma confirm_established:
  assumes "confirmCreatorAuthority keccak sink gateway store drafts q now ((m, w), st) = (Inr v, ms', st')"
    and "as_getByDraft store (cq_draftId q) st = Inr None"
  shows "\<exists>ob h. live_before_handoff keccak gateway q now = Inr ob
    \<and> handoffRuntimeSession sink (cq_descriptor q) (cq_destination q) now (m, w) = (Inr h, ms')
    \<and> as_put store (confirmed_record q h ob) st = Inr st'
    \<and> (\<exists>n. assertPolicyValidAt (rd_policy (cq_descriptor q)) now = Inr n)
    \<and> assertDescriptorPolicyDigest keccak (cq_descriptor q) = Inr () \<and> owner_trusted drafts q = Inr ()"
  using assms
  by (auto simp: confirmCreatorAuthority_def bindE_eq_Inl split: sum.splits option.splits prod.splits if_splits
      dest!: put_status_Inr)

text \<open>The material is only touched after everything in front of the hand-off has passed.\<close>

lemma confirm_material:
  assumes "confirmCreatorAuthority keccak sink gateway store drafts q now ((m, w), st) = (v, (m', w'), st')"
    and "(m', w') \<noteq> (m, w)"
  shows "\<exists>ob. live_before_handoff keccak gateway q now = Inr ob \<and> as_getByDraft store (cq_draftId q) st = Inr None
    \<and> owner_trusted drafts q = Inr () \<and> is_ok (handoff_ready (cq_descriptor q) (cq_destination q) now)"
proof -
  have step: "is_ok (handoff_ready (cq_descriptor q) (cq_destination q) now)"
    if "handoffRuntimeSession sink (cq_descriptor q) (cq_destination q) now (m, w) = (res, m', w')" for res
    using handoff_step [OF that] assms(2) by auto
  show ?thesis
    using assms step
    by (auto simp: confirmCreatorAuthority_def bindE_eq_Inl split: sum.splits option.splits prod.splits if_splits)
qed

section \<open>The owner in place of the admin\<close>

lemma action_same_policy:
  assumes "normalizePolicy p = normalizePolicy p'" "po_calls p = po_calls p'"
  shows "assertActionWithinPolicy p = assertActionWithinPolicy p'"
  using assms
  by (simp add: fun_eq_iff assertActionWithinPolicy_def assertCallAllowed_def isCallAllowed_def assertPolicyValidAt_def)

lemma normalize_admin:
  assumes "normalizePolicy p = Inr n" "js_lower owner = js_lower (po_adminAddress p)"
  shows "normalizePolicy (p\<lparr>po_adminAddress := js_lower owner\<rparr>) = normalizePolicy p"
proof -
  have a: "evmAddressSchema (po_adminAddress p)" using assms(1) by (auto simp: normalizePolicy_def)
  then have "js_lower (po_adminAddress p) = hex_lower (po_adminAddress p)"
    by (cases "po_adminAddress p"; cases "tl (po_adminAddress p)")
      (auto simp: evmAddressSchema_def hex_with_prefix_def hex_lower_def js_lower_def js_lower_char_def code_def)
  with a assms(2) altana_address.norm_idem [of "po_adminAddress p" "hex_lower (po_adminAddress p)"]
  have "altana_normalizeAddress (js_lower owner) = altana_normalizeAddress (po_adminAddress p)"
    by (simp add: altana_normalizeAddress_def)
  then show ?thesis by (simp add: normalizePolicy_def)
qed

section \<open>Sequences of reads and revocations\<close>

datatype authority_use = ReadAuthority authority_gateway string int | RevokeAuthority authority_gateway string int

fun use_authority :: "(string \<Rightarrow> string) \<Rightarrow> 's authority_store \<Rightarrow> authority_use \<Rightarrow> 's \<Rightarrow> 's" where
  "use_authority keccak store (ReadAuthority gateway i now) st = snd (readCreatorAuthority keccak store gateway i now st)"
| "use_authority keccak store (RevokeAuthority gateway i now) st = snd (revokeCreatorAuthority keccak store gateway i now st)"

section \<open>The store interface\<close>

text \<open>What a record must have to be read back from a store.\<close>

definition coherent :: "authority_record \<Rightarrow> bool" where
  "coherent r \<longleftrightarrow> rd_policyDigest (ar_descriptor r) \<noteq> None
     \<and> rd_secretReference (ar_descriptor r) = Some (ar_secretReference r)"

text \<open>
  \<open>agrees r st\<close>: the store holds nothing under the key of \<open>r\<close> that a put of \<open>r\<close> would not replace.
  \<open>seen r\<close>: the record read back after \<open>r\<close> was put.
\<close>

locale authority_storage =
  fixes store :: "'c \<Rightarrow> 's authority_store"
    and agrees :: "authority_record \<Rightarrow> 's \<Rightarrow> bool"
    and seen :: "'c \<Rightarrow> authority_record \<Rightarrow> authority_record"
  assumes put_get: "as_put (store c) r st = Inr st' \<Longrightarrow> coherent r \<Longrightarrow> agrees r st \<Longrightarrow>
      as_get (store c') (ar_authorityId r) st' = Inr (Some (seen c' r))"
    and put_frame: "as_put (store c) r st = Inr st' \<Longrightarrow> i \<noteq> ar_authorityId r \<Longrightarrow>
      as_get (store c') i st' = as_get (store c') i st"
    and get_coherent: "as_get (store c) i st = Inr (Some r) \<Longrightarrow> ar_authorityId r = i \<and> coherent r \<and> agrees r st
      \<and> po_adminAddress (rd_policy (ar_descriptor r)) = ar_ownerAddress r"
    and agrees_observation: "agrees (r\<lparr>ar_observation := ob\<rparr>) st \<longleftrightarrow> agrees r st"
    and seen_descriptor: "ar_descriptor (seen c r) =
      (ar_descriptor r)\<lparr>rd_policy := (rd_policy (ar_descriptor r))\<lparr>po_adminAddress := ar_ownerAddress r\<rparr>\<rparr>"
    and seen_secret: "ar_secretReference (seen c r) = ar_secretReference r"
begin

text \<open>The record under a key keeps its descriptor and its secret reference.\<close>

definition holds :: "string \<Rightarrow> session_descriptor \<Rightarrow> string \<Rightarrow> 's \<Rightarrow> bool" where
  "holds i d secret st \<longleftrightarrow>
     (\<forall>c. \<exists>r. as_get (store c) i st = Inr (Some r) \<and> ar_descriptor r = d \<and> ar_secretReference r = secret)"

lemma holds_get: "holds i d secret st \<Longrightarrow> as_get (store c) i st = Inr (Some r) \<Longrightarrow>
    ar_descriptor r = d \<and> ar_secretReference r = secret"
  unfolding holds_def by (metis option.inject sum.inject(2))

lemma observed_put:
  assumes "as_get (store c) j st = Inr (Some r)" "as_put (store c) (r\<lparr>ar_observation := ob\<rparr>) st = Inr st'" "holds i d secret st"
  shows "holds i d secret st'"
proof (cases "i = j")
  case True
  note r = get_coherent [OF assms(1)]
  have "as_get (store c') i st' = Inr (Some (seen c' (r\<lparr>ar_observation := ob\<rparr>)))" for c'
    using put_get [OF assms(2), of c'] r True by (simp add: agrees_observation coherent_def)
  moreover have "ar_descriptor (seen c' (r\<lparr>ar_observation := ob\<rparr>)) = ar_descriptor r" for c'
    using r by (auto simp: seen_descriptor)
  moreover have "ar_descriptor r = d" "ar_secretReference r = secret"
    using holds_get [OF assms(3), of c r] assms(1) True by simp_all
  ultimately show ?thesis by (simp add: holds_def seen_secret)
next
  case False
  then have "as_get (store c') i st' = as_get (store c') i st" for c'
    using put_frame [OF assms(2), of i c'] get_coherent [OF assms(1)] by simp
  then show ?thesis using assms(3) by (simp add: holds_def)
qed

lemma holds_read:
  assumes "holds i d secret st"
  shows "holds i d secret (snd (readCreatorAuthority keccak (store c) gateway j now st))"
proof -
  obtain v st' where e: "readCreatorAuthority keccak (store c) gateway j now st = (v, st')" by fastforce
  from put_status_state [OF e [unfolded readCreatorAuthority_def]] show ?thesis
    using assms by (auto simp: e found_def split: option.splits intro: observed_put)
qed

lemma holds_revoke:
  assumes "holds i d secret st"
  shows "holds i d secret (snd (revokeCreatorAuthority keccak (store c) gateway j now st))"
proof -
  obtain v st' where e: "revokeCreatorAuthority keccak (store c) gateway j now st = (v, st')" by fastforce
  from put_status_state [OF e [unfolded revokeCreatorAuthority_def]] show ?thesis
    using assms by (auto simp: e found_def split: option.splits intro: observed_put)
qed

lemma confirm_holds:
  assumes c: "confirmCreatorAuthority keccak sink gateway (store c) drafts q now ((m, w), st) = (Inr v, ms', st')"
    and "as_getByDraft (store c) (cq_draftId q) st = Inr None"
    and agree: "\<And>h ob. agrees (confirmed_record q h ob) st"
  shows "\<exists>d. holds (cq_authorityId q) d (sr_reference (cq_destination q)) st'
    \<and> rd_sessionId d = rd_sessionId (cq_descriptor q) \<and> rd_policyDigest d = rd_policyDigest (cq_descriptor q)
    \<and> rd_policy d = (rd_policy (cq_descriptor q))\<lparr>po_adminAddress := js_lower (cq_ownerAddress q)\<rparr>"
proof -
  from confirm_established [OF assms(1,2)] obtain ob h where
    h: "handoffRuntimeSession sink (cq_descriptor q) (cq_destination q) now (m, w) = (Inr h, ms')"
    and put: "as_put (store c) (confirmed_record q h ob) st = Inr st'"
    and digest: "assertDescriptorPolicyDigest keccak (cq_descriptor q) = Inr ()" by blast
  from digest have "coherent (confirmed_record q h ob)"
    by (auto simp: coherent_def confirmed_record_def assertDescriptorPolicyDigest_def split: option.splits)
  from put_get [OF put this agree] have "as_get (store c') (cq_authorityId q) st' = Inr (Some (seen c' (confirmed_record q h ob)))" for c'
    by (simp add: confirmed_record_def)
  moreover have "sr_reference (hr_destination h) = sr_reference (cq_destination q)"
  proof -
    from h have "handoffRuntimeSession sink (cq_descriptor q) (cq_destination q) now (m, w) = (Inr h, fst ms', snd ms')" by simp
    from handoff_accepted [OF this] show ?thesis by (auto simp: sink_receipt_checked_Inr)
  qed
  ultimately show ?thesis
    by (auto simp: holds_def seen_secret seen_descriptor) (auto simp: confirmed_record_def)
qed

lemma holds_uses: "holds i d secret st \<Longrightarrow> holds i d secret (fold (\<lambda>(c, u). use_authority keccak (store c) u) us st)"
proof (induction us arbitrary: st)
  case (Cons u us)
  then have "holds i d secret (use_authority keccak (store (fst u)) (snd u) st)"
    by (cases "snd u") (simp_all add: holds_read holds_revoke)
  with Cons show ?case by (simp add: case_prod_unfold)
qed simp

text \<open>A runtime action under a confirmed authority lies within the policy its owner granted.\<close>

lemma granted_action:
  assumes "confirmCreatorAuthority keccak sink gateway (store c) drafts q now ((m, w), st) = (Inr v, ms', st')"
    and "as_getByDraft (store c) (cq_draftId q) st = Inr None"
    and "\<And>h ob. agrees (confirmed_record q h ob) st"
    and req: "requireRuntimeAuthority keccak (store c') live (cq_authorityId q) request cumulative later
      (fold (\<lambda>(c, u). use_authority keccak (store c) u) us st') = Inr a"
  shows "ra_sessionId a = rd_sessionId (cq_descriptor q)" "ra_policyDigest a = rd_policyDigest (cq_descriptor q)"
    "ra_secretReference a = sr_reference (cq_destination q)"
    "normalizePolicy (ra_policy a) = normalizePolicy (rd_policy (cq_descriptor q))"
    "assertActionWithinPolicy (rd_policy (cq_descriptor q)) request later cumulative = Inr ()"
proof -
  from confirm_holds [OF assms(1-3)] obtain d where h: "holds (cq_authorityId q) d (sr_reference (cq_destination q)) st'"
    and d: "rd_sessionId d = rd_sessionId (cq_descriptor q)" "rd_policyDigest d = rd_policyDigest (cq_descriptor q)"
      "rd_policy d = (rd_policy (cq_descriptor q))\<lparr>po_adminAddress := js_lower (cq_ownerAddress q)\<rparr>" by blast
  from require_established [OF req] obtain r where
    r: "as_get (store c') (cq_authorityId q) (fold (\<lambda>(c, u). use_authority keccak (store c) u) us st') = Inr (Some r)"
    and ract: "assertActionWithinPolicy (rd_policy (ar_descriptor r)) request later cumulative = Inr ()"
    and ra: "a = \<lparr>ra_sessionId = rd_sessionId (ar_descriptor r), ra_policy = rd_policy (ar_descriptor r),
           ra_policyDigest = rd_policyDigest (ar_descriptor r), ra_secretReference = ar_secretReference r\<rparr>" by blast
  from holds_get [OF holds_uses [OF h] r] ra ract
  have a: "a = \<lparr>ra_sessionId = rd_sessionId d, ra_policy = rd_policy d, ra_policyDigest = rd_policyDigest d,
        ra_secretReference = sr_reference (cq_destination q)\<rparr>"
    and act: "assertActionWithinPolicy (rd_policy d) request later cumulative = Inr ()" by simp_all
  from confirm_established [OF assms(1,2)] obtain n where "normalizePolicy (rd_policy (cq_descriptor q)) = Inr n"
    and "js_lower (cq_ownerAddress q) = js_lower (po_adminAddress (rd_policy (cq_descriptor q)))"
    by (auto simp: assertPolicyValidAt_def owner_trusted_def split: option.splits)
  then have norm: "normalizePolicy (rd_policy d) = normalizePolicy (rd_policy (cq_descriptor q))"
    unfolding d(3) by (rule normalize_admin)
  show "ra_sessionId a = rd_sessionId (cq_descriptor q)" "ra_policyDigest a = rd_policyDigest (cq_descriptor q)"
    "ra_secretReference a = sr_reference (cq_destination q)"
    "normalizePolicy (ra_policy a) = normalizePolicy (rd_policy (cq_descriptor q))"
    using d norm by (simp_all add: a)
  have "assertActionWithinPolicy (rd_policy d) = assertActionWithinPolicy (rd_policy (cq_descriptor q))"
    by (rule action_same_policy [OF norm]) (simp add: d(3))
  with act show "assertActionWithinPolicy (rd_policy (cq_descriptor q)) request later cumulative = Inr ()" by simp
qed

end

end
