(* ===== verification/Altana_Store.thy ===== *)
theory Altana_Store
  imports Altana_Authority
begin

text \<open>
  apps/web/src/lib/creator-authority-store.ts: the authority records in the table \<open>agent_authorities\<close>.

  The table is the list of its rows, most recently updated first, which is the order
  \<open>ORDER BY "updatedAt" DESC\<close> reads them in. \<open>jsonb\<close> columns hold JSON values, time stamps are Unix seconds.
  The database is external: \<open>id_ok\<close> says which texts it takes for a uuid, \<open>row_ok\<close> which rows satisfy
  the column types and references of the table. The status column is the enumeration of the
  domain package, which has no \<open>unknown\<close>. \<open>clock\<close> is \<open>Date.now()\<close> in seconds.
\<close>

section \<open>BigInt of a text\<close>

definition digit_in :: "nat \<Rightarrow> char \<Rightarrow> nat option" where
  "digit_in b c = (let n = code c;
       v = if 48 \<le> n \<and> n \<le> 57 then n - 48 else if 97 \<le> n \<and> n \<le> 102 then n - 87
           else if 65 \<le> n \<and> n \<le> 70 then n - 55 else b
     in if v < b then Some v else None)"

fun digits_val :: "nat \<Rightarrow> nat \<Rightarrow> string \<Rightarrow> nat option" where
  "digits_val b a [] = Some a"
| "digits_val b a (c # cs) = (case digit_in b c of None \<Rightarrow> None | Some v \<Rightarrow> digits_val b (b * a + v) cs)"

definition some_digits :: "nat \<Rightarrow> string \<Rightarrow> int option" where
  "some_digits b s = (if s = [] then None else map_option int (digits_val b 0 s))"

text \<open>White space around, a radix prefix, or a sign and decimal digits; the empty text is zero.\<close>

definition BigInt :: "string \<Rightarrow> altana_exn + int" where
  "BigInt s = (let t = js_trim s; p = js_lower (take 2 t);
     v = if t = [] then Some 0 else if p = ''0x'' then some_digits 16 (drop 2 t)
         else if p = ''0o'' then some_digits 8 (drop 2 t) else if p = ''0b'' then some_digits 2 (drop 2 t)
         else if hd t = CHR ''-'' then map_option uminus (some_digits 10 (tl t))
         else if hd t = CHR ''+'' then some_digits 10 (tl t) else some_digits 10 t
     in case v of None \<Rightarrow> Inl ForeignError | Some i \<Rightarrow> Inr i)"

lemma digit_in_10: "is_digit c \<Longrightarrow> digit_in 10 c = Some (digit_val c)"
  by (auto simp: digit_in_def is_digit_def digit_val_def Let_def)

lemma digits_val_10: "list_all is_digit s \<Longrightarrow> digits_val 10 a s = Some (foldl (\<lambda>a c. 10 * a + digit_val c) a s)"
  by (induction s arbitrary: a) (auto simp: digit_in_10)

lemma some_digits_show: "some_digits 10 (show_nat n) = Some (int n)"
  using digits_val_10 [OF show_nat_digits, of 0 n] dec_val_show_nat [of n]
  by (simp add: some_digits_def dec_val_def)

lemma digit_plain:
  assumes "is_digit c"
  shows "c \<noteq> CHR ''-''" "c \<noteq> CHR ''+''" "\<not> is_space c" "js_lower_char c = c"
    "c \<noteq> CHR ''x''" "c \<noteq> CHR ''o''" "c \<noteq> CHR ''b''"
  using assms by (auto simp: is_digit_def is_space_def js_lower_char_def Let_def code_def)

lemma digits_plain:
  assumes "list_all is_digit s" "s \<noteq> []"
  shows "js_trim s = s" "js_trim (CHR ''-'' # s) = CHR ''-'' # s" "hd s \<noteq> CHR ''-''" "hd s \<noteq> CHR ''+''"
    "js_lower (take 2 s) \<notin> {''0x'', ''0o'', ''0b''}" "js_lower (take 2 (CHR ''-'' # s)) \<notin> {''0x'', ''0o'', ''0b''}"
proof -
  obtain c cs where s: "s = c # cs" and c: "is_digit c" "list_all is_digit cs" using assms by (cases s) auto
  have last: "\<not> is_space (last s)" using assms digit_plain(3) by (auto simp: list_all_iff)
  have minus: "\<not> is_space CHR ''-''" by (simp add: is_space_def code_def)
  show "js_trim s = s" "js_trim (CHR ''-'' # s) = CHR ''-'' # s"
    using last minus assms(2) digit_plain(3) [OF c(1)] by (auto intro!: js_trim_id simp: trimmed_def s)
  show "hd s \<noteq> CHR ''-''" "hd s \<noteq> CHR ''+''" using digit_plain [OF c(1)] by (auto simp: s)
  show "js_lower (take 2 s) \<notin> {''0x'', ''0o'', ''0b''}"
    using digit_plain(4,5,6,7) c by (cases cs) (auto simp: s js_lower_def)
  show "js_lower (take 2 (CHR ''-'' # s)) \<notin> {''0x'', ''0o'', ''0b''}"
    by (auto simp: s js_lower_def js_lower_char_def code_def)
qed

lemma BigInt_show [simp]: "BigInt (show_int i) = Inr i"
  using digits_plain [OF show_nat_digits show_nat_not_Nil]
  by (auto simp: BigInt_def show_int_def some_digits_show Let_def)

section \<open>Rows\<close>

record authority_row =
  rw_id :: string
  rw_draft_id :: string
  rw_chain_id :: int
  rw_execution_wallet :: "string option"
  rw_admin_wallet :: "string option"
  rw_session_public_address :: "string option"
  rw_calls_allowlist :: js_value
  rw_spend_limits :: js_value
  rw_expires_at :: int
  rw_keystore_registration_tx :: "string option"
  rw_secret_reference :: "string option"
  rw_status :: authority_status
  rw_last_verified_block :: "int option"

fun provider_name :: "secret_provider \<Rightarrow> string" where
  "provider_name StudioChannel = ''studio-delegated-secret-channel''"
| "provider_name AwsSecretsManager = ''aws-secrets-manager''"
| "provider_name LocalTestOnly = ''local-test-only''"

definition encoded_calls :: "call_permission list \<Rightarrow> js_value" where
  "encoded_calls cs = JArray (map (\<lambda>e. JObject [(''target'', JString (cp_target e)),
     (''selectors'', JArray (map JString (cp_selectors e))),
     (''maxNativeValueWei'', JString (show_int (cp_maxNativeValueWei e)))]) cs)"

definition encoded_spend :: "spend_permission list \<Rightarrow> js_value" where
  "encoded_spend ss = JArray (map (\<lambda>e. JObject [(''token'', JString (sp_token e)),
     (''limitAtomic'', JString (show_int (sp_limitAtomic e))), (''period'', JString (period_name (sp_period e)))]) ss)"

definition encodedPolicy :: "scoped_policy \<Rightarrow> js_value" where
  "encodedPolicy p = JObject
     ([(''chainId'', JNumber (po_chainId p)), (''adminAddress'', JString (po_adminAddress p)),
       (''walletAddress'', JString (po_walletAddress p)), (''sessionPublicAddress'', JString (po_sessionPublicAddress p))]
      @ jfield ''sessionPublicKey'' JString (po_sessionPublicKey p)
      @ [(''calls'', encoded_calls (po_calls p)), (''spend'', encoded_spend (po_spend p)),
         (''expiresAtUnix'', JNumber (po_expiresAtUnix p))])"

definition handoff_json :: "public_handoff_receipt \<Rightarrow> js_value" where
  "handoff_json h = JObject [(''handoffId'', JString (ph_handoffId h)),
     (''destinationProvider'', JString (provider_name (ph_destinationProvider h))),
     (''sessionId'', JString (ph_sessionId h)), (''policyDigest'', jopt JString (ph_policyDigest h)),
     (''acceptedAtUnix'', JNumber (ph_acceptedAtUnix h)), (''consumed'', JBool (ph_consumed h))]"

fun status_column :: "session_status \<Rightarrow> authority_status option" where
  "status_column SessionUnknown = None"
| "status_column SessionActive = Some AuthorityActive"
| "status_column SessionExpired = Some AuthorityExpired"
| "status_column SessionRevoked = Some AuthorityRevoked"

text \<open>The row that \<open>put\<close> writes.\<close>

definition authority_row_of :: "authority_record \<Rightarrow> authority_status \<Rightarrow> authority_row" where
  "authority_row_of r status = (let d = ar_descriptor r; p = rd_policy d in
     \<lparr>rw_id = ar_authorityId r, rw_draft_id = ar_draftId r, rw_chain_id = po_chainId p,
      rw_execution_wallet = Some (po_walletAddress p), rw_admin_wallet = Some (ar_ownerAddress r),
      rw_session_public_address = Some (po_sessionPublicAddress p),
      rw_calls_allowlist = JObject [(''sessionId'', JString (rd_sessionId d)),
        (''policyDigest'', jopt JString (rd_policyDigest d)), (''policy'', encodedPolicy p),
        (''grantedAtUnix'', JNumber (rd_grantedAtUnix d)), (''handoff'', handoff_json (ar_handoff r))],
      rw_spend_limits = encoded_spend (po_spend p), rw_expires_at = po_expiresAtUnix p,
      rw_keystore_registration_tx = rd_grantTransactionHash d, rw_secret_reference = Some (ar_secretReference r),
      rw_status = status, rw_last_verified_block = so_observedBlockNumber (ar_observation r)\<rparr>)"

section \<open>Decoding\<close>

definition asObject :: "js_value \<Rightarrow> (string \<times> js_value) list option" where
  "asObject v = (case v of JObject kvs \<Rightarrow> Some kvs | _ \<Rightarrow> None)"

definition as_text :: "js_value \<Rightarrow> string option" where
  "as_text v = (case v of JString s \<Rightarrow> Some s | _ \<Rightarrow> None)"

definition as_number :: "js_value \<Rightarrow> int option" where
  "as_number v = (case v of JNumber n \<Rightarrow> Some n | _ \<Rightarrow> None)"

definition as_array :: "js_value \<Rightarrow> js_value list option" where
  "as_array v = (case v of JArray vs \<Rightarrow> Some vs | _ \<Rightarrow> None)"

text \<open>A property that must be there with a given type.\<close>

definition jget :: "(js_value \<Rightarrow> 'a option) \<Rightarrow> string \<Rightarrow> (string \<times> js_value) list \<Rightarrow> 'a option" where
  "jget f k kvs = Option.bind (map_of kvs k) f"

definition mapO :: "('a \<Rightarrow> 'b option) \<Rightarrow> 'a list \<Rightarrow> 'b list option" where
  "mapO f xs = those (map f xs)"

definition as_bigint :: "js_value \<Rightarrow> int option" where
  "as_bigint v = Option.bind (as_text v) (\<lambda>s. case BigInt s of Inl _ \<Rightarrow> None | Inr i \<Rightarrow> Some i)"

definition period_of :: "string \<Rightarrow> permission_period option" where
  "period_of s = find (\<lambda>p. period_name p = s) [PerCall, PerHour, PerDay, PerWeek, Lifetime]"

definition provider_of :: "string \<Rightarrow> secret_provider option" where
  "provider_of s = find (\<lambda>p. provider_name p = s) [StudioChannel, AwsSecretsManager, LocalTestOnly]"

definition decode_call :: "js_value \<Rightarrow> call_permission option" where
  "decode_call v = Option.bind (asObject v) (\<lambda>c.
     Option.bind (jget as_text ''target'' c) (\<lambda>target.
     Option.bind (Option.bind (jget as_array ''selectors'' c) (mapO as_text)) (\<lambda>selectors.
     Option.bind (jget as_bigint ''maxNativeValueWei'' c) (\<lambda>wei.
     Some \<lparr>cp_target = target, cp_selectors = selectors, cp_maxNativeValueWei = wei\<rparr>))))"

definition decode_limit :: "js_value \<Rightarrow> spend_permission option" where
  "decode_limit v = Option.bind (asObject v) (\<lambda>c.
     Option.bind (jget as_text ''token'' c) (\<lambda>token.
     Option.bind (jget as_bigint ''limitAtomic'' c) (\<lambda>limit.
     Option.bind (Option.bind (jget as_text ''period'' c) period_of) (\<lambda>period.
     Some \<lparr>sp_token = token, sp_limitAtomic = limit, sp_period = period\<rparr>))))"

text \<open>The policy of a row: the owner and the expiry come from their own columns.\<close>

definition decode_policy :: "string \<Rightarrow> int \<Rightarrow> (string \<times> js_value) list \<Rightarrow> scoped_policy option" where
  "decode_policy admin expires p =
     Option.bind (Option.bind (jget as_array ''calls'' p) (mapO decode_call)) (\<lambda>calls.
     Option.bind (Option.bind (jget as_array ''spend'' p) (mapO decode_limit)) (\<lambda>spend.
     Option.bind (jget as_number ''chainId'' p) (\<lambda>chain.
     Option.bind (jget as_text ''walletAddress'' p) (\<lambda>wallet.
     Option.bind (jget as_text ''sessionPublicAddress'' p) (\<lambda>session.
     Some \<lparr>po_chainId = chain, po_adminAddress = admin, po_walletAddress = wallet, po_sessionPublicAddress = session,
           po_sessionPublicKey = jget as_text ''sessionPublicKey'' p, po_calls = calls, po_spend = spend,
           po_expiresAtUnix = expires\<rparr>)))))"

fun column_status :: "authority_status \<Rightarrow> session_status option" where
  "column_status AuthorityNone = None"
| "column_status AuthorityActive = Some SessionActive"
| "column_status AuthorityExpired = Some SessionExpired"
| "column_status AuthorityRevoked = Some SessionRevoked"

definition decode :: "int \<Rightarrow> authority_row \<Rightarrow> authority_record option" where
  "decode clock row =
     Option.bind (asObject (rw_calls_allowlist row)) (\<lambda>meta.
     Option.bind (jget asObject ''policy'' meta) (\<lambda>policy.
     Option.bind (jget as_text ''sessionId'' meta) (\<lambda>sessionId.
     Option.bind (jget as_text ''policyDigest'' meta) (\<lambda>digest.
     Option.bind (rw_secret_reference row) (\<lambda>secret.
     Option.bind (rw_admin_wallet row) (\<lambda>admin.
     Option.bind (column_status (rw_status row)) (\<lambda>status.
     Option.bind (decode_policy admin (rw_expires_at row) policy) (\<lambda>scoped.
     Option.bind (jget asObject ''handoff'' meta) (\<lambda>handoff.
     Option.bind (jget as_text ''handoffId'' handoff) (\<lambda>handoffId.
     Option.bind (Option.bind (jget as_text ''destinationProvider'' handoff) provider_of) (\<lambda>provider.
     Option.bind (jget as_number ''acceptedAtUnix'' handoff) (\<lambda>accepted.
     Some \<lparr>ar_authorityId = rw_id row, ar_draftId = rw_draft_id row, ar_ownerAddress = admin,
       ar_descriptor = \<lparr>rd_sessionId = sessionId, rd_policy = scoped, rd_policyDigest = Some digest,
         rd_grantTransactionHash = rw_keystore_registration_tx row, rd_secretReference = Some secret,
         rd_grantedAtUnix = (case jget as_number ''grantedAtUnix'' meta of Some t \<Rightarrow> t
            | None \<Rightarrow> rw_expires_at row - 3600)\<rparr>,
       ar_secretReference = secret,
       ar_handoff = \<lparr>ph_handoffId = handoffId, ph_destinationProvider = provider, ph_sessionId = sessionId,
         ph_policyDigest = Some digest, ph_acceptedAtUnix = accepted, ph_consumed = True\<rparr>,
       ar_observation = \<lparr>so_sessionId = sessionId, so_policyDigest = Some digest, so_status = status,
         so_observedAtUnix = clock, so_observedBlockNumber = rw_last_verified_block row, so_source = ChainRead,
         so_reasonCode = None\<rparr>\<rparr>))))))))))))"

section \<open>The store\<close>

record database =
  db_id_ok :: "string \<Rightarrow> bool"
  db_row_ok :: "authority_row \<Rightarrow> bool"

text \<open>\<open>ON CONFLICT (id) DO UPDATE\<close> changes only these columns.\<close>

definition conflict_update :: "authority_row \<Rightarrow> authority_row \<Rightarrow> authority_row" where
  "conflict_update new old = old\<lparr>rw_calls_allowlist := rw_calls_allowlist new, rw_spend_limits := rw_spend_limits new,
     rw_status := rw_status new, rw_last_verified_block := rw_last_verified_block new,
     rw_secret_reference := rw_secret_reference new\<rparr>"

definition upsert :: "authority_row \<Rightarrow> authority_row list \<Rightarrow> authority_row list" where
  "upsert new rows = (case find (\<lambda>row. rw_id row = rw_id new) rows of
       None \<Rightarrow> new # rows
     | Some old \<Rightarrow> conflict_update new old # filter (\<lambda>row. rw_id row \<noteq> rw_id new) rows)"

definition select_authority :: "database \<Rightarrow> int \<Rightarrow> (authority_row \<Rightarrow> string) \<Rightarrow> string \<Rightarrow> authority_row list
    \<Rightarrow> altana_exn + authority_record option" where
  "select_authority db clock column v rows = (if db_id_ok db v
     then Inr (Option.bind (find (\<lambda>row. column row = v) rows) (decode clock)) else Inl ForeignError)"

definition put_authority :: "database \<Rightarrow> authority_record \<Rightarrow> authority_row list \<Rightarrow> altana_exn + authority_row list" where
  "put_authority db r rows = (case status_column (so_status (ar_observation r)) of
       None \<Rightarrow> Inl ForeignError
     | Some status \<Rightarrow>
         if db_id_ok db (ar_authorityId r) \<and> db_id_ok db (ar_draftId r) \<and> db_row_ok db (authority_row_of r status)
         then Inr (upsert (authority_row_of r status) rows) else Inl ForeignError)"

definition createPostgresCreatorAuthorityStore :: "database \<Rightarrow> int \<Rightarrow> authority_row list authority_store" where
  "createPostgresCreatorAuthorityStore db clock =
     \<lparr>as_getByDraft = select_authority db clock rw_draft_id, as_get = select_authority db clock rw_id,
      as_put = put_authority db\<rparr>"

text \<open>\<open>ownerAddressForDraft\<close> joins the drafts with the live sessions of their creators.\<close>

record auth_session_row =
  as_user_id :: string
  as_wallet_address :: string
  as_issued_at :: int
  as_expires_at :: int
  as_revoked_at :: "int option"

definition ownerAddressForDraft :: "database \<Rightarrow> (string \<times> string) list \<Rightarrow> auth_session_row list \<Rightarrow> int \<Rightarrow> draft_resolver" where
  "ownerAddressForDraft db drafts sessions now draftId = (if \<not> db_id_ok db draftId then Inl ForeignError else
     Inr (case sort_key (\<lambda>s. - as_issued_at s) (concat (map (\<lambda>(d, user). if d = draftId
            then filter (\<lambda>s. as_user_id s = user \<and> as_revoked_at s = None \<and> now < as_expires_at s) sessions else []) drafts)) of
        [] \<Rightarrow> None | s # _ \<Rightarrow> Some (as_wallet_address s)))"

section \<open>Reading back what was put\<close>

lemma period_of_name [simp]: "period_of (period_name p) = Some p"
  by (cases p) (simp_all add: period_of_def)

lemma provider_of_name [simp]: "provider_of (provider_name p) = Some p"
  by (cases p) (simp_all add: provider_of_def)

lemma mapO_map: "(\<And>x. x \<in> set xs \<Longrightarrow> f (g x) = Some x) \<Longrightarrow> mapO f (map g xs) = Some xs"
  by (induction xs) (auto simp: mapO_def)

lemma decode_calls: "\<exists>vs. as_array (encoded_calls cs) = Some vs \<and> mapO decode_call vs = Some cs"
  by (auto simp: encoded_calls_def as_array_def intro!: mapO_map)
     (simp add: decode_call_def asObject_def jget_def as_text_def as_array_def as_bigint_def mapO_map)

lemma decode_spend: "\<exists>vs. as_array (encoded_spend ss) = Some vs \<and> mapO decode_limit vs = Some ss"
  by (auto simp: encoded_spend_def as_array_def intro!: mapO_map)
     (simp add: decode_limit_def asObject_def jget_def as_text_def as_bigint_def)

lemma decode_encoded_policy:
  assumes "encodedPolicy p = JObject kvs"
  shows "decode_policy admin expires kvs = Some (p\<lparr>po_adminAddress := admin, po_expiresAtUnix := expires\<rparr>)"
proof -
  obtain cs ss where "as_array (encoded_calls (po_calls p)) = Some cs" "mapO decode_call cs = Some (po_calls p)"
    "as_array (encoded_spend (po_spend p)) = Some ss" "mapO decode_limit ss = Some (po_spend p)"
    using decode_calls [of "po_calls p"] decode_spend [of "po_spend p"] by blast
  then show ?thesis
    using assms
    by (auto simp: encodedPolicy_def decode_policy_def jget_def jfield_def as_number_def as_text_def split: option.splits)
qed

text \<open>The record a row stands for: the owner in place of the admin of the policy, and an observation made when it was read.\<close>

definition reread :: "int \<Rightarrow> authority_record \<Rightarrow> authority_record" where
  "reread clock r = (let d = ar_descriptor r; ob = ar_observation r in
     r\<lparr>ar_descriptor := d\<lparr>rd_policy := (rd_policy d)\<lparr>po_adminAddress := ar_ownerAddress r\<rparr>\<rparr>,
       ar_handoff := (ar_handoff r)\<lparr>ph_sessionId := rd_sessionId d, ph_policyDigest := rd_policyDigest d, ph_consumed := True\<rparr>,
       ar_observation := \<lparr>so_sessionId = rd_sessionId d, so_policyDigest = rd_policyDigest d, so_status = so_status ob,
         so_observedAtUnix = clock, so_observedBlockNumber = so_observedBlockNumber ob, so_source = ChainRead,
         so_reasonCode = None\<rparr>\<rparr>)"

lemma decode_authority_row_of:
  assumes "coherent r" "status_column (so_status (ar_observation r)) = Some status"
  shows "decode clock (authority_row_of r status) = Some (reread clock r)"
proof -
  obtain kvs where p: "encodedPolicy (rd_policy (ar_descriptor r)) = JObject kvs" by (simp add: encodedPolicy_def)
  have st: "column_status status = Some (so_status (ar_observation r))"
    using assms(2) by (cases "so_status (ar_observation r)") auto
  show ?thesis
    using assms decode_encoded_policy [OF p, of "ar_ownerAddress r" "po_expiresAtUnix (rd_policy (ar_descriptor r))"]
    by (auto simp: decode_def authority_row_of_def Let_def asObject_def jget_def as_text_def as_number_def p st handoff_json_def
        jopt_def coherent_def reread_def)
qed

text \<open>The columns an update leaves alone already hold what the record would put in them.\<close>

definition agrees :: "authority_record \<Rightarrow> authority_row list \<Rightarrow> bool" where
  "agrees r rows \<longleftrightarrow> (\<forall>row. find (\<lambda>row. rw_id row = ar_authorityId r) rows = Some row \<longrightarrow>
     rw_draft_id row = ar_draftId r \<and> rw_admin_wallet row = Some (ar_ownerAddress r)
     \<and> rw_expires_at row = po_expiresAtUnix (rd_policy (ar_descriptor r))
     \<and> rw_keystore_registration_tx row = rd_grantTransactionHash (ar_descriptor r))"

lemma rw_id_authority_row_of [simp]: "rw_id (authority_row_of r status) = ar_authorityId r"
  by (simp add: authority_row_of_def Let_def)

lemma decode_conflict:
  assumes "rw_id row = ar_authorityId r" "rw_draft_id row = ar_draftId r" "rw_admin_wallet row = Some (ar_ownerAddress r)"
    "rw_expires_at row = po_expiresAtUnix (rd_policy (ar_descriptor r))"
    "rw_keystore_registration_tx row = rd_grantTransactionHash (ar_descriptor r)"
  shows "decode clock (conflict_update (authority_row_of r status) row) = decode clock (authority_row_of r status)"
  using assms by (simp add: decode_def conflict_update_def authority_row_of_def Let_def cong: option.case_cong)

lemma put_authority_cases:
  assumes "put_authority db r rows = Inr rows'"
  shows "\<exists>status. status_column (so_status (ar_observation r)) = Some status \<and> db_id_ok db (ar_authorityId r)
    \<and> db_id_ok db (ar_draftId r) \<and> rows' = upsert (authority_row_of r status) rows"
  using assms by (auto simp: put_authority_def split: option.splits if_splits)

lemma find_upsert_other: "i \<noteq> rw_id new \<Longrightarrow> find (\<lambda>row. rw_id row = i) (upsert new rows) = find (\<lambda>row. rw_id row = i) rows"
proof -
  assume i: "i \<noteq> rw_id new"
  have "find (\<lambda>row. rw_id row = i) (filter (\<lambda>row. rw_id row \<noteq> rw_id new) rows) = find (\<lambda>row. rw_id row = i) rows"
    using i by (induction rows) auto
  then show ?thesis
    using i by (auto simp: upsert_def conflict_update_def find_Some_iff split: option.splits)
qed

interpretation postgres: authority_storage "createPostgresCreatorAuthorityStore db" agrees reread for db
proof
  fix c c' r st st'
  assume put: "as_put (createPostgresCreatorAuthorityStore db c) r st = Inr st'" and ok: "coherent r" "agrees r st"
  from put have "put_authority db r st = Inr st'" by (simp add: createPostgresCreatorAuthorityStore_def)
  from put_authority_cases [OF this] obtain status where st: "status_column (so_status (ar_observation r)) = Some status"
    and id: "db_id_ok db (ar_authorityId r)" and st': "st' = upsert (authority_row_of r status) st" by blast
  have "\<exists>row. find (\<lambda>row. rw_id row = ar_authorityId r) st' = Some row \<and> decode c' row = Some (reread c' r)"
  proof (cases "find (\<lambda>row. rw_id row = ar_authorityId r) st")
    case None
    then show ?thesis using decode_authority_row_of [OF ok(1) st] by (simp add: st' upsert_def)
  next
    case (Some old)
    then have "rw_id old = ar_authorityId r" by (auto simp: find_Some_iff)
    then show ?thesis
      using Some ok(2) decode_conflict [of old r c' status] decode_authority_row_of [OF ok(1) st]
      by (auto simp: st' upsert_def agrees_def conflict_update_def)
  qed
  then show "as_get (createPostgresCreatorAuthorityStore db c') (ar_authorityId r) st' = Inr (Some (reread c' r))"
    using id by (auto simp: createPostgresCreatorAuthorityStore_def select_authority_def)
next
  fix c c' r st st' i
  assume "as_put (createPostgresCreatorAuthorityStore db c) r st = Inr st'" "i \<noteq> ar_authorityId r"
  then show "as_get (createPostgresCreatorAuthorityStore db c') i st' = as_get (createPostgresCreatorAuthorityStore db c') i st"
    using put_authority_cases
    by (fastforce simp: createPostgresCreatorAuthorityStore_def select_authority_def find_upsert_other)
next
  fix c i st r
  assume "as_get (createPostgresCreatorAuthorityStore db c) i st = Inr (Some r)"
  then obtain row where row: "find (\<lambda>row. rw_id row = i) st = Some row" "decode c row = Some r"
    by (auto simp: createPostgresCreatorAuthorityStore_def select_authority_def bind_eq_Some_conv split: if_splits)
  then have "rw_id row = i" by (auto simp: find_Some_iff)
  with row show "ar_authorityId r = i \<and> coherent r \<and> agrees r st
     \<and> po_adminAddress (rd_policy (ar_descriptor r)) = ar_ownerAddress r"
    by (auto simp: decode_def decode_policy_def bind_eq_Some_conv agrees_def coherent_def)
qed (simp_all add: reread_def Let_def agrees_def)

end
