(* ===== verification/Altana_Properties.thy ===== *)
theory Altana_Properties
  imports Altana_Store
begin

text \<open>
  The properties of packages/altana and of the authority store of the web application: what an open gate
  means, what a runtime can spend, how often session material leaves its wrapper, and that the runtime
  acts within the policy the owner confirmed.
\<close>

section \<open>Sample values\<close>

text \<open>Sample addresses, policies, sessions and stores for the witnesses of the properties.\<close>

definition sample_address :: "char \<Rightarrow> string" where
  "sample_address c = ''0x'' @ replicate 40 c"

definition sample_policy :: scoped_policy where
  "sample_policy = \<lparr>po_chainId = 97, po_adminAddress = sample_address CHR ''A'', po_walletAddress = sample_address CHR ''b'',
     po_sessionPublicAddress = sample_address CHR ''c'', po_sessionPublicKey = None,
     po_calls = [\<lparr>cp_target = sample_address CHR ''d'', cp_selectors = [''0x12345678''], cp_maxNativeValueWei = 50\<rparr>],
     po_spend = [\<lparr>sp_token = ''native'', sp_limitAtomic = 60, sp_period = PerDay\<rparr>], po_expiresAtUnix = 5000\<rparr>"

definition sample_charge :: "int \<Rightarrow> spend_charge" where
  "sample_charge n = \<lparr>ch_token = ''native'', ch_amountAtomic = n, ch_period = PerDay\<rparr>"

definition sample_action :: "int \<Rightarrow> action_request" where
  "sample_action n = \<lparr>ac_target = sample_address CHR ''D'', ac_selector = ''0x12345678'', ac_valueWei = n,
     ac_spends = [sample_charge n]\<rparr>"


lemma sample_hex [simp]: "hex_lower (sample_address c) = sample_address (js_lower_char c)"
  by (simp add: hex_lower_def sample_address_def js_lower_def)

lemma sample_evm: "is_hex c \<Longrightarrow> evmAddressSchema (sample_address c)"
  by (simp add: evmAddressSchema_def hex_with_prefix_def sample_address_def list_all_iff)

lemma sample_chars [simp]: "is_hex CHR ''A''" "is_hex CHR ''a''" "is_hex CHR ''b''" "is_hex CHR ''c''" "is_hex CHR ''d''" "is_hex CHR ''D''"
   "js_lower_char CHR ''A'' = CHR ''a''" "js_lower_char CHR ''a'' = CHR ''a''" "js_lower_char CHR ''b'' = CHR ''b''"
   "js_lower_char CHR ''c'' = CHR ''c''" "js_lower_char CHR ''d'' = CHR ''d''" "js_lower_char CHR ''D'' = CHR ''d''"
  by code_simp+

lemma sample_selector [simp]: "hex_with_prefix 8 ''0x12345678''" "hex_lower ''0x12345678'' = ''0x12345678''"
  by code_simp+

lemmas sample_simps = sample_evm sample_policy_def isSafeInteger_def max_safe_integer_def check_def

lemma sample_normal: "normalizePolicy sample_policy = Inr (sample_policy\<lparr>po_adminAddress := sample_address CHR ''a''\<rparr>)"
  by (simp add: normalizePolicy_def sample_simps normalizeCallPermission_def normalizeSpendPermission_def normalizeToken_def)

lemma sample_valid: "now < 5000 \<Longrightarrow> -9000 < now \<Longrightarrow>
    assertPolicyValidAt sample_policy now = Inr (sample_policy\<lparr>po_adminAddress := sample_address CHR ''a''\<rparr>)"
  by (simp add: assertPolicyValidAt_def sample_normal) (simp add: sample_simps)

lemma sample_allowed:
  assumes "0 \<le> n" "n \<le> 50" "us = [] \<or> us = [sample_charge m] \<and> 0 \<le> m \<and> m + n \<le> 60"
  shows "assertActionWithinPolicy sample_policy (sample_action n) 1000 us = Inr ()"
  using assms
  by (auto simp: assertActionWithinPolicy_def assertCallAllowed_def isCallAllowed_def sample_valid sample_normal)
   (auto simp: sample_simps sample_action_def sample_charge_def normalizeSpendCharge_def normalizeCumulativeSpend_def normalizeToken_def
     usage_supported_def usage_within_def charge_within_def chargeTotals_def add_charge_def sameSpendBucket_def spent_in_def)

definition sample_digest :: string where
  "sample_digest = ''0x'' @ replicate 64 CHR ''e''"

definition sample_session :: session_descriptor where
  "sample_session = \<lparr>rd_sessionId = ''session-1'', rd_policy = sample_policy, rd_policyDigest = Some sample_digest,
     rd_grantTransactionHash = None, rd_secretReference = None, rd_grantedAtUnix = 900\<rparr>"

definition sample_observation :: session_observation where
  "sample_observation = \<lparr>so_sessionId = ''session-1'', so_policyDigest = Some sample_digest, so_status = SessionActive,
     so_observedAtUnix = 990, so_observedBlockNumber = Some 7, so_source = ChainRead, so_reasonCode = None\<rparr>"

definition sample_destination :: secret_reference where
  "sample_destination = \<lparr>sr_provider = LocalTestOnly, sr_reference = ''ref/authority-1''\<rparr>"

definition sample_sink :: "nat secret_sink" where
  "sample_sink w bytes d dest = (Suc w, Inr (Some \<lparr>hr_handoffId = ''handoff-1'', hr_destination = dest,
     hr_sessionId = rd_sessionId d, hr_policyDigest = rd_policyDigest d, hr_acceptedAtUnix = 1000, hr_consumed = True\<rparr>))"

definition sample_gateway :: authority_gateway where
  "sample_gateway = \<lparr>gw_read = (\<lambda>_. Inr sample_observation), gw_revoke = (\<lambda>_. Inl ForeignError)\<rparr>"

definition sample_request :: authority_request where
  "sample_request = \<lparr>cq_authorityId = ''authority-1'', cq_draftId = ''draft-1'', cq_ownerAddress = sample_address CHR ''a'',
     cq_descriptor = sample_session, cq_destination = sample_destination\<rparr>"

definition sample_database :: database where
  "sample_database = \<lparr>db_id_ok = (\<lambda>_. True), db_row_ok = (\<lambda>_. True)\<rparr>"

definition sample_material :: session_material where
  "sample_material = \<lparr>em_buffer = [1, 2, 3], em_held = True, em_consumed = False\<rparr>"

lemma sample_hash [simp]: "hex_with_prefix 64 sample_digest" "hex_lower sample_digest = sample_digest"
    "js_lower sample_digest = sample_digest"
  by code_simp+

lemma sample_lower [simp]: "js_lower (sample_address c) = sample_address (js_lower_char c)"
proof -
  have "js_lower ''0x'' = ''0x''" by code_simp
  then show ?thesis by (simp only: sample_address_def js_lower_append) (simp add: js_lower_def)
qed

lemma sample_ids [simp]: "SAFE_PUBLIC_REFERENCE ''ref/authority-1''" "SAFE_HANDOFF_ID ''session-1''" "SAFE_HANDOFF_ID ''handoff-1''"
  by code_simp+

lemmas session_simps = sample_session_def sample_destination_def sample_observation_def

lemma sample_ready: "handoff_ready sample_session sample_destination 1000 = Inr (Some sample_digest)"
  by (simp add: handoff_ready_def assertUnixTime_def assertApprovedDestination_def normalizePolicyDigest_def session_simps
      sample_valid) (simp add: sample_simps)

lemma sample_handoff: "handoffRuntimeSession sample_sink sample_session sample_destination 1000 (sample_material, 0) =
    (Inr \<lparr>hr_handoffId = ''handoff-1'', hr_destination = sample_destination, hr_sessionId = ''session-1'',
          hr_policyDigest = Some sample_digest, hr_acceptedAtUnix = 1000, hr_consumed = True\<rparr>,
     \<lparr>em_buffer = [0, 0, 0], em_held = False, em_consumed = True\<rparr>, 1)"
  by (simp add: handoffRuntimeSession_def sample_ready consume_def sample_material_def sample_sink_def sink_receipt_checked_def
      assertApprovedDestination_def normalizePolicyDigest_def assertUnixTime_def zeroed_def)
     (simp add: session_simps sample_simps)

lemma sample_bound: "0 < po_expiresAtUnix p \<Longrightarrow> serializePolicy p = Inr t \<Longrightarrow>
    assertBoundFreshObservation (\<lambda>_. sample_digest) (sample_session\<lparr>rd_policy := p, rd_secretReference := k\<rparr>) sample_observation 1000 = Inr ()"
  by (simp add: assertBoundFreshObservation_def assertDescriptorPolicyDigest_def authorityPolicyDigest_def
      assertLiveObservation_def session_simps check_def)

lemma sample_serialised: "\<exists>t. serializePolicy sample_policy = Inr t"
  by (simp add: serializePolicy_def sample_normal)

definition sample_confirmation :: "(altana_exn + authority_view) \<times> (session_material \<times> nat) \<times> authority_row list" where
  "sample_confirmation = confirmCreatorAuthority (\<lambda>_. sample_digest) sample_sink sample_gateway
     (createPostgresCreatorAuthorityStore sample_database 1000) (\<lambda>_. Inr (Some (sample_address CHR ''A''))) sample_request 1000
     ((sample_material, 0), [])"

section \<open>Calls\<close>

lemma mapE_image: "mapE f xs = Inr ys \<Longrightarrow> x \<in> set xs \<Longrightarrow> \<exists>y \<in> set ys. f x = Inr y"
  by (induction xs arbitrary: ys) auto

text \<open>An entry that allows a call also allows it in the normal form.\<close>

lemma call_listed:
  assumes "isCallAllowed p r = Inr True" "normalizePolicy p = Inr n"
  shows "\<exists>e \<in> set (po_calls n). cp_target e = hex_lower (ac_target r) \<and> hex_lower (ac_selector r) \<in> set (cp_selectors e)
    \<and> 0 \<le> ac_valueWei r \<and> ac_valueWei r \<le> cp_maxNativeValueWei e"
proof -
  from assms(1) obtain e where e: "e \<in> set (po_calls p)" "cp_target e = hex_lower (ac_target r)"
    "hex_lower (ac_selector r) \<in> set (cp_selectors e)" "0 \<le> ac_valueWei r" "ac_valueWei r \<le> cp_maxNativeValueWei e"
    by (auto simp: isCallAllowed_def list_ex_iff)
  from assms(2) obtain calls where calls: "mapE normalizeCallPermission (po_calls p) = Inr calls" "set (po_calls n) = set calls"
    by (auto simp: normalizePolicy_def)
  from mapE_image [OF calls(1) e(1)] obtain e' where e': "e' \<in> set calls" "normalizeCallPermission e = Inr e'" by blast
  then obtain ss where ss: "mapE normalizeSelector (cp_selectors e) = Inr ss" "set (cp_selectors e') = set ss"
    and t: "cp_target e' = hex_lower (cp_target e)" "cp_maxNativeValueWei e' = cp_maxNativeValueWei e"
    by (auto simp: normalizeCallPermission_def)
  from mapE_image [OF ss(1) e(3)] have "hex_lower (ac_selector r) \<in> set ss" by auto
  with e e' ss t calls show ?thesis by auto
qed

text \<open>An entry whose target has an upper case letter never allows a call, although its normal form may.\<close>

lemma hex_lower_no_upper: "c \<in> set (hex_lower s) \<Longrightarrow> \<not> (65 \<le> code c \<and> code c \<le> 90)"
proof -
  assume "c \<in> set (hex_lower s)"
  then consider "c = CHR ''0''" | "c = CHR ''x''" | d where "c = js_lower_char d"
    by (auto simp: hex_lower_def js_lower_def)
  then show ?thesis
  proof cases
    case 3
    then show ?thesis by (simp add: code_js_lower_char Let_def)
  qed (simp_all add: code_def)
qed

lemma checksummed_target_blocked:
  assumes "\<And>e. e \<in> set (po_calls p) \<Longrightarrow> \<exists>c \<in> set (cp_target e). 65 \<le> code c \<and> code c \<le> 90"
  shows "isCallAllowed p r \<noteq> Inr True"
  using assms hex_lower_no_upper by (auto simp: isCallAllowed_def list_ex_iff) metis

text \<open>One charge is at most what its bucket holds.\<close>

lemma member_le_sum_list: "x \<in> set xs \<Longrightarrow> (\<And>y. y \<in> set xs \<Longrightarrow> 0 \<le> y) \<Longrightarrow> x \<le> sum_list (xs :: int list)"
proof (induction xs)
  case (Cons y ys)
  then have "0 \<le> sum_list ys" by (intro sum_list_nonneg) auto
  moreover have "0 \<le> y" using Cons.prems(2) by simp
  ultimately show ?case using Cons by (cases "x = y") force+
qed simp

lemma charge_in_bucket:
  assumes "mapE normalizeSpendCharge cs = Inr ds" "d \<in> set ds"
  shows "ch_amountAtomic d \<le> spent_in (ch_token d) (ch_period d) ds"
  unfolding spent_in_def
  by (rule member_le_sum_list) (use assms mapE_set [OF assms(1)] in \<open>fastforce simp: normalizeSpendCharge_def\<close>)+

section \<open>Properties\<close>




text \<open>Two policies have the same serialisation exactly when they have the same normal form, so what the
  digest of a policy is computed from determines everything the policy grants.\<close>

theorem serialisation_faithful: "serializePolicy p = serializePolicy q \<longleftrightarrow> normalizePolicy p = normalizePolicy q"
  using serializePolicy_same [of p _ q]
  by (cases "normalizePolicy p"; cases "normalizePolicy q") (auto simp: serializePolicy_def)

text \<open>When the gate lets a state-changing call through, the authority was observed active for this session at most
  60 seconds ago, the policy has not expired, one of its entries lists the target and selector with a bound on the
  native value that covers the call, and every charge has a permission whose limit covers it.\<close>

theorem execution_within_authority:
  assumes "assertExecutionAllowed d ob r cumulative now = Inr ()"
  shows "\<exists>n. normalizePolicy (rd_policy d) = Inr n \<and> now < po_expiresAtUnix n
    \<and> so_sessionId ob = rd_sessionId d \<and> digests_match (rd_policyDigest d) (so_policyDigest ob) \<and> so_status ob = SessionActive
    \<and> so_observedAtUnix ob \<le> now \<and> now \<le> so_observedAtUnix ob + 60
    \<and> (\<exists>e \<in> set (po_calls n). cp_target e = hex_lower (ac_target r) \<and> hex_lower (ac_selector r) \<in> set (cp_selectors e)
         \<and> 0 \<le> ac_valueWei r \<and> ac_valueWei r \<le> cp_maxNativeValueWei e)
    \<and> (\<forall>c \<in> set (ac_spends r). \<exists>e \<in> set (po_spend n). normalizeToken (ch_token c) = Inr (sp_token e)
         \<and> sp_period e = ch_period c \<and> 0 \<le> ch_amountAtomic c \<and> ch_amountAtomic c \<le> sp_limitAtomic e)"
proof -
  from assms have fresh: "assertFreshActiveAuthority d ob now = Inr ()" and active: "so_status ob = SessionActive"
    and action: "assertActionWithinPolicy (rd_policy d) r now cumulative = Inr ()"
    by (simp_all add: execution_allowed_iff gate_allowed_iff)
  from action show ?thesis
  proof (rule action_accepted)
    fix n charges usage
    assume v: "assertPolicyValidAt (rd_policy d) now = Inr n" and call: "isCallAllowed (rd_policy d) r = Inr True"
      and ch: "mapE normalizeSpendCharge (ac_spends r) = Inr charges" and us: "mapE normalizeSpendCharge cumulative = Inr usage"
      and within: "\<And>c. c \<in> set charges \<Longrightarrow> \<exists>e. find (\<lambda>e. sameSpendBucket e c) (po_spend n) = Some e
       \<and> spent_in (ch_token c) (ch_period c) (usage @ charges) \<le> sp_limitAtomic e"
    from v have n: "normalizePolicy (rd_policy d) = Inr n" "now < po_expiresAtUnix n" by (auto simp: assertPolicyValidAt_def)
    have "\<exists>e \<in> set (po_spend n). normalizeToken (ch_token c) = Inr (sp_token e)
         \<and> sp_period e = ch_period c \<and> 0 \<le> ch_amountAtomic c \<and> ch_amountAtomic c \<le> sp_limitAtomic e"
      if "c \<in> set (ac_spends r)" for c
    proof -
      from mapE_image [OF ch that] obtain c' where c': "c' \<in> set charges" "normalizeSpendCharge c = Inr c'" by blast
      from c'(2) have c: "0 \<le> ch_amountAtomic c" "normalizeToken (ch_token c) = Inr (ch_token c')"
        "ch_period c' = ch_period c" "ch_amountAtomic c' = ch_amountAtomic c"
        by (auto simp: normalizeSpendCharge_def)
      from within [OF c'(1)] obtain e where e: "find (\<lambda>e. sameSpendBucket e c') (po_spend n) = Some e"
        "spent_in (ch_token c') (ch_period c') (usage @ charges) \<le> sp_limitAtomic e" by blast
      then have "e \<in> set (po_spend n)" "sp_token e = ch_token c'" "sp_period e = ch_period c'"
        by (auto simp: find_Some_iff sameSpendBucket_def)
      moreover have "ch_amountAtomic c' \<le> sp_limitAtomic e"
        using charge_in_bucket [OF ch c'(1)] spent_in_nonneg [OF us, of "ch_token c'" "ch_period c'"] e(2)
        by (simp add: spent_in_append)
      ultimately show ?thesis using c by (intro bexI [of _ e]) simp_all
    qed
    with n fresh active call_listed [OF call n(1)] show ?thesis
      by (auto simp: assertFreshActiveAuthority_def MAX_AUTHORITY_OBSERVATION_AGE_SECONDS_def)
  qed
qed

theorem execution_within_authority_witness:
  "\<exists>n. normalizePolicy (rd_policy sample_session) = Inr n \<and> 1000 < po_expiresAtUnix n"
proof -
  have "assertExecutionAllowed sample_session sample_observation (sample_action 20) [sample_charge 30] 1000 = Inr ()"
    using sample_allowed [of 20 "[sample_charge 30]" 30]
    by (simp add: execution_allowed_iff gate_allowed_iff assertFreshActiveAuthority_def session_simps digests_match_def
        MAX_AUTHORITY_OBSERVATION_AGE_SECONDS_def) (simp add: sample_simps)
  from execution_within_authority [OF this] show ?thesis by blast
qed

text \<open>The bytes of a runtime session leave their wrapper at most once, unchanged, whatever sequence of hand-offs (to
  any destinations, at any times, with any answers of the sink) and disposals is tried; as soon as they have left or
  were disposed of, the buffer is zero and the wrapper is spent.\<close>

theorem session_material_one_time:
  assumes "newSessionMaterial bytes = Inr m"
    and "fold (use_material (logged sink)) us (m, [], s) = (m', log, s')"
  shows "log = [] \<and> m' = m
    \<or> log \<in> {[], [bytes]} \<and> em_buffer m' = replicate (length bytes) 0 \<and> \<not> em_held m' \<and> em_consumed m'"
proof -
  have "one_time bytes (m, [], s)"
    using assms(1) by (auto simp: one_time_def newSessionMaterial_def)
  from one_time_run [OF this, of sink us] have "one_time bytes (m', log, s')" by (simp add: assms(2))
  moreover have "m = \<lparr>em_buffer = bytes, em_held = True, em_consumed = False\<rparr>"
    using assms(1) by (simp add: newSessionMaterial_def split: if_splits)
  ultimately show ?thesis by (auto simp: one_time_def)
qed

lemma sample_attempts: "fold (use_material (logged sample_sink))
    [HandOff sample_session sample_destination 1000, Dispose, HandOff sample_session sample_destination 1000] (sample_material, [], 0)
    = (\<lparr>em_buffer = [0, 0, 0], em_held = False, em_consumed = True\<rparr>, [[1, 2, 3]], 1)"
  by (simp add: handoffRuntimeSession_def sample_ready consume_def sample_material_def logged_def sample_sink_def zeroed_def dispose_def)

theorem session_material_one_time_witness: "\<exists>m' log s'. fold (use_material (logged sample_sink))
    [HandOff sample_session sample_destination 1000, Dispose, HandOff sample_session sample_destination 1000] (sample_material, [], 0)
    = (m', log, s') \<and> length log \<le> 1 \<and> em_consumed m'"
proof -
  have "newSessionMaterial [1, 2, 3] = Inr sample_material"
    by (simp add: newSessionMaterial_def sample_material_def)
  from session_material_one_time [OF this sample_attempts] sample_attempts show ?thesis by auto
qed

text \<open>C22: A confirmation gives the session material to the sink only for a draft that has no authority yet, when the
  trusted owner of the draft is the admin of the policy, the digest of the session is that of its policy, and a live
  source observed the session active at most 60 seconds ago; the material is spent afterwards.\<close>

theorem handoff_needs_live_authority:
  assumes "confirmCreatorAuthority keccak sink gateway store drafts q now ((m, w), st) = (v, (m', w'), st')"
    and "(m', w') \<noteq> (m, w)"
  shows "as_getByDraft store (cq_draftId q) st = Inr None
    \<and> (\<exists>owner. drafts (cq_draftId q) = Inr (Some owner)
         \<and> js_lower owner = js_lower (po_adminAddress (rd_policy (cq_descriptor q))))
    \<and> (\<exists>t g. serializePolicy (rd_policy (cq_descriptor q)) = Inr t \<and> rd_policyDigest (cq_descriptor q) = Some g
         \<and> js_lower g = js_lower (keccak t))
    \<and> (\<exists>ob. gw_read gateway (cq_descriptor q) = Inr ob \<and> so_status ob = SessionActive
         \<and> so_source ob \<in> {AltanaSdk, ChainRead} \<and> so_sessionId ob = rd_sessionId (cq_descriptor q)
         \<and> so_observedAtUnix ob \<le> now \<and> now - so_observedAtUnix ob \<le> 60)
    \<and> em_held m \<and> m' = \<lparr>em_buffer = replicate (length (em_buffer m)) 0, em_held = False, em_consumed = True\<rparr>"
proof -
  from confirm_material [OF assms] obtain ob where live: "live_before_handoff keccak gateway q now = Inr ob"
    and fresh: "as_getByDraft store (cq_draftId q) st = Inr None" and owner: "owner_trusted drafts q = Inr ()" by blast
  from live have bound: "assertBoundFreshObservation keccak (cq_descriptor q) ob now = Inr ()"
    and read: "gw_read gateway (cq_descriptor q) = Inr ob" "so_status ob = SessionActive"
    by (auto simp: live_before_handoff_def)
  from assms(1) fresh live have "\<exists>res. handoffRuntimeSession sink (cq_descriptor q) (cq_destination q) now (m, w) = (res, m', w')"
    using assms(2) by (auto simp: confirmCreatorAuthority_def bindE_eq_Inl split: sum.splits option.splits prod.splits)
  then obtain res where "handoffRuntimeSession sink (cq_descriptor q) (cq_destination q) now (m, w) = (res, m', w')" ..
  from handoff_step [OF this] assms(2) have m': "em_held m" "m' = zeroed (m\<lparr>em_held := False, em_consumed := True\<rparr>)" by auto
  from bound_observation [OF bound] read fresh owner m' show ?thesis
    by (auto simp: owner_trusted_def assertDescriptorPolicyDigest_def authorityPolicyDigest_def zeroed_def map_replicate_const
        split: option.splits)
qed

lemma sample_confirmed: "\<exists>v rows. sample_confirmation =
    (Inr v, (\<lparr>em_buffer = [0, 0, 0], em_held = False, em_consumed = True\<rparr>, 1), rows)"
proof -
  obtain t where t: "serializePolicy sample_policy = Inr t" using sample_serialised by blast
  have digest: "assertDescriptorPolicyDigest (\<lambda>_. sample_digest) sample_session = Inr ()"
    by (simp add: assertDescriptorPolicyDigest_def authorityPolicyDigest_def sample_session_def t)
  have live: "live_before_handoff (\<lambda>_. sample_digest) sample_gateway sample_request 1000 = Inr sample_observation"
    by (simp add: live_before_handoff_def sample_request_def sample_gateway_def assertBoundFreshObservation_def digest
        assertLiveObservation_def) (simp add: session_simps check_def)
  have owner: "owner_trusted (\<lambda>_. Inr (Some (sample_address CHR ''A''))) sample_request = Inr ()"
    by (simp add: owner_trusted_def sample_request_def sample_session_def sample_policy_def)
  have parts: "cq_descriptor sample_request = sample_session" "cq_destination sample_request = sample_destination"
    "rd_policy sample_session = sample_policy"
    by (simp_all add: sample_request_def sample_session_def)
  have unused: "as_getByDraft (createPostgresCreatorAuthorityStore sample_database 1000) i [] = Inr None" for i
    by (simp add: createPostgresCreatorAuthorityStore_def select_authority_def sample_database_def)
  obtain u st where "put_status (\<lambda>_. sample_digest) (createPostgresCreatorAuthorityStore sample_database 1000)
      (Inr (confirmed_record sample_request \<lparr>hr_handoffId = ''handoff-1'', hr_destination = sample_destination,
         hr_sessionId = ''session-1'', hr_policyDigest = Some sample_digest, hr_acceptedAtUnix = 1000, hr_consumed = True\<rparr>
         sample_observation)) [] = (Inr u, st)"
    by (simp add: put_status_def createPostgresCreatorAuthorityStore_def put_authority_def confirmed_record_def parts
        sample_observation_def sample_database_def publicStatus_def toPublicPolicySummary_def sample_normal)
      (simp add: sample_session_def sample_normal)
  then show ?thesis
    by (simp add: sample_confirmation_def confirmCreatorAuthority_def live owner parts sample_valid digest unused sample_handoff)
qed

theorem handoff_needs_live_authority_witness:
  "\<exists>v m' w' rows. sample_confirmation = (v, (m', w'), rows) \<and> em_buffer m' = replicate (length (em_buffer sample_material)) 0"
proof -
  obtain v m' w' rows where c: "sample_confirmation = (v, (m', w'), rows)" "(m', w') \<noteq> (sample_material, 0)"
    using sample_confirmed by (fastforce simp: sample_material_def)
  from handoff_needs_live_authority [OF c(1) [unfolded sample_confirmation_def] c(2)]
  have "em_buffer m' = replicate (length (em_buffer sample_material)) 0" by simp
  with c(1) show ?thesis by blast
qed

text \<open>C2: Once an authority was confirmed for a fresh draft and identifier in the Postgres store, and after any reads and
  revocations of any authorities, a runtime that is given this authority gets the secret the sink confirmed, a policy with
  the serialisation of the one the owner granted, and only for an action within that policy.\<close>

theorem runtime_acts_within_grant:
  assumes "confirmCreatorAuthority keccak sink gateway (createPostgresCreatorAuthorityStore db c) drafts q now ((m, w), rows)
      = (Inr v, ms', rows')"
    and "as_getByDraft (createPostgresCreatorAuthorityStore db c) (cq_draftId q) rows = Inr None"
    and "find (\<lambda>row. rw_id row = cq_authorityId q) rows = None"
    and "requireRuntimeAuthority keccak (createPostgresCreatorAuthorityStore db c') live (cq_authorityId q) request cumulative later
      (fold (\<lambda>(c, u). use_authority keccak (createPostgresCreatorAuthorityStore db c) u) us rows') = Inr a"
  shows "ra_sessionId a = rd_sessionId (cq_descriptor q) \<and> ra_secretReference a = sr_reference (cq_destination q)
    \<and> serializePolicy (ra_policy a) = serializePolicy (rd_policy (cq_descriptor q))
    \<and> assertActionWithinPolicy (rd_policy (cq_descriptor q)) request later cumulative = Inr ()"
proof -
  have "agrees (confirmed_record q h ob) rows" for h ob
    using assms(3) by (simp add: agrees_def confirmed_record_def)
  note granted = postgres.granted_action [OF assms(1,2) this assms(4)]
  show ?thesis
    using granted by (simp add: serializePolicy_def)
qed

lemma sample_admin:
  "normalizePolicy (sample_policy\<lparr>po_adminAddress := sample_address CHR ''a''\<rparr>) = normalizePolicy sample_policy"
proof -
  have "js_lower (sample_address CHR ''a'') = js_lower (po_adminAddress sample_policy)" by (simp add: sample_policy_def)
  from normalize_admin [OF sample_normal this] show ?thesis by (simp only: sample_lower sample_chars)
qed

theorem runtime_acts_within_grant_witness:
  "\<exists>v ms' rows a. sample_confirmation = (Inr v, ms', rows)
    \<and> requireRuntimeAuthority (\<lambda>_. sample_digest) (createPostgresCreatorAuthorityStore sample_database 1000) sample_gateway
       ''authority-1'' (sample_action 20) [] 1000 rows = Inr a
    \<and> ra_secretReference a = ''ref/authority-1''"
proof -
  let ?store = "createPostgresCreatorAuthorityStore sample_database 1000"
  obtain v ms rows where c: "sample_confirmation = (Inr v, ms, rows)" using sample_confirmed by blast
  have none: "as_getByDraft ?store (cq_draftId sample_request) [] = Inr None"
    by (simp add: createPostgresCreatorAuthorityStore_def select_authority_def sample_database_def)
  have "agrees (confirmed_record sample_request h ob) []" for h ob by (simp add: agrees_def)
  from postgres.confirm_holds [OF c [unfolded sample_confirmation_def] none this] obtain d
    where h: "postgres.holds sample_database ''authority-1'' d ''ref/authority-1'' rows"
      and d: "rd_sessionId d = ''session-1''" "rd_policyDigest d = Some sample_digest"
        "rd_policy d = sample_policy\<lparr>po_adminAddress := sample_address CHR ''a''\<rparr>"
    by (auto simp: sample_request_def sample_session_def sample_destination_def)
  from h obtain r where r: "as_get ?store ''authority-1'' rows = Inr (Some r)" "ar_descriptor r = d"
    "ar_secretReference r = ''ref/authority-1''" by (auto simp: postgres.holds_def)
  have "assertActionWithinPolicy (rd_policy d) (sample_action 20) 1000 [] = Inr ()"
    using action_same_policy [OF sample_admin] sample_allowed [of 20 "[]"] by (simp add: d(3))
  moreover have "assertBoundFreshObservation (\<lambda>_. sample_digest) d sample_observation 1000 = Inr ()"
    using sample_admin by (simp add: assertBoundFreshObservation_def assertDescriptorPolicyDigest_def authorityPolicyDigest_def
        serializePolicy_def sample_normal assertLiveObservation_def d) (simp add: sample_observation_def check_def d)
  moreover have "assertFreshActiveAuthority d sample_observation 1000 = Inr ()"
    by (simp add: assertFreshActiveAuthority_def d sample_observation_def digests_match_def
        MAX_AUTHORITY_OBSERVATION_AGE_SECONDS_def isSafeInteger_def max_safe_integer_def)
  moreover have "effectiveObservation d sample_observation 1000 = sample_observation"
    by (simp add: effectiveObservation_def d sample_policy_def)
  ultimately obtain a where a: "requireRuntimeAuthority (\<lambda>_. sample_digest) ?store sample_gateway ''authority-1''
      (sample_action 20) [] 1000 rows = Inr a"
    by (simp add: requireRuntimeAuthority_def r found_def sample_gateway_def gate_allowed_iff) (simp add: sample_observation_def)
  have "ra_secretReference a = ''ref/authority-1''"
    using runtime_acts_within_grant [OF c [unfolded sample_confirmation_def] none, of 1000 sample_gateway "sample_action 20" "[]" 1000 "[]" a] a
    by (simp add: sample_request_def sample_destination_def)
  with c a show ?thesis by blast
qed

end
