(* ===== verification/Auth_Boundary.thy ===== *)
theory Auth_Boundary
  imports Commerce_Types
begin

text \<open>
  packages/auth/src/boundary.ts: the checks on a signed sign-in request (EIP-4361), its verification against a
  nonce store, and the checks on a session.

  Times are milliseconds. A request is the parsed object: \<open>z.coerce.date\<close> has turned its dates into
  times, the schema's other conditions are \<open>siweRequestSchema\<close>. \<open>new URL\<close> is a parameter that gives the parts the
  code reads, the verifier is a function that may throw, the nonce store a function on its state. The safe
  messages and next actions of an \<open>AppError\<close> are not modelled.
\<close>

section \<open>Errors and the platform\<close>

datatype auth_code = SIWE_AUDIENCE_MISMATCH | SIWE_POLICY_INVALID | SIWE_CONTEXT_INVALID | SIWE_CONTEXT_MISMATCH
  | SIWE_REQUEST_INVALID | SIWE_TIME_INVALID | SIWE_ISSUED_AT_STALE | SIWE_EXPIRED | SIWE_NOT_ACTIVE
  | SIWE_SIGNATURE_INVALID | SIWE_NONCE_UNAVAILABLE | SIWE_NONCE_REJECTED | SESSION_EXPIRED
  | WALLET_OWNERSHIP_REQUIRED | AUTH_CHAIN_MISMATCH | AUTH_CONFIGURATION_BLOCKED | AUTH_REQUEST_INVALID
  | AUTH_CONFIGURATION_INVALID | AUTH_DATABASE_UNAVAILABLE | AUTH_REQUIRED | SESSION_COOKIE_INVALID | SESSION_PERSISTENCE_FAILED

text \<open>\<open>AppError code retriable\<close>, and every exception that is not one.\<close>

datatype auth_exn = AppError auth_code bool | OtherError

abbreviation auth_error :: "auth_code \<Rightarrow> auth_exn" where
  "auth_error c \<equiv> AppError c False"

definition auth_require :: "bool \<Rightarrow> auth_code \<Rightarrow> auth_exn + unit" where
  "auth_require b c = (if b then Inr () else Inl (auth_error c))"

lemma auth_require_Inr [simp, result_simps]: "auth_require b c = Inr u \<longleftrightarrow> b"
  by (simp add: auth_require_def)

record web_url =
  wu_protocol :: string
  wu_username :: string
  wu_password :: string
  wu_hash :: string
  wu_host :: string
  wu_text :: string

type_synonym web_url_parser = "string \<Rightarrow> web_url option"

section \<open>Requests and contexts\<close>

record siwe_request =
  sq_address :: string
  sq_chainId :: int
  sq_domain :: string
  sq_uri :: string
  sq_nonce :: string
  sq_issuedAt :: int
  sq_expirationTime :: int
  sq_notBefore :: "int option"
  sq_statement :: "string option"
  sq_resources :: "string list option"
  sq_message :: "string option"
  sq_signature :: "string option"

record siwe_context =
  sc_domain :: string
  sc_uri :: string
  sc_chainId :: int
  sc_now :: "int option"
  sc_maxIssuedAtAgeMs :: "int option"
  sc_maxFutureSkewMs :: "int option"
  sc_maxLifetimeMs :: "int option"

record validated_context =
  vc_domain :: string
  vc_uri :: string
  vc_chainId :: int
  vc_now :: int
  vc_maxIssuedAtAgeMs :: int
  vc_maxFutureSkewMs :: int
  vc_maxLifetimeMs :: int

record siwe_proof =
  vp_address :: string
  vp_chainId :: int
  vp_issuedAt :: int
  vp_expirationTime :: int

record auth_session =
  ss_sessionId :: string
  ss_userId :: string
  ss_walletAddress :: string
  ss_chainId :: int
  ss_issuedAt :: int
  ss_expiresAt :: int

definition http_parts :: "web_url \<Rightarrow> bool" where
  "http_parts u \<longleftrightarrow> wu_protocol u \<in> {''http:'', ''https:''} \<and> wu_username u = [] \<and> wu_password u = [] \<and> wu_hash u = []"

definition httpUriSchema :: "web_url_parser \<Rightarrow> string \<Rightarrow> bool" where
  "httpUriSchema url s = (case url s of None \<Rightarrow> False | Some u \<Rightarrow> http_parts u)"

text \<open>\<open>^0x[0-9a-fA-F]+$\<close> with at most 2048 characters.\<close>

definition signature_ok :: "string \<Rightarrow> bool" where
  "signature_ok s \<longleftrightarrow> take 2 s = ''0x'' \<and> 3 \<le> length s \<and> length s \<le> 2048 \<and> list_all is_hex (drop 2 s)"

definition siweRequestSchema :: "web_url_parser \<Rightarrow> siwe_request \<Rightarrow> siwe_request option" where
  "siweRequestSchema url r = (if evmAddressSchema (sq_address r) \<and> chainIdSchema (sq_chainId r)
       \<and> text_between 253 (sq_domain r) \<and> httpUriSchema url (sq_uri r)
       \<and> 8 \<le> length (sq_nonce r) \<and> length (sq_nonce r) \<le> 128
       \<and> nullable (\<lambda>s. length s \<le> 1000) (sq_statement r)
       \<and> nullable (\<lambda>rs. length rs \<le> 32 \<and> list_all (\<lambda>s. url s \<noteq> None) rs) (sq_resources r)
       \<and> nullable (\<lambda>s. 1 \<le> length s \<and> length s \<le> 8192) (sq_message r)
       \<and> nullable signature_ok (sq_signature r)
     then Some (r\<lparr>sq_domain := js_trim (sq_domain r)\<rparr>) else None)"

section \<open>Checking a request\<close>

definition parseHttpUri :: "web_url_parser \<Rightarrow> string \<Rightarrow> auth_exn + web_url" where
  "parseHttpUri url s = (case url s of None \<Rightarrow> Inl (auth_error SIWE_AUDIENCE_MISMATCH)
     | Some u \<Rightarrow> if http_parts u then Inr u else Inl (auth_error SIWE_AUDIENCE_MISMATCH))"

definition canonicalHttpUri :: "web_url_parser \<Rightarrow> string \<Rightarrow> auth_exn + string" where
  "canonicalHttpUri url s = bindE (parseHttpUri url s) (\<lambda>u. Inr (wu_text u))"

text \<open>\<open>new URL(uri).host.toLowerCase()\<close>.\<close>

definition host_of :: "web_url_parser \<Rightarrow> string \<Rightarrow> auth_exn + string" where
  "host_of url s = (case url s of None \<Rightarrow> Inl OtherError | Some u \<Rightarrow> Inr (js_lower (wu_host u)))"

definition policyValue :: "int option \<Rightarrow> int \<Rightarrow> auth_exn + int" where
  "policyValue v fallback = (case v of None \<Rightarrow> Inr fallback
     | Some n \<Rightarrow> if isSafeInteger n \<and> 0 < n then Inr n else Inl (auth_error SIWE_POLICY_INVALID))"

definition validateContext :: "web_url_parser \<Rightarrow> int \<Rightarrow> siwe_context \<Rightarrow> auth_exn + validated_context" where
  "validateContext url clock e =
     bindE (auth_require (text_between 253 (sc_domain e) \<and> httpUriSchema url (sc_uri e) \<and> chainIdSchema (sc_chainId e))
              SIWE_CONTEXT_INVALID) (\<lambda>_.
     bindE (canonicalHttpUri url (sc_uri e)) (\<lambda>uri.
     bindE (host_of url uri) (\<lambda>host.
     bindE (auth_require (host = js_lower (js_trim (sc_domain e))) SIWE_CONTEXT_MISMATCH) (\<lambda>_.
     bindE (policyValue (sc_maxIssuedAtAgeMs e) (5 * 60 * 1000)) (\<lambda>age.
     bindE (policyValue (sc_maxFutureSkewMs e) (30 * 1000)) (\<lambda>skew.
     bindE (policyValue (sc_maxLifetimeMs e) (15 * 60 * 1000)) (\<lambda>life.
     Inr \<lparr>vc_domain = js_lower (js_trim (sc_domain e)), vc_uri = uri, vc_chainId = sc_chainId e,
          vc_now = (case sc_now e of None \<Rightarrow> clock | Some t \<Rightarrow> t), vc_maxIssuedAtAgeMs = age,
          vc_maxFutureSkewMs = skew, vc_maxLifetimeMs = life\<rparr>)))))))"

definition validateSiweRequestWithContext ::
    "web_url_parser \<Rightarrow> int \<Rightarrow> siwe_request \<Rightarrow> siwe_context \<Rightarrow> auth_exn + siwe_request \<times> validated_context" where
  "validateSiweRequestWithContext url clock input e =
     bindE (validateContext url clock e) (\<lambda>c.
     bindE (case siweRequestSchema url input of None \<Rightarrow> Inl (auth_error SIWE_REQUEST_INVALID) | Some r \<Rightarrow> Inr r) (\<lambda>r.
     bindE (canonicalHttpUri url (sq_uri r)) (\<lambda>uri.
     bindE (auth_require (js_lower (sq_domain r) = vc_domain c \<and> sq_chainId r = vc_chainId c) SIWE_CONTEXT_MISMATCH) (\<lambda>_.
     bindE (host_of url uri) (\<lambda>host.
     bindE (auth_require (host = js_lower (sq_domain r) \<and> uri = vc_uri c) SIWE_AUDIENCE_MISMATCH) (\<lambda>_.
     bindE (auth_require (sq_issuedAt r \<le> vc_now c + vc_maxFutureSkewMs c) SIWE_TIME_INVALID) (\<lambda>_.
     bindE (auth_require (vc_now c - vc_maxIssuedAtAgeMs c \<le> sq_issuedAt r) SIWE_ISSUED_AT_STALE) (\<lambda>_.
     bindE (auth_require (sq_issuedAt r < sq_expirationTime r
              \<and> sq_expirationTime r - sq_issuedAt r \<le> vc_maxLifetimeMs c) SIWE_TIME_INVALID) (\<lambda>_.
     bindE (auth_require (vc_now c < sq_expirationTime r) SIWE_EXPIRED) (\<lambda>_.
     bindE (auth_require (case sq_notBefore r of None \<Rightarrow> True | Some t \<Rightarrow> t \<le> vc_now c) SIWE_NOT_ACTIVE) (\<lambda>_.
     Inr (r, c))))))))))))"

definition validateSiweRequest :: "web_url_parser \<Rightarrow> int \<Rightarrow> siwe_request \<Rightarrow> siwe_context \<Rightarrow> auth_exn + siwe_request" where
  "validateSiweRequest url clock input e = bindE (validateSiweRequestWithContext url clock input e) (\<lambda>(r, c). Inr r)"

section \<open>Verifying a request\<close>

record nonce_input =
  ni_domain :: string
  ni_chainId :: int
  ni_nonce :: string
  ni_walletAddress :: "string option"

text \<open>The \<open>consume\<close> of a nonce store: \<open>None\<close> when it throws.\<close>

type_synonym 's nonce_consumer = "nonce_input \<Rightarrow> 's \<Rightarrow> bool option \<times> 's"

definition verifySiweRequest :: "web_url_parser \<Rightarrow> int \<Rightarrow> (siwe_request \<Rightarrow> siwe_proof option) \<Rightarrow> 's nonce_consumer
    \<Rightarrow> siwe_request \<Rightarrow> siwe_context \<Rightarrow> 's \<Rightarrow> (auth_exn + siwe_proof) \<times> 's" where
  "verifySiweRequest url clock verifier consumer input e s =
     (case bindE (validateSiweRequestWithContext url clock input e) (\<lambda>(r, c).
           bindE (case verifier r of None \<Rightarrow> Inl (auth_error SIWE_SIGNATURE_INVALID) | Some p \<Rightarrow> Inr p) (\<lambda>p.
           case (normalizeEvmAddress (vp_address p), normalizeEvmAddress (sq_address r)) of
             (Inr verified, Inr requested) \<Rightarrow>
               bindE (auth_require (verified = requested \<and> vp_chainId p = sq_chainId r \<and> vp_issuedAt p = sq_issuedAt r
                        \<and> vp_expirationTime p = sq_expirationTime r) SIWE_SIGNATURE_INVALID) (\<lambda>_.
               Inr (r, c, p, verified))
           | _ \<Rightarrow> Inl (auth_error SIWE_SIGNATURE_INVALID))) of
        Inl err \<Rightarrow> (Inl err, s)
      | Inr (r, c, p, verified) \<Rightarrow>
          (case consumer \<lparr>ni_domain = vc_domain c, ni_chainId = sq_chainId r, ni_nonce = sq_nonce r,
                  ni_walletAddress = Some verified\<rparr> s of
             (None, s') \<Rightarrow> (Inl (auth_error SIWE_NONCE_UNAVAILABLE), s')
           | (Some False, s') \<Rightarrow> (Inl (auth_error SIWE_NONCE_REJECTED), s')
           | (Some True, s') \<Rightarrow> (Inr (p\<lparr>vp_address := verified\<rparr>), s')))"

definition assertSessionUsable :: "auth_session \<Rightarrow> int \<Rightarrow> auth_exn + auth_session" where
  "assertSessionUsable s now = (if ss_expiresAt s \<le> now then Inl (auth_error SESSION_EXPIRED) else Inr s)"

definition assertWalletOwnership :: "auth_session \<Rightarrow> string \<Rightarrow> auth_exn + unit" where
  "assertWalletOwnership s expected =
     (case (normalizeEvmAddress (ss_walletAddress s), normalizeEvmAddress expected) of
        (Inr a, Inr b) \<Rightarrow> auth_require (a = b) WALLET_OWNERSHIP_REQUIRED
      | _ \<Rightarrow> Inl OtherError)"

end
