(* ===== verification/Auth_Server.thy ===== *)
theory Auth_Server
  imports Auth_Boundary
begin

text \<open>
  apps/web/src/lib/commerce-auth.ts and siwe-message.ts: wallet sign-in on the Postgres tables of nonces, users,
  wallets and sessions, and the session cookie.

  \<open>now\<close> is the clock of the server, \<open>dbnow\<close> the \<open>NOW()\<close> of a statement, both in milliseconds. Random texts
  (nonces, the session token, row identifiers) are arguments; a statement that violates a unique index or the chain check
  of the table fails. SHA-256 and the check of an EIP-191 signature are parameters. The environment is
  reduced to the flags and the origin the code reads from it.
\<close>

section \<open>The signed message\<close>

definition pad :: "nat \<Rightarrow> int \<Rightarrow> string" where
  "pad n i = replicate (n - length (show_int i)) CHR ''0'' @ show_int i"

text \<open>Year, month and day of a day number, day 0 being 1970-01-01.\<close>

definition civil_of_days :: "int \<Rightarrow> int \<times> int \<times> int" where
  "civil_of_days days = (let z = days + 719468; era = z div 146097; doe = z mod 146097;
     yoe = (doe - doe div 1460 + doe div 36524 - doe div 146096) div 365;
     doy = doe - (365 * yoe + yoe div 4 - yoe div 100); mp = (5 * doy + 2) div 153;
     d = doy - (153 * mp + 2) div 5 + 1; m = (if mp < 10 then mp + 3 else mp - 9)
   in (yoe + era * 400 + (if m \<le> 2 then 1 else 0), m, d))"

definition toISOString :: "int \<Rightarrow> string" where
  "toISOString t = (case civil_of_days (t div 86400000) of (y, m, d) \<Rightarrow>
     let r = t mod 86400000 in
     (if 0 \<le> y \<and> y \<le> 9999 then pad 4 y else (if y < 0 then ''-'' else ''+'') @ pad 6 \<bar>y\<bar>)
     @ ''-'' @ pad 2 m @ ''-'' @ pad 2 d @ ''T'' @ pad 2 (r div 3600000) @ '':'' @ pad 2 (r div 60000 mod 60)
     @ '':'' @ pad 2 (r div 1000 mod 60) @ ''.'' @ pad 3 (r mod 1000) @ ''Z'')"

definition newline :: char where
  "newline = char_of (10 :: nat)"

fun join_lines :: "string list \<Rightarrow> string" where
  "join_lines [] = []"
| "join_lines [s] = s"
| "join_lines (s # ss) = s @ newline # join_lines ss"

text \<open>The message of a request: its version is 1 and it has no request id.\<close>

definition formatSiweMessage :: "siwe_request \<Rightarrow> string" where
  "formatSiweMessage r =
     sq_domain r @ '' wants you to sign in with your Ethereum account:'' @ [newline] @ sq_address r @ [newline, newline]
     @ (case sq_statement r of None \<Rightarrow> [] | Some s \<Rightarrow> s @ [newline, newline])
     @ join_lines ([''URI: '' @ sq_uri r, ''Version: 1'', ''Chain ID: '' @ show_int (sq_chainId r), ''Nonce: '' @ sq_nonce r,
         ''Issued At: '' @ toISOString (sq_issuedAt r), ''Expiration Time: '' @ toISOString (sq_expirationTime r)]
       @ (case sq_notBefore r of None \<Rightarrow> [] | Some t \<Rightarrow> [''Not Before: '' @ toISOString t])
       @ (case sq_resources r of None \<Rightarrow> [] | Some rs \<Rightarrow>
            if rs = [] then [] else [join_lines (''Resources:'' # map (\<lambda>s. ''- '' @ s) rs)]))"

section \<open>Tables\<close>

record nonce_row =
  nr_domain :: string
  nr_chain_id :: int
  nr_nonce_digest :: string
  nr_expires_at :: int
  nr_consumed_at :: "int option"

record wallet_row =
  wr_user_id :: string
  wr_address :: string
  wr_chain_id :: int
  wr_last_ownership_verified_at :: int

record session_row =
  sn_id :: string
  sn_user_id :: string
  sn_token_digest :: string
  sn_wallet_address :: "string option"
  sn_chain_id :: "int option"
  sn_issued_at :: int
  sn_expires_at :: int
  sn_revoked_at :: "int option"

record auth_tables =
  at_nonces :: "nonce_row list"
  at_users :: "(string \<times> string) list"
  at_wallets :: "wallet_row list"
  at_sessions :: "session_row list"

record auth_platform =
  pl_url :: web_url_parser
  pl_sha256 :: "string \<Rightarrow> string"
  pl_verifyMessage :: "string \<Rightarrow> string \<Rightarrow> string \<Rightarrow> bool option"

definition sessionTtlMs :: int where
  "sessionTtlMs = 15 * 60000"

definition challengeTtlMs :: int where
  "challengeTtlMs = 60000"

definition maxTokenLength :: nat where
  "maxTokenLength = 256"

definition authCookieName :: string where
  "authCookieName = ''__Host-bnbera_session''"

section \<open>Nonces\<close>

definition nonceDigest :: "auth_platform \<Rightarrow> nonce_input \<Rightarrow> string" where
  "nonceDigest pl i = (case ni_walletAddress i of None \<Rightarrow> pl_sha256 pl (ni_nonce i)
     | Some w \<Rightarrow> pl_sha256 pl (join_lines [''siwe-v1'', ni_domain i, show_int (ni_chainId i), js_lower w, ni_nonce i]))"

text \<open>The draws are the random nonces of the three attempts; a row with the same digest is a unique violation.\<close>

fun issue_attempts :: "auth_platform \<Rightarrow> nonce_input \<Rightarrow> int \<Rightarrow> string list \<Rightarrow> nonce_row list
    \<Rightarrow> (auth_exn + string) \<times> nonce_row list" where
  "issue_attempts pl i expires [] rows = (Inl OtherError, rows)"
| "issue_attempts pl i expires (n # ns) rows = (let d = nonceDigest pl (i\<lparr>ni_nonce := n\<rparr>) in
     if list_ex (\<lambda>r. nr_nonce_digest r = d) rows then issue_attempts pl i expires ns rows
     else (Inr n, rows @ [\<lparr>nr_domain = ni_domain i, nr_chain_id = ni_chainId i, nr_nonce_digest = d,
        nr_expires_at = expires, nr_consumed_at = None\<rparr>]))"

definition issue_nonce :: "auth_platform \<Rightarrow> int \<Rightarrow> string \<times> string \<times> string \<Rightarrow> nonce_input \<Rightarrow> nonce_row list
    \<Rightarrow> (auth_exn + string \<times> int) \<times> nonce_row list" where
  "issue_nonce pl now draws i rows = (case draws of (a, b, c) \<Rightarrow>
     case issue_attempts pl i (now + challengeTtlMs) [a, b, c] rows of (res, rows') \<Rightarrow>
       (bindE res (\<lambda>n. Inr (n, now + challengeTtlMs)), rows'))"

definition nonce_matches :: "auth_platform \<Rightarrow> nonce_input \<Rightarrow> int \<Rightarrow> nonce_row \<Rightarrow> bool" where
  "nonce_matches pl i dbnow r \<longleftrightarrow> nr_domain r = ni_domain i \<and> nr_chain_id r = ni_chainId i
     \<and> nr_nonce_digest r = nonceDigest pl i \<and> nr_consumed_at r = None \<and> dbnow < nr_expires_at r"

text \<open>The conditional update; the result is whether it changed exactly one row.\<close>

definition consume_nonce :: "auth_platform \<Rightarrow> int \<Rightarrow> nonce_input \<Rightarrow> nonce_row list \<Rightarrow> bool \<times> nonce_row list" where
  "consume_nonce pl dbnow i rows =
     (length (filter (nonce_matches pl i dbnow) rows) = 1,
      map (\<lambda>r. if nonce_matches pl i dbnow r then r\<lparr>nr_consumed_at := Some dbnow\<rparr> else r) rows)"

section \<open>Sessions\<close>

definition digestSessionToken :: "auth_platform \<Rightarrow> string \<Rightarrow> auth_exn + string" where
  "digestSessionToken pl token = (if length token = 0 \<or> maxTokenLength < length token
     then Inl (auth_error SESSION_COOKIE_INVALID) else Inr (pl_sha256 pl token))"

record session_draws =
  sd_token :: string
  sd_user_id :: string
  sd_session_id :: string

definition upsert_user :: "string \<Rightarrow> string \<Rightarrow> (string \<times> string) list \<Rightarrow> string \<times> (string \<times> string) list" where
  "upsert_user email new_id users = (case map_of users email of
       Some i \<Rightarrow> (i, users) | None \<Rightarrow> (new_id, users @ [(email, new_id)]))"

definition upsert_wallet :: "wallet_row \<Rightarrow> wallet_row list \<Rightarrow> wallet_row list" where
  "upsert_wallet w ws = (if list_ex (\<lambda>v. wr_chain_id v = wr_chain_id w \<and> wr_address v = wr_address w) ws
     then map (\<lambda>v. if wr_chain_id v = wr_chain_id w \<and> wr_address v = wr_address w then w else v) ws else ws @ [w])"

definition createSession :: "auth_platform \<Rightarrow> session_draws \<Rightarrow> int \<Rightarrow> string \<Rightarrow> int \<Rightarrow> auth_tables
    \<Rightarrow> (auth_exn + string \<times> auth_session) \<times> auth_tables" where
  "createSession pl draws issuedAt wallet chainId db =
     (case normalizeEvmAddress wallet of Inl _ \<Rightarrow> (Inl OtherError, db) | Inr address \<Rightarrow>
      case digestSessionToken pl (sd_token draws) of Inl e \<Rightarrow> (Inl e, db) | Inr digest \<Rightarrow>
      case upsert_user (''wallet:'' @ show_int chainId @ '':'' @ address) (sd_user_id draws) (at_users db) of
        (user, users) \<Rightarrow>
        if list_ex (\<lambda>s. sn_token_digest s = digest \<or> sn_id s = sd_session_id draws) (at_sessions db) \<or> chainId \<notin> {56, 97}
        then (Inl (AppError SESSION_PERSISTENCE_FAILED True), db)
        else (Inr (sd_token draws, \<lparr>ss_sessionId = sd_session_id draws, ss_userId = user, ss_walletAddress = address,
                 ss_chainId = chainId, ss_issuedAt = issuedAt, ss_expiresAt = issuedAt + sessionTtlMs\<rparr>),
              db\<lparr>at_users := users,
                 at_wallets := upsert_wallet \<lparr>wr_user_id = user, wr_address = address, wr_chain_id = chainId,
                   wr_last_ownership_verified_at = issuedAt\<rparr> (at_wallets db),
                 at_sessions := at_sessions db @ [\<lparr>sn_id = sd_session_id draws, sn_user_id = user, sn_token_digest = digest,
                   sn_wallet_address = Some address, sn_chain_id = Some chainId, sn_issued_at = issuedAt,
                   sn_expires_at = issuedAt + sessionTtlMs, sn_revoked_at = None\<rparr>]\<rparr>))"

section \<open>The cookie\<close>

fun split_on :: "char \<Rightarrow> string \<Rightarrow> string list" where
  "split_on c [] = [[]]"
| "split_on c (x # xs) = (if x = c then [] # split_on c xs else (x # hd (split_on c xs)) # tl (split_on c xs))"

definition hex_val :: "char \<Rightarrow> nat" where
  "hex_val c = (let n = code c in if 97 \<le> n then n - 87 else if 65 \<le> n then n - 55 else n - 48)"

text \<open>
  \<open>decodeURIComponent\<close>: one-byte sequences and the two-byte sequences of Latin-1. The other characters
  are outside the strings of the model; no session token has them, so a cookie with one is refused here.
\<close>

fun decodeURIComponent :: "string \<Rightarrow> string option" where
  "decodeURIComponent [] = Some []"
| "decodeURIComponent (c # cs) = (if c \<noteq> CHR ''%'' then map_option ((#) c) (decodeURIComponent cs) else
     case cs of h # l # rest \<Rightarrow>
       if \<not> (is_hex h \<and> is_hex l) then None else
       let b = 16 * hex_val h + hex_val l in
       if b < 128 then map_option ((#) (char_of b)) (decodeURIComponent rest)
       else if b = 194 \<or> b = 195 then
         (case rest of p # h' # l' # rest' \<Rightarrow>
            if p = CHR ''%'' \<and> is_hex h' \<and> is_hex l' \<and> 128 \<le> 16 * hex_val h' + hex_val l' \<and> 16 * hex_val h' + hex_val l' < 192
            then map_option ((#) (char_of ((b - 192) * 64 + (16 * hex_val h' + hex_val l' - 128)))) (decodeURIComponent rest')
            else None
          | _ \<Rightarrow> None)
       else None
     | _ \<Rightarrow> None)"

text \<open>The loop over the segments of the header, with its early returns.\<close>

fun cookie_in :: "string list \<Rightarrow> string option" where
  "cookie_in [] = None"
| "cookie_in (seg # segs) = (if CHR ''='' \<notin> set seg then cookie_in segs
     else if js_trim (takeWhile (\<lambda>c. c \<noteq> CHR ''='') seg) \<noteq> authCookieName then cookie_in segs
     else let encoded = js_trim (tl (dropWhile (\<lambda>c. c \<noteq> CHR ''='') seg)) in
       if length encoded = 0 \<or> maxTokenLength * 2 < length encoded then None
       else case decodeURIComponent encoded of None \<Rightarrow> None
         | Some v \<Rightarrow> if 0 < length v \<and> length v \<le> maxTokenLength then Some v else None)"

definition cookieValue :: "string option \<Rightarrow> string option" where
  "cookieValue header = (case header of None \<Rightarrow> None | Some h \<Rightarrow> cookie_in (split_on CHR '';'' h))"

definition unreserved :: "char \<Rightarrow> bool" where
  "unreserved c \<longleftrightarrow> is_alnum c \<or> c \<in> set ''-_.!~*()'' \<or> c = char_of (39 :: nat)"

definition percent :: "nat \<Rightarrow> string" where
  "percent b = CHR ''%'' # map (\<lambda>d. if d < 10 then char_of (48 + d) else char_of (55 + d)) [b div 16, b mod 16]"

definition encodeURIComponent :: "string \<Rightarrow> string" where
  "encodeURIComponent s = concat (map (\<lambda>c. if unreserved c then [c] else if code c < 128 then percent (code c)
     else percent (192 + code c div 64) @ percent (128 + code c mod 64)) s)"

definition cookieHeader :: "string \<Rightarrow> int \<Rightarrow> int \<Rightarrow> string" where
  "cookieHeader token expiresAt issuedAt = authCookieName @ ''='' @ encodeURIComponent token @ ''; Path=/; Max-Age=''
     @ show_int (max 0 ((expiresAt - issuedAt) div 1000)) @ ''; HttpOnly; Secure; SameSite=Strict''"

section \<open>Signing in\<close>

text \<open>The parsed configuration; \<open>ap_host\<close> has the port of the application URL, \<open>ap_hostname\<close> has not.\<close>

record app_url =
  ap_origin :: string
  ap_host :: string
  ap_hostname :: string

record auth_configuration =
  ac_appUrl :: "app_url option"
  ac_siweDomain :: string
  ac_bscChainId :: int
  ac_databaseUrl :: "string option"
  ac_mainnetEnabled :: bool
  ac_testnetPreview :: bool
  ac_production :: bool
  ac_walletConnectAuth :: bool

record auth_runtime =
  au_appOrigin :: string
  au_rpId :: string
  au_chainId :: int

definition resolveEoaAuthChain :: "auth_configuration \<Rightarrow> int \<Rightarrow> auth_exn + int" where
  "resolveEoaAuthChain cfg requested =
     (if requested = 56 then (if ac_mainnetEnabled cfg then Inr 56 else Inl (auth_error AUTH_CONFIGURATION_BLOCKED))
      else if requested \<noteq> 97 then Inl (auth_error AUTH_CHAIN_MISMATCH)
      else if ac_production cfg \<and> \<not> ac_testnetPreview cfg \<or> \<not> ac_walletConnectAuth cfg
      then Inl (auth_error AUTH_CONFIGURATION_BLOCKED) else Inr 97)"

text \<open>\<open>None\<close> is a configuration that does not load.\<close>

definition runtimeFromEnvironment :: "auth_configuration option \<Rightarrow> auth_exn + auth_runtime" where
  "runtimeFromEnvironment c = (case c of None \<Rightarrow> Inl (AppError AUTH_CONFIGURATION_INVALID True) | Some cfg \<Rightarrow>
     case ac_appUrl cfg of None \<Rightarrow> Inl (AppError AUTH_CONFIGURATION_INVALID True) | Some u \<Rightarrow>
     if js_lower (ac_siweDomain cfg) \<noteq> js_lower (ap_host u) then Inl (AppError AUTH_CONFIGURATION_INVALID True)
     else if ac_bscChainId cfg \<noteq> 97 \<and> \<not> ac_mainnetEnabled cfg then Inl (auth_error AUTH_CONFIGURATION_BLOCKED)
     else if (case ac_databaseUrl cfg of None \<Rightarrow> True | Some d \<Rightarrow> js_trim d = [])
     then Inl (AppError AUTH_DATABASE_UNAVAILABLE True)
     else Inr \<lparr>au_appOrigin = ap_origin u, au_rpId = js_lower (ap_hostname u), au_chainId = ac_bscChainId cfg\<rparr>)"

definition walletConnectRuntimeFromEnvironment :: "auth_configuration \<Rightarrow> int \<Rightarrow> auth_exn + auth_runtime" where
  "walletConnectRuntimeFromEnvironment cfg requested =
     bindE (resolveEoaAuthChain cfg requested) (\<lambda>chain.
     bindE (runtimeFromEnvironment (Some cfg)) (\<lambda>r. Inr (r\<lparr>au_chainId := chain\<rparr>)))"

definition siweContext :: "auth_runtime \<Rightarrow> int option \<Rightarrow> siwe_context" where
  "siweContext r now = \<lparr>sc_domain = au_rpId r, sc_uri = au_appOrigin r, sc_chainId = au_chainId r, sc_now = now,
     sc_maxIssuedAtAgeMs = None, sc_maxFutureSkewMs = None, sc_maxLifetimeMs = None\<rparr>"

definition parseEoaSiweAuthenticationRequest :: "web_url_parser \<Rightarrow> siwe_request \<Rightarrow> auth_exn + siwe_request" where
  "parseEoaSiweAuthenticationRequest url r = (case siweRequestSchema url r of
       Some q \<Rightarrow> if sq_message r \<noteq> None \<and> sq_signature r \<noteq> None then Inr q else Inl (auth_error AUTH_REQUEST_INVALID)
     | None \<Rightarrow> Inl (auth_error AUTH_REQUEST_INVALID))"

definition eoaSiweVerifier :: "auth_platform \<Rightarrow> siwe_request \<Rightarrow> siwe_proof option" where
  "eoaSiweVerifier pl r = (case (sq_message r, sq_signature r) of
       (Some m, Some sig) \<Rightarrow>
         if m \<noteq> formatSiweMessage r then None
         else if pl_verifyMessage pl (sq_address r) m sig = Some True
         then Some \<lparr>vp_address = sq_address r, vp_chainId = sq_chainId r, vp_issuedAt = sq_issuedAt r,
                vp_expirationTime = sq_expirationTime r\<rparr>
         else None
     | _ \<Rightarrow> None)"

text \<open>The nonce store of a set of tables.\<close>

definition table_consume :: "auth_platform \<Rightarrow> int \<Rightarrow> auth_tables nonce_consumer" where
  "table_consume pl dbnow i db = (case consume_nonce pl dbnow i (at_nonces db) of
     (ok, rows) \<Rightarrow> (Some ok, db\<lparr>at_nonces := rows\<rparr>))"

definition verifyEoaSiweRequest :: "auth_platform \<Rightarrow> int \<Rightarrow> siwe_request \<Rightarrow> siwe_context \<Rightarrow> 's nonce_consumer \<Rightarrow> 's
    \<Rightarrow> (auth_exn + siwe_proof) \<times> 's" where
  "verifyEoaSiweRequest pl clock input expected consumer s =
     (case parseEoaSiweAuthenticationRequest (pl_url pl) input of
        Inl e \<Rightarrow> (Inl e, s)
      | Inr r \<Rightarrow> verifySiweRequest (pl_url pl) clock (eoaSiweVerifier pl) consumer r expected s)"

text \<open>\<open>now\<close> is the clock of the checks, \<open>later\<close> the one of the new session.\<close>

definition authenticateEoa :: "auth_platform \<Rightarrow> auth_configuration \<Rightarrow> session_draws \<Rightarrow> int \<Rightarrow> int \<Rightarrow> int \<Rightarrow> siwe_request \<Rightarrow> auth_tables
    \<Rightarrow> (auth_exn + auth_session \<times> string) \<times> auth_tables" where
  "authenticateEoa pl cfg draws now dbnow later input db =
     (case bindE (parseEoaSiweAuthenticationRequest (pl_url pl) input) (\<lambda>q.
           bindE (walletConnectRuntimeFromEnvironment cfg (sq_chainId q)) (\<lambda>r.
           bindE (auth_require (sq_chainId q = au_chainId r) AUTH_CHAIN_MISMATCH) (\<lambda>_. Inr (q, r)))) of
        Inl e \<Rightarrow> (Inl e, db)
      | Inr (q, r) \<Rightarrow>
          (case verifySiweRequest (pl_url pl) now (eoaSiweVerifier pl) (table_consume pl dbnow) q (siweContext r None) db of
             (Inl e, db') \<Rightarrow> (Inl e, db')
           | (Inr proof, db') \<Rightarrow>
               (case createSession pl draws later (vp_address proof) (vp_chainId proof) db' of
                  (Inl e, db'') \<Rightarrow> (Inl e, db'')
                | (Inr (token, session), db'') \<Rightarrow>
                    (Inr (session, cookieHeader token (ss_expiresAt session) (ss_issuedAt session)), db''))))"

record siwe_challenge =
  cl_request :: siwe_request
  cl_expiresAt :: int
  cl_text :: string

definition createEoaSiweChallenge :: "auth_platform \<Rightarrow> auth_configuration \<Rightarrow> string \<times> string \<times> string \<Rightarrow> int \<Rightarrow> string \<Rightarrow> int
    \<Rightarrow> auth_tables \<Rightarrow> (auth_exn + siwe_challenge) \<times> auth_tables" where
  "createEoaSiweChallenge pl cfg draws now address chainId db =
     (case bindE (auth_require (evmAddressSchema address \<and> chainId \<in> {56, 97}) AUTH_REQUEST_INVALID) (\<lambda>_.
           bindE (walletConnectRuntimeFromEnvironment cfg chainId) (\<lambda>r.
           bindE (auth_require (chainId = au_chainId r) AUTH_CHAIN_MISMATCH) (\<lambda>_. Inr r))) of
        Inl e \<Rightarrow> (Inl e, db)
      | Inr r \<Rightarrow>
          (case issue_nonce pl now draws \<lparr>ni_domain = au_rpId r, ni_chainId = au_chainId r, ni_nonce = [],
                  ni_walletAddress = Some (js_lower address)\<rparr> (at_nonces db) of
             (Inl e, rows) \<Rightarrow> (Inl e, db\<lparr>at_nonces := rows\<rparr>)
           | (Inr (nonce, expires), rows) \<Rightarrow>
               (let q = \<lparr>sq_address = js_lower address, sq_chainId = au_chainId r, sq_domain = au_rpId r, sq_uri = au_appOrigin r,
                      sq_nonce = nonce, sq_issuedAt = now, sq_expirationTime = now + sessionTtlMs, sq_notBefore = None,
                      sq_statement = Some ''Sign in to BNBEra commerce.'', sq_resources = None, sq_message = None,
                      sq_signature = None\<rparr>
                in (Inr \<lparr>cl_request = q, cl_expiresAt = expires, cl_text = formatSiweMessage q\<rparr>, db\<lparr>at_nonces := rows\<rparr>))))"

section \<open>Using a session\<close>

definition session_live :: "string \<Rightarrow> int \<Rightarrow> bool \<Rightarrow> session_row \<Rightarrow> bool" where
  "session_live digest dbnow mainnet s \<longleftrightarrow> sn_token_digest s = digest \<and> sn_revoked_at s = None \<and> dbnow < sn_expires_at s
     \<and> sn_wallet_address s \<noteq> None \<and> (case sn_chain_id s of None \<Rightarrow> False | Some c \<Rightarrow> c = 97 \<or> mainnet \<and> c = 56)"

text \<open>\<open>dbnow\<close> is the time of the query, \<open>now\<close> the clock when its answer is back.\<close>

definition getAuthenticatedSession :: "auth_platform \<Rightarrow> auth_configuration \<Rightarrow> int \<Rightarrow> int \<Rightarrow> string option \<Rightarrow> auth_tables
    \<Rightarrow> auth_exn + auth_session option" where
  "getAuthenticatedSession pl cfg dbnow now header db = (case cookieValue header of None \<Rightarrow> Inr None | Some token \<Rightarrow>
     bindE (runtimeFromEnvironment (Some cfg)) (\<lambda>_.
     bindE (digestSessionToken pl token) (\<lambda>digest.
     case find (session_live digest dbnow (ac_mainnetEnabled cfg)) (at_sessions db) of
       None \<Rightarrow> Inr None
     | Some s \<Rightarrow> (case normalizeEvmAddress (the (sn_wallet_address s)) of
           Inl _ \<Rightarrow> Inl OtherError
         | Inr wallet \<Rightarrow> Inr (if sn_expires_at s \<le> now then None else
             Some \<lparr>ss_sessionId = sn_id s, ss_userId = sn_user_id s, ss_walletAddress = wallet,
                   ss_chainId = the (sn_chain_id s), ss_issuedAt = sn_issued_at s, ss_expiresAt = sn_expires_at s\<rparr>)))))"

definition requireAuthenticatedCommerceIdentity :: "auth_platform \<Rightarrow> auth_configuration \<Rightarrow> int \<Rightarrow> int \<Rightarrow> string option \<Rightarrow> auth_tables
    \<Rightarrow> auth_exn + auth_session" where
  "requireAuthenticatedCommerceIdentity pl cfg dbnow now header db =
     bindE (getAuthenticatedSession pl cfg dbnow now header db) (\<lambda>s.
     case s of None \<Rightarrow> Inl (auth_error AUTH_REQUIRED) | Some x \<Rightarrow> Inr x)"

definition revokeAuthenticatedSession :: "auth_platform \<Rightarrow> auth_configuration \<Rightarrow> int \<Rightarrow> string option \<Rightarrow> auth_tables
    \<Rightarrow> (auth_exn + unit) \<times> auth_tables" where
  "revokeAuthenticatedSession pl cfg dbnow header db = (case cookieValue header of None \<Rightarrow> (Inr (), db) | Some token \<Rightarrow>
     case bindE (runtimeFromEnvironment (Some cfg)) (\<lambda>_. digestSessionToken pl token) of
       Inl e \<Rightarrow> (Inl e, db)
     | Inr digest \<Rightarrow> (Inr (), db\<lparr>at_sessions := map (\<lambda>s. if sn_token_digest s = digest \<and> sn_revoked_at s = None
           then s\<lparr>sn_revoked_at := Some dbnow\<rparr> else s) (at_sessions db)\<rparr>))"

section \<open>Facts about nonces\<close>

datatype nonce_op = IssueNonce int "string \<times> string \<times> string" nonce_input | ConsumeNonce int nonce_input

fun nonce_step :: "auth_platform \<Rightarrow> nonce_op \<Rightarrow> nonce_row list \<Rightarrow> nonce_row list" where
  "nonce_step pl (IssueNonce now draws i) rows = snd (issue_nonce pl now draws i rows)"
| "nonce_step pl (ConsumeNonce dbnow i) rows = snd (consume_nonce pl dbnow i rows)"

definition spent :: "string \<Rightarrow> nonce_row list \<Rightarrow> bool" where
  "spent d rows \<longleftrightarrow> d \<in> nr_nonce_digest ` set rows \<and> (\<forall>r \<in> set rows. nr_nonce_digest r = d \<longrightarrow> nr_consumed_at r \<noteq> None)"

lemma issue_spent: "spent d rows \<Longrightarrow> spent d (snd (issue_attempts pl i e ns rows))"
  by (induction ns) (auto simp: Let_def spent_def list_ex_iff)

lemma consume_digests: "map nr_nonce_digest (snd (consume_nonce pl t i rows)) = map nr_nonce_digest rows"
  by (simp add: consume_nonce_def)

lemma step_spent: "spent d rows \<Longrightarrow> spent d (nonce_step pl op rows)"
proof (cases op)
  case (IssueNonce now draws i)
  then show "spent d rows \<Longrightarrow> ?thesis"
    using issue_spent [of d rows pl i "now + challengeTtlMs" "[fst draws, fst (snd draws), snd (snd draws)]"]
    by (cases draws) (auto simp: issue_nonce_def simp del: issue_attempts.simps split: prod.splits)
next
  case (ConsumeNonce dbnow i)
  have "nr_nonce_digest ` set (nonce_step pl op rows) = nr_nonce_digest ` set rows"
    using consume_digests [of pl dbnow i rows, THEN arg_cong [of _ _ set]] by (simp only: ConsumeNonce nonce_step.simps set_map)
  then show "spent d rows \<Longrightarrow> ?thesis"
    by (auto simp: ConsumeNonce consume_nonce_def spent_def)
qed

lemma steps_spent: "spent d rows \<Longrightarrow> spent d (fold (nonce_step pl) ops rows)"
  by (induction ops arbitrary: rows) (auto simp: step_spent)

lemma spent_refused: "spent (nonceDigest pl i) rows \<Longrightarrow> \<not> fst (consume_nonce pl t i rows)"
  by (auto simp: consume_nonce_def spent_def nonce_matches_def filter_empty_conv length_Suc_conv filter_eq_Cons_iff)

lemma consumed_spent:
  assumes "consume_nonce pl t i rows = (True, rows')" "distinct (map nr_nonce_digest rows)"
  shows "spent (nonceDigest pl i) rows'"
proof -
  define f where "f = (\<lambda>r :: nonce_row. if nonce_matches pl i t r then r\<lparr>nr_consumed_at := Some t\<rparr> else r)"
  from assms(1) have rows': "rows' = map f rows" and one: "length (filter (nonce_matches pl i t) rows) = 1"
    by (simp_all add: consume_nonce_def f_def)
  from one have "filter (nonce_matches pl i t) rows \<noteq> []" by auto
  then obtain r where r: "r \<in> set rows" "nonce_matches pl i t r" by (auto simp: filter_empty_conv)
  have digest: "nr_nonce_digest r = nonceDigest pl i" and key: "nr_nonce_digest (f x) = nr_nonce_digest x" for x
    using r(2) by (simp_all add: nonce_matches_def f_def)
  have "x = r" if "x \<in> set rows" "nr_nonce_digest x = nonceDigest pl i" for x
    using that r digest assms(2) by (auto simp: distinct_map inj_on_def)
  moreover have "nr_consumed_at (f r) \<noteq> None" using r by (simp add: f_def)
  ultimately have spent: "nr_consumed_at (f x) \<noteq> None" if "x \<in> set rows" "nr_nonce_digest x = nonceDigest pl i" for x
    using that by metis
  have "nr_nonce_digest (f r) \<in> nr_nonce_digest ` f ` set rows" using r(1) by blast
  then have "nonceDigest pl i \<in> nr_nonce_digest ` f ` set rows" by (simp only: key digest)
  moreover have "\<forall>y \<in> f ` set rows. nr_nonce_digest y = nonceDigest pl i \<longrightarrow> nr_consumed_at y \<noteq> None"
  proof (intro ballI impI)
    fix y assume "y \<in> f ` set rows" "nr_nonce_digest y = nonceDigest pl i"
    then obtain x where "x \<in> set rows" "y = f x" "nr_nonce_digest x = nonceDigest pl i" using key by auto
    then show "nr_consumed_at y \<noteq> None" using spent [of x] by simp
  qed
  ultimately show ?thesis by (simp only: spent_def rows' set_map simp_thms)
qed

section \<open>Facts about sessions\<close>

datatype session_op = CreateSession session_draws int string int | RevokeSession int "string option"

fun session_step :: "auth_platform \<Rightarrow> auth_configuration \<Rightarrow> session_op \<Rightarrow> auth_tables \<Rightarrow> auth_tables" where
  "session_step pl cfg (CreateSession draws now wallet chain) db = snd (createSession pl draws now wallet chain db)"
| "session_step pl cfg (RevokeSession dbnow header) db = snd (revokeAuthenticatedSession pl cfg dbnow header db)"

text \<open>The operation revokes the sessions with this token digest.\<close>

fun revokes :: "auth_platform \<Rightarrow> string \<Rightarrow> session_op \<Rightarrow> bool" where
  "revokes pl d (RevokeSession dbnow header) = (\<exists>t. cookieValue header = Some t \<and> digestSessionToken pl t = Inr d)"
| "revokes pl d (CreateSession draws now wallet chain) = False"

text \<open>Every row with the digest is \<open>row\<close>, up to a revocation exactly when \<open>revoked\<close>.\<close>

definition session_row_is :: "session_row \<Rightarrow> bool \<Rightarrow> auth_tables \<Rightarrow> bool" where
  "session_row_is row revoked db \<longleftrightarrow> (\<exists>s \<in> set (at_sessions db). sn_token_digest s = sn_token_digest row)
     \<and> (\<forall>s \<in> set (at_sessions db). sn_token_digest s = sn_token_digest row \<longrightarrow>
          (if revoked then sn_revoked_at s \<noteq> None else s = row))"

lemma create_keeps_row:
  assumes "session_row_is row revoked db" "createSession pl draws now wallet chain db = (res, db')"
  shows "session_row_is row revoked db'"
  using assms
  by (auto simp: createSession_def session_row_is_def list_ex_iff split: sum.splits prod.splits if_splits)

lemma revoke_row:
  assumes "session_row_is row revoked db" "sn_revoked_at row = None"
    and ok: "runtimeFromEnvironment (Some cfg) = Inr r"
    and v: "v \<longleftrightarrow> revoked \<or> revokes pl (sn_token_digest row) (RevokeSession dbnow header)"
  shows "session_row_is row v (snd (revokeAuthenticatedSession pl cfg dbnow header db))"
proof (cases "\<exists>t d. cookieValue header = Some t \<and> digestSessionToken pl t = Inr d")
  case True
  then obtain t d where t: "cookieValue header = Some t" "digestSessionToken pl t = Inr d" by blast
  define f where "f = (\<lambda>s :: session_row. if sn_token_digest s = d \<and> sn_revoked_at s = None then s\<lparr>sn_revoked_at := Some dbnow\<rparr> else s)"
  have db': "at_sessions (snd (revokeAuthenticatedSession pl cfg dbnow header db)) = map f (at_sessions db)"
    by (simp add: revokeAuthenticatedSession_def t ok f_def)
  have v': "v \<longleftrightarrow> revoked \<or> d = sn_token_digest row" using v t by auto
  have key: "sn_token_digest (f s) = sn_token_digest s" for s by (simp add: f_def)
  have "if v then sn_revoked_at (f s) \<noteq> None else f s = row"
    if "s \<in> set (at_sessions db)" "sn_token_digest s = sn_token_digest row" for s
    using assms(1,2) that v' by (cases revoked) (auto simp: session_row_is_def f_def)
  moreover have "\<exists>s \<in> set (at_sessions db). sn_token_digest s = sn_token_digest row"
    using assms(1) by (simp add: session_row_is_def)
  ultimately show ?thesis by (simp add: session_row_is_def db' key)
next
  case False
  then have "snd (revokeAuthenticatedSession pl cfg dbnow header db) = db" "v = revoked"
    using v by (auto simp: revokeAuthenticatedSession_def ok bindE_def split: option.splits sum.splits)
  with assms(1) show ?thesis by simp
qed

lemma ops_row:
  assumes "runtimeFromEnvironment (Some cfg) = Inr r" "sn_revoked_at row = None" "session_row_is row revoked db"
  shows "session_row_is row (revoked \<or> list_ex (revokes pl (sn_token_digest row)) ops) (fold (session_step pl cfg) ops db)"
  using assms(3)
proof (induction ops arbitrary: db revoked)
  case (Cons op ops)
  have "session_row_is row (revoked \<or> revokes pl (sn_token_digest row) op) (session_step pl cfg op db)"
  proof (cases op)
    case (CreateSession draws now wallet chain)
    then show ?thesis
      using create_keeps_row [OF Cons.prems, of pl draws now wallet chain] by (simp add: prod_eq_iff)
  next
    case (RevokeSession dbnow header)
    show ?thesis
      unfolding RevokeSession session_step.simps
      by (rule revoke_row [OF Cons.prems assms(2,1)]) simp
  qed
  from Cons.IH [OF this] show ?case by (simp add: disj_assoc)
qed simp

end
