(* ===== verification/Auth_Properties.thy ===== *)
theory Auth_Properties
  imports Auth_Server
begin

text \<open>
  The properties of wallet sign-in: what an accepted sign-in proves, that a nonce is used once, that a
  challenge can be answered, and exactly how long the session it opens can be used.
\<close>

section \<open>What the checks establish\<close>

lemma request_schema_Some:
  "siweRequestSchema url r = Some q \<longleftrightarrow> evmAddressSchema (sq_address r) \<and> chainIdSchema (sq_chainId r)
       \<and> text_between 253 (sq_domain r) \<and> httpUriSchema url (sq_uri r)
       \<and> 8 \<le> length (sq_nonce r) \<and> length (sq_nonce r) \<le> 128
       \<and> nullable (\<lambda>s. length s \<le> 1000) (sq_statement r)
       \<and> nullable (\<lambda>rs. length rs \<le> 32 \<and> list_all (\<lambda>s. url s \<noteq> None) rs) (sq_resources r)
       \<and> nullable (\<lambda>s. 1 \<le> length s \<and> length s \<le> 8192) (sq_message r)
       \<and> nullable signature_ok (sq_signature r) \<and> q = r\<lparr>sq_domain := js_trim (sq_domain r)\<rparr>"
  by (auto simp: siweRequestSchema_def)

lemma parsed_twice:
  "parseEoaSiweAuthenticationRequest url input = Inr q \<Longrightarrow> siweRequestSchema url q = Some q'
    \<Longrightarrow> q = input\<lparr>sq_domain := js_trim (sq_domain input)\<rparr> \<and> q' = q \<and> sq_message q \<noteq> None \<and> sq_signature q \<noteq> None"
  by (auto simp: parseEoaSiweAuthenticationRequest_def request_schema_Some split: option.splits if_splits)

text \<open>A context and request that pass.\<close>

lemma context_valid:
  assumes "validateContext url clock (siweContext r None) = Inr c"
  shows "vc_domain c = js_lower (js_trim (au_rpId r))" "vc_chainId c = au_chainId r" "vc_now c = clock"
    "vc_maxIssuedAtAgeMs c = 300000" "vc_maxFutureSkewMs c = 30000" "vc_maxLifetimeMs c = 900000"
    "\<exists>u v. url (au_appOrigin r) = Some u \<and> http_parts u \<and> vc_uri c = wu_text u \<and> url (wu_text u) = Some v
       \<and> js_lower (wu_host v) = js_lower (js_trim (au_rpId r))"
  using assms
  by (auto simp: validateContext_def siweContext_def policyValue_def host_of_def canonicalHttpUri_def parseHttpUri_def
      split: option.splits if_splits)

lemma request_valid:
  assumes "validateSiweRequestWithContext url clock input e = Inr (q, c)"
  shows "validateContext url clock e = Inr c" "siweRequestSchema url input = Some q"
    "js_lower (sq_domain q) = vc_domain c" "sq_chainId q = vc_chainId c"
    "sq_issuedAt q \<le> vc_now c + vc_maxFutureSkewMs c" "vc_now c - vc_maxIssuedAtAgeMs c \<le> sq_issuedAt q"
    "sq_issuedAt q < sq_expirationTime q" "sq_expirationTime q - sq_issuedAt q \<le> vc_maxLifetimeMs c"
    "vc_now c < sq_expirationTime q"
    "\<exists>u. url (sq_uri q) = Some u \<and> http_parts u \<and> wu_text u = vc_uri c"
  using assms
  by (auto simp: validateSiweRequestWithContext_def canonicalHttpUri_def parseHttpUri_def split: option.splits if_splits)

lemma verify_established:
  assumes "verifySiweRequest url clock verifier consumer input e s = (Inr p, s')"
  shows "\<exists>q c p0 w. validateSiweRequestWithContext url clock input e = Inr (q, c) \<and> verifier q = Some p0
    \<and> w = js_lower (sq_address q) \<and> evmAddressSchema (sq_address q) \<and> js_lower (vp_address p0) = w
    \<and> vp_chainId p0 = sq_chainId q \<and> p = p0\<lparr>vp_address := w\<rparr>
    \<and> consumer \<lparr>ni_domain = vc_domain c, ni_chainId = sq_chainId q, ni_nonce = sq_nonce q, ni_walletAddress = Some w\<rparr> s
        = (Some True, s')"
proof -
  from assms obtain q c where v: "validateSiweRequestWithContext url clock input e = Inr (q, c)"
    by (cases "validateSiweRequestWithContext url clock input e") (auto simp: verifySiweRequest_def)
  from assms v obtain p0 where p0: "verifier q = Some p0"
    by (cases "verifier q") (auto simp: verifySiweRequest_def)
  from assms show ?thesis
    by (auto simp: verifySiweRequest_def v p0 normalizeEvmAddress_def auth_require_def split: if_splits prod.splits option.splits bool.splits)
qed

lemma verifier_Some:
  "eoaSiweVerifier pl q = Some p \<longleftrightarrow> (\<exists>m sig. sq_message q = Some m \<and> sq_signature q = Some sig
     \<and> m = formatSiweMessage q \<and> pl_verifyMessage pl (sq_address q) m sig = Some True
     \<and> p = \<lparr>vp_address = sq_address q, vp_chainId = sq_chainId q, vp_issuedAt = sq_issuedAt q,
            vp_expirationTime = sq_expirationTime q\<rparr>)"
  by (auto simp: eoaSiweVerifier_def split: option.splits)

text \<open>The row that a new session appends.\<close>

definition row_of_session :: "string \<Rightarrow> auth_session \<Rightarrow> session_row" where
  "row_of_session digest s = \<lparr>sn_id = ss_sessionId s, sn_user_id = ss_userId s, sn_token_digest = digest,
     sn_wallet_address = Some (ss_walletAddress s), sn_chain_id = Some (ss_chainId s), sn_issued_at = ss_issuedAt s,
     sn_expires_at = ss_expiresAt s, sn_revoked_at = None\<rparr>"

lemma session_created:
  assumes "createSession pl draws t wallet chain db = (Inr (tok, s), db')"
  shows "tok = sd_token draws" "ss_sessionId s = sd_session_id draws" "evmAddressSchema wallet"
    "ss_walletAddress s = js_lower wallet" "ss_chainId s = chain" "chain \<in> {56, 97}"
    "ss_issuedAt s = t" "ss_expiresAt s = t + 900000" "digestSessionToken pl tok = Inr (pl_sha256 pl tok)"
    "at_sessions db' = at_sessions db @ [row_of_session (pl_sha256 pl tok) s]"
    "\<And>x. x \<in> set (at_sessions db) \<Longrightarrow> sn_token_digest x \<noteq> pl_sha256 pl tok"
    "at_nonces db' = at_nonces db"
  using assms
  by (auto simp: createSession_def normalizeEvmAddress_def digestSessionToken_def row_of_session_def sessionTtlMs_def
      list_ex_iff split: sum.splits prod.splits if_splits)

lemma consumed_row:
  assumes "table_consume pl dbnow i db = (Some True, db')"
  shows "\<exists>row \<in> set (at_nonces db). nonce_matches pl i dbnow row" "at_sessions db' = at_sessions db"
proof -
  from assms have "filter (nonce_matches pl i dbnow) (at_nonces db) \<noteq> []"
    by (auto simp: table_consume_def consume_nonce_def)
  then show "\<exists>row \<in> set (at_nonces db). nonce_matches pl i dbnow row" by (auto simp: filter_empty_conv)
  show "at_sessions db' = at_sessions db" using assms by (auto simp: table_consume_def consume_nonce_def)
qed

text \<open>An accepted sign-in went through all of its parts.\<close>

lemma signed_in:
  assumes "authenticateEoa pl cfg draws now dbnow later input db = (Inr (s, cookie), db')"
  shows "\<exists>q r c db1 tok.
      parseEoaSiweAuthenticationRequest (pl_url pl) input = Inr q
    \<and> walletConnectRuntimeFromEnvironment cfg (sq_chainId q) = Inr r
    \<and> validateSiweRequestWithContext (pl_url pl) now q (siweContext r None) = Inr (q, c)
    \<and> eoaSiweVerifier pl q \<noteq> None
    \<and> table_consume pl dbnow \<lparr>ni_domain = vc_domain c, ni_chainId = sq_chainId q, ni_nonce = sq_nonce q,
        ni_walletAddress = Some (js_lower (sq_address q))\<rparr> db = (Some True, db1)
    \<and> createSession pl draws later (js_lower (sq_address q)) (sq_chainId q) db1 = (Inr (tok, s), db')
    \<and> cookie = cookieHeader tok (ss_expiresAt s) (ss_issuedAt s)"
proof -
  from assms obtain q r where q: "parseEoaSiweAuthenticationRequest (pl_url pl) input = Inr q"
    and r: "walletConnectRuntimeFromEnvironment cfg (sq_chainId q) = Inr r" "sq_chainId q = au_chainId r"
    by (auto simp: authenticateEoa_def split: sum.splits)
  from assms obtain p db1 where v: "verifySiweRequest (pl_url pl) now (eoaSiweVerifier pl) (table_consume pl dbnow) q
      (siweContext r None) db = (Inr p, db1)"
    and s: "\<exists>tok. createSession pl draws later (vp_address p) (vp_chainId p) db1 = (Inr (tok, s), db')
      \<and> cookie = cookieHeader tok (ss_expiresAt s) (ss_issuedAt s)"
    by (auto simp: authenticateEoa_def q r(1) r(2) [symmetric] auth_require_def split: sum.splits prod.splits)
  from verify_established [OF v] obtain q' c p0 where w: "validateSiweRequestWithContext (pl_url pl) now q (siweContext r None) = Inr (q', c)"
    "eoaSiweVerifier pl q' = Some p0" "vp_chainId p0 = sq_chainId q'" "p = p0\<lparr>vp_address := js_lower (sq_address q')\<rparr>"
    "table_consume pl dbnow \<lparr>ni_domain = vc_domain c, ni_chainId = sq_chainId q', ni_nonce = sq_nonce q',
        ni_walletAddress = Some (js_lower (sq_address q'))\<rparr> db = (Some True, db1)" by blast
  have "q' = q" using parsed_twice [OF q request_valid(2) [OF w(1)]] by simp
  with q r w s show ?thesis by auto
qed

section \<open>The cookie of a token\<close>

text \<open>The characters of a base64url token.\<close>

definition token_char :: "char \<Rightarrow> bool" where
  "token_char c \<longleftrightarrow> is_alnum c \<or> c = CHR ''-'' \<or> c = CHR ''_''"

lemma token_char_plain:
  assumes "token_char c"
  shows "c \<noteq> CHR '';''" "c \<noteq> CHR ''%''" "\<not> is_space c"
  using assms by (auto simp: token_char_def is_alnum_def is_digit_def is_space_def code_def)

lemma split_on_none: "c \<notin> set s \<Longrightarrow> split_on c s = [s]"
  by (induction s) auto

lemma decode_plain: "CHR ''%'' \<notin> set s \<Longrightarrow> decodeURIComponent s = Some s"
  by (induction s) auto

lemma split_at: "x \<notin> set s \<Longrightarrow> takeWhile (\<lambda>c. c \<noteq> x) (s @ x # t) = s \<and> dropWhile (\<lambda>c. c \<noteq> x) (s @ x # t) = x # t"
  by (induction s) auto

lemma token_cookie:
  assumes "list_all token_char tok" "tok \<noteq> []" "length tok \<le> 256"
  shows "cookieValue (Some (authCookieName @ ''='' @ tok)) = Some tok"
proof -
  have name: "CHR '';'' \<notin> set authCookieName" "CHR ''='' \<notin> set authCookieName" "js_trim authCookieName = authCookieName"
    by (auto simp: authCookieName_def trimmed_def is_space_def code_def intro!: js_trim_id)
  have trim: "js_trim tok = tok"
    using assms token_char_plain(3) by (intro js_trim_id) (auto simp: trimmed_def list_all_iff)
  have semi: "CHR '';'' \<notin> set (authCookieName @ ''='' @ tok)" "CHR ''%'' \<notin> set tok"
    using assms(1) name(1) token_char_plain(1,2) by (auto simp: list_all_iff)
  have seg: "takeWhile (\<lambda>c. c \<noteq> CHR ''='') (authCookieName @ ''='' @ tok) = authCookieName"
    "dropWhile (\<lambda>c. c \<noteq> CHR ''='') (authCookieName @ ''='' @ tok) = ''='' @ tok"
    using split_at [OF name(2), of tok] by simp_all
  have "cookie_in [authCookieName @ ''='' @ tok] = Some tok"
    using assms(2,3) by (simp add: seg [simplified] name trim decode_plain [OF semi(2)] maxTokenLength_def Let_def)
  then show ?thesis by (simp only: cookieValue_def split_on_none [OF semi(1)] option.case)
qed

section \<open>The life of a session\<close>

lemma session_usable:
  assumes "session_row_is (row_of_session d s) revoked db" "evmAddressSchema (ss_walletAddress s)"
    "js_lower (ss_walletAddress s) = ss_walletAddress s" "ss_chainId s \<in> {56, 97}"
    and tok: "cookieValue header = Some tok" "digestSessionToken pl tok = Inr d"
    and ok: "runtimeFromEnvironment (Some cfg) = Inr r"
  shows "getAuthenticatedSession pl cfg dbnow now header db = Inr
     (if \<not> revoked \<and> dbnow < ss_expiresAt s \<and> now < ss_expiresAt s \<and> (ss_chainId s = 97 \<or> ac_mainnetEnabled cfg) then Some s else None)"
proof -
  let ?row = "row_of_session d s" and ?live = "session_live d dbnow (ac_mainnetEnabled cfg)"
  have live: "?live x \<longleftrightarrow> \<not> revoked \<and> x = ?row \<and> ?live ?row" if "x \<in> set (at_sessions db)" for x
    using assms(1) that by (cases revoked) (auto simp: session_row_is_def session_live_def row_of_session_def)
  have row: "?live ?row \<longleftrightarrow> dbnow < ss_expiresAt s \<and> (ss_chainId s = 97 \<or> ac_mainnetEnabled cfg)"
    using assms(4) by (auto simp: session_live_def row_of_session_def)
  have "find ?live (at_sessions db) = (if \<not> revoked \<and> ?live ?row then Some ?row else None)"
  proof (cases "\<not> revoked \<and> ?live ?row")
    case True
    then have "?row \<in> set (at_sessions db)" using assms(1) by (auto simp: session_row_is_def row_of_session_def)
    with True have "find ?live (at_sessions db) \<noteq> None" by (metis find_None_iff)
    then obtain x where x: "find ?live (at_sessions db) = Some x" by blast
    then have "x \<in> set (at_sessions db)" "?live x" by (auto simp: find_Some_iff)
    with live have "x = ?row" by blast
    with x True show ?thesis by simp
  next
    case False
    with live have "\<not> (\<exists>x. x \<in> set (at_sessions db) \<and> ?live x)" by blast
    then have "find ?live (at_sessions db) = None" by (simp only: find_None_iff) blast
    with False show ?thesis by simp
  qed
  then show ?thesis
    using assms(2-4) by (auto simp: getAuthenticatedSession_def tok ok row normalizeEvmAddress_def) (simp_all add: row_of_session_def)
qed

section \<open>Answering a challenge\<close>

text \<open>The application URL parses, and its host, port included, is the domain of the sign-in messages.\<close>

definition reachable_origin :: "web_url_parser \<Rightarrow> auth_runtime \<Rightarrow> bool" where
  "reachable_origin url r \<longleftrightarrow> text_between 253 (au_rpId r) \<and> js_trim (au_rpId r) = au_rpId r \<and> js_lower (au_rpId r) = au_rpId r
     \<and> (\<exists>u v. url (au_appOrigin r) = Some u \<and> http_parts u \<and> url (wu_text u) = Some v \<and> js_lower (wu_host v) = au_rpId r)"

lemma issued_nonce:
  assumes "issue_nonce pl now draws i rows = (Inr (n, e), rows')" "distinct (map nr_nonce_digest rows)"
    and "ni_nonce j = n" "ni_domain j = ni_domain i" "ni_chainId j = ni_chainId i" "ni_walletAddress j = ni_walletAddress i"
    and "dbnow < now + 60000"
  shows "\<exists>rows''. consume_nonce pl dbnow j rows' = (True, rows'')"
proof -
  have j: "i\<lparr>ni_nonce := n\<rparr> = j" using assms(3-6) by simp
  have attempt: "\<not> list_ex (\<lambda>r. nr_nonce_digest r = nonceDigest pl j) rows
      \<and> rows' = rows @ [\<lparr>nr_domain = ni_domain i, nr_chain_id = ni_chainId i, nr_nonce_digest = nonceDigest pl j,
        nr_expires_at = now + challengeTtlMs, nr_consumed_at = None\<rparr>]"
    if "issue_attempts pl i (now + challengeTtlMs) ns rows = (Inr n, rows')" for ns
    using that by (induction ns) (auto simp: Let_def j split: if_splits)
  from assms(1) attempt have a: "\<not> list_ex (\<lambda>r. nr_nonce_digest r = nonceDigest pl j) rows"
    and r: "rows' = rows @ [\<lparr>nr_domain = ni_domain i, nr_chain_id = ni_chainId i, nr_nonce_digest = nonceDigest pl j,
        nr_expires_at = now + challengeTtlMs, nr_consumed_at = None\<rparr>]"
    by (auto simp: issue_nonce_def split: prod.splits simp del: issue_attempts.simps)
  have "filter (nonce_matches pl j dbnow) rows = []"
    using a by (auto simp: filter_empty_conv nonce_matches_def list_ex_iff)
  then show ?thesis using assms(4,5,7) by (simp add: consume_nonce_def r nonce_matches_def challengeTtlMs_def)
qed

lemma message_ignores_proof: "formatSiweMessage (q\<lparr>sq_message := m, sq_signature := sig\<rparr>) = formatSiweMessage q"
  by (simp add: formatSiweMessage_def cong: option.case_cong)

lemma challenge_answered:
  assumes ch: "createEoaSiweChallenge pl cfg draws3 now address chain db = (Inr ch, db1)"
    and r: "walletConnectRuntimeFromEnvironment cfg chain = Inr r" "reachable_origin (pl_url pl) r"
    and distinct: "distinct (map nr_nonce_digest (at_nonces db))"
    and sizes: "8 \<le> length (sq_nonce (cl_request ch))" "length (sq_nonce (cl_request ch)) \<le> 128" "length (cl_text ch) \<le> 8192"
    and signed: "signature_ok sig" "pl_verifyMessage pl (sq_address (cl_request ch)) (cl_text ch) sig = Some True"
    and times: "now \<le> clock" "clock < now + 300000" "dbnow < now + 60000"
    and token: "digestSessionToken pl (sd_token draws) = Inr d"
    and fresh: "\<And>x. x \<in> set (at_sessions db) \<Longrightarrow> sn_token_digest x \<noteq> d \<and> sn_id x \<noteq> sd_session_id draws"
  shows "\<exists>s cookie db2 db0. authenticateEoa pl cfg draws clock dbnow later
     ((cl_request ch)\<lparr>sq_message := Some (cl_text ch), sq_signature := Some sig\<rparr>) db1 = (Inr (s, cookie), db2)
    \<and> createSession pl draws later (js_lower address) chain db0 = (Inr (sd_token draws, s), db2)"
proof -
  from ch r(1) obtain nonce e rows where chain: "evmAddressSchema address" "chain \<in> {56, 97}" "chain = au_chainId r"
    and n: "issue_nonce pl now draws3 \<lparr>ni_domain = au_rpId r, ni_chainId = au_chainId r, ni_nonce = [],
                  ni_walletAddress = Some (js_lower address)\<rparr> (at_nonces db) = (Inr (nonce, e), rows)"
    and q: "cl_request ch = \<lparr>sq_address = js_lower address, sq_chainId = au_chainId r, sq_domain = au_rpId r, sq_uri = au_appOrigin r,
                      sq_nonce = nonce, sq_issuedAt = now, sq_expirationTime = now + sessionTtlMs, sq_notBefore = None,
                      sq_statement = Some ''Sign in to BNBEra commerce.'', sq_resources = None, sq_message = None,
                      sq_signature = None\<rparr>"
    and message: "cl_text ch = formatSiweMessage (cl_request ch)" and db1: "db1 = db\<lparr>at_nonces := rows\<rparr>"
    by (auto simp: createEoaSiweChallenge_def auth_require_def Let_def split: sum.splits prod.splits if_splits)
  let ?q = "(cl_request ch)\<lparr>sq_message := Some (cl_text ch), sq_signature := Some sig\<rparr>"
  from r(2) obtain u v where url: "pl_url pl (au_appOrigin r) = Some u" "http_parts u" "pl_url pl (wu_text u) = Some v"
    "js_lower (wu_host v) = au_rpId r" and rp: "text_between 253 (au_rpId r)" "js_trim (au_rpId r) = au_rpId r" "js_lower (au_rpId r) = au_rpId r"
    by (auto simp: reachable_origin_def)
  have nonempty: "1 \<le> length (cl_text ch)" by (simp add: message formatSiweMessage_def)
  have lower: "evmAddressSchema (js_lower address)" using chain(1) js_lower_hex_prefix by (simp add: evmAddressSchema_def)
  have schema: "siweRequestSchema (pl_url pl) ?q = Some ?q"
    using sizes signed(1) chain url rp lower nonempty
    by (auto simp: request_schema_Some q chainIdSchema_def httpUriSchema_def)
  have c: "\<exists>c. validateSiweRequestWithContext (pl_url pl) clock ?q (siweContext r None) = Inr (?q, c) \<and> vc_domain c = au_rpId r"
    using schema chain url rp times
    by (auto simp: validateSiweRequestWithContext_def validateContext_def siweContext_def policyValue_def host_of_def
        canonicalHttpUri_def parseHttpUri_def httpUriSchema_def chainIdSchema_def q sessionTtlMs_def)
  then obtain c where valid: "validateSiweRequestWithContext (pl_url pl) clock ?q (siweContext r None) = Inr (?q, c)"
    and dom: "vc_domain c = au_rpId r" by blast
  have verdict: "eoaSiweVerifier pl ?q = Some \<lparr>vp_address = js_lower address, vp_chainId = au_chainId r, vp_issuedAt = now,
      vp_expirationTime = now + sessionTtlMs\<rparr>"
    using signed(2) by (simp add: verifier_Some message_ignores_proof message) (simp add: q)
  obtain rows' where used: "consume_nonce pl dbnow \<lparr>ni_domain = au_rpId r, ni_chainId = au_chainId r, ni_nonce = nonce,
                  ni_walletAddress = Some (js_lower address)\<rparr> rows = (True, rows')"
    using issued_nonce [OF n distinct _ _ _ _ times(3), of "\<lparr>ni_domain = au_rpId r, ni_chainId = au_chainId r, ni_nonce = nonce,
                  ni_walletAddress = Some (js_lower address)\<rparr>"] by auto
  have verified: "verifySiweRequest (pl_url pl) clock (eoaSiweVerifier pl) (table_consume pl dbnow) ?q (siweContext r None) db1
      = (Inr \<lparr>vp_address = js_lower address, vp_chainId = au_chainId r, vp_issuedAt = now, vp_expirationTime = now + sessionTtlMs\<rparr>,
         db1\<lparr>at_nonces := rows'\<rparr>)"
    unfolding verifySiweRequest_def valid
    using used by (simp add: verdict) (simp add: normalizeEvmAddress_def q lower auth_require_def dom table_consume_def db1)
  have "\<exists>s db2. createSession pl draws later (js_lower address) chain (db1\<lparr>at_nonces := rows'\<rparr>) = (Inr (sd_token draws, s), db2)"
    using fresh chain(2) lower token
    by (auto simp: createSession_def normalizeEvmAddress_def list_ex_iff db1 split: prod.splits)
  moreover have "parseEoaSiweAuthenticationRequest (pl_url pl) ?q = Inr ?q"
    by (simp add: parseEoaSiweAuthenticationRequest_def schema)
  moreover have "sq_chainId ?q = chain" by (simp add: q chain)
  ultimately show ?thesis
    using verified r(1) chain(3) by (auto simp: authenticateEoa_def auth_require_def)
qed

text \<open>A session is usable after its creation, whatever happens to the others.\<close>

lemma created_usable:
  assumes "createSession pl draws t wallet chain db = (Inr (tok, s), db1)"
    and "list_all token_char tok" "runtimeFromEnvironment (Some cfg) = Inr r"
  shows "getAuthenticatedSession pl cfg dbnow now (Some (authCookieName @ ''='' @ tok)) (fold (session_step pl cfg) ops db1) = Inr
     (if \<not> list_ex (revokes pl (pl_sha256 pl tok)) ops \<and> dbnow < t + 900000 \<and> now < t + 900000
         \<and> (chain = 97 \<or> ac_mainnetEnabled cfg) then Some s else None)"
proof -
  note c = session_created [OF assms(1)]
  from c(9) have len: "tok \<noteq> []" "length tok \<le> 256" by (auto simp: digestSessionToken_def maxTokenLength_def split: if_splits)
  have addr: "evmAddressSchema (ss_walletAddress s)" "js_lower (ss_walletAddress s) = ss_walletAddress s"
    using c(3,4) js_lower_hex_prefix by (auto simp: evmAddressSchema_def)
  have "session_row_is (row_of_session (pl_sha256 pl tok) s) False db1"
    using c(10,11) by (auto simp: session_row_is_def row_of_session_def)
  from ops_row [OF assms(3) _ this, of pl ops]
  have "session_row_is (row_of_session (pl_sha256 pl tok) s) (list_ex (revokes pl (pl_sha256 pl tok)) ops)
      (fold (session_step pl cfg) ops db1)" by (simp add: row_of_session_def)
  from session_usable [OF this addr _ token_cookie [OF assms(2) len] c(9) assms(3), of dbnow now] c(5,6,8)
  show ?thesis by simp
qed

section \<open>Sample values\<close>

definition sample_url :: web_url_parser where
  "sample_url s = (if s \<in> {''https://bnb'', ''https://bnb/''} then Some \<lparr>wu_protocol = ''https:'', wu_username = [],
     wu_password = [], wu_hash = [], wu_host = ''bnb'', wu_text = ''https://bnb/''\<rparr> else None)"

definition sample_platform :: auth_platform where
  "sample_platform = \<lparr>pl_url = sample_url, pl_sha256 = rev, pl_verifyMessage = (\<lambda>a m sig. Some True)\<rparr>"

definition sample_configuration :: auth_configuration where
  "sample_configuration = \<lparr>ac_appUrl = Some \<lparr>ap_origin = ''https://bnb'', ap_host = ''bnb'', ap_hostname = ''bnb''\<rparr>,
     ac_siweDomain = ''bnb'', ac_bscChainId = 97, ac_databaseUrl = Some ''db'', ac_mainnetEnabled = False,
     ac_testnetPreview = False, ac_production = False, ac_walletConnectAuth = True\<rparr>"

definition sample_wallet :: string where
  "sample_wallet = ''0x'' @ replicate 40 CHR ''a''"

definition sample_tables :: auth_tables where
  "sample_tables = \<lparr>at_nonces = [], at_users = [], at_wallets = [], at_sessions = []\<rparr>"

definition sample_draws :: session_draws where
  "sample_draws = \<lparr>sd_token = ''token-1'', sd_user_id = ''user-1'', sd_session_id = ''session-1''\<rparr>"

lemma sample_wallet_simps [simp]: "evmAddressSchema sample_wallet" "js_lower sample_wallet = sample_wallet"
  by code_simp+

lemma sample_runtime: "runtimeFromEnvironment (Some sample_configuration) =
    Inr \<lparr>au_appOrigin = ''https://bnb'', au_rpId = ''bnb'', au_chainId = 97\<rparr>"
  by code_simp

section \<open>Properties\<close>

text \<open>C25: A session can be used exactly until it expires or is revoked: after it was created, whatever other sessions are created
  or revoked, a request with its cookie gets this session as long as neither the database nor the server has reached its
  expiry, no request with a token of the same digest has revoked it, and its chain is enabled; otherwise it gets none.\<close>

theorem session_usable_until:
  assumes "createSession pl draws t wallet chain db = (Inr (tok, s), db1)"
    and "list_all token_char tok" "runtimeFromEnvironment (Some cfg) = Inr r"
  shows "getAuthenticatedSession pl cfg dbnow now (Some (authCookieName @ ''='' @ tok)) (fold (session_step pl cfg) ops db1) = Inr
     (if \<not> list_ex (revokes pl (pl_sha256 pl tok)) ops \<and> dbnow < t + 900000 \<and> now < t + 900000
         \<and> (chain = 97 \<or> ac_mainnetEnabled cfg) then Some s else None)"
  using assms by (rule created_usable)

theorem session_usable_until_witness:
  "\<exists>s db1. createSession sample_platform sample_draws 0 sample_wallet 97 sample_tables = (Inr (''token-1'', s), db1)
    \<and> getAuthenticatedSession sample_platform sample_configuration 10 20 (Some (authCookieName @ ''=token-1'')) db1 = Inr (Some s)"
proof -
  obtain s db1 where c: "createSession sample_platform sample_draws 0 sample_wallet 97 sample_tables = (Inr (''token-1'', s), db1)"
    by (simp add: createSession_def normalizeEvmAddress_def digestSessionToken_def sample_draws_def maxTokenLength_def
        sample_tables_def upsert_user_def)
  have tok: "list_all token_char ''token-1''" by code_simp
  from session_usable_until [OF c tok sample_runtime, of 10 20 "[]"] c show ?thesis by simp
qed

text \<open>C26: A nonce is accepted at most once: after the store has accepted it, no request with the same digest is accepted in any
  later state, whatever nonces are issued and consumed at whatever times in between.\<close>

theorem nonce_accepted_once:
  assumes "consume_nonce pl t i rows = (True, rows')" "distinct (map nr_nonce_digest rows)"
    and "nonceDigest pl j = nonceDigest pl i"
  shows "\<not> fst (consume_nonce pl t' j (fold (nonce_step pl) ops rows'))"
  using spent_refused [of pl j] steps_spent [OF consumed_spent [OF assms(1,2)]] assms(3) by metis

definition sample_nonce :: nonce_input where
  "sample_nonce = \<lparr>ni_domain = ''bnb'', ni_chainId = 97, ni_nonce = ''nonce-123'', ni_walletAddress = Some sample_wallet\<rparr>"

definition sample_nonces :: "nonce_row list" where
  "sample_nonces = [\<lparr>nr_domain = ''bnb'', nr_chain_id = 97, nr_nonce_digest = nonceDigest sample_platform sample_nonce,
     nr_expires_at = 100, nr_consumed_at = None\<rparr>]"

theorem nonce_accepted_once_witness:
  "\<exists>rows. consume_nonce sample_platform 10 sample_nonce sample_nonces = (True, rows)
    \<and> \<not> fst (consume_nonce sample_platform 11 sample_nonce rows)"
proof -
  obtain rows where c: "consume_nonce sample_platform 10 sample_nonce sample_nonces = (True, rows)"
    by (simp add: consume_nonce_def sample_nonces_def nonce_matches_def) (simp add: sample_nonce_def)
  from nonce_accepted_once [OF c, of sample_nonce 11 "[]"] c show ?thesis by (simp add: sample_nonces_def)
qed

text \<open>C27: A sign-in that is accepted was signed by the wallet of its session: the request carries a valid signature of that
  address over exactly the message of its fields, names the domain and chain of this application, was issued in the
  last five minutes and has not expired, and its nonce was issued to that wallet by this store, unused and unexpired.\<close>

theorem sign_in_proves_wallet:
  assumes "authenticateEoa pl cfg draws now dbnow later input db = (Inr (s, cookie), db')"
  shows "(\<exists>sig. sq_signature input = Some sig
      \<and> sq_message input = Some (formatSiweMessage (input\<lparr>sq_domain := js_trim (sq_domain input)\<rparr>))
      \<and> pl_verifyMessage pl (sq_address input) (formatSiweMessage (input\<lparr>sq_domain := js_trim (sq_domain input)\<rparr>)) sig = Some True)
    \<and> (\<exists>r. walletConnectRuntimeFromEnvironment cfg (sq_chainId input) = Inr r
         \<and> js_lower (js_trim (sq_domain input)) = js_lower (js_trim (au_rpId r)))
    \<and> sq_issuedAt input \<le> now + 30000 \<and> now \<le> sq_issuedAt input + 300000
    \<and> now < sq_expirationTime input \<and> sq_expirationTime input \<le> sq_issuedAt input + 900000
    \<and> (\<exists>row \<in> set (at_nonces db). nr_chain_id row = sq_chainId input \<and> nr_consumed_at row = None \<and> dbnow < nr_expires_at row
         \<and> nr_nonce_digest row = nonceDigest pl \<lparr>ni_domain = js_lower (js_trim (sq_domain input)), ni_chainId = sq_chainId input,
             ni_nonce = sq_nonce input, ni_walletAddress = Some (js_lower (sq_address input))\<rparr>)
    \<and> ss_walletAddress s = js_lower (sq_address input) \<and> ss_chainId s = sq_chainId input \<and> ss_expiresAt s = later + 900000
    \<and> at_sessions db' = at_sessions db @ [row_of_session (pl_sha256 pl (sd_token draws)) s]"
proof -
  from signed_in [OF assms] obtain q r c db1 tok where
    q: "parseEoaSiweAuthenticationRequest (pl_url pl) input = Inr q"
    and r: "walletConnectRuntimeFromEnvironment cfg (sq_chainId q) = Inr r"
    and v: "validateSiweRequestWithContext (pl_url pl) now q (siweContext r None) = Inr (q, c)"
    and e: "eoaSiweVerifier pl q \<noteq> None"
    and n: "table_consume pl dbnow \<lparr>ni_domain = vc_domain c, ni_chainId = sq_chainId q, ni_nonce = sq_nonce q,
        ni_walletAddress = Some (js_lower (sq_address q))\<rparr> db = (Some True, db1)"
    and s: "createSession pl draws later (js_lower (sq_address q)) (sq_chainId q) db1 = (Inr (tok, s), db')" by blast
  note valid = request_valid [OF v] and audience = context_valid [OF request_valid(1) [OF v]] and session = session_created [OF s]
  have qi: "q = input\<lparr>sq_domain := js_trim (sq_domain input)\<rparr>" using parsed_twice [OF q valid(2)] by simp
  from e obtain p where "eoaSiweVerifier pl q = Some p" by blast
  then have signed: "\<exists>sig. sq_signature q = Some sig \<and> sq_message q = Some (formatSiweMessage q)
      \<and> pl_verifyMessage pl (sq_address q) (formatSiweMessage q) sig = Some True" by (auto simp: verifier_Some)
  from consumed_row [OF n] obtain row where row: "row \<in> set (at_nonces db)"
    "nonce_matches pl \<lparr>ni_domain = vc_domain c, ni_chainId = sq_chainId q, ni_nonce = sq_nonce q,
        ni_walletAddress = Some (js_lower (sq_address q))\<rparr> dbnow row" and same: "at_sessions db1 = at_sessions db" by blast
  have domain: "vc_domain c = js_lower (js_trim (sq_domain input))" using valid(3) by (simp add: qi)
  show ?thesis
  proof (intro conjI)
    show "\<exists>row \<in> set (at_nonces db). nr_chain_id row = sq_chainId input \<and> nr_consumed_at row = None \<and> dbnow < nr_expires_at row
         \<and> nr_nonce_digest row = nonceDigest pl \<lparr>ni_domain = js_lower (js_trim (sq_domain input)), ni_chainId = sq_chainId input,
             ni_nonce = sq_nonce input, ni_walletAddress = Some (js_lower (sq_address input))\<rparr>"
      using row by (auto simp: nonce_matches_def domain qi)
  qed (use signed r valid audience session same in \<open>simp_all add: qi domain\<close>)
qed

text \<open>The sample application issues a challenge, whose request the sample wallet signs.\<close>

definition sample_nonce_draws :: "string \<times> string \<times> string" where
  "sample_nonce_draws = (''nonce-123'', ''nonce-456'', ''nonce-789'')"

definition sample_challenge :: siwe_challenge where
  "sample_challenge = (let q = \<lparr>sq_address = sample_wallet, sq_chainId = 97, sq_domain = ''bnb'', sq_uri = ''https://bnb'',
     sq_nonce = ''nonce-123'', sq_issuedAt = 0, sq_expirationTime = 900000, sq_notBefore = None,
     sq_statement = Some ''Sign in to BNBEra commerce.'', sq_resources = None, sq_message = None, sq_signature = None\<rparr>
   in \<lparr>cl_request = q, cl_expiresAt = 60000, cl_text = formatSiweMessage q\<rparr>)"

definition sample_answer :: siwe_request where
  "sample_answer = (cl_request sample_challenge)\<lparr>sq_message := Some (cl_text sample_challenge), sq_signature := Some ''0x1''\<rparr>"

lemma sample_walletConnect: "walletConnectRuntimeFromEnvironment sample_configuration 97 =
    Inr \<lparr>au_appOrigin = ''https://bnb'', au_rpId = ''bnb'', au_chainId = 97\<rparr>"
  by code_simp

lemma sample_issued: "\<exists>db1. createEoaSiweChallenge sample_platform sample_configuration sample_nonce_draws 0 sample_wallet 97
    sample_tables = (Inr sample_challenge, db1)"
  by (simp add: createEoaSiweChallenge_def auth_require_def sample_walletConnect issue_nonce_def sample_nonce_draws_def
      sample_tables_def Let_def sample_challenge_def sessionTtlMs_def challengeTtlMs_def)

lemma sample_origin: "reachable_origin (pl_url sample_platform) \<lparr>au_appOrigin = ''https://bnb'', au_rpId = ''bnb'', au_chainId = 97\<rparr>"
  by (simp add: reachable_origin_def sample_platform_def sample_url_def http_parts_def) code_simp

lemma sample_dates: "toISOString 0 = ''1970-01-01T00:00:00.000Z''" "toISOString 900000 = ''1970-01-01T00:15:00.000Z''"
    "show_int 97 = ''97''"
  by code_simp+

lemma sample_sizes: "length (cl_text sample_challenge) \<le> 8192" "8 \<le> length (sq_nonce (cl_request sample_challenge))"
    "length (sq_nonce (cl_request sample_challenge)) \<le> 128"
  by (simp_all add: sample_challenge_def Let_def formatSiweMessage_def sample_wallet_def sample_dates)

lemma sample_token: "digestSessionToken sample_platform (sd_token sample_draws) = Inr ''1-nekot''" "signature_ok ''0x1''"
    "list_all token_char (sd_token sample_draws)"
  by code_simp+



theorem sign_in_proves_wallet_witness:
  "\<exists>db1 s cookie db2.
     createEoaSiweChallenge sample_platform sample_configuration sample_nonce_draws 0 sample_wallet 97 sample_tables = (Inr sample_challenge, db1)
   \<and> authenticateEoa sample_platform sample_configuration sample_draws 100 200 300 sample_answer db1 = (Inr (s, cookie), db2)
   \<and> ss_walletAddress s = js_lower (sq_address sample_answer) \<and> ss_expiresAt s = 300 + 900000"
proof -
  obtain db1 where c: "createEoaSiweChallenge sample_platform sample_configuration sample_nonce_draws 0 sample_wallet 97
      sample_tables = (Inr sample_challenge, db1)" using sample_issued by blast
  have v: "pl_verifyMessage sample_platform (sq_address (cl_request sample_challenge)) (cl_text sample_challenge) ''0x1'' = Some True"
    and t: "at_nonces sample_tables = []" "at_sessions sample_tables = []"
    by (simp_all add: sample_platform_def sample_tables_def)
  obtain s cookie db2 where "authenticateEoa sample_platform sample_configuration sample_draws 100 200 300 sample_answer db1
      = (Inr (s, cookie), db2)"
    using challenge_answered [OF c sample_walletConnect sample_origin _ sample_sizes(2,3,1) sample_token(2) v _ _ _ sample_token(1),
        of 100 200 300] by (auto simp: t sample_answer_def)
  with sign_in_proves_wallet [OF this] c show ?thesis by blast
qed

text \<open>An application URL with a port refuses every sign-in: the domain of the sign-in context is the host name without the port, the
  check compares it with the host of the URL, and when the two differ no request is accepted and nothing is stored, although
  the configuration itself was accepted.\<close>

theorem port_refuses_sign_in:
  assumes "walletConnectRuntimeFromEnvironment cfg (sq_chainId input) = Inr r"
    and "pl_url pl (au_appOrigin r) = Some u" "pl_url pl (wu_text u) = Some v"
    and "js_lower (wu_host v) \<noteq> js_lower (js_trim (au_rpId r))"
  shows "\<exists>e. authenticateEoa pl cfg draws now dbnow later input db = (Inl e, db)"
proof -
  have "\<exists>e. validateContext (pl_url pl) clock (siweContext r None) = Inl e" for clock
  proof (rule ccontr)
    assume "\<not> ?thesis"
    then obtain c where "validateContext (pl_url pl) clock (siweContext r None) = Inr c"
      by (cases "validateContext (pl_url pl) clock (siweContext r None)") auto
    from context_valid(7) [OF this] assms(2-4) show False by auto
  qed
  then have "\<exists>e. verifySiweRequest (pl_url pl) now w f q (siweContext r None) db = (Inl e, db)" for w f q
  proof -
    obtain e where "validateContext (pl_url pl) now (siweContext r None) = Inl e"
      using \<open>\<And>clock. \<exists>e. validateContext (pl_url pl) clock (siweContext r None) = Inl e\<close> by blast
    then show ?thesis by (simp add: verifySiweRequest_def validateSiweRequestWithContext_def)
  qed
  moreover have "sq_chainId q = sq_chainId input" if "parseEoaSiweAuthenticationRequest (pl_url pl) input = Inr q" for q
    using that by (auto simp: parseEoaSiweAuthenticationRequest_def request_schema_Some split: option.splits if_splits)
  ultimately show ?thesis
  proof (cases "parseEoaSiweAuthenticationRequest (pl_url pl) input")
    case (Inr q)
    with assms(1) \<open>\<And>q. _ = Inr q \<Longrightarrow> sq_chainId q = _\<close> have r: "walletConnectRuntimeFromEnvironment cfg (sq_chainId q) = Inr r" by simp
    obtain e where "verifySiweRequest (pl_url pl) now (eoaSiweVerifier pl) (table_consume pl dbnow) q (siweContext r None) db = (Inl e, db)"
      using \<open>\<And>w f q. \<exists>e. verifySiweRequest _ _ w f q _ db = _\<close> by blast
    then show ?thesis by (simp add: authenticateEoa_def Inr r auth_require_def)
  qed (simp add: authenticateEoa_def)
qed

definition local_url :: web_url_parser where
  "local_url s = (if s \<in> {''http://bnb:3000'', ''http://bnb:3000/''} then Some \<lparr>wu_protocol = ''http:'', wu_username = [],
     wu_password = [], wu_hash = [], wu_host = ''bnb:3000'', wu_text = ''http://bnb:3000/''\<rparr> else None)"

definition local_configuration :: auth_configuration where
  "local_configuration = sample_configuration\<lparr>ac_appUrl := Some \<lparr>ap_origin = ''http://bnb:3000'', ap_host = ''bnb:3000'',
     ap_hostname = ''bnb''\<rparr>, ac_siweDomain := ''bnb:3000''\<rparr>"

theorem port_refuses_sign_in_witness:
  "\<exists>e. authenticateEoa (sample_platform\<lparr>pl_url := local_url\<rparr>) local_configuration sample_draws 100 200 300
      (sample_answer\<lparr>sq_uri := ''http://bnb:3000''\<rparr>) sample_tables = (Inl e, sample_tables)"
proof -
  have r: "walletConnectRuntimeFromEnvironment local_configuration 97 =
      Inr \<lparr>au_appOrigin = ''http://bnb:3000'', au_rpId = ''bnb'', au_chainId = 97\<rparr>" by code_simp
  have "js_lower ''bnb:3000'' \<noteq> js_lower (js_trim ''bnb'')" by code_simp
  then show ?thesis
    by (intro port_refuses_sign_in [where r = "\<lparr>au_appOrigin = ''http://bnb:3000'', au_rpId = ''bnb'', au_chainId = 97\<rparr>"
          and u = "the (local_url ''http://bnb:3000'')" and v = "the (local_url ''http://bnb:3000'')"])
      (simp_all add: sample_answer_def sample_challenge_def Let_def r local_url_def)
qed

end
