(* ===== verification/Market_Types.thy ===== *)
theory Market_Types
  imports Domain_Model Commerce_Types
begin

text \<open>
  packages/marketplace/src/types.ts: the listings that the marketplace reads, the search request, and their schemas;
  and the \<open>Date.parse\<close> of the time stamps these schemas accept.

  A listing has the fields that the read model looks at. What it only passes through (the owner, the agent's
  URL, metrics, evidence links and the URLs of services) is left out, with the part of the schema
  that checks it. Amounts are the decimal texts of the code, time stamps its ISO 8601 texts.
\<close>

section \<open>Time stamps\<close>

text \<open>The number of the day of a civil date, day 0 being 1970-01-01; a day past the end of its month runs on.\<close>

definition days_of_civil :: "int \<Rightarrow> int \<Rightarrow> int \<Rightarrow> int" where
  "days_of_civil year m d = (let y = (if m \<le> 2 then year - 1 else year); era = y div 400; yoe = y mod 400;
     doy = (153 * (if m > 2 then m - 3 else m + 9) + 2) div 5 + d - 1;
     doe = yoe * 365 + yoe div 4 - yoe div 100 + doy
   in era * 146097 + doe - 719468)"

text \<open>The number of the first \<open>n\<close> characters, which must be digits, and the rest.\<close>

definition digits :: "nat \<Rightarrow> string \<Rightarrow> (int \<times> string) option" where
  "digits n s = (if n \<le> length s \<and> list_all is_digit (take n s) then Some (int (dec_val (take n s)), drop n s) else None)"

definition field :: "string \<Rightarrow> nat \<Rightarrow> int \<Rightarrow> int \<Rightarrow> string \<Rightarrow> (int \<times> string) option" where
  "field sep n lo hi s = (if take (length sep) s \<noteq> sep then None else
     case digits n (drop (length sep) s) of None \<Rightarrow> None | Some (v, r) \<Rightarrow> if lo \<le> v \<and> v \<le> hi then Some (v, r) else None)"

text \<open>The milliseconds of the fraction: its first three digits.\<close>

definition fraction :: "string \<Rightarrow> (int \<times> string) option" where
  "fraction s = (if take 1 s \<noteq> ''.'' then Some (0, s) else
     let ds = takeWhile is_digit (drop 1 s) in
     if ds = [] then None else Some (int (dec_val (take 3 (ds @ ''00''))), dropWhile is_digit (drop 1 s)))"

text \<open>The offset of the zone in minutes.\<close>

definition zone :: "string \<Rightarrow> int option" where
  "zone s = (if s = ''Z'' then Some 0 else
     case field [] 2 0 23 (drop 1 s) of None \<Rightarrow> None | Some (h, r) \<Rightarrow>
     case field (if take 1 r = '':'' then '':'' else []) 2 0 59 r of None \<Rightarrow> None | Some (m, r') \<Rightarrow>
     if r' \<noteq> [] then None
     else if take 1 s = ''+'' then Some (60 * h + m) else if take 1 s = ''-'' then Some (- (60 * h + m)) else None)"

definition date_parse :: "string \<Rightarrow> int option" where
  "date_parse s =
     (case field [] 4 0 9999 s of None \<Rightarrow> None | Some (y, s) \<Rightarrow>
      case field ''-'' 2 1 12 s of None \<Rightarrow> None | Some (mo, s) \<Rightarrow>
      case field ''-'' 2 1 31 s of None \<Rightarrow> None | Some (d, s) \<Rightarrow>
      case field ''T'' 2 0 23 s of None \<Rightarrow> None | Some (h, s) \<Rightarrow>
      case field '':'' 2 0 59 s of None \<Rightarrow> None | Some (mi, s) \<Rightarrow>
      case field '':'' 2 0 59 s of None \<Rightarrow> None | Some (sec, s) \<Rightarrow>
      case fraction s of None \<Rightarrow> None | Some (ms, s) \<Rightarrow>
      case zone s of None \<Rightarrow> None | Some off \<Rightarrow>
      Some ((((days_of_civil y mo d * 24 + h) * 60 + mi - off) * 60 + sec) * 1000 + ms))"

definition isoDateSchema :: "string \<Rightarrow> bool" where
  "isoDateSchema s \<longleftrightarrow> date_parse s \<noteq> None"

section \<open>Listings\<close>

datatype agent_category = Rebalancing | GridTrading | YieldOptimisation | HealthFactor | Uncategorized

fun category_text :: "agent_category \<Rightarrow> string" where
  "category_text Rebalancing = ''rebalancing''"
| "category_text GridTrading = ''grid-trading''"
| "category_text YieldOptimisation = ''yield-optimisation''"
| "category_text HealthFactor = ''health-factor''"
| "category_text Uncategorized = ''uncategorized''"

datatype service_kind = A2a | Mcp | X402 | Mpp | Readiness | Adapter

fun kind_text :: "service_kind \<Rightarrow> string" where
  "kind_text A2a = ''a2a''"
| "kind_text Mcp = ''mcp''"
| "kind_text X402 = ''x402''"
| "kind_text Mpp = ''mpp''"
| "kind_text Readiness = ''readiness''"
| "kind_text Adapter = ''adapter''"

record advertised_service =
  sv_kind :: service_kind
  sv_protocolVersion :: string

record capability =
  cb_id :: string
  cb_description :: string
  cb_requiredProtocols :: "string list"
  cb_allowedActions :: "string list"

record skill_evidence =
  sk_id :: string
  sk_name :: string
  sk_description :: string
  sk_tags :: "string list option"
  sk_keywords :: "string list option"

datatype endpoint_status = EndpointHealthy | EndpointUnhealthy | EndpointUnknown

record listing_health =
  hl_endpointStatus :: endpoint_status
  hl_observedAt :: "string option"

datatype freshness_status = Fresh | Stale | FreshnessUnknown

record listing_freshness =
  fs_status :: freshness_status
  fs_observedAt :: "string option"
  fs_maxAgeSeconds :: "int option"

datatype pricing_model = FreePrice | FixedPrice | RangePrice | QuotePrice | UnavailablePrice

record listing_pricing =
  lp_model :: pricing_model
  lp_network :: int
  lp_minAtomic :: "string option"
  lp_maxAtomic :: "string option"

datatype wallet_provider = AltanaWallet | ExternalWallet | UnknownWallet

record listing_authority =
  la_walletProvider :: wallet_provider
  la_executionWallet :: "string option"
  la_expiresAt :: "string option"
  la_spendLimitAtomic :: "string option"
  la_allowlistedContracts :: "string list"
  la_allowlistedSelectors :: "string list"

datatype evidence_status = EvidenceVerified | EvidenceUnavailable | EvidenceUnknown

record execution_evidence =
  xe_status :: evidence_status
  xe_lastVerifiedAt :: "string option"
  xe_reference :: "string option"

datatype activation_method = Erc8183Method | X402B402Method | ManualMethod | NoMethod

record activation_offer =
  ao_advertised :: bool
  ao_method :: activation_method
  ao_label :: string
  ao_erc8183 :: bool

datatype source_kind = IngestionSource | FixtureSource

datatype read_consistency = FinalizedRead | ProvisionalRead

record listing_provenance =
  lv_sourceKind :: source_kind
  lv_fixture :: "string option"
  lv_observedBlock :: "int option"
  lv_observedBlockHash :: "string option"
  lv_readConsistency :: "read_consistency option"

record market_listing =
  li_identityKey :: string
  li_identity :: erc8004_identity
  li_state :: agent_state_axes
  li_slug :: string
  li_name :: string
  li_description :: string
  li_category :: agent_category
  li_applicableCategories :: "agent_category list option"
  li_services :: "advertised_service list"
  li_capabilities :: "capability list"
  li_supportedProtocols :: "string list"
  li_pricing :: listing_pricing
  li_health :: listing_health
  li_dataFreshness :: listing_freshness
  li_authority :: listing_authority
  li_executionEvidence :: execution_evidence
  li_activationOffer :: activation_offer
  li_serviceEvidence :: "skill_evidence list list option"
  li_provenance :: listing_provenance
  li_fixture :: "string option"

text \<open>The optional fields of the request are \<open>None\<close>; defaults are filled in by its schema.\<close>

record search_request =
  rq_query :: string
  rq_category :: "agent_category option"
  rq_chainId :: "int option"
  rq_requiredProtocols :: "string list"
  rq_maxPriceAtomic :: "string option"
  rq_requireAuthority :: bool
  rq_requestedAmountAtomic :: "string option"
  rq_requiredContract :: "string option"
  rq_requiredSelector :: "string option"
  rq_requireFreshData :: bool

section \<open>Schemas\<close>

definition protocols_ok :: "nat \<Rightarrow> string list \<Rightarrow> bool" where
  "protocols_ok n ps \<longleftrightarrow> length ps \<le> n \<and> list_all (text_between 128) ps"

definition selectorSchema :: "string \<Rightarrow> bool" where
  "selectorSchema s \<longleftrightarrow> hex_with_prefix 8 s"

definition marketplaceSearchRequestSchema :: "search_request \<Rightarrow> search_request option" where
  "marketplaceSearchRequestSchema r = (if length (js_trim (rq_query r)) \<le> 200 \<and> nullable chainIdSchema (rq_chainId r)
       \<and> protocols_ok 32 (rq_requiredProtocols r) \<and> nullable is_decimal (rq_maxPriceAtomic r)
       \<and> nullable is_decimal (rq_requestedAmountAtomic r) \<and> nullable evmAddressSchema (rq_requiredContract r)
       \<and> nullable selectorSchema (rq_requiredSelector r)
     then Some (r\<lparr>rq_query := js_trim (rq_query r), rq_requiredProtocols := map js_trim (rq_requiredProtocols r)\<rparr>)
     else None)"

text \<open>\<open>^[a-z0-9]+(?:-[a-z0-9]+)*$\<close>, read from the left; the flag says that a letter or digit came last.\<close>

definition slug_char :: "char \<Rightarrow> bool" where
  "slug_char c \<longleftrightarrow> is_digit c \<or> 97 \<le> code c \<and> code c \<le> 122"

fun slug_from :: "bool \<Rightarrow> string \<Rightarrow> bool" where
  "slug_from b [] = b"
| "slug_from b (c # cs) = (if slug_char c then slug_from True cs else c = CHR ''-'' \<and> b \<and> slug_from False cs)"

definition slugSchema :: "string \<Rightarrow> bool" where
  "slugSchema s \<longleftrightarrow> text_between 160 s \<and> slug_from False (js_trim s)"

definition fixtureMetadataSchema :: "string \<Rightarrow> bool" where
  "fixtureMetadataSchema label \<longleftrightarrow> text_between 240 label
     \<and> list_ex (\<lambda>i. js_lower (take 7 (drop i (js_trim label))) = ''fixture'') [0..<length (js_trim label)]"

definition marketplacePricingSchema :: "listing_pricing \<Rightarrow> bool" where
  "marketplacePricingSchema p \<longleftrightarrow> chainIdSchema (lp_network p) \<and> nullable is_decimal (lp_minAtomic p) \<and> nullable is_decimal (lp_maxAtomic p)
     \<and> (case (lp_minAtomic p, lp_maxAtomic p) of (Some a, Some b) \<Rightarrow> dec_val a \<le> dec_val b | _ \<Rightarrow> True)
     \<and> (if lp_model p \<in> {FreePrice, UnavailablePrice} then lp_minAtomic p = None \<and> lp_maxAtomic p = None else True)
     \<and> (if lp_model p \<in> {FixedPrice, RangePrice} then lp_minAtomic p \<noteq> None \<and> lp_maxAtomic p \<noteq> None else True)"

definition marketplaceFreshnessSchema :: "listing_freshness \<Rightarrow> bool" where
  "marketplaceFreshnessSchema f \<longleftrightarrow> nullable isoDateSchema (fs_observedAt f) \<and> nullable (\<lambda>n. 0 < n) (fs_maxAgeSeconds f)
     \<and> \<not> (fs_status f = Fresh \<and> fs_observedAt f = None)"

definition marketplaceAuthoritySchema :: "listing_authority \<Rightarrow> bool" where
  "marketplaceAuthoritySchema a \<longleftrightarrow> nullable evmAddressSchema (la_executionWallet a) \<and> nullable isoDateSchema (la_expiresAt a)
     \<and> nullable is_decimal (la_spendLimitAtomic a)
     \<and> length (la_allowlistedContracts a) \<le> 128 \<and> list_all evmAddressSchema (la_allowlistedContracts a)
     \<and> length (la_allowlistedSelectors a) \<le> 256 \<and> list_all selectorSchema (la_allowlistedSelectors a)"

definition marketplaceExecutionEvidenceSchema :: "execution_evidence \<Rightarrow> bool" where
  "marketplaceExecutionEvidenceSchema e \<longleftrightarrow> nullable isoDateSchema (xe_lastVerifiedAt e) \<and> nullable (text_between 500) (xe_reference e)
     \<and> \<not> (xe_status e = EvidenceVerified \<and> (xe_lastVerifiedAt e = None \<or> xe_reference e = None))"

definition marketplaceActivationOfferSchema :: "activation_offer \<Rightarrow> bool" where
  "marketplaceActivationOfferSchema a \<longleftrightarrow> text_between 200 (ao_label a)
     \<and> \<not> (ao_advertised a \<and> ao_method a = NoMethod) \<and> \<not> (\<not> ao_advertised a \<and> ao_method a \<noteq> NoMethod)
     \<and> \<not> (ao_erc8183 a \<and> (\<not> ao_advertised a \<or> ao_method a \<noteq> Erc8183Method))"

definition marketplaceProvenanceSchema :: "listing_provenance \<Rightarrow> bool" where
  "marketplaceProvenanceSchema p \<longleftrightarrow> nullable fixtureMetadataSchema (lv_fixture p)
     \<and> nullable (\<lambda>n. 0 \<le> n) (lv_observedBlock p) \<and> nullable transactionHashSchema (lv_observedBlockHash p)
     \<and> (lv_observedBlock p = None) = (lv_observedBlockHash p = None)
     \<and> (lv_observedBlock p = None) = (lv_readConsistency p = None)
     \<and> \<not> (lv_sourceKind p = FixtureSource \<and> lv_fixture p = None)
     \<and> \<not> (lv_sourceKind p = IngestionSource \<and> lv_fixture p \<noteq> None)"

definition skillSchema :: "skill_evidence \<Rightarrow> bool" where
  "skillSchema s \<longleftrightarrow> text_between 160 (sk_id s) \<and> text_between 160 (sk_name s) \<and> text_between 2000 (sk_description s)
     \<and> nullable (protocols_ok 32) (sk_tags s) \<and> nullable (protocols_ok 32) (sk_keywords s)"

definition skill_trimmed :: "skill_evidence \<Rightarrow> skill_evidence" where
  "skill_trimmed s = \<lparr>sk_id = js_trim (sk_id s), sk_name = js_trim (sk_name s), sk_description = js_trim (sk_description s),
     sk_tags = map_option (map js_trim) (sk_tags s), sk_keywords = map_option (map js_trim) (sk_keywords s)\<rparr>"

definition capabilitySchema :: "capability \<Rightarrow> bool" where
  "capabilitySchema c \<longleftrightarrow> text_between 160 (cb_id c) \<and> text_between 2000 (cb_description c)
     \<and> protocols_ok 32 (cb_requiredProtocols c) \<and> length (cb_allowedActions c) \<le> 64 \<and> list_all (text_between 160) (cb_allowedActions c)"

definition capability_trimmed :: "capability \<Rightarrow> capability" where
  "capability_trimmed c = \<lparr>cb_id = js_trim (cb_id c), cb_description = js_trim (cb_description c),
     cb_requiredProtocols = map js_trim (cb_requiredProtocols c), cb_allowedActions = map js_trim (cb_allowedActions c)\<rparr>"

definition marketplaceListingInputSchema :: "market_listing \<Rightarrow> schema_error + market_listing" where
  "marketplaceListingInputSchema l = (case erc8004IdentitySchema (li_identity l) of Inl e \<Rightarrow> Inl e | Inr identity \<Rightarrow>
     if text_between 400 (li_identityKey l) \<and> slugSchema (li_slug l) \<and> text_between 160 (li_name l) \<and> text_between 2000 (li_description l)
       \<and> nullable (\<lambda>cs. length cs \<le> 4) (li_applicableCategories l)
       \<and> length (li_services l) \<le> 128 \<and> list_all (\<lambda>s. text_between 128 (sv_protocolVersion s)) (li_services l)
       \<and> 1 \<le> length (li_capabilities l) \<and> length (li_capabilities l) \<le> 128 \<and> list_all capabilitySchema (li_capabilities l)
       \<and> protocols_ok 64 (li_supportedProtocols l) \<and> marketplacePricingSchema (li_pricing l)
       \<and> nullable isoDateSchema (hl_observedAt (li_health l)) \<and> marketplaceFreshnessSchema (li_dataFreshness l)
       \<and> marketplaceAuthoritySchema (li_authority l) \<and> marketplaceExecutionEvidenceSchema (li_executionEvidence l)
       \<and> marketplaceActivationOfferSchema (li_activationOffer l)
       \<and> nullable (\<lambda>es. length es \<le> 128 \<and> list_all (\<lambda>ss. length ss \<le> 32 \<and> list_all skillSchema ss) es) (li_serviceEvidence l)
       \<and> marketplaceProvenanceSchema (li_provenance l) \<and> nullable fixtureMetadataSchema (li_fixture l)
     then Inr (l\<lparr>li_identityKey := js_trim (li_identityKey l), li_identity := identity, li_slug := js_trim (li_slug l),
         li_name := js_trim (li_name l), li_description := js_trim (li_description l),
         li_services := map (\<lambda>s. s\<lparr>sv_protocolVersion := js_trim (sv_protocolVersion s)\<rparr>) (li_services l),
         li_capabilities := map capability_trimmed (li_capabilities l),
         li_supportedProtocols := map js_trim (li_supportedProtocols l),
         li_executionEvidence := (li_executionEvidence l)\<lparr>xe_reference := map_option js_trim (xe_reference (li_executionEvidence l))\<rparr>,
         li_activationOffer := (li_activationOffer l)\<lparr>ao_label := js_trim (ao_label (li_activationOffer l))\<rparr>,
         li_serviceEvidence := map_option (map (map skill_trimmed)) (li_serviceEvidence l),
         li_provenance := (li_provenance l)\<lparr>lv_fixture := map_option js_trim (lv_fixture (li_provenance l))\<rparr>,
         li_fixture := map_option js_trim (li_fixture l)\<rparr>)
     else Inl SchemaError)"

text \<open>The cross-checks after the schema; the thrown errors are not told apart.\<close>

definition parseMarketplaceListing :: "market_listing \<Rightarrow> schema_error + market_listing" where
  "parseMarketplaceListing input =
     bindE (marketplaceListingInputSchema input) (\<lambda>l.
     bindE (erc8004IdentityKey (li_identity l)) (\<lambda>key.
     if li_identityKey l \<noteq> key then Inl SchemaError
     else if lp_network (li_pricing l) \<noteq> id_chainId (li_identity l) then Inl SchemaError
     else if lv_sourceKind (li_provenance l) = FixtureSource
       then (if lv_fixture (li_provenance l) = None \<or> li_fixture l = None \<or> lv_fixture (li_provenance l) \<noteq> li_fixture l
             then Inl SchemaError
             else Inr (l\<lparr>li_serviceEvidence := Some (case li_serviceEvidence l of None \<Rightarrow> [] | Some es \<Rightarrow> es)\<rparr>))
     else if lv_fixture (li_provenance l) \<noteq> None \<or> li_fixture l \<noteq> None then Inl SchemaError
     else Inr (l\<lparr>li_serviceEvidence := Some (case li_serviceEvidence l of None \<Rightarrow> [] | Some es \<Rightarrow> es)\<rparr>)))"

end
