(* ===== verification/Market_Eligibility.thy ===== *)
theory Market_Eligibility
  imports Complex_Main Market_Types
begin

text \<open>
  packages/marketplace/src/eligibility.ts: which listings a search request admits, for which reasons the others are
  excluded, and the score of an admitted one.

  The quotients of the coverage are exact rationals. In the code they are doubles, which differ from these in their last
  bit; a score is only computed when both coverages are 1, where they agree.
\<close>

section \<open>Text search\<close>

text \<open>The maximal runs of \<open>[a-z0-9]\<close>; the first argument is the run being read.\<close>

fun runs :: "string \<Rightarrow> string \<Rightarrow> string list" where
  "runs cur [] = (if cur = [] then [] else [cur])"
| "runs cur (c # cs) = (if slug_char c then runs (cur @ [c]) cs
     else (if cur = [] then [] else [cur]) @ runs [] cs)"

definition uniqueTokens :: "string \<Rightarrow> string list" where
  "uniqueTokens v = rev (remdups (rev (runs [] (js_lower v))))"

definition collectProtocolNames :: "market_listing \<Rightarrow> string list" where
  "collectProtocolNames l = map js_lower (li_supportedProtocols l)
     @ concat (map (\<lambda>c. map js_lower (cb_requiredProtocols c)) (li_capabilities l))
     @ concat (map (\<lambda>s. [js_lower (kind_text (sv_kind s)), js_lower (sv_protocolVersion s)]) (li_services l))"

definition protocolMatches :: "string \<Rightarrow> string \<Rightarrow> bool" where
  "protocolMatches required candidate = (let expected = js_lower (js_trim required); actual = js_lower (js_trim candidate) in
     expected = actual \<or> take (length expected + 1) actual = expected @ ''-'')"

definition skill_text :: "skill_evidence \<Rightarrow> string list" where
  "skill_text s = [sk_id s, sk_name s, sk_description s]
     @ (case sk_tags s of None \<Rightarrow> [] | Some ts \<Rightarrow> ts) @ (case sk_keywords s of None \<Rightarrow> [] | Some ks \<Rightarrow> ks)"

definition searchableText :: "market_listing \<Rightarrow> string" where
  "searchableText l = join_with '' '' ([li_name l, li_slug l, li_description l, category_text (li_category l)]
     @ (case li_applicableCategories l of None \<Rightarrow> [] | Some cs \<Rightarrow> map category_text cs)
     @ li_supportedProtocols l
     @ concat (map (\<lambda>s. [kind_text (sv_kind s), sv_protocolVersion s]) (li_services l))
     @ concat (map (\<lambda>c. [cb_id c, cb_description c] @ cb_requiredProtocols c @ cb_allowedActions c) (li_capabilities l))
     @ (case li_serviceEvidence l of None \<Rightarrow> [] | Some es \<Rightarrow> concat (map (\<lambda>ss. concat (map skill_text ss)) es)))"

section \<open>Reasons\<close>

datatype reason_code = WRONG_CHAIN | WRONG_CATEGORY | PROTOCOL_UNSUPPORTED | ENDPOINT_UNHEALTHY | ENDPOINT_UNVERIFIED
  | ENDPOINT_STALE | IDENTITY_UNRESOLVED | AUTHORITY_MISSING | AUTHORITY_EXPIRED | AUTHORITY_REVOKED
  | AMOUNT_EXCEEDS_POLICY | SELECTOR_NOT_ALLOWLISTED | PRICE_EXCEEDS_MAXIMUM | DATA_STALE | CAPABILITY_INCOMPATIBLE
  | LISTING_NOT_PUBLISHED | VERIFICATION_PENDING | VERIFICATION_REJECTED

type_synonym reason = "reason_code \<times> string"

text \<open>The times of a listing: \<open>None\<close> is null or NaN, which the code treats alike.\<close>

definition parsed_at :: "string option \<Rightarrow> int option" where
  "parsed_at t = Option.bind t date_parse"

definition health_stale :: "market_listing \<Rightarrow> int \<Rightarrow> bool" where
  "health_stale l now = (case parsed_at (hl_observedAt (li_health l)) of None \<Rightarrow> False | Some t \<Rightarrow> 120000 < now - t)"

definition hasFreshData :: "market_listing \<Rightarrow> int \<Rightarrow> bool" where
  "hasFreshData l now = (let f = li_dataFreshness l in
     fs_status f = Fresh \<and> (case parsed_at (fs_observedAt f) of None \<Rightarrow> False | Some t \<Rightarrow>
       (case fs_maxAgeSeconds f of None \<Rightarrow> True | Some a \<Rightarrow> now - t \<le> a * 1000)))"

definition authorityRequired :: "search_request \<Rightarrow> bool" where
  "authorityRequired r \<longleftrightarrow> rq_requireAuthority r \<or> rq_requestedAmountAtomic r \<noteq> None \<or> rq_requiredContract r \<noteq> None
     \<or> rq_requiredSelector r \<noteq> None"

definition authority_expired :: "market_listing \<Rightarrow> int \<Rightarrow> bool" where
  "authority_expired l now \<longleftrightarrow> authorityStatus (li_state l) = AuthorityExpired
     \<or> (case parsed_at (la_expiresAt (li_authority l)) of None \<Rightarrow> False | Some t \<Rightarrow> t \<le> now)"

definition authority_absent :: "market_listing \<Rightarrow> bool" where
  "authority_absent l \<longleftrightarrow> authorityStatus (li_state l) = AuthorityNone \<or> la_executionWallet (li_authority l) = None
     \<or> la_walletProvider (li_authority l) = UnknownWallet"

text \<open>A conditional \<open>addReason\<close>; the list has the reasons so far.\<close>

definition reason_when :: "bool \<Rightarrow> reason_code \<Rightarrow> string \<Rightarrow> reason list" where
  "reason_when b c m = (if b then [(c, m)] else [])"

definition addReason :: "reason list \<Rightarrow> reason \<Rightarrow> reason list" where
  "addReason rs r = (if list_ex (\<lambda>s. fst s = fst r) rs then rs else rs @ [r])"

definition authority_reasons :: "market_listing \<Rightarrow> search_request \<Rightarrow> int \<Rightarrow> reason list" where
  "authority_reasons l r now =
     (if authority_expired l now then [(AUTHORITY_EXPIRED, ''The execution authority has expired.'')]
      else if authorityStatus (li_state l) = AuthorityRevoked then [(AUTHORITY_REVOKED, ''The execution authority was revoked.'')]
      else reason_when (authority_absent l) AUTHORITY_MISSING
             ''No verifiable execution authority is available for the requested action.'')
   @ (case rq_requestedAmountAtomic r of None \<Rightarrow> [] | Some amount \<Rightarrow>
        (case la_spendLimitAtomic (li_authority l) of
           Some limit \<Rightarrow> reason_when (dec_val limit < dec_val amount) AMOUNT_EXCEEDS_POLICY
             ''The requested amount exceeds the advertised authority spend limit.''
         | None \<Rightarrow> [(AMOUNT_EXCEEDS_POLICY, ''The listing does not expose a verified spend limit for this request.'')]))
   @ (case rq_requiredContract r of None \<Rightarrow> [] | Some target \<Rightarrow>
        reason_when (\<not> list_ex (\<lambda>c. js_lower c = js_lower target) (la_allowlistedContracts (li_authority l)))
          SELECTOR_NOT_ALLOWLISTED ''The requested contract is outside the advertised authority allowlist.'')
   @ (case rq_requiredSelector r of None \<Rightarrow> [] | Some selector \<Rightarrow>
        reason_when (\<not> list_ex (\<lambda>c. js_lower c = js_lower selector) (la_allowlistedSelectors (li_authority l)))
          SELECTOR_NOT_ALLOWLISTED ''The requested selector is outside the advertised authority allowlist.'')"

definition supports :: "market_listing \<Rightarrow> string \<Rightarrow> bool" where
  "supports l protocol = list_ex (protocolMatches protocol) (collectProtocolNames l)"

definition health_reasons :: "market_listing \<Rightarrow> int \<Rightarrow> reason list" where
  "health_reasons l now = (let stale = health_stale l now;
       unhealthy = hl_endpointStatus (li_health l) = EndpointUnhealthy \<and> parsed_at (hl_observedAt (li_health l)) \<noteq> None \<and> \<not> stale
     in if stale \<or> hl_endpointStatus (li_health l) \<noteq> EndpointHealthy \<or> runtimeStatus (li_state l) \<noteq> Live
        then [if stale then (ENDPOINT_STALE, ''The last service observation is stale; current availability is unknown.'')
              else if unhealthy then (ENDPOINT_UNHEALTHY, ''The latest service probe failed.'')
              else (ENDPOINT_UNVERIFIED, ''A current callable service and live runtime have not been verified.'')]
        else [])"

fun listing_status_text :: "listing_status \<Rightarrow> string" where
  "listing_status_text Draft = ''draft''"
| "listing_status_text Published = ''published''"
| "listing_status_text ListingPaused = ''paused''"
| "listing_status_text Suspended = ''suspended''"
| "listing_status_text Delisted = ''delisted''"

text \<open>The reasons in the order in which the code adds them.\<close>

definition reasons_of :: "market_listing \<Rightarrow> search_request \<Rightarrow> int \<Rightarrow> int list \<Rightarrow> reason list" where
  "reasons_of l r now allowed =
     (let chain = id_chainId (li_identity l); network = lp_network (li_pricing l);
          categories = (case li_applicableCategories l of None \<Rightarrow> [] | Some cs \<Rightarrow> cs);
          tokens = uniqueTokens (searchableText l)
      in
     reason_when (chain \<notin> set allowed) WRONG_CHAIN
       (''Chain '' @ show_int chain @ '' is outside the configured read-only BSC marketplace networks.'')
   @ reason_when (rq_chainId r \<noteq> None \<and> rq_chainId r \<noteq> Some chain) WRONG_CHAIN
       (''The listing is on chain '' @ show_int chain @ '', not the requested chain.'')
   @ reason_when (network \<noteq> chain) WRONG_CHAIN
       (''The observed pricing network '' @ show_int network @ '' does not match the identity chain '' @ show_int chain @ ''.'')
   @ (case rq_category r of None \<Rightarrow> [] | Some c \<Rightarrow> reason_when (li_category l \<noteq> c \<and> c \<notin> set categories) WRONG_CATEGORY
       (''The listing categories are '' @ join_with '', '' (map category_text (li_category l # categories)) @ '', not ''
         @ category_text c @ ''.''))
   @ (case find (\<lambda>p. \<not> supports l p) (rq_requiredProtocols r) of None \<Rightarrow> [] | Some p \<Rightarrow>
        [(PROTOCOL_UNSUPPORTED, ''The listing does not advertise required protocol '' @ p @ ''.'')])
   @ health_reasons l now
   @ reason_when (lv_observedBlock (li_provenance l) = None \<or> lv_observedBlockHash (li_provenance l) = None
         \<or> lv_readConsistency (li_provenance l) = None) IDENTITY_UNRESOLVED
       ''The complete ERC-8004 identity has no exact block-read provenance yet.''
   @ (if authorityRequired r then authority_reasons l r now else [])
   @ (case rq_maxPriceAtomic r of None \<Rightarrow> [] | Some m \<Rightarrow> reason_when (lp_model (li_pricing l) \<noteq> FreePrice
         \<and> (case lp_maxAtomic (li_pricing l) of None \<Rightarrow> True | Some p \<Rightarrow> dec_val m < dec_val p)) PRICE_EXCEEDS_MAXIMUM
       ''The listing has no verified price within the requested maximum.'')
   @ reason_when (rq_requireFreshData r \<and> \<not> hasFreshData l now) DATA_STALE
       ''The listing's required data is stale or has no freshness observation.''
   @ (case find (\<lambda>t. t \<notin> set tokens) (uniqueTokens (rq_query r)) of None \<Rightarrow> [] | Some t \<Rightarrow>
        [(CAPABILITY_INCOMPATIBLE, ''The listing does not match search term '' @ t @ ''.'')])
   @ reason_when (listingStatus (li_state l) \<noteq> Published) LISTING_NOT_PUBLISHED
       (''The listing state is '' @ listing_status_text (listingStatus (li_state l)) @ ''.'')
   @ (case verificationStatus (li_state l) of
        VerificationPending \<Rightarrow> [(VERIFICATION_PENDING, ''The listing verification is still pending.'')]
      | VerificationRejected \<Rightarrow> [(VERIFICATION_REJECTED, ''The listing verification was rejected.'')]
      | _ \<Rightarrow> []))"

section \<open>Score\<close>

record score_components =
  cm_capability :: int
  cm_health :: int
  cm_dataQuality :: int
  cm_authority :: int
  cm_execution :: int
  cm_price :: int

text \<open>\<open>Math.round\<close> and the share of a list that satisfies a predicate.\<close>

definition js_round :: "rat \<Rightarrow> int" where
  "js_round x = \<lfloor>x + 1 / 2\<rfloor>"

definition coverage :: "('a \<Rightarrow> bool) \<Rightarrow> 'a list \<Rightarrow> rat" where
  "coverage p xs = (if xs = [] then 1 else of_nat (length (filter p xs)) / of_nat (length xs))"

definition executionPoints :: "market_listing \<Rightarrow> int \<Rightarrow> int" where
  "executionPoints l now = (let e = li_executionEvidence l in
     if xe_status e \<noteq> EvidenceVerified then 0 else
     (case parsed_at (xe_lastVerifiedAt e) of None \<Rightarrow> 0 | Some t \<Rightarrow>
        let age = max 0 (now - t) in
        if age \<le> 86400 * 1000 then 10 else if age \<le> 7 * 86400 * 1000 then 7
        else if age \<le> 30 * 86400 * 1000 then 4 else 2))"

definition scoreComponents :: "market_listing \<Rightarrow> search_request \<Rightarrow> int \<Rightarrow> score_components" where
  "scoreComponents l r now =
     (let tokens = uniqueTokens (searchableText l);
          exactPoints = js_round (20 * coverage (supports l) (rq_requiredProtocols r));
          textPoints = js_round (15 * coverage (\<lambda>t. t \<in> set tokens) (uniqueTokens (rq_query r)))
      in \<lparr>cm_capability = min 35 (exactPoints + textPoints),
          cm_health = (if hl_endpointStatus (li_health l) = EndpointHealthy then 20 else 0),
          cm_dataQuality = (case fs_status (li_dataFreshness l) of Fresh \<Rightarrow> 15 | Stale \<Rightarrow> 6 | FreshnessUnknown \<Rightarrow> 0),
          cm_authority = (case authorityStatus (li_state l) of AuthorityActive \<Rightarrow> 15 | AuthorityNone \<Rightarrow> 8
             | AuthorityExpired \<Rightarrow> 4 | AuthorityRevoked \<Rightarrow> 0),
          cm_execution = executionPoints l now,
          cm_price = (if lp_maxAtomic (li_pricing l) = None \<and> lp_minAtomic (li_pricing l) = None then 0 else 5)\<rparr>)"

fun freshness_text :: "freshness_status \<Rightarrow> string" where
  "freshness_text Fresh = ''fresh''"
| "freshness_text Stale = ''stale''"
| "freshness_text FreshnessUnknown = ''unknown''"

fun authority_text :: "authority_status \<Rightarrow> string" where
  "authority_text AuthorityNone = ''none''"
| "authority_text AuthorityActive = ''active''"
| "authority_text AuthorityExpired = ''expired''"
| "authority_text AuthorityRevoked = ''revoked''"

fun pricing_text :: "pricing_model \<Rightarrow> string" where
  "pricing_text FreePrice = ''free''"
| "pricing_text FixedPrice = ''fixed''"
| "pricing_text RangePrice = ''range''"
| "pricing_text QuotePrice = ''quote''"
| "pricing_text UnavailablePrice = ''unavailable''"

definition scoreFactors :: "market_listing \<Rightarrow> search_request \<Rightarrow> score_components \<Rightarrow> string list" where
  "scoreFactors l r c =
     (let tokens = uniqueTokens (searchableText l);
          textPoints = js_round (15 * coverage (\<lambda>t. t \<in> set tokens) (uniqueTokens (rq_query r)));
          shown = (\<lambda>d t. case t of None \<Rightarrow> d | Some s \<Rightarrow> s)
      in
     [''Capability fit: '' @ show_int (cm_capability c) @ ''/35 ('' @ show_int (cm_capability c - textPoints)
        @ ''/20 structured, deterministic text match included).'',
      ''Endpoint health: '' @ show_int (cm_health c) @ ''/20; observed '' @ shown ''unknown'' (hl_observedAt (li_health l)) @ ''.'',
      ''Data freshness: '' @ show_int (cm_dataQuality c) @ ''/15; status '' @ freshness_text (fs_status (li_dataFreshness l)) @ ''.'',
      ''Authority compatibility: '' @ show_int (cm_authority c) @ ''/15; state '' @ authority_text (authorityStatus (li_state l))
        @ (if rq_requireAuthority r then '' for a required execution request'' else '' for read-only discovery'') @ ''.'',
      ''Verified execution evidence: '' @ show_int (cm_execution c) @ ''/10; last observed ''
        @ shown ''none'' (xe_lastVerifiedAt (li_executionEvidence l)) @ ''.'',
      ''Price fit: '' @ show_int (cm_price c) @ ''/5; model '' @ pricing_text (lp_model (li_pricing l)) @ ''.''])"

section \<open>Evaluation\<close>

record evaluation =
  ev_eligible :: bool
  ev_score :: "int option"
  ev_components :: "score_components option"
  ev_reasons :: "reason list"
  ev_factors :: "string list"

definition total_score :: "score_components \<Rightarrow> int" where
  "total_score c = cm_capability c + cm_health c + cm_dataQuality c + cm_authority c + cm_execution c + cm_price c"

definition evaluateListing :: "market_listing \<Rightarrow> search_request \<Rightarrow> int \<Rightarrow> int list \<Rightarrow> evaluation" where
  "evaluateListing l r now allowed =
     (let reasons = foldl addReason [] (reasons_of l r now allowed) in
      if 0 < length reasons
      then \<lparr>ev_eligible = False, ev_score = None, ev_components = None, ev_reasons = reasons, ev_factors = map snd reasons\<rparr>
      else let c = scoreComponents l r now in
        \<lparr>ev_eligible = True, ev_score = Some (total_score c), ev_components = Some c, ev_reasons = [],
         ev_factors = scoreFactors l r c\<rparr>)"

definition defaultReadChainIds :: "int list" where
  "defaultReadChainIds = [56, 97]"

record activation_availability =
  av_available :: bool
  av_method :: activation_method
  av_message :: string

definition activationUnavailableMessage :: string where
  "activationUnavailableMessage = ''Activation is unavailable: the Activation + Commerce gate is disabled while ''
     @ ''ERC-8183 and B402 standards-lock entries remain unresolved.''"

definition createActivationAvailability :: "activation_offer \<Rightarrow> activation_availability" where
  "createActivationAvailability a = \<lparr>av_available = False, av_method = (if ao_advertised a then ao_method a else NoMethod),
     av_message = (if ao_advertised a
       then ao_label a @ '' is advertised but unavailable in W0/W1; the optional activation rail is disabled.''
       else activationUnavailableMessage)\<rparr>"

end
