(* ===== verification/Market_Read.thy ===== *)
theory Market_Read
  imports Market_Eligibility Js_Sort
begin

text \<open>
  packages/marketplace/src/read-model.ts: the read service. It validates a snapshot of the source, evaluates every
  listing, orders the admitted ones, optionally lets a semantic ranker reorder them, and answers searches,
  reads of one agent and comparisons.

  The source and the ranker are parameters: a source is the value its \<open>read\<close> returns, \<open>None\<close> when it throws. A hit's similarity is a
  rational, \<open>None\<close> for NaN and infinities. \<open>Array.sort\<close> is a stable insertion sort, which every
  stable sort equals for the comparators of this file. The texts of errors are not modelled.
\<close>

section \<open>Errors, sources and rankers\<close>

datatype market_code = MARKETPLACE_REQUEST_INVALID | MARKETPLACE_COMPARE_LIMIT | MARKETPLACE_AGENT_NOT_FOUND
  | MARKETPLACE_SOURCE_INVALID | MARKETPLACE_SOURCE_UNAVAILABLE

datatype market_exn = MarketError market_code bool

definition marketplaceError :: "market_code \<Rightarrow> market_exn" where
  "marketplaceError c = MarketError c (c = MARKETPLACE_SOURCE_UNAVAILABLE)"

datatype source_status = SourceHealthy | SourceDegraded

record source_snapshot =
  sp_records :: "market_listing list"
  sp_status :: source_status
  sp_sourceName :: string
  sp_warning :: "string option"
  sp_refreshedAt :: "string option"

record semantic_hit =
  sh_identityKey :: string
  sh_similarity :: "rat option"
  sh_modelVersion :: string

type_synonym retriever = "search_request \<Rightarrow> string list \<Rightarrow> semantic_hit list option"

record read_options =
  ro_allowedChainIds :: "int list option"
  ro_semanticRetriever :: "retriever option"
  ro_semanticEnabled :: bool

definition policy_chains :: "read_options \<Rightarrow> int list" where
  "policy_chains o' = (case ro_allowedChainIds o' of None \<Rightarrow> defaultReadChainIds | Some cs \<Rightarrow> cs)"

section \<open>Comparators\<close>

definition compareStrings :: "string \<Rightarrow> string \<Rightarrow> int" where
  "compareStrings a b = (if a < b then -1 else if b < a then 1 else 0)"

definition compareListingIdentity :: "market_listing \<Rightarrow> market_listing \<Rightarrow> int" where
  "compareListingIdentity a b = (let name = compareStrings (js_lower (li_name a)) (js_lower (li_name b)) in
     if name \<noteq> 0 then name else
     let slug = compareStrings (li_slug a) (li_slug b) in
     if slug = 0 then compareStrings (li_identityKey a) (li_identityKey b) else slug)"

type_synonym evaluated = "market_listing \<times> evaluation"

definition score_or :: "evaluated \<Rightarrow> int" where
  "score_or e = (case ev_score (snd e) of None \<Rightarrow> -1 | Some s \<Rightarrow> s)"

definition compareEvaluatedListings :: "evaluated \<Rightarrow> evaluated \<Rightarrow> int" where
  "compareEvaluatedListings a b = (if score_or a \<noteq> score_or b then score_or b - score_or a
     else compareListingIdentity (fst a) (fst b))"

definition compareExcludedListings :: "evaluated \<Rightarrow> evaluated \<Rightarrow> int" where
  "compareExcludedListings a b = compareListingIdentity (fst a) (fst b)"

section \<open>Semantic hits\<close>

text \<open>A map in insertion order; \<open>normalized\<close> replaces an earlier hit of the same key only with a greater similarity.\<close>

type_synonym normal_hit = "string \<times> rat \<times> string"

definition put_hit :: "normal_hit \<Rightarrow> normal_hit list \<Rightarrow> normal_hit list" where
  "put_hit h hs = (case find (\<lambda>g. fst g = fst h) hs of
     None \<Rightarrow> hs @ [h]
   | Some g \<Rightarrow> if fst (snd g) < fst (snd h) then map (\<lambda>x. if fst x = fst h then h else x) hs else hs)"

definition normalize_hit :: "string list \<Rightarrow> semantic_hit \<Rightarrow> normal_hit option" where
  "normalize_hit keys h = (case sh_similarity h of None \<Rightarrow> None | Some s \<Rightarrow>
     let key = js_trim (sh_identityKey h); version = js_trim (sh_modelVersion h) in
     if key = [] \<or> version = [] \<or> key \<notin> set keys then None else Some (key, max (-1) (min 1 s), version))"

definition compare_hits :: "normal_hit \<Rightarrow> normal_hit \<Rightarrow> int" where
  "compare_hits a b = (if fst (snd b) < fst (snd a) then -1 else if fst (snd a) < fst (snd b) then 1
     else compareStrings (fst a) (fst b))"

definition normalizeSemanticHits :: "semantic_hit list \<Rightarrow> string list \<Rightarrow> normal_hit list" where
  "normalizeSemanticHits hits keys = js_sort compare_hits
     (foldl (\<lambda>hs h. case normalize_hit keys h of None \<Rightarrow> hs | Some g \<Rightarrow> put_hit g hs) [] hits)"

text \<open>The order of the hybrid mode: entries with a hit first, by similarity; \<open>index\<close> breaks the ties.\<close>

definition compare_hybrid :: "normal_hit list \<Rightarrow> nat \<times> evaluated \<Rightarrow> nat \<times> evaluated \<Rightarrow> int" where
  "compare_hybrid hits a b =
     (let hit = (\<lambda>e. find (\<lambda>h. fst h = li_identityKey (fst (snd e))) hits) in
      case (hit a, hit b) of
        (Some g, Some h) \<Rightarrow> if fst (snd g) \<noteq> fst (snd h) then (if fst (snd h) < fst (snd g) then -1 else 1)
          else (let c = compareEvaluatedListings (snd a) (snd b) in if c \<noteq> 0 then c else int (fst a) - int (fst b))
      | (Some g, None) \<Rightarrow> -1
      | (None, Some h) \<Rightarrow> 1
      | (None, None) \<Rightarrow> let c = compareEvaluatedListings (snd a) (snd b) in if c \<noteq> 0 then c else int (fst a) - int (fst b))"

datatype retrieval_mode = Deterministic | Hybrid | Fallback

text \<open>The warnings of the semantic stage.\<close>

definition warn_no_hits :: string where
  "warn_no_hits = ''Semantic retrieval returned no compatible embeddings; deterministic hard-filter and full-text ranking is active.''"

definition warn_mixed :: string where
  "warn_mixed = ''Semantic retrieval returned mixed model versions; deterministic ranking is active.''"

definition warn_incomplete :: string where
  "warn_incomplete = ''Semantic retrieval is incomplete; deterministic ranking is retained for listings without compatible embeddings.''"

definition warn_degraded :: string where
  "warn_degraded = ''Semantic retrieval degraded; deterministic hard-filter and full-text ranking is active.''"

definition warn_no_index :: string where
  "warn_no_index = ''Semantic retrieval is enabled but no compatible index is configured; deterministic ranking is active.''"

text \<open>The semantic stage of a search: the order, the warning, the mode and the model version.\<close>

definition semantic_stage :: "read_options \<Rightarrow> search_request \<Rightarrow> evaluated list
    \<Rightarrow> evaluated list \<times> string option \<times> retrieval_mode \<times> string option" where
  "semantic_stage opts r eligible =
     (if ro_semanticEnabled opts \<and> 0 < length (js_trim (rq_query r)) \<and> 0 < length eligible then
        (case ro_semanticRetriever opts of
           None \<Rightarrow> (eligible, Some warn_no_index, Fallback, None)
         | Some search \<Rightarrow>
             (case search r (map (\<lambda>e. li_identityKey (fst e)) eligible) of
                None \<Rightarrow> (eligible, Some warn_degraded, Fallback, None)
              | Some raw \<Rightarrow>
                  let hits = normalizeSemanticHits raw (map (\<lambda>e. li_identityKey (fst e)) eligible);
                      versions = remdups (map (\<lambda>h. snd (snd h)) hits)
                  in if hits = [] then (eligible, Some warn_no_hits, Fallback, None)
                     else if 1 < length versions then (eligible, Some warn_mixed, Fallback, None)
                     else (map snd (js_sort (compare_hybrid hits) (zip [0..<length eligible] eligible)),
                           if length hits < length eligible then Some warn_incomplete else None, Hybrid, Some (hd versions))))
      else (eligible, None, Deterministic, None))"

section \<open>Reading the source\<close>

definition parseMarketplaceSourceSnapshot :: "source_snapshot \<Rightarrow> schema_error + source_snapshot" where
  "parseMarketplaceSourceSnapshot s =
     (if text_between 160 (sp_sourceName s) \<and> nullable (text_between 500) (sp_warning s) \<and> nullable isoDateSchema (sp_refreshedAt s)
      then bindE (mapE parseMarketplaceListing (sp_records s)) (\<lambda>records.
        Inr (s\<lparr>sp_records := records, sp_sourceName := js_trim (sp_sourceName s), sp_warning := map_option js_trim (sp_warning s)\<rparr>))
      else Inl SchemaError)"

text \<open>The loop over the records, with the sets of keys and slugs seen so far.\<close>

fun unique_records :: "string list \<Rightarrow> string list \<Rightarrow> market_listing list \<Rightarrow> bool" where
  "unique_records keys slugs [] = True"
| "unique_records keys slugs (l # ls) = (if li_identityKey l \<in> set keys \<or> li_slug l \<in> set slugs then False
     else unique_records (li_identityKey l # keys) (li_slug l # slugs) ls)"

definition readSnapshot :: "source_snapshot option \<Rightarrow> market_exn + source_snapshot" where
  "readSnapshot source = (case source of None \<Rightarrow> Inl (marketplaceError MARKETPLACE_SOURCE_UNAVAILABLE) | Some raw \<Rightarrow>
     case parseMarketplaceSourceSnapshot raw of Inl _ \<Rightarrow> Inl (marketplaceError MARKETPLACE_SOURCE_INVALID) | Inr snapshot \<Rightarrow>
     if unique_records [] [] (sp_records snapshot) then Inr snapshot
     else Inl (marketplaceError MARKETPLACE_SOURCE_INVALID))"

definition parseRequest :: "search_request \<Rightarrow> market_exn + search_request" where
  "parseRequest r = (case marketplaceSearchRequestSchema r of None \<Rightarrow> Inl (marketplaceError MARKETPLACE_REQUEST_INVALID) | Some q \<Rightarrow> Inr q)"

section \<open>Answers\<close>

datatype response_status = RespHealthy | RespDegraded | RespEmpty

record response_meta =
  rm_sourceStatus :: response_status
  rm_sourceName :: string
  rm_sourceKind :: "source_kind option"
  rm_warning :: "string option"
  rm_returnedAt :: int
  rm_refreshedAt :: "string option"
  rm_fixtureCount :: nat
  rm_retrievalMode :: retrieval_mode
  rm_semanticModelVersion :: "string option"

definition meta_of :: "source_snapshot \<Rightarrow> int \<Rightarrow> string option \<Rightarrow> retrieval_mode \<Rightarrow> string option \<Rightarrow> response_meta" where
  "meta_of s now override mode version =
     (let joined = take 500 (join_with '' '' (concat (map (\<lambda>w. case w of None \<Rightarrow> [] | Some t \<Rightarrow> if t = [] then [] else [t])
            [sp_warning s, override])));
          warning = (if joined = [] then None else Some joined);
          fixtures = length (filter (\<lambda>l. li_fixture l \<noteq> None) (sp_records s));
          n = length (sp_records s)
      in \<lparr>rm_sourceStatus = (if sp_status s = SourceDegraded \<or> warning \<noteq> None then RespDegraded
            else if n = 0 then RespEmpty else RespHealthy),
          rm_sourceName = sp_sourceName s,
          rm_sourceKind = (if n = 0 then None else if fixtures = n then Some FixtureSource
            else if fixtures = 0 then Some IngestionSource else None),
          rm_warning = warning, rm_returnedAt = now, rm_refreshedAt = sp_refreshedAt s, rm_fixtureCount = fixtures,
          rm_retrievalMode = mode, rm_semanticModelVersion = version\<rparr>)"

text \<open>The response schema trims the warning.\<close>

definition trim_warning :: "response_meta \<Rightarrow> response_meta" where
  "trim_warning m = m\<lparr>rm_warning := map_option js_trim (rm_warning m)\<rparr>"

record agent_card =
  ca_listing :: market_listing
  ca_activation :: activation_availability
  ca_evaluation :: evaluation

definition toCard :: "evaluated \<Rightarrow> agent_card" where
  "toCard e = \<lparr>ca_listing = fst e, ca_activation = createActivationAvailability (li_activationOffer (fst e)), ca_evaluation = snd e\<rparr>"

record exclusion =
  xl_identityKey :: string
  xl_slug :: string
  xl_name :: string
  xl_category :: agent_category
  xl_reasons :: "reason list"

definition exclusion_of :: "evaluated \<Rightarrow> exclusion" where
  "exclusion_of e = \<lparr>xl_identityKey = li_identityKey (fst e), xl_slug = li_slug (fst e), xl_name = li_name (fst e),
     xl_category = li_category (fst e), xl_reasons = ev_reasons (snd e)\<rparr>"

record search_response =
  rs_request :: search_request
  rs_results :: "agent_card list"
  rs_excluded :: "exclusion list"
  rs_meta :: response_meta

definition evaluate_all :: "read_options \<Rightarrow> search_request \<Rightarrow> int \<Rightarrow> market_listing list \<Rightarrow> evaluated list" where
  "evaluate_all opts r now ls = map (\<lambda>l. (l, evaluateListing l r now (policy_chains opts))) ls"

definition search :: "read_options \<Rightarrow> source_snapshot option \<Rightarrow> int \<Rightarrow> search_request \<Rightarrow> market_exn + search_response" where
  "search opts source now input =
     bindE (parseRequest input) (\<lambda>r.
     bindE (readSnapshot source) (\<lambda>snapshot.
     let evaluated = evaluate_all opts r now (sp_records snapshot);
         eligible = js_sort compareEvaluatedListings (filter (\<lambda>e. ev_eligible (snd e)) evaluated)
     in case semantic_stage opts r eligible of (ranked, warning, mode, version) \<Rightarrow>
     Inr \<lparr>rs_request = r, rs_results = map toCard ranked,
          rs_excluded = map exclusion_of (js_sort compareExcludedListings (filter (\<lambda>e. \<not> ev_eligible (snd e)) evaluated)),
          rs_meta = trim_warning (meta_of snapshot now warning mode version)\<rparr>))"

definition category_search :: "read_options \<Rightarrow> source_snapshot option \<Rightarrow> int \<Rightarrow> agent_category \<Rightarrow> search_request
    \<Rightarrow> market_exn + search_response" where
  "category_search opts source now c input = search opts source now (input\<lparr>rq_category := Some c\<rparr>)"

text \<open>The request that \<open>parseMarketplaceSearchRequest({})\<close> gives.\<close>

definition default_request :: search_request where
  "default_request = \<lparr>rq_query = [], rq_category = None, rq_chainId = None, rq_requiredProtocols = [], rq_maxPriceAtomic = None,
     rq_requireAuthority = False, rq_requestedAmountAtomic = None, rq_requiredContract = None, rq_requiredSelector = None,
     rq_requireFreshData = False\<rparr>"

definition readAgent :: "read_options \<Rightarrow> source_snapshot option \<Rightarrow> int \<Rightarrow> string
    \<Rightarrow> market_exn + agent_card option \<times> response_meta" where
  "readAgent opts source now identifier =
     (if length (js_trim identifier) = 0 then Inl (marketplaceError MARKETPLACE_REQUEST_INVALID) else
      bindE (readSnapshot source) (\<lambda>snapshot.
      Inr (map_option (\<lambda>l. toCard (l, evaluateListing l default_request now (policy_chains opts)))
             (find (\<lambda>l. li_slug l = js_trim identifier \<or> li_identityKey l = js_trim identifier) (sp_records snapshot)),
           meta_of snapshot now None Deterministic None)))"

definition getAgent :: "read_options \<Rightarrow> source_snapshot option \<Rightarrow> int \<Rightarrow> string \<Rightarrow> market_exn + agent_card \<times> response_meta" where
  "getAgent opts source now identifier = bindE (readAgent opts source now identifier) (\<lambda>(agent, m).
     case agent of Some a \<Rightarrow> Inr (a, m) | None \<Rightarrow> Inl (marketplaceError MARKETPLACE_AGENT_NOT_FOUND))"

section \<open>Comparison\<close>

definition parseCompareIdentifiers :: "string list \<Rightarrow> market_exn + string list" where
  "parseCompareIdentifiers ids = (if length ids = 0 \<or> 3 < length ids then Inl (marketplaceError MARKETPLACE_COMPARE_LIMIT) else
     let normalized = map js_trim ids in
     if list_ex (\<lambda>i. length i = 0) normalized \<or> length (remdups normalized) \<noteq> length normalized
     then Inl (marketplaceError MARKETPLACE_REQUEST_INVALID) else Inr normalized)"

text \<open>The map from slugs and keys to listings: a later entry replaces an earlier one.\<close>

definition by_identifier :: "market_listing list \<Rightarrow> string \<Rightarrow> market_listing option" where
  "by_identifier ls = foldl (\<lambda>m l. m(li_slug l \<mapsto> l, li_identityKey l \<mapsto> l)) Map.empty ls"

fun compare_loop :: "(string \<Rightarrow> market_listing option) \<Rightarrow> (market_listing \<Rightarrow> agent_card) \<Rightarrow> string list \<Rightarrow> string list
    \<Rightarrow> agent_card list \<times> string list" where
  "compare_loop look render included [] = ([], [])"
| "compare_loop look render included (i # is) = (case look i of
     None \<Rightarrow> (case compare_loop look render included is of (agents, missing) \<Rightarrow> (agents, i # missing))
   | Some l \<Rightarrow> if li_identityKey l \<in> set included then compare_loop look render included is
       else (case compare_loop look render (li_identityKey l # included) is of (agents, missing) \<Rightarrow> (render l # agents, missing)))"

record compare_response =
  cr_requested :: "string list"
  cr_agents :: "agent_card list"
  cr_missing :: "string list"
  cr_meta :: response_meta

definition compare_agents :: "read_options \<Rightarrow> source_snapshot option \<Rightarrow> int \<Rightarrow> string list \<Rightarrow> search_request
    \<Rightarrow> market_exn + compare_response" where
  "compare_agents opts source now identifiers input =
     bindE (parseCompareIdentifiers identifiers) (\<lambda>requested.
     bindE (parseRequest input) (\<lambda>r.
     bindE (readSnapshot source) (\<lambda>snapshot.
     case compare_loop (by_identifier (sp_records snapshot)) (\<lambda>l. toCard (l, evaluateListing l r now (policy_chains opts))) [] requested of
       (agents, missing) \<Rightarrow> Inr \<lparr>cr_requested = requested, cr_agents = agents, cr_missing = missing,
          cr_meta = trim_warning (meta_of snapshot now None Deterministic None)\<rparr>)))"

end
