(* ===== verification/Market_Properties.thy ===== *)
theory Market_Properties
  imports Market_Read "HOL-Library.Multiset" "HOL-Library.Product_Lexorder"
begin

text \<open>
  The properties of the marketplace's read model: exactly which listings a search admits, that the ranker can
  only reorder them, that the answer does not depend on the order of the source, and what the score is made of.
\<close>

section \<open>Reasons\<close>

lemma addReason_not_Nil: "addReason rs r \<noteq> []"
  by (auto simp: addReason_def)

lemma add_reasons_not_Nil: "rs \<noteq> [] \<Longrightarrow> foldl addReason rs xs \<noteq> []"
  by (induction xs arbitrary: rs) (simp_all add: addReason_not_Nil)

lemma add_reasons_Nil [simp]: "foldl addReason [] xs = [] \<longleftrightarrow> xs = []"
  by (cases xs) (simp_all add: add_reasons_not_Nil addReason_not_Nil)

lemma eligible_no_reasons: "ev_eligible (evaluateListing l r now allowed) \<longleftrightarrow> reasons_of l r now allowed = []"
  by (simp add: evaluateListing_def Let_def)

lemma reason_when_Nil [simp]: "reason_when b c m = [] \<longleftrightarrow> \<not> b"
  by (simp add: reason_when_def)

text \<open>What an admitted listing is, condition by condition.\<close>

definition authority_suffices :: "market_listing \<Rightarrow> search_request \<Rightarrow> int \<Rightarrow> bool" where
  "authority_suffices l r now \<longleftrightarrow>
     (let a = li_authority l in
       (authorityStatus (li_state l) = AuthorityActive \<and> nullable (\<lambda>t. now < t) (parsed_at (la_expiresAt a))
        \<and> la_executionWallet a \<noteq> None \<and> la_walletProvider a \<noteq> UnknownWallet)
     \<and> nullable (\<lambda>x. nullable (\<lambda>y. dec_val x \<le> dec_val y) (la_spendLimitAtomic a) \<and> la_spendLimitAtomic a \<noteq> None) (rq_requestedAmountAtomic r)
     \<and> nullable (\<lambda>c. js_lower c \<in> js_lower ` set (la_allowlistedContracts a)) (rq_requiredContract r)
     \<and> nullable (\<lambda>c. js_lower c \<in> js_lower ` set (la_allowlistedSelectors a)) (rq_requiredSelector r))"

definition admissible :: "market_listing \<Rightarrow> search_request \<Rightarrow> int \<Rightarrow> int list \<Rightarrow> bool" where
  "admissible l r now allowed \<longleftrightarrow>
     id_chainId (li_identity l) \<in> set allowed \<and> nullable (\<lambda>c. c = id_chainId (li_identity l)) (rq_chainId r)
   \<and> lp_network (li_pricing l) = id_chainId (li_identity l)
   \<and> nullable (\<lambda>c. c = li_category l \<or> c \<in> set (case li_applicableCategories l of None \<Rightarrow> [] | Some cs \<Rightarrow> cs)) (rq_category r)
   \<and> list_all (supports l) (rq_requiredProtocols r)
   \<and> (hl_endpointStatus (li_health l) = EndpointHealthy \<and> runtimeStatus (li_state l) = Live
      \<and> nullable (\<lambda>t. now \<le> t + 120000) (parsed_at (hl_observedAt (li_health l))))
   \<and> (lv_observedBlock (li_provenance l) \<noteq> None \<and> lv_observedBlockHash (li_provenance l) \<noteq> None
      \<and> lv_readConsistency (li_provenance l) \<noteq> None)
   \<and> (\<not> authorityRequired r \<or> authority_suffices l r now)
   \<and> nullable (\<lambda>m. lp_model (li_pricing l) = FreePrice
       \<or> nullable (\<lambda>p. dec_val p \<le> dec_val m) (lp_maxAtomic (li_pricing l)) \<and> lp_maxAtomic (li_pricing l) \<noteq> None) (rq_maxPriceAtomic r)
   \<and> (\<not> rq_requireFreshData r \<or> hasFreshData l now)
   \<and> set (uniqueTokens (rq_query r)) \<subseteq> set (uniqueTokens (searchableText l))
   \<and> listingStatus (li_state l) = Published \<and> verificationStatus (li_state l) \<in> {Verified, Degraded}"

lemma find_none: "find (\<lambda>p. \<not> f p) xs = None \<longleftrightarrow> list_all f xs"
  by (auto simp: find_None_iff list_all_iff)

lemma found_Nil:
  "(case find (\<lambda>p. \<not> f p) xs of None \<Rightarrow> [] | Some t \<Rightarrow> [g t]) = [] \<longleftrightarrow> list_all f xs"
  using find_none [of f xs] by (cases "find (\<lambda>p. \<not> f p) xs") auto

lemma nullable_Nil:
  "(case x of None \<Rightarrow> [] | Some y \<Rightarrow> f y) = [] \<longleftrightarrow> nullable (\<lambda>y. f y = []) x"
  by (cases x) simp_all

lemma health_reasons_Nil:
  "health_reasons l now = [] \<longleftrightarrow> hl_endpointStatus (li_health l) = EndpointHealthy \<and> runtimeStatus (li_state l) = Live
     \<and> nullable (\<lambda>t. now \<le> t + 120000) (parsed_at (hl_observedAt (li_health l)))"
  by (auto simp: health_reasons_def health_stale_def Let_def split: option.splits)

lemma standing_Nil:
  "(if authority_expired l now then [(AUTHORITY_EXPIRED, m)] else if authorityStatus (li_state l) = AuthorityRevoked then [(AUTHORITY_REVOKED, m')]
    else reason_when (authority_absent l) c m'') = [] \<longleftrightarrow>
   authorityStatus (li_state l) = AuthorityActive \<and> nullable (\<lambda>t. now < t) (parsed_at (la_expiresAt (li_authority l)))
     \<and> la_executionWallet (li_authority l) \<noteq> None \<and> la_walletProvider (li_authority l) \<noteq> UnknownWallet"
  by (cases "authorityStatus (li_state l)"; cases "parsed_at (la_expiresAt (li_authority l))")
    (simp_all add: authority_expired_def authority_absent_def not_le)

lemma listed_Nil: "reason_when (\<not> list_ex (\<lambda>c. js_lower c = js_lower t) xs) c' m = [] \<longleftrightarrow> js_lower t \<in> js_lower ` set xs"
  by (simp add: list_ex_iff image_iff) metis

lemma limit_Nil:
  "(case y of Some limit \<Rightarrow> reason_when (dec_val limit < dec_val x) c m | None \<Rightarrow> [r]) = []
     \<longleftrightarrow> nullable (\<lambda>y. dec_val x \<le> dec_val y) y \<and> y \<noteq> None"
  by (cases y) (simp_all add: not_less)

lemma authority_reasons_Nil: "authority_reasons l r now = [] \<longleftrightarrow> authority_suffices l r now"
  unfolding authority_reasons_def authority_suffices_def Let_def append_is_Nil_conv nullable_Nil standing_Nil listed_Nil limit_Nil ..

lemma verification_Nil:
  "(case v of VerificationPending \<Rightarrow> [a] | VerificationRejected \<Rightarrow> [b] | _ \<Rightarrow> []) = [] \<longleftrightarrow> v \<in> {Verified, Degraded}"
  by (cases v) simp_all

lemma chain_Nil: "reason_when (x \<noteq> None \<and> x \<noteq> Some c) a m = [] \<longleftrightarrow> nullable (\<lambda>y. y = c) x"
  by (cases x) auto

lemma category_Nil: "reason_when (a \<noteq> c \<and> c \<notin> S) b m = [] \<longleftrightarrow> c = a \<or> c \<in> S"
  by auto

lemma price_Nil:
  "reason_when (md \<noteq> FreePrice \<and> (case x of None \<Rightarrow> True | Some p \<Rightarrow> dec_val m < dec_val p)) b t = []
     \<longleftrightarrow> md = FreePrice \<or> nullable (\<lambda>p. dec_val p \<le> dec_val m) x \<and> x \<noteq> None"
  by (cases x) (auto simp: not_less)

lemma provenance_Nil: "reason_when (x = None \<or> y = None \<or> z = None) b t = [] \<longleftrightarrow> x \<noteq> None \<and> y \<noteq> None \<and> z \<noteq> None"
  by simp

lemma if_Nil: "(if b then xs else []) = [] \<longleftrightarrow> \<not> b \<or> xs = []"
  by simp

lemma when_Nil: "reason_when (x \<notin> S) b t = [] \<longleftrightarrow> x \<in> S" "reason_when (x' \<noteq> y) b t = [] \<longleftrightarrow> x' = y"
    "reason_when (p \<and> \<not> q) b t = [] \<longleftrightarrow> \<not> p \<or> q"
  by simp_all

lemma tokens_Nil:
  "(case find (\<lambda>t. t \<notin> T) xs of None \<Rightarrow> [] | Some t \<Rightarrow> [g t]) = [] \<longleftrightarrow> set xs \<subseteq> T"
  using found_Nil [where f = "\<lambda>t. t \<in> T" and xs = xs and g = g] by (auto simp: list_all_iff)

lemma reasons_Nil: "reasons_of l r now allowed = [] \<longleftrightarrow> admissible l r now allowed"
  unfolding reasons_of_def admissible_def Let_def append_is_Nil_conv found_Nil tokens_Nil
  unfolding nullable_Nil chain_Nil category_Nil price_Nil
    health_reasons_Nil provenance_Nil verification_Nil if_Nil authority_reasons_Nil when_Nil
  by (cases "rq_chainId r"; cases "rq_category r") (simp_all only: nullable_simps list_all_iff subset_iff Ball_def option.inject option.distinct simp_thms, (blast+)?)

section \<open>Scores\<close>

lemma eligible_iff: "ev_eligible (evaluateListing l r now allowed) \<longleftrightarrow> admissible l r now allowed"
  by (simp only: eligible_no_reasons reasons_Nil)

lemma coverage_full: "list_all p xs \<Longrightarrow> coverage p xs = 1"
proof -
  assume "list_all p xs"
  then have "filter p xs = xs" by (simp add: list_all_iff)
  then show ?thesis by (simp add: coverage_def)
qed

lemma js_round_int [simp]: "js_round (of_int i) = i" "js_round (numeral n) = numeral n"
proof -
  show *: "js_round (of_int i) = i" for i by (simp add: js_round_def floor_eq_iff)
  show "js_round (numeral n) = numeral n" using * [of "numeral n"] by simp
qed

definition listing_points :: "market_listing \<Rightarrow> int \<Rightarrow> int" where
  "listing_points l now = (case fs_status (li_dataFreshness l) of Fresh \<Rightarrow> 15 | Stale \<Rightarrow> 6 | FreshnessUnknown \<Rightarrow> 0)
     + (case authorityStatus (li_state l) of AuthorityActive \<Rightarrow> 15 | AuthorityNone \<Rightarrow> 8 | AuthorityExpired \<Rightarrow> 4 | AuthorityRevoked \<Rightarrow> 0)
     + executionPoints l now + (if lp_maxAtomic (li_pricing l) = None \<and> lp_minAtomic (li_pricing l) = None then 0 else 5)"

lemma executionPoints_bounds: "0 \<le> executionPoints l now \<and> executionPoints l now \<le> 10"
  by (simp add: executionPoints_def Let_def split: option.split)

lemma listing_points_bounds: "0 \<le> listing_points l now \<and> listing_points l now \<le> 45"
  using executionPoints_bounds [of l now]
  by (cases "fs_status (li_dataFreshness l)"; cases "authorityStatus (li_state l)") (simp_all add: listing_points_def)

lemma admitted_score:
  assumes "admissible l r now allowed"
  shows "ev_score (evaluateListing l r now allowed) = Some (55 + listing_points l now)"
proof -
  let ?T = "set (uniqueTokens (searchableText l))"
  from assms have p: "coverage (supports l) (rq_requiredProtocols r) = 1" and h: "hl_endpointStatus (li_health l) = EndpointHealthy"
    and t: "coverage (\<lambda>t. t \<in> ?T) (uniqueTokens (rq_query r)) = 1"
    by (auto simp: admissible_def list_all_iff intro!: coverage_full)
  have "cm_capability (scoreComponents l r now) = 35" "cm_health (scoreComponents l r now) = 20"
    by (simp_all add: scoreComponents_def Let_def p t h)
  then have "total_score (scoreComponents l r now) = 55 + listing_points l now"
    by (simp add: total_score_def listing_points_def) (simp add: scoreComponents_def Let_def)
  with assms show ?thesis
    using eligible_no_reasons [of l r now allowed] eligible_iff [of l r now allowed]
    by (simp add: evaluateListing_def Let_def)
qed

section \<open>Orders\<close>

lemma compareStrings_simps: "compareStrings a b = 0 \<longleftrightarrow> a = b" "compareStrings a b \<le> 0 \<longleftrightarrow> a \<le> b"
    "compareStrings a b < 0 \<longleftrightarrow> a < b"
  by (auto simp: compareStrings_def)

definition name_key :: "market_listing \<Rightarrow> string \<times> string \<times> string" where
  "name_key l = (js_lower (li_name l), li_slug l, li_identityKey l)"

lemma compareListingIdentity_le: "compareListingIdentity a b \<le> 0 \<longleftrightarrow> name_key a \<le> name_key b"
  by (auto simp: compareListingIdentity_def Let_def compareStrings_simps name_key_def less_eq_prod_simp less_le)

definition rank_key :: "evaluated \<Rightarrow> int \<times> string \<times> string \<times> string" where
  "rank_key e = (- score_or e, name_key (fst e))"

lemma compareEvaluatedListings_le: "compareEvaluatedListings a b \<le> 0 \<longleftrightarrow> rank_key a \<le> rank_key b"
  using compareListingIdentity_le [of "fst a" "fst b"]
  by (auto simp: compareEvaluatedListings_def rank_key_def less_eq_prod_simp)

lemmas ranked_is_sorted = js_sort_key [of compareEvaluatedListings rank_key, OF compareEvaluatedListings_le]

lemma excluded_is_sorted: "js_sort compareExcludedListings es = sort_key (\<lambda>e. name_key (fst e)) es"
  by (rule js_sort_key) (simp add: compareExcludedListings_def compareListingIdentity_le)

lemma sort_key_mset:
  assumes "mset xs = mset ys" "inj_on f (set xs)"
  shows "sort_key f xs = sort_key (f :: 'a \<Rightarrow> 'k :: linorder) ys"
  by (rule sort_key_inj_key_eq) (use assms in simp_all)

section \<open>Snapshots\<close>

lemma mapE_ok: "list_all (\<lambda>x. is_ok (f x)) xs \<Longrightarrow> mapE f xs = Inr (map (\<lambda>x. projr (f x)) xs)"
  by (induction xs) (auto simp: is_ok_iff)

lemma mapE_error: "\<not> list_all (\<lambda>x. is_ok (f x)) xs \<Longrightarrow> \<exists>e. mapE f xs = Inl e"
proof (induction xs)
  case (Cons x xs)
  then show ?case by (cases "f x") auto
qed simp

lemma unique_records_iff:
  "unique_records K S ls \<longleftrightarrow> distinct (map li_identityKey ls) \<and> distinct (map li_slug ls)
     \<and> set (map li_identityKey ls) \<inter> set K = {} \<and> set (map li_slug ls) \<inter> set S = {}"
  by (induction K S ls rule: unique_records.induct) auto

lemma distinct_mset: "mset xs = mset ys \<Longrightarrow> distinct (map f xs) \<longleftrightarrow> distinct (map f ys)"
  by (metis mset_map mset_eq_imp_distinct_iff)

lemma readSnapshot_perm:
  assumes "mset ls = mset (sp_records s)"
  shows "(\<exists>e. readSnapshot (Some s) = Inl e \<and> readSnapshot (Some (s\<lparr>sp_records := ls\<rparr>)) = Inl e)
    \<or> (\<exists>t ls'. readSnapshot (Some s) = Inr t \<and> readSnapshot (Some (s\<lparr>sp_records := ls\<rparr>)) = Inr (t\<lparr>sp_records := ls'\<rparr>)
         \<and> mset ls' = mset (sp_records t) \<and> distinct (map li_identityKey (sp_records t)))"
proof -
  let ?ok = "list_all (\<lambda>x. is_ok (parseMarketplaceListing x))" and ?g = "\<lambda>x. projr (parseMarketplaceListing x)"
  have ok: "?ok ls = ?ok (sp_records s)" using mset_eq_setD [OF assms] by (simp add: list_all_iff)
  have perm: "mset (map ?g ls) = mset (map ?g (sp_records s))" using assms by (simp add: mset_map)
  have u: "unique_records [] [] (map ?g ls) = unique_records [] [] (map ?g (sp_records s))"
    using distinct_mset [OF perm, of li_identityKey] distinct_mset [OF perm, of li_slug] by (simp add: unique_records_iff)
  show ?thesis
  proof (cases "?ok ls")
    case True
    then have "mapE parseMarketplaceListing ls = Inr (map ?g ls)"
        "mapE parseMarketplaceListing (sp_records s) = Inr (map ?g (sp_records s))"
      using ok by (simp_all add: mapE_ok)
    then show ?thesis
      using u perm by (simp add: readSnapshot_def parseMarketplaceSourceSnapshot_def)
        (auto simp: unique_records_iff intro!: exI [of _ "map ?g ls"])
  next
    case False
    then obtain e e' where "mapE parseMarketplaceListing ls = Inl e" "mapE parseMarketplaceListing (sp_records s) = Inl e'"
      using mapE_error ok by metis
    then show ?thesis by (auto simp: readSnapshot_def parseMarketplaceSourceSnapshot_def)
  qed
qed

section \<open>The semantic stage\<close>

lemma semantic_reorders: "mset (fst (semantic_stage opts r es)) = mset es"
proof -
  have "mset (map snd (js_sort c (zip [0..<length es] es))) = mset es" for c
  proof -
    have "mset (map snd (js_sort c (zip [0..<length es] es))) = mset (map snd (zip [0..<length es] es))" by (simp only: mset_map mset_js_sort)
    then show ?thesis by simp
  qed
  then show ?thesis by (simp add: semantic_stage_def Let_def split: option.split)
qed

lemma not_hybrid: "semantic_stage opts r es = (fs, w, m, v) \<Longrightarrow> m = Hybrid \<or> fs = es"
  by (auto simp: semantic_stage_def Let_def split: option.splits if_splits)

section \<open>Searches\<close>

lemma search_Inr:
  assumes "search opts source now input = Inr resp"
  shows "\<exists>r t ranked w m v. parseRequest input = Inr r \<and> readSnapshot source = Inr t
    \<and> semantic_stage opts r (js_sort compareEvaluatedListings (filter (\<lambda>e. ev_eligible (snd e)) (evaluate_all opts r now (sp_records t)))) = (ranked, w, m, v)
    \<and> rs_results resp = map toCard ranked \<and> rm_retrievalMode (rs_meta resp) = m
    \<and> rs_excluded resp = map exclusion_of (js_sort compareExcludedListings (filter (\<lambda>e. \<not> ev_eligible (snd e)) (evaluate_all opts r now (sp_records t))))"
proof -
  from assms obtain r t where p: "parseRequest input = Inr r" "readSnapshot source = Inr t" by (auto simp: search_def)
  let ?es = "js_sort compareEvaluatedListings (filter (\<lambda>e. ev_eligible (snd e)) (evaluate_all opts r now (sp_records t)))"
  obtain ranked w m v where s: "semantic_stage opts r ?es = (ranked, w, m, v)" by (metis prod_cases4)
  have "resp = \<lparr>rs_request = r, rs_results = map toCard ranked,
      rs_excluded = map exclusion_of (js_sort compareExcludedListings (filter (\<lambda>e. \<not> ev_eligible (snd e)) (evaluate_all opts r now (sp_records t)))),
      rs_meta = trim_warning (meta_of t now w m v)\<rparr>"
    using assms by (simp add: search_def p Let_def s)
  moreover have "rm_retrievalMode (trim_warning (meta_of t now w m v)) = m" by (simp add: trim_warning_def meta_of_def Let_def)
  ultimately show ?thesis using p s by auto
qed

lemma evaluation_parts:
  "ev_score (evaluateListing l r now allowed) = None \<longleftrightarrow> \<not> admissible l r now allowed"
  "ev_reasons (evaluateListing l r now allowed) = [] \<longleftrightarrow> admissible l r now allowed"
  using eligible_iff [of l r now allowed] by (auto simp: evaluateListing_def Let_def split: if_splits)

lemma filter_evaluated:
  "filter (\<lambda>e. Q (ev_eligible (snd e))) (evaluate_all opts r now ls)
     = map (\<lambda>l. (l, evaluateListing l r now (policy_chains opts))) (filter (\<lambda>l. Q (admissible l r now (policy_chains opts))) ls)"
  by (induction ls) (simp_all add: evaluate_all_def eligible_iff)

lemma ranked_scores:
  assumes "\<forall>e \<in> set es. ev_score (snd e) \<noteq> None"
  shows "sorted (map (\<lambda>c. - the (ev_score (ca_evaluation c))) (map toCard (js_sort compareEvaluatedListings es)))"
proof -
  have *: "sorted (map rank_key (sort_key rank_key es))" by simp
  have score: "\<And>e. e \<in> set es \<Longrightarrow> the (ev_score (snd e)) = score_or e" using assms by (force simp: score_or_def)
  have "sorted (map (\<lambda>e. - score_or e) (sort_key rank_key es))"
    using * unfolding sorted_map by (rule sorted_wrt_mono_rel [rotated]) (auto simp: rank_key_def less_eq_prod_simp)
  moreover have "map (\<lambda>e. - the (ev_score (snd e))) (sort_key rank_key es) = map (\<lambda>e. - score_or e) (sort_key rank_key es)"
    by (rule map_cong) (simp_all add: score)
  ultimately have "sorted (map (\<lambda>e. - the (ev_score (snd e))) (sort_key rank_key es))" by (simp only:)
  then show ?thesis by (simp add: ranked_is_sorted toCard_def comp_def)
qed

lemma search_ok:
  "is_ok (parseRequest input) \<Longrightarrow> is_ok (readSnapshot source) \<Longrightarrow> \<exists>resp. search opts source now input = Inr resp"
  by (auto simp: is_ok_iff search_def Let_def case_prod_beta)

section \<open>A sample market\<close>

definition sample_listing :: "string \<Rightarrow> market_listing" where
  "sample_listing agent = \<lparr>li_identityKey = ''eip155:97:0x'' @ replicate 40 CHR ''a'' @ '':'' @ agent,
     li_identity = \<lparr>id_namespace = ''eip155'', id_chainId = 97, id_registry = ''0x'' @ replicate 40 CHR ''a'', id_agentId = agent\<rparr>,
     li_state = \<lparr>originType = Discovered, claimStatus = Unclaimed, verificationStatus = Verified, runtimeStatus = Live,
       authorityStatus = AuthorityNone, listingStatus = Published\<rparr>,
     li_slug = ''grid-'' @ agent, li_name = ''Grid'', li_description = ''d'', li_category = GridTrading, li_applicableCategories = None,
     li_services = [\<lparr>sv_kind = A2a, sv_protocolVersion = ''1''\<rparr>],
     li_capabilities = [\<lparr>cb_id = ''swap'', cb_description = ''s'', cb_requiredProtocols = [], cb_allowedActions = []\<rparr>],
     li_supportedProtocols = [], li_pricing = \<lparr>lp_model = FixedPrice, lp_network = 97, lp_minAtomic = Some ''5'', lp_maxAtomic = Some ''5''\<rparr>,
     li_health = \<lparr>hl_endpointStatus = EndpointHealthy, hl_observedAt = None\<rparr>,
     li_dataFreshness = \<lparr>fs_status = FreshnessUnknown, fs_observedAt = None, fs_maxAgeSeconds = None\<rparr>,
     li_authority = \<lparr>la_walletProvider = UnknownWallet, la_executionWallet = None, la_expiresAt = None, la_spendLimitAtomic = None,
       la_allowlistedContracts = [], la_allowlistedSelectors = []\<rparr>,
     li_executionEvidence = \<lparr>xe_status = EvidenceUnknown, xe_lastVerifiedAt = None, xe_reference = None\<rparr>,
     li_activationOffer = \<lparr>ao_advertised = False, ao_method = NoMethod, ao_label = ''l'', ao_erc8183 = False\<rparr>,
     li_serviceEvidence = None,
     li_provenance = \<lparr>lv_sourceKind = IngestionSource, lv_fixture = None, lv_observedBlock = Some 1,
       lv_observedBlockHash = Some (''0x'' @ replicate 64 CHR ''0''), lv_readConsistency = Some FinalizedRead\<rparr>,
     li_fixture = None\<rparr>"

definition sample_source :: source_snapshot where
  "sample_source = \<lparr>sp_records = [sample_listing ''1'', sample_listing ''2''], sp_status = SourceHealthy, sp_sourceName = ''s'',
     sp_warning = None, sp_refreshedAt = None\<rparr>"

definition sample_options :: read_options where
  "sample_options = \<lparr>ro_allowedChainIds = None, ro_semanticRetriever = None, ro_semanticEnabled = False\<rparr>"

definition market_query :: search_request where
  "market_query = default_request\<lparr>rq_query := ''grid swap'', rq_requiredProtocols := [''a2a'']\<rparr>"

lemma sample_source_ok: "is_ok (readSnapshot (Some sample_source))"
  by code_simp

lemma market_queries_ok: "is_ok (parseRequest market_query)" "is_ok (parseRequest default_request)"
  by code_simp+

lemma sample_admissible: "admissible (sample_listing ''1'') market_query 0 [97]" "admissible (sample_listing ''1'') default_request 0 [97]"
  by code_simp+

section \<open>Properties\<close>

text \<open>C29: A search answers completely and honestly: the results are exactly the listings of the source that meet every condition of
  the request and of the market, each once; all others are reported as excluded, each once and with a reason; and unless the
  semantic ranker took effect the results are in descending order of score. The ranker never adds or drops a listing.\<close>

theorem search_partitions:
  assumes "search opts source now input = Inr resp"
  shows "\<exists>r t. parseRequest input = Inr r \<and> readSnapshot source = Inr t
    \<and> mset (map ca_listing (rs_results resp)) = mset (filter (\<lambda>l. admissible l r now (policy_chains opts)) (sp_records t))
    \<and> mset (map xl_identityKey (rs_excluded resp)) = mset (map li_identityKey (filter (\<lambda>l. \<not> admissible l r now (policy_chains opts)) (sp_records t)))
    \<and> list_all (\<lambda>x. xl_reasons x \<noteq> []) (rs_excluded resp)
    \<and> (rm_retrievalMode (rs_meta resp) = Hybrid \<or> sorted (map (\<lambda>c. - the (ev_score (ca_evaluation c))) (rs_results resp)))"
proof -
  from search_Inr [OF assms] obtain r t ranked w m v where p: "parseRequest input = Inr r" "readSnapshot source = Inr t"
    and st: "semantic_stage opts r (js_sort compareEvaluatedListings (filter (\<lambda>e. ev_eligible (snd e)) (evaluate_all opts r now (sp_records t)))) = (ranked, w, m, v)"
    and resp: "rs_results resp = map toCard ranked" "rm_retrievalMode (rs_meta resp) = m"
      "rs_excluded resp = map exclusion_of (js_sort compareExcludedListings (filter (\<lambda>e. \<not> ev_eligible (snd e)) (evaluate_all opts r now (sp_records t))))"
    by blast
  let ?yes = "filter (\<lambda>e. ev_eligible (snd e)) (evaluate_all opts r now (sp_records t))"
  let ?no = "filter (\<lambda>e. \<not> ev_eligible (snd e)) (evaluate_all opts r now (sp_records t))"
  note split = filter_evaluated [of "\<lambda>b. b" opts r now "sp_records t"] filter_evaluated [of Not opts r now "sp_records t"]
  have "mset ranked = mset ?yes" using semantic_reorders [of opts r "js_sort compareEvaluatedListings ?yes"] by (simp add: st)
  then have "mset (map ca_listing (rs_results resp)) = mset (map fst ?yes)"
    by (simp add: resp(1) mset_map toCard_def multiset.map_comp comp_def)
  moreover have "mset (map xl_identityKey (rs_excluded resp)) = mset (map (\<lambda>e. li_identityKey (fst e)) ?no)"
    by (simp add: resp(3) mset_map exclusion_of_def multiset.map_comp comp_def)
  moreover have "list_all (\<lambda>x. xl_reasons x \<noteq> []) (rs_excluded resp)"
  proof -
    have "set (js_sort compareExcludedListings ?no) = set ?no" by (metis mset_js_sort set_mset_mset)
    then show ?thesis
      unfolding resp(3) list_all_iff split(2) by (auto simp: exclusion_of_def evaluation_parts)
  qed
  moreover have "sorted (map (\<lambda>c. - the (ev_score (ca_evaluation c))) (map toCard (js_sort compareEvaluatedListings ?yes)))"
    by (rule ranked_scores) (auto simp: split(1) evaluation_parts simp del: not_None_eq)
  then have "m = Hybrid \<or> sorted (map (\<lambda>c. - the (ev_score (ca_evaluation c))) (rs_results resp))"
    using not_hybrid [OF st] resp(1) by metis
  ultimately show ?thesis
    by (intro exI [of _ r] exI [of _ t]) (simp add: p resp(2) split comp_def)
qed

theorem search_partitions_witness:
  "\<exists>resp t. search sample_options (Some sample_source) 0 market_query = Inr resp \<and> readSnapshot (Some sample_source) = Inr t
    \<and> size (mset (map ca_listing (rs_results resp))) + size (mset (map xl_identityKey (rs_excluded resp))) = length (sp_records t)"
proof -
  obtain resp where s: "search sample_options (Some sample_source) 0 market_query = Inr resp"
    using search_ok [OF market_queries_ok(1) sample_source_ok] by blast
  from search_partitions [OF s] obtain r t where "readSnapshot (Some sample_source) = Inr t"
    "mset (map ca_listing (rs_results resp)) = mset (filter (\<lambda>l. admissible l r 0 (policy_chains sample_options)) (sp_records t))"
    "mset (map xl_identityKey (rs_excluded resp)) = mset (map li_identityKey (filter (\<lambda>l. \<not> admissible l r 0 (policy_chains sample_options)) (sp_records t)))"
    by blast
  then show ?thesis using s by (intro exI [of _ resp] exI [of _ t]) (simp only: size_mset length_map sum_length_filter_compl)
qed

text \<open>C30: The answer does not depend on the order in which the source lists its records: two snapshots with the same records
  give the same response, results in the same order included, or the same error, whatever the ranker.\<close>

theorem search_order_independent:
  assumes "mset ls = mset (sp_records s)"
  shows "search opts (Some (s\<lparr>sp_records := ls\<rparr>)) now input = search opts (Some s) now input"
proof (cases "parseRequest input")
  case (Inr r)
  let ?E = "evaluate_all opts r now"
  from readSnapshot_perm [OF assms] show ?thesis
  proof (elim disjE exE conjE)
    fix t ls' assume t: "readSnapshot (Some s) = Inr t" "readSnapshot (Some (s\<lparr>sp_records := ls\<rparr>)) = Inr (t\<lparr>sp_records := ls'\<rparr>)"
      and perm: "mset ls' = mset (sp_records t)" and keys: "distinct (map li_identityKey (sp_records t))"
    have same: "mset (filter P (?E ls')) = mset (filter P (?E (sp_records t)))" for P
      using perm by (simp add: evaluate_all_def mset_map mset_filter)
    have key: "x = y" if "x \<in> set (?E ls')" "y \<in> set (?E ls')" "li_identityKey (fst x) = li_identityKey (fst y)" for x y
    proof -
      have "fst x \<in> set (sp_records t)" "fst y \<in> set (sp_records t)"
        using that(1,2) unfolding mset_eq_setD [OF perm, symmetric] by (auto simp: evaluate_all_def)
      moreover have "inj_on li_identityKey (set (sp_records t))" using keys by (simp add: distinct_map)
      ultimately have "fst x = fst y" using that(3) by (meson inj_onD)
      then show ?thesis using that(1,2) by (auto simp: evaluate_all_def)
    qed
    have inj: "inj_on rank_key (set (filter P (?E ls')))" "inj_on (\<lambda>e. name_key (fst e)) (set (filter P (?E ls')))" for P
      using key by (auto simp: inj_on_def rank_key_def name_key_def)
    have "js_sort compareEvaluatedListings (filter P (?E ls')) = js_sort compareEvaluatedListings (filter P (?E (sp_records t)))" for P
      unfolding ranked_is_sorted by (rule sort_key_mset [OF same inj(1)])
    moreover have "js_sort compareExcludedListings (filter P (?E ls')) = js_sort compareExcludedListings (filter P (?E (sp_records t)))" for P
      unfolding excluded_is_sorted by (rule sort_key_mset [OF same inj(2)])
    moreover have "meta_of (t\<lparr>sp_records := ls'\<rparr>) now w m v = meta_of t now w m v" for w m v
    proof -
      have "length ls' = length (sp_records t)" "length (filter P ls') = length (filter P (sp_records t))" for P
        using perm by (metis size_mset, metis mset_filter size_mset)
      then show ?thesis by (simp add: meta_of_def)
    qed
    ultimately show ?thesis by (simp add: search_def Inr t Let_def)
  qed (simp add: search_def Inr)
qed (simp add: search_def)

theorem search_order_independent_witness:
  "search sample_options (Some (sample_source\<lparr>sp_records := rev (sp_records sample_source)\<rparr>)) 0 market_query
    = search sample_options (Some sample_source) 0 market_query"
  by (rule search_order_independent) simp

text \<open>The score of an admitted listing does not depend on the request: every request that admits a listing gives it the same score, 55
  points and those for its freshness, authority, evidence and price, because whatever is admitted matches the
  query and the protocols in full. It lies between 55 and 100.\<close>

theorem score_ignores_request:
  assumes "ev_eligible (evaluateListing l r now allowed)" "ev_eligible (evaluateListing l r' now allowed')"
  shows "ev_score (evaluateListing l r now allowed) = Some (55 + listing_points l now)
    \<and> ev_score (evaluateListing l r' now allowed') = ev_score (evaluateListing l r now allowed)
    \<and> 55 + listing_points l now \<in> {55..100}"
  using assms listing_points_bounds [of l now] by (simp add: eligible_iff admitted_score)

theorem score_ignores_request_witness:
  "ev_score (evaluateListing (sample_listing ''1'') market_query 0 [97])
     = ev_score (evaluateListing (sample_listing ''1'') default_request 0 [97])"
  using score_ignores_request [OF eligible_iff [THEN iffD2, OF sample_admissible(2)] eligible_iff [THEN iffD2, OF sample_admissible(1)]]
  by simp

text \<open>C31: The evaluation of a listing is its specification: it is eligible exactly when it meets all conditions at once, whatever
  reasons the code has collected by then, and otherwise it has no score and at least one reason.\<close>

theorem listing_evaluated:
  "ev_eligible (evaluateListing l r now allowed) = admissible l r now allowed
    \<and> (ev_score (evaluateListing l r now allowed) = None) = (\<not> admissible l r now allowed)
    \<and> (ev_reasons (evaluateListing l r now allowed) = []) = admissible l r now allowed"
  by (simp add: eligible_iff evaluation_parts)

end
