(* ===== verification/Reservation_Types.thy ===== *)
theory Reservation_Types
  imports Commerce_Types Auth_Boundary
begin

text \<open>
  apps/web/src/lib/commerce-reservations.ts, first part, with commerce-quote-contract.ts and the quote type of
  packages/agent-commerce/src/external-seller.ts: from a row of the marketplace query to a listing with one price, what a
  provider must show to be ready, and the snapshot of a quote.

  The row is the result of the query \<open>listingSelect\<close>. Columns that the code reads as JSON values stay JSON values,
  time stamps are their milliseconds, the signed offer of a seller is the value of its JSON text, \<open>None\<close> when the text does not
  parse. The UUID check and SHA-256 (\<open>runtime\<close>), the URL parser and \<open>Number\<close> on JSON values are parameters.
\<close>

section \<open>Errors and the platform\<close>

definition failure :: "commerce_code \<Rightarrow> string \<Rightarrow> commerce_exn" where
  "failure c next = CommerceError c False next"

definition ensure :: "bool \<Rightarrow> commerce_exn \<Rightarrow> commerce_exn + unit" where
  "ensure b e = (if b then Inr () else Inl e)"

lemma ensure_Inr [simp, result_simps]: "ensure b e = Inr u \<longleftrightarrow> b"
  by (simp add: ensure_def)

record reservation_platform =
  rp_runtime :: runtime
  rp_url :: web_url_parser
  rp_number :: "js_value \<Rightarrow> int option"

section \<open>Rows of the marketplace query\<close>

datatype service_row_kind = ServiceA2a | ServiceAdapter

record listing_row =
  lr_agent_id :: string
  lr_namespace :: string
  lr_chain_id :: int
  lr_identity_registry :: string
  lr_agent_identity_id :: string
  lr_owner_address :: "string option"
  lr_owner_observed_block :: js_value
  lr_agent_wallet :: "string option"
  lr_agent_wallet_observed_block :: js_value
  lr_identity_observed_block :: js_value
  lr_identity_observed_block_hash :: "string option"
  lr_identity_read_consistency :: "string option"
  lr_listing_status :: string
  lr_verification_status :: string
  lr_runtime_status :: string
  lr_authority_status :: string
  lr_execution_wallet :: "string option"
  lr_agent_version_id :: string
  lr_agent_version :: int
  lr_pricing_manifest :: js_value
  lr_service_kind :: service_row_kind
  lr_service_url :: string
  lr_service_protocol_version :: string
  lr_service_observed_at :: int
  lr_probe_observed_at :: int

record parsed_pricing =
  pz_priceAtomic :: string
  pz_tokenSymbol :: "string option"
  pz_tokenAddress :: string
  pz_decimals :: int
  pz_network :: int

record quote_service =
  qs_kind :: service_row_kind
  qs_url :: string
  qs_protocolVersion :: string
  qs_observedAt :: int
  qs_probeObservedAt :: int

record readiness_input =
  rd_identity :: erc8004_identity
  rd_ownerAddress :: "string option"
  rd_ownerObservedBlock :: js_value
  rd_agentWallet :: "string option"
  rd_agentWalletObservedBlock :: js_value
  rd_identityObservedBlock :: js_value
  rd_identityObservedBlockHash :: "string option"
  rd_identityReadConsistency :: "string option"
  rd_providerAddress :: string
  rd_service :: quote_service
  rd_chainId :: int
  rd_commerceContract :: string
  rd_paymentToken :: string
  rd_paymentDecimals :: int
  rd_priceAtomic :: string
  rd_authorityStatus :: authority_status
  rd_versionId :: string
  rd_versionNumber :: int

record provider_readiness =
  pd_ready :: bool
  pd_identity :: erc8004_identity
  pd_providerAddress :: string
  pd_endpoint :: string
  pd_authoritySecretReference :: "string option"
  pd_externalSignedOffer :: bool
  pd_observedAt :: int

section \<open>Readiness of a provider\<close>

definition normalizedHttpsEndpoint :: "web_url_parser \<Rightarrow> string \<Rightarrow> commerce_exn + string" where
  "normalizedHttpsEndpoint url s = (case url s of None \<Rightarrow> Inl (failure INVALID_QUOTE ''reload_listing'')
     | Some u \<Rightarrow> if wu_protocol u \<noteq> ''https:'' \<or> wu_username u \<noteq> [] \<or> wu_password u \<noteq> [] \<or> wu_hash u \<noteq> []
         then Inl (failure INVALID_QUOTE ''reload_listing'') else Inr (wu_text u))"

definition normalizedAddress :: "string \<Rightarrow> commerce_exn + string" where
  "normalizedAddress s = (case normalizeEvmAddress s of Inl _ \<Rightarrow> Inl (failure INVALID_ADDRESS ''reload_listing'') | Inr a \<Rightarrow> Inr a)"

text \<open>A JSON number that is no integer is not a value of the model; it would be refused as well.\<close>

definition observedBlock :: "reservation_platform \<Rightarrow> js_value \<Rightarrow> commerce_exn + int" where
  "observedBlock pf v = (case (case v of JNull \<Rightarrow> None | JString s \<Rightarrow> rp_number pf v | JNumber n \<Rightarrow> Some n | JNegZero \<Rightarrow> Some 0 | _ \<Rightarrow> None) of
       Some n \<Rightarrow> if isSafeInteger n \<and> 0 \<le> n then Inr n else Inl (failure ONCHAIN_MISMATCH ''reload_identity'')
     | None \<Rightarrow> Inl (failure ONCHAIN_MISMATCH ''reload_identity''))"

text \<open>\<open>^0x[0-9a-f]{64}$\<close>, ignoring case.\<close>

definition block_hash :: "string \<Rightarrow> bool" where
  "block_hash h \<longleftrightarrow> js_lower (take 2 h) = ''0x'' \<and> length h = 66 \<and> list_all is_hex (drop 2 h)"

definition assertFinalizedReadinessEvidence :: "reservation_platform \<Rightarrow> readiness_input \<Rightarrow> commerce_exn + unit" where
  "assertFinalizedReadinessEvidence pf i =
     bindE (observedBlock pf (rd_identityObservedBlock i)) (\<lambda>block.
     bindE (ensure (rd_identityReadConsistency i = Some ''finalized''
              \<and> (case rd_identityObservedBlockHash i of None \<Rightarrow> False | Some h \<Rightarrow> block_hash h))
            (failure STALE_JOB ''reload_identity'')) (\<lambda>_.
     bindE (observedBlock pf (rd_ownerObservedBlock i)) (\<lambda>owner.
     bindE (ensure (owner \<le> block) (failure ONCHAIN_MISMATCH ''reload_identity'')) (\<lambda>_.
     bindE (observedBlock pf (rd_agentWalletObservedBlock i)) (\<lambda>wallet.
     bindE (ensure (wallet \<le> block) (failure ONCHAIN_MISMATCH ''reload_identity'')) (\<lambda>_.
     ensure (rd_ownerAddress i \<noteq> None \<and> rd_agentWallet i \<noteq> None) (failure UNAUTHORIZED_ACTOR ''reload_identity'')))))))"

text \<open>The age of the probe lies between minus one second and the window, compared in milliseconds.\<close>

definition assertFreshProviderService :: "web_url_parser \<Rightarrow> quote_service \<Rightarrow> int \<Rightarrow> int \<Rightarrow> commerce_exn + string" where
  "assertFreshProviderService url service nowUnix window =
     bindE (normalizedHttpsEndpoint url (qs_url service)) (\<lambda>endpoint.
     let age = nowUnix * 1000 - qs_probeObservedAt service in
     if age < -1000 \<or> window * 1000 < age then Inl (failure STALE_JOB ''reload_listing'') else Inr endpoint)"

text \<open>\<open>^(?:(?:secret|vault|env)://[^\s]+|arn:aws:secretsmanager:[^\s]+)$\<close> after trimming.\<close>

definition referenceProviderSecretReferenceSchema :: "string \<Rightarrow> string option" where
  "referenceProviderSecretReferenceSchema s = (let t = js_trim s in
     if 1 \<le> length t \<and> length t \<le> 512 \<and> list_ex (\<lambda>p. take (length p) t = p \<and> length p < length t \<and> list_all (\<lambda>c. \<not> is_space c) (drop (length p) t))
          [''secret://'', ''vault://'', ''env://'', ''arn:aws:secretsmanager:'']
     then Some t else None)"

definition assertCommerceProviderReadiness ::
    "reservation_platform \<Rightarrow> readiness_input \<Rightarrow> provider_readiness \<Rightarrow> commerce_exn + provider_readiness" where
  "assertCommerceProviderReadiness pf i r =
     bindE (assertFinalizedReadinessEvidence pf i) (\<lambda>_.
     bindE (ensure (pd_ready r) (failure COMMERCE_DISABLED ''configure_provider_readiness'')) (\<lambda>_.
     bindE (from_schema (erc8004IdentityKey (pd_identity r))) (\<lambda>k.
     bindE (from_schema (erc8004IdentityKey (rd_identity i))) (\<lambda>k'.
     bindE (ensure (k = k') (failure ONCHAIN_MISMATCH ''reload_identity'')) (\<lambda>_.
     bindE (normalizedAddress (pd_providerAddress r)) (\<lambda>a.
     bindE (normalizedAddress (rd_providerAddress i)) (\<lambda>a'.
     bindE (ensure (a = a') (failure UNAUTHORIZED_ACTOR ''reload_identity'')) (\<lambda>_.
     bindE (normalizedHttpsEndpoint (rp_url pf) (pd_endpoint r)) (\<lambda>e.
     bindE (normalizedHttpsEndpoint (rp_url pf) (qs_url (rd_service i))) (\<lambda>e'.
     bindE (ensure (e = e') (failure ONCHAIN_MISMATCH ''reload_listing'')) (\<lambda>_.
     if pd_externalSignedOffer r then
       bindE (ensure (rd_chainId i = 56 \<and> pd_authoritySecretReference r = None \<and> rd_authorityStatus i = AuthorityNone)
                (failure COMMERCE_DISABLED ''reload_listing'')) (\<lambda>_. Inr r)
     else bindE (ensure (Option.bind (pd_authoritySecretReference r) referenceProviderSecretReferenceSchema \<noteq> None)
                   (failure COMMERCE_DISABLED ''configure_provider_readiness'')) (\<lambda>_. Inr r))))))))))))"

section \<open>The reference provider\<close>

record reference_config =
  rc_enabled :: bool
  rc_identity :: erc8004_identity
  rc_expectedOwnerAddress :: string
  rc_providerAddress :: string
  rc_providerEndpoint :: string
  rc_authoritySecretReference :: string
  rc_chainId :: int
  rc_commerceContract :: string
  rc_paymentToken :: string
  rc_paymentDecimals :: int
  rc_maxBudgetAtomic :: string
  rc_resolveSignerAddress :: "string \<Rightarrow> commerce_exn + string"
  rc_nowUnix :: int
  rc_freshnessWindowSeconds :: "int option"

text \<open>\<open>BigInt\<close> of a text; an amount of the code is a decimal, other numerals of \<open>BigInt\<close> are refused here.\<close>

definition big_int :: "string \<Rightarrow> int option" where
  "big_int s = (if is_decimal s then Some (int (dec_val s)) else None)"

text \<open>
  \<open>createReferenceProviderReadinessResolver(config)\<close> applied to an input: the checks of the configuration, then
  \<open>resolve\<close>. An exception of the signer lookup that is no \<open>CommerceError\<close> is one of the other two.
\<close>

definition reference_resolve :: "reservation_platform \<Rightarrow> reference_config \<Rightarrow> readiness_input \<Rightarrow> commerce_exn + provider_readiness" where
  "reference_resolve pf c i =
     bindE (from_schema (erc8004IdentitySchema (rc_identity c))) (\<lambda>configured.
     bindE (from_schema (erc8004IdentityKey configured)) (\<lambda>configuredKey.
     bindE (normalizedAddress (rc_expectedOwnerAddress c)) (\<lambda>expectedOwner.
     bindE (normalizedAddress (rc_providerAddress c)) (\<lambda>provider.
     bindE (normalizedAddress (rc_commerceContract c)) (\<lambda>contract.
     bindE (normalizedAddress (rc_paymentToken c)) (\<lambda>token.
     bindE (normalizedHttpsEndpoint (rp_url pf) (rc_providerEndpoint c)) (\<lambda>card.
     bindE (ensure (referenceProviderSecretReferenceSchema (rc_authoritySecretReference c) \<noteq> None) (failure COMMERCE_DISABLED ''configure_provider_readiness'')) (\<lambda>_.
     bindE (ensure (isSafeInteger (rc_paymentDecimals c) \<and> 0 \<le> rc_paymentDecimals c \<and> rc_paymentDecimals c \<le> 255)
              (failure INVALID_TOKEN ''verify_standards_lock'')) (\<lambda>_.
     bindE (ensure (positiveDecimalUintSchema (rc_maxBudgetAtomic c)) (failure INVALID_AMOUNT ''verify_standards_lock'')) (\<lambda>_.
     bindE (ensure (rc_enabled c) (failure COMMERCE_DISABLED ''enable_provider_readiness'')) (\<lambda>_.
     bindE (from_schema (erc8004IdentitySchema (rd_identity i))) (\<lambda>identity.
     bindE (from_schema (erc8004IdentityKey identity)) (\<lambda>key.
     bindE (ensure (key = configuredKey) (failure UNAUTHORIZED_ACTOR ''reload_identity'')) (\<lambda>_.
     bindE (ensure (rd_chainId i = 97 \<and> rc_chainId c = 97) (failure INVALID_CHAIN ''reload_listing'')) (\<lambda>_.
     bindE (normalizedAddress (rd_commerceContract i)) (\<lambda>inContract.
     bindE (ensure (inContract = contract) (failure ONCHAIN_MISMATCH ''verify_standards_lock'')) (\<lambda>_.
     bindE (normalizedAddress (rd_paymentToken i)) (\<lambda>inToken.
     bindE (ensure (inToken = token \<and> rd_paymentDecimals i = rc_paymentDecimals c) (failure ONCHAIN_MISMATCH ''verify_standards_lock'')) (\<lambda>_.
     bindE (ensure (rd_authorityStatus i \<notin> {AuthorityExpired, AuthorityRevoked}) (failure STALE_JOB ''reload_listing'')) (\<lambda>_.
     bindE (assertFinalizedReadinessEvidence pf i) (\<lambda>_.
     bindE (normalizedAddress (the (rd_ownerAddress i))) (\<lambda>owner.
     bindE (ensure (owner = expectedOwner) (failure UNAUTHORIZED_ACTOR ''reload_identity'')) (\<lambda>_.
     bindE (normalizedAddress (the (rd_agentWallet i))) (\<lambda>wallet.
     bindE (ensure (wallet = provider) (failure UNAUTHORIZED_ACTOR ''reload_identity'')) (\<lambda>_.
     bindE (normalizedAddress (rd_providerAddress i)) (\<lambda>inProvider.
     bindE (ensure (inProvider = provider) (failure UNAUTHORIZED_ACTOR ''reload_identity'')) (\<lambda>_.
     let window = (case rc_freshnessWindowSeconds c of None \<Rightarrow> 120 | Some w \<Rightarrow> w) in
     bindE (ensure (isSafeInteger (rc_nowUnix c) \<and> 0 < rc_nowUnix c \<and> isSafeInteger window \<and> 0 < window)
              (failure COMMERCE_DISABLED ''configure_provider_readiness'')) (\<lambda>_.
     bindE (assertFreshProviderService (rp_url pf) (rd_service i) (rc_nowUnix c) window) (\<lambda>cardUrl.
     bindE (ensure (cardUrl = card) (failure ONCHAIN_MISMATCH ''reload_listing'')) (\<lambda>_.
     bindE (case big_int (rd_priceAtomic i) of None \<Rightarrow> Inl (failure INVALID_AMOUNT ''reload_listing'') | Some a \<Rightarrow> Inr a) (\<lambda>amount.
     bindE (ensure (0 < amount \<and> amount \<le> int (dec_val (rc_maxBudgetAtomic c))) (failure INVALID_AMOUNT ''reload_quote'')) (\<lambda>_.
     bindE (case rc_resolveSignerAddress c (the (referenceProviderSecretReferenceSchema (rc_authoritySecretReference c))) of
              Inl (CommerceError e b n) \<Rightarrow> Inl (CommerceError e b n)
            | Inl _ \<Rightarrow> Inl (failure COMMERCE_DISABLED ''configure_provider_readiness'')
            | Inr a \<Rightarrow> Inr a) (\<lambda>signer.
     bindE (normalizedAddress signer) (\<lambda>signer'.
     bindE (ensure (signer' = provider) (failure UNAUTHORIZED_ACTOR ''configure_provider_readiness'')) (\<lambda>_.
     assertCommerceProviderReadiness pf i \<lparr>pd_ready = True, pd_identity = identity, pd_providerAddress = provider, pd_endpoint = cardUrl,
       pd_authoritySecretReference = referenceProviderSecretReferenceSchema (rc_authoritySecretReference c), pd_externalSignedOffer = False,
       pd_observedAt = rc_nowUnix c * 1000\<rparr>)))))))))))))))))))))))))))))))))))"

end
