(* ===== verification/Reservation_Store.thy ===== *)
theory Reservation_Store
  imports Reservation_Types "HOL-Library.Product_Lexorder"
begin

text \<open>
  apps/web/src/lib/commerce-reservations.ts, second part, with packages/agent-commerce/src/reference-admission.ts: the price of a
  listing, the snapshot of a quote, and the store of reservations in the table commerce_jobs with the capacity of
  the reference provider.

  Each operation is one transaction: it returns its result and the new tables, unchanged when it fails. The
  marketplace query, the readiness resolver, the parser of a buyer's reference task, the catalogue of mainnet sellers, JSON
  texts of offers and the environment are fields of \<open>reservation_env\<close>. The clock is in milliseconds.
\<close>

section \<open>The price of a listing\<close>

definition js_field :: "js_value \<Rightarrow> string \<Rightarrow> js_value" where
  "js_field v k = (case v of JObject fs \<Rightarrow> (case map_of fs k of None \<Rightarrow> JUndefined | Some x \<Rightarrow> x) | _ \<Rightarrow> JUndefined)"

definition optionalAtomic :: "js_value \<Rightarrow> commerce_exn + string option" where
  "optionalAtomic v = (case v of JUndefined \<Rightarrow> Inr None | JNull \<Rightarrow> Inr None
     | JString s \<Rightarrow> if is_decimal s then Inr (Some s) else Inl (failure INVALID_QUOTE ''reload_listing'')
     | _ \<Rightarrow> Inl (failure INVALID_QUOTE ''reload_listing''))"

text \<open>\<open>typeof v === "number" ? v : Number(v)\<close>.\<close>

definition listing_number :: "reservation_platform \<Rightarrow> js_value \<Rightarrow> int option" where
  "listing_number pf v = (case v of JNumber n \<Rightarrow> Some n | JNegZero \<Rightarrow> Some 0 | JNonFinite \<Rightarrow> None | _ \<Rightarrow> rp_number pf v)"

definition parsePersistedPricing :: "reservation_platform \<Rightarrow> js_value \<Rightarrow> enabled_pin \<Rightarrow> commerce_exn + parsed_pricing" where
  "parsePersistedPricing pf v pin =
     bindE (ensure (case v of JObject _ \<Rightarrow> True | JInstance \<Rightarrow> True | _ \<Rightarrow> False) (failure INVALID_QUOTE ''reload_listing'')) (\<lambda>_.
     bindE (ensure (js_field v ''model'' \<in> {JString ''fixed'', JString ''range''}) (failure INVALID_QUOTE ''choose_priced_agent'')) (\<lambda>_.
     bindE (ensure (listing_number pf (js_field v ''network'') = Some (pin_chainId pin)) (failure INVALID_CHAIN ''reload_listing'')) (\<lambda>_.
     bindE (case js_field v ''tokenAddress'' of JString s \<Rightarrow>
              if evmAddressSchema s \<and> js_lower s = js_lower (pin_paymentToken pin) then Inr s else Inl (failure INVALID_TOKEN ''reload_listing'')
            | _ \<Rightarrow> Inl (failure INVALID_TOKEN ''reload_listing'')) (\<lambda>token.
     bindE (ensure (listing_number pf (js_field v ''decimals'') = Some (pin_paymentDecimals pin)) (failure INVALID_TOKEN ''reload_listing'')) (\<lambda>_.
     bindE (optionalAtomic (js_field v ''amountAtomic'')) (\<lambda>amount.
     bindE (optionalAtomic (js_field v ''minAtomic'')) (\<lambda>lo.
     bindE (optionalAtomic (js_field v ''maxAtomic'')) (\<lambda>hi.
     case (case lo of None \<Rightarrow> amount | Some _ \<Rightarrow> lo, case hi of None \<Rightarrow> amount | Some _ \<Rightarrow> hi) of
       (Some a, Some b) \<Rightarrow>
         if a \<noteq> b then Inl (failure INVALID_QUOTE ''choose_fixed_price_agent'')
         else let price = dec_val a in
           if price = 0 \<or> price < dec_val (pin_minBudgetAtomic pin) \<or> dec_val (pin_maxBudgetAtomic pin) < price
           then Inl (failure INVALID_AMOUNT ''reload_listing'')
           else Inr \<lparr>pz_priceAtomic = show_nat price,
             pz_tokenSymbol = (case js_field v ''tokenSymbol'' of JString s \<Rightarrow> if js_trim s = [] then None else Some (take 32 (js_trim s)) | _ \<Rightarrow> None),
             pz_tokenAddress = token, pz_decimals = pin_paymentDecimals pin, pz_network = pin_chainId pin\<rparr>
     | _ \<Rightarrow> Inl (failure INVALID_QUOTE ''choose_fixed_price_agent'')))))))))"

section \<open>From a row to a listing\<close>

definition identityFromListing :: "listing_row \<Rightarrow> commerce_exn + erc8004_identity" where
  "identityFromListing r = from_schema (erc8004IdentitySchema \<lparr>id_namespace = lr_namespace r, id_chainId = lr_chain_id r,
     id_registry = lr_identity_registry r, id_agentId = lr_agent_identity_id r\<rparr>)"

text \<open>The address and whether it is the persisted execution wallet.\<close>

definition providerFromListing :: "listing_row \<Rightarrow> commerce_exn + string \<times> bool" where
  "providerFromListing r = (case (case lr_execution_wallet r of None \<Rightarrow> lr_agent_wallet r | Some w \<Rightarrow> Some w) of
       None \<Rightarrow> Inl (failure INVALID_ADDRESS ''reload_listing'')
     | Some c \<Rightarrow> if \<not> evmAddressSchema c \<or> zero_address c then Inl (failure INVALID_ADDRESS ''reload_listing'')
         else Inr (js_lower c, lr_execution_wallet r \<noteq> None))"

definition assertLiveListing :: "listing_row \<Rightarrow> commerce_exn + unit" where
  "assertLiveListing r =
     bindE (ensure (lr_listing_status r = ''published'' \<and> lr_verification_status r = ''verified'') (failure STALE_JOB ''reload_listing'')) (\<lambda>_.
     bindE (ensure (lr_runtime_status r = ''live'') (failure STALE_JOB ''reload_listing'')) (\<lambda>_.
     ensure (lr_identity_observed_block r \<noteq> JNull \<and> lr_identity_read_consistency r = Some ''finalized'') (failure STALE_JOB ''reload_listing'')))"

definition authority_of_text :: "string \<Rightarrow> authority_status option" where
  "authority_of_text s = map_of [(''none'', AuthorityNone), (''active'', AuthorityActive), (''expired'', AuthorityExpired),
     (''revoked'', AuthorityRevoked)] s"

record priced_listing =
  pl_identity :: erc8004_identity
  pl_providerAddress :: string
  pl_persistedWallet :: bool
  pl_binding :: provider_binding
  pl_price :: parsed_pricing
  pl_service :: quote_service
  pl_readiness :: readiness_input

definition rowToListing :: "reservation_platform \<Rightarrow> listing_row \<Rightarrow> enabled_pin \<Rightarrow> commerce_exn + priced_listing" where
  "rowToListing pf r pin =
     bindE (assertLiveListing r) (\<lambda>_.
     bindE (identityFromListing r) (\<lambda>identity.
     bindE (ensure (id_chainId identity = pin_chainId pin) (failure INVALID_CHAIN ''reload_listing'')) (\<lambda>_.
     bindE (providerFromListing r) (\<lambda>(provider, persisted).
     bindE (parsePersistedPricing pf (lr_pricing_manifest r) pin) (\<lambda>price.
     bindE (case rp_url pf (lr_service_url r) of None \<Rightarrow> Inl CommerceTypeError | Some u \<Rightarrow> Inr u) (\<lambda>u.
     bindE (ensure (wu_protocol u = ''https:'' \<and> wu_username u = [] \<and> wu_password u = []) (failure INVALID_QUOTE ''reload_listing'')) (\<lambda>_.
     bindE (case authority_of_text (lr_authority_status r) of None \<Rightarrow> Inl (failure ONCHAIN_MISMATCH ''reload_listing'') | Some s \<Rightarrow> Inr s) (\<lambda>authority.
     bindE (erc8183ProviderBindingSchema (rp_runtime pf) \<lparr>pb_identity = identity, pb_agentVersionId = lr_agent_version_id r,
              pb_agentVersion = lr_agent_version r\<rparr>) (\<lambda>binding.
     let service = \<lparr>qs_kind = lr_service_kind r, qs_url = wu_text u, qs_protocolVersion = lr_service_protocol_version r,
           qs_observedAt = lr_service_observed_at r, qs_probeObservedAt = lr_probe_observed_at r\<rparr>
     in Inr \<lparr>pl_identity = identity, pl_providerAddress = provider, pl_persistedWallet = persisted, pl_binding = binding,
         pl_price = price, pl_service = service,
         pl_readiness = \<lparr>rd_identity = identity, rd_ownerAddress = lr_owner_address r, rd_ownerObservedBlock = lr_owner_observed_block r,
           rd_agentWallet = lr_agent_wallet r, rd_agentWalletObservedBlock = lr_agent_wallet_observed_block r,
           rd_identityObservedBlock = lr_identity_observed_block r, rd_identityObservedBlockHash = lr_identity_observed_block_hash r,
           rd_identityReadConsistency = lr_identity_read_consistency r, rd_providerAddress = provider, rd_service = service,
           rd_chainId = pz_network price, rd_commerceContract = pin_commerceContract pin, rd_paymentToken = pz_tokenAddress price,
           rd_paymentDecimals = pz_decimals price, rd_priceAtomic = pz_priceAtomic price, rd_authorityStatus = authority,
           rd_versionId = lr_agent_version_id r, rd_versionNumber = lr_agent_version r\<rparr>\<rparr>)))))))))"

section \<open>Snapshots\<close>

text \<open>The fields of a signed seller offer that the store reads.\<close>

record seller_offer =
  eo_providerAddress :: string
  eo_priceAtomic :: string
  eo_requestedTask :: string
  eo_signedDescription :: string
  eo_descriptionDigest :: string
  eo_expiresAtUnix :: int

datatype execution_claim = ExecutionUnverified | ProtocolReady | HistoricalResultVerified

record external_seller =
  xs_requestedTask :: string
  xs_signedOffer :: string
  xs_executionStatus :: execution_claim
  xs_historicalJobId :: "string option"

record quote_snapshot =
  qn_quoteId :: string
  qn_agentIdentifier :: string
  qn_identity :: erc8004_identity
  qn_agentVersionId :: string
  qn_agentVersion :: int
  qn_providerAddress :: string
  qn_persistedWallet :: bool
  qn_service :: quote_service
  qn_chainId :: int
  qn_commerceContract :: string
  qn_paymentToken :: string
  qn_paymentDecimals :: int
  qn_tokenSymbol :: "string option"
  qn_priceAtomic :: string
  qn_task :: string
  qn_taskDigest :: string
  qn_externalSeller :: "external_seller option"
  qn_issuedAt :: int
  qn_expiresAt :: int

text \<open>\<open>^[0-9a-f]{64}$\<close>.\<close>

definition lower_digest :: "string \<Rightarrow> bool" where
  "lower_digest d \<longleftrightarrow> length d = 64 \<and> list_all (\<lambda>c. is_digit c \<or> 97 \<le> code c \<and> code c \<le> 102) d"

definition external_ok :: "external_seller \<Rightarrow> bool" where
  "external_ok x \<longleftrightarrow> 1 \<le> length (xs_requestedTask x) \<and> length (xs_requestedTask x) \<le> 1600
     \<and> 1 \<le> length (xs_signedOffer x) \<and> length (xs_signedOffer x) \<le> 16000 \<and> nullable positiveDecimalUintSchema (xs_historicalJobId x)"

definition commerceQuoteSnapshotSchema :: "reservation_platform \<Rightarrow> quote_snapshot \<Rightarrow> commerce_exn + quote_snapshot" where
  "commerceQuoteSnapshotSchema pf q =
     bindE (from_schema (erc8004IdentitySchema (qn_identity q))) (\<lambda>identity.
     if uuid_schema (rp_runtime pf) (qn_quoteId q) \<and> text_between 400 (qn_agentIdentifier q)
       \<and> uuid_schema (rp_runtime pf) (qn_agentVersionId q) \<and> 0 < qn_agentVersion q \<and> evmAddressSchema (qn_providerAddress q)
       \<and> rp_url pf (qs_url (qn_service q)) \<noteq> None \<and> text_between 128 (qs_protocolVersion (qn_service q))
       \<and> bscChainIdSchema (qn_chainId q) \<and> evmAddressSchema (qn_commerceContract q) \<and> evmAddressSchema (qn_paymentToken q)
       \<and> 0 \<le> qn_paymentDecimals q \<and> qn_paymentDecimals q \<le> 255 \<and> nullable (text_between 32) (qn_tokenSymbol q)
       \<and> positiveDecimalUintSchema (qn_priceAtomic q) \<and> text_between 4096 (qn_task q) \<and> lower_digest (qn_taskDigest q)
       \<and> nullable external_ok (qn_externalSeller q)
     then Inr (q\<lparr>qn_agentIdentifier := js_trim (qn_agentIdentifier q), qn_identity := identity,
       qn_service := (qn_service q)\<lparr>qs_protocolVersion := js_trim (qs_protocolVersion (qn_service q))\<rparr>,
       qn_tokenSymbol := map_option js_trim (qn_tokenSymbol q), qn_task := js_trim (qn_task q)\<rparr>)
     else Inl CommerceSchemaError)"

text \<open>The UTF-8 length of a Latin-1 text.\<close>

definition utf8_length :: "string \<Rightarrow> nat" where
  "utf8_length s = length s + length (filter (\<lambda>c. 128 \<le> code c) s)"

definition commerceQuoteRequestSchema :: "string \<Rightarrow> string \<Rightarrow> commerce_exn + string \<times> string" where
  "commerceQuoteRequestSchema agent task = (if text_between 400 agent \<and> text_between 4096 task \<and> utf8_length (js_trim task) \<le> 4096
     then Inr (js_trim agent, js_trim task) else Inl CommerceSchemaError)"

section \<open>Tables\<close>

datatype commerce_status = StDraft | StNegotiating | StFunded | StAccepted | StSubmitted | StCompleted | StRejected
  | StDisputed | StSettled | StCancelled

text \<open>A quote of \<open>None\<close> is one that is not of the shape of a snapshot.\<close>

record reservation_row =
  rw_id :: string
  rw_erc8183_job_id :: string
  rw_buyer_user_id :: "string option"
  rw_provider_agent_id :: string
  rw_quote :: "quote_snapshot option"
  rw_price :: string
  rw_task_input_digest :: string
  rw_status :: commerce_status
  rw_funding_transaction_hash :: "string option"
  rw_fulfillment_transaction_hash :: "string option"
  rw_dispute_transaction_hash :: "string option"
  rw_settlement_transaction_hash :: "string option"
  rw_createdAt :: int

record provider_slot =
  sl_slot :: nat
  sl_commerce_job_id :: string
  sl_gas_reserved :: int
  sl_transaction_hash :: "string option"

record provider_allowance =
  al_config_digest :: string
  al_enabled :: bool
  al_healthy :: bool
  al_heartbeat :: "int option"
  al_reason :: string

record reservation_db =
  db_jobs :: "reservation_row list"
  db_slots :: "provider_slot list"
  db_allowance :: "provider_allowance option"

record readiness_resolver =
  rv_resolve :: "readiness_input \<Rightarrow> commerce_exn + provider_readiness"
  rv_negotiate :: "(readiness_input \<Rightarrow> string \<Rightarrow> commerce_exn + seller_offer) option"
  rv_verifySavedOffer :: "(readiness_input \<Rightarrow> seller_offer \<Rightarrow> commerce_exn + unit) option"

record reservation_env =
  en_platform :: reservation_platform
  en_pin :: enabled_pin
  en_resolver :: "readiness_resolver option"
  en_quoteLifetimeSeconds :: int
  en_listingByIdentifier :: "string \<Rightarrow> listing_row option"
  en_listingByAgent :: "string \<Rightarrow> listing_row option"
  en_referenceAgentId :: "string option"
  en_admissionEnabled :: bool
  en_referenceTask :: "string \<Rightarrow> int option"
  en_sellerProfile :: "erc8004_identity \<Rightarrow> string option option"
  en_offerText :: "seller_offer \<Rightarrow> string"
  en_parseOffer :: "string \<Rightarrow> seller_offer option"
  en_completed :: nat

section \<open>The bounded reference provider\<close>

definition allowance_gasReservation :: int where
  "allowance_gasReservation = 100000000000000"

definition allowance_gasBudget :: int where
  "allowance_gasBudget = 300000000000000"

definition allowance_card :: string where
  "allowance_card = ''https://consultation-refugees-proc-encountered.trycloudflare.com/api/reference-provider/agent-card''"

definition allowance_json :: js_value where
  "allowance_json = JObject [(''id'', JString ''reference-2293-after-1171-v1''), (''chainId'', JNumber 97), (''agentId'', JString ''2293''),
     (''registry'', JString ''0x8004a818bfb912233c491871b3d84c89a494bd9e''),
     (''versionId'', JString ''a394ad86-02de-5d21-8602-96f954fc679b''), (''version'', JNumber 4),
     (''owner'', JString ''0x230072625f8090d5271c5f882748ce11134ac2ba''), (''provider'', JString ''0x23bb79742b18fe2af238dde9ef97f355721c9122''),
     (''commerce'', JString ''0xa206c0517b6371c6638cd9e4a42cc9f02a33b0de''), (''router'', JString ''0xd7d36d66d2f1b608a0f943f722d27e3744f66f25''),
     (''policy'', JString ''0xd6a4217588f6b1f5657a92a3e94e6422ad771cea''), (''token'', JString ''0xc70b8741b8b07a6d61e54fd4b20f22fa648e5565''),
     (''card'', JString allowance_card),
     (''service'', JString ''https://consultation-refugees-proc-encountered.trycloudflare.com/api/reference-provider/health-factor''),
     (''price'', JString ''1000000000000000''), (''maxJobs'', JNumber 3), (''gasLimit'', JString ''400000''), (''gasPrice'', JString ''250000000''),
     (''gasReservation'', JString ''100000000000000''), (''gasBudget'', JString ''300000000000000''), (''baselineJob'', JString ''1171'')]"

record reference_capacity =
  cy_ready :: bool
  cy_remaining :: nat
  cy_admitted :: nat
  cy_submitted :: nat
  cy_completed :: nat
  cy_reason :: string
  cy_checkedAt :: "int option"

definition unavailable :: "string \<Rightarrow> reference_capacity" where
  "unavailable r = \<lparr>cy_ready = False, cy_remaining = 0, cy_admitted = 0, cy_submitted = 0, cy_completed = 0, cy_reason = r, cy_checkedAt = None\<rparr>"

definition readReferenceCapacity :: "reservation_env \<Rightarrow> int \<Rightarrow> reservation_db \<Rightarrow> reference_capacity" where
  "readReferenceCapacity en clock db = (case db_allowance db of None \<Rightarrow> unavailable ''CONFIGURATION_MISMATCH'' | Some row \<Rightarrow>
     if digest_of (rp_runtime (en_platform en)) allowance_json \<noteq> Inr (al_config_digest row) then unavailable ''CONFIGURATION_MISMATCH'' else
     let admitted = length (db_slots db); remaining = 3 - admitted;
         stale = (case al_heartbeat row of None \<Rightarrow> True | Some t \<Rightarrow> clock - t < 0 \<or> 20000 < clock - t);
         reserved = sum_list (map sl_gas_reserved (db_slots db));
         reason = (if \<not> al_enabled row then ''ADMISSION_DISABLED'' else if \<not> al_healthy row then al_reason row
           else if stale then ''WORKER_STALE'' else if remaining = 0 then ''CAPACITY_EXHAUSTED''
           else if allowance_gasBudget < reserved + allowance_gasReservation then ''GAS_BUDGET_EXHAUSTED'' else ''READY'')
     in \<lparr>cy_ready = (reason = ''READY''), cy_remaining = remaining, cy_admitted = admitted,
         cy_submitted = length (filter (\<lambda>s. sl_transaction_hash s \<noteq> None) (db_slots db)), cy_completed = en_completed en,
         cy_reason = reason, cy_checkedAt = al_heartbeat row\<rparr>)"

definition reference_offer :: "quote_snapshot \<Rightarrow> bool" where
  "reference_offer q \<longleftrightarrow> id_namespace (qn_identity q) = ''eip155'' \<and> id_chainId (qn_identity q) = 97 \<and> id_agentId (qn_identity q) = ''2293''
     \<and> js_lower (id_registry (qn_identity q)) = ''0x8004a818bfb912233c491871b3d84c89a494bd9e'' \<and> qn_chainId q = 97
     \<and> qn_agentVersionId q = ''a394ad86-02de-5d21-8602-96f954fc679b'' \<and> qn_agentVersion q = 4
     \<and> js_lower (qn_providerAddress q) = ''0x23bb79742b18fe2af238dde9ef97f355721c9122''
     \<and> js_lower (qn_commerceContract q) = ''0xa206c0517b6371c6638cd9e4a42cc9f02a33b0de''
     \<and> js_lower (qn_paymentToken q) = ''0xc70b8741b8b07a6d61e54fd4b20f22fa648e5565'' \<and> qn_paymentDecimals q = 18
     \<and> qn_priceAtomic q = ''1000000000000000'' \<and> qs_url (qn_service q) = allowance_card"

text \<open>The slot must be new and between 1 and 3, the job must have no slot: constraints of the table.\<close>

definition reserveReferenceCapacity :: "reservation_env \<Rightarrow> int \<Rightarrow> quote_snapshot \<Rightarrow> reservation_db \<Rightarrow> commerce_exn + reservation_db" where
  "reserveReferenceCapacity en clock q db =
     bindE (ensure (reference_offer q) (failure COMMERCE_DISABLED ''reload_listing'')) (\<lambda>_.
     let capacity = readReferenceCapacity en clock db; slot = cy_admitted capacity + 1 in
     bindE (ensure (cy_ready capacity) (failure COMMERCE_DISABLED ''view_existing_hires'')) (\<lambda>_.
     bindE (ensure (slot \<le> 3 \<and> slot \<notin> sl_slot ` set (db_slots db) \<and> qn_quoteId q \<notin> sl_commerce_job_id ` set (db_slots db))
              CommerceTypeError) (\<lambda>_.
     Inr (db\<lparr>db_slots := db_slots db @ [\<lparr>sl_slot = slot, sl_commerce_job_id = qn_quoteId q,
       sl_gas_reserved = allowance_gasReservation, sl_transaction_hash = None\<rparr>]\<rparr>))))"

end
