(* ===== verification/Reservation_Operations.thy ===== *)
theory Reservation_Operations
  imports Reservation_Store
begin

text \<open>
  apps/web/src/lib/commerce-reservations.ts, third part: the class PostgresCommerceReservationStore, with quote, resolve
  and claim as transactions on the tables.
\<close>

section \<open>Checks on reservations\<close>

definition digestTask :: "reservation_env \<Rightarrow> string \<Rightarrow> commerce_exn + string" where
  "digestTask en task = bindE (from_js (digest_of (rp_runtime (en_platform en)) (JString task))) (\<lambda>d. Inr (js_lower d))"

definition parseReservationRow :: "reservation_env \<Rightarrow> reservation_row \<Rightarrow> commerce_exn + quote_snapshot" where
  "parseReservationRow en r =
     (case (case rw_quote r of None \<Rightarrow> Inl CommerceSchemaError | Some q \<Rightarrow> commerceQuoteSnapshotSchema (en_platform en) q) of
        Inl _ \<Rightarrow> Inl (failure ONCHAIN_MISMATCH ''manual_review'')
      | Inr q \<Rightarrow> if rw_price r \<noteq> qn_priceAtomic q \<or> js_lower (rw_task_input_digest r) \<noteq> js_lower (qn_taskDigest q)
          then Inl (failure ONCHAIN_MISMATCH ''manual_review'') else Inr q)"

definition assertProviderReadiness :: "reservation_env \<Rightarrow> priced_listing \<Rightarrow> commerce_exn + unit" where
  "assertProviderReadiness en l =
     (if rd_authorityStatus (pl_readiness l) \<noteq> AuthorityNone then Inr () else
      case en_resolver en of None \<Rightarrow> Inl (failure COMMERCE_DISABLED ''configure_provider_readiness'') | Some rv \<Rightarrow>
      bindE (case rv_resolve rv (pl_readiness l) of
               Inl (CommerceError c b n) \<Rightarrow> Inl (CommerceError c b n)
             | Inl _ \<Rightarrow> Inl (failure COMMERCE_DISABLED ''configure_provider_readiness'')
             | Inr r \<Rightarrow> Inr r) (\<lambda>r.
      bindE (assertFinalizedReadinessEvidence (en_platform en) (pl_readiness l)) (\<lambda>_.
      bindE (assertCommerceProviderReadiness (en_platform en) (pl_readiness l) r) (\<lambda>_. Inr ()))))"

definition assertQuoteStillCurrent :: "reservation_env \<Rightarrow> quote_snapshot \<Rightarrow> priced_listing \<Rightarrow> int \<Rightarrow> commerce_exn + unit" where
  "assertQuoteStillCurrent en q l nowUnix =
     bindE (ensure (nowUnix * 1000 < qn_expiresAt q) (failure STALE_JOB ''reload_quote'')) (\<lambda>_.
     bindE (from_schema (erc8004IdentityKey (qn_identity q))) (\<lambda>k.
     bindE (from_schema (erc8004IdentityKey (pl_identity l))) (\<lambda>k'.
     ensure (k = k' \<and> qn_agentVersionId q = pb_agentVersionId (pl_binding l) \<and> qn_agentVersion q = pb_agentVersion (pl_binding l)
         \<and> js_lower (qn_providerAddress q) = js_lower (pl_providerAddress l)
         \<and> (qn_externalSeller q \<noteq> None \<or> qn_priceAtomic q = pz_priceAtomic (pl_price l))
         \<and> qn_chainId q = pin_chainId (en_pin en) \<and> js_lower (qn_commerceContract q) = js_lower (pin_commerceContract (en_pin en))
         \<and> js_lower (qn_paymentToken q) = js_lower (pin_paymentToken (en_pin en))
         \<and> qn_paymentDecimals q = pin_paymentDecimals (en_pin en))
       (failure STALE_JOB ''reload_quote''))))"

section \<open>Quoting\<close>

definition unpaid :: "reservation_row \<Rightarrow> bool" where
  "unpaid r \<longleftrightarrow> rw_status r \<in> {StDraft, StNegotiating}"

text \<open>The rows of the \<open>SELECT\<close>, and the one that is first by \<open>"createdAt" DESC, id DESC\<close>.\<close>

definition same_request :: "string \<Rightarrow> string \<Rightarrow> string \<Rightarrow> string \<Rightarrow> string \<Rightarrow> reservation_row \<Rightarrow> bool" where
  "same_request buyer agent digest task version r \<longleftrightarrow> rw_buyer_user_id r = Some buyer \<and> rw_provider_agent_id r = agent
     \<and> (rw_task_input_digest r = digest
        \<or> (case rw_quote r of None \<Rightarrow> False | Some q \<Rightarrow>
             map_option xs_requestedTask (qn_externalSeller q) = Some task \<and> qn_agentVersionId q = version))
     \<and> unpaid r"

definition newest :: "reservation_row list \<Rightarrow> reservation_row option" where
  "newest rows = (case sort_key (\<lambda>r. (rw_createdAt r, rw_id r)) rows of [] \<Rightarrow> None | rs \<Rightarrow> Some (last rs))"

text \<open>Whether an unpaid row is reused: a \<open>STALE_JOB\<close> error means that it is not, every other error is raised.\<close>

definition reuse_row :: "reservation_env \<Rightarrow> int \<Rightarrow> listing_row \<Rightarrow> reservation_row \<Rightarrow> commerce_exn + quote_snapshot option" where
  "reuse_row en nowUnix listing r =
     bindE (parseReservationRow en r) (\<lambda>q.
     bindE (rowToListing (en_platform en) listing (en_pin en)) (\<lambda>current.
     bindE (assertProviderReadiness en current) (\<lambda>_.
     case bindE (assertQuoteStillCurrent en q current nowUnix) (\<lambda>_.
          case qn_externalSeller q of None \<Rightarrow> Inr () | Some x \<Rightarrow>
            (case Option.bind (en_resolver en) rv_verifySavedOffer of
               None \<Rightarrow> Inl (failure INVALID_QUOTE ''none'')
             | Some verify \<Rightarrow> (case en_parseOffer en (xs_signedOffer x) of None \<Rightarrow> Inl CommerceSchemaError
                 | Some offer \<Rightarrow> verify ((pl_readiness current)\<lparr>rd_priceAtomic := qn_priceAtomic q\<rparr>) offer))) of
       Inr _ \<Rightarrow> Inr (Some q)
     | Inl (CommerceError c b n) \<Rightarrow> if c = STALE_JOB then Inr None else Inl (CommerceError c b n)
     | Inl e \<Rightarrow> Inl e)))"

text \<open>What is checked and negotiated before the transaction: the request, the row, its listing and the snapshot.\<close>

definition reference_task_ok :: "reservation_env \<Rightarrow> int \<Rightarrow> string \<Rightarrow> bool" where
  "reference_task_ok en clock task = (case en_referenceTask en task of None \<Rightarrow> False
     | Some t \<Rightarrow> t \<le> clock div 1000 \<and> clock div 1000 - 3600 \<le> t)"

definition negotiate_offer :: "reservation_env \<Rightarrow> priced_listing \<Rightarrow> string \<Rightarrow> commerce_exn + seller_offer option" where
  "negotiate_offer en l task =
     bindE (if id_chainId (pl_identity l) = 56 then
              (case Option.bind (en_resolver en) rv_negotiate of
                 Some negotiate \<Rightarrow> bindE (negotiate (pl_readiness l) task) (\<lambda>x. Inr (Some x))
               | None \<Rightarrow> Inl (failure COMMERCE_DISABLED ''refresh_seller_offer''))
            else Inr None) (\<lambda>offer.
     bindE (ensure (case offer of None \<Rightarrow> True | Some x \<Rightarrow> js_lower (eo_providerAddress x) = js_lower (pl_providerAddress l))
              (failure STALE_JOB ''reload_listing'')) (\<lambda>_. Inr offer))"

definition snapshot_of :: "reservation_env \<Rightarrow> int \<Rightarrow> string \<Rightarrow> string \<Rightarrow> string \<Rightarrow> priced_listing \<Rightarrow> seller_offer option \<Rightarrow> string \<Rightarrow> quote_snapshot" where
  "snapshot_of en nowUnix quoteId agent task l offer digest =
     \<lparr>qn_quoteId = quoteId, qn_agentIdentifier = agent, qn_identity = pl_identity l, qn_agentVersionId = pb_agentVersionId (pl_binding l),
      qn_agentVersion = pb_agentVersion (pl_binding l), qn_providerAddress = pl_providerAddress l,
      qn_persistedWallet = pl_persistedWallet l, qn_service = pl_service l, qn_chainId = pin_chainId (en_pin en),
      qn_commerceContract = pin_commerceContract (en_pin en), qn_paymentToken = pin_paymentToken (en_pin en),
      qn_paymentDecimals = pin_paymentDecimals (en_pin en), qn_tokenSymbol = pz_tokenSymbol (pl_price l),
      qn_priceAtomic = (case offer of None \<Rightarrow> pz_priceAtomic (pl_price l) | Some x \<Rightarrow> eo_priceAtomic x),
      qn_task = (case offer of None \<Rightarrow> task | Some x \<Rightarrow> eo_signedDescription x), qn_taskDigest = digest,
      qn_externalSeller = map_option (\<lambda>x. let job = Option.bind (en_sellerProfile en (pl_identity l)) id in
         \<lparr>xs_requestedTask = task, xs_signedOffer = en_offerText en x,
          xs_executionStatus = (if job = None then ProtocolReady else HistoricalResultVerified), xs_historicalJobId = job\<rparr>) offer,
      qn_issuedAt = nowUnix * 1000,
      qn_expiresAt = (case offer of None \<Rightarrow> nowUnix + en_quoteLifetimeSeconds en | Some x \<Rightarrow> eo_expiresAtUnix x) * 1000\<rparr>"

definition prepare_quote :: "reservation_env \<Rightarrow> int \<Rightarrow> string \<Rightarrow> string \<Rightarrow> string
    \<Rightarrow> commerce_exn + (string \<times> listing_row \<times> priced_listing \<times> quote_snapshot)" where
  "prepare_quote en clock uuid agent0 task0 =
     bindE (commerceQuoteRequestSchema agent0 task0) (\<lambda>(agent, task).
     bindE (case en_listingByIdentifier en agent of None \<Rightarrow> Inl (failure UNKNOWN_JOB ''reload_listing'') | Some r \<Rightarrow> Inr r) (\<lambda>row.
     bindE (rowToListing (en_platform en) row (en_pin en)) (\<lambda>l.
     bindE (if id_chainId (pl_identity l) = 97 \<and> Some (id_agentId (pl_identity l)) = en_referenceAgentId en then
              bindE (ensure (en_admissionEnabled en) (failure COMMERCE_DISABLED ''view_existing_hires'')) (\<lambda>_.
              ensure (reference_task_ok en clock task) (failure INVALID_QUOTE ''correct_reference_task''))
            else Inr ()) (\<lambda>_.
     bindE (assertProviderReadiness en l) (\<lambda>_.
     bindE (negotiate_offer en l task) (\<lambda>offer.
     bindE (digestTask en (case offer of None \<Rightarrow> task | Some x \<Rightarrow> eo_signedDescription x)) (\<lambda>digest.
     bindE (commerceQuoteSnapshotSchema (en_platform en) (snapshot_of en (clock div 1000) uuid agent task l offer digest)) (\<lambda>snapshot.
     Inr (task, row, l, snapshot)))))))))"

text \<open>The transaction: its lock makes it one step.\<close>

definition quote_transaction :: "reservation_env \<Rightarrow> int \<Rightarrow> string \<Rightarrow> string \<Rightarrow> listing_row \<Rightarrow> priced_listing \<Rightarrow> quote_snapshot
    \<Rightarrow> reservation_db \<Rightarrow> commerce_exn + quote_snapshot \<times> reservation_db" where
  "quote_transaction en clock buyer task row l snapshot db =
     bindE (case newest (filter (same_request buyer (lr_agent_id row) (qn_taskDigest snapshot) task (pb_agentVersionId (pl_binding l))) (db_jobs db)) of
              None \<Rightarrow> Inr None | Some r \<Rightarrow> reuse_row en (clock div 1000) row r) (\<lambda>existing.
     case existing of Some q \<Rightarrow> Inr (q, db) | None \<Rightarrow>
     bindE (ensure (qn_quoteId snapshot \<notin> rw_id ` set (db_jobs db)) CommerceTypeError) (\<lambda>_.
     let db' = db\<lparr>db_jobs := db_jobs db @ [\<lparr>rw_id = qn_quoteId snapshot, rw_erc8183_job_id = ''draft:'' @ qn_quoteId snapshot,
           rw_buyer_user_id = Some buyer, rw_provider_agent_id = lr_agent_id row, rw_quote = Some snapshot,
           rw_price = qn_priceAtomic snapshot, rw_task_input_digest = qn_taskDigest snapshot, rw_status = StDraft,
           rw_funding_transaction_hash = None, rw_fulfillment_transaction_hash = None, rw_dispute_transaction_hash = None,
           rw_settlement_transaction_hash = None, rw_createdAt = qn_issuedAt snapshot\<rparr>]\<rparr>
     in bindE (if id_chainId (pl_identity l) = 97 \<and> id_agentId (pl_identity l) = ''2293''
               then reserveReferenceCapacity en clock snapshot db' else Inr db') (\<lambda>db''. Inr (snapshot, db''))))"

text \<open>An exception inside the transaction that is no \<open>CommerceError\<close> is reported as one.\<close>

definition safe_error :: "commerce_exn \<Rightarrow> commerce_exn" where
  "safe_error e = (case e of CommerceError c b n \<Rightarrow> e | _ \<Rightarrow> failure COMMERCE_DISABLED ''retry_quote'')"

definition quote_op :: "reservation_env \<Rightarrow> int \<Rightarrow> string \<Rightarrow> string \<Rightarrow> string \<Rightarrow> string \<Rightarrow> reservation_db
    \<Rightarrow> (commerce_exn + quote_snapshot) \<times> reservation_db" where
  "quote_op en clock uuid buyer agent task db = (case prepare_quote en clock uuid agent task of
     Inl e \<Rightarrow> (Inl e, db)
   | Inr (task', row, l, snapshot) \<Rightarrow> (case quote_transaction en clock buyer task' row l snapshot db of
       Inl e \<Rightarrow> (Inl (safe_error e), db) | Inr (q, db') \<Rightarrow> (Inr q, db')))"

section \<open>Resolving\<close>

record resolve_input =
  ri_commerceJobId :: string
  ri_buyerUserId :: string
  ri_task :: "string option"
  ri_budgetAtomic :: "string option"
  ri_chainId :: int
  ri_commerceContract :: string
  ri_paymentToken :: string
  ri_paymentDecimals :: int

record reservation_parent =
  pr_commerceJobId :: string
  pr_buyerUserId :: "string option"
  pr_status :: commerce_status
  pr_priceAtomic :: string
  pr_task :: string
  pr_taskInputDigest :: string
  pr_evidence :: "string option list"
  pr_providerAddress :: string
  pr_providerBinding :: provider_binding
  pr_chainId :: int
  pr_commerceContract :: string
  pr_paymentToken :: string
  pr_paymentDecimals :: int
  pr_readiness :: readiness_input

definition chain_evidence :: "reservation_row \<Rightarrow> string option list" where
  "chain_evidence r = [rw_funding_transaction_hash r, rw_fulfillment_transaction_hash r, rw_dispute_transaction_hash r,
     rw_settlement_transaction_hash r]"

text \<open>Every status of a row is in the list of the code.\<close>

definition reservationParent :: "reservation_row \<Rightarrow> quote_snapshot \<Rightarrow> priced_listing \<Rightarrow> commerce_exn + reservation_parent" where
  "reservationParent r q l =
     bindE (ensure (id_chainId (qn_identity q) = id_chainId (pl_identity l) \<and> qn_agentVersionId q = pb_agentVersionId (pl_binding l)
         \<and> qn_agentVersion q = pb_agentVersion (pl_binding l) \<and> js_lower (qn_providerAddress q) = js_lower (pl_providerAddress l)
         \<and> (qn_externalSeller q \<noteq> None \<or> qn_priceAtomic q = pz_priceAtomic (pl_price l))) (failure STALE_JOB ''reload_quote'')) (\<lambda>_.
     Inr \<lparr>pr_commerceJobId = rw_id r, pr_buyerUserId = rw_buyer_user_id r, pr_status = rw_status r, pr_priceAtomic = qn_priceAtomic q,
       pr_task = qn_task q, pr_taskInputDigest = qn_taskDigest q, pr_evidence = chain_evidence r,
       pr_providerAddress = pl_providerAddress l, pr_providerBinding = pl_binding l, pr_chainId = qn_chainId q,
       pr_commerceContract = qn_commerceContract q, pr_paymentToken = qn_paymentToken q, pr_paymentDecimals = qn_paymentDecimals q,
       pr_readiness = (pl_readiness l)\<lparr>rd_priceAtomic := qn_priceAtomic q\<rparr>\<rparr>)"

definition saved_offer_ok :: "reservation_env \<Rightarrow> quote_snapshot \<Rightarrow> priced_listing \<Rightarrow> commerce_exn + unit" where
  "saved_offer_ok en q l = (case qn_externalSeller q of
     Some x \<Rightarrow> (case en_parseOffer en (xs_signedOffer x) of None \<Rightarrow> Inl CommerceSchemaError | Some offer \<Rightarrow>
       (case Option.bind (en_resolver en) rv_verifySavedOffer of None \<Rightarrow> Inl (failure INVALID_QUOTE ''reload_quote'') | Some verify \<Rightarrow>
          bindE (ensure (qn_task q = eo_signedDescription offer \<and> qn_taskDigest q = eo_descriptionDigest offer
             \<and> qn_priceAtomic q = eo_priceAtomic offer \<and> xs_requestedTask x = eo_requestedTask offer
             \<and> qn_expiresAt q = eo_expiresAtUnix offer * 1000) (failure INVALID_QUOTE ''reload_quote'')) (\<lambda>_.
          verify (pl_readiness l) offer)))
   | None \<Rightarrow> ensure (pin_chainId (en_pin en) \<noteq> 56) (failure INVALID_QUOTE ''reload_quote''))"

definition reservation_row_of :: "string \<Rightarrow> string \<Rightarrow> reservation_db \<Rightarrow> reservation_row option" where
  "reservation_row_of job buyer db = find (\<lambda>r. rw_id r = job \<and> rw_buyer_user_id r = Some buyer) (db_jobs db)"

definition resolve_op :: "reservation_env \<Rightarrow> int \<Rightarrow> resolve_input \<Rightarrow> reservation_db \<Rightarrow> commerce_exn + reservation_parent option" where
  "resolve_op en clock i db = (case reservation_row_of (ri_commerceJobId i) (ri_buyerUserId i) db of None \<Rightarrow> Inr None | Some r \<Rightarrow>
     bindE (parseReservationRow en r) (\<lambda>q.
     if \<not> unpaid r then Inr None else
     bindE (case ri_task i of None \<Rightarrow> Inr () | Some t \<Rightarrow> bindE (digestTask en t) (\<lambda>d.
              ensure (d = qn_taskDigest q) (failure INVALID_QUOTE ''reload_quote''))) (\<lambda>_.
     bindE (ensure (case ri_budgetAtomic i of None \<Rightarrow> True | Some b \<Rightarrow> b = qn_priceAtomic q) (failure INVALID_QUOTE ''reload_quote'')) (\<lambda>_.
     bindE (case en_listingByAgent en (rw_provider_agent_id r) of None \<Rightarrow> Inl (failure STALE_JOB ''reload_listing'') | Some x \<Rightarrow> Inr x) (\<lambda>row.
     bindE (rowToListing (en_platform en) row (en_pin en)) (\<lambda>l.
     bindE (assertProviderReadiness en l) (\<lambda>_.
     bindE (saved_offer_ok en q l) (\<lambda>_.
     bindE (assertQuoteStillCurrent en q l (clock div 1000)) (\<lambda>_.
     bindE (ensure (ri_chainId i = pin_chainId (en_pin en) \<and> js_lower (ri_commerceContract i) = js_lower (pin_commerceContract (en_pin en))
         \<and> js_lower (ri_paymentToken i) = js_lower (pin_paymentToken (en_pin en)) \<and> ri_paymentDecimals i = pin_paymentDecimals (en_pin en))
         (failure ONCHAIN_MISMATCH ''verify_standards_lock'')) (\<lambda>_.
     bindE (reservationParent r q l) (\<lambda>p. Inr (Some p))))))))))))"

section \<open>Claiming\<close>

definition claim_checks :: "reservation_env \<Rightarrow> int \<Rightarrow> reservation_row \<Rightarrow> commerce_exn + unit" where
  "claim_checks en clock r =
     bindE (parseReservationRow en r) (\<lambda>q.
     bindE (ensure (clock < qn_expiresAt q) (failure STALE_JOB ''reload_quote'')) (\<lambda>_.
     bindE (ensure (unpaid r) (failure STALE_JOB ''reload_quote'')) (\<lambda>_.
     ensure (\<forall>h \<in> set (chain_evidence r). h = None) (failure STALE_JOB ''reload_quote''))))"

definition claim_op :: "reservation_env \<Rightarrow> int \<Rightarrow> string \<Rightarrow> string \<Rightarrow> reservation_db \<Rightarrow> (commerce_exn + unit) \<times> reservation_db" where
  "claim_op en clock job buyer db = (case reservation_row_of job buyer db of
     None \<Rightarrow> (Inl (failure UNKNOWN_JOB ''reload_quote''), db)
   | Some r \<Rightarrow> (case claim_checks en clock r of Inl e \<Rightarrow> (Inl (safe_error e), db) | Inr _ \<Rightarrow>
       (Inr (), db\<lparr>db_jobs := map (\<lambda>x. if rw_id x = job \<and> rw_buyer_user_id x = Some buyer \<and> rw_status x = StDraft
           then x\<lparr>rw_status := StNegotiating\<rparr> else x) (db_jobs db)\<rparr>)))"

end
