(* ===== verification/Reservation_Properties.thy ===== *)
theory Reservation_Properties
  imports Reservation_Operations Commerce_Examples
begin

text \<open>
  The properties of reservations: what a resolved reservation is bound to, that a request is quoted once, what every
  operation keeps of a row, and the capacity of the reference provider.
\<close>

section \<open>Snapshots\<close>

lemma identity_schema_stable:
  "erc8004IdentitySchema i = Inr j \<Longrightarrow> erc8004IdentitySchema j = Inr j"
  by (auto simp: erc8004IdentitySchema_def Let_def split: if_splits)

lemma identity_schema_key:
  assumes "erc8004IdentitySchema i = Inr j"
  shows "erc8004IdentityKey j = erc8004IdentityKey i" "\<exists>k. erc8004IdentityKey i = Inr k"
proof -
  have j: "j = i\<lparr>id_namespace := js_trim (id_namespace i)\<rparr>" and r: "evmAddressSchema (id_registry i)"
    using assms by (auto simp: erc8004IdentitySchema_def Let_def split: if_splits)
  show "erc8004IdentityKey j = erc8004IdentityKey i"
    using identity_schema_stable [OF assms] by (simp add: erc8004IdentityKey_def normalizeErc8004Identity_def assms)
  show "\<exists>k. erc8004IdentityKey i = Inr k"
    using r by (simp add: erc8004IdentityKey_def normalizeErc8004Identity_def assms normalizeEvmAddress_def j)
qed

lemma text_between_trim [simp]: "text_between n (js_trim s) = text_between n s"
  by (simp add: text_between_def)

lemma nullable_map_option [simp]: "nullable p (map_option f x) = nullable (\<lambda>y. p (f y)) x"
  by (cases x) simp_all

lemma snapshot_schema_Inr:
  assumes "commerceQuoteSnapshotSchema pf s = Inr q"
  shows "\<exists>j. erc8004IdentitySchema (qn_identity s) = Inr j
    \<and> q = s\<lparr>qn_agentIdentifier := js_trim (qn_agentIdentifier s), qn_identity := j,
       qn_service := (qn_service s)\<lparr>qs_protocolVersion := js_trim (qs_protocolVersion (qn_service s))\<rparr>,
       qn_tokenSymbol := map_option js_trim (qn_tokenSymbol s), qn_task := js_trim (qn_task s)\<rparr>"
  using assms by (auto simp: commerceQuoteSnapshotSchema_def)

lemma snapshot_stable:
  assumes "commerceQuoteSnapshotSchema pf s = Inr q"
  shows "commerceQuoteSnapshotSchema pf q = Inr q"
proof -
  from snapshot_schema_Inr [OF assms] obtain j where j: "erc8004IdentitySchema (qn_identity s) = Inr j"
    and q: "q = s\<lparr>qn_agentIdentifier := js_trim (qn_agentIdentifier s), qn_identity := j,
       qn_service := (qn_service s)\<lparr>qs_protocolVersion := js_trim (qs_protocolVersion (qn_service s))\<rparr>,
       qn_tokenSymbol := map_option js_trim (qn_tokenSymbol s), qn_task := js_trim (qn_task s)\<rparr>" by blast
  have m: "map_option js_trim (map_option js_trim x) = map_option js_trim x" for x by (cases x) simp_all
  from assms show ?thesis
    by (simp add: commerceQuoteSnapshotSchema_def q j identity_schema_stable [OF j] m)
qed

section \<open>Quotes\<close>

lemma prepare_quote_Inr:
  assumes "prepare_quote en clock uuid agent0 task0 = Inr (task, row, l, snapshot)"
  shows "\<exists>agent offer digest. commerceQuoteRequestSchema agent0 task0 = Inr (agent, task) \<and> en_listingByIdentifier en agent = Some row
    \<and> rowToListing (en_platform en) row (en_pin en) = Inr l \<and> assertProviderReadiness en l = Inr ()
    \<and> negotiate_offer en l task = Inr offer
    \<and> digestTask en (case offer of None \<Rightarrow> task | Some x \<Rightarrow> eo_signedDescription x) = Inr digest
    \<and> commerceQuoteSnapshotSchema (en_platform en) (snapshot_of en (clock div 1000) uuid agent task l offer digest) = Inr snapshot"
  using assms by (auto simp: prepare_quote_def split: prod.splits option.splits)

lemma rowToListing_Inr:
  assumes "rowToListing pf r pin = Inr l"
  shows "assertLiveListing r = Inr ()" "identityFromListing r = Inr (pl_identity l)" "id_chainId (pl_identity l) = pin_chainId pin"
    "providerFromListing r = Inr (pl_providerAddress l, pl_persistedWallet l)"
    "parsePersistedPricing pf (lr_pricing_manifest r) pin = Inr (pl_price l)"
  using assms by (auto simp: rowToListing_def Let_def split: option.splits prod.splits)

lemma optionalAtomic_decimal: "optionalAtomic v = Inr (Some s) \<Longrightarrow> is_decimal s"
  by (cases v) (auto simp: optionalAtomic_def split: if_splits)


lemma newest_single [simp]: "newest [r] = Some r"
  by (simp add: newest_def)

lemma newest_empty [simp]: "newest [] = None"
  by (simp add: newest_def)

section \<open>The rows a request finds\<close>

lemma sorted_last_max:
  fixes f :: "'a \<Rightarrow> 'b::linorder"
  assumes "sorted (map f xs)" "x \<in> set xs"
  shows "f x \<le> f (last xs)"
  using assms by (induction xs) (auto simp: sorted_append)

lemma newest_eq_None [simp]: "newest rows = None \<longleftrightarrow> rows = []"
  by (auto simp: newest_def split: list.splits dest: arg_cong [where f = length])

lemma newest_Some:
  assumes "newest rows = Some r"
  shows "sort_key (\<lambda>r. (rw_createdAt r, rw_id r)) rows \<noteq> []" "r = last (sort_key (\<lambda>r. (rw_createdAt r, rw_id r)) rows)"
  using assms by (auto simp: newest_def split: list.splits)

lemma newest_max:
  assumes "newest rows = Some r"
  shows "r \<in> set rows" "x \<in> set rows \<Longrightarrow> rw_createdAt x \<le> rw_createdAt r"
proof -
  show "r \<in> set rows" using last_in_set [OF newest_Some(1) [OF assms]] newest_Some(2) [OF assms] by simp
  assume "x \<in> set rows"
  then have "(rw_createdAt x, rw_id x) \<le> (rw_createdAt r, rw_id r)"
    unfolding newest_Some(2) [OF assms] by (intro sorted_last_max) simp_all
  then show "rw_createdAt x \<le> rw_createdAt r" by auto
qed

lemma newest_last:
  assumes "\<And>x. x \<in> set rows \<Longrightarrow> rw_createdAt x < rw_createdAt r"
  shows "newest (rows @ [r]) = Some r"
proof (cases "newest (rows @ [r])")
  case (Some x)
  from newest_max(2) [OF Some, of r] newest_max(1) [OF Some] assms [of x] show ?thesis
    using Some by auto
qed simp

section \<open>Sequences of operations\<close>

lemma prepare_quote_snapshot:
  assumes "prepare_quote en clock uuid agent task0 = Inr (task, row, l, q)"
  shows "qn_quoteId q = uuid" "qn_issuedAt q = clock div 1000 * 1000"
    "commerceQuoteSnapshotSchema (en_platform en) q = Inr q"
proof -
  obtain agent' offer digest where "commerceQuoteSnapshotSchema (en_platform en) (snapshot_of en (clock div 1000) uuid agent' task l offer digest) = Inr q"
    using prepare_quote_Inr [OF assms] by blast
  from snapshot_schema_Inr [OF this] snapshot_stable [OF this]
  show "qn_quoteId q = uuid" "qn_issuedAt q = clock div 1000 * 1000" "commerceQuoteSnapshotSchema (en_platform en) q = Inr q"
    by (auto simp: snapshot_of_def)
qed

definition new_row :: "string \<Rightarrow> string \<Rightarrow> quote_snapshot \<Rightarrow> reservation_row" where
  "new_row buyer agent q = \<lparr>rw_id = qn_quoteId q, rw_erc8183_job_id = ''draft:'' @ qn_quoteId q,
     rw_buyer_user_id = Some buyer, rw_provider_agent_id = agent, rw_quote = Some q,
     rw_price = qn_priceAtomic q, rw_task_input_digest = qn_taskDigest q, rw_status = StDraft,
     rw_funding_transaction_hash = None, rw_fulfillment_transaction_hash = None, rw_dispute_transaction_hash = None,
     rw_settlement_transaction_hash = None, rw_createdAt = qn_issuedAt q\<rparr>"

definition existing_row :: "reservation_env \<Rightarrow> int \<Rightarrow> string \<Rightarrow> string \<Rightarrow> listing_row \<Rightarrow> priced_listing \<Rightarrow> quote_snapshot
    \<Rightarrow> reservation_db \<Rightarrow> commerce_exn + quote_snapshot option" where
  "existing_row en clock buyer task row l q db =
     (case newest (filter (same_request buyer (lr_agent_id row) (qn_taskDigest q) task (pb_agentVersionId (pl_binding l))) (db_jobs db)) of
        None \<Rightarrow> Inr None | Some r \<Rightarrow> reuse_row en (clock div 1000) row r)"

definition stored_quote :: "reservation_env \<Rightarrow> int \<Rightarrow> string \<Rightarrow> listing_row \<Rightarrow> priced_listing \<Rightarrow> quote_snapshot
    \<Rightarrow> reservation_db \<Rightarrow> reservation_db \<Rightarrow> bool" where
  "stored_quote en clock buyer row l q db db' \<longleftrightarrow> qn_quoteId q \<notin> rw_id ` set (db_jobs db)
     \<and> (if id_chainId (pl_identity l) = 97 \<and> id_agentId (pl_identity l) = ''2293''
        then reserveReferenceCapacity en clock q (db\<lparr>db_jobs := db_jobs db @ [new_row buyer (lr_agent_id row) q]\<rparr>) = Inr db'
        else db\<lparr>db_jobs := db_jobs db @ [new_row buyer (lr_agent_id row) q]\<rparr> = db')"

lemma quote_transaction_existing:
  "quote_transaction en clock buyer task row l q db = bindE (existing_row en clock buyer task row l q db) (\<lambda>existing.
     case existing of Some s \<Rightarrow> Inr (s, db) | None \<Rightarrow>
     bindE (ensure (qn_quoteId q \<notin> rw_id ` set (db_jobs db)) CommerceTypeError) (\<lambda>_.
     bindE (if id_chainId (pl_identity l) = 97 \<and> id_agentId (pl_identity l) = ''2293''
            then reserveReferenceCapacity en clock q (db\<lparr>db_jobs := db_jobs db @ [new_row buyer (lr_agent_id row) q]\<rparr>)
            else Inr (db\<lparr>db_jobs := db_jobs db @ [new_row buyer (lr_agent_id row) q]\<rparr>)) (\<lambda>db''. Inr (q, db''))))"
  unfolding quote_transaction_def existing_row_def [symmetric] new_row_def [symmetric] Let_def by (rule refl)

lemma quote_transaction_Inr:
  "quote_transaction en clock buyer task row l q db = Inr (s, db') \<longleftrightarrow>
     existing_row en clock buyer task row l q db = Inr (Some s) \<and> db' = db
     \<or> existing_row en clock buyer task row l q db = Inr None \<and> s = q \<and> stored_quote en clock buyer row l q db db'"
  unfolding quote_transaction_existing stored_quote_def bindE_eq_Inr by (auto split: option.splits if_splits)

lemma quote_op_Inr:
  "quote_op en clock uuid buyer agent task0 db = (Inr s, db') \<longleftrightarrow>
     (\<exists>task row l q. prepare_quote en clock uuid agent task0 = Inr (task, row, l, q)
        \<and> quote_transaction en clock buyer task row l q db = Inr (s, db'))"
  by (auto simp: quote_op_def split: sum.splits prod.splits)

lemma quote_op_Inl: "quote_op en clock uuid buyer agent task db = (Inl e, db') \<Longrightarrow> db' = db"
  by (auto simp: quote_op_def split: sum.splits prod.splits)

lemma reserve_Inr:
  "reserveReferenceCapacity en clock q db = Inr db' \<longleftrightarrow> reference_offer q \<and> cy_ready (readReferenceCapacity en clock db)
     \<and> (let slot = cy_admitted (readReferenceCapacity en clock db) + 1 in
        slot \<le> 3 \<and> slot \<notin> sl_slot ` set (db_slots db) \<and> qn_quoteId q \<notin> sl_commerce_job_id ` set (db_slots db)
        \<and> db' = db\<lparr>db_slots := db_slots db @ [\<lparr>sl_slot = slot, sl_commerce_job_id = qn_quoteId q,
            sl_gas_reserved = allowance_gasReservation, sl_transaction_hash = None\<rparr>]\<rparr>)"
  by (auto simp: reserveReferenceCapacity_def Let_def)

lemma capacity_admitted: "cy_ready (readReferenceCapacity en clock db) \<Longrightarrow> cy_admitted (readReferenceCapacity en clock db) = length (db_slots db)"
  by (auto simp: readReferenceCapacity_def Let_def unavailable_def split: option.splits if_splits)

lemma quote_op_cases:
  assumes "quote_op en clock uuid buyer agent task0 db = (x, db')"
  obtains "db' = db"
  | provider q where "commerceQuoteSnapshotSchema (en_platform en) q = Inr q" "qn_quoteId q \<notin> rw_id ` set (db_jobs db)"
      "db_jobs db' = db_jobs db @ [new_row buyer provider q]" "db_allowance db' = db_allowance db"
      "db_slots db' = db_slots db \<or> cy_ready (readReferenceCapacity en clock db) \<and> length (db_slots db) < 3
         \<and> qn_quoteId q \<notin> sl_commerce_job_id ` set (db_slots db)
         \<and> db_slots db' = db_slots db @ [\<lparr>sl_slot = length (db_slots db) + 1, sl_commerce_job_id = qn_quoteId q,
            sl_gas_reserved = allowance_gasReservation, sl_transaction_hash = None\<rparr>]"
proof (cases x)
  case (Inl e)
  then show ?thesis using quote_op_Inl assms that(1) by blast
next
  case (Inr s)
  with assms obtain task row l q where p: "prepare_quote en clock uuid agent task0 = Inr (task, row, l, q)"
    and c: "db' = db \<or> stored_quote en clock buyer row l q db db'"
    unfolding Inr quote_op_Inr quote_transaction_Inr by blast
  have jobs: "readReferenceCapacity en clock (db\<lparr>db_jobs := js\<rparr>) = readReferenceCapacity en clock db" for js
    by (cases "db_allowance db") (simp_all add: readReferenceCapacity_def Let_def)
  show ?thesis
  proof (cases "db' = db")
    case False
    with c have st: "stored_quote en clock buyer row l q db db'" by blast
    show ?thesis
    proof (rule that(2) [OF prepare_quote_snapshot(3) [OF p], of "lr_agent_id row"])
      show "qn_quoteId q \<notin> rw_id ` set (db_jobs db)" using st by (simp add: stored_quote_def)
      show "db_jobs db' = db_jobs db @ [new_row buyer (lr_agent_id row) q]" "db_allowance db' = db_allowance db"
        using st by (auto simp: stored_quote_def reserve_Inr Let_def split: if_splits)
      show "db_slots db' = db_slots db \<or> cy_ready (readReferenceCapacity en clock db) \<and> length (db_slots db) < 3
         \<and> qn_quoteId q \<notin> sl_commerce_job_id ` set (db_slots db)
         \<and> db_slots db' = db_slots db @ [\<lparr>sl_slot = length (db_slots db) + 1, sl_commerce_job_id = qn_quoteId q,
            sl_gas_reserved = allowance_gasReservation, sl_transaction_hash = None\<rparr>]"
        using st by (auto simp: stored_quote_def reserve_Inr jobs Let_def capacity_admitted split: if_splits)
    qed
  qed (rule that(1))
qed

section \<open>Invariants\<close>

text \<open>
  What every quote and claim, under any configuration, clock and marketplace, keeps of the tables. The platform, that is
  the schemas, is fixed.
\<close>

inductive reservation_step :: "reservation_platform \<Rightarrow> reservation_db \<Rightarrow> reservation_db \<Rightarrow> bool" for pf where
  quoted: "\<lbrakk>en_platform en = pf; quote_op en clock uuid buyer agent task db = (x, db')\<rbrakk> \<Longrightarrow> reservation_step pf db db'"
| claimed: "\<lbrakk>en_platform en = pf; claim_op en clock job buyer db = (y, db')\<rbrakk> \<Longrightarrow> reservation_step pf db db'"

inductive_cases reservation_stepE: "reservation_step pf db db'"

definition row_sound :: "reservation_platform \<Rightarrow> reservation_row \<Rightarrow> bool" where
  "row_sound pf r \<longleftrightarrow> (\<exists>q. rw_quote r = Some q \<and> commerceQuoteSnapshotSchema pf q = Inr q \<and> rw_id r = qn_quoteId q
     \<and> rw_price r = qn_priceAtomic q \<and> rw_task_input_digest r = qn_taskDigest q \<and> rw_createdAt r = qn_issuedAt q)
     \<and> unpaid r \<and> list_all (\<lambda>h. h = None) (chain_evidence r) \<and> rw_buyer_user_id r \<noteq> None"

definition db_sound :: "reservation_platform \<Rightarrow> reservation_db \<Rightarrow> bool" where
  "db_sound pf db \<longleftrightarrow> distinct (map rw_id (db_jobs db)) \<and> list_all (row_sound pf) (db_jobs db)
     \<and> map sl_slot (db_slots db) = [1..<length (db_slots db) + 1] \<and> length (db_slots db) \<le> 3
     \<and> list_all (\<lambda>s. sl_gas_reserved s = allowance_gasReservation) (db_slots db)
     \<and> distinct (map sl_commerce_job_id (db_slots db))
     \<and> set (map sl_commerce_job_id (db_slots db)) \<subseteq> set (map rw_id (db_jobs db))"

lemma new_row_id [simp]: "rw_id (new_row buyer agent q) = qn_quoteId q"
  by (simp add: new_row_def)

lemma new_row_sound: "commerceQuoteSnapshotSchema pf q = Inr q \<Longrightarrow> row_sound pf (new_row buyer agent q)"
  by (simp add: row_sound_def new_row_def unpaid_def chain_evidence_def)

lemma quote_sound:
  assumes "db_sound pf db" "en_platform en = pf" "quote_op en clock uuid buyer agent task db = (x, db')"
  shows "db_sound pf db'"
  using assms(3)
proof (cases rule: quote_op_cases)
  case (2 provider q)
  note s = assms(1) [unfolded db_sound_def]
  have jobs: "distinct (map rw_id (db_jobs db'))" "list_all (row_sound pf) (db_jobs db')"
    "set (map rw_id (db_jobs db)) \<subseteq> set (map rw_id (db_jobs db'))" "qn_quoteId q \<in> set (map rw_id (db_jobs db'))"
    using s 2(1,2) assms(2) by (auto simp: 2(3) new_row_sound)
  show ?thesis
  proof (cases "db_slots db' = db_slots db")
    case True
    then show ?thesis using s jobs unfolding db_sound_def by simp blast
  next
    case False
    with 2(5) have slots: "length (db_slots db) < 3" "qn_quoteId q \<notin> sl_commerce_job_id ` set (db_slots db)"
      "db_slots db' = db_slots db @ [\<lparr>sl_slot = length (db_slots db) + 1, sl_commerce_job_id = qn_quoteId q,
            sl_gas_reserved = allowance_gasReservation, sl_transaction_hash = None\<rparr>]" by simp_all
    have "map sl_slot (db_slots db') = [1..<length (db_slots db') + 1]" using s by (simp add: slots(3))
    moreover have "set (map sl_commerce_job_id (db_slots db')) \<subseteq> set (map rw_id (db_jobs db'))"
      using s jobs(3,4) by (simp add: slots(3)) blast
    ultimately show ?thesis using s jobs(1,2) slots(1,2) unfolding db_sound_def by (simp add: slots(3))
  qed
qed (use assms in simp)

definition claimed_row :: "string \<Rightarrow> string \<Rightarrow> reservation_row \<Rightarrow> reservation_row" where
  "claimed_row job buyer x = (if rw_id x = job \<and> rw_buyer_user_id x = Some buyer \<and> rw_status x = StDraft
     then x\<lparr>rw_status := StNegotiating\<rparr> else x)"

lemma claim_op_db: "claim_op en clock job buyer db = (x, db') \<Longrightarrow> db' = db \<or> db' = db\<lparr>db_jobs := map (claimed_row job buyer) (db_jobs db)\<rparr>"
  by (auto simp: claim_op_def claimed_row_def [abs_def] split: option.splits sum.splits)

lemma claimed_row_sound: "row_sound pf r \<Longrightarrow> row_sound pf (claimed_row job buyer r)"
  by (auto simp: row_sound_def claimed_row_def unpaid_def chain_evidence_def)

lemma claimed_row_id [simp]: "rw_id (claimed_row job buyer r) = rw_id r"
  by (simp add: claimed_row_def)

lemma claim_sound:
  assumes "db_sound pf db" "claim_op en clock job buyer db = (x, db')"
  shows "db_sound pf db'"
  using claim_op_db [OF assms(2)] assms(1) by (auto simp: db_sound_def list_all_iff comp_def claimed_row_sound image_image) blast

lemma steps_sound: "(reservation_step pf)\<^sup>*\<^sup>* db db' \<Longrightarrow> db_sound pf db \<Longrightarrow> db_sound pf db'"
  by (induction rule: rtranclp_induct) (auto elim!: reservation_stepE intro: quote_sound claim_sound)

section \<open>Repeated requests\<close>

lemma reuse_row_later:
  assumes "reuse_row en n row r = Inr (Some q)" "n' * 1000 < qn_expiresAt q"
  shows "reuse_row en n' row r = Inr (Some q)"
proof -
  from assms(1) obtain q0 l u where 0: "parseReservationRow en r = Inr q0" "rowToListing (en_platform en) row (en_pin en) = Inr l"
    "assertProviderReadiness en l = Inr u"
    unfolding reuse_row_def bindE_eq_Inr by blast
  from assms(1) have q: "q0 = q" and c: "assertQuoteStillCurrent en q l n = Inr ()"
    by (auto simp: reuse_row_def 0 bindE_eq_Inr split: sum.splits commerce_exn.splits if_splits)
  from c assms(2) have "assertQuoteStillCurrent en q l n' = assertQuoteStillCurrent en q l n"
    by (auto simp: assertQuoteStillCurrent_def)
  then show ?thesis using assms(1) by (simp add: reuse_row_def 0 q)
qed

lemma negotiate_none: "id_chainId (pl_identity l) \<noteq> 56 \<Longrightarrow> negotiate_offer en l task = Inr None"
  by (simp add: negotiate_offer_def)

lemma snapshot_current:
  assumes p: "prepare_quote en clock uuid agent task0 = Inr (task, row, l, q)" and c: "pin_chainId (en_pin en) \<noteq> 56"
    and n: "n * 1000 < qn_expiresAt q"
  shows "digestTask en task = Inr (qn_taskDigest q)" "assertQuoteStillCurrent en q l n = Inr ()" "qn_externalSeller q = None"
    "assertProviderReadiness en l = Inr ()" "rowToListing (en_platform en) row (en_pin en) = Inr l"
    "qn_agentVersionId q = pb_agentVersionId (pl_binding l)"
proof -
  from prepare_quote_Inr [OF p] obtain agent' offer digest where
    r: "rowToListing (en_platform en) row (en_pin en) = Inr l" and a: "assertProviderReadiness en l = Inr ()"
    and o: "negotiate_offer en l task = Inr offer"
    and d: "digestTask en (case offer of None \<Rightarrow> task | Some x \<Rightarrow> eo_signedDescription x) = Inr digest"
    and s: "commerceQuoteSnapshotSchema (en_platform en) (snapshot_of en (clock div 1000) uuid agent' task l offer digest) = Inr q"
    by blast
  have "id_chainId (pl_identity l) \<noteq> 56" using rowToListing_Inr(3) [OF r] c by simp
  then have n0: "offer = None" using o negotiate_none by auto
  from rowToListing_Inr(2) [OF r] have i: "erc8004IdentitySchema (pl_identity l) = Inr (pl_identity l)"
    by (auto simp: identityFromListing_def from_schema_def dest: identity_schema_stable split: sum.splits)
  obtain k where k: "erc8004IdentityKey (pl_identity l) = Inr k" using identity_schema_key(2) [OF i] by blast
  from snapshot_schema_Inr [OF s]
  have q: "q = (snapshot_of en (clock div 1000) uuid agent' task l offer digest)\<lparr>qn_agentIdentifier := js_trim agent',
     qn_service := (pl_service l)\<lparr>qs_protocolVersion := js_trim (qs_protocolVersion (pl_service l))\<rparr>,
     qn_tokenSymbol := map_option js_trim (pz_tokenSymbol (pl_price l)), qn_task := js_trim task\<rparr>"
    by (auto simp: snapshot_of_def i n0)
  show "digestTask en task = Inr (qn_taskDigest q)" "qn_externalSeller q = None"
    "qn_agentVersionId q = pb_agentVersionId (pl_binding l)" using d by (simp_all add: q n0 snapshot_of_def)
  show "assertQuoteStillCurrent en q l n = Inr ()"
    using n k by (simp add: assertQuoteStillCurrent_def q snapshot_of_def n0 from_schema_def)
  show "assertProviderReadiness en l = Inr ()" "rowToListing (en_platform en) row (en_pin en) = Inr l" by (fact a, fact r)
qed

lemma prepare_quote_same:
  assumes p: "prepare_quote en clock uuid agent task0 = Inr (task, row, l, q)"
    and p': "prepare_quote en clock' uuid' agent task0 = Inr (task', row', l', q')"
  shows "task' = task" "row' = row" "l' = l"
  using prepare_quote_Inr [OF p] prepare_quote_Inr [OF p'] by auto

lemma existing_row_digest: "qn_taskDigest q = qn_taskDigest q' \<Longrightarrow>
  existing_row en clock buyer task row l q db = existing_row en clock buyer task row l q' db"
  by (simp add: existing_row_def)

lemma parse_new_row:
  "commerceQuoteSnapshotSchema (en_platform en) q = Inr q \<Longrightarrow> parseReservationRow en (new_row buyer agent q) = Inr q"
  by (simp add: parseReservationRow_def new_row_def)

lemma reuse_new_row:
  assumes p: "prepare_quote en clock uuid agent task0 = Inr (task, row, l, q)" and c: "pin_chainId (en_pin en) \<noteq> 56"
    and n: "n * 1000 < qn_expiresAt q"
  shows "reuse_row en n row (new_row buyer (lr_agent_id row) q) = Inr (Some q)"
  by (simp add: reuse_row_def parse_new_row prepare_quote_snapshot(3) [OF p] snapshot_current [OF p c n])

lemma quote_transaction_repeat:
  assumes p: "prepare_quote en clock uuid agent task0 = Inr (task, row, l, s)"
    and t: "quote_transaction en clock buyer task row l s db = Inr (q, db1)" and c: "pin_chainId (en_pin en) \<noteq> 56"
    and older: "\<forall>r \<in> set (db_jobs db). rw_createdAt r < clock div 1000 * 1000" and fresh: "clock' div 1000 * 1000 < qn_expiresAt q"
  shows "existing_row en clock' buyer task row l s db1 = Inr (Some q)"
  using t unfolding quote_transaction_Inr
proof (elim disjE conjE)
  assume e: "existing_row en clock buyer task row l s db = Inr (Some q)" and d: "db1 = db"
  then obtain r where r: "newest (filter (same_request buyer (lr_agent_id row) (qn_taskDigest s) task (pb_agentVersionId (pl_binding l))) (db_jobs db)) = Some r"
    "reuse_row en (clock div 1000) row r = Inr (Some q)"
    by (auto simp: existing_row_def split: option.splits)
  with d reuse_row_later [OF r(2) fresh] show ?thesis by (simp add: existing_row_def)
next
  assume s: "q = s" and st: "stored_quote en clock buyer row l s db db1"
  let ?new = "new_row buyer (lr_agent_id row) s"
  let ?match = "same_request buyer (lr_agent_id row) (qn_taskDigest s) task (pb_agentVersionId (pl_binding l))"
  from st have jobs: "db_jobs db1 = db_jobs db @ [?new]"
    by (auto simp: stored_quote_def reserve_Inr Let_def split: if_splits)
  have m: "?match ?new" by (simp add: same_request_def new_row_def unpaid_def)
  have "newest (filter ?match (db_jobs db) @ [?new]) = Some ?new"
    using older by (intro newest_last) (auto simp: prepare_quote_snapshot(2) [OF p] new_row_def)
  with m have "newest (filter ?match (db_jobs db1)) = Some ?new" by (simp add: jobs)
  then show ?thesis using reuse_new_row [OF p c fresh [unfolded s]] by (simp add: existing_row_def s)
qed

text \<open>A request is quoted once. On a network that needs no signed seller offer, a buyer who asks again for the same
  agent and task before the quote expires gets the first snapshot back and the tables stay as they are, at whatever time
  and with whatever new identifier the request is repeated, and whether the first quote was new or itself reused; the
  rows before the first request must be from earlier seconds and the agent must still be quotable.\<close>

theorem request_quoted_once:
  assumes "quote_op en clock uuid buyer agent task db = (Inr q, db1)" "pin_chainId (en_pin en) \<noteq> 56"
    and "\<forall>r \<in> set (db_jobs db). rw_createdAt r < clock div 1000 * 1000"
    and "clock' div 1000 * 1000 < qn_expiresAt q" "prepare_quote en clock' uuid' agent task = Inr y"
  shows "quote_op en clock' uuid' buyer agent task db1 = (Inr q, db1)"
proof -
  obtain t row l s where p: "prepare_quote en clock uuid agent task = Inr (t, row, l, s)"
    and tr: "quote_transaction en clock buyer t row l s db = Inr (q, db1)"
    using assms(1) unfolding quote_op_Inr by blast
  obtain t' row' l' s' where p': "prepare_quote en clock' uuid' agent task = Inr (t', row', l', s')"
    using assms(5) by (cases y) auto
  note same = prepare_quote_same [OF p p']
  have "digestTask en t = Inr (qn_taskDigest s)" "digestTask en t = Inr (qn_taskDigest s')"
    using snapshot_current(1) [OF p assms(2), of "qn_expiresAt s div 1000 - 1"]
      snapshot_current(1) [OF p' assms(2), of "qn_expiresAt s' div 1000 - 1"] same(1) by simp_all
  then have "existing_row en clock' buyer t row l s' db1 = Inr (Some q)"
    using quote_transaction_repeat [OF p tr assms(2-4)] existing_row_digest [of s s'] by simp
  then show ?thesis unfolding quote_op_Inr quote_transaction_Inr using p' same by blast
qed


text \<open>The reference provider admits at most three jobs. From tables without slots, after any sequence of quotes and
  claims the slots are numbered from 1 without gap, there are at most three, no job has two, every one is of a stored
  reservation, and together they reserve at most the gas budget.\<close>

theorem reference_capacity_bounded:
  assumes "(reservation_step pf)\<^sup>*\<^sup>* db db'" "db_jobs db = []" "db_slots db = []"
  shows "map sl_slot (db_slots db') = [1..<length (db_slots db') + 1] \<and> length (db_slots db') \<le> 3
    \<and> distinct (map sl_commerce_job_id (db_slots db')) \<and> sl_commerce_job_id ` set (db_slots db') \<subseteq> rw_id ` set (db_jobs db')
    \<and> sum_list (map sl_gas_reserved (db_slots db')) \<le> allowance_gasBudget"
proof -
  have s: "db_sound pf db'" using steps_sound [OF assms(1)] assms(2,3) by (simp add: db_sound_def)
  then have "map sl_gas_reserved (db_slots db') = replicate (length (db_slots db')) allowance_gasReservation"
    by (auto simp: db_sound_def list_all_iff intro!: replicate_eqI)
  then have "sum_list (map sl_gas_reserved (db_slots db')) = int (length (db_slots db')) * allowance_gasReservation"
    by (simp add: sum_list_replicate)
  with s show ?thesis by (simp add: db_sound_def allowance_gasReservation_def allowance_gasBudget_def)
qed



lemma reservation_row_ofD:
  "reservation_row_of job buyer db = Some r \<Longrightarrow> r \<in> set (db_jobs db) \<and> rw_id r = job \<and> rw_buyer_user_id r = Some buyer"
  unfolding reservation_row_of_def by (auto simp: find_Some_iff)



section \<open>Claims\<close>

lemma claim_checks_Inr:
  "claim_checks en clock r = Inr u \<longleftrightarrow> (\<exists>q. parseReservationRow en r = Inr q \<and> clock < qn_expiresAt q \<and> unpaid r
     \<and> (\<forall>h \<in> set (chain_evidence r). h = None))"
  by (auto simp: claim_checks_def)

lemma claim_op_Inr:
  "claim_op en clock job buyer db = (Inr (), db1) \<longleftrightarrow> (\<exists>r. reservation_row_of job buyer db = Some r \<and> claim_checks en clock r = Inr ()
     \<and> db1 = db\<lparr>db_jobs := map (claimed_row job buyer) (db_jobs db)\<rparr>)"
  by (auto simp: claim_op_def claimed_row_def [abs_def] split: option.splits sum.splits)

lemma claimed_row_buyer [simp]: "rw_buyer_user_id (claimed_row job buyer r) = rw_buyer_user_id r"
  by (simp add: claimed_row_def)

lemma find_map: "find P (map f xs) = map_option f (find (\<lambda>x. P (f x)) xs)"
  by (induction xs) auto

lemma row_of_claimed: "reservation_row_of job buyer (db\<lparr>db_jobs := map (claimed_row job' buyer') (db_jobs db)\<rparr>)
    = map_option (claimed_row job' buyer') (reservation_row_of job buyer db)"
  by (simp add: reservation_row_of_def find_map)

lemma claimed_row_idem: "claimed_row job buyer (claimed_row job buyer r) = claimed_row job buyer r"
  by (simp add: claimed_row_def)

lemma claimed_row_checks:
  "parseReservationRow en (claimed_row job buyer r) = parseReservationRow en r" "chain_evidence (claimed_row job buyer r) = chain_evidence r"
  "unpaid r \<Longrightarrow> unpaid (claimed_row job buyer r)"
  by (auto simp: parseReservationRow_def claimed_row_def chain_evidence_def unpaid_def split: sum.split)

lemma claimed_single:
  assumes "distinct (map rw_id xs)" "r \<in> set xs" "rw_id r = job" "rw_buyer_user_id r = Some buyer" "unpaid r" "x \<in> set xs"
  shows "claimed_row job buyer x = (if rw_id x = job then x\<lparr>rw_status := StNegotiating\<rparr> else x)"
proof (cases "rw_id x = job")
  case True
  then have "x = r" using assms by (auto simp: distinct_map inj_on_def)
  with assms(3-5) show ?thesis by (auto simp: claimed_row_def unpaid_def)
qed (simp add: claimed_row_def)

text \<open>C33: A successful claim is of an existing row of the buyer, with an intact snapshot that has not expired, unpaid
  and with no transaction hash of any kind; it makes that row negotiating and changes nothing else. It can be repeated: a
  retry before the quote expires succeeds again and changes nothing.\<close>

theorem claim_repeatable:
  assumes "claim_op en clock job buyer db = (Inr (), db1)" "distinct (map rw_id (db_jobs db))"
  shows "\<exists>r q. r \<in> set (db_jobs db) \<and> rw_id r = job \<and> rw_buyer_user_id r = Some buyer \<and> parseReservationRow en r = Inr q
    \<and> clock < qn_expiresAt q \<and> unpaid r \<and> chain_evidence r = [None, None, None, None]
    \<and> db1 = db\<lparr>db_jobs := map (\<lambda>x. if rw_id x = job then x\<lparr>rw_status := StNegotiating\<rparr> else x) (db_jobs db)\<rparr>
    \<and> (\<forall>clock'. clock' < qn_expiresAt q \<longrightarrow> claim_op en clock' job buyer db1 = (Inr (), db1))"
proof -
  obtain r q where r: "reservation_row_of job buyer db = Some r" "parseReservationRow en r = Inr q" "clock < qn_expiresAt q" "unpaid r"
    "\<forall>h \<in> set (chain_evidence r). h = None" and d: "db1 = db\<lparr>db_jobs := map (claimed_row job buyer) (db_jobs db)\<rparr>"
    using assms(1) unfolding claim_op_Inr claim_checks_Inr by blast
  note o = reservation_row_ofD [OF r(1)]
  have m: "map (claimed_row job buyer) (db_jobs db) = map (\<lambda>x. if rw_id x = job then x\<lparr>rw_status := StNegotiating\<rparr> else x) (db_jobs db)"
    by (intro map_cong refl claimed_single [OF assms(2) _ _ _ r(4)]) (use o in simp_all)
  have e: "chain_evidence r = [None, None, None, None]" using r(5) by (simp add: chain_evidence_def)
  have again: "claim_op en clock' job buyer db1 = (Inr (), db1)" if "clock' < qn_expiresAt q" for clock'
    unfolding claim_op_Inr claim_checks_Inr d row_of_claimed r(1) using r that
    by (auto simp: claimed_row_checks comp_def claimed_row_idem)
  show ?thesis
    by (intro exI [of _ r] exI [of _ q] conjI) (use o r e d m again in simp_all)
qed

section \<open>A quoted task\<close>

definition shop_platform :: reservation_platform where
  "shop_platform = \<lparr>rp_runtime = \<lparr>sha256 = (\<lambda>s. replicate 64 CHR ''a''), uuid_schema = (\<lambda>s. length s = 36), parse_url = (\<lambda>_. None)\<rparr>,
     rp_url = (\<lambda>s. if s = ''https://shop'' then Some \<lparr>wu_protocol = ''https:'', wu_username = [], wu_password = [], wu_hash = [],
        wu_host = ''shop'', wu_text = ''https://shop''\<rparr> else None), rp_number = (\<lambda>_. None)\<rparr>"

definition shop_row :: listing_row where
  "shop_row = \<lparr>lr_agent_id = ''a1'', lr_namespace = ''eip155'', lr_chain_id = 97, lr_identity_registry = demo_address CHR ''3'',
     lr_agent_identity_id = ''7'', lr_owner_address = None, lr_owner_observed_block = JNull, lr_agent_wallet = Some (demo_address CHR ''4''),
     lr_agent_wallet_observed_block = JNull, lr_identity_observed_block = JNumber 5, lr_identity_observed_block_hash = None,
     lr_identity_read_consistency = Some ''finalized'', lr_listing_status = ''published'', lr_verification_status = ''verified'',
     lr_runtime_status = ''live'', lr_authority_status = ''active'', lr_execution_wallet = None,
     lr_agent_version_id = replicate 36 CHR ''b'', lr_agent_version = 1,
     lr_pricing_manifest = JObject [(''model'', JString ''fixed''), (''network'', JNumber 97), (''tokenAddress'', JString (demo_address CHR ''2'')),
       (''decimals'', JNumber 18), (''amountAtomic'', JString ''100'')],
     lr_service_kind = ServiceA2a, lr_service_url = ''https://shop'', lr_service_protocol_version = ''1'', lr_service_observed_at = 0,
     lr_probe_observed_at = 0\<rparr>"

definition shop_env :: reservation_env where
  "shop_env = \<lparr>en_platform = shop_platform, en_pin = demo_pin, en_resolver = None, en_quoteLifetimeSeconds = 600,
     en_listingByIdentifier = (\<lambda>_. Some shop_row), en_listingByAgent = (\<lambda>_. Some shop_row), en_referenceAgentId = None,
     en_admissionEnabled = False, en_referenceTask = (\<lambda>_. None), en_sellerProfile = (\<lambda>_. None), en_offerText = (\<lambda>_. []),
     en_parseOffer = (\<lambda>_. None), en_completed = 0\<rparr>"

definition empty_shop :: reservation_db where
  "empty_shop = \<lparr>db_jobs = [], db_slots = [], db_allowance = None\<rparr>"

definition shop_snapshot :: quote_snapshot where
  "shop_snapshot = \<lparr>qn_quoteId = replicate 36 CHR ''c'', qn_agentIdentifier = ''agent'',
     qn_identity = \<lparr>id_namespace = ''eip155'', id_chainId = 97, id_registry = demo_address CHR ''3'', id_agentId = ''7''\<rparr>,
     qn_agentVersionId = replicate 36 CHR ''b'', qn_agentVersion = 1, qn_providerAddress = demo_address CHR ''4'', qn_persistedWallet = False,
     qn_service = \<lparr>qs_kind = ServiceA2a, qs_url = ''https://shop'', qs_protocolVersion = ''1'', qs_observedAt = 0, qs_probeObservedAt = 0\<rparr>,
     qn_chainId = 97, qn_commerceContract = demo_address CHR ''1'', qn_paymentToken = demo_address CHR ''2'', qn_paymentDecimals = 18,
     qn_tokenSymbol = None, qn_priceAtomic = ''100'', qn_task = ''task'', qn_taskDigest = replicate 64 CHR ''a'', qn_externalSeller = None,
     qn_issuedAt = 100000, qn_expiresAt = 700000\<rparr>"

definition shop_db :: "commerce_status \<Rightarrow> reservation_db" where
  "shop_db s = empty_shop\<lparr>db_jobs := [(new_row ''buyer'' ''a1'' shop_snapshot)\<lparr>rw_status := s\<rparr>]\<rparr>"

lemma shop_quoted: "quote_op shop_env 100000 (replicate 36 CHR ''c'') ''buyer'' ''agent'' ''task'' empty_shop = (Inr shop_snapshot, shop_db StDraft)"
  by code_simp

lemma shop_prepared: "case prepare_quote shop_env 200000 (replicate 36 CHR ''d'') ''agent'' ''task'' of Inr _ \<Rightarrow> True | Inl _ \<Rightarrow> False"
  by code_simp

lemma shop_claimed: "claim_op shop_env 200000 (replicate 36 CHR ''c'') ''buyer'' (shop_db StDraft) = (Inr (), shop_db StNegotiating)"
  by code_simp

lemma shop_parsed: "parseReservationRow shop_env ((new_row ''buyer'' ''a1'' shop_snapshot)\<lparr>rw_status := StDraft\<rparr>) = Inr shop_snapshot"
  by code_simp



text \<open>The shop is quoted, the request is repeated, the quote is claimed and resolved.\<close>

lemma shop_steps: "(reservation_step (en_platform shop_env))\<^sup>*\<^sup>* empty_shop (shop_db StNegotiating)"
proof -
  have "reservation_step (en_platform shop_env) empty_shop (shop_db StDraft)" by (rule quoted [OF refl shop_quoted])
  moreover have "reservation_step (en_platform shop_env) (shop_db StDraft) (shop_db StNegotiating)" by (rule claimed [OF refl shop_claimed])
  ultimately show ?thesis by (meson converse_rtranclp_into_rtranclp r_into_rtranclp)
qed

lemma shop_empty: "db_jobs empty_shop = []" "db_slots empty_shop = []"
  by (simp_all add: empty_shop_def)

theorem request_quoted_once_witness:
  "quote_op shop_env 200000 (replicate 36 CHR ''d'') ''buyer'' ''agent'' ''task'' (shop_db StDraft) = (Inr shop_snapshot, shop_db StDraft)"
proof -
  obtain y where "prepare_quote shop_env 200000 (replicate 36 CHR ''d'') ''agent'' ''task'' = Inr y"
    using shop_prepared by (auto split: sum.splits)
  then show ?thesis
    using request_quoted_once [OF shop_quoted, of 200000 "replicate 36 CHR ''d''" y]
    by (simp add: shop_empty shop_env_def demo_pin_def shop_snapshot_def)
qed


theorem reference_capacity_bounded_witness: "length (db_slots (shop_db StNegotiating)) \<le> 3"
  using reference_capacity_bounded [OF shop_steps shop_empty] by blast


theorem claim_repeatable_witness:
  "claim_op shop_env 300000 (replicate 36 CHR ''c'') ''buyer'' (shop_db StNegotiating) = (Inr (), shop_db StNegotiating)"
proof -
  have d: "distinct (map rw_id (db_jobs (shop_db StDraft)))" by (simp add: shop_db_def)
  obtain r q where r: "r \<in> set (db_jobs (shop_db StDraft))" "parseReservationRow shop_env r = Inr q"
    "300000 < qn_expiresAt q \<longrightarrow> claim_op shop_env 300000 (replicate 36 CHR ''c'') ''buyer'' (shop_db StNegotiating) = (Inr (), shop_db StNegotiating)"
    using claim_repeatable [OF shop_claimed d] by blast
  have "r = (new_row ''buyer'' ''a1'' shop_snapshot)\<lparr>rw_status := StDraft\<rparr>" using r(1) by (simp add: shop_db_def)
  then have "q = shop_snapshot" using r(2) shop_parsed by simp
  then show ?thesis using r(3) by (simp add: shop_snapshot_def)
qed

end
