(* ===== verification/Worker_Program.thy ===== *)
theory Worker_Program
  imports Bnb_Prelude
begin

text \<open>
  Asynchronous functions that run concurrently on shared state. A worker is a sequence of actions, each of which runs without
  interruption from one await to the next; between two actions any other worker may run. Workers are an
  inductive datatype, so each of them ends after finitely many actions. The rely-guarantee predicate \<open>sat\<close> states
  what a worker guarantees and returns when every interference of the others obeys a relation.
\<close>

section \<open>Workers\<close>

datatype (dead 's, 'a) worker = Done 'a | Act "'s \<Rightarrow> 's \<times> ('s, 'a) worker"

primrec bindP :: "('s, 'a) worker \<Rightarrow> ('a \<Rightarrow> ('s, 'b) worker) \<Rightarrow> ('s, 'b) worker" where
  "bindP (Done x) f = f x"
| "bindP (Act g) f = Act (\<lambda>s. map_prod id (\<lambda>p. bindP p f) (g s))"

text \<open>A worker alone, from a state to its result and the last state.\<close>

primrec solo :: "('s, 'a) worker \<Rightarrow> 's \<Rightarrow> 'a \<times> 's" where
  "solo (Done x) = (\<lambda>s. (x, s))"
| "solo (Act g) = (\<lambda>s. case map_prod id solo (g s) of (s', r) \<Rightarrow> r s')"

text \<open>An await: one action that returns a value.\<close>

definition await :: "('s \<Rightarrow> 'a \<times> 's) \<Rightarrow> ('s, 'a) worker" where
  "await f = Act (\<lambda>s. case f s of (x, s') \<Rightarrow> (s', Done x))"

text \<open>Workers that may throw: \<open>Inl\<close> is a rejection.\<close>

definition bindW :: "('s, 'e + 'a) worker \<Rightarrow> ('a \<Rightarrow> ('s, 'e + 'b) worker) \<Rightarrow> ('s, 'e + 'b) worker" where
  "bindW p f = bindP p (\<lambda>r. case r of Inl e \<Rightarrow> Done (Inl e) | Inr x \<Rightarrow> f x)"

definition returnW :: "'a \<Rightarrow> ('s, 'e + 'a) worker" where
  "returnW x = Done (Inr x)"

definition throwW :: "'e \<Rightarrow> ('s, 'e + 'a) worker" where
  "throwW e = Done (Inl e)"

definition catchW :: "('s, 'e + 'a) worker \<Rightarrow> ('e \<Rightarrow> ('s, 'e + 'a) worker) \<Rightarrow> ('s, 'e + 'a) worker" where
  "catchW p h = bindP p (\<lambda>r. case r of Inl e \<Rightarrow> h e | Inr x \<Rightarrow> Done (Inr x))"

lemma worker_induct [case_names Done Act]:
  assumes "\<And>x. P (Done x)" "\<And>g. (\<And>s. P (snd (g s))) \<Longrightarrow> P (Act g)"
  shows "P p"
proof (induction p)
  case (Act g)
  have "P (snd (g s))" for s
    by (rule Act.IH [of "g s"]) (simp_all add: prod_set_simps snds.simps prod_eq_iff)
  then show ?case by (rule assms(2))
qed (rule assms(1))

lemma solo_Act [simp]: "solo (Act g) s = solo (snd (g s)) (fst (g s))"
  by (cases "g s") simp

lemma bindP_Act [simp]: "bindP (Act g) f = Act (\<lambda>s. (fst (g s), bindP (snd (g s)) f))"
  by (simp add: map_prod_def case_prod_beta)

declare solo.simps(2) [simp del] bindP.simps(2) [simp del]

lemma solo_bindP [simp]: "solo (bindP p f) s = (case solo p s of (x, s') \<Rightarrow> solo (f x) s')"
  by (induction p arbitrary: s rule: worker_induct) simp_all

lemma bindP_assoc: "bindP (bindP p f) h = bindP p (\<lambda>x. bindP (f x) h)"
  by (induction p rule: worker_induct) simp_all

lemma solo_await [simp]: "solo (await f) s = f s"
  by (cases "f s") (simp add: await_def)

lemma solo_bindW: "solo (bindW p f) s = (case solo p s of (Inl e, s') \<Rightarrow> (Inl e, s') | (Inr x, s') \<Rightarrow> solo (f x) s')"
  by (auto simp: bindW_def split: prod.splits sum.splits)

section \<open>Interleavings\<close>

inductive sched :: "'s \<times> ('s, 'a) worker list \<Rightarrow> 's \<times> ('s, 'a) worker list \<Rightarrow> bool" where
  act: "\<lbrakk>i < length ws; ws ! i = Act g; g s = (s', p)\<rbrakk> \<Longrightarrow> sched (s, ws) (s', ws[i := p])"

inductive_cases schedE: "sched (s, ws) c"

text \<open>At most \<open>n\<close> actions, whatever the others do.\<close>

primrec within :: "('s, 'a) worker \<Rightarrow> nat \<Rightarrow> bool" where
  "within (Done x) = (\<lambda>n. True)"
| "within (Act g) = (\<lambda>n. case n of 0 \<Rightarrow> False | Suc m \<Rightarrow> (\<forall>s. case map_prod id within (g s) of (s', w) \<Rightarrow> w m))"

lemma within_Act [simp]: "within (Act g) n \<longleftrightarrow> (\<exists>m. n = Suc m \<and> (\<forall>s. within (snd (g s)) m))"
  by (cases n) (simp_all add: map_prod_def case_prod_beta)

declare within.simps(2) [simp del]

lemma within_mono: "within p n \<Longrightarrow> n \<le> m \<Longrightarrow> within p m"
proof (induction p arbitrary: n m rule: worker_induct)
  case (Act g)
  then obtain k where k: "n = Suc k" "\<forall>s. within (snd (g s)) k" by auto
  with Act.prems(2) obtain l where l: "m = Suc l" "k \<le> l" by (cases m) auto
  then show ?case using Act.IH k(2) by auto
qed simp

lemma within_bindP: "within p n \<Longrightarrow> (\<And>x. within (f x) m) \<Longrightarrow> within (bindP p f) (n + m)"
proof (induction p arbitrary: n rule: worker_induct)
  case (Done x)
  then show ?case using within_mono [of "f x" m "n + m"] by simp
qed auto

lemma within_await [simp]: "within (await f) (Suc 0)"
  by (simp add: await_def case_prod_beta)

section \<open>Rely and guarantee\<close>

text \<open>
  \<open>sat R Q p s\<close>: run from state \<open>s\<close> among others whose actions are in the relation \<open>R\<close>, every action of \<open>p\<close> is in \<open>R\<close> too,
  and its result satisfies \<open>Q\<close> in any state after it.
\<close>

primrec sat :: "('s \<Rightarrow> 's \<Rightarrow> bool) \<Rightarrow> ('a \<Rightarrow> 's \<Rightarrow> bool) \<Rightarrow> ('s, 'a) worker \<Rightarrow> 's \<Rightarrow> bool" where
  "sat R Q (Done x) = (\<lambda>s. \<forall>t. R\<^sup>*\<^sup>* s t \<longrightarrow> Q x t)"
| "sat R Q (Act g) = (\<lambda>s. \<forall>t. R\<^sup>*\<^sup>* s t \<longrightarrow> (case map_prod id (sat R Q) (g t) of (t', w) \<Rightarrow> R t t' \<and> w t'))"

lemma sat_Act [simp]: "sat R Q (Act g) s \<longleftrightarrow> (\<forall>t. R\<^sup>*\<^sup>* s t \<longrightarrow> R t (fst (g t)) \<and> sat R Q (snd (g t)) (fst (g t)))"
  by (simp add: map_prod_def case_prod_beta)

declare sat.simps(2) [simp del]

lemma sat_later: "sat R Q p s \<Longrightarrow> R\<^sup>*\<^sup>* s t \<Longrightarrow> sat R Q p t"
  by (cases p) (auto dest: rtranclp_trans)

lemma sat_post: "sat R Q p s \<Longrightarrow> (\<And>x t. Q x t \<Longrightarrow> Q' x t) \<Longrightarrow> sat R Q' p s"
  by (induction p arbitrary: s rule: worker_induct) auto

lemma sat_bindP:
  assumes "sat R Q p s" "\<And>x t. Q x t \<Longrightarrow> sat R Q' (f x) t"
  shows "sat R Q' (bindP p f) s"
  using assms(1) by (induction p arbitrary: s rule: worker_induct) (auto intro: assms(2))

lemma sat_bindW:
  assumes "sat R Q p s" "\<And>x t. Q (Inr x) t \<Longrightarrow> sat R Q' (f x) t" "\<And>e t. Q (Inl e) t \<Longrightarrow> sat R Q' (throwW e) t"
  shows "sat R Q' (bindW p f) s"
  unfolding bindW_def by (rule sat_bindP [OF assms(1)]) (use assms(2,3) in \<open>auto simp: throwW_def split: sum.splits\<close>)

lemma sat_catchW:
  assumes "sat R Q p s" "\<And>x t. Q (Inr x) t \<Longrightarrow> sat R Q' (returnW x) t" "\<And>e t. Q (Inl e) t \<Longrightarrow> sat R Q' (h e) t"
  shows "sat R Q' (catchW p h) s"
  unfolding catchW_def by (rule sat_bindP [OF assms(1)]) (use assms(2,3) in \<open>auto simp: returnW_def split: sum.splits\<close>)

lemma sat_await:
  assumes "\<And>t. R\<^sup>*\<^sup>* s t \<Longrightarrow> R t (snd (f t)) \<and> (\<forall>u. R\<^sup>*\<^sup>* (snd (f t)) u \<longrightarrow> Q (fst (f t)) u)"
  shows "sat R Q (await f) s"
  using assms by (simp add: await_def case_prod_beta)

text \<open>Workers that all guarantee \<open>R\<close> when the others do, do so together; each that is done has its postcondition.\<close>

lemma sched_sat:
  assumes "sched\<^sup>*\<^sup>* (s, ws) (s', ws')" "\<And>i. i < length ws \<Longrightarrow> sat R (Q i) (ws ! i) s"
  shows "R\<^sup>*\<^sup>* s s'" "length ws' = length ws" "i < length ws \<Longrightarrow> sat R (Q i) (ws' ! i) s'"
proof -
  have "R\<^sup>*\<^sup>* s s' \<and> length ws' = length ws \<and> (\<forall>i < length ws. sat R (Q i) (ws' ! i) s')"
    using assms(1)
  proof (induction "(s', ws')" arbitrary: s' ws' rule: rtranclp_induct)
    case base
    then show ?case using assms(2) by simp
  next
    case (step c)
    obtain t us where c: "c = (t, us)" by fastforce
    from step(3) [OF c] have ih: "R\<^sup>*\<^sup>* s t" "length us = length ws" "\<forall>i < length ws. sat R (Q i) (us ! i) t" by auto
    from step(2) c obtain j g p where j: "j < length us" "us ! j = Act g" "g t = (s', p)" "ws' = us[j := p]"
      by (auto elim: schedE)
    from ih j have r: "R t s'" "sat R (Q j) p s'" by force+
    have "sat R (Q i) (ws' ! i) s'" if "i < length ws" for i
      using r that ih(2,3) j(4) sat_later [of R "Q i" "us ! i" t s'] by (cases "i = j") auto
    with ih r j(4) show ?case by auto
  qed
  then show "R\<^sup>*\<^sup>* s s'" "length ws' = length ws" "i < length ws \<Longrightarrow> sat R (Q i) (ws' ! i) s'" by auto
qed

section \<open>Termination\<close>

text \<open>Together, workers bounded by \<open>n i\<close> stop after the sum of these bounds.\<close>

lemma sched_within:
  assumes "sched (s, ws) (s', ws')" "list_all2 within ws ns"
  shows "\<exists>ns'. list_all2 within ws' ns' \<and> sum_list ns = Suc (sum_list ns')"
proof -
  from assms(1) obtain i g p where i: "i < length ws" "ws ! i = Act g" "g s = (s', p)" "ws' = ws[i := p]"
    by (auto elim: schedE)
  have l: "length ws = length ns" "within (ws ! i) (ns ! i)" using assms(2) i(1) by (auto simp: list_all2_conv_all_nth)
  then obtain m where m: "ns ! i = Suc m" "within p m" using i(2,3) by (auto dest: spec [of _ s])
  have "list_all2 within ws' (ns[i := m])" using assms(2) m(2) i(4) by (simp add: list_all2_update_cong)
  moreover have "sum_list ns = Suc (sum_list (ns[i := m]))"
    using l(1) i(1) m(1) elem_le_sum_list [of i ns] by (simp add: sum_list_update)
  ultimately show ?thesis by blast
qed

lemma sched_terminates:
  assumes "(sched ^^ k) (s, ws) (s', ws')" "list_all2 within ws ns"
  shows "k \<le> sum_list ns"
  using assms
proof (induction k arbitrary: s ws ns)
  case (Suc k)
  then obtain t us where "sched (s, ws) (t, us)" "(sched ^^ k) (t, us) (s', ws')"
    by (metis relpowp_Suc_D2 surj_pair)
  with sched_within [OF _ Suc.prems(2)] Suc.IH show ?case by fastforce
qed simp

end
