(* ===== verification/Publication_Types.thy ===== *)
theory Publication_Types
  imports Commerce_Types Worker_Program "HOL-Library.Word"
begin

text \<open>
  packages/greenfield/src/types.ts with packages/evidence/src/locators.ts: evidence published to IPFS or Greenfield, the record of an
  attempt, its locator and the result of reading it back, with their schemas.

  Time stamps are milliseconds. Contents are lists of bytes. The SHA-256 and Keccak digests of bytes, the SHA-256 of a text, the UUID
  check and the URL parser (credentials, host name) are parameters; the literal \<open>immutable: true\<close> of a locator is left out.
\<close>

section \<open>States, providers and errors\<close>

datatype publication_provider = Ipfs | Greenfield

datatype attempt_state = AtPending | AtValidating | AtCreatingObject | AtSubmitted | AtUploading | AtAwaitingSeal | AtReadingBack
  | AtVerified | AtValidationFailed | AtCreateFailed | AtUploadFailed | AtSealTimeout | AtReadbackFailed | AtHashMismatch
  | AtDuplicate | AtProviderFailed | AtRetrying

datatype failure_code = INVALID_ARTIFACT | FORBIDDEN_PUBLIC_FIELD | ARTIFACT_TOO_LARGE | OBJECT_TOO_LARGE | CREATE_FAILED
  | CREATE_UNKNOWN | UPLOAD_FAILED | PROVIDER_FAILED | MALFORMED_TRANSACTION | TIMEOUT | MISSING_OBJECT | HASH_MISMATCH
  | SIZE_MISMATCH | DUPLICATE_IDEMPOTENCY_KEY | UNSUPPORTED_PROVIDER | CONFIGURATION_CHANGED | DURABLE_GRAPH_INVALID
  | SEAL_TRANSACTION_MISSING | CONCURRENT_UPDATE | LEASE_LOST

text \<open>
  A \<open>PublicationProviderError\<close>, or any other exception with its property \<open>code\<close> if that is a failure code. An exception of
  a schema or an illegal transition has none.
\<close>

datatype publication_exn = PublicationError failure_code | OtherThrown "failure_code option"

record publication_platform =
  pp_sha256 :: "8 word list \<Rightarrow> string"
  pp_keccak :: "8 word list \<Rightarrow> string"
  pp_sha256_text :: "string \<Rightarrow> string"
  pp_uuid :: "string \<Rightarrow> bool"
  pp_credentials :: "string \<Rightarrow> bool"
  pp_hostname :: "string \<Rightarrow> string option"

section \<open>Locators and verification results\<close>

record evidence_locator =
  lc_provider :: publication_provider
  lc_providerLabel :: string
  lc_network :: string
  lc_uri :: string
  lc_bucket :: "string option"
  lc_objectName :: "string option"
  lc_providerReference :: "string option"
  lc_version :: int
  lc_sha256Digest :: string
  lc_keccak256Digest :: string
  lc_sizeBytes :: int
  lc_verifiedAt :: "int option"

definition uri_tail :: "string \<Rightarrow> string \<Rightarrow> bool" where
  "uri_tail p s \<longleftrightarrow> take (length p) s = p \<and> length p < length s \<and> list_all (\<lambda>c. \<not> is_space c) (drop (length p) s)"

definition uriForProvider :: "publication_provider \<Rightarrow> string \<Rightarrow> bool" where
  "uriForProvider p s = (case p of Ipfs \<Rightarrow> uri_tail ''ipfs://'' s | Greenfield \<Rightarrow> uri_tail ''greenfield://'' s \<or> uri_tail ''gnfd://'' s)"

text \<open>\<open>^[A-Za-z0-9][A-Za-z0-9._:-]*$\<close> after trimming, without the colon for buckets.\<close>

definition safe_label :: "bool \<Rightarrow> string \<Rightarrow> bool" where
  "safe_label colon s \<longleftrightarrow> text_between 128 s \<and> is_alnum (hd (js_trim s))
     \<and> list_all (\<lambda>c. is_alnum c \<or> c \<in> {CHR ''.'', CHR ''_'', CHR ''-''} \<or> colon \<and> c = CHR '':'') (js_trim s)"

definition evidenceLocatorSchema :: "publication_platform \<Rightarrow> evidence_locator \<Rightarrow> evidence_locator option" where
  "evidenceLocatorSchema pl l =
     (if safe_label True (lc_providerLabel l) \<and> text_between 128 (lc_network l) \<and> text_between 2000 (lc_uri l)
       \<and> nullable (text_between 128) (lc_bucket l) \<and> nullable (text_between 1024) (lc_objectName l)
       \<and> nullable (text_between 512) (lc_providerReference l) \<and> 0 < lc_version l \<and> contentDigestSchema (lc_sha256Digest l)
       \<and> contentDigestSchema (lc_keccak256Digest l) \<and> 0 \<le> lc_sizeBytes l
       \<and> uriForProvider (lc_provider l) (js_trim (lc_uri l)) \<and> \<not> pp_credentials pl (js_trim (lc_uri l))
       \<and> (lc_provider l = Greenfield \<longrightarrow> lc_bucket l \<noteq> None \<and> lc_objectName l \<noteq> None)
       \<and> (lc_provider l = Ipfs \<longrightarrow> lc_bucket l = None)
      then Some (l\<lparr>lc_providerLabel := js_trim (lc_providerLabel l), lc_network := js_trim (lc_network l), lc_uri := js_trim (lc_uri l),
        lc_bucket := map_option js_trim (lc_bucket l), lc_objectName := map_option js_trim (lc_objectName l),
        lc_providerReference := map_option js_trim (lc_providerReference l)\<rparr>)
      else None)"

text \<open>\<open>createEvidenceLocator\<close>: its argument is the object with \<open>null\<close> for the fields that are not given.\<close>

definition createEvidenceLocator :: "publication_platform \<Rightarrow> evidence_locator \<Rightarrow> publication_exn + evidence_locator" where
  "createEvidenceLocator pl l = (case evidenceLocatorSchema pl l of None \<Rightarrow> Inl (OtherThrown None) | Some l' \<Rightarrow> Inr l')"

datatype checked_status = EvNotVerified | EvVerified | EvFailed
datatype readback_status = RbNotAttempted | RbMatched | RbMissing | RbCorrupt | RbTimeout | RbProviderFailed

record verification_result =
  ve_status :: checked_status
  ve_checkedAt :: int
  ve_sealConfirmed :: "bool option"
  ve_readbackStatus :: readback_status
  ve_expectedSha256Digest :: string
  ve_observedSha256Digest :: "string option"
  ve_expectedKeccak256Digest :: string
  ve_observedKeccak256Digest :: "string option"
  ve_expectedSizeBytes :: int
  ve_observedSizeBytes :: "int option"
  ve_hashesMatch :: bool
  ve_sizeMatches :: bool
  ve_reasonCode :: "failure_code option"

definition verificationResultSchema :: "verification_result \<Rightarrow> bool" where
  "verificationResultSchema v \<longleftrightarrow> contentDigestSchema (ve_expectedSha256Digest v) \<and> nullable contentDigestSchema (ve_observedSha256Digest v)
     \<and> contentDigestSchema (ve_expectedKeccak256Digest v) \<and> nullable contentDigestSchema (ve_observedKeccak256Digest v)
     \<and> 0 \<le> ve_expectedSizeBytes v \<and> nullable (\<lambda>n. 0 \<le> n) (ve_observedSizeBytes v)"

text \<open>The first three fields that are computed are given as any value.\<close>

definition createVerificationResult :: "verification_result \<Rightarrow> publication_exn + verification_result" where
  "createVerificationResult i =
     (let hashesMatch = (ve_observedSha256Digest i = Some (ve_expectedSha256Digest i)
            \<and> ve_observedKeccak256Digest i = Some (ve_expectedKeccak256Digest i));
          sizeMatches = (ve_observedSizeBytes i = Some (ve_expectedSizeBytes i));
          verified = (ve_readbackStatus i = RbMatched \<and> ve_sealConfirmed i \<noteq> Some False \<and> hashesMatch \<and> sizeMatches);
          r = i\<lparr>ve_status := (if verified then EvVerified else EvFailed), ve_hashesMatch := hashesMatch, ve_sizeMatches := sizeMatches\<rparr>
      in if verificationResultSchema r then Inr r else Inl (OtherThrown None))"

section \<open>Configuration\<close>

datatype evidence_environment = EnvDevelopment | EnvPreview | EnvHackathon | EnvProduction

fun environment_text :: "evidence_environment \<Rightarrow> string" where
  "environment_text EnvDevelopment = ''development''"
| "environment_text EnvPreview = ''preview''"
| "environment_text EnvHackathon = ''hackathon''"
| "environment_text EnvProduction = ''production''"

record publication_configuration =
  cg_environment :: evidence_environment
  cg_enabledProviders :: "publication_provider list"
  cg_ipfs_network :: string
  cg_ipfs_label :: string
  cg_greenfield_network :: string
  cg_greenfield_label :: string
  cg_greenfield_bucket :: string
  cg_maxArtifactBytes :: int
  cg_maxObjectBytes :: int
  cg_maxSealPolls :: int
  cg_sealBackoffMs :: "int list"
  cg_leaseDurationMs :: int

definition publicationConfigurationSchema :: "publication_configuration \<Rightarrow> publication_configuration option" where
  "publicationConfigurationSchema c =
     (if 1 \<le> length (cg_enabledProviders c) \<and> length (cg_enabledProviders c) \<le> 2 \<and> safe_label True (cg_ipfs_network c)
       \<and> safe_label True (cg_ipfs_label c) \<and> safe_label True (cg_greenfield_network c) \<and> safe_label True (cg_greenfield_label c)
       \<and> safe_label False (cg_greenfield_bucket c) \<and> 0 < cg_maxArtifactBytes c \<and> 0 < cg_maxObjectBytes c
       \<and> 0 < cg_maxSealPolls c \<and> cg_maxSealPolls c \<le> 1000 \<and> length (cg_sealBackoffMs c) \<le> 32
       \<and> list_all (\<lambda>n. 0 \<le> n \<and> n \<le> 60000) (cg_sealBackoffMs c) \<and> 0 < cg_leaseDurationMs c \<and> cg_leaseDurationMs c \<le> 86400000
       \<and> distinct (cg_enabledProviders c)
      then Some (c\<lparr>cg_ipfs_network := js_trim (cg_ipfs_network c), cg_ipfs_label := js_trim (cg_ipfs_label c),
        cg_greenfield_network := js_trim (cg_greenfield_network c), cg_greenfield_label := js_trim (cg_greenfield_label c),
        cg_greenfield_bucket := js_trim (cg_greenfield_bucket c)\<rparr>)
      else None)"

fun publication_provider_text :: "publication_provider \<Rightarrow> string" where
  "publication_provider_text Ipfs = ''ipfs''"
| "publication_provider_text Greenfield = ''greenfield''"

definition configuration_json :: "publication_configuration \<Rightarrow> js_value" where
  "configuration_json c = JObject [(''environment'', JString (environment_text (cg_environment c))),
     (''enabledProviders'', JArray (map (\<lambda>p. JString (publication_provider_text p)) (cg_enabledProviders c))),
     (''ipfs'', JObject [(''network'', JString (cg_ipfs_network c)), (''providerLabel'', JString (cg_ipfs_label c))]),
     (''greenfield'', JObject [(''network'', JString (cg_greenfield_network c)), (''providerLabel'', JString (cg_greenfield_label c)),
       (''bucket'', JString (cg_greenfield_bucket c))]),
     (''maxArtifactBytes'', JNumber (cg_maxArtifactBytes c)), (''maxObjectBytes'', JNumber (cg_maxObjectBytes c)),
     (''maxSealPolls'', JNumber (cg_maxSealPolls c)), (''sealBackoffMs'', JArray (map JNumber (cg_sealBackoffMs c))),
     (''leaseDurationMs'', JNumber (cg_leaseDurationMs c))]"

text \<open>Called with a parsed configuration; parsing it again changes nothing.\<close>

definition publicationConfigurationDigest :: "publication_platform \<Rightarrow> publication_configuration \<Rightarrow> publication_exn + string" where
  "publicationConfigurationDigest pl c = (case publicationConfigurationSchema c of None \<Rightarrow> Inl (OtherThrown None)
     | Some c' \<Rightarrow> (case canonicalSha256Hex (pp_sha256_text pl) (configuration_json c') of Inl _ \<Rightarrow> Inl (OtherThrown None) | Inr d \<Rightarrow> Inr d))"

section \<open>Attempts\<close>

record publication_attempt =
  pub_attemptId :: string
  pub_idempotencyKey :: string
  pub_provider :: publication_provider
  pub_providerLabel :: string
  pub_configurationDigest :: string
  pub_configuredNetwork :: string
  pub_configuredBucket :: "string option"
  pub_artifactId :: string
  pub_artifactType :: string
  pub_artifactVersion :: int
  pub_objectName :: string
  pub_sha256Digest :: string
  pub_keccak256Digest :: string
  pub_sizeBytes :: int
  pub_state :: attempt_state
  pub_revision :: int
  pub_leaseOwner :: "string option"
  pub_leaseExpiresAt :: "int option"
  pub_providerReference :: "string option"
  pub_creationTransactionHash :: "string option"
  pub_sealTransactionHash :: "string option"
  pub_locator :: "evidence_locator option"
  pub_verification :: "verification_result option"
  pub_retryCount :: int
  pub_lastErrorCode :: "failure_code option"
  pub_lastErrorMessage :: "string option"
  pub_retryable :: bool
  pub_submittedAt :: "int option"
  pub_startedAt :: "int option"
  pub_completedAt :: "int option"
  pub_createdAt :: int
  pub_updatedAt :: int

definition zero_transaction :: "string \<Rightarrow> bool" where
  "zero_transaction s \<longleftrightarrow> js_lower s = ''0x'' @ replicate 64 CHR ''0''"

definition normalizeOptionalTransactionHash :: "string option \<Rightarrow> string option" where
  "normalizeOptionalTransactionHash h = (case h of None \<Rightarrow> None | Some s \<Rightarrow> if zero_transaction (js_trim s) then None else Some s)"

definition publicationAttemptRecordSchema :: "publication_platform \<Rightarrow> publication_attempt \<Rightarrow> publication_exn + publication_attempt" where
  "publicationAttemptRecordSchema pl r =
     (let creation = normalizeOptionalTransactionHash (pub_creationTransactionHash r);
          sealed = normalizeOptionalTransactionHash (pub_sealTransactionHash r) in
      if pp_uuid pl (pub_attemptId r) \<and> text_between 256 (pub_idempotencyKey r) \<and> safe_label True (pub_providerLabel r)
       \<and> contentDigestSchema (pub_configurationDigest r) \<and> safe_label True (pub_configuredNetwork r)
       \<and> nullable (safe_label False) (pub_configuredBucket r) \<and> text_between 160 (pub_artifactId r) \<and> text_between 64 (pub_artifactType r)
       \<and> 0 < pub_artifactVersion r \<and> text_between 1024 (pub_objectName r) \<and> contentDigestSchema (pub_sha256Digest r)
       \<and> contentDigestSchema (pub_keccak256Digest r) \<and> 0 \<le> pub_sizeBytes r \<and> 0 \<le> pub_revision r
       \<and> nullable (pp_uuid pl) (pub_leaseOwner r) \<and> nullable (text_between 512) (pub_providerReference r)
       \<and> nullable transactionHashSchema creation \<and> nullable transactionHashSchema sealed
       \<and> nullable (\<lambda>l. evidenceLocatorSchema pl l \<noteq> None) (pub_locator r) \<and> nullable verificationResultSchema (pub_verification r)
       \<and> 0 \<le> pub_retryCount r \<and> nullable (\<lambda>m. length m \<le> 500) (pub_lastErrorMessage r)
      then Inr (r\<lparr>pub_idempotencyKey := js_trim (pub_idempotencyKey r), pub_providerLabel := js_trim (pub_providerLabel r),
        pub_configuredNetwork := js_trim (pub_configuredNetwork r), pub_configuredBucket := map_option js_trim (pub_configuredBucket r),
        pub_artifactId := js_trim (pub_artifactId r), pub_artifactType := js_trim (pub_artifactType r),
        pub_objectName := js_trim (pub_objectName r), pub_providerReference := map_option js_trim (pub_providerReference r),
        pub_creationTransactionHash := creation, pub_sealTransactionHash := sealed,
        pub_locator := Option.bind (pub_locator r) (evidenceLocatorSchema pl)\<rparr>)
      else Inl (OtherThrown None))"

section \<open>The graph of a verified attempt\<close>

definition matching_locator :: "publication_attempt \<Rightarrow> evidence_locator \<Rightarrow> bool" where
  "matching_locator r l \<longleftrightarrow> lc_provider l = pub_provider r \<and> lc_providerLabel l = pub_providerLabel r
     \<and> lc_network l = pub_configuredNetwork r \<and> lc_bucket l = pub_configuredBucket r \<and> lc_version l = pub_artifactVersion r
     \<and> js_lower (lc_sha256Digest l) = js_lower (pub_sha256Digest r) \<and> js_lower (lc_keccak256Digest l) = js_lower (pub_keccak256Digest r)
     \<and> lc_sizeBytes l = pub_sizeBytes r \<and> lc_verifiedAt l \<noteq> None"

definition matching_verification :: "publication_attempt \<Rightarrow> verification_result \<Rightarrow> bool" where
  "matching_verification r v \<longleftrightarrow> ve_status v = EvVerified \<and> ve_readbackStatus v = RbMatched \<and> ve_hashesMatch v \<and> ve_sizeMatches v
     \<and> js_lower (ve_expectedSha256Digest v) = js_lower (pub_sha256Digest r)
     \<and> map_option js_lower (ve_observedSha256Digest v) = Some (js_lower (pub_sha256Digest r))
     \<and> js_lower (ve_expectedKeccak256Digest v) = js_lower (pub_keccak256Digest r)
     \<and> map_option js_lower (ve_observedKeccak256Digest v) = Some (js_lower (pub_keccak256Digest r))
     \<and> ve_expectedSizeBytes v = pub_sizeBytes r \<and> ve_observedSizeBytes v = Some (pub_sizeBytes r)"

definition assertDurablePublicationAttempt :: "publication_attempt \<Rightarrow> publication_exn + unit" where
  "assertDurablePublicationAttempt r =
     (if pub_state r \<noteq> AtVerified then Inr ()
      else if (case pub_locator r of None \<Rightarrow> True | Some l \<Rightarrow> \<not> matching_locator r l)
        \<or> (case pub_verification r of None \<Rightarrow> True | Some v \<Rightarrow> \<not> matching_verification r v)
      then Inl (PublicationError DURABLE_GRAPH_INVALID)
      else if pub_provider r = Greenfield
        \<and> (\<not> nullable (\<lambda>h. transactionHashSchema h \<and> \<not> zero_transaction h) (pub_sealTransactionHash r)
           \<or> Option.bind (pub_verification r) ve_sealConfirmed \<noteq> Some True)
      then Inl (PublicationError DURABLE_GRAPH_INVALID) else Inr ())"

end
