(* ===== verification/Publication_Store.thy ===== *)
theory Publication_Store
  imports Publication_Types
begin

text \<open>
  packages/greenfield/src/store.ts: the store of publication attempts in memory, a map from idempotency keys to records in the order of
  insertion. Its methods run without interruption, so each is a function on the list of records. Every write compares the
  revision and the lease of the stored record with those the writer expects.
\<close>

record publication_audit =
  ad_attemptId :: string
  ad_idempotencyKey :: string
  ad_reasonCode :: failure_code
  ad_message :: string
  ad_createdAt :: int

definition find_key :: "string \<Rightarrow> publication_attempt list \<Rightarrow> publication_attempt option" where
  "find_key k rs = find (\<lambda>r. pub_idempotencyKey r = k) rs"

definition findByAttemptId :: "string \<Rightarrow> publication_attempt list \<Rightarrow> publication_attempt option" where
  "findByAttemptId a rs = find (\<lambda>r. pub_attemptId r = a) rs"

definition put_record :: "publication_attempt \<Rightarrow> publication_attempt list \<Rightarrow> publication_attempt list" where
  "put_record r rs = (if find_key (pub_idempotencyKey r) rs = None then rs @ [r]
     else map (\<lambda>x. if pub_idempotencyKey x = pub_idempotencyKey r then r else x) rs)"

text \<open>The record and whether it was created.\<close>

definition createOrGet :: "publication_platform \<Rightarrow> publication_attempt \<Rightarrow> publication_attempt list
    \<Rightarrow> (publication_exn + publication_attempt \<times> bool) \<times> publication_attempt list" where
  "createOrGet pl r rs = (case find_key (pub_idempotencyKey r) rs of Some x \<Rightarrow> (Inr (x, False), rs)
     | None \<Rightarrow> (case publicationAttemptRecordSchema pl r of Inl e \<Rightarrow> (Inl e, rs) | Inr p \<Rightarrow> (Inr (p, True), put_record p rs)))"

definition save :: "publication_platform \<Rightarrow> publication_attempt \<Rightarrow> int \<Rightarrow> string \<Rightarrow> int \<Rightarrow> publication_attempt list
    \<Rightarrow> (publication_exn + unit) \<times> publication_attempt list" where
  "save pl r expectedRevision leaseToken now rs = (case find_key (pub_idempotencyKey r) rs of
     None \<Rightarrow> (Inl (PublicationError CONCURRENT_UPDATE), rs)
   | Some x \<Rightarrow>
       if pub_sha256Digest x \<noteq> pub_sha256Digest r \<or> pub_keccak256Digest x \<noteq> pub_keccak256Digest r
       then (Inl (PublicationError DUPLICATE_IDEMPOTENCY_KEY), rs)
       else if pub_revision x \<noteq> expectedRevision \<or> pub_revision r \<noteq> expectedRevision + 1
       then (Inl (PublicationError CONCURRENT_UPDATE), rs)
       else if pub_leaseOwner x \<noteq> Some leaseToken \<or> pub_leaseOwner r \<noteq> Some leaseToken
         \<or> (case pub_leaseExpiresAt x of None \<Rightarrow> True | Some t \<Rightarrow> t \<le> now)
       then (Inl (PublicationError LEASE_LOST), rs)
       else (case publicationAttemptRecordSchema pl r of Inl e \<Rightarrow> (Inl e, rs) | Inr p \<Rightarrow> (Inr (), put_record p rs)))"

text \<open>Whether the lease was acquired, and the record.\<close>

definition acquireLease :: "publication_platform \<Rightarrow> string \<Rightarrow> string \<Rightarrow> int \<Rightarrow> int \<Rightarrow> publication_attempt list
    \<Rightarrow> (publication_exn + bool \<times> publication_attempt option) \<times> publication_attempt list" where
  "acquireLease pl attemptId leaseToken now durationMs rs = (case findByAttemptId attemptId rs of None \<Rightarrow> (Inr (False, None), rs)
     | Some x \<Rightarrow>
       if pub_leaseOwner x \<notin> {None, Some leaseToken} \<and> (case pub_leaseExpiresAt x of None \<Rightarrow> False | Some t \<Rightarrow> now < t)
       then (Inr (False, Some x), rs)
       else (case publicationAttemptRecordSchema pl (x\<lparr>pub_revision := pub_revision x + 1, pub_leaseOwner := Some leaseToken,
               pub_leaseExpiresAt := Some (now + durationMs), pub_updatedAt := now\<rparr>) of
           Inl e \<Rightarrow> (Inl e, rs) | Inr p \<Rightarrow> (Inr (True, Some p), put_record p rs)))"

definition releaseLease :: "publication_platform \<Rightarrow> string \<Rightarrow> string \<Rightarrow> int \<Rightarrow> publication_attempt list
    \<Rightarrow> (publication_exn + publication_attempt option) \<times> publication_attempt list" where
  "releaseLease pl attemptId leaseToken now rs = (case findByAttemptId attemptId rs of None \<Rightarrow> (Inr None, rs)
     | Some x \<Rightarrow> if pub_leaseOwner x \<noteq> Some leaseToken then (Inr None, rs)
       else (case publicationAttemptRecordSchema pl (x\<lparr>pub_revision := pub_revision x + 1, pub_leaseOwner := None,
               pub_leaseExpiresAt := None, pub_updatedAt := now\<rparr>) of
           Inl e \<Rightarrow> (Inl e, rs) | Inr p \<Rightarrow> (Inr (Some p), put_record p rs)))"

section \<open>The world of the publishers\<close>

text \<open>The records, the audit events, and the environment with clock, network and storage providers, of any type.\<close>

record 'e publication_world =
  pw_records :: "publication_attempt list"
  pw_audits :: "publication_audit list"
  pw_env :: 'e

definition on_records :: "(publication_attempt list \<Rightarrow> 'a \<times> publication_attempt list) \<Rightarrow> 'e publication_world \<Rightarrow> 'a \<times> 'e publication_world" where
  "on_records f w = (case f (pw_records w) of (x, rs) \<Rightarrow> (x, w\<lparr>pw_records := rs\<rparr>))"

definition on_env :: "('e \<Rightarrow> 'a \<times> 'e) \<Rightarrow> 'e publication_world \<Rightarrow> 'a \<times> 'e publication_world" where
  "on_env f w = (case f (pw_env w) of (x, e) \<Rightarrow> (x, w\<lparr>pw_env := e\<rparr>))"

text \<open>Code between two awaits.\<close>

definition bindS :: "('w \<Rightarrow> 'a \<times> 'w) \<Rightarrow> ('a \<Rightarrow> 'w \<Rightarrow> 'b \<times> 'w) \<Rightarrow> 'w \<Rightarrow> 'b \<times> 'w" where
  "bindS m f w = (case m w of (x, w') \<Rightarrow> f x w')"

definition returnS :: "'a \<Rightarrow> 'w \<Rightarrow> 'a \<times> 'w" where
  "returnS x w = (x, w)"

end
