(* ===== verification/Publication_Publisher.thy ===== *)
theory Publication_Publisher
  imports Publication_Store
begin

text \<open>
  packages/greenfield/src/publisher.ts: the class EvidencePublisher. Every asynchronous method is a worker of Worker_Program,
  one action for the code up to the next await; reading the clock for a time stamp that is not written at once is an action of its
  own. A \<open>return\<close> of a promise inside \<open>try\<close> leaves the \<open>try\<close> before the promise settles, so its rejection is not caught.

  The adapters, the clock and the scheduler are functions on the environment, of any type. The normalisation of an artifact,
  which gives its header and canonical JSON text, is a parameter.
\<close>

section \<open>Adapters and dependencies\<close>

record upload_input =
  ui_bytes :: "8 word list"
  ui_objectName :: string
  ui_sha256Digest :: string
  ui_keccak256Digest :: string
  ui_sizeBytes :: int

record ipfs_receipt =
  ir_uri :: string
  ir_network :: string
  ir_providerReference :: "string option"

record 'e ipfs_publisher =
  ip_upload :: "upload_input \<Rightarrow> 'e \<Rightarrow> (publication_exn + ipfs_receipt) \<times> 'e"
  ip_read :: "string \<Rightarrow> 'e \<Rightarrow> (publication_exn + 8 word list) \<times> 'e"

datatype create_status = CreateSubmitted | CreateConfirmed
datatype seal_status = SealSealed | SealPending | SealMissing
datatype inspect_status = InspectMissing | InspectCreated | InspectSealed
datatype reconcile_status = ReconcileMissing | ReconcilePresent | ReconcileUnknown

record create_receipt =
  cr_objectReference :: "string option"
  cr_creationTransactionHash :: "string option"
  cr_status :: create_status

record greenfield_receipt =
  gr_uri :: string
  gr_network :: string
  gr_bucket :: string
  gr_providerReference :: string

record seal_receipt =
  se_status :: seal_status
  se_sealTransactionHash :: "string option"

record inspect_receipt =
  in_status :: inspect_status
  in_objectReference :: "string option"
  in_creationTransactionHash :: "string option"
  in_sealTransactionHash :: "string option"

record create_reconciliation =
  rn_status :: reconcile_status
  rn_objectReference :: "string option"
  rn_creationTransactionHash :: "string option"

record 'e greenfield_publisher =
  gp_createObject :: "upload_input \<Rightarrow> 'e \<Rightarrow> (publication_exn + create_receipt) \<times> 'e"
  gp_uploadObject :: "upload_input \<Rightarrow> string \<Rightarrow> string option \<Rightarrow> 'e \<Rightarrow> (publication_exn + greenfield_receipt) \<times> 'e"
  gp_waitForSeal :: "string \<Rightarrow> nat \<Rightarrow> 'e \<Rightarrow> (publication_exn + seal_receipt) \<times> 'e"
  gp_readObject :: "string \<Rightarrow> 'e \<Rightarrow> (publication_exn + 8 word list) \<times> 'e"
  gp_inspectObject :: "(upload_input \<Rightarrow> 'e \<Rightarrow> (publication_exn + inspect_receipt) \<times> 'e) option"
  gp_reconcileCreate :: "(upload_input \<Rightarrow> 'e \<Rightarrow> (publication_exn + create_reconciliation) \<times> 'e) option"

record normal_artifact =
  na_artifactId :: string
  na_artifactType :: string
  na_version :: int
  na_environment :: evidence_environment
  na_canonicalJson :: string

record 'e evidence_publisher =
  ep_platform :: publication_platform
  ep_normalize :: "js_value \<Rightarrow> publication_exn + normal_artifact"
  ep_configuration :: publication_configuration
  ep_configurationDigest :: string
  ep_ipfs :: "'e ipfs_publisher option"
  ep_greenfield :: "'e greenfield_publisher option"
  ep_clock :: "'e \<Rightarrow> int \<times> 'e"
  ep_sleep :: "int \<Rightarrow> 'e \<Rightarrow> 'e"

text \<open>The constructor replaces the configuration by the parsed one and stores its digest.\<close>

definition newPublisher :: "'e evidence_publisher \<Rightarrow> publication_exn + 'e evidence_publisher" where
  "newPublisher ep = (case publicationConfigurationSchema (ep_configuration ep) of None \<Rightarrow> Inl (OtherThrown None) | Some c \<Rightarrow>
     bindE (publicationConfigurationDigest (ep_platform ep) c) (\<lambda>d.
     Inr (ep\<lparr>ep_configuration := c, ep_configurationDigest := d\<rparr>)))"

section \<open>States\<close>

fun stateTransitions :: "attempt_state \<Rightarrow> attempt_state list" where
  "stateTransitions AtPending = [AtValidating, AtRetrying, AtDuplicate]"
| "stateTransitions AtValidating = [AtCreatingObject, AtUploading, AtValidationFailed, AtProviderFailed]"
| "stateTransitions AtCreatingObject = [AtSubmitted, AtUploading, AtCreateFailed, AtProviderFailed]"
| "stateTransitions AtSubmitted = [AtUploading, AtCreateFailed, AtProviderFailed]"
| "stateTransitions AtUploading = [AtAwaitingSeal, AtReadingBack, AtUploadFailed, AtProviderFailed]"
| "stateTransitions AtAwaitingSeal = [AtAwaitingSeal, AtReadingBack, AtSealTimeout, AtProviderFailed]"
| "stateTransitions AtReadingBack = [AtVerified, AtReadbackFailed, AtHashMismatch, AtProviderFailed]"
| "stateTransitions AtVerified = []"
| "stateTransitions AtDuplicate = []"
| "stateTransitions AtRetrying = [AtPending]"
| "stateTransitions s = [AtRetrying]"

definition terminalStates :: "attempt_state set" where
  "terminalStates = {AtVerified, AtValidationFailed, AtCreateFailed, AtUploadFailed, AtSealTimeout, AtReadbackFailed, AtHashMismatch,
     AtDuplicate, AtProviderFailed}"

section \<open>Names and errors\<close>

definition hex_value :: "char \<Rightarrow> nat" where
  "hex_value c = (if is_digit c then code c - 48 else if 97 \<le> code c then code c - 87 else code c - 55)"

definition deterministicUuid :: "publication_platform \<Rightarrow> string \<Rightarrow> string" where
  "deterministicUuid pl seed = (let h = (take 32 (pp_sha256_text pl seed))[12 := CHR ''5''];
     hex = h[16 := hex_digit (hex_value (h ! 16) mod 4 + 8)]
     in take 8 hex @ ''-'' @ take 4 (drop 8 hex) @ ''-'' @ take 4 (drop 12 hex) @ ''-'' @ take 4 (drop 16 hex) @ ''-'' @ drop 20 hex)"

definition deterministicAttemptId :: "publication_platform \<Rightarrow> string \<Rightarrow> publication_provider \<Rightarrow> string" where
  "deterministicAttemptId pl key p = deterministicUuid pl (''bnbera.publication-attempt:'' @ publication_provider_text p @ '':'' @ key)"

definition providerIdempotencyKey :: "string \<Rightarrow> publication_provider \<Rightarrow> string" where
  "providerIdempotencyKey key p = key @ '':'' @ publication_provider_text p"

fun split_at :: "char \<Rightarrow> string \<Rightarrow> string list" where
  "split_at c [] = [[]]"
| "split_at c (x # xs) = (case split_at c xs of [] \<Rightarrow> [[x]] | y # ys \<Rightarrow> if x = c then [] # y # ys else (x # y) # ys)"

definition assertImmutableObjectName :: "string \<Rightarrow> publication_exn + string" where
  "assertImmutableObjectName s =
     (if s = [] \<or> 1024 < length s \<or> hd s = CHR ''/'' \<or> CHR 0x5C \<in> set s \<or> list_ex (\<lambda>x. x \<in> {[], ''.'', ''..''}) (split_at CHR ''/'' s)
        \<or> list_ex (\<lambda>c. code c \<le> 31 \<or> code c = 127) s
      then Inl (PublicationError INVALID_ARTIFACT) else Inr s)"

definition errorCode :: "publication_exn \<Rightarrow> failure_code \<Rightarrow> failure_code" where
  "errorCode e fallback = (case e of PublicationError c \<Rightarrow> c | OtherThrown (Some c) \<Rightarrow> c | OtherThrown None \<Rightarrow> fallback)"

fun fixed_message :: "failure_code \<Rightarrow> string" where
  "fixed_message INVALID_ARTIFACT = ''Canonical evidence artifact is invalid''"
| "fixed_message FORBIDDEN_PUBLIC_FIELD = ''Canonical evidence artifact contains a forbidden public field''"
| "fixed_message ARTIFACT_TOO_LARGE = ''Canonical evidence artifact exceeds the configured size limit''"
| "fixed_message OBJECT_TOO_LARGE = ''Published evidence object exceeds the configured size limit''"
| "fixed_message CREATE_FAILED = ''Greenfield object creation failed''"
| "fixed_message CREATE_UNKNOWN = ''Greenfield object creation outcome is unknown and requires reconciliation''"
| "fixed_message UPLOAD_FAILED = ''Greenfield object upload failed''"
| "fixed_message PROVIDER_FAILED = ''Greenfield provider operation failed''"
| "fixed_message MALFORMED_TRANSACTION = ''Provider returned a malformed transaction hash''"
| "fixed_message TIMEOUT = ''Greenfield provider operation timed out''"
| "fixed_message MISSING_OBJECT = ''Greenfield object is unavailable''"
| "fixed_message HASH_MISMATCH = ''Greenfield readback hash did not match canonical bytes''"
| "fixed_message SIZE_MISMATCH = ''Greenfield readback size did not match canonical bytes''"
| "fixed_message DUPLICATE_IDEMPOTENCY_KEY = ''Publication idempotency key is already bound''"
| "fixed_message UNSUPPORTED_PROVIDER = ''Greenfield provider is not supported by trusted configuration''"
| "fixed_message CONFIGURATION_CHANGED = ''Publication configuration changed''"
| "fixed_message DURABLE_GRAPH_INVALID = ''Durable evidence graph is invalid''"
| "fixed_message SEAL_TRANSACTION_MISSING = ''Greenfield seal transaction hash is missing''"
| "fixed_message CONCURRENT_UPDATE = ''Publication state was concurrently updated''"
| "fixed_message LEASE_LOST = ''Publication lease is no longer held''"

definition errorMessage :: "publication_exn \<Rightarrow> string" where
  "errorMessage e = fixed_message (errorCode e PROVIDER_FAILED)"

definition checkedTransactionHash :: "string option \<Rightarrow> publication_exn + string option" where
  "checkedTransactionHash h = (case h of None \<Rightarrow> Inr None | Some s \<Rightarrow> (let n = js_lower (js_trim s) in
     if \<not> transactionHashSchema n then Inl (PublicationError MALFORMED_TRANSACTION)
     else Inr (if zero_transaction n then None else Some n)))"

definition checkedNetwork :: "string \<Rightarrow> string \<Rightarrow> publication_exn + unit" where
  "checkedNetwork actual expected = (if actual \<noteq> expected then Inl (PublicationError PROVIDER_FAILED) else Inr ())"

section \<open>Digests of artifacts\<close>

text \<open>packages/evidence/src/artifacts.ts: \<open>digestArtifact\<close> and \<open>deterministicObjectName\<close>.\<close>

definition utf8_bytes :: "string \<Rightarrow> 8 word list" where
  "utf8_bytes s = concat (map (\<lambda>c. if code c < 128 then [of_nat (code c)]
     else [of_nat (192 + code c div 64), of_nat (128 + code c mod 64)]) s)"

record artifact_digest =
  dg_artifact :: normal_artifact
  dg_canonicalBytes :: "8 word list"
  dg_sha256Digest :: string
  dg_keccak256Digest :: string
  dg_sizeBytes :: int

definition digestArtifact :: "'e evidence_publisher \<Rightarrow> js_value \<Rightarrow> publication_exn + artifact_digest" where
  "digestArtifact ep input = bindE (ep_normalize ep input) (\<lambda>a. let bytes = utf8_bytes (na_canonicalJson a) in
     Inr \<lparr>dg_artifact = a, dg_canonicalBytes = bytes, dg_sha256Digest = pp_sha256 (ep_platform ep) bytes,
       dg_keccak256Digest = pp_keccak (ep_platform ep) bytes, dg_sizeBytes = int (length bytes)\<rparr>)"

text \<open>\<open>encodeURIComponent\<close>, of which every character of an identifier but the colon is left as it is.\<close>

definition encode_segment :: "string \<Rightarrow> string" where
  "encode_segment s = concat (map (\<lambda>c.
     if is_alnum c \<or> c \<in> {CHR ''-'', CHR ''_'', CHR ''.'', CHR ''!'', CHR ''~'', CHR ''*'', CHR 0x27, CHR ''('', CHR '')''} then [c]
     else concat (map (\<lambda>b. ''%'' @ map (\<lambda>d. if d < 10 then hex_digit d else char_of (d + 55)) [unat b div 16, unat b mod 16]) (utf8_bytes [c]))) s)"

definition pathSegment :: "string \<Rightarrow> publication_exn + string" where
  "pathSegment s = (let e = encode_segment s in if e \<in> {[], ''.'', ''..''} then Inl (OtherThrown None) else Inr e)"

definition deterministicObjectName :: "normal_artifact \<Rightarrow> publication_exn + string" where
  "deterministicObjectName a = bindE (pathSegment (environment_text (na_environment a))) (\<lambda>env.
     bindE (pathSegment (na_artifactId a)) (\<lambda>aid.
     Inr (''evidence/'' @ env @ ''/'' @ na_artifactType a @ ''/'' @ aid @ ''/versions/'' @ show_int (na_version a) @ ''/''
       @ na_artifactType a @ ''.json'')))"

section \<open>Writing a record\<close>

definition nowIso :: "'e evidence_publisher \<Rightarrow> 'e publication_world \<Rightarrow> int \<times> 'e publication_world" where
  "nowIso ep = on_env (ep_clock ep)"

definition illegal_move :: "attempt_state \<Rightarrow> attempt_state \<Rightarrow> bool" where
  "illegal_move s next \<longleftrightarrow> s \<noteq> next \<and> next \<notin> set (stateTransitions s)"

definition moved :: "publication_attempt \<Rightarrow> attempt_state \<Rightarrow> string \<Rightarrow> (publication_attempt \<Rightarrow> publication_attempt)
    \<Rightarrow> int option \<Rightarrow> int option \<Rightarrow> int \<Rightarrow> publication_attempt" where
  "moved r next token patch started completed updated = (patch r)\<lparr>pub_state := next, pub_revision := pub_revision r + 1,
     pub_leaseOwner := Some token, pub_startedAt := started, pub_completedAt := completed, pub_updatedAt := updated\<rparr>"

definition transition_step :: "'e evidence_publisher \<Rightarrow> publication_attempt \<Rightarrow> attempt_state
    \<Rightarrow> (publication_attempt \<Rightarrow> publication_attempt) \<Rightarrow> string
    \<Rightarrow> 'e publication_world \<Rightarrow> (publication_exn + publication_attempt) \<times> 'e publication_world" where
  "transition_step ep r next patch token =
     bindS (if pub_startedAt r = None \<and> next = AtValidating then bindS (nowIso ep) (\<lambda>t. returnS (Some t)) else returnS (pub_startedAt r)) (\<lambda>started.
     bindS (if next \<in> terminalStates then bindS (nowIso ep) (\<lambda>t. returnS (Some t)) else returnS (pub_completedAt r)) (\<lambda>completed.
     bindS (nowIso ep) (\<lambda>updated.
     case publicationAttemptRecordSchema (ep_platform ep) (moved r next token patch started completed updated) of
       Inl e \<Rightarrow> returnS (Inl e)
     | Inr u \<Rightarrow> bindS (nowIso ep) (\<lambda>now.
         bindS (on_records (save (ep_platform ep) u (pub_revision r) token now)) (\<lambda>x.
         returnS (case x of Inl e \<Rightarrow> Inl e | Inr _ \<Rightarrow> Inr u))))))"

type_synonym 'e publication_job = "('e publication_world, publication_exn + publication_attempt) worker"

definition transition :: "'e evidence_publisher \<Rightarrow> publication_attempt \<Rightarrow> attempt_state
    \<Rightarrow> (publication_attempt \<Rightarrow> publication_attempt) \<Rightarrow> 'e publication_job" where
  "transition ep r next patch =
     (if illegal_move (pub_state r) next then throwW (OtherThrown None) else
      case pub_leaseOwner r of None \<Rightarrow> throwW (PublicationError LEASE_LOST)
      | Some token \<Rightarrow> await (transition_step ep r next patch token))"

definition append_audit :: "'e evidence_publisher \<Rightarrow> publication_audit \<Rightarrow> 'e publication_world \<Rightarrow> (publication_exn + unit) \<times> 'e publication_world" where
  "append_audit ep a w = (Inr (), w\<lparr>pw_audits := pw_audits w @ [a]\<rparr>)"

definition retryable_code :: "failure_code \<Rightarrow> bool" where
  "retryable_code c \<longleftrightarrow> c \<notin> {DUPLICATE_IDEMPOTENCY_KEY, MISSING_OBJECT, ARTIFACT_TOO_LARGE, OBJECT_TOO_LARGE, CREATE_UNKNOWN, INVALID_ARTIFACT,
     FORBIDDEN_PUBLIC_FIELD, MALFORMED_TRANSACTION, SEAL_TRANSACTION_MISSING, CONFIGURATION_CHANGED, DURABLE_GRAPH_INVALID,
     CONCURRENT_UPDATE, LEASE_LOST}"

definition fail_attempt :: "'e evidence_publisher \<Rightarrow> publication_attempt \<Rightarrow> attempt_state \<Rightarrow> failure_code \<Rightarrow> string
    \<Rightarrow> (publication_attempt \<Rightarrow> publication_attempt) \<Rightarrow> 'e publication_job" where
  "fail_attempt ep r s c message patch =
     bindW (transition ep r s (\<lambda>x. (patch x)\<lparr>pub_lastErrorCode := Some c, pub_lastErrorMessage := Some message,
       pub_retryable := retryable_code c\<rparr>)) (\<lambda>failed.
     if s = AtValidationFailed then
       bindW (await (append_audit ep \<lparr>ad_attemptId = pub_attemptId failed, ad_idempotencyKey = pub_idempotencyKey failed,
         ad_reasonCode = c, ad_message = message, ad_createdAt = pub_updatedAt failed\<rparr>)) (\<lambda>_. returnW failed)
     else returnW failed)"

definition provider_label :: "'e evidence_publisher \<Rightarrow> publication_provider \<Rightarrow> string" where
  "provider_label ep p = (case p of Ipfs \<Rightarrow> cg_ipfs_label (ep_configuration ep) | Greenfield \<Rightarrow> cg_greenfield_label (ep_configuration ep))"

definition configured_network :: "'e evidence_publisher \<Rightarrow> publication_provider \<Rightarrow> string" where
  "configured_network ep p = (case p of Ipfs \<Rightarrow> cg_ipfs_network (ep_configuration ep) | Greenfield \<Rightarrow> cg_greenfield_network (ep_configuration ep))"

definition configured_bucket :: "'e evidence_publisher \<Rightarrow> publication_provider \<Rightarrow> string option" where
  "configured_bucket ep p = (case p of Ipfs \<Rightarrow> None | Greenfield \<Rightarrow> Some (cg_greenfield_bucket (ep_configuration ep)))"

definition newRecord :: "'e evidence_publisher \<Rightarrow> string \<Rightarrow> artifact_digest \<Rightarrow> publication_provider \<Rightarrow> attempt_state
    \<Rightarrow> 'e publication_world \<Rightarrow> (publication_exn + publication_attempt) \<times> 'e publication_world" where
  "newRecord ep key dg p s = bindS (nowIso ep) (\<lambda>now. returnS (
     if na_environment (dg_artifact dg) \<noteq> cg_environment (ep_configuration ep) then Inl (PublicationError INVALID_ARTIFACT) else
     bindE (deterministicObjectName (dg_artifact dg)) (\<lambda>name0. bindE (assertImmutableObjectName name0) (\<lambda>name.
     publicationAttemptRecordSchema (ep_platform ep) \<lparr>pub_attemptId = deterministicAttemptId (ep_platform ep) (providerIdempotencyKey key p) p,
       pub_idempotencyKey = providerIdempotencyKey key p, pub_provider = p, pub_providerLabel = provider_label ep p,
       pub_configurationDigest = ep_configurationDigest ep, pub_configuredNetwork = configured_network ep p,
       pub_configuredBucket = configured_bucket ep p, pub_artifactId = na_artifactId (dg_artifact dg),
       pub_artifactType = na_artifactType (dg_artifact dg), pub_artifactVersion = na_version (dg_artifact dg), pub_objectName = name,
       pub_sha256Digest = dg_sha256Digest dg, pub_keccak256Digest = dg_keccak256Digest dg, pub_sizeBytes = dg_sizeBytes dg,
       pub_state = s, pub_revision = 0, pub_leaseOwner = None, pub_leaseExpiresAt = None, pub_providerReference = None,
       pub_creationTransactionHash = None, pub_sealTransactionHash = None, pub_locator = None, pub_verification = None,
       pub_retryCount = 0, pub_lastErrorCode = None, pub_lastErrorMessage = None, pub_retryable = False, pub_submittedAt = None,
       pub_startedAt = None, pub_completedAt = None, pub_createdAt = now, pub_updatedAt = now\<rparr>))))"

definition withError :: "'e evidence_publisher \<Rightarrow> publication_attempt \<Rightarrow> failure_code \<Rightarrow> string
    \<Rightarrow> 'e publication_world \<Rightarrow> (publication_exn + publication_attempt) \<times> 'e publication_world" where
  "withError ep r c message = bindS (nowIso ep) (\<lambda>completed. bindS (nowIso ep) (\<lambda>updated. returnS (
     publicationAttemptRecordSchema (ep_platform ep) (r\<lparr>pub_lastErrorCode := Some c, pub_lastErrorMessage := Some message,
       pub_retryable := False, pub_completedAt := Some completed, pub_updatedAt := updated\<rparr>))))"

definition assertCurrentConfiguration :: "'e evidence_publisher \<Rightarrow> publication_attempt \<Rightarrow> publication_provider \<Rightarrow> publication_exn + unit" where
  "assertCurrentConfiguration ep r p =
     (if pub_configurationDigest r \<noteq> ep_configurationDigest ep \<or> pub_providerLabel r \<noteq> provider_label ep p
        \<or> pub_configuredNetwork r \<noteq> configured_network ep p \<or> pub_configuredBucket r \<noteq> configured_bucket ep p
      then Inl (PublicationError CONFIGURATION_CHANGED) else Inr ())"

end
