(* ===== verification/Publication_Runs.thy ===== *)
theory Publication_Runs
  imports Publication_Publisher
begin

text \<open>
  packages/greenfield/src/publisher.ts, second part: the runs of a publication attempt with each provider, its retry and
  reconciliation, and the public methods.
\<close>

definition settled :: "publication_exn + 'a \<Rightarrow> ('w, publication_exn + 'a) worker" where
  "settled r = Done r"

definition clock_read :: "'e evidence_publisher \<Rightarrow> ('e publication_world, publication_exn + int) worker" where
  "clock_read ep = await (bindS (nowIso ep) (\<lambda>t. returnS (Inr t)))"

definition call :: "('e \<Rightarrow> (publication_exn + 'a) \<times> 'e) \<Rightarrow> ('e publication_world, publication_exn + 'a) worker" where
  "call f = await (on_env f)"

section \<open>Reading back\<close>

definition readback_result :: "int \<Rightarrow> bool option \<Rightarrow> artifact_digest \<Rightarrow> string option \<Rightarrow> string option \<Rightarrow> int option
    \<Rightarrow> readback_status \<Rightarrow> failure_code option \<Rightarrow> publication_exn + verification_result" where
  "readback_result now sealConfirmed dg sha keccak bytesRead status reason = createVerificationResult
     \<lparr>ve_status = EvNotVerified, ve_checkedAt = now, ve_sealConfirmed = sealConfirmed, ve_readbackStatus = status,
      ve_expectedSha256Digest = dg_sha256Digest dg, ve_observedSha256Digest = sha, ve_expectedKeccak256Digest = dg_keccak256Digest dg,
      ve_observedKeccak256Digest = keccak, ve_expectedSizeBytes = dg_sizeBytes dg, ve_observedSizeBytes = bytesRead,
      ve_hashesMatch = False, ve_sizeMatches = False, ve_reasonCode = reason\<rparr>"

definition judge_readback :: "'e evidence_publisher \<Rightarrow> publication_attempt \<Rightarrow> artifact_digest \<Rightarrow> bool option \<Rightarrow> 8 word list \<Rightarrow> int
    \<Rightarrow> 'e publication_job" where
  "judge_readback ep r dg sealConfirmed bytes now =
     bindW (settled (readback_result now sealConfirmed dg (Some (pp_sha256 (ep_platform ep) bytes)) (Some (pp_keccak (ep_platform ep) bytes))
         (Some (int (length bytes))) (if bytes = dg_canonicalBytes dg then RbMatched else RbCorrupt)
         (if bytes = dg_canonicalBytes dg then None else if int (length bytes) = dg_sizeBytes dg then Some HASH_MISMATCH else Some SIZE_MISMATCH))) (\<lambda>v.
     if ve_status v \<noteq> EvVerified then
       fail_attempt ep r (if ve_readbackStatus v = RbCorrupt then AtHashMismatch else AtReadbackFailed)
         (if ve_reasonCode v = Some SIZE_MISMATCH then SIZE_MISMATCH else HASH_MISMATCH)
         ''Readback content does not match canonical bytes'' (\<lambda>x. x\<lparr>pub_verification := Some v\<rparr>)
     else bindW (case pub_locator r of None \<Rightarrow> returnW None
         | Some l \<Rightarrow> bindW (clock_read ep) (\<lambda>t. returnW (Some (l\<lparr>lc_verifiedAt := Some t\<rparr>)))) (\<lambda>l.
       transition ep r AtVerified (\<lambda>x. x\<lparr>pub_verification := Some v, pub_locator := l\<rparr>)))"

definition verifyReadback :: "'e evidence_publisher \<Rightarrow> publication_attempt \<Rightarrow> artifact_digest
    \<Rightarrow> ('e \<Rightarrow> (publication_exn + 8 word list) \<times> 'e) \<Rightarrow> bool option \<Rightarrow> 'e publication_job" where
  "verifyReadback ep r dg read sealConfirmed = bindP (call read) (\<lambda>x. case x of
     Inl e \<Rightarrow> let c = errorCode e MISSING_OBJECT in
       bindW (clock_read ep) (\<lambda>now.
       bindW (settled (readback_result now sealConfirmed dg None None None
         (if c = TIMEOUT then RbTimeout else if c = MISSING_OBJECT then RbMissing else RbProviderFailed) (Some c))) (\<lambda>v.
       fail_attempt ep r AtReadbackFailed c (errorMessage e) (\<lambda>x. x\<lparr>pub_verification := Some v\<rparr>)))
   | Inr bytes \<Rightarrow> bindW (clock_read ep) (judge_readback ep r dg sealConfirmed bytes))"

section \<open>IPFS\<close>

definition upload_of :: "publication_attempt \<Rightarrow> artifact_digest \<Rightarrow> upload_input" where
  "upload_of r dg = \<lparr>ui_bytes = dg_canonicalBytes dg, ui_objectName = pub_objectName r, ui_sha256Digest = dg_sha256Digest dg,
     ui_keccak256Digest = dg_keccak256Digest dg, ui_sizeBytes = dg_sizeBytes dg\<rparr>"

definition locator_of :: "'e evidence_publisher \<Rightarrow> publication_provider \<Rightarrow> artifact_digest \<Rightarrow> string \<Rightarrow> string option \<Rightarrow> string option
    \<Rightarrow> publication_exn + evidence_locator" where
  "locator_of ep p dg uri name ref = createEvidenceLocator (ep_platform ep)
     \<lparr>lc_provider = p, lc_providerLabel = provider_label ep p, lc_network = configured_network ep p, lc_uri = uri,
      lc_bucket = configured_bucket ep p, lc_objectName = name, lc_providerReference = ref, lc_version = na_version (dg_artifact dg),
      lc_sha256Digest = dg_sha256Digest dg, lc_keccak256Digest = dg_keccak256Digest dg, lc_sizeBytes = dg_sizeBytes dg,
      lc_verifiedAt = None\<rparr>"

definition runIpfs :: "'e evidence_publisher \<Rightarrow> 'e ipfs_publisher \<Rightarrow> artifact_digest \<Rightarrow> publication_attempt \<Rightarrow> 'e publication_job" where
  "runIpfs ep ad dg initial =
     (if pub_state initial = AtReadingBack then
        (case pub_locator initial of
           None \<Rightarrow> fail_attempt ep initial AtReadbackFailed MISSING_OBJECT ''IPFS readback has no durable locator'' id
         | Some l \<Rightarrow> verifyReadback ep initial dg (ip_read ad (lc_uri l)) None)
      else bindW (transition ep initial AtUploading id) (\<lambda>r.
        bindP (bindW (call (ip_upload ad (upload_of r dg))) (\<lambda>receipt.
               bindW (settled (checkedNetwork (ir_network receipt) (cg_ipfs_network (ep_configuration ep)))) (\<lambda>_.
               bindW (settled (locator_of ep Ipfs dg (ir_uri receipt) None (ir_providerReference receipt))) (\<lambda>l.
               bindW (transition ep r AtReadingBack (\<lambda>x. x\<lparr>pub_providerReference := ir_providerReference receipt, pub_locator := Some l\<rparr>)) (\<lambda>r'.
               returnW (r', ir_uri receipt)))))) (\<lambda>x. case x of
           Inl e \<Rightarrow> fail_attempt ep r AtUploadFailed (errorCode e UPLOAD_FAILED) (errorMessage e) id
         | Inr (r', uri) \<Rightarrow> verifyReadback ep r' dg (ip_read ad (case pub_locator r' of None \<Rightarrow> uri | Some l \<Rightarrow> lc_uri l)) None)))"

section \<open>Greenfield\<close>

text \<open>The loop of \<open>awaitSeal\<close> with \<open>n\<close> polls left.\<close>

datatype seal_poll = PollSealed publication_attempt | PollUnsealed seal_status

definition poll_seal :: "'e evidence_publisher \<Rightarrow> 'e greenfield_publisher \<Rightarrow> publication_attempt \<Rightarrow> string \<Rightarrow> nat
    \<Rightarrow> ('e publication_world, publication_exn + seal_poll) worker" where
  "poll_seal ep ad r ref attempt = bindW (call (gp_waitForSeal ad ref attempt)) (\<lambda>seal.
     bindW (settled (checkedTransactionHash (se_sealTransactionHash seal))) (\<lambda>h.
     if se_status seal = SealSealed then
       bindW (transition ep r AtReadingBack (\<lambda>x. x\<lparr>pub_sealTransactionHash := h\<rparr>)) (\<lambda>r'. returnW (PollSealed r'))
     else returnW (PollUnsealed (se_status seal))))"

definition seal_backoff :: "'e evidence_publisher \<Rightarrow> nat \<Rightarrow> ('e publication_world, publication_exn + unit) worker" where
  "seal_backoff ep attempt = (let delays = cg_sealBackoffMs (ep_configuration ep); i = min (attempt - 1) (length delays - 1) in
     if delays \<noteq> [] \<and> 0 < delays ! i then await (on_env (\<lambda>e. (Inr (), ep_sleep ep (delays ! i) e))) else returnW ())"

fun awaitSeal :: "'e evidence_publisher \<Rightarrow> 'e greenfield_publisher \<Rightarrow> artifact_digest \<Rightarrow> string \<Rightarrow> nat \<Rightarrow> publication_attempt
    \<Rightarrow> 'e publication_job" where
  "awaitSeal ep ad dg ref 0 r =
     fail_attempt ep r AtSealTimeout TIMEOUT ''Greenfield seal was not confirmed within the polling bound'' id"
| "awaitSeal ep ad dg ref (Suc n) r = (let attempt = nat (cg_maxSealPolls (ep_configuration ep)) - n in
     bindP (poll_seal ep ad r ref attempt) (\<lambda>x. case x of
       Inl e \<Rightarrow> fail_attempt ep r AtProviderFailed (errorCode e PROVIDER_FAILED) (errorMessage e) id
     | Inr (PollSealed r') \<Rightarrow> verifyReadback ep r' dg (gp_readObject ad ref) (Some True)
     | Inr (PollUnsealed s) \<Rightarrow>
         if s = SealMissing then fail_attempt ep r AtReadbackFailed MISSING_OBJECT ''Greenfield object is missing while awaiting seal'' id
         else if n = 0 then awaitSeal ep ad dg ref 0 r
         else bindW (transition ep r AtAwaitingSeal id) (\<lambda>r'.
           bindW (seal_backoff ep attempt) (\<lambda>_. awaitSeal ep ad dg ref n r'))))"

definition await_seal :: "'e evidence_publisher \<Rightarrow> 'e greenfield_publisher \<Rightarrow> artifact_digest \<Rightarrow> publication_attempt \<Rightarrow> string
    \<Rightarrow> 'e publication_job" where
  "await_seal ep ad dg r ref = awaitSeal ep ad dg ref (nat (cg_maxSealPolls (ep_configuration ep))) r"

text \<open>The branch for a submitted or uploading attempt.\<close>

definition upload_greenfield :: "'e evidence_publisher \<Rightarrow> 'e greenfield_publisher \<Rightarrow> artifact_digest \<Rightarrow> publication_attempt \<Rightarrow> string
    \<Rightarrow> 'e publication_job" where
  "upload_greenfield ep ad dg r ref =
     bindP (bindW (call (gp_uploadObject ad (upload_of r dg) ref (pub_creationTransactionHash r))) (\<lambda>receipt.
            bindW (settled (checkedNetwork (gr_network receipt) (cg_greenfield_network (ep_configuration ep)))) (\<lambda>_.
            bindW (settled (if gr_bucket receipt \<noteq> cg_greenfield_bucket (ep_configuration ep) then Inl (PublicationError PROVIDER_FAILED) else Inr ())) (\<lambda>_.
            bindW (settled (case pp_hostname (ep_platform ep) (gr_uri receipt) of None \<Rightarrow> Inl (OtherThrown None)
              | Some h \<Rightarrow> if h \<noteq> cg_greenfield_bucket (ep_configuration ep) then Inl (PublicationError PROVIDER_FAILED) else Inr ())) (\<lambda>_.
            bindW (settled (locator_of ep Greenfield dg (gr_uri receipt) (Some (pub_objectName r)) (Some (gr_providerReference receipt)))) (\<lambda>l.
            transition ep r AtAwaitingSeal (\<lambda>x. x\<lparr>pub_providerReference := Some ref, pub_locator := Some l\<rparr>))))))) (\<lambda>x. case x of
       Inl e \<Rightarrow> fail_attempt ep r AtUploadFailed (errorCode e UPLOAD_FAILED) (errorMessage e) id
     | Inr r' \<Rightarrow> await_seal ep ad dg r' ref)"

definition continue_greenfield :: "'e evidence_publisher \<Rightarrow> 'e greenfield_publisher \<Rightarrow> artifact_digest \<Rightarrow> publication_attempt
    \<Rightarrow> string option \<Rightarrow> 'e publication_job" where
  "continue_greenfield ep ad dg r objectReference =
     (if pub_state r = AtSubmitted \<or> pub_state r = AtUploading then
        (case objectReference of
           None \<Rightarrow> fail_attempt ep r AtCreateFailed CREATE_FAILED ''Submitted attempt has no object reference'' id
         | Some ref \<Rightarrow> bindW (if pub_state r = AtSubmitted then transition ep r AtUploading id else returnW r) (\<lambda>r'.
             if pub_locator r' = None then upload_greenfield ep ad dg r' ref
             else bindW (transition ep r' AtAwaitingSeal (\<lambda>x. x\<lparr>pub_providerReference := Some ref\<rparr>)) (\<lambda>r''. await_seal ep ad dg r'' ref)))
      else fail_attempt ep r AtProviderFailed PROVIDER_FAILED ''Greenfield attempt cannot be reconciled from its durable state'' id)"

text \<open>Creating the object, once no existing object was found.\<close>

definition create_greenfield :: "'e evidence_publisher \<Rightarrow> 'e greenfield_publisher \<Rightarrow> artifact_digest \<Rightarrow> publication_attempt
    \<Rightarrow> 'e publication_job" where
  "create_greenfield ep ad dg r =
     bindP (bindW (call (gp_createObject ad (upload_of r dg))) (\<lambda>created.
            bindW (settled (checkedTransactionHash (cr_creationTransactionHash created))) (\<lambda>h.
            bindW (if cr_status created = CreateSubmitted then bindW (clock_read ep) (\<lambda>t. returnW (Some t)) else returnW None) (\<lambda>submitted.
            bindW (transition ep r (if cr_status created = CreateSubmitted then AtSubmitted else AtUploading)
                (\<lambda>x. x\<lparr>pub_providerReference := cr_objectReference created, pub_creationTransactionHash := h, pub_submittedAt := submitted\<rparr>)) (\<lambda>r'.
            returnW (r', cr_objectReference created)))))) (\<lambda>x. case x of
       Inl e \<Rightarrow> fail_attempt ep r AtCreateFailed (errorCode e CREATE_FAILED) (errorMessage e) id
     | Inr (r', None) \<Rightarrow> fail_attempt ep r' AtCreateFailed CREATE_FAILED ''Provider did not return an object reference'' id
     | Inr (r', Some ref) \<Rightarrow> continue_greenfield ep ad dg r' (Some ref))"

text \<open>What an inspection that found the object leads to; its exceptions are not caught.\<close>

definition recover_greenfield :: "'e evidence_publisher \<Rightarrow> 'e greenfield_publisher \<Rightarrow> artifact_digest \<Rightarrow> publication_attempt
    \<Rightarrow> inspect_receipt \<Rightarrow> 'e publication_job" where
  "recover_greenfield ep ad dg r inspected = (case in_objectReference inspected of
     None \<Rightarrow> fail_attempt ep r AtCreateFailed CREATE_FAILED ''Greenfield inspection found an object without a provider reference'' id
   | Some ref \<Rightarrow> bindW (settled (checkedTransactionHash (in_creationTransactionHash inspected))) (\<lambda>creation. case creation of
       None \<Rightarrow> fail_attempt ep r AtCreateFailed CREATE_FAILED ''Greenfield inspection found an object without its creation transaction hash'' id
     | Some h \<Rightarrow>
         if in_status inspected = InspectSealed then
           bindW (settled (locator_of ep Greenfield dg
               (''greenfield://'' @ cg_greenfield_bucket (ep_configuration ep) @ ''/'' @ pub_objectName r) (Some (pub_objectName r)) (Some ref))) (\<lambda>l.
           bindW (settled (checkedTransactionHash (in_sealTransactionHash inspected))) (\<lambda>seal.
           bindW (transition ep r AtAwaitingSeal (\<lambda>x. x\<lparr>pub_providerReference := Some ref, pub_creationTransactionHash := Some h,
               pub_sealTransactionHash := seal, pub_locator := Some l\<rparr>)) (\<lambda>r'.
           await_seal ep ad dg r' ref)))
         else bindW (transition ep r AtUploading (\<lambda>x. x\<lparr>pub_providerReference := Some ref, pub_creationTransactionHash := Some h\<rparr>)) (\<lambda>r'.
           continue_greenfield ep ad dg r' (Some ref))))"

definition inspect_greenfield :: "'e evidence_publisher \<Rightarrow> 'e greenfield_publisher \<Rightarrow> artifact_digest \<Rightarrow> publication_attempt
    \<Rightarrow> 'e publication_job" where
  "inspect_greenfield ep ad dg r = (case gp_inspectObject ad of None \<Rightarrow> create_greenfield ep ad dg r
   | Some inspect \<Rightarrow> bindP (call (inspect (upload_of r dg))) (\<lambda>x. case x of
       Inl e \<Rightarrow> fail_attempt ep r AtProviderFailed (errorCode e PROVIDER_FAILED) (errorMessage e) id
     | Inr inspected \<Rightarrow> if in_status inspected = InspectMissing then create_greenfield ep ad dg r
         else recover_greenfield ep ad dg r inspected))"

definition runGreenfield :: "'e evidence_publisher \<Rightarrow> 'e greenfield_publisher \<Rightarrow> artifact_digest \<Rightarrow> publication_attempt \<Rightarrow> 'e publication_job" where
  "runGreenfield ep ad dg r = (case pub_state r of
     AtReadingBack \<Rightarrow> (case pub_providerReference r of
         None \<Rightarrow> fail_attempt ep r AtReadbackFailed MISSING_OBJECT ''Greenfield readback has no durable object reference'' id
       | Some ref \<Rightarrow> verifyReadback ep r dg (gp_readObject ad ref) (Some True))
   | AtAwaitingSeal \<Rightarrow> (case pub_providerReference r of
         None \<Rightarrow> fail_attempt ep r AtProviderFailed PROVIDER_FAILED ''Awaiting-seal attempt is missing durable object metadata'' id
       | Some ref \<Rightarrow> if pub_locator r = None
           then fail_attempt ep r AtProviderFailed PROVIDER_FAILED ''Awaiting-seal attempt is missing durable object metadata'' id
           else await_seal ep ad dg r ref)
   | _ \<Rightarrow>
     if (pub_state r = AtValidating \<or> pub_state r = AtCreatingObject) \<and> pub_providerReference r = None then
       bindW (if pub_state r = AtCreatingObject then returnW r else transition ep r AtCreatingObject id) (inspect_greenfield ep ad dg)
     else continue_greenfield ep ad dg r (pub_providerReference r))"

section \<open>Running an attempt\<close>

definition validateSizeBounds :: "'e evidence_publisher \<Rightarrow> publication_attempt \<Rightarrow> artifact_digest
    \<Rightarrow> ('e publication_world, publication_exn + publication_attempt option) worker" where
  "validateSizeBounds ep r dg =
     (if cg_maxArtifactBytes (ep_configuration ep) < dg_sizeBytes dg then
        bindW (fail_attempt ep r AtValidationFailed ARTIFACT_TOO_LARGE ''Canonical artifact exceeds the configured size limit'' id) (\<lambda>x. returnW (Some x))
      else if cg_maxObjectBytes (ep_configuration ep) < dg_sizeBytes dg then
        bindW (fail_attempt ep r AtValidationFailed OBJECT_TOO_LARGE ''Published object exceeds the configured size limit'' id) (\<lambda>x. returnW (Some x))
      else returnW None)"

definition run_caught :: "'e evidence_publisher \<Rightarrow> publication_attempt \<Rightarrow> publication_exn \<Rightarrow> 'e publication_job" where
  "run_caught ep r e = (if pub_state r \<noteq> AtProviderFailed \<and> AtProviderFailed \<notin> set (stateTransitions (pub_state r)) then throwW e
     else fail_attempt ep r AtProviderFailed (errorCode e PROVIDER_FAILED) (errorMessage e) id)"

definition run_adapter :: "'e evidence_publisher \<Rightarrow> artifact_digest \<Rightarrow> publication_provider \<Rightarrow> publication_attempt \<Rightarrow> 'e publication_job" where
  "run_adapter ep dg p r = (case p of
     Ipfs \<Rightarrow> (case ep_ipfs ep of
         None \<Rightarrow> fail_attempt ep r AtProviderFailed UNSUPPORTED_PROVIDER ''IPFS adapter is not configured'' id
       | Some ad \<Rightarrow> runIpfs ep ad dg r)
   | Greenfield \<Rightarrow> (case ep_greenfield ep of
         None \<Rightarrow> fail_attempt ep r AtProviderFailed UNSUPPORTED_PROVIDER ''Greenfield adapter is not configured'' id
       | Some ad \<Rightarrow> runGreenfield ep ad dg r))"

definition runProvider :: "'e evidence_publisher \<Rightarrow> artifact_digest \<Rightarrow> publication_provider \<Rightarrow> publication_attempt \<Rightarrow> 'e publication_job" where
  "runProvider ep dg p initial =
     bindP (if pub_state initial = AtPending \<or> pub_state initial = AtRetrying then transition ep initial AtValidating id else returnW initial) (\<lambda>x. case x of
       Inl e \<Rightarrow> run_caught ep initial e
     | Inr r \<Rightarrow> bindP (validateSizeBounds ep r dg) (\<lambda>y. case y of
           Inl e \<Rightarrow> run_caught ep r e
         | Inr (Some failed) \<Rightarrow> returnW failed
         | Inr None \<Rightarrow> run_adapter ep dg p r))"

definition retry_reset :: "int \<Rightarrow> publication_attempt \<Rightarrow> publication_attempt" where
  "retry_reset n x = x\<lparr>pub_retryCount := n, pub_lastErrorCode := None, pub_lastErrorMessage := None, pub_retryable := False,
     pub_startedAt := None, pub_completedAt := None, pub_verification := None\<rparr>"

definition reconcileUnknownCreate :: "'e evidence_publisher \<Rightarrow> publication_attempt \<Rightarrow> artifact_digest
    \<Rightarrow> ('e publication_world, publication_exn + publication_attempt option) worker" where
  "reconcileUnknownCreate ep initial dg = (case Option.bind (ep_greenfield ep) gp_reconcileCreate of
     None \<Rightarrow> returnW None
   | Some reconcile \<Rightarrow> bindP (call (reconcile (upload_of initial dg))) (\<lambda>x. case x of
       Inl _ \<Rightarrow> returnW None
     | Inr n \<Rightarrow>
         if rn_status n = ReconcileUnknown
           \<or> rn_status n = ReconcilePresent \<and> (rn_objectReference n = None \<or> rn_creationTransactionHash n = None)
         then returnW None
         else bindW (transition ep initial AtRetrying (\<lambda>x. (retry_reset (pub_retryCount initial + 1) x)\<lparr>pub_providerReference := None,
                pub_creationTransactionHash := None, pub_sealTransactionHash := None, pub_locator := None\<rparr>)) (\<lambda>retrying.
              bindW (transition ep retrying AtPending id) (\<lambda>pending.
              bindW (runProvider ep dg Greenfield pending) (\<lambda>r. returnW (Some r))))))"

section \<open>Publishing\<close>

text \<open>An early \<open>return\<close> inside \<open>try\<close> keeps its value, the other outcome is read again after the lease was released.\<close>

datatype run_result = EarlyReturn publication_attempt | RunOutcome publication_attempt

definition leased_body :: "'e evidence_publisher \<Rightarrow> artifact_digest \<Rightarrow> publication_provider \<Rightarrow> publication_attempt \<Rightarrow> bool \<Rightarrow> publication_attempt
    \<Rightarrow> ('e publication_world, publication_exn + run_result) worker" where
  "leased_body ep dg p existing created leased =
     (let run = (\<lambda>r. bindW (runProvider ep dg p r) (\<lambda>x. returnW (RunOutcome x))) in
      if \<not> created \<and> pub_state existing \<in> terminalStates then
        if pub_state existing = AtCreateFailed \<and> pub_lastErrorCode existing = Some CREATE_UNKNOWN then
          bindW (reconcileUnknownCreate ep leased dg) (\<lambda>x. returnW (EarlyReturn (case x of None \<Rightarrow> leased | Some r \<Rightarrow> r)))
        else if \<not> pub_retryable existing then returnW (EarlyReturn existing)
        else bindW (transition ep leased AtRetrying (retry_reset (pub_retryCount existing + 1))) (\<lambda>retrying.
             bindW (transition ep retrying AtPending id) run)
      else if \<not> created \<and> pub_state leased = AtRetrying then bindW (transition ep leased AtPending id) run
      else run leased)"

definition clocked :: "'e evidence_publisher \<Rightarrow> (int \<Rightarrow> publication_attempt list \<Rightarrow> (publication_exn + 'a) \<times> publication_attempt list)
    \<Rightarrow> ('e publication_world, publication_exn + 'a) worker" where
  "clocked ep f = await (bindS (nowIso ep) (\<lambda>now. on_records (f now)))"

definition find_again :: "string \<Rightarrow> ('e publication_world, publication_exn + publication_attempt option) worker" where
  "find_again a = await (on_records (\<lambda>rs. (Inr (findByAttemptId a rs), rs)))"

definition leased_run :: "'e evidence_publisher \<Rightarrow> artifact_digest \<Rightarrow> publication_provider \<Rightarrow> publication_attempt \<Rightarrow> bool \<Rightarrow> publication_attempt
    \<Rightarrow> string \<Rightarrow> 'e publication_job" where
  "leased_run ep dg p existing created leased token =
     bindP (leased_body ep dg p existing created leased) (\<lambda>res.
     bindW (clocked ep (releaseLease (ep_platform ep) (pub_attemptId existing) token)) (\<lambda>released.
     bindW (case released of Some r \<Rightarrow> returnW (Some r) | None \<Rightarrow> find_again (pub_attemptId existing)) (\<lambda>found.
     case res of Inl e \<Rightarrow> throwW e
     | Inr (EarlyReturn r) \<Rightarrow> returnW r
     | Inr (RunOutcome r) \<Rightarrow> returnW (case found of Some x \<Rightarrow> x | None \<Rightarrow> r))))"

definition create_or_get :: "'e evidence_publisher \<Rightarrow> string \<Rightarrow> artifact_digest \<Rightarrow> publication_provider
    \<Rightarrow> ('e publication_world, publication_exn + publication_attempt \<times> bool) worker" where
  "create_or_get ep key dg p = await (bindS (newRecord ep key dg p AtPending) (\<lambda>x. case x of Inl e \<Rightarrow> returnS (Inl e)
     | Inr candidate \<Rightarrow> on_records (createOrGet (ep_platform ep) candidate)))"

definition duplicate_attempt :: "'e evidence_publisher \<Rightarrow> string \<Rightarrow> artifact_digest \<Rightarrow> publication_provider \<Rightarrow> 'e publication_job" where
  "duplicate_attempt ep key dg p = await (bindS (newRecord ep key dg p AtDuplicate) (\<lambda>x. case x of Inl e \<Rightarrow> returnS (Inl e)
     | Inr r \<Rightarrow> withError ep r DUPLICATE_IDEMPOTENCY_KEY ''Idempotency key is bound to different content''))"

definition publishProvider :: "'e evidence_publisher \<Rightarrow> string \<Rightarrow> artifact_digest \<Rightarrow> publication_provider \<Rightarrow> string \<Rightarrow> 'e publication_job" where
  "publishProvider ep key dg p token =
     bindW (create_or_get ep key dg p) (\<lambda>(existing, created).
     if pub_provider existing \<noteq> p \<or> pub_sha256Digest existing \<noteq> dg_sha256Digest dg \<or> pub_keccak256Digest existing \<noteq> dg_keccak256Digest dg
     then duplicate_attempt ep key dg p
     else bindW (settled (assertCurrentConfiguration ep existing p)) (\<lambda>_.
       bindW (settled (assertDurablePublicationAttempt existing)) (\<lambda>_.
       if pub_state existing = AtVerified \<or> \<not> created \<and> \<not> pub_retryable existing \<and> pub_state existing \<in> terminalStates
         \<and> \<not> (pub_state existing = AtCreateFailed \<and> pub_lastErrorCode existing = Some CREATE_UNKNOWN)
       then returnW existing
       else bindW (clocked ep (\<lambda>now. acquireLease (ep_platform ep) (pub_attemptId existing) token now (cg_leaseDurationMs (ep_configuration ep)))) (\<lambda>lease.
         case lease of
           (True, Some leased) \<Rightarrow> leased_run ep dg p existing created leased token
         | _ \<Rightarrow> bindW (find_again (pub_attemptId existing)) (\<lambda>found. returnW (case found of Some x \<Rightarrow> x | None \<Rightarrow> existing))))))"

text \<open>The checks of \<open>publish\<close>; one \<open>publishProvider\<close> per enabled provider runs concurrently after them.\<close>

definition audit_failure :: "'e evidence_publisher \<Rightarrow> string \<Rightarrow> failure_code \<Rightarrow> string \<Rightarrow> publication_provider \<Rightarrow> 'e publication_world \<Rightarrow> 'e publication_world" where
  "audit_failure ep key c message p w = (case nowIso ep w of (now, w') \<Rightarrow> w'\<lparr>pw_audits := pw_audits w' @
     [\<lparr>ad_attemptId = deterministicAttemptId (ep_platform ep) (providerIdempotencyKey key p) p, ad_idempotencyKey = providerIdempotencyKey key p,
       ad_reasonCode = c, ad_message = message, ad_createdAt = now\<rparr>]\<rparr>)"

definition audit_failures :: "'e evidence_publisher \<Rightarrow> string \<Rightarrow> failure_code \<Rightarrow> string \<Rightarrow> publication_provider list
    \<Rightarrow> ('e publication_world, publication_exn + unit) worker" where
  "audit_failures ep key c message ps = await (\<lambda>w. (Inr (), fold (audit_failure ep key c message) ps w))"

definition checked_digest :: "'e evidence_publisher \<Rightarrow> js_value \<Rightarrow> string \<Rightarrow> publication_provider list
    \<Rightarrow> ('e publication_world, publication_exn + artifact_digest) worker" where
  "checked_digest ep artifact key ps = (case digestArtifact ep artifact of
     Inl e \<Rightarrow> bindW (audit_failures ep key (errorCode e INVALID_ARTIFACT) (errorMessage e) ps) (\<lambda>_. throwW e)
   | Inr dg \<Rightarrow> if na_environment (dg_artifact dg) \<noteq> cg_environment (ep_configuration ep) then
        bindW (audit_failures ep key INVALID_ARTIFACT ''Artifact environment does not match trusted configuration'' ps) (\<lambda>_.
        throwW (PublicationError INVALID_ARTIFACT))
      else returnW dg)"

definition publish :: "'e evidence_publisher \<Rightarrow> js_value \<Rightarrow> string \<Rightarrow> (publication_provider \<Rightarrow> string)
    \<Rightarrow> ('e publication_world, publication_exn + 'e publication_job list) worker" where
  "publish ep artifact key token = bindW (checked_digest ep artifact key (cg_enabledProviders (ep_configuration ep))) (\<lambda>dg.
     returnW (map (\<lambda>p. publishProvider ep key dg p (token p)) (cg_enabledProviders (ep_configuration ep))))"

definition reconcile_publication :: "'e evidence_publisher \<Rightarrow> js_value \<Rightarrow> string \<Rightarrow> publication_provider \<Rightarrow> string \<Rightarrow> 'e publication_job" where
  "reconcile_publication ep artifact key p token =
     (if p \<notin> set (cg_enabledProviders (ep_configuration ep)) then throwW (PublicationError UNSUPPORTED_PROVIDER) else
      case digestArtifact ep artifact of Inl e \<Rightarrow> throwW e | Inr _ \<Rightarrow>
      bindW (checked_digest ep artifact key [p]) (\<lambda>dg. publishProvider ep key dg p token))"

end
