(* ===== verification/Publication_Invariant.thy ===== *)
theory Publication_Invariant
  imports Publication_Runs
begin

text \<open>
  What every action of a publisher keeps of the store, as the rely and guarantee relation of the workers: records stay, each
  write raises the revision by one and moves the state along the table, and a stored record is well formed. A worker knows of
  the record in its hands that it is the stored one as long as the revision is the same.
\<close>

section \<open>Schemas\<close>

lemma safe_label_trim [simp]: "safe_label b (js_trim s) = safe_label b s"
  by (simp add: safe_label_def text_between_def)

lemma text_between_js_trim [simp]: "text_between n (js_trim s) = text_between n s"
  by (simp add: text_between_def)

lemma nullable_map_iff [simp]: "nullable p (map_option f x) = nullable (\<lambda>y. p (f y)) x"
  by (cases x) simp_all

lemma map_option_trim_idem [simp]: "map_option js_trim (map_option js_trim x) = map_option js_trim x"
  by (cases x) simp_all

definition normal_locator :: "evidence_locator \<Rightarrow> evidence_locator" where
  "normal_locator l = l\<lparr>lc_providerLabel := js_trim (lc_providerLabel l), lc_network := js_trim (lc_network l), lc_uri := js_trim (lc_uri l),
        lc_bucket := map_option js_trim (lc_bucket l), lc_objectName := map_option js_trim (lc_objectName l),
        lc_providerReference := map_option js_trim (lc_providerReference l)\<rparr>"

definition locator_ok :: "publication_platform \<Rightarrow> evidence_locator \<Rightarrow> bool" where
  "locator_ok pl l \<longleftrightarrow> safe_label True (lc_providerLabel l) \<and> text_between 128 (lc_network l) \<and> text_between 2000 (lc_uri l)
       \<and> nullable (text_between 128) (lc_bucket l) \<and> nullable (text_between 1024) (lc_objectName l)
       \<and> nullable (text_between 512) (lc_providerReference l) \<and> 0 < lc_version l \<and> contentDigestSchema (lc_sha256Digest l)
       \<and> contentDigestSchema (lc_keccak256Digest l) \<and> 0 \<le> lc_sizeBytes l
       \<and> uriForProvider (lc_provider l) (js_trim (lc_uri l)) \<and> \<not> pp_credentials pl (js_trim (lc_uri l))
       \<and> (lc_provider l = Greenfield \<longrightarrow> lc_bucket l \<noteq> None \<and> lc_objectName l \<noteq> None)
       \<and> (lc_provider l = Ipfs \<longrightarrow> lc_bucket l = None)"

lemma locator_schema_Some: "evidenceLocatorSchema pl l = Some l' \<longleftrightarrow> locator_ok pl l \<and> l' = normal_locator l"
  unfolding evidenceLocatorSchema_def locator_ok_def [symmetric] normal_locator_def [symmetric] by auto

lemma normal_locator_fields [simp]:
  "lc_provider (normal_locator l) = lc_provider l" "lc_providerLabel (normal_locator l) = js_trim (lc_providerLabel l)"
  "lc_network (normal_locator l) = js_trim (lc_network l)" "lc_uri (normal_locator l) = js_trim (lc_uri l)"
  "lc_bucket (normal_locator l) = map_option js_trim (lc_bucket l)" "lc_objectName (normal_locator l) = map_option js_trim (lc_objectName l)"
  "lc_providerReference (normal_locator l) = map_option js_trim (lc_providerReference l)" "lc_version (normal_locator l) = lc_version l"
  "lc_sha256Digest (normal_locator l) = lc_sha256Digest l" "lc_keccak256Digest (normal_locator l) = lc_keccak256Digest l"
  "lc_sizeBytes (normal_locator l) = lc_sizeBytes l" "lc_verifiedAt (normal_locator l) = lc_verifiedAt l"
  by (simp_all add: normal_locator_def)

lemma map_option_eq_None [simp]: "(map_option f x \<noteq> None) = (x \<noteq> None)"
  by simp

lemma locator_schema_stable: "evidenceLocatorSchema pl l = Some l' \<Longrightarrow> evidenceLocatorSchema pl l' = Some l'"
proof -
  assume "evidenceLocatorSchema pl l = Some l'"
  then have l: "locator_ok pl l" "l' = normal_locator l" by (simp_all add: locator_schema_Some)
  have "locator_ok pl (normal_locator l)" using l(1) unfolding locator_ok_def by simp
  moreover have "normal_locator (normal_locator l) = normal_locator l" by (simp add: normal_locator_def)
  ultimately show ?thesis by (simp add: locator_schema_Some l(2))
qed

lemma optional_hash_idem [simp]: "normalizeOptionalTransactionHash (normalizeOptionalTransactionHash h) = normalizeOptionalTransactionHash h"
  by (auto simp: normalizeOptionalTransactionHash_def split: option.splits)

definition normal_record :: "publication_platform \<Rightarrow> publication_attempt \<Rightarrow> publication_attempt" where
  "normal_record pl r = r\<lparr>pub_idempotencyKey := js_trim (pub_idempotencyKey r), pub_providerLabel := js_trim (pub_providerLabel r),
        pub_configuredNetwork := js_trim (pub_configuredNetwork r), pub_configuredBucket := map_option js_trim (pub_configuredBucket r),
        pub_artifactId := js_trim (pub_artifactId r), pub_artifactType := js_trim (pub_artifactType r),
        pub_objectName := js_trim (pub_objectName r), pub_providerReference := map_option js_trim (pub_providerReference r),
        pub_creationTransactionHash := normalizeOptionalTransactionHash (pub_creationTransactionHash r),
        pub_sealTransactionHash := normalizeOptionalTransactionHash (pub_sealTransactionHash r),
        pub_locator := Option.bind (pub_locator r) (evidenceLocatorSchema pl)\<rparr>"

definition record_fields_ok :: "publication_platform \<Rightarrow> publication_attempt \<Rightarrow> bool" where
  "record_fields_ok pl r \<longleftrightarrow> pp_uuid pl (pub_attemptId r) \<and> text_between 256 (pub_idempotencyKey r) \<and> safe_label True (pub_providerLabel r)
       \<and> contentDigestSchema (pub_configurationDigest r) \<and> safe_label True (pub_configuredNetwork r)
       \<and> nullable (safe_label False) (pub_configuredBucket r) \<and> text_between 160 (pub_artifactId r) \<and> text_between 64 (pub_artifactType r)
       \<and> 0 < pub_artifactVersion r \<and> text_between 1024 (pub_objectName r) \<and> contentDigestSchema (pub_sha256Digest r)
       \<and> contentDigestSchema (pub_keccak256Digest r) \<and> 0 \<le> pub_sizeBytes r \<and> 0 \<le> pub_revision r
       \<and> nullable (pp_uuid pl) (pub_leaseOwner r) \<and> nullable (text_between 512) (pub_providerReference r)
       \<and> nullable transactionHashSchema (normalizeOptionalTransactionHash (pub_creationTransactionHash r))
       \<and> nullable transactionHashSchema (normalizeOptionalTransactionHash (pub_sealTransactionHash r))
       \<and> nullable (\<lambda>l. evidenceLocatorSchema pl l \<noteq> None) (pub_locator r) \<and> nullable verificationResultSchema (pub_verification r)
       \<and> 0 \<le> pub_retryCount r \<and> nullable (\<lambda>m. length m \<le> 500) (pub_lastErrorMessage r)"

lemma record_schema_Inr:
  "publicationAttemptRecordSchema pl r = Inr p \<longleftrightarrow> record_fields_ok pl r \<and> p = normal_record pl r"
  unfolding publicationAttemptRecordSchema_def Let_def record_fields_ok_def [symmetric] normal_record_def [symmetric] by auto

lemma bound_locator: "nullable (\<lambda>l. evidenceLocatorSchema pl l \<noteq> None) x \<Longrightarrow>
    nullable (\<lambda>l. evidenceLocatorSchema pl l \<noteq> None) (Option.bind x (evidenceLocatorSchema pl))
    \<and> Option.bind (Option.bind x (evidenceLocatorSchema pl)) (evidenceLocatorSchema pl) = Option.bind x (evidenceLocatorSchema pl)"
proof (cases x)
  case (Some l)
  assume "nullable (\<lambda>l. evidenceLocatorSchema pl l \<noteq> None) x"
  with Some obtain l' where l: "evidenceLocatorSchema pl l = Some l'" by auto
  show ?thesis by (simp add: Some l locator_schema_stable [OF l])
qed simp

lemma normal_record_stable:
  assumes "record_fields_ok pl r"
  shows "record_fields_ok pl (normal_record pl r)" "normal_record pl (normal_record pl r) = normal_record pl r"
proof -
  have b: "nullable (\<lambda>l. evidenceLocatorSchema pl l \<noteq> None) (pub_locator r)" using assms by (simp add: record_fields_ok_def)
  show "record_fields_ok pl (normal_record pl r)"
    using assms bound_locator [OF b] unfolding record_fields_ok_def normal_record_def by simp
  show "normal_record pl (normal_record pl r) = normal_record pl r"
    using bound_locator [OF b] unfolding normal_record_def by simp
qed

lemma record_schema_stable: "publicationAttemptRecordSchema pl r = Inr p \<Longrightarrow> publicationAttemptRecordSchema pl p = Inr p"
  using normal_record_stable by (simp add: record_schema_Inr)


lemma normal_record_fields:
  "pub_idempotencyKey (normal_record pl r) = js_trim (pub_idempotencyKey r)" "pub_providerLabel (normal_record pl r) = js_trim (pub_providerLabel r)"
  "pub_configuredNetwork (normal_record pl r) = js_trim (pub_configuredNetwork r)"
  "pub_configuredBucket (normal_record pl r) = map_option js_trim (pub_configuredBucket r)"
  "pub_artifactId (normal_record pl r) = js_trim (pub_artifactId r)" "pub_artifactType (normal_record pl r) = js_trim (pub_artifactType r)"
  "pub_objectName (normal_record pl r) = js_trim (pub_objectName r)"
  "pub_sealTransactionHash (normal_record pl r) = normalizeOptionalTransactionHash (pub_sealTransactionHash r)"
  by (simp_all add: normal_record_def)

section \<open>Records\<close>

definition same_attempt :: "publication_attempt \<Rightarrow> publication_attempt \<Rightarrow> bool" where
  "same_attempt r x \<longleftrightarrow> pub_attemptId x = pub_attemptId r \<and> pub_idempotencyKey x = pub_idempotencyKey r \<and> pub_provider x = pub_provider r
     \<and> pub_providerLabel x = pub_providerLabel r \<and> pub_configurationDigest x = pub_configurationDigest r
     \<and> pub_configuredNetwork x = pub_configuredNetwork r \<and> pub_configuredBucket x = pub_configuredBucket r
     \<and> pub_artifactId x = pub_artifactId r \<and> pub_artifactType x = pub_artifactType r \<and> pub_artifactVersion x = pub_artifactVersion r
     \<and> pub_objectName x = pub_objectName r \<and> pub_sha256Digest x = pub_sha256Digest r \<and> pub_keccak256Digest x = pub_keccak256Digest r
     \<and> pub_sizeBytes x = pub_sizeBytes r \<and> pub_createdAt x = pub_createdAt r"

lemma same_attempt_refl [simp]: "same_attempt r r"
  by (simp add: same_attempt_def)

lemma same_attempt_trans [trans]: "same_attempt r x \<Longrightarrow> same_attempt x y \<Longrightarrow> same_attempt r y"
  by (simp add: same_attempt_def)

definition located :: "publication_attempt \<Rightarrow> evidence_locator \<Rightarrow> bool" where
  "located r l \<longleftrightarrow> lc_provider l = pub_provider r \<and> lc_providerLabel l = pub_providerLabel r \<and> lc_network l = pub_configuredNetwork r
     \<and> lc_bucket l = pub_configuredBucket r \<and> lc_version l = pub_artifactVersion r \<and> lc_sha256Digest l = pub_sha256Digest r
     \<and> lc_keccak256Digest l = pub_keccak256Digest r \<and> lc_sizeBytes l = pub_sizeBytes r"

definition confirmed :: "publication_attempt \<Rightarrow> verification_result \<Rightarrow> bool" where
  "confirmed r v \<longleftrightarrow> ve_status v = EvVerified \<and> ve_readbackStatus v = RbMatched \<and> ve_hashesMatch v \<and> ve_sizeMatches v
     \<and> ve_expectedSha256Digest v = pub_sha256Digest r \<and> ve_observedSha256Digest v = Some (pub_sha256Digest r)
     \<and> ve_expectedKeccak256Digest v = pub_keccak256Digest r \<and> ve_observedKeccak256Digest v = Some (pub_keccak256Digest r)
     \<and> ve_expectedSizeBytes v = pub_sizeBytes r \<and> ve_observedSizeBytes v = Some (pub_sizeBytes r)
     \<and> (pub_provider r = Greenfield \<longrightarrow> ve_sealConfirmed v = Some True)"

text \<open>The digests \<open>D\<close> and the pairs \<open>K\<close> of key and provider that are published.\<close>

definition describes :: "artifact_digest \<Rightarrow> publication_attempt \<Rightarrow> bool" where
  "describes d r \<longleftrightarrow> pub_sha256Digest r = dg_sha256Digest d \<and> pub_keccak256Digest r = dg_keccak256Digest d \<and> pub_sizeBytes r = dg_sizeBytes d
     \<and> pub_artifactVersion r = na_version (dg_artifact d)"

definition keyed :: "publication_platform \<Rightarrow> string \<times> publication_provider \<Rightarrow> publication_attempt \<Rightarrow> bool" where
  "keyed pl kp r \<longleftrightarrow> pub_attemptId r = deterministicAttemptId pl (providerIdempotencyKey (fst kp) (snd kp)) (snd kp)
     \<and> pub_idempotencyKey r = js_trim (providerIdempotencyKey (fst kp) (snd kp))"

definition sound_record :: "publication_platform \<Rightarrow> artifact_digest set \<Rightarrow> (string \<times> publication_provider) set \<Rightarrow> publication_attempt \<Rightarrow> bool" where
  "sound_record pl D K r \<longleftrightarrow> publicationAttemptRecordSchema pl r = Inr r \<and> (\<exists>d \<in> D. describes d r) \<and> (\<exists>kp \<in> K. keyed pl kp r)
     \<and> (\<forall>l. pub_locator r = Some l \<longrightarrow> located r l)
     \<and> (pub_state r \<in> {AtAwaitingSeal, AtReadingBack, AtVerified} \<longrightarrow> pub_locator r \<noteq> None)
     \<and> (pub_state r = AtCreateFailed \<longrightarrow> pub_provider r = Greenfield)
     \<and> (pub_state r = AtVerified \<longrightarrow> Option.bind (pub_locator r) lc_verifiedAt \<noteq> None \<and> (\<exists>v. pub_verification r = Some v \<and> confirmed r v))"

lemma located_same: "same_attempt r x \<Longrightarrow> located r l = located x l"
  by (simp add: same_attempt_def located_def)

lemma confirmed_same: "same_attempt r x \<Longrightarrow> confirmed r v = confirmed x v"
  by (simp add: same_attempt_def confirmed_def)

lemma describes_same: "same_attempt r x \<Longrightarrow> describes d r = describes d x"
  by (simp add: same_attempt_def describes_def)

lemma keyed_same: "same_attempt r x \<Longrightarrow> keyed pl kp r = keyed pl kp x"
  by (simp add: same_attempt_def keyed_def)

lemma hash_trimmed: "transactionHashSchema h \<Longrightarrow> js_trim h = h"
proof (rule js_trim_id)
  assume "transactionHashSchema h"
  then have h: "length h = 66" "take 2 h = ''0x''" "list_all is_hex (drop 2 h)" by (auto simp: transactionHashSchema_def hex_with_prefix_def)
  have t: "h = ''0x'' @ drop 2 h" using append_take_drop_id [of 2 h] h(2) by simp
  have "drop 2 h \<noteq> []" using h(1) by simp
  then have l: "is_hex (last (drop 2 h))" using h(3) last_in_set unfolding list_all_iff by blast
  have "hd h = CHR ''0''" by (subst t) simp
  moreover have "last h = last (drop 2 h)" by (subst t) (use \<open>drop 2 h \<noteq> []\<close> in simp)
  ultimately show "trimmed h" using l by (auto simp: trimmed_def is_space_def is_hex_def is_digit_def code_def)
qed

lemma sound_durable: "sound_record pl D K r \<Longrightarrow> assertDurablePublicationAttempt r = Inr ()"
proof (cases "pub_state r = AtVerified")
  case True
  assume "sound_record pl D K r"
  with True obtain l v where l: "pub_locator r = Some l" "located r l" "lc_verifiedAt l \<noteq> None"
    and v: "pub_verification r = Some v" "confirmed r v" and s: "publicationAttemptRecordSchema pl r = Inr r"
    by (auto simp: sound_record_def)
  have "normal_record pl r = r" and f: "record_fields_ok pl r" using s by (simp_all add: record_schema_Inr)
  then have n: "normalizeOptionalTransactionHash (pub_sealTransactionHash r) = pub_sealTransactionHash r"
    by (metis normal_record_fields(8))
  have "nullable (\<lambda>h. transactionHashSchema h \<and> \<not> zero_transaction h) (pub_sealTransactionHash r)"
  proof (cases "pub_sealTransactionHash r")
    case (Some h)
    with n have "\<not> zero_transaction (js_trim h)" by (auto simp: normalizeOptionalTransactionHash_def split: if_splits)
    moreover have h: "transactionHashSchema h" using f n Some by (simp add: record_fields_ok_def)
    moreover have "js_trim h = h" using h by (rule hash_trimmed)
    ultimately show ?thesis using Some by simp
  qed simp
  with True l v show ?thesis
    by (auto simp: assertDurablePublicationAttempt_def matching_locator_def matching_verification_def located_def confirmed_def)
qed (simp add: assertDurablePublicationAttempt_def)

text \<open>Fields that the schema leaves as they are.\<close>

lemma schema_keeps:
  assumes "publicationAttemptRecordSchema pl r = Inr p"
  shows "pub_state p = pub_state r" "pub_revision p = pub_revision r" "pub_leaseOwner p = pub_leaseOwner r" "pub_leaseExpiresAt p = pub_leaseExpiresAt r"
    "pub_verification p = pub_verification r" "pub_retryCount p = pub_retryCount r" "pub_attemptId p = pub_attemptId r"
    "pub_locator p = map_option normal_locator (pub_locator r)" "pub_retryable p = pub_retryable r" "pub_lastErrorCode p = pub_lastErrorCode r"
    "pub_providerReference p = map_option js_trim (pub_providerReference r)"
proof -
  have p: "p = normal_record pl r" and l: "nullable (\<lambda>l. evidenceLocatorSchema pl l \<noteq> None) (pub_locator r)"
    using assms by (simp_all add: record_schema_Inr record_fields_ok_def)
  show "pub_locator p = map_option normal_locator (pub_locator r)"
    using l by (cases "pub_locator r") (auto simp: p normal_record_def locator_schema_Some)
qed (use assms in \<open>simp_all add: record_schema_Inr normal_record_def\<close>)

lemma schema_same:
  assumes "publicationAttemptRecordSchema pl r = Inr r" "same_attempt r x" "publicationAttemptRecordSchema pl x = Inr p"
  shows "same_attempt r p"
proof -
  have "normal_record pl r = r" using assms(1) by (simp add: record_schema_Inr)
  then have "pub_idempotencyKey r = js_trim (pub_idempotencyKey r)" "pub_providerLabel r = js_trim (pub_providerLabel r)"
    "pub_configuredNetwork r = js_trim (pub_configuredNetwork r)" "pub_configuredBucket r = map_option js_trim (pub_configuredBucket r)"
    "pub_artifactId r = js_trim (pub_artifactId r)" "pub_artifactType r = js_trim (pub_artifactType r)"
    "pub_objectName r = js_trim (pub_objectName r)"
    by (metis normal_record_fields)+
  then show ?thesis using assms(2,3) by (simp add: record_schema_Inr normal_record_def same_attempt_def)
qed

section \<open>The store\<close>

text \<open>No two of the published pairs of key and provider have the same attempt identifier.\<close>

definition distinct_ids :: "publication_platform \<Rightarrow> (string \<times> publication_provider) set \<Rightarrow> bool" where
  "distinct_ids pl K \<longleftrightarrow> inj_on (\<lambda>kp. deterministicAttemptId pl (providerIdempotencyKey (fst kp) (snd kp)) (snd kp)) K"

definition store_ok :: "publication_platform \<Rightarrow> artifact_digest set \<Rightarrow> (string \<times> publication_provider) set \<Rightarrow> publication_attempt list \<Rightarrow> bool" where
  "store_ok pl D K rs \<longleftrightarrow> distinct (map pub_idempotencyKey rs) \<and> distinct (map pub_attemptId rs) \<and> list_all (sound_record pl D K) rs"

definition advance :: "publication_attempt \<Rightarrow> publication_attempt \<Rightarrow> bool" where
  "advance x p \<longleftrightarrow> same_attempt x p \<and> pub_revision p = pub_revision x + 1
     \<and> (pub_state p = pub_state x \<or> pub_state p \<in> set (stateTransitions (pub_state x)))"

definition first_record :: "publication_attempt \<Rightarrow> bool" where
  "first_record p \<longleftrightarrow> pub_state p = AtPending \<and> pub_revision p = 0"

text \<open>One action changes at most one record, or adds one.\<close>

definition store_step :: "publication_platform \<Rightarrow> artifact_digest set \<Rightarrow> (string \<times> publication_provider) set
    \<Rightarrow> publication_attempt list \<Rightarrow> publication_attempt list \<Rightarrow> bool" where
  "store_step pl D K rs rs' \<longleftrightarrow> rs' = rs
     \<or> (\<exists>x p. x \<in> set rs \<and> advance x p \<and> sound_record pl D K p \<and> rs' = put_record p rs)
     \<or> (\<exists>p. first_record p \<and> sound_record pl D K p \<and> find_key (pub_idempotencyKey p) rs = None
          \<and> pub_attemptId p \<notin> pub_attemptId ` set rs \<and> rs' = put_record p rs)"

definition world_step :: "publication_platform \<Rightarrow> artifact_digest set \<Rightarrow> (string \<times> publication_provider) set
    \<Rightarrow> 'e publication_world \<Rightarrow> 'e publication_world \<Rightarrow> bool" where
  "world_step pl D K w w' \<longleftrightarrow> store_step pl D K (pw_records w) (pw_records w')"

lemma find_key_Some: "find_key k rs = Some x \<Longrightarrow> x \<in> set rs \<and> pub_idempotencyKey x = k"
  unfolding find_key_def by (auto simp: find_Some_iff)

lemma find_key_None: "find_key k rs = None \<longleftrightarrow> k \<notin> pub_idempotencyKey ` set rs"
  unfolding find_key_def by (auto simp: find_None_iff)

lemma find_key_in: "distinct (map pub_idempotencyKey rs) \<Longrightarrow> x \<in> set rs \<Longrightarrow> find_key (pub_idempotencyKey x) rs = Some x"
  unfolding find_key_def by (induction rs) (auto simp: image_iff)

lemma find_id_Some: "findByAttemptId a rs = Some x \<Longrightarrow> x \<in> set rs \<and> pub_attemptId x = a"
  unfolding findByAttemptId_def by (auto simp: find_Some_iff)

lemma put_record_keys: "x \<in> set rs \<Longrightarrow> pub_idempotencyKey p = pub_idempotencyKey x \<Longrightarrow>
    put_record p rs = map (\<lambda>y. if pub_idempotencyKey y = pub_idempotencyKey x then p else y) rs"
  using find_key_None [of "pub_idempotencyKey x" rs] by (auto simp: put_record_def)

lemma find_put_same: "distinct (map pub_idempotencyKey rs) \<Longrightarrow> x \<in> set rs \<Longrightarrow> pub_idempotencyKey p = pub_idempotencyKey x \<Longrightarrow>
    find_key (pub_idempotencyKey x) (put_record p rs) = Some p"
  by (simp add: put_record_keys) (induction rs; auto simp: find_key_def image_iff)

lemma find_put_other: "pub_idempotencyKey p \<noteq> k \<Longrightarrow> find_key k (put_record p rs) = find_key k rs"
proof -
  assume k: "pub_idempotencyKey p \<noteq> k"
  have a: "find_key k (rs @ [p]) = find_key k rs" using k by (induction rs) (auto simp: find_key_def)
  have m: "find_key k (map (\<lambda>x. if pub_idempotencyKey x = pub_idempotencyKey p then p else x) rs) = find_key k rs"
    using k by (induction rs) (auto simp: find_key_def)
  show ?thesis by (simp add: put_record_def a m)
qed

lemma store_step_ok: "store_ok pl D K rs \<Longrightarrow> store_step pl D K rs rs' \<Longrightarrow> store_ok pl D K rs'"
  unfolding store_step_def
proof (elim disjE exE conjE)
  fix x p assume ok: "store_ok pl D K rs" and p: "x \<in> set rs" "advance x p" "sound_record pl D K p" "rs' = put_record p rs"
  have k: "pub_idempotencyKey p = pub_idempotencyKey x" "pub_attemptId p = pub_attemptId x" using p(2) by (simp_all add: advance_def same_attempt_def)
  have rs': "rs' = map (\<lambda>y. if y = x then p else y) rs"
    unfolding p(4) put_record_keys [OF p(1) k(1)]
    using ok p(1) by (intro map_cong) (auto simp: store_ok_def distinct_map inj_on_def)
  have "map pub_idempotencyKey rs' = map pub_idempotencyKey rs" "map pub_attemptId rs' = map pub_attemptId rs"
    by (simp_all add: rs' k comp_def if_distrib cong: if_cong)
  moreover have "list_all (sound_record pl D K) rs'" using ok p(3) by (auto simp: store_ok_def rs' list_all_iff)
  ultimately show ?thesis using ok by (simp only: store_ok_def)
next
  fix p assume ok: "store_ok pl D K rs" and p: "sound_record pl D K p" "find_key (pub_idempotencyKey p) rs = None"
    "pub_attemptId p \<notin> pub_attemptId ` set rs" "rs' = put_record p rs"
  then show ?thesis by (auto simp: store_ok_def put_record_def find_key_None)
qed simp

section \<open>What a worker knows of its record\<close>

definition knows :: "publication_attempt \<Rightarrow> publication_attempt list \<Rightarrow> bool" where
  "knows r rs \<longleftrightarrow> (\<exists>x. find_key (pub_idempotencyKey r) rs = Some x \<and> same_attempt r x \<and> pub_revision r \<le> pub_revision x
     \<and> (pub_revision x = pub_revision r \<longrightarrow> x = r))"

lemma knows_step: "store_ok pl D K rs \<Longrightarrow> store_step pl D K rs rs' \<Longrightarrow> knows r rs \<Longrightarrow> knows r rs'"
  unfolding store_step_def
proof (elim disjE exE conjE)
  fix x p assume ok: "store_ok pl D K rs" and p: "x \<in> set rs" "advance x p" "rs' = put_record p rs" and k: "knows r rs"
  from k obtain y where y: "find_key (pub_idempotencyKey r) rs = Some y" "same_attempt r y" "pub_revision r \<le> pub_revision y"
    "pub_revision y = pub_revision r \<longrightarrow> y = r" by (auto simp: knows_def)
  have kx: "pub_idempotencyKey p = pub_idempotencyKey x" using p(2) by (simp add: advance_def same_attempt_def)
  show ?thesis
  proof (cases "pub_idempotencyKey x = pub_idempotencyKey r")
    case True
    have "y = x" using find_key_in [of rs x] ok p(1) y(1) True by (simp add: store_ok_def)
    then have "same_attempt r p" "pub_revision r < pub_revision p" using y p(2) by (auto simp: advance_def intro: same_attempt_trans)
    moreover have "find_key (pub_idempotencyKey r) rs' = Some p"
      using find_put_same [of rs x p] ok p(1,3) kx True by (simp add: store_ok_def)
    ultimately show ?thesis by (auto simp: knows_def)
  next
    case False
    then show ?thesis using y find_put_other [of p "pub_idempotencyKey r" rs] kx p(3) by (auto simp: knows_def)
  qed
next
  fix p assume p: "find_key (pub_idempotencyKey p) rs = None" "rs' = put_record p rs" and k: "knows r rs"
  then have "pub_idempotencyKey p \<noteq> pub_idempotencyKey r" by (auto simp: knows_def)
  with k p find_put_other [of p "pub_idempotencyKey r" rs] show ?thesis by (simp add: knows_def)
qed simp

definition holding :: "publication_platform \<Rightarrow> artifact_digest set \<Rightarrow> (string \<times> publication_provider) set
    \<Rightarrow> publication_attempt \<Rightarrow> 'e publication_world \<Rightarrow> bool" where
  "holding pl D K r w \<longleftrightarrow> store_ok pl D K (pw_records w) \<and> sound_record pl D K r \<and> knows r (pw_records w)"

lemma holding_later: "(world_step pl D K)\<^sup>*\<^sup>* w w' \<Longrightarrow> holding pl D K r w \<Longrightarrow> holding pl D K r w'"
  by (induction rule: rtranclp_induct) (auto simp: holding_def world_step_def intro: store_step_ok knows_step)

lemma ok_later: "(world_step pl D K)\<^sup>*\<^sup>* w w' \<Longrightarrow> store_ok pl D K (pw_records w) \<Longrightarrow> store_ok pl D K (pw_records w')"
  by (induction rule: rtranclp_induct) (auto simp: world_step_def intro: store_step_ok)

lemma holding_stored: "store_ok pl D K (pw_records w) \<Longrightarrow> r \<in> set (pw_records w) \<Longrightarrow> holding pl D K r w"
  using find_key_in [of "pw_records w" r] by (auto simp: holding_def store_ok_def knows_def list_all_iff)

section \<open>Actions\<close>

lemma save_Inr:
  "save pl u n token now rs = (Inr v, rs') \<Longrightarrow> \<exists>x p. find_key (pub_idempotencyKey u) rs = Some x \<and> pub_revision x = n \<and> pub_revision u = n + 1
     \<and> pub_leaseOwner x = Some token \<and> nullable (\<lambda>t. now < t) (pub_leaseExpiresAt x) \<and> publicationAttemptRecordSchema pl u = Inr p
     \<and> rs' = put_record p rs"
  by (auto simp: save_def split: option.splits if_splits sum.splits)

lemma save_Inl: "save pl u n token now rs = (Inl e, rs') \<Longrightarrow> rs' = rs"
  by (auto simp: save_def split: option.splits if_splits sum.splits)

lemma nowIso_records [simp]: "pw_records (snd (nowIso ep w)) = pw_records w"
  by (simp add: nowIso_def on_env_def case_prod_beta)

lemma bindS_snd: "snd (bindS m f w) = snd (f (fst (m w)) (snd (m w)))" "fst (bindS m f w) = fst (f (fst (m w)) (snd (m w)))"
  by (simp_all add: bindS_def case_prod_beta)

lemma returnS_parts [simp]: "snd (returnS x w) = w" "fst (returnS x w) = x"
  by (simp_all add: returnS_def)

lemma transition_step_cases:
  obtains e where "fst (transition_step ep r next patch token w) = Inl e" "pw_records (snd (transition_step ep r next patch token w)) = pw_records w"
  | u a b c now where "fst (transition_step ep r next patch token w) = Inr u"
      "publicationAttemptRecordSchema (ep_platform ep) (moved r next token patch a b c) = Inr u"
      "save (ep_platform ep) u (pub_revision r) token now (pw_records w) = (Inr (), pw_records (snd (transition_step ep r next patch token w)))"
proof -
  define m1 where "m1 = (if pub_startedAt r = None \<and> next = AtValidating then bindS (nowIso ep) (\<lambda>t. returnS (Some t)) else returnS (pub_startedAt r))"
  define m2 where "m2 = (if next \<in> terminalStates then bindS (nowIso ep) (\<lambda>t. returnS (Some t)) else returnS (pub_completedAt r))"
  have q: "pw_records (snd (m1 v)) = pw_records v" "pw_records (snd (m2 v)) = pw_records v" for v
    by (simp_all add: m1_def m2_def bindS_snd)
  obtain a w1 where 1: "m1 w = (a, w1)" by fastforce
  obtain b w2 where 2: "m2 w1 = (b, w2)" by fastforce
  obtain c w3 where 3: "nowIso ep w2 = (c, w3)" by fastforce
  have rec3: "pw_records w3 = pw_records w" using q(1) [of w] q(2) [of w1] nowIso_records [of ep w2] by (simp add: 1 2 3)
  have step: "transition_step ep r next patch token w = (case publicationAttemptRecordSchema (ep_platform ep) (moved r next token patch a b c) of
       Inl e \<Rightarrow> returnS (Inl e)
     | Inr u \<Rightarrow> bindS (nowIso ep) (\<lambda>now. bindS (on_records (save (ep_platform ep) u (pub_revision r) token now)) (\<lambda>x.
         returnS (case x of Inl e \<Rightarrow> Inl e | Inr _ \<Rightarrow> Inr u)))) w3"
    by (simp add: transition_step_def bindS_def m1_def [symmetric] m2_def [symmetric] 1 2 3)
  show ?thesis
  proof (cases "publicationAttemptRecordSchema (ep_platform ep) (moved r next token patch a b c)")
    case (Inl e)
    then show ?thesis using that(1) rec3 by (simp add: step)
  next
    case (Inr u)
    obtain now w4 where 4: "nowIso ep w3 = (now, w4)" by fastforce
    have rec4: "pw_records w4 = pw_records w" using nowIso_records [of ep w3] rec3 by (simp add: 4)
    obtain x rs where s: "save (ep_platform ep) u (pub_revision r) token now (pw_records w) = (x, rs)" by fastforce
    have st: "transition_step ep r next patch token w = ((case x of Inl e \<Rightarrow> Inl e | Inr _ \<Rightarrow> Inr u), w4\<lparr>pw_records := rs\<rparr>)"
      by (simp add: step Inr bindS_def 4 on_records_def rec4 s returnS_def)
    show ?thesis
    proof (cases x)
      case (Inl e)
      then show ?thesis using that(1) st save_Inl [OF s [unfolded Inl]] by simp
    next
      case r: (Inr v)
      then show ?thesis using that(2) [OF _ Inr, of now] st s by simp
    qed
  qed
qed

lemma located_normal: "publicationAttemptRecordSchema pl r = Inr r \<Longrightarrow> located r l \<Longrightarrow> located r (normal_locator l)"
proof -
  assume "publicationAttemptRecordSchema pl r = Inr r" and l: "located r l"
  then have n: "normal_record pl r = r" by (simp add: record_schema_Inr)
  have "js_trim (pub_providerLabel r) = pub_providerLabel r" "js_trim (pub_configuredNetwork r) = pub_configuredNetwork r"
    "map_option js_trim (pub_configuredBucket r) = pub_configuredBucket r"
    using normal_record_fields(2-4) [of pl r] by (simp_all add: n)
  with l show ?thesis by (simp add: located_def)
qed

lemma moved_fields [simp]:
  "pub_state (moved r next token patch a b c) = next" "pub_revision (moved r next token patch a b c) = pub_revision r + 1"
  "pub_leaseOwner (moved r next token patch a b c) = Some token" "pub_locator (moved r next token patch a b c) = pub_locator (patch r)"
  "pub_verification (moved r next token patch a b c) = pub_verification (patch r)"
  "same_attempt r (moved r next token patch a b c) = same_attempt r (patch r)"
  "pub_providerReference (moved r next token patch a b c) = pub_providerReference (patch r)"
  by (simp_all add: moved_def same_attempt_def)

text \<open>What a patch may do.\<close>

definition proper_patch :: "publication_attempt \<Rightarrow> attempt_state \<Rightarrow> (publication_attempt \<Rightarrow> publication_attempt) \<Rightarrow> bool" where
  "proper_patch r next patch \<longleftrightarrow> same_attempt r (patch r) \<and> (\<forall>l. pub_locator (patch r) = Some l \<longrightarrow> located r l)
     \<and> (next \<in> {AtAwaitingSeal, AtReadingBack, AtVerified} \<longrightarrow> pub_locator (patch r) \<noteq> None)
     \<and> (next = AtCreateFailed \<longrightarrow> pub_provider r = Greenfield)
     \<and> (next = AtVerified \<longrightarrow> Option.bind (pub_locator (patch r)) lc_verifiedAt \<noteq> None
          \<and> (\<exists>v. pub_verification (patch r) = Some v \<and> confirmed r v))"

lemma moved_sound:
  assumes r: "sound_record pl D K r" and p: "proper_patch r next patch"
    and u: "publicationAttemptRecordSchema pl (moved r next token patch a b c) = Inr u" and legal: "\<not> illegal_move (pub_state r) next"
  shows "sound_record pl D K u" "advance r u" "pub_state u = next" "pub_leaseOwner u = Some token"
    "pub_providerReference u = map_option js_trim (pub_providerReference (patch r))"
    "pub_locator u = map_option normal_locator (pub_locator (patch r))"
proof -
  have schema: "publicationAttemptRecordSchema pl r = Inr r" using r by (simp add: sound_record_def)
  have same: "same_attempt r u" using schema_same [OF schema _ u] p by (simp add: proper_patch_def)
  note k = schema_keeps [OF u]
  show st: "pub_state u = next" "pub_leaseOwner u = Some token" "pub_providerReference u = map_option js_trim (pub_providerReference (patch r))"
    "pub_locator u = map_option normal_locator (pub_locator (patch r))" using k by simp_all
  show "advance r u" using same legal k by (auto simp: advance_def illegal_move_def)
  have loc: "\<forall>l. pub_locator u = Some l \<longrightarrow> located u l"
    using p located_normal [OF schema] by (auto simp: st located_same [OF same, symmetric] proper_patch_def)
  have ver: "next = AtVerified \<longrightarrow> Option.bind (pub_locator u) lc_verifiedAt \<noteq> None \<and> (\<exists>v. pub_verification u = Some v \<and> confirmed u v)"
    using p k(5) by (cases "pub_locator (patch r)") (auto simp: st confirmed_same [OF same, symmetric] proper_patch_def)
  show "sound_record pl D K u" unfolding sound_record_def
  proof (intro conjI)
    show "publicationAttemptRecordSchema pl u = Inr u" by (rule record_schema_stable [OF u])
    show "\<exists>d \<in> D. describes d u" "\<exists>kp \<in> K. keyed pl kp u" using r describes_same [OF same] keyed_same [OF same] by (auto simp: sound_record_def)
    show "pub_state u \<in> {AtAwaitingSeal, AtReadingBack, AtVerified} \<longrightarrow> pub_locator u \<noteq> None" using p by (auto simp: st proper_patch_def)
    show "pub_state u = AtCreateFailed \<longrightarrow> pub_provider u = Greenfield" using p same by (simp add: st proper_patch_def same_attempt_def)
  qed (use loc ver st in auto)
qed

lemma sat_transition:
  assumes h: "holding pl D K r s" and ep: "ep_platform ep = pl" and p: "proper_patch r next patch"
  shows "sat (world_step pl D K) (\<lambda>x t. case x of Inl e \<Rightarrow> holding pl D K r t
     | Inr u \<Rightarrow> holding pl D K u t \<and> same_attempt r u \<and> pub_state u = next
         \<and> pub_providerReference u = map_option js_trim (pub_providerReference (patch r))
         \<and> pub_locator u = map_option normal_locator (pub_locator (patch r))) (transition ep r next patch) s"
proof (cases "illegal_move (pub_state r) next \<or> pub_leaseOwner r = None")
  case True
  then show ?thesis using h by (auto simp: transition_def throwW_def intro: holding_later)
next
  case False
  then obtain token where token: "pub_leaseOwner r = Some token" and legal: "\<not> illegal_move (pub_state r) next" by auto
  have r: "sound_record pl D K r" using h by (simp add: holding_def)
  show ?thesis unfolding transition_def if_not_P [OF legal] token option.case
  proof (rule sat_await, goal_cases)
    case (1 t)
    have ht: "holding pl D K r t" by (rule holding_later [OF 1 h])
    show ?case
    proof (cases rule: transition_step_cases [of ep r "next" patch token t])
      case (1 e)
      then have "world_step pl D K t (snd (transition_step ep r next patch token t))" by (simp add: world_step_def store_step_def)
      moreover have "holding pl D K r (snd (transition_step ep r next patch token t))" using ht 1(2) by (simp add: holding_def)
      ultimately show ?thesis using 1(1) by (auto intro: holding_later)
    next
      case (2 u a b c now)
      note m = moved_sound [OF r p 2(2) [unfolded ep] legal]
      let ?w = "snd (transition_step ep r next patch token t)"
      obtain x q where x: "find_key (pub_idempotencyKey u) (pw_records t) = Some x" "pub_revision x = pub_revision r"
        "publicationAttemptRecordSchema pl u = Inr q" "pw_records ?w = put_record q (pw_records t)"
        using save_Inr [OF 2(3)] ep by blast
      have q: "q = u" using m(1) x(3) by (simp add: sound_record_def)
      have key: "pub_idempotencyKey u = pub_idempotencyKey r" using m(2) by (simp add: advance_def same_attempt_def)
      have xr: "x = r" using ht x(1,2) by (auto simp: holding_def knows_def key)
      have inr: "r \<in> set (pw_records t)" using find_key_Some [OF x(1)] xr by simp
      have ws: "world_step pl D K t ?w" using inr m(1,2) x(4) by (auto simp: world_step_def store_step_def q)
      have ok: "store_ok pl D K (pw_records t)" using ht by (simp add: holding_def)
      have ok': "store_ok pl D K (pw_records ?w)" using ws ok by (auto simp: world_step_def intro: store_step_ok)
      have "find_key (pub_idempotencyKey r) (pw_records ?w) = Some u"
        using find_put_same [of "pw_records t" r u] ok inr key x(4) by (simp add: store_ok_def q)
      then have "holding pl D K u ?w" using ok' m(1) by (simp add: holding_def knows_def key)
      then show ?thesis using ws m 2(1) by (auto simp: advance_def intro: holding_later)
    qed
  qed
qed

section \<open>Runs\<close>

text \<open>A job that throws or ends with a record of the same attempt that the worker knows.\<close>

definition okpost :: "('a \<Rightarrow> 's \<Rightarrow> bool) \<Rightarrow> 'e + 'a \<Rightarrow> 's \<Rightarrow> bool" where
  "okpost P x t = (case x of Inl e \<Rightarrow> True | Inr u \<Rightarrow> P u t)"

lemma okpost_simps [simp]: "okpost P (Inl e) t" "okpost P (Inr u) t = P u t"
  by (simp_all add: okpost_def)

lemma sat_bindE:
  assumes "sat R (okpost P) p s" "\<And>x t. P x t \<Longrightarrow> sat R (okpost P') (f x) t"
  shows "sat R (okpost P') (bindW p f) s"
  by (rule sat_bindW [OF assms(1)]) (use assms(2) in \<open>auto simp: throwW_def\<close>)

lemma sat_throw [simp]: "sat R (okpost P) (throwW e) s"
  by (simp add: throwW_def)

lemma sat_settled: "(\<And>x t. r = Inr x \<Longrightarrow> R\<^sup>*\<^sup>* s t \<Longrightarrow> P x t) \<Longrightarrow> sat R (okpost P) (settled r) s"
  by (cases r) (auto simp: settled_def)

lemma sat_inv:
  assumes "sat R Q p s" "I s" "\<And>t u. R\<^sup>*\<^sup>* t u \<Longrightarrow> I t \<Longrightarrow> I u"
  shows "sat R (\<lambda>x t. Q x t \<and> I t) p s"
  using assms(1,2)
proof (induction p arbitrary: s rule: worker_induct)
  case (Act g)
  have "sat R (\<lambda>x t. Q x t \<and> I t) (snd (g t)) (fst (g t))" if "R\<^sup>*\<^sup>* s t" for t
  proof (rule Act.IH)
    show "sat R Q (snd (g t)) (fst (g t))" using Act.prems(1) that by simp
    have "R\<^sup>*\<^sup>* s (fst (g t))" using Act.prems(1) that by (auto intro: rtranclp.rtrancl_into_rtrancl)
    then show "I (fst (g t))" by (rule assms(3)) (rule Act.prems(2))
  qed
  then show ?case using Act.prems(1) by simp
qed (auto intro: assms(3))

abbreviation same_held :: "publication_platform \<Rightarrow> artifact_digest set \<Rightarrow> (string \<times> publication_provider) set \<Rightarrow> publication_attempt
    \<Rightarrow> publication_attempt \<Rightarrow> 'e publication_world \<Rightarrow> bool" where
  "same_held pl D K r u t \<equiv> holding pl D K u t \<and> same_attempt r u"

lemma sat_held_trans:
  assumes "sat R (okpost (same_held pl D K r')) p s" "same_attempt r r'"
  shows "sat R (okpost (same_held pl D K r)) p s"
  using assms(1) by (rule sat_post) (auto simp: okpost_def intro: same_attempt_trans [OF assms(2)] split: sum.splits)

lemma sat_return_held: "holding pl D K r s \<Longrightarrow> sat (world_step pl D K) (okpost (same_held pl D K r)) (returnW r) s"
  by (auto simp: returnW_def intro: holding_later)

lemma sat_quiet:
  assumes "\<And>w. pw_records (snd (f w)) = pw_records w" "holding pl D K r s"
  shows "sat (world_step pl D K) (\<lambda>x t. holding pl D K r t) (await f) s"
proof (rule sat_await, goal_cases)
  case (1 t)
  have "holding pl D K r t" by (rule holding_later [OF 1 assms(2)])
  then have "holding pl D K r (snd (f t))" using assms(1) by (simp add: holding_def)
  then show ?case using assms(1) by (auto simp: world_step_def store_step_def intro: holding_later)
qed

lemma sat_call: "holding pl D K r s \<Longrightarrow> sat (world_step pl D K) (\<lambda>x t. holding pl D K r t) (call f) s"
  unfolding call_def by (rule sat_quiet) (simp_all add: on_env_def case_prod_beta)

lemma sat_quiet_ok:
  "sat R (\<lambda>x t. I t) p s \<Longrightarrow> sat R (okpost (\<lambda>x t. I t)) p s"
  by (erule sat_post) (simp add: okpost_def split: sum.splits)

lemma sat_clock: "holding pl D K r s \<Longrightarrow> sat (world_step pl D K) (okpost (\<lambda>x t. holding pl D K r t)) (clock_read ep) s"
  unfolding clock_read_def by (rule sat_quiet_ok, rule sat_quiet) (simp_all add: bindS_snd)

lemma sat_move:
  assumes "holding pl D K r s" "ep_platform ep = pl" "proper_patch r next patch"
  shows "sat (world_step pl D K) (okpost (\<lambda>u t. same_held pl D K r u t \<and> pub_state u = next
      \<and> pub_providerReference u = map_option js_trim (pub_providerReference (patch r))
      \<and> pub_locator u = map_option normal_locator (pub_locator (patch r)))) (transition ep r next patch) s"
  by (rule sat_post [OF sat_transition [OF assms]]) (auto simp: okpost_def split: sum.splits)

lemma proper_id: "sound_record pl D K r \<Longrightarrow> next \<noteq> AtVerified \<Longrightarrow>
    (next \<in> {AtAwaitingSeal, AtReadingBack} \<Longrightarrow> pub_locator r \<noteq> None) \<Longrightarrow> (next = AtCreateFailed \<Longrightarrow> pub_provider r = Greenfield)
    \<Longrightarrow> proper_patch r next id"
  by (auto simp: proper_patch_def sound_record_def)

lemma sat_fail:
  assumes h: "holding pl D K r s" and ep: "ep_platform ep = pl" and "next \<notin> {AtAwaitingSeal, AtReadingBack, AtVerified}"
    and "same_attempt r (patch r)" "pub_locator (patch r) = pub_locator r" "next = AtCreateFailed \<longrightarrow> pub_provider r = Greenfield"
  shows "sat (world_step pl D K) (okpost (same_held pl D K r)) (fail_attempt ep r next c m patch) s"
  unfolding fail_attempt_def
proof (rule sat_bindE [OF sat_move [OF h ep]], goal_cases)
  case 1
  then show ?case using assms(3-6) h by (auto simp: proper_patch_def holding_def sound_record_def same_attempt_def)
next
  case (2 u t)
  then have u: "holding pl D K u t" "same_attempt r u" by simp_all
  have q: "sat (world_step pl D K) (okpost (\<lambda>x t. holding pl D K u t)) (await (append_audit ep a)) t" for a
    by (rule sat_quiet_ok, rule sat_quiet) (simp_all add: append_audit_def u(1))
  show ?case
    by (auto intro!: sat_bindE [OF q] sat_held_trans [OF sat_return_held u(2)] u(1))
qed

end
