(* ===== verification/Publication_Soundness.thy ===== *)
theory Publication_Soundness
  imports Publication_Invariant
begin

text \<open>
  Every method of the publisher keeps the invariant of the store while others run: the rely-guarantee statements of the
  runs with IPFS and Greenfield, of retry and reconciliation, and of the publication as a whole. A method that
  returns does so with a record of the attempt it was given.
\<close>

section \<open>Reading back and IPFS\<close>

text \<open>The record belongs to the digest, the provider and the configuration of the publisher.\<close>

definition bound :: "'e evidence_publisher \<Rightarrow> artifact_digest \<Rightarrow> publication_provider \<Rightarrow> publication_attempt \<Rightarrow> bool" where
  "bound ep dg p r \<longleftrightarrow> describes dg r \<and> pub_provider r = p \<and> pub_providerLabel r = provider_label ep p
     \<and> pub_configuredNetwork r = configured_network ep p \<and> pub_configuredBucket r = configured_bucket ep p"

lemma same_attempt_update [simp]:
  "same_attempt r (r\<lparr>pub_verification := v\<rparr>)" "same_attempt r (r\<lparr>pub_sealTransactionHash := h\<rparr>)"
  "same_attempt r (r\<lparr>pub_providerReference := ref, pub_locator := l\<rparr>)" "same_attempt r (r\<lparr>pub_providerReference := ref\<rparr>)"
  "same_attempt r (r\<lparr>pub_providerReference := ref, pub_creationTransactionHash := h\<rparr>)"
  "same_attempt r (r\<lparr>pub_providerReference := ref, pub_creationTransactionHash := h, pub_submittedAt := s\<rparr>)"
  "same_attempt r (r\<lparr>pub_providerReference := ref, pub_creationTransactionHash := h, pub_sealTransactionHash := h', pub_locator := l\<rparr>)"
  "same_attempt r (retry_reset n r)"
  "same_attempt r ((retry_reset n r)\<lparr>pub_providerReference := ref, pub_creationTransactionHash := h, pub_sealTransactionHash := h', pub_locator := l\<rparr>)"
  by (simp_all add: same_attempt_def retry_reset_def)

lemma bound_provider: "bound ep dg p r \<Longrightarrow> pub_provider r = p"
  by (simp add: bound_def)

lemma bound_same: "same_attempt r u \<Longrightarrow> bound ep dg p r \<Longrightarrow> bound ep dg p u"
  by (simp add: bound_def same_attempt_def describes_def)

lemma locator_bound:
  assumes "locator_of ep p dg uri name ref = Inr l" "bound ep dg p r" "sound_record pl D K r"
  shows "located r l"
proof -
  have r: "publicationAttemptRecordSchema pl r = Inr r" using assms(3) by (simp add: sound_record_def)
  obtain l0 where l: "l = normal_locator l0" "located r l0"
    using assms(1,2) by (auto simp: locator_of_def createEvidenceLocator_def locator_schema_Some bound_def describes_def located_def
        split: option.splits)
  show ?thesis using located_normal [OF r l(2)] by (simp add: l(1))
qed

lemma readback_confirmed:
  assumes "readback_result now sc dg (Some a) (Some b) (Some n) status reason = Inr v" "ve_status v = EvVerified"
    "describes dg r" "pub_provider r = Greenfield \<longrightarrow> sc = Some True"
  shows "confirmed r v"
  using assms by (auto simp: readback_result_def createVerificationResult_def Let_def confirmed_def describes_def split: if_splits)

lemma sat_stamp:
  assumes "holding pl D K r s"
  shows "sat (world_step pl D K) (okpost (\<lambda>x t. holding pl D K r t \<and> (\<exists>k. x = Some (l\<lparr>lc_verifiedAt := Some k\<rparr>))))
    (bindW (clock_read ep) (\<lambda>k. returnW (Some (l\<lparr>lc_verifiedAt := Some k\<rparr>)))) s"
  by (rule sat_bindE [OF sat_clock [OF assms]]) (auto simp: returnW_def intro: holding_later)

lemma sat_verified:
  assumes h: "holding pl D K r s" and ep: "ep_platform ep = pl" and l: "pub_locator r = Some l" and v: "confirmed r v"
  shows "sat (world_step pl D K) (okpost (same_held pl D K r))
    (bindW (case pub_locator r of None \<Rightarrow> returnW None
       | Some l \<Rightarrow> bindW (clock_read ep) (\<lambda>k. returnW (Some (l\<lparr>lc_verifiedAt := Some k\<rparr>)))) (\<lambda>l.
     transition ep r AtVerified (\<lambda>x. x\<lparr>pub_verification := Some v, pub_locator := l\<rparr>))) s"
  unfolding l option.case
proof (rule sat_bindE [OF sat_stamp [OF h]], elim conjE exE, goal_cases)
  case (1 x t k)
  have "located r l" using 1(1) l by (auto simp: holding_def sound_record_def)
  then have "proper_patch r AtVerified (\<lambda>y. y\<lparr>pub_verification := Some v, pub_locator := x\<rparr>)"
    using v by (simp add: proper_patch_def 1(2) located_def same_attempt_def)
  from sat_move [OF 1(1) ep this] show ?case by (rule sat_post) (simp add: okpost_def split: sum.splits)
qed

lemma sat_judge:
  assumes h: "holding pl D K r s" and ep: "ep_platform ep = pl" and b: "bound ep dg p r" and st: "pub_state r = AtReadingBack"
    and sc: "p = Greenfield \<longrightarrow> sc = Some True"
  shows "sat (world_step pl D K) (okpost (same_held pl D K r)) (judge_readback ep r dg sc bytes now) s"
  unfolding judge_readback_def
proof (rule sat_bindE [OF sat_settled [where P = "\<lambda>v t. holding pl D K r t \<and> (ve_status v = EvVerified \<longrightarrow> confirmed r v)"]], goal_cases)
  case (1 v t)
  then show ?case using readback_confirmed [OF 1(1)] b sc h by (auto simp: bound_def intro: holding_later)
next
  case (2 v t)
  then have ht: "holding pl D K r t" by simp
  then obtain l where l: "pub_locator r = Some l" using st by (auto simp: holding_def sound_record_def)
  show ?case
  proof (cases "ve_status v = EvVerified")
    case True
    with 2 sat_verified [OF ht ep l] show ?thesis by simp
  next
    case False
    then show ?thesis by (auto intro!: sat_fail [OF ht ep])
  qed
qed

lemma sat_verify:
  assumes h: "holding pl D K r s" and ep: "ep_platform ep = pl" and b: "bound ep dg p r" and st: "pub_state r = AtReadingBack"
    and sc: "p = Greenfield \<longrightarrow> sc = Some True"
  shows "sat (world_step pl D K) (okpost (same_held pl D K r)) (verifyReadback ep r dg read sc) s"
  unfolding verifyReadback_def
proof (rule sat_bindP [OF sat_call [OF h]], goal_cases)
  case (1 x t)
  show ?case
  proof (cases x)
    case (Inl e)
    show ?thesis unfolding Inl sum.case Let_def
    proof (rule sat_bindE [OF sat_clock [OF 1]], goal_cases)
      case (1 now u)
      show ?case
        by (rule sat_bindE [OF sat_settled [where P = "\<lambda>v t. holding pl D K r t"]])
          (auto intro: holding_later [OF _ 1] intro!: sat_fail [OF _ ep])
    qed
  next
    case (Inr bytes)
    show ?thesis unfolding Inr sum.case by (rule sat_bindE [OF sat_clock [OF 1]]) (rule sat_judge [OF _ ep b st sc])
  qed
qed

lemma sat_kept:
  assumes "sat (world_step pl D K) Q p s" "holding pl D K r s"
  shows "sat (world_step pl D K) (\<lambda>x t. Q x t \<and> holding pl D K r t) p s"
  by (rule sat_inv [where I = "holding pl D K r", OF assms]) (rule holding_later)

lemma sat_continue:
  assumes "sat R (okpost P) p s" "\<And>u t. P u t \<Longrightarrow> sat R (okpost (same_held pl D K u)) (f u) t" "\<And>u t. P u t \<Longrightarrow> same_attempt r u"
  shows "sat R (okpost (same_held pl D K r)) (bindW p f) s"
  by (rule sat_bindE [OF assms(1)]) (rule sat_held_trans [OF assms(2,3)])

lemma sat_ipfs:
  assumes h: "holding pl D K r s" and ep: "ep_platform ep = pl" and b: "bound ep dg Ipfs r"
  shows "sat (world_step pl D K) (okpost (same_held pl D K r)) (runIpfs ep ad dg r) s"
proof (cases "pub_state r = AtReadingBack")
  case True
  then show ?thesis
    by (cases "pub_locator r") (auto simp: runIpfs_def intro!: sat_fail [OF h ep] sat_verify [OF h ep b])
next
  case False
  have r: "sound_record pl D K r" using h by (simp add: holding_def)
  show ?thesis unfolding runIpfs_def if_not_P [OF False]
  proof (rule sat_continue [OF sat_move [OF h ep]], goal_cases)
    case 1
    show ?case by (rule proper_id [OF r]) simp_all
  next
    case (2 u t)
    then have u: "holding pl D K u t" "same_attempt r u" by simp_all
    have bu: "bound ep dg Ipfs u" by (rule bound_same [OF u(2) b])
    have su: "sound_record pl D K u" using u(1) by (simp add: holding_def)
    let ?P = "\<lambda>x t. holding pl D K (fst x) t \<and> same_attempt u (fst x) \<and> pub_state (fst x) = AtReadingBack"
    have up: "sat (world_step pl D K) (okpost ?P) (bindW (call (ip_upload ad (upload_of u dg))) (\<lambda>receipt.
               bindW (settled (checkedNetwork (ir_network receipt) (cg_ipfs_network (ep_configuration ep)))) (\<lambda>_.
               bindW (settled (locator_of ep Ipfs dg (ir_uri receipt) None (ir_providerReference receipt))) (\<lambda>l.
               bindW (transition ep u AtReadingBack (\<lambda>x. x\<lparr>pub_providerReference := ir_providerReference receipt, pub_locator := Some l\<rparr>)) (\<lambda>r'.
               returnW (r', ir_uri receipt)))))) t"
    proof (rule sat_bindE [OF sat_quiet_ok [OF sat_call [OF u(1)]]], goal_cases)
      case (1 receipt t1)
      show ?case
      proof (rule sat_bindE [OF sat_settled [where P = "\<lambda>v t. holding pl D K u t"]], goal_cases)
        case 1
        show ?case by (rule holding_later [OF 1(2)]) (rule \<open>holding pl D K u t1\<close>)
      next
        case (2 v t2)
        show ?case
        proof (rule sat_bindE [OF sat_settled [where P = "\<lambda>l t. holding pl D K u t \<and> located u l"]], goal_cases)
          case (1 l t3)
          then show ?case using holding_later [OF _ 2] locator_bound [OF _ bu su] by blast
        next
          case (2 l t3)
          then have "proper_patch u AtReadingBack (\<lambda>x. x\<lparr>pub_providerReference := ir_providerReference receipt, pub_locator := Some l\<rparr>)"
            by (simp add: proper_patch_def same_attempt_def)
          from sat_move [OF conjunct1 [OF 2] ep this] show ?case
            by (rule sat_bindE) (auto simp: returnW_def intro: holding_later)
        qed
      qed
    qed
    show ?case
    proof (rule sat_bindP [OF sat_kept [OF up u(1)]], goal_cases)
      case (1 x t4)
      show ?case
      proof (cases x)
        case (Inl e)
        then show ?thesis using 1 by (auto intro!: sat_fail [OF _ ep])
      next
        case (Inr q)
        obtain r' uri where q: "q = (r', uri)" by fastforce
        with 1 Inr have r': "holding pl D K r' t4" "same_attempt u r'" "pub_state r' = AtReadingBack" by simp_all
        show ?thesis unfolding Inr q sum.case prod.case
          by (rule sat_held_trans [OF sat_verify [OF r'(1) ep bound_same [OF r'(2) bu] r'(3)] r'(2)]) simp
      qed
    qed
  qed simp
qed

section \<open>Greenfield\<close>

lemma sat_held_settled: "holding pl D K r s \<Longrightarrow> sat (world_step pl D K) (okpost (\<lambda>_. holding pl D K r)) (settled x) s"
  by (rule sat_settled) (rule holding_later)

lemma sat_poll_seal:
  assumes h: "holding pl D K r s" and ep: "ep_platform ep = pl" and st: "pub_locator r \<noteq> None"
  shows "sat (world_step pl D K) (okpost (\<lambda>x t. \<forall>u. x = PollSealed u \<longrightarrow> same_held pl D K r u t \<and> pub_state u = AtReadingBack))
    (poll_seal ep ad r ref k) s"
  unfolding poll_seal_def
proof (rule sat_bindE [OF sat_quiet_ok [OF sat_call [OF h]]], rule sat_bindE [OF sat_held_settled], assumption, goal_cases)
  case (1 seal t h t')
  have "proper_patch r AtReadingBack (\<lambda>x. x\<lparr>pub_sealTransactionHash := h\<rparr>)"
    using 1(2) st by (auto simp: proper_patch_def holding_def sound_record_def)
  from sat_move [OF 1(2) ep this] show ?case
    by (auto simp: returnW_def intro!: sat_bindE intro: holding_later)
qed

lemma sat_await_seal:
  assumes "holding pl D K r s" "ep_platform ep = pl" "bound ep dg Greenfield r" "pub_locator r \<noteq> None"
  shows "sat (world_step pl D K) (okpost (same_held pl D K r)) (awaitSeal ep ad dg ref n r) s"
  using assms(1,3,4)
proof (induction n arbitrary: r s)
  case 0
  then show ?case by (auto intro!: sat_fail [OF _ assms(2)])
next
  case (Suc n)
  note h = Suc.prems(1) and b = Suc.prems(2) and l = Suc.prems(3)
  show ?case unfolding awaitSeal.simps(2) Let_def
  proof (rule sat_bindP [OF sat_kept [OF sat_poll_seal [OF h assms(2) l] h]], goal_cases)
    case (1 x t)
    then have ht: "holding pl D K r t" by simp
    show ?case
    proof (cases x)
      case (Inl e)
      then show ?thesis by (auto intro!: sat_fail [OF ht assms(2)])
    next
      case x: (Inr y)
      show ?thesis
      proof (cases y)
        case (PollSealed u)
        with 1 x have u: "holding pl D K u t" "same_attempt r u" "pub_state u = AtReadingBack" by simp_all
        show ?thesis unfolding x PollSealed sum.case seal_poll.case
          by (rule sat_held_trans [OF sat_verify [OF u(1) assms(2) bound_same [OF u(2) b] u(3)] u(2)]) simp
      next
        case (PollUnsealed st)
        have r: "sound_record pl D K r" using ht by (simp add: holding_def)
        have more: "sat (world_step pl D K) (okpost (same_held pl D K r))
          (bindW (transition ep r AtAwaitingSeal id) (\<lambda>r'. bindW (seal_backoff ep k) (\<lambda>_. awaitSeal ep ad dg ref n r'))) t" for k
        proof (rule sat_continue [OF sat_move [OF ht assms(2)]], goal_cases)
          case 1
          show ?case by (rule proper_id [OF r]) (simp_all add: l)
        next
          case (2 u t')
          then have u: "holding pl D K u t'" "same_attempt r u" "pub_locator u \<noteq> None" using l by simp_all
          have q: "sat (world_step pl D K) (okpost (\<lambda>x t. holding pl D K u t)) (seal_backoff ep k) t'"
            unfolding seal_backoff_def Let_def
            by (auto simp: on_env_def case_prod_beta returnW_def intro!: sat_quiet_ok [OF sat_quiet] u(1) intro: holding_later [OF _ u(1)])
          show ?case by (rule sat_bindE [OF q]) (rule Suc.IH [OF _ bound_same [OF u(2) b] u(3)])
        qed simp
        have ended: "sat (world_step pl D K) (okpost (same_held pl D K r)) (awaitSeal ep ad dg ref 0 r) t"
          by (auto intro!: sat_fail [OF ht assms(2)])
        have missing: "sat (world_step pl D K) (okpost (same_held pl D K r)) (fail_attempt ep r AtReadbackFailed MISSING_OBJECT m id) t" for m
          by (auto intro!: sat_fail [OF ht assms(2)])
        show ?thesis unfolding x PollUnsealed sum.case seal_poll.case using more ended missing by (simp del: awaitSeal.simps)
      qed
    qed
  qed
qed

text \<open>A caught exception leaves the worker with the record it had.\<close>

lemma sat_caught:
  assumes "sat (world_step pl D K) (okpost P) p s" "holding pl D K r s"
    "\<And>e t. holding pl D K r t \<Longrightarrow> sat (world_step pl D K) Q (f (Inl e)) t"
    "\<And>x t. P x t \<Longrightarrow> sat (world_step pl D K) Q (f (Inr x)) t"
  shows "sat (world_step pl D K) Q (bindP p f) s"
proof (rule sat_bindP [OF sat_kept [OF assms(1,2)]], goal_cases)
  case (1 x t)
  then show ?case by (cases x) (simp_all add: assms(3,4))
qed

text \<open>To await the seal with a fresh locator or with the stored one.\<close>

lemma sat_locate:
  assumes h: "holding pl D K r s" and ep: "ep_platform ep = pl" and b: "bound ep dg Greenfield r"
    and l: "\<And>l. pub_locator (patch r) = Some l \<Longrightarrow> located r l" "pub_locator (patch r) \<noteq> None" "same_attempt r (patch r)"
  shows "sat (world_step pl D K) (okpost (\<lambda>u t. same_held pl D K r u t \<and> bound ep dg Greenfield u \<and> pub_locator u \<noteq> None))
    (transition ep r AtAwaitingSeal patch) s"
proof -
  have "proper_patch r AtAwaitingSeal patch" using l by (simp add: proper_patch_def)
  from sat_move [OF h ep this] show ?thesis
    by (rule sat_post) (use b l(2) in \<open>auto simp: okpost_def intro: bound_same split: sum.splits\<close>)
qed

lemma sat_sealing:
  assumes "sat (world_step pl D K) (okpost (\<lambda>u t. same_held pl D K r u t \<and> bound ep dg Greenfield u \<and> pub_locator u \<noteq> None)) p s"
    "ep_platform ep = pl"
  shows "sat (world_step pl D K) (okpost (same_held pl D K r)) (bindW p (\<lambda>u. await_seal ep ad dg u ref)) s"
  by (rule sat_continue [OF assms(1)]) (simp_all add: await_seal_def sat_await_seal [OF _ assms(2)])

lemma sat_upload:
  assumes h: "holding pl D K r s" and ep: "ep_platform ep = pl" and b: "bound ep dg Greenfield r"
  shows "sat (world_step pl D K) (okpost (same_held pl D K r)) (upload_greenfield ep ad dg r ref) s"
  unfolding upload_greenfield_def
proof (rule sat_caught [where P = "\<lambda>u t. same_held pl D K r u t \<and> bound ep dg Greenfield u \<and> pub_locator u \<noteq> None", OF _ h], goal_cases)
  case 1
  have r: "sound_record pl D K r" using h by (simp add: holding_def)
  show ?case
  proof (rule sat_bindE [OF sat_quiet_ok [OF sat_call [OF h]]], rule sat_bindE [OF sat_held_settled], assumption,
      rule sat_bindE [OF sat_held_settled], assumption, rule sat_bindE [OF sat_held_settled], assumption, goal_cases)
    case (1 receipt t x t1 y t2 z t3)
    show ?case
    proof (rule sat_bindE [OF sat_settled [where P = "\<lambda>l t. holding pl D K r t \<and> located r l"]], goal_cases)
      case (1 l t)
      show ?case using locator_bound [OF 1(1) b r] holding_later [OF 1(2)] \<open>holding pl D K r t3\<close> by simp
    next
      case (2 l t)
      then show ?case by (intro sat_locate [OF conjunct1 [OF 2] ep b]) simp_all
    qed
  qed
next
  case (2 e t)
  then show ?case by (auto intro!: sat_fail [OF _ ep])
next
  case (3 u t)
  then have u: "holding pl D K u t" "bound ep dg Greenfield u" "pub_locator u \<noteq> None" "same_attempt r u" by simp_all
  show ?case unfolding sum.case await_seal_def by (rule sat_held_trans [OF sat_await_seal [OF u(1) ep u(2,3)] u(4)])
qed

lemma sat_continue_greenfield:
  assumes h: "holding pl D K r s" and ep: "ep_platform ep = pl" and b: "bound ep dg Greenfield r"
  shows "sat (world_step pl D K) (okpost (same_held pl D K r)) (continue_greenfield ep ad dg r ref) s"
proof (cases "pub_state r = AtSubmitted \<or> pub_state r = AtUploading")
  case False
  then show ?thesis by (auto simp: continue_greenfield_def intro!: sat_fail [OF h ep])
next
  case st: True
  show ?thesis
  proof (cases ref)
    case None
    then show ?thesis by (auto simp: bound_provider [OF b] continue_greenfield_def intro!: sat_fail [OF h ep])
  next
    case (Some o')
    have r: "sound_record pl D K r" using h by (simp add: holding_def)
    have first: "sat (world_step pl D K) (okpost (same_held pl D K r)) (if pub_state r = AtSubmitted then transition ep r AtUploading id else returnW r) s"
      using sat_return_held [OF h] by (auto intro!: sat_post [OF sat_move [OF h ep proper_id [OF r]]] simp: okpost_def split: sum.splits)
    show ?thesis unfolding continue_greenfield_def if_P [OF st] Some option.case
    proof (rule sat_continue [OF first], goal_cases)
      case (1 u t)
      then have u: "holding pl D K u t" "same_attempt r u" by simp_all
      have bu: "bound ep dg Greenfield u" by (rule bound_same [OF u(2) b])
      have "sat (world_step pl D K) (okpost (same_held pl D K u))
        (bindW (transition ep u AtAwaitingSeal (\<lambda>x. x\<lparr>pub_providerReference := Some o'\<rparr>)) (\<lambda>v. await_seal ep ad dg v o')) t"
        if "pub_locator u \<noteq> None"
        by (rule sat_sealing [OF sat_locate [OF u(1) ep bu] ep]) (use u(1) that in \<open>auto simp: holding_def sound_record_def\<close>)
      then show ?case using sat_upload [OF u(1) ep bu] by simp
    qed simp
  qed
qed

lemma sat_create:
  assumes h: "holding pl D K r s" and ep: "ep_platform ep = pl" and b: "bound ep dg Greenfield r"
  shows "sat (world_step pl D K) (okpost (same_held pl D K r)) (create_greenfield ep ad dg r) s"
  unfolding create_greenfield_def
proof (rule sat_caught [where P = "\<lambda>x t. same_held pl D K r (fst x) t", OF _ h], goal_cases)
  case 1
  have r: "sound_record pl D K r" using h by (simp add: holding_def)
  show ?case
  proof (rule sat_bindE [OF sat_quiet_ok [OF sat_call [OF h]]], rule sat_bindE [OF sat_held_settled], assumption, goal_cases)
    case (1 created t c t')
    have q: "sat (world_step pl D K) (okpost (\<lambda>x t. holding pl D K r t))
       (if cr_status created = CreateSubmitted then bindW (clock_read ep) (\<lambda>t. returnW (Some t)) else returnW None) t'"
      using 1(2) by (auto simp: returnW_def intro!: sat_bindE [OF sat_clock] intro: holding_later)
    show ?case
    proof (rule sat_bindE [OF q], goal_cases)
      case (1 submitted t3)
      let ?patch = "\<lambda>x. x\<lparr>pub_providerReference := cr_objectReference created, pub_creationTransactionHash := c, pub_submittedAt := submitted\<rparr>"
      have "proper_patch r (if cr_status created = CreateSubmitted then AtSubmitted else AtUploading) ?patch"
        using r by (auto simp: proper_patch_def sound_record_def)
      from sat_move [OF 1 ep this] show ?case
        by (rule sat_bindE) (auto simp: returnW_def intro: holding_later)
    qed
  qed
next
  case (2 e t)
  then show ?case by (auto simp: bound_provider [OF b] intro!: sat_fail [OF _ ep])
next
  case (3 x t)
  obtain r' ref where x: "x = (r', ref)" by fastforce
  with 3 have u: "holding pl D K r' t" "same_attempt r r'" by simp_all
  show ?case
  proof (rule sat_held_trans [OF _ u(2)], cases ref)
    case None
    then show "sat (world_step pl D K) (okpost (same_held pl D K r')) (case Inr x of
        Inl e \<Rightarrow> fail_attempt ep r AtCreateFailed (errorCode e CREATE_FAILED) (errorMessage e) id
      | Inr (r', None) \<Rightarrow> fail_attempt ep r' AtCreateFailed CREATE_FAILED ''Provider did not return an object reference'' id
      | Inr (r', Some ref) \<Rightarrow> continue_greenfield ep ad dg r' (Some ref)) t"
      by (auto simp: x bound_provider [OF bound_same [OF u(2) b]] intro!: sat_fail [OF u(1) ep])
  next
    case (Some o')
    then show "sat (world_step pl D K) (okpost (same_held pl D K r')) (case Inr x of
        Inl e \<Rightarrow> fail_attempt ep r AtCreateFailed (errorCode e CREATE_FAILED) (errorMessage e) id
      | Inr (r', None) \<Rightarrow> fail_attempt ep r' AtCreateFailed CREATE_FAILED ''Provider did not return an object reference'' id
      | Inr (r', Some ref) \<Rightarrow> continue_greenfield ep ad dg r' (Some ref)) t"
      using sat_continue_greenfield [OF u(1) ep bound_same [OF u(2) b]] by (simp add: x)
  qed
qed

lemma sat_recover:
  assumes h: "holding pl D K r s" and ep: "ep_platform ep = pl" and b: "bound ep dg Greenfield r"
  shows "sat (world_step pl D K) (okpost (same_held pl D K r)) (recover_greenfield ep ad dg r inspected) s"
proof (cases "in_objectReference inspected")
  case None
  then show ?thesis by (auto simp: bound_provider [OF b] recover_greenfield_def intro!: sat_fail [OF h ep])
next
  case (Some ref)
  have r: "sound_record pl D K r" using h by (simp add: holding_def)
  show ?thesis unfolding recover_greenfield_def Some option.case
  proof (rule sat_bindE [OF sat_held_settled [OF h]], goal_cases)
    case (1 creation t)
    show ?case
    proof (cases creation)
      case None
      then show ?thesis by (auto simp: bound_provider [OF b] intro!: sat_fail [OF 1 ep])
    next
      case c: (Some c)
      show ?thesis
      proof (cases "in_status inspected = InspectSealed")
        case sealed: True
        show ?thesis unfolding c option.case if_P [OF sealed]
        proof (rule sat_bindE [OF sat_settled [where P = "\<lambda>l t. holding pl D K r t \<and> located r l"]], goal_cases)
          case (1 l t2)
          then show ?case using locator_bound [OF 1(1) b r] holding_later [OF 1(2)] \<open>holding pl D K r t\<close> by simp
        next
          case (2 l t2)
          show ?case
          proof (rule sat_bindE [OF sat_settled [where P = "\<lambda>_. holding pl D K r"]], goal_cases)
            case (1 x u)
            show ?case by (rule holding_later [OF 1(2)]) (use 2 in simp)
          next
            case (2 seal t3)
            show ?case
              by (rule sat_sealing [OF sat_locate [OF 2 ep b] ep]) (use \<open>holding pl D K r t2 \<and> located r l\<close> in simp_all)
          qed
        qed
      next
        case other: False
        show ?thesis unfolding c option.case if_not_P [OF other]
        proof (rule sat_continue [OF sat_move [OF 1 ep]], goal_cases)
          case 1
          show ?case using r by (auto simp: proper_patch_def sound_record_def)
        next
          case (2 u t2)
          then show ?case using sat_continue_greenfield [OF _ ep bound_same [OF _ b]] by blast
        qed simp
      qed
    qed
  qed
qed

lemma sat_inspect:
  assumes h: "holding pl D K r s" and ep: "ep_platform ep = pl" and b: "bound ep dg Greenfield r"
  shows "sat (world_step pl D K) (okpost (same_held pl D K r)) (inspect_greenfield ep ad dg r) s"
proof (cases "gp_inspectObject ad")
  case None
  then show ?thesis using sat_create [OF h ep b] by (simp add: inspect_greenfield_def)
next
  case (Some inspect)
  show ?thesis unfolding inspect_greenfield_def Some option.case
  proof (rule sat_bindP [OF sat_call [OF h]], goal_cases)
    case (1 x t)
    show ?case
      by (cases x) (auto intro!: sat_fail [OF 1 ep] sat_create [OF 1 ep b] sat_recover [OF 1 ep b])
  qed
qed

lemma sat_greenfield:
  assumes h: "holding pl D K r s" and ep: "ep_platform ep = pl" and b: "bound ep dg Greenfield r"
  shows "sat (world_step pl D K) (okpost (same_held pl D K r)) (runGreenfield ep ad dg r) s"
proof -
  have r: "sound_record pl D K r" using h by (simp add: holding_def)
  have fresh: "sat (world_step pl D K) (okpost (same_held pl D K r))
    (bindW (if pub_state r = AtCreatingObject then returnW r else transition ep r AtCreatingObject id) (inspect_greenfield ep ad dg)) s"
  proof (rule sat_continue [where P = "\<lambda>u t. same_held pl D K r u t"], goal_cases)
    case 1
    show ?case using sat_return_held [OF h]
      by (auto intro!: sat_post [OF sat_move [OF h ep proper_id [OF r]]] simp: okpost_def split: sum.splits)
  next
    case (2 u t)
    then show ?case using sat_inspect [OF _ ep bound_same [OF _ b]] by blast
  qed simp
  have reading: "sat (world_step pl D K) (okpost (same_held pl D K r)) (verifyReadback ep r dg read (Some True)) s"
    if "pub_state r = AtReadingBack" for read
    by (rule sat_verify [OF h ep b that]) simp
  have awaiting: "sat (world_step pl D K) (okpost (same_held pl D K r)) (await_seal ep ad dg r ref) s" if "pub_locator r \<noteq> None" for ref
    unfolding await_seal_def by (rule sat_await_seal [OF h ep b that])
  have fail: "sat (world_step pl D K) (okpost (same_held pl D K r)) (fail_attempt ep r st c m id) s"
    if "st = AtReadbackFailed \<or> st = AtProviderFailed" for st c m
    using that by (auto intro!: sat_fail [OF h ep])
  note rest = sat_continue_greenfield [OF h ep b]
  show ?thesis unfolding runGreenfield_def
    using fresh reading awaiting fail rest by (auto split: attempt_state.split option.split)
qed

section \<open>Running an attempt\<close>

lemma sat_sizes:
  assumes h: "holding pl D K r s" and ep: "ep_platform ep = pl"
  shows "sat (world_step pl D K) (okpost (\<lambda>x t. holding pl D K r t \<and> (\<forall>u. x = Some u \<longrightarrow> same_held pl D K r u t))) (validateSizeBounds ep r dg) s"
proof -
  have f: "sat (world_step pl D K) (okpost (\<lambda>x t. holding pl D K r t \<and> (\<forall>u. x = Some u \<longrightarrow> same_held pl D K r u t)))
    (bindW (fail_attempt ep r AtValidationFailed c m id) (\<lambda>x. returnW (Some x))) s" for c m
  proof -
    have "sat (world_step pl D K) (okpost (\<lambda>u t. same_held pl D K r u t \<and> holding pl D K r t)) (fail_attempt ep r AtValidationFailed c m id) s"
      by (rule sat_post [OF sat_kept [OF sat_fail [OF h ep] h]]) (auto simp: okpost_def split: sum.splits)
    then show ?thesis by (rule sat_bindE) (auto simp: returnW_def intro: holding_later)
  qed
  show ?thesis unfolding validateSizeBounds_def using f h by (auto simp: returnW_def intro: holding_later)
qed

lemma sat_run_caught:
  assumes "holding pl D K r s" "ep_platform ep = pl"
  shows "sat (world_step pl D K) (okpost (same_held pl D K r)) (run_caught ep r e) s"
  unfolding run_caught_def by (auto intro!: sat_fail [OF assms])

lemma sat_adapter:
  assumes "holding pl D K r s" "ep_platform ep = pl" "bound ep dg p r"
  shows "sat (world_step pl D K) (okpost (same_held pl D K r)) (run_adapter ep dg p r) s"
  using assms(3) unfolding run_adapter_def
  by (auto intro!: sat_fail [OF assms(1,2)] sat_ipfs [OF assms(1,2)] sat_greenfield [OF assms(1,2)]
      split: publication_provider.split option.split)

lemma sat_run:
  assumes h: "holding pl D K r s" and ep: "ep_platform ep = pl" and b: "bound ep dg p r"
  shows "sat (world_step pl D K) (okpost (same_held pl D K r)) (runProvider ep dg p r) s"
  unfolding runProvider_def
proof (rule sat_caught [where P = "same_held pl D K r", OF _ h], goal_cases)
  case 1
  have r: "sound_record pl D K r" using h by (simp add: holding_def)
  show ?case using sat_return_held [OF h]
    by (auto intro!: sat_post [OF sat_move [OF h ep proper_id [OF r]]] simp: okpost_def split: sum.splits)
next
  case (2 e t)
  then show ?case using sat_run_caught [OF 2 ep] by simp
next
  case (3 u t)
  then have u: "holding pl D K u t" "same_attempt r u" by simp_all
  show ?case unfolding sum.case
  proof (rule sat_held_trans [OF sat_caught [OF sat_sizes [OF u(1) ep] u(1)] u(2)], goal_cases)
    case (1 e t)
    then show ?case using sat_run_caught [OF 1 ep] by simp
  next
    case (2 x t)
    then have x: "holding pl D K u t" "\<And>v. x = Some v \<Longrightarrow> same_held pl D K u v t" by simp_all
    show ?case
      by (cases x) (use x in \<open>auto intro!: sat_adapter [OF _ ep bound_same [OF u(2) b]] simp: returnW_def intro: holding_later\<close>)
  qed
qed

text \<open>Through retrying and pending to a run.\<close>

lemma sat_pending:
  assumes h: "holding pl D K r s" and ep: "ep_platform ep = pl" and b: "bound ep dg p r"
  shows "sat (world_step pl D K) (okpost (same_held pl D K r)) (bindW (transition ep r AtPending id) (runProvider ep dg p)) s"
proof -
  have r: "sound_record pl D K r" using h by (simp add: holding_def)
  show ?thesis
  proof (rule sat_continue [OF sat_move [OF h ep proper_id [OF r]]], goal_cases)
    case (4 u t)
    then show ?case using sat_run [OF _ ep bound_same [OF _ b]] by blast
  qed simp_all
qed

lemma sat_retry:
  assumes h: "holding pl D K r s" and ep: "ep_platform ep = pl" and b: "bound ep dg p r"
    and patch: "same_attempt r (patch r)" "\<forall>l. pub_locator (patch r) = Some l \<longrightarrow> located r l"
  shows "sat (world_step pl D K) (okpost (same_held pl D K r))
    (bindW (transition ep r AtRetrying patch) (\<lambda>u. bindW (transition ep u AtPending id) (runProvider ep dg p))) s"
proof (rule sat_continue [OF sat_move [OF h ep]], goal_cases)
  case 1
  then show ?case using patch by (simp add: proper_patch_def)
next
  case (2 u t)
  then show ?case using sat_pending [OF _ ep bound_same [OF _ b]] by blast
qed simp

text \<open>The result is wrapped; the statement about it stays.\<close>

lemma sat_wrapped:
  assumes "sat (world_step pl D K) (okpost (same_held pl D K r)) p s" "\<And>u t. same_held pl D K r u t \<Longrightarrow> P (g u) t"
  shows "sat (world_step pl D K) (okpost P) (bindW p (\<lambda>u. returnW (g u))) s"
  by (rule sat_bindE [OF assms(1)]) (auto simp: returnW_def intro: assms(2) holding_later)

lemma bindW_assoc: "bindW (bindW p f) h = bindW p (\<lambda>x. bindW (f x) h)"
proof -
  have "(\<lambda>x. bindP (case x of Inl e \<Rightarrow> Done (Inl e) | Inr x \<Rightarrow> f x) (\<lambda>r. case r of Inl e \<Rightarrow> Done (Inl e) | Inr x \<Rightarrow> h x))
    = (\<lambda>r. case r of Inl e \<Rightarrow> Done (Inl e) | Inr x \<Rightarrow> bindP (f x) (\<lambda>r. case r of Inl e \<Rightarrow> Done (Inl e) | Inr x \<Rightarrow> h x))"
    by (auto simp: fun_eq_iff split: sum.splits)
  then show ?thesis by (simp add: bindW_def bindP_assoc)
qed

lemma sat_reconcile_unknown:
  assumes h: "holding pl D K r s" and ep: "ep_platform ep = pl" and b: "bound ep dg Greenfield r"
  shows "sat (world_step pl D K) (okpost (\<lambda>x t. \<forall>u. x = Some u \<longrightarrow> same_held pl D K r u t)) (reconcileUnknownCreate ep r dg) s"
proof (cases "Option.bind (ep_greenfield ep) gp_reconcileCreate")
  case None
  then show ?thesis by (simp add: reconcileUnknownCreate_def returnW_def)
next
  case (Some reconcile)
  show ?thesis unfolding reconcileUnknownCreate_def Some option.case
  proof (rule sat_bindP [OF sat_call [OF h]], goal_cases)
    case (1 x t)
    have retry: "sat (world_step pl D K) (okpost (\<lambda>x t. \<forall>u. x = Some u \<longrightarrow> same_held pl D K r u t))
      (bindW (transition ep r AtRetrying (\<lambda>x. (retry_reset (pub_retryCount r + 1) x)\<lparr>pub_providerReference := None,
                pub_creationTransactionHash := None, pub_sealTransactionHash := None, pub_locator := None\<rparr>)) (\<lambda>retrying.
              bindW (transition ep retrying AtPending id) (\<lambda>pending.
              bindW (runProvider ep dg Greenfield pending) (\<lambda>r. returnW (Some r))))) t"
      unfolding bindW_assoc [symmetric]
      by (rule sat_wrapped) (auto simp: bindW_assoc intro!: sat_retry [OF 1 ep b])
    show ?case using retry by (auto simp: returnW_def split: sum.split)
  qed
qed

section \<open>Leases\<close>

lemma kept_sound:
  assumes r: "sound_record pl D K x" and q: "same_attempt x q" "pub_state q = pub_state x" "pub_locator q = pub_locator x"
    "pub_verification q = pub_verification x" and p: "publicationAttemptRecordSchema pl q = Inr p"
  shows "sound_record pl D K p" "same_attempt x p"
proof -
  have schema: "publicationAttemptRecordSchema pl x = Inr x" using r by (simp add: sound_record_def)
  show same: "same_attempt x p" by (rule schema_same [OF schema q(1) p])
  note k = schema_keeps [OF p]
  have loc: "\<forall>l. pub_locator p = Some l \<longrightarrow> located p l"
    using r located_normal [OF schema] by (auto simp: k q located_same [OF same, symmetric] sound_record_def)
  have ver: "pub_state p = AtVerified \<longrightarrow> Option.bind (pub_locator p) lc_verifiedAt \<noteq> None \<and> (\<exists>v. pub_verification p = Some v \<and> confirmed p v)"
    using r by (cases "pub_locator x") (auto simp: k q confirmed_same [OF same, symmetric] sound_record_def)
  show "sound_record pl D K p" unfolding sound_record_def
  proof (intro conjI)
    show "publicationAttemptRecordSchema pl p = Inr p" by (rule record_schema_stable [OF p])
    show "\<exists>d \<in> D. describes d p" "\<exists>kp \<in> K. keyed pl kp p" using r describes_same [OF same] keyed_same [OF same] by (auto simp: sound_record_def)
    show "pub_state p \<in> {AtAwaitingSeal, AtReadingBack, AtVerified} \<longrightarrow> pub_locator p \<noteq> None" using r by (auto simp: k q sound_record_def)
    show "pub_state p = AtCreateFailed \<longrightarrow> pub_provider p = Greenfield" using r same by (simp add: k q sound_record_def same_attempt_def)
  qed (use loc ver in auto)
qed

lemma found_held:
  assumes h: "holding pl D K r w" and x: "findByAttemptId (pub_attemptId r) (pw_records w) = Some x"
  shows "same_held pl D K r x w" "x \<in> set (pw_records w)"
proof -
  obtain y where y: "find_key (pub_idempotencyKey r) (pw_records w) = Some y" "same_attempt r y" using h by (auto simp: holding_def knows_def)
  have "y \<in> set (pw_records w)" "pub_attemptId y = pub_attemptId x" "x \<in> set (pw_records w)"
    using find_key_Some [OF y(1)] find_id_Some [OF x] y(2) by (auto simp: same_attempt_def)
  moreover have "distinct (map pub_attemptId (pw_records w))" using h by (simp add: holding_def store_ok_def)
  ultimately have "y = x" by (auto simp: distinct_map dest: inj_onD)
  then show "same_held pl D K r x w" "x \<in> set (pw_records w)"
    using y \<open>x \<in> _\<close> h holding_stored [of pl D K w x] by (auto simp: holding_def)
qed

text \<open>A lease that is taken or given back.\<close>

lemma lease_step:
  fixes w w' :: "'e publication_world"
  assumes h: "holding pl D K r w" and x: "findByAttemptId (pub_attemptId r) (pw_records w) = Some x"
    and p: "publicationAttemptRecordSchema pl (x\<lparr>pub_revision := pub_revision x + 1, pub_leaseOwner := a, pub_leaseExpiresAt := b, pub_updatedAt := c\<rparr>) = Inr p"
    and w': "pw_records w' = put_record p (pw_records w)"
  shows "world_step pl D K w w'" "same_held pl D K r p w'"
proof -
  note f = found_held [OF h x]
  have sx: "sound_record pl D K x" using f(1) by (simp add: holding_def)
  have p': "sound_record pl D K p" "same_attempt x p"
    using kept_sound [OF sx _ _ _ _ p] by (simp_all add: same_attempt_def)
  have adv: "advance x p" using p'(2) schema_keeps(1,2) [OF p] by (simp add: advance_def)
  show ws: "world_step pl D K w w'" unfolding world_step_def store_step_def using f(2) adv p'(1) w' by blast
  have "store_ok pl D K (pw_records w')" using store_step_ok ws h by (auto simp: world_step_def holding_def)
  moreover have "p \<in> set (pw_records w')"
    using f(2) adv unfolding w' by (auto simp: put_record_keys [OF f(2)] advance_def same_attempt_def image_iff)
  ultimately have "holding pl D K p w'" by (rule holding_stored)
  then show "same_held pl D K r p w'" using f(1) p'(2) by (auto intro: same_attempt_trans)
qed

lemma clocked_parts:
  "clocked ep f = await (\<lambda>w. let (now, w1) = nowIso ep w; (x, rs) = f now (pw_records w) in (x, w1\<lparr>pw_records := rs\<rparr>))"
  unfolding clocked_def
  by (rule arg_cong [where f = await]) (auto simp: fun_eq_iff bindS_def on_records_def nowIso_def on_env_def split: prod.split)

lemma sat_clocked:
  assumes h: "holding pl D K r s"
    and f: "\<And>now (w::'e publication_world) w' x. holding pl D K r w \<Longrightarrow> f now (pw_records w) = (x, pw_records w') \<Longrightarrow>
      world_step pl D K w w' \<and> holding pl D K r w' \<and> P x w'"
    and P: "\<And>x w w'. (world_step pl D K)\<^sup>*\<^sup>* w w' \<Longrightarrow> P x w \<Longrightarrow> P x (w'::'e publication_world)"
  shows "sat (world_step pl D K) (\<lambda>x t. holding pl D K r t \<and> P x t) (clocked ep f) s"
  unfolding clocked_parts
proof (rule sat_await, goal_cases)
  case (1 t)
  have ht: "holding pl D K r t" by (rule holding_later [OF 1 h])
  obtain now w1 where n: "nowIso ep t = (now, w1)" by fastforce
  obtain x rs where x: "f now (pw_records t) = (x, rs)" by fastforce
  from f [OF ht, of now x "w1\<lparr>pw_records := rs\<rparr>"] have s: "world_step pl D K t (w1\<lparr>pw_records := rs\<rparr>)"
    "holding pl D K r (w1\<lparr>pw_records := rs\<rparr>)" "P x (w1\<lparr>pw_records := rs\<rparr>)" using x by simp_all
  then show ?case using P holding_later by (fastforce simp: n x)
qed

lemma quiet_records: "pw_records w' = pw_records w \<Longrightarrow> world_step pl D K w w'"
  "pw_records w' = pw_records w \<Longrightarrow> holding pl D K r w' = holding pl D K r w"
  by (simp_all add: world_step_def store_step_def holding_def)

lemma sat_acquire:
  assumes h: "holding pl D K r s"
  shows "sat (world_step pl D K) (\<lambda>x t. holding pl D K r t \<and> (\<forall>b u. x = Inr (b, Some u) \<longrightarrow> same_held pl D K r u t))
    (clocked ep (\<lambda>now. acquireLease pl (pub_attemptId r) token now ms)) s"
proof (rule sat_clocked [OF h], goal_cases)
  case (1 now w w' x)
  show ?case
  proof (cases "findByAttemptId (pub_attemptId r) (pw_records w)")
    case None
    with 1(2) have q: "x = Inr (False, None)" "pw_records w' = pw_records w" by (simp_all add: acquireLease_def)
    then show ?thesis using quiet_records [OF q(2)] 1(1) by simp
  next
    case (Some y)
    show ?thesis
    proof (cases "pw_records w' = pw_records w \<and> (\<forall>b u. x = Inr (b, Some u) \<longrightarrow> u = y)")
      case True
      then show ?thesis using quiet_records [of w' w] 1(1) found_held(1) [OF 1(1) Some] by auto
    next
      case False
      with 1(2) Some obtain p where p: "publicationAttemptRecordSchema pl (y\<lparr>pub_revision := pub_revision y + 1, pub_leaseOwner := Some token,
               pub_leaseExpiresAt := Some (now + ms), pub_updatedAt := now\<rparr>) = Inr p" "x = Inr (True, Some p)"
        "pw_records w' = put_record p (pw_records w)"
        by (auto simp: acquireLease_def split: if_splits sum.splits)
      note l = lease_step [OF 1(1) Some p(1,3)]
      have "holding pl D K r w'" by (rule holding_later [OF r_into_rtranclp 1(1)]) (rule l(1))
      then show ?thesis using l p(2) by simp
    qed
  qed
next
  case (2 x w w')
  then show ?case by (auto intro: holding_later [OF 2(1)])
qed

lemma sat_release:
  assumes h: "holding pl D K r s"
  shows "sat (world_step pl D K) (\<lambda>x t. holding pl D K r t \<and> (\<forall>u. x = Inr (Some u) \<longrightarrow> same_held pl D K r u t))
    (clocked ep (releaseLease pl (pub_attemptId r) token)) s"
proof (rule sat_clocked [OF h], goal_cases)
  case (1 now w w' x)
  show ?case
  proof (cases "findByAttemptId (pub_attemptId r) (pw_records w)")
    case None
    with 1(2) have q: "x = Inr None" "pw_records w' = pw_records w" by (simp_all add: releaseLease_def)
    then show ?thesis using quiet_records [OF q(2)] 1(1) by simp
  next
    case (Some y)
    show ?thesis
    proof (cases "pw_records w' = pw_records w \<and> (\<forall>u. x \<noteq> Inr (Some u))")
      case True
      then show ?thesis using quiet_records [of w' w] 1(1) by auto
    next
      case False
      with 1(2) Some obtain p where p: "publicationAttemptRecordSchema pl (y\<lparr>pub_revision := pub_revision y + 1, pub_leaseOwner := None,
               pub_leaseExpiresAt := None, pub_updatedAt := now\<rparr>) = Inr p" "x = Inr (Some p)" "pw_records w' = put_record p (pw_records w)"
        by (auto simp: releaseLease_def split: if_splits sum.splits)
      note l = lease_step [OF 1(1) Some p(1,3)]
      have "holding pl D K r w'" by (rule holding_later [OF r_into_rtranclp 1(1)]) (rule l(1))
      then show ?thesis using l p(2) by simp
    qed
  qed
next
  case (2 x w w')
  then show ?case by (auto intro: holding_later [OF 2(1)])
qed

lemma sat_find_again:
  assumes h: "holding pl D K r s"
  shows "sat (world_step pl D K) (okpost (\<lambda>x t. holding pl D K r t \<and> (\<forall>u. x = Some u \<longrightarrow> same_held pl D K r u t))) (find_again (pub_attemptId r)) s"
  unfolding find_again_def
proof (rule sat_await, goal_cases)
  case (1 t)
  have ht: "holding pl D K r t" by (rule holding_later [OF 1 h])
  then show ?case using found_held(1) [OF ht]
    by (auto simp: on_records_def world_step_def store_step_def intro: holding_later)
qed

section \<open>Publishing\<close>

lemma retry_reset_locator [simp]: "pub_locator (retry_reset n x) = pub_locator x"
  by (simp add: retry_reset_def)

fun run_record :: "run_result \<Rightarrow> publication_attempt" where
  "run_record (EarlyReturn r) = r"
| "run_record (RunOutcome r) = r"

lemma sat_leased_body:
  assumes h: "holding pl D K r s" and l: "holding pl D K l s" "same_attempt r l" and ep: "ep_platform ep = pl" and b: "bound ep dg p r"
  shows "sat (world_step pl D K) (okpost (\<lambda>x. same_held pl D K r (run_record x))) (leased_body ep dg p r created l) s"
proof -
  have bl: "bound ep dg p l" by (rule bound_same [OF l(2) b])
  have wrap: "sat (world_step pl D K) (okpost (\<lambda>x. same_held pl D K r (run_record x))) (bindW q (\<lambda>x. returnW (RunOutcome x))) s"
    if "sat (world_step pl D K) (okpost (same_held pl D K l)) q s" for q
    by (rule sat_wrapped [OF that]) (use l(2) in \<open>auto intro: same_attempt_trans\<close>)
  have run: "sat (world_step pl D K) (okpost (\<lambda>x. same_held pl D K r (run_record x)))
      (bindW (runProvider ep dg p l) (\<lambda>x. returnW (RunOutcome x))) s"
    by (rule wrap [OF sat_run [OF l(1) ep bl]])
  have pending: "sat (world_step pl D K) (okpost (\<lambda>x. same_held pl D K r (run_record x)))
      (bindW (transition ep l AtPending id) (\<lambda>r. bindW (runProvider ep dg p r) (\<lambda>x. returnW (RunOutcome x)))) s"
    using wrap [OF sat_pending [OF l(1) ep bl]] by (simp only: bindW_assoc)
  have sl: "sound_record pl D K l" using l(1) by (simp add: holding_def)
  have "sat (world_step pl D K) (okpost (same_held pl D K l)) (bindW (transition ep l AtRetrying (retry_reset n))
      (\<lambda>u. bindW (transition ep u AtPending id) (runProvider ep dg p))) s" for n
    by (rule sat_retry [OF l(1) ep bl]) (use sl in \<open>simp_all add: sound_record_def\<close>)
  from wrap [OF this] have retry: "sat (world_step pl D K) (okpost (\<lambda>x. same_held pl D K r (run_record x)))
      (bindW (transition ep l AtRetrying (retry_reset n)) (\<lambda>u. bindW (transition ep u AtPending id)
        (\<lambda>r. bindW (runProvider ep dg p r) (\<lambda>x. returnW (RunOutcome x))))) s" for n
    by (simp only: bindW_assoc)
  have early: "sat (world_step pl D K) (okpost (\<lambda>x. same_held pl D K r (run_record x))) (returnW (EarlyReturn r) :: (_, publication_exn + run_result) worker) s"
    using h by (auto simp: returnW_def intro: holding_later)
  have unknown: "sat (world_step pl D K) (okpost (\<lambda>x. same_held pl D K r (run_record x)))
      (bindW (reconcileUnknownCreate ep l dg) (\<lambda>x. returnW (EarlyReturn (case x of None \<Rightarrow> l | Some r \<Rightarrow> r)))) s" if "p = Greenfield"
  proof (rule sat_bindE [where P = "\<lambda>x t. (\<forall>u. x = Some u \<longrightarrow> same_held pl D K l u t) \<and> holding pl D K l t"], goal_cases)
    case 1
    show ?case by (rule sat_post [OF sat_kept [OF sat_reconcile_unknown [OF l(1) ep] l(1)]])
      (use bl that in \<open>auto simp: okpost_def split: sum.splits\<close>)
  next
    case (2 x t)
    then show ?case using l(2) by (cases x) (auto simp: returnW_def intro: holding_later same_attempt_trans)
  qed
  have "p = Greenfield" if "pub_state r = AtCreateFailed"
    using that h bound_provider [OF b] by (simp add: holding_def sound_record_def)
  then show ?thesis unfolding leased_body_def Let_def using run pending retry early unknown by simp
qed

lemma sat_leased_run:
  assumes h: "holding pl D K r s" and l: "holding pl D K l s" "same_attempt r l" and ep: "ep_platform ep = pl" and b: "bound ep dg p r"
  shows "sat (world_step pl D K) (okpost (same_held pl D K r)) (leased_run ep dg p r created l token) s"
  unfolding leased_run_def ep
proof (rule sat_bindP [OF sat_kept [OF sat_leased_body [OF h l ep b] h]], goal_cases)
  case (1 res t)
  then have ht: "holding pl D K r t" by simp
  let ?Q = "\<lambda>x::run_result. same_held pl D K r (run_record x)"
  have res: "\<And>u x t'. (world_step pl D K)\<^sup>*\<^sup>* t t' \<Longrightarrow> res = Inr x \<Longrightarrow> same_held pl D K r (run_record x) t'"
    using 1 by (auto intro: holding_later)
  show ?case
  proof (rule sat_bindE [where P = "\<lambda>x t'. (holding pl D K r t' \<and> (\<forall>u. x = Some u \<longrightarrow> same_held pl D K r u t')) \<and> (\<forall>x. res = Inr x \<longrightarrow> ?Q x t')"], goal_cases)
    case 1
    have "sat (world_step pl D K) (\<lambda>x t'. (holding pl D K r t' \<and> (\<forall>u. x = Inr (Some u) \<longrightarrow> same_held pl D K r u t')) \<and> (\<forall>x. res = Inr x \<longrightarrow> ?Q x t'))
      (clocked ep (releaseLease pl (pub_attemptId r) token)) t"
      by (rule sat_inv [where I = "\<lambda>t'. \<forall>x. res = Inr x \<longrightarrow> ?Q x t'", OF sat_release [OF ht]])
        (use res in \<open>auto intro: holding_later\<close>)
    then show ?case by (rule sat_post) (auto simp: okpost_def split: sum.splits)
  next
    case (2 released t2)
    then have h2: "holding pl D K r t2" by simp
    show ?case
    proof (rule sat_bindE [where P = "\<lambda>x t'. (holding pl D K r t' \<and> (\<forall>u. x = Some u \<longrightarrow> same_held pl D K r u t')) \<and> (\<forall>x. res = Inr x \<longrightarrow> ?Q x t')"], goal_cases)
      case 1
      have "sat (world_step pl D K) (\<lambda>x t'. okpost (\<lambda>x t. holding pl D K r t \<and> (\<forall>u. x = Some u \<longrightarrow> same_held pl D K r u t)) x t' \<and> (\<forall>x. res = Inr x \<longrightarrow> ?Q x t'))
        (find_again (pub_attemptId r)) t2"
        by (rule sat_inv [where I = "\<lambda>t'. \<forall>x. res = Inr x \<longrightarrow> ?Q x t'", OF sat_find_again [OF h2]])
          (use 2 in \<open>auto intro: holding_later\<close>)
      then have again: "sat (world_step pl D K) (okpost (\<lambda>x t'. (holding pl D K r t' \<and> (\<forall>u. x = Some u \<longrightarrow> same_held pl D K r u t')) \<and> (\<forall>x. res = Inr x \<longrightarrow> ?Q x t')))
        (find_again (pub_attemptId r)) t2"
        by (rule sat_post) (auto simp: okpost_def split: sum.splits)
      show ?case
        by (cases released) (use again 2 in \<open>auto simp: returnW_def intro: holding_later\<close>)
    next
      case (2 found t3)
      then show ?case
        by (cases res) (auto simp: returnW_def throwW_def intro: holding_later split: run_result.split option.split)
    qed
  qed
qed

section \<open>Publishing\<close>

text \<open>Artifacts of the same two digests have the same size and version: their canonical bytes are the same.\<close>

definition no_collisions :: "artifact_digest set \<Rightarrow> bool" where
  "no_collisions D \<longleftrightarrow> (\<forall>a \<in> D. \<forall>b \<in> D. dg_sha256Digest a = dg_sha256Digest b \<and> dg_keccak256Digest a = dg_keccak256Digest b
     \<longrightarrow> dg_sizeBytes a = dg_sizeBytes b \<and> na_version (dg_artifact a) = na_version (dg_artifact b))"

lemma same_digests:
  assumes "no_collisions D" "dg \<in> D" "sound_record pl D K r" "pub_sha256Digest r = dg_sha256Digest dg" "pub_keccak256Digest r = dg_keccak256Digest dg"
  shows "describes dg r"
  using assms unfolding no_collisions_def sound_record_def describes_def by metis

lemma new_record_cases:
  obtains e w' where "newRecord ep key dg p st w = (Inl e, w')" "pw_records w' = pw_records w"
  | c r w' where "newRecord ep key dg p st w = (Inr r, w')" "pw_records w' = pw_records w"
      "publicationAttemptRecordSchema (ep_platform ep) c = Inr r" "describes dg c" "keyed (ep_platform ep) (key, p) r" "pub_locator c = None"
      "pub_state c = st" "pub_revision c = 0"
proof -
  obtain now w' where n: "nowIso ep w = (now, w')" by fastforce
  have w': "pw_records w' = pw_records w" using nowIso_records [of ep w] n by simp
  obtain x where x: "newRecord ep key dg p st w = (x, w')" by (simp add: newRecord_def bindS_def n returnS_def)
  show ?thesis
  proof (cases x)
    case (Inl e)
    then show ?thesis using that(1) x w' by simp
  next
    case (Inr r)
    from x [unfolded Inr] obtain c where c: "publicationAttemptRecordSchema (ep_platform ep) c = Inr r" "describes dg c"
      "pub_attemptId c = deterministicAttemptId (ep_platform ep) (providerIdempotencyKey key p) p"
      "pub_idempotencyKey c = providerIdempotencyKey key p" "pub_locator c = None" "pub_state c = st" "pub_revision c = 0"
      by (auto simp: newRecord_def bindS_def n returnS_def describes_def bindE_def split: if_splits sum.splits)
    have "keyed (ep_platform ep) (key, p) r"
      using c(1,3,4) by (simp add: keyed_def record_schema_Inr normal_record_def)
    then show ?thesis using that(2) x Inr w' c by blast
  qed
qed

lemma fresh_sound:
  assumes "publicationAttemptRecordSchema pl c = Inr r" "describes dg c" "keyed pl (key, p) r" "pub_locator c = None" "pub_state c = AtPending"
    and "dg \<in> D" "(key, p) \<in> K"
  shows "sound_record pl D K r"
proof -
  have "describes dg r" using assms(1,2) by (simp add: describes_def record_schema_Inr normal_record_def)
  then show ?thesis using assms schema_keeps [OF assms(1)] record_schema_stable [OF assms(1)]
    by (auto simp: sound_record_def)
qed

lemma fresh_id:
  assumes "store_ok pl D K rs" "distinct_ids pl K" "keyed pl kp r" "kp \<in> K" "find_key (pub_idempotencyKey r) rs = None"
  shows "pub_attemptId r \<notin> pub_attemptId ` set rs"
proof
  assume "pub_attemptId r \<in> pub_attemptId ` set rs"
  then obtain x where x: "x \<in> set rs" "pub_attemptId x = pub_attemptId r" by auto
  then obtain kq where q: "kq \<in> K" "keyed pl kq x" using assms(1) by (auto simp: store_ok_def sound_record_def list_all_iff)
  then have "kq = kp" using assms(2-4) x(2) by (auto simp: distinct_ids_def keyed_def dest!: inj_onD)
  then have "pub_idempotencyKey x = pub_idempotencyKey r" using q(2) assms(3) by (simp add: keyed_def)
  then show False using assms(5) x(1) by (metis find_key_None imageI)
qed

lemma sat_create_or_get:
  assumes ok: "store_ok pl D K (pw_records s)" and ep: "ep_platform ep = pl" and d: "dg \<in> D" and k: "(key, p) \<in> K" "distinct_ids pl K"
  shows "sat (world_step pl D K) (okpost (\<lambda>x t. holding pl D K (fst x) t)) (create_or_get ep key dg p) s"
  unfolding create_or_get_def
proof (rule sat_await, goal_cases)
  case (1 t)
  have okt: "store_ok pl D K (pw_records t)" by (rule ok_later [OF 1 ok])
  show ?case
  proof (cases rule: new_record_cases [of ep key dg p AtPending t])
    case (1 e w)
    then show ?thesis by (simp add: bindS_def returnS_def world_step_def store_step_def)
  next
    case (2 c r w)
    have r: "sound_record pl D K r" by (rule fresh_sound) (use 2 ep d k in auto)
    have schema: "publicationAttemptRecordSchema pl r = Inr r" using r by (simp add: sound_record_def)
    show ?thesis
    proof (cases "find_key (pub_idempotencyKey r) (pw_records t)")
      case (Some x)
      have "x \<in> set (pw_records w)" using find_key_Some [OF Some] 2(2) by simp
      then have hw: "holding pl D K x w" using holding_stored okt 2(2) by metis
      have w: "w\<lparr>pw_records := pw_records t\<rparr> = w" by (simp add: 2(2) [symmetric])
      have "bindS (newRecord ep key dg p AtPending) (\<lambda>x. case x of Inl e \<Rightarrow> returnS (Inl e)
         | Inr candidate \<Rightarrow> on_records (createOrGet (ep_platform ep) candidate)) t = (Inr (x, False), w)"
        using 2(1,2) Some w by (simp add: bindS_def on_records_def createOrGet_def)
      then show ?thesis using quiet_records(1) [OF 2(2)] holding_later [OF _ hw] by simp
    next
      case None
      have f: "first_record r" using schema_keeps(1,2) [OF 2(3)] 2(7,8) by (simp add: first_record_def)
      let ?w = "w\<lparr>pw_records := put_record r (pw_records t)\<rparr>"
      have ws: "world_step pl D K t ?w"
        unfolding world_step_def store_step_def using f r None fresh_id [OF okt k(2) 2(5) [unfolded ep] k(1) None] by auto
      have "store_ok pl D K (pw_records ?w)" using store_step_ok [OF okt] ws by (simp add: world_step_def)
      moreover have "r \<in> set (pw_records ?w)" using None by (simp add: put_record_def)
      ultimately have "holding pl D K r ?w" by (rule holding_stored)
      then show ?thesis using 2(1,2) None ep schema ws
        by (auto simp: bindS_def on_records_def createOrGet_def intro: holding_later)
    qed
  qed
qed

text \<open>A publication ends with a stored record, or with a report that the key is bound to other content.\<close>

definition published :: "publication_platform \<Rightarrow> artifact_digest set \<Rightarrow> (string \<times> publication_provider) set
    \<Rightarrow> publication_attempt \<Rightarrow> 'e publication_world \<Rightarrow> bool" where
  "published pl D K r w \<longleftrightarrow> pub_state r = AtDuplicate \<or> holding pl D K r w"

lemma error_records: "pw_records (snd (withError ep r c m w)) = pw_records w"
  by (simp add: withError_def bindS_snd)

lemma error_state: "fst (withError ep r c m w) = Inr u \<Longrightarrow> pub_state u = pub_state r"
  by (auto simp: withError_def bindS_snd dest: schema_keeps(1))

lemma sat_duplicate:
  "sat (world_step pl D K) (okpost (published pl D K)) (duplicate_attempt ep key dg p) s"
  unfolding duplicate_attempt_def
proof (rule sat_await, goal_cases)
  case (1 t)
  show ?case
  proof (cases rule: new_record_cases [of ep key dg p AtDuplicate t])
    case (1 e w)
    then show ?thesis by (simp add: bindS_def returnS_def world_step_def store_step_def)
  next
    case (2 c r w)
    have r: "pub_state r = AtDuplicate" using schema_keeps(1) [OF 2(3)] 2(7) by simp
    show ?thesis using 2(1,2) error_records [of ep r _ _ w] error_state [of ep r _ _ w] r
      by (auto simp: bindS_def world_step_def store_step_def okpost_def published_def split: sum.splits)
  qed
qed

lemma sat_publish:
  assumes ok: "store_ok pl D K (pw_records s)" and ep: "ep_platform ep = pl" and d: "dg \<in> D" "no_collisions D"
    and k: "(key, p) \<in> K" "distinct_ids pl K"
  shows "sat (world_step pl D K) (okpost (published pl D K)) (publishProvider ep key dg p token) s"
  unfolding publishProvider_def
proof (rule sat_bindE [OF sat_create_or_get [OF ok ep d(1) k]], goal_cases)
  case (1 x t)
  obtain r created where x: "x = (r, created)" by fastforce
  with 1 have h: "holding pl D K r t" by simp
  show ?case
  proof (cases "pub_provider r \<noteq> p \<or> pub_sha256Digest r \<noteq> dg_sha256Digest dg \<or> pub_keccak256Digest r \<noteq> dg_keccak256Digest dg")
    case True
    then show ?thesis using sat_duplicate by (simp add: x)
  next
    case same: False
    have r: "sound_record pl D K r" using h by (simp add: holding_def)
    have lift: "sat (world_step pl D K) (okpost (published pl D K)) q t'" if "sat (world_step pl D K) (okpost (same_held pl D K r)) q t'" for q t'
      using that by (rule sat_post) (auto simp: okpost_def published_def split: sum.splits)
    show ?thesis unfolding x prod.case if_not_P [OF same]
    proof (rule sat_bindE [OF sat_settled [where P = "\<lambda>_ t. holding pl D K r t \<and> bound ep dg p r"]], goal_cases)
      case (1 v t2)
      then have "bound ep dg p r" using same same_digests [OF d(2,1) r]
        by (auto simp: bound_def assertCurrentConfiguration_def split: if_splits)
      then show ?case using holding_later [OF 1(2) h] by simp
    next
      case (2 v t2)
      then have b: "bound ep dg p r" and h2: "holding pl D K r t2" by simp_all
      show ?case
      proof (rule sat_bindE [OF sat_held_settled [OF h2]], goal_cases)
        case (1 v t3)
        have stays: "sat (world_step pl D K) (okpost (published pl D K)) (returnW r :: (_, publication_exn + publication_attempt) worker) t3" by (rule lift [OF sat_return_held [OF 1]])
        have run: "sat (world_step pl D K) (okpost (published pl D K))
          (bindW (clocked ep (\<lambda>now. acquireLease (ep_platform ep) (pub_attemptId r) token now (cg_leaseDurationMs (ep_configuration ep)))) (\<lambda>lease.
            case lease of (True, Some leased) \<Rightarrow> leased_run ep dg p r created leased token
            | _ \<Rightarrow> bindW (find_again (pub_attemptId r)) (\<lambda>found. returnW (case found of Some x \<Rightarrow> x | None \<Rightarrow> r)))) t3"
        proof (rule lift, rule sat_bindE [where P = "\<lambda>x t. holding pl D K r t \<and> (\<forall>b u. x = (b, Some u) \<longrightarrow> same_held pl D K r u t)"], goal_cases)
          case 1
          show ?case unfolding ep
            by (rule sat_post [OF sat_acquire]) (use \<open>holding pl D K r t3\<close> in \<open>auto simp: okpost_def split: sum.splits\<close>)
        next
          case (2 lease t4)
          then have h4: "holding pl D K r t4" by simp
          have again: "sat (world_step pl D K) (okpost (same_held pl D K r))
            (bindW (find_again (pub_attemptId r)) (\<lambda>found. returnW (case found of Some x \<Rightarrow> x | None \<Rightarrow> r))) t4"
            by (rule sat_bindE [OF sat_find_again [OF h4]]) (auto simp: returnW_def intro: holding_later split: option.split)
          show ?case
          proof (cases "\<exists>leased. lease = (True, Some leased)")
            case True
            then show ?thesis using 2 sat_leased_run [OF h4 _ _ ep b] by auto
          next
            case False
            then show ?thesis using again by (auto split: prod.split option.split bool.split)
          qed
        qed
        show ?case using stays run by simp
      qed
    qed
  qed
qed

end
