(* ===== verification/Publication_Bounds.thy ===== *)
theory Publication_Bounds
  imports Publication_Runs
begin

text \<open>
  Bounds on the number of actions of every method of the publisher, whatever the providers answer and the others do: the loop of
  \<open>awaitSeal\<close> contributes four actions for each poll, everything else a constant.
\<close>

section \<open>Composition\<close>

lemma within_Done [simp]: "within (Done x) n" "within (returnW y) n" "within (throwW e) n" "within (settled r) n"
  by (simp_all add: returnW_def throwW_def settled_def)

lemma within_le: "within p n \<Longrightarrow> n \<le> m \<Longrightarrow> within p m"
  by (rule within_mono)

lemma within_bindP_le: "within p a \<Longrightarrow> (\<And>x. within (f x) b) \<Longrightarrow> a + b \<le> n \<Longrightarrow> within (bindP p f) n"
  by (rule within_le [OF within_bindP])

lemma within_bindW_le: "within p a \<Longrightarrow> (\<And>x. within (f x) b) \<Longrightarrow> a + b \<le> n \<Longrightarrow> within (bindW p f) n"
  unfolding bindW_def by (rule within_bindP_le) (auto split: sum.split)

lemma within_if: "within p n \<Longrightarrow> within q n \<Longrightarrow> within (if b then p else q) n"
  by simp

lemma within_settled: "(\<And>x. within (f x) n) \<Longrightarrow> within (bindW (settled r) f) n"
  by (rule within_bindW_le [where a = 0 and b = n]) simp_all

lemma within_actions [simp]:
  "within (transition ep r st patch) (Suc 0)" "within (clock_read ep) (Suc 0)" "within (call f) (Suc 0)" "within (seal_backoff ep k) (Suc 0)"
  "within (find_again a) (Suc 0)" "within (clocked ep g) (Suc 0)" "within (create_or_get ep key dg p) (Suc 0)" "within (duplicate_attempt ep key dg p) (Suc 0)"
  by (simp_all add: transition_def clock_read_def call_def seal_backoff_def find_again_def clocked_def create_or_get_def
      duplicate_attempt_def Let_def split: option.split)

lemma within_fail: "within (fail_attempt ep r st c m patch) 2"
  unfolding fail_attempt_def
  by (rule within_bindW_le [OF within_actions(1), where b = 1]) (auto intro: within_bindW_le [OF within_await, where b = 0])

section \<open>Providers\<close>

lemma within_judge: "within (judge_readback ep r dg sc bytes now) 2"
proof -
  have stamp: "within (case pub_locator r of None \<Rightarrow> returnW None
       | Some l \<Rightarrow> bindW (clock_read ep) (\<lambda>t. returnW (Some (l\<lparr>lc_verifiedAt := Some t\<rparr>)))) 1"
    by (auto intro!: within_bindW_le [OF within_actions(2), where b = 0] split: option.split)
  show ?thesis unfolding judge_readback_def
    by (rule within_settled)
      (auto intro!: within_fail within_bindW_le [OF stamp, where b = 1] within_actions)
qed

lemma within_verify: "within (verifyReadback ep r dg read sc) 4"
  unfolding verifyReadback_def Let_def
  by (rule within_bindP_le [OF within_actions(3), where b = 3])
    (auto intro!: within_bindW_le [OF within_actions(2), where b = 2] within_settled within_fail within_judge split: sum.split)

lemma within_ipfs: "within (runIpfs ep ad dg r) 7"
proof -
  have upload: "within (bindW (call (ip_upload ad (upload_of u dg))) (\<lambda>receipt.
               bindW (settled (checkedNetwork (ir_network receipt) (cg_ipfs_network (ep_configuration ep)))) (\<lambda>_.
               bindW (settled (locator_of ep Ipfs dg (ir_uri receipt) None (ir_providerReference receipt))) (\<lambda>l.
               bindW (transition ep u AtReadingBack (\<lambda>x. x\<lparr>pub_providerReference := ir_providerReference receipt, pub_locator := Some l\<rparr>)) (\<lambda>r'.
               returnW (r', ir_uri receipt)))))) 2" for u
    by (rule within_bindW_le [OF within_actions(3), where b = 1])
      (auto intro!: within_settled within_bindW_le [OF within_actions(1), where b = 0])
  show ?thesis unfolding runIpfs_def
    by (auto intro!: within_le [OF within_fail] within_le [OF within_verify] within_bindW_le [OF within_actions(1), where b = 6]
        within_bindP_le [OF upload, where b = 4] split: option.split sum.split)
qed

lemma within_poll: "within (poll_seal ep ad r ref k) 2"
  unfolding poll_seal_def
  by (rule within_bindW_le [OF within_actions(3), where b = 1])
    (auto intro!: within_settled within_bindW_le [OF within_actions(1), where b = 0])

lemma within_awaitSeal: "within (awaitSeal ep ad dg ref n r) (4 * n + 6)"
proof (induction n arbitrary: r)
  case 0
  then show ?case by (auto intro: within_le [OF within_fail])
next
  case (Suc n)
  show ?case unfolding awaitSeal.simps(2) Let_def
  proof (rule within_bindP_le [OF within_poll, where b = "4 * n + 8"], goal_cases)
    case (1 x)
    have more: "within (bindW (transition ep r AtAwaitingSeal id) (\<lambda>r'. bindW (seal_backoff ep k) (\<lambda>_. awaitSeal ep ad dg ref n r'))) (4 * n + 8)" for k
      by (rule within_bindW_le [OF within_actions(1)], rule within_bindW_le [OF within_actions(4) Suc.IH order_refl]) simp
    have last: "within (awaitSeal ep ad dg ref 0 r) (4 * n + 8)" by (auto intro: within_le [OF within_fail])
    have fail: "within (fail_attempt ep r st c m patch) (4 * n + 8)" for st c m patch by (rule within_le [OF within_fail]) simp
    have verify: "within (verifyReadback ep u dg (gp_readObject ad ref) (Some True)) (4 * n + 8)" for u by (rule within_le [OF within_verify]) simp
    have unsealed: "within (if c = SealMissing then fail_attempt ep r st a m patch else if n = 0 then awaitSeal ep ad dg ref 0 r
        else bindW (transition ep r AtAwaitingSeal id) (\<lambda>r'. bindW (seal_backoff ep k) (\<lambda>_. awaitSeal ep ad dg ref n r'))) (4 * n + 8)"
      for c st a m patch k
      by (rule within_if [OF fail within_if [OF last more]])
    show ?case
    proof (cases x)
      case x: (Inr y)
      then show ?thesis unfolding x sum.case by (cases y) (simp_all only: seal_poll.case verify unsealed)
    qed (simp add: fail)
  qed simp
qed

abbreviation seal_actions :: "'e evidence_publisher \<Rightarrow> nat" where
  "seal_actions ep \<equiv> 4 * nat (cg_maxSealPolls (ep_configuration ep))"

lemma within_await_seal: "within (await_seal ep ad dg r ref) (seal_actions ep + 6)"
  unfolding await_seal_def by (rule within_awaitSeal)

lemma within_upload: "within (upload_greenfield ep ad dg r ref) (seal_actions ep + 8)"
  unfolding upload_greenfield_def
proof (rule within_bindP_le [where a = 2 and b = "seal_actions ep + 6"], goal_cases)
  case 1
  show ?case
    by (rule within_bindW_le [OF within_actions(3), where b = 1]) (auto intro!: within_settled within_actions)
next
  case (2 x)
  then show ?case by (auto intro: within_le [OF within_fail] within_await_seal split: sum.split)
qed simp

lemma within_continue: "within (continue_greenfield ep ad dg r ref) (seal_actions ep + 9)"
proof -
  have first: "within (if pub_state r = AtSubmitted then transition ep r AtUploading id else returnW r) 1"
    by (simp add: within_actions)
  have fail: "within (fail_attempt ep r st c m patch) (seal_actions ep + 9)" for st c m patch by (rule within_le [OF within_fail]) simp
  have again: "within (bindW (transition ep u AtAwaitingSeal patch) (\<lambda>v. await_seal ep ad dg v o')) (seal_actions ep + 8)" for u patch o'
    by (rule within_bindW_le [OF within_actions(1) within_await_seal]) simp
  have step: "within (bindW (if pub_state r = AtSubmitted then transition ep r AtUploading id else returnW r) (\<lambda>r'.
             if pub_locator r' = None then upload_greenfield ep ad dg r' o'
             else bindW (transition ep r' AtAwaitingSeal (\<lambda>x. x\<lparr>pub_providerReference := Some o'\<rparr>)) (\<lambda>r''. await_seal ep ad dg r'' o')))
     (seal_actions ep + 9)" for o'
    by (rule within_bindW_le [OF first, where b = "seal_actions ep + 8"]) (simp_all add: within_upload again)
  show ?thesis
  proof (cases "pub_state r = AtSubmitted \<or> pub_state r = AtUploading")
    case True
    show ?thesis unfolding continue_greenfield_def if_P [OF True] using fail step by (cases ref) (simp_all only: option.case)
  qed (simp add: continue_greenfield_def fail)
qed

lemma within_create: "within (create_greenfield ep ad dg r) (seal_actions ep + 12)"
  unfolding create_greenfield_def
proof (rule within_bindP_le [where a = 3 and b = "seal_actions ep + 9"], goal_cases)
  case 1
  have clock: "within (if c then bindW (clock_read ep) (\<lambda>t. returnW (Some t)) else returnW None) 1" for c
    by (auto intro: within_bindW_le [OF within_actions(2), where b = 0])
  show ?case
    by (rule within_bindW_le [OF within_actions(3), where b = 2], rule within_settled, rule within_bindW_le [OF clock, where b = 1])
      (auto intro: within_bindW_le [OF within_actions(1), where b = 0])
next
  case (2 x)
  then show ?case by (auto intro: within_le [OF within_fail] within_continue split: sum.split option.split)
qed simp

lemma within_recover: "within (recover_greenfield ep ad dg r inspected) (seal_actions ep + 10)"
proof -
  have fail: "within (fail_attempt ep r st c m patch) (seal_actions ep + 10)" for st c m patch by (rule within_le [OF within_fail]) simp
  have seal: "within (bindW (transition ep r AtAwaitingSeal patch) (\<lambda>v. await_seal ep ad dg v o')) (seal_actions ep + 10)" for patch o'
    by (rule within_bindW_le [OF within_actions(1) within_await_seal]) simp
  have upload: "within (bindW (transition ep r AtUploading patch) (\<lambda>v. continue_greenfield ep ad dg v o')) (seal_actions ep + 10)" for patch o'
    by (rule within_bindW_le [OF within_actions(1) within_continue]) simp
  show ?thesis unfolding recover_greenfield_def
    by (auto intro!: fail within_settled seal upload split: option.split)
qed

lemma within_inspect: "within (inspect_greenfield ep ad dg r) (seal_actions ep + 13)"
proof (cases "gp_inspectObject ad")
  case None
  then show ?thesis by (auto simp: inspect_greenfield_def intro: within_le [OF within_create])
next
  case (Some inspect)
  show ?thesis unfolding inspect_greenfield_def Some option.case
    by (rule within_bindP_le [OF within_actions(3), where b = "seal_actions ep + 12"])
      (auto intro: within_le [OF within_fail] within_create within_le [OF within_recover] split: sum.split)
qed

lemma within_greenfield: "within (runGreenfield ep ad dg r) (seal_actions ep + 14)"
proof -
  have fail: "within (fail_attempt ep r st c m patch) (seal_actions ep + 14)" for st c m patch by (rule within_le [OF within_fail]) simp
  have verify: "within (verifyReadback ep r dg read sc) (seal_actions ep + 14)" for read sc by (rule within_le [OF within_verify]) simp
  have seal: "within (await_seal ep ad dg r ref) (seal_actions ep + 14)" for ref by (rule within_le [OF within_await_seal]) simp
  have continue: "within (continue_greenfield ep ad dg r ref) (seal_actions ep + 14)" for ref by (rule within_le [OF within_continue]) simp
  have create: "within (bindW (if c then returnW r else transition ep r AtCreatingObject id)
      (inspect_greenfield ep ad dg)) (seal_actions ep + 14)" for c
    by (rule within_bindW_le [where a = 1, OF _ within_inspect]) (simp_all add: within_actions)
  show ?thesis unfolding runGreenfield_def using fail verify seal continue create [of True] create [of False] by (simp split: attempt_state.split option.split)
qed

section \<open>Runs\<close>

lemma within_adapter: "within (run_adapter ep dg p r) (seal_actions ep + 14)"
  unfolding run_adapter_def
  by (auto intro: within_le [OF within_fail] within_le [OF within_ipfs] within_greenfield split: publication_provider.split option.split)

lemma within_caught: "within (run_caught ep r e) 2"
  by (simp add: run_caught_def within_fail)

lemma within_sizes: "within (validateSizeBounds ep r dg) 2"
  unfolding validateSizeBounds_def by (auto intro: within_bindW_le [OF within_fail, where b = 0])

lemma within_run: "within (runProvider ep dg p r) (seal_actions ep + 17)"
  unfolding runProvider_def
proof (rule within_bindP_le [where a = 1 and b = "seal_actions ep + 16"], goal_cases)
  case 1
  show ?case by (simp add: within_actions)
next
  case (2 x)
  have caught: "within (run_caught ep u e) n" if "2 \<le> n" for u e n by (rule within_le [OF within_caught that])
  have "within (bindP (validateSizeBounds ep u dg) (\<lambda>y. case y of Inl e \<Rightarrow> run_caught ep u e
         | Inr (Some failed) \<Rightarrow> returnW failed | Inr None \<Rightarrow> run_adapter ep dg p u)) (seal_actions ep + 16)" for u
    by (rule within_bindP_le [OF within_sizes, where b = "seal_actions ep + 14"])
      (auto intro: caught within_adapter split: sum.split option.split)
  then show ?case using caught by (simp split: sum.split)
qed simp

lemma within_pending: "within (bindW (transition ep r AtPending id) (runProvider ep dg p)) (seal_actions ep + 18)"
  by (rule within_bindW_le [OF within_actions(1) within_run]) simp

lemma within_reconcile: "within (reconcileUnknownCreate ep r dg) (seal_actions ep + 20)"
proof -
  have last: "within (bindW (runProvider ep dg Greenfield u) (\<lambda>r. returnW (Some r))) (seal_actions ep + 17)" for u
    by (rule within_bindW_le [OF within_run, where b = 0]) simp_all
  have "within (bindW (transition ep u AtPending id) (\<lambda>p. bindW (runProvider ep dg Greenfield p) (\<lambda>r. returnW (Some r)))) (seal_actions ep + 18)" for u
    by (rule within_bindW_le [OF within_actions(1) last]) simp
  then have "within (bindW (transition ep r AtRetrying patch) (\<lambda>u. bindW (transition ep u AtPending id)
      (\<lambda>p. bindW (runProvider ep dg Greenfield p) (\<lambda>r. returnW (Some r))))) (seal_actions ep + 19)" for patch
    by (rule within_bindW_le [OF within_actions(1)]) simp
  then show ?thesis unfolding reconcileUnknownCreate_def
    by (auto intro!: within_bindP_le [OF within_actions(3), where b = "seal_actions ep + 19"] split: option.split sum.split)
qed

lemma within_leased_body: "within (leased_body ep dg p r created l) (seal_actions ep + 20)"
proof -
  have run: "within (bindW (runProvider ep dg p u) (\<lambda>x. returnW (RunOutcome x))) (seal_actions ep + 17)" for u
    by (rule within_bindW_le [OF within_run, where b = 0]) simp_all
  have pending: "within (bindW (transition ep u AtPending id) (\<lambda>r. bindW (runProvider ep dg p r) (\<lambda>x. returnW (RunOutcome x)))) (seal_actions ep + 18)" for u
    by (rule within_bindW_le [OF within_actions(1) run]) simp
  have retry: "within (bindW (transition ep l AtRetrying patch) (\<lambda>u. bindW (transition ep u AtPending id)
      (\<lambda>r. bindW (runProvider ep dg p r) (\<lambda>x. returnW (RunOutcome x))))) (seal_actions ep + 20)" for patch
    by (rule within_bindW_le [OF within_actions(1) pending]) simp
  have unknown: "within (bindW (reconcileUnknownCreate ep l dg) (\<lambda>x. returnW (EarlyReturn (case x of None \<Rightarrow> l | Some r \<Rightarrow> r)))) (seal_actions ep + 20)"
    by (rule within_bindW_le [OF within_reconcile, where b = 0]) simp_all
  show ?thesis unfolding leased_body_def Let_def
    using within_le [OF run, of "seal_actions ep + 20"] within_le [OF pending, of "seal_actions ep + 20"] retry unknown by simp
qed

lemma within_leased_run: "within (leased_run ep dg p r created l token) (seal_actions ep + 22)"
  unfolding leased_run_def
proof (rule within_bindP_le [OF within_leased_body, where b = 2], goal_cases)
  case (1 res)
  show ?case
    by (rule within_bindW_le [OF within_actions(6), where b = 1], rule within_bindW_le [where a = 1 and b = 0])
      (auto simp: within_actions split: option.split sum.split run_result.split)
qed simp

lemma within_publish: "within (publishProvider ep key dg p token) (seal_actions ep + 24)"
proof -
  have again: "within (bindW (find_again a) (\<lambda>found. returnW (case found of Some x \<Rightarrow> x | None \<Rightarrow> r))) (seal_actions ep + 22)" for a r
    by (rule within_bindW_le [OF within_actions(5), where b = 0]) simp_all
  have run: "within (bindW (clocked ep f) (\<lambda>lease.
         case lease of (True, Some leased) \<Rightarrow> leased_run ep dg p r created leased token
         | _ \<Rightarrow> bindW (find_again a) (\<lambda>found. returnW (case found of Some x \<Rightarrow> x | None \<Rightarrow> r)))) (seal_actions ep + 23)" for f r created a
    by (rule within_bindW_le [OF within_actions(6), where b = "seal_actions ep + 22"])
      (auto simp: again within_leased_run split: prod.split option.split bool.split)
  have dup: "within (duplicate_attempt ep key dg p) (seal_actions ep + 23)" by (rule within_le [OF within_actions(8)]) simp
  show ?thesis unfolding publishProvider_def
  proof (rule within_bindW_le [OF within_actions(7), where b = "seal_actions ep + 23"], goal_cases)
    case (1 x)
    obtain r created where x: "x = (r, created)" by fastforce
    show ?case unfolding x prod.case
      by (rule within_if [OF dup within_settled [OF within_settled [OF within_if [OF within_Done(2) run]]]])
  qed simp
qed

end
