(* ===== verification/Publication_Properties.thy ===== *)
theory Publication_Properties
  imports Publication_Soundness Publication_Bounds
begin

text \<open>
  The properties of publication, for any number of calls of \<open>publishProvider\<close> that run concurrently on one store, with providers, a
  clock and a scheduler that do what they like.
\<close>

section \<open>Concurrent publications\<close>

text \<open>A call: publisher, idempotency key, digest, provider and lease token.\<close>

type_synonym 'e publication_call = "'e evidence_publisher \<times> string \<times> artifact_digest \<times> publication_provider \<times> string"

definition publication_of :: "'e publication_call \<Rightarrow> 'e publication_job" where
  "publication_of c = (case c of (ep, key, dg, p, token) \<Rightarrow> publishProvider ep key dg p token)"

definition proper_calls :: "publication_platform \<Rightarrow> artifact_digest set \<Rightarrow> (string \<times> publication_provider) set \<Rightarrow> 'e publication_call list \<Rightarrow> bool" where
  "proper_calls pl D K cs \<longleftrightarrow> no_collisions D \<and> distinct_ids pl K
     \<and> list_all (\<lambda>(ep, key, dg, p, token). ep_platform ep = pl \<and> dg \<in> D \<and> (key, p) \<in> K) cs"

lemma sat_publication:
  assumes "proper_calls pl D K cs" "store_ok pl D K (pw_records w)" "i < length (map publication_of cs)"
  shows "sat (world_step pl D K) (okpost (published pl D K)) (map publication_of cs ! i) w"
proof -
  obtain ep key dg p token where c: "cs ! i = (ep, key, dg, p, token)" by (cases "cs ! i")
  have "ep_platform ep = pl" "dg \<in> D" "(key, p) \<in> K" "no_collisions D" "distinct_ids pl K"
    using assms(1,3) nth_mem [of i cs] by (fastforce simp: proper_calls_def list_all_iff c)+
  then show ?thesis using assms(3) sat_publish [OF assms(2)] by (simp add: publication_of_def c)
qed

lemma sched_publications:
  assumes "proper_calls pl D K cs" "store_ok pl D K (pw_records w)" "sched\<^sup>*\<^sup>* (w, map publication_of cs) (w', ws')"
  shows "(world_step pl D K)\<^sup>*\<^sup>* w w'" "store_ok pl D K (pw_records w')" "length ws' = length cs"
    "i < length cs \<Longrightarrow> ws' ! i = Done (Inr r) \<Longrightarrow> published pl D K r w'"
    "i < length cs \<Longrightarrow> sat (world_step pl D K) (okpost (published pl D K)) (ws' ! i) w'"
proof -
  note r = sched_sat [where Q = "\<lambda>_. okpost (published pl D K)", OF assms(3) sat_publication [OF assms(1,2)]]
  show "(world_step pl D K)\<^sup>*\<^sup>* w w'" "length ws' = length cs" using r(1,2) by simp_all
  then show "store_ok pl D K (pw_records w')" using ok_later assms(2) by blast
  show "published pl D K r w'" if "i < length cs" "ws' ! i = Done (Inr r)"
    using r(3) [of i] that by (auto simp: okpost_def)
  show "sat (world_step pl D K) (okpost (published pl D K)) (ws' ! i) w'" if "i < length cs" using r(3) [of i] that by simp
qed

lemma empty_store_ok [simp]: "store_ok pl D K []"
  by (simp add: store_ok_def)

lemma solo_sched: "sched\<^sup>*\<^sup>* (s, [p]) (snd (solo p s), [Done (fst (solo p s))])"
proof (induction p arbitrary: s rule: worker_induct)
  case (Act g)
  have "sched (s, [Act g]) (fst (g s), [snd (g s)])" using sched.act [of 0 "[Act g]" g s "fst (g s)" "snd (g s)"] by simp
  moreover have "sched\<^sup>*\<^sup>* (fst (g s), [snd (g s)]) (snd (solo (snd (g s)) (fst (g s))), [Done (fst (solo (snd (g s)) (fst (g s))))])"
    by (rule Act.IH)
  ultimately show ?case by (simp add: converse_rtranclp_into_rtranclp)
qed simp

section \<open>Samples\<close>

text \<open>A publisher whose environment is a clock and whose providers answer as the last argument says.\<close>

definition press_platform :: publication_platform where
  "press_platform = \<lparr>pp_sha256 = \<lambda>_. replicate 64 CHR ''a'', pp_keccak = \<lambda>_. replicate 64 CHR ''b'', pp_sha256_text = \<lambda>_. replicate 64 CHR ''c'',
     pp_uuid = \<lambda>s. length s = 36, pp_credentials = \<lambda>_. False, pp_hostname = \<lambda>_. Some ''bucket''\<rparr>"

definition press_configuration :: publication_configuration where
  "press_configuration = \<lparr>cg_environment = EnvPreview, cg_enabledProviders = [Greenfield], cg_ipfs_network = ''ipfs'', cg_ipfs_label = ''ipfs'',
     cg_greenfield_network = ''testnet'', cg_greenfield_label = ''greenfield'', cg_greenfield_bucket = ''bucket'',
     cg_maxArtifactBytes = 100, cg_maxObjectBytes = 100, cg_maxSealPolls = 2, cg_sealBackoffMs = [], cg_leaseDurationMs = 1000\<rparr>"

definition press_hash :: string where
  "press_hash = ''0x'' @ replicate 64 CHR ''d''"

definition press_greenfield :: "seal_status \<Rightarrow> inspect_status \<Rightarrow> int greenfield_publisher" where
  "press_greenfield seal inspect = \<lparr>
     gp_createObject = \<lambda>_ e. (Inr \<lparr>cr_objectReference = Some ''object'', cr_creationTransactionHash = Some press_hash, cr_status = CreateSubmitted\<rparr>, e),
     gp_uploadObject = \<lambda>_ _ _ e. (Inr \<lparr>gr_uri = ''greenfield://bucket/object'', gr_network = ''testnet'', gr_bucket = ''bucket'', gr_providerReference = ''object''\<rparr>, e),
     gp_waitForSeal = \<lambda>_ _ e. (Inr \<lparr>se_status = seal, se_sealTransactionHash = Some press_hash\<rparr>, e),
     gp_readObject = \<lambda>_ e. (Inr (utf8_bytes ''{}''), e),
     gp_inspectObject = Some (\<lambda>_ e. (Inr \<lparr>in_status = inspect, in_objectReference = Some ''object'', in_creationTransactionHash = Some press_hash,
       in_sealTransactionHash = Some press_hash\<rparr>, e)),
     gp_reconcileCreate = None\<rparr>"

definition press :: "seal_status \<Rightarrow> inspect_status \<Rightarrow> int evidence_publisher" where
  "press seal inspect = \<lparr>ep_platform = press_platform, ep_normalize = \<lambda>_. Inl (OtherThrown None), ep_configuration = press_configuration,
     ep_configurationDigest = replicate 64 CHR ''e'', ep_ipfs = None, ep_greenfield = Some (press_greenfield seal inspect),
     ep_clock = \<lambda>e. (e, e + 1), ep_sleep = \<lambda>_ e. e\<rparr>"

definition press_artifact :: normal_artifact where
  "press_artifact = \<lparr>na_artifactId = ''release'', na_artifactType = ''agent_card'', na_version = 1, na_environment = EnvPreview, na_canonicalJson = ''{}''\<rparr>"

definition press_digest :: artifact_digest where
  "press_digest = \<lparr>dg_artifact = press_artifact, dg_canonicalBytes = utf8_bytes ''{}'', dg_sha256Digest = replicate 64 CHR ''a'',
     dg_keccak256Digest = replicate 64 CHR ''b'', dg_sizeBytes = 2\<rparr>"

definition press_call :: "int publication_call" where
  "press_call = (press SealSealed InspectMissing, ''release-1'', press_digest, Greenfield, replicate 36 CHR ''f'')"

definition blank :: "int publication_world" where
  "blank = \<lparr>pw_records = [], pw_audits = [], pw_env = 0\<rparr>"

lemma press_proper: "proper_calls press_platform {press_digest} {(''release-1'', Greenfield)} [press_call]"
  by (simp add: proper_calls_def no_collisions_def distinct_ids_def press_call_def press_def)

section \<open>Soundness\<close>



text \<open>C3: However publications interleave and whatever the providers answer, every stored attempt passes
  assertDurablePublicationAttempt: it is verified only with a locator of its own provider, network, bucket and digests, and a readback of
  these digests and size, with the seal confirmed for Greenfield. A call that returns a verified attempt returns one
  that passes too and whose attempt is in the store.\<close>

theorem verified_evidence_durable:
  assumes "proper_calls pl D K cs" "pw_records w = []" "sched\<^sup>*\<^sup>* (w, map publication_of cs) (w', ws')"
  shows "list_all (\<lambda>r. assertDurablePublicationAttempt r = Inr ()) (pw_records w')
    \<and> (\<forall>i < length cs. \<forall>r. ws' ! i = Done (Inr r) \<and> pub_state r = AtVerified \<longrightarrow> assertDurablePublicationAttempt r = Inr ()
        \<and> (\<exists>x \<in> set (pw_records w'). same_attempt r x \<and> pub_revision r \<le> pub_revision x))"
proof (intro conjI allI impI)
  note s = sched_publications [OF assms(1) _ assms(3)]
  show "list_all (\<lambda>r. assertDurablePublicationAttempt r = Inr ()) (pw_records w')"
    using s(2) assms(2) by (auto simp: store_ok_def list_all_iff intro: sound_durable)
  fix i r assume i: "i < length cs" and r: "ws' ! i = Done (Inr r) \<and> pub_state r = AtVerified"
  then have h: "holding pl D K r w'" using s(4) [of i r] assms(2) by (auto simp: published_def)
  then show "assertDurablePublicationAttempt r = Inr ()" by (auto simp: holding_def intro: sound_durable)
  show "\<exists>x \<in> set (pw_records w'). same_attempt r x \<and> pub_revision r \<le> pub_revision x"
    using h find_key_Some unfolding holding_def knows_def by blast
qed

theorem verified_evidence_durable_witness:
  "\<exists>w' x. sched\<^sup>*\<^sup>* (blank, [publication_of press_call]) (w', [Done x])
    \<and> list_all (\<lambda>r. assertDurablePublicationAttempt r = Inr ()) (pw_records w')"
proof -
  have s: "sched\<^sup>*\<^sup>* (blank, map publication_of [press_call]) (snd (solo (publication_of press_call) blank), [Done (fst (solo (publication_of press_call) blank))])"
    by (simp add: solo_sched)
  from verified_evidence_durable [OF press_proper _ s] s show ?thesis by (force simp: blank_def)
qed

text \<open>A record along the steps of the world.\<close>

definition later_record :: "publication_attempt \<Rightarrow> publication_attempt \<Rightarrow> bool" where
  "later_record x y \<longleftrightarrow> same_attempt x y \<and> pub_revision x \<le> pub_revision y \<and> (pub_revision x = pub_revision y \<longrightarrow> x = y)
     \<and> (\<lambda>a b. b \<in> set (stateTransitions a))\<^sup>*\<^sup>* (pub_state x) (pub_state y)"

lemma later_refl [simp]: "later_record x x"
  by (simp add: later_record_def)

lemma later_step:
  assumes "store_ok pl D K rs" "store_step pl D K rs rs'" "x \<in> set rs"
  shows "\<exists>y \<in> set rs'. later_record x y"
proof -
  have stay: ?thesis if "x \<in> set rs'" using that later_refl by blast
  from assms(2) consider (same) "rs' = rs" | (move) z p where "z \<in> set rs" "advance z p" "rs' = put_record p rs"
    | (new) p where "find_key (pub_idempotencyKey p) rs = None" "rs' = put_record p rs"
    by (auto simp: store_step_def)
  then show ?thesis
  proof cases
    case (move z p)
    have k: "pub_idempotencyKey p = pub_idempotencyKey z" using move(2) by (simp add: advance_def same_attempt_def)
    have rs': "rs' = map (\<lambda>y. if pub_idempotencyKey y = pub_idempotencyKey z then p else y) rs"
      using put_record_keys [OF move(1) k] move(3) by simp
    show ?thesis
    proof (cases "x = z")
      case True
      have "p \<in> set rs'" using move(1) by (force simp: rs')
      moreover have "later_record x p" using move(2) by (auto simp: True later_record_def advance_def)
      ultimately show ?thesis by blast
    next
      case False
      then have "pub_idempotencyKey x \<noteq> pub_idempotencyKey z" using assms(1,3) move(1) by (auto simp: store_ok_def distinct_map dest: inj_onD)
      then show ?thesis using assms(3) by (intro stay) (force simp: rs')
    qed
  qed (use stay assms(3) in \<open>auto simp: put_record_def\<close>)
qed

lemma later_trans: "later_record x y \<Longrightarrow> later_record y z \<Longrightarrow> later_record x z"
  unfolding later_record_def by (auto intro: same_attempt_trans rtranclp_trans)

lemma later_world:
  assumes "(world_step pl D K)\<^sup>*\<^sup>* w w'" "store_ok pl D K (pw_records w)" "x \<in> set (pw_records w)"
  shows "\<exists>y \<in> set (pw_records w'). later_record x y"
  using assms(1)
proof (induction rule: rtranclp_induct)
  case base
  then show ?case using assms(3) later_refl by blast
next
  case (step u v)
  then obtain y where y: "y \<in> set (pw_records u)" "later_record x y" by blast
  from later_step [OF ok_later [OF step(1) assms(2)] _ y(1)] step(2) obtain z where "z \<in> set (pw_records v)" "later_record y z"
    by (auto simp: world_step_def)
  with y(2) show ?case by (auto intro: later_trans)
qed

lemma verified_final: "(\<lambda>a b. b \<in> set (stateTransitions a))\<^sup>*\<^sup>* AtVerified s \<Longrightarrow> s = AtVerified"
  by (erule converse_rtranclpE) simp_all

text \<open>C13: From one moment of a run to a later one, a stored attempt keeps its identity and content, its revision grows with every
  change, its state moves along stateTransitions, and verified stays verified.\<close>

theorem attempts_advance:
  assumes "proper_calls pl D K cs" "pw_records w\<^sub>0 = []" "sched\<^sup>*\<^sup>* (w\<^sub>0, map publication_of cs) (w, ws)" "sched\<^sup>*\<^sup>* (w, ws) (w', ws')"
    and x: "x \<in> set (pw_records w)"
  shows "\<exists>y \<in> set (pw_records w'). same_attempt x y \<and> pub_revision x \<le> pub_revision y \<and> (pub_revision x = pub_revision y \<longrightarrow> x = y)
    \<and> (\<lambda>a b. b \<in> set (stateTransitions a))\<^sup>*\<^sup>* (pub_state x) (pub_state y) \<and> (pub_state x = AtVerified \<longrightarrow> pub_state y = AtVerified)"
proof -
  note s = sched_publications [OF assms(1) _ assms(3)]
  have ok: "store_ok pl D K (pw_records w)" using s(2) assms(2) by simp
  have kept: "sat (world_step pl D K) (okpost (published pl D K)) (ws ! i) w" if "i < length ws" for i
    using s(3,5) assms(2) that by simp
  have sat: "sat (world_step pl D K) (\<lambda>_ _. True) (ws ! i) w" if "i < length ws" for i
    by (rule sat_post [OF kept [OF that]]) simp
  have "(world_step pl D K)\<^sup>*\<^sup>* w w'" by (rule sched_sat(1) [where Q = "\<lambda>_ _ _. True", OF assms(4) sat])
  from later_world [OF this ok x] show ?thesis unfolding later_record_def using verified_final by metis
qed

lemma press_record:
  "case fst (newRecord (press SealSealed InspectMissing) ''release-1'' press_digest Greenfield AtPending blank) of Inl _ \<Rightarrow> False | Inr r \<Rightarrow> True"
  by code_simp

lemma press_created:
  "pw_records (snd (solo (create_or_get (press SealSealed InspectMissing) ''release-1'' press_digest Greenfield) blank)) \<noteq> []"
proof (cases rule: new_record_cases [of "press SealSealed InspectMissing" "''release-1''" press_digest Greenfield AtPending blank])
  case (1 e w')
  then show ?thesis using press_record by simp
next
  case (2 c r w')
  have "pw_records w' = []" using 2(2) by (simp add: blank_def)
  then show ?thesis using 2(1) record_schema_stable [OF 2(3)]
    by (simp add: create_or_get_def bindS_def on_records_def createOrGet_def find_key_def put_record_def)
qed

lemma first_act:
  assumes "p = Act g"
  shows "sched (s, [p]) (fst (g s), [snd (g s)])"
  using sched.act [of 0 "[p]" g s "fst (g s)" "snd (g s)"] assms by simp

theorem attempts_advance_witness:
  "\<exists>w ws x w' z. sched\<^sup>*\<^sup>* (blank, [publication_of press_call]) (w, ws) \<and> x \<in> set (pw_records w)
     \<and> sched\<^sup>*\<^sup>* (w, ws) (w', [Done z]) \<and> (\<exists>y \<in> set (pw_records w'). same_attempt x y \<and> pub_revision x \<le> pub_revision y)"
proof -
  let ?c = "create_or_get (press SealSealed InspectMissing) ''release-1'' press_digest Greenfield"
  obtain g where g: "publication_of press_call = Act g" "\<And>s. fst (g s) = snd (solo ?c s)"
    by (simp add: publication_of_def press_call_def publishProvider_def bindW_def create_or_get_def await_def case_prod_beta)
  let ?w = "fst (g blank)" and ?p = "snd (g blank)"
  have s: "sched\<^sup>*\<^sup>* (blank, map publication_of [press_call]) (?w, [?p])" using first_act [OF g(1)] by (simp add: r_into_rtranclp)
  obtain x where x: "x \<in> set (pw_records ?w)" using press_created by (metis g(2) list.set_sel(1))
  have r: "sched\<^sup>*\<^sup>* (?w, [?p]) (snd (solo ?p ?w), [Done (fst (solo ?p ?w))])" by (rule solo_sched)
  from attempts_advance [OF press_proper _ s r x] have "\<exists>y \<in> set (pw_records (snd (solo ?p ?w))). same_attempt x y \<and> pub_revision x \<le> pub_revision y"
    by (auto simp: blank_def)
  with s r x show ?thesis by (intro exI [of _ ?w] exI [of _ "[?p]"] exI [of _ x] exI [of _ "snd (solo ?p ?w)"] exI [of _ "fst (solo ?p ?w)"]) auto
qed

section \<open>Termination\<close>

text \<open>C17: Concurrent publications stop: together they do at most four actions for each permitted poll of the seal and 24 more per call,
  whatever the providers answer and however the actions interleave.\<close>

theorem publications_terminate:
  assumes "(sched ^^ k) (w, map publication_of cs) (w', ws')"
  shows "k \<le> (\<Sum>(ep, key, dg, p, token) \<leftarrow> cs. 4 * nat (cg_maxSealPolls (ep_configuration ep)) + 24)"
proof -
  have "list_all2 within (map publication_of cs) (map (\<lambda>(ep, key, dg, p, token). 4 * nat (cg_maxSealPolls (ep_configuration ep)) + 24) cs)"
    by (auto simp: list_all2_map1 list_all2_map2 list_all2_same publication_of_def within_publish)
  then show ?thesis by (rule sched_terminates [OF assms])
qed

theorem publications_terminate_witness:
  "\<exists>w' ws'. (sched ^^ 1) (blank, [publication_of press_call]) (w', ws') \<and> (1::nat) \<le> 32"
proof -
  obtain g where g: "publication_of press_call = Act g"
    by (simp add: publication_of_def press_call_def publishProvider_def bindW_def create_or_get_def await_def case_prod_beta)
  have s: "(sched ^^ 1) (blank, map publication_of [press_call]) (fst (g blank), [snd (g blank)])" using first_act [OF g] by (simp add: eq_OO)
  from publications_terminate [OF this] s show ?thesis by (auto simp: press_call_def press_def press_configuration_def)
qed

section \<open>Dead ends\<close>

lemma illegal_throws: "illegal_move (pub_state r) next \<Longrightarrow> transition ep r next patch = throwW (OtherThrown None)"
  by (simp add: transition_def)

lemma bindW_throw [simp]: "bindW (throwW e) f = throwW e"
  by (simp add: bindW_def throwW_def)


lemma illegal_fail: "illegal_move (pub_state r) next \<Longrightarrow> fail_attempt ep r next c m patch = throwW (OtherThrown None)"
  by (simp add: fail_attempt_def illegal_throws)

lemma solo_call [simp]: "solo (call f) w = (fst (f (pw_env w)), w\<lparr>pw_env := snd (f (pw_env w))\<rparr>)"
  by (simp add: call_def on_env_def case_prod_beta)



text \<open>A record of a sample attempt in a given state.\<close>

definition press_attempt :: "attempt_state \<Rightarrow> string option \<Rightarrow> publication_attempt" where
  "press_attempt s ref = \<lparr>pub_attemptId = replicate 36 CHR ''1'', pub_idempotencyKey = ''release-1:greenfield'', pub_provider = Greenfield,
     pub_providerLabel = ''greenfield'', pub_configurationDigest = replicate 64 CHR ''e'', pub_configuredNetwork = ''testnet'',
     pub_configuredBucket = Some ''bucket'', pub_artifactId = ''release'', pub_artifactType = ''agent_card'', pub_artifactVersion = 1,
     pub_objectName = ''evidence/preview/agent_card/release/versions/1/agent_card.json'', pub_sha256Digest = replicate 64 CHR ''a'',
     pub_keccak256Digest = replicate 64 CHR ''b'', pub_sizeBytes = 2, pub_state = s, pub_revision = 4,
     pub_leaseOwner = Some (replicate 36 CHR ''f''), pub_leaseExpiresAt = Some 1000, pub_providerReference = ref,
     pub_creationTransactionHash = None, pub_sealTransactionHash = None, pub_locator = None, pub_verification = None, pub_retryCount = 0,
     pub_lastErrorCode = None, pub_lastErrorMessage = None, pub_retryable = True, pub_submittedAt = None, pub_startedAt = Some 1,
     pub_completedAt = None, pub_createdAt = 0, pub_updatedAt = 2\<rparr>"

lemma press_hash_checked: "checkedTransactionHash (Some press_hash) = Inr (Some press_hash)"
  by code_simp


text \<open>C36: An attempt whose object is reported missing while it awaits the seal is never failed: the run throws and the store
  is as it was, because awaiting_seal has no transition to readback_failed.\<close>

theorem missing_seal_never_failed:
  assumes "pub_state r = AtAwaitingSeal" "fst (gp_waitForSeal ad ref (nat (cg_maxSealPolls (ep_configuration ep)) - n) (pw_env w)) = Inr seal"
    "se_status seal = SealMissing" "checkedTransactionHash (se_sealTransactionHash seal) = Inr h"
  shows "\<exists>e w'. solo (awaitSeal ep ad dg ref (Suc n) r) w = (Inl e, w') \<and> pw_records w' = pw_records w"
proof -
  have "illegal_move (pub_state r) AtReadbackFailed" by (simp add: assms(1) illegal_move_def)
  then show ?thesis using assms(2-4)
    by (simp add: poll_seal_def Let_def solo_bindW settled_def returnW_def illegal_fail throwW_def)
qed

theorem missing_seal_never_failed_witness:
  "\<exists>e w'. solo (awaitSeal (press SealMissing InspectMissing) (press_greenfield SealMissing InspectMissing) press_digest ''object'' 2
     (press_attempt AtAwaitingSeal (Some ''object''))) blank = (Inl e, w') \<and> pw_records w' = []"
  using missing_seal_never_failed [of "press_attempt AtAwaitingSeal (Some ''object'')" "press_greenfield SealMissing InspectMissing" "''object''"
      "press SealMissing InspectMissing" 1 blank "\<lparr>se_status = SealMissing, se_sealTransactionHash = Some press_hash\<rparr>" "Some press_hash" press_digest]
  by (simp add: press_attempt_def press_def press_configuration_def press_greenfield_def press_hash_checked blank_def numeral_2_eq_2)






end
