(* ===== verification/Index_Types.thy ===== *)
theory Index_Types
  imports Commerce_Types
begin

text \<open>
  The data of packages/agent-ingestion that the synchronisation with the ERC-8004 registry and the claims of owners work on (types.ts, errors.ts),
  the checks of a direct read (identity-provenance.ts), of checkpoints and block tags (adapters/registry.ts) and of a registry event
  (normalize.ts).

  Dates are milliseconds. The random id and the time stamp \<open>updatedAt\<close> of an identity row, which nothing reads, are left out. Map keys
  that the code composes of two or three parts are tuples. The parser of URLs in events, the SHA-256 digest of a text and \<open>localeCompare\<close> are
  parameters.
\<close>

section \<open>Errors\<close>

datatype ingestion_code = INGESTION_INPUT_INVALID | IDENTITY_CONFLICT | DUPLICATE_CHAIN_LOG_CONFLICT | INGESTION_CHECKPOINT_CONFLICT
  | REORG_RECONCILIATION_REQUIRED | CLAIM_OWNER_MISMATCH | CLAIM_PROOF_INVALID | CLAIM_NOT_ACTIVE | CLAIM_CONFLICT
  | CLAIM_AUTHORIZATION_REQUIRED | REGISTRY_SYNC_CONFIG_INVALID | REGISTRY_SYNC_EVENT_LIMIT_EXCEEDED | REGISTRY_FINALITY_UNRESOLVED
  | REPOSITORY_FAILURE

text \<open>An \<open>ingestionError\<close>, an exception of a domain schema or of a status table, or whatever a port throws.\<close>

datatype ingestion_exn = IngestionError ingestion_code | SchemaThrown | StatusThrown | PortThrown

definition schema :: "schema_error + 'a \<Rightarrow> ingestion_exn + 'a" where
  "schema r = (case r of Inl _ \<Rightarrow> Inl SchemaThrown | Inr x \<Rightarrow> Inr x)"

definition failing :: "ingestion_code \<Rightarrow> bool \<Rightarrow> ingestion_exn + unit" where
  "failing c b = (if b then Inl (IngestionError c) else Inr ())"

record index_platform =
  ixp_sha256_text :: "string \<Rightarrow> string"
  ixp_url :: "string \<Rightarrow> bool"
  ixp_locale_compare :: "string \<Rightarrow> string \<Rightarrow> int"

section \<open>Reads of an identity\<close>

datatype identity_consistency = ReadFinalized | ReadProvisional

record read_reference =
  rr_observedBlock :: int
  rr_observedBlockHash :: string
  rr_readConsistency :: identity_consistency

record direct_state =
  ds_ownerAddress :: "string option"
  ds_agentWallet :: "string option"
  ds_agentUri :: "string option"
  ds_contentDigest :: "string option"
  ds_observedBlock :: int
  ds_observedBlockHash :: string
  ds_readConsistency :: identity_consistency
  ds_ownerObservedBlock :: "int option"
  ds_agentWalletObservedBlock :: "int option"
  ds_agentUriObservedBlock :: "int option"
  ds_contentDigestObservedBlock :: "int option"

record identity_row =
  ix_identity :: erc8004_identity
  ix_originType :: origin_type
  ix_ownerAddress :: "string option"
  ix_agentWallet :: "string option"
  ix_agentUri :: "string option"
  ix_contentDigest :: "string option"
  ix_observedBlock :: "int option"
  ix_observedBlockHash :: "string option"
  ix_readConsistency :: "identity_consistency option"
  ix_ownerObservedBlock :: "int option"
  ix_agentWalletObservedBlock :: "int option"
  ix_agentUriObservedBlock :: "int option"
  ix_contentDigestObservedBlock :: "int option"
  ix_state :: agent_state_axes
  ix_ownerClaimVerifiedAt :: "int option"

definition safe_nat :: "int \<Rightarrow> bool" where
  "safe_nat n \<longleftrightarrow> isSafeInteger n \<and> 0 \<le> n"

definition field_provenance_ok :: "int \<Rightarrow> int option \<Rightarrow> bool" where
  "field_provenance_ok block field = (case field of None \<Rightarrow> True | Some b \<Rightarrow> safe_nat b \<and> b \<le> block)"

definition assertIdentityReadProvenance :: "direct_state \<Rightarrow> read_reference option \<Rightarrow> ingestion_exn + unit" where
  "assertIdentityReadProvenance r expected =
     bindE (failing REORG_RECONCILIATION_REQUIRED (\<not> safe_nat (ds_observedBlock r) \<or> \<not> transactionHashSchema (ds_observedBlockHash r))) (\<lambda>_.
     bindE (failing REORG_RECONCILIATION_REQUIRED (\<not> list_all (field_provenance_ok (ds_observedBlock r))
       [ds_ownerObservedBlock r, ds_agentWalletObservedBlock r, ds_agentUriObservedBlock r, ds_contentDigestObservedBlock r])) (\<lambda>_.
     failing REORG_RECONCILIATION_REQUIRED (case expected of None \<Rightarrow> False | Some e \<Rightarrow> ds_observedBlock r \<noteq> rr_observedBlock e
       \<or> js_lower (ds_observedBlockHash r) \<noteq> js_lower (rr_observedBlockHash e) \<or> ds_readConsistency r \<noteq> rr_readConsistency e)))"

definition identityReadReference :: "direct_state \<Rightarrow> ingestion_exn + read_reference" where
  "identityReadReference r = bindE (assertIdentityReadProvenance r None) (\<lambda>_.
     Inr \<lparr>rr_observedBlock = ds_observedBlock r, rr_observedBlockHash = js_lower (ds_observedBlockHash r), rr_readConsistency = ds_readConsistency r\<rparr>)"

definition identityRecordReadReference :: "identity_row \<Rightarrow> ingestion_exn + read_reference option" where
  "identityRecordReadReference r = (case (ix_observedBlock r, ix_observedBlockHash r, ix_readConsistency r) of
     (None, None, None) \<Rightarrow> Inr None
   | (Some b, Some h, Some c) \<Rightarrow> if \<not> safe_nat b \<or> \<not> transactionHashSchema h then Inl (IngestionError REPOSITORY_FAILURE)
       else Inr (Some \<lparr>rr_observedBlock = b, rr_observedBlockHash = js_lower h, rr_readConsistency = c\<rparr>)
   | _ \<Rightarrow> Inl (IngestionError REPOSITORY_FAILURE))"

section \<open>Registry events and observations\<close>

datatype direct_field = FieldOwner | FieldAgentUri | FieldAgentWallet | FieldContentDigest

text \<open>A field that the event may leave out: the outer option is its presence, the inner one its null.\<close>

record registry_event =
  rx_identity :: erc8004_identity
  rx_eventType :: string
  rx_transactionHash :: string
  rx_logIndex :: int
  rx_blockNumber :: int
  rx_blockHash :: string
  rx_ownerAddress :: "string option option"
  rx_agentUri :: "string option option"
  rx_agentWallet :: "string option option"
  rx_contentDigest :: "string option option"
  rx_changedFields :: "direct_field list option"
  rx_observedAt :: "int option"
  rx_payload :: "js_value option"

datatype observation_state = Provisional | Canonical | Orphaned

record chain_observation =
  co_identityKey :: string
  co_identity :: erc8004_identity
  co_eventType :: string
  co_transactionHash :: string
  co_logIndex :: int
  co_blockNumber :: int
  co_blockHash :: string
  co_state :: observation_state
  co_ownerAddress :: "string option"
  co_agentUri :: "string option"
  co_agentWallet :: "string option"
  co_contentDigest :: "string option"
  co_observedFields :: "direct_field list"
  co_firstObservedAt :: int
  co_canonicalizedAt :: "int option"
  co_orphanedAt :: "int option"
  co_payloadDigest :: "string option"

text \<open>\<open>assertSafePublicValue\<close> with the rest of its budget of nodes; a plain JSON value has no instances, functions or big integers.\<close>

fun starting :: "string list \<Rightarrow> string \<Rightarrow> bool" where
  "starting [] s = False"
| "starting (p # ps) s = (take (length p) s = p \<or> starting ps s)"

fun anywhere :: "(string \<Rightarrow> bool) \<Rightarrow> string \<Rightarrow> bool" where
  "anywhere p [] = p []"
| "anywhere p (c # cs) = (p (c # cs) \<or> anywhere p cs)"

definition sensitiveKey :: "string \<Rightarrow> bool" where
  "sensitiveKey k = anywhere (starting [''privatekey'', ''private_key'', ''private-key'', ''secret'', ''password'', ''mnemonic'', ''seed phrase'',
     ''accesstoken'', ''access_token'', ''access-token'', ''apikey'', ''api_key'', ''api-key'', ''authorization'', ''credential'']) (js_lower k)"

definition spend_node :: "nat \<Rightarrow> nat \<Rightarrow> ingestion_exn + nat" where
  "spend_node depth budget = (if 8 < depth \<or> 2048 < budget then Inl (IngestionError INGESTION_INPUT_INVALID) else Inr (Suc budget))"

fun assertSafeValue :: "nat \<Rightarrow> js_value \<Rightarrow> nat \<Rightarrow> ingestion_exn + nat"
and assertSafeItems :: "nat \<Rightarrow> js_value list \<Rightarrow> nat \<Rightarrow> ingestion_exn + nat"
and assertSafeFields :: "nat \<Rightarrow> (string \<times> js_value) list \<Rightarrow> nat \<Rightarrow> ingestion_exn + nat"
where
  "assertSafeValue d JNull b = spend_node d b"
| "assertSafeValue d (JBool x) b = spend_node d b"
| "assertSafeValue d (JNumber n) b = spend_node d b"
| "assertSafeValue d JNegZero b = spend_node d b"
| "assertSafeValue d (JString s) b = bindE (spend_node d b) (\<lambda>b'. if 10000 < length s then Inl (IngestionError INGESTION_INPUT_INVALID) else Inr b')"
| "assertSafeValue d (JArray vs) b = bindE (spend_node d b) (\<lambda>b'. if 128 < length vs then Inl (IngestionError INGESTION_INPUT_INVALID)
     else assertSafeItems (Suc d) vs b')"
| "assertSafeValue d (JObject kvs) b = bindE (spend_node d b) (assertSafeFields (Suc d) kvs)"
| "assertSafeValue d _ b = bindE (spend_node d b) (\<lambda>_. Inl (IngestionError INGESTION_INPUT_INVALID))"
| "assertSafeItems d [] b = Inr b"
| "assertSafeItems d (v # vs) b = bindE (assertSafeValue d v b) (assertSafeItems d vs)"
| "assertSafeFields d [] b = Inr b"
| "assertSafeFields d ((k, v) # kvs) b = (if sensitiveKey k then Inl (IngestionError INGESTION_INPUT_INVALID)
     else bindE (assertSafeValue d v b) (assertSafeFields d kvs))"

definition normalizeIdentity :: "erc8004_identity \<Rightarrow> ingestion_exn + erc8004_identity" where
  "normalizeIdentity i = (case erc8004IdentitySchema i of Inl _ \<Rightarrow> Inl (IngestionError INGESTION_INPUT_INVALID) | Inr j \<Rightarrow> schema (normalizeErc8004Identity j))"

definition normalizeEventAddress :: "string option option \<Rightarrow> ingestion_exn + string option" where
  "normalizeEventAddress v = (case v of Some (Some a) \<Rightarrow> (case normalizeEvmAddress a of Inl _ \<Rightarrow> Inl (IngestionError INGESTION_INPUT_INVALID) | Inr x \<Rightarrow> Inr (Some x))
     | _ \<Rightarrow> Inr None)"

definition normalizeEventUri :: "index_platform \<Rightarrow> string option option \<Rightarrow> ingestion_exn + string option" where
  "normalizeEventUri px v = (case v of Some (Some u) \<Rightarrow> if ixp_url px u then Inr (Some u) else Inl (IngestionError INGESTION_INPUT_INVALID) | _ \<Rightarrow> Inr None)"

definition normalizeDigest :: "string option option \<Rightarrow> ingestion_exn + string option" where
  "normalizeDigest v = (case v of Some (Some d) \<Rightarrow> if contentDigestSchema d then Inr (Some (js_lower d)) else Inl (IngestionError INGESTION_INPUT_INVALID) | _ \<Rightarrow> Inr None)"

definition present :: "registry_event \<Rightarrow> direct_field \<Rightarrow> bool" where
  "present e f = (case f of FieldOwner \<Rightarrow> rx_ownerAddress e \<noteq> None | FieldAgentWallet \<Rightarrow> rx_agentWallet e \<noteq> None
     | FieldAgentUri \<Rightarrow> rx_agentUri e \<noteq> None | FieldContentDigest \<Rightarrow> rx_contentDigest e \<noteq> None)"

definition observed_fields :: "registry_event \<Rightarrow> ingestion_exn + direct_field list" where
  "observed_fields e = (case rx_changedFields e of
     None \<Rightarrow> Inr (filter (present e) [FieldOwner, FieldAgentWallet, FieldAgentUri, FieldContentDigest])
   | Some fs \<Rightarrow> if distinct fs \<and> list_all (present e) fs then Inr fs else Inl (IngestionError INGESTION_INPUT_INVALID))"

definition payload_digest :: "index_platform \<Rightarrow> js_value option \<Rightarrow> ingestion_exn + string option" where
  "payload_digest px p = (case p of None \<Rightarrow> Inr None
     | Some v \<Rightarrow> (case canonicalSha256Hex (ixp_sha256_text px) v of Inl _ \<Rightarrow> Inl PortThrown | Inr h \<Rightarrow> Inr (Some h)))"

definition assertSafePublicValue :: "js_value \<Rightarrow> ingestion_exn + unit" where
  "assertSafePublicValue v = bindE (assertSafeValue 0 v 0) (\<lambda>_. Inr ())"

text \<open>\<open>now\<close> is the clock, for an event without a time of observation.\<close>

record normalized_event =
  ne_identity :: erc8004_identity
  ne_eventType :: string
  ne_transactionHash :: string
  ne_logIndex :: int
  ne_blockNumber :: int
  ne_blockHash :: string
  ne_ownerAddress :: "string option"
  ne_agentUri :: "string option"
  ne_agentWallet :: "string option"
  ne_contentDigest :: "string option"
  ne_observedFields :: "direct_field list"
  ne_observedAt :: int
  ne_payloadDigest :: "string option"

definition normalizeRegistryEvent :: "index_platform \<Rightarrow> int \<Rightarrow> registry_event \<Rightarrow> ingestion_exn + normalized_event" where
  "normalizeRegistryEvent px now e =
     bindE (normalizeIdentity (rx_identity e)) (\<lambda>i.
     bindE (failing INGESTION_INPUT_INVALID (\<not> transactionHashSchema (rx_transactionHash e) \<or> \<not> transactionHashSchema (rx_blockHash e))) (\<lambda>_.
     bindE (failing INGESTION_INPUT_INVALID (\<not> safe_nat (rx_logIndex e) \<or> \<not> safe_nat (rx_blockNumber e))) (\<lambda>_.
     bindE (failing INGESTION_INPUT_INVALID (js_trim (rx_eventType e) = [] \<or> 128 < length (js_trim (rx_eventType e)))) (\<lambda>_.
     bindE (case rx_payload e of None \<Rightarrow> Inr () | Some p \<Rightarrow> assertSafePublicValue p) (\<lambda>_.
     bindE (observed_fields e) (\<lambda>fields.
     bindE (normalizeEventAddress (rx_ownerAddress e)) (\<lambda>owner.
     bindE (normalizeEventUri px (rx_agentUri e)) (\<lambda>uri.
     bindE (normalizeEventAddress (rx_agentWallet e)) (\<lambda>wallet.
     bindE (normalizeDigest (rx_contentDigest e)) (\<lambda>digest.
     bindE (payload_digest px (rx_payload e)) (\<lambda>payload.
       Inr \<lparr>ne_identity = i, ne_eventType = js_trim (rx_eventType e), ne_transactionHash = js_lower (rx_transactionHash e),
         ne_logIndex = rx_logIndex e, ne_blockNumber = rx_blockNumber e, ne_blockHash = js_lower (rx_blockHash e),
         ne_ownerAddress = owner, ne_agentUri = uri, ne_agentWallet = wallet, ne_contentDigest = digest, ne_observedFields = fields,
         ne_observedAt = (case rx_observedAt e of None \<Rightarrow> now | Some t \<Rightarrow> t), ne_payloadDigest = payload\<rparr>)))))))))))"

definition registryEventToObservation :: "index_platform \<Rightarrow> int \<Rightarrow> registry_event \<Rightarrow> ingestion_exn + chain_observation" where
  "registryEventToObservation px now e =
     bindE (normalizeRegistryEvent px now e) (\<lambda>n.
     bindE (schema (erc8004IdentityKey (ne_identity n))) (\<lambda>key.
       Inr \<lparr>co_identityKey = key, co_identity = ne_identity n, co_eventType = ne_eventType n, co_transactionHash = ne_transactionHash n,
         co_logIndex = ne_logIndex n, co_blockNumber = ne_blockNumber n, co_blockHash = ne_blockHash n, co_state = Provisional,
         co_ownerAddress = ne_ownerAddress n, co_agentUri = ne_agentUri n, co_agentWallet = ne_agentWallet n,
         co_contentDigest = ne_contentDigest n, co_observedFields = ne_observedFields n, co_firstObservedAt = ne_observedAt n,
         co_canonicalizedAt = None, co_orphanedAt = None, co_payloadDigest = ne_payloadDigest n\<rparr>))"

section \<open>Checkpoints and block tags\<close>

record block_tag =
  bt_blockNumber :: int
  bt_blockHash :: string

record chain_checkpoint =
  cc_chainId :: int
  cc_identityRegistry :: string
  cc_indexerVersion :: string
  cc_lastScannedBlock :: int
  cc_lastScannedBlockHash :: string
  cc_lastFinalizedBlock :: int
  cc_lastFinalizedBlockHash :: string
  cc_confirmationThreshold :: int
  cc_cursorVersion :: int
  cc_lastReconciliationAt :: "int option"

record verified_rewind =
  vr_previousScannedBlock :: int
  vr_previousScannedBlockHash :: string
  vr_commonAncestorBlock :: int
  vr_commonAncestorHash :: string

record write_condition =
  wc_expectedCursorVersion :: "int option"
  wc_expectedLastScannedBlockHash :: "string option"
  wc_previousScannedBlock :: "int option"
  wc_previousScannedBlockHash :: "string option"
  wc_verifiedRewind :: "verified_rewind option"

definition normalizeChainBlockTag :: "block_tag \<Rightarrow> ingestion_exn + block_tag" where
  "normalizeChainBlockTag t = bindE (failing INGESTION_INPUT_INVALID (\<not> safe_nat (bt_blockNumber t) \<or> \<not> transactionHashSchema (bt_blockHash t))) (\<lambda>_.
     Inr \<lparr>bt_blockNumber = bt_blockNumber t, bt_blockHash = js_lower (bt_blockHash t)\<rparr>)"

definition normalizeRegistryCheckpoint :: "chain_checkpoint \<Rightarrow> ingestion_exn + chain_checkpoint" where
  "normalizeRegistryCheckpoint c =
     bindE (schema (normalizeEvmAddress (cc_identityRegistry c))) (\<lambda>registry.
     bindE (failing INGESTION_INPUT_INVALID (\<not> (safe_nat (cc_chainId c) \<and> cc_chainId c \<noteq> 0 \<and> safe_nat (cc_lastScannedBlock c)
       \<and> safe_nat (cc_lastFinalizedBlock c) \<and> safe_nat (cc_confirmationThreshold c) \<and> js_trim (cc_indexerVersion c) \<noteq> []
       \<and> length (js_trim (cc_indexerVersion c)) \<le> 64 \<and> transactionHashSchema (cc_lastScannedBlockHash c)
       \<and> transactionHashSchema (cc_lastFinalizedBlockHash c)))) (\<lambda>_.
     bindE (failing INGESTION_INPUT_INVALID (cc_lastScannedBlock c < cc_lastFinalizedBlock c)) (\<lambda>_.
       Inr (c\<lparr>cc_identityRegistry := registry, cc_indexerVersion := js_trim (cc_indexerVersion c)\<rparr>))))"

section \<open>Claims\<close>

datatype claim_reason = ReasonClaimed | ReasonOwnerTransfer | ReasonRevoked | ReasonReconciliation

record claim_row =
  cl_identityKey :: string
  cl_version :: int
  cl_status :: claim_status
  cl_claimantAddress :: "string option"
  cl_ownerAddressAtVerification :: "string option"
  cl_agentWalletAtVerification :: "string option"
  cl_verifiedAt :: "int option"
  cl_staleAt :: "int option"
  cl_lastReason :: "claim_reason option"
  cl_verificationObservedBlock :: "int option"
  cl_verificationObservedBlockHash :: "string option"
  cl_verificationReadConsistency :: "identity_consistency option"

datatype claim_event_type = EventClaimed | EventStale | EventRevoked

datatype actor_type = ActorOwner | ActorOperator

datatype operator_scope = ScopeRevoke | ScopeReconcile

datatype claim_actor = OwnerActor string string | OperatorActor string operator_scope

record claim_event =
  ce_identityKey :: string
  ce_eventType :: claim_event_type
  ce_claimantAddress :: "string option"
  ce_observedOwnerAddress :: "string option"
  ce_observedAgentWallet :: "string option"
  ce_proofDigest :: "string option"
  ce_actorType :: actor_type
  ce_actorId :: string
  ce_reason :: string
  ce_occurredAt :: int

record claim_mutation =
  cm_identityKey :: string
  cm_expectedVersion :: "int option"
  cm_expectedStatus :: "claim_status option"
  cm_expectedOwnerAddress :: "string option"
  cm_expectedCanonicalRead :: read_reference
  cm_claim :: claim_row
  cm_event :: claim_event
  cm_actor :: claim_actor

section \<open>Facts\<close>

lemma schema_Inr [simp]: "schema r = Inr x \<longleftrightarrow> r = Inr x"
  by (cases r) (simp_all add: schema_def)

lemma failing_Inr [simp]: "failing c b = Inr u \<longleftrightarrow> \<not> b"
  by (simp add: failing_def)

lemma normalizeErc8004Identity_idem: "normalizeErc8004Identity i = Inr j \<Longrightarrow> normalizeErc8004Identity j = Inr j"
  by (auto simp: normalizeErc8004Identity_Inr Let_def evmAddressSchema_def intro: js_lower_hex_prefix)

lemma normalizeIdentity_Inr: "normalizeIdentity i = Inr j \<Longrightarrow> normalizeErc8004Identity j = Inr j"
  by (auto simp: normalizeIdentity_def split: sum.splits intro: normalizeErc8004Identity_idem)

lemma erc8004IdentityKey_norm: "normalizeErc8004Identity i = Inr j \<Longrightarrow> erc8004IdentityKey j = erc8004IdentityKey i"
  using normalizeErc8004Identity_idem [of i j] by (simp add: erc8004IdentityKey_def)

end
