(* ===== verification/Index_Repository.thy ===== *)
theory Index_Repository
  imports Index_Types Js_Sort "HOL-Library.AList"
begin

text \<open>
  The in-memory repository of packages/agent-ingestion (memory-repository.ts): the identities, sources, observations, checkpoints, claims,
  claim events and reconciliations that registry synchronisation and claims read and write. A JavaScript \<open>Map\<close> is an association list in
  order of insertion. An operation is a function from the store to a result with the next store; an exception leaves the store as it is.
  The status and the error code of a reconciliation, which are constant, are left out.
\<close>

section \<open>The store\<close>

record source_row =
  so_identityKey :: string
  so_source :: string
  so_sourceReference :: string
  so_firstObservedAt :: int
  so_lastObservedAt :: int
  so_rawResponseDigest :: "string option"
  so_normalizedIngestionVersion :: string

record reconciliation_row =
  re_chainId :: int
  re_identityRegistry :: string
  re_previousScannedBlock :: int
  re_commonAncestorBlock :: int
  re_affectedIdentityKeys :: "string list"
  re_startedAt :: int
  re_finishedAt :: "int option"

record index_store =
  is_identities :: "(string \<times> identity_row) list"
  is_sources :: "((string \<times> string \<times> string) \<times> source_row) list"
  is_observations :: "((string \<times> int) \<times> chain_observation) list"
  is_checkpoints :: "((int \<times> string) \<times> chain_checkpoint) list"
  is_claims :: "(string \<times> claim_row) list"
  is_claimEvents :: "(string \<times> claim_event list) list"
  is_reconciliations :: "reconciliation_row list"

definition empty_index :: index_store where
  "empty_index = \<lparr>is_identities = [], is_sources = [], is_observations = [], is_checkpoints = [], is_claims = [], is_claimEvents = [],
     is_reconciliations = []\<rparr>"

type_synonym 'a update = "index_store \<Rightarrow> ingestion_exn + ('a \<times> index_store)"

section \<open>Identities\<close>

definition defaultState :: "origin_type \<Rightarrow> agent_state_axes" where
  "defaultState origin = \<lparr>originType = origin, claimStatus = Unclaimed, verificationStatus = VerificationPending, runtimeStatus = Unavailable,
     authorityStatus = AuthorityNone, listingStatus = Draft\<rparr>"

definition normalizeNullableAddress :: "string option \<Rightarrow> ingestion_exn + string option" where
  "normalizeNullableAddress a = (case a of None \<Rightarrow> Inr None | Some x \<Rightarrow> bindE (schema (normalizeEvmAddress x)) (\<lambda>y. Inr (Some y)))"

definition findIdentity :: "erc8004_identity \<Rightarrow> index_store \<Rightarrow> ingestion_exn + identity_row option" where
  "findIdentity input s = bindE (schema (normalizeErc8004Identity input)) (\<lambda>i.
     bindE (schema (erc8004IdentityKey i)) (\<lambda>k. Inr (map_of (is_identities s) k)))"

definition put_identity :: "string \<Rightarrow> identity_row \<Rightarrow> index_store \<Rightarrow> index_store" where
  "put_identity k r s = s\<lparr>is_identities := AList.update k r (is_identities s)\<rparr>"

definition new_identity :: "erc8004_identity \<Rightarrow> origin_type \<Rightarrow> direct_state option \<Rightarrow> identity_row" where
  "new_identity i origin d = \<lparr>ix_identity = i, ix_originType = origin,
     ix_ownerAddress = Option.bind d ds_ownerAddress, ix_agentWallet = Option.bind d ds_agentWallet,
     ix_agentUri = Option.bind d ds_agentUri, ix_contentDigest = Option.bind d ds_contentDigest,
     ix_observedBlock = map_option ds_observedBlock d, ix_observedBlockHash = map_option ds_observedBlockHash d,
     ix_readConsistency = map_option ds_readConsistency d, ix_ownerObservedBlock = Option.bind d ds_ownerObservedBlock,
     ix_agentWalletObservedBlock = Option.bind d ds_agentWalletObservedBlock, ix_agentUriObservedBlock = Option.bind d ds_agentUriObservedBlock,
     ix_contentDigestObservedBlock = Option.bind d ds_contentDigestObservedBlock, ix_state = defaultState origin,
     ix_ownerClaimVerifiedAt = None\<rparr>"

text \<open>The part of \<open>applyCanonicalState\<close> for an identity that is stored.\<close>

definition canonical_row :: "direct_state \<Rightarrow> identity_row \<Rightarrow> ingestion_exn + identity_row" where
  "canonical_row d r =
     bindE (normalizeNullableAddress (ds_ownerAddress d)) (\<lambda>owner.
     bindE (normalizeNullableAddress (ds_agentWallet d)) (\<lambda>wallet.
     bindE (if ix_ownerAddress r \<noteq> owner \<and> claimStatus (ix_state r) = Claimed
         then (case assertStateTransition (ClaimChange (claimStatus (ix_state r)) ClaimStale) of Inl _ \<Rightarrow> Inl StatusThrown
           | Inr _ \<Rightarrow> Inr ((ix_state r)\<lparr>claimStatus := ClaimStale\<rparr>)) else Inr (ix_state r)) (\<lambda>state.
       Inr (r\<lparr>ix_ownerAddress := owner, ix_agentWallet := wallet, ix_agentUri := ds_agentUri d, ix_contentDigest := ds_contentDigest d,
         ix_observedBlock := Some (ds_observedBlock d), ix_observedBlockHash := Some (js_lower (ds_observedBlockHash d)),
         ix_readConsistency := Some (ds_readConsistency d), ix_ownerObservedBlock := ds_ownerObservedBlock d,
         ix_agentWalletObservedBlock := ds_agentWalletObservedBlock d, ix_agentUriObservedBlock := ds_agentUriObservedBlock d,
         ix_contentDigestObservedBlock := ds_contentDigestObservedBlock d, ix_state := state,
         ix_ownerClaimVerifiedAt := (if ix_ownerAddress r \<noteq> owner then None else ix_ownerClaimVerifiedAt r)\<rparr>))))"

definition overwrite_identity :: "string \<Rightarrow> direct_state \<Rightarrow> identity_row \<Rightarrow> identity_row update" where
  "overwrite_identity k d r s = bindE (canonical_row d r) (\<lambda>r'. Inr (r', put_identity k r' s))"

definition upsertIdentity :: "erc8004_identity \<Rightarrow> origin_type \<Rightarrow> direct_state option \<Rightarrow> identity_row update" where
  "upsertIdentity input origin d s =
     bindE (schema (normalizeErc8004Identity input)) (\<lambda>i.
     bindE (case d of None \<Rightarrow> Inr () | Some x \<Rightarrow> assertIdentityReadProvenance x None) (\<lambda>_.
     bindE (schema (erc8004IdentityKey i)) (\<lambda>k.
     case map_of (is_identities s) k of
       None \<Rightarrow> Inr (new_identity i origin d, put_identity k (new_identity i origin d) s)
     | Some r \<Rightarrow>
         if id_chainId (ix_identity r) \<noteq> id_chainId i \<or> id_registry (ix_identity r) \<noteq> id_registry i then Inl (IngestionError IDENTITY_CONFLICT)
         else if ix_originType r \<noteq> origin then Inr (r, s)
         else (case d of None \<Rightarrow> Inr (r, s) | Some x \<Rightarrow> overwrite_identity k x r s))))"

definition applyCanonicalState :: "erc8004_identity \<Rightarrow> direct_state \<Rightarrow> identity_row update" where
  "applyCanonicalState input d s =
     bindE (schema (normalizeErc8004Identity input)) (\<lambda>i.
     bindE (assertIdentityReadProvenance d None) (\<lambda>_.
     bindE (schema (erc8004IdentityKey i)) (\<lambda>k.
     case map_of (is_identities s) k of None \<Rightarrow> upsertIdentity i Discovered (Some d) s | Some r \<Rightarrow> overwrite_identity k d r s)))"

definition listIdentities :: "index_platform \<Rightarrow> (int \<times> string) option \<Rightarrow> index_store \<Rightarrow> ingestion_exn + identity_row list" where
  "listIdentities px only s =
     bindE (case only of None \<Rightarrow> Inr (map snd (is_identities s))
       | Some (chain, registry) \<Rightarrow> let rs = filter (\<lambda>r. id_chainId (ix_identity r) = chain) (map snd (is_identities s)) in
           if rs = [] then Inr [] else bindE (schema (normalizeEvmAddress registry)) (\<lambda>g. Inr (filter (\<lambda>r. id_registry (ix_identity r) = g) rs))) (\<lambda>rs.
     bindE (mapE (\<lambda>r. bindE (schema (erc8004IdentityKey (ix_identity r))) (\<lambda>k. Inr (k, r))) rs) (\<lambda>krs.
       Inr (map snd (js_sort (\<lambda>a b. ixp_locale_compare px (fst a) (fst b)) krs))))"

section \<open>Sources and observations\<close>

definition recordSource :: "source_row \<Rightarrow> source_row update" where
  "recordSource n s = (let k = (so_identityKey n, so_source n, so_sourceReference n);
     row = (case map_of (is_sources s) k of None \<Rightarrow> n\<lparr>so_lastObservedAt := so_firstObservedAt n\<rparr>
       | Some r \<Rightarrow> r\<lparr>so_lastObservedAt := max (so_firstObservedAt n) (so_lastObservedAt r),
           so_rawResponseDigest := (case so_rawResponseDigest n of None \<Rightarrow> so_rawResponseDigest r | Some d \<Rightarrow> Some d),
           so_normalizedIngestionVersion := so_normalizedIngestionVersion n\<rparr>)
     in Inr (row, s\<lparr>is_sources := AList.update k row (is_sources s)\<rparr>))"

definition observationKey :: "string \<Rightarrow> int \<Rightarrow> string \<times> int" where
  "observationKey h n = (js_lower h, n)"

definition findObservation :: "string \<Rightarrow> int \<Rightarrow> index_store \<Rightarrow> chain_observation option" where
  "findObservation h n s = map_of (is_observations s) (observationKey h n)"

definition appendObservation :: "chain_observation \<Rightarrow> chain_observation update" where
  "appendObservation n s = (let k = observationKey (co_transactionHash n) (co_logIndex n) in
     case map_of (is_observations s) k of
       None \<Rightarrow> Inr (n, s\<lparr>is_observations := AList.update k n (is_observations s)\<rparr>)
     | Some r \<Rightarrow> if co_blockHash r \<noteq> co_blockHash n \<or> co_identityKey r \<noteq> co_identityKey n \<or> co_eventType r \<noteq> co_eventType n
         \<or> co_payloadDigest r \<noteq> co_payloadDigest n \<or> co_observedFields r \<noteq> co_observedFields n
         then Inl (IngestionError DUPLICATE_CHAIN_LOG_CONFLICT) else Inr (r, s))"

definition on_registry :: "int \<Rightarrow> string \<Rightarrow> chain_observation \<Rightarrow> bool" where
  "on_registry chain registry ob \<longleftrightarrow> id_chainId (co_identity ob) = chain \<and> id_registry (co_identity ob) = registry"

definition position_le :: "chain_observation \<Rightarrow> chain_observation \<Rightarrow> int" where
  "position_le a b = (if co_blockNumber a - co_blockNumber b \<noteq> 0 then co_blockNumber a - co_blockNumber b else co_logIndex a - co_logIndex b)"

definition promotable :: "int \<Rightarrow> string \<Rightarrow> int \<Rightarrow> chain_observation \<Rightarrow> bool" where
  "promotable chain registry through ob \<longleftrightarrow> on_registry chain registry ob \<and> co_blockNumber ob \<le> through \<and> co_state ob = Provisional"

definition canonicalize :: "int \<Rightarrow> chain_observation \<Rightarrow> chain_observation" where
  "canonicalize now ob = ob\<lparr>co_state := Canonical, co_canonicalizedAt := Some now\<rparr>"

definition markCanonical :: "int \<Rightarrow> string \<Rightarrow> int \<Rightarrow> int \<Rightarrow> chain_observation list update" where
  "markCanonical chain input through now s =
     bindE (schema (normalizeEvmAddress input)) (\<lambda>registry.
     Inr (js_sort position_le (map (canonicalize now) (filter (promotable chain registry through) (map snd (is_observations s)))),
       s\<lparr>is_observations := map (\<lambda>(k, ob). (k, if promotable chain registry through ob then canonicalize now ob else ob)) (is_observations s)\<rparr>))"

definition listObservations :: "int \<Rightarrow> string \<Rightarrow> (chain_observation \<Rightarrow> bool) \<Rightarrow> index_store \<Rightarrow> ingestion_exn + chain_observation list" where
  "listObservations chain input p s = bindE (schema (normalizeEvmAddress input)) (\<lambda>registry.
     Inr (js_sort position_le (filter (\<lambda>ob. on_registry chain registry ob \<and> p ob) (map snd (is_observations s)))))"

text \<open>The elements in order of their first insertion into a \<open>Set\<close>.\<close>

definition js_set :: "'a list \<Rightarrow> 'a list" where
  "js_set xs = rev (remdups (rev xs))"

definition orphanable :: "int \<Rightarrow> string \<Rightarrow> int \<Rightarrow> chain_observation \<Rightarrow> bool" where
  "orphanable chain registry from ob \<longleftrightarrow> on_registry chain registry ob \<and> from \<le> co_blockNumber ob \<and> co_state ob \<noteq> Orphaned"

definition orphan :: "int \<Rightarrow> chain_observation \<Rightarrow> chain_observation" where
  "orphan now ob = ob\<lparr>co_state := Orphaned, co_orphanedAt := Some now\<rparr>"

definition markOrphaned :: "int \<Rightarrow> string \<Rightarrow> int \<Rightarrow> int \<Rightarrow> string list update" where
  "markOrphaned chain input from now s =
     bindE (schema (normalizeEvmAddress input)) (\<lambda>registry.
     Inr (js_set (map co_identityKey (filter (orphanable chain registry from) (map snd (is_observations s)))),
       s\<lparr>is_observations := map (\<lambda>(k, ob). (k, if orphanable chain registry from ob then orphan now ob else ob)) (is_observations s)\<rparr>))"

section \<open>Checkpoints\<close>

definition sameNullableHash :: "string option \<Rightarrow> string option \<Rightarrow> bool" where
  "sameNullableHash a b = (case (a, b) of (Some x, Some y) \<Rightarrow> js_lower x = js_lower y | _ \<Rightarrow> a = b)"

definition checkpointKey :: "int \<Rightarrow> string \<Rightarrow> ingestion_exn + (int \<times> string)" where
  "checkpointKey chain registry = bindE (schema (normalizeEvmAddress registry)) (\<lambda>g. Inr (chain, g))"

definition getCheckpoint :: "int \<Rightarrow> string \<Rightarrow> index_store \<Rightarrow> ingestion_exn + chain_checkpoint option" where
  "getCheckpoint chain registry s = bindE (checkpointKey chain registry) (\<lambda>k. Inr (map_of (is_checkpoints s) k))"

definition checkpoint_conflict :: "bool \<Rightarrow> ingestion_exn + unit" where
  "checkpoint_conflict b = failing INGESTION_CHECKPOINT_CONFLICT b"

definition first_checkpoint :: "chain_checkpoint \<Rightarrow> write_condition \<Rightarrow> ingestion_exn + unit" where
  "first_checkpoint n w =
     bindE (checkpoint_conflict (wc_expectedCursorVersion w \<noteq> None \<or> wc_expectedLastScannedBlockHash w \<noteq> None)) (\<lambda>_.
     checkpoint_conflict (cc_cursorVersion n < 1))"

definition rewind_matches :: "chain_checkpoint \<Rightarrow> chain_checkpoint \<Rightarrow> verified_rewind option \<Rightarrow> bool" where
  "rewind_matches old n rewind = (case rewind of None \<Rightarrow> False
     | Some v \<Rightarrow> vr_previousScannedBlock v = cc_lastScannedBlock old
         \<and> sameNullableHash (Some (vr_previousScannedBlockHash v)) (Some (cc_lastScannedBlockHash old))
         \<and> vr_commonAncestorBlock v = cc_lastScannedBlock n
         \<and> sameNullableHash (Some (vr_commonAncestorHash v)) (Some (cc_lastScannedBlockHash n)))"

definition next_checkpoint :: "chain_checkpoint \<Rightarrow> chain_checkpoint \<Rightarrow> write_condition \<Rightarrow> ingestion_exn + unit" where
  "next_checkpoint old n w =
     bindE (checkpoint_conflict (wc_expectedCursorVersion w \<noteq> Some (cc_cursorVersion old)
       \<or> \<not> sameNullableHash (wc_expectedLastScannedBlockHash w) (Some (cc_lastScannedBlockHash old)))) (\<lambda>_.
     bindE (checkpoint_conflict (cc_indexerVersion n = cc_indexerVersion old \<and> cc_confirmationThreshold n \<noteq> cc_confirmationThreshold old)) (\<lambda>_.
     bindE (checkpoint_conflict (cc_cursorVersion n \<noteq> cc_cursorVersion old + 1)) (\<lambda>_.
     bindE (checkpoint_conflict (cc_lastScannedBlock old < cc_lastScannedBlock n \<and> (wc_previousScannedBlock w \<noteq> Some (cc_lastScannedBlock old)
       \<or> \<not> sameNullableHash (wc_previousScannedBlockHash w) (Some (cc_lastScannedBlockHash old))))) (\<lambda>_.
     bindE (if cc_lastScannedBlock n < cc_lastScannedBlock old \<or> cc_lastFinalizedBlock n < cc_lastFinalizedBlock old
         then checkpoint_conflict (\<not> rewind_matches old n (wc_verifiedRewind w))
         else checkpoint_conflict (cc_lastScannedBlock n = cc_lastScannedBlock old
           \<and> \<not> sameNullableHash (Some (cc_lastScannedBlockHash n)) (Some (cc_lastScannedBlockHash old)))) (\<lambda>_.
     checkpoint_conflict (cc_lastFinalizedBlock n = cc_lastFinalizedBlock old
       \<and> \<not> sameNullableHash (Some (cc_lastFinalizedBlockHash n)) (Some (cc_lastFinalizedBlockHash old)) \<and> wc_verifiedRewind w = None))))))"

definition saveCheckpoint :: "chain_checkpoint \<Rightarrow> write_condition \<Rightarrow> chain_checkpoint update" where
  "saveCheckpoint input w s =
     bindE (normalizeRegistryCheckpoint input) (\<lambda>n.
     bindE (checkpointKey (cc_chainId n) (cc_identityRegistry n)) (\<lambda>k.
     bindE (case map_of (is_checkpoints s) k of None \<Rightarrow> first_checkpoint n w | Some old \<Rightarrow> next_checkpoint old n w) (\<lambda>_.
       Inr (n, s\<lparr>is_checkpoints := AList.update k n (is_checkpoints s)\<rparr>))))"

section \<open>Claims\<close>

definition getClaim :: "string \<Rightarrow> index_store \<Rightarrow> claim_row option" where
  "getClaim k s = map_of (is_claims s) k"

fun actor_kind :: "claim_actor \<Rightarrow> actor_type" where
  "actor_kind (OwnerActor w d) = ActorOwner"
| "actor_kind (OperatorActor p c) = ActorOperator"

definition claim_transition :: "claim_status \<Rightarrow> claim_status \<Rightarrow> ingestion_exn + unit" where
  "claim_transition a b = (case assertStateTransition (ClaimChange a b) of Inl _ \<Rightarrow> Inl StatusThrown | Inr _ \<Rightarrow> Inr ())"

definition claim_versioned :: "claim_row option \<Rightarrow> claim_mutation \<Rightarrow> bool" where
  "claim_versioned existing m \<longleftrightarrow> cm_expectedVersion m = map_option cl_version existing \<and> cm_expectedStatus m = map_option cl_status existing"

definition claim_event_fits :: "claim_mutation \<Rightarrow> bool" where
  "claim_event_fits m \<longleftrightarrow> (cl_status (cm_claim m) = Claimed \<longrightarrow> ce_eventType (cm_event m) = EventClaimed)
     \<and> (cl_status (cm_claim m) = ClaimStale \<longrightarrow> ce_eventType (cm_event m) \<in> {EventStale, EventRevoked})"

definition read_still :: "identity_row \<Rightarrow> read_reference \<Rightarrow> ingestion_exn + bool" where
  "read_still r e = bindE (identityRecordReadReference r) (\<lambda>a. Inr (case a of None \<Rightarrow> False
     | Some b \<Rightarrow> rr_observedBlock b = rr_observedBlock e \<and> rr_observedBlockHash b = js_lower (rr_observedBlockHash e)
         \<and> rr_readConsistency b = rr_readConsistency e))"

definition actor_allowed :: "string option \<Rightarrow> claim_mutation \<Rightarrow> ingestion_exn + unit" where
  "actor_allowed owner m = (case cm_actor m of
     OwnerActor wallet digest \<Rightarrow> (case owner of None \<Rightarrow> Inl (IngestionError CLAIM_OWNER_MISMATCH)
       | Some a \<Rightarrow> bindE (schema (normalizeEvmAddress wallet)) (\<lambda>w.
           failing CLAIM_OWNER_MISMATCH (w \<noteq> a \<or> cl_claimantAddress (cm_claim m) \<noteq> Some a \<or> cl_ownerAddressAtVerification (cm_claim m) \<noteq> Some a
             \<or> ce_proofDigest (cm_event m) \<noteq> Some digest \<or> ce_actorId (cm_event m) \<noteq> a)))
   | OperatorActor p scope \<Rightarrow> bindE (failing CLAIM_CONFLICT (ce_actorId (cm_event m) \<noteq> p \<or> js_trim p = [])) (\<lambda>_.
       failing CLAIM_CONFLICT (scope \<noteq> (if ce_eventType (cm_event m) = EventRevoked then ScopeRevoke else ScopeReconcile))))"

definition mutateClaim :: "claim_mutation \<Rightarrow> claim_row update" where
  "mutateClaim m s = (let existing = map_of (is_claims s) (cm_identityKey m); c = cm_claim m; e = cm_event m in
     bindE (failing CLAIM_CONFLICT (\<not> claim_versioned existing m)) (\<lambda>_.
     bindE (failing CLAIM_CONFLICT (cl_identityKey c \<noteq> cm_identityKey m \<or> ce_identityKey e \<noteq> cm_identityKey m
       \<or> cl_version c \<noteq> (case existing of None \<Rightarrow> 0 | Some r \<Rightarrow> cl_version r) + 1 \<or> js_trim (ce_actorId e) = []
       \<or> ce_actorType e \<noteq> actor_kind (cm_actor m))) (\<lambda>_.
     bindE (failing CLAIM_CONFLICT (case existing of None \<Rightarrow> False
       | Some r \<Rightarrow> cl_status r \<noteq> cl_status c \<and> \<not> canTransition (ClaimChange (cl_status r) (cl_status c)))) (\<lambda>_.
     bindE (failing CLAIM_CONFLICT (\<not> claim_event_fits m)) (\<lambda>_.
     case map_of (is_identities s) (cm_identityKey m) of None \<Rightarrow> Inl (IngestionError CLAIM_NOT_ACTIVE)
     | Some r \<Rightarrow>
         bindE (normalizeNullableAddress (cm_expectedOwnerAddress m)) (\<lambda>expected.
         bindE (failing CLAIM_OWNER_MISMATCH (expected \<noteq> ix_ownerAddress r)) (\<lambda>_.
         bindE (read_still r (cm_expectedCanonicalRead m)) (\<lambda>same.
         bindE (failing CLAIM_CONFLICT (\<not> same)) (\<lambda>_.
         bindE (actor_allowed (ix_ownerAddress r) m) (\<lambda>_.
           Inr (c, s\<lparr>is_claims := AList.update (cm_identityKey m) c (is_claims s),
             is_identities := AList.update (cm_identityKey m)
               (r\<lparr>ix_state := (ix_state r)\<lparr>claimStatus := cl_status c\<rparr>, ix_ownerClaimVerifiedAt := cl_verifiedAt c\<rparr>) (is_identities s),
             is_claimEvents := AList.update (cm_identityKey m)
               ((case map_of (is_claimEvents s) (cm_identityKey m) of None \<Rightarrow> [] | Some es \<Rightarrow> es) @ [e]) (is_claimEvents s)\<rparr>)))))))))))"

definition appendReconciliation :: "reconciliation_row \<Rightarrow> unit update" where
  "appendReconciliation r s = Inr ((), s\<lparr>is_reconciliations := is_reconciliations s @ [r]\<rparr>)"

end
