(* ===== verification/Index_Program.thy ===== *)
theory Index_Program
  imports Index_Repository
begin

text \<open>
  The transactions of packages/agent-ingestion. A job runs on the store of the repository and on the world behind the ports: the chain
  provider, the clock, the verifier of proofs. The repository runs one transaction at a time and restores the store when it throws.
  \<open>does I f Q\<close>: from a store that satisfies \<open>I\<close>, a result \<open>x\<close> of \<open>f\<close> and the store after it satisfy \<open>Q x\<close>, whatever the world.
\<close>

section \<open>Jobs\<close>

type_synonym ('s, 'a) job = "'s \<Rightarrow> (ingestion_exn + 'a) \<times> 's"

type_synonym ('e, 'a) index_job = "(index_store \<times> 'e, 'a) job"

type_synonym ('e, 'a) port = "'e \<Rightarrow> (ingestion_exn + 'a) \<times> 'e"

definition okJ :: "ingestion_exn + 'a \<Rightarrow> ('s, 'a) job" where
  "okJ r s = (r, s)"

definition returnJ :: "'a \<Rightarrow> ('s, 'a) job" where
  "returnJ x = okJ (Inr x)"

definition throwJ :: "ingestion_exn \<Rightarrow> ('s, 'a) job" where
  "throwJ e = okJ (Inl e)"

definition bindJ :: "('s, 'a) job \<Rightarrow> ('a \<Rightarrow> ('s, 'b) job) \<Rightarrow> ('s, 'b) job" where
  "bindJ f g s = (case f s of (Inl e, t) \<Rightarrow> (Inl e, t) | (Inr x, t) \<Rightarrow> g x t)"

definition catchJ :: "('s, 'a) job \<Rightarrow> ingestion_exn \<Rightarrow> ('s, 'a) job" where
  "catchJ f e s = (case f s of (Inl _, t) \<Rightarrow> (Inl e, t) | r \<Rightarrow> r)"

fun forJ :: "('a \<Rightarrow> ('s, 'b) job) \<Rightarrow> 'a list \<Rightarrow> ('s, 'b list) job" where
  "forJ f [] = returnJ []"
| "forJ f (x # xs) = bindJ (f x) (\<lambda>y. bindJ (forJ f xs) (\<lambda>ys. returnJ (y # ys)))"

definition unlessJ :: "ingestion_exn \<Rightarrow> bool \<Rightarrow> ('s, unit) job" where
  "unlessJ e b = okJ (if b then Inr () else Inl e)"

text \<open>A read and a change of the store, a call of a port, a transaction.\<close>

definition readJ :: "(index_store \<Rightarrow> ingestion_exn + 'a) \<Rightarrow> ('e, 'a) index_job" where
  "readJ f = (\<lambda>(s, e). (f s, (s, e)))"

definition repoJ :: "'a update \<Rightarrow> ('e, 'a) index_job" where
  "repoJ f = (\<lambda>(s, e). case f s of Inl x \<Rightarrow> (Inl x, (s, e)) | Inr (x, s') \<Rightarrow> (Inr x, (s', e)))"

definition portJ :: "('e, 'a) port \<Rightarrow> ('e, 'a) index_job" where
  "portJ f = (\<lambda>(s, e). case f e of (r, e') \<Rightarrow> (r, (s, e')))"

definition clockJ :: "('e \<Rightarrow> int \<times> 'e) \<Rightarrow> ('e, int) index_job" where
  "clockJ f = portJ (\<lambda>e. case f e of (t, e') \<Rightarrow> (Inr t, e'))"

definition withTransaction :: "('e, 'a) index_job \<Rightarrow> ('e, 'a) index_job" where
  "withTransaction f = (\<lambda>(s, e). case f (s, e) of (Inl x, (s', e')) \<Rightarrow> (Inl x, (s, e')) | r \<Rightarrow> r)"

section \<open>What a job that returns has done\<close>

definition does :: "(index_store \<Rightarrow> bool) \<Rightarrow> ('e, 'a) index_job \<Rightarrow> ('a \<Rightarrow> index_store \<Rightarrow> bool) \<Rightarrow> bool" where
  "does I f Q \<longleftrightarrow> (\<forall>s e x s' e'. I s \<longrightarrow> f (s, e) = (Inr x, (s', e')) \<longrightarrow> Q x s')"

lemma doesI: "(\<And>s e x s' e'. I s \<Longrightarrow> f (s, e) = (Inr x, (s', e')) \<Longrightarrow> Q x s') \<Longrightarrow> does I f Q"
  by (simp add: does_def)

lemma doesD: "does I f Q \<Longrightarrow> I s \<Longrightarrow> f (s, e) = (Inr x, (s', e')) \<Longrightarrow> Q x s'"
  unfolding does_def by blast

lemma does_pre: "does I f Q \<Longrightarrow> (\<And>s. J s \<Longrightarrow> I s) \<Longrightarrow> does J f Q"
  unfolding does_def by blast

lemma does_post: "does I f Q \<Longrightarrow> (\<And>x s. Q x s \<Longrightarrow> R x s) \<Longrightarrow> does I f R"
  unfolding does_def by blast

lemma bindJ_Inr: "bindJ f g w = (Inr y, u) \<longleftrightarrow> (\<exists>x v. f w = (Inr x, v) \<and> g x v = (Inr y, u))"
  by (auto simp: bindJ_def split: prod.splits sum.splits)

lemma does_call:
  assumes "does I f R" "\<And>x. does (R x) (g x) Q"
  shows "does I (bindJ f g) Q"
proof (rule doesI)
  fix s e y s' e'
  assume i: "I s" and b: "bindJ f g (s, e) = (Inr y, (s', e'))"
  then obtain x v where v: "f (s, e) = (Inr x, v)" "g x v = (Inr y, (s', e'))" by (auto simp: bindJ_Inr)
  obtain t u where t: "v = (t, u)" by (cases v)
  show "Q y s'" using doesD [OF assms(2) doesD [OF assms(1) i]] v unfolding t by blast
qed

lemma does_return: "(\<And>s. I s \<Longrightarrow> Q x s) \<Longrightarrow> does I (returnJ x) Q"
  by (auto simp: does_def returnJ_def okJ_def)

lemma does_throw: "does I (throwJ y) Q"
  by (simp add: does_def throwJ_def okJ_def)

lemma does_ok: "(\<And>x. r = Inr x \<Longrightarrow> does I (g x) Q) \<Longrightarrow> does I (bindJ (okJ r) g) Q"
  by (rule does_call [where R = "\<lambda>x s. I s \<and> r = Inr x"]) (auto simp: okJ_def intro!: doesI dest: doesD)

lemma does_unless: "(b \<Longrightarrow> does I (g ()) Q) \<Longrightarrow> does I (bindJ (unlessJ y b) g) Q"
  unfolding unlessJ_def by (rule does_ok) (simp split: if_splits)

lemma does_read: "(\<And>x. does (\<lambda>s. I s \<and> f s = Inr x) (g x) Q) \<Longrightarrow> does I (bindJ (readJ f) g) Q"
  by (rule does_call [where R = "\<lambda>x s. I s \<and> f s = Inr x"]) (auto simp: does_def readJ_def)

lemma does_port:
  assumes "\<And>x e e'. f e = (Inr x, e') \<Longrightarrow> does I (g x) Q"
  shows "does I (bindJ (portJ f) g) Q"
proof (rule does_call [where R = "\<lambda>x s. I s \<and> (\<exists>e e'. f e = (Inr x, e'))"])
  show "does I (portJ f) (\<lambda>x s. I s \<and> (\<exists>e e'. f e = (Inr x, e')))"
    by (rule doesI) (simp add: portJ_def split: prod.splits, blast)
  show "does (\<lambda>s. I s \<and> (\<exists>e e'. f e = (Inr x, e'))) (g x) Q" for x
    by (auto intro!: doesI dest: doesD [OF assms])
qed

lemma does_clock: "(\<And>x. does I (g x) Q) \<Longrightarrow> does I (bindJ (clockJ f) g) Q"
  unfolding clockJ_def by (rule does_port)

lemma does_repo: "(\<And>x. does (\<lambda>t. \<exists>s. I s \<and> f s = Inr (x, t)) (g x) Q) \<Longrightarrow> does I (bindJ (repoJ f) g) Q"
  by (rule does_call [where R = "\<lambda>x t. \<exists>s. I s \<and> f s = Inr (x, t)"]) (auto simp: does_def repoJ_def split: sum.splits)

lemma does_catch: "does I f Q \<Longrightarrow> does I (catchJ f y) Q"
  by (fastforce simp: does_def catchJ_def split: prod.splits sum.splits)

lemma does_transaction: "does I f Q \<Longrightarrow> does I (withTransaction f) Q"
  by (fastforce simp: does_def withTransaction_def split: prod.splits sum.splits)

lemma does_pair: "(\<And>x y. z = (x, y) \<Longrightarrow> does I (f x y) Q) \<Longrightarrow> does I (case z of (x, y) \<Rightarrow> f x y) Q"
  by (cases z) simp

lemma does_option: "(z = None \<Longrightarrow> does I f Q) \<Longrightarrow> (\<And>x. z = Some x \<Longrightarrow> does I (g x) Q) \<Longrightarrow> does I (case z of None \<Rightarrow> f | Some x \<Rightarrow> g x) Q"
  by (cases z) simp_all

lemma does_if: "(b \<Longrightarrow> does I f Q) \<Longrightarrow> (\<not> b \<Longrightarrow> does I g Q) \<Longrightarrow> does I (if b then f else g) Q"
  by simp

lemmas does_rules = does_ok does_unless does_read does_port does_clock does_repo

text \<open>A transaction that throws has changed nothing in the store.\<close>

lemma withTransaction_Inl: "withTransaction f (s, e) = (Inl x, (s', e')) \<Longrightarrow> s' = s"
  by (auto simp: withTransaction_def split: prod.splits sum.splits)

section \<open>Jobs that keep a property of the store\<close>

named_theorems keep_rules \<open>jobs that keep a property of the store\<close>

definition keeps :: "(index_store \<Rightarrow> bool) \<Rightarrow> ('e, 'a) index_job \<Rightarrow> bool" where
  "keeps I f \<longleftrightarrow> does I f (\<lambda>_. I)"

lemma keepsD: "keeps I f \<Longrightarrow> I s \<Longrightarrow> f (s, e) = (Inr x, (s', e')) \<Longrightarrow> I s'"
  unfolding keeps_def by (rule doesD)

lemma does_kept: "keeps I f \<Longrightarrow> (\<And>x. does I (g x) Q) \<Longrightarrow> does I (bindJ f g) Q"
  unfolding keeps_def by (rule does_call)

lemma keeps_bind [keep_rules]: "keeps I f \<Longrightarrow> (\<And>x. keeps I (g x)) \<Longrightarrow> keeps I (bindJ f g)"
  unfolding keeps_def by (rule does_call)

lemma keeps_simple [keep_rules]:
  "keeps I (okJ r)" "keeps I (returnJ x)" "keeps I (throwJ y)" "keeps I (unlessJ y b)" "keeps I (readJ p)" "keeps I (portJ q)" "keeps I (clockJ c)"
  by (auto simp: keeps_def does_def okJ_def returnJ_def throwJ_def unlessJ_def readJ_def portJ_def clockJ_def split: prod.splits)

lemma keeps_catch [keep_rules]: "keeps I f \<Longrightarrow> keeps I (catchJ f y)"
  unfolding keeps_def by (rule does_catch)

lemma keeps_for [keep_rules]: "(\<And>x. x \<in> set xs \<Longrightarrow> keeps I (f x)) \<Longrightarrow> keeps I (forJ f xs)"
  by (induction xs) (auto intro!: keep_rules)

lemma keeps_if [keep_rules]: "(b \<Longrightarrow> keeps I f) \<Longrightarrow> (\<not> b \<Longrightarrow> keeps I g) \<Longrightarrow> keeps I (if b then f else g)"
  by simp

lemma keeps_option [keep_rules]: "keeps I f \<Longrightarrow> (\<And>x. keeps I (g x)) \<Longrightarrow> keeps I (case z of None \<Rightarrow> f | Some x \<Rightarrow> g x)"
  by (cases z) simp_all

lemma keeps_pair [keep_rules]: "(\<And>x y. keeps I (f x y)) \<Longrightarrow> keeps I (case z of (x, y) \<Rightarrow> f x y)"
  by (cases z) simp

lemma keeps_let [keep_rules]: "(\<And>x. keeps I (f x)) \<Longrightarrow> keeps I (Let z f)"
  by simp

lemma keeps_repo: "(\<And>s x s'. I s \<Longrightarrow> f s = Inr (x, s') \<Longrightarrow> I s') \<Longrightarrow> keeps I (repoJ f)"
  by (auto simp: keeps_def does_def repoJ_def split: sum.splits)

lemma keeps_transaction [keep_rules]: "keeps I f \<Longrightarrow> keeps I (withTransaction f)"
  unfolding keeps_def by (rule does_transaction)

text \<open>Any transaction, returned or thrown.\<close>

lemma transaction_keeps:
  assumes "keeps I f" "I s" "withTransaction f (s, e) = (r, (s', e'))"
  shows "I s'"
proof (cases r)
  case (Inl x)
  then show ?thesis using assms withTransaction_Inl by fast
next
  case (Inr x)
  then show ?thesis using assms keepsD [OF keeps_transaction] by fast
qed

end
