(* ===== verification/Index_Sync.thy ===== *)
theory Index_Sync
  imports Index_Program
begin

text \<open>
  The registry part of packages/agent-ingestion/src/ingestion.ts: events become observations, observations up to the finalised block become
  canonical and set the state of their identities, a reorganisation rewinds the scan to a common ancestor, and a change of the owner
  makes a claim stale. The chain provider is a record of ports.
\<close>

section \<open>The chain provider and the options\<close>

record registry_query =
  rq_chainId :: int
  rq_identityRegistry :: string
  rq_fromBlock :: int
  rq_toBlock :: int
  rq_blockTag :: block_tag

record ancestor_query =
  aq_chainId :: int
  aq_identityRegistry :: string
  aq_lastKnownBlock :: int
  aq_lastKnownHash :: string

record 'e chain_reader =
  rd_latest :: "('e, int) port"
  rd_finalized :: "('e, block_tag) port option"
  rd_hash :: "int \<Rightarrow> ('e, string option) port"
  rd_events :: "registry_query \<Rightarrow> ('e, registry_event list) port"
  rd_identity :: "erc8004_identity \<Rightarrow> block_tag option \<Rightarrow> ('e, direct_state) port"
  rd_ancestor :: "ancestor_query \<Rightarrow> ('e, int) port"

record 'e index_host =
  ih_platform :: index_platform
  ih_date :: "'e \<Rightarrow> int \<times> 'e"
  ih_now :: "('e \<Rightarrow> int \<times> 'e) option"
  ih_internalOperatorId :: "string option"

datatype finality_mode = RpcFinalizedTag | ConfirmationDepth

record 'e sync_options =
  sy_chainId :: int
  sy_identityRegistry :: string
  sy_startBlock :: int
  sy_confirmationThreshold :: int
  sy_finalityMode :: "finality_mode option"
  sy_indexerVersion :: "string option"
  sy_normalizedIngestionVersion :: "string option"
  sy_maxBlockRange :: "int option"
  sy_maxEvents :: "int option"
  sy_now :: "('e \<Rightarrow> int \<times> 'e) option"

abbreviation ingestion_error :: "ingestion_code \<Rightarrow> ingestion_exn" where
  "ingestion_error c \<equiv> IngestionError c"

definition host_now :: "'e index_host \<Rightarrow> ('e, int) index_job" where
  "host_now h = clockJ (case ih_now h of None \<Rightarrow> ih_date h | Some c \<Rightarrow> c)"

definition dateJ :: "'e index_host \<Rightarrow> ('e, int) index_job" where
  "dateJ h = clockJ (ih_date h)"

definition key_of :: "erc8004_identity \<Rightarrow> ('s, string) job" where
  "key_of i = okJ (schema (erc8004IdentityKey i))"

section \<open>Trusted hashes\<close>

definition hash_agrees :: "string option \<Rightarrow> string \<Rightarrow> bool" where
  "hash_agrees trusted expected = (case trusted of None \<Rightarrow> False | Some h \<Rightarrow> transactionHashSchema h \<and> js_lower h = js_lower expected)"

fun assertTrustedObservationHashes :: "'e chain_reader \<Rightarrow> (int \<times> string option) list \<Rightarrow> chain_observation list \<Rightarrow> ('e, unit) index_job" where
  "assertTrustedObservationHashes rd checked [] = returnJ ()"
| "assertTrustedObservationHashes rd checked (ob # obs) =
     bindJ (case map_of checked (co_blockNumber ob) of Some t \<Rightarrow> returnJ t
       | None \<Rightarrow> catchJ (portJ (rd_hash rd (co_blockNumber ob))) (ingestion_error REORG_RECONCILIATION_REQUIRED)) (\<lambda>trusted.
     bindJ (unlessJ (ingestion_error REORG_RECONCILIATION_REQUIRED) (hash_agrees trusted (co_blockHash ob))) (\<lambda>_.
     assertTrustedObservationHashes rd ((co_blockNumber ob, trusted) # checked) obs))"

definition assertTrustedBlockHash :: "'e chain_reader \<Rightarrow> int \<Rightarrow> string \<Rightarrow> ('e, unit) index_job" where
  "assertTrustedBlockHash rd block expected =
     bindJ (catchJ (portJ (rd_hash rd block)) (ingestion_error REORG_RECONCILIATION_REQUIRED)) (\<lambda>trusted.
     unlessJ (ingestion_error REORG_RECONCILIATION_REQUIRED) (hash_agrees trusted expected))"

section \<open>Stale claims\<close>

definition requireIdentityReadReference :: "identity_row \<Rightarrow> ingestion_exn + read_reference" where
  "requireIdentityReadReference r = bindE (identityRecordReadReference r) (\<lambda>x. case x of None \<Rightarrow> Inl (ingestion_error REPOSITORY_FAILURE) | Some y \<Rightarrow> Inr y)"

definition indexer_operator :: "'e index_host \<Rightarrow> string" where
  "indexer_operator h = (case ih_internalOperatorId h of None \<Rightarrow> ''identity-indexer''
     | Some p \<Rightarrow> if js_trim p = [] then ''identity-indexer'' else js_trim p)"

definition stale_mutation :: "string \<Rightarrow> claim_row \<Rightarrow> int \<Rightarrow> claim_reason \<Rightarrow> string option \<Rightarrow> string option \<Rightarrow> string option \<Rightarrow> read_reference
    \<Rightarrow> claim_event_type \<Rightarrow> string \<Rightarrow> operator_scope \<Rightarrow> string \<Rightarrow> claim_mutation" where
  "stale_mutation k c now reason expected observed wallet ref kind operator scope message =
     \<lparr>cm_identityKey = k, cm_expectedVersion = Some (cl_version c), cm_expectedStatus = Some (cl_status c), cm_expectedOwnerAddress = expected,
       cm_expectedCanonicalRead = ref,
       cm_claim = c\<lparr>cl_version := cl_version c + 1, cl_status := ClaimStale, cl_staleAt := Some now, cl_lastReason := Some reason\<rparr>,
       cm_event = \<lparr>ce_identityKey = k, ce_eventType = kind, ce_claimantAddress = cl_claimantAddress c, ce_observedOwnerAddress = observed,
         ce_observedAgentWallet = wallet, ce_proofDigest = None, ce_actorType = ActorOperator, ce_actorId = operator, ce_reason = message,
         ce_occurredAt = now\<rparr>,
       cm_actor = OperatorActor operator scope\<rparr>"

definition markClaimStale :: "'e index_host \<Rightarrow> identity_row \<Rightarrow> claim_reason \<Rightarrow> string \<Rightarrow> ('e, unit) index_job" where
  "markClaimStale h r reason message =
     bindJ (key_of (ix_identity r)) (\<lambda>k.
     bindJ (readJ (\<lambda>s. Inr (getClaim k s))) (\<lambda>existing.
     case existing of None \<Rightarrow> returnJ ()
     | Some c \<Rightarrow> if cl_status c \<noteq> Claimed then returnJ ()
       else bindJ (okJ (claim_transition (cl_status c) ClaimStale)) (\<lambda>_.
         bindJ (host_now h) (\<lambda>now.
         bindJ (okJ (requireIdentityReadReference r)) (\<lambda>ref.
         bindJ (repoJ (mutateClaim (stale_mutation k c now reason (ix_ownerAddress r) (ix_ownerAddress r) (ix_agentWallet r) ref
           (if reason = ReasonRevoked then EventRevoked else EventStale) (indexer_operator h) ScopeReconcile message))) (\<lambda>_.
           returnJ ()))))))"

text \<open>
  The step that canonicalisation, rereads, reconciliation and rewinds share: apply a state and, when \<open>previous\<close> was claimed and its owner is
  not the new one, make the claim stale.
\<close>

definition apply_and_reconcile :: "'e index_host \<Rightarrow> identity_row option \<Rightarrow> erc8004_identity \<Rightarrow> direct_state \<Rightarrow> claim_reason \<Rightarrow> string
    \<Rightarrow> ('e, identity_row) index_job" where
  "apply_and_reconcile h previous i d reason message =
     bindJ (repoJ (applyCanonicalState i d)) (\<lambda>r.
     bindJ (case previous of None \<Rightarrow> returnJ ()
       | Some p \<Rightarrow> if ix_ownerAddress p \<noteq> ix_ownerAddress r \<and> claimStatus (ix_state p) = Claimed then markClaimStale h r reason message
           else returnJ ()) (\<lambda>_. returnJ r))"

section \<open>Ingestion of events\<close>

definition registrySourceReference :: "chain_observation \<Rightarrow> string" where
  "registrySourceReference ob = co_transactionHash ob @ '':'' @ show_int (co_logIndex ob)"

definition ingest_event :: "'e index_host \<Rightarrow> int \<Rightarrow> string \<Rightarrow> string \<Rightarrow> registry_event \<Rightarrow> ('e, chain_observation \<times> bool) index_job" where
  "ingest_event h chain registry version ev =
     bindJ (dateJ h) (\<lambda>t. bindJ (okJ (normalizeRegistryEvent (ih_platform h) t ev)) (\<lambda>n.
     bindJ (unlessJ (ingestion_error IDENTITY_CONFLICT) (id_chainId (ne_identity n) = chain \<and> id_registry (ne_identity n) = registry)) (\<lambda>_.
     bindJ (dateJ h) (\<lambda>u. bindJ (okJ (registryEventToObservation (ih_platform h) u ev)) (\<lambda>ob.
     bindJ (readJ (\<lambda>s. Inr (findObservation (co_transactionHash ob) (co_logIndex ob) s))) (\<lambda>previous.
     bindJ (repoJ (upsertIdentity (co_identity ob) Discovered None)) (\<lambda>_.
     bindJ (repoJ (appendObservation ob)) (\<lambda>stored.
     bindJ (repoJ (recordSource \<lparr>so_identityKey = co_identityKey ob, so_source = ''registry_event'', so_sourceReference = registrySourceReference ob,
       so_firstObservedAt = co_firstObservedAt ob, so_lastObservedAt = co_firstObservedAt ob, so_rawResponseDigest = co_payloadDigest ob,
       so_normalizedIngestionVersion = version\<rparr>)) (\<lambda>_.
     returnJ (stored, previous \<noteq> None))))))))))"

text \<open>The observations and the number of duplicates.\<close>

definition ingestRegistryEventsInTransaction :: "'e index_host \<Rightarrow> registry_event list \<Rightarrow> int \<Rightarrow> string \<Rightarrow> string
    \<Rightarrow> ('e, chain_observation list \<times> int) index_job" where
  "ingestRegistryEventsInTransaction h events chain input version =
     bindJ (okJ (schema (normalizeEvmAddress input))) (\<lambda>registry.
     bindJ (forJ (ingest_event h chain registry version) events) (\<lambda>rs.
     returnJ (map fst rs, int (length (filter snd rs)))))"

definition ingestRegistryEvents :: "'e index_host \<Rightarrow> registry_event list \<Rightarrow> int \<Rightarrow> string \<Rightarrow> string option
    \<Rightarrow> ('e, chain_observation list \<times> int) index_job" where
  "ingestRegistryEvents h events chain input version =
     withTransaction (ingestRegistryEventsInTransaction h events chain input (case version of None \<Rightarrow> ''registry-event-v1'' | Some v \<Rightarrow> v))"

section \<open>Promotion of observations\<close>

definition compare_position :: "index_platform \<Rightarrow> int \<times> int \<times> string \<times> string \<Rightarrow> int \<times> int \<times> string \<times> string \<Rightarrow> int" where
  "compare_position px a b = (case (a, b) of ((n, l, h, k), (n', l', h', k')) \<Rightarrow>
     if n \<noteq> n' then n - n' else if l \<noteq> l' then l - l'
     else if ixp_locale_compare px h h' \<noteq> 0 then ixp_locale_compare px h h' else ixp_locale_compare px k k')"

definition compareObservationPosition :: "index_platform \<Rightarrow> chain_observation \<Rightarrow> chain_observation \<Rightarrow> int" where
  "compareObservationPosition px a b = compare_position px
     (co_blockNumber a, co_logIndex a, co_transactionHash a, co_identityKey a) (co_blockNumber b, co_logIndex b, co_transactionHash b, co_identityKey b)"

text \<open>The events that are compared have normalised, so that their identities have keys.\<close>

definition event_key :: "registry_event \<Rightarrow> string" where
  "event_key e = (case erc8004IdentityKey (rx_identity e) of Inl _ \<Rightarrow> [] | Inr k \<Rightarrow> k)"

definition compareRegistryEventPosition :: "index_platform \<Rightarrow> registry_event \<Rightarrow> registry_event \<Rightarrow> int" where
  "compareRegistryEventPosition px a b = compare_position px
     (rx_blockNumber a, rx_logIndex a, rx_transactionHash a, event_key a) (rx_blockNumber b, rx_logIndex b, rx_transactionHash b, event_key b)"

definition observed :: "chain_observation \<Rightarrow> direct_field \<Rightarrow> bool" where
  "observed ob f \<longleftrightarrow> f \<in> set (co_observedFields ob)"

definition observed_value :: "chain_observation \<Rightarrow> direct_field \<Rightarrow> 'a option \<Rightarrow> identity_row option \<Rightarrow> (identity_row \<Rightarrow> 'a option) \<Rightarrow> 'a option" where
  "observed_value ob f new previous old = (if observed ob f then new else Option.bind previous old)"

text \<open>The state that an observation gives its identity: what it observed, and what was stored for the rest.\<close>

definition promoted_state :: "chain_observation \<Rightarrow> identity_row option \<Rightarrow> direct_state" where
  "promoted_state ob previous =
     \<lparr>ds_ownerAddress = observed_value ob FieldOwner (co_ownerAddress ob) previous ix_ownerAddress,
       ds_agentWallet = observed_value ob FieldAgentWallet (co_agentWallet ob) previous ix_agentWallet,
       ds_agentUri = observed_value ob FieldAgentUri (co_agentUri ob) previous ix_agentUri,
       ds_contentDigest = observed_value ob FieldContentDigest (co_contentDigest ob) previous ix_contentDigest,
       ds_observedBlock = co_blockNumber ob, ds_observedBlockHash = co_blockHash ob, ds_readConsistency = ReadFinalized,
       ds_ownerObservedBlock = observed_value ob FieldOwner (Some (co_blockNumber ob)) previous ix_ownerObservedBlock,
       ds_agentWalletObservedBlock = observed_value ob FieldAgentWallet (Some (co_blockNumber ob)) previous ix_agentWalletObservedBlock,
       ds_agentUriObservedBlock = observed_value ob FieldAgentUri (Some (co_blockNumber ob)) previous ix_agentUriObservedBlock,
       ds_contentDigestObservedBlock = observed_value ob FieldContentDigest (Some (co_blockNumber ob)) previous ix_contentDigestObservedBlock\<rparr>"

definition promote_observation :: "'e index_host \<Rightarrow> chain_observation \<Rightarrow> ('e, identity_row) index_job" where
  "promote_observation h ob =
     bindJ (readJ (findIdentity (co_identity ob))) (\<lambda>previous.
     apply_and_reconcile h previous (co_identity ob) (promoted_state ob previous) ReasonOwnerTransfer
       ''Canonical registry ownership changed; prior claim is stale.'')"

definition canonicalizeThroughInTransaction :: "'e index_host \<Rightarrow> 'e chain_reader \<Rightarrow> int \<Rightarrow> string \<Rightarrow> int \<Rightarrow> block_tag \<Rightarrow> int option
    \<Rightarrow> ('e, chain_observation list) index_job" where
  "canonicalizeThroughInTransaction h rd chain input through finalized at =
     bindJ (okJ (schema (normalizeEvmAddress input))) (\<lambda>registry.
     bindJ (okJ (normalizeChainBlockTag finalized)) (\<lambda>tag.
     bindJ (unlessJ (ingestion_error INGESTION_INPUT_INVALID) (safe_nat through \<and> bt_blockNumber tag = through)) (\<lambda>_.
     bindJ (assertTrustedBlockHash rd (bt_blockNumber tag) (bt_blockHash tag)) (\<lambda>_.
     bindJ (readJ (listObservations chain registry (\<lambda>ob. co_blockNumber ob \<le> through \<and> co_state ob = Provisional))) (\<lambda>candidates.
     bindJ (assertTrustedObservationHashes rd [] candidates) (\<lambda>_.
     bindJ (case at of None \<Rightarrow> host_now h | Some t \<Rightarrow> returnJ t) (\<lambda>now.
     bindJ (repoJ (markCanonical chain registry through now)) (\<lambda>promoted.
     bindJ (assertTrustedBlockHash rd (bt_blockNumber tag) (bt_blockHash tag)) (\<lambda>_.
     bindJ (assertTrustedObservationHashes rd [] promoted) (\<lambda>_.
     bindJ (returnJ (js_sort (compareObservationPosition (ih_platform h)) promoted)) (\<lambda>ordered.
     bindJ (forJ (promote_observation h) ordered) (\<lambda>_.
     returnJ ordered))))))))))))"

definition canonicalizeThrough :: "'e index_host \<Rightarrow> 'e chain_reader \<Rightarrow> int \<Rightarrow> string \<Rightarrow> int \<Rightarrow> block_tag \<Rightarrow> int option
    \<Rightarrow> ('e, chain_observation list) index_job" where
  "canonicalizeThrough h rd chain input through finalized at =
     withTransaction (canonicalizeThroughInTransaction h rd chain input through finalized at)"

section \<open>Rereads\<close>

definition reread_identity :: "'e index_host \<Rightarrow> 'e chain_reader \<Rightarrow> string list \<Rightarrow> block_tag \<Rightarrow> identity_row \<Rightarrow> ('e, unit) index_job" where
  "reread_identity h rd affected tag r =
     bindJ (key_of (ix_identity r)) (\<lambda>k. if k \<notin> set affected then returnJ () else
     bindJ (portJ (rd_identity rd (ix_identity r) (Some tag))) (\<lambda>d.
     bindJ (okJ (assertIdentityReadProvenance d (Some \<lparr>rr_observedBlock = bt_blockNumber tag, rr_observedBlockHash = bt_blockHash tag,
       rr_readConsistency = ReadFinalized\<rparr>))) (\<lambda>_.
     bindJ (readJ (findIdentity (ix_identity r))) (\<lambda>previous.
     bindJ (apply_and_reconcile h previous (ix_identity r) d ReasonReconciliation
       ''The finalized direct registry reread changed canonical ownership.'') (\<lambda>_. returnJ ())))))"

definition rereadFinalizedIdentitiesInTransaction :: "'e index_host \<Rightarrow> 'e chain_reader \<Rightarrow> int \<Rightarrow> string \<Rightarrow> string list \<Rightarrow> block_tag
    \<Rightarrow> ('e, unit) index_job" where
  "rereadFinalizedIdentitiesInTransaction h rd chain registry affected tag =
     bindJ (readJ (listIdentities (ih_platform h) (Some (chain, registry)))) (\<lambda>rs.
     bindJ (forJ (reread_identity h rd affected tag) rs) (\<lambda>_. returnJ ()))"

definition reconcile_commit :: "'e index_host \<Rightarrow> erc8004_identity \<Rightarrow> direct_state \<Rightarrow> string \<Rightarrow> ('e, identity_row) index_job" where
  "reconcile_commit h i d reason = bindJ (readJ (findIdentity i)) (\<lambda>previous. apply_and_reconcile h previous i d ReasonReconciliation reason)"

definition reconcileIdentity :: "'e index_host \<Rightarrow> 'e chain_reader \<Rightarrow> erc8004_identity \<Rightarrow> string \<Rightarrow> ('e, identity_row) index_job" where
  "reconcileIdentity h rd input reason =
     bindJ (okJ (schema (normalizeErc8004Identity input))) (\<lambda>i.
     bindJ (portJ (rd_identity rd i None)) (\<lambda>d.
     bindJ (okJ (assertIdentityReadProvenance d None)) (\<lambda>_.
     withTransaction (reconcile_commit h i d reason))))"

section \<open>Reorganisations\<close>

record rewind_result =
  rw_checkpoint :: chain_checkpoint
  rw_orphanedObservationCount :: int
  rw_affectedIdentityKeys :: "string list"
  rw_verifiedRewind :: verified_rewind

fun find_keyed :: "string \<Rightarrow> identity_row list \<Rightarrow> ingestion_exn + identity_row option" where
  "find_keyed k [] = Inr None"
| "find_keyed k (r # rs) = bindE (schema (erc8004IdentityKey (ix_identity r))) (\<lambda>j. if j = k then Inr (Some r) else find_keyed k rs)"

definition reread_orphaned :: "'e index_host \<Rightarrow> 'e chain_reader \<Rightarrow> int \<Rightarrow> string \<Rightarrow> string \<Rightarrow> ('e, unit) index_job" where
  "reread_orphaned h rd block hash k =
     bindJ (readJ (\<lambda>s. bindE (listIdentities (ih_platform h) None s) (find_keyed k))) (\<lambda>found.
     case found of None \<Rightarrow> returnJ ()
     | Some r \<Rightarrow>
         bindJ (portJ (rd_identity rd (ix_identity r) (Some \<lparr>bt_blockNumber = block, bt_blockHash = hash\<rparr>))) (\<lambda>d.
         bindJ (okJ (assertIdentityReadProvenance d (Some \<lparr>rr_observedBlock = block, rr_observedBlockHash = hash,
           rr_readConsistency = ds_readConsistency d\<rparr>))) (\<lambda>_.
         bindJ (apply_and_reconcile h (Some r) (ix_identity r) d ReasonReconciliation ''Canonical state was reread after a reorg.'') (\<lambda>_.
         returnJ ()))))"

definition ancestor_hash :: "'e chain_reader \<Rightarrow> chain_checkpoint \<Rightarrow> ('e, int \<times> string) index_job" where
  "ancestor_hash rd c =
     bindJ (portJ (rd_ancestor rd \<lparr>aq_chainId = cc_chainId c, aq_identityRegistry = cc_identityRegistry c,
       aq_lastKnownBlock = cc_lastScannedBlock c, aq_lastKnownHash = cc_lastScannedBlockHash c\<rparr>)) (\<lambda>n.
     bindJ (unlessJ (ingestion_error REORG_RECONCILIATION_REQUIRED) (safe_nat n \<and> n < cc_lastScannedBlock c)) (\<lambda>_.
     bindJ (unlessJ (ingestion_error REORG_RECONCILIATION_REQUIRED) (cc_lastFinalizedBlock c \<le> n)) (\<lambda>_.
     bindJ (portJ (rd_hash rd n)) (\<lambda>found.
     case found of None \<Rightarrow> throwJ (ingestion_error REORG_RECONCILIATION_REQUIRED)
     | Some x \<Rightarrow> bindJ (unlessJ (ingestion_error REORG_RECONCILIATION_REQUIRED)
         (\<not> (n = cc_lastFinalizedBlock c \<and> js_lower x \<noteq> js_lower (cc_lastFinalizedBlockHash c)))) (\<lambda>_. returnJ (n, x))))))"

definition rewindAndReconcile :: "'e index_host \<Rightarrow> 'e chain_reader \<Rightarrow> chain_checkpoint \<Rightarrow> ('e, int) index_job \<Rightarrow> ('e, rewind_result) index_job" where
  "rewindAndReconcile h rd c now =
     bindJ now (\<lambda>started.
     bindJ (ancestor_hash rd c) (\<lambda>(n, x).
     bindJ (repoJ (markOrphaned (cc_chainId c) (cc_identityRegistry c) (n + 1) started)) (\<lambda>affected.
     bindJ (forJ (reread_orphaned h rd n x) affected) (\<lambda>_.
     bindJ now (\<lambda>finished.
     bindJ (repoJ (appendReconciliation \<lparr>re_chainId = cc_chainId c, re_identityRegistry = cc_identityRegistry c,
       re_previousScannedBlock = cc_lastScannedBlock c, re_commonAncestorBlock = n, re_affectedIdentityKeys = sort (remdups affected),
       re_startedAt = started, re_finishedAt = Some finished\<rparr>)) (\<lambda>_.
     bindJ (readJ (listObservations (cc_chainId c) (cc_identityRegistry c) (\<lambda>ob. n + 1 \<le> co_blockNumber ob))) (\<lambda>obs.
     returnJ \<lparr>rw_checkpoint = c\<lparr>cc_lastScannedBlock := n, cc_lastScannedBlockHash := js_lower x, cc_cursorVersion := cc_cursorVersion c + 1,
         cc_lastReconciliationAt := Some started\<rparr>,
       rw_orphanedObservationCount = int (length (filter (\<lambda>ob. co_state ob = Orphaned) obs)),
       rw_affectedIdentityKeys = sort (remdups affected),
       rw_verifiedRewind = \<lparr>vr_previousScannedBlock = cc_lastScannedBlock c, vr_previousScannedBlockHash = cc_lastScannedBlockHash c,
         vr_commonAncestorBlock = n, vr_commonAncestorHash = js_lower x\<rparr>\<rparr>)))))))"

section \<open>Synchronisation\<close>

record sync_result =
  sn_scannedFromBlock :: "int option"
  sn_scannedThroughBlock :: "int option"
  sn_insertedObservationCount :: int
  sn_promotedObservationCount :: int
  sn_orphanedObservationCount :: int
  sn_affectedIdentityKeys :: "string list"
  sn_reorgRewound :: bool
  sn_checkpoint :: "chain_checkpoint option"

definition boundedRegistrySyncLimit :: "int option \<Rightarrow> int \<Rightarrow> int \<Rightarrow> ingestion_exn + int" where
  "boundedRegistrySyncLimit v fallback maximum = (let n = (case v of None \<Rightarrow> fallback | Some x \<Rightarrow> x) in
     if \<not> isSafeInteger n \<or> n < 1 \<or> maximum < n then Inl (ingestion_error REGISTRY_SYNC_CONFIG_INVALID) else Inr n)"

definition normalizeIndexerVersion :: "string option \<Rightarrow> ingestion_exn + string" where
  "normalizeIndexerVersion v = (let t = js_trim (case v of None \<Rightarrow> ''registry-indexer-v1'' | Some x \<Rightarrow> x) in
     if t = [] \<or> 64 < length t then Inl (ingestion_error INGESTION_INPUT_INVALID) else Inr t)"

definition finality_of :: "'e sync_options \<Rightarrow> finality_mode" where
  "finality_of o' = (case sy_finalityMode o' of None \<Rightarrow> ConfirmationDepth | Some m \<Rightarrow> m)"

text \<open>The normalised registry, the bounds on blocks and on events, and the version of the indexer.\<close>

definition sync_settings :: "'e sync_options \<Rightarrow> ingestion_exn + (string \<times> int \<times> int \<times> string)" where
  "sync_settings o' =
     bindE (schema (normalizeEvmAddress (sy_identityRegistry o'))) (\<lambda>registry.
     bindE (failing REGISTRY_SYNC_CONFIG_INVALID (\<not> safe_nat (sy_chainId o') \<or> sy_chainId o' = 0)) (\<lambda>_.
     bindE (failing REGISTRY_SYNC_CONFIG_INVALID (\<not> safe_nat (sy_startBlock o'))) (\<lambda>_.
     bindE (failing INGESTION_INPUT_INVALID (\<not> safe_nat (sy_confirmationThreshold o')
       \<or> finality_of o' = RpcFinalizedTag \<and> sy_confirmationThreshold o' \<noteq> 0)) (\<lambda>_.
     bindE (boundedRegistrySyncLimit (sy_maxBlockRange o') 100000 100000) (\<lambda>blocks.
     bindE (boundedRegistrySyncLimit (sy_maxEvents o') 10000 100000) (\<lambda>events.
     bindE (normalizeIndexerVersion (sy_indexerVersion o')) (\<lambda>version.
       Inr (registry, blocks, events, version))))))))"

text \<open>The head of the chain and the finalised tag.\<close>

definition chain_head :: "'e chain_reader \<Rightarrow> 'e sync_options \<Rightarrow> ('e, int \<times> block_tag option) index_job" where
  "chain_head rd o' =
     bindJ (portJ (rd_latest rd)) (\<lambda>latest.
     bindJ (unlessJ (ingestion_error INGESTION_INPUT_INVALID) (safe_nat latest)) (\<lambda>_.
     if finality_of o' = RpcFinalizedTag then
       (case rd_finalized rd of None \<Rightarrow> throwJ (ingestion_error REGISTRY_FINALITY_UNRESOLVED)
        | Some f \<Rightarrow> bindJ (portJ f) (\<lambda>t. bindJ (okJ (normalizeChainBlockTag t)) (\<lambda>tag.
            bindJ (unlessJ (ingestion_error REORG_RECONCILIATION_REQUIRED) (bt_blockNumber tag \<le> latest)) (\<lambda>_. returnJ (latest, Some tag)))))
     else returnJ (latest, None)))"

definition finalized_block :: "'e sync_options \<Rightarrow> int \<Rightarrow> block_tag option \<Rightarrow> int" where
  "finalized_block o' latest tag = (case tag of None \<Rightarrow> max 0 (latest - sy_confirmationThreshold o') | Some t \<Rightarrow> bt_blockNumber t)"

definition sync_clock :: "'e index_host \<Rightarrow> 'e sync_options \<Rightarrow> ('e, int) index_job" where
  "sync_clock h o' = (case sy_now o' of None \<Rightarrow> host_now h | Some c \<Rightarrow> clockJ c)"

definition rewind_if_moved :: "'e index_host \<Rightarrow> 'e chain_reader \<Rightarrow> 'e sync_options \<Rightarrow> chain_checkpoint option
    \<Rightarrow> ('e, rewind_result option) index_job" where
  "rewind_if_moved h rd o' cp = (case cp of None \<Rightarrow> returnJ None
     | Some c \<Rightarrow> if cc_lastScannedBlock c \<le> 0 then returnJ None
         else bindJ (portJ (rd_hash rd (cc_lastScannedBlock c))) (\<lambda>current.
           if (case current of None \<Rightarrow> True | Some x \<Rightarrow> js_lower x \<noteq> js_lower (cc_lastScannedBlockHash c))
           then bindJ (rewindAndReconcile h rd c (sync_clock h o')) (\<lambda>w. returnJ (Some w)) else returnJ None))"

text \<open>One bounded window of blocks: the observations it gave and the number of those that were stored before.\<close>

definition scan_window :: "'e index_host \<Rightarrow> 'e chain_reader \<Rightarrow> 'e sync_options \<Rightarrow> string \<Rightarrow> int \<Rightarrow> int \<Rightarrow> block_tag option \<Rightarrow> int \<Rightarrow> int
    \<Rightarrow> ('e, chain_observation list \<times> int) index_job" where
  "scan_window h rd o' registry maxEvents latest tag from through =
     bindJ (case tag of Some t \<Rightarrow> returnJ (Some (bt_blockHash t)) | None \<Rightarrow> portJ (rd_hash rd latest)) (\<lambda>found.
     case found of None \<Rightarrow> throwJ (ingestion_error REORG_RECONCILIATION_REQUIRED)
     | Some x \<Rightarrow>
     bindJ (portJ (rd_events rd \<lparr>rq_chainId = sy_chainId o', rq_identityRegistry = registry, rq_fromBlock = from, rq_toBlock = through,
       rq_blockTag = (case tag of Some t \<Rightarrow> t | None \<Rightarrow> \<lparr>bt_blockNumber = latest, bt_blockHash = x\<rparr>)\<rparr>)) (\<lambda>events.
     bindJ (unlessJ (ingestion_error REGISTRY_SYNC_EVENT_LIMIT_EXCEEDED) (int (length events) \<le> maxEvents)) (\<lambda>_.
     bindJ (unlessJ (ingestion_error INGESTION_INPUT_INVALID) (list_all (\<lambda>e. from \<le> rx_blockNumber e \<and> rx_blockNumber e \<le> through) events)) (\<lambda>_.
     bindJ (forJ (\<lambda>e. bindJ (dateJ h) (\<lambda>t. bindJ (okJ (normalizeRegistryEvent (ih_platform h) t e)) (\<lambda>_.
       bindJ (dateJ h) (\<lambda>u. okJ (registryEventToObservation (ih_platform h) u e))))) events) (\<lambda>normalized.
     bindJ (assertTrustedObservationHashes rd [] normalized) (\<lambda>_.
     ingestRegistryEventsInTransaction h (js_sort (compareRegistryEventPosition (ih_platform h)) events) (sy_chainId o') registry
       (case sy_normalizedIngestionVersion o' of None \<Rightarrow> ''registry-event-v1'' | Some v \<Rightarrow> v)))))))"

text \<open>The finality, canonicalisation and checkpoint after a scan through \<open>scanned\<close>: the promoted observations and the new checkpoint.\<close>

definition advance_finality :: "'e index_host \<Rightarrow> 'e chain_reader \<Rightarrow> 'e sync_options \<Rightarrow> string \<Rightarrow> string \<Rightarrow> int \<Rightarrow> block_tag option
    \<Rightarrow> chain_checkpoint option \<Rightarrow> chain_checkpoint option \<Rightarrow> verified_rewind option \<Rightarrow> int \<Rightarrow> string list
    \<Rightarrow> ('e, chain_observation list \<times> chain_checkpoint) index_job" where
  "advance_finality h rd o' registry version finalized tag persisted cp rewind scanned affected =
     (let finality = min finalized scanned in
     bindJ (unlessJ (ingestion_error REORG_RECONCILIATION_REQUIRED) (case persisted of None \<Rightarrow> True | Some c \<Rightarrow> cc_lastFinalizedBlock c \<le> finality)) (\<lambda>_.
     bindJ (portJ (rd_hash rd scanned)) (\<lambda>scannedHash.
     bindJ (portJ (rd_hash rd finality)) (\<lambda>finalizedHash.
     case (scannedHash, finalizedHash) of
       (Some sh, Some fh) \<Rightarrow>
         bindJ (unlessJ (ingestion_error REORG_RECONCILIATION_REQUIRED)
           (case tag of None \<Rightarrow> True | Some t \<Rightarrow> \<not> (finality = bt_blockNumber t \<and> bt_blockHash t \<noteq> fh))) (\<lambda>_.
         bindJ (sync_clock h o') (\<lambda>now.
         bindJ (canonicalizeThroughInTransaction h rd (sy_chainId o') registry finality \<lparr>bt_blockNumber = finality, bt_blockHash = fh\<rparr> (Some now)) (\<lambda>promoted.
         bindJ (case tag of None \<Rightarrow> returnJ ()
           | Some t \<Rightarrow> rereadFinalizedIdentitiesInTransaction h rd (sy_chainId o') registry affected t) (\<lambda>_.
         bindJ (okJ (normalizeRegistryCheckpoint \<lparr>cc_chainId = sy_chainId o', cc_identityRegistry = registry, cc_indexerVersion = version,
           cc_lastScannedBlock = scanned, cc_lastScannedBlockHash = sh, cc_lastFinalizedBlock = finality, cc_lastFinalizedBlockHash = fh,
           cc_confirmationThreshold = sy_confirmationThreshold o',
           cc_cursorVersion = (case persisted of None \<Rightarrow> 0 | Some c \<Rightarrow> cc_cursorVersion c) + 1,
           cc_lastReconciliationAt = Option.bind cp cc_lastReconciliationAt\<rparr>)) (\<lambda>n.
         bindJ (repoJ (saveCheckpoint n \<lparr>wc_expectedCursorVersion = map_option cc_cursorVersion persisted,
           wc_expectedLastScannedBlockHash = map_option cc_lastScannedBlockHash persisted,
           wc_previousScannedBlock = map_option cc_lastScannedBlock persisted,
           wc_previousScannedBlockHash = map_option cc_lastScannedBlockHash persisted, wc_verifiedRewind = rewind\<rparr>)) (\<lambda>_.
         returnJ (promoted, n)))))))
     | _ \<Rightarrow> throwJ (ingestion_error REORG_RECONCILIATION_REQUIRED)))))"

definition syncRegistryInTransaction :: "'e index_host \<Rightarrow> 'e chain_reader \<Rightarrow> 'e sync_options \<Rightarrow> ('e, sync_result) index_job" where
  "syncRegistryInTransaction h rd o' =
     bindJ (okJ (sync_settings o')) (\<lambda>(registry, maxBlocks, maxEvents, version).
     bindJ (chain_head rd o') (\<lambda>(latest, tag).
     bindJ (readJ (getCheckpoint (sy_chainId o') registry)) (\<lambda>persisted.
     bindJ (unlessJ (ingestion_error INGESTION_CHECKPOINT_CONFLICT) (case persisted of None \<Rightarrow> True
       | Some c \<Rightarrow> \<not> (cc_indexerVersion c = version \<and> cc_confirmationThreshold c \<noteq> sy_confirmationThreshold o'))) (\<lambda>_.
     bindJ (rewind_if_moved h rd o' persisted) (\<lambda>rewound.
     let cp = (case rewound of None \<Rightarrow> persisted | Some w \<Rightarrow> Some (rw_checkpoint w));
         rewoundKeys = (case rewound of None \<Rightarrow> [] | Some w \<Rightarrow> rw_affectedIdentityKeys w);
         from = (case cp of None \<Rightarrow> sy_startBlock o' | Some c \<Rightarrow> max (sy_startBlock o') (cc_lastScannedBlock c + 1));
         scanThrough = (case tag of None \<Rightarrow> latest | Some t \<Rightarrow> bt_blockNumber t);
         window = from \<le> scanThrough;
         through = min scanThrough (from + maxBlocks - 1)
     in
     bindJ (if window then scan_window h rd o' registry maxEvents latest tag from through else returnJ ([], 0)) (\<lambda>(ingested, duplicates).
     let affected = rewoundKeys @ map co_identityKey ingested;
         result = (\<lambda>promoted checkpoint. \<lparr>sn_scannedFromBlock = (if window then Some from else None),
           sn_scannedThroughBlock = (if window then Some through else None),
           sn_insertedObservationCount = int (length ingested) - duplicates, sn_promotedObservationCount = int (length promoted),
           sn_orphanedObservationCount = (case rewound of None \<Rightarrow> 0 | Some w \<Rightarrow> rw_orphanedObservationCount w),
           sn_affectedIdentityKeys = sort (remdups (affected @ map co_identityKey promoted)), sn_reorgRewound = (rewound \<noteq> None),
           sn_checkpoint = checkpoint\<rparr>)
     in (case (if window then Some through else map_option cc_lastScannedBlock cp) of
       None \<Rightarrow> returnJ (result [] cp)
     | Some scanned \<Rightarrow>
         bindJ (advance_finality h rd o' registry version (finalized_block o' latest tag) tag persisted cp (map_option rw_verifiedRewind rewound)
           scanned affected) (\<lambda>(promoted, n). returnJ (result promoted (Some n)))))))))) "

definition syncRegistry :: "'e index_host \<Rightarrow> 'e chain_reader \<Rightarrow> 'e sync_options \<Rightarrow> ('e, sync_result) index_job" where
  "syncRegistry h rd o' = withTransaction (syncRegistryInTransaction h rd o')"

end
