(* ===== verification/Index_Claims.thy ===== *)
theory Index_Claims
  imports Index_Sync Auth_Server
begin

text \<open>
  Claims of an indexed identity by its ERC-721 owner: packages/agent-ingestion/src/claims.ts and the claim part of normalize.ts. A claim reads
  the owner and has the signed challenge verified before the transaction that commits it; \<open>claim_prepare\<close> is the part before and
  \<open>claim_commit\<close> the transaction, so that what other transactions do in between is any store. The verifier of signatures, the reader of the registry and the
  authorizer of operators are ports, \<open>new URL\<close> and SHA-256 are parameters.
\<close>

section \<open>Challenges and proofs\<close>

record claim_context =
  kx_chainId :: int
  kx_domain :: string
  kx_uri :: string
  kx_resources :: "string list"
  kx_action :: string

record claim_proof =
  kp_identity :: erc8004_identity
  kp_address :: string
  kp_chainId :: int
  kp_domain :: string
  kp_uri :: string
  kp_resources :: "string list"
  kp_action :: string
  kp_issuedAt :: int
  kp_expirationTime :: int
  kp_nonce :: string
  kp_signatureDigest :: string

record claim_operator =
  op_operatorId :: string
  op_scopes :: "operator_scope list"

record 'e claim_host =
  ch_host :: "'e index_host"
  ch_url :: web_url_parser
  ch_read :: "erc8004_identity \<Rightarrow> ('e, direct_state) port"
  ch_verify :: "erc8004_identity \<Rightarrow> string \<Rightarrow> claim_context \<Rightarrow> claim_proof \<Rightarrow> ('e, (claim_proof \<times> int) option) port"
  ch_authorize :: "(erc8004_identity \<Rightarrow> claim_operator \<Rightarrow> ('e, claim_operator option) port) option"

definition control_char :: "char \<Rightarrow> bool" where
  "control_char c \<longleftrightarrow> code c < 32 \<or> code c = 127"

text \<open>A trimmed text of 1 to \<open>n\<close> characters without control characters.\<close>

definition claim_text :: "nat \<Rightarrow> string \<Rightarrow> string option" where
  "claim_text n s = (let t = js_trim s in if t \<noteq> [] \<and> length t \<le> n \<and> list_all (\<lambda>c. \<not> control_char c) t then Some t else None)"

definition proof_invalid :: "bool \<Rightarrow> ingestion_exn + unit" where
  "proof_invalid b = failing CLAIM_PROOF_INVALID b"

definition normalizeClaimVerificationContext :: "web_url_parser \<Rightarrow> claim_context \<Rightarrow> ingestion_exn + claim_context" where
  "normalizeClaimVerificationContext url x =
     bindE (proof_invalid (\<not> isSafeInteger (kx_chainId x) \<or> kx_chainId x \<le> 0)) (\<lambda>_.
     let resources = map (claim_text 2048) (kx_resources x) in
     case (claim_text 253 (kx_domain x), claim_text 2048 (kx_uri x)) of
       (Some domain, Some uri) \<Rightarrow>
         bindE (proof_invalid (32 < length resources \<or> None \<in> set resources \<or> kx_action x \<noteq> ''claim'')) (\<lambda>_.
         case url uri of None \<Rightarrow> Inl (IngestionError CLAIM_PROOF_INVALID)
         | Some u \<Rightarrow> bindE (proof_invalid (\<not> http_parts u \<or> js_lower (wu_host u) \<noteq> js_lower domain)) (\<lambda>_.
             Inr \<lparr>kx_chainId = kx_chainId x, kx_domain = js_lower domain, kx_uri = wu_text u, kx_resources = map the resources,
               kx_action = ''claim''\<rparr>))
     | _ \<Rightarrow> Inl (IngestionError CLAIM_PROOF_INVALID))"

definition context_of :: "claim_proof \<Rightarrow> claim_context" where
  "context_of p = \<lparr>kx_chainId = kp_chainId p, kx_domain = kp_domain p, kx_uri = kp_uri p, kx_resources = kp_resources p, kx_action = kp_action p\<rparr>"

definition normalizeClaimVerificationProof :: "web_url_parser \<Rightarrow> claim_proof \<Rightarrow> ingestion_exn + claim_proof" where
  "normalizeClaimVerificationProof url p =
     bindE (normalizeIdentity (kp_identity p)) (\<lambda>i.
     bindE (normalizeClaimVerificationContext url (context_of p)) (\<lambda>x.
     bindE (normalizeDigest (Some (Some (kp_signatureDigest p)))) (\<lambda>digest.
     bindE (proof_invalid (length (js_trim (kp_nonce p)) < 8 \<or> digest = None)) (\<lambda>_.
     case normalizeEvmAddress (kp_address p) of Inl _ \<Rightarrow> Inl (IngestionError CLAIM_PROOF_INVALID)
     | Inr a \<Rightarrow> Inr \<lparr>kp_identity = i, kp_address = a, kp_chainId = kx_chainId x, kp_domain = kx_domain x, kp_uri = kx_uri x,
         kp_resources = kx_resources x, kp_action = kx_action x, kp_issuedAt = kp_issuedAt p, kp_expirationTime = kp_expirationTime p,
         kp_nonce = js_trim (kp_nonce p), kp_signatureDigest = the digest\<rparr>))))"

text \<open>The audit digest of a claim.\<close>

definition canonicalClaimProofBinding :: "web_url_parser \<Rightarrow> claim_proof \<Rightarrow> claim_context \<Rightarrow> ingestion_exn + js_value" where
  "canonicalClaimProofBinding url proof' context' =
     bindE (normalizeClaimVerificationProof url proof') (\<lambda>p.
     bindE (normalizeClaimVerificationContext url context') (\<lambda>x.
     bindE (proof_invalid (context_of p \<noteq> x)) (\<lambda>_.
       Inr (JObject [(''identity'', identity_json (kp_identity p)), (''ownerAddress'', JString (kp_address p)), (''chainId'', JNumber (kx_chainId x)),
         (''domain'', JString (kx_domain x)), (''uri'', JString (kx_uri x)), (''resources'', JArray (map JString (kx_resources x))),
         (''action'', JString (kx_action x)), (''issuedAt'', JString (toISOString (kp_issuedAt p))),
         (''expirationTime'', JString (toISOString (kp_expirationTime p))), (''nonce'', JString (kp_nonce p)),
         (''signatureDigest'', JString (kp_signatureDigest p))]))))"

definition canonicalClaimProofDigest :: "index_platform \<Rightarrow> web_url_parser \<Rightarrow> claim_proof \<Rightarrow> claim_context \<Rightarrow> ingestion_exn + string" where
  "canonicalClaimProofDigest px url p x = bindE (canonicalClaimProofBinding url p x) (\<lambda>v.
     case canonicalSha256Hex (ixp_sha256_text px) v of Inl _ \<Rightarrow> Inl PortThrown | Inr d \<Rightarrow> Inr d)"

definition same_identity_key :: "erc8004_identity \<Rightarrow> erc8004_identity \<Rightarrow> ingestion_exn + bool" where
  "same_identity_key a b = schema (sameErc8004Identity a b)"

definition assertProofBindsToChallenge :: "web_url_parser \<Rightarrow> erc8004_identity \<Rightarrow> claim_proof \<Rightarrow> claim_context \<Rightarrow> ingestion_exn + unit" where
  "assertProofBindsToChallenge url i p context' =
     bindE (normalizeClaimVerificationContext url context') (\<lambda>x.
     bindE (same_identity_key (kp_identity p) i) (\<lambda>same.
     proof_invalid (\<not> same \<or> kp_chainId p \<noteq> id_chainId i \<or> context_of p \<noteq> x)))"

definition assertProofTime :: "claim_proof \<Rightarrow> int \<Rightarrow> ingestion_exn + unit" where
  "assertProofTime p now = proof_invalid (length (js_trim (kp_nonce p)) < 8 \<or> now + 30000 < kp_issuedAt p \<or> kp_issuedAt p < now - 5 * 60000
     \<or> kp_expirationTime p \<le> now \<or> kp_expirationTime p \<le> kp_issuedAt p \<or> 15 * 60000 < kp_expirationTime p - kp_issuedAt p)"

definition sameProofFields :: "claim_proof \<Rightarrow> claim_proof \<Rightarrow> ingestion_exn + bool" where
  "sameProofFields a b = bindE (same_identity_key (kp_identity a) (kp_identity b)) (\<lambda>same.
     Inr (same \<and> a\<lparr>kp_identity := kp_identity b\<rparr> = b))"

definition assertIdentityRecordMatchesRead :: "identity_row \<Rightarrow> read_reference \<Rightarrow> ingestion_exn + unit" where
  "assertIdentityRecordMatchesRead r expected = bindE (identityRecordReadReference r) (\<lambda>actual.
     failing REPOSITORY_FAILURE (actual \<noteq> Some expected))"

section \<open>Claiming\<close>

text \<open>What the checks before the transaction leave: the identity, its key, the owner that signed and the digest of the proof.\<close>

record prepared_claim =
  pc_identity :: erc8004_identity
  pc_identityKey :: string
  pc_ownerAddress :: string
  pc_proofDigest :: string

definition owner_of :: "direct_state \<Rightarrow> ingestion_exn + string option" where
  "owner_of d = normalizeNullableAddress (ds_ownerAddress d)"

definition verify_proof :: "'e claim_host \<Rightarrow> erc8004_identity \<Rightarrow> string \<Rightarrow> claim_context \<Rightarrow> claim_proof \<Rightarrow> ('e, unit) index_job" where
  "verify_proof c i owner x p =
     bindJ (catchJ (portJ (ch_verify c i owner x p)) (IngestionError CLAIM_PROOF_INVALID)) (\<lambda>answer.
     case answer of None \<Rightarrow> throwJ (IngestionError CLAIM_PROOF_INVALID)
     | Some (v, at) \<Rightarrow>
         bindJ (okJ (normalizeClaimVerificationProof (ch_url c) v)) (\<lambda>n.
         bindJ (okJ (assertProofBindsToChallenge (ch_url c) i n x)) (\<lambda>_.
         bindJ (okJ (sameProofFields p n)) (\<lambda>same.
         unlessJ (IngestionError CLAIM_PROOF_INVALID) same))))"

definition claim_prepare :: "'e claim_host \<Rightarrow> erc8004_identity \<Rightarrow> claim_proof \<Rightarrow> claim_context \<Rightarrow> ('e, prepared_claim) index_job" where
  "claim_prepare c input proof' context' =
     bindJ (okJ (schema (normalizeErc8004Identity input))) (\<lambda>i.
     bindJ (key_of i) (\<lambda>k.
     bindJ (okJ (normalizeClaimVerificationContext (ch_url c) context')) (\<lambda>x.
     bindJ (okJ (normalizeClaimVerificationProof (ch_url c) proof')) (\<lambda>p.
     bindJ (okJ (assertProofBindsToChallenge (ch_url c) i p x)) (\<lambda>_.
     bindJ (readJ (findIdentity i)) (\<lambda>existing.
     bindJ (unlessJ (IngestionError CLAIM_NOT_ACTIVE) (existing \<noteq> None)) (\<lambda>_.
     bindJ (portJ (ch_read c i)) (\<lambda>d.
     bindJ (okJ (assertIdentityReadProvenance d None)) (\<lambda>_.
     bindJ (okJ (owner_of d)) (\<lambda>owner.
     case owner of None \<Rightarrow> throwJ (IngestionError CLAIM_OWNER_MISMATCH)
     | Some a \<Rightarrow>
         bindJ (unlessJ (IngestionError CLAIM_OWNER_MISMATCH) (kp_address p = a \<and> kp_chainId p = id_chainId i)) (\<lambda>_.
         bindJ (host_now (ch_host c)) (\<lambda>now.
         bindJ (okJ (assertProofTime p now)) (\<lambda>_.
         bindJ (verify_proof c i a x p) (\<lambda>_.
         bindJ (okJ (canonicalClaimProofDigest (ih_platform (ch_host c)) (ch_url c) p x)) (\<lambda>digest.
         returnJ \<lparr>pc_identity = i, pc_identityKey = k, pc_ownerAddress = a, pc_proofDigest = digest\<rparr>)))))))))))))))"

definition claim_mutation_of :: "prepared_claim \<Rightarrow> claim_row option \<Rightarrow> direct_state \<Rightarrow> read_reference \<Rightarrow> identity_row \<Rightarrow> int \<Rightarrow> claim_mutation" where
  "claim_mutation_of p prior d ref r now =
     \<lparr>cm_identityKey = pc_identityKey p, cm_expectedVersion = map_option cl_version prior, cm_expectedStatus = map_option cl_status prior,
       cm_expectedOwnerAddress = Some (pc_ownerAddress p), cm_expectedCanonicalRead = ref,
       cm_claim = \<lparr>cl_identityKey = pc_identityKey p, cl_version = (case prior of None \<Rightarrow> 0 | Some c \<Rightarrow> cl_version c) + 1, cl_status = Claimed,
         cl_claimantAddress = Some (pc_ownerAddress p), cl_ownerAddressAtVerification = Some (pc_ownerAddress p),
         cl_agentWalletAtVerification = ix_agentWallet r, cl_verifiedAt = Some now, cl_staleAt = None, cl_lastReason = Some ReasonClaimed,
         cl_verificationObservedBlock = Some (ds_observedBlock d), cl_verificationObservedBlockHash = Some (js_lower (ds_observedBlockHash d)),
         cl_verificationReadConsistency = Some (ds_readConsistency d)\<rparr>,
       cm_event = \<lparr>ce_identityKey = pc_identityKey p, ce_eventType = EventClaimed, ce_claimantAddress = Some (pc_ownerAddress p),
         ce_observedOwnerAddress = ix_ownerAddress r, ce_observedAgentWallet = ix_agentWallet r, ce_proofDigest = Some (pc_proofDigest p),
         ce_actorType = ActorOwner, ce_actorId = pc_ownerAddress p, ce_reason = ''Current ERC-721 owner proved control with SIWE.'',
         ce_occurredAt = now\<rparr>,
       cm_actor = OwnerActor (pc_ownerAddress p) (pc_proofDigest p)\<rparr>"

definition claim_commit :: "'e claim_host \<Rightarrow> prepared_claim \<Rightarrow> ('e, identity_row) index_job" where
  "claim_commit c p = (let i = pc_identity p in
     bindJ (readJ (\<lambda>s. Inr (getClaim (pc_identityKey p) s))) (\<lambda>prior.
     bindJ (readJ (findIdentity i)) (\<lambda>before.
     case before of None \<Rightarrow> throwJ (IngestionError CLAIM_NOT_ACTIVE)
     | Some b \<Rightarrow>
         bindJ (portJ (ch_read c i)) (\<lambda>d.
         bindJ (okJ (assertIdentityReadProvenance d None)) (\<lambda>_.
         bindJ (okJ (identityReadReference d)) (\<lambda>ref.
         bindJ (okJ (owner_of d)) (\<lambda>owner.
         bindJ (unlessJ (IngestionError CLAIM_OWNER_MISMATCH) (owner = Some (pc_ownerAddress p))) (\<lambda>_.
         bindJ (unlessJ (IngestionError CLAIM_OWNER_MISMATCH) (ix_ownerAddress b = None \<or> ix_ownerAddress b = owner)) (\<lambda>_.
         bindJ (repoJ (applyCanonicalState i d)) (\<lambda>r.
         bindJ (readJ (findIdentity i)) (\<lambda>stored.
         case stored of None \<Rightarrow> throwJ (IngestionError CLAIM_OWNER_MISMATCH)
         | Some t \<Rightarrow>
             bindJ (unlessJ (IngestionError CLAIM_OWNER_MISMATCH) (ix_ownerAddress t = owner)) (\<lambda>_.
             bindJ (okJ (assertIdentityRecordMatchesRead t ref)) (\<lambda>_.
             bindJ (unlessJ (IngestionError CLAIM_NOT_ACTIVE)
               (case prior of None \<Rightarrow> True | Some q \<Rightarrow> \<not> (cl_status q = Claimed \<and> cl_claimantAddress q \<noteq> owner))) (\<lambda>_.
             bindJ (okJ (case prior of None \<Rightarrow> Inr () | Some q \<Rightarrow> if cl_status q = Claimed then Inr () else claim_transition (cl_status q) Claimed)) (\<lambda>_.
             bindJ (host_now (ch_host c)) (\<lambda>now.
             bindJ (repoJ (mutateClaim (claim_mutation_of p prior d ref r now))) (\<lambda>_.
             bindJ (readJ (findIdentity i)) (\<lambda>final.
             returnJ (case final of None \<Rightarrow> r | Some f \<Rightarrow> f)))))))))))))))))))"

definition claim :: "'e claim_host \<Rightarrow> erc8004_identity \<Rightarrow> claim_proof \<Rightarrow> claim_context \<Rightarrow> ('e, identity_row) index_job" where
  "claim c input proof' context' = bindJ (claim_prepare c input proof' context') (\<lambda>p. withTransaction (claim_commit c p))"

section \<open>Revalidation and revocation\<close>

definition internalOperator :: "'e index_host \<Rightarrow> ingestion_exn + string" where
  "internalOperator h = (case ih_internalOperatorId h of None \<Rightarrow> Inl (IngestionError CLAIM_AUTHORIZATION_REQUIRED)
     | Some p \<Rightarrow> if js_trim p = [] then Inl (IngestionError CLAIM_AUTHORIZATION_REQUIRED) else Inr (js_trim p))"

definition revalidate_commit :: "'e claim_host \<Rightarrow> erc8004_identity \<Rightarrow> direct_state \<Rightarrow> string option \<Rightarrow> string \<Rightarrow> ('e, identity_row) index_job" where
  "revalidate_commit c i d owner reason =
     bindJ (key_of i) (\<lambda>k.
     bindJ (readJ (\<lambda>s. Inr (getClaim k s))) (\<lambda>existing.
     bindJ (repoJ (applyCanonicalState i d)) (\<lambda>r.
     bindJ (okJ (identityReadReference d)) (\<lambda>ref.
     bindJ (okJ (assertIdentityRecordMatchesRead r ref)) (\<lambda>_.
     bindJ (case existing of None \<Rightarrow> returnJ ()
       | Some q \<Rightarrow> if cl_status q = Claimed \<and> cl_claimantAddress q \<noteq> owner then
           bindJ (okJ (claim_transition (cl_status q) ClaimStale)) (\<lambda>_.
           bindJ (host_now (ch_host c)) (\<lambda>now.
           bindJ (okJ (internalOperator (ch_host c))) (\<lambda>operator.
           bindJ (repoJ (mutateClaim (stale_mutation k q now (if reason = ''revoked'' then ReasonRevoked else ReasonReconciliation) (ix_ownerAddress r)
             owner (ix_agentWallet r) ref (if reason = ''revoked'' then EventRevoked else EventStale) operator ScopeReconcile reason))) (\<lambda>_. returnJ ()))))
         else returnJ ()) (\<lambda>_.
     bindJ (readJ (findIdentity i)) (\<lambda>final.
     returnJ (case final of None \<Rightarrow> r | Some f \<Rightarrow> f))))))))"

definition revalidate :: "'e claim_host \<Rightarrow> erc8004_identity \<Rightarrow> string \<Rightarrow> ('e, identity_row) index_job" where
  "revalidate c input reason =
     bindJ (okJ (schema (normalizeErc8004Identity input))) (\<lambda>i.
     bindJ (readJ (findIdentity i)) (\<lambda>existing.
     bindJ (unlessJ (IngestionError CLAIM_NOT_ACTIVE) (existing \<noteq> None)) (\<lambda>_.
     bindJ (portJ (ch_read c i)) (\<lambda>d.
     bindJ (okJ (assertIdentityReadProvenance d None)) (\<lambda>_.
     bindJ (okJ (owner_of d)) (\<lambda>owner.
     withTransaction (revalidate_commit c i d owner reason)))))))"

text \<open>The operator, the claim and the time with which the transaction of a revocation starts.\<close>

definition revoke_commit :: "erc8004_identity \<Rightarrow> string \<Rightarrow> claim_row \<Rightarrow> string \<Rightarrow> int \<Rightarrow> ('e, unit) index_job" where
  "revoke_commit i operator q reason now =
     bindJ (readJ (findIdentity i)) (\<lambda>canonical.
     case canonical of None \<Rightarrow> throwJ (IngestionError CLAIM_NOT_ACTIVE)
     | Some r \<Rightarrow>
         bindJ (okJ (requireIdentityReadReference r)) (\<lambda>ref.
         bindJ (key_of i) (\<lambda>k.
         bindJ (repoJ (mutateClaim (stale_mutation k q now ReasonRevoked (ix_ownerAddress r) (ix_ownerAddress r) (ix_agentWallet r) ref EventRevoked
           operator ScopeRevoke reason))) (\<lambda>_. returnJ ()))))"

definition revoke :: "'e claim_host \<Rightarrow> erc8004_identity \<Rightarrow> string \<Rightarrow> claim_operator \<Rightarrow> ('e, identity_row) index_job" where
  "revoke c input reason operator =
     bindJ (okJ (schema (normalizeErc8004Identity input))) (\<lambda>i.
     bindJ (readJ (findIdentity i)) (\<lambda>found.
     case found of None \<Rightarrow> throwJ (IngestionError CLAIM_NOT_ACTIVE)
     | Some r \<Rightarrow>
       (case ch_authorize c of None \<Rightarrow> throwJ (IngestionError CLAIM_AUTHORIZATION_REQUIRED)
        | Some authorize \<Rightarrow>
         bindJ (portJ (authorize i operator)) (\<lambda>authorized.
         case authorized of None \<Rightarrow> throwJ (IngestionError CLAIM_AUTHORIZATION_REQUIRED)
         | Some a \<Rightarrow>
           bindJ (unlessJ (IngestionError CLAIM_AUTHORIZATION_REQUIRED) (js_trim (op_operatorId a) \<noteq> [] \<and> ScopeRevoke \<in> set (op_scopes a))) (\<lambda>_.
           bindJ (key_of i) (\<lambda>k.
           bindJ (readJ (\<lambda>s. Inr (getClaim k s))) (\<lambda>existing.
           case existing of None \<Rightarrow> returnJ r
           | Some q \<Rightarrow> if cl_status q \<noteq> Claimed then returnJ r
             else bindJ (okJ (claim_transition (cl_status q) ClaimStale)) (\<lambda>_.
               bindJ (host_now (ch_host c)) (\<lambda>now.
               bindJ (withTransaction (revoke_commit i (op_operatorId a) q reason now)) (\<lambda>_.
               bindJ (readJ (findIdentity i)) (\<lambda>final.
               returnJ (case final of None \<Rightarrow> r | Some f \<Rightarrow> f))))))))))))"

end
