(* ===== verification/Index_Invariant.thy ===== *)
theory Index_Invariant
  imports Index_Claims
begin

text \<open>
  What every transaction on the index keeps. \<open>claims_ok\<close>: an identity is stored under its own key, its status agrees with its claim, and a
  claim that holds is held by the stored owner, who proved control. Inside a transaction the identity of one key may be ahead of its claim (\<open>claims_weak\<close>).
\<close>

section \<open>Reads keep every property\<close>

lemma keeps_host_now [keep_rules]: "keeps I (host_now h)" "keeps I (dateJ h)" "keeps I (key_of i)"
  by (simp_all add: host_now_def dateJ_def key_of_def keep_rules)

lemma keeps_hashes [keep_rules]: "keeps I (assertTrustedObservationHashes rd checked obs)"
proof (induction obs arbitrary: checked)
  case (Cons ob obs)
  then show ?case by (simp split: option.split) (intro conjI allI impI keep_rules)
qed (simp add: keep_rules)

lemma keeps_block_hash [keep_rules]: "keeps I (assertTrustedBlockHash rd n x)"
  unfolding assertTrustedBlockHash_def by (intro keep_rules)

lemma keeps_sync_clock [keep_rules]: "keeps I (sync_clock h o')"
  unfolding sync_clock_def by (intro keep_rules)

section \<open>Claims and identities agree\<close>

definition row_ok :: "string \<Rightarrow> identity_row \<Rightarrow> bool" where
  "row_ok k r \<longleftrightarrow> normalizeErc8004Identity (ix_identity r) = Inr (ix_identity r) \<and> erc8004IdentityKey (ix_identity r) = Inr k"

definition rows_ok :: "index_store \<Rightarrow> bool" where
  "rows_ok s \<longleftrightarrow> distinct (map fst (is_identities s)) \<and> (\<forall>(k, r) \<in> set (is_identities s). row_ok k r)"

definition events_of :: "index_store \<Rightarrow> string \<Rightarrow> claim_event list" where
  "events_of s k = (case map_of (is_claimEvents s) k of None \<Rightarrow> [] | Some es \<Rightarrow> es)"

text \<open>The claim that holds: its claimant is the stored owner and its last event is the owner's proof.\<close>

definition holds :: "identity_row \<Rightarrow> claim_row \<Rightarrow> claim_event list \<Rightarrow> bool" where
  "holds r c es \<longleftrightarrow> cl_claimantAddress c \<noteq> None \<and> cl_claimantAddress c = ix_ownerAddress r \<and> cl_ownerAddressAtVerification c = cl_claimantAddress c
     \<and> ix_ownerClaimVerifiedAt r = cl_verifiedAt c \<and> ce_eventType (last es) = EventClaimed \<and> ce_actorType (last es) = ActorOwner
     \<and> Some (ce_actorId (last es)) = cl_claimantAddress c \<and> ce_proofDigest (last es) \<noteq> None"

definition counted :: "claim_row option \<Rightarrow> claim_event list \<Rightarrow> bool" where
  "counted c es \<longleftrightarrow> (case c of None \<Rightarrow> es = [] | Some q \<Rightarrow> es \<noteq> [] \<and> cl_version q = int (length es) \<and> cl_status q \<noteq> Unclaimed)"

definition claim_agrees :: "identity_row option \<Rightarrow> claim_row option \<Rightarrow> claim_event list \<Rightarrow> bool" where
  "claim_agrees r c es \<longleftrightarrow> counted c es \<and> (case c of None \<Rightarrow> (case r of None \<Rightarrow> True | Some x \<Rightarrow> claimStatus (ix_state x) = Unclaimed)
     | Some q \<Rightarrow> (case r of None \<Rightarrow> False | Some x \<Rightarrow> claimStatus (ix_state x) = cl_status q \<and> (cl_status q = Claimed \<longrightarrow> holds x q es)))"

definition claims_ok :: "index_store \<Rightarrow> bool" where
  "claims_ok s \<longleftrightarrow> rows_ok s \<and> (\<forall>k. claim_agrees (map_of (is_identities s) k) (map_of (is_claims s) k) (events_of s k))"

definition claims_weak :: "string \<Rightarrow> index_store \<Rightarrow> bool" where
  "claims_weak k s \<longleftrightarrow> rows_ok s \<and> counted (map_of (is_claims s) k) (events_of s k)
     \<and> (\<forall>j. j \<noteq> k \<longrightarrow> claim_agrees (map_of (is_identities s) j) (map_of (is_claims s) j) (events_of s j))"

lemma claims_weakI: "claims_ok s \<Longrightarrow> claims_weak k s"
  by (auto simp: claims_ok_def claims_weak_def claim_agrees_def)

lemma claims_okI: "claims_weak k s \<Longrightarrow> claim_agrees (map_of (is_identities s) k) (map_of (is_claims s) k) (events_of s k) \<Longrightarrow> claims_ok s"
  by (auto simp: claims_ok_def claims_weak_def)

lemma rows_ok_lookup: "rows_ok s \<Longrightarrow> map_of (is_identities s) k = Some r \<Longrightarrow> row_ok k r"
  by (auto simp: rows_ok_def dest: map_of_SomeD)

lemma AList_update_mem: "(k', v') \<in> set (AList.update k v al) \<Longrightarrow> k' = k \<and> v' = v \<or> (k', v') \<in> set al"
  by (induction al) (auto split: if_splits)

lemma rows_ok_put:
  assumes "rows_ok s" "row_ok k r"
  shows "rows_ok (put_identity k r s)"
  using assms unfolding rows_ok_def put_identity_def
  by (auto simp: distinct_update dest!: AList_update_mem)

lemma put_identity_simps [simp]:
  "is_claims (put_identity k r s) = is_claims s" "events_of (put_identity k r s) j = events_of s j"
  "map_of (is_identities (put_identity k r s)) = (map_of (is_identities s))(k \<mapsto> r)"
  by (simp_all add: put_identity_def events_of_def update_conv')

lemma claims_weak_put: "claims_weak k s \<Longrightarrow> row_ok k r \<Longrightarrow> claims_weak k (put_identity k r s)"
  by (auto simp: claims_weak_def rows_ok_put)

section \<open>Applying a state\<close>

lemma canonical_rowD:
  assumes "canonical_row d x = Inr r"
  shows "ix_identity r = ix_identity x"
    "normalizeNullableAddress (ds_ownerAddress d) = Inr (ix_ownerAddress r)"
    "claimStatus (ix_state r) = (if ix_ownerAddress x \<noteq> ix_ownerAddress r \<and> claimStatus (ix_state x) = Claimed then ClaimStale else claimStatus (ix_state x))"
    "ix_ownerClaimVerifiedAt r = (if ix_ownerAddress x \<noteq> ix_ownerAddress r then None else ix_ownerClaimVerifiedAt x)"
proof -
  let ?state = "\<lambda>owner. if ix_ownerAddress x \<noteq> owner \<and> claimStatus (ix_state x) = Claimed
      then (case assertStateTransition (ClaimChange (claimStatus (ix_state x)) ClaimStale) of Inl _ \<Rightarrow> Inl StatusThrown
        | Inr _ \<Rightarrow> Inr ((ix_state x)\<lparr>claimStatus := ClaimStale\<rparr>)) else Inr (ix_state x)"
  from assms obtain owner wallet state where o': "normalizeNullableAddress (ds_ownerAddress d) = Inr owner"
    and st: "?state owner = Inr state"
    and r: "r = x\<lparr>ix_ownerAddress := owner, ix_agentWallet := wallet, ix_agentUri := ds_agentUri d, ix_contentDigest := ds_contentDigest d,
         ix_observedBlock := Some (ds_observedBlock d), ix_observedBlockHash := Some (js_lower (ds_observedBlockHash d)),
         ix_readConsistency := Some (ds_readConsistency d), ix_ownerObservedBlock := ds_ownerObservedBlock d,
         ix_agentWalletObservedBlock := ds_agentWalletObservedBlock d, ix_agentUriObservedBlock := ds_agentUriObservedBlock d,
         ix_contentDigestObservedBlock := ds_contentDigestObservedBlock d, ix_state := state,
         ix_ownerClaimVerifiedAt := (if ix_ownerAddress x \<noteq> owner then None else ix_ownerClaimVerifiedAt x)\<rparr>"
    by (clarsimp simp: canonical_row_def)
  show "ix_identity r = ix_identity x" "normalizeNullableAddress (ds_ownerAddress d) = Inr (ix_ownerAddress r)"
    "ix_ownerClaimVerifiedAt r = (if ix_ownerAddress x \<noteq> ix_ownerAddress r then None else ix_ownerClaimVerifiedAt x)"
    by (simp_all add: r o')
  have "claimStatus state = (if ix_ownerAddress x \<noteq> owner \<and> claimStatus (ix_state x) = Claimed then ClaimStale else claimStatus (ix_state x))"
    using st by (auto split: if_splits sum.splits)
  then show "claimStatus (ix_state r) = (if ix_ownerAddress x \<noteq> ix_ownerAddress r \<and> claimStatus (ix_state x) = Claimed then ClaimStale else claimStatus (ix_state x))"
    by (simp add: r)
qed

lemma apply_spec:
  assumes "applyCanonicalState i d s = Inr (r, s')"
  obtains j k where "normalizeErc8004Identity i = Inr j" "erc8004IdentityKey j = Inr k" "erc8004IdentityKey i = Inr k" "s' = put_identity k r s"
    "case map_of (is_identities s) k of None \<Rightarrow> r = new_identity j Discovered (Some d) | Some x \<Rightarrow> canonical_row d x = Inr r"
proof -
  from assms obtain j k where j: "normalizeErc8004Identity i = Inr j" "erc8004IdentityKey j = Inr k"
    and b: "(case map_of (is_identities s) k of None \<Rightarrow> upsertIdentity j Discovered (Some d) s | Some x \<Rightarrow> overwrite_identity k d x s) = Inr (r, s')"
    by (auto simp: applyCanonicalState_def)
  show ?thesis
  proof (rule that [of j k])
    show "normalizeErc8004Identity i = Inr j" "erc8004IdentityKey j = Inr k" by fact+
    show "erc8004IdentityKey i = Inr k" using j erc8004IdentityKey_norm by simp
    show "s' = put_identity k r s"
      using b j normalizeErc8004Identity_idem [OF j(1)] by (auto simp: upsertIdentity_def overwrite_identity_def split: option.splits)
    show "case map_of (is_identities s) k of None \<Rightarrow> r = new_identity j Discovered (Some d) | Some x \<Rightarrow> canonical_row d x = Inr r"
      using b j normalizeErc8004Identity_idem [OF j(1)] by (auto simp: upsertIdentity_def overwrite_identity_def split: option.splits)
  qed
qed

lemma new_identity_facts [simp]:
  "ix_identity (new_identity j u d) = j" "claimStatus (ix_state (new_identity j u d)) = Unclaimed"
  by (simp_all add: new_identity_def defaultState_def)

lemma row_ok_new: "normalizeErc8004Identity i = Inr j \<Longrightarrow> erc8004IdentityKey j = Inr k \<Longrightarrow> row_ok k (new_identity j u d)"
  by (simp add: row_ok_def normalizeErc8004Identity_idem)

lemma row_ok_canonical: "row_ok k x \<Longrightarrow> canonical_row d x = Inr r \<Longrightarrow> row_ok k r"
  by (simp add: row_ok_def canonical_rowD(1))

text \<open>After a state is applied, the claim of its identity is behind exactly when the identity was claimed and has another owner now.\<close>

lemma apply_weak:
  assumes "claims_ok s" "applyCanonicalState i d s = Inr (r, s')" "erc8004IdentityKey i = Inr k"
  shows "claims_weak k s'" "map_of (is_identities s') k = Some r" "row_ok k r" "is_claims s' = is_claims s" "events_of s' k = events_of s k"
proof -
  from apply_spec [OF assms(2)] assms(3) obtain j where j: "normalizeErc8004Identity i = Inr j" "erc8004IdentityKey j = Inr k"
    "s' = put_identity k r s" "case map_of (is_identities s) k of None \<Rightarrow> r = new_identity j Discovered (Some d) | Some x \<Rightarrow> canonical_row d x = Inr r"
    by (metis Inr_inject)
  have ok: "rows_ok s" using assms(1) by (simp add: claims_ok_def)
  show r: "row_ok k r"
    using j(4) row_ok_new [OF j(1,2)] row_ok_canonical [OF rows_ok_lookup [OF ok]] by (auto split: option.splits)
  show "claims_weak k s'" unfolding j(3) by (rule claims_weak_put [OF claims_weakI [OF assms(1)] r])
  show "map_of (is_identities s') k = Some r" "is_claims s' = is_claims s" "events_of s' k = events_of s k" by (simp_all add: j(3))
qed

lemma apply_ok:
  assumes "claims_ok s" "applyCanonicalState i d s = Inr (r, s')" "erc8004IdentityKey i = Inr k"
    and "\<And>x. map_of (is_identities s) k = Some x \<Longrightarrow> claimStatus (ix_state x) = Claimed \<Longrightarrow> ix_ownerAddress x = ix_ownerAddress r"
  shows "claims_ok s'"
proof (rule claims_okI [OF apply_weak(1) [OF assms(1-3)]])
  from apply_spec [OF assms(2)] assms(3) obtain j where
    j: "case map_of (is_identities s) k of None \<Rightarrow> r = new_identity j Discovered (Some d) | Some x \<Rightarrow> canonical_row d x = Inr r"
    by (metis Inr_inject)
  note w = apply_weak [OF assms(1-3)]
  have a: "claim_agrees (map_of (is_identities s) k) (map_of (is_claims s) k) (events_of s k)" using assms(1) by (simp add: claims_ok_def)
  show "claim_agrees (map_of (is_identities s') k) (map_of (is_claims s') k) (events_of s' k)"
  proof (cases "map_of (is_identities s) k")
    case None
    then show ?thesis using a j w(2,4,5) by (auto simp: claim_agrees_def split: option.splits)
  next
    case (Some x)
    then show ?thesis using a j w(2,4,5) assms(4) [OF Some] canonical_rowD [of d x r]
      by (auto simp: claim_agrees_def holds_def split: option.splits if_splits)
  qed
qed

section \<open>Changing a claim\<close>

lemma mutateClaimD:
  assumes "mutateClaim m s = Inr (c, s')"
  shows "c = cm_claim m" "claim_versioned (map_of (is_claims s) (cm_identityKey m)) m" "claim_event_fits m"
    "cl_version c = (case map_of (is_claims s) (cm_identityKey m) of None \<Rightarrow> 0 | Some q \<Rightarrow> cl_version q) + 1"
    "ce_actorType (cm_event m) = actor_kind (cm_actor m)"
    "\<exists>r. map_of (is_identities s) (cm_identityKey m) = Some r \<and> actor_allowed (ix_ownerAddress r) m = Inr ()
       \<and> normalizeNullableAddress (cm_expectedOwnerAddress m) = Inr (ix_ownerAddress r)
       \<and> is_identities s' = AList.update (cm_identityKey m)
           (r\<lparr>ix_state := (ix_state r)\<lparr>claimStatus := cl_status c\<rparr>, ix_ownerClaimVerifiedAt := cl_verifiedAt c\<rparr>) (is_identities s)"
    "is_claims s' = AList.update (cm_identityKey m) c (is_claims s)"
    "is_claimEvents s' = AList.update (cm_identityKey m) (events_of s (cm_identityKey m) @ [cm_event m]) (is_claimEvents s)"
    "is_observations s' = is_observations s" "is_checkpoints s' = is_checkpoints s"
  using assms by (auto simp: mutateClaim_def Let_def events_of_def split: option.splits)

lemma actor_owner_allowed:
  "actor_allowed owner m = Inr () \<Longrightarrow> cm_actor m = OwnerActor w g \<Longrightarrow> \<exists>a. owner = Some a \<and> cl_claimantAddress (cm_claim m) = Some a
     \<and> cl_ownerAddressAtVerification (cm_claim m) = Some a \<and> ce_proofDigest (cm_event m) = Some g \<and> ce_actorId (cm_event m) = a"
  by (auto simp: actor_allowed_def split: option.splits)

text \<open>A change of the claim brings both together again, whether it makes the claim stale or the owner makes it hold.\<close>

lemma mutate_ok:
  assumes "claims_weak (cm_identityKey m) s" "mutateClaim m s = Inr (c, s')" "cl_status c = ClaimStale \<or> cl_status c = Claimed \<and> cm_actor m = OwnerActor w g"
  shows "claims_ok s'"
proof (rule claims_okI)
  let ?k = "cm_identityKey m"
  note d = mutateClaimD [OF assms(2)]
  from d(6) obtain r where r: "map_of (is_identities s) ?k = Some r" "actor_allowed (ix_ownerAddress r) m = Inr ()"
    "is_identities s' = AList.update ?k
           (r\<lparr>ix_state := (ix_state r)\<lparr>claimStatus := cl_status c\<rparr>, ix_ownerClaimVerifiedAt := cl_verifiedAt c\<rparr>) (is_identities s)"
    by blast
  let ?r = "r\<lparr>ix_state := (ix_state r)\<lparr>claimStatus := cl_status c\<rparr>, ix_ownerClaimVerifiedAt := cl_verifiedAt c\<rparr>"
  have ok: "rows_ok s" using assms(1) by (simp add: claims_weak_def)
  have "rows_ok (put_identity ?k ?r s)"
    by (rule rows_ok_put [OF ok]) (use rows_ok_lookup [OF ok r(1)] in \<open>simp add: row_ok_def\<close>)
  then have rows: "rows_ok s'" using r(3) by (simp add: rows_ok_def put_identity_def)
  have m: "map_of (is_identities s') = (map_of (is_identities s))(?k \<mapsto> ?r)" "map_of (is_claims s') = (map_of (is_claims s))(?k \<mapsto> c)"
    using r(3) d(7) by (simp_all add: update_conv')
  have e: "events_of s' j = (if j = ?k then events_of s ?k @ [cm_event m] else events_of s j)" for j
    using d(8) by (simp add: events_of_def update_conv')
  have n: "counted (map_of (is_claims s') ?k) (events_of s' ?k)"
    using assms(1,3) d(4) m(2) e by (auto simp: claims_weak_def counted_def split: option.splits)
  show "claims_weak ?k s'" using assms(1) rows n m e by (simp add: claims_weak_def)
  have "holds ?r c (events_of s ?k @ [cm_event m])" if "cl_status c = Claimed"
  proof -
    have a: "cm_actor m = OwnerActor w g" using assms(3) that by auto
    from actor_owner_allowed [OF r(2) a] show ?thesis
      using d(1,3,5) that a by (auto simp: holds_def claim_event_fits_def)
  qed
  then show "claim_agrees (map_of (is_identities s') ?k) (map_of (is_claims s') ?k) (events_of s' ?k)"
    using n m e by (simp add: claim_agrees_def)
qed

section \<open>The steps of the services\<close>

lemma stale_mutation_simps [simp]:
  "cm_identityKey (stale_mutation k c now u a b v ref t p g z) = k"
  "cl_status (cm_claim (stale_mutation k c now u a b v ref t p g z)) = ClaimStale"
  by (simp_all add: stale_mutation_def)

lemma does_stale:
  assumes "cm_identityKey m = k" "cl_status (cm_claim m) = ClaimStale"
  shows "does (claims_weak k) (repoJ (mutateClaim m)) (\<lambda>_. claims_ok)"
proof (rule doesI)
  fix s and e :: 'a and x s' e'
  assume p: "claims_weak k s" and "repoJ (mutateClaim m) (s, e) = (Inr x, (s', e'))"
  then have m: "mutateClaim m s = Inr (x, s')" by (auto simp: repoJ_def split: sum.splits)
  have "x = cm_claim m" by (rule mutateClaimD(1) [OF m])
  with assms p mutate_ok [OF _ m, of undefined undefined] show "claims_ok s'" by simp
qed

lemma does_markClaimStale:
  "does (\<lambda>s. claims_weak k s \<and> row_ok k r \<and> (\<exists>q. map_of (is_claims s) k = Some q \<and> cl_status q = Claimed)) (markClaimStale h r u z) (\<lambda>_. claims_ok)"
  unfolding markClaimStale_def key_of_def
proof (rule does_ok, rule does_read, goal_cases)
  case (1 j c)
  show ?case
  proof (cases "row_ok k r \<and> (\<exists>q. c = Some q \<and> cl_status q = Claimed)")
    case True
    then obtain q where q: "c = Some q" "cl_status q = Claimed" "j = k" using 1 by (auto simp: row_ok_def)
    show ?thesis unfolding q(1,3) option.case host_now_def if_not_P [of "cl_status q \<noteq> Claimed", unfolded not_not, OF q(2)]
      by (rule does_pre [where I = "claims_weak k"], rule does_ok, rule does_clock, rule does_ok, rule does_call [OF does_stale])
        (auto intro: does_return)
  next
    case False
    then show ?thesis using 1 by (auto simp: does_def getClaim_def row_ok_def)
  qed
qed

lemma does_apply_and_reconcile:
  assumes "erc8004IdentityKey i = Inr k"
  shows "does (\<lambda>s. claims_ok s \<and> previous = map_of (is_identities s) k) (apply_and_reconcile h previous i d u z) (\<lambda>_. claims_ok)"
  unfolding apply_and_reconcile_def
proof (rule does_repo, goal_cases)
  case (1 r)
  let ?I = "\<lambda>t. \<exists>s. (claims_ok s \<and> previous = map_of (is_identities s) k) \<and> applyCanonicalState i d s = Inr (r, t)"
  let ?b = "\<lambda>p. ix_ownerAddress p \<noteq> ix_ownerAddress r \<and> claimStatus (ix_state p) = Claimed"
  have ok: "claims_ok t" if "?I t" "\<And>p. previous = Some p \<Longrightarrow> \<not> ?b p" for t
    using that apply_ok [OF _ _ assms] by metis
  have weak: "claims_weak k t \<and> row_ok k r \<and> (\<exists>q. map_of (is_claims t) k = Some q \<and> cl_status q = Claimed)"
    if "?I t" "previous = Some p" "?b p" for t p
  proof -
    from that obtain s where s: "claims_ok s" "map_of (is_identities s) k = Some p" "applyCanonicalState i d s = Inr (r, t)" by auto
    have "claim_agrees (Some p) (map_of (is_claims s) k) (events_of s k)" using s(1,2) by (metis claims_ok_def)
    then show ?thesis using that(3) apply_weak [OF s(1,3) assms] by (auto simp: claim_agrees_def split: option.splits)
  qed
  have "does ?I (case previous of None \<Rightarrow> returnJ ()
       | Some p \<Rightarrow> if ?b p then markClaimStale h r u z else returnJ ()) (\<lambda>_. claims_ok)"
  proof (rule does_option)
    assume n: "previous = None"
    show "does ?I (returnJ ()) (\<lambda>_. claims_ok)" by (rule does_return, rule ok) (auto simp: n)
  next
    fix p assume p: "previous = Some p"
    show "does ?I (if ?b p then markClaimStale h r u z else returnJ ()) (\<lambda>_. claims_ok)"
    proof (rule does_if)
      assume b: "?b p"
      show "does ?I (markClaimStale h r u z) (\<lambda>_. claims_ok)" by (rule does_pre [OF does_markClaimStale]) (rule weak [OF _ p b])
    next
      assume b: "\<not> ?b p"
      show "does ?I (returnJ ()) (\<lambda>_. claims_ok)" by (rule does_return, rule ok) (use b p in auto)
    qed
  qed
  then show ?case by (rule does_call) (auto intro: does_return)
qed

lemma find_row: "findIdentity i s = Inr p \<Longrightarrow> \<exists>k. erc8004IdentityKey i = Inr k \<and> p = map_of (is_identities s) k"
  by (auto simp: findIdentity_def erc8004IdentityKey_norm)

lemma keeps_reconcile_commit [keep_rules]: "keeps claims_ok (reconcile_commit h i d z)"
  unfolding keeps_def reconcile_commit_def
proof (rule does_read, goal_cases)
  case (1 p)
  show ?case
  proof (cases "\<exists>k. erc8004IdentityKey i = Inr k")
    case True
    then obtain k where k: "erc8004IdentityKey i = Inr k" by blast
    show ?thesis by (rule does_pre [OF does_apply_and_reconcile [OF k]]) (use k in \<open>auto dest: find_row\<close>)
  next
    case False
    then show ?thesis by (auto simp: does_def dest: find_row)
  qed
qed

lemma does_found:
  assumes "\<And>k p. erc8004IdentityKey i = Inr k \<Longrightarrow> does (\<lambda>s. claims_ok s \<and> p = map_of (is_identities s) k) (g p) Q"
  shows "does claims_ok (bindJ (readJ (findIdentity i)) g) Q"
proof (rule does_read, goal_cases)
  case (1 p)
  show ?case
  proof (cases "\<exists>k. erc8004IdentityKey i = Inr k")
    case True
    then obtain k where k: "erc8004IdentityKey i = Inr k" by blast
    show ?thesis by (rule does_pre [OF assms [OF k]]) (use k in \<open>auto dest: find_row\<close>)
  next
    case False
    then show ?thesis by (auto simp: does_def dest: find_row)
  qed
qed

lemma keeps_promote [keep_rules]: "keeps claims_ok (promote_observation h ob)"
  unfolding keeps_def promote_observation_def by (rule does_found, rule does_apply_and_reconcile)

lemma claims_ok_cong:
  "is_identities s' = is_identities s \<Longrightarrow> is_claims s' = is_claims s \<Longrightarrow> is_claimEvents s' = is_claimEvents s \<Longrightarrow> claims_ok s' = claims_ok s"
  by (simp add: claims_ok_def rows_ok_def events_of_def)

lemma keeps_observations [keep_rules]:
  "keeps claims_ok (repoJ (markCanonical chain registry n t))" "keeps claims_ok (repoJ (markOrphaned chain registry n t))"
  "keeps claims_ok (repoJ (appendObservation ob))" "keeps claims_ok (repoJ (recordSource so))" "keeps claims_ok (repoJ (appendReconciliation re))"
  "keeps claims_ok (repoJ (saveCheckpoint c w))"
  by (rule keeps_repo; force simp: markCanonical_def markOrphaned_def appendObservation_def recordSource_def appendReconciliation_def saveCheckpoint_def Let_def
      split: option.splits if_splits elim: claims_ok_cong [THEN iffD2, rotated 3])+

lemma upsert_ok:
  assumes "claims_ok s" "upsertIdentity i u None s = Inr (r, s')"
  shows "claims_ok s'"
proof -
  from assms(2) obtain j k where j: "normalizeErc8004Identity i = Inr j" "erc8004IdentityKey j = Inr k"
    and b: "s' = s \<or> map_of (is_identities s) k = None \<and> s' = put_identity k (new_identity j u None) s"
    using that by (cases "map_of (is_identities s) (projr (erc8004IdentityKey (projr (normalizeErc8004Identity i))))")
      (auto simp: upsertIdentity_def split: if_splits)
  have "claims_ok (put_identity k (new_identity j u None) s)" if "map_of (is_identities s) k = None"
  proof (rule claims_okI [where k = k])
    show "claims_weak k (put_identity k (new_identity j u None) s)"
      by (rule claims_weak_put [OF claims_weakI [OF assms(1)] row_ok_new [OF j]])
    have "claim_agrees None (map_of (is_claims s) k) (events_of s k)" using assms(1) that by (metis claims_ok_def)
    then show "claim_agrees (map_of (is_identities (put_identity k (new_identity j u None) s)) k)
        (map_of (is_claims (put_identity k (new_identity j u None) s)) k) (events_of (put_identity k (new_identity j u None) s) k)"
      by (auto simp: claim_agrees_def split: option.splits)
  qed
  with b assms(1) show ?thesis by auto
qed

lemma keeps_ingest [keep_rules]: "keeps claims_ok (ingestRegistryEventsInTransaction h evs chain registry v)"
proof -
  have "keeps claims_ok (repoJ (upsertIdentity i u None))" for i u by (rule keeps_repo) (rule upsert_ok)
  then show ?thesis unfolding ingestRegistryEventsInTransaction_def ingest_event_def by (intro keep_rules)
qed

lemma keeps_canonicalize [keep_rules]: "keeps claims_ok (canonicalizeThroughInTransaction h rd chain registry n tag at)"
  unfolding canonicalizeThroughInTransaction_def by (intro keep_rules)

lemma keeps_reread [keep_rules]: "keeps claims_ok (rereadFinalizedIdentitiesInTransaction h rd chain registry affected tag)"
proof -
  have "keeps claims_ok (bindJ (readJ (findIdentity i)) (\<lambda>p. bindJ (apply_and_reconcile h p i d u z) (\<lambda>_. returnJ ())))" for i d u z
    unfolding keeps_def
    by (rule does_found, rule does_call [OF does_apply_and_reconcile]) (auto intro: does_return)
  note found = this
  show ?thesis unfolding rereadFinalizedIdentitiesInTransaction_def reread_identity_def by (intro found keep_rules)
qed

lemma find_keyed_mem: "find_keyed k rs = Inr (Some r) \<Longrightarrow> r \<in> set rs \<and> erc8004IdentityKey (ix_identity r) = Inr k"
  by (induction rs) (auto split: if_splits)

lemma mapE_pairs: "mapE (\<lambda>r. bindE (f r) (\<lambda>k. Inr (k, r))) rs = Inr ks \<Longrightarrow> map snd ks = rs"
  by (induction rs arbitrary: ks) auto

lemma listIdentities_rows: "listIdentities px None s = Inr rs \<Longrightarrow> set rs = snd ` set (is_identities s)"
proof -
  assume "listIdentities px None s = Inr rs"
  then obtain krs where m: "mapE (\<lambda>r. bindE (schema (erc8004IdentityKey (ix_identity r))) (\<lambda>k. Inr (k, r))) (map snd (is_identities s)) = Inr krs"
    and rs: "rs = map snd (js_sort (\<lambda>a b. ixp_locale_compare px (fst a) (fst b)) krs)"
    unfolding listIdentities_def option.case bindE_simps bindE_eq_Inr by auto
  have "set rs = set (map snd krs)" by (simp add: rs)
  then show ?thesis by (simp add: mapE_pairs [OF m])
qed

lemma listed_row:
  assumes "rows_ok s" "listIdentities px None s = Inr rs" "find_keyed k rs = Inr (Some r)"
  shows "map_of (is_identities s) k = Some r" "erc8004IdentityKey (ix_identity r) = Inr k"
proof -
  from find_keyed_mem [OF assms(3)] listIdentities_rows [OF assms(2)] obtain j where
    j: "(j, r) \<in> set (is_identities s)" and k: "erc8004IdentityKey (ix_identity r) = Inr k" by auto
  have "row_ok j r" using assms(1) j by (auto simp: rows_ok_def)
  then show "map_of (is_identities s) k = Some r" using j k assms(1) by (auto simp: row_ok_def rows_ok_def)
  show "erc8004IdentityKey (ix_identity r) = Inr k" by fact
qed

lemma keeps_reread_orphaned [keep_rules]: "keeps claims_ok (reread_orphaned h rd n x k)"
  unfolding keeps_def reread_orphaned_def
proof (rule does_read, rule does_option, goal_cases)
  case (1 found)
  show ?case by (rule does_return) simp
next
  case (2 found r)
  show ?case
  proof (rule does_port, rule does_ok, goal_cases)
    case (1 d _ _ _)
    show ?case
    proof (cases "erc8004IdentityKey (ix_identity r) = Inr k")
      case True
      show ?thesis
        by (rule does_pre, rule does_call [OF does_apply_and_reconcile [OF True]], rule does_return, assumption)
          (use 2 in \<open>auto simp: claims_ok_def dest: listed_row\<close>)
    next
      case False
      then show ?thesis using 2 by (auto simp: does_def claims_ok_def dest: listed_row)
    qed
  qed
qed

lemma keeps_rewind [keep_rules]: "(\<And>I. keeps I now) \<Longrightarrow> keeps claims_ok (rewindAndReconcile h rd c now)"
  unfolding rewindAndReconcile_def ancestor_hash_def by (intro keep_rules)

lemma keeps_sync [keep_rules]: "keeps claims_ok (syncRegistryInTransaction h rd o')"
  unfolding syncRegistryInTransaction_def chain_head_def rewind_if_moved_def scan_window_def advance_finality_def by (intro keep_rules)

section \<open>The transactions of claims\<close>

lemma does_stale': "does (\<lambda>s. claims_weak k s \<and> J s) (repoJ (mutateClaim (stale_mutation k c now u a b v ref t p g z))) (\<lambda>_. claims_ok)"
  by (rule does_pre [OF does_stale [of _ k]]) simp_all

lemma keeps_revoke_commit [keep_rules]: "keeps claims_ok (revoke_commit i p q z now)"
  unfolding keeps_def revoke_commit_def key_of_def
  by (rule does_read, rule does_option, rule does_throw, rule does_ok, rule does_ok, rule does_pre [where I = "claims_weak k" for k],
      rule does_call [OF does_stale]) (auto intro: does_return claims_weakI)

lemma apply_row:
  assumes "applyCanonicalState i d s = Inr (r, s')" "erc8004IdentityKey i = Inr k" "map_of (is_identities s) k = Some x"
  shows "canonical_row d x = Inr r"
  by (rule apply_spec [OF assms(1)]) (use assms(2,3) in simp)

lemma keeps_revalidate_commit [keep_rules]:
  assumes "owner_of d = Inr owner"
  shows "keeps claims_ok (revalidate_commit c i d owner z)"
  unfolding keeps_def revalidate_commit_def key_of_def host_now_def
proof (rule does_ok, rule does_read, rule does_repo, rule does_ok, rule does_ok, rule does_call [where R = "\<lambda>_. claims_ok"], goal_cases)
  case (1 k existing r ref u)
  have key: "erc8004IdentityKey i = Inr k" using 1 by simp
  let ?I = "\<lambda>t. \<exists>s. (claims_ok s \<and> (Inr (getClaim k s) :: ingestion_exn + _) = Inr existing) \<and> applyCanonicalState i d s = Inr (r, t)"
  let ?b = "\<lambda>q. cl_status q = Claimed \<and> cl_claimantAddress q \<noteq> owner"
  have weak: "claims_weak k t" if "?I t" for t using that apply_weak(1) [OF _ _ key] by auto
  have ok: "claims_ok t" if i: "?I t" "\<And>q. existing = Some q \<Longrightarrow> \<not> ?b q" for t
  proof -
    from i(1) obtain s where s: "claims_ok s" "map_of (is_claims s) k = existing" "applyCanonicalState i d s = Inr (r, t)" by (auto simp: getClaim_def)
    from s(1) have a: "claim_agrees (map_of (is_identities s) k) existing (events_of s k)" unfolding s(2) [symmetric] by (simp add: claims_ok_def)
    show ?thesis
    proof (rule apply_ok [OF s(1,3) key])
      fix x assume x: "map_of (is_identities s) k = Some x" "claimStatus (ix_state x) = Claimed"
      note r = apply_row [OF s(3) key x(1)]
      from a x i(2) have "ix_ownerAddress x = owner" by (auto simp: claim_agrees_def holds_def split: option.splits)
      also have "owner = ix_ownerAddress r" using assms canonical_rowD(2) [OF r] by (simp add: owner_of_def)
      finally show "ix_ownerAddress x = ix_ownerAddress r" .
    qed
  qed
  show ?case
  proof (rule does_option)
    assume n: "existing = None"
    show "does ?I (returnJ ()) (\<lambda>_. claims_ok)" by (rule does_return, rule ok) (auto simp: n)
  next
    fix q assume q: "existing = Some q"
    show "does ?I (if ?b q then bindJ (okJ (claim_transition (cl_status q) ClaimStale)) (\<lambda>_.
           bindJ (clockJ (case ih_now (ch_host c) of None \<Rightarrow> ih_date (ch_host c) | Some c \<Rightarrow> c)) (\<lambda>now.
           bindJ (okJ (internalOperator (ch_host c))) (\<lambda>operator.
           bindJ (repoJ (mutateClaim (stale_mutation k q now (if z = ''revoked'' then ReasonRevoked else ReasonReconciliation) (ix_ownerAddress r)
             owner (ix_agentWallet r) ref (if z = ''revoked'' then EventRevoked else EventStale) operator ScopeReconcile z))) (\<lambda>_. returnJ ()))))
         else returnJ ()) (\<lambda>_. claims_ok)"
    proof (rule does_if)
      assume "\<not> ?b q"
      then show "does ?I (returnJ ()) (\<lambda>_. claims_ok)" by (intro does_return ok) (use q in auto)
    next
      assume "?b q"
      have st: "does ?I (repoJ (mutateClaim (stale_mutation k q now u' a b v ref t p g y))) (\<lambda>_. claims_ok)" for now u' a b v ref t p g y
        by (rule does_pre [OF does_stale [of _ k]]) (auto intro: weak)
      show "does ?I (bindJ (okJ (claim_transition (cl_status q) ClaimStale)) (\<lambda>_.
           bindJ (clockJ (case ih_now (ch_host c) of None \<Rightarrow> ih_date (ch_host c) | Some c \<Rightarrow> c)) (\<lambda>now.
           bindJ (okJ (internalOperator (ch_host c))) (\<lambda>operator.
           bindJ (repoJ (mutateClaim (stale_mutation k q now (if z = ''revoked'' then ReasonRevoked else ReasonReconciliation) (ix_ownerAddress r)
             owner (ix_agentWallet r) ref (if z = ''revoked'' then EventRevoked else EventStale) operator ScopeReconcile z))) (\<lambda>_. returnJ ()))))) (\<lambda>_. claims_ok)"
        by (rule does_ok, rule does_clock, rule does_ok, rule does_call [OF st], rule does_return)
    qed
  qed
next
  case (2 k existing r ref u x)
  show ?case by (rule does_read, rule does_return) simp
qed

lemma claim_mutation_simps [simp]:
  "cm_identityKey (claim_mutation_of p prior d ref r now) = pc_identityKey p"
  "cl_status (cm_claim (claim_mutation_of p prior d ref r now)) = Claimed"
  "cm_actor (claim_mutation_of p prior d ref r now) = OwnerActor (pc_ownerAddress p) (pc_proofDigest p)"
  by (simp_all add: claim_mutation_of_def)

text \<open>What a committed claim has done: the owner read in the transaction is the one that signed, and the mutation ended with the claim.\<close>

lemma does_claim_commit:
  assumes "erc8004IdentityKey (pc_identity p) = Inr (pc_identityKey p)"
  shows "does claims_ok (claim_commit c p) (\<lambda>r t. claims_ok t \<and> map_of (is_identities t) (pc_identityKey p) = Some r
     \<and> claimStatus (ix_state r) = Claimed \<and> ix_ownerAddress r = Some (pc_ownerAddress p)
     \<and> ce_proofDigest (last (events_of t (pc_identityKey p))) = Some (pc_proofDigest p)
     \<and> (\<exists>d e e'. ch_read c (pc_identity p) e = (Inr d, e') \<and> owner_of d = Inr (Some (pc_ownerAddress p))))"
    (is "does _ _ ?Q")
  unfolding claim_commit_def Let_def host_now_def
proof (rule does_read, rule does_read, rule does_option, rule does_throw, rule does_port, rule does_ok, rule does_ok, rule does_ok,
    rule does_unless, rule does_unless, rule does_repo, rule does_read, rule does_option, rule does_throw, rule does_unless, rule does_ok,
    rule does_unless, rule does_ok, rule does_clock, rule does_repo, rule does_read, rule does_return, goal_cases)
  case (1 prior before b d e e' u ref owner r stored t v w now q final s')
  let ?k = "pc_identityKey p" and ?m = "claim_mutation_of p prior d ref r now"
  from 1(13) obtain s s1 where s: "claims_ok s" "applyCanonicalState (pc_identity p) d s = Inr (r, s1)"
    and m: "mutateClaim ?m s1 = Inr (q, s')" and f: "findIdentity (pc_identity p) s' = Inr final" by auto
  note d = mutateClaimD [OF m]
  have st: "cl_status q = Claimed" by (simp add: d(1))
  have "claims_ok s'"
    by (rule mutate_ok [OF _ m]) (use apply_weak(1) [OF s assms] st in auto)
  moreover from d(6) obtain x where x: "map_of (is_identities s1) ?k = Some x"
    "actor_allowed (ix_ownerAddress x) ?m = Inr ()"
    "is_identities s' = AList.update ?k (x\<lparr>ix_state := (ix_state x)\<lparr>claimStatus := cl_status q\<rparr>, ix_ownerClaimVerifiedAt := cl_verifiedAt q\<rparr>) (is_identities s1)"
    by auto
  from find_row [OF f] assms x(3) have fin:
    "final = Some (x\<lparr>ix_state := (ix_state x)\<lparr>claimStatus := cl_status q\<rparr>, ix_ownerClaimVerifiedAt := cl_verifiedAt q\<rparr>)"
    "map_of (is_identities s') ?k = final" by (auto simp: update_conv')
  moreover have "ix_ownerAddress x = Some (pc_ownerAddress p)"
    using actor_owner_allowed [OF x(2)] by (auto simp: claim_mutation_of_def)
  moreover have "events_of s' ?k = events_of s1 ?k @ [cm_event ?m]" using d(8) by (simp add: events_of_def update_conv')
  then have "ce_proofDigest (last (events_of s' ?k)) = Some (pc_proofDigest p)" by (simp add: claim_mutation_of_def)
  ultimately show ?case using st 1 by auto
qed

lemma prepared_key: "claim_prepare c i p x (s, e) = (Inr q, w) \<Longrightarrow> erc8004IdentityKey (pc_identity q) = Inr (pc_identityKey q)"
proof -
  have "does (\<lambda>_. True) (claim_prepare c i p x) (\<lambda>q _. erc8004IdentityKey (pc_identity q) = Inr (pc_identityKey q))"
    unfolding claim_prepare_def key_of_def host_now_def
    by (rule does_ok, rule does_ok, rule does_ok, rule does_ok, rule does_ok, rule does_read, rule does_unless, rule does_port, rule does_ok, rule does_ok,
        rule does_option, rule does_throw, rule does_unless, rule does_clock, rule does_ok, rule does_call [where R = "\<lambda>_ _. True"], simp add: does_def,
        rule does_ok, rule does_return) simp
  then show "claim_prepare c i p x (s, e) = (Inr q, w) \<Longrightarrow> ?thesis" by (cases w) (auto dest: doesD)
qed

end
