(* ===== verification/Index_Finality.thy ===== *)
theory Index_Finality
  imports Index_Invariant
begin

text \<open>
  What a synchronisation does to the canonical observations and to the checkpoint: it adds canonical observations up to the new finalised block, each
  on a block hash that the chain provider confirmed, and takes none away, since a reorganisation rewinds to a block at or above the finalised one.
\<close>

section \<open>Canonical observations\<close>

definition canonical_of :: "index_store \<Rightarrow> ((string \<times> int) \<times> chain_observation) set" where
  "canonical_of s = {p \<in> set (is_observations s). co_state (snd p) = Canonical}"

lemma canonical_of_cong: "is_observations s' = is_observations s \<Longrightarrow> canonical_of s' = canonical_of s"
  by (simp add: canonical_of_def)

text \<open>The provider answered with this block hash.\<close>

definition confirmed :: "'e chain_reader \<Rightarrow> chain_observation \<Rightarrow> bool" where
  "confirmed rd ob \<longleftrightarrow> (\<exists>e e' t. rd_hash rd (co_blockNumber ob) e = (Inr t, e') \<and> hash_agrees t (co_blockHash ob))"

definition same_canonical :: "index_store \<Rightarrow> index_store \<Rightarrow> bool" where
  "same_canonical s0 s \<longleftrightarrow> is_checkpoints s = is_checkpoints s0 \<and> canonical_of s = canonical_of s0"

definition promoted_to :: "'e chain_reader \<Rightarrow> int \<Rightarrow> string \<Rightarrow> int \<Rightarrow> index_store \<Rightarrow> index_store \<Rightarrow> bool" where
  "promoted_to rd chain registry through s0 s \<longleftrightarrow> is_checkpoints s = is_checkpoints s0 \<and> canonical_of s0 \<subseteq> canonical_of s
     \<and> (\<forall>p \<in> canonical_of s - canonical_of s0. on_registry chain registry (snd p) \<and> co_blockNumber (snd p) \<le> through \<and> confirmed rd (snd p))"

text \<open>The contract of a property that speaks of the observations and checkpoints alone: whatever writes identities and claims keeps it.\<close>

locale chain_property =
  fixes I :: "index_store \<Rightarrow> bool"
  assumes chain_part: "is_observations s' = is_observations s \<Longrightarrow> is_checkpoints s' = is_checkpoints s \<Longrightarrow> I s \<Longrightarrow> I s'"
begin

lemma keeps_identity_part:
  "keeps I (repoJ (upsertIdentity i u d))" "keeps I (repoJ (applyCanonicalState i x))" "keeps I (repoJ (mutateClaim m))"
  "keeps I (repoJ (recordSource so))" "keeps I (repoJ (appendReconciliation re))"
proof -
  have upsert: "is_observations s' = is_observations s \<and> is_checkpoints s' = is_checkpoints s" if "upsertIdentity i u d s = Inr (r, s')" for i u d s s' r
    using that by (auto simp: upsertIdentity_def overwrite_identity_def put_identity_def split: option.splits if_splits)
  show "keeps I (repoJ (upsertIdentity i u d))" by (rule keeps_repo) (blast dest: upsert intro: chain_part)
  have "is_observations s' = is_observations s \<and> is_checkpoints s' = is_checkpoints s" if "applyCanonicalState i x s = Inr (r, s')" for i x s s' r
    by (rule apply_spec [OF that]) (simp add: put_identity_def)
  then show "keeps I (repoJ (applyCanonicalState i x))" by (intro keeps_repo) (blast intro: chain_part)
  show "keeps I (repoJ (mutateClaim m))" by (rule keeps_repo) (blast dest: mutateClaimD(9,10) intro: chain_part)
  show "keeps I (repoJ (recordSource so))"
    by (rule keeps_repo) (erule chain_part [rotated 2]; simp add: recordSource_def Let_def; elim conjE; simp)
  show "keeps I (repoJ (appendReconciliation re))"
    by (rule keeps_repo) (erule chain_part [rotated 2]; auto simp: appendReconciliation_def)
qed

lemma keeps_apply_and_reconcile: "keeps I (apply_and_reconcile h p i d u z)"
  unfolding apply_and_reconcile_def markClaimStale_def by (intro keep_rules keeps_identity_part)

lemma keeps_promote_part: "keeps I (promote_observation h ob)"
  unfolding promote_observation_def by (intro keep_rules keeps_apply_and_reconcile)

lemma keeps_reread_part:
  "keeps I (rereadFinalizedIdentitiesInTransaction h rd chain registry affected tag)" "keeps I (reread_orphaned h rd n x k)"
  "keeps I (reconcile_commit h i d z)"
  unfolding rereadFinalizedIdentitiesInTransaction_def reread_identity_def reread_orphaned_def reconcile_commit_def
  by (intro keep_rules keeps_apply_and_reconcile)+

lemma keeps_claims_part: "keeps I (claim_commit c p)" "keeps I (revalidate_commit c i d w z)" "keeps I (revoke_commit i q r z t)"
  unfolding claim_commit_def revalidate_commit_def revoke_commit_def by (intro keep_rules keeps_identity_part)+

end

interpretation same_canonical: chain_property "same_canonical s0" for s0
proof
  fix s s' :: index_store
  assume "is_observations s' = is_observations s" "is_checkpoints s' = is_checkpoints s" "same_canonical s0 s"
  then show "same_canonical s0 s'" using canonical_of_cong [of s' s] by (simp only: same_canonical_def)
qed

interpretation promoted: chain_property "promoted_to rd chain registry n s0" for rd chain registry n s0
proof
  fix s s' :: index_store
  assume "is_observations s' = is_observations s" "is_checkpoints s' = is_checkpoints s" "promoted_to rd chain registry n s0 s"
  moreover from this(1) have "canonical_of s' = canonical_of s" by (rule canonical_of_cong)
  ultimately show "promoted_to rd chain registry n s0 s'" unfolding promoted_to_def by argo
qed

section \<open>Appending and orphaning\<close>

lemma registryEventToObservation_state: "registryEventToObservation px t e = Inr ob \<Longrightarrow> co_state ob = Provisional"
  by (auto simp: registryEventToObservation_def)

lemma AList_update_new: "map_of al k = None \<Longrightarrow> AList.update k v al = al @ [(k, v)]"
  by (induction al) (auto split: if_splits)

lemma append_canonical:
  assumes "appendObservation ob s = Inr (r, s')" "co_state ob = Provisional"
  shows "canonical_of s' = canonical_of s" "is_checkpoints s' = is_checkpoints s"
  using assms by (auto simp: appendObservation_def Let_def AList_update_new canonical_of_def split: option.splits if_splits)

lemma keeps_same_ingest [keep_rules]: "keeps (same_canonical s0) (ingestRegistryEventsInTransaction h evs chain registry v)"
proof -
  have a: "keeps (same_canonical s0) (repoJ (appendObservation ob))" if "co_state ob = Provisional" for ob
    by (rule keeps_repo) (use that append_canonical in \<open>auto simp: same_canonical_def\<close>)
  have "keeps (same_canonical s0) (ingest_event h chain g v ev)" for g ev
    unfolding keeps_def ingest_event_def dateJ_def
  proof (rule does_clock, rule does_ok, rule does_unless, rule does_clock, rule does_ok, fold keeps_def, goal_cases)
    case (1 t n u ob)
    then have "co_state ob = Provisional" by (intro registryEventToObservation_state)
    then show ?case by (intro keep_rules same_canonical.keeps_identity_part a)
  qed
  then show ?thesis unfolding ingestRegistryEventsInTransaction_def by (intro keep_rules)
qed

definition finality_ok :: "index_store \<Rightarrow> bool" where
  "finality_ok s \<longleftrightarrow> (\<forall>p \<in> canonical_of s. \<exists>c. map_of (is_checkpoints s) (id_chainId (co_identity (snd p)), id_registry (co_identity (snd p))) = Some c
     \<and> co_blockNumber (snd p) \<le> cc_lastFinalizedBlock c)"

definition checkpoints_keyed :: "index_store \<Rightarrow> bool" where
  "checkpoints_keyed s \<longleftrightarrow> (\<forall>k c. map_of (is_checkpoints s) k = Some c \<longrightarrow> k = (cc_chainId c, cc_identityRegistry c)
     \<and> normalizeEvmAddress (cc_identityRegistry c) = Inr (cc_identityRegistry c) \<and> cc_lastFinalizedBlock c \<le> cc_lastScannedBlock c)"

lemma orphan_canonical:
  assumes "finality_ok s0" "checkpoints_keyed s0" "map_of (is_checkpoints s0) (chain, registry) = Some c" "cc_lastFinalizedBlock c < from"
    and "same_canonical s0 s" "markOrphaned (cc_chainId c) (cc_identityRegistry c) from now s = Inr (ks, s')"
  shows "same_canonical s0 s'"
proof -
  have k: "cc_chainId c = chain" "cc_identityRegistry c = registry" "normalizeEvmAddress registry = Inr registry"
    using assms(2,3) by (auto simp: checkpoints_keyed_def)
  let ?f = "\<lambda>ob. if orphanable chain registry from ob then orphan now ob else ob"
  have s': "is_observations s' = map (\<lambda>(k, ob). (k, ?f ob)) (is_observations s)" "is_checkpoints s' = is_checkpoints s"
    using assms(6) k by (auto simp: markOrphaned_def)
  have c: "canonical_of s = canonical_of s0" "is_checkpoints s = is_checkpoints s0" using assms(5) by (auto simp: same_canonical_def)
  have safe: "\<not> orphanable chain registry from (snd p)" if "p \<in> canonical_of s" for p
    using that assms(1,3,4) unfolding c(1) finality_ok_def orphanable_def on_registry_def by fastforce
  have "canonical_of s' = canonical_of s"
  proof
    show "canonical_of s' \<subseteq> canonical_of s"
      by (auto simp: canonical_of_def s'(1) orphan_def split: if_splits)
    show "canonical_of s \<subseteq> canonical_of s'"
    proof
      fix p assume p: "p \<in> canonical_of s"
      then have "(\<lambda>(k, ob). (k, ?f ob)) p = p" using safe by (cases p) auto
      with p show "p \<in> canonical_of s'" by (force simp: canonical_of_def s'(1) image_iff)
    qed
  qed
  with c s'(2) show ?thesis by (simp add: same_canonical_def)
qed

section \<open>Rewinding and promoting\<close>

lemma does_rewind:
  assumes "finality_ok s0" "checkpoints_keyed s0" "map_of (is_checkpoints s0) (chain, registry) = Some c" "\<And>I. keeps I now"
  shows "does (same_canonical s0) (rewindAndReconcile h rd c now) (\<lambda>w s. same_canonical s0 s \<and> cc_lastFinalizedBlock c \<le> cc_lastScannedBlock (rw_checkpoint w)
     \<and> cc_lastScannedBlock (rw_checkpoint w) < cc_lastScannedBlock c \<and> cc_lastFinalizedBlock (rw_checkpoint w) = cc_lastFinalizedBlock c
     \<and> vr_commonAncestorBlock (rw_verifiedRewind w) = cc_lastScannedBlock (rw_checkpoint w))"
  unfolding rewindAndReconcile_def
proof (rule does_kept [OF assms(4)], rule does_call [where R = "\<lambda>nx s. same_canonical s0 s \<and> cc_lastFinalizedBlock c \<le> fst nx \<and> fst nx < cc_lastScannedBlock c"], goal_cases)
  case (1 started)
  show ?case unfolding ancestor_hash_def
    by (rule does_port, rule does_unless, rule does_unless, rule does_port, rule does_option, rule does_throw, rule does_unless, rule does_return) auto
next
  case (2 started nx)
  obtain n x where nx: "nx = (n, x)" by (cases nx)
  show ?case
  proof (cases "cc_lastFinalizedBlock c \<le> n \<and> n < cc_lastScannedBlock c")
    case True
    have k: "keeps (same_canonical s0) (forJ (reread_orphaned h rd n x) ks)" for ks by (intro keep_rules same_canonical.keeps_reread_part)
    have r: "keeps (same_canonical s0) (repoJ (appendReconciliation re))" for re by (rule same_canonical.keeps_identity_part)
    show ?thesis unfolding nx prod.case
    proof (rule does_pre [where I = "same_canonical s0"], rule does_repo, rule does_pre [where I = "same_canonical s0"],
        rule does_kept [OF k], rule does_kept [OF assms(4)], rule does_kept [OF r], rule does_read, rule does_return, goal_cases)
      case (2 ks t)
      from 2 obtain s where s: "same_canonical s0 s" "markOrphaned (cc_chainId c) (cc_identityRegistry c) (n + 1) started s = Inr (ks, t)" by blast
      have "cc_lastFinalizedBlock c < n + 1" using True by simp
      then show ?case by (rule orphan_canonical [OF assms(1-3) _ s])
    qed (use True in auto)
  qed (auto simp: does_def nx)
qed

lemma bindJ_assoc: "bindJ (bindJ f g) h = bindJ f (\<lambda>x. bindJ (g x) h)"
  by (rule ext) (simp add: bindJ_def split: prod.splits sum.splits)

lemma bindJ_return: "bindJ (returnJ x) f = f x"
  by (rule ext) (simp add: bindJ_def returnJ_def okJ_def)

lemma does_trusted:
  assumes "\<forall>(n, t) \<in> set checked. \<exists>e e'. rd_hash rd n e = (Inr t, e')"
    and "\<forall>ob \<in> set obs. confirmed rd ob \<Longrightarrow> does I (g ()) Q"
  shows "does I (bindJ (assertTrustedObservationHashes rd checked obs) g) Q"
  using assms
proof (induction obs arbitrary: checked)
  case (Cons ob obs)
  let ?read = "case map_of checked (co_blockNumber ob) of Some t \<Rightarrow> returnJ t
       | None \<Rightarrow> catchJ (portJ (rd_hash rd (co_blockNumber ob))) (ingestion_error REORG_RECONCILIATION_REQUIRED)"
  have step: "does I ?read (\<lambda>t s. I s \<and> (\<exists>e e'. rd_hash rd (co_blockNumber ob) e = (Inr t, e')))"
  proof (cases "map_of checked (co_blockNumber ob)")
    case None
    have "does I (portJ (rd_hash rd (co_blockNumber ob))) (\<lambda>t s. I s \<and> (\<exists>e e'. rd_hash rd (co_blockNumber ob) e = (Inr t, e')))"
      by (rule doesI) (simp add: portJ_def split: prod.splits, blast)
    then show ?thesis by (simp add: None does_catch)
  next
    case (Some t)
    then show ?thesis using Cons.prems(1) by (auto dest!: map_of_SomeD intro!: does_return)
  qed
  have rest: "does (\<lambda>s. I s \<and> (\<exists>e e'. rd_hash rd (co_blockNumber ob) e = (Inr t, e')))
      (bindJ (bindJ (unlessJ (ingestion_error REORG_RECONCILIATION_REQUIRED) (hash_agrees t (co_blockHash ob))) (\<lambda>_.
        assertTrustedObservationHashes rd ((co_blockNumber ob, t) # checked) obs)) g) Q" for t
  proof (cases "(\<exists>e e'. rd_hash rd (co_blockNumber ob) e = (Inr t, e')) \<and> hash_agrees t (co_blockHash ob)")
    case True
    then have c: "confirmed rd ob" by (auto simp: confirmed_def)
    show ?thesis unfolding bindJ_assoc
      by (rule does_pre [where I = I], rule does_unless, rule Cons.IH) (use True c Cons.prems in auto)
  next
    case False
    then show ?thesis by (auto simp: does_def bindJ_assoc) (auto simp: bindJ_def unlessJ_def okJ_def split: prod.splits sum.splits if_splits)
  qed
  show ?case unfolding assertTrustedObservationHashes.simps bindJ_assoc by (rule does_call [OF step]) (use rest in \<open>simp add: bindJ_assoc\<close>)
qed (simp add: bindJ_return)

lemma markCanonical_promotes:
  assumes "markCanonical chain registry through now s = Inr (obs, s')" "normalizeEvmAddress registry = Inr registry" "same_canonical s0 s"
    and "\<forall>ob \<in> set obs. confirmed rd ob"
  shows "promoted_to rd chain registry through s0 s'"
proof -
  let ?p = "promotable chain registry through"
  have o': "is_observations s' = map (\<lambda>(k, ob). (k, if ?p ob then canonicalize now ob else ob)) (is_observations s)" "is_checkpoints s' = is_checkpoints s"
    and obs: "obs = js_sort position_le (map (canonicalize now) (filter ?p (map snd (is_observations s))))"
    using assms(1,2) by (auto simp: markCanonical_def)
  have c: "canonical_of s = canonical_of s0" "is_checkpoints s = is_checkpoints s0" using assms(3) by (auto simp: same_canonical_def)
  have sub: "canonical_of s \<subseteq> canonical_of s'"
    by (force simp: canonical_of_def o'(1) promotable_def image_iff)
  have new: "on_registry chain registry (snd p) \<and> co_blockNumber (snd p) \<le> through \<and> confirmed rd (snd p)" if p: "p \<in> canonical_of s' - canonical_of s" for p
  proof -
    from p obtain k ob where ob: "(k, ob) \<in> set (is_observations s)" "p = (k, if ?p ob then canonicalize now ob else ob)" "co_state (snd p) = Canonical"
      by (auto simp: canonical_of_def o'(1))
    then have q: "?p ob" using p by (auto simp: canonical_of_def split: if_splits)
    then have "snd p \<in> set obs" using ob by (simp add: obs) force
    with q ob(2) assms(4) show ?thesis by (auto simp: promotable_def on_registry_def canonicalize_def)
  qed
  show ?thesis using sub new c o'(2) by (auto simp: promoted_to_def)
qed

lemma does_canonicalize:
  assumes "normalizeEvmAddress registry = Inr registry"
  shows "does (same_canonical s0) (canonicalizeThroughInTransaction h rd chain registry through tag at) (\<lambda>_. promoted_to rd chain registry through s0)"
  unfolding canonicalizeThroughInTransaction_def
proof (rule does_ok, rule does_ok, rule does_unless, rule does_kept [OF keeps_block_hash], rule does_read, rule does_pre [where I = "same_canonical s0"],
    rule does_trusted, simp, rule does_kept, goal_cases)
  case (1 g t candidates)
  show ?case by (intro keep_rules)
next
  case (2 g t candidates now)
  then have g: "g = registry" using assms by simp
  show ?case
  proof (rule does_repo, rule does_kept [OF keeps_block_hash], rule does_trusted, simp, goal_cases)
    case (1 obs u)
    have k: "keeps (promoted_to rd chain registry through s0) (forJ (promote_observation h) xs)" for xs
      by (intro keep_rules promoted.keeps_promote_part)
    show ?case
      by (rule does_pre [where I = "promoted_to rd chain registry through s0"], rule does_kept [OF keeps_simple(2)], rule does_kept [OF k], rule does_return, assumption)
        (use markCanonical_promotes [OF _ assms _ 1] g in auto)
  qed
qed simp

section \<open>Checkpoints\<close>

lemma normalizeRegistryCheckpointD:
  assumes "normalizeRegistryCheckpoint c = Inr n"
  shows "normalizeRegistryCheckpoint n = Inr n" "cc_chainId n = cc_chainId c" "normalizeEvmAddress (cc_identityRegistry c) = Inr (cc_identityRegistry n)"
    "cc_lastScannedBlock n = cc_lastScannedBlock c" "cc_lastFinalizedBlock n = cc_lastFinalizedBlock c"
    "cc_lastScannedBlockHash n = cc_lastScannedBlockHash c" "cc_cursorVersion n = cc_cursorVersion c" "cc_lastFinalizedBlock n \<le> cc_lastScannedBlock n"
proof -
  from assms obtain g where g: "normalizeEvmAddress (cc_identityRegistry c) = Inr g"
    and n: "n = c\<lparr>cc_identityRegistry := g, cc_indexerVersion := js_trim (cc_indexerVersion c)\<rparr>"
    by (auto simp: normalizeRegistryCheckpoint_def)
  show "cc_chainId n = cc_chainId c" "normalizeEvmAddress (cc_identityRegistry c) = Inr (cc_identityRegistry n)"
    "cc_lastScannedBlock n = cc_lastScannedBlock c" "cc_lastFinalizedBlock n = cc_lastFinalizedBlock c"
    "cc_lastScannedBlockHash n = cc_lastScannedBlockHash c" "cc_cursorVersion n = cc_cursorVersion c" by (simp_all add: n g)
  show "cc_lastFinalizedBlock n \<le> cc_lastScannedBlock n" using assms by (auto simp: normalizeRegistryCheckpoint_def n)
  show "normalizeRegistryCheckpoint n = Inr n" using assms normalizeEvmAddress_idem [OF g] by (auto simp: normalizeRegistryCheckpoint_def n)
qed

text \<open>The checkpoint \<open>n\<close> may follow the stored one.\<close>

definition follows :: "chain_checkpoint option \<Rightarrow> verified_rewind option \<Rightarrow> chain_checkpoint \<Rightarrow> bool" where
  "follows old rewind n \<longleftrightarrow> (case old of None \<Rightarrow> cc_cursorVersion n = 1
     | Some c \<Rightarrow> cc_cursorVersion n = cc_cursorVersion c + 1 \<and> cc_lastFinalizedBlock c \<le> cc_lastFinalizedBlock n
         \<and> (cc_lastScannedBlock n < cc_lastScannedBlock c \<longrightarrow> (\<exists>v. rewind = Some v \<and> vr_commonAncestorBlock v = cc_lastScannedBlock n))
         \<and> (cc_lastScannedBlock n = cc_lastScannedBlock c \<longrightarrow> js_lower (cc_lastScannedBlockHash n) = js_lower (cc_lastScannedBlockHash c)))"

definition synced :: "'e chain_reader \<Rightarrow> int \<Rightarrow> string \<Rightarrow> verified_rewind option \<Rightarrow> index_store \<Rightarrow> chain_checkpoint \<Rightarrow> index_store \<Rightarrow> bool" where
  "synced rd chain registry rewind s0 n s \<longleftrightarrow> is_checkpoints s = AList.update (chain, registry) n (is_checkpoints s0)
     \<and> cc_chainId n = chain \<and> cc_identityRegistry n = registry \<and> cc_lastFinalizedBlock n \<le> cc_lastScannedBlock n
     \<and> follows (map_of (is_checkpoints s0) (chain, registry)) rewind n \<and> canonical_of s0 \<subseteq> canonical_of s
     \<and> (\<forall>p \<in> canonical_of s - canonical_of s0. on_registry chain registry (snd p) \<and> co_blockNumber (snd p) \<le> cc_lastFinalizedBlock n \<and> confirmed rd (snd p))"

lemma saveCheckpoint_synced:
  assumes "normalizeRegistryCheckpoint n = Inr n" "cc_chainId n = chain" "cc_identityRegistry n = registry" "normalizeEvmAddress registry = Inr registry"
    and "promoted_to rd chain registry (cc_lastFinalizedBlock n) s0 s" "saveCheckpoint n w s = Inr (x, s')"
    and "case map_of (is_checkpoints s0) (chain, registry) of None \<Rightarrow> cc_cursorVersion n = 1
      | Some c \<Rightarrow> cc_cursorVersion n = cc_cursorVersion c + 1 \<and> cc_lastFinalizedBlock c \<le> cc_lastFinalizedBlock n"
  shows "synced rd chain registry (wc_verifiedRewind w) s0 n s'"
proof -
  let ?k = "(chain, registry)"
  have c: "is_checkpoints s = is_checkpoints s0" and p: "canonical_of s0 \<subseteq> canonical_of s"
    "\<forall>p \<in> canonical_of s - canonical_of s0. on_registry chain registry (snd p) \<and> co_blockNumber (snd p) \<le> cc_lastFinalizedBlock n \<and> confirmed rd (snd p)"
    using assms(5) by (auto simp: promoted_to_def)
  have s': "s' = s\<lparr>is_checkpoints := AList.update ?k n (is_checkpoints s)\<rparr>"
    and ok: "(case map_of (is_checkpoints s) ?k of None \<Rightarrow> first_checkpoint n w | Some old \<Rightarrow> next_checkpoint old n w) = Inr ()"
    using assms(6) unfolding saveCheckpoint_def by (auto simp: assms(1-4) checkpointKey_def)
  have f: "follows (map_of (is_checkpoints s0) ?k) (wc_verifiedRewind w) n"
  proof (cases "map_of (is_checkpoints s0) ?k")
    case None
    then show ?thesis using assms(7) by (simp add: follows_def)
  next
    case (Some old)
    then have n: "next_checkpoint old n w = Inr ()" using ok c by simp
    then have "cc_lastScannedBlock n < cc_lastScannedBlock old \<longrightarrow> rewind_matches old n (wc_verifiedRewind w)"
      "cc_lastScannedBlock n = cc_lastScannedBlock old \<longrightarrow> cc_lastFinalizedBlock old \<le> cc_lastFinalizedBlock n
         \<longrightarrow> sameNullableHash (Some (cc_lastScannedBlockHash n)) (Some (cc_lastScannedBlockHash old))"
      by (auto simp: next_checkpoint_def checkpoint_conflict_def split: if_splits)
    then show ?thesis using Some assms(7) by (auto simp: follows_def rewind_matches_def sameNullableHash_def split: option.splits)
  qed
  have "canonical_of s' = canonical_of s" by (rule canonical_of_cong) (simp add: s')
  with f p c s' normalizeRegistryCheckpointD(8) [OF assms(1)] assms(2,3) show ?thesis by (simp add: synced_def)
qed

lemma does_advance:
  assumes "normalizeEvmAddress registry = Inr registry" "persisted = map_of (is_checkpoints s0) (sy_chainId o', registry)"
  shows "does (same_canonical s0) (advance_finality h rd o' registry version finalized tag persisted cp rewind scanned affected)
    (\<lambda>pn s. synced rd (sy_chainId o') registry rewind s0 (snd pn) s \<and> cc_lastScannedBlock (snd pn) = scanned)"
  unfolding advance_finality_def Let_def
proof (rule does_unless, rule does_port, rule does_port, goal_cases)
  case (1 sh _ _ fh _ _)
  let ?finality = "min finalized scanned"
  show ?case
  proof (cases "sh = None \<or> fh = None")
    case True
    then show ?thesis by (auto simp: does_throw split: option.split)
  next
    case False
    then obtain a b where ab: "sh = Some a" "fh = Some b" by auto
    let ?I = "promoted_to rd (sy_chainId o') registry ?finality s0"
    have k: "keeps ?I (case tag of None \<Rightarrow> returnJ () | Some t \<Rightarrow> rereadFinalizedIdentitiesInTransaction h rd (sy_chainId o') registry affected t)"
      by (intro keep_rules promoted.keeps_reread_part)
    show ?thesis unfolding ab prod.case option.case
    proof (rule does_unless, rule does_kept [OF keeps_sync_clock], rule does_call [OF does_canonicalize [OF assms(1)]], rule does_kept [OF k],
        rule does_ok, rule does_repo, rule does_return, goal_cases)
      case (1 now promoted u n x t)
      note n = normalizeRegistryCheckpointD [OF 1(2)]
      from 1(3) obtain s where s: "?I s" and sv: "saveCheckpoint n \<lparr>wc_expectedCursorVersion = map_option cc_cursorVersion persisted,
           wc_expectedLastScannedBlockHash = map_option cc_lastScannedBlockHash persisted,
           wc_previousScannedBlock = map_option cc_lastScannedBlock persisted,
           wc_previousScannedBlockHash = map_option cc_lastScannedBlockHash persisted, wc_verifiedRewind = rewind\<rparr> s = Inr (x, t)" by blast
      have ch: "cc_chainId n = sy_chainId o'" and reg: "cc_identityRegistry n = registry" using n(2,3) assms(1) by simp_all
      have pr: "promoted_to rd (sy_chainId o') registry (cc_lastFinalizedBlock n) s0 s" using s n(5) by simp
      have ver: "case map_of (is_checkpoints s0) (sy_chainId o', registry) of None \<Rightarrow> cc_cursorVersion n = 1
          | Some c \<Rightarrow> cc_cursorVersion n = cc_cursorVersion c + 1 \<and> cc_lastFinalizedBlock c \<le> cc_lastFinalizedBlock n"
        using \<open>case persisted of None \<Rightarrow> True | Some c \<Rightarrow> cc_lastFinalizedBlock c \<le> ?finality\<close> n(5,7) unfolding assms(2)
        by (simp split: option.splits)
      have "synced rd (sy_chainId o') registry rewind s0 n t"
        using saveCheckpoint_synced [OF n(1) ch reg assms(1) pr sv ver] by simp
      then show ?case using n(4) by simp
    qed
  qed
qed

section \<open>Synchronisation\<close>

definition window_of :: "'e sync_options \<Rightarrow> chain_checkpoint option \<Rightarrow> sync_result \<Rightarrow> chain_checkpoint \<Rightarrow> bool" where
  "window_of o' cp res n \<longleftrightarrow> (case sn_scannedThroughBlock res of
     None \<Rightarrow> Some (cc_lastScannedBlock n) = map_option cc_lastScannedBlock cp
   | Some t \<Rightarrow> cc_lastScannedBlock n = t \<and> (\<exists>f. sn_scannedFromBlock res = Some f \<and> f \<le> t
       \<and> f = (case cp of None \<Rightarrow> sy_startBlock o' | Some c \<Rightarrow> max (sy_startBlock o') (cc_lastScannedBlock c + 1))))"

text \<open>What a synchronisation that returned has done to the chain part of the store.\<close>

definition sync_outcome :: "'e chain_reader \<Rightarrow> 'e sync_options \<Rightarrow> string \<Rightarrow> index_store \<Rightarrow> sync_result \<Rightarrow> index_store \<Rightarrow> bool" where
  "sync_outcome rd o' registry s0 res s \<longleftrightarrow> (let persisted = map_of (is_checkpoints s0) (sy_chainId o', registry) in
     case sn_checkpoint res of None \<Rightarrow> same_canonical s0 s \<and> persisted = None
     | Some n \<Rightarrow> if sn_reorgRewound res
         then (\<exists>v c w. persisted = Some c \<and> synced rd (sy_chainId o') registry (Some v) s0 n s \<and> vr_commonAncestorBlock v = cc_lastScannedBlock w
           \<and> cc_lastScannedBlock w < cc_lastScannedBlock c \<and> cc_lastFinalizedBlock c \<le> cc_lastScannedBlock w \<and> window_of o' (Some w) res n)
         else synced rd (sy_chainId o') registry None s0 n s \<and> window_of o' persisted res n)"

lemma sync_outcome_rewound:
  assumes "map_of (is_checkpoints s0) (sy_chainId o', registry) = Some c" "synced rd (sy_chainId o') registry (Some v) s0 n s"
    and "vr_commonAncestorBlock v = cc_lastScannedBlock w" "cc_lastScannedBlock w < cc_lastScannedBlock c" "cc_lastFinalizedBlock c \<le> cc_lastScannedBlock w"
    and "window_of o' (Some w) res n" "sn_checkpoint res = Some n" "sn_reorgRewound res"
  shows "sync_outcome rd o' registry s0 res s"
  using assms by (auto simp: sync_outcome_def)

lemma does_rewind_if_moved:
  assumes "finality_ok s0" "checkpoints_keyed s0" "persisted = map_of (is_checkpoints s0) (chain, registry)"
  shows "does (same_canonical s0) (rewind_if_moved h rd o' persisted) (\<lambda>r s. same_canonical s0 s \<and> (\<forall>w. r = Some w \<longrightarrow> (\<exists>c. persisted = Some c
     \<and> cc_lastFinalizedBlock c \<le> cc_lastScannedBlock (rw_checkpoint w) \<and> cc_lastScannedBlock (rw_checkpoint w) < cc_lastScannedBlock c
     \<and> vr_commonAncestorBlock (rw_verifiedRewind w) = cc_lastScannedBlock (rw_checkpoint w))))"
  unfolding rewind_if_moved_def
proof (rule does_option, goal_cases)
  case 1
  show ?case by (rule does_return) simp
next
  case (2 c)
  have r: "does (same_canonical s0) (rewindAndReconcile h rd c (sync_clock h o')) (\<lambda>w s. same_canonical s0 s
     \<and> cc_lastFinalizedBlock c \<le> cc_lastScannedBlock (rw_checkpoint w)
     \<and> cc_lastScannedBlock (rw_checkpoint w) < cc_lastScannedBlock c \<and> cc_lastFinalizedBlock (rw_checkpoint w) = cc_lastFinalizedBlock c
     \<and> vr_commonAncestorBlock (rw_verifiedRewind w) = cc_lastScannedBlock (rw_checkpoint w))"
    by (rule does_rewind [OF assms(1,2)]) (use 2 assms(3) in \<open>auto simp: keep_rules\<close>)
  show ?case
    by (rule does_if, rule does_return, simp, rule does_port, rule does_if, rule does_call [OF r], rule does_return, use 2 in auto)
      (rule does_return, simp)
qed

lemma keeps_scan [keep_rules]: "keeps (same_canonical s0) (scan_window h rd o' registry m latest tag a b)"
  unfolding scan_window_def by (intro keep_rules)

lemma sync_settingsD:
  "sync_settings o' = Inr (registry, blocks, events, version) \<Longrightarrow> normalizeEvmAddress (sy_identityRegistry o') = Inr registry \<and> 1 \<le> blocks"
  by (auto simp: sync_settings_def boundedRegistrySyncLimit_def Let_def split: if_splits)

lemma does_sync:
  assumes "finality_ok s0" "checkpoints_keyed s0" "normalizeEvmAddress (sy_identityRegistry o') = Inr registry"
  shows "does (same_canonical s0) (syncRegistryInTransaction h rd o') (sync_outcome rd o' registry s0)"
  unfolding syncRegistryInTransaction_def
proof (rule does_ok, goal_cases)
  case (1 z)
  obtain g blocks events version where z: "z = (g, blocks, events, version)" by (cases z) auto
  then have g: "g = registry" and b: "1 \<le> blocks" using sync_settingsD 1 assms(3) by fastforce+
  have reg: "normalizeEvmAddress registry = Inr registry" using assms(3) by (rule normalizeEvmAddress_idem)
  have ck: "keeps (same_canonical s0) (chain_head rd o')" unfolding chain_head_def by (intro keep_rules)
  show ?case unfolding z prod.case g
  proof (rule does_kept [OF ck], rule does_pair, rule does_read, rule does_unless, goal_cases)
    case (1 y latest tag persisted)
    let ?key = "(sy_chainId o', registry)"
    let ?J = "\<lambda>s. same_canonical s0 s \<and> getCheckpoint (sy_chainId o') registry s = Inr persisted"
    show ?case
    proof (cases "persisted = map_of (is_checkpoints s0) ?key")
      case True
      let ?R = "\<lambda>r s. same_canonical s0 s \<and> (\<forall>w. r = Some w \<longrightarrow> (\<exists>c. persisted = Some c
         \<and> cc_lastFinalizedBlock c \<le> cc_lastScannedBlock (rw_checkpoint w) \<and> cc_lastScannedBlock (rw_checkpoint w) < cc_lastScannedBlock c
         \<and> vr_commonAncestorBlock (rw_verifiedRewind w) = cc_lastScannedBlock (rw_checkpoint w)))"
      show ?thesis unfolding Let_def
      proof (rule does_pre [where I = "same_canonical s0"], rule does_call [OF does_rewind_if_moved [OF assms(1,2) True]], goal_cases)
        case (1 rewound)
        let ?cp = "case rewound of None \<Rightarrow> persisted | Some w \<Rightarrow> Some (rw_checkpoint w)"
        let ?from = "case ?cp of None \<Rightarrow> sy_startBlock o' | Some c \<Rightarrow> max (sy_startBlock o') (cc_lastScannedBlock c + 1)"
        let ?to = "case tag of None \<Rightarrow> latest | Some t \<Rightarrow> bt_blockNumber t"
        let ?through = "min ?to (?from + blocks - 1)"
        let ?window = "?from \<le> ?to"
        show ?case
        proof (cases "\<forall>w. rewound = Some w \<longrightarrow> (\<exists>c. persisted = Some c
           \<and> cc_lastFinalizedBlock c \<le> cc_lastScannedBlock (rw_checkpoint w) \<and> cc_lastScannedBlock (rw_checkpoint w) < cc_lastScannedBlock c
           \<and> vr_commonAncestorBlock (rw_verifiedRewind w) = cc_lastScannedBlock (rw_checkpoint w))")
          case rw: True
          have sc: "keeps (same_canonical s0) (if ?window then scan_window h rd o' registry events latest tag ?from ?through else returnJ ([], 0))"
            by (intro keep_rules)
          show ?thesis
          proof (rule does_pre [where I = "same_canonical s0"], rule does_kept [OF sc], rule does_pair, rule does_option, goal_cases)
            case (1 x ingested duplicates)
            then show ?case using True rw by (auto intro!: does_return simp: sync_outcome_def split: option.splits if_splits)
          next
            case (2 x ingested duplicates scanned)
            show ?case
            proof (rule does_call [OF does_advance [OF reg True]], rule does_pair, rule does_return, goal_cases)
              case (1 pn promoted n s)
              then have sy: "synced rd (sy_chainId o') registry (map_option rw_verifiedRewind rewound) s0 n s" "cc_lastScannedBlock n = scanned" by auto
              have w: "window_of o' ?cp \<lparr>sn_scannedFromBlock = (if ?window then Some ?from else None),
                 sn_scannedThroughBlock = (if ?window then Some ?through else None), sn_insertedObservationCount = i,
                 sn_promotedObservationCount = p, sn_orphanedObservationCount = oc, sn_affectedIdentityKeys = ks, sn_reorgRewound = rr,
                 sn_checkpoint = x\<rparr> n" for i p oc ks rr x
                using 2(2) sy(2) b by (auto simp: window_of_def split: if_splits)
              show ?case
              proof (cases rewound)
                case None
                then show ?thesis using sy(1) w True by (simp add: sync_outcome_def)
              next
                case (Some v)
                from rw Some obtain c where c: "persisted = Some c" "cc_lastFinalizedBlock c \<le> cc_lastScannedBlock (rw_checkpoint v)"
                  "cc_lastScannedBlock (rw_checkpoint v) < cc_lastScannedBlock c"
                  "vr_commonAncestorBlock (rw_verifiedRewind v) = cc_lastScannedBlock (rw_checkpoint v)" by auto
                have w': "window_of o' (Some (rw_checkpoint v)) \<lparr>sn_scannedFromBlock = (if ?window then Some ?from else None),
                 sn_scannedThroughBlock = (if ?window then Some ?through else None), sn_insertedObservationCount = i,
                 sn_promotedObservationCount = p, sn_orphanedObservationCount = oc, sn_affectedIdentityKeys = ks, sn_reorgRewound = rr,
                 sn_checkpoint = x\<rparr> n" for i p oc ks rr x using w [of i p oc ks rr x] by (simp only: Some option.case)
                have p: "map_of (is_checkpoints s0) (sy_chainId o', registry) = Some c" using True c(1) by simp
                have sy': "synced rd (sy_chainId o') registry (Some (rw_verifiedRewind v)) s0 n s" using sy(1) Some by simp
                show ?thesis by (rule sync_outcome_rewound [OF p sy' c(4,3,2) w']) (simp_all add: Some)
              qed
            qed
          qed simp
        qed (auto simp: does_def)
      qed simp
    next
      case False
      then show ?thesis using reg by (auto simp: does_def getCheckpoint_def checkpointKey_def same_canonical_def)
    qed
  qed
qed

end
