(* ===== verification/Index_History.thy ===== *)
theory Index_History
  imports Index_Finality
begin

text \<open>
  Histories of the index: the transactions of the services in any order, each with what its preparation read at any earlier time, and changes of
  the world in between. Every transaction, returned or thrown, keeps the invariants and adds to the canonical chain only.
\<close>

section \<open>Steps\<close>

inductive index_step :: "'e claim_host \<Rightarrow> 'e chain_reader \<Rightarrow> index_store \<times> 'e \<Rightarrow> index_store \<times> 'e \<Rightarrow> bool" for c rd where
  ingested: "ingestRegistryEvents (ch_host c) evs chain registry version w = (r, w') \<Longrightarrow> index_step c rd w w'"
| discovered: "withTransaction (repoJ (upsertIdentity i u None)) w = (r, w') \<Longrightarrow> index_step c rd w w'"
| synchronised: "syncRegistry (ch_host c) rd options w = (r, w') \<Longrightarrow> index_step c rd w w'"
| reconciled: "withTransaction (reconcile_commit (ch_host c) i d z) w = (r, w') \<Longrightarrow> index_step c rd w w'"
| claimed: "\<lbrakk>claim_prepare c i p x v = (Inr q, v'); withTransaction (claim_commit c q) w = (r, w')\<rbrakk> \<Longrightarrow> index_step c rd w w'"
| revalidated: "\<lbrakk>owner_of d = Inr owner; withTransaction (revalidate_commit c i d owner z) w = (r, w')\<rbrakk> \<Longrightarrow> index_step c rd w w'"
| revoked: "withTransaction (revoke_commit i p q z now) w = (r, w') \<Longrightarrow> index_step c rd w w'"
| world: "index_step c rd (s, e) (s, e')"

definition index_ok :: "index_store \<Rightarrow> bool" where
  "index_ok s \<longleftrightarrow> claims_ok s \<and> finality_ok s \<and> checkpoints_keyed s"

definition advances :: "index_store \<Rightarrow> index_store \<Rightarrow> bool" where
  "advances s0 s \<longleftrightarrow> canonical_of s0 \<subseteq> canonical_of s \<and> (\<forall>k c. map_of (is_checkpoints s0) k = Some c \<longrightarrow>
     (\<exists>n. map_of (is_checkpoints s) k = Some n \<and> cc_lastFinalizedBlock c \<le> cc_lastFinalizedBlock n \<and> cc_cursorVersion c \<le> cc_cursorVersion n))"

lemma advances_refl [simp]: "advances s s"
  by (simp add: advances_def)

lemma advances_trans: "advances a b \<Longrightarrow> advances b c \<Longrightarrow> advances a c"
  unfolding advances_def by (meson order_trans)

lemma same_canonical_refl [simp]: "same_canonical s s"
  by (simp add: same_canonical_def)

lemma same_canonical_ok:
  assumes "same_canonical s0 s" "finality_ok s0" "checkpoints_keyed s0"
  shows "finality_ok s \<and> checkpoints_keyed s \<and> advances s0 s"
  using assms by (auto simp: same_canonical_def finality_ok_def checkpoints_keyed_def advances_def)

lemma synced_ok:
  assumes "synced rd chain registry rewind s0 n s" "finality_ok s0" "checkpoints_keyed s0" "normalizeEvmAddress registry = Inr registry"
  shows "finality_ok s \<and> checkpoints_keyed s \<and> advances s0 s"
proof (intro conjI)
  let ?k = "(chain, registry)"
  note y = assms(1) [unfolded synced_def]
  have m: "map_of (is_checkpoints s) k = (if k = ?k then Some n else map_of (is_checkpoints s0) k)" for k using y by (simp add: update_conv')
  have f: "cc_lastFinalizedBlock c \<le> cc_lastFinalizedBlock n \<and> cc_cursorVersion c \<le> cc_cursorVersion n" if "map_of (is_checkpoints s0) ?k = Some c" for c
    using y that by (auto simp: follows_def)
  show adv: "advances s0 s" using y m f by (auto simp: advances_def)
  show "checkpoints_keyed s" unfolding checkpoints_keyed_def
  proof (intro allI impI)
    fix k c assume "map_of (is_checkpoints s) k = Some c"
    then show "k = (cc_chainId c, cc_identityRegistry c) \<and> normalizeEvmAddress (cc_identityRegistry c) = Inr (cc_identityRegistry c)
        \<and> cc_lastFinalizedBlock c \<le> cc_lastScannedBlock c"
      using y m [of k] assms(3) [unfolded checkpoints_keyed_def, rule_format, of k c] assms(4) by (cases "k = ?k") auto
  qed
  show "finality_ok s" unfolding finality_ok_def
  proof
    fix p assume p: "p \<in> canonical_of s"
    let ?j = "(id_chainId (co_identity (snd p)), id_registry (co_identity (snd p)))"
    show "\<exists>c. map_of (is_checkpoints s) ?j = Some c \<and> co_blockNumber (snd p) \<le> cc_lastFinalizedBlock c"
    proof (cases "p \<in> canonical_of s0")
      case True
      then obtain c where "map_of (is_checkpoints s0) ?j = Some c" "co_blockNumber (snd p) \<le> cc_lastFinalizedBlock c"
        using assms(2) by (auto simp: finality_ok_def)
      with adv show ?thesis by (fastforce simp: advances_def)
    next
      case False
      with y p have "on_registry chain registry (snd p) \<and> co_blockNumber (snd p) \<le> cc_lastFinalizedBlock n" by blast
      then show ?thesis by (simp add: m on_registry_def)
    qed
  qed
qed

lemma outcome_ok:
  assumes "sync_outcome rd o' registry s0 res s" "finality_ok s0" "checkpoints_keyed s0" "normalizeEvmAddress registry = Inr registry"
  shows "finality_ok s \<and> checkpoints_keyed s \<and> advances s0 s"
proof -
  have "same_canonical s0 s \<or> (\<exists>rewind n. synced rd (sy_chainId o') registry rewind s0 n s)"
    using assms(1) by (auto simp: sync_outcome_def Let_def split: option.splits if_splits)
  then show ?thesis using same_canonical_ok [OF _ assms(2,3)] synced_ok [OF _ assms(2-4)] by blast
qed

lemma sync_outcomeD:
  assumes "syncRegistry h rd o' (s, e) = (Inr res, (s', e'))" "finality_ok s" "checkpoints_keyed s"
  shows "\<exists>registry. normalizeEvmAddress (sy_identityRegistry o') = Inr registry \<and> normalizeEvmAddress registry = Inr registry
    \<and> sync_outcome rd o' registry s res s'"
proof -
  from assms(1) have t: "syncRegistryInTransaction h rd o' (s, e) = (Inr res, (s', e'))"
    by (auto simp: syncRegistry_def withTransaction_def split: prod.splits sum.splits)
  then obtain z where "sync_settings o' = Inr z" by (auto simp: syncRegistryInTransaction_def bindJ_Inr okJ_def)
  then obtain registry where r: "normalizeEvmAddress (sy_identityRegistry o') = Inr registry" by (auto simp: sync_settings_def)
  have "sync_outcome rd o' registry s res s'" by (rule doesD [OF does_sync [OF assms(2,3) r] _ t]) simp
  then show ?thesis using r normalizeEvmAddress_idem [OF r] by blast
qed

section \<open>Every step\<close>

lemma step_claims:
  assumes "index_step c rd w w'" "claims_ok (fst w)"
  shows "claims_ok (fst w')"
  using assms
proof (induction rule: index_step.induct)
  case (ingested evs chain registry version w r w')
  then show ?case by (cases w, cases w') (auto simp: ingestRegistryEvents_def intro: transaction_keeps [OF keeps_ingest])
next
  case (discovered i u w r w')
  have "keeps claims_ok (repoJ (upsertIdentity i u None))" by (rule keeps_repo) (rule upsert_ok)
  with discovered show ?case by (cases w, cases w') (auto intro: transaction_keeps)
next
  case (synchronised options w r w')
  then show ?case by (cases w, cases w') (auto simp: syncRegistry_def intro: transaction_keeps [OF keeps_sync])
next
  case (reconciled i d z w r w')
  then show ?case by (cases w, cases w') (auto intro: transaction_keeps [OF keeps_reconcile_commit])
next
  case (claimed i p x v q v' w r w')
  have "claim_prepare c i p x (fst v, snd v) = (Inr q, v')" using claimed(1) by simp
  then have key: "erc8004IdentityKey (pc_identity q) = Inr (pc_identityKey q)" by (rule prepared_key)
  have "keeps claims_ok (claim_commit c q)" unfolding keeps_def by (rule does_post [OF does_claim_commit [OF key]]) blast
  with claimed show ?case by (cases w, cases w') (auto intro: transaction_keeps)
next
  case (revalidated d owner i z w r w')
  then show ?case by (cases w, cases w') (auto intro: transaction_keeps [OF keeps_revalidate_commit])
next
  case (revoked i p q z now w r w')
  then show ?case by (cases w, cases w') (auto intro: transaction_keeps [OF keeps_revoke_commit])
qed simp

lemma same_transaction:
  assumes "keeps (same_canonical (fst w)) f" "withTransaction f w = (r, w')" "finality_ok (fst w)" "checkpoints_keyed (fst w)"
  shows "finality_ok (fst w') \<and> checkpoints_keyed (fst w') \<and> advances (fst w) (fst w')"
proof (rule same_canonical_ok [OF _ assms(3,4)])
  have "withTransaction f (fst w, snd w) = (r, (fst w', snd w'))" using assms(2) by simp
  then show "same_canonical (fst w) (fst w')" by (rule transaction_keeps [OF assms(1) same_canonical_refl])
qed

lemma sync_chain:
  assumes "syncRegistry h rd o' w = (r, w')" "finality_ok (fst w)" "checkpoints_keyed (fst w)"
  shows "finality_ok (fst w') \<and> checkpoints_keyed (fst w') \<and> advances (fst w) (fst w')"
proof -
  have eq: "syncRegistry h rd o' (fst w, snd w) = (r, (fst w', snd w'))" using assms(1) by simp
  show ?thesis
  proof (cases r)
    case (Inl y)
    then have "withTransaction (syncRegistryInTransaction h rd o') (fst w, snd w) = (Inl y, (fst w', snd w'))"
      using eq by (simp add: syncRegistry_def)
    then have "fst w' = fst w" by (rule withTransaction_Inl)
    then show ?thesis using assms(2,3) by simp
  next
    case (Inr res)
    have eq': "syncRegistry h rd o' (fst w, snd w) = (Inr res, (fst w', snd w'))" using eq Inr by simp
    obtain registry where g: "normalizeEvmAddress registry = Inr registry" "sync_outcome rd o' registry (fst w) res (fst w')"
      using sync_outcomeD [OF eq' assms(2,3)] by blast
    show ?thesis by (rule outcome_ok [OF g(2) assms(2,3) g(1)])
  qed
qed

lemma step_chain:
  assumes "index_step c rd w w'" "finality_ok (fst w)" "checkpoints_keyed (fst w)"
  shows "finality_ok (fst w') \<and> checkpoints_keyed (fst w') \<and> advances (fst w) (fst w')"
  using assms(1)
proof cases
  case ingested
  show ?thesis by (rule same_transaction [OF keeps_same_ingest ingested [unfolded ingestRegistryEvents_def] assms(2,3)])
next
  case discovered
  show ?thesis by (rule same_transaction [OF same_canonical.keeps_identity_part(1) discovered assms(2,3)])
next
  case synchronised
  show ?thesis by (rule sync_chain [OF synchronised assms(2,3)])
next
  case reconciled
  show ?thesis by (rule same_transaction [OF same_canonical.keeps_reread_part(3) reconciled assms(2,3)])
next
  case claimed
  show ?thesis by (rule same_transaction [OF same_canonical.keeps_claims_part(1) claimed(2) assms(2,3)])
next
  case revalidated
  show ?thesis by (rule same_transaction [OF same_canonical.keeps_claims_part(2) revalidated(2) assms(2,3)])
next
  case revoked
  show ?thesis by (rule same_transaction [OF same_canonical.keeps_claims_part(3) revoked assms(2,3)])
next
  case world
  then show ?thesis using assms(2,3) by simp
qed

lemma history_ok:
  assumes "(index_step c rd)\<^sup>*\<^sup>* w w'" "index_ok (fst w)"
  shows "index_ok (fst w') \<and> advances (fst w) (fst w')"
  using assms
proof (induction rule: rtranclp_induct)
  case (step v u)
  then have i: "index_ok (fst v)" and a: "advances (fst w) (fst v)" by auto
  have "finality_ok (fst u) \<and> checkpoints_keyed (fst u) \<and> advances (fst v) (fst u)"
    by (rule step_chain [OF step(2)]) (use i in \<open>simp_all add: index_ok_def\<close>)
  moreover have "claims_ok (fst u)" by (rule step_claims [OF step(2)]) (use i in \<open>simp add: index_ok_def\<close>)
  ultimately show ?case using advances_trans [OF a] by (simp add: index_ok_def)
qed simp

lemma empty_index_ok: "index_ok empty_index"
  by (simp add: index_ok_def empty_index_def claims_ok_def rows_ok_def claim_agrees_def counted_def events_of_def finality_ok_def canonical_of_def
      checkpoints_keyed_def)

end
