(* ===== verification/Index_Examples.thy ===== *)
theory Index_Examples
  imports Index_History
begin

text \<open>
  A chain whose only registry event is in block 3, and the runs on it that the witnesses of the properties use: a first synchronisation, the claim of the
  owner, a second synchronisation. A world is the number of the head block.
\<close>

section \<open>Evaluation of jobs\<close>

text \<open>A job is evaluated from its first step on: the congruence rules keep the simplifier out of what comes later.\<close>

definition continue :: "(ingestion_exn + 'a) \<times> 's \<Rightarrow> ('a \<Rightarrow> ('s, 'b) job) \<Rightarrow> (ingestion_exn + 'b) \<times> 's" where
  "continue r g = (case r of (Inl y, t) \<Rightarrow> (Inl y, t) | (Inr x, t) \<Rightarrow> g x t)"

named_theorems run_simps \<open>evaluation of jobs on the example\<close>

lemma bindJ_run: "bindJ f g s = continue (f s) g"
  by (simp add: bindJ_def continue_def)

lemma bindJ_block: "bindJ f g s = bindJ f g s" ..

lemma continue_block: "r = q \<Longrightarrow> continue r g = continue q g"
  by simp

lemma continue_simps [run_simps]: "continue (Inl y, t) g = (Inl y, t)" "continue (Inr x, t) g = g x t"
  by (simp_all add: continue_def)

lemma job_simps [run_simps]:
  "okJ r s = (r, s)" "returnJ x s = (Inr x, s)" "throwJ y s = (Inl y, s)" "unlessJ y True s = (Inr (), s)" "unlessJ y False s = (Inl y, s)"
  "readJ p (t, e) = (p t, (t, e))" "portJ q (t, e) = (case q e of (r, d) \<Rightarrow> (r, (t, d)))"
  "clockJ k (t, e) = (case k e of (x, d) \<Rightarrow> (Inr x, (t, d)))"
  "repoJ u (t, e) = (case u t of Inl y \<Rightarrow> (Inl y, (t, e)) | Inr (x, t') \<Rightarrow> (Inr x, (t', e)))"
  "forJ f [] s = (Inr [], s)" "forJ f (z # zs) s = bindJ (f z) (\<lambda>y. bindJ (forJ f zs) (\<lambda>ys. returnJ (y # ys))) s"
  "withTransaction j (t, e) = (case j (t, e) of (Inl y, (t', d)) \<Rightarrow> (Inl y, (t, d)) | (Inr x, v) \<Rightarrow> (Inr x, v))"
  by (simp_all add: okJ_def returnJ_def throwJ_def unlessJ_def readJ_def portJ_def clockJ_def repoJ_def withTransaction_def case_prod_beta
      split: prod.splits sum.splits)

section \<open>The chain\<close>

definition demo_address :: string where
  "demo_address = ''0x'' @ replicate 40 CHR ''a''"

definition demo_hash :: string where
  "demo_hash = ''0x'' @ replicate 64 CHR ''b''"

definition demo_identity :: erc8004_identity where
  "demo_identity = \<lparr>id_namespace = ''eip155'', id_chainId = 56, id_registry = demo_address, id_agentId = ''7''\<rparr>"

definition demo_key :: string where
  "demo_key = projr (erc8004IdentityKey demo_identity)"

definition demo_read :: "int \<Rightarrow> direct_state" where
  "demo_read n = \<lparr>ds_ownerAddress = Some demo_address, ds_agentWallet = None, ds_agentUri = None, ds_contentDigest = None, ds_observedBlock = n,
     ds_observedBlockHash = demo_hash, ds_readConsistency = ReadFinalized, ds_ownerObservedBlock = Some n, ds_agentWalletObservedBlock = Some n,
     ds_agentUriObservedBlock = Some n, ds_contentDigestObservedBlock = None\<rparr>"

definition demo_event :: registry_event where
  "demo_event = \<lparr>rx_identity = demo_identity, rx_eventType = ''Registered'', rx_transactionHash = demo_hash, rx_logIndex = 0, rx_blockNumber = 3,
     rx_blockHash = demo_hash, rx_ownerAddress = Some (Some demo_address), rx_agentUri = None, rx_agentWallet = None, rx_contentDigest = None,
     rx_changedFields = None, rx_observedAt = None, rx_payload = None\<rparr>"

definition demo_reader :: "int chain_reader" where
  "demo_reader = \<lparr>rd_latest = (\<lambda>e. (Inr e, e)), rd_finalized = None, rd_hash = (\<lambda>n e. (Inr (Some demo_hash), e)),
     rd_events = (\<lambda>q e. (Inr (if rq_fromBlock q \<le> 3 \<and> 3 \<le> rq_toBlock q then [demo_event] else []), e)),
     rd_identity = (\<lambda>i t e. (Inr (demo_read e), e)), rd_ancestor = (\<lambda>q e. (Inr 0, e))\<rparr>"

definition demo_platform :: index_platform where
  "demo_platform = \<lparr>ixp_sha256_text = (\<lambda>t. ''digest''), ixp_url = (\<lambda>u. True), ixp_locale_compare = (\<lambda>a b. if a = b then 0 else 1)\<rparr>"

definition demo_index_host :: "int index_host" where
  "demo_index_host = \<lparr>ih_platform = demo_platform, ih_date = (\<lambda>e. (0, e)), ih_now = None, ih_internalOperatorId = Some ''indexer''\<rparr>"

definition demo_options :: "int sync_options" where
  "demo_options = \<lparr>sy_chainId = 56, sy_identityRegistry = demo_address, sy_startBlock = 1, sy_confirmationThreshold = 0, sy_finalityMode = None,
     sy_indexerVersion = None, sy_normalizedIngestionVersion = None, sy_maxBlockRange = None, sy_maxEvents = None, sy_now = None\<rparr>"

lemma demo_address_facts [run_simps]: "evmAddressSchema demo_address" "js_lower demo_address = demo_address" "normalizeEvmAddress demo_address = Inr demo_address"
  by code_simp+

lemma demo_hash_facts [run_simps]: "transactionHashSchema demo_hash" "js_lower demo_hash = demo_hash"
  by code_simp+

lemma demo_identity_facts [run_simps]: "normalizeErc8004Identity demo_identity = Inr demo_identity" "normalizeIdentity demo_identity = Inr demo_identity"
  by code_simp+

lemma demo_keyed [run_simps]: "erc8004IdentityKey demo_identity = Inr demo_key"
proof -
  have "is_ok (erc8004IdentityKey demo_identity)" by code_simp
  then show ?thesis by (auto simp: demo_key_def is_ok_iff)
qed

lemma demo_versions [run_simps]: "js_trim ''registry-indexer-v1'' = ''registry-indexer-v1''" "js_trim ''Registered'' = ''Registered''"
  by code_simp+

lemma demo_ids [run_simps]: "id_chainId demo_identity = 56" "id_registry demo_identity = demo_address"
  by (simp_all add: demo_identity_def)

definition demo_observation :: "observation_state \<Rightarrow> int option \<Rightarrow> chain_observation" where
  "demo_observation state at = \<lparr>co_identityKey = demo_key, co_identity = demo_identity, co_eventType = ''Registered'', co_transactionHash = demo_hash,
     co_logIndex = 0, co_blockNumber = 3, co_blockHash = demo_hash, co_state = state, co_ownerAddress = Some demo_address, co_agentUri = None,
     co_agentWallet = None, co_contentDigest = None, co_observedFields = [FieldOwner], co_firstObservedAt = 0, co_canonicalizedAt = at,
     co_orphanedAt = None, co_payloadDigest = None\<rparr>"

definition demo_normalized :: normalized_event where
  "demo_normalized = projr (normalizeRegistryEvent demo_platform 0 demo_event)"

lemma demo_event_observed [run_simps]: "registryEventToObservation demo_platform 0 demo_event = Inr (demo_observation Provisional None)"
  "normalizeRegistryEvent demo_platform 0 demo_event = Inr demo_normalized" "ne_identity demo_normalized = demo_identity"
  by (simp_all add: demo_normalized_def registryEventToObservation_def normalizeRegistryEvent_def demo_event_def run_simps demo_observation_def observed_fields_def present_def
      normalizeEventAddress_def normalizeEventUri_def normalizeDigest_def payload_digest_def failing_def schema_def safe_nat_def isSafeInteger_def
      max_safe_integer_def)

lemmas sync_defs = syncRegistry_def syncRegistryInTransaction_def sync_settings_def chain_head_def rewind_if_moved_def scan_window_def advance_finality_def
  finalized_block_def sync_clock_def host_now_def dateJ_def key_of_def finality_of_def boundedRegistrySyncLimit_def normalizeIndexerVersion_def
  ingestRegistryEventsInTransaction_def ingest_event_def canonicalizeThroughInTransaction_def assertTrustedBlockHash_def catchJ_def
  promote_observation_def apply_and_reconcile_def promoted_state_def observed_value_def observed_def compareObservationPosition_def compareRegistryEventPosition_def

lemmas store_defs = findIdentity_def put_identity_def new_identity_def canonical_row_def overwrite_identity_def upsertIdentity_def applyCanonicalState_def
  recordSource_def observationKey_def findObservation_def appendObservation_def on_registry_def promotable_def canonicalize_def markCanonical_def
  listObservations_def sameNullableHash_def checkpointKey_def getCheckpoint_def checkpoint_conflict_def first_checkpoint_def next_checkpoint_def
  saveCheckpoint_def normalizeRegistryCheckpoint_def normalizeChainBlockTag_def assertIdentityReadProvenance_def field_provenance_ok_def failing_def schema_def safe_nat_def
  isSafeInteger_def max_safe_integer_def hash_agrees_def normalizeNullableAddress_def js_sort_def defaultState_def

lemma demo_fields [run_simps]:
  "rx_blockNumber demo_event = 3" "sy_chainId demo_options = 56" "sy_identityRegistry demo_options = demo_address" "sy_startBlock demo_options = 1"
  "sy_confirmationThreshold demo_options = 0" "sy_finalityMode demo_options = None" "sy_indexerVersion demo_options = None"
  "sy_normalizedIngestionVersion demo_options = None" "sy_maxBlockRange demo_options = None" "sy_maxEvents demo_options = None"
  "sy_now demo_options = None" "rd_latest demo_reader e = (Inr e, e)" "rd_finalized demo_reader = None" "rd_hash demo_reader n e = (Inr (Some demo_hash), e)"
  "rd_events demo_reader q e = (Inr (if rq_fromBlock q \<le> 3 \<and> 3 \<le> rq_toBlock q then [demo_event] else []), e)"
  "rd_identity demo_reader i t e = (Inr (demo_read e), e)" "rd_ancestor demo_reader a e = (Inr 0, e)"
  "ih_platform demo_index_host = demo_platform" "ih_date demo_index_host e = (0, e)" "ih_now demo_index_host = None"
  "ih_internalOperatorId demo_index_host = Some ''indexer''"
  by (simp_all add: demo_event_def demo_options_def demo_reader_def demo_index_host_def)

lemma demo_observation_fields [run_simps]:
  "co_identityKey (demo_observation st at) = demo_key" "co_identity (demo_observation st at) = demo_identity"
  "co_transactionHash (demo_observation st at) = demo_hash" "co_logIndex (demo_observation st at) = 0" "co_blockNumber (demo_observation st at) = 3"
  "co_blockHash (demo_observation st at) = demo_hash" "co_state (demo_observation st at) = st"
  "co_ownerAddress (demo_observation st at) = Some demo_address" "co_agentUri (demo_observation st at) = None"
  "co_agentWallet (demo_observation st at) = None" "co_contentDigest (demo_observation st at) = None" "co_observedFields (demo_observation st at) = [FieldOwner]"
  "co_firstObservedAt (demo_observation st at) = 0" "co_payloadDigest (demo_observation st at) = None"
  "canonicalize n (demo_observation st at) = demo_observation Canonical (Some n)"
  by (simp_all add: demo_observation_def canonicalize_def)

lemmas evals = run_simps bindJ_run sync_defs store_defs empty_index_def Let_def

section \<open>Synchronisations\<close>

definition demo_checkpoint :: "int \<Rightarrow> int \<Rightarrow> chain_checkpoint" where
  "demo_checkpoint n v = \<lparr>cc_chainId = 56, cc_identityRegistry = demo_address, cc_indexerVersion = ''registry-indexer-v1'', cc_lastScannedBlock = n,
     cc_lastScannedBlockHash = demo_hash, cc_lastFinalizedBlock = n, cc_lastFinalizedBlockHash = demo_hash, cc_confirmationThreshold = 0,
     cc_cursorVersion = v, cc_lastReconciliationAt = None\<rparr>"

definition demo_row :: identity_row where
  "demo_row = \<lparr>ix_identity = demo_identity, ix_originType = Discovered, ix_ownerAddress = Some demo_address, ix_agentWallet = None, ix_agentUri = None,
     ix_contentDigest = None, ix_observedBlock = Some 3, ix_observedBlockHash = Some demo_hash, ix_readConsistency = Some ReadFinalized,
     ix_ownerObservedBlock = Some 3, ix_agentWalletObservedBlock = None, ix_agentUriObservedBlock = None, ix_contentDigestObservedBlock = None,
     ix_state = defaultState Discovered, ix_ownerClaimVerifiedAt = None\<rparr>"

definition demo_reference :: string where
  "demo_reference = registrySourceReference (demo_observation Provisional None)"

text \<open>The store after the first synchronisation, at head 5.\<close>

definition demo_indexed :: index_store where
  "demo_indexed = \<lparr>is_identities = [(demo_key, demo_row)],
     is_sources = [((demo_key, ''registry_event'', demo_reference), \<lparr>so_identityKey = demo_key, so_source = ''registry_event'',
       so_sourceReference = demo_reference, so_firstObservedAt = 0, so_lastObservedAt = 0, so_rawResponseDigest = None,
       so_normalizedIngestionVersion = ''registry-event-v1''\<rparr>)],
     is_observations = [((demo_hash, 0), demo_observation Canonical (Some 0))],
     is_checkpoints = [((56, demo_address), demo_checkpoint 5 1)], is_claims = [], is_claimEvents = [], is_reconciliations = []\<rparr>"

definition demo_result :: "int \<Rightarrow> int \<Rightarrow> int \<Rightarrow> string list \<Rightarrow> bool \<Rightarrow> chain_checkpoint \<Rightarrow> sync_result" where
  "demo_result a b n ks rewound c = \<lparr>sn_scannedFromBlock = Some a, sn_scannedThroughBlock = Some b, sn_insertedObservationCount = n,
     sn_promotedObservationCount = n, sn_orphanedObservationCount = 0, sn_affectedIdentityKeys = ks, sn_reorgRewound = rewound,
     sn_checkpoint = Some c\<rparr>"

lemma demo_first_sync: "syncRegistry demo_index_host demo_reader demo_options (empty_index, 5)
    = (Inr (demo_result 1 5 1 [demo_key] False (demo_checkpoint 5 1)), (demo_indexed, 5))"
  by (simp cong: bindJ_block continue_block add: evals)
    (simp add: demo_indexed_def demo_row_def demo_checkpoint_def demo_result_def demo_reference_def demo_observation_def defaultState_def)

lemma demo_second_sync: "syncRegistry demo_index_host demo_reader demo_options (demo_indexed, 9)
    = (Inr (demo_result 6 9 0 [] False (demo_checkpoint 9 2)), (demo_indexed\<lparr>is_checkpoints := [((56, demo_address), demo_checkpoint 9 2)]\<rparr>, 9))"
  by (simp cong: bindJ_block continue_block add: evals demo_indexed_def demo_checkpoint_def) (simp add: demo_result_def)

text \<open>A store whose checkpoint is on an abandoned branch, and its synchronisation at head 9 and at head 4.\<close>

definition other_hash :: string where
  "other_hash = ''0x'' @ replicate 64 CHR ''d''"

definition demo_forked :: index_store where
  "demo_forked = empty_index\<lparr>is_checkpoints := [((56, demo_address), (demo_checkpoint 5 1)\<lparr>cc_lastScannedBlockHash := other_hash,
     cc_lastFinalizedBlock := 0\<rparr>)]\<rparr>"

lemma other_hash_facts [run_simps]: "transactionHashSchema other_hash" "js_lower other_hash = other_hash" "demo_hash \<noteq> other_hash" "other_hash \<noteq> demo_hash"
  by code_simp+

lemmas rewind_defs = rewindAndReconcile_def ancestor_hash_def markOrphaned_def orphanable_def js_set_def appendReconciliation_def reread_orphaned_def
  listObservations_def

lemma demo_forked_sync: "fst (syncRegistry demo_index_host demo_reader demo_options (demo_forked, 9))
    = Inr (demo_result 1 9 1 [demo_key] True ((demo_checkpoint 9 2)\<lparr>cc_lastReconciliationAt := Some 0\<rparr>))"
  "fst (syncRegistry demo_index_host demo_reader demo_options (demo_forked, 4)) = Inl (IngestionError INGESTION_CHECKPOINT_CONFLICT)"
  "fst (syncRegistry demo_index_host demo_reader demo_options (demo_forked, 5)) = Inl (IngestionError INGESTION_CHECKPOINT_CONFLICT)"
  by (simp cong: bindJ_block continue_block add: evals other_hash_facts rewind_defs demo_forked_def demo_checkpoint_def rewind_matches_def; simp add: demo_result_def)+

section \<open>A backfill in two windows\<close>

definition demo_update :: registry_event where
  "demo_update = \<lparr>rx_identity = demo_identity, rx_eventType = ''URIUpdated'', rx_transactionHash = other_hash, rx_logIndex = 0, rx_blockNumber = 8,
     rx_blockHash = demo_hash, rx_ownerAddress = None, rx_agentUri = Some (Some ''ipfs:''), rx_agentWallet = None, rx_contentDigest = None,
     rx_changedFields = None, rx_observedAt = None, rx_payload = None\<rparr>"

text \<open>The finalised block is 9 throughout; a window has five blocks.\<close>

definition backfill_reader :: "int chain_reader" where
  "backfill_reader = \<lparr>rd_latest = (\<lambda>e. (Inr 9, e)), rd_finalized = Some (\<lambda>e. (Inr \<lparr>bt_blockNumber = 9, bt_blockHash = demo_hash\<rparr>, e)),
     rd_hash = (\<lambda>n e. (Inr (Some demo_hash), e)),
     rd_events = (\<lambda>q e. (Inr (filter (\<lambda>v. rq_fromBlock q \<le> rx_blockNumber v \<and> rx_blockNumber v \<le> rq_toBlock q) [demo_event, demo_update]), e)),
     rd_identity = (\<lambda>i t e. (Inr (demo_read (case t of None \<Rightarrow> 9 | Some b \<Rightarrow> bt_blockNumber b)), e)), rd_ancestor = (\<lambda>q e. (Inr 0, e))\<rparr>"

definition backfill_options :: "int sync_options" where
  "backfill_options = demo_options\<lparr>sy_finalityMode := Some RpcFinalizedTag, sy_maxBlockRange := Some 5\<rparr>"

definition demo_observation2 :: chain_observation where
  "demo_observation2 = \<lparr>co_identityKey = demo_key, co_identity = demo_identity, co_eventType = ''URIUpdated'', co_transactionHash = other_hash,
     co_logIndex = 0, co_blockNumber = 8, co_blockHash = demo_hash, co_state = Provisional, co_ownerAddress = None, co_agentUri = Some ''ipfs:'',
     co_agentWallet = None, co_contentDigest = None, co_observedFields = [FieldAgentUri], co_firstObservedAt = 0, co_canonicalizedAt = None,
     co_orphanedAt = None, co_payloadDigest = None\<rparr>"

definition demo_normalized2 :: normalized_event where
  "demo_normalized2 = projr (normalizeRegistryEvent demo_platform 0 demo_update)"

lemma demo_update_text: "js_trim ''URIUpdated'' = ''URIUpdated''"
  by code_simp

lemma demo_update_observed [run_simps]: "registryEventToObservation demo_platform 0 demo_update = Inr demo_observation2"
  "normalizeRegistryEvent demo_platform 0 demo_update = Inr demo_normalized2" "ne_identity demo_normalized2 = demo_identity"
  by (simp_all add: demo_normalized2_def registryEventToObservation_def normalizeRegistryEvent_def demo_update_def run_simps demo_observation2_def
      observed_fields_def present_def normalizeEventAddress_def normalizeEventUri_def normalizeDigest_def payload_digest_def failing_def schema_def
      safe_nat_def isSafeInteger_def max_safe_integer_def demo_update_text demo_platform_def)

lemma backfill_fields [run_simps]:
  "rd_latest backfill_reader e = (Inr 9, e)" "rd_finalized backfill_reader = Some (\<lambda>e. (Inr \<lparr>bt_blockNumber = 9, bt_blockHash = demo_hash\<rparr>, e))"
  "rd_hash backfill_reader n e = (Inr (Some demo_hash), e)"
  "rd_events backfill_reader q e = (Inr (filter (\<lambda>v. rq_fromBlock q \<le> rx_blockNumber v \<and> rx_blockNumber v \<le> rq_toBlock q) [demo_event, demo_update]), e)"
  "rd_identity backfill_reader i t e = (Inr (demo_read (case t of None \<Rightarrow> 9 | Some b \<Rightarrow> bt_blockNumber b)), e)"
  "sy_chainId backfill_options = 56" "sy_identityRegistry backfill_options = demo_address" "sy_startBlock backfill_options = 1"
  "sy_confirmationThreshold backfill_options = 0" "sy_finalityMode backfill_options = Some RpcFinalizedTag" "sy_indexerVersion backfill_options = None"
  "sy_normalizedIngestionVersion backfill_options = None" "sy_maxBlockRange backfill_options = Some 5" "sy_maxEvents backfill_options = None"
  "sy_now backfill_options = None" "rx_blockNumber demo_update = 8"
  by (simp_all add: backfill_reader_def backfill_options_def demo_options_def demo_update_def)

lemmas reread_defs = rereadFinalizedIdentitiesInTransaction_def reread_identity_def listIdentities_def

definition backfilled :: index_store where
  "backfilled = demo_indexed\<lparr>is_identities := [(demo_key, demo_row\<lparr>ix_observedBlock := Some 9, ix_ownerObservedBlock := Some 9,
     ix_agentWalletObservedBlock := Some 9, ix_agentUriObservedBlock := Some 9\<rparr>)]\<rparr>"

text \<open>The first window is read at block 9, and the promotion of the event of block 8 in the second one is refused for ever after.\<close>

lemma backfill_windows:
  "syncRegistry demo_index_host backfill_reader backfill_options (empty_index, 0)
     = (Inr (demo_result 1 5 1 [demo_key] False (demo_checkpoint 5 1)), (backfilled, 0))"
  "syncRegistry demo_index_host backfill_reader backfill_options (backfilled, 0) = (Inl (IngestionError REORG_RECONCILIATION_REQUIRED), (backfilled, 0))"
proof -
  show "syncRegistry demo_index_host backfill_reader backfill_options (empty_index, 0)
     = (Inr (demo_result 1 5 1 [demo_key] False (demo_checkpoint 5 1)), (backfilled, 0))"
    by (simp cong: bindJ_block continue_block add: evals run_simps reread_defs demo_read_def)
      (simp add: backfilled_def demo_indexed_def demo_row_def demo_checkpoint_def demo_result_def demo_reference_def demo_observation_def defaultState_def)
  show "syncRegistry demo_index_host backfill_reader backfill_options (backfilled, 0) = (Inl (IngestionError REORG_RECONCILIATION_REQUIRED), (backfilled, 0))"
    by (simp cong: bindJ_block continue_block add: evals run_simps reread_defs demo_read_def backfilled_def demo_indexed_def demo_row_def demo_checkpoint_def
        demo_observation2_def)
qed

section \<open>The claim of the owner\<close>

definition demo_url :: web_url_parser where
  "demo_url u = Some \<lparr>wu_protocol = ''https:'', wu_username = [], wu_password = [], wu_hash = [], wu_host = ''bnbera.io'', wu_text = ''https://bnbera.io/''\<rparr>"

definition demo_context :: claim_context where
  "demo_context = \<lparr>kx_chainId = 56, kx_domain = ''bnbera.io'', kx_uri = ''https://bnbera.io/'', kx_resources = [], kx_action = ''claim''\<rparr>"

definition demo_proof :: claim_proof where
  "demo_proof = \<lparr>kp_identity = demo_identity, kp_address = demo_address, kp_chainId = 56, kp_domain = ''bnbera.io'', kp_uri = ''https://bnbera.io/'',
     kp_resources = [], kp_action = ''claim'', kp_issuedAt = 0, kp_expirationTime = 600000, kp_nonce = ''nonce-01'',
     kp_signatureDigest = replicate 64 CHR ''e''\<rparr>"

definition demo_claim_host :: "int claim_host" where
  "demo_claim_host = \<lparr>ch_host = demo_index_host, ch_url = demo_url, ch_read = (\<lambda>i e. (Inr (demo_read e), e)),
     ch_verify = (\<lambda>i a x p e. (Inr (Some (p, 0)), e)), ch_authorize = None\<rparr>"

lemma demo_context_facts [run_simps]: "normalizeClaimVerificationContext demo_url demo_context = Inr demo_context"
  "normalizeClaimVerificationProof demo_url demo_proof = Inr demo_proof" "assertProofTime demo_proof 0 = Inr ()"
  "assertProofBindsToChallenge demo_url demo_identity demo_proof demo_context = Inr ()" "sameProofFields demo_proof demo_proof = Inr True"
  by code_simp+

lemma demo_digest [run_simps]: "canonicalClaimProofDigest demo_platform demo_url demo_proof demo_context = Inr ''digest''"
proof -
  have d: "canonicalSha256Hex (ixp_sha256_text demo_platform) v = Inr ''digest''" if "json_clean v" for v
    using canonicalSha256Hex_ok [OF that, of "ixp_sha256_text demo_platform"] by (auto simp: canonicalSha256Hex_def demo_platform_def)
  have x: "context_of demo_proof = demo_context" by (simp add: context_of_def demo_proof_def demo_context_def)
  have r: "kx_resources demo_context = []" by (simp add: demo_context_def)
  show ?thesis
    by (simp add: canonicalClaimProofDigest_def canonicalClaimProofBinding_def demo_context_facts proof_invalid_def failing_def x d identity_json_def r)
qed

lemma demo_claim_fields [run_simps]: "ch_host demo_claim_host = demo_index_host" "ch_url demo_claim_host = demo_url"
  "ch_read demo_claim_host i e = (Inr (demo_read e), e)" "ch_verify demo_claim_host i a x p e = (Inr (Some (p, 0)), e)"
  "kp_address demo_proof = demo_address" "kp_chainId demo_proof = 56" "ds_ownerAddress (demo_read n) = Some demo_address"
  by (simp_all add: demo_claim_host_def demo_proof_def demo_read_def)

definition demo_prepared :: prepared_claim where
  "demo_prepared = \<lparr>pc_identity = demo_identity, pc_identityKey = demo_key, pc_ownerAddress = demo_address, pc_proofDigest = ''digest''\<rparr>"

lemmas claim_defs = claim_prepare_def verify_proof_def claim_commit_def key_of_def host_now_def owner_of_def identityReadReference_def
  identityRecordReadReference_def assertIdentityRecordMatchesRead_def catchJ_def

lemma demo_prepare: "claim_prepare demo_claim_host demo_identity demo_proof demo_context (demo_indexed, 9) = (Inr demo_prepared, (demo_indexed, 9))"
  by (simp cong: bindJ_block continue_block add: claim_defs evals run_simps demo_indexed_def demo_read_def) (simp add: demo_prepared_def)

definition demo_claim :: claim_row where
  "demo_claim = \<lparr>cl_identityKey = demo_key, cl_version = 1, cl_status = Claimed, cl_claimantAddress = Some demo_address,
     cl_ownerAddressAtVerification = Some demo_address, cl_agentWalletAtVerification = None, cl_verifiedAt = Some 0, cl_staleAt = None,
     cl_lastReason = Some ReasonClaimed, cl_verificationObservedBlock = Some 9, cl_verificationObservedBlockHash = Some demo_hash,
     cl_verificationReadConsistency = Some ReadFinalized\<rparr>"

definition demo_claimed_row :: identity_row where
  "demo_claimed_row = demo_row\<lparr>ix_observedBlock := Some 9, ix_ownerObservedBlock := Some 9, ix_agentWalletObservedBlock := Some 9,
     ix_agentUriObservedBlock := Some 9, ix_state := (defaultState Discovered)\<lparr>claimStatus := Claimed\<rparr>, ix_ownerClaimVerifiedAt := Some 0\<rparr>"

definition demo_claimed :: index_store where
  "demo_claimed = demo_indexed\<lparr>is_identities := [(demo_key, demo_claimed_row)], is_claims := [(demo_key, demo_claim)],
     is_claimEvents := [(demo_key, [\<lparr>ce_identityKey = demo_key, ce_eventType = EventClaimed, ce_claimantAddress = Some demo_address,
       ce_observedOwnerAddress = Some demo_address, ce_observedAgentWallet = None, ce_proofDigest = Some ''digest'', ce_actorType = ActorOwner,
       ce_actorId = demo_address, ce_reason = ''Current ERC-721 owner proved control with SIWE.'', ce_occurredAt = 0\<rparr>])]\<rparr>"

lemma demo_trim: "js_trim demo_address = demo_address"
  by code_simp

lemma demo_address_nonempty: "demo_address \<noteq> []"
  by (simp add: demo_address_def)

lemma demo_claim_committed: "withTransaction (claim_commit demo_claim_host demo_prepared) (demo_indexed, 9) = (Inr demo_claimed_row, (demo_claimed, 9))"
  by (simp cong: bindJ_block continue_block add: claim_defs evals run_simps demo_indexed_def demo_read_def demo_prepared_def getClaim_def demo_row_def
      claim_mutation_of_def mutateClaim_def claim_versioned_def claim_event_fits_def read_still_def actor_allowed_def demo_trim demo_address_nonempty)
    (simp add: demo_claimed_def demo_claimed_row_def demo_claim_def demo_indexed_def demo_row_def defaultState_def)

end
