(* ===== verification/Index_Properties.thy ===== *)
theory Index_Properties
  imports Index_Examples
begin

text \<open>
  The claims on the registry index of packages/agent-ingestion: who holds a claim, what a synchronisation does to finality and to the checkpoint,
  and three states from which a synchronisation or an ingestion cannot succeed.
\<close>

section \<open>Reachable stores\<close>






section \<open>Claims\<close>








section \<open>Finality\<close>





text \<open>C38: A synchronisation that rewinds and scans a window returns only when the window reaches the former head again, and when it ends there, only with
  the former hash: otherwise the checkpoint is refused, although the rewind was verified.\<close>

theorem reorg_scan_must_reach_old_head:
  assumes "index_ok s" "syncRegistry h rd o' (s, e) = (Inr res, (s', e'))" "sn_reorgRewound res" "sn_scannedThroughBlock res = Some t"
    and "normalizeEvmAddress (sy_identityRegistry o') = Inr registry" "map_of (is_checkpoints s) (sy_chainId o', registry) = Some old"
  shows "cc_lastScannedBlock old \<le> t \<and> (\<exists>n. map_of (is_checkpoints s') (sy_chainId o', registry) = Some n \<and> cc_lastScannedBlock n = t
    \<and> (t = cc_lastScannedBlock old \<longrightarrow> js_lower (cc_lastScannedBlockHash n) = js_lower (cc_lastScannedBlockHash old)))"
proof -
  have ok: "finality_ok s" "checkpoints_keyed s" using assms(1) by (simp_all add: index_ok_def)
  have y: "sync_outcome rd o' registry s res s'" using sync_outcomeD [OF assms(2) ok] assms(5) by auto
  have "sn_checkpoint res \<noteq> None" using y assms(6) by (cases "sn_checkpoint res") (simp_all add: sync_outcome_def)
  then obtain n v w where n: "synced rd (sy_chainId o') registry (Some v) s n s'" "vr_commonAncestorBlock v = cc_lastScannedBlock w"
    "window_of o' (Some w) res n"
    using y assms(3,6) by (auto simp: sync_outcome_def Let_def)
  from n(3) assms(4) have t: "cc_lastScannedBlock n = t" "cc_lastScannedBlock w < t" by (auto simp: window_of_def)
  have f: "follows (Some old) (Some v) n" and m: "map_of (is_checkpoints s') (sy_chainId o', registry) = Some n"
    using n(1) assms(6) by (simp_all add: synced_def update_conv')
  from f n(2) t have "cc_lastScannedBlock old \<le> t" by (auto simp: follows_def not_less [symmetric])
  moreover have "t = cc_lastScannedBlock old \<longrightarrow> js_lower (cc_lastScannedBlockHash n) = js_lower (cc_lastScannedBlockHash old)"
    using f t(1) by (simp add: follows_def)
  ultimately show ?thesis using m t(1) by blast
qed

lemma demo_forked_ok: "index_ok demo_forked"
  by (auto simp: index_ok_def demo_forked_def empty_index_def claims_ok_def rows_ok_def claim_agrees_def counted_def events_of_def finality_ok_def
      canonical_of_def checkpoints_keyed_def demo_checkpoint_def demo_address_facts)

theorem reorg_scan_must_reach_old_head_witness:
  "(\<exists>n. map_of (is_checkpoints (fst (snd (syncRegistry demo_index_host demo_reader demo_options (demo_forked, 9))))) (56, demo_address) = Some n
      \<and> cc_lastScannedBlock n = 9)
   \<and> fst (syncRegistry demo_index_host demo_reader demo_options (demo_forked, 4)) = Inl (IngestionError INGESTION_CHECKPOINT_CONFLICT)
   \<and> fst (syncRegistry demo_index_host demo_reader demo_options (demo_forked, 5)) = Inl (IngestionError INGESTION_CHECKPOINT_CONFLICT)"
proof -
  let ?res = "demo_result 1 9 1 [demo_key] True ((demo_checkpoint 9 2)\<lparr>cc_lastReconciliationAt := Some 0\<rparr>)"
  obtain s' e' where y: "syncRegistry demo_index_host demo_reader demo_options (demo_forked, 9) = (Inr ?res, (s', e'))"
    using demo_forked_sync(1) by (cases "syncRegistry demo_index_host demo_reader demo_options (demo_forked, 9)") auto
  have r: "sn_reorgRewound ?res" "sn_scannedThroughBlock ?res = Some 9" by (simp_all add: demo_result_def)
  have g: "normalizeEvmAddress (sy_identityRegistry demo_options) = Inr demo_address" by (simp add: run_simps)
  have m: "map_of (is_checkpoints demo_forked) (sy_chainId demo_options, demo_address)
      = Some ((demo_checkpoint 5 1)\<lparr>cc_lastScannedBlockHash := other_hash, cc_lastFinalizedBlock := 0\<rparr>)"
    by (simp add: demo_forked_def run_simps)
  show ?thesis using reorg_scan_must_reach_old_head [OF demo_forked_ok y r g m] demo_forked_sync(2,3) y by (auto simp: run_simps)
qed

section \<open>Jobs that cannot return\<close>

definition fails :: "(index_store \<Rightarrow> bool) \<Rightarrow> ('e, 'a) index_job \<Rightarrow> bool" where
  "fails I f \<longleftrightarrow> does I f (\<lambda>_ _. False)"

lemma failsD: "fails I f \<Longrightarrow> I s \<Longrightarrow> f (s, e) = (r, w) \<Longrightarrow> \<exists>y. r = Inl y"
  by (cases r; cases w) (auto simp: fails_def does_def)

lemma fails_bind: "fails I f \<Longrightarrow> fails I (bindJ f g)"
  unfolding fails_def by (erule does_call) (simp add: does_def)

lemma fails_for:
  assumes "x \<in> set xs" "fails I (f x)" "\<And>y. y \<in> set xs \<Longrightarrow> keeps I (f y)"
  shows "fails I (forJ f xs)"
  using assms
proof (induction xs)
  case (Cons y xs)
  show ?case
  proof (cases "x = y")
    case True
    then show ?thesis using Cons.prems(2) by (simp add: fails_bind)
  next
    case False
    then have "fails I (forJ f xs)" using Cons by simp
    note rest = fails_bind [OF this, unfolded fails_def]
    show ?thesis unfolding fails_def forJ.simps by (rule does_kept [OF Cons.prems(3)], simp, rule rest)
  qed
qed simp

lemma fails_transaction: "fails I f \<Longrightarrow> fails I (withTransaction f)"
  unfolding fails_def by (rule does_transaction)

section \<open>A log of another block\<close>

definition log_stored :: "string \<times> int \<Rightarrow> string \<Rightarrow> index_store \<Rightarrow> bool" where
  "log_stored k x s \<longleftrightarrow> (\<exists>r. map_of (is_observations s) k = Some r \<and> co_blockHash r = x)"

interpretation stored: chain_property "log_stored k x" for k x
  by unfold_locales (simp add: log_stored_def)

lemma keeps_stored_append: "keeps (log_stored k x) (repoJ (appendObservation ob))"
  by (rule keeps_repo) (auto simp: log_stored_def appendObservation_def Let_def update_conv' split: option.splits if_splits)

lemma keeps_stored_event: "keeps (log_stored k x) (ingest_event h chain registry version ev)"
  unfolding ingest_event_def by (intro keep_rules stored.keeps_identity_part keeps_stored_append)

lemma observation_log:
  "registryEventToObservation px t ev = Inr ob \<Longrightarrow> observationKey (co_transactionHash ob) (co_logIndex ob) = (js_lower (rx_transactionHash ev), rx_logIndex ev)
     \<and> co_blockHash ob = js_lower (rx_blockHash ev)"
  by (auto simp: registryEventToObservation_def normalizeRegistryEvent_def observationKey_def)

lemma fails_event:
  assumes "x \<noteq> js_lower (rx_blockHash ev)"
  shows "fails (log_stored (js_lower (rx_transactionHash ev), rx_logIndex ev) x) (ingest_event h chain registry version ev)"
  unfolding fails_def ingest_event_def
proof (rule does_kept [OF keeps_host_now(2)], rule does_ok, rule does_unless, rule does_kept [OF keeps_host_now(2)], rule does_ok,
    rule does_kept [OF keeps_simple(5)], rule does_kept [OF stored.keeps_identity_part(1)], rule does_repo, goal_cases)
  case (1 t n u ob previous v stored)
  from observation_log [OF 1(3)] have "appendObservation ob s \<noteq> Inr (stored, s')"
    if "log_stored (js_lower (rx_transactionHash ev), rx_logIndex ev) x s" for s s'
    using that assms by (auto simp: log_stored_def appendObservation_def Let_def)
  then show ?case by (auto simp: does_def)
qed

text \<open>C39: A registry event whose transaction hash and log index are stored with another block hash, say of an orphaned observation whose transaction was
  mined again, makes every batch that contains it fail, and the store stays as it is.\<close>

theorem remined_log_blocks_ingestion:
  assumes "map_of (is_observations s) (js_lower (rx_transactionHash ev), rx_logIndex ev) = Some old" "co_blockHash old \<noteq> js_lower (rx_blockHash ev)"
    and "ev \<in> set evs" "ingestRegistryEvents h evs chain registry version (s, e) = (r, (s', e'))"
  shows "(\<exists>y. r = Inl y) \<and> s' = s"
proof -
  let ?I = "log_stored (js_lower (rx_transactionHash ev), rx_logIndex ev) (co_blockHash old)"
  have all: "fails ?I (forJ (ingest_event h chain g v) evs)" for g v
    by (rule fails_for, rule assms(3), rule fails_event, rule assms(2), rule keeps_stored_event)
  have "fails ?I (ingestRegistryEventsInTransaction h evs chain registry v)" for v
    unfolding fails_def ingestRegistryEventsInTransaction_def by (rule does_ok) (rule fails_bind [OF all, unfolded fails_def])
  then have "fails ?I (ingestRegistryEvents h evs chain registry version)" unfolding ingestRegistryEvents_def by (rule fails_transaction)
  moreover have "?I s" using assms(1) by (simp add: log_stored_def)
  ultimately obtain y where "r = Inl y" using assms(4) by (blast dest: failsD)
  then show ?thesis using assms(4) by (auto simp: ingestRegistryEvents_def dest: withTransaction_Inl)
qed

theorem remined_log_blocks_ingestion_witness:
  "\<not> is_ok (fst (ingestRegistryEvents demo_index_host [demo_event] 56 demo_address None
     (empty_index\<lparr>is_observations := [((demo_hash, 0), (orphan 0 (demo_observation Provisional None))\<lparr>co_blockHash := other_hash\<rparr>)]\<rparr>, 9)))"
proof -
  let ?s = "empty_index\<lparr>is_observations := [((demo_hash, 0), (orphan 0 (demo_observation Provisional None))\<lparr>co_blockHash := other_hash\<rparr>)]\<rparr>"
  obtain r s' e' where y: "ingestRegistryEvents demo_index_host [demo_event] 56 demo_address None (?s, 9) = (r, (s', e'))"
    by (cases "ingestRegistryEvents demo_index_host [demo_event] 56 demo_address None (?s, 9)") auto
  have h: "js_lower (rx_transactionHash demo_event) = demo_hash" "rx_logIndex demo_event = 0" "js_lower (rx_blockHash demo_event) = demo_hash"
    by (simp_all add: demo_event_def run_simps)
  have m: "map_of (is_observations ?s) (js_lower (rx_transactionHash demo_event), rx_logIndex demo_event)
      = Some ((orphan 0 (demo_observation Provisional None))\<lparr>co_blockHash := other_hash\<rparr>)" by (simp add: h)
  have n: "co_blockHash ((orphan 0 (demo_observation Provisional None))\<lparr>co_blockHash := other_hash\<rparr>) \<noteq> js_lower (rx_blockHash demo_event)"
    by (simp add: h run_simps)
  have "demo_event \<in> set [demo_event]" by simp
  from remined_log_blocks_ingestion [OF m n this y] show ?thesis using y by auto
qed

section \<open>A field that was read later\<close>













end
