(* ===== verification/Spec2Isabelle.thy ===== *)
theory Spec2Isabelle
  imports Domain_Properties Commerce_Properties Repository_Properties Operations_Properties Payment_Properties
    Altana_Properties Auth_Properties Market_Properties Reservation_Properties
    Publication_Properties Index_Properties
begin

text \<open>
  A verification development of BNBEra, a marketplace in which autonomous agents are listed, hired and paid on BNB Chain.

  \<^bold>\<open>The program.\<close> A web application (apps/web) and scheduled scripts (scripts) work on one Postgres
  database (packages/db) through packages of server code. The packages that decide what may happen are
  packages/domain (identities, statuses, canonical JSON), packages/agent-commerce (escrowed ERC-8183 jobs and the
  on-chain operations behind them), packages/payment-gateway (HTTP 402 payments to a seller), packages/altana
  (delegated wallet sessions of a runtime agent), packages/auth (sign-in with a wallet), packages/marketplace (which
  agents a search shows), packages/agent-ingestion (the index of the ERC-8004 registry and the claims of its owners) and
  packages/greenfield with packages/evidence (publication of evidence). They are modelled here, with the store of the creator authorities and the sessions of the web server in
  apps/web/src/lib.

  \<^bold>\<open>Conventions\<close> (theory Bnb_Prelude). Code that may throw returns a sum: \<open>Inl\<close> the error, \<open>Inr\<close> the value, sequenced by
  \<open>bindE\<close>. Strings are lists of Latin-1 characters. JavaScript numbers are integers, always guarded by
  \<open>isSafeInteger\<close> where the code does; bigints are integers; session bytes are 8-bit words. TypeScript types become
  records and datatypes, and the tests of run-time types that hold for every value of the declared type are left out.
  A class with mutable fields is a record that its methods return updated. An asynchronous operation that awaits is split into the
  steps between the awaits, and interleavings are sequences of such steps. What is not code of the repository is a
  parameter: SHA-256 and the UUID and URL parsers (record \<open>runtime\<close>), \<open>keccak256\<close>, clocks, random
  identifiers, the secret sink, the authority gateway, the column checks of the database. Hashes are never assumed
  injective: a statement that needs it names the two texts (\<open>no_collision\<close>).

  \<^bold>\<open>Domain\<close> (packages/domain/src). Canonical_Json is canonical.ts: \<open>canonicalValue\<close> with the escapes of
  \<open>JSON.stringify\<close>, and a decoder that shows the text determines the value up to the order of keys. Domain_Model is
  identity.ts and states.ts: ERC-8004 identities, their normal form and keys, and the five status axes with their transition
  tables. Status_Machine has the general facts on tables (reachability, absorbing states) as a locale. Domain_Properties has
  the claims: canonical texts, identity keys, unreachable statuses.

  \<^bold>\<open>Escrowed jobs\<close> (packages/agent-commerce/src). Commerce_Types is types.ts and errors.ts; Commerce_Validation is
  validation.ts and events.ts (deployment pins, quotes, terms, the scan for secret field names; every normaliser is idempotent, by
  the locale \<open>normaliser\<close>); Commerce_Lifecycle is lifecycle.ts (transition table, actors, guards and the next record);
  Commerce_Repository is the in-memory repository of repository.ts, with create and transition split at the await of its
  transaction; Commerce_Operations is operations.ts, the table of on-chain operations as rows with the conditional updates
  of its SQL statements. Commerce_Examples has the sample pins and jobs of the witnesses. Commerce_Properties shows which
  transitions are permitted, what completion and funding need, and the invariants of a job's life; Repository_Properties
  that every interleaving of the repository refines that life, with requests idempotent and racing commits refused;
  Operations_Properties that an operation is dispatched at most once, never again after it was sent, and reserved
  idempotently.

  \<^bold>\<open>Payments\<close> (packages/payment-gateway/src). Payment_Types is types.ts and errors.ts, Payment_Validation validation.ts and
  events.ts, Payment_Lifecycle lifecycle.ts, Payment_Replay the replay store of replay.ts, Payment_Repository the in-memory repository
  of repository.ts (split at its awaits as above), Payment_Examples sample values. Payment_Properties shows the refinement of the
  payment life cycle, that settlement has recorded evidence, that an authorization is used once, and what an accepted
  challenge and relay request are bound to.

  \<^bold>\<open>Delegated sessions\<close> (packages/altana/src). Altana_Policy is policy.ts, errors.ts and the policy types: normal forms, bounds,
  the check of calls and spending, the serialisation and its injectivity, and the inductive \<open>spend_run\<close>
  of actions accepted one after the other. Altana_Session is lifecycle.ts and ephemeral-session.ts: the execution gate and the
  one-time hand-off, with the sink as a function on its own state. Altana_Authority is authority.ts over a record of store
  operations; the locale \<open>authority_storage\<close> states the laws of that store and proves, for any store with
  them, that a confirmed authority keeps its grant through reads and revocations. Altana_Store is
  apps/web/src/lib/creator-authority-store.ts, rows and JSON columns with the upsert of its statement; the locale is interpreted on
  it. Altana_Properties has the claims.

  \<^bold>\<open>Sign-in.\<close> Auth_Boundary is packages/auth/src/boundary.ts, the checks on a signed message (EIP-4361) over a parsed request, with
  the URL parser as a parameter; Auth_Server is apps/web/src/lib/commerce-auth.ts and siwe-message.ts, challenges, nonces and
  sessions as tables with the conditional updates of their statements, the message text and the cookie.
  Auth_Properties shows what an accepted sign-in proves, that a nonce is accepted once, that an answered challenge signs in, and
  exactly how long a session can be used.

  \<^bold>\<open>Marketplace\<close> (packages/marketplace/src). Market_Types is types.ts with the schemas of a listing and a request, and the
  \<open>Date.parse\<close> of ISO time stamps; Market_Eligibility is eligibility.ts, reasons and scores with their texts; Market_Read is
  read-model.ts, the read service with its orders and the semantic ranker as a parameter. Market_Properties shows that a search
  returns exactly the listings that meet a specification in one formula, that the ranker only reorders them, and that the order of
  the source does not matter.

  \<^bold>\<open>Reservations.\<close> Reservation_Types, Reservation_Store and Reservation_Operations are
  apps/web/src/lib/commerce-reservations.ts and commerce-quote-contract.ts with packages/agent-commerce/src/reference-admission.ts: from a row
  of the marketplace query to a priced listing, the readiness of its provider, the snapshot of a quote, and the class
  PostgresCommerceReservationStore with \<open>quote\<close>, \<open>resolve\<close> and \<open>claim\<close> as transactions on the tables of jobs and provider slots.
  Reservation_Properties shows what a resolved reservation is bound to, that a request is quoted once, what a claim needs and
  changes, what every sequence of them (\<open>reservation_step\<close>) keeps, and the capacity of the reference provider.

  \<^bold>\<open>Evidence publication\<close> (packages/greenfield/src with locators.ts and the end of artifacts.ts of packages/evidence). Worker_Program
  is the general theory of asynchronous functions: a worker is a sequence of actions between awaits, \<open>sched\<close> interleaves workers on one
  state, \<open>within\<close> bounds their actions, and the rely-guarantee predicate \<open>sat\<close> states what a worker keeps and returns among
  others. Publication_Types is types.ts and locators.ts, Publication_Store the in-memory store of store.ts with leases and compare-and-set
  on revisions, Publication_Publisher and Publication_Runs the class EvidencePublisher of publisher.ts, every method a
  worker, with adapters, clock and scheduler as functions on an environment of any type. Publication_Invariant states what one
  action does to the store (\<open>world_step\<close>) and what a worker knows of its record (\<open>holding\<close>), Publication_Soundness
  proves that for every method, Publication_Bounds counts actions. Publication_Properties shows for any number of concurrent calls
  that stored attempts are well formed, verified ones have matching evidence, attempts only advance, and all calls end; and three
  ways in which an attempt gets stuck. The statements on identifiers and digests assume that the identifiers of the published keys differ
  (\<open>distinct_ids\<close>) and that artifacts with equal digests have equal size and version (\<open>no_collisions\<close>).

  \<^bold>\<open>Registry index\<close> (packages/agent-ingestion/src). Index_Types is types.ts, errors.ts, identity-provenance.ts, the checks of
  adapters/registry.ts and the registry part of normalize.ts; Index_Repository the in-memory repository of memory-repository.ts
  (identities, sources, observations, checkpoints, claims with their events, reconciliations), an update per method, with the stable sort of
  Js_Sort; Index_Sync the class AgentIngestionService of ingestion.ts: ingestion of events, canonicalisation, \<open>syncRegistry\<close> and the
  rewind after a reorganisation; Index_Claims claims.ts and the challenge part of normalize.ts. A transaction is a job on
  the store and a world behind the ports (Index_Program), and \<open>does\<close> states what a job that returns has done, \<open>keeps\<close> what it preserves.
  Index_Invariant proves for every transaction that claims, identities and claim events agree (\<open>claims_ok\<close>). Index_Finality has the locale
  \<open>chain_property\<close> for what the writers of identities and claims cannot change, and shows what a synchronisation does to canonical
  observations and checkpoints (\<open>sync_outcome\<close>). Index_History puts the transactions of all services together as the step relation
  \<open>index_step\<close>, with what a claim read before its transaction taken from any earlier time and world. Index_Examples evaluates runs on
  sample chains. Index_Properties shows that a claim is held by the verified owner, that what is canonical stays, how a synchronisation
  advances its checkpoint, and three situations in which it cannot succeed.

  \<^bold>\<open>Bounds.\<close> No definition uses fuel: every function is total by structural recursion, and loops of the code over
  lists are \<open>fold\<close>, \<open>mapE\<close> or list operations. The loop of \<open>awaitSeal\<close> recurses on the polls that are left, at most
  \<open>maxSealPolls\<close>. Sequences of operations and interleavings are of any length.

  \<^bold>\<open>Not modelled.\<close> packages/altana/src/evidence.ts and the two operation builders; the chain client, the service and the
  provider of packages/agent-commerce; the sources and the publication of packages/marketplace; the passkey part of
  packages/auth; in packages/agent-ingestion the candidates of other sources, services, capabilities, probes, reputation, search and
  embeddings, the RPC adapters and the Postgres repository; the SDK client and the Postgres repositories of packages/greenfield and the artifact
  schemas of packages/evidence; packages/config, db and ui, the pages and routes of apps/web, scripts, ops and deploy, which
  configure, store, present or wire what the other packages decide.
\<close>

end
